(* ===== verification/Prelude.thy ===== *)
theory Prelude
  imports Complex_Main
begin

text \<open>
  Shared vocabulary of the development: results of Go calls that return an error
  (\<open>'e + 'a\<close>, \<open>Inl\<close> the error), contexts, the string operations of Go's \<open>strings\<close>
  package that the modelled code calls, \<open>errors.Join\<close>, and the list, map and set
  lemmas that several components use.  Go strings are byte strings, so \<open>string\<close>
  is read as a list of bytes.
\<close>

named_theorems go_simps \<open>unfolding rules of the Go library operations\<close>

section \<open>Results and guards\<close>

text \<open>\<open>bindR\<close> is \<open>x, err := f(); if err != nil { return err }\<close>.\<close>

fun bindR :: "'e + 'a \<Rightarrow> ('a \<Rightarrow> 'e + 'b) \<Rightarrow> 'e + 'b" where
  "bindR (Inl e) f = Inl e"
| "bindR (Inr x) f = f x"

text \<open>\<open>guardR c e\<close> is \<open>if !c { return e }\<close>.\<close>

definition guardR :: "bool \<Rightarrow> 'e \<Rightarrow> 'e + unit" where
  "guardR c e = (if c then Inr () else Inl e)"

lemma guardR_simps [simp]:
  "guardR True e = Inr ()"
  "guardR False e = Inl e"
  "guardR c e = Inr u \<longleftrightarrow> c"
  "guardR c e = Inl e' \<longleftrightarrow> \<not> c \<and> e' = e"
  by (auto simp: guardR_def)

lemma bindR_Inr_iff: "bindR r f = Inr y \<longleftrightarrow> (\<exists>x. r = Inr x \<and> f x = Inr y)"
  by (cases r) auto

lemma bindR_Inl_iff: "bindR r f = Inl e \<longleftrightarrow> r = Inl e \<or> (\<exists>x. r = Inr x \<and> f x = Inl e)"
  by (cases r) auto

lemma bindR_cong [fundef_cong]:
  "r = r' \<Longrightarrow> (\<And>x. r' = Inr x \<Longrightarrow> f x = g x) \<Longrightarrow> bindR r f = bindR r' g"
  by (cases r') auto

lemma bindR_InrE:
  assumes "bindR r f = Inr y"
  obtains x where "r = Inr x" "f x = Inr y"
  using assms by (auto simp: bindR_Inr_iff)

lemma bindR_guard [simp]: "bindR (guardR c e) f = (if c then f () else Inl e)"
  by simp

section \<open>Contexts\<close>

text \<open>
  A \<open>context.Context\<close> argument: nil, or a context whose \<open>Err()\<close> is nil or an error at the
  moment the modelled call reads it.
\<close>

datatype 'e go_ctx = NilCtx | Ctx "'e option"

fun ctx_err :: "'e go_ctx \<Rightarrow> 'e option" where
  "ctx_err NilCtx = None"
| "ctx_err (Ctx e) = e"

section \<open>errors.Join\<close>

text \<open>
  \<open>errors.Join(errs...)\<close> drops the nil errors and is nil when none is left; the model
  keeps the list of the joined errors.
\<close>

definition join_errs :: "'e option list \<Rightarrow> 'e list" where
  "join_errs es = List.map_filter (\<lambda>e. e) es"

lemma join_errs_simps [simp]:
  "join_errs [] = []"
  "join_errs (None # es) = join_errs es"
  "join_errs (Some e # es) = e # join_errs es"
  by (simp_all add: join_errs_def List.map_filter_def)

lemma set_join_errs: "set (join_errs es) = {e. Some e \<in> set es}"
  by (induction es) (auto split: option.splits, (case_tac a; auto)+)

section \<open>Strings\<close>

definition has_prefix :: "string \<Rightarrow> string \<Rightarrow> bool" where
  "has_prefix s p \<longleftrightarrow> take (length p) s = p"

lemma has_prefix_iff: "has_prefix s p \<longleftrightarrow> (\<exists>t. s = p @ t)"
  by (auto simp: has_prefix_def) (metis append_take_drop_id)

lemma has_prefix_append [simp]: "has_prefix (p @ t) p"
  by (simp add: has_prefix_def)

text \<open>
  The white space of \<open>unicode.IsSpace\<close>, each rune in its UTF-8 encoding.  A string starts
  (ends) with a white space rune exactly when one of these byte strings is a prefix
  (suffix) of it.
\<close>

definition space_runes :: "string list" where
  "space_runes =
    [[CHR 0x09], [CHR 0x0A], [CHR 0x0B], [CHR 0x0C], [CHR 0x0D], [CHR 0x20],
     [CHR 0xC2, CHR 0x85], [CHR 0xC2, CHR 0xA0], [CHR 0xE1, CHR 0x9A, CHR 0x80],
     [CHR 0xE2, CHR 0x80, CHR 0x80], [CHR 0xE2, CHR 0x80, CHR 0x81],
     [CHR 0xE2, CHR 0x80, CHR 0x82], [CHR 0xE2, CHR 0x80, CHR 0x83],
     [CHR 0xE2, CHR 0x80, CHR 0x84], [CHR 0xE2, CHR 0x80, CHR 0x85],
     [CHR 0xE2, CHR 0x80, CHR 0x86], [CHR 0xE2, CHR 0x80, CHR 0x87],
     [CHR 0xE2, CHR 0x80, CHR 0x88], [CHR 0xE2, CHR 0x80, CHR 0x89],
     [CHR 0xE2, CHR 0x80, CHR 0x8A], [CHR 0xE2, CHR 0x80, CHR 0xA8],
     [CHR 0xE2, CHR 0x80, CHR 0xA9], [CHR 0xE2, CHR 0x80, CHR 0xAF],
     [CHR 0xE2, CHR 0x81, CHR 0x9F], [CHR 0xE3, CHR 0x80, CHR 0x80]]"

text \<open>Remove runes of a list from the front of a string as long as one is there.\<close>

function strip_front :: "string list \<Rightarrow> string \<Rightarrow> string" where
  "strip_front rs s =
     (case List.find (\<lambda>r. r \<noteq> [] \<and> has_prefix s r) rs of
        None \<Rightarrow> s
      | Some r \<Rightarrow> strip_front rs (drop (length r) s))"
  by pat_completeness auto
termination
proof (relation "measure (\<lambda>(rs, s). length s)", goal_cases)
  case 1
  show ?case by simp
next
  case (2 rs s r)
  then have "r \<noteq> []" "has_prefix s r" by (auto simp: find_Some_iff)
  then have "length r > 0" "s \<noteq> []" by (auto simp: has_prefix_def)
  then show ?case by simp
qed

declare strip_front.simps [simp del]

definition trim_left :: "string \<Rightarrow> string" where
  "trim_left s = strip_front space_runes s"

definition trim_right :: "string \<Rightarrow> string" where
  "trim_right s = rev (strip_front (map rev space_runes) (rev s))"

text \<open>\<open>strings.TrimSpace\<close>.\<close>

definition trim_space :: "string \<Rightarrow> string" where
  "trim_space s = trim_right (trim_left s)"

text \<open>
  \<open>strings.ToUpper\<close> on ASCII letters; other bytes are kept (the case mapping of letters
  outside ASCII is not modelled).
\<close>

definition upper_char :: "char \<Rightarrow> char" where
  "upper_char c =
     (if of_char c \<ge> (97::nat) \<and> of_char c \<le> (122::nat) then char_of (of_char c - (32::nat)) else c)"

definition to_upper :: "string \<Rightarrow> string" where
  "to_upper s = map upper_char s"

text \<open>\<open>strings.Split(s, sep)\<close> for a separator of one byte.\<close>

fun split_on :: "char \<Rightarrow> string \<Rightarrow> string list" where
  "split_on c [] = [[]]"
| "split_on c (x # xs) =
     (if x = c then [] # split_on c xs
      else (case split_on c xs of [] \<Rightarrow> [[x]] | p # ps \<Rightarrow> (x # p) # ps))"

lemma split_on_not_Nil [simp]: "split_on c s \<noteq> []"
  by (induction s) (auto split: list.splits)

lemma split_on_no_sep: "c \<notin> set s \<Longrightarrow> split_on c s = [s]"
  by (induction s) auto

lemma split_on_one_sep: "c \<notin> set a \<Longrightarrow> split_on c (a @ c # b) = a # split_on c b"
  by (induction a) (auto split: list.splits)

lemma split_on_two: "c \<notin> set a \<Longrightarrow> c \<notin> set b \<Longrightarrow> split_on c (a @ c # b) = [a, b]"
  by (simp add: split_on_one_sep split_on_no_sep)

lemma split_on_many:
  assumes "c \<notin> set a" "c \<in> set b"
  shows "length (split_on c (a @ c # b)) > 2"
proof -
  obtain d e where b: "b = d @ c # e" "c \<notin> set d" using assms(2) by (auto dest: split_list_first)
  have "split_on c e \<noteq> []" by simp
  then show ?thesis using assms(1) by (simp add: b split_on_one_sep)
qed

subsection \<open>TrimSpace\<close>

definition clean_front :: "string list \<Rightarrow> string \<Rightarrow> bool" where
  "clean_front rs s \<longleftrightarrow> (\<forall>r \<in> set rs. r \<noteq> [] \<longrightarrow> \<not> has_prefix s r)"

lemma strip_front_clean: "clean_front rs (strip_front rs s)"
proof (induction rs s rule: strip_front.induct)
  case (1 rs s)
  show ?case
  proof (cases "List.find (\<lambda>r. r \<noteq> [] \<and> has_prefix s r) rs")
    case None
    then have "strip_front rs s = s" by (simp add: strip_front.simps [of rs s])
    with None show ?thesis by (auto simp: clean_front_def find_None_iff)
  next
    case (Some r)
    with 1 show ?thesis by (simp add: strip_front.simps [of rs s])
  qed
qed

lemma strip_front_id: "clean_front rs s \<Longrightarrow> strip_front rs s = s"
proof -
  assume "clean_front rs s"
  then have "List.find (\<lambda>r. r \<noteq> [] \<and> has_prefix s r) rs = None"
    by (auto simp: clean_front_def find_None_iff)
  then show ?thesis by (simp add: strip_front.simps [of rs s])
qed

lemma strip_front_suffix: "\<exists>p. s = p @ strip_front rs s"
proof (induction rs s rule: strip_front.induct)
  case (1 rs s)
  show ?case
  proof (cases "List.find (\<lambda>r. r \<noteq> [] \<and> has_prefix s r) rs")
    case None
    then show ?thesis by (simp add: strip_front.simps [of rs s])
  next
    case (Some r)
    then have "s = r @ drop (length r) s"
      by (auto simp: find_Some_iff has_prefix_def) (metis append_take_drop_id)
    moreover obtain p where "drop (length r) s = p @ strip_front rs (drop (length r) s)"
      using "1.IH" [OF Some] by blast
    ultimately have "s = (r @ p) @ strip_front rs s"
      using Some by (simp add: strip_front.simps [of rs s])
    then show ?thesis by blast
  qed
qed

lemma trim_left_Nil [simp]: "trim_left [] = []"
  unfolding trim_left_def
  by (rule strip_front_id) (auto simp: clean_front_def has_prefix_def)

lemma trim_right_Nil [simp]: "trim_right [] = []"
proof -
  have "strip_front (map rev space_runes) [] = []"
    by (rule strip_front_id) (auto simp: clean_front_def has_prefix_def)
  then show ?thesis by (simp add: trim_right_def)
qed

lemma trim_space_Nil [simp]: "trim_space [] = []"
  by (simp add: trim_space_def)

lemma trim_right_prefix: "\<exists>q. s = trim_right s @ q"
proof -
  obtain p where "rev s = p @ strip_front (map rev space_runes) (rev s)"
    using strip_front_suffix by blast
  then have "s = rev (strip_front (map rev space_runes) (rev s)) @ rev p"
    by (metis rev_append rev_rev_ident)
  then show ?thesis unfolding trim_right_def by blast
qed

lemma trim_space_clean:
  "clean_front space_runes (trim_space s)"
  "clean_front (map rev space_runes) (rev (trim_space s))"
proof -
  show "clean_front (map rev space_runes) (rev (trim_space s))"
    by (simp add: trim_space_def trim_right_def strip_front_clean)
  obtain q where q: "trim_left s = trim_right (trim_left s) @ q"
    using trim_right_prefix by blast
  have "clean_front space_runes (trim_left s)"
    by (simp add: trim_left_def strip_front_clean)
  then have "clean_front space_runes (trim_right (trim_left s) @ q)"
    using q by simp
  then show "clean_front space_runes (trim_space s)"
    by (auto simp: trim_space_def clean_front_def has_prefix_iff)
qed

lemma trim_space_id:
  assumes "clean_front space_runes s" "clean_front (map rev space_runes) (rev s)"
  shows "trim_space s = s"
  using assms by (simp add: trim_space_def trim_left_def trim_right_def strip_front_id)

lemma trim_space_idem [simp]: "trim_space (trim_space s) = trim_space s"
  by (rule trim_space_id) (rule trim_space_clean)+

lemma space_runes_bytes:
  "r \<in> set space_runes \<Longrightarrow> r \<noteq> [] \<and> (\<forall>c \<in> set r. of_char c \<le> (32::nat) \<or> of_char c \<ge> (128::nat))"
  unfolding space_runes_def by (elim set_ConsD [elim_format] disjE; simp)

text \<open>A string of printable ASCII characters other than the blank is already trimmed.\<close>

lemma trim_space_printable:
  assumes "\<forall>c \<in> set s. (32::nat) < of_char c \<and> of_char c < (128::nat)"
  shows "trim_space s = s"
proof (rule trim_space_id)
  have no: "r \<in> set space_runes \<Longrightarrow> \<exists>c \<in> set r. c \<notin> set s" for r
    using assms space_runes_bytes [of r] by (cases r) (auto simp: not_less not_le)
  show "clean_front space_runes s"
    unfolding clean_front_def has_prefix_iff using no by fastforce
  show "clean_front (map rev space_runes) (rev s)"
    unfolding clean_front_def has_prefix_iff
  proof (intro ballI impI notI)
    fix r assume "r \<in> set (map rev space_runes)" "\<exists>t. rev s = r @ t"
    then obtain r' t where r': "r' \<in> set space_runes" "rev s = rev r' @ t" by auto
    then have "set r' \<subseteq> set s" by (metis set_append set_rev sup.cobounded1)
    with no [OF r'(1)] show False by auto
  qed
qed

lemma map_eq_fixed:
  "(\<And>c x. c \<in> set r \<Longrightarrow> f x = c \<longleftrightarrow> x = c) \<Longrightarrow> map f xs = r \<longleftrightarrow> xs = r"
  by (induction r arbitrary: xs) (auto simp: map_eq_Cons_conv Cons_eq_map_conv)

subsection \<open>ToUpper\<close>

lemma of_char_char_of_small: "n < 256 \<Longrightarrow> (of_char (char_of n) :: nat) = n" for n :: nat
  by (simp add: of_char_of)

lemma of_char_upper:
  "(of_char (upper_char c) :: nat) =
     (if 97 \<le> (of_char c :: nat) \<and> (of_char c :: nat) \<le> 122 then of_char c - 32 else of_char c)"
  using nat_of_char_less_256 [of c] by (auto simp: upper_char_def of_char_char_of_small)

lemma upper_char_idem [simp]: "upper_char (upper_char c) = upper_char c"
  by (rule injD [OF inj_of_char [where 'a = nat]]) (auto simp: of_char_upper)

lemma to_upper_idem [simp]: "to_upper (to_upper s) = to_upper s"
  by (simp add: to_upper_def)

lemma to_upper_Nil [simp]: "to_upper s = [] \<longleftrightarrow> s = []"
  by (simp add: to_upper_def)

lemma upper_char_fixed:
  assumes "of_char c \<le> (32::nat) \<or> of_char c \<ge> (128::nat)"
  shows "upper_char x = c \<longleftrightarrow> x = c"
proof
  assume *: "upper_char x = c"
  then have "\<not> (97 \<le> (of_char x :: nat) \<and> (of_char x :: nat) \<le> 122)"
    using assms of_char_upper [of x] by (auto split: if_splits)
  with * show "x = c" by (simp add: upper_char_def)
next
  assume "x = c"
  with assms show "upper_char x = c" by (auto simp: upper_char_def)
qed

lemma to_upper_prefix:
  assumes "r \<in> set space_runes \<or> rev r \<in> set space_runes"
  shows "has_prefix (map upper_char s) r \<longleftrightarrow> has_prefix s r"
proof -
  have "upper_char x = c \<longleftrightarrow> x = c" if "c \<in> set r" for c x
    using assms that space_runes_bytes [of r] space_runes_bytes [of "rev r"]
    by (intro upper_char_fixed) auto
  then show ?thesis
    by (simp add: has_prefix_def take_map map_eq_fixed)
qed

lemma trim_to_upper: "trim_space s = s \<Longrightarrow> trim_space (to_upper s) = to_upper s"
proof (rule trim_space_id)
  assume "trim_space s = s"
  then have c: "clean_front space_runes s" "clean_front (map rev space_runes) (rev s)"
    using trim_space_clean [of s] by simp_all
  show "clean_front space_runes (to_upper s)"
    using c(1) by (simp add: clean_front_def to_upper_def to_upper_prefix)
  show "clean_front (map rev space_runes) (rev (to_upper s))"
    using c(2) by (simp add: clean_front_def to_upper_def rev_map to_upper_prefix)
qed

lemma trim_upper_trim [simp]:
  "trim_space (to_upper (trim_space s)) = to_upper (trim_space s)"
  by (rule trim_to_upper) simp

text \<open>Sorting by a key commutes with a map.\<close>

lemma insort_key_map: "insort_key f (g x) (map g xs) = map g (insort_key (\<lambda>x. f (g x)) x xs)"
  by (induction xs) auto

lemma sort_key_map: "sort_key f (map g xs) = map g (sort_key (\<lambda>x. f (g x)) xs)"
  by (induction xs) (simp_all add: insort_key_map)

end
