(* ===== verification/Pay_Types.thy ===== *)
theory Pay_Types
  imports Prelude
begin

text \<open>
  The data of \<^verbatim>\<open>core/payment\<close>: errors, money, pricing, statuses, events, provider capabilities
  and the request and response structs.  Go's open string enumerations become datatypes
  with one constructor for the empty string and one for a string outside the named values;
  amounts are \<open>int\<close> (the code keeps them in \<open>int64\<close>, see \<open>is_int64\<close>); times are
  nanoseconds; a pointer that may be nil is an \<open>option\<close>.
\<close>

section \<open>Errors (errors.go)\<close>

datatype pay_sentinel =
    ErrNilContext | ErrInvalidAmount | ErrInvalidRequest | ErrInvalidAction
  | ErrInvalidCurrency | ErrInvalidExchangeRate | ErrCurrencyMetaNotFound
  | ErrSettleAmountMismatch | ErrUnsupportedProvider | ErrUnsupportedChannel
  | ErrUnsupportedCapability | ErrAdapterAlreadyExists | ErrAdapterNotFound
  | ErrPaymentActionRequired | ErrNotifyVerificationFail | ErrPaymentReference
  | ErrInvalidStateTransition

text \<open>
  An error value: a sentinel wrapped with a message (\<open>fmt.Errorf("%w: ...", sentinel)\<close>, the
  message empty for the bare sentinel), or an error that comes from outside the package
  (a context's error, a provider's error).
\<close>

datatype pay_error = PayErr pay_sentinel string | ExternalErr string

text \<open>\<open>errors.Is(err, sentinel)\<close>.\<close>

fun pay_is :: "pay_error \<Rightarrow> pay_sentinel \<Rightarrow> bool" where
  "pay_is (PayErr s _) s' = (s = s')"
| "pay_is (ExternalErr _) _ = False"

type_synonym 'a pay_result = "pay_error + 'a"

section \<open>Money and pricing (types.go)\<close>

definition is_int64 :: "int \<Rightarrow> bool" where
  "is_int64 n \<longleftrightarrow> - (2 ^ 63) \<le> n \<and> n < 2 ^ 63"

type_synonym go_time = int
type_synonym provider = string
type_synonym channel = string

text \<open>A value of type \<open>any\<close>: a string, or some other dynamic value known by its identity.\<close>

datatype go_any = AnyString string | AnyValue nat

record money =
  m_amount :: int
  m_currency :: string

definition zero_money :: money where
  "zero_money = \<lparr>m_amount = 0, m_currency = []\<rparr>"

record exchange_rate_snapshot =
  er_from :: string
  er_to :: string
  er_rate :: string
  er_source :: string
  er_quoted_at :: int

record payment_pricing =
  order_amount :: money
  pay_amount :: money
  settle_currency :: string
  settle_amount :: money
  fee_amount :: "money option"
  exchange_rate :: "exchange_rate_snapshot option"

definition zero_pricing :: payment_pricing where
  "zero_pricing = \<lparr>order_amount = zero_money, pay_amount = zero_money, settle_currency = [],
     settle_amount = zero_money, fee_amount = None, exchange_rate = None\<rparr>"

record currency_meta =
  cm_code :: string
  cm_minor_exp :: int

section \<open>Actions, statuses and events (types.go)\<close>

datatype action_type =
    ActionUnset | ActionNone | ActionRedirectURL | ActionHTMLForm | ActionQRCode
  | ActionSDKParams | ActionClientToken | ActionOther string

record payment_action =
  act_type :: action_type
  act_method :: string
  act_url :: string
  act_fields :: "(string \<times> string) list"
  act_html :: string
  act_encoded_html :: string
  act_token :: string
  act_params :: "(string \<times> go_any) list"

datatype payment_status =
    PaymentStatusUnset | PaymentPending | PaymentProcessing | PaymentRequiresAction
  | PaymentAuthorized | PaymentSucceeded | PaymentFailed | PaymentClosed | PaymentExpired
  | PaymentRefunding | PaymentPartialRefunded | PaymentRefunded | PaymentStatusOther string

datatype refund_status =
    RefundStatusUnset | RefundPending | RefundProcessing | RefundSucceeded | RefundFailed
  | RefundClosed | RefundStatusOther string

datatype event_type =
    EventPaymentCreated | EventPaymentSucceeded | EventPaymentFailed | EventPaymentClosed
  | EventPaymentExpired | EventPaymentAuthorized | EventPaymentCaptured | EventPaymentRefunding
  | EventPaymentRefunded | EventPaymentPartRefund | EventRefundCreated | EventRefundProcessing
  | EventRefundSucceeded | EventRefundFailed | EventDisputeCreated | EventDisputeClosed
  | EventUnknown | EventOther string

text \<open>settlement.go: facts supplied by the provider.\<close>

record provider_settlement =
  ps_currency :: string
  ps_amount :: "money option"
  ps_net_amount :: "money option"
  ps_fee_amount :: "money option"
  ps_exchange_rate :: "exchange_rate_snapshot option"
  ps_reference :: string
  ps_updated_at :: "go_time option"

definition empty_settlement :: provider_settlement where
  "empty_settlement = \<lparr>ps_currency = [], ps_amount = None, ps_net_amount = None,
     ps_fee_amount = None, ps_exchange_rate = None, ps_reference = [], ps_updated_at = None\<rparr>"

record payment_details =
  pd_method :: string
  pd_attempt_id :: string
  pd_transaction_id :: string
  pd_card_brand :: string
  pd_card_last4 :: string

record payment_event =
  ev_details :: "payment_details option"
  ev_expire_at :: "go_time option"
  ev_settlement :: "provider_settlement option"
  ev_event_id :: string
  ev_type :: event_type
  ev_provider :: provider
  ev_channel :: channel
  ev_merchant_key :: string
  ev_payment_id :: string
  ev_order_id :: string
  ev_out_trade_no :: string
  ev_provider_trade_id :: string
  ev_refund_id :: string
  ev_provider_refund_id :: string
  ev_status :: payment_status
  ev_refund_status :: refund_status
  ev_amount :: money
  ev_paid_at :: "go_time option"
  ev_raw :: string
  ev_extra :: "string \<rightharpoonup> go_any"

record capabilities =
  cap_provider :: provider
  cap_channels :: "channel list"
  cap_currencies :: "string list"
  cap_actions :: "action_type list"
  supports_multi_merchant :: bool
  supports_expire_at :: bool
  supports_close :: bool
  supports_refund :: bool
  supports_query_refund :: bool
  supports_partial_refund :: bool
  supports_query :: bool
  supports_notify :: bool
  supports_capture :: bool
  supports_confirm :: bool
  supports_reconcile :: bool
  supports_dispute :: bool
  supports_subscription :: bool

section \<open>Requests and responses (request.go)\<close>

record create_request =
  cr_provider_trade_id :: string
  cr_provider :: provider
  cr_channel :: channel
  cr_merchant_key :: string
  cr_payment_id :: string
  cr_order_id :: string
  cr_out_trade_no :: string
  cr_subject :: string
  cr_body :: string
  cr_pricing :: payment_pricing
  cr_notify_url :: string
  cr_return_url :: string
  cr_expire_at :: "go_time option"
  cr_extra :: "string \<rightharpoonup> go_any"

record create_response =
  cs_expire_at :: "go_time option"
  cs_paid_at :: "go_time option"
  cs_settlement :: "provider_settlement option"
  cs_provider :: provider
  cs_channel :: channel
  cs_merchant_key :: string
  cs_payment_id :: string
  cs_order_id :: string
  cs_out_trade_no :: string
  cs_provider_trade_id :: string
  cs_status :: payment_status
  cs_pricing :: payment_pricing
  cs_action :: payment_action
  cs_raw :: "go_any option"
  cs_extra :: "string \<rightharpoonup> go_any"

record query_request =
  qr_provider :: provider
  qr_channel :: channel
  qr_merchant_key :: string
  qr_payment_id :: string
  qr_order_id :: string
  qr_out_trade_no :: string
  qr_provider_trade_id :: string
  qr_extra :: "string \<rightharpoonup> go_any"

record query_response =
  qs_raw_body :: string
  qs_details :: "payment_details option"
  qs_expire_at :: "go_time option"
  qs_settlement :: "provider_settlement option"
  qs_provider :: provider
  qs_channel :: channel
  qs_merchant_key :: string
  qs_payment_id :: string
  qs_order_id :: string
  qs_out_trade_no :: string
  qs_provider_trade_id :: string
  qs_status :: payment_status
  qs_pricing :: payment_pricing
  qs_paid_at :: "go_time option"
  qs_raw :: "go_any option"
  qs_extra :: "string \<rightharpoonup> go_any"

record close_request =
  cl_provider :: provider
  cl_channel :: channel
  cl_merchant_key :: string
  cl_payment_id :: string
  cl_order_id :: string
  cl_out_trade_no :: string
  cl_provider_trade_id :: string
  cl_extra :: "string \<rightharpoonup> go_any"

record refund_amount =
  ra_refund :: money
  ra_settle :: money

record refund_request =
  rr_provider :: provider
  rr_channel :: channel
  rr_merchant_key :: string
  rr_payment_id :: string
  rr_order_id :: string
  rr_out_trade_no :: string
  rr_provider_trade_id :: string
  rr_refund_id :: string
  rr_out_refund_no :: string
  rr_amount :: refund_amount
  rr_reason :: string
  rr_extra :: "string \<rightharpoonup> go_any"

text \<open>\<open>ProviderExchange\<close> (provider_exchange.go): raw request and response evidence.\<close>

record provider_exchange =
  px_request_body :: string
  px_response_body :: string
  px_status_code :: int
  px_headers :: "string \<rightharpoonup> string list"

record refund_response =
  rs_provider :: provider
  rs_channel :: channel
  rs_merchant_key :: string
  rs_payment_id :: string
  rs_order_id :: string
  rs_out_trade_no :: string
  rs_provider_trade_id :: string
  rs_refund_id :: string
  rs_out_refund_no :: string
  rs_provider_refund_id :: string
  rs_status :: refund_status
  rs_amount :: refund_amount
  rs_exchange :: provider_exchange
  rs_raw :: "go_any option"
  rs_extra :: "string \<rightharpoonup> go_any"

record query_refund_request =
  fr_provider :: provider
  fr_channel :: channel
  fr_merchant_key :: string
  fr_payment_id :: string
  fr_out_trade_no :: string
  fr_provider_trade_id :: string
  fr_refund_id :: string
  fr_out_refund_no :: string
  fr_provider_refund_id :: string
  fr_extra :: "string \<rightharpoonup> go_any"

record query_refund_response =
  fs_provider :: provider
  fs_channel :: channel
  fs_merchant_key :: string
  fs_payment_id :: string
  fs_out_trade_no :: string
  fs_provider_trade_id :: string
  fs_refund_id :: string
  fs_out_refund_no :: string
  fs_provider_refund_id :: string
  fs_status :: refund_status
  fs_amount :: refund_amount
  fs_exchange :: provider_exchange
  fs_raw :: "go_any option"
  fs_extra :: "string \<rightharpoonup> go_any"

record notify_request =
  nr_merchant_key :: string
  nr_provider :: provider
  nr_channel :: channel
  nr_method :: string
  nr_header :: "string \<rightharpoonup> string list"
  nr_query :: "string \<rightharpoonup> string list"
  nr_form :: "string \<rightharpoonup> string list"
  nr_body :: string
  nr_raw :: "go_any option"
  nr_received_at :: go_time

record notify_ack =
  na_status_code :: int
  na_content_type :: string
  na_body :: string

record notify_result =
  nt_verified :: bool
  nt_event :: "payment_event option"
  nt_ack :: notify_ack

end
