(* ===== verification/Pay_Payout_Types.thy ===== *)
theory Pay_Payout_Types
  imports Pay_Types
begin

text \<open>
  The requests, responses and optional provider interfaces of payouts: \<^verbatim>\<open>core/payment/payout.go\<close>,
  \<^verbatim>\<open>payout_batch.go\<close> and \<^verbatim>\<open>beneficiary_schema.go\<close>.  An interface an adapter may implement is a
  record of its methods, each a function over the world of the adapter.
\<close>

section \<open>Payouts (payout.go)\<close>

datatype payout_status =
    PayoutStatusUnset | PayoutPending | PayoutProcessing | PayoutSent | PayoutSucceeded | PayoutFailed
  | PayoutCancelled | PayoutReturned | PayoutStatusOther string

record create_payout_request =
  cp_provider :: provider
  cp_channel :: channel
  cp_merchant_key :: string
  cp_payout_id :: string
  cp_request_id :: string
  cp_beneficiary_id :: string
  cp_amount :: money
  cp_reference :: string
  cp_reason :: string
  cp_extra :: "string \<rightharpoonup> go_any"

record query_payout_request =
  qp_provider :: provider
  qp_channel :: channel
  qp_merchant_key :: string
  qp_payout_id :: string
  qp_provider_payout_id :: string

record payout_response =
  po_provider :: provider
  po_channel :: channel
  po_merchant_key :: string
  po_payout_id :: string
  po_provider_payout_id :: string
  po_status :: payout_status
  po_amount :: money
  po_provider_status :: string
  po_exchange :: provider_exchange

record 'w payout_provider =
  pv_create :: "pay_error go_ctx \<Rightarrow> create_payout_request \<Rightarrow> 'w \<Rightarrow> payout_response option pay_result \<times> 'w"
  pv_query :: "pay_error go_ctx \<Rightarrow> query_payout_request \<Rightarrow> 'w \<Rightarrow> payout_response option pay_result \<times> 'w"

section \<open>Beneficiaries and batches (payout\_batch.go)\<close>

record create_beneficiary_request =
  cn_provider :: provider
  cn_channel :: channel
  cn_merchant_key :: string
  cn_details :: "(string \<times> go_any) list"

record query_beneficiary_request =
  qn_provider :: provider
  qn_channel :: channel
  qn_merchant_key :: string
  qn_beneficiary_id :: string

record beneficiary_response =
  bn_provider :: provider
  bn_channel :: channel
  bn_merchant_key :: string
  bn_beneficiary_id :: string
  bn_exchange :: provider_exchange

record 'w beneficiary_provider =
  nv_create ::
    "pay_error go_ctx \<Rightarrow> create_beneficiary_request \<Rightarrow> 'w \<Rightarrow> beneficiary_response option pay_result \<times> 'w"
  nv_query ::
    "pay_error go_ctx \<Rightarrow> query_beneficiary_request \<Rightarrow> 'w \<Rightarrow> beneficiary_response option pay_result \<times> 'w"

record create_batch_request =
  bc_provider :: provider
  bc_channel :: channel
  bc_merchant_key :: string
  bc_request_id :: string
  bc_name :: string
  bc_remarks :: string

record batch_item_request =
  bi_request_id :: string
  bi_beneficiary_id :: string
  bi_amount :: money
  bi_transfer_method :: string
  bi_reference :: string
  bi_reason :: string

record add_batch_items_request =
  ba_provider :: provider
  ba_channel :: channel
  ba_merchant_key :: string
  ba_provider_batch_id :: string
  ba_items :: "batch_item_request list"

text \<open>Also the request that lists the items of a batch, an alias in the code.\<close>

record submit_batch_request =
  bs_provider :: provider
  bs_channel :: channel
  bs_merchant_key :: string
  bs_provider_batch_id :: string

record query_batch_request =
  bq_provider :: provider
  bq_channel :: channel
  bq_merchant_key :: string
  bq_provider_batch_id :: string
  bq_request_id :: string

record batch_response =
  bt_provider :: provider
  bt_channel :: channel
  bt_merchant_key :: string
  bt_provider_batch_id :: string
  bt_provider_status :: string
  bt_total_item_count :: int
  bt_valid_item_count :: int
  bt_exchange :: provider_exchange

record batch_item_response =
  bu_provider_item_id :: string
  bu_provider_payout_id :: string
  bu_request_id :: string
  bu_provider_status :: string
  bu_failure_code :: string
  bu_failure_message :: string

record batch_items_response =
  bl_provider :: provider
  bl_channel :: channel
  bl_merchant_key :: string
  bl_provider_batch_id :: string
  bl_items :: "batch_item_response list"
  bl_exchange :: provider_exchange

record 'w batch_provider =
  bv_create :: "pay_error go_ctx \<Rightarrow> create_batch_request \<Rightarrow> 'w \<Rightarrow> batch_response option pay_result \<times> 'w"
  bv_add :: "pay_error go_ctx \<Rightarrow> add_batch_items_request \<Rightarrow> 'w \<Rightarrow> batch_response option pay_result \<times> 'w"
  bv_submit :: "pay_error go_ctx \<Rightarrow> submit_batch_request \<Rightarrow> 'w \<Rightarrow> batch_response option pay_result \<times> 'w"
  bv_query :: "pay_error go_ctx \<Rightarrow> query_batch_request \<Rightarrow> 'w \<Rightarrow> batch_response option pay_result \<times> 'w"
  bv_list :: "pay_error go_ctx \<Rightarrow> submit_batch_request \<Rightarrow> 'w \<Rightarrow> batch_items_response option pay_result \<times> 'w"

section \<open>Beneficiary schemas (beneficiary\_schema.go)\<close>

datatype schema_kind = SchemaKindUnset | SchemaAPI | SchemaForm | SchemaKindOther string

record schema_request =
  sm_provider :: provider
  sm_channel :: channel
  sm_merchant_key :: string
  sm_kind :: schema_kind
  sm_bank_country_code :: string
  sm_account_currency :: string
  sm_transfer_method :: string
  sm_local_clearing_system :: string
  sm_entity_type :: string
  sm_country_code :: string

record schema_response =
  so_provider :: provider
  so_channel :: channel
  so_merchant_key :: string
  so_kind :: schema_kind
  so_condition :: "string \<rightharpoonup> go_any"
  so_fields :: "(string \<rightharpoonup> go_any) list"
  so_exchange :: provider_exchange

record 'w schema_provider =
  mv_generate :: "pay_error go_ctx \<Rightarrow> schema_request \<Rightarrow> 'w \<Rightarrow> schema_response option pay_result \<times> 'w"

end
