(* ===== verification/Pay_Pricing.thy ===== *)
theory Pay_Pricing
  imports Pay_Types
begin

text \<open>
  \<^verbatim>\<open>core/payment/currency.go\<close> and \<^verbatim>\<open>pricing.go\<close>: currency normalisation and metadata, the
  parsing of a decimal exchange rate into an exact rational (\<open>math/big\<close>), half-up rounding
  to minor units with the \<open>int64\<close> check, and the default pricing policy.
\<close>

section \<open>Currencies (currency.go)\<close>

definition DefaultCurrency :: string where
  "DefaultCurrency = ''CNY''"

definition default_currency_list :: "(string \<times> currency_meta) list" where
  "default_currency_list =
     map (\<lambda>(c, e). (c, \<lparr>cm_code = c, cm_minor_exp = e\<rparr>))
       [(''CNY'', 2), (''USD'', 2), (''EUR'', 2), (''GBP'', 2), (''HKD'', 2), (''MOP'', 2),
        (''TWD'', 2), (''SGD'', 2), (''AUD'', 2), (''CAD'', 2), (''JPY'', 0), (''KRW'', 0)]"

definition normalize_currency :: "string \<Rightarrow> string" where
  "normalize_currency code =
     (let c = trim_space code in if c = [] then DefaultCurrency else to_upper c)"

definition default_currency_meta :: "string \<Rightarrow> currency_meta option" where
  "default_currency_meta code = map_of default_currency_list (normalize_currency code)"

definition default_currency_metadata :: "string \<rightharpoonup> currency_meta" where
  "default_currency_metadata = map_of default_currency_list"

definition CNY :: "int \<Rightarrow> payment_pricing" where
  "CNY amount = zero_pricing\<lparr>pay_amount := \<lparr>m_amount = amount, m_currency = DefaultCurrency\<rparr>\<rparr>"

section \<open>Exchange rates and rounding (pricing.go)\<close>

definition is_digit :: "char \<Rightarrow> bool" where
  "is_digit c \<longleftrightarrow> (48::nat) \<le> of_char c \<and> of_char c \<le> (57::nat)"

definition digit_value :: "char \<Rightarrow> int" where
  "digit_value c = of_char c - 48"

text \<open>\<open>big.Int.SetString(digits, 10)\<close> on a string of digits.\<close>

definition dec_value :: "string \<Rightarrow> int" where
  "dec_value s = foldl (\<lambda>n c. 10 * n + digit_value c) 0 s"

definition rate_error :: "string \<Rightarrow> rat pay_result" where
  "rate_error msg = Inl (PayErr ErrInvalidExchangeRate msg)"

definition pow10 :: "int \<Rightarrow> int" where
  "pow10 e = (if e \<le> 0 then 1 else 10 ^ nat e)"

text \<open>The part of \<open>parsePositiveDecimalRat\<close> after the sign.\<close>

definition parse_unsigned_decimal :: "bool \<Rightarrow> string \<Rightarrow> rat pay_result" where
  "parse_unsigned_decimal negative raw =
     (let parts = split_on (CHR ''.'') raw in
      if length parts > 2 \<or> (hd parts = [] \<and> length parts = 1) then rate_error raw
      else
        (let int_part = (if hd parts = [] then ''0'' else hd parts);
             frac_part = (if length parts = 2 then parts ! 1 else []);
             digits = int_part @ frac_part
         in if digits = [] then rate_error ''empty rate''
            else if \<not> list_all is_digit digits then rate_error raw
            else if negative \<or> dec_value digits \<le> 0 then rate_error ''rate must be positive''
            else Inr (Fract (dec_value digits) (pow10 (int (length frac_part))))))"

definition parse_positive_decimal :: "string \<Rightarrow> rat pay_result" where
  "parse_positive_decimal raw0 =
     (let raw = trim_space raw0 in
      if raw = [] then rate_error ''empty rate''
      else
        (let negative = has_prefix raw ''-'';
             raw' = (if has_prefix raw ''+'' \<or> negative then tl raw else raw)
         in parse_unsigned_decimal negative raw'))"

definition round_half_up :: "rat \<Rightarrow> int pay_result" where
  "round_half_up v =
     (if v < 0 then Inl (PayErr ErrInvalidAmount ''negative calculated amount'')
      else
        (let (n, d) = quotient_of v;
             q = n div d; r = n mod d;
             q' = (if r * 2 \<ge> d then q + 1 else q)
         in if \<not> is_int64 q' then Inl (PayErr ErrInvalidAmount ''amount overflow'')
            else Inr q'))"

section \<open>The default pricing policy (pricing.go)\<close>

text \<open>A nil \<open>Currencies\<close> map and an empty one behave the same: every lookup fails.\<close>

record pricing_policy =
  pp_default_settle :: string
  pp_currencies :: "string \<rightharpoonup> currency_meta"
  pp_allow_explicit :: bool

definition new_default_pricing_policy :: pricing_policy where
  "new_default_pricing_policy =
     \<lparr>pp_default_settle = [], pp_currencies = default_currency_metadata, pp_allow_explicit = False\<rparr>"

definition currency_meta_of :: "pricing_policy \<Rightarrow> string \<Rightarrow> currency_meta pay_result" where
  "currency_meta_of p code0 =
     (let code = normalize_currency code0 in
      case pp_currencies p code of
        Some meta \<Rightarrow>
          (let meta' = meta\<lparr>cm_code := (if trim_space (cm_code meta) = [] then code
                                        else normalize_currency (cm_code meta))\<rparr>
           in if cm_minor_exp meta' < 0 then Inl (PayErr ErrInvalidCurrency code) else Inr meta')
      | None \<Rightarrow>
          (case default_currency_meta code of
             Some meta \<Rightarrow> Inr meta
           | None \<Rightarrow> Inl (PayErr ErrCurrencyMetaNotFound code)))"

definition calculate_settle_amount ::
  "money \<Rightarrow> currency_meta \<Rightarrow> currency_meta \<Rightarrow> exchange_rate_snapshot option \<Rightarrow> money pay_result" where
  "calculate_settle_amount pay pay_meta settle_meta rate =
     (if m_currency pay = cm_code settle_meta
      then Inr \<lparr>m_amount = m_amount pay, m_currency = cm_code settle_meta\<rparr>
      else (case rate of
        None \<Rightarrow> Inl (PayErr ErrInvalidExchangeRate (''exchange rate is required for '' @
                  m_currency pay @ '' to '' @ cm_code settle_meta))
      | Some r \<Rightarrow>
          (if normalize_currency (er_from r) \<noteq> m_currency pay \<or>
              normalize_currency (er_to r) \<noteq> cm_code settle_meta
           then Inl (PayErr ErrInvalidExchangeRate (''exchange rate direction must be '' @
                  m_currency pay @ '' to '' @ cm_code settle_meta))
           else bindR (parse_positive_decimal (er_rate r)) (\<lambda>rate_value.
             bindR (round_half_up (rat_of_int (m_amount pay) / rat_of_int (pow10 (cm_minor_exp pay_meta))
                      * rate_value * rat_of_int (pow10 (cm_minor_exp settle_meta)))) (\<lambda>amount.
               if amount \<le> 0
               then Inl (PayErr ErrInvalidAmount ''calculated settle amount must be positive'')
               else Inr \<lparr>m_amount = amount, m_currency = cm_code settle_meta\<rparr>)))))"

definition normalize_order_amount ::
  "pricing_policy \<Rightarrow> money \<Rightarrow> money \<Rightarrow> money pay_result" where
  "normalize_order_amount p pay order =
     (if m_amount order = 0 \<and> trim_space (m_currency order) = [] then Inr pay
      else if m_amount order \<le> 0
      then Inl (PayErr ErrInvalidAmount ''order amount must be positive'')
      else bindR (currency_meta_of p (normalize_currency (m_currency order))) (\<lambda>_.
             Inr (order\<lparr>m_currency := normalize_currency (m_currency order)\<rparr>)))"

definition normalize_settle_amount ::
  "pricing_policy \<Rightarrow> string \<Rightarrow> money \<Rightarrow> money \<Rightarrow> money pay_result" where
  "normalize_settle_amount p settle_cur calculated settle =
     (if m_amount settle = 0 \<and> trim_space (m_currency settle) = [] then Inr calculated
      else if m_amount settle \<le> 0
      then Inl (PayErr ErrInvalidAmount ''settle amount must be positive'')
      else
        (let s = settle\<lparr>m_currency := normalize_currency (m_currency settle)\<rparr>
         in if m_currency s \<noteq> settle_cur
            then Inl (PayErr ErrInvalidCurrency (''settle amount currency '' @ m_currency s @
                   '' does not match settle currency '' @ settle_cur))
            else if \<not> pp_allow_explicit p \<and> s \<noteq> calculated
            then Inl (PayErr ErrSettleAmountMismatch [])
            else Inr s))"

definition normalize_fee :: "pricing_policy \<Rightarrow> money option \<Rightarrow> money option pay_result" where
  "normalize_fee p fee =
     (case fee of
        None \<Rightarrow> Inr None
      | Some f \<Rightarrow>
          (if m_amount f < 0 then Inl (PayErr ErrInvalidAmount ''fee amount must not be negative'')
           else
             (let f' = f\<lparr>m_currency := normalize_currency (m_currency f)\<rparr>
              in bindR (currency_meta_of p (m_currency f')) (\<lambda>_. Inr (Some f')))))"

definition settle_currency_for :: "pricing_policy \<Rightarrow> string \<Rightarrow> string" where
  "settle_currency_for p s =
     (if pp_default_settle p \<noteq> [] \<and> trim_space s = [] then normalize_currency (pp_default_settle p)
      else to_upper (trim_space s))"

text \<open>The settlement part of \<open>NormalizePricing\<close>: with a settlement currency, and without one.\<close>

definition normalize_settlement ::
  "pricing_policy \<Rightarrow> currency_meta \<Rightarrow> currency_meta option \<Rightarrow> payment_pricing \<Rightarrow> payment_pricing pay_result" where
  "normalize_settlement p pay_meta settle_meta pr =
     (case settle_meta of
        Some sm \<Rightarrow>
          bindR (calculate_settle_amount (pay_amount pr) pay_meta sm (exchange_rate pr)) (\<lambda>calculated.
          bindR (normalize_settle_amount p (settle_currency pr) calculated (settle_amount pr)) (\<lambda>s.
          Inr (pr\<lparr>settle_amount := s\<rparr>)))
      | None \<Rightarrow>
          (if settle_amount pr \<noteq> zero_money \<or> exchange_rate pr \<noteq> None
           then Inl (PayErr ErrInvalidRequest ''explicit settlement currency required'')
           else Inr pr))"

definition normalize_pricing ::
  "pricing_policy \<Rightarrow> pay_error go_ctx \<Rightarrow> payment_pricing \<Rightarrow> payment_pricing pay_result" where
  "normalize_pricing p ctx pr =
     (case ctx of
        NilCtx \<Rightarrow> Inl (PayErr ErrNilContext [])
      | Ctx (Some e) \<Rightarrow> Inl e
      | Ctx None \<Rightarrow>
          bindR (guardR (m_amount (pay_amount pr) > 0)
                   (PayErr ErrInvalidAmount ''pay amount must be positive'')) (\<lambda>_.
          let pay_cur = normalize_currency (m_currency (pay_amount pr));
              settle_cur = settle_currency_for p (settle_currency pr)
          in
          bindR (currency_meta_of p pay_cur) (\<lambda>pay_meta.
          bindR (if settle_cur \<noteq> [] then map_sum id Some (currency_meta_of p settle_cur)
                 else Inr None) (\<lambda>settle_meta.
          let pay = (pay_amount pr)\<lparr>m_currency := pay_cur\<rparr> in
          bindR (normalize_order_amount p pay (order_amount pr)) (\<lambda>order.
          bindR (normalize_settlement p pay_meta settle_meta
                   (pr\<lparr>pay_amount := pay, settle_currency := settle_cur, order_amount := order\<rparr>)) (\<lambda>pr'.
          bindR (normalize_fee p (fee_amount pr')) (\<lambda>fee.
          Inr (pr'\<lparr>fee_amount := fee\<rparr>))))))))"

definition normalize_pricing_default ::
  "pay_error go_ctx \<Rightarrow> payment_pricing \<Rightarrow> payment_pricing pay_result" where
  "normalize_pricing_default ctx pr = normalize_pricing new_default_pricing_policy ctx pr"

section \<open>Lemmas\<close>

subsection \<open>Currencies\<close>

lemma normalize_currency_idem [simp]:
  "normalize_currency (normalize_currency c) = normalize_currency c"
proof -
  have "trim_space ''CNY'' = ''CNY''" by (rule trim_space_printable) simp
  moreover have "to_upper ''CNY'' = ''CNY''" by (simp add: to_upper_def upper_char_def)
  ultimately show ?thesis
    by (simp add: normalize_currency_def Let_def DefaultCurrency_def)
qed

lemma normalize_currency_not_Nil [simp]: "normalize_currency c \<noteq> []"
  by (simp add: normalize_currency_def Let_def DefaultCurrency_def)

lemma trim_normalize_currency [simp]: "trim_space (normalize_currency c) = normalize_currency c"
proof -
  have "trim_space ''CNY'' = ''CNY''" by (rule trim_space_printable) simp
  then show ?thesis by (simp add: normalize_currency_def Let_def DefaultCurrency_def)
qed

lemma upper_normalize_currency [simp]: "to_upper (normalize_currency c) = normalize_currency c"
proof -
  have "to_upper ''CNY'' = ''CNY''" by (simp add: to_upper_def upper_char_def)
  then show ?thesis by (simp add: normalize_currency_def Let_def DefaultCurrency_def)
qed

lemma normalize_currency_nonblank:
  "trim_space s \<noteq> [] \<Longrightarrow> to_upper (trim_space s) = normalize_currency s"
  by (simp add: normalize_currency_def Let_def)

subsection \<open>Digits\<close>

lemma dec_value_foldl: "foldl (\<lambda>n c. 10 * n + digit_value c) k s = k * 10 ^ length s + dec_value s"
proof (induction s arbitrary: k)
  case Nil
  then show ?case by (simp add: dec_value_def)
next
  case (Cons c s)
  show ?case
    using Cons.IH [of "10 * k + digit_value c"] Cons.IH [of "digit_value c"]
    by (simp add: dec_value_def algebra_simps)
qed

lemma dec_value_append: "dec_value (a @ b) = dec_value a * 10 ^ length b + dec_value b"
  using dec_value_foldl [of "dec_value a" b] by (simp add: dec_value_def)

lemma digit_printable: "is_digit c \<Longrightarrow> (32::nat) < of_char c \<and> of_char c < (128::nat)"
  by (simp add: is_digit_def)

lemma digit_not_sign: "is_digit c \<Longrightarrow> c \<noteq> CHR ''.'' \<and> c \<noteq> CHR ''-'' \<and> c \<noteq> CHR ''+''"
  by (auto simp: is_digit_def)

subsection \<open>Rounding\<close>



lemma round_half_up_int: "0 \<le> n \<Longrightarrow> is_int64 n \<Longrightarrow> round_half_up (rat_of_int n) = Inr n"
  by (simp add: round_half_up_def quotient_of_int)

subsection \<open>Parsing a decimal rate\<close>

lemma dec_value_zero: "dec_value (CHR ''0'' # s) = dec_value s"
  by (simp add: dec_value_def digit_value_def)

text \<open>The numerals: digits, or digits around one point, at least one of them; and their values.\<close>

definition decimal_digits :: "string \<Rightarrow> string \<Rightarrow> string \<Rightarrow> bool" where
  "decimal_digits t i f \<longleftrightarrow> list_all is_digit (i @ f) \<and>
     (if CHR ''.'' \<in> set t then t = i @ CHR ''.'' # f else t = i \<and> i \<noteq> [] \<and> f = [])"

definition decimal_rat :: "string \<Rightarrow> string \<Rightarrow> rat" where
  "decimal_rat i f = rat_of_int (dec_value i) + rat_of_int (dec_value f) / 10 ^ length f"

lemma decimal_rat_Fract: "Fract (dec_value (i @ f)) (10 ^ length f) = decimal_rat i f"
  by (simp add: decimal_rat_def dec_value_append Fract_of_int_quotient add_divide_distrib)

lemma decimal_rat_pos: "decimal_rat i f > 0 \<longleftrightarrow> dec_value (i @ f) > 0"
  by (simp add: decimal_rat_Fract [symmetric] zero_less_Fract_iff)

lemma dots_in_digits: "list_all is_digit i \<Longrightarrow> CHR ''.'' \<notin> set i"
  using digit_not_sign by (auto simp: list_all_iff)

lemma parse_unsigned_decimal_iff:
  "parse_unsigned_decimal False t = Inr r \<longleftrightarrow>
     (\<exists>i f. decimal_digits t i f \<and> r = decimal_rat i f) \<and> r > 0"
proof (cases "CHR ''.'' \<in> set t")
  case False
  then have "parse_unsigned_decimal False t = Inr r \<longleftrightarrow>
      t \<noteq> [] \<and> list_all is_digit t \<and> dec_value t > 0 \<and> Fract (dec_value (t @ [])) (10 ^ length ([] :: string)) = r"
    by (auto simp: parse_unsigned_decimal_def split_on_no_sep rate_error_def Let_def pow10_def)
  also have "\<dots> \<longleftrightarrow> t \<noteq> [] \<and> list_all is_digit t \<and> decimal_rat t [] > 0 \<and> decimal_rat t [] = r"
    unfolding decimal_rat_Fract by (simp add: decimal_rat_pos)
  finally show ?thesis using False by (auto simp: decimal_digits_def)
next
  case True
  then obtain a b where t: "t = a @ CHR ''.'' # b" "CHR ''.'' \<notin> set a" by (auto dest: split_list_first)
  have uniq: "decimal_digits t i f \<longleftrightarrow> i = a \<and> f = b \<and> list_all is_digit (a @ b)" for i f
    using t dots_in_digits [of i] dots_in_digits [of f] dots_in_digits [of b]
    by (auto simp: decimal_digits_def append_eq_append_conv2 append_eq_Cons_conv Cons_eq_append_conv)
  show ?thesis
  proof (cases "CHR ''.'' \<in> set b")
    case True
    then show ?thesis using split_on_many [OF t(2) True] dots_in_digits [of b]
      by (auto simp: uniq [unfolded t(1)] t(1) parse_unsigned_decimal_def rate_error_def Let_def)
  next
    case False
    define a' where "a' = (if a = [] then ''0'' else a)"
    have zero: "dec_value (a' @ b) = dec_value (a @ b)" "list_all is_digit a' = list_all is_digit a"
      by (auto simp: a'_def dec_value_zero is_digit_def)
    have ne: "a' \<noteq> []" by (simp add: a'_def)
    have "parse_unsigned_decimal False t = Inr r \<longleftrightarrow>
        list_all is_digit (a' @ b) \<and> dec_value (a' @ b) > 0 \<and> Fract (dec_value (a' @ b)) (10 ^ length b) = r"
      using False t ne
      by (auto simp: parse_unsigned_decimal_def split_on_two rate_error_def Let_def pow10_def a'_def)
    also have "\<dots> \<longleftrightarrow> list_all is_digit (a @ b) \<and> decimal_rat a b > 0 \<and> decimal_rat a b = r"
      unfolding zero by (simp add: zero decimal_rat_Fract decimal_rat_pos)
    finally show ?thesis by (auto simp: uniq)
  qed
qed

lemma parse_unsigned_decimal_negative: "parse_unsigned_decimal True t \<noteq> Inr r"
  by (auto simp: parse_unsigned_decimal_def rate_error_def Let_def)

definition plus_stripped :: "string \<Rightarrow> string" where
  "plus_stripped s = (if has_prefix s ''+'' then tl s else s)"

lemma parse_positive_decimal_unsigned:
  "parse_positive_decimal s = Inr r \<longleftrightarrow> parse_unsigned_decimal False (plus_stripped (trim_space s)) = Inr r"
proof -
  have minus: "parse_unsigned_decimal False t \<noteq> Inr r" if "has_prefix t ''-''" for t
  proof
    assume "parse_unsigned_decimal False t = Inr r"
    then obtain i f where "decimal_digits t i f" by (auto simp: parse_unsigned_decimal_iff)
    with that show False using digit_not_sign [of "CHR ''-''"]
      by (cases i) (auto simp: decimal_digits_def has_prefix_def split: if_splits)
  qed
  have empty: "parse_unsigned_decimal False [] \<noteq> Inr r" 
    by (simp add: parse_unsigned_decimal_def rate_error_def)
  have "\<not> (has_prefix t ''+'' \<and> has_prefix t ''-'')" for t :: string
    by (cases t) (auto simp: has_prefix_def)
  then show ?thesis
    using minus [of "trim_space s"] empty parse_unsigned_decimal_negative
    by (auto simp: parse_positive_decimal_def plus_stripped_def rate_error_def Let_def has_prefix_def)
qed

text \<open>
  C29: the exchange rates that are accepted, and their values: white space around, one plus sign
  at most, then digits or digits around one point, with a positive value; that value, the
  integer part plus the fraction over a power of ten, is returned with no rounding, however long
  the string is.  Everything else (a minus sign, an exponent, two points, zero) is refused.
\<close>

theorem parse_decimal_exact:
  "parse_positive_decimal s = Inr r \<longleftrightarrow>
     (\<exists>i f. decimal_digits (plus_stripped (trim_space s)) i f \<and> r = decimal_rat i f) \<and> r > 0"
  by (simp add: parse_positive_decimal_unsigned parse_unsigned_decimal_iff)


subsection \<open>Currency metadata\<close>

text \<open>A policy whose metadata entries carry the code they are stored under (or no code).\<close>

definition codes_consistent :: "pricing_policy \<Rightarrow> bool" where
  "codes_consistent p \<longleftrightarrow>
     (\<forall>c m. pp_currencies p c = Some m \<longrightarrow>
        trim_space (cm_code m) = [] \<or> normalize_currency (cm_code m) = c)"

lemma default_list_code: "(c, m) \<in> set default_currency_list \<Longrightarrow> cm_code m = c"
  by (auto simp: default_currency_list_def)

lemma default_list_upper: "(c, m) \<in> set default_currency_list \<Longrightarrow> normalize_currency c = c"
proof -
  assume "(c, m) \<in> set default_currency_list"
  then have p: "\<forall>x \<in> set c. (32::nat) < of_char x \<and> of_char x < (128::nat)" and "c \<noteq> []"
    and "to_upper c = c"
    by (auto simp: default_currency_list_def to_upper_def upper_char_def)
  moreover have "trim_space c = c" using p by (rule trim_space_printable)
  ultimately show ?thesis by (simp add: normalize_currency_def Let_def)
qed

lemma default_policy_consistent: "codes_consistent new_default_pricing_policy"
  unfolding codes_consistent_def new_default_pricing_policy_def default_currency_metadata_def
  using default_list_code default_list_upper by (fastforce dest: map_of_SomeD)

lemma currency_meta_of_code:
  assumes "codes_consistent p" "currency_meta_of p c = Inr m"
  shows "cm_code m = normalize_currency c"
proof (cases "pp_currencies p (normalize_currency c)")
  case None
  with assms(2) have "default_currency_meta (normalize_currency c) = Some m"
    by (auto simp: currency_meta_of_def Let_def split: option.splits)
  then show ?thesis
    by (auto simp: default_currency_meta_def dest!: map_of_SomeD default_list_code)
next
  case (Some x)
  with assms(1) have "trim_space (cm_code x) = [] \<or> normalize_currency (cm_code x) = normalize_currency c"
    by (simp add: codes_consistent_def)
  with Some assms(2) show ?thesis
    by (auto simp: currency_meta_of_def Let_def split: if_splits)
qed

lemma currency_meta_of_normalized [simp]:
  "currency_meta_of p (normalize_currency c) = currency_meta_of p c"
  by (simp add: currency_meta_of_def)

subsection \<open>Each stage is idempotent\<close>

lemma settle_currency_for_idem [simp]:
  "settle_currency_for p (settle_currency_for p s) = settle_currency_for p s"
  by (auto simp: settle_currency_for_def)

lemma settle_currency_for_normalized:
  "settle_currency_for p s \<noteq> [] \<Longrightarrow>
   normalize_currency (settle_currency_for p s) = settle_currency_for p s"
  by (auto simp: settle_currency_for_def normalize_currency_nonblank)

lemma normalize_order_amount_idem:
  assumes "normalize_order_amount p pay ord = Inr o'" "m_amount pay > 0"
    "m_currency pay = normalize_currency c" "currency_meta_of p c = Inr m"
  shows "normalize_order_amount p pay o' = Inr o'"
  using assms by (auto simp: normalize_order_amount_def bindR_Inr_iff split: if_splits)

lemma normalize_fee_idem:
  "normalize_fee p fee = Inr fee' \<Longrightarrow> normalize_fee p fee' = Inr fee'"
  by (auto simp: normalize_fee_def Let_def bindR_Inr_iff split: option.splits if_splits)

lemma calculate_settle_amount_money:
  assumes "calculate_settle_amount pay pm sm rate = Inr s" "m_amount pay > 0"
  shows "m_amount s > 0" "m_currency s = cm_code sm"
  using assms by (auto simp: calculate_settle_amount_def bindR_Inr_iff split: if_splits option.splits)

lemma normalize_settle_amount_idem:
  assumes "normalize_settle_amount p cur calc st = Inr s"
    "m_amount calc > 0" "m_currency calc = cur" "normalize_currency cur = cur"
  shows "normalize_settle_amount p cur calc s = Inr s"
  using assms by (auto simp: normalize_settle_amount_def Let_def split: if_splits)

lemma normalize_settlement_idem:
  assumes "normalize_settlement p pm sm pr = Inr pr'" "m_amount (pay_amount pr) > 0"
    "\<And>m. sm = Some m \<Longrightarrow> cm_code m = settle_currency pr \<and>
        normalize_currency (settle_currency pr) = settle_currency pr"
  shows "normalize_settlement p pm sm pr' = Inr pr'"
proof (cases sm)
  case None
  with assms(1) show ?thesis by (auto simp: normalize_settlement_def split: if_splits)
next
  case (Some m)
  with assms(1) obtain calc s where
    calc: "calculate_settle_amount (pay_amount pr) pm m (exchange_rate pr) = Inr calc" and
    s: "normalize_settle_amount p (settle_currency pr) calc (settle_amount pr) = Inr s" and
    pr': "pr' = pr\<lparr>settle_amount := s\<rparr>"
    by (auto simp: normalize_settlement_def bindR_Inr_iff)
  have "normalize_settle_amount p (settle_currency pr) calc s = Inr s"
    using s calculate_settle_amount_money [OF calc assms(2)] assms(3) [OF Some]
    by (intro normalize_settle_amount_idem) auto
  with Some calc pr' show ?thesis by (simp add: normalize_settlement_def)
qed

text \<open>What a successful normalisation did, stage by stage.\<close>

lemma normalize_pricing_InrE:
  assumes "normalize_pricing p ctx pr = Inr pr'"
  obtains pm sm o' pr1 fee where
    "ctx = Ctx None" "m_amount (pay_amount pr) > 0"
    "currency_meta_of p (m_currency (pay_amount pr)) = Inr pm"
    "(if settle_currency_for p (settle_currency pr) \<noteq> []
      then map_sum id Some (currency_meta_of p (settle_currency_for p (settle_currency pr)))
      else Inr None) = Inr sm"
    "normalize_order_amount p ((pay_amount pr)\<lparr>m_currency := normalize_currency (m_currency (pay_amount pr))\<rparr>)
       (order_amount pr) = Inr o'"
    "normalize_settlement p pm sm
       (pr\<lparr>pay_amount := (pay_amount pr)\<lparr>m_currency := normalize_currency (m_currency (pay_amount pr))\<rparr>,
           settle_currency := settle_currency_for p (settle_currency pr), order_amount := o'\<rparr>) = Inr pr1"
    "normalize_fee p (fee_amount pr1) = Inr fee" "pr' = pr1\<lparr>fee_amount := fee\<rparr>"
  using assms that
  by (auto simp: normalize_pricing_def Let_def bindR_Inr_iff simp del: bindR_guard
      split: go_ctx.splits option.splits)

lemma normalize_settlement_frame:
  assumes "normalize_settlement p pm sm pr = Inr pr'"
  shows "\<exists>s. pr' = pr\<lparr>settle_amount := s\<rparr>"
proof -
  have "\<exists>s. pr = pr\<lparr>settle_amount := s\<rparr>" by (rule exI [of _ "settle_amount pr"]) simp
  with assms show ?thesis
    by (auto simp: normalize_settlement_def bindR_Inr_iff split: option.splits if_splits)
qed

lemma normalize_settlement_fee:
  assumes "normalize_settlement p pm sm pr = Inr pr'"
  shows "normalize_settlement p pm sm (pr\<lparr>fee_amount := f\<rparr>) = Inr (pr'\<lparr>fee_amount := f\<rparr>)"
  using assms
  by (cases sm; cases pr) (auto simp: normalize_settlement_def bindR_Inr_iff split: if_splits)

lemma settle_meta_code:
  assumes "codes_consistent p"
    "(if c \<noteq> [] then map_sum id Some (currency_meta_of p c) else Inr None) = Inr sm"
    "sm = Some m"
  shows "cm_code m = normalize_currency c \<and> c \<noteq> []"
proof -
  from assms(2,3) have "c \<noteq> []" "currency_meta_of p c = Inr m"
    by (cases "c = []"; cases "currency_meta_of p c"; auto)+
  with currency_meta_of_code [OF assms(1)] show ?thesis by simp
qed

text \<open>
  The default pricing rules are idempotent: normalising a pricing that was already
  normalised (stored and read back, or passed through two layers) succeeds and changes
  nothing, for every policy whose currency metadata is filed under its own code, the default
  policy included.
\<close>

theorem normalize_pricing_idempotent:
  assumes "codes_consistent p" and ok: "normalize_pricing p ctx pr = Inr pr'"
  shows "normalize_pricing p ctx pr' = Inr pr'"
proof -
  let ?cur = "normalize_currency (m_currency (pay_amount pr))"
  let ?pay = "(pay_amount pr)\<lparr>m_currency := ?cur\<rparr>"
  let ?sc = "settle_currency_for p (settle_currency pr)"
  from ok obtain pm sm o' pr1 fee where st:
    "ctx = Ctx None" "m_amount (pay_amount pr) > 0"
    "currency_meta_of p (m_currency (pay_amount pr)) = Inr pm"
    "(if ?sc \<noteq> [] then map_sum id Some (currency_meta_of p ?sc) else Inr None) = Inr sm"
    "normalize_order_amount p ?pay (order_amount pr) = Inr o'"
    "normalize_settlement p pm sm
       (pr\<lparr>pay_amount := ?pay, settle_currency := ?sc, order_amount := o'\<rparr>) = Inr pr1"
    "normalize_fee p (fee_amount pr1) = Inr fee" "pr' = pr1\<lparr>fee_amount := fee\<rparr>"
    by (rule normalize_pricing_InrE)
  obtain s where pr1: "pr1 = pr\<lparr>pay_amount := ?pay, settle_currency := ?sc, order_amount := o', settle_amount := s\<rparr>"
    using normalize_settlement_frame [OF st(6)] by auto
  have o2: "normalize_order_amount p ?pay o' = Inr o'"
    using st(2,3) by (intro normalize_order_amount_idem [OF st(5)]) auto
  have "cm_code m = ?sc \<and> normalize_currency ?sc = ?sc" if "sm = Some m" for m
    using settle_meta_code [OF assms(1) st(4) that] settle_currency_for_normalized by simp
  then have s2: "normalize_settlement p pm sm pr1 = Inr pr1"
    using st(2) by (intro normalize_settlement_idem [OF st(6)]) auto
  have s3: "normalize_settlement p pm sm pr' = Inr pr'"
    unfolding st(8) using s2 by (rule normalize_settlement_fee)
  have same: "pr'\<lparr>pay_amount := ?pay, settle_currency := ?sc, order_amount := o'\<rparr> = pr'"
    "pr'\<lparr>fee_amount := fee\<rparr> = pr'"
    by (cases pr, simp add: st(8) pr1)+
  have parts: "pay_amount pr' = ?pay" "settle_currency pr' = ?sc" "order_amount pr' = o'" "fee_amount pr' = fee"
    by (simp_all add: st(8) pr1)
  show ?thesis
    using st(1,2,3,4) o2 normalize_fee_idem [OF st(7)]
    by (simp add: normalize_pricing_def parts Let_def) (simp only: same s3 bindR.simps parts)
qed

definition sample_rate :: exchange_rate_snapshot where
  "sample_rate = \<lparr>er_from = ''cny'', er_to = ''USD'', er_rate = ''0.14'', er_source = [], er_quoted_at = 0\<rparr>"

definition sample_pricing :: payment_pricing where
  "sample_pricing = (CNY 100)\<lparr>settle_currency := '' usd'', exchange_rate := Some sample_rate\<rparr>"

definition sample_normalized :: payment_pricing where
  "sample_normalized = sample_pricing\<lparr>order_amount := \<lparr>m_amount = 100, m_currency = ''CNY''\<rparr>,
     settle_currency := ''USD'', settle_amount := \<lparr>m_amount = 14, m_currency = ''USD''\<rparr>\<rparr>"

lemma sample_normalizes:
  "normalize_pricing new_default_pricing_policy (Ctx None) sample_pricing = Inr sample_normalized"
  by code_simp

theorem normalize_pricing_idempotent_witness:
  "normalize_pricing new_default_pricing_policy (Ctx None) sample_normalized = Inr sample_normalized"
  by (rule normalize_pricing_idempotent [OF default_policy_consistent sample_normalizes])



end
