(* ===== verification/Keyed_Registry.thy ===== *)
theory Keyed_Registry
  imports Prelude
begin

text \<open>
  The contract the registries of the program share (payment adapters in \<^verbatim>\<open>core/payment\<close>,
  capabilities, providers, commands, adapters and plugins in \<^verbatim>\<open>core/runtime\<close>): an entry is
  filed under its key, a taken key is refused, and nothing else changes.  What clients rely
  on (an entry once found is found for ever, keys are unique) is proved from the contract,
  once, for every sequence of registrations.
\<close>

text \<open>Operations applied one after the other, up to the first error.\<close>

fun seq_ops :: "('s \<Rightarrow> 'a \<Rightarrow> 'e + 's) \<Rightarrow> 's \<Rightarrow> 'a list \<Rightarrow> 'e + 's" where
  "seq_ops f s [] = Inr s"
| "seq_ops f s (x # xs) = bindR (f s x) (\<lambda>s'. seq_ops f s' xs)"

locale keyed_registry =
  fixes register :: "'s \<Rightarrow> 'a \<Rightarrow> 'e + 's"
    and lookup :: "'s \<Rightarrow> 'k \<Rightarrow> 'v option"
    and key :: "'a \<Rightarrow> 'k"
    and inv :: "'s \<Rightarrow> bool"
  assumes inv_register: "inv s \<Longrightarrow> register s x = Inr s' \<Longrightarrow> inv s'"
    and lookup_register:
      "inv s \<Longrightarrow> register s x = Inr s' \<Longrightarrow> \<exists>v. lookup s' = (lookup s)(key x \<mapsto> v)"
    and register_fresh: "inv s \<Longrightarrow> register s x = Inr s' \<Longrightarrow> lookup s (key x) = None"
begin

lemma register_taken: "inv s \<Longrightarrow> lookup s (key x) = Some v \<Longrightarrow> \<exists>e. register s x = Inl e"
  by (cases "register s x") (auto dest: register_fresh)

lemma inv_seq: "inv s \<Longrightarrow> seq_ops register s xs = Inr s' \<Longrightarrow> inv s'"
  by (induction xs arbitrary: s) (auto simp: bindR_Inr_iff dest: inv_register)

lemma lookup_stable:
  "inv s \<Longrightarrow> seq_ops register s xs = Inr s' \<Longrightarrow> lookup s k = Some v \<Longrightarrow> lookup s' k = Some v"
proof (induction xs arbitrary: s)
  case Nil
  then show ?case by simp
next
  case (Cons x xs)
  from Cons.prems(2) obtain t where t: "register s x = Inr t" "seq_ops register t xs = Inr s'"
    by (auto simp: bindR_Inr_iff)
  have "lookup t k = Some v"
    using lookup_register [OF Cons.prems(1) t(1)] register_fresh [OF Cons.prems(1) t(1)] Cons.prems(3)
    by (auto simp: fun_upd_def)
  then show ?case using Cons.IH [OF inv_register [OF Cons.prems(1) t(1)] t(2)] by blast
qed

lemma lookup_seq_dom:
  "inv s \<Longrightarrow> seq_ops register s xs = Inr s' \<Longrightarrow> dom (lookup s') = dom (lookup s) \<union> key ` set xs"
proof (induction xs arbitrary: s)
  case Nil
  then show ?case by simp
next
  case (Cons x xs)
  from Cons.prems(2) obtain t where t: "register s x = Inr t" "seq_ops register t xs = Inr s'"
    by (auto simp: bindR_Inr_iff)
  obtain v where "lookup t = (lookup s)(key x \<mapsto> v)"
    using lookup_register [OF Cons.prems(1) t(1)] by blast
  then show ?case
    using Cons.IH [OF inv_register [OF Cons.prems(1) t(1)] t(2)] by auto
qed

lemma seq_keys_distinct:
  "inv s \<Longrightarrow> seq_ops register s xs = Inr s' \<Longrightarrow>
   distinct (map key xs) \<and> key ` set xs \<inter> dom (lookup s) = {}"
proof (induction xs arbitrary: s)
  case Nil
  then show ?case by simp
next
  case (Cons x xs)
  from Cons.prems(2) obtain t where t: "register s x = Inr t" "seq_ops register t xs = Inr s'"
    by (auto simp: bindR_Inr_iff)
  obtain v where v: "lookup t = (lookup s)(key x \<mapsto> v)"
    using lookup_register [OF Cons.prems(1) t(1)] by blast
  have "distinct (map key xs) \<and> key ` set xs \<inter> dom (lookup t) = {}"
    using Cons.IH [OF inv_register [OF Cons.prems(1) t(1)] t(2)] .
  with v register_fresh [OF Cons.prems(1) t(1)] show ?case by (auto simp: dom_def)
qed

end

end
