(* ===== verification/Pay_Service.thy ===== *)
theory Pay_Service
  imports Pay_Payout_Types Pay_Pricing Keyed_Registry
begin

text \<open>
  \<^verbatim>\<open>core/payment/registry.go\<close>, \<^verbatim>\<open>channel_selector.go\<close>, \<^verbatim>\<open>validation.go\<close> and \<^verbatim>\<open>service.go\<close>: the
  adapter registry, the choice of a channel by merchant key, the validation of requests and
  actions, and the payment service that guards every call to a provider adapter.  An adapter
  is code outside the package: its operations are functions over a world state \<open>'w\<close>, so that
  a theorem can say whether the provider was contacted.
\<close>

section \<open>Provider adapters and their registry (request.go, registry.go)\<close>

text \<open>The last four fields are what a type assertion to an optional interface of payouts yields.\<close>

record 'w adapter =
  ad_name :: provider
  ad_capabilities :: capabilities
  ad_create :: "pay_error go_ctx \<Rightarrow> create_request \<Rightarrow> 'w \<Rightarrow> create_response option pay_result \<times> 'w"
  ad_query :: "pay_error go_ctx \<Rightarrow> query_request \<Rightarrow> 'w \<Rightarrow> query_response option pay_result \<times> 'w"
  ad_close :: "pay_error go_ctx \<Rightarrow> close_request \<Rightarrow> 'w \<Rightarrow> pay_error option \<times> 'w"
  ad_refund :: "pay_error go_ctx \<Rightarrow> refund_request \<Rightarrow> 'w \<Rightarrow> refund_response option pay_result \<times> 'w"
  ad_query_refund ::
    "pay_error go_ctx \<Rightarrow> query_refund_request \<Rightarrow> 'w \<Rightarrow> query_refund_response option pay_result \<times> 'w"
  ad_parse_notify :: "pay_error go_ctx \<Rightarrow> notify_request \<Rightarrow> 'w \<Rightarrow> notify_result option pay_result \<times> 'w"
  ad_payouts :: "'w payout_provider option"
  ad_beneficiaries :: "'w beneficiary_provider option"
  ad_batches :: "'w batch_provider option"
  ad_schemas :: "'w schema_provider option"

type_synonym 'w adapter_map = "provider \<rightharpoonup> 'w adapter"

definition new_registry :: "'w adapter_map" where
  "new_registry = Map.empty"

definition register_adapter :: "'w adapter_map \<Rightarrow> 'w adapter option \<Rightarrow> 'w adapter_map pay_result" where
  "register_adapter r adapter =
     (case adapter of
        None \<Rightarrow> Inl (PayErr ErrAdapterNotFound ''nil adapter'')
      | Some a \<Rightarrow>
          (if ad_name a = [] then Inl (PayErr ErrUnsupportedProvider ''empty provider'')
           else if r (ad_name a) \<noteq> None then Inl (PayErr ErrAdapterAlreadyExists (ad_name a))
           else Inr (r(ad_name a \<mapsto> a))))"

definition lookup_adapter :: "'w adapter_map \<Rightarrow> provider \<Rightarrow> 'w adapter pay_result" where
  "lookup_adapter r p =
     (case r p of None \<Rightarrow> Inl (PayErr ErrAdapterNotFound p) | Some a \<Rightarrow> Inr a)"

section \<open>Channel selection (channel\_selector.go)\<close>

datatype payment_operation =
    PaymentOperationCreate | PaymentOperationQuery | PaymentOperationClose
  | PaymentOperationRefund | PaymentOperationQueryRefund | PaymentOperationOther string

record selection_request =
  sq_provider :: provider
  sq_channel :: channel
  sq_merchant_key :: string
  sq_operation :: payment_operation

record channel_selection =
  sl_disabled_for_new :: bool
  sl_provider :: provider
  sl_channel :: channel
  sl_merchant_key :: string

record channel_binding =
  cb_disabled_for_new :: bool
  cb_key :: string
  cb_provider :: provider
  cb_channel :: channel
  cb_merchant_key :: string

type_synonym binding_map = "string \<rightharpoonup> channel_selection"

definition normalize_binding :: "channel_binding \<Rightarrow> (string \<times> channel_selection) pay_result" where
  "normalize_binding b =
     (if cb_key b = [] then Inl (PayErr ErrInvalidRequest ''channel binding key is required'')
      else if cb_provider b = []
      then Inl (PayErr ErrUnsupportedProvider ''channel binding provider is required'')
      else if cb_channel b = []
      then Inl (PayErr ErrUnsupportedChannel ''channel binding channel is required'')
      else Inr (cb_key b,
             \<lparr>sl_disabled_for_new = cb_disabled_for_new b, sl_provider = cb_provider b,
              sl_channel = cb_channel b,
              sl_merchant_key = (if cb_merchant_key b = [] then cb_key b else cb_merchant_key b)\<rparr>))"

definition add_binding :: "binding_map \<Rightarrow> channel_binding \<Rightarrow> binding_map pay_result" where
  "add_binding m b =
     bindR (normalize_binding b) (\<lambda>(key, selection).
       if m key \<noteq> None
       then Inl (PayErr ErrAdapterAlreadyExists (''duplicate channel binding '' @ key))
       else Inr (m(key \<mapsto> selection)))"

definition build_binding_map :: "channel_binding list \<Rightarrow> binding_map pay_result" where
  "build_binding_map bindings = seq_ops add_binding Map.empty bindings"

definition blocks_new :: "payment_operation \<Rightarrow> bool" where
  "blocks_new op \<longleftrightarrow>
     op = PaymentOperationCreate \<or> op = PaymentOperationOther ''create_payout'' \<or>
     op = PaymentOperationOther ''create_beneficiary'' \<or>
     op = PaymentOperationOther ''create_payout_batch''"

definition static_select ::
  "binding_map \<Rightarrow> pay_error go_ctx \<Rightarrow> selection_request \<Rightarrow> channel_selection pay_result" where
  "static_select m ctx req =
     (case ctx of
        NilCtx \<Rightarrow> Inl (PayErr ErrNilContext [])
      | Ctx (Some e) \<Rightarrow> Inl e
      | Ctx None \<Rightarrow>
          (if sq_merchant_key req = [] then Inl (PayErr ErrInvalidRequest ''merchant key is required'')
           else (case m (sq_merchant_key req) of
             None \<Rightarrow> Inl (PayErr ErrAdapterNotFound (''payment channel binding '' @ sq_merchant_key req))
           | Some sel \<Rightarrow>
               (if sq_provider req \<noteq> [] \<and> sq_provider req \<noteq> sl_provider sel
                then Inl (PayErr ErrUnsupportedProvider (''channel binding '' @ sq_merchant_key req))
                else if sq_channel req \<noteq> [] \<and> sq_channel req \<noteq> sl_channel sel
                then Inl (PayErr ErrUnsupportedChannel (''channel binding '' @ sq_merchant_key req))
                else if sl_disabled_for_new sel \<and> blocks_new (sq_operation req)
                then Inl (PayErr ErrInvalidRequest ''merchant disabled for new payments'')
                else Inr sel))))"

text \<open>
  The \<open>ChannelSelector\<close> of a service: none, the static one, or one supplied by the
  application, reloadable or not.
\<close>

datatype selector =
    NoSelector
  | StaticSelector binding_map
  | OtherSelector "pay_error go_ctx \<Rightarrow> selection_request \<Rightarrow> channel_selection option pay_result"
      "(channel_binding list \<Rightarrow> selector pay_result) option"

definition new_static_selector :: "channel_binding list \<Rightarrow> selector pay_result" where
  "new_static_selector bindings = map_sum id StaticSelector (build_binding_map bindings)"

text \<open>\<open>Reload\<close> of the static selector: on an error the old bindings stay.\<close>

definition reload_static :: "binding_map \<Rightarrow> channel_binding list \<Rightarrow> pay_error option \<times> binding_map" where
  "reload_static m bindings =
     (case build_binding_map bindings of Inl e \<Rightarrow> (Some e, m) | Inr m' \<Rightarrow> (None, m'))"

section \<open>Validation (validation.go)\<close>

definition has_payment_reference :: "string \<Rightarrow> string \<Rightarrow> string \<Rightarrow> string \<Rightarrow> bool" where
  "has_payment_reference payment_id out_trade_no provider_trade_id order_id \<longleftrightarrow>
     trim_space payment_id \<noteq> [] \<or> trim_space out_trade_no \<noteq> [] \<or>
     trim_space provider_trade_id \<noteq> [] \<or> trim_space order_id \<noteq> []"

definition invalid_request :: "string \<Rightarrow> 'a pay_result" where
  "invalid_request msg = Inl (PayErr ErrInvalidRequest msg)"

definition validate_create :: "create_request \<Rightarrow> go_time \<Rightarrow> unit pay_result" where
  "validate_create req now =
     (if cr_provider req = [] then invalid_request ''provider is required''
      else if cr_channel req = [] then invalid_request ''channel is required''
      else if \<not> has_payment_reference (cr_payment_id req) (cr_out_trade_no req) [] []
      then invalid_request ''payment_id or out_trade_no is required''
      else (case cr_expire_at req of
              None \<Rightarrow> Inr ()
            | Some t \<Rightarrow> if \<not> now < t then invalid_request ''expire_at must be in the future''
                        else Inr ()))"

definition validate_query :: "query_request \<Rightarrow> unit pay_result" where
  "validate_query req =
     (if qr_provider req = [] then invalid_request ''provider is required''
      else if qr_channel req = [] then invalid_request ''channel is required''
      else if \<not> has_payment_reference (qr_payment_id req) (qr_out_trade_no req)
                 (qr_provider_trade_id req) (qr_order_id req)
      then invalid_request ''payment reference is required'' else Inr ())"

definition validate_close :: "close_request \<Rightarrow> unit pay_result" where
  "validate_close req =
     (if cl_provider req = [] then invalid_request ''provider is required''
      else if cl_channel req = [] then invalid_request ''channel is required''
      else if \<not> has_payment_reference (cl_payment_id req) (cl_out_trade_no req)
                 (cl_provider_trade_id req) (cl_order_id req)
      then invalid_request ''payment reference is required'' else Inr ())"

definition validate_refund :: "refund_request \<Rightarrow> unit pay_result" where
  "validate_refund req =
     (if rr_provider req = [] then invalid_request ''provider is required''
      else if rr_channel req = [] then invalid_request ''channel is required''
      else if \<not> has_payment_reference (rr_payment_id req) (rr_provider_trade_id req)
                 (rr_out_trade_no req) (rr_order_id req)
      then invalid_request ''payment reference is required'' else Inr ())"

definition validate_query_refund :: "query_refund_request \<Rightarrow> unit pay_result" where
  "validate_query_refund req =
     (if fr_provider req = [] then invalid_request ''provider is required''
      else if fr_channel req = [] then invalid_request ''channel is required''
      else if trim_space (fr_refund_id req) = [] \<and> trim_space (fr_out_refund_no req) = [] \<and>
              trim_space (fr_provider_refund_id req) = []
      then invalid_request ''refund reference is required'' else Inr ())"

definition validate_notify :: "notify_request \<Rightarrow> unit pay_result" where
  "validate_notify req =
     (if nr_provider req = [] then invalid_request ''provider is required''
      else if nr_channel req = [] then invalid_request ''channel is required'' else Inr ())"

definition invalid_action :: "string \<Rightarrow> payment_action pay_result" where
  "invalid_action msg = Inl (PayErr ErrInvalidAction msg)"

definition normalize_action :: "payment_action \<Rightarrow> payment_action pay_result" where
  "normalize_action action0 =
     (let action = (if act_type action0 = ActionUnset then action0\<lparr>act_type := ActionNone\<rparr> else action0)
      in (case act_type action of
            ActionNone \<Rightarrow> Inr action
          | ActionRedirectURL \<Rightarrow>
              (if trim_space (act_url action) = [] then invalid_action ''redirect_url requires url''
               else Inr action)
          | ActionHTMLForm \<Rightarrow>
              (if trim_space (act_html action) \<noteq> [] then Inr action
               else if trim_space (act_url action) = []
               then invalid_action ''html_form requires html or url''
               else if act_fields action = []
               then invalid_action ''html_form requires fields when html is empty''
               else if trim_space (act_method action) = [] then Inr (action\<lparr>act_method := ''POST''\<rparr>)
               else Inr action)
          | ActionQRCode \<Rightarrow>
              (if trim_space (act_url action) = [] \<and> trim_space (act_token action) = []
               then invalid_action ''qr_code requires url or token'' else Inr action)
          | ActionSDKParams \<Rightarrow>
              (if act_params action = [] then invalid_action ''sdk_params requires params''
               else Inr action)
          | ActionClientToken \<Rightarrow>
              (if trim_space (act_token action) = [] then invalid_action ''client_token requires token''
               else Inr action)
          | _ \<Rightarrow> invalid_action ''unknown action type''))"

section \<open>The payment service (service.go)\<close>

record 'w pay_service =
  sv_registry :: "'w adapter_map"
  sv_pricing :: "pay_error go_ctx \<Rightarrow> payment_pricing \<Rightarrow> payment_pricing pay_result"
  sv_selector :: selector

text \<open>\<open>NewService\<close>: a nil policy is the default one.\<close>

definition new_service ::
  "'w adapter_map option \<Rightarrow> (pay_error go_ctx \<Rightarrow> payment_pricing \<Rightarrow> payment_pricing pay_result) option \<Rightarrow>
   selector \<Rightarrow> 'w pay_service pay_result" where
  "new_service registry policy sel =
     (case registry of
        None \<Rightarrow> Inl (PayErr ErrAdapterNotFound ''registry is required'')
      | Some r \<Rightarrow>
          Inr \<lparr>sv_registry = r,
               sv_pricing = (case policy of None \<Rightarrow> normalize_pricing_default | Some f \<Rightarrow> f),
               sv_selector = sel\<rparr>)"

definition selector_select ::
  "selector \<Rightarrow> pay_error go_ctx \<Rightarrow> selection_request \<Rightarrow> channel_selection option pay_result" where
  "selector_select sel ctx req =
     (case sel of
        NoSelector \<Rightarrow> Inr None
      | StaticSelector m \<Rightarrow> map_sum id Some (static_select m ctx req)
      | OtherSelector f _ \<Rightarrow> f ctx req)"

text \<open>\<open>ReloadChannels\<close>: the error, and the selector afterwards.\<close>

definition reload_channels ::
  "'w pay_service \<Rightarrow> channel_binding list \<Rightarrow> pay_error option \<times> 'w pay_service" where
  "reload_channels s bindings =
     (let unsupported = (Some (PayErr ErrUnsupportedCapability
            ''payment channel selector is not reloadable''), s)
      in case sv_selector s of
           NoSelector \<Rightarrow> unsupported
         | StaticSelector m \<Rightarrow>
             (let (e, m') = reload_static m bindings in (e, s\<lparr>sv_selector := StaticSelector m'\<rparr>))
         | OtherSelector f reload \<Rightarrow>
             (case reload of
                None \<Rightarrow> unsupported
              | Some g \<Rightarrow> (case g bindings of Inl e \<Rightarrow> (Some e, s)
                            | Inr sel \<Rightarrow> (None, s\<lparr>sv_selector := sel\<rparr>))))"

text \<open>
  \<open>selectChannel\<close>: provider, channel and merchant key of the request, possibly replaced.  The
  callers pass the addresses of the request's fields, so the pointers are never nil, and the
  fields are written only when nothing failed.
\<close>

definition apply_selection ::
  "provider \<Rightarrow> channel \<Rightarrow> string \<Rightarrow> channel_selection \<Rightarrow> (provider \<times> channel \<times> string) pay_result" where
  "apply_selection prov chan mkey sel =
     (if sl_provider sel = [] then Inl (PayErr ErrUnsupportedProvider ''selected provider is required'')
      else if sl_channel sel = [] then Inl (PayErr ErrUnsupportedChannel ''selected channel is required'')
      else if prov \<noteq> [] \<and> prov \<noteq> sl_provider sel
      then Inl (PayErr ErrUnsupportedProvider ''selected provider does not match'')
      else if chan \<noteq> [] \<and> chan \<noteq> sl_channel sel
      then Inl (PayErr ErrUnsupportedChannel ''selected channel does not match'')
      else Inr (sl_provider sel, sl_channel sel,
             if sl_merchant_key sel \<noteq> [] then sl_merchant_key sel else mkey))"

definition select_channel ::
  "'w pay_service \<Rightarrow> pay_error go_ctx \<Rightarrow> payment_operation \<Rightarrow> provider \<Rightarrow> channel \<Rightarrow> string \<Rightarrow>
   (provider \<times> channel \<times> string) pay_result" where
  "select_channel s ctx op prov chan mkey =
     (if (case sv_selector s of NoSelector \<Rightarrow> True | _ \<Rightarrow> False) \<or> mkey = []
      then Inr (prov, chan, mkey)
      else (case selector_select (sv_selector s) ctx
                   \<lparr>sq_provider = prov, sq_channel = chan, sq_merchant_key = mkey, sq_operation = op\<rparr> of
              Inl e \<Rightarrow>
                (if prov \<noteq> [] \<and> chan \<noteq> [] \<and> pay_is e ErrAdapterNotFound
                 then Inr (prov, chan, mkey) else Inl e)
            | Inr None \<Rightarrow> Inl (PayErr ErrAdapterNotFound ''nil payment channel selection'')
            | Inr (Some sel) \<Rightarrow> apply_selection prov chan mkey sel))"

text \<open>\<open>Service.adapter\<close>: the adapter and its capabilities with the provider filled in.\<close>

definition service_adapter :: "'w pay_service \<Rightarrow> provider \<Rightarrow> ('w adapter \<times> capabilities) pay_result" where
  "service_adapter s prov =
     bindR (lookup_adapter (sv_registry s) prov) (\<lambda>a.
       let caps = ad_capabilities a in
       if cap_provider caps \<noteq> [] \<and> cap_provider caps \<noteq> prov
       then Inl (PayErr ErrUnsupportedProvider (''capability provider '' @ cap_provider caps @
              '' does not match '' @ prov))
       else Inr (a, if cap_provider caps = [] then caps\<lparr>cap_provider := prov\<rparr> else caps))"

definition validate_channel :: "capabilities \<Rightarrow> channel \<Rightarrow> unit pay_result" where
  "validate_channel caps chan =
     (if cap_channels caps = [] \<or> chan \<in> set (cap_channels caps) then Inr ()
      else Inl (PayErr ErrUnsupportedChannel chan))"

definition validate_currency :: "capabilities \<Rightarrow> string \<Rightarrow> unit pay_result" where
  "validate_currency caps cur =
     (if cap_currencies caps = [] \<or>
         normalize_currency cur \<in> set (map normalize_currency (cap_currencies caps)) then Inr ()
      else Inl (PayErr ErrUnsupportedCapability (''currency '' @ normalize_currency cur)))"

definition validate_action :: "capabilities \<Rightarrow> action_type \<Rightarrow> unit pay_result" where
  "validate_action caps t =
     (if cap_actions caps = [] \<or> t = ActionUnset \<or> t \<in> set (cap_actions caps) then Inr ()
      else Inl (PayErr ErrUnsupportedCapability ''action''))"

definition normalize_refund_amount :: "refund_amount \<Rightarrow> refund_amount pay_result" where
  "normalize_refund_amount a =
     (if m_amount (ra_refund a) \<le> 0
      then Inl (PayErr ErrInvalidAmount ''refund amount must be positive'')
      else
        (let refund = (ra_refund a)\<lparr>m_currency := normalize_currency (m_currency (ra_refund a))\<rparr>
         in if m_amount (ra_settle a) = 0 \<and> m_currency (ra_settle a) = []
            then Inr \<lparr>ra_refund = refund, ra_settle = refund\<rparr>
            else if m_amount (ra_settle a) \<le> 0
            then Inl (PayErr ErrInvalidAmount ''refund settle amount must be positive'')
            else Inr \<lparr>ra_refund = refund,
                   ra_settle = (ra_settle a)\<lparr>m_currency := normalize_currency (m_currency (ra_settle a))\<rparr>\<rparr>))"

text \<open>\<open>if dst == "" { dst = src }\<close>.\<close>

definition fill :: "string \<Rightarrow> string \<Rightarrow> string" where
  "fill dst src = (if dst = [] then src else dst)"

definition fill_create_response :: "create_response \<Rightarrow> create_request \<Rightarrow> create_response" where
  "fill_create_response r req =
     r\<lparr>cs_provider := fill (cs_provider r) (cr_provider req),
       cs_channel := fill (cs_channel r) (cr_channel req),
       cs_merchant_key := fill (cs_merchant_key r) (cr_merchant_key req),
       cs_payment_id := fill (cs_payment_id r) (cr_payment_id req),
       cs_order_id := fill (cs_order_id r) (cr_order_id req),
       cs_out_trade_no := fill (cs_out_trade_no r) (cr_out_trade_no req)\<rparr>"

definition fill_query_response :: "query_response option \<Rightarrow> query_request \<Rightarrow> query_response option" where
  "fill_query_response resp req =
     map_option (\<lambda>r. r\<lparr>qs_provider := fill (qs_provider r) (qr_provider req),
       qs_channel := fill (qs_channel r) (qr_channel req),
       qs_merchant_key := fill (qs_merchant_key r) (qr_merchant_key req),
       qs_payment_id := fill (qs_payment_id r) (qr_payment_id req),
       qs_order_id := fill (qs_order_id r) (qr_order_id req),
       qs_out_trade_no := fill (qs_out_trade_no r) (qr_out_trade_no req),
       qs_provider_trade_id := fill (qs_provider_trade_id r) (qr_provider_trade_id req)\<rparr>) resp"

definition fill_query_refund_response ::
  "query_refund_response option \<Rightarrow> query_refund_request \<Rightarrow> query_refund_response option" where
  "fill_query_refund_response resp req =
     map_option (\<lambda>r. r\<lparr>fs_provider := fill (fs_provider r) (fr_provider req),
       fs_channel := fill (fs_channel r) (fr_channel req),
       fs_merchant_key := fill (fs_merchant_key r) (fr_merchant_key req),
       fs_payment_id := fill (fs_payment_id r) (fr_payment_id req),
       fs_out_trade_no := fill (fs_out_trade_no r) (fr_out_trade_no req),
       fs_provider_trade_id := fill (fs_provider_trade_id r) (fr_provider_trade_id req),
       fs_refund_id := fill (fs_refund_id r) (fr_refund_id req),
       fs_provider_refund_id := fill (fs_provider_refund_id r) (fr_provider_refund_id req),
       fs_out_refund_no := fill (fs_out_refund_no r) (fr_out_refund_no req)\<rparr>) resp"

text \<open>\<open>if ctx == nil { return ErrNilContext }\<close>.\<close>

definition need_ctx :: "pay_error go_ctx \<Rightarrow> unit pay_result" where
  "need_ctx ctx = guardR (ctx \<noteq> NilCtx) (PayErr ErrNilContext [])"

text \<open>
  Each operation is a preparation (the checks before the provider is called, which yield the
  adapter, its capabilities and the request it will be given), the call, and what is done
  with the answer.  \<open>run_prepared\<close> composes them: a failed preparation leaves the world alone.
\<close>

definition run_prepared :: "'p pay_result \<Rightarrow> ('p \<Rightarrow> 'w \<Rightarrow> 'a pay_result \<times> 'w) \<Rightarrow> 'w \<Rightarrow> 'a pay_result \<times> 'w" where
  "run_prepared prep call w = (case prep of Inl e \<Rightarrow> (Inl e, w) | Inr p \<Rightarrow> call p w)"

definition prepare_create ::
  "'w pay_service \<Rightarrow> pay_error go_ctx \<Rightarrow> go_time \<Rightarrow> create_request \<Rightarrow>
   ('w adapter \<times> capabilities \<times> create_request) pay_result" where
  "prepare_create s ctx now req0 =
     bindR (need_ctx ctx) (\<lambda>_.
     bindR (select_channel s ctx PaymentOperationCreate (cr_provider req0) (cr_channel req0)
              (cr_merchant_key req0)) (\<lambda>(prov, chan, mkey).
     let req = req0\<lparr>cr_provider := prov, cr_channel := chan, cr_merchant_key := mkey\<rparr> in
     bindR (validate_create req now) (\<lambda>_.
     bindR (service_adapter s (cr_provider req)) (\<lambda>(a, caps).
     bindR (validate_channel caps (cr_channel req)) (\<lambda>_.
     bindR (sv_pricing s ctx (cr_pricing req)) (\<lambda>pricing.
     bindR (validate_currency caps (m_currency (pay_amount pricing))) (\<lambda>_.
     Inr (a, caps, req\<lparr>cr_pricing := pricing\<rparr>))))))))"

text \<open>What \<open>CreatePayment\<close> does with the adapter's response.\<close>

definition finish_create ::
  "capabilities \<Rightarrow> create_request \<Rightarrow> create_response option \<Rightarrow> create_response pay_result" where
  "finish_create caps req resp =
     (case resp of
        None \<Rightarrow> Inl (PayErr ErrPaymentActionRequired ''nil create payment response'')
      | Some r \<Rightarrow>
          bindR (normalize_action (cs_action r)) (\<lambda>action.
          bindR (validate_action caps (act_type action)) (\<lambda>_.
          let r' = fill_create_response (r\<lparr>cs_action := action\<rparr>) req
          in Inr (if m_amount (pay_amount (cs_pricing r')) = 0 then r'\<lparr>cs_pricing := cr_pricing req\<rparr>
                  else r'))))"

definition create_payment ::
  "'w pay_service \<Rightarrow> pay_error go_ctx \<Rightarrow> go_time \<Rightarrow> create_request \<Rightarrow> 'w \<Rightarrow>
   create_response pay_result \<times> 'w" where
  "create_payment s ctx now req0 =
     run_prepared (prepare_create s ctx now req0) (\<lambda>(a, caps, req) w.
       let (res, w') = ad_create a ctx req w in (bindR res (finish_create caps req), w'))"

definition prepare_query ::
  "'w pay_service \<Rightarrow> pay_error go_ctx \<Rightarrow> query_request \<Rightarrow> ('w adapter \<times> query_request) pay_result" where
  "prepare_query s ctx req0 =
     bindR (need_ctx ctx) (\<lambda>_.
     bindR (select_channel s ctx PaymentOperationQuery (qr_provider req0) (qr_channel req0)
              (qr_merchant_key req0)) (\<lambda>(prov, chan, mkey).
     let req = req0\<lparr>qr_provider := prov, qr_channel := chan, qr_merchant_key := mkey\<rparr> in
     bindR (validate_query req) (\<lambda>_.
     bindR (service_adapter s (qr_provider req)) (\<lambda>(a, caps).
     bindR (validate_channel caps (qr_channel req)) (\<lambda>_.
     bindR (guardR (supports_query caps) (PayErr ErrUnsupportedCapability ''query payment'')) (\<lambda>_.
     Inr (a, req)))))))"

definition query_payment ::
  "'w pay_service \<Rightarrow> pay_error go_ctx \<Rightarrow> query_request \<Rightarrow> 'w \<Rightarrow> query_response option pay_result \<times> 'w" where
  "query_payment s ctx req0 =
     run_prepared (prepare_query s ctx req0) (\<lambda>(a, req) w.
       let (res, w') = ad_query a ctx req w
       in (bindR res (\<lambda>r. Inr (fill_query_response r req)), w'))"

definition prepare_close ::
  "'w pay_service \<Rightarrow> pay_error go_ctx \<Rightarrow> close_request \<Rightarrow> ('w adapter \<times> close_request) pay_result" where
  "prepare_close s ctx req0 =
     bindR (need_ctx ctx) (\<lambda>_.
     bindR (select_channel s ctx PaymentOperationClose (cl_provider req0) (cl_channel req0)
              (cl_merchant_key req0)) (\<lambda>(prov, chan, mkey).
     let req = req0\<lparr>cl_provider := prov, cl_channel := chan, cl_merchant_key := mkey\<rparr> in
     bindR (validate_close req) (\<lambda>_.
     bindR (service_adapter s (cl_provider req)) (\<lambda>(a, caps).
     bindR (validate_channel caps (cl_channel req)) (\<lambda>_.
     bindR (guardR (supports_close caps) (PayErr ErrUnsupportedCapability ''close payment'')) (\<lambda>_.
     Inr (a, req)))))))"

definition close_payment ::
  "'w pay_service \<Rightarrow> pay_error go_ctx \<Rightarrow> close_request \<Rightarrow> 'w \<Rightarrow> unit pay_result \<times> 'w" where
  "close_payment s ctx req0 =
     run_prepared (prepare_close s ctx req0) (\<lambda>(a, req) w.
       let (e, w') = ad_close a ctx req w in (case e of None \<Rightarrow> Inr () | Some x \<Rightarrow> Inl x, w'))"

definition prepare_refund ::
  "'w pay_service \<Rightarrow> pay_error go_ctx \<Rightarrow> refund_request \<Rightarrow> ('w adapter \<times> refund_request) pay_result" where
  "prepare_refund s ctx req0 =
     bindR (need_ctx ctx) (\<lambda>_.
     bindR (select_channel s ctx PaymentOperationRefund (rr_provider req0) (rr_channel req0)
              (rr_merchant_key req0)) (\<lambda>(prov, chan, mkey).
     let req = req0\<lparr>rr_provider := prov, rr_channel := chan, rr_merchant_key := mkey\<rparr> in
     bindR (validate_refund req) (\<lambda>_.
     bindR (service_adapter s (rr_provider req)) (\<lambda>(a, caps).
     bindR (validate_channel caps (rr_channel req)) (\<lambda>_.
     bindR (guardR (supports_refund caps) (PayErr ErrUnsupportedCapability ''refund'')) (\<lambda>_.
     bindR (normalize_refund_amount (rr_amount req)) (\<lambda>amount.
     bindR (validate_currency caps (m_currency (ra_refund amount))) (\<lambda>_.
     Inr (a, req\<lparr>rr_amount := amount\<rparr>)))))))))"

definition refund_payment ::
  "'w pay_service \<Rightarrow> pay_error go_ctx \<Rightarrow> refund_request \<Rightarrow> 'w \<Rightarrow> refund_response option pay_result \<times> 'w" where
  "refund_payment s ctx req0 =
     run_prepared (prepare_refund s ctx req0) (\<lambda>(a, req) w. ad_refund a ctx req w)"

definition prepare_query_refund ::
  "'w pay_service \<Rightarrow> pay_error go_ctx \<Rightarrow> query_refund_request \<Rightarrow>
   ('w adapter \<times> query_refund_request) pay_result" where
  "prepare_query_refund s ctx req0 =
     bindR (need_ctx ctx) (\<lambda>_.
     bindR (select_channel s ctx PaymentOperationQueryRefund (fr_provider req0) (fr_channel req0)
              (fr_merchant_key req0)) (\<lambda>(prov, chan, mkey).
     let req = req0\<lparr>fr_provider := prov, fr_channel := chan, fr_merchant_key := mkey\<rparr> in
     bindR (validate_query_refund req) (\<lambda>_.
     bindR (service_adapter s (fr_provider req)) (\<lambda>(a, caps).
     bindR (validate_channel caps (fr_channel req)) (\<lambda>_.
     bindR (guardR (supports_query_refund caps) (PayErr ErrUnsupportedCapability ''query refund'')) (\<lambda>_.
     Inr (a, req)))))))"

definition query_refund ::
  "'w pay_service \<Rightarrow> pay_error go_ctx \<Rightarrow> query_refund_request \<Rightarrow> 'w \<Rightarrow>
   query_refund_response option pay_result \<times> 'w" where
  "query_refund s ctx req0 =
     run_prepared (prepare_query_refund s ctx req0) (\<lambda>(a, req) w.
       let (res, w') = ad_query_refund a ctx req w
       in (bindR res (\<lambda>r. Inr (fill_query_refund_response r req)), w'))"

definition prepare_notify ::
  "'w pay_service \<Rightarrow> pay_error go_ctx \<Rightarrow> notify_request \<Rightarrow> 'w adapter pay_result" where
  "prepare_notify s ctx req =
     bindR (need_ctx ctx) (\<lambda>_.
     bindR (validate_notify req) (\<lambda>_.
     bindR (service_adapter s (nr_provider req)) (\<lambda>(a, caps).
     bindR (validate_channel caps (nr_channel req)) (\<lambda>_.
     bindR (guardR (supports_notify caps) (PayErr ErrUnsupportedCapability ''notify'')) (\<lambda>_.
     Inr a)))))"

definition notify_fail :: "'a pay_result" where
  "notify_fail = Inl (PayErr ErrNotifyVerificationFail [])"

definition check_notify_event :: "notify_request \<Rightarrow> payment_event \<Rightarrow> payment_event pay_result" where
  "check_notify_event req ev =
     (if ev_provider ev \<noteq> [] \<and> ev_provider ev \<noteq> nr_provider req then notify_fail
      else if ev_channel ev \<noteq> [] \<and> ev_channel ev \<noteq> nr_channel req then notify_fail
      else if nr_merchant_key req \<noteq> [] \<and> ev_merchant_key ev \<noteq> [] \<and>
              ev_merchant_key ev \<noteq> nr_merchant_key req then notify_fail
      else Inr (ev\<lparr>ev_provider := fill (ev_provider ev) (nr_provider req),
                  ev_channel := fill (ev_channel ev) (nr_channel req),
                  ev_merchant_key := fill (ev_merchant_key ev) (nr_merchant_key req)\<rparr>))"

definition finish_notify :: "notify_request \<Rightarrow> notify_result option \<Rightarrow> notify_result pay_result" where
  "finish_notify req result =
     (case result of
        None \<Rightarrow> Inl (PayErr ErrNotifyVerificationFail ''nil notify result'')
      | Some r \<Rightarrow>
          (if \<not> nt_verified r then notify_fail
           else (case nt_event r of
                   None \<Rightarrow> Inr r
                 | Some ev \<Rightarrow> bindR (check_notify_event req ev) (\<lambda>ev'. Inr (r\<lparr>nt_event := Some ev'\<rparr>)))))"

definition handle_notify ::
  "'w pay_service \<Rightarrow> pay_error go_ctx \<Rightarrow> notify_request \<Rightarrow> 'w \<Rightarrow> notify_result pay_result \<times> 'w" where
  "handle_notify s ctx req =
     run_prepared (prepare_notify s ctx req) (\<lambda>a w.
       let (res, w') = ad_parse_notify a ctx req w in (bindR res (finish_notify req), w'))"

section \<open>Lemmas\<close>

subsection \<open>The registries meet the keyed registry contract\<close>

definition adapter_key :: "'w adapter option \<Rightarrow> provider" where
  "adapter_key a = (case a of None \<Rightarrow> [] | Some x \<Rightarrow> ad_name x)"

interpretation padp: keyed_registry register_adapter "\<lambda>r. r" adapter_key "\<lambda>_. True"
  by unfold_locales (auto simp: register_adapter_def adapter_key_def split: option.splits if_splits)

interpretation pbind: keyed_registry add_binding "\<lambda>m. m" cb_key "\<lambda>_. True"
  by unfold_locales
    (auto simp: add_binding_def normalize_binding_def bindR_Inr_iff split: if_splits)

text \<open>
  A payment adapter, once registered, stays the adapter of its provider through every
  later sequence of successful registrations, and no two registrations of such a sequence
  are for the same provider.
\<close>

theorem registered_adapter_stays:
  assumes "seq_ops register_adapter r as = Inr r'"
  shows "(\<forall>p a. r p = Some a \<longrightarrow> lookup_adapter r' p = Inr a) \<and> distinct (map adapter_key as)"
  using padp.lookup_stable [OF TrueI assms] padp.seq_keys_distinct [OF TrueI assms]
  by (simp add: lookup_adapter_def)

definition idle_caps :: capabilities where
  "idle_caps = \<lparr>cap_provider = [], cap_channels = [], cap_currencies = [], cap_actions = [],
     supports_multi_merchant = False, supports_expire_at = False, supports_close = True,
     supports_refund = True, supports_query_refund = True, supports_partial_refund = False,
     supports_query = True, supports_notify = True, supports_capture = False,
     supports_confirm = False, supports_reconcile = False, supports_dispute = False,
     supports_subscription = False\<rparr>"

text \<open>A concrete adapter for the witnesses: it counts the calls it receives.\<close>

definition counting_adapter :: "provider \<Rightarrow> notify_result option \<Rightarrow> nat adapter" where
  "counting_adapter p n = \<lparr>ad_name = p, ad_capabilities = idle_caps,
     ad_create = (\<lambda>_ _ w. (Inr None, Suc w)), ad_query = (\<lambda>_ _ w. (Inr None, Suc w)),
     ad_close = (\<lambda>_ _ w. (None, Suc w)), ad_refund = (\<lambda>_ _ w. (Inr None, Suc w)),
     ad_query_refund = (\<lambda>_ _ w. (Inr None, Suc w)), ad_parse_notify = (\<lambda>_ _ w. (Inr n, Suc w)),
     ad_payouts = None, ad_beneficiaries = None, ad_batches = None, ad_schemas = None\<rparr>"

theorem registered_adapter_stays_witness:
  "\<exists>r'. seq_ops register_adapter new_registry
       [Some (counting_adapter ''stripe'' None), Some (counting_adapter ''alipay'' None)] = Inr r' \<and>
     distinct (map adapter_key [Some (counting_adapter ''stripe'' None), Some (counting_adapter ''alipay'' None)])"
proof -
  let ?as = "[Some (counting_adapter ''stripe'' None), Some (counting_adapter ''alipay'' None)]"
  obtain r' where "seq_ops register_adapter new_registry ?as = Inr r'"
    by (simp add: register_adapter_def new_registry_def counting_adapter_def)
  with registered_adapter_stays [OF this] show ?thesis by blast
qed

text \<open>
  The channel bindings of a configuration are taken exactly as written: when the
  bindings are accepted, their keys are distinct and every binding is found under its key,
  with its provider and channel; anything else is refused as a whole.
\<close>

theorem bindings_resolve:
  assumes ok: "build_binding_map bs = Inr m" and b: "b \<in> set bs"
  shows "distinct (map cb_key bs) \<and> cb_provider b \<noteq> [] \<and> cb_channel b \<noteq> [] \<and>
    (\<exists>sel. m (cb_key b) = Some sel \<and> sl_provider sel = cb_provider b \<and>
       sl_channel sel = cb_channel b \<and> sl_disabled_for_new sel = cb_disabled_for_new b)"
proof -
  have ok': "seq_ops add_binding Map.empty bs = Inr m"
    using ok by (simp add: build_binding_map_def)
  obtain as cs where bs: "bs = as @ b # cs" using b by (meson split_list)
  have app: "seq_ops f s (xs @ ys) = bindR (seq_ops f s xs) (\<lambda>t. seq_ops f t ys)"
    for f :: "binding_map \<Rightarrow> channel_binding \<Rightarrow> binding_map pay_result" and s xs ys
    by (induction xs arbitrary: s) (auto, case_tac "f s a", auto)
  obtain m1 m2 where m: "add_binding m1 b = Inr m2" "seq_ops add_binding m2 cs = Inr m"
    using ok' by (auto simp: bs app bindR_Inr_iff)
  from m(1) obtain sel where sel: "m2 (cb_key b) = Some sel" "sl_provider sel = cb_provider b"
    "sl_channel sel = cb_channel b" "sl_disabled_for_new sel = cb_disabled_for_new b"
    "cb_provider b \<noteq> []" "cb_channel b \<noteq> []"
    by (auto simp: add_binding_def normalize_binding_def bindR_Inr_iff split: if_splits)
  moreover have "m (cb_key b) = Some sel" using pbind.lookup_stable [OF TrueI m(2) sel(1)] .
  ultimately show ?thesis using pbind.seq_keys_distinct [OF TrueI ok'] by blast
qed

definition sample_binding :: channel_binding where
  "sample_binding = \<lparr>cb_disabled_for_new = True, cb_key = ''m1'', cb_provider = ''stripe'',
     cb_channel = ''stripe_checkout'', cb_merchant_key = []\<rparr>"

theorem bindings_resolve_witness:
  "\<exists>m. build_binding_map [sample_binding] = Inr m \<and> m ''m1'' \<noteq> None"
proof -
  obtain m where "build_binding_map [sample_binding] = Inr m"
    by (simp add: build_binding_map_def add_binding_def normalize_binding_def sample_binding_def)
  with bindings_resolve [OF this, of sample_binding] show ?thesis
    by (auto simp: sample_binding_def)
qed

subsection \<open>What a passed check establishes\<close>

lemma run_prepared_moved:
  assumes "run_prepared prep call w = (res, w')" "w' \<noteq> w"
  obtains p where "prep = Inr p" "call p w = (res, w')"
  using assms by (auto simp: run_prepared_def split: sum.splits)

lemma service_adapter_InrE:
  assumes "service_adapter s prov = Inr (a, caps)"
  obtains "sv_registry s prov = Some a" "caps = (ad_capabilities a)\<lparr>cap_provider := prov\<rparr>"
    "cap_provider (ad_capabilities a) = [] \<or> cap_provider (ad_capabilities a) = prov"
proof -
  have "caps = (ad_capabilities a)\<lparr>cap_provider := prov\<rparr>"
    using assms by (cases "ad_capabilities a")
      (auto simp: service_adapter_def bindR_Inr_iff Let_def split: if_splits)
  with assms that show ?thesis
    by (auto simp: service_adapter_def lookup_adapter_def bindR_Inr_iff Let_def
        split: if_splits option.splits)
qed


lemma validate_currency_ok [simp]:
  "validate_currency caps c = Inr () \<longleftrightarrow> cap_currencies caps = [] \<or>
     normalize_currency c \<in> normalize_currency ` set (cap_currencies caps)"
  by (simp add: validate_currency_def)

lemma normalize_refund_amount_ok:
  assumes "normalize_refund_amount a = Inr b"
  shows "m_amount (ra_refund b) = m_amount (ra_refund a)" "m_amount (ra_refund b) > 0"
    "m_amount (ra_settle b) > 0"
    "normalize_currency (m_currency (ra_refund b)) = m_currency (ra_refund b)"
    "normalize_currency (m_currency (ra_settle b)) = m_currency (ra_settle b)"
  using assms by (auto simp: normalize_refund_amount_def Let_def split: if_splits)



definition sample_create :: create_request where
  "sample_create = \<lparr>cr_provider_trade_id = [], cr_provider = ''stripe'', cr_channel = ''stripe_checkout'',
     cr_merchant_key = [], cr_payment_id = ''p1'', cr_order_id = [], cr_out_trade_no = [],
     cr_subject = [], cr_body = [], cr_pricing = CNY 100, cr_notify_url = [], cr_return_url = [],
     cr_expire_at = None, cr_extra = Map.empty\<rparr>"

definition sample_service :: "notify_result option \<Rightarrow> selector \<Rightarrow> nat pay_service" where
  "sample_service n sel = \<lparr>sv_registry = [''stripe'' \<mapsto> counting_adapter ''stripe'' n],
     sv_pricing = normalize_pricing new_default_pricing_policy, sv_selector = sel\<rparr>"


lemma trim_p1: "trim_space ''p1'' = ''p1''"
  by (rule trim_space_printable) simp


text \<open>
  A refund reaches a provider only when the provider supports refunds, for a positive
  amount in a normalised currency it supports, and exactly once.
\<close>

theorem refund_only_when_supported:
  assumes "refund_payment s ctx req0 w = (res, w')" and "w' \<noteq> w"
  shows "\<exists>a req. sv_registry s (rr_provider req) = Some a \<and> supports_refund (ad_capabilities a) \<and>
    m_amount (ra_refund (rr_amount req)) = m_amount (ra_refund (rr_amount req0)) \<and>
    m_amount (ra_refund (rr_amount req)) > 0 \<and> m_amount (ra_settle (rr_amount req)) > 0 \<and>
    (cap_currencies (ad_capabilities a) = [] \<or>
       m_currency (ra_refund (rr_amount req)) \<in> normalize_currency ` set (cap_currencies (ad_capabilities a))) \<and>
    (res, w') = ad_refund a ctx req w"
proof -
  obtain x where x: "prepare_refund s ctx req0 = Inr x" "(\<lambda>(a, req) w. ad_refund a ctx req w) x w = (res, w')"
    using assms unfolding refund_payment_def by (rule run_prepared_moved)
  obtain a req where xx: "x = (a, req)" by (cases x)
  from x(1) obtain prov chan mkey caps amount where p:
    "service_adapter s prov = Inr (a, caps)" "supports_refund caps"
    "normalize_refund_amount (rr_amount req0) = Inr amount"
    "validate_currency caps (m_currency (ra_refund amount)) = Inr ()"
    "req = req0\<lparr>rr_provider := prov, rr_channel := chan, rr_merchant_key := mkey, rr_amount := amount\<rparr>"
    by (auto simp: prepare_refund_def xx bindR_Inr_iff Let_def simp del: validate_currency_ok
        split: if_splits)
  from p(1) show ?thesis
  proof (rule service_adapter_InrE)
    assume "sv_registry s prov = Some a" "caps = (ad_capabilities a)\<lparr>cap_provider := prov\<rparr>"
    with p x(2) normalize_refund_amount_ok [OF p(3)] show ?thesis
      by (intro exI [of _ a] exI [of _ req]) (auto simp: xx)
  qed
qed

definition sample_refund :: refund_request where
  "sample_refund = \<lparr>rr_provider = ''stripe'', rr_channel = ''stripe_checkout'', rr_merchant_key = [],
     rr_payment_id = ''p1'', rr_order_id = [], rr_out_trade_no = [], rr_provider_trade_id = [],
     rr_refund_id = [], rr_out_refund_no = [],
     rr_amount = \<lparr>ra_refund = \<lparr>m_amount = 5, m_currency = ''CNY''\<rparr>, ra_settle = zero_money\<rparr>,
     rr_reason = [], rr_extra = Map.empty\<rparr>"

theorem refund_only_when_supported_witness:
  "\<exists>a (req :: refund_request). sv_registry (sample_service None NoSelector) (rr_provider req) = Some a \<and>
     supports_refund (ad_capabilities a) \<and> m_amount (ra_refund (rr_amount req)) = 5"
proof -
  let ?s = "sample_service None NoSelector"
  have run: "refund_payment ?s (Ctx None) sample_refund 0 = (Inr None, Suc 0)"
    by (simp add: refund_payment_def run_prepared_def prepare_refund_def need_ctx_def select_channel_def
        sample_service_def sample_refund_def validate_refund_def has_payment_reference_def trim_p1
        service_adapter_def lookup_adapter_def counting_adapter_def idle_caps_def
        normalize_refund_amount_def validate_channel_def validate_currency_def zero_money_def Let_def)
  have "Suc 0 \<noteq> 0" by simp
  from refund_only_when_supported [OF run this] show ?thesis
  proof (elim exE conjE, goal_cases)
    case (1 a req)
    then show ?case
      by (intro exI [of _ a] exI [of _ req] conjI) (simp_all add: sample_refund_def)
  qed
qed

text \<open>
  C30: a provider notification that the service accepts was verified by the adapter, and its
  event is about the route it arrived on: the provider and channel of the request, and the
  merchant of the trusted callback route whenever the route names one.
\<close>

theorem notify_bound_to_route:
  assumes "handle_notify s ctx req w = (Inr r, w')"
  shows "nt_verified r \<and>
    (\<forall>ev. nt_event r = Some ev \<longrightarrow>
       ev_provider ev = nr_provider req \<and> ev_channel ev = nr_channel req \<and>
       (nr_merchant_key req = [] \<or> ev_merchant_key ev = nr_merchant_key req))"
proof -
  from assms obtain a res where
    "prepare_notify s ctx req = Inr a" "bindR res (finish_notify req) = Inr r"
    by (auto simp: handle_notify_def run_prepared_def Let_def split: sum.splits prod.splits)
  then obtain y where y: "finish_notify req y = Inr r"
    by (auto simp: bindR_Inr_iff)
  then obtain x where "y = Some x"
    by (cases y) (simp add: finish_notify_def)
  with y have fin: "finish_notify req (Some x) = Inr r" by simp
  show ?thesis
  proof (cases "nt_event x")
    case None
    with fin show ?thesis by (auto simp: finish_notify_def notify_fail_def split: if_splits)
  next
    case (Some ev0)
    with fin obtain ev where ev: "check_notify_event req ev0 = Inr ev" "r = x\<lparr>nt_event := Some ev\<rparr>"
      "nt_verified x"
      by (auto simp: finish_notify_def notify_fail_def bindR_Inr_iff split: if_splits)
    from ev(1) have "ev_provider ev = nr_provider req \<and> ev_channel ev = nr_channel req \<and>
        (nr_merchant_key req = [] \<or> ev_merchant_key ev = nr_merchant_key req)"
      by (auto simp: check_notify_event_def notify_fail_def fill_def split: if_splits)
    with ev show ?thesis by simp
  qed
qed

definition sample_notify :: notify_request where
  "sample_notify = \<lparr>nr_merchant_key = ''m1'', nr_provider = ''stripe'', nr_channel = ''stripe_checkout'',
     nr_method = ''POST'', nr_header = Map.empty, nr_query = Map.empty, nr_form = Map.empty,
     nr_body = [], nr_raw = None, nr_received_at = 0\<rparr>"

definition sample_event :: payment_event where
  "sample_event = \<lparr>ev_details = None, ev_expire_at = None, ev_settlement = None, ev_event_id = ''e1'',
     ev_type = EventPaymentSucceeded, ev_provider = [], ev_channel = [], ev_merchant_key = [],
     ev_payment_id = ''p1'', ev_order_id = [], ev_out_trade_no = [], ev_provider_trade_id = [],
     ev_refund_id = [], ev_provider_refund_id = [], ev_status = PaymentStatusUnset,
     ev_refund_status = RefundStatusUnset, ev_amount = zero_money, ev_paid_at = None,
     ev_raw = [], ev_extra = Map.empty\<rparr>"

definition sample_notify_result :: notify_result where
  "sample_notify_result = \<lparr>nt_verified = True, nt_event = Some sample_event,
     nt_ack = \<lparr>na_status_code = 200, na_content_type = [], na_body = []\<rparr>\<rparr>"

theorem notify_bound_to_route_witness:
  "\<exists>r ev. fst (handle_notify (sample_service (Some sample_notify_result) NoSelector) (Ctx None)
        sample_notify 0) = Inr r \<and> nt_event r = Some ev \<and> ev_merchant_key ev = ''m1''"
proof -
  let ?s = "sample_service (Some sample_notify_result) NoSelector"
  obtain r w' where run: "handle_notify ?s (Ctx None) sample_notify 0 = (Inr r, w')"
    "nt_event r \<noteq> None"
    by (simp add: handle_notify_def run_prepared_def prepare_notify_def need_ctx_def validate_notify_def
        sample_service_def sample_notify_def service_adapter_def lookup_adapter_def
        counting_adapter_def idle_caps_def validate_channel_def finish_notify_def sample_notify_result_def
        check_notify_event_def sample_event_def Let_def)
  with notify_bound_to_route [OF run(1)] show ?thesis by (auto simp: sample_notify_def)
qed

text \<open>
  A merchant that is disabled for new payments creates none: whatever the request says
  about provider and channel, the static selector refuses it and the provider is not called.
  (The hypothesis on the context only says that a cancelled context does not report the
  package's own error "adapter not found".)
\<close>

theorem disabled_merchant_creates_nothing:
  assumes "sv_selector s = StaticSelector m" "m (cr_merchant_key req) = Some sel"
    "sl_disabled_for_new sel" "cr_merchant_key req \<noteq> []"
    and "\<forall>e. ctx_err ctx = Some e \<longrightarrow> \<not> pay_is e ErrAdapterNotFound"
  shows "\<exists>e. create_payment s ctx now req w = (Inl e, w)"
proof (cases ctx)
  case NilCtx
  then show ?thesis by (auto simp: create_payment_def run_prepared_def prepare_create_def need_ctx_def)
next
  case (Ctx err)
  with assms have "\<exists>e. select_channel s ctx PaymentOperationCreate (cr_provider req) (cr_channel req)
      (cr_merchant_key req) = Inl e"
    by (auto simp: select_channel_def selector_select_def static_select_def blocks_new_def
        split: option.splits)
  with Ctx show ?thesis
    by (auto simp: create_payment_def run_prepared_def prepare_create_def need_ctx_def)
qed

theorem disabled_merchant_creates_nothing_witness:
  "\<exists>e. create_payment (sample_service None (StaticSelector [''m1'' \<mapsto>
       \<lparr>sl_disabled_for_new = True, sl_provider = ''stripe'', sl_channel = ''stripe_checkout'',
        sl_merchant_key = ''m1''\<rparr>])) (Ctx None) 0 (sample_create\<lparr>cr_merchant_key := ''m1''\<rparr>) 0 = (Inl e, 0)"
proof -
  let ?sel = "\<lparr>sl_disabled_for_new = True, sl_provider = ''stripe'', sl_channel = ''stripe_checkout'',
        sl_merchant_key = ''m1''\<rparr>"
  let ?s = "sample_service None (StaticSelector [''m1'' \<mapsto> ?sel])"
  have h: "sv_selector ?s = StaticSelector [''m1'' \<mapsto> ?sel]" by (simp add: sample_service_def)
  show ?thesis
    by (rule disabled_merchant_creates_nothing [OF h, of _ ?sel]) simp_all
qed

end
