(* ===== verification/Pay_Payouts.thy ===== *)
theory Pay_Payouts
  imports Pay_Service
begin

text \<open>
  Payouts, beneficiaries, payout batches and beneficiary schemas (\<^verbatim>\<open>core/payment/payout.go\<close>,
  \<^verbatim>\<open>payout_batch.go\<close>, \<^verbatim>\<open>beneficiary_schema.go\<close>): the operations of the payment service that
  are offered only by adapters with the matching optional interface; and the service that the package's
  functions use by default (\<^verbatim>\<open>default.go\<close>).
\<close>

section \<open>Choosing the provider\<close>

definition need_live_ctx :: "pay_error go_ctx \<Rightarrow> unit pay_result" where
  "need_live_ctx ctx =
     (case ctx of NilCtx \<Rightarrow> Inl (PayErr ErrNilContext []) | Ctx (Some e) \<Rightarrow> Inl e | Ctx None \<Rightarrow> Inr ())"

text \<open>
  \<open>selectPayoutAccount\<close> passes no channel to \<open>selectChannel\<close>: none is compared, none is replaced, and
  an unknown merchant key is always an error.
\<close>

definition select_payout_account ::
  "'w pay_service \<Rightarrow> pay_error go_ctx \<Rightarrow> payment_operation \<Rightarrow> provider \<Rightarrow> string \<Rightarrow> (provider \<times> string) pay_result" where
  "select_payout_account s ctx op prov mkey =
     bindR (select_channel s ctx op prov [] mkey) (\<lambda>(prov, _, mkey). Inr (prov, mkey))"

text \<open>The optional interface \<open>face\<close> of the adapter of a provider; \<open>what\<close> names it in the error.\<close>

definition provider_face ::
  "('w adapter \<Rightarrow> 'p option) \<Rightarrow> string \<Rightarrow> 'w pay_service \<Rightarrow> provider \<Rightarrow> 'p pay_result" where
  "provider_face face what s prov =
     bindR (service_adapter s prov) (\<lambda>(a, _).
       case face a of None \<Rightarrow> Inl (PayErr ErrUnsupportedCapability what) | Some p \<Rightarrow> Inr p)"

text \<open>The body the three functions below share.\<close>

definition channel_provider ::
  "('w adapter \<Rightarrow> 'p option) \<Rightarrow> string \<Rightarrow> 'w pay_service \<Rightarrow> pay_error go_ctx \<Rightarrow> payment_operation \<Rightarrow>
   provider \<Rightarrow> channel \<Rightarrow> string \<Rightarrow> (provider \<times> string \<times> 'p) pay_result" where
  "channel_provider face what s ctx op prov chan mkey =
     bindR (need_live_ctx ctx) (\<lambda>_.
     if chan = [] then Inl (PayErr ErrUnsupportedChannel [])
     else bindR (select_payout_account s ctx op prov mkey) (\<lambda>(prov, mkey).
          bindR (provider_face face what s prov) (\<lambda>p. Inr (prov, mkey, p))))"

definition find_beneficiary_provider where
  "find_beneficiary_provider = channel_provider ad_beneficiaries ''beneficiary''"

definition find_batch_provider where
  "find_batch_provider = channel_provider ad_batches ''batch payout''"

definition find_schema_provider where
  "find_schema_provider = channel_provider ad_schemas ''beneficiary schema''"

section \<open>Payouts (payout.go)\<close>

definition need_response :: "'a option \<Rightarrow> 'a pay_result" where
  "need_response r = (case r of None \<Rightarrow> Inl (PayErr ErrInvalidRequest []) | Some x \<Rightarrow> Inr x)"

definition prepare_payout ::
  "'w pay_service \<Rightarrow> pay_error go_ctx \<Rightarrow> create_payout_request \<Rightarrow>
   ('w payout_provider \<times> create_payout_request) pay_result" where
  "prepare_payout s ctx req =
     bindR (need_live_ctx ctx) (\<lambda>_.
     bindR (select_payout_account s ctx (PaymentOperationOther ''create_payout'') (cp_provider req)
              (cp_merchant_key req)) (\<lambda>(prov, mkey).
     bindR (provider_face ad_payouts ''create payout'' s prov) (\<lambda>p.
     if m_amount (cp_amount req) \<le> 0 then Inl (PayErr ErrInvalidAmount [])
     else if cp_payout_id req = [] \<or> cp_request_id req = [] \<or> cp_beneficiary_id req = []
     then Inl (PayErr ErrInvalidRequest [])
     else Inr (p, req\<lparr>cp_provider := prov, cp_merchant_key := mkey,
       cp_amount := (cp_amount req)\<lparr>m_currency := normalize_currency (m_currency (cp_amount req))\<rparr>\<rparr>))))"

definition create_payout ::
  "'w pay_service \<Rightarrow> pay_error go_ctx \<Rightarrow> create_payout_request \<Rightarrow> 'w \<Rightarrow> payout_response pay_result \<times> 'w" where
  "create_payout s ctx req =
     run_prepared (prepare_payout s ctx req) (\<lambda>(p, req) w.
       let (res, w) = pv_create p ctx req w in (bindR res need_response, w))"

definition prepare_query_payout ::
  "'w pay_service \<Rightarrow> pay_error go_ctx \<Rightarrow> query_payout_request \<Rightarrow>
   ('w payout_provider \<times> query_payout_request) pay_result" where
  "prepare_query_payout s ctx req =
     bindR (need_live_ctx ctx) (\<lambda>_.
     bindR (select_payout_account s ctx (PaymentOperationOther ''query_payout'') (qp_provider req)
              (qp_merchant_key req)) (\<lambda>(prov, mkey).
     bindR (provider_face ad_payouts ''query payout'' s prov) (\<lambda>p.
     if qp_provider_payout_id req = [] then Inl (PayErr ErrInvalidRequest [])
     else Inr (p, req\<lparr>qp_provider := prov, qp_merchant_key := mkey\<rparr>))))"

definition query_payout ::
  "'w pay_service \<Rightarrow> pay_error go_ctx \<Rightarrow> query_payout_request \<Rightarrow> 'w \<Rightarrow> payout_response pay_result \<times> 'w" where
  "query_payout s ctx req =
     run_prepared (prepare_query_payout s ctx req) (\<lambda>(p, req) w.
       let (res, w) = pv_query p ctx req w in (bindR res need_response, w))"

section \<open>Beneficiaries and batches (payout\_batch.go)\<close>

definition create_beneficiary ::
  "'w pay_service \<Rightarrow> pay_error go_ctx \<Rightarrow> create_beneficiary_request \<Rightarrow> 'w \<Rightarrow>
   beneficiary_response option pay_result \<times> 'w" where
  "create_beneficiary s ctx req =
     run_prepared
       (bindR (find_beneficiary_provider s ctx (PaymentOperationOther ''create_beneficiary'') (cn_provider req)
                 (cn_channel req) (cn_merchant_key req)) (\<lambda>(prov, mkey, p).
        if cn_details req = [] then Inl (PayErr ErrInvalidRequest [])
        else Inr (p, req\<lparr>cn_provider := prov, cn_merchant_key := mkey\<rparr>)))
       (\<lambda>(p, req). nv_create p ctx req)"

definition query_beneficiary ::
  "'w pay_service \<Rightarrow> pay_error go_ctx \<Rightarrow> query_beneficiary_request \<Rightarrow> 'w \<Rightarrow>
   beneficiary_response option pay_result \<times> 'w" where
  "query_beneficiary s ctx req =
     run_prepared
       (bindR (find_beneficiary_provider s ctx (PaymentOperationOther ''query_beneficiary'') (qn_provider req)
                 (qn_channel req) (qn_merchant_key req)) (\<lambda>(prov, mkey, p).
        if qn_beneficiary_id req = [] then Inl (PayErr ErrInvalidRequest [])
        else Inr (p, req\<lparr>qn_provider := prov, qn_merchant_key := mkey\<rparr>)))
       (\<lambda>(p, req). nv_query p ctx req)"

definition create_payout_batch ::
  "'w pay_service \<Rightarrow> pay_error go_ctx \<Rightarrow> create_batch_request \<Rightarrow> 'w \<Rightarrow> batch_response option pay_result \<times> 'w" where
  "create_payout_batch s ctx req =
     run_prepared
       (bindR (find_batch_provider s ctx (PaymentOperationOther ''create_payout_batch'') (bc_provider req)
                 (bc_channel req) (bc_merchant_key req)) (\<lambda>(prov, mkey, p).
        if bc_request_id req = [] then Inl (PayErr ErrInvalidRequest [])
        else Inr (p, req\<lparr>bc_provider := prov, bc_merchant_key := mkey\<rparr>)))
       (\<lambda>(p, req). bv_create p ctx req)"

definition batch_item_ok :: "batch_item_request \<Rightarrow> bool" where
  "batch_item_ok i \<longleftrightarrow>
     \<not> (bi_request_id i = [] \<or> bi_beneficiary_id i = [] \<or> m_amount (bi_amount i) \<le> 0 \<or> bi_reference i = [] \<or>
        bi_reason i = [] \<or> bi_transfer_method i \<noteq> ''LOCAL'' \<and> bi_transfer_method i \<noteq> ''SWIFT'')"

text \<open>The loop over the items returns at the first one that is not acceptable.\<close>

fun check_batch_items :: "batch_item_request list \<Rightarrow> unit pay_result" where
  "check_batch_items [] = Inr ()"
| "check_batch_items (i # is) =
     (if \<not> batch_item_ok i then Inl (PayErr ErrInvalidRequest []) else check_batch_items is)"

definition add_payout_batch_items ::
  "'w pay_service \<Rightarrow> pay_error go_ctx \<Rightarrow> add_batch_items_request \<Rightarrow> 'w \<Rightarrow> batch_response option pay_result \<times> 'w" where
  "add_payout_batch_items s ctx req =
     run_prepared
       (bindR (find_batch_provider s ctx (PaymentOperationOther ''add_payout_batch_items'') (ba_provider req)
                 (ba_channel req) (ba_merchant_key req)) (\<lambda>(prov, mkey, p).
        if ba_provider_batch_id req = [] \<or> length (ba_items req) = 0 \<or> length (ba_items req) > 100
        then Inl (PayErr ErrInvalidRequest [])
        else bindR (check_batch_items (ba_items req)) (\<lambda>_.
             Inr (p, req\<lparr>ba_provider := prov, ba_merchant_key := mkey\<rparr>))))
       (\<lambda>(p, req). bv_add p ctx req)"

definition submit_payout_batch ::
  "'w pay_service \<Rightarrow> pay_error go_ctx \<Rightarrow> submit_batch_request \<Rightarrow> 'w \<Rightarrow> batch_response option pay_result \<times> 'w" where
  "submit_payout_batch s ctx req =
     run_prepared
       (bindR (find_batch_provider s ctx (PaymentOperationOther ''submit_payout_batch'') (bs_provider req)
                 (bs_channel req) (bs_merchant_key req)) (\<lambda>(prov, mkey, p).
        if bs_provider_batch_id req = [] then Inl (PayErr ErrInvalidRequest [])
        else Inr (p, req\<lparr>bs_provider := prov, bs_merchant_key := mkey\<rparr>)))
       (\<lambda>(p, req). bv_submit p ctx req)"

definition query_payout_batch ::
  "'w pay_service \<Rightarrow> pay_error go_ctx \<Rightarrow> query_batch_request \<Rightarrow> 'w \<Rightarrow> batch_response option pay_result \<times> 'w" where
  "query_payout_batch s ctx req =
     run_prepared
       (bindR (find_batch_provider s ctx (PaymentOperationOther ''query_payout_batch'') (bq_provider req)
                 (bq_channel req) (bq_merchant_key req)) (\<lambda>(prov, mkey, p).
        if (bq_provider_batch_id req = []) = (bq_request_id req = []) then Inl (PayErr ErrInvalidRequest [])
        else Inr (p, req\<lparr>bq_provider := prov, bq_merchant_key := mkey\<rparr>)))
       (\<lambda>(p, req). bv_query p ctx req)"

definition list_payout_batch_items ::
  "'w pay_service \<Rightarrow> pay_error go_ctx \<Rightarrow> submit_batch_request \<Rightarrow> 'w \<Rightarrow>
   batch_items_response option pay_result \<times> 'w" where
  "list_payout_batch_items s ctx req =
     run_prepared
       (bindR (find_batch_provider s ctx (PaymentOperationOther ''list_payout_batch_items'') (bs_provider req)
                 (bs_channel req) (bs_merchant_key req)) (\<lambda>(prov, mkey, p).
        if bs_provider_batch_id req = [] then Inl (PayErr ErrInvalidRequest [])
        else Inr (p, req\<lparr>bs_provider := prov, bs_merchant_key := mkey\<rparr>)))
       (\<lambda>(p, req). bv_list p ctx req)"

section \<open>Beneficiary schemas (beneficiary\_schema.go)\<close>

definition code_field :: "string \<Rightarrow> nat \<Rightarrow> string pay_result" where
  "code_field v n =
     (let trimmed = trim_space v in
      if trimmed \<noteq> [] \<and> (length trimmed \<noteq> n \<or> trimmed \<noteq> to_upper trimmed)
      then Inl (PayErr ErrInvalidRequest []) else Inr trimmed)"

definition choice_field :: "string list \<Rightarrow> string \<Rightarrow> string pay_result" where
  "choice_field vs v =
     (let trimmed = trim_space v in
      if trimmed \<noteq> [] \<and> trimmed \<notin> set vs then Inl (PayErr ErrInvalidRequest []) else Inr trimmed)"

definition normalize_schema_request :: "schema_request \<Rightarrow> schema_request pay_result" where
  "normalize_schema_request req =
     (if sm_kind req \<noteq> SchemaAPI \<and> sm_kind req \<noteq> SchemaForm then Inl (PayErr ErrInvalidRequest [])
      else
        bindR (code_field (sm_bank_country_code req) 2) (\<lambda>bank.
        bindR (code_field (sm_account_currency req) 3) (\<lambda>currency.
        bindR (code_field (sm_country_code req) 2) (\<lambda>country.
        bindR (choice_field [''LOCAL'', ''SWIFT''] (sm_transfer_method req)) (\<lambda>transfer.
        bindR (choice_field [''COMPANY'', ''PERSONAL''] (sm_entity_type req)) (\<lambda>entity.
        Inr (req\<lparr>sm_bank_country_code := bank, sm_account_currency := currency, sm_country_code := country,
             sm_transfer_method := transfer, sm_entity_type := entity,
             sm_local_clearing_system := trim_space (sm_local_clearing_system req)\<rparr>)))))))"

definition generate_beneficiary_schema ::
  "'w pay_service \<Rightarrow> pay_error go_ctx \<Rightarrow> schema_request \<Rightarrow> 'w \<Rightarrow> schema_response option pay_result \<times> 'w" where
  "generate_beneficiary_schema s ctx req =
     run_prepared
       (bindR (find_schema_provider s ctx (PaymentOperationOther ''generate_beneficiary_schema'')
                 (sm_provider req) (sm_channel req) (sm_merchant_key req)) (\<lambda>(prov, mkey, p).
        bindR (normalize_schema_request (req\<lparr>sm_provider := prov, sm_merchant_key := mkey\<rparr>)) (\<lambda>req.
        Inr (p, req))))
       (\<lambda>(p, req). mv_generate p ctx req)"

section \<open>What a passed check establishes\<close>

lemma need_live_ctx_ok [simp]: "need_live_ctx ctx = Inr () \<longleftrightarrow> ctx = Ctx None"
  by (auto simp: need_live_ctx_def split: go_ctx.splits option.splits)

text \<open>The account under a static selector: the binding of the merchant key, when one is given.\<close>

lemma static_account:
  assumes "select_payout_account s (Ctx None) op prov mkey = Inr (prov', mkey')"
    "sv_selector s = StaticSelector m" "mkey \<noteq> []"
  shows "\<exists>sel. m mkey = Some sel \<and> prov' = sl_provider sel \<and> (prov = [] \<or> prov = prov') \<and>
    mkey' = (if sl_merchant_key sel \<noteq> [] then sl_merchant_key sel else mkey) \<and>
    \<not> (sl_disabled_for_new sel \<and> blocks_new op)"
  using assms
  by (auto simp: select_payout_account_def select_channel_def selector_select_def static_select_def
      apply_selection_def bindR_Inr_iff map_sum_def split: sum.splits option.splits if_splits)

lemma provider_face_InrE:
  assumes "provider_face face what s prov = Inr p"
  obtains a where "sv_registry s prov = Some a" "face a = Some p"
  using assms by (auto simp: provider_face_def bindR_Inr_iff split: option.splits elim!: service_adapter_InrE)

lemma channel_provider_InrE:
  assumes "channel_provider face what s ctx op prov chan mkey = Inr (prov', mkey', p)"
  obtains a where "ctx = Ctx None" "chan \<noteq> []" "select_payout_account s (Ctx None) op prov mkey = Inr (prov', mkey')"
    "sv_registry s prov' = Some a" "face a = Some p"
  using assms
  by (auto simp: channel_provider_def bindR_Inr_iff split: if_splits elim!: provider_face_InrE)

lemma check_batch_items_ok [simp]: "check_batch_items is = Inr () \<longleftrightarrow> (\<forall>i \<in> set is. batch_item_ok i)"
  by (induction "is") auto

lemma prepare_payout_InrE:
  assumes "prepare_payout s ctx req = Inr (p, req')"
  obtains a where "ctx = Ctx None"
    "select_payout_account s (Ctx None) (PaymentOperationOther ''create_payout'') (cp_provider req)
       (cp_merchant_key req) = Inr (cp_provider req', cp_merchant_key req')"
    "sv_registry s (cp_provider req') = Some a" "ad_payouts a = Some p"
    "m_amount (cp_amount req) > 0" "cp_payout_id req \<noteq> []" "cp_request_id req \<noteq> []" "cp_beneficiary_id req \<noteq> []"
    "req' = req\<lparr>cp_provider := cp_provider req', cp_merchant_key := cp_merchant_key req',
       cp_amount := (cp_amount req)\<lparr>m_currency := normalize_currency (m_currency (cp_amount req))\<rparr>\<rparr>"
  using assms
  by (auto simp: prepare_payout_def bindR_Inr_iff split: if_splits elim!: provider_face_InrE)

text \<open>
  C21: money is sent only after every check.  If \<open>CreatePayout\<close> has any effect outside the package, then the
  context was live, the adapter called is the one registered for the provider of the request and implements
  payouts, the amount is positive and in a normalised currency, the payout, the request and the beneficiary
  are named; with bindings and a merchant key, the provider is the one bound to the key and the binding is not
  closed for new payments; and the effect is that of one call.
\<close>

theorem payout_only_after_checks:
  assumes "create_payout s ctx req w = (res, w')" "w' \<noteq> w"
  shows "ctx = Ctx None \<and>
    (\<exists>a p req'. sv_registry s (cp_provider req') = Some a \<and> ad_payouts a = Some p \<and>
       cp_amount req' = \<lparr>m_amount = m_amount (cp_amount req),
         m_currency = normalize_currency (m_currency (cp_amount req))\<rparr> \<and> m_amount (cp_amount req') > 0 \<and>
       cp_payout_id req' = cp_payout_id req \<and> cp_payout_id req \<noteq> [] \<and>
       cp_request_id req' = cp_request_id req \<and> cp_request_id req \<noteq> [] \<and>
       cp_beneficiary_id req' = cp_beneficiary_id req \<and> cp_beneficiary_id req \<noteq> [] \<and>
       (\<forall>m. sv_selector s = StaticSelector m \<and> cp_merchant_key req \<noteq> [] \<longrightarrow>
          (\<exists>sel. m (cp_merchant_key req) = Some sel \<and> cp_provider req' = sl_provider sel \<and>
             \<not> sl_disabled_for_new sel)) \<and>
       (\<exists>r. pv_create p ctx req' w = (r, w') \<and> res = bindR r need_response))"
proof -
  obtain x where x: "prepare_payout s ctx req = Inr x"
    "(\<lambda>(p, req) w. let (res, w) = pv_create p ctx req w in (bindR res need_response, w)) x w = (res, w')"
    using assms unfolding create_payout_def by (rule run_prepared_moved)
  obtain p req' where xx: "x = (p, req')" by (cases x)
  from x(1) have "prepare_payout s ctx req = Inr (p, req')" by (simp add: xx)
  then show ?thesis
  proof (rule prepare_payout_InrE)
    fix a
    assume r: "ctx = Ctx None"
      "select_payout_account s (Ctx None) (PaymentOperationOther ''create_payout'') (cp_provider req)
         (cp_merchant_key req) = Inr (cp_provider req', cp_merchant_key req')"
      "sv_registry s (cp_provider req') = Some a" "ad_payouts a = Some p"
      "m_amount (cp_amount req) > 0" "cp_payout_id req \<noteq> []" "cp_request_id req \<noteq> []" "cp_beneficiary_id req \<noteq> []"
      and req': "req' = req\<lparr>cp_provider := cp_provider req', cp_merchant_key := cp_merchant_key req',
         cp_amount := (cp_amount req)\<lparr>m_currency := normalize_currency (m_currency (cp_amount req))\<rparr>\<rparr>"
    have bound: "\<exists>sel. m (cp_merchant_key req) = Some sel \<and> cp_provider req' = sl_provider sel \<and> \<not> sl_disabled_for_new sel"
      if "sv_selector s = StaticSelector m" "cp_merchant_key req \<noteq> []" for m
      using static_account [OF r(2) that] by (auto simp: blocks_new_def)
    have same: "cp_amount req' = \<lparr>m_amount = m_amount (cp_amount req),
        m_currency = normalize_currency (m_currency (cp_amount req))\<rparr>"
      "cp_payout_id req' = cp_payout_id req" "cp_request_id req' = cp_request_id req"
      "cp_beneficiary_id req' = cp_beneficiary_id req"
      by (subst req'; simp add: money.defs)+
    have "\<exists>r. pv_create p ctx req' w = (r, w') \<and> res = bindR r need_response"
      using x(2) by (auto simp: xx split: prod.splits)
    with r bound same show ?thesis
      by (intro conjI exI [of _ a] exI [of _ p] exI [of _ req']) auto
  qed
qed

definition sample_payout_adapter :: "nat adapter" where
  "sample_payout_adapter = (counting_adapter ''airwallex'' None)\<lparr>
     ad_payouts := Some \<lparr>pv_create = (\<lambda>_ _ w. (Inr None, Suc w)), pv_query = (\<lambda>_ _ w. (Inr None, Suc w))\<rparr>,
     ad_batches := Some \<lparr>bv_create = (\<lambda>_ _ w. (Inr None, Suc w)), bv_add = (\<lambda>_ _ w. (Inr None, Suc w)),
       bv_submit = (\<lambda>_ _ w. (Inr None, Suc w)), bv_query = (\<lambda>_ _ w. (Inr None, Suc w)),
       bv_list = (\<lambda>_ _ w. (Inr None, Suc w))\<rparr>\<rparr>"

text \<open>A service with one merchant, bound to that adapter, closed for new payments or not.\<close>

definition sample_payout_service :: "bool \<Rightarrow> nat pay_service" where
  "sample_payout_service shut = \<lparr>sv_registry = [''airwallex'' \<mapsto> sample_payout_adapter],
     sv_pricing = normalize_pricing new_default_pricing_policy,
     sv_selector = StaticSelector [''m1'' \<mapsto> \<lparr>sl_disabled_for_new = shut, sl_provider = ''airwallex'',
       sl_channel = ''airwallex_transfer'', sl_merchant_key = ''m1''\<rparr>]\<rparr>"

definition sample_payout :: create_payout_request where
  "sample_payout = \<lparr>cp_provider = [], cp_channel = [], cp_merchant_key = ''m1'', cp_payout_id = ''p1'',
     cp_request_id = ''r1'', cp_beneficiary_id = ''b1'', cp_amount = \<lparr>m_amount = 500, m_currency = ''CNY''\<rparr>,
     cp_reference = [], cp_reason = [], cp_extra = Map.empty\<rparr>"

lemmas payout_sample_defs = sample_payout_service_def sample_payout_adapter_def counting_adapter_def idle_caps_def
  run_prepared_def channel_provider_def select_payout_account_def select_channel_def selector_select_def
  static_select_def apply_selection_def blocks_new_def provider_face_def service_adapter_def lookup_adapter_def
  need_live_ctx_def

theorem payout_only_after_checks_witness:
  "\<exists>a p (req' :: create_payout_request). sv_registry (sample_payout_service False) (cp_provider req') = Some a \<and> ad_payouts a = Some p \<and>
     m_amount (cp_amount req') = 500 \<and> cp_beneficiary_id req' = ''b1''"
proof -
  have run: "create_payout (sample_payout_service False) (Ctx None) sample_payout 0 = (Inl (PayErr ErrInvalidRequest []), Suc 0)"
    by (simp add: create_payout_def prepare_payout_def payout_sample_defs sample_payout_def need_response_def)
  have "Suc 0 \<noteq> 0" by simp
  from payout_only_after_checks [OF run this] show ?thesis
  proof (elim conjE exE, goal_cases)
    case (1 a p req')
    then show ?case
      by (intro exI [of _ a] exI [of _ p] exI [of _ req'] conjI) (simp_all add: sample_payout_def)
  qed
qed

text \<open>
  What reaches a provider in a batch is well formed.  If \<open>AddPayoutBatchItems\<close> has any effect, the batch
  is named and its items, one to a hundred, are all acceptable: named, with a beneficiary, a positive amount, a
  reference, a reason and one of the two transfer methods; and they are handed on as they are.
\<close>

theorem batch_items_checked:
  assumes "add_payout_batch_items s ctx req w = (res, w')" "w' \<noteq> w"
  shows "ba_provider_batch_id req \<noteq> [] \<and> 0 < length (ba_items req) \<and> length (ba_items req) \<le> 100 \<and>
    (\<forall>i \<in> set (ba_items req). batch_item_ok i) \<and>
    (\<exists>a p req'. sv_registry s (ba_provider req') = Some a \<and> ad_batches a = Some p \<and> ba_items req' = ba_items req \<and>
       ba_provider_batch_id req' = ba_provider_batch_id req \<and> bv_add p ctx req' w = (res, w'))"
proof -
  obtain x where x: "bindR (find_batch_provider s ctx (PaymentOperationOther ''add_payout_batch_items'')
        (ba_provider req) (ba_channel req) (ba_merchant_key req)) (\<lambda>(prov, mkey, p).
      if ba_provider_batch_id req = [] \<or> length (ba_items req) = 0 \<or> length (ba_items req) > 100
      then Inl (PayErr ErrInvalidRequest [])
      else bindR (check_batch_items (ba_items req)) (\<lambda>_.
           Inr (p, req\<lparr>ba_provider := prov, ba_merchant_key := mkey\<rparr>))) = Inr x"
    "(\<lambda>(p, req). bv_add p ctx req) x w = (res, w')"
    using assms unfolding add_payout_batch_items_def by (rule run_prepared_moved)
  obtain p req' where xx: "x = (p, req')" by (cases x)
  from x(1) obtain prov mkey where
    "find_batch_provider s ctx (PaymentOperationOther ''add_payout_batch_items'') (ba_provider req)
       (ba_channel req) (ba_merchant_key req) = Inr (prov, mkey, p)"
    and ok: "ba_provider_batch_id req \<noteq> []" "ba_items req \<noteq> []" "length (ba_items req) \<le> 100"
      "\<forall>i \<in> set (ba_items req). batch_item_ok i" "req' = req\<lparr>ba_provider := prov, ba_merchant_key := mkey\<rparr>"
    by (auto simp: xx bindR_Inr_iff split: if_splits)
  then obtain a where "sv_registry s prov = Some a" "ad_batches a = Some p"
    by (auto simp: find_batch_provider_def elim: channel_provider_InrE)
  with ok x(2) show ?thesis
    by (intro conjI exI [of _ a] exI [of _ p] exI [of _ req']) (simp_all add: xx)
qed

definition sample_batch_item :: batch_item_request where
  "sample_batch_item = \<lparr>bi_request_id = ''i1'', bi_beneficiary_id = ''b1'',
     bi_amount = \<lparr>m_amount = 5, m_currency = ''CNY''\<rparr>, bi_transfer_method = ''LOCAL'', bi_reference = ''x'',
     bi_reason = ''y''\<rparr>"

definition sample_add_items :: add_batch_items_request where
  "sample_add_items = \<lparr>ba_provider = [], ba_channel = ''airwallex_transfer'', ba_merchant_key = ''m1'',
     ba_provider_batch_id = ''batch'', ba_items = [sample_batch_item]\<rparr>"

text \<open>The merchant of this run is closed for new payments.\<close>

theorem batch_items_checked_witness:
  "\<exists>res. add_payout_batch_items (sample_payout_service True) (Ctx None) sample_add_items 0 = (res, Suc 0) \<and>
     ba_items sample_add_items \<noteq> [] \<and> (\<forall>i \<in> set (ba_items sample_add_items). batch_item_ok i)"
proof -
  have run: "add_payout_batch_items (sample_payout_service True) (Ctx None) sample_add_items 0 = (Inr None, Suc 0)"
    by (simp add: add_payout_batch_items_def find_batch_provider_def payout_sample_defs sample_add_items_def
        sample_batch_item_def batch_item_ok_def)
  have "Suc 0 \<noteq> 0" by simp
  from batch_items_checked [OF run this] run show ?thesis by (intro exI conjI) auto
qed

text \<open>
  A binding that is closed for new payments keeps its merchant from creating a payout, a beneficiary or a
  batch, not from the other operations: for these the bindings may as well be open.
\<close>

definition open_bindings :: "binding_map \<Rightarrow> binding_map" where
  "open_bindings m = (\<lambda>k. map_option (\<lambda>sel. sel\<lparr>sl_disabled_for_new := False\<rparr>) (m k))"

lemma closed_account:
  assumes "\<not> blocks_new op"
  shows "select_payout_account (s\<lparr>sv_selector := StaticSelector (open_bindings m)\<rparr>) ctx op prov mkey =
    select_payout_account (s\<lparr>sv_selector := StaticSelector m\<rparr>) ctx op prov mkey"
  using assms
  by (auto simp: select_payout_account_def select_channel_def selector_select_def static_select_def open_bindings_def
      apply_selection_def split: go_ctx.splits option.splits sum.splits)

lemma closed_merchant_fills_batches:
  "add_payout_batch_items (s\<lparr>sv_selector := StaticSelector m\<rparr>) =
     add_payout_batch_items (s\<lparr>sv_selector := StaticSelector (open_bindings m)\<rparr>)"
  "submit_payout_batch (s\<lparr>sv_selector := StaticSelector m\<rparr>) =
     submit_payout_batch (s\<lparr>sv_selector := StaticSelector (open_bindings m)\<rparr>)"
  by (auto simp: fun_eq_iff add_payout_batch_items_def submit_payout_batch_def find_batch_provider_def
      channel_provider_def closed_account blocks_new_def provider_face_def service_adapter_def)

section \<open>Schema requests have a normal form\<close>

lemma code_field_Inr:
  "code_field v n = Inr x \<longleftrightarrow> x = trim_space v \<and> (x = [] \<or> length x = n \<and> to_upper x = x)"
  by (auto simp: code_field_def Let_def)

lemma choice_field_Inr: "choice_field vs v = Inr x \<longleftrightarrow> x = trim_space v \<and> (x = [] \<or> x \<in> set vs)"
  by (auto simp: choice_field_def Let_def)

text \<open>What is accepted is in the normal form, which a second pass leaves as it is.\<close>

theorem schema_request_normal:
  assumes "normalize_schema_request r = Inr r'"
  shows "normalize_schema_request r' = Inr r' \<and> (sm_kind r' = SchemaAPI \<or> sm_kind r' = SchemaForm) \<and>
    sm_transfer_method r' \<in> {[], ''LOCAL'', ''SWIFT''} \<and> sm_entity_type r' \<in> {[], ''COMPANY'', ''PERSONAL''} \<and>
    length (sm_bank_country_code r') \<in> {0, 2} \<and> length (sm_account_currency r') \<in> {0, 3} \<and>
    length (sm_country_code r') \<in> {0, 2}"
proof -
  from assms obtain bank currency country transfer entity where
    kind: "sm_kind r = SchemaAPI \<or> sm_kind r = SchemaForm"
    and f: "code_field (sm_bank_country_code r) 2 = Inr bank" "code_field (sm_account_currency r) 3 = Inr currency"
      "code_field (sm_country_code r) 2 = Inr country" "choice_field [''LOCAL'', ''SWIFT''] (sm_transfer_method r) = Inr transfer"
      "choice_field [''COMPANY'', ''PERSONAL''] (sm_entity_type r) = Inr entity"
    and r': "r' = r\<lparr>sm_bank_country_code := bank, sm_account_currency := currency, sm_country_code := country,
      sm_transfer_method := transfer, sm_entity_type := entity,
      sm_local_clearing_system := trim_space (sm_local_clearing_system r)\<rparr>"
    by (auto simp: normalize_schema_request_def bindR_Inr_iff split: if_splits)
  have again: "code_field x n = Inr x" if "code_field v n = Inr x" for v n x
    using that by (auto simp: code_field_Inr)
  have choice: "choice_field vs x = Inr x" if "choice_field vs v = Inr x" for vs v x
    using that by (auto simp: choice_field_Inr)
  have "normalize_schema_request r' = Inr r'"
    unfolding normalize_schema_request_def using kind f(1-3) [THEN again] f(4,5) [THEN choice]
    by (simp add: r')
  moreover have "length bank \<in> {0, 2}" "length currency \<in> {0, 3}" "length country \<in> {0, 2}"
    using f by (auto simp: code_field_Inr)
  moreover have "transfer \<in> {[], ''LOCAL'', ''SWIFT''}" "entity \<in> {[], ''COMPANY'', ''PERSONAL''}"
    using f(4,5) unfolding choice_field_Inr by (simp_all only: list.set) blast+
  ultimately show ?thesis using kind by (simp add: r')
qed

end
