(* ===== verification/Pay_State.thy ===== *)
theory Pay_State
  imports Pay_Types
begin

text \<open>
  \<^verbatim>\<open>core/payment/state.go\<close>, \<^verbatim>\<open>settlement_merge.go\<close> and \<^verbatim>\<open>receipt.go\<close>: the payment status
  machine, the merge of settlement facts that arrive out of order, and the checks of a
  receipt against the original payment.
\<close>

section \<open>The payment status machine (state.go)\<close>

definition status_from_event :: "payment_event \<Rightarrow> payment_status" where
  "status_from_event ev =
     (if ev_status ev \<noteq> PaymentStatusUnset then ev_status ev
      else (case ev_type ev of
              EventPaymentCreated \<Rightarrow> PaymentPending
            | EventPaymentSucceeded \<Rightarrow> PaymentSucceeded
            | EventPaymentCaptured \<Rightarrow> PaymentSucceeded
            | EventPaymentFailed \<Rightarrow> PaymentFailed
            | EventPaymentExpired \<Rightarrow> PaymentExpired
            | EventPaymentClosed \<Rightarrow> PaymentClosed
            | EventPaymentAuthorized \<Rightarrow> PaymentAuthorized
            | EventPaymentRefunding \<Rightarrow> PaymentRefunding
            | EventPaymentPartRefund \<Rightarrow> PaymentPartialRefunded
            | EventPaymentRefunded \<Rightarrow> PaymentRefunded
            | EventRefundProcessing \<Rightarrow> PaymentRefunding
            | EventRefundSucceeded \<Rightarrow> PaymentRefunded
            | _ \<Rightarrow> PaymentStatusUnset))"

definition can_transition :: "payment_status \<Rightarrow> payment_status \<Rightarrow> bool" where
  "can_transition st to =
     (if to = PaymentStatusUnset then False
      else if st = PaymentStatusUnset \<or> st = to then True
      else if to = PaymentSucceeded then st \<noteq> PaymentRefunded
      else (case st of
              PaymentPending \<Rightarrow>
                to = PaymentProcessing \<or> to = PaymentRequiresAction \<or> to = PaymentAuthorized \<or>
                to = PaymentFailed \<or> to = PaymentClosed \<or> to = PaymentExpired
            | PaymentProcessing \<Rightarrow>
                to = PaymentAuthorized \<or> to = PaymentFailed \<or> to = PaymentClosed \<or> to = PaymentExpired
            | PaymentRequiresAction \<Rightarrow>
                to = PaymentAuthorized \<or> to = PaymentFailed \<or> to = PaymentClosed \<or> to = PaymentExpired
            | PaymentAuthorized \<Rightarrow>
                to = PaymentFailed \<or> to = PaymentClosed \<or> to = PaymentExpired
            | PaymentSucceeded \<Rightarrow>
                to = PaymentRefunding \<or> to = PaymentPartialRefunded \<or> to = PaymentRefunded
            | PaymentRefunding \<Rightarrow>
                to = PaymentSucceeded \<or> to = PaymentPartialRefunded \<or> to = PaymentRefunded
            | PaymentPartialRefunded \<Rightarrow>
                to = PaymentRefunding \<or> to = PaymentRefunded
            | PaymentExpired \<Rightarrow> False
            | PaymentFailed \<Rightarrow> to = PaymentAuthorized
            | PaymentClosed \<Rightarrow> to = PaymentAuthorized
            | PaymentRefunded \<Rightarrow> False
            | _ \<Rightarrow> False))"

text \<open>
  A stored status is moved by the events that arrive: a caller applies an event's status
  when the machine allows it.
\<close>

inductive status_reaches :: "payment_status \<Rightarrow> payment_status \<Rightarrow> bool" where
  refl: "status_reaches s s"
| step: "status_reaches s t \<Longrightarrow> can_transition t u \<Longrightarrow> status_reaches s u"

inductive_cases status_reaches_E: "status_reaches s t"

text \<open>The statuses of a payment whose money was received.\<close>

definition money_received :: "payment_status set" where
  "money_received = {PaymentSucceeded, PaymentRefunding, PaymentPartialRefunded, PaymentRefunded}"

lemma can_transition_received:
  "s \<in> money_received \<Longrightarrow> can_transition s t \<Longrightarrow> t \<in> money_received"
  by (auto simp: money_received_def can_transition_def split: if_splits)

lemma can_transition_refunded_iff: "can_transition PaymentRefunded t \<longleftrightarrow> t = PaymentRefunded"
  by (auto simp: can_transition_def)

lemma status_reaches_trans:
  "status_reaches t u \<Longrightarrow> status_reaches s t \<Longrightarrow> status_reaches s u"
  by (induction rule: status_reaches.induct) (auto intro: status_reaches.step)

lemma status_reaches_received:
  "status_reaches s t \<Longrightarrow> s \<in> money_received \<Longrightarrow> t \<in> money_received"
  by (induction rule: status_reaches.induct) (auto intro: can_transition_received)

lemma status_reaches_refunded: "status_reaches s t \<Longrightarrow> s = PaymentRefunded \<Longrightarrow> t = PaymentRefunded"
  by (induction rule: status_reaches.induct) (auto simp: can_transition_refunded_iff)

text \<open>
  C26: once a payment is in a status that means the money was received (succeeded, refunding,
  partially refunded, refunded), no sequence of allowed transitions takes it back to a
  status that says it was not (pending, failed, closed, expired, ...); and a fully refunded
  payment never changes again.
\<close>

theorem received_is_never_lost:
  assumes "status_reaches s t" and "s \<in> money_received"
  shows "t \<in> money_received \<and> (s = PaymentRefunded \<longrightarrow> t = PaymentRefunded)"
  using assms status_reaches_received status_reaches_refunded by blast

theorem received_is_never_lost_witness:
  "status_reaches PaymentSucceeded PaymentRefunded \<and> PaymentRefunded \<in> money_received"
proof -
  have r: "status_reaches PaymentSucceeded PaymentRefunded"
    by (rule status_reaches.step [OF status_reaches.step [OF status_reaches.refl, of _ PaymentRefunding]])
      (simp_all add: can_transition_def)
  moreover have "PaymentSucceeded \<in> money_received" by (simp add: money_received_def)
  ultimately show ?thesis using received_is_never_lost [OF r] by blast
qed

text \<open>
  A late success is never lost.  A payment in any status other than refunded (also one
  that was closed, failed or expired, and one in a status unknown to the code) accepts the
  transition to succeeded.
\<close>

theorem late_success_is_accepted:
  "can_transition s PaymentSucceeded \<longleftrightarrow> s \<noteq> PaymentRefunded"
  by (auto simp: can_transition_def)

section \<open>Merging settlement facts (settlement\_merge.go)\<close>

definition is_newer :: "go_time option \<Rightarrow> go_time option \<Rightarrow> bool" where
  "is_newer cur inc =
     (case cur of None \<Rightarrow> True
      | Some c \<Rightarrow> (case inc of None \<Rightarrow> False | Some i \<Rightarrow> c < i))"

definition is_older :: "go_time option \<Rightarrow> go_time option \<Rightarrow> bool" where
  "is_older cur inc =
     (case cur of None \<Rightarrow> False | Some c \<Rightarrow> (case inc of None \<Rightarrow> False | Some i \<Rightarrow> i < c))"

text \<open>The closure \<open>mergeMoney\<close>; \<open>ow\<close> is \<open>newer && incoming.UpdatedAt != nil\<close>.\<close>

definition merge_money :: "bool \<Rightarrow> money option \<Rightarrow> money option \<Rightarrow> money option" where
  "merge_money ow dst src =
     (case src of None \<Rightarrow> dst
      | Some m \<Rightarrow> (if m_currency m \<noteq> [] \<and> m_amount m \<ge> 0 \<and> (dst = None \<or> ow) then Some m else dst))"

definition merge_string :: "bool \<Rightarrow> string \<Rightarrow> string \<Rightarrow> string" where
  "merge_string ow dst src = (if src \<noteq> [] \<and> (dst = [] \<or> ow) then src else dst)"

definition merge_rate ::
  "bool \<Rightarrow> exchange_rate_snapshot option \<Rightarrow> exchange_rate_snapshot option \<Rightarrow> exchange_rate_snapshot option" where
  "merge_rate ow dst src = (if src \<noteq> None \<and> (dst = None \<or> ow) then src else dst)"

definition merge_with :: "bool \<Rightarrow> provider_settlement \<Rightarrow> provider_settlement \<Rightarrow> provider_settlement" where
  "merge_with ow c i =
     \<lparr>ps_currency = merge_string ow (ps_currency c) (ps_currency i),
      ps_amount = merge_money ow (ps_amount c) (ps_amount i),
      ps_net_amount = merge_money ow (ps_net_amount c) (ps_net_amount i),
      ps_fee_amount = merge_money ow (ps_fee_amount c) (ps_fee_amount i),
      ps_exchange_rate = merge_rate ow (ps_exchange_rate c) (ps_exchange_rate i),
      ps_reference = merge_string ow (ps_reference c) (ps_reference i),
      ps_updated_at = (if ow then ps_updated_at i else ps_updated_at c)\<rparr>"

definition merge_fields :: "provider_settlement \<Rightarrow> provider_settlement \<Rightarrow> provider_settlement" where
  "merge_fields c i =
     merge_with (is_newer (ps_updated_at c) (ps_updated_at i) \<and> ps_updated_at i \<noteq> None) c i"

definition settlement_conflict :: "provider_settlement \<Rightarrow> bool" where
  "settlement_conflict s =
     (case ps_amount s of None \<Rightarrow> False
      | Some m \<Rightarrow> ps_currency s \<noteq> [] \<and> m_currency m \<noteq> ps_currency s)"

definition merge_settlement ::
  "provider_settlement option \<Rightarrow> provider_settlement option \<Rightarrow> provider_settlement option" where
  "merge_settlement current incoming =
     (case incoming of
        None \<Rightarrow> current
      | Some i \<Rightarrow>
          (let c = (case current of None \<Rightarrow> empty_settlement | Some c \<Rightarrow> c)
           in if is_older (ps_updated_at c) (ps_updated_at i) then current
              else (let merged = merge_fields c i
                    in if settlement_conflict merged then current else Some merged)))"

definition settlement_ok :: "provider_settlement option \<Rightarrow> bool" where
  "settlement_ok s = (case s of None \<Rightarrow> True | Some x \<Rightarrow> \<not> settlement_conflict x)"

definition settlement_time :: "provider_settlement option \<Rightarrow> go_time option" where
  "settlement_time s = Option.bind s ps_updated_at"

lemma merge_again [simp]:
  "merge_money False (merge_money ow d m) m = merge_money ow d m"
  "merge_string False (merge_string ow x y) y = merge_string ow x y"
  "merge_rate False (merge_rate ow r q) q = merge_rate ow r q"
  by (auto simp: merge_money_def merge_string_def merge_rate_def split: option.splits)

lemma merge_with_again: "merge_with False (merge_with ow c i) i = merge_with ow c i"
  by (simp add: merge_with_def)

lemma not_newer_after_merge:
  "\<not> (is_newer (ps_updated_at (merge_fields c i)) (ps_updated_at i) \<and> ps_updated_at i \<noteq> None)"
  by (auto simp: merge_fields_def merge_with_def is_newer_def split: option.splits)

lemma merge_fields_idem: "merge_fields (merge_fields c i) i = merge_fields c i"
proof -
  have "merge_fields (merge_fields c i) i = merge_with False (merge_fields c i) i"
    using not_newer_after_merge [of c i] by (metis merge_fields_def)
  then show ?thesis by (simp add: merge_fields_def merge_with_again)
qed

lemma merge_fields_not_older:
  "\<not> is_older (ps_updated_at c) (ps_updated_at i) \<Longrightarrow>
   \<not> is_older (ps_updated_at (merge_fields c i)) (ps_updated_at i)"
  by (auto simp: merge_fields_def merge_with_def is_older_def is_newer_def split: option.splits if_splits)

text \<open>
  Merging the same settlement facts a second time changes nothing, whatever was stored
  and whether or not the facts were rejected: a repeated webhook is harmless.
\<close>

theorem merge_settlement_idempotent:
  "merge_settlement (merge_settlement cur inc) inc = merge_settlement cur inc"
proof (cases inc)
  case None
  then show ?thesis by (simp add: merge_settlement_def)
next
  case (Some i)
  define c where "c = (case cur of None \<Rightarrow> empty_settlement | Some c \<Rightarrow> c)"
  show ?thesis
  proof (cases "is_older (ps_updated_at c) (ps_updated_at i) \<or> settlement_conflict (merge_fields c i)")
    case True
    then have "merge_settlement cur (Some i) = cur"
      by (auto simp: merge_settlement_def c_def Let_def)
    with Some show ?thesis by simp
  next
    case False
    then have "merge_settlement cur (Some i) = Some (merge_fields c i)"
      by (auto simp: merge_settlement_def c_def Let_def)
    with Some False show ?thesis
      by (simp add: merge_settlement_def merge_fields_idem merge_fields_not_older)
  qed
qed

definition time_le :: "go_time option \<Rightarrow> go_time option \<Rightarrow> bool" where
  "time_le a b = (case a of None \<Rightarrow> True | Some x \<Rightarrow> (case b of None \<Rightarrow> False | Some y \<Rightarrow> x \<le> y))"

lemma time_le_refl [simp]: "time_le t t"
  by (auto simp: time_le_def split: option.splits)

lemma merge_fields_time: "time_le (ps_updated_at c) (ps_updated_at (merge_fields c i))"
  by (auto simp: merge_fields_def merge_with_def time_le_def is_newer_def split: option.splits)

text \<open>
  The merge keeps the stored facts coherent: it never moves the update time backwards,
  never forgets an amount, and keeps the invariant that the settled amount is in the
  settlement currency.
\<close>

theorem merge_settlement_coherent:
  assumes "settlement_ok cur"
  shows "settlement_ok (merge_settlement cur inc) \<and>
    time_le (settlement_time cur) (settlement_time (merge_settlement cur inc)) \<and>
    (\<forall>c. cur = Some c \<longrightarrow> ps_amount c \<noteq> None \<longrightarrow>
       (\<exists>c'. merge_settlement cur inc = Some c' \<and> ps_amount c' \<noteq> None))"
proof (cases inc)
  case None
  with assms show ?thesis by (auto simp: merge_settlement_def)
next
  case (Some i)
  have amt: "ps_amount c \<noteq> None \<Longrightarrow> ps_amount (merge_fields c i) \<noteq> None" for c
    by (auto simp: merge_fields_def merge_with_def merge_money_def split: option.splits)
  show ?thesis
  proof (cases cur)
    case None
    with Some show ?thesis
      by (auto simp: merge_settlement_def settlement_ok_def settlement_time_def time_le_def Let_def)
  next
    case (Some c)
    with \<open>inc = Some i\<close> assms amt [of c] merge_fields_time [of c i] show ?thesis
      by (auto simp: merge_settlement_def settlement_ok_def settlement_time_def Let_def)
  qed
qed

theorem merge_settlement_coherent_witness:
  "let cur = Some (empty_settlement\<lparr>ps_currency := ''USD'',
        ps_amount := Some \<lparr>m_amount = 500, m_currency = ''USD''\<rparr>, ps_updated_at := Some 10\<rparr>);
       inc = Some (empty_settlement\<lparr>ps_currency := ''EUR'', ps_updated_at := Some 20\<rparr>)
   in settlement_ok cur \<and> settlement_ok (merge_settlement cur inc)"
proof -
  let ?cur = "Some (empty_settlement\<lparr>ps_currency := ''USD'',
        ps_amount := Some \<lparr>m_amount = 500, m_currency = ''USD''\<rparr>, ps_updated_at := Some 10\<rparr>)"
  let ?inc = "Some (empty_settlement\<lparr>ps_currency := ''EUR'', ps_updated_at := Some 20\<rparr>)"
  have ok: "settlement_ok ?cur"
    by (simp add: settlement_ok_def settlement_conflict_def empty_settlement_def)
  with merge_settlement_coherent [OF ok, of ?inc] show ?thesis by simp
qed

section \<open>Receipts (receipt.go)\<close>

text \<open>The loop over the keys \<open>account_id\<close> and \<open>environment\<close>.\<close>

fun check_extra ::
  "string list \<Rightarrow> (string \<rightharpoonup> go_any) \<Rightarrow> (string \<rightharpoonup> go_any) \<Rightarrow> unit pay_result" where
  "check_extra [] ev ex = Inr ()"
| "check_extra (k # ks) ev ex =
     (case ev k of
        None \<Rightarrow> check_extra ks ev ex
      | Some v \<Rightarrow>
          (case (v, ex k) of
             (AnyString a, Some (AnyString b)) \<Rightarrow>
               (if a = b then check_extra ks ev ex
                else Inl (PayErr ErrInvalidRequest (''payment receipt '' @ k @ '' mismatch'')))
           | _ \<Rightarrow> Inl (PayErr ErrInvalidRequest (''payment receipt '' @ k @ '' mismatch''))))"

definition receipt_mismatch :: "payment_event \<Rightarrow> payment_event \<Rightarrow> bool" where
  "receipt_mismatch ev ex \<longleftrightarrow>
     ev_merchant_key ex = [] \<or> ev_out_trade_no ex = [] \<or>
     ev_provider ev \<noteq> ev_provider ex \<or> ev_channel ev \<noteq> ev_channel ex \<or>
     ev_merchant_key ev \<noteq> ev_merchant_key ex \<or> ev_out_trade_no ev \<noteq> ev_out_trade_no ex \<or>
     ev_provider_trade_id ev = [] \<or>
     (ev_provider_trade_id ex \<noteq> [] \<and> ev_provider_trade_id ev \<noteq> ev_provider_trade_id ex)"

definition validate_identity :: "payment_event option \<Rightarrow> payment_event \<Rightarrow> unit pay_result" where
  "validate_identity event expected =
     (case event of
        None \<Rightarrow> Inl (PayErr ErrInvalidRequest ''payment receipt identity mismatch'')
      | Some ev \<Rightarrow>
          (if receipt_mismatch ev expected
           then Inl (PayErr ErrInvalidRequest ''payment receipt identity mismatch'')
           else check_extra [''account_id'', ''environment''] (ev_extra ev) (ev_extra expected)))"

definition payment_deadline :: "go_time option \<Rightarrow> go_time option \<Rightarrow> go_time option" where
  "payment_deadline local prov =
     (case prov of
        None \<Rightarrow> local
      | Some p \<Rightarrow> (case local of None \<Rightarrow> prov | Some l \<Rightarrow> if p < l then prov else local))"

definition is_payment_expired :: "go_time option \<Rightarrow> go_time option \<Rightarrow> go_time \<Rightarrow> bool" where
  "is_payment_expired local prov now =
     (case payment_deadline local prov of None \<Rightarrow> False | Some d \<Rightarrow> \<not> now < d)"

definition is_payment_closed :: "payment_status \<Rightarrow> bool" where
  "is_payment_closed s \<longleftrightarrow> s = PaymentClosed \<or> s = PaymentExpired \<or> s = PaymentFailed"

lemma check_extra_ok_iff:
  "check_extra ks ev ex = Inr () \<longleftrightarrow>
   (\<forall>k \<in> set ks. \<forall>v. ev k = Some v \<longrightarrow> (\<exists>s. v = AnyString s \<and> ex k = Some (AnyString s)))"
  by (induction ks) (auto split: option.splits go_any.splits)

lemma is_payment_expired_iff:
  "is_payment_expired l p now \<longleftrightarrow>
   (\<exists>d. (l = Some d \<or> p = Some d) \<and> d \<le> now)"
  by (auto simp: is_payment_expired_def payment_deadline_def split: option.splits)

text \<open>The bound extra \<open>k\<close> of a receipt agrees with the original payment.\<close>

definition extra_bound :: "payment_event \<Rightarrow> payment_event \<Rightarrow> string \<Rightarrow> bool" where
  "extra_bound ev ex k \<longleftrightarrow> ev_extra ev k = None \<or>
     (\<exists>s. ev_extra ev k = Some (AnyString s) \<and> ev_extra ex k = Some (AnyString s))"

lemma check_extra_bound:
  "check_extra ks (ev_extra ev) (ev_extra ex) = Inr () \<longleftrightarrow> list_all (extra_bound ev ex) ks"
proof -
  have "(\<forall>v. ev_extra ev k = Some v \<longrightarrow> (\<exists>s. v = AnyString s \<and> ev_extra ex k = Some (AnyString s)))
      \<longleftrightarrow> extra_bound ev ex k" for k
    by (cases "ev_extra ev k") (auto simp: extra_bound_def)
  then show ?thesis by (simp add: check_extra_ok_iff list_all_iff)
qed

lemma validate_identity_Some:
  "validate_identity (Some ev) ex = Inr () \<longleftrightarrow>
   \<not> receipt_mismatch ev ex \<and> list_all (extra_bound ev ex) [''account_id'', ''environment'']"
proof (cases "receipt_mismatch ev ex")
  case True
  then show ?thesis by (simp add: validate_identity_def)
next
  case False
  then have "validate_identity (Some ev) ex =
      check_extra [''account_id'', ''environment''] (ev_extra ev) (ev_extra ex)"
    by (simp only: validate_identity_def option.case if_False)
  with False show ?thesis by (simp only: check_extra_bound simp_thms)
qed

text \<open>
  A receipt is accepted exactly when it is the receipt of the expected payment: same
  provider, channel, merchant and trade number, a provider trade id that matches the known
  one, and for each bound extra (account, environment) the receipt carries, the same string
  in the original payment.  In particular a receipt with a bound extra that the original
  payment does not carry is refused.
\<close>

theorem validate_identity_iff:
  "validate_identity (Some ev) ex = Inr () \<longleftrightarrow>
     ev_merchant_key ex \<noteq> [] \<and> ev_out_trade_no ex \<noteq> [] \<and>
     ev_provider ev = ev_provider ex \<and> ev_channel ev = ev_channel ex \<and>
     ev_merchant_key ev = ev_merchant_key ex \<and> ev_out_trade_no ev = ev_out_trade_no ex \<and>
     ev_provider_trade_id ev \<noteq> [] \<and>
     (ev_provider_trade_id ex = [] \<or> ev_provider_trade_id ev = ev_provider_trade_id ex) \<and>
     list_all (extra_bound ev ex) [''account_id'', ''environment'']"
  unfolding validate_identity_Some receipt_mismatch_def by argo

end
