(* ===== verification/Pay_Default.thy ===== *)
theory Pay_Default
  imports Pay_Payouts Pay_State
begin

text \<open>
  \<^verbatim>\<open>core/payment/event.go\<close>: the events made from the answers to queries; and \<^verbatim>\<open>core/payment/default.go\<close>
  with the package functions of the payout files: the same operations on the service set as the default.
\<close>

section \<open>Events from queries (event.go)\<close>

definition payment_event_type :: "payment_status \<Rightarrow> event_type" where
  "payment_event_type st =
     (case st of
        PaymentSucceeded \<Rightarrow> EventPaymentSucceeded
      | PaymentFailed \<Rightarrow> EventPaymentFailed
      | PaymentExpired \<Rightarrow> EventPaymentExpired
      | PaymentClosed \<Rightarrow> EventPaymentClosed
      | PaymentAuthorized \<Rightarrow> EventPaymentAuthorized
      | PaymentRefunding \<Rightarrow> EventPaymentRefunding
      | PaymentPartialRefunded \<Rightarrow> EventPaymentPartRefund
      | PaymentRefunded \<Rightarrow> EventPaymentRefunded
      | _ \<Rightarrow> EventUnknown)"

definition refund_event_type :: "refund_status \<Rightarrow> event_type" where
  "refund_event_type st =
     (case st of
        RefundPending \<Rightarrow> EventRefundCreated
      | RefundProcessing \<Rightarrow> EventRefundProcessing
      | RefundSucceeded \<Rightarrow> EventRefundSucceeded
      | RefundFailed \<Rightarrow> EventRefundFailed
      | RefundClosed \<Rightarrow> EventRefundFailed
      | _ \<Rightarrow> EventUnknown)"

definition event_from_query :: "query_response option \<Rightarrow> payment_event option" where
  "event_from_query resp =
     (case resp of None \<Rightarrow> None
      | Some r \<Rightarrow>
          if qs_status r = PaymentStatusUnset then None
          else Some
            \<lparr>ev_details = qs_details r, ev_expire_at = qs_expire_at r, ev_settlement = qs_settlement r,
             ev_event_id = [], ev_type = payment_event_type (qs_status r), ev_provider = qs_provider r,
             ev_channel = qs_channel r, ev_merchant_key = qs_merchant_key r, ev_payment_id = qs_payment_id r,
             ev_order_id = qs_order_id r, ev_out_trade_no = qs_out_trade_no r,
             ev_provider_trade_id = qs_provider_trade_id r, ev_refund_id = [], ev_provider_refund_id = [],
             ev_status = qs_status r, ev_refund_status = RefundStatusUnset,
             ev_amount = pay_amount (qs_pricing r), ev_paid_at = qs_paid_at r, ev_raw = qs_raw_body r,
             ev_extra = qs_extra r\<rparr>)"

definition event_from_query_refund :: "query_refund_response option \<Rightarrow> payment_event option" where
  "event_from_query_refund resp =
     (case resp of None \<Rightarrow> None
      | Some r \<Rightarrow>
          if fs_status r = RefundStatusUnset then None
          else Some
            \<lparr>ev_details = None, ev_expire_at = None, ev_settlement = None,
             ev_event_id = [], ev_type = refund_event_type (fs_status r), ev_provider = fs_provider r,
             ev_channel = fs_channel r, ev_merchant_key = fs_merchant_key r, ev_payment_id = fs_payment_id r,
             ev_order_id = [], ev_out_trade_no = [], ev_provider_trade_id = [], ev_refund_id = fs_refund_id r,
             ev_provider_refund_id = fs_provider_refund_id r, ev_status = PaymentStatusUnset,
             ev_refund_status = fs_status r, ev_amount = ra_refund (fs_amount r), ev_paid_at = None,
             ev_raw = [], ev_extra = Map.empty\<rparr>)"

section \<open>The default service (default.go)\<close>

definition set_default :: "'w pay_service option \<Rightarrow> 'w pay_service option \<Rightarrow> 'w pay_service option" where
  "set_default service old = service"

definition default_service :: "'w pay_service option \<Rightarrow> 'w pay_service pay_result" where
  "default_service d = (case d of None \<Rightarrow> Inl (PayErr ErrAdapterNotFound []) | Some s \<Rightarrow> Inr s)"

text \<open>\<open>service, err := Default(); if err != nil { return nil, err }\<close>, then a method of the service.\<close>

definition on_default ::
  "('w pay_service \<Rightarrow> 'w \<Rightarrow> 'a pay_result \<times> 'w) \<Rightarrow> 'w pay_service option \<Rightarrow> 'w \<Rightarrow> 'a pay_result \<times> 'w" where
  "on_default f d w = (case default_service d of Inl e \<Rightarrow> (Inl e, w) | Inr s \<Rightarrow> f s w)"

definition default_create_payment where
  "default_create_payment ctx now req = on_default (\<lambda>s. create_payment s ctx now req)"

definition default_query_payment where
  "default_query_payment ctx req = on_default (\<lambda>s. query_payment s ctx req)"

definition default_close_payment where
  "default_close_payment ctx req = on_default (\<lambda>s. close_payment s ctx req)"

definition default_refund where
  "default_refund ctx req = on_default (\<lambda>s. refund_payment s ctx req)"

definition default_query_refund where
  "default_query_refund ctx req = on_default (\<lambda>s. query_refund s ctx req)"

definition default_handle_notify where
  "default_handle_notify ctx req = on_default (\<lambda>s. handle_notify s ctx req)"

definition default_create_payout where
  "default_create_payout ctx req = on_default (\<lambda>s. create_payout s ctx req)"

definition default_query_payout where
  "default_query_payout ctx req = on_default (\<lambda>s. query_payout s ctx req)"

definition default_create_beneficiary where
  "default_create_beneficiary ctx req = on_default (\<lambda>s. create_beneficiary s ctx req)"

definition default_query_beneficiary where
  "default_query_beneficiary ctx req = on_default (\<lambda>s. query_beneficiary s ctx req)"

definition default_create_payout_batch where
  "default_create_payout_batch ctx req = on_default (\<lambda>s. create_payout_batch s ctx req)"

definition default_add_payout_batch_items where
  "default_add_payout_batch_items ctx req = on_default (\<lambda>s. add_payout_batch_items s ctx req)"

definition default_submit_payout_batch where
  "default_submit_payout_batch ctx req = on_default (\<lambda>s. submit_payout_batch s ctx req)"

definition default_query_payout_batch where
  "default_query_payout_batch ctx req = on_default (\<lambda>s. query_payout_batch s ctx req)"

definition default_list_payout_batch_items where
  "default_list_payout_batch_items ctx req = on_default (\<lambda>s. list_payout_batch_items s ctx req)"

definition default_generate_beneficiary_schema where
  "default_generate_beneficiary_schema ctx req = on_default (\<lambda>s. generate_beneficiary_schema s ctx req)"

text \<open>Reloading the channels changes the service that is the default.\<close>

definition default_reload_channels ::
  "'w pay_service option \<Rightarrow> channel_binding list \<Rightarrow> pay_error option \<times> 'w pay_service option" where
  "default_reload_channels d bindings =
     (case default_service d of Inl e \<Rightarrow> (Some e, d)
      | Inr s \<Rightarrow> (let (e, s) = reload_channels s bindings in (e, Some s)))"

definition close_default :: "'w pay_service option \<Rightarrow> 'w pay_service option" where
  "close_default old = set_default None old"

section \<open>What is shown\<close>

text \<open>
  The events made from the answers to queries carry the status they were made from, and for the statuses that
  have an event of their own the type alone says the same.  A refund that succeeded, be it of a part, is
  read as a payment refunded in full.
\<close>

theorem query_events_keep_the_status:
  "(\<forall>r. case event_from_query r of
          None \<Rightarrow> (\<forall>x. r = Some x \<longrightarrow> qs_status x = PaymentStatusUnset)
        | Some ev \<Rightarrow> (\<exists>x. r = Some x \<and> status_from_event ev = qs_status x \<and>
            ev_amount ev = pay_amount (qs_pricing x) \<and>
            status_from_event (ev\<lparr>ev_status := PaymentStatusUnset\<rparr>) =
              (if qs_status x \<in> {PaymentSucceeded, PaymentFailed, PaymentExpired, PaymentClosed, PaymentAuthorized,
                   PaymentRefunding, PaymentPartialRefunded, PaymentRefunded} then qs_status x
               else PaymentStatusUnset))) \<and>
   (\<forall>r. case event_from_query_refund r of
          None \<Rightarrow> (\<forall>x. r = Some x \<longrightarrow> fs_status x = RefundStatusUnset)
        | Some ev \<Rightarrow> (\<exists>x. r = Some x \<and> ev_refund_status ev = fs_status x \<and> ev_amount ev = ra_refund (fs_amount x) \<and>
            status_from_event ev =
              (if fs_status x = RefundProcessing then PaymentRefunding
               else if fs_status x = RefundSucceeded then PaymentRefunded else PaymentStatusUnset)))"
  (is "(\<forall>r. ?P r) \<and> (\<forall>r. ?R r)")
proof (intro conjI allI)
  show "?P r" for r
    by (cases r) (auto simp: event_from_query_def status_from_event_def payment_event_type_def
        split: payment_status.splits)
  show "?R r" for r
    by (cases r) (auto simp: event_from_query_refund_def status_from_event_def refund_event_type_def
        split: refund_status.splits)
qed

end
