(* ===== verification/Pay_Router.thy ===== *)
theory Pay_Router
  imports Pay_Service
begin

text \<open>
  The channel router (\<^verbatim>\<open>pkg/payment/channelrouter\<close>): an adapter of one provider that passes each operation
  on to the adapter of a route, found by channel and merchant key.  Routes come from a resolver, the static
  one built from a configuration or one supplied by the application, which is a function over the world.  A
  debug logger sees the stages of every operation.
\<close>

section \<open>Requests, routes, events (types.go)\<close>

datatype router_operation =
    OperationCreate | OperationQuery | OperationClose | OperationRefund | OperationQueryRefund | OperationNotify
  | OperationOther string

record resolve_request =
  rq_provider :: provider
  rq_channel :: channel
  rq_merchant_key :: string
  rq_operation :: router_operation

record 'w resolved_route =
  rd_provider :: provider
  rd_channel :: channel
  rd_merchant_key :: string
  rd_adapter :: "'w adapter option"

type_synonym 'w route_resolver =
  "pay_error go_ctx \<Rightarrow> resolve_request \<Rightarrow> 'w \<Rightarrow> 'w resolved_route option pay_result \<times> 'w"

record 'w pay_route =
  ru_provider :: provider
  ru_channels :: "channel list"
  ru_merchant_key :: string
  ru_default :: bool
  ru_adapter :: "'w adapter option"

datatype debug_stage =
    StageResolveStart | StageResolveSucceeded | StageResolveFailed | StageOperationStart | StageOperationDone
  | StageOperationFailed

datatype debug_payload_mode = DebugPayloadNone | DebugPayloadFull | DebugPayloadOther string

text \<open>What the fields \<open>Request\<close> and \<open>Response\<close> of an event may hold.\<close>

datatype debug_payload =
    CreatePayload create_request | CreatedPayload "create_response option"
  | QueryPayload query_request | QueriedPayload "query_response option"
  | ClosePayload close_request
  | RefundPayload refund_request | RefundedPayload "refund_response option"
  | QueryRefundPayload query_refund_request | QueriedRefundPayload "query_refund_response option"

record debug_event =
  de_stage :: debug_stage
  de_operation :: router_operation
  de_provider :: provider
  de_channel :: channel
  de_requested_key :: string
  de_resolved_key :: string
  de_payment_id :: string
  de_order_id :: string
  de_out_trade_no :: string
  de_provider_trade_id :: string
  de_refund_id :: string
  de_out_refund_no :: string
  de_provider_refund_id :: string
  de_err :: "pay_error option"
  de_request :: "debug_payload option"
  de_response :: "debug_payload option"

type_synonym 'w debug_logger = "pay_error go_ctx \<Rightarrow> debug_event \<Rightarrow> 'w \<Rightarrow> 'w"

definition debug_func :: "'w debug_logger option \<Rightarrow> 'w debug_logger" where
  "debug_func f ctx ev w = (case f of None \<Rightarrow> w | Some g \<Rightarrow> g ctx ev w)"

record 'w router_config =
  rg_provider :: provider
  rg_resolver :: "'w route_resolver option"
  rg_routes :: "'w pay_route list"
  rg_logger :: "'w debug_logger option"
  rg_mode :: debug_payload_mode

record 'w pay_router =
  rp_provider :: provider
  rp_resolver :: "'w route_resolver"
  rp_logger :: "'w debug_logger option"
  rp_mode :: debug_payload_mode
  rp_capabilities :: capabilities

section \<open>The static resolver (static.go)\<close>

record 'w static_resolver =
  st_routes :: "provider \<times> channel \<times> string \<rightharpoonup> 'w resolved_route"
  st_defaults :: "provider \<times> channel \<rightharpoonup> 'w resolved_route"

definition no_routes :: "'w static_resolver" where
  "no_routes = \<lparr>st_routes = Map.empty, st_defaults = Map.empty\<rparr>"

text \<open>The loop over the channels of a route; an error leaves what was added before it.\<close>

fun add_channels ::
  "'w pay_route \<Rightarrow> channel list \<Rightarrow> 'w static_resolver \<Rightarrow> pay_error option \<times> 'w static_resolver" where
  "add_channels ru [] r = (None, r)"
| "add_channels ru (c # cs) r =
     (if c = [] then (Some (PayErr ErrUnsupportedChannel ''route channel is required''), r)
      else
        (let resolved = \<lparr>rd_provider = ru_provider ru, rd_channel = c, rd_merchant_key = ru_merchant_key ru,
               rd_adapter = ru_adapter ru\<rparr>;
             key = (ru_provider ru, c, ru_merchant_key ru) in
         if st_routes r key \<noteq> None then (Some (PayErr ErrAdapterAlreadyExists ''duplicate route''), r)
         else
           (let r = r\<lparr>st_routes := (st_routes r)(key \<mapsto> resolved)\<rparr> in
            if ru_default ru then
              (if st_defaults r (ru_provider ru, c) \<noteq> None
               then (Some (PayErr ErrAdapterAlreadyExists ''duplicate default route''), r)
               else add_channels ru cs (r\<lparr>st_defaults := (st_defaults r)((ru_provider ru, c) \<mapsto> resolved)\<rparr>))
            else add_channels ru cs r)))"

definition add_route :: "'w pay_route \<Rightarrow> 'w static_resolver \<Rightarrow> pay_error option \<times> 'w static_resolver" where
  "add_route ru r =
     (if ru_provider ru = [] then (Some (PayErr ErrUnsupportedProvider ''route provider is required''), r)
      else if ru_merchant_key ru = [] then (Some (PayErr ErrInvalidRequest ''route merchant key is required''), r)
      else if ru_adapter ru = None then (Some (PayErr ErrAdapterNotFound ''route adapter is required''), r)
      else if ru_channels ru = [] then (Some (PayErr ErrUnsupportedChannel ''route channels are required''), r)
      else add_channels ru (ru_channels ru) r)"

fun add_routes :: "'w pay_route list \<Rightarrow> 'w static_resolver \<Rightarrow> 'w static_resolver pay_result" where
  "add_routes [] r = Inr r"
| "add_routes (ru # rus) r = (case add_route ru r of (Some e, _) \<Rightarrow> Inl e | (None, r) \<Rightarrow> add_routes rus r)"

definition new_static_resolver :: "'w pay_route list \<Rightarrow> 'w static_resolver pay_result" where
  "new_static_resolver rus = add_routes rus no_routes"

definition resolve_static ::
  "'w static_resolver \<Rightarrow> pay_error go_ctx \<Rightarrow> resolve_request \<Rightarrow> 'w resolved_route option pay_result" where
  "resolve_static r ctx req =
     (case ctx of NilCtx \<Rightarrow> Inl (PayErr ErrNilContext []) | Ctx (Some e) \<Rightarrow> Inl e
      | Ctx None \<Rightarrow>
          if rq_provider req = [] then Inl (PayErr ErrUnsupportedProvider ''provider is required'')
          else if rq_channel req = [] then Inl (PayErr ErrUnsupportedChannel ''channel is required'')
          else if rq_merchant_key req \<noteq> [] then
            (case st_routes r (rq_provider req, rq_channel req, rq_merchant_key req) of
               Some d \<Rightarrow> Inr (Some d)
             | None \<Rightarrow> Inl (PayErr ErrAdapterNotFound ''payment channel route''))
          else
            (case st_defaults r (rq_provider req, rq_channel req) of
               Some d \<Rightarrow> Inr (Some d)
             | None \<Rightarrow> Inl (PayErr ErrAdapterNotFound ''default payment channel route'')))"

definition static_route_resolver :: "'w static_resolver \<Rightarrow> 'w route_resolver" where
  "static_route_resolver r ctx req w = (resolve_static r ctx req, w)"

section \<open>Capabilities (capabilities.go)\<close>

text \<open>A value is appended unless it was seen before.\<close>

definition add_new :: "'a \<Rightarrow> 'a list \<Rightarrow> 'a list" where
  "add_new x xs = (if x \<in> set xs then xs else xs @ [x])"

definition merge_route_caps :: "provider \<Rightarrow> 'w pay_route \<Rightarrow> capabilities \<Rightarrow> capabilities" where
  "merge_route_caps prov ru caps =
     (case ru_adapter ru of None \<Rightarrow> caps
      | Some a \<Rightarrow>
          if ru_provider ru \<noteq> prov then caps
          else
            (let rc = ad_capabilities a in
             caps\<lparr>cap_channels := fold add_new (ru_channels ru) (cap_channels caps),
               cap_currencies := fold (add_new \<circ> normalize_currency) (cap_currencies rc) (cap_currencies caps),
               cap_actions := fold add_new (cap_actions rc) (cap_actions caps),
               supports_expire_at := supports_expire_at caps \<or> supports_expire_at rc,
               supports_close := supports_close caps \<or> supports_close rc,
               supports_refund := supports_refund caps \<or> supports_refund rc,
               supports_query_refund := supports_query_refund caps \<or> supports_query_refund rc,
               supports_partial_refund := supports_partial_refund caps \<or> supports_partial_refund rc,
               supports_query := supports_query caps \<or> supports_query rc,
               supports_notify := supports_notify caps \<or> supports_notify rc,
               supports_capture := supports_capture caps \<or> supports_capture rc,
               supports_confirm := supports_confirm caps \<or> supports_confirm rc,
               supports_reconcile := supports_reconcile caps \<or> supports_reconcile rc,
               supports_dispute := supports_dispute caps \<or> supports_dispute rc,
               supports_subscription := supports_subscription caps \<or> supports_subscription rc\<rparr>))"

definition empty_capabilities :: "provider \<Rightarrow> capabilities" where
  "empty_capabilities prov = \<lparr>cap_provider = prov, cap_channels = [], cap_currencies = [], cap_actions = [],
     supports_multi_merchant = False, supports_expire_at = False, supports_close = False,
     supports_refund = False, supports_query_refund = False, supports_partial_refund = False,
     supports_query = False, supports_notify = False, supports_capture = False,
     supports_confirm = False, supports_reconcile = False, supports_dispute = False,
     supports_subscription = False\<rparr>"

definition router_capabilities :: "provider \<Rightarrow> 'w pay_route list \<Rightarrow> capabilities" where
  "router_capabilities prov rus =
     fold (merge_route_caps prov) rus ((empty_capabilities prov)\<lparr>supports_multi_merchant := True\<rparr>)"

section \<open>The adapter (adapter.go, fill.go, debug.go)\<close>

definition new_pay_router :: "'w router_config \<Rightarrow> 'w pay_router pay_result" where
  "new_pay_router cfg =
     (if rg_provider cfg = [] then Inl (PayErr ErrUnsupportedProvider ''channelrouter provider is required'')
      else
        bindR (case rg_resolver cfg of Some f \<Rightarrow> Inr f
               | None \<Rightarrow> map_sum id static_route_resolver (new_static_resolver (rg_routes cfg))) (\<lambda>resolver.
        let caps = router_capabilities (rg_provider cfg) (rg_routes cfg);
            caps = (if cap_provider caps = [] then caps\<lparr>cap_provider := rg_provider cfg\<rparr> else caps) in
        Inr \<lparr>rp_provider = rg_provider cfg, rp_resolver = resolver, rp_logger = rg_logger cfg,
          rp_mode = rg_mode cfg, rp_capabilities = caps\<rparr>))"

definition debug :: "'w pay_router \<Rightarrow> pay_error go_ctx \<Rightarrow> debug_event \<Rightarrow> 'w \<Rightarrow> 'w" where
  "debug a ctx ev w = (case rp_logger a of None \<Rightarrow> w | Some l \<Rightarrow> l ctx ev w)"

definition with_request :: "'w pay_router \<Rightarrow> debug_payload \<Rightarrow> debug_event \<Rightarrow> debug_event" where
  "with_request a req ev = (if rp_mode a = DebugPayloadFull then ev\<lparr>de_request := Some req\<rparr> else ev)"

definition with_request_response :: "'w pay_router \<Rightarrow> debug_payload \<Rightarrow> debug_payload \<Rightarrow> debug_event \<Rightarrow> debug_event" where
  "with_request_response a req resp ev =
     (if rp_mode a = DebugPayloadFull then ev\<lparr>de_request := Some req, de_response := Some resp\<rparr> else ev)"

definition resolve_event ::
  "debug_stage \<Rightarrow> resolve_request \<Rightarrow> provider \<Rightarrow> channel \<Rightarrow> string \<Rightarrow> pay_error option \<Rightarrow> debug_event" where
  "resolve_event stage rq prov chan resolved err =
     \<lparr>de_stage = stage, de_operation = rq_operation rq, de_provider = prov, de_channel = chan,
      de_requested_key = rq_merchant_key rq, de_resolved_key = resolved, de_payment_id = [], de_order_id = [],
      de_out_trade_no = [], de_provider_trade_id = [], de_refund_id = [], de_out_refund_no = [],
      de_provider_refund_id = [], de_err = err, de_request = None, de_response = None\<rparr>"

text \<open>What the resolver answered, and the adapter of the route it found.\<close>

definition found_route :: "'w resolved_route option pay_result \<Rightarrow> ('w resolved_route \<times> 'w adapter) pay_result" where
  "found_route res =
     (let missing = Inl (PayErr ErrAdapterNotFound ''payment channel route not found'') in
      case res of Inl e \<Rightarrow> Inl e | Inr None \<Rightarrow> missing
      | Inr (Some d) \<Rightarrow> (case rd_adapter d of None \<Rightarrow> missing | Some ad \<Rightarrow> Inr (d, ad)))"

text \<open>The route with provider and channel filled in, when it is one of this router.\<close>

definition accept_route :: "'w pay_router \<Rightarrow> resolve_request \<Rightarrow> 'w resolved_route \<Rightarrow> 'w resolved_route pay_result" where
  "accept_route a rq d =
     (let d = (if rd_provider d = [] then d\<lparr>rd_provider := rp_provider a\<rparr> else d);
          d = (if rd_channel d = [] then d\<lparr>rd_channel := rq_channel rq\<rparr> else d) in
      if rd_merchant_key d = [] then Inl (PayErr ErrInvalidRequest ''resolved merchant key is required'')
      else if rd_provider d \<noteq> rp_provider a
      then Inl (PayErr ErrUnsupportedProvider ''resolved provider does not match'')
      else Inr d)"

definition router_resolve ::
  "'w pay_router \<Rightarrow> pay_error go_ctx \<Rightarrow> resolve_request \<Rightarrow> 'w \<Rightarrow> ('w resolved_route \<times> 'w adapter) pay_result \<times> 'w" where
  "router_resolve a ctx rq w =
     (if ctx = NilCtx then (Inl (PayErr ErrNilContext []), w)
      else
        (let rq = (if rq_provider rq = [] then rq\<lparr>rq_provider := rp_provider a\<rparr> else rq) in
         if rq_provider rq \<noteq> rp_provider a
         then (Inl (PayErr ErrUnsupportedProvider ''channelrouter provider does not match''), w)
         else
           (let w = debug a ctx (resolve_event StageResolveStart rq (rq_provider rq) (rq_channel rq) [] None) w;
                (res, w) = rp_resolver a ctx rq w in
            case found_route res of
              Inl e \<Rightarrow> (Inl e, debug a ctx
                (resolve_event StageResolveFailed rq (rq_provider rq) (rq_channel rq) [] (Some e)) w)
            | Inr (d, ad) \<Rightarrow>
                (case accept_route a rq d of
                   Inl e \<Rightarrow> (Inl e, w)
                 | Inr d \<Rightarrow> (Inr (d, ad), debug a ctx
                     (resolve_event StageResolveSucceeded rq (rd_provider d) (rd_channel d) (rd_merchant_key d) None) w)))))"

text \<open>\<open>route, err := a.resolve(...); if err != nil { return err }\<close>.\<close>

definition routed ::
  "'w pay_router \<Rightarrow> pay_error go_ctx \<Rightarrow> router_operation \<Rightarrow> provider \<Rightarrow> channel \<Rightarrow> string \<Rightarrow>
   ('w resolved_route \<Rightarrow> 'w adapter \<Rightarrow> 'w \<Rightarrow> 'a pay_result \<times> 'w) \<Rightarrow> 'w \<Rightarrow> 'a pay_result \<times> 'w" where
  "routed a ctx oper prov chan mkey k w =
     (case router_resolve a ctx
        \<lparr>rq_provider = prov, rq_channel = chan, rq_merchant_key = mkey, rq_operation = oper\<rparr> w of
        (Inl e, w) \<Rightarrow> (Inl e, w) | (Inr (d, ad), w) \<Rightarrow> k d ad w)"

text \<open>
  What the operations do with a route: the start is logged, the adapter called, and its failure or its answer,
  filled in for the route, is logged and returned.
\<close>

definition logged_call ::
  "'w pay_router \<Rightarrow> pay_error go_ctx \<Rightarrow> debug_event \<Rightarrow> (pay_error \<Rightarrow> debug_event) \<Rightarrow> ('b \<Rightarrow> debug_event) \<Rightarrow>
   ('w \<Rightarrow> 'b pay_result \<times> 'w) \<Rightarrow> ('b \<Rightarrow> 'b) \<Rightarrow> 'w \<Rightarrow> 'b pay_result \<times> 'w" where
  "logged_call a ctx start failed finished call finish w =
     (let w = debug a ctx start w;
          (res, w) = call w in
      case res of
        Inl e \<Rightarrow> (Inl e, debug a ctx (failed e) w)
      | Inr resp \<Rightarrow> (let resp = finish resp in (Inr resp, debug a ctx (finished resp) w)))"

subsection \<open>Creating payments\<close>

definition create_debug_event ::
  "debug_stage \<Rightarrow> create_request \<Rightarrow> 'w resolved_route \<Rightarrow> pay_error option \<Rightarrow> debug_event" where
  "create_debug_event stage req d err =
     \<lparr>de_stage = stage, de_operation = OperationCreate, de_provider = cr_provider req, de_channel = cr_channel req,
      de_requested_key = cr_merchant_key req, de_resolved_key = rd_merchant_key d,
      de_payment_id = cr_payment_id req, de_order_id = cr_order_id req, de_out_trade_no = cr_out_trade_no req,
      de_provider_trade_id = [], de_refund_id = [], de_out_refund_no = [], de_provider_refund_id = [],
      de_err = err, de_request = None, de_response = None\<rparr>"

definition create_response_debug_event ::
  "debug_stage \<Rightarrow> create_request \<Rightarrow> create_response option \<Rightarrow> 'w resolved_route \<Rightarrow> debug_event" where
  "create_response_debug_event stage req resp d =
     (let ev = create_debug_event stage req d None in
      case resp of None \<Rightarrow> ev | Some r \<Rightarrow> ev\<lparr>de_provider_trade_id := cs_provider_trade_id r\<rparr>)"

definition fill_create :: "'w resolved_route \<Rightarrow> create_response \<Rightarrow> create_response" where
  "fill_create d r =
     r\<lparr>cs_provider := rd_provider d, cs_channel := rd_channel d, cs_merchant_key := rd_merchant_key d\<rparr>"

definition router_create ::
  "'w pay_router \<Rightarrow> pay_error go_ctx \<Rightarrow> create_request \<Rightarrow> 'w \<Rightarrow> create_response option pay_result \<times> 'w" where
  "router_create a ctx req =
     routed a ctx OperationCreate (cr_provider req) (cr_channel req) (cr_merchant_key req) (\<lambda>d ad.
       let req = req\<lparr>cr_merchant_key := rd_merchant_key d\<rparr> in
       logged_call a ctx
         (with_request a (CreatePayload req) (create_debug_event StageOperationStart req d None))
         (\<lambda>e. with_request a (CreatePayload req) (create_debug_event StageOperationFailed req d (Some e)))
         (\<lambda>resp. with_request_response a (CreatePayload req) (CreatedPayload resp)
            (create_response_debug_event StageOperationDone req resp d))
         (ad_create ad ctx req) (map_option (fill_create d)))"

subsection \<open>Querying payments\<close>

definition query_debug_event ::
  "debug_stage \<Rightarrow> query_request \<Rightarrow> 'w resolved_route \<Rightarrow> pay_error option \<Rightarrow> debug_event" where
  "query_debug_event stage req d err =
     \<lparr>de_stage = stage, de_operation = OperationQuery, de_provider = qr_provider req, de_channel = qr_channel req,
      de_requested_key = qr_merchant_key req, de_resolved_key = rd_merchant_key d,
      de_payment_id = qr_payment_id req, de_order_id = qr_order_id req, de_out_trade_no = qr_out_trade_no req,
      de_provider_trade_id = qr_provider_trade_id req, de_refund_id = [], de_out_refund_no = [],
      de_provider_refund_id = [], de_err = err, de_request = None, de_response = None\<rparr>"

definition query_response_debug_event ::
  "debug_stage \<Rightarrow> query_request \<Rightarrow> query_response option \<Rightarrow> 'w resolved_route \<Rightarrow> debug_event" where
  "query_response_debug_event stage req resp d =
     (let ev = query_debug_event stage req d None in
      case resp of None \<Rightarrow> ev | Some r \<Rightarrow> ev\<lparr>de_provider_trade_id := qs_provider_trade_id r\<rparr>)"

definition fill_query :: "'w resolved_route \<Rightarrow> query_response \<Rightarrow> query_response" where
  "fill_query d r =
     r\<lparr>qs_provider := rd_provider d, qs_channel := rd_channel d, qs_merchant_key := rd_merchant_key d\<rparr>"

definition router_query ::
  "'w pay_router \<Rightarrow> pay_error go_ctx \<Rightarrow> query_request \<Rightarrow> 'w \<Rightarrow> query_response option pay_result \<times> 'w" where
  "router_query a ctx req =
     routed a ctx OperationQuery (qr_provider req) (qr_channel req) (qr_merchant_key req) (\<lambda>d ad.
       let req = req\<lparr>qr_merchant_key := rd_merchant_key d\<rparr> in
       logged_call a ctx
         (with_request a (QueryPayload req) (query_debug_event StageOperationStart req d None))
         (\<lambda>e. with_request a (QueryPayload req) (query_debug_event StageOperationFailed req d (Some e)))
         (\<lambda>resp. with_request_response a (QueryPayload req) (QueriedPayload resp)
            (query_response_debug_event StageOperationDone req resp d))
         (ad_query ad ctx req) (map_option (fill_query d)))"

subsection \<open>Closing payments\<close>

definition close_debug_event ::
  "debug_stage \<Rightarrow> close_request \<Rightarrow> 'w resolved_route \<Rightarrow> pay_error option \<Rightarrow> debug_event" where
  "close_debug_event stage req d err =
     \<lparr>de_stage = stage, de_operation = OperationClose, de_provider = cl_provider req, de_channel = cl_channel req,
      de_requested_key = cl_merchant_key req, de_resolved_key = rd_merchant_key d,
      de_payment_id = cl_payment_id req, de_order_id = cl_order_id req, de_out_trade_no = cl_out_trade_no req,
      de_provider_trade_id = cl_provider_trade_id req, de_refund_id = [], de_out_refund_no = [],
      de_provider_refund_id = [], de_err = err, de_request = None, de_response = None\<rparr>"

definition router_close :: "'w pay_router \<Rightarrow> pay_error go_ctx \<Rightarrow> close_request \<Rightarrow> 'w \<Rightarrow> pay_error option \<times> 'w" where
  "router_close a ctx req w =
     (case routed a ctx OperationClose (cl_provider req) (cl_channel req) (cl_merchant_key req) (\<lambda>d ad.
        let req = req\<lparr>cl_merchant_key := rd_merchant_key d\<rparr> in
        logged_call a ctx
          (with_request a (ClosePayload req) (close_debug_event StageOperationStart req d None))
          (\<lambda>e. with_request a (ClosePayload req) (close_debug_event StageOperationFailed req d (Some e)))
          (\<lambda>_. with_request a (ClosePayload req) (close_debug_event StageOperationDone req d None))
          (\<lambda>w. case ad_close ad ctx req w of (Some e, w) \<Rightarrow> (Inl e, w) | (None, w) \<Rightarrow> (Inr (), w)) id) w of
      (Inl e, w) \<Rightarrow> (Some e, w) | (Inr _, w) \<Rightarrow> (None, w))"

subsection \<open>Refunds\<close>

definition refund_debug_event ::
  "debug_stage \<Rightarrow> refund_request \<Rightarrow> 'w resolved_route \<Rightarrow> pay_error option \<Rightarrow> debug_event" where
  "refund_debug_event stage req d err =
     \<lparr>de_stage = stage, de_operation = OperationRefund, de_provider = rr_provider req, de_channel = rr_channel req,
      de_requested_key = rr_merchant_key req, de_resolved_key = rd_merchant_key d,
      de_payment_id = rr_payment_id req, de_order_id = rr_order_id req, de_out_trade_no = rr_out_trade_no req,
      de_provider_trade_id = rr_provider_trade_id req, de_refund_id = rr_refund_id req,
      de_out_refund_no = rr_out_refund_no req, de_provider_refund_id = [], de_err = err, de_request = None,
      de_response = None\<rparr>"

definition refund_response_debug_event ::
  "debug_stage \<Rightarrow> refund_request \<Rightarrow> refund_response option \<Rightarrow> 'w resolved_route \<Rightarrow> debug_event" where
  "refund_response_debug_event stage req resp d =
     (let ev = refund_debug_event stage req d None in
      case resp of None \<Rightarrow> ev
      | Some r \<Rightarrow> ev\<lparr>de_provider_refund_id := rs_provider_refund_id r, de_provider_trade_id := rs_provider_trade_id r\<rparr>)"

definition fill_refund :: "'w resolved_route \<Rightarrow> refund_response \<Rightarrow> refund_response" where
  "fill_refund d r =
     r\<lparr>rs_provider := rd_provider d, rs_channel := rd_channel d, rs_merchant_key := rd_merchant_key d\<rparr>"

definition router_refund ::
  "'w pay_router \<Rightarrow> pay_error go_ctx \<Rightarrow> refund_request \<Rightarrow> 'w \<Rightarrow> refund_response option pay_result \<times> 'w" where
  "router_refund a ctx req =
     routed a ctx OperationRefund (rr_provider req) (rr_channel req) (rr_merchant_key req) (\<lambda>d ad.
       let req = req\<lparr>rr_merchant_key := rd_merchant_key d\<rparr> in
       logged_call a ctx
         (with_request a (RefundPayload req) (refund_debug_event StageOperationStart req d None))
         (\<lambda>e. with_request a (RefundPayload req) (refund_debug_event StageOperationFailed req d (Some e)))
         (\<lambda>resp. with_request_response a (RefundPayload req) (RefundedPayload resp)
            (refund_response_debug_event StageOperationDone req resp d))
         (ad_refund ad ctx req) (map_option (fill_refund d)))"

definition query_refund_debug_event ::
  "debug_stage \<Rightarrow> query_refund_request \<Rightarrow> 'w resolved_route \<Rightarrow> pay_error option \<Rightarrow> debug_event" where
  "query_refund_debug_event stage req d err =
     \<lparr>de_stage = stage, de_operation = OperationQueryRefund, de_provider = fr_provider req,
      de_channel = fr_channel req, de_requested_key = fr_merchant_key req, de_resolved_key = rd_merchant_key d,
      de_payment_id = fr_payment_id req, de_order_id = [], de_out_trade_no = fr_out_trade_no req,
      de_provider_trade_id = fr_provider_trade_id req, de_refund_id = fr_refund_id req,
      de_out_refund_no = fr_out_refund_no req, de_provider_refund_id = fr_provider_refund_id req,
      de_err = err, de_request = None, de_response = None\<rparr>"

definition query_refund_response_debug_event ::
  "debug_stage \<Rightarrow> query_refund_request \<Rightarrow> query_refund_response option \<Rightarrow> 'w resolved_route \<Rightarrow> debug_event" where
  "query_refund_response_debug_event stage req resp d =
     (let ev = query_refund_debug_event stage req d None in
      case resp of None \<Rightarrow> ev
      | Some r \<Rightarrow> ev\<lparr>de_provider_refund_id := fs_provider_refund_id r, de_provider_trade_id := fs_provider_trade_id r\<rparr>)"

definition fill_query_refund :: "'w resolved_route \<Rightarrow> query_refund_response \<Rightarrow> query_refund_response" where
  "fill_query_refund d r =
     r\<lparr>fs_provider := rd_provider d, fs_channel := rd_channel d, fs_merchant_key := rd_merchant_key d\<rparr>"

definition router_query_refund ::
  "'w pay_router \<Rightarrow> pay_error go_ctx \<Rightarrow> query_refund_request \<Rightarrow> 'w \<Rightarrow> query_refund_response option pay_result \<times> 'w" where
  "router_query_refund a ctx req =
     routed a ctx OperationQueryRefund (fr_provider req) (fr_channel req) (fr_merchant_key req) (\<lambda>d ad.
       let req = req\<lparr>fr_merchant_key := rd_merchant_key d\<rparr> in
       logged_call a ctx
         (with_request a (QueryRefundPayload req) (query_refund_debug_event StageOperationStart req d None))
         (\<lambda>e. with_request a (QueryRefundPayload req) (query_refund_debug_event StageOperationFailed req d (Some e)))
         (\<lambda>resp. with_request_response a (QueryRefundPayload req) (QueriedRefundPayload resp)
            (query_refund_response_debug_event StageOperationDone req resp d))
         (ad_query_refund ad ctx req) (map_option (fill_query_refund d)))"

subsection \<open>Notifications\<close>

fun first_nonempty :: "string list \<Rightarrow> string" where
  "first_nonempty [] = []"
| "first_nonempty (v # vs) = (if v \<noteq> [] then v else first_nonempty vs)"

text \<open>A nil map and an empty one have the same look-ups.\<close>

definition queried_merchant :: "notify_request \<Rightarrow> string" where
  "queried_merchant req = (case nr_query req ''merchant_key'' of None \<Rightarrow> [] | Some vs \<Rightarrow> first_nonempty vs)"

definition router_parse_notify ::
  "'w pay_router \<Rightarrow> pay_error go_ctx \<Rightarrow> notify_request \<Rightarrow> 'w \<Rightarrow> notify_result option pay_result \<times> 'w" where
  "router_parse_notify a ctx req =
     routed a ctx OperationNotify (nr_provider req) (nr_channel req) (queried_merchant req)
       (\<lambda>d ad w. ad_parse_notify ad ctx req w)"

text \<open>The router as an adapter; it has none of the optional interfaces.\<close>

definition router_adapter :: "'w pay_router \<Rightarrow> 'w adapter" where
  "router_adapter a = \<lparr>ad_name = rp_provider a, ad_capabilities = rp_capabilities a,
     ad_create = router_create a, ad_query = router_query a, ad_close = router_close a,
     ad_refund = router_refund a, ad_query_refund = router_query_refund a, ad_parse_notify = router_parse_notify a,
     ad_payouts = None, ad_beneficiaries = None, ad_batches = None, ad_schemas = None\<rparr>"

end
