(* ===== verification/Pay_Routes.thy ===== *)
theory Pay_Routes
  imports Pay_Router
begin

text \<open>
  What is shown of the channel router: the static resolver holds exactly the configured routes, and an
  operation reaches the adapter of its route and no other.
\<close>

section \<open>The routes of a configuration\<close>

definition serves :: "provider \<Rightarrow> channel \<Rightarrow> string \<Rightarrow> 'w pay_route \<Rightarrow> bool" where
  "serves p c k ru \<longleftrightarrow> ru_provider ru = p \<and> c \<in> set (ru_channels ru) \<and> ru_merchant_key ru = k"

definition serves_default :: "provider \<Rightarrow> channel \<Rightarrow> 'w pay_route \<Rightarrow> bool" where
  "serves_default p c ru \<longleftrightarrow> ru_default ru \<and> ru_provider ru = p \<and> c \<in> set (ru_channels ru)"

definition route_for :: "'w pay_route \<Rightarrow> channel \<Rightarrow> 'w resolved_route" where
  "route_for ru c = \<lparr>rd_provider = ru_provider ru, rd_channel = c, rd_merchant_key = ru_merchant_key ru,
     rd_adapter = ru_adapter ru\<rparr>"

definition route_ok :: "'w pay_route \<Rightarrow> bool" where
  "route_ok ru \<longleftrightarrow> ru_provider ru \<noteq> [] \<and> ru_merchant_key ru \<noteq> [] \<and> ru_adapter ru \<noteq> None \<and> ru_channels ru \<noteq> [] \<and>
     [] \<notin> set (ru_channels ru) \<and> distinct (ru_channels ru)"

text \<open>A resolver with the channels of one route added.\<close>

definition with_channels :: "'w pay_route \<Rightarrow> channel set \<Rightarrow> 'w static_resolver \<Rightarrow> 'w static_resolver" where
  "with_channels ru C r = \<lparr>
     st_routes = (\<lambda>(p, c, k). if p = ru_provider ru \<and> c \<in> C \<and> k = ru_merchant_key ru then Some (route_for ru c)
       else st_routes r (p, c, k)),
     st_defaults = (\<lambda>(p, c). if ru_default ru \<and> p = ru_provider ru \<and> c \<in> C then Some (route_for ru c)
       else st_defaults r (p, c))\<rparr>"

lemma with_no_channels [simp]: "with_channels ru {} r = r"
  by (cases r) (simp add: with_channels_def fun_eq_iff)

lemma with_channels_insert:
  "with_channels ru (insert c C) r = with_channels ru C (with_channels ru {c} r)"
  by (auto simp: with_channels_def fun_eq_iff)

lemma add_channels_None:
  "add_channels ru cs r = (None, r') \<longleftrightarrow>
     [] \<notin> set cs \<and> distinct cs \<and> (\<forall>c \<in> set cs. st_routes r (ru_provider ru, c, ru_merchant_key ru) = None) \<and>
     (ru_default ru \<longrightarrow> (\<forall>c \<in> set cs. st_defaults r (ru_provider ru, c) = None)) \<and>
     r' = with_channels ru (set cs) r"
proof (induction cs arbitrary: r)
  case Nil
  then show ?case by auto
next
  case (Cons c cs)
  have one: "with_channels ru {c} r =
      (let r1 = r\<lparr>st_routes := (st_routes r)((ru_provider ru, c, ru_merchant_key ru) \<mapsto> route_for ru c)\<rparr> in
       if ru_default ru then r1\<lparr>st_defaults := (st_defaults r)((ru_provider ru, c) \<mapsto> route_for ru c)\<rparr> else r1)"
    by (cases r) (auto simp: with_channels_def fun_eq_iff Let_def)
  have step: "add_channels ru (c # cs) r = (None, r') \<longleftrightarrow>
      c \<noteq> [] \<and> st_routes r (ru_provider ru, c, ru_merchant_key ru) = None \<and>
      (ru_default ru \<longrightarrow> st_defaults r (ru_provider ru, c) = None) \<and>
      add_channels ru cs (with_channels ru {c} r) = (None, r')"
    by (auto simp: one Let_def route_for_def)
  have free: "(\<forall>x \<in> set cs. st_routes (with_channels ru {c} r) (ru_provider ru, x, ru_merchant_key ru) = None) \<longleftrightarrow>
      c \<notin> set cs \<and> (\<forall>x \<in> set cs. st_routes r (ru_provider ru, x, ru_merchant_key ru) = None)"
    by (auto simp: with_channels_def)
  have free_defaults: "ru_default ru \<longrightarrow>
      (\<forall>x \<in> set cs. st_defaults (with_channels ru {c} r) (ru_provider ru, x) = None) \<longleftrightarrow>
      c \<notin> set cs \<and> (\<forall>x \<in> set cs. st_defaults r (ru_provider ru, x) = None)"
    by (auto simp: with_channels_def)
  have all: "with_channels ru (set cs) (with_channels ru {c} r) = with_channels ru (set (c # cs)) r"
    by (simp add: with_channels_insert [symmetric])
  show ?case unfolding step Cons.IH free all using free_defaults by auto
qed

lemma add_route_None:
  "add_route ru r = (None, r') \<longleftrightarrow>
     route_ok ru \<and> (\<forall>c \<in> set (ru_channels ru). st_routes r (ru_provider ru, c, ru_merchant_key ru) = None) \<and>
     (ru_default ru \<longrightarrow> (\<forall>c \<in> set (ru_channels ru). st_defaults r (ru_provider ru, c) = None)) \<and>
     r' = with_channels ru (set (ru_channels ru)) r"
  by (auto simp: add_route_def route_ok_def add_channels_None)

text \<open>The routes of a list over those of a resolver; the first that serves a request counts.\<close>

definition with_routes :: "'w pay_route list \<Rightarrow> 'w static_resolver \<Rightarrow> 'w static_resolver" where
  "with_routes rus r = \<lparr>
     st_routes = (\<lambda>(p, c, k). case find (serves p c k) rus of Some ru \<Rightarrow> Some (route_for ru c)
       | None \<Rightarrow> st_routes r (p, c, k)),
     st_defaults = (\<lambda>(p, c). case find (serves_default p c) rus of Some ru \<Rightarrow> Some (route_for ru c)
       | None \<Rightarrow> st_defaults r (p, c))\<rparr>"

definition taken :: "'a option \<Rightarrow> nat" where
  "taken x = (if x = None then 0 else 1)"

definition room_for :: "'w pay_route list \<Rightarrow> 'w static_resolver \<Rightarrow> bool" where
  "room_for rus r \<longleftrightarrow>
     (\<forall>p c k. length (filter (serves p c k) rus) + taken (st_routes r (p, c, k)) \<le> 1) \<and>
     (\<forall>p c. length (filter (serves_default p c) rus) + taken (st_defaults r (p, c)) \<le> 1)"

lemma find_none_filter: "length (filter P xs) = 0 \<Longrightarrow> find P xs = None"
  by (auto simp: find_None_iff filter_empty_conv)

lemma room_for_Cons:
  "room_for (ru # rus) r \<longleftrightarrow>
     (\<forall>c \<in> set (ru_channels ru). st_routes r (ru_provider ru, c, ru_merchant_key ru) = None) \<and>
     (ru_default ru \<longrightarrow> (\<forall>c \<in> set (ru_channels ru). st_defaults r (ru_provider ru, c) = None)) \<and>
     room_for rus (with_channels ru (set (ru_channels ru)) r)"
proof -
  let ?r = "with_channels ru (set (ru_channels ru)) r"
  have routes: "length (filter (serves p c k) (ru # rus)) + taken (st_routes r (p, c, k)) \<le> 1 \<longleftrightarrow>
      (serves p c k ru \<longrightarrow> st_routes r (p, c, k) = None) \<and>
      length (filter (serves p c k) rus) + taken (st_routes ?r (p, c, k)) \<le> 1" for p c k
    by (auto simp: serves_def with_channels_def taken_def)
  have defaults: "length (filter (serves_default p c) (ru # rus)) + taken (st_defaults r (p, c)) \<le> 1 \<longleftrightarrow>
      (serves_default p c ru \<longrightarrow> st_defaults r (p, c) = None) \<and>
      length (filter (serves_default p c) rus) + taken (st_defaults ?r (p, c)) \<le> 1" for p c
    by (auto simp: serves_default_def with_channels_def taken_def)
  show ?thesis unfolding room_for_def routes defaults
    by (auto simp: serves_def serves_default_def)
qed

lemma with_routes_Cons:
  assumes "room_for rus (with_channels ru (set (ru_channels ru)) r)"
  shows "with_routes rus (with_channels ru (set (ru_channels ru)) r) = with_routes (ru # rus) r"
proof -
  let ?r = "with_channels ru (set (ru_channels ru)) r"
  have "find (serves p c k) rus = None" if "serves p c k ru" for p c k
  proof (rule find_none_filter)
    have "taken (st_routes ?r (p, c, k)) = 1"
      using that by (auto simp: serves_def with_channels_def taken_def)
    then show "length (filter (serves p c k) rus) = 0"
      using assms unfolding room_for_def by (metis add_le_same_cancel2 le_zero_eq)
  qed
  moreover have "find (serves_default p c) rus = None" if "serves_default p c ru" for p c
  proof (rule find_none_filter)
    have "taken (st_defaults ?r (p, c)) = 1"
      using that by (auto simp: serves_default_def with_channels_def taken_def)
    then show "length (filter (serves_default p c) rus) = 0"
      using assms unfolding room_for_def by (metis add_le_same_cancel2 le_zero_eq)
  qed
  ultimately show ?thesis
    by (auto simp: with_routes_def fun_eq_iff with_channels_def serves_def serves_default_def split: option.splits)
qed

lemma add_routes_Inr:
  "add_routes rus r = Inr r' \<longleftrightarrow> (\<forall>ru \<in> set rus. route_ok ru) \<and> room_for rus r \<and> r' = with_routes rus r"
proof (induction rus arbitrary: r)
  case Nil
  show ?case by (cases r) (auto simp: with_routes_def fun_eq_iff room_for_def taken_def)
next
  case (Cons ru rus)
  let ?r = "with_channels ru (set (ru_channels ru)) r"
  have "add_routes (ru # rus) r = Inr r' \<longleftrightarrow> (\<exists>r1. add_route ru r = (None, r1) \<and> add_routes rus r1 = Inr r')"
    by (auto split: prod.splits option.splits)
  also have "\<dots> \<longleftrightarrow> (route_ok ru \<and>
      (\<forall>c \<in> set (ru_channels ru). st_routes r (ru_provider ru, c, ru_merchant_key ru) = None) \<and>
      (ru_default ru \<longrightarrow> (\<forall>c \<in> set (ru_channels ru). st_defaults r (ru_provider ru, c) = None))) \<and>
      (\<forall>ru \<in> set rus. route_ok ru) \<and> room_for rus ?r \<and> r' = with_routes rus ?r"
    unfolding add_route_None Cons.IH by auto
  also have "\<dots> \<longleftrightarrow> (\<forall>x \<in> set (ru # rus). route_ok x) \<and> room_for (ru # rus) r \<and> r' = with_routes (ru # rus) r"
    using with_routes_Cons [of rus ru r] unfolding room_for_Cons by auto
  finally show ?case .
qed

lemma new_static_resolver_Inr:
  "new_static_resolver rus = Inr r \<longleftrightarrow>
     (\<forall>ru \<in> set rus. route_ok ru) \<and> (\<forall>p c k. length (filter (serves p c k) rus) \<le> 1) \<and>
     (\<forall>p c. length (filter (serves_default p c) rus) \<le> 1) \<and> r = with_routes rus no_routes"
  by (auto simp: new_static_resolver_def add_routes_Inr room_for_def no_routes_def taken_def)

text \<open>The route a configuration has for a request, with a merchant key or without.\<close>

definition configured_route :: "'w pay_route list \<Rightarrow> provider \<Rightarrow> channel \<Rightarrow> string \<Rightarrow> 'w pay_route option" where
  "configured_route rus p c k = find (if k = [] then serves_default p c else serves p c k) rus"

lemma configured_route_Some:
  assumes "configured_route rus p c k = Some ru"
  shows "ru \<in> set rus" "ru_provider ru = p" "c \<in> set (ru_channels ru)"
    "if k = [] then ru_default ru else ru_merchant_key ru = k"
  using assms
  by (auto simp: configured_route_def find_Some_iff serves_def serves_default_def split: if_splits)

text \<open>
  C20: the static resolver is exactly its configuration.  It is built if and only if every route is
  complete, with distinct non-empty channels, and no two routes compete for a provider, channel and merchant key
  or for the default of a provider and channel; then a request is resolved to the one route configured for
  it, by its merchant key or else as the default, and is refused as not found otherwise.
\<close>

theorem static_routes_exact:
  "((\<exists>r. new_static_resolver rus = Inr r) \<longleftrightarrow>
      (\<forall>ru \<in> set rus. route_ok ru) \<and> (\<forall>p c k. length (filter (serves p c k) rus) \<le> 1) \<and>
      (\<forall>p c. length (filter (serves_default p c) rus) \<le> 1)) \<and>
   (\<forall>r rq. new_static_resolver rus = Inr r \<and> rq_provider rq \<noteq> [] \<and> rq_channel rq \<noteq> [] \<longrightarrow>
      (case configured_route rus (rq_provider rq) (rq_channel rq) (rq_merchant_key rq) of
         Some ru \<Rightarrow> resolve_static r (Ctx None) rq = Inr (Some (route_for ru (rq_channel rq)))
       | None \<Rightarrow> (\<exists>msg. resolve_static r (Ctx None) rq = Inl (PayErr ErrAdapterNotFound msg))))"
  by (auto simp: new_static_resolver_Inr resolve_static_def configured_route_def with_routes_def no_routes_def
      split: option.splits)

definition sample_route :: "string \<Rightarrow> bool \<Rightarrow> nat adapter \<Rightarrow> nat pay_route" where
  "sample_route k dflt ad = \<lparr>ru_provider = ''wechat'', ru_channels = [''wechat_native''], ru_merchant_key = k,
     ru_default = dflt, ru_adapter = Some ad\<rparr>"

definition sample_routes :: "notify_result option \<Rightarrow> nat pay_route list" where
  "sample_routes n = [sample_route ''m1'' True (counting_adapter ''wechat'' None),
     sample_route ''m2'' False (counting_adapter ''wechat'' n)]"

definition sample_resolver :: "notify_result option \<Rightarrow> nat static_resolver" where
  "sample_resolver n = with_routes (sample_routes n) no_routes"

lemma sample_resolver_new: "new_static_resolver (sample_routes n) = Inr (sample_resolver n)"
  by (auto simp: new_static_resolver_Inr sample_resolver_def sample_routes_def sample_route_def route_ok_def
      serves_def serves_default_def)

theorem static_routes_exact_witness:
  "resolve_static (sample_resolver None) (Ctx None)
     \<lparr>rq_provider = ''wechat'', rq_channel = ''wechat_native'', rq_merchant_key = ''m2'',
      rq_operation = OperationCreate\<rparr> =
   Inr (Some (route_for (sample_route ''m2'' False (counting_adapter ''wechat'' None)) ''wechat_native''))"
proof -
  let ?rq = "\<lparr>rq_provider = ''wechat'', rq_channel = ''wechat_native'', rq_merchant_key = ''m2'',
      rq_operation = OperationCreate\<rparr>"
  have "configured_route (sample_routes None) ''wechat'' ''wechat_native'' ''m2'' =
      Some (sample_route ''m2'' False (counting_adapter ''wechat'' None))"
    by (simp add: configured_route_def sample_routes_def sample_route_def serves_def)
  with static_routes_exact [of "sample_routes None", THEN conjunct2, rule_format,
      of "sample_resolver None" ?rq] sample_resolver_new [of None]
  show ?thesis by simp
qed

section \<open>Resolvers that answer what they were asked\<close>

text \<open>What a request may be answered with: a route of its provider and channel, and of its merchant if it has one.\<close>

definition answers :: "resolve_request \<Rightarrow> 'w resolved_route \<Rightarrow> bool" where
  "answers rq d \<longleftrightarrow> rd_provider d = rq_provider rq \<and> rd_channel d = rq_channel rq \<and> rd_channel d \<noteq> [] \<and>
     rd_merchant_key d \<noteq> [] \<and> (rq_merchant_key rq \<noteq> [] \<longrightarrow> rd_merchant_key d = rq_merchant_key rq)"

text \<open>The logger's part of a run.\<close>

definition debug_all :: "'w pay_router \<Rightarrow> pay_error go_ctx \<Rightarrow> debug_event list \<Rightarrow> 'w \<Rightarrow> 'w" where
  "debug_all a ctx evs w = fold (debug a ctx) evs w"

lemma debug_all_Nil [simp]: "debug_all a ctx [] w = w"
  by (simp add: debug_all_def)

lemma debug_all_one: "debug a ctx ev w = debug_all a ctx [ev] w"
  by (simp add: debug_all_def)

lemma debug_all_append [simp]: "debug_all a ctx es (debug_all a ctx ds w) = debug_all a ctx (ds @ es) w"
  by (simp add: debug_all_def)

lemma found_route_Inr: "found_route res = Inr (d, ad) \<longleftrightarrow> res = Inr (Some d) \<and> rd_adapter d = Some ad"
  by (auto simp: found_route_def Let_def split: sum.splits option.splits)

lemma accept_answer:
  assumes "answers rq d" "rq_provider rq = rp_provider a" "rp_provider a \<noteq> []"
  shows "accept_route a rq d = Inr d"
  using assms by (simp add: accept_route_def answers_def)

locale lawful_resolver =
  fixes resolve :: "'r \<Rightarrow> 'w route_resolver"
    and good :: "'r \<Rightarrow> bool"
  assumes answered: "good r \<Longrightarrow> resolve r ctx rq w = (Inr (Some d), w') \<Longrightarrow> answers rq d"
    and silent: "good r \<Longrightarrow> snd (resolve r ctx rq w) = w"
begin

text \<open>
  A route is only found for a request of the router's provider, as the resolver's answer to it; nothing but the
  logger is called.
\<close>

lemma resolve_cases:
  assumes "rp_resolver a = resolve r" "good r" "rp_provider a \<noteq> []"
  obtains (refused) e evs where "router_resolve a ctx rq w = (Inl e, debug_all a ctx evs w)"
  | (found) d ad evs v where "router_resolve a ctx rq w = (Inr (d, ad), debug_all a ctx evs w)"
      "rq_provider rq = [] \<or> rq_provider rq = rp_provider a" "rd_adapter d = Some ad"
      "answers (rq\<lparr>rq_provider := rp_provider a\<rparr>) d"
      "resolve r ctx (rq\<lparr>rq_provider := rp_provider a\<rparr>) v = (Inr (Some d), v)"
proof (cases "ctx = NilCtx \<or> \<not> (rq_provider rq = [] \<or> rq_provider rq = rp_provider a)")
  case True
  then have "\<exists>e. router_resolve a ctx rq w = (Inl e, debug_all a ctx [] w)"
    by (auto simp: router_resolve_def Let_def)
  then show ?thesis using refused by blast
next
  case False
  let ?rq = "rq\<lparr>rq_provider := rp_provider a\<rparr>"
  have filled: "(if rq_provider rq = [] then ?rq else rq) = ?rq"
    using False by (cases rq) auto
  define v where "v = debug_all a ctx [resolve_event StageResolveStart ?rq (rp_provider a) (rq_channel rq) [] None] w"
  have sel: "rq_provider ?rq = rp_provider a" "rq_channel ?rq = rq_channel rq" by simp_all
  have start: "debug a ctx (resolve_event StageResolveStart ?rq (rp_provider a) (rq_channel rq) [] None) w = v"
    by (simp add: v_def debug_all_one)
  obtain x where run: "resolve r ctx ?rq v = (x, v)"
    using silent [OF assms(2), of ctx ?rq v] by (metis prod.collapse)
  have res: "router_resolve a ctx rq w =
      (case found_route x of
         Inl e \<Rightarrow> (Inl e, debug a ctx
           (resolve_event StageResolveFailed ?rq (rp_provider a) (rq_channel rq) [] (Some e)) v)
       | Inr (d, ad) \<Rightarrow>
           (case accept_route a ?rq d of
              Inl e \<Rightarrow> (Inl e, v)
            | Inr d \<Rightarrow> (Inr (d, ad), debug a ctx
                (resolve_event StageResolveSucceeded ?rq (rd_provider d) (rd_channel d) (rd_merchant_key d) None) v)))"
    using False run unfolding router_resolve_def filled Let_def sel start assms(1) by simp
  show ?thesis
  proof (cases "found_route x")
    case (Inl e)
    then show ?thesis using refused res by (simp add: v_def debug_all_one)
  next
    case (Inr y)
    then obtain d ad where y: "x = Inr (Some d)" "rd_adapter d = Some ad" "found_route x = Inr (d, ad)"
      by (cases y) (simp add: found_route_Inr)
    from answered [OF assms(2) run [unfolded y(1)]] have ans: "answers ?rq d" .
    from ans have "accept_route a ?rq d = Inr d" by (rule accept_answer) (simp_all add: assms(3))
    with res y(3) have "\<exists>evs. router_resolve a ctx rq w = (Inr (d, ad), debug_all a ctx evs w)"
      by (auto simp: v_def debug_all_one)
    then show ?thesis using found False y ans run by blast
  qed
qed

end

section \<open>The static resolver keeps the contract\<close>

definition built :: "'w static_resolver \<Rightarrow> bool" where
  "built r \<longleftrightarrow> (\<exists>rus. new_static_resolver rus = Inr r)"

lemma resolve_built:
  assumes "new_static_resolver rus = Inr r" "resolve_static r ctx rq = Inr (Some d)"
  shows "\<exists>ru. configured_route rus (rq_provider rq) (rq_channel rq) (rq_merchant_key rq) = Some ru \<and>
    d = route_for ru (rq_channel rq) \<and> route_ok ru \<and> rq_channel rq \<noteq> []"
proof -
  have ok: "\<forall>ru \<in> set rus. route_ok ru" and r: "r = with_routes rus no_routes"
    using assms(1) by (auto simp: new_static_resolver_Inr)
  from assms(2) obtain ru where "configured_route rus (rq_provider rq) (rq_channel rq) (rq_merchant_key rq) = Some ru"
      "d = route_for ru (rq_channel rq)" "rq_channel rq \<noteq> []"
    by (auto simp: resolve_static_def r with_routes_def no_routes_def configured_route_def
        split: go_ctx.splits option.splits if_splits)
  with ok configured_route_Some(1) [of rus] show ?thesis by blast
qed

interpretation sroute: lawful_resolver static_route_resolver built
proof
  fix r :: "'a static_resolver" and ctx rq and w w' :: 'a and d
  assume "built r" "static_route_resolver r ctx rq w = (Inr (Some d), w')"
  then obtain rus ru where ru: "configured_route rus (rq_provider rq) (rq_channel rq) (rq_merchant_key rq) = Some ru"
      "d = route_for ru (rq_channel rq)" "route_ok ru" "rq_channel rq \<noteq> []"
    by (auto simp: built_def static_route_resolver_def dest: resolve_built)
  then show "answers rq d"
    using configured_route_Some [OF ru(1)] by (simp add: answers_def route_for_def route_ok_def)
qed (simp add: static_route_resolver_def)

lemma new_pay_router_static:
  assumes "new_pay_router cfg = Inr a" "rg_resolver cfg = None"
  obtains r where "new_static_resolver (rg_routes cfg) = Inr r" "rp_resolver a = static_route_resolver r"
    "rp_provider a = rg_provider cfg" "rp_provider a \<noteq> []"
  using assms by (auto simp: new_pay_router_def bindR_Inr_iff map_sum_def Let_def split: if_splits sum.splits)

text \<open>An operation is refused, or goes on with the configured route and its adapter.\<close>

lemma routed_static:
  assumes "new_pay_router cfg = Inr a" "rg_resolver cfg = None"
  obtains (refused) e evs where "routed a ctx oper prov chan mkey k w = (Inl e, debug_all a ctx evs w)"
  | (through) ru ad evs where "configured_route (rg_routes cfg) (rg_provider cfg) chan mkey = Some ru"
      "prov = [] \<or> prov = rg_provider cfg" "ru_adapter ru = Some ad"
      "routed a ctx oper prov chan mkey k w = k (route_for ru chan) ad (debug_all a ctx evs w)"
proof -
  let ?rq = "\<lparr>rq_provider = prov, rq_channel = chan, rq_merchant_key = mkey, rq_operation = oper\<rparr>"
  obtain r where r: "new_static_resolver (rg_routes cfg) = Inr r" "rp_resolver a = static_route_resolver r"
    "rp_provider a = rg_provider cfg" "rp_provider a \<noteq> []"
    using assms by (rule new_pay_router_static)
  from r(1) have "built r" by (auto simp: built_def)
  from r(2) this r(4) show ?thesis
  proof (rule sroute.resolve_cases [where ctx = ctx and rq = ?rq and w = w])
    fix e evs
    assume "router_resolve a ctx ?rq w = (Inl e, debug_all a ctx evs w)"
    then show ?thesis using refused by (simp add: routed_def)
  next
    fix d ad evs v
    assume res: "router_resolve a ctx ?rq w = (Inr (d, ad), debug_all a ctx evs w)"
      and prov: "rq_provider ?rq = [] \<or> rq_provider ?rq = rp_provider a" and ad: "rd_adapter d = Some ad"
      and run: "static_route_resolver r ctx (?rq\<lparr>rq_provider := rp_provider a\<rparr>) v = (Inr (Some d), v)"
    from run have "resolve_static r ctx (?rq\<lparr>rq_provider := rp_provider a\<rparr>) = Inr (Some d)"
      by (simp add: static_route_resolver_def)
    from resolve_built [OF r(1) this] obtain ru where
      ru: "configured_route (rg_routes cfg) (rg_provider cfg) chan mkey = Some ru" "d = route_for ru chan"
      by (auto simp: r(3))
    with res prov ad show ?thesis
      using through [of ru ad evs] by (simp add: routed_def r(3) route_for_def)
  qed
qed





definition sample_router_config :: "notify_result option \<Rightarrow> nat router_config" where
  "sample_router_config n = \<lparr>rg_provider = ''wechat'', rg_resolver = None, rg_routes = sample_routes n,
     rg_logger = None, rg_mode = DebugPayloadNone\<rparr>"

definition sample_router :: "notify_result option \<Rightarrow> nat pay_router" where
  "sample_router n = \<lparr>rp_provider = ''wechat'', rp_resolver = static_route_resolver (sample_resolver n),
     rp_logger = None, rp_mode = DebugPayloadNone,
     rp_capabilities = router_capabilities ''wechat'' (sample_routes n)\<rparr>"

lemma sample_capabilities:
  "router_capabilities ''wechat'' (sample_routes n) =
     (empty_capabilities ''wechat'')\<lparr>supports_multi_merchant := True, cap_channels := [''wechat_native''],
       supports_close := True, supports_refund := True, supports_query_refund := True, supports_query := True,
       supports_notify := True\<rparr>"
  by (simp add: router_capabilities_def sample_routes_def sample_route_def merge_route_caps_def counting_adapter_def
      idle_caps_def empty_capabilities_def add_new_def)

lemma sample_router_new: "new_pay_router (sample_router_config n) = Inr (sample_router n)"
  using sample_resolver_new [of n]
  by (simp add: new_pay_router_def sample_router_config_def sample_router_def sample_capabilities
      empty_capabilities_def Let_def)



text \<open>
  The capabilities come from the configured routes only: with a resolver of the application and no routes, the
  router declares none of the operations the service asks for before calling it.
\<close>

lemma resolver_only_capabilities:
  assumes "new_pay_router cfg = Inr a" "rg_routes cfg = []"
  shows "\<not> supports_query (rp_capabilities a)" "\<not> supports_close (rp_capabilities a)"
    "\<not> supports_refund (rp_capabilities a)" "\<not> supports_query_refund (rp_capabilities a)"
    "\<not> supports_notify (rp_capabilities a)"
  using assms
  by (auto simp: new_pay_router_def bindR_Inr_iff router_capabilities_def empty_capabilities_def Let_def split: if_splits)

section \<open>Notifications are verified by the merchant they ask for\<close>

lemma router_notify_static:
  assumes "new_pay_router cfg = Inr a" "rg_resolver cfg = None"
    "router_parse_notify a ctx req w = (Inr x, w')"
  shows "\<exists>ru ad evs. configured_route (rg_routes cfg) (rg_provider cfg) (nr_channel req) (queried_merchant req) = Some ru \<and>
    ru_adapter ru = Some ad \<and> ad_parse_notify ad ctx req (debug_all a ctx evs w) = (Inr x, w')"
  using assms(1,2)
proof (rule routed_static [where ctx = ctx and oper = OperationNotify and prov = "nr_provider req" and
      chan = "nr_channel req" and mkey = "queried_merchant req" and k = "\<lambda>d ad w. ad_parse_notify ad ctx req w" and w = w])
  fix e evs
  assume "routed a ctx OperationNotify (nr_provider req) (nr_channel req) (queried_merchant req)
    (\<lambda>d ad w. ad_parse_notify ad ctx req w) w = (Inl e, debug_all a ctx evs w)"
  with assms(3) show ?thesis by (simp add: router_parse_notify_def)
next
  fix ru ad evs
  assume "configured_route (rg_routes cfg) (rg_provider cfg) (nr_channel req) (queried_merchant req) = Some ru"
    "ru_adapter ru = Some ad"
    "routed a ctx OperationNotify (nr_provider req) (nr_channel req) (queried_merchant req)
      (\<lambda>d ad w. ad_parse_notify ad ctx req w) w = ad_parse_notify ad ctx req (debug_all a ctx evs w)"
  with assms(3) show ?thesis unfolding router_parse_notify_def by auto
qed

text \<open>
  Behind a router, a notification is verified with the credentials of the merchant its own query string names
  (or of the channel's default), not of the merchant of the callback route it arrived on; if it is accepted, its event
  is nevertheless attributed to the merchant of the callback route.
\<close>

theorem notify_checked_by_queried_merchant:
  assumes "new_pay_router cfg = Inr a" "rg_resolver cfg = None"
    and "sv_registry s (nr_provider req) = Some (router_adapter a)"
    and "handle_notify s ctx req w = (Inr r, w')"
  shows "\<exists>ru ad evs r0. configured_route (rg_routes cfg) (rg_provider cfg) (nr_channel req) (queried_merchant req) = Some ru \<and>
    ru_adapter ru = Some ad \<and> ad_parse_notify ad ctx req (debug_all a ctx evs w) = (Inr (Some r0), w') \<and> nt_verified r0 \<and>
    (\<forall>ev. nt_event r = Some ev \<and> nr_merchant_key req \<noteq> [] \<longrightarrow> ev_merchant_key ev = nr_merchant_key req)"
proof -
  from assms(4) obtain b res where prep: "prepare_notify s ctx req = Inr b"
    and call: "ad_parse_notify b ctx req w = (res, w')" "bindR res (finish_notify req) = Inr r"
    by (auto simp: handle_notify_def run_prepared_def Let_def split: sum.splits prod.splits)
  from prep assms(3) have b: "b = router_adapter a"
    by (auto simp: prepare_notify_def bindR_Inr_iff split: if_splits elim!: service_adapter_InrE)
  from call(2) obtain r0 where r0: "res = Inr (Some r0)" "nt_verified r0"
    by (auto simp: bindR_Inr_iff finish_notify_def notify_fail_def split: option.splits if_splits)
  have merchant: "ev_merchant_key ev = nr_merchant_key req" if "nt_event r = Some ev" "nr_merchant_key req \<noteq> []" for ev
    using call(2) r0 that
    by (auto simp: finish_notify_def notify_fail_def bindR_Inr_iff check_notify_event_def fill_def split: option.splits if_splits)
  from call(1) r0(1) have "router_parse_notify a ctx req w = (Inr (Some r0), w')"
    by (simp add: b router_adapter_def)
  from router_notify_static [OF assms(1,2) this] r0(2) merchant show ?thesis by blast
qed

text \<open>A notification for the callback route of \<open>m1\<close>, verified with the credentials of \<open>m2\<close>.\<close>

definition foreign_notify :: notify_request where
  "foreign_notify = \<lparr>nr_merchant_key = ''m1'', nr_provider = ''wechat'', nr_channel = ''wechat_native'', nr_method = ''POST'',
     nr_header = Map.empty, nr_query = [''merchant_key'' \<mapsto> [''m2'']], nr_form = Map.empty, nr_body = [],
     nr_raw = None, nr_received_at = 0\<rparr>"

definition foreign_event :: payment_event where
  "foreign_event = \<lparr>ev_details = None, ev_expire_at = None, ev_settlement = None, ev_event_id = [],
     ev_type = EventPaymentSucceeded, ev_provider = [], ev_channel = [], ev_merchant_key = [],
     ev_payment_id = ''p1'', ev_order_id = [], ev_out_trade_no = [], ev_provider_trade_id = [], ev_refund_id = [],
     ev_provider_refund_id = [], ev_status = PaymentSucceeded, ev_refund_status = RefundStatusUnset,
     ev_amount = zero_money, ev_paid_at = None, ev_raw = [], ev_extra = Map.empty\<rparr>"

definition foreign_result :: notify_result where
  "foreign_result = \<lparr>nt_verified = True, nt_event = Some foreign_event,
     nt_ack = \<lparr>na_status_code = 200, na_content_type = [], na_body = []\<rparr>\<rparr>"

definition routed_service :: "nat pay_service" where
  "routed_service = \<lparr>sv_registry = [''wechat'' \<mapsto> router_adapter (sample_router (Some foreign_result))],
     sv_pricing = normalize_pricing new_default_pricing_policy, sv_selector = NoSelector\<rparr>"

theorem notify_checked_by_queried_merchant_witness:
  "\<exists>r ev ru. fst (handle_notify routed_service (Ctx None) foreign_notify 0) = Inr r \<and> nt_event r = Some ev \<and>
     ev_merchant_key ev = ''m1'' \<and>
     configured_route (sample_routes (Some foreign_result)) ''wechat'' ''wechat_native'' (queried_merchant foreign_notify) = Some ru \<and>
     ru_merchant_key ru = ''m2''"
proof -
  let ?r = "foreign_result\<lparr>nt_event := Some (foreign_event\<lparr>ev_provider := ''wechat'', ev_channel := ''wechat_native'',
      ev_merchant_key := ''m1''\<rparr>)\<rparr>"
  let ?a = "router_adapter (sample_router (Some foreign_result))"
  have caps: "ad_capabilities ?a = (empty_capabilities ''wechat'')\<lparr>supports_multi_merchant := True,
      cap_channels := [''wechat_native''], supports_close := True, supports_refund := True,
      supports_query_refund := True, supports_query := True, supports_notify := True\<rparr>"
    by (simp add: router_adapter_def sample_router_def sample_capabilities)
  have prep: "prepare_notify routed_service (Ctx None) foreign_notify = Inr ?a"
    by (simp add: prepare_notify_def need_ctx_def validate_notify_def foreign_notify_def service_adapter_def
        lookup_adapter_def routed_service_def caps empty_capabilities_def validate_channel_def Let_def)
  have parse: "ad_parse_notify ?a (Ctx None) foreign_notify 0 = (Inr (Some foreign_result), Suc 0)"
    by (simp add: router_adapter_def router_parse_notify_def queried_merchant_def foreign_notify_def
        routed_def router_resolve_def sample_router_def debug_def static_route_resolver_def resolve_static_def
        sample_resolver_def with_routes_def sample_routes_def sample_route_def serves_def route_for_def
        found_route_def accept_route_def counting_adapter_def Let_def)
  have finish: "finish_notify foreign_notify (Some foreign_result) = Inr ?r"
    by (simp add: finish_notify_def foreign_result_def check_notify_event_def foreign_event_def fill_def
        foreign_notify_def)
  have run: "handle_notify routed_service (Ctx None) foreign_notify 0 = (Inr ?r, Suc 0)"
    by (simp add: handle_notify_def run_prepared_def prep parse finish)
  have reg: "sv_registry routed_service (nr_provider foreign_notify) = Some (router_adapter (sample_router (Some foreign_result)))"
    by (simp add: routed_service_def foreign_notify_def)
  have conf: "rg_resolver (sample_router_config (Some foreign_result)) = None"
    by (simp add: sample_router_config_def)
  from notify_checked_by_queried_merchant [OF sample_router_new conf reg run] obtain ru where
    ru: "configured_route (sample_routes (Some foreign_result)) ''wechat'' ''wechat_native'' (queried_merchant foreign_notify) = Some ru"
    and ev: "ev_merchant_key (foreign_event\<lparr>ev_provider := ''wechat'', ev_channel := ''wechat_native'', ev_merchant_key := ''m1''\<rparr>) = ''m1''"
    by (auto simp: sample_router_config_def foreign_notify_def)
  have "queried_merchant foreign_notify = ''m2''" by (simp add: queried_merchant_def foreign_notify_def)
  with configured_route_Some(4) [OF ru] have "ru_merchant_key ru = ''m2''" by simp
  with run ru show ?thesis by simp
qed

end
