(* ===== verification/Pay_Adapters.thy ===== *)
theory Pay_Adapters
  imports Pay_Service "HOL-Library.AList"
begin

text \<open>
  Two adapters of the repository: the aggregate of several gateways (\<^verbatim>\<open>pkg/payment/aggregate\<close>), and the mock that
  records what it was asked (\<^verbatim>\<open>pkg/payment/mock\<close>).
\<close>

section \<open>The aggregate (aggregate/types.go, adapter.go)\<close>

text \<open>A gateway creates payments; the other operations are optional interfaces.\<close>

record 'w gateway =
  gw_create :: "pay_error go_ctx \<Rightarrow> create_request \<Rightarrow> 'w \<Rightarrow> create_response option pay_result \<times> 'w"
  gw_query :: "(pay_error go_ctx \<Rightarrow> query_request \<Rightarrow> 'w \<Rightarrow> query_response option pay_result \<times> 'w) option"
  gw_close :: "(pay_error go_ctx \<Rightarrow> close_request \<Rightarrow> 'w \<Rightarrow> pay_error option \<times> 'w) option"
  gw_refund :: "(pay_error go_ctx \<Rightarrow> refund_request \<Rightarrow> 'w \<Rightarrow> refund_response option pay_result \<times> 'w) option"
  gw_query_refund ::
    "(pay_error go_ctx \<Rightarrow> query_refund_request \<Rightarrow> 'w \<Rightarrow> query_refund_response option pay_result \<times> 'w) option"
  gw_notify :: "(pay_error go_ctx \<Rightarrow> notify_request \<Rightarrow> 'w \<Rightarrow> notify_result option pay_result \<times> 'w) option"

text \<open>The configured gateways in the order in which the map is walked.\<close>

record 'w aggregate_config =
  ac_default :: string
  ac_gateways :: "(string \<times> 'w gateway option) list"
  ac_capabilities :: capabilities

record 'w aggregate =
  ag_default :: string
  ag_gateways :: "(string \<times> 'w gateway) list"
  ag_capabilities :: capabilities

fun collect_gateways :: "(string \<times> 'w gateway option) list \<Rightarrow> (string \<times> 'w gateway) list \<Rightarrow> (string \<times> 'w gateway) list" where
  "collect_gateways [] gs = gs"
| "collect_gateways ((key, g) # rest) gs =
     (let key = trim_space key in
      case g of None \<Rightarrow> collect_gateways rest gs
      | Some gw \<Rightarrow> if key = [] then collect_gateways rest gs else collect_gateways rest (AList.update key gw gs))"

definition normalize_capabilities :: "capabilities \<Rightarrow> capabilities" where
  "normalize_capabilities caps =
     (let caps = (if cap_provider caps = [] then caps\<lparr>cap_provider := ''aggregate''\<rparr> else caps);
          caps = (if cap_channels caps = [] then caps\<lparr>cap_channels := [''aggregate_form'']\<rparr> else caps);
          caps = (if cap_currencies caps = [] then caps\<lparr>cap_currencies := [DefaultCurrency]\<rparr> else caps);
          caps = (if cap_actions caps = [] then caps\<lparr>cap_actions := [ActionHTMLForm, ActionRedirectURL, ActionQRCode,
                    ActionSDKParams, ActionClientToken, ActionNone]\<rparr> else caps) in
      caps\<lparr>supports_multi_merchant := True\<rparr>)"

definition new_aggregate :: "'w aggregate_config \<Rightarrow> 'w aggregate pay_result" where
  "new_aggregate cfg =
     (let gateways = collect_gateways (ac_gateways cfg) [] in
      if length gateways = 0 then Inl (PayErr ErrAdapterNotFound ''aggregate gateway is required'')
      else
        (let dflt = trim_space (ac_default cfg);
             dflt = (if dflt = [] \<and> length gateways = 1 then fst (hd gateways) else dflt) in
         if dflt \<noteq> [] \<and> map_of gateways dflt = None then Inl (PayErr ErrAdapterNotFound (''aggregate gateway '' @ dflt))
         else Inr \<lparr>ag_default = dflt, ag_gateways = gateways, ag_capabilities = normalize_capabilities (ac_capabilities cfg)\<rparr>))"

definition gateway_key_from_extra :: "(string \<rightharpoonup> go_any) \<Rightarrow> string" where
  "gateway_key_from_extra extra =
     (case extra ''gateway'' of Some (AnyString s) \<Rightarrow> trim_space s | _ \<Rightarrow> [])"

text \<open>The gateway of a request; nil when the default is not among the gateways.\<close>

definition choose_gateway :: "'w aggregate \<Rightarrow> string \<Rightarrow> (string \<rightharpoonup> go_any) \<Rightarrow> 'w gateway option pay_result" where
  "choose_gateway a merchant_key extra =
     (let merchant_key = trim_space merchant_key;
          rest =
            (let key = gateway_key_from_extra extra in
             if key \<noteq> [] then
               (case map_of (ag_gateways a) key of Some g \<Rightarrow> Inr (Some g)
                | None \<Rightarrow> Inl (PayErr ErrAdapterNotFound (''aggregate gateway '' @ key)))
             else if ag_default a \<noteq> [] then Inr (map_of (ag_gateways a) (ag_default a))
             else if merchant_key \<noteq> [] then Inl (PayErr ErrAdapterNotFound (''aggregate gateway '' @ merchant_key))
             else Inl (PayErr ErrAdapterNotFound ''aggregate gateway is required'')) in
      if merchant_key \<noteq> [] then
        (case map_of (ag_gateways a) merchant_key of Some g \<Rightarrow> Inr (Some g) | None \<Rightarrow> rest)
      else rest)"

definition first_query_value :: "(string \<rightharpoonup> string list) \<Rightarrow> string \<Rightarrow> string" where
  "first_query_value values key =
     (case values key of None \<Rightarrow> [] | Some [] \<Rightarrow> [] | Some (v # _) \<Rightarrow> trim_space v)"

definition notify_extra :: "notify_request \<Rightarrow> (string \<rightharpoonup> go_any)" where
  "notify_extra req =
     (let key = first_query_value (nr_query req) ''gateway'' in
      if key \<noteq> [] then [''gateway'' \<mapsto> AnyString key]
      else
        (let key = first_query_value (nr_form req) ''gateway'' in
         if key \<noteq> [] then [''gateway'' \<mapsto> AnyString key] else Map.empty))"

text \<open>
  What each operation does: the context must not be nil, the gateway is chosen, and must have the interface
  of the operation.  A nil gateway has none; creating a payment through one would panic, which
  \<open>default_gateway_known\<close> excludes for an adapter that \<open>New\<close> returned.
\<close>

definition through_gateway ::
  "string \<Rightarrow> ('w gateway \<Rightarrow> 'f option) \<Rightarrow> 'w aggregate \<Rightarrow> pay_error go_ctx \<Rightarrow> string \<Rightarrow> (string \<rightharpoonup> go_any) \<Rightarrow> 'f pay_result" where
  "through_gateway what face a ctx merchant_key extra =
     bindR (need_ctx ctx) (\<lambda>_.
     bindR (choose_gateway a merchant_key extra) (\<lambda>g.
     case Option.bind g face of
       None \<Rightarrow> Inl (PayErr ErrUnsupportedCapability (''aggregate '' @ what))
     | Some f \<Rightarrow> Inr f))"

definition aggregate_create ::
  "'w aggregate \<Rightarrow> pay_error go_ctx \<Rightarrow> create_request \<Rightarrow> 'w \<Rightarrow> create_response option pay_result \<times> 'w" where
  "aggregate_create a ctx req =
     run_prepared (through_gateway ''create payment'' (\<lambda>g. Some (gw_create g)) a ctx (cr_merchant_key req) (cr_extra req))
       (\<lambda>f. f ctx req)"

definition aggregate_query ::
  "'w aggregate \<Rightarrow> pay_error go_ctx \<Rightarrow> query_request \<Rightarrow> 'w \<Rightarrow> query_response option pay_result \<times> 'w" where
  "aggregate_query a ctx req =
     run_prepared (through_gateway ''query payment'' gw_query a ctx (qr_merchant_key req) (qr_extra req)) (\<lambda>f. f ctx req)"

definition aggregate_close :: "'w aggregate \<Rightarrow> pay_error go_ctx \<Rightarrow> close_request \<Rightarrow> 'w \<Rightarrow> pay_error option \<times> 'w" where
  "aggregate_close a ctx req w =
     (case through_gateway ''close payment'' gw_close a ctx (cl_merchant_key req) (cl_extra req) of
        Inl e \<Rightarrow> (Some e, w) | Inr f \<Rightarrow> f ctx req w)"

definition aggregate_refund ::
  "'w aggregate \<Rightarrow> pay_error go_ctx \<Rightarrow> refund_request \<Rightarrow> 'w \<Rightarrow> refund_response option pay_result \<times> 'w" where
  "aggregate_refund a ctx req =
     run_prepared (through_gateway ''refund'' gw_refund a ctx (rr_merchant_key req) (rr_extra req)) (\<lambda>f. f ctx req)"

definition aggregate_query_refund ::
  "'w aggregate \<Rightarrow> pay_error go_ctx \<Rightarrow> query_refund_request \<Rightarrow> 'w \<Rightarrow> query_refund_response option pay_result \<times> 'w" where
  "aggregate_query_refund a ctx req =
     run_prepared (through_gateway ''query refund'' gw_query_refund a ctx (fr_merchant_key req) (fr_extra req))
       (\<lambda>f. f ctx req)"

definition aggregate_notify ::
  "'w aggregate \<Rightarrow> pay_error go_ctx \<Rightarrow> notify_request \<Rightarrow> 'w \<Rightarrow> notify_result option pay_result \<times> 'w" where
  "aggregate_notify a ctx req =
     run_prepared (through_gateway ''notify'' gw_notify a ctx [] (notify_extra req)) (\<lambda>f. f ctx req)"

definition aggregate_adapter :: "'w aggregate \<Rightarrow> 'w adapter" where
  "aggregate_adapter a = \<lparr>ad_name = ''aggregate'', ad_capabilities = ag_capabilities a,
     ad_create = aggregate_create a, ad_query = aggregate_query a, ad_close = aggregate_close a,
     ad_refund = aggregate_refund a, ad_query_refund = aggregate_query_refund a, ad_parse_notify = aggregate_notify a,
     ad_payouts = None, ad_beneficiaries = None, ad_batches = None, ad_schemas = None\<rparr>"

text \<open>Every key of the gateways is trimmed and not empty, once, and a default is one of them.\<close>

definition gateway_keys_ok :: "(string \<times> 'w gateway) list \<Rightarrow> bool" where
  "gateway_keys_ok gs \<longleftrightarrow> distinct (map fst gs) \<and> (\<forall>k \<in> fst ` set gs. k \<noteq> [] \<and> trim_space k = k)"

lemma gateway_keys_update:
  assumes "gateway_keys_ok gs" "trim_space k \<noteq> []"
  shows "gateway_keys_ok (AList.update (trim_space k) g gs)"
proof -
  have "fst ` set (AList.update (trim_space k) g gs) = {trim_space k} \<union> fst ` set gs"
    by (rule dom_update)
  with assms show ?thesis by (auto simp: gateway_keys_ok_def distinct_update)
qed

lemma collect_gateways_keys: "gateway_keys_ok gs \<Longrightarrow> gateway_keys_ok (collect_gateways cs gs)"
proof (induction cs arbitrary: gs)
  case (Cons c cs)
  obtain key g where c: "c = (key, g)" by (cases c)
  show ?case
  proof (cases "g = None \<or> trim_space key = []")
    case True
    with Cons show ?thesis by (cases g) (simp_all add: c Let_def)
  next
    case False
    then obtain gw where "g = Some gw" by auto
    with False Cons.IH [OF gateway_keys_update [OF Cons.prems]] show ?thesis by (simp add: c Let_def)
  qed
qed simp

lemma new_aggregate_keys: "new_aggregate cfg = Inr a \<Longrightarrow> gateway_keys_ok (ag_gateways a)"
  using collect_gateways_keys [of "[]" "ac_gateways cfg"]
  by (auto simp: new_aggregate_def gateway_keys_ok_def Let_def split: if_splits)

lemma default_gateway_known:
  assumes "new_aggregate cfg = Inr a"
  shows "ag_gateways a \<noteq> []" "ag_default a \<noteq> [] \<longrightarrow> map_of (ag_gateways a) (ag_default a) \<noteq> None"
    "choose_gateway a mkey extra \<noteq> Inr None"
proof -
  show known: "ag_default a \<noteq> [] \<longrightarrow> map_of (ag_gateways a) (ag_default a) \<noteq> None" and "ag_gateways a \<noteq> []"
    using assms by (auto simp: new_aggregate_def Let_def split: if_splits)
  then show "choose_gateway a mkey extra \<noteq> Inr None"
    by (auto simp: choose_gateway_def Let_def split: option.splits)
qed

text \<open>
  A merchant key that names no gateway is not an error as long as there is a default gateway and the request
  names no other one: it goes to the default.
\<close>

lemma unknown_merchant_goes_to_default:
  assumes "new_aggregate cfg = Inr a" "ag_default a \<noteq> []" "map_of (ag_gateways a) (trim_space mkey) = None"
    "gateway_key_from_extra extra = []"
  shows "choose_gateway a mkey extra = Inr (map_of (ag_gateways a) (ag_default a))"
  using assms(2-4) by (auto simp: choose_gateway_def Let_def)

section \<open>The mock (mock.go, options.go)\<close>

record 'w mock =
  mk_name :: provider
  mk_capabilities :: capabilities
  mk_create :: "(pay_error go_ctx \<Rightarrow> create_request \<Rightarrow> 'w \<Rightarrow> create_response option pay_result \<times> 'w) option"
  mk_query :: "(pay_error go_ctx \<Rightarrow> query_request \<Rightarrow> 'w \<Rightarrow> query_response option pay_result \<times> 'w) option"
  mk_close :: "(pay_error go_ctx \<Rightarrow> close_request \<Rightarrow> 'w \<Rightarrow> pay_error option \<times> 'w) option"
  mk_refund :: "(pay_error go_ctx \<Rightarrow> refund_request \<Rightarrow> 'w \<Rightarrow> refund_response option pay_result \<times> 'w) option"
  mk_query_refund ::
    "(pay_error go_ctx \<Rightarrow> query_refund_request \<Rightarrow> 'w \<Rightarrow> query_refund_response option pay_result \<times> 'w) option"
  mk_notify :: "(pay_error go_ctx \<Rightarrow> notify_request \<Rightarrow> 'w \<Rightarrow> notify_result option pay_result \<times> 'w) option"
  mk_create_requests :: "create_request list"
  mk_query_requests :: "query_request list"
  mk_close_requests :: "close_request list"
  mk_refund_requests :: "refund_request list"
  mk_query_refund_requests :: "query_refund_request list"
  mk_notify_requests :: "notify_request list"

definition new_mock_capabilities :: "provider \<Rightarrow> capabilities" where
  "new_mock_capabilities p = \<lparr>cap_provider = p, cap_channels = [], cap_currencies = [], cap_actions = [],
     supports_multi_merchant = False, supports_expire_at = False, supports_close = False,
     supports_refund = False, supports_query_refund = False, supports_partial_refund = False,
     supports_query = False, supports_notify = False, supports_capture = False,
     supports_confirm = False, supports_reconcile = False, supports_dispute = False,
     supports_subscription = False\<rparr>"

type_synonym 'w mock_option = "'w mock \<Rightarrow> 'w mock"

definition new_mock :: "provider \<Rightarrow> 'w mock_option list \<Rightarrow> 'w mock" where
  "new_mock provider opts =
     (let provider = (if provider = [] then ''aggregate'' else provider);
          a = fold (\<lambda>opt. opt) opts \<lparr>mk_name = provider, mk_capabilities = new_mock_capabilities provider,
            mk_create = None, mk_query = None, mk_close = None, mk_refund = None, mk_query_refund = None,
            mk_notify = None, mk_create_requests = [], mk_query_requests = [], mk_close_requests = [],
            mk_refund_requests = [], mk_query_refund_requests = [], mk_notify_requests = []\<rparr> in
      if cap_provider (mk_capabilities a) = [] then a\<lparr>mk_capabilities := (mk_capabilities a)\<lparr>cap_provider := provider\<rparr>\<rparr>
      else a)"

definition with_capabilities :: "capabilities \<Rightarrow> 'w mock_option" where
  "with_capabilities caps a =
     (let caps = (if cap_provider caps = [] then caps\<lparr>cap_provider := mk_name a\<rparr> else caps) in
      a\<lparr>mk_capabilities := caps\<rparr>)"

definition with_channels_option :: "channel list \<Rightarrow> 'w mock_option" where
  "with_channels_option cs a = a\<lparr>mk_capabilities := (mk_capabilities a)\<lparr>cap_channels := cs\<rparr>\<rparr>"

definition with_currencies :: "string list \<Rightarrow> 'w mock_option" where
  "with_currencies cs a = a\<lparr>mk_capabilities := (mk_capabilities a)\<lparr>cap_currencies := cs\<rparr>\<rparr>"

definition with_actions :: "action_type list \<Rightarrow> 'w mock_option" where
  "with_actions ts a = a\<lparr>mk_capabilities := (mk_capabilities a)\<lparr>cap_actions := ts\<rparr>\<rparr>"

definition with_all_core_capabilities :: "'w mock_option" where
  "with_all_core_capabilities a =
     a\<lparr>mk_capabilities := (mk_capabilities a)\<lparr>supports_close := True, supports_refund := True,
       supports_query_refund := True, supports_query := True, supports_notify := True\<rparr>\<rparr>"

definition with_create_payment where
  "with_create_payment f a = a\<lparr>mk_create := f\<rparr>"

definition with_query_payment where
  "with_query_payment f a = a\<lparr>mk_query := f\<rparr>"

definition with_close_payment where
  "with_close_payment f a = a\<lparr>mk_close := f\<rparr>"

definition with_refund where
  "with_refund f a = a\<lparr>mk_refund := f\<rparr>"

definition with_query_refund where
  "with_query_refund f a = a\<lparr>mk_query_refund := f\<rparr>"

definition with_parse_notify where
  "with_parse_notify f a = a\<lparr>mk_notify := f\<rparr>"

definition no_action :: payment_action where
  "no_action = \<lparr>act_type = ActionNone, act_method = [], act_url = [], act_fields = [], act_html = [],
     act_encoded_html = [], act_token = [], act_params = []\<rparr>"

text \<open>The answer to a request for a payment that is then pending.\<close>

definition pending_response :: "payment_action \<Rightarrow> create_request \<Rightarrow> create_response" where
  "pending_response action req =
     \<lparr>cs_expire_at = None, cs_paid_at = None, cs_settlement = None, cs_provider = cr_provider req,
      cs_channel = cr_channel req, cs_merchant_key = cr_merchant_key req, cs_payment_id = cr_payment_id req,
      cs_order_id = cr_order_id req, cs_out_trade_no = cr_out_trade_no req, cs_provider_trade_id = [],
      cs_status = PaymentPending, cs_pricing = cr_pricing req, cs_action = action, cs_raw = None,
      cs_extra = Map.empty\<rparr>"

definition with_action :: "payment_action \<Rightarrow> 'w mock_option" where
  "with_action action = with_create_payment (Some (\<lambda>_ req w. (Inr (Some (pending_response action req)), w)))"

text \<open>Each operation records its request first, and then calls what was supplied or answers itself.\<close>

definition mock_create ::
  "'w mock \<Rightarrow> pay_error go_ctx \<Rightarrow> create_request \<Rightarrow> 'w \<Rightarrow> create_response option pay_result \<times> 'w mock \<times> 'w" where
  "mock_create a ctx req w =
     (let a = a\<lparr>mk_create_requests := mk_create_requests a @ [req]\<rparr> in
      case mk_create a of Some f \<Rightarrow> (let (r, w) = f ctx req w in (r, a, w))
      | None \<Rightarrow> (Inr (Some (pending_response no_action req)), a, w))"

definition mock_query ::
  "'w mock \<Rightarrow> pay_error go_ctx \<Rightarrow> query_request \<Rightarrow> 'w \<Rightarrow> query_response option pay_result \<times> 'w mock \<times> 'w" where
  "mock_query a ctx req w =
     (let a = a\<lparr>mk_query_requests := mk_query_requests a @ [req]\<rparr> in
      case mk_query a of Some f \<Rightarrow> (let (r, w) = f ctx req w in (r, a, w))
      | None \<Rightarrow> (Inr (Some
          \<lparr>qs_raw_body = [], qs_details = None, qs_expire_at = None, qs_settlement = None,
           qs_provider = qr_provider req, qs_channel = qr_channel req, qs_merchant_key = qr_merchant_key req,
           qs_payment_id = qr_payment_id req, qs_order_id = qr_order_id req, qs_out_trade_no = qr_out_trade_no req,
           qs_provider_trade_id = qr_provider_trade_id req, qs_status = PaymentSucceeded, qs_pricing = zero_pricing,
           qs_paid_at = None, qs_raw = None, qs_extra = Map.empty\<rparr>), a, w))"

definition mock_close ::
  "'w mock \<Rightarrow> pay_error go_ctx \<Rightarrow> close_request \<Rightarrow> 'w \<Rightarrow> pay_error option \<times> 'w mock \<times> 'w" where
  "mock_close a ctx req w =
     (let a = a\<lparr>mk_close_requests := mk_close_requests a @ [req]\<rparr> in
      case mk_close a of Some f \<Rightarrow> (let (r, w) = f ctx req w in (r, a, w)) | None \<Rightarrow> (None, a, w))"

definition no_exchange :: provider_exchange where
  "no_exchange = \<lparr>px_request_body = [], px_response_body = [], px_status_code = 0, px_headers = Map.empty\<rparr>"

definition mock_refund ::
  "'w mock \<Rightarrow> pay_error go_ctx \<Rightarrow> refund_request \<Rightarrow> 'w \<Rightarrow> refund_response option pay_result \<times> 'w mock \<times> 'w" where
  "mock_refund a ctx req w =
     (let a = a\<lparr>mk_refund_requests := mk_refund_requests a @ [req]\<rparr> in
      case mk_refund a of Some f \<Rightarrow> (let (r, w) = f ctx req w in (r, a, w))
      | None \<Rightarrow> (Inr (Some
          \<lparr>rs_provider = rr_provider req, rs_channel = rr_channel req, rs_merchant_key = rr_merchant_key req,
           rs_payment_id = rr_payment_id req, rs_order_id = rr_order_id req, rs_out_trade_no = [],
           rs_provider_trade_id = [], rs_refund_id = rr_refund_id req, rs_out_refund_no = [],
           rs_provider_refund_id = [], rs_status = RefundProcessing, rs_amount = rr_amount req,
           rs_exchange = no_exchange, rs_raw = None, rs_extra = Map.empty\<rparr>), a, w))"

definition mock_query_refund ::
  "'w mock \<Rightarrow> pay_error go_ctx \<Rightarrow> query_refund_request \<Rightarrow> 'w \<Rightarrow>
   query_refund_response option pay_result \<times> 'w mock \<times> 'w" where
  "mock_query_refund a ctx req w =
     (let a = a\<lparr>mk_query_refund_requests := mk_query_refund_requests a @ [req]\<rparr> in
      case mk_query_refund a of Some f \<Rightarrow> (let (r, w) = f ctx req w in (r, a, w))
      | None \<Rightarrow> (Inr (Some
          \<lparr>fs_provider = fr_provider req, fs_channel = fr_channel req, fs_merchant_key = fr_merchant_key req,
           fs_payment_id = fr_payment_id req, fs_out_trade_no = [], fs_provider_trade_id = [],
           fs_refund_id = fr_refund_id req, fs_out_refund_no = fr_out_refund_no req,
           fs_provider_refund_id = fr_provider_refund_id req, fs_status = RefundSucceeded,
           fs_amount = \<lparr>ra_refund = zero_money, ra_settle = zero_money\<rparr>, fs_exchange = no_exchange, fs_raw = None,
           fs_extra = Map.empty\<rparr>), a, w))"

definition mock_notify ::
  "'w mock \<Rightarrow> pay_error go_ctx \<Rightarrow> notify_request \<Rightarrow> 'w \<Rightarrow> notify_result option pay_result \<times> 'w mock \<times> 'w" where
  "mock_notify a ctx req w =
     (let a = a\<lparr>mk_notify_requests := mk_notify_requests a @ [req]\<rparr> in
      case mk_notify a of Some f \<Rightarrow> (let (r, w) = f ctx req w in (r, a, w))
      | None \<Rightarrow> (Inr (Some
          \<lparr>nt_verified = True,
           nt_event = Some
             \<lparr>ev_details = None, ev_expire_at = None, ev_settlement = None, ev_event_id = [],
              ev_type = EventPaymentSucceeded, ev_provider = nr_provider req, ev_channel = nr_channel req,
              ev_merchant_key = [], ev_payment_id = [], ev_order_id = [], ev_out_trade_no = [],
              ev_provider_trade_id = [], ev_refund_id = [], ev_provider_refund_id = [],
              ev_status = PaymentSucceeded, ev_refund_status = RefundStatusUnset, ev_amount = zero_money,
              ev_paid_at = None, ev_raw = [], ev_extra = Map.empty\<rparr>,
           nt_ack = \<lparr>na_status_code = 200, na_content_type = ''text/plain; charset=utf-8'', na_body = ''success''\<rparr>\<rparr>),
          a, w))"

text \<open>\<open>Snapshot\<close>: the requests recorded so far.\<close>

record mock_snapshot =
  sn_create_requests :: "create_request list"
  sn_query_requests :: "query_request list"
  sn_close_requests :: "close_request list"
  sn_refund_requests :: "refund_request list"
  sn_query_refund_requests :: "query_refund_request list"
  sn_notify_requests :: "notify_request list"

definition take_snapshot :: "'w mock \<Rightarrow> mock_snapshot" where
  "take_snapshot a = \<lparr>sn_create_requests = mk_create_requests a, sn_query_requests = mk_query_requests a,
     sn_close_requests = mk_close_requests a, sn_refund_requests = mk_refund_requests a,
     sn_query_refund_requests = mk_query_refund_requests a, sn_notify_requests = mk_notify_requests a\<rparr>"

text \<open>
  A mock that supplies nothing itself, as an adapter whose world is the mock: the requests it was asked are
  in its state.
\<close>

definition mock_adapter :: "unit mock \<Rightarrow> unit mock adapter" where
  "mock_adapter a = \<lparr>ad_name = mk_name a, ad_capabilities = mk_capabilities a,
     ad_create = (\<lambda>ctx req m. let (r, m, _) = mock_create m ctx req () in (r, m)),
     ad_query = (\<lambda>ctx req m. let (r, m, _) = mock_query m ctx req () in (r, m)),
     ad_close = (\<lambda>ctx req m. let (r, m, _) = mock_close m ctx req () in (r, m)),
     ad_refund = (\<lambda>ctx req m. let (r, m, _) = mock_refund m ctx req () in (r, m)),
     ad_query_refund = (\<lambda>ctx req m. let (r, m, _) = mock_query_refund m ctx req () in (r, m)),
     ad_parse_notify = (\<lambda>ctx req m. let (r, m, _) = mock_notify m ctx req () in (r, m)),
     ad_payouts = None, ad_beneficiaries = None, ad_batches = None, ad_schemas = None\<rparr>"

text \<open>
  A mock is accepted by every registry that does not have its provider yet, whatever its options are, as long
  as they leave its name and the provider of its capabilities alone.
\<close>

lemma new_mock_registers:
  assumes "mk_name (new_mock p opts) = (if p = [] then ''aggregate'' else p)" "r (mk_name (new_mock p opts)) = None"
  shows "\<exists>r'. register_adapter r (Some (mock_adapter (new_mock p opts))) = Inr r' \<and>
    lookup_adapter r' (mk_name (new_mock p opts)) = Inr (mock_adapter (new_mock p opts))"
  using assms by (auto simp: register_adapter_def mock_adapter_def lookup_adapter_def)

end
