(* ===== verification/Runtime_Types.thy ===== *)
theory Runtime_Types
  imports Prelude
begin

text \<open>
  The data of \<^verbatim>\<open>core/runtime\<close>: errors, dependencies, metadata, statuses and the objects an
  application is built from (capabilities, providers, commands, adapters, plugins), with the
  accessors of \<^verbatim>\<open>metadata.go\<close>.

  A Go object behind an interface is a record of what its methods return (the methods that
  describe an object return the same value at every call) with an identity; the effect of its
  callbacks (\<open>Register\<close>, \<open>Start\<close>, \<open>Stop\<close>, \<open>Shutdown\<close>, \<open>Run\<close>) is a function of that identity, a
  parameter of the lifecycle model.  A nil interface value is \<open>None\<close>.
\<close>

section \<open>Errors\<close>

datatype object_kind = KindCapability | KindProvider | KindCommand | KindAdapter | KindPlugin

text \<open>
  The sentinels of the package, with the text that \<open>fmt.Errorf("%w: ...")\<close> adds as arguments;
  an error of a context, an error of a callback known by its number, and the result of
  \<open>errors.Join\<close>.
\<close>

datatype rt_error =
    ErrRegistryNil
  | ErrAppNil
  | ErrObjectNil object_kind
  | ErrNameRequired object_kind
  | ErrNameReserved object_kind string
  | ErrNameDuplicate object_kind string
  | ErrNotFound object_kind string
  | ErrAdapterTypeRequired
  | ErrAdapterTypeUnsupported string
  | ErrDependencyNameRequired string
  | ErrDependencyDuplicate string string
  | ErrDependencyMissing string string
  | ErrDependencyCycle
  | ErrProviderServiceExited string
  | ErrContainerNil
  | ErrContainerKeyRequired
  | ErrContainerValueNil
  | ErrServiceSpecLoaderRequired
  | ErrServicesConfigRequired
  | ErrServiceTypeRequired string
  | ErrUnsupportedServiceType string
  | ErrServiceNotRegistered string
  | ErrUnexpectedArgs "string list"
  | ErrRunNameRequired
  | CtxCanceled
  | CtxDeadlineExceeded
  | CallbackErr nat
  | JoinedErr "rt_error list"

text \<open>\<open>errors.Join\<close> as an error value.\<close>

definition errors_join :: "rt_error option list \<Rightarrow> rt_error option" where
  "errors_join es = (case join_errs es of [] \<Rightarrow> None | xs \<Rightarrow> Some (JoinedErr xs))"

lemma errors_join_None_iff [simp]: "errors_join es = None \<longleftrightarrow> set es \<subseteq> {None}"
proof -
  have "errors_join es = None \<longleftrightarrow> set (join_errs es) = {}"
    by (simp add: errors_join_def split: list.split)
  also have "\<dots> \<longleftrightarrow> set es \<subseteq> {None}"
    by (auto simp: set_join_errs) (metis option.exhaust)
  finally show ?thesis .
qed

section \<open>Dependencies (dependency.go)\<close>

record dependency =
  dep_name :: string
  dep_required :: bool

definition dep_require :: "string \<Rightarrow> dependency" where
  "dep_require n = \<lparr>dep_name = n, dep_required = True\<rparr>"

definition dep_optional :: "string \<Rightarrow> dependency" where
  "dep_optional n = \<lparr>dep_name = n, dep_required = False\<rparr>"

definition dependencies_from_names :: "bool \<Rightarrow> string list \<Rightarrow> dependency list" where
  "dependencies_from_names required names =
     map (\<lambda>n. \<lparr>dep_name = n, dep_required = required\<rparr>) names"

definition require_capabilities :: "string list \<Rightarrow> dependency list" where
  "require_capabilities names = dependencies_from_names True names"

definition optional_capabilities :: "string list \<Rightarrow> dependency list" where
  "optional_capabilities names = dependencies_from_names False names"

section \<open>Statuses (status.go)\<close>

datatype rt_status =
    StatusUnset | StatusBooting | StatusRunning | StatusStopping | StatusStopped | StatusFailed

fun normalize_status :: "rt_status \<Rightarrow> rt_status" where
  "normalize_status StatusUnset = StatusStopped"
| "normalize_status s = s"

record health =
  hl_name :: string
  hl_status :: rt_status
  hl_error :: "rt_error option"

section \<open>Metadata and objects\<close>

definition ScopeGlobal :: string where "ScopeGlobal = ''global''"
definition ScopeServiceLocal :: string where "ScopeServiceLocal = ''service_local''"

record capability_metadata =
  cm_name :: string
  cm_description :: string
  cm_group :: string
  cm_scope :: string
  cm_internal :: bool

record provider_metadata =
  pm_name :: string
  pm_description :: string
  pm_group :: string
  pm_internal :: bool
  pm_mode :: string

record command_metadata =
  cmd_name :: string
  cmd_description :: string
  cmd_group :: string
  cmd_internal :: bool

record adapter_metadata =
  am_name :: string
  am_type :: string
  am_internal :: bool

record plugin_metadata =
  plm_name :: string
  plm_description :: string
  plm_group :: string
  plm_internal :: bool

text \<open>
  A capability object.  \<open>cc_cell\<close> is the status cell (\<open>runtimeStatus\<close>) of an object that is a
  \<open>Capability\<close> and a \<open>runtimeStatusController\<close>: the capabilities of \<open>NewCapability...\<close> and
  the wrappers \<open>runtimeCapability\<close>.
\<close>

record rt_capability =
  cc_id :: nat
  cc_name :: string
  cc_metadata :: capability_metadata
  cc_dependencies :: "dependency list"
  cc_cell :: "nat option"

text \<open>
  A provider object.  The optional interfaces are options: \<open>ProviderMode()\<close>,
  \<open>RuntimeCapabilities()\<close>, \<open>RuntimeManaged()\<close>; \<open>pc_cell\<close> is the status cell of a wrapper
  \<open>runtimeProvider\<close>.
\<close>

record rt_provider =
  pc_id :: nat
  pc_name :: string
  pc_metadata :: provider_metadata
  pc_dependencies :: "dependency list"
  pc_mode :: "string option"
  pc_capabilities :: "rt_capability option list option"
  pc_managed :: "bool option"
  pc_cell :: "nat option"

datatype command_impl = ServeCommand | RunCommand | UserCommand nat

record rt_command =
  rc_impl :: command_impl
  rc_name :: string
  rc_metadata :: command_metadata

text \<open>An adapter wraps a command, a capability or a provider, each possibly nil.\<close>

datatype adapter_payload =
    CommandPayload "rt_command option"
  | CapabilityPayload "rt_capability option"
  | ProviderPayload "rt_provider option"
  | OtherPayload nat

record rt_adapter =
  ra_metadata :: adapter_metadata
  ra_payload :: adapter_payload

record rt_plugin =
  rp_metadata :: plugin_metadata

section \<open>Accessors (metadata.go, provider.go, command.go, adapter.go, plugin.go)\<close>

definition normalize_capability_scope :: "string \<Rightarrow> string" where
  "normalize_capability_scope scope = (if scope = [] then ScopeGlobal else scope)"

definition zero_capability_metadata :: capability_metadata where
  "zero_capability_metadata =
     \<lparr>cm_name = [], cm_description = [], cm_group = [], cm_scope = [], cm_internal = False\<rparr>"

definition capability_metadata_of :: "rt_capability \<Rightarrow> capability_metadata" where
  "capability_metadata_of c =
     (let m = cc_metadata c;
          m' = (if cm_name m = [] then m\<lparr>cm_name := cc_name c\<rparr> else m)
      in m'\<lparr>cm_scope := normalize_capability_scope (cm_scope m')\<rparr>)"

definition capability_name :: "rt_capability \<Rightarrow> string" where
  "capability_name c = cm_name (capability_metadata_of c)"

definition ProviderModeService :: string where "ProviderModeService = ''service''"
definition ProviderModeJob :: string where "ProviderModeJob = ''job''"

definition normalize_provider_mode :: "string \<Rightarrow> string" where
  "normalize_provider_mode mode =
     (if mode = ProviderModeService then ProviderModeService
      else if mode = ProviderModeJob \<or> mode = [] then ProviderModeJob
      else ProviderModeJob)"

definition provider_mode :: "rt_provider \<Rightarrow> string" where
  "provider_mode p =
     (case pc_mode p of
        Some m \<Rightarrow> normalize_provider_mode m
      | None \<Rightarrow> normalize_provider_mode (pm_mode (pc_metadata p)))"

definition zero_provider_metadata :: provider_metadata where
  "zero_provider_metadata =
     \<lparr>pm_name = [], pm_description = [], pm_group = [], pm_internal = False, pm_mode = []\<rparr>"

definition provider_metadata_of :: "rt_provider \<Rightarrow> provider_metadata" where
  "provider_metadata_of p =
     (let m = pc_metadata p;
          m' = (if pm_name m = [] then m\<lparr>pm_name := pc_name p\<rparr> else m)
      in m'\<lparr>pm_mode := provider_mode p\<rparr>)"

definition provider_name :: "rt_provider \<Rightarrow> string" where
  "provider_name p = pm_name (provider_metadata_of p)"

definition provider_runtime_capabilities :: "rt_provider \<Rightarrow> rt_capability option list" where
  "provider_runtime_capabilities p =
     (case pc_capabilities p of None \<Rightarrow> [] | Some cs \<Rightarrow> cs)"

definition zero_command_metadata :: command_metadata where
  "zero_command_metadata =
     \<lparr>cmd_name = [], cmd_description = [], cmd_group = [], cmd_internal = False\<rparr>"

definition command_metadata_of :: "rt_command \<Rightarrow> command_metadata" where
  "command_metadata_of c =
     (let m = rc_metadata c in if cmd_name m = [] then m\<lparr>cmd_name := rc_name c\<rparr> else m)"

definition is_reserved_capability_name :: "string \<Rightarrow> bool" where
  "is_reserved_capability_name n \<longleftrightarrow> n \<in> {''capability'', ''default'', ''main''}"

definition is_reserved_provider_name :: "string \<Rightarrow> bool" where
  "is_reserved_provider_name n \<longleftrightarrow> n \<in> {''provider'', ''default'', ''main''}"

definition is_reserved_command_name :: "string \<Rightarrow> bool" where
  "is_reserved_command_name n \<longleftrightarrow> n \<in> {''command'', ''default'', ''main''}"

definition is_reserved_plugin_name :: "string \<Rightarrow> bool" where
  "is_reserved_plugin_name n \<longleftrightarrow> n \<in> {''plugin'', ''default'', ''main''}"

definition AdapterTypeCommand :: string where "AdapterTypeCommand = ''command''"
definition AdapterTypeCapability :: string where "AdapterTypeCapability = ''capability''"
definition AdapterTypeProvider :: string where "AdapterTypeProvider = ''provider''"

definition is_supported_adapter_type :: "string \<Rightarrow> bool" where
  "is_supported_adapter_type t \<longleftrightarrow>
     t \<in> {AdapterTypeCommand, AdapterTypeCapability, AdapterTypeProvider}"

definition new_command_adapter :: "adapter_metadata \<Rightarrow> rt_command option \<Rightarrow> rt_adapter" where
  "new_command_adapter m c =
     (let m' = (case c of
                  Some c' \<Rightarrow> if am_name m = [] then m\<lparr>am_name := cmd_name (command_metadata_of c')\<rparr> else m
                | None \<Rightarrow> m)
      in \<lparr>ra_metadata = m'\<lparr>am_type := AdapterTypeCommand\<rparr>, ra_payload = CommandPayload c\<rparr>)"

definition new_capability_adapter :: "adapter_metadata \<Rightarrow> rt_capability option \<Rightarrow> rt_adapter" where
  "new_capability_adapter m c =
     (let m' = (case c of
                  Some c' \<Rightarrow> if am_name m = [] then m\<lparr>am_name := capability_name c'\<rparr> else m
                | None \<Rightarrow> m)
      in \<lparr>ra_metadata = m'\<lparr>am_type := AdapterTypeCapability\<rparr>, ra_payload = CapabilityPayload c\<rparr>)"

definition new_provider_adapter :: "adapter_metadata \<Rightarrow> rt_provider option \<Rightarrow> rt_adapter" where
  "new_provider_adapter m p =
     (let m' = (case p of
                  Some p' \<Rightarrow> if am_name m = [] then m\<lparr>am_name := provider_name p'\<rparr> else m
                | None \<Rightarrow> m)
      in \<lparr>ra_metadata = m'\<lparr>am_type := AdapterTypeProvider\<rparr>, ra_payload = ProviderPayload p\<rparr>)"

section \<open>Wrapping a registered object (status.go)\<close>

text \<open>
  \<open>newRuntimeCapability\<close> keeps an object that brings its own status cell and wraps any other
  one around a fresh cell (the number \<open>n\<close>, which the allocation uses up).  The wrapper
  embeds the contract and changes no other method.
\<close>

definition new_runtime_capability :: "rt_capability \<Rightarrow> nat \<Rightarrow> rt_capability \<times> nat" where
  "new_runtime_capability c n =
     (case cc_cell c of Some _ \<Rightarrow> (c, n) | None \<Rightarrow> (c\<lparr>cc_cell := Some n\<rparr>, Suc n))"

text \<open>
  \<open>newRuntimeProvider\<close>: the wrapper has its own \<open>Metadata\<close>, \<open>ProviderMode\<close> and
  \<open>RuntimeCapabilities\<close>, and no \<open>RuntimeManaged\<close> (it embeds the contract interface only).
\<close>

definition new_runtime_provider :: "rt_provider \<Rightarrow> nat \<Rightarrow> rt_provider \<times> nat" where
  "new_runtime_provider p n =
     (case pc_cell p of
        Some _ \<Rightarrow> (p, n)
      | None \<Rightarrow>
          (p\<lparr>pc_metadata := provider_metadata_of p,
             pc_mode := Some (provider_mode p),
             pc_capabilities := Some (provider_runtime_capabilities p),
             pc_managed := None,
             pc_cell := Some n\<rparr>, Suc n))"

section \<open>Objects for examples\<close>

definition sample_capability :: "string \<Rightarrow> nat \<Rightarrow> dependency list \<Rightarrow> rt_capability" where
  "sample_capability name i deps =
     \<lparr>cc_id = i, cc_name = name, cc_metadata = zero_capability_metadata, cc_dependencies = deps,
      cc_cell = Some i\<rparr>"

definition sample_provider :: "string \<Rightarrow> nat \<Rightarrow> dependency list \<Rightarrow> rt_provider" where
  "sample_provider name i deps =
     \<lparr>pc_id = i, pc_name = name, pc_metadata = zero_provider_metadata, pc_dependencies = deps,
      pc_mode = None, pc_capabilities = None, pc_managed = None, pc_cell = Some i\<rparr>"

section \<open>Lemmas\<close>

lemma normalize_provider_mode_idem [simp]:
  "normalize_provider_mode (normalize_provider_mode m) = normalize_provider_mode m"
  by (simp add: normalize_provider_mode_def)

lemma normalize_provider_mode_provider [simp]:
  "normalize_provider_mode (provider_mode p) = provider_mode p"
  by (simp add: provider_mode_def split: option.split)

lemma new_runtime_capability_same [simp]:
  "capability_metadata_of (fst (new_runtime_capability c n)) = capability_metadata_of c"
  "capability_name (fst (new_runtime_capability c n)) = capability_name c"
  "cc_id (fst (new_runtime_capability c n)) = cc_id c"
  "cc_dependencies (fst (new_runtime_capability c n)) = cc_dependencies c"
  by (simp_all add: new_runtime_capability_def capability_name_def capability_metadata_of_def
      Let_def split: option.split)

text \<open>Wrapping a provider does not change what the package reads of it, except \<open>RuntimeManaged\<close>.\<close>

lemma new_runtime_provider_same [simp]:
  "provider_mode (fst (new_runtime_provider p n)) = provider_mode p"
  "provider_metadata_of (fst (new_runtime_provider p n)) = provider_metadata_of p"
  "provider_name (fst (new_runtime_provider p n)) = provider_name p"
  "provider_runtime_capabilities (fst (new_runtime_provider p n)) = provider_runtime_capabilities p"
  "pc_id (fst (new_runtime_provider p n)) = pc_id p"
  "pc_dependencies (fst (new_runtime_provider p n)) = pc_dependencies p"
proof -
  show mode: "provider_mode (fst (new_runtime_provider p n)) = provider_mode p"
    by (simp add: new_runtime_provider_def provider_mode_def split: option.split)
  show meta: "provider_metadata_of (fst (new_runtime_provider p n)) = provider_metadata_of p"
  proof (cases "pc_cell p")
    case None
    then show ?thesis using mode
      by (simp add: provider_metadata_of_def new_runtime_provider_def Let_def)
  qed (simp add: new_runtime_provider_def)
  then show "provider_name (fst (new_runtime_provider p n)) = provider_name p"
    by (simp add: provider_name_def)
  show "provider_runtime_capabilities (fst (new_runtime_provider p n)) = provider_runtime_capabilities p"
    by (simp add: new_runtime_provider_def provider_runtime_capabilities_def split: option.split)
  show "pc_id (fst (new_runtime_provider p n)) = pc_id p"
    "pc_dependencies (fst (new_runtime_provider p n)) = pc_dependencies p"
    by (simp_all add: new_runtime_provider_def split: option.split)
qed

lemma provider_metadata_name: "pm_name (provider_metadata_of p) = provider_name p"
  by (simp add: provider_name_def)

lemma capability_metadata_name: "cm_name (capability_metadata_of c) = capability_name c"
  by (simp add: capability_name_def)

end
