(* ===== verification/Runtime_Local.thy ===== *)
theory Runtime_Local
  imports Runtime_Types
begin

text \<open>
  \<^verbatim>\<open>core/runtime/local_capability.go\<close> (the registry of the capabilities local to one service
  and its closing order), \<^verbatim>\<open>service_context.go\<close> and the naming rules of local capabilities:
  \<open>LocalName\<close>, \<open>trimServiceCapabilityName\<close> and the merging of displayed names.
\<close>

section \<open>First occurrences\<close>

text \<open>
  The loop with a \<open>seen\<close> set that several functions share: skip blank names, keep each other
  name at its first occurrence.
\<close>

fun first_names :: "string set \<Rightarrow> string list \<Rightarrow> string list" where
  "first_names seen [] = []"
| "first_names seen (n # ns) =
     (if n = [] then first_names seen ns
      else if n \<in> seen then first_names seen ns
      else n # first_names (insert n seen) ns)"

section \<open>local_capability.go\<close>

record local_registry =
  lr_instances :: "string \<rightharpoonup> nat"
  lr_names :: "string list"

definition new_local_registry :: local_registry where
  "new_local_registry = \<lparr>lr_instances = Map.empty, lr_names = []\<rparr>"

definition lr_add_name :: "string \<Rightarrow> local_registry \<Rightarrow> local_registry" where
  "lr_add_name name r = (if name = [] then r else r\<lparr>lr_names := lr_names r @ [name]\<rparr>)"

text \<open>\<open>Add(capability)\<close>: the capability by its name, nil as \<open>None\<close>.\<close>

definition lr_add :: "string option \<Rightarrow> local_registry \<Rightarrow> local_registry" where
  "lr_add c r = (case c of None \<Rightarrow> r | Some name \<Rightarrow> lr_add_name name r)"

definition lr_set :: "string \<Rightarrow> nat option \<Rightarrow> local_registry \<Rightarrow> local_registry" where
  "lr_set name inst r =
     (if name = [] then r
      else
        let r' = r\<lparr>lr_names := lr_names r @ [name]\<rparr>
        in case inst of None \<Rightarrow> r' | Some i \<Rightarrow> r'\<lparr>lr_instances := (lr_instances r')(name \<mapsto> i)\<rparr>)"

definition lr_get :: "local_registry \<Rightarrow> string \<Rightarrow> nat option" where
  "lr_get r name = (if name = [] then None else lr_instances r name)"

definition lr_list_names :: "local_registry \<Rightarrow> string list" where
  "lr_list_names r = first_names {} (lr_names r)"

definition close_order :: "string list \<Rightarrow> string list" where
  "close_order items = first_names {} (rev items)"

text \<open>
  The closing loop: \<open>close i\<close> is \<open>None\<close> when the instance has no \<open>Close\<close> method, else what the
  method does.
\<close>

fun close_loop ::
  "(nat \<Rightarrow> ('w \<Rightarrow> rt_error option \<times> 'w) option) \<Rightarrow> (string \<rightharpoonup> nat) \<Rightarrow> string list \<Rightarrow> 'w \<Rightarrow>
     rt_error list \<times> 'w" where
  "close_loop close inst [] w = ([], w)"
| "close_loop close inst (n # ns) w =
     (case inst n of
        None \<Rightarrow> close_loop close inst ns w
      | Some i \<Rightarrow>
          (case close i of
             None \<Rightarrow> close_loop close inst ns w
           | Some f \<Rightarrow>
               (let (e, w1) = f w; (es, w2) = close_loop close inst ns w1
                in (case e of None \<Rightarrow> es | Some x \<Rightarrow> x # es, w2))))"

definition lr_close ::
  "(nat \<Rightarrow> ('w \<Rightarrow> rt_error option \<times> 'w) option) \<Rightarrow> local_registry \<Rightarrow> 'w \<Rightarrow>
     rt_error option \<times> local_registry \<times> 'w" where
  "lr_close close r w =
     (let names = close_order (lr_names r);
          instances = lr_instances r;
          r' = r\<lparr>lr_instances := Map.empty\<rparr>;
          (errs, w') = close_loop close instances names w
      in (errors_join (map Some errs), r', w'))"

section \<open>service_context.go\<close>

record 'b service_context =
  sx_config_file :: string
  sx_name :: string
  sx_type :: string
  sx_config_key :: string
  sx_base :: 'b
  sx_capabilities :: "local_registry option"

definition new_service_context :: "string \<Rightarrow> string \<Rightarrow> 'b \<Rightarrow> 'b service_context" where
  "new_service_context name ty base =
     \<lparr>sx_config_file = [], sx_name = name, sx_type = ty, sx_config_key = name, sx_base = base,
      sx_capabilities = Some new_local_registry\<rparr>"

definition ensure_service_context ::
  "'b service_context option \<Rightarrow> string \<Rightarrow> string \<Rightarrow> 'b \<Rightarrow> 'b service_context" where
  "ensure_service_context ctx name ty base =
     (case ctx of
        None \<Rightarrow> new_service_context name ty base
      | Some c \<Rightarrow>
          let c1 = (if sx_name c = [] then c\<lparr>sx_name := name\<rparr> else c);
              c2 = (if sx_type c1 = [] then c1\<lparr>sx_type := ty\<rparr> else c1);
              c3 = (if sx_config_key c2 = [] then c2\<lparr>sx_config_key := sx_name c2\<rparr> else c2)
          in (case sx_capabilities c3 of
                None \<Rightarrow> c3\<lparr>sx_capabilities := Some new_local_registry\<rparr>
              | Some _ \<Rightarrow> c3))"

definition capability_local_first :: "'b service_context \<Rightarrow> string \<Rightarrow> nat option" where
  "capability_local_first ctx name0 =
     (case sx_capabilities ctx of
        None \<Rightarrow> None
      | Some r \<Rightarrow>
          (let name = trim_space name0 in
           if name = [] then None
           else if sx_name ctx \<noteq> [] \<and> \<not> has_prefix name (sx_name ctx @ ''.'') then
             (case lr_get r (sx_name ctx @ ''.'' @ name) of
                Some v \<Rightarrow> Some v
              | None \<Rightarrow> lr_get r name)
           else lr_get r name))"

section \<open>Names\<close>

text \<open>\<open>RuntimeCapabilityContext.LocalName\<close> (the receiver's \<open>Name\<close> is the first argument).\<close>

definition local_name :: "string \<Rightarrow> string \<Rightarrow> string" where
  "local_name service name0 =
     (let name = trim_space name0; sname = trim_space service in
      if sname = [] then name
      else if name = [] then sname
      else if has_prefix name (sname @ ''.'') then name
      else sname @ ''.'' @ name)"

definition trim_service_capability_name :: "string \<Rightarrow> string \<Rightarrow> string" where
  "trim_service_capability_name service name0 =
     (let name = trim_space name0; sname = trim_space service in
      if name = [] \<or> sname = [] then name
      else if has_prefix name (sname @ ''.'')
      then trim_space (drop (length (sname @ ''.'')) name)
      else name)"

definition display_capability_for_service :: "string \<Rightarrow> string \<Rightarrow> string option" where
  "display_capability_for_service service value0 =
     (let v = trim_space value0 in
      if v = [] then None
      else
        let prefix = trim_space service in
        if prefix \<noteq> [] \<and> has_prefix v (prefix @ ''.'') then
          (let l = trim_space (drop (length (prefix @ ''.'')) v) in
           if l = [] then None else Some l)
        else Some v)"

fun merge_labels :: "string \<Rightarrow> string set \<Rightarrow> string list \<Rightarrow> string list" where
  "merge_labels service seen [] = []"
| "merge_labels service seen (v # vs) =
     (case display_capability_for_service service v of
        None \<Rightarrow> merge_labels service seen vs
      | Some label \<Rightarrow>
          if label \<in> seen then merge_labels service seen vs
          else label # merge_labels service (insert label seen) vs)"

definition merge_capabilities_for_service :: "string \<Rightarrow> string list \<Rightarrow> string list \<Rightarrow> string list" where
  "merge_capabilities_for_service service values extra = merge_labels service {} (values @ extra)"

section \<open>Lemmas\<close>

lemma first_names_props:
  "distinct (first_names seen ns) \<and> set (first_names seen ns) = set ns - seen - {[]}"
  by (induction ns arbitrary: seen) auto

lemma first_names_insert: "first_names (insert x seen) ns = filter (\<lambda>n. n \<noteq> x) (first_names seen ns)"
proof (induction ns arbitrary: seen)
  case (Cons n ns)
  have same: "filter (\<lambda>n. n \<noteq> x) (first_names (insert x seen) ns) = first_names (insert x seen) ns"
    using first_names_props [of "insert x seen" ns] by (auto intro: filter_True)
  show ?case
    using Cons.IH [of seen] Cons.IH [of "insert n seen"] same
    by (cases "n = x") (auto simp: insert_commute)
qed simp

lemma close_order_snoc:
  "close_order (ns @ [n]) = (if n = [] then close_order ns else n # filter (\<lambda>m. m \<noteq> n) (close_order ns))"
  by (simp add: close_order_def first_names_insert)

lemma close_order_props:
  "distinct (close_order ns)" "set (close_order ns) = set ns - {[]}"
  using first_names_props [of "{}" "rev ns"] by (simp_all add: close_order_def)

text \<open>Every instance has a name on the list.\<close>

definition lr_ok :: "local_registry \<Rightarrow> bool" where
  "lr_ok r \<longleftrightarrow> dom (lr_instances r) \<subseteq> set (lr_names r) - {[]}"

lemma lr_ok_ops [simp]:
  "lr_ok new_local_registry"
  "lr_ok r \<Longrightarrow> lr_ok (lr_add_name n r)"
  "lr_ok r \<Longrightarrow> lr_ok (lr_add c r)"
  "lr_ok r \<Longrightarrow> lr_ok (lr_set n i r)"
  by (auto simp: lr_ok_def new_local_registry_def lr_add_name_def lr_add_def lr_set_def Let_def
      split: option.splits if_splits)

text \<open>A \<open>Close\<close> method that logs its call and fails as \<open>f\<close> says.\<close>

definition logging_close :: "(nat \<Rightarrow> rt_error option) \<Rightarrow> nat \<Rightarrow> (nat list \<Rightarrow> rt_error option \<times> nat list) option" where
  "logging_close f i = Some (\<lambda>w. (f i, w @ [i]))"

lemma close_loop_log:
  "snd (close_loop (logging_close f) inst ns w) = w @ map (\<lambda>n. the (inst n)) (filter (\<lambda>n. n \<in> dom inst) ns)"
proof (induction ns arbitrary: w)
  case (Cons n ns)
  show ?case
  proof (cases "inst n")
    case None
    with Cons.IH show ?thesis by (simp add: domIff)
  next
    case (Some i)
    have close: "logging_close f i = Some (\<lambda>w. (f i, w @ [i]))" by (rule logging_close_def)
    from Some Cons.IH [of "w @ [i]"] show ?thesis
      by (cases "close_loop (logging_close f) inst ns (w @ [i])") (simp add: close domIff)
  qed
qed simp

lemma close_loop_empty: "close_loop close Map.empty ns w = ([], w)"
  by (induction ns) auto

text \<open>No white space rune contains a dot, so a dot keeps both ends of a name apart.\<close>

lemma has_prefix_dot:
  assumes "CHR ''.'' \<notin> set r" "has_prefix (a @ CHR ''.'' # b) r"
  shows "has_prefix a r"
proof -
  from assms(2) obtain t where t: "a @ CHR ''.'' # b = r @ t" by (auto simp: has_prefix_iff)
  then obtain us where "a = r @ us \<and> us @ CHR ''.'' # b = t \<or> a @ us = r \<and> CHR ''.'' # b = us @ t"
    by (auto simp: append_eq_append_conv2)
  with assms(1) show ?thesis by (cases us) (auto simp: has_prefix_iff)
qed

lemma dot_not_in_space: "r \<in> set space_runes \<Longrightarrow> CHR ''.'' \<notin> set r"
proof
  assume "r \<in> set space_runes" "CHR ''.'' \<in> set r"
  then have "of_char (CHR ''.'') \<le> (32::nat) \<or> of_char (CHR ''.'') \<ge> (128::nat)"
    using space_runes_bytes by blast
  then show False by simp
qed

lemma trim_space_dotted:
  assumes "trim_space a = a" "trim_space b = b"
  shows "trim_space (a @ CHR ''.'' # b) = a @ CHR ''.'' # b"
proof (rule trim_space_id)
  have a: "clean_front space_runes a" and b: "clean_front (map rev space_runes) (rev b)"
    using assms trim_space_clean by metis+
  show "clean_front space_runes (a @ CHR ''.'' # b)"
    using a has_prefix_dot dot_not_in_space unfolding clean_front_def by blast
  show "clean_front (map rev space_runes) (rev (a @ CHR ''.'' # b))"
    unfolding clean_front_def
  proof (intro ballI impI notI)
    fix r assume r: "r \<in> set (map rev space_runes)" "r \<noteq> []"
      "has_prefix (rev (a @ CHR ''.'' # b)) r"
    then have "CHR ''.'' \<notin> set r" using dot_not_in_space by auto
    moreover have "has_prefix (rev b @ CHR ''.'' # rev a) r" using r(3) by simp
    ultimately have "has_prefix (rev b) r" by (rule has_prefix_dot)
    with b r(1,2) show False by (auto simp: clean_front_def)
  qed
qed

section \<open>Properties\<close>

text \<open>
  Closing the registry of a service closes every instance exactly once, in the reverse
  order of the last registration of its name, whatever closers fail; a second close calls
  nothing.
\<close>

theorem local_close_all_once:
  assumes "lr_ok r" "lr_close (logging_close f) r w = (e, r', w')"
  shows "w' = w @ map (\<lambda>n. the (lr_instances r n)) (filter (\<lambda>n. n \<in> dom (lr_instances r)) (close_order (lr_names r))) \<and>
    distinct (close_order (lr_names r)) \<and> dom (lr_instances r) \<subseteq> set (close_order (lr_names r)) \<and>
    lr_close (logging_close f) r' w' = (None, r', w')"
proof -
  have "w' = snd (close_loop (logging_close f) (lr_instances r) (close_order (lr_names r)) w)"
    and r': "r' = r\<lparr>lr_instances := Map.empty\<rparr>"
    using assms(2) by (auto simp: lr_close_def Let_def split: prod.splits)
  moreover have "lr_close (logging_close f) r' w' = (None, r', w')"
    by (simp add: r' lr_close_def Let_def close_loop_empty errors_join_def)
  ultimately show ?thesis
    using assms(1) close_order_props [of "lr_names r"] by (simp add: close_loop_log lr_ok_def)
qed

definition two_instances :: local_registry where
  "two_instances = lr_set ''cache'' (Some 2) (lr_set ''db'' (Some 1) new_local_registry)"

theorem local_close_all_once_witness:
  "snd (snd (lr_close (logging_close (\<lambda>_. None)) two_instances [])) = [2, 1]"
proof -
  have ok: "lr_ok two_instances" by (simp add: two_instances_def)
  have order: "close_order (lr_names two_instances) = [''cache'', ''db'']" by code_simp
  have dom: "dom (lr_instances two_instances) = {''cache'', ''db''}"
    "lr_instances two_instances ''cache'' = Some 2" "lr_instances two_instances ''db'' = Some 1"
    by (auto simp: two_instances_def lr_set_def new_local_registry_def Let_def)
  obtain e r' w' where run: "lr_close (logging_close (\<lambda>_. None)) two_instances [] = (e, r', w')"
    by (metis prod.exhaust)
  from local_close_all_once [OF ok run] run show ?thesis
    unfolding order dom(1) by (simp add: dom(2,3))
qed

text \<open>
  The name of a capability inside a service survives the round trip through its
  qualified name: qualifying a name with the service and trimming the service off again gives
  the name back, and qualifying twice is qualifying once.
\<close>

theorem local_name_roundtrip:
  assumes "trim_space service \<noteq> []" "trim_space name \<noteq> []"
    and "\<not> has_prefix (trim_space name) (trim_space service @ ''.'')"
  shows "trim_service_capability_name service (local_name service name) = trim_space name \<and>
    local_name service (local_name service name) = local_name service name"
proof -
  have q: "local_name service name = trim_space service @ CHR ''.'' # trim_space name"
    using assms by (simp add: local_name_def Let_def)
  have trimmed: "trim_space (trim_space service @ CHR ''.'' # trim_space name) =
      trim_space service @ CHR ''.'' # trim_space name"
    by (rule trim_space_dotted) simp_all
  have "has_prefix (trim_space service @ CHR ''.'' # trim_space name) (trim_space service @ ''.'')"
    by (simp add: has_prefix_iff)
  then show ?thesis
    using assms(1) unfolding q
    by (simp add: trim_service_capability_name_def local_name_def trimmed Let_def)
qed

theorem local_name_roundtrip_witness:
  "trim_service_capability_name ''orders'' (local_name ''orders'' ''db'') = ''db''"
proof -
  have t: "trim_space ''orders'' = ''orders''" "trim_space ''db'' = ''db''"
    by (rule trim_space_printable; simp)+
  have "trim_service_capability_name ''orders'' (local_name ''orders'' ''db'') = trim_space ''db''"
    using local_name_roundtrip [of "''orders''" "''db''"] by (simp add: t has_prefix_def)
  then show ?thesis by (simp add: t)
qed

end
