(* ===== verification/Runtime_Registry.thy ===== *)
theory Runtime_Registry
  imports Runtime_Types Keyed_Registry
begin

text \<open>
  \<^verbatim>\<open>core/runtime/registry.go\<close>: the registry of an application, five shelves of named objects
  (capabilities, providers, commands, adapters, plugins).  Each \<open>Register...\<close> call takes a
  batch, checks all of it against the names already there and the names of the batch, and
  only then stores it.  The shelf contract is proved once, in the locale \<open>object_shelf\<close>, and
  interpreted for the five kinds.
\<close>

section \<open>Shelves\<close>

record ('a, 'm) shelf =
  sh_items :: "'a list"
  sh_by_name :: "string \<rightharpoonup> 'a"
  sh_meta :: "string \<rightharpoonup> 'm"

definition empty_shelf :: "('a, 'm) shelf" where
  "empty_shelf = \<lparr>sh_items = [], sh_by_name = Map.empty, sh_meta = Map.empty\<rparr>"

text \<open>
  The checking loop.  \<open>chk\<close> is what the loop body tests of the metadata of an object (its
  name, returned when the tests pass); \<open>ex\<close> is the set \<open>existing\<close>, as a predicate.
\<close>

fun accept_batch ::
  "object_kind \<Rightarrow> ('a \<Rightarrow> rt_error + string) \<Rightarrow> (string \<Rightarrow> bool) \<Rightarrow> 'a option list \<Rightarrow> rt_error + 'a list" where
  "accept_batch k chk ex [] = Inr []"
| "accept_batch k chk ex (None # xs) = Inl (ErrObjectNil k)"
| "accept_batch k chk ex (Some x # xs) =
     bindR (chk x) (\<lambda>n.
       if ex n then Inl (ErrNameDuplicate k n)
       else bindR (accept_batch k chk (ex(n := True)) xs) (\<lambda>ys. Inr (x # ys)))"

text \<open>The storing loop; \<open>wrap\<close> is \<open>newRuntimeCapability\<close>, \<open>newRuntimeProvider\<close> or nothing.\<close>

fun place_batch ::
  "('a \<Rightarrow> string) \<Rightarrow> ('a \<Rightarrow> 'm) \<Rightarrow> ('a \<Rightarrow> nat \<Rightarrow> 'a \<times> nat) \<Rightarrow> 'a list \<Rightarrow> ('a, 'm) shelf \<Rightarrow> nat \<Rightarrow>
     ('a, 'm) shelf \<times> nat" where
  "place_batch nm mt wrap [] s n = (s, n)"
| "place_batch nm mt wrap (x # xs) s n =
     (let (y, n') = wrap x n in
      place_batch nm mt wrap xs
        \<lparr>sh_items = sh_items s @ [y],
         sh_by_name = (sh_by_name s)(nm x \<mapsto> y),
         sh_meta = (sh_meta s)(nm x \<mapsto> mt x)\<rparr> n')"

definition register_batch ::
  "object_kind \<Rightarrow> ('a \<Rightarrow> rt_error + string) \<Rightarrow> ('a \<Rightarrow> string) \<Rightarrow> ('a \<Rightarrow> 'm) \<Rightarrow>
     ('a \<Rightarrow> nat \<Rightarrow> 'a \<times> nat) \<Rightarrow> ('a, 'm) shelf \<Rightarrow> nat \<Rightarrow> 'a option list \<Rightarrow>
     rt_error + ('a, 'm) shelf \<times> nat" where
  "register_batch k chk nm mt wrap s n xs =
     bindR (accept_batch k chk (\<lambda>name. sh_by_name s name \<noteq> None) xs)
       (\<lambda>accepted. Inr (place_batch nm mt wrap accepted s n))"

definition shelf_lookup :: "('a, 'm) shelf \<Rightarrow> string \<Rightarrow> 'a option" where
  "shelf_lookup s name = (if name = [] then None else sh_by_name s name)"

text \<open>\<open>...ByGroup\<close>, \<open>...ByScope\<close>, \<open>...ByType\<close>: a filter on the stored metadata.\<close>

definition shelf_where ::
  "('a \<Rightarrow> string) \<Rightarrow> 'm \<Rightarrow> ('m \<Rightarrow> bool) \<Rightarrow> ('a, 'm) shelf \<Rightarrow> 'a list" where
  "shelf_where nm zero P s =
     filter (\<lambda>x. P (case sh_meta s (nm x) of None \<Rightarrow> zero | Some m \<Rightarrow> m)) (sh_items s)"

section \<open>The registry\<close>

record registry =
  reg_capabilities :: "(rt_capability, capability_metadata) shelf"
  reg_providers :: "(rt_provider, provider_metadata) shelf"
  reg_commands :: "(rt_command, command_metadata) shelf"
  reg_adapters :: "(rt_adapter, adapter_metadata) shelf"
  reg_plugins :: "(rt_plugin, plugin_metadata) shelf"

definition new_rt_registry :: registry where
  "new_rt_registry =
     \<lparr>reg_capabilities = empty_shelf, reg_providers = empty_shelf, reg_commands = empty_shelf,
      reg_adapters = empty_shelf, reg_plugins = empty_shelf\<rparr>"

definition check_capability :: "rt_capability \<Rightarrow> rt_error + string" where
  "check_capability c =
     (let name = cm_name (capability_metadata_of c) in
      if name = [] then Inl (ErrNameRequired KindCapability)
      else if is_reserved_capability_name name then Inl (ErrNameReserved KindCapability name)
      else Inr name)"

definition check_provider :: "rt_provider \<Rightarrow> rt_error + string" where
  "check_provider p =
     (let name = pm_name (provider_metadata_of p) in
      if name = [] then Inl (ErrNameRequired KindProvider)
      else if is_reserved_provider_name name then Inl (ErrNameReserved KindProvider name)
      else Inr name)"

definition check_command :: "rt_command \<Rightarrow> rt_error + string" where
  "check_command c =
     (let name = cmd_name (command_metadata_of c) in
      if name = [] then Inl (ErrNameRequired KindCommand)
      else if is_reserved_command_name name then Inl (ErrNameReserved KindCommand name)
      else Inr name)"

definition check_adapter :: "rt_adapter \<Rightarrow> rt_error + string" where
  "check_adapter a =
     (let m = ra_metadata a in
      if am_name m = [] then Inl (ErrNameRequired KindAdapter)
      else if am_type m = [] then Inl ErrAdapterTypeRequired
      else if \<not> is_supported_adapter_type (am_type m) then Inl (ErrAdapterTypeUnsupported (am_type m))
      else Inr (am_name m))"

definition check_plugin :: "rt_plugin \<Rightarrow> rt_error + string" where
  "check_plugin p =
     (let name = plm_name (rp_metadata p) in
      if name = [] then Inl (ErrNameRequired KindPlugin)
      else if is_reserved_plugin_name name then Inl (ErrNameReserved KindPlugin name)
      else Inr name)"

definition command_name_of :: "rt_command \<Rightarrow> string" where
  "command_name_of c = cmd_name (command_metadata_of c)"

definition adapter_name_of :: "rt_adapter \<Rightarrow> string" where
  "adapter_name_of a = am_name (ra_metadata a)"

definition plugin_name_of :: "rt_plugin \<Rightarrow> string" where
  "plugin_name_of p = plm_name (rp_metadata p)"

text \<open>
  The methods of \<open>*Registry\<close>; the receiver is an option (a nil pointer is \<open>None\<close>) and the
  number threaded through the two registrations that wrap is the next free status cell.
\<close>

definition register_capabilities ::
  "registry option \<Rightarrow> nat \<Rightarrow> rt_capability option list \<Rightarrow> rt_error + registry \<times> nat" where
  "register_capabilities r n xs =
     (case r of
        None \<Rightarrow> Inl ErrRegistryNil
      | Some g \<Rightarrow>
          bindR (register_batch KindCapability check_capability capability_name capability_metadata_of
                   new_runtime_capability (reg_capabilities g) n xs)
            (\<lambda>(s, n'). Inr (g\<lparr>reg_capabilities := s\<rparr>, n')))"

definition register_providers ::
  "registry option \<Rightarrow> nat \<Rightarrow> rt_provider option list \<Rightarrow> rt_error + registry \<times> nat" where
  "register_providers r n xs =
     (case r of
        None \<Rightarrow> Inl ErrRegistryNil
      | Some g \<Rightarrow>
          bindR (register_batch KindProvider check_provider provider_name provider_metadata_of
                   new_runtime_provider (reg_providers g) n xs)
            (\<lambda>(s, n'). Inr (g\<lparr>reg_providers := s\<rparr>, n')))"

definition register_commands ::
  "registry option \<Rightarrow> rt_command option list \<Rightarrow> rt_error + registry" where
  "register_commands r xs =
     (case r of
        None \<Rightarrow> Inl ErrRegistryNil
      | Some g \<Rightarrow>
          bindR (register_batch KindCommand check_command command_name_of command_metadata_of
                   Pair (reg_commands g) 0 xs)
            (\<lambda>(s, _). Inr (g\<lparr>reg_commands := s\<rparr>)))"

definition register_adapters ::
  "registry option \<Rightarrow> rt_adapter option list \<Rightarrow> rt_error + registry" where
  "register_adapters r xs =
     (case r of
        None \<Rightarrow> Inl ErrRegistryNil
      | Some g \<Rightarrow>
          bindR (register_batch KindAdapter check_adapter adapter_name_of ra_metadata
                   Pair (reg_adapters g) 0 xs)
            (\<lambda>(s, _). Inr (g\<lparr>reg_adapters := s\<rparr>)))"

definition register_plugins ::
  "registry option \<Rightarrow> rt_plugin option list \<Rightarrow> rt_error + registry" where
  "register_plugins r xs =
     (case r of
        None \<Rightarrow> Inl ErrRegistryNil
      | Some g \<Rightarrow>
          bindR (register_batch KindPlugin check_plugin plugin_name_of rp_metadata
                   Pair (reg_plugins g) 0 xs)
            (\<lambda>(s, _). Inr (g\<lparr>reg_plugins := s\<rparr>)))"

definition reg_capability :: "registry option \<Rightarrow> string \<Rightarrow> rt_capability option" where
  "reg_capability r name =
     (case r of None \<Rightarrow> None | Some g \<Rightarrow> shelf_lookup (reg_capabilities g) name)"

definition reg_provider :: "registry option \<Rightarrow> string \<Rightarrow> rt_provider option" where
  "reg_provider r name = (case r of None \<Rightarrow> None | Some g \<Rightarrow> shelf_lookup (reg_providers g) name)"

definition reg_command :: "registry option \<Rightarrow> string \<Rightarrow> rt_command option" where
  "reg_command r name = (case r of None \<Rightarrow> None | Some g \<Rightarrow> shelf_lookup (reg_commands g) name)"

definition reg_adapter :: "registry option \<Rightarrow> string \<Rightarrow> rt_adapter option" where
  "reg_adapter r name = (case r of None \<Rightarrow> None | Some g \<Rightarrow> shelf_lookup (reg_adapters g) name)"

definition reg_plugin :: "registry option \<Rightarrow> string \<Rightarrow> rt_plugin option" where
  "reg_plugin r name = (case r of None \<Rightarrow> None | Some g \<Rightarrow> shelf_lookup (reg_plugins g) name)"

definition all_capabilities :: "registry option \<Rightarrow> rt_capability list" where
  "all_capabilities r = (case r of None \<Rightarrow> [] | Some g \<Rightarrow> sh_items (reg_capabilities g))"

definition all_providers :: "registry option \<Rightarrow> rt_provider list" where
  "all_providers r = (case r of None \<Rightarrow> [] | Some g \<Rightarrow> sh_items (reg_providers g))"

definition all_commands :: "registry option \<Rightarrow> rt_command list" where
  "all_commands r = (case r of None \<Rightarrow> [] | Some g \<Rightarrow> sh_items (reg_commands g))"

definition all_adapters :: "registry option \<Rightarrow> rt_adapter list" where
  "all_adapters r = (case r of None \<Rightarrow> [] | Some g \<Rightarrow> sh_items (reg_adapters g))"

definition all_plugins :: "registry option \<Rightarrow> rt_plugin list" where
  "all_plugins r = (case r of None \<Rightarrow> [] | Some g \<Rightarrow> sh_items (reg_plugins g))"

definition capabilities_by_group :: "registry option \<Rightarrow> string \<Rightarrow> rt_capability list" where
  "capabilities_by_group r g =
     (case r of
        None \<Rightarrow> []
      | Some t \<Rightarrow> if g = [] then []
                  else shelf_where capability_name zero_capability_metadata
                         (\<lambda>m. cm_group m = g) (reg_capabilities t))"

definition capabilities_by_scope :: "registry option \<Rightarrow> string \<Rightarrow> rt_capability list" where
  "capabilities_by_scope r scope =
     (case r of
        None \<Rightarrow> []
      | Some t \<Rightarrow>
          (let scope' = normalize_capability_scope scope in
           shelf_where capability_name zero_capability_metadata
             (\<lambda>m. normalize_capability_scope (cm_scope m) = scope') (reg_capabilities t)))"

definition providers_by_group :: "registry option \<Rightarrow> string \<Rightarrow> rt_provider list" where
  "providers_by_group r g =
     (case r of
        None \<Rightarrow> []
      | Some t \<Rightarrow> if g = [] then []
                  else shelf_where provider_name zero_provider_metadata
                         (\<lambda>m. pm_group m = g) (reg_providers t))"

definition commands_by_group :: "registry option \<Rightarrow> string \<Rightarrow> rt_command list" where
  "commands_by_group r g =
     (case r of
        None \<Rightarrow> []
      | Some t \<Rightarrow> if g = [] then []
                  else shelf_where command_name_of zero_command_metadata
                         (\<lambda>m. cmd_group m = g) (reg_commands t))"

definition adapters_by_type :: "registry option \<Rightarrow> string \<Rightarrow> rt_adapter list" where
  "adapters_by_type r ty =
     (case r of
        None \<Rightarrow> []
      | Some t \<Rightarrow> if ty = [] then []
                  else shelf_where adapter_name_of \<lparr>am_name = [], am_type = [], am_internal = False\<rparr>
                         (\<lambda>m. am_type m = ty) (reg_adapters t))"

definition plugins_by_group :: "registry option \<Rightarrow> string \<Rightarrow> rt_plugin list" where
  "plugins_by_group r g =
     (case r of
        None \<Rightarrow> []
      | Some t \<Rightarrow> if g = [] then []
                  else shelf_where plugin_name_of
                         \<lparr>plm_name = [], plm_description = [], plm_group = [], plm_internal = False\<rparr>
                         (\<lambda>m. plm_group m = g) (reg_plugins t))"

section \<open>The contract of a shelf\<close>

text \<open>
  The invariant: names are unique, every object passed its checks, and the two maps are
  exactly the index of the list by name.
\<close>

definition shelf_ok ::
  "('a \<Rightarrow> rt_error + string) \<Rightarrow> ('a \<Rightarrow> string) \<Rightarrow> ('a \<Rightarrow> 'm) \<Rightarrow> ('a, 'm) shelf \<Rightarrow> bool" where
  "shelf_ok chk nm mt s \<longleftrightarrow>
     distinct (map nm (sh_items s)) \<and>
     (\<forall>x\<in>set (sh_items s). chk x = Inr (nm x)) \<and>
     sh_by_name s = map_of (map (\<lambda>x. (nm x, x)) (sh_items s)) \<and>
     sh_meta s = map_of (map (\<lambda>x. (nm x, mt x)) (sh_items s))"

lemma shelf_ok_empty [simp]: "shelf_ok chk nm mt empty_shelf"
  by (simp add: shelf_ok_def empty_shelf_def)

lemma map_add_single_fresh: "k \<notin> dom m \<Longrightarrow> [k \<mapsto> v] ++ m = m(k \<mapsto> v)"
  by (rule ext) (auto simp: map_add_def split: option.splits)

lemma dom_map_of_keys: "dom (map_of (map (\<lambda>x. (f x, g x)) xs)) = f ` set xs"
  by (simp add: dom_map_of_conv_image_fst image_image)

lemma map_of_keys_Some:
  "distinct (map f xs) \<Longrightarrow> x \<in> set xs \<Longrightarrow> map_of (map (\<lambda>x. (f x, g x)) xs) (f x) = Some (g x)"
  by (rule map_of_is_SomeI) (simp_all add: comp_def)

text \<open>
  What the code relies on of the accessors of a kind of object: the checks return the name,
  which is not empty, and a stored (wrapped) object reads as the object that was registered.
\<close>

lemma option_eqI: "(\<And>v. x = Some v \<longleftrightarrow> y = Some v) \<Longrightarrow> x = y"
  by (cases x; cases y) auto

locale object_shelf =
  fixes kind :: object_kind
    and chk :: "'a \<Rightarrow> rt_error + string"
    and nm :: "'a \<Rightarrow> string"
    and mt :: "'a \<Rightarrow> 'm"
    and wrap :: "'a \<Rightarrow> nat \<Rightarrow> 'a \<times> nat"
  assumes chk_name: "chk x = Inr n \<Longrightarrow> n = nm x \<and> nm x \<noteq> []"
    and wrap_name: "nm (fst (wrap x c)) = nm x"
    and wrap_meta: "mt (fst (wrap x c)) = mt x"
    and wrap_chk: "chk (fst (wrap x c)) = chk x"
begin

lemma accept_iff:
  "accept_batch kind chk ex xs = Inr ys \<longleftrightarrow>
     xs = map Some ys \<and> (\<forall>y\<in>set ys. chk y = Inr (nm y)) \<and> distinct (map nm ys) \<and>
     (\<forall>y\<in>set ys. \<not> ex (nm y))"
proof (induction xs arbitrary: ex ys)
  case (Cons x xs)
  show ?case
  proof (cases x)
    case (Some z)
    show ?thesis
    proof (cases "chk z")
      case (Inr n)
      then have n: "n = nm z" using chk_name by blast
      show ?thesis
        by (cases ys) (auto simp: Some Inr n bindR_Inr_iff Cons.IH image_iff split: if_splits)
    qed (auto simp: Some)
  qed auto
qed auto

lemma place_batch_ok:
  "shelf_ok chk nm mt s \<Longrightarrow> \<forall>x\<in>set xs. chk x = Inr (nm x) \<Longrightarrow> distinct (map nm xs) \<Longrightarrow>
     nm ` set xs \<inter> dom (sh_by_name s) = {} \<Longrightarrow> place_batch nm mt wrap xs s n = (s', n') \<Longrightarrow>
   shelf_ok chk nm mt s' \<and>
   (\<exists>ys. sh_items s' = sh_items s @ ys \<and> map nm ys = map nm xs \<and> map mt ys = map mt xs \<and>
         list_all2 (\<lambda>x y. \<exists>c. y = fst (wrap x c)) xs ys)"
proof (induction xs arbitrary: s n)
  case Nil
  then show ?case by (auto intro: exI [of _ "[]"])
next
  case (Cons x xs)
  obtain y m where y: "wrap x n = (y, m)" by fastforce
  then have y': "y = fst (wrap x n)" by simp
  then have keep: "nm y = nm x" "mt y = mt x" "chk y = chk x"
    by (simp_all add: wrap_name wrap_meta wrap_chk)
  define t where "t = \<lparr>sh_items = sh_items s @ [y], sh_by_name = (sh_by_name s)(nm x \<mapsto> y),
     sh_meta = (sh_meta s)(nm x \<mapsto> mt x)\<rparr>"
  have fresh: "nm x \<notin> nm ` set (sh_items s)"
    using Cons.prems(1,4) by (auto simp: shelf_ok_def dom_map_of_keys)
  then have t_ok: "shelf_ok chk nm mt t"
    using Cons.prems(1,2) keep
    by (auto simp: shelf_ok_def t_def map_add_single_fresh dom_map_of_keys)
  have "nm ` set xs \<inter> dom (sh_by_name t) = {}"
    using Cons.prems(3,4) by (auto simp: t_def)
  moreover have "place_batch nm mt wrap xs t m = (s', n')"
    using Cons.prems(5) by (simp add: y t_def)
  ultimately have "shelf_ok chk nm mt s' \<and>
     (\<exists>ys. sh_items s' = sh_items t @ ys \<and> map nm ys = map nm xs \<and> map mt ys = map mt xs \<and>
         list_all2 (\<lambda>x y. \<exists>c. y = fst (wrap x c)) xs ys)"
    using Cons.IH [OF t_ok] Cons.prems(2,3) by simp
  then obtain ys where ys: "shelf_ok chk nm mt s'" "sh_items s' = sh_items t @ ys"
     "map nm ys = map nm xs" "map mt ys = map mt xs"
     "list_all2 (\<lambda>x y. \<exists>c. y = fst (wrap x c)) xs ys" by blast
  show ?case
    using ys keep y' by (intro conjI exI [of _ "y # ys"]) (auto simp: t_def)
qed

lemma register_batch_iff:
  "(\<exists>s' n'. register_batch kind chk nm mt wrap s n xs = Inr (s', n')) \<longleftrightarrow>
     (\<exists>ys. xs = map Some ys \<and> (\<forall>y\<in>set ys. chk y = Inr (nm y)) \<and> distinct (map nm ys) \<and>
           nm ` set ys \<inter> dom (sh_by_name s) = {})"
proof -
  let ?ex = "\<lambda>name. sh_by_name s name \<noteq> None"
  have "(\<exists>s' n'. register_batch kind chk nm mt wrap s n xs = Inr (s', n')) \<longleftrightarrow>
      (\<exists>r. register_batch kind chk nm mt wrap s n xs = Inr r)" by simp
  also have "\<dots> \<longleftrightarrow> (\<exists>ys. accept_batch kind chk ?ex xs = Inr ys)"
    by (auto simp: register_batch_def bindR_Inr_iff)
  also have "\<dots> \<longleftrightarrow> (\<exists>ys. xs = map Some ys \<and> (\<forall>y\<in>set ys. chk y = Inr (nm y)) \<and>
      distinct (map nm ys) \<and> nm ` set ys \<inter> dom (sh_by_name s) = {})"
    unfolding accept_iff by (intro arg_cong [where f = Ex] ext) auto
  finally show ?thesis .
qed

lemma register_batch_InrE:
  assumes "register_batch kind chk nm mt wrap s n xs = Inr (s', n')" "shelf_ok chk nm mt s"
  obtains zs ys where "xs = map Some zs" "shelf_ok chk nm mt s'" "sh_items s' = sh_items s @ ys"
    "map nm ys = map nm zs" "map mt ys = map mt zs" "list_all2 (\<lambda>x y. \<exists>c. y = fst (wrap x c)) zs ys"
    "\<forall>y\<in>set zs. chk y = Inr (nm y)" "distinct (map nm zs)" "nm ` set zs \<inter> dom (sh_by_name s) = {}"
proof -
  from assms(1) obtain zs where zs: "xs = map Some zs" "\<forall>y\<in>set zs. chk y = Inr (nm y)"
    "distinct (map nm zs)" "\<forall>y\<in>set zs. sh_by_name s (nm y) = None"
    "place_batch nm mt wrap zs s n = (s', n')"
    by (auto simp: register_batch_def bindR_Inr_iff accept_iff)
  from zs(4) have "nm ` set zs \<inter> dom (sh_by_name s) = {}" by auto
  note zs = zs(1-3) this zs(5)
  with place_batch_ok [OF assms(2) zs(2-5)] show ?thesis by (auto intro: that)
qed

lemma shelf_names:
  "shelf_ok chk nm mt s \<Longrightarrow> dom (sh_by_name s) = nm ` set (sh_items s)"
  by (simp add: shelf_ok_def dom_map_of_keys)

lemma shelf_lookup_iff:
  "shelf_ok chk nm mt s \<Longrightarrow> shelf_lookup s name = Some x \<longleftrightarrow> x \<in> set (sh_items s) \<and> nm x = name"
proof -
  assume ok: "shelf_ok chk nm mt s"
  then have nonempty: "\<forall>x\<in>set (sh_items s). nm x \<noteq> []"
    by (metis chk_name shelf_ok_def)
  have "sh_by_name s name = Some x \<longleftrightarrow> x \<in> set (sh_items s) \<and> nm x = name"
    using ok map_of_keys_Some [of nm "sh_items s" x "\<lambda>x. x"]
    by (auto simp: shelf_ok_def dest: map_of_SomeD)
  with nonempty show ?thesis by (auto simp: shelf_lookup_def)
qed

lemma shelf_lookup_None_iff:
  assumes "shelf_ok chk nm mt s"
  shows "shelf_lookup s name = None \<longleftrightarrow> name \<notin> nm ` set (sh_items s)"
proof -
  have "shelf_lookup s name = None \<longleftrightarrow> (\<forall>x. shelf_lookup s name \<noteq> Some x)"
    by (cases "shelf_lookup s name") auto
  then show ?thesis by (auto simp: shelf_lookup_iff [OF assms])
qed

lemma shelf_where_filter:
  assumes "shelf_ok chk nm mt s"
  shows "shelf_where nm zero P s = filter (\<lambda>x. P (mt x)) (sh_items s)"
proof -
  have "sh_meta s (nm x) = Some (mt x)" if "x \<in> set (sh_items s)" for x
    using assms map_of_keys_Some [of nm "sh_items s" x mt] that by (simp add: shelf_ok_def)
  then show ?thesis by (auto simp: shelf_where_def intro!: filter_cong)
qed

lemma register_one_lookup:
  assumes "shelf_ok chk nm mt s" "register_batch kind chk nm mt wrap s n [Some x] = Inr (s', n')"
  shows "shelf_ok chk nm mt s' \<and> (\<exists>v. shelf_lookup s' = (shelf_lookup s)(nm x \<mapsto> v)) \<and>
    shelf_lookup s (nm x) = None"
proof -
  from assms obtain y where s': "shelf_ok chk nm mt s'" "sh_items s' = sh_items s @ [y]" "nm y = nm x"
    "nm x \<notin> dom (sh_by_name s)"
    by (elim register_batch_InrE) (auto simp: map_eq_Cons_conv Cons_eq_map_conv list_all2_Cons1)
  then have fresh: "nm x \<notin> nm ` set (sh_items s)" using shelf_names [OF assms(1)] by simp
  have "shelf_lookup s' k = ((shelf_lookup s)(nm x \<mapsto> y)) k" for k
  proof (rule option_eqI)
    show "shelf_lookup s' k = Some v \<longleftrightarrow> ((shelf_lookup s)(nm x \<mapsto> y)) k = Some v" for v
      using fresh s'(2,3)
      by (auto simp: shelf_lookup_iff [OF s'(1)] shelf_lookup_iff [OF assms(1)])
        (metis imageI)+
  qed
  with s'(1) fresh show ?thesis
    by (auto simp: shelf_lookup_None_iff [OF assms(1)] intro!: exI [of _ y])
qed

end


section \<open>The five shelves meet the contract\<close>

interpretation cap_shelf: object_shelf KindCapability check_capability capability_name
  capability_metadata_of new_runtime_capability
  by unfold_locales (auto simp: check_capability_def capability_name_def Let_def split: if_splits)

interpretation prov_shelf: object_shelf KindProvider check_provider provider_name
  provider_metadata_of new_runtime_provider
  by unfold_locales (auto simp: check_provider_def provider_metadata_name Let_def split: if_splits)

interpretation cmd_shelf: object_shelf KindCommand check_command command_name_of
  command_metadata_of Pair
  by unfold_locales (auto simp: check_command_def command_name_of_def Let_def split: if_splits)

interpretation adp_shelf: object_shelf KindAdapter check_adapter adapter_name_of ra_metadata Pair
  by unfold_locales (auto simp: check_adapter_def adapter_name_of_def Let_def split: if_splits)

interpretation plug_shelf: object_shelf KindPlugin check_plugin plugin_name_of rp_metadata Pair
  by unfold_locales (auto simp: check_plugin_def plugin_name_of_def Let_def split: if_splits)

text \<open>The invariant of the registry.\<close>

definition registry_ok :: "registry \<Rightarrow> bool" where
  "registry_ok g \<longleftrightarrow>
     shelf_ok check_capability capability_name capability_metadata_of (reg_capabilities g) \<and>
     shelf_ok check_provider provider_name provider_metadata_of (reg_providers g) \<and>
     shelf_ok check_command command_name_of command_metadata_of (reg_commands g) \<and>
     shelf_ok check_adapter adapter_name_of ra_metadata (reg_adapters g) \<and>
     shelf_ok check_plugin plugin_name_of rp_metadata (reg_plugins g)"

lemma registry_ok_new [simp]: "registry_ok new_rt_registry"
  by (simp add: registry_ok_def new_rt_registry_def)

lemma register_capabilities_ok:
  "registry_ok g \<Longrightarrow> register_capabilities (Some g) n xs = Inr (g', n') \<Longrightarrow> registry_ok g'"
  by (auto simp: registry_ok_def register_capabilities_def bindR_Inr_iff
      elim: cap_shelf.register_batch_InrE)

lemma register_providers_ok:
  "registry_ok g \<Longrightarrow> register_providers (Some g) n xs = Inr (g', n') \<Longrightarrow> registry_ok g'"
  by (auto simp: registry_ok_def register_providers_def bindR_Inr_iff
      elim: prov_shelf.register_batch_InrE)

lemma register_commands_ok:
  "registry_ok g \<Longrightarrow> register_commands (Some g) xs = Inr g' \<Longrightarrow> registry_ok g'"
  by (auto simp: registry_ok_def register_commands_def bindR_Inr_iff
      elim: cmd_shelf.register_batch_InrE)

lemma register_adapters_ok:
  "registry_ok g \<Longrightarrow> register_adapters (Some g) xs = Inr g' \<Longrightarrow> registry_ok g'"
  by (auto simp: registry_ok_def register_adapters_def bindR_Inr_iff
      elim: adp_shelf.register_batch_InrE)

lemma register_plugins_ok:
  "registry_ok g \<Longrightarrow> register_plugins (Some g) xs = Inr g' \<Longrightarrow> registry_ok g'"
  by (auto simp: registry_ok_def register_plugins_def bindR_Inr_iff
      elim: plug_shelf.register_batch_InrE)

lemma reg_lookup_Some [simp]:
  "reg_capability (Some g) = shelf_lookup (reg_capabilities g)"
  "reg_provider (Some g) = shelf_lookup (reg_providers g)"
  "reg_command (Some g) = shelf_lookup (reg_commands g)"
  by (simp_all add: fun_eq_iff reg_capability_def reg_provider_def reg_command_def)

text \<open>A registry is a keyed registry for each kind (one object per call).\<close>

definition register_capability1 ::
  "registry \<times> nat \<Rightarrow> rt_capability \<Rightarrow> rt_error + registry \<times> nat" where
  "register_capability1 s c = register_capabilities (Some (fst s)) (snd s) [Some c]"

definition register_provider1 ::
  "registry \<times> nat \<Rightarrow> rt_provider \<Rightarrow> rt_error + registry \<times> nat" where
  "register_provider1 s p = register_providers (Some (fst s)) (snd s) [Some p]"

interpretation kcap: keyed_registry register_capability1 "\<lambda>s. reg_capability (Some (fst s))"
  capability_name "\<lambda>s. registry_ok (fst s)"
proof (unfold_locales, goal_cases)
  case (1 s x s')
  then show ?case by (cases s') (auto simp: register_capability1_def dest: register_capabilities_ok)
next
  case (2 s x s')
  then show ?case
    by (auto simp: register_capability1_def register_capabilities_def bindR_Inr_iff
        registry_ok_def dest: cap_shelf.register_one_lookup)
next
  case (3 s x s')
  then show ?case
    by (auto simp: register_capability1_def register_capabilities_def bindR_Inr_iff
        registry_ok_def dest: cap_shelf.register_one_lookup)
qed

interpretation kprov: keyed_registry register_provider1 "\<lambda>s. reg_provider (Some (fst s))"
  provider_name "\<lambda>s. registry_ok (fst s)"
proof (unfold_locales, goal_cases)
  case (1 s x s')
  then show ?case by (cases s') (auto simp: register_provider1_def dest: register_providers_ok)
next
  case (2 s x s')
  then show ?case
    by (auto simp: register_provider1_def register_providers_def bindR_Inr_iff
        registry_ok_def dest: prov_shelf.register_one_lookup)
next
  case (3 s x s')
  then show ?case
    by (auto simp: register_provider1_def register_providers_def bindR_Inr_iff
        registry_ok_def dest: prov_shelf.register_one_lookup)
qed

section \<open>Properties\<close>

text \<open>
  A batch of providers is registered exactly when no element is nil, every name is
  non-empty and not reserved, the names of the batch are pairwise different and none is
  registered already; otherwise the call fails (and stores nothing: the result carries no
  registry).
\<close>

theorem register_providers_iff:
  "(\<exists>g' n'. register_providers (Some g) n xs = Inr (g', n')) \<longleftrightarrow>
     (\<exists>ps. xs = map Some ps \<and>
       (\<forall>p\<in>set ps. provider_name p \<notin> {[], ''provider'', ''default'', ''main''}) \<and>
       distinct (map provider_name ps) \<and>
       (\<forall>p\<in>set ps. sh_by_name (reg_providers g) (provider_name p) = None))"
proof -
  have chk: "check_provider p = Inr (provider_name p) \<longleftrightarrow>
      provider_name p \<notin> {[], ''provider'', ''default'', ''main''}" for p
    by (auto simp: check_provider_def provider_metadata_name is_reserved_provider_name_def Let_def)
  have "(\<exists>g' n'. register_providers (Some g) n xs = Inr (g', n')) \<longleftrightarrow>
    (\<exists>s' n'. register_batch KindProvider check_provider provider_name provider_metadata_of
        new_runtime_provider (reg_providers g) n xs = Inr (s', n'))"
    by (auto simp: register_providers_def bindR_Inr_iff)
  also have "\<dots> \<longleftrightarrow> (\<exists>ps. xs = map Some ps \<and> (\<forall>p\<in>set ps. check_provider p = Inr (provider_name p)) \<and>
       distinct (map provider_name ps) \<and> provider_name ` set ps \<inter> dom (sh_by_name (reg_providers g)) = {})"
    by (rule prov_shelf.register_batch_iff)
  finally have "(\<exists>g' n'. register_providers (Some g) n xs = Inr (g', n')) \<longleftrightarrow> \<dots>" .
  moreover have "(provider_name ` set ps \<inter> dom m = {}) = (\<forall>p\<in>set ps. m (provider_name p) = None)"
    for ps and m :: "string \<rightharpoonup> rt_provider" by auto
  ultimately show ?thesis unfolding chk by simp
qed


theorem register_providers_iff_witness:
  "(\<exists>g' n'. register_providers (Some new_rt_registry) 0
      [Some (sample_provider ''api'' 1 []), Some (sample_provider ''db'' 2 [])] = Inr (g', n')) \<and>
   \<not> (\<exists>g' n'. register_providers (Some new_rt_registry) 0
      [Some (sample_provider ''api'' 1 []), Some (sample_provider ''api'' 2 [])] = Inr (g', n'))"
proof -
  have name: "provider_name (sample_provider n i ds) = n" for n i ds
    by (simp add: provider_name_def provider_metadata_of_def sample_provider_def
        zero_provider_metadata_def Let_def)
  have empty: "sh_by_name (reg_providers new_rt_registry) = Map.empty"
    by (simp add: new_rt_registry_def empty_shelf_def)
  show ?thesis
    unfolding register_providers_iff by (auto simp: name empty Cons_eq_map_conv)
qed

end
