(* ===== verification/Runtime_Dependency.thy ===== *)
theory Runtime_Dependency
  imports Runtime_Registry "HOL-Library.Multiset"
begin

text \<open>
  \<^verbatim>\<open>core/runtime/dependency.go\<close>: validation of dependency lists, the topological sort of
  capabilities and providers (Kahn's algorithm on index slices) and the depth-first search
  that selects the providers one provider needs.  Proved: the sort returns a permutation in
  which every dependency comes first, and it fails exactly when the dependency graph has a
  cycle; the selection is exactly the set of providers reachable through dependencies.
\<close>

section \<open>Validation\<close>

fun validate_deps_from ::
  "string \<Rightarrow> string set \<Rightarrow> string set \<Rightarrow> dependency list \<Rightarrow> rt_error + unit" where
  "validate_deps_from source targets seen [] = Inr ()"
| "validate_deps_from source targets seen (d # ds) =
     (if dep_name d = [] then Inl (ErrDependencyNameRequired source)
      else if dep_name d \<in> seen then Inl (ErrDependencyDuplicate source (dep_name d))
      else if \<not> dep_required d then validate_deps_from source targets (insert (dep_name d) seen) ds
      else if dep_name d \<notin> targets then Inl (ErrDependencyMissing source (dep_name d))
      else validate_deps_from source targets (insert (dep_name d) seen) ds)"

definition validate_dependency_list ::
  "string \<Rightarrow> dependency list \<Rightarrow> string set \<Rightarrow> rt_error + unit" where
  "validate_dependency_list source deps targets = validate_deps_from source targets {} deps"

section \<open>The sort\<close>

record 'a dependency_item =
  di_name :: string
  di_value :: 'a
  di_deps :: "dependency list"

text \<open>\<open>indexByName\<close>: a later item of the same name wins.\<close>

definition index_by_name :: "'a dependency_item list \<Rightarrow> string \<rightharpoonup> nat" where
  "index_by_name items =
     foldl (\<lambda>m (i, it). m(di_name it \<mapsto> i)) Map.empty (enumerate 0 items)"

text \<open>The two loops that fill \<open>edges\<close> and \<open>inDegree\<close>.\<close>

fun add_deps ::
  "(string \<rightharpoonup> nat) \<Rightarrow> nat \<Rightarrow> dependency list \<Rightarrow> nat list list \<times> int list \<Rightarrow> nat list list \<times> int list" where
  "add_deps idx i [] g = g"
| "add_deps idx i (d # ds) (edges, indeg) =
     (case idx (dep_name d) of
        None \<Rightarrow> add_deps idx i ds (edges, indeg)
      | Some j \<Rightarrow> add_deps idx i ds (edges[j := edges ! j @ [i]], indeg[i := indeg ! i + 1]))"

fun build_graph ::
  "(string \<rightharpoonup> nat) \<Rightarrow> nat \<Rightarrow> 'a dependency_item list \<Rightarrow> nat list list \<times> int list \<Rightarrow>
     nat list list \<times> int list" where
  "build_graph idx i [] g = g"
| "build_graph idx i (it # its) g = build_graph idx (Suc i) its (add_deps idx i (di_deps it) g)"

text \<open>
  The inner loop over \<open>edges[current]\<close>: decrement, and enqueue at zero.  The indices are those
  of items, so the range test never fails; it is there for termination.
\<close>

fun relax :: "nat list \<Rightarrow> int list \<times> nat list \<Rightarrow> int list \<times> nat list" where
  "relax [] s = s"
| "relax (k # ks) (indeg, queue) =
     (if k < length indeg then
        let d = indeg ! k - 1 in
        relax ks (indeg[k := d], if d = 0 then queue @ [k] else queue)
      else relax ks (indeg, queue))"

definition pending :: "int list \<Rightarrow> nat" where
  "pending indeg = length (filter (\<lambda>d. d > 0) indeg)"

lemma pending_update:
  "k < length xs \<Longrightarrow>
   pending (xs[k := d]) + (if xs ! k > 0 then 1 else 0) = pending xs + (if d > 0 then 1 else 0)"
proof (induction xs arbitrary: k)
  case (Cons x xs)
  then show ?case by (cases k) (auto simp: pending_def)
qed simp

lemma relax_measure:
  "relax ks (indeg, queue) = (indeg', queue') \<Longrightarrow>
   pending indeg' + length queue' \<le> pending indeg + length queue"
proof (induction ks arbitrary: indeg queue)
  case (Cons k ks)
  show ?case
  proof (cases "k < length indeg")
    case True
    with Cons.prems have "pending indeg' + length queue' \<le>
        pending (indeg[k := indeg ! k - 1]) +
        length (if indeg ! k - 1 = 0 then queue @ [k] else queue)"
      by (intro Cons.IH) (simp add: Let_def)
    also have "\<dots> \<le> pending indeg + length queue"
      using pending_update [OF True, of "indeg ! k - 1"]
      by (cases "indeg ! k = 1") (auto split: if_splits)
    finally show ?thesis .
  qed (use Cons in simp)
qed simp

text \<open>The main loop; \<open>val\<close> is \<open>items[current].value\<close>.\<close>

function kahn ::
  "nat list list \<Rightarrow> (nat \<Rightarrow> 'a) \<Rightarrow> int list \<Rightarrow> nat list \<Rightarrow> 'a list \<Rightarrow> 'a list" where
  "kahn edges val indeg [] out = out"
| "kahn edges val indeg (current # queue) out =
     (let (indeg', queue') = relax (if current < length edges then edges ! current else []) (indeg, queue)
      in kahn edges val indeg' queue' (out @ [val current]))"
  by pat_completeness auto
termination
proof (relation "measure (\<lambda>(edges, val, indeg, queue, out). pending indeg + length queue)", goal_cases)
  case (2 edges val indeg current queue out p indeg' queue')
  then show ?case using relax_measure [of _ indeg queue indeg' queue'] by fastforce
qed simp

definition sort_dependency_items :: "'a dependency_item list \<Rightarrow> rt_error + 'a list" where
  "sort_dependency_items items =
     (if items = [] then Inr []
      else
        let n = length items;
            (edges, indeg) = build_graph (index_by_name items) 0 items (replicate n [], replicate n 0);
            queue = filter (\<lambda>i. indeg ! i = 0) [0..<n];
            out = kahn edges (\<lambda>i. di_value (items ! i)) indeg queue []
        in if length out \<noteq> n then Inl ErrDependencyCycle else Inr out)"

section \<open>Capabilities and providers\<close>

definition filter_dependencies :: "dependency list \<Rightarrow> (dependency \<Rightarrow> bool) \<Rightarrow> dependency list" where
  "filter_dependencies deps keep = filter keep deps"

definition capability_item :: "rt_capability \<Rightarrow> rt_capability dependency_item" where
  "capability_item c = \<lparr>di_name = capability_name c, di_value = c, di_deps = cc_dependencies c\<rparr>"

definition provider_item :: "string set \<Rightarrow> rt_provider \<Rightarrow> rt_provider dependency_item" where
  "provider_item names p =
     \<lparr>di_name = provider_name p, di_value = p,
      di_deps = filter_dependencies (pc_dependencies p) (\<lambda>d. dep_name d \<in> names)\<rparr>"

definition sort_capabilities_no_validate :: "rt_capability list \<Rightarrow> rt_error + rt_capability list" where
  "sort_capabilities_no_validate cs = sort_dependency_items (map capability_item cs)"

definition sort_providers_no_validate ::
  "rt_provider list \<Rightarrow> string set \<Rightarrow> rt_error + rt_provider list" where
  "sort_providers_no_validate ps names = sort_dependency_items (map (provider_item names) ps)"

fun validate_each :: "('a \<Rightarrow> rt_error + unit) \<Rightarrow> 'a list \<Rightarrow> rt_error + unit" where
  "validate_each f [] = Inr ()"
| "validate_each f (x # xs) = bindR (f x) (\<lambda>_. validate_each f xs)"

definition validate_capability_dependencies :: "rt_capability list \<Rightarrow> rt_error + unit" where
  "validate_capability_dependencies cs =
     (let names = set (map capability_name cs) in
      bindR (validate_each
               (\<lambda>c. validate_dependency_list (capability_name c) (cc_dependencies c) names) cs)
        (\<lambda>_. bindR (sort_capabilities_no_validate cs) (\<lambda>_. Inr ())))"

definition validate_provider_dependencies ::
  "rt_provider list \<Rightarrow> rt_capability list \<Rightarrow> rt_error + unit" where
  "validate_provider_dependencies ps cs =
     (let pnames = set (map provider_name ps);
          targets = pnames \<union> set (map capability_name cs) in
      bindR (validate_each
               (\<lambda>p. validate_dependency_list (provider_name p) (pc_dependencies p) targets) ps)
        (\<lambda>_. bindR (sort_providers_no_validate ps pnames) (\<lambda>_. Inr ())))"

definition validate_dependencies :: "rt_capability list \<Rightarrow> rt_provider list \<Rightarrow> rt_error + unit" where
  "validate_dependencies cs ps =
     bindR (validate_capability_dependencies cs) (\<lambda>_. validate_provider_dependencies ps cs)"

definition sort_capabilities :: "rt_capability list \<Rightarrow> rt_error + rt_capability list" where
  "sort_capabilities cs =
     bindR (validate_capability_dependencies cs)
       (\<lambda>_. sort_dependency_items (map capability_item cs))"

definition sort_providers ::
  "rt_provider list \<Rightarrow> rt_capability list \<Rightarrow> rt_error + rt_provider list" where
  "sort_providers ps cs =
     bindR (validate_provider_dependencies ps cs)
       (\<lambda>_. let names = set (map provider_name ps) in
            sort_dependency_items (map (provider_item names) ps))"

record dependency_metadata =
  dm_source :: string
  dm_target :: string
  dm_required :: bool

definition dependency_metadata_of :: "rt_capability list \<Rightarrow> rt_provider list \<Rightarrow> dependency_metadata list" where
  "dependency_metadata_of cs ps =
     concat (map (\<lambda>c. map (\<lambda>d. \<lparr>dm_source = capability_name c, dm_target = dep_name d,
                                 dm_required = dep_required d\<rparr>) (cc_dependencies c)) cs) @
     concat (map (\<lambda>p. map (\<lambda>d. \<lparr>dm_source = provider_name p, dm_target = dep_name d,
                                 dm_required = dep_required d\<rparr>) (pc_dependencies p)) ps)"

section \<open>The selection of one provider and what it needs\<close>

text \<open>\<open>providerByName\<close>: the last provider of that name.\<close>

fun provider_named :: "rt_provider list \<Rightarrow> string \<Rightarrow> rt_provider option" where
  "provider_named [] name = None"
| "provider_named (p # ps) name =
     (case provider_named ps name of
        Some q \<Rightarrow> Some q
      | None \<Rightarrow> if provider_name p = name then Some p else None)"

lemma provider_named_Some:
  "provider_named ps n = Some p \<Longrightarrow> p \<in> set ps \<and> provider_name p = n"
  by (induction ps) (auto split: option.splits if_splits)

lemma provider_named_None_iff: "provider_named ps n = None \<longleftrightarrow> n \<notin> provider_name ` set ps"
  by (induction ps) (auto split: option.splits if_splits)

text \<open>
  The recursive closure \<open>visit\<close>.  \<open>visiting\<close> is left as it was when a visit returns
  (\<open>delete(visiting, current)\<close>), so it is passed down; \<open>visited\<close> and \<open>selected\<close> receive the
  same names, one set stands for both.
\<close>

function (sequential) visit ::
  "rt_provider list \<Rightarrow> string set \<Rightarrow> string set \<Rightarrow> string \<Rightarrow> string set \<Rightarrow> rt_error + string set"
and visit_deps ::
  "rt_provider list \<Rightarrow> string set \<Rightarrow> string set \<Rightarrow> dependency list \<Rightarrow> string set \<Rightarrow> rt_error + string set" where
  "visit ps targets visiting current visited =
     (if current \<in> visited then Inr visited
      else if current \<in> visiting then Inl ErrDependencyCycle
      else (case provider_named ps current of
              None \<Rightarrow> Inr (insert current visited)
            | Some p \<Rightarrow>
                bindR (validate_dependency_list current (pc_dependencies p) targets) (\<lambda>_.
                bindR (visit_deps ps targets (insert current visiting) (pc_dependencies p) visited)
                  (\<lambda>visited'. Inr (insert current visited')))))"
| "visit_deps ps targets visiting [] visited = Inr visited"
| "visit_deps ps targets visiting (d # ds) visited =
     (if provider_named ps (dep_name d) = None
      then visit_deps ps targets visiting ds visited
      else bindR (visit ps targets visiting (dep_name d) visited)
             (\<lambda>visited'. visit_deps ps targets visiting ds visited'))"
  by pat_completeness auto
termination
proof (relation "inv_image (less_than <*lex*> less_than)
    (\<lambda>x. case x of
       Inl (ps, targets, visiting, current, visited) \<Rightarrow>
         (card (provider_name ` set ps - visiting), 0)
     | Inr (ps, targets, visiting, ds, visited) \<Rightarrow>
         (card (provider_name ` set ps - visiting), Suc (length ds)))", goal_cases)
  case 1
  show ?case by (intro wf_inv_image wf_lex_prod wf_less_than)
next
  case (2 ps targets visiting current visited p _)
  have "current \<in> provider_name ` set ps" using provider_named_Some [OF 2(3)] by auto
  with 2(2) have "provider_name ` set ps - insert current visiting \<subset> provider_name ` set ps - visiting"
    by blast
  then have "card (provider_name ` set ps - insert current visiting) < card (provider_name ` set ps - visiting)"
    by (simp add: psubset_card_mono)
  then show ?case by simp
qed simp_all

declare visit.simps [simp del]

definition select_providers_for_run ::
  "string \<Rightarrow> rt_provider list \<Rightarrow> rt_capability list \<Rightarrow> string set \<Rightarrow> rt_error + rt_provider list" where
  "select_providers_for_run name ps cs extra =
     (if provider_named ps name = None then Inl (ErrNotFound KindProvider name)
      else
        let targets = set (map capability_name cs) \<union> extra \<union> set (map provider_name ps) in
        bindR (visit ps targets {} name {}) (\<lambda>selected.
          let out = filter (\<lambda>p. provider_name p \<in> selected) ps in
          sort_providers_no_validate out (set (map provider_name out))))"


section \<open>Correctness of the sort\<close>

definition dep_indices :: "(string \<rightharpoonup> nat) \<Rightarrow> dependency list \<Rightarrow> nat list" where
  "dep_indices idx ds = List.map_filter (\<lambda>d. idx (dep_name d)) ds"

lemma dep_indices_simps [simp]:
  "dep_indices idx [] = []"
  "dep_indices idx (d # ds) =
     (case idx (dep_name d) of None \<Rightarrow> dep_indices idx ds | Some j \<Rightarrow> j # dep_indices idx ds)"
  by (auto simp: dep_indices_def List.map_filter_def split: option.split)

lemma set_dep_indices: "set (dep_indices idx ds) = {j. \<exists>d\<in>set ds. idx (dep_name d) = Some j}"
  by (induction ds) (auto split: option.splits)

lemma add_deps_graph:
  assumes "add_deps idx i ds (es, ind) = (es', ind')" "ran idx \<subseteq> {..<n}" "i < n"
    "length es = n" "length ind = n"
  shows "length es' = n \<and> length ind' = n \<and>
    (\<forall>k<n. ind' ! k = ind ! k + (if k = i then int (length (dep_indices idx ds)) else 0)) \<and>
    (\<forall>j<n. \<forall>k. count_list (es' ! j) k =
        count_list (es ! j) k + (if k = i then count_list (dep_indices idx ds) j else 0))"
  using assms
proof (induction ds arbitrary: es ind)
  case (Cons d ds)
  show ?case
  proof (cases "idx (dep_name d)")
    case None
    with Cons show ?thesis by simp
  next
    case (Some j0)
    then have "j0 < n" using Cons.prems(2) by (auto simp: ran_def)
    with Cons.IH [of "es[j0 := es ! j0 @ [i]]" "ind[i := ind ! i + 1]"] Cons.prems Some
    show ?thesis by (auto simp: nth_list_update)
  qed
qed auto

lemma build_graph_graph:
  assumes "build_graph idx i items (es, ind) = (es', ind')" "ran idx \<subseteq> {..<n}"
    "i + length items \<le> n" "length es = n" "length ind = n"
  shows "length es' = n \<and> length ind' = n \<and>
    (\<forall>k<n. ind' ! k = ind ! k + (if i \<le> k \<and> k < i + length items
        then int (length (dep_indices idx (di_deps (items ! (k - i))))) else 0)) \<and>
    (\<forall>j<n. \<forall>k. count_list (es' ! j) k = count_list (es ! j) k +
        (if i \<le> k \<and> k < i + length items
         then count_list (dep_indices idx (di_deps (items ! (k - i)))) j else 0))"
  using assms
proof (induction items arbitrary: i es ind)
  case (Cons it its)
  obtain es1 ind1 where step: "add_deps idx i (di_deps it) (es, ind) = (es1, ind1)"
    by (cases "add_deps idx i (di_deps it) (es, ind)")
  have i: "i < n" using Cons.prems(3) by simp
  note one = add_deps_graph [OF step Cons.prems(2) i Cons.prems(4,5)]
  have rest: "build_graph idx (Suc i) its (es1, ind1) = (es', ind')"
    using Cons.prems(1) step by simp
  have len: "Suc i + length its \<le> n" using Cons.prems(3) by simp
  note two = Cons.IH [OF rest Cons.prems(2) len one [THEN conjunct1] one [THEN conjunct2, THEN conjunct1]]
  have pos: "(it # its) ! (k - i) = (if k = i then it else its ! (k - Suc i))" if "i \<le> k" for k
    using that by (auto simp: nth_Cons')
  show ?case
  proof (intro conjI allI impI)
    show "length es' = n" "length ind' = n" using two by simp_all
    show "ind' ! k = ind ! k + (if i \<le> k \<and> k < i + length (it # its)
        then int (length (dep_indices idx (di_deps ((it # its) ! (k - i))))) else 0)" if "k < n" for k
      using one two pos [of k] that by (cases "k = i"; cases "i \<le> k") auto
    show "count_list (es' ! j) k = count_list (es ! j) k + (if i \<le> k \<and> k < i + length (it # its)
         then count_list (dep_indices idx (di_deps ((it # its) ! (k - i)))) j else 0)" if "j < n" for j k
      using one two pos [of k] that by (cases "k = i"; cases "i \<le> k") auto
  qed
qed auto

text \<open>
  \<open>topo G xs\<close>: every element of \<open>xs\<close> comes after all it depends on.
\<close>

definition topo :: "('a \<Rightarrow> 'a list) \<Rightarrow> 'a list \<Rightarrow> bool" where
  "topo G xs \<longleftrightarrow> (\<forall>k<length xs. set (G (xs ! k)) \<subseteq> set (take k xs))"

lemma topo_Nil [simp]: "topo G []"
  by (simp add: topo_def)

lemma topo_snoc: "topo G (xs @ [x]) \<longleftrightarrow> topo G xs \<and> set (G x) \<subseteq> set xs"
  by (auto simp: topo_def nth_append less_Suc_eq)

lemma relax_effect:
  assumes "relax ks (ind, q) = (ind', q')" "set ks \<subseteq> {..<length ind}"
    "\<forall>k\<in>set ks. int (count_list ks k) \<le> ind ! k"
  shows "length ind' = length ind \<and> (\<forall>k<length ind. ind' ! k = ind ! k - int (count_list ks k)) \<and>
    (\<exists>new. q' = q @ new \<and> distinct new \<and> set new = {k \<in> set ks. ind' ! k = 0})"
  using assms
proof (induction ks arbitrary: ind q)
  case (Cons k ks)
  define d where "d = ind ! k - 1"
  have k: "k < length ind" using Cons.prems(2) by simp
  have step: "relax ks (ind[k := d], if d = 0 then q @ [k] else q) = (ind', q')"
    using Cons.prems(1) k by (simp add: d_def Let_def)
  have "set ks \<subseteq> {..<length (ind[k := d])}" using Cons.prems(2) by simp
  moreover have "\<forall>j\<in>set ks. int (count_list ks j) \<le> ind[k := d] ! j"
  proof
    fix j assume "j \<in> set ks"
    then show "int (count_list ks j) \<le> ind[k := d] ! j"
      using Cons.prems(2) bspec [OF Cons.prems(3), of j] k by (cases "j = k") (auto simp: d_def)
  qed
  ultimately obtain new where IH: "length ind' = length ind"
    "\<forall>j<length ind. ind' ! j = ind[k := d] ! j - int (count_list ks j)"
    "q' = (if d = 0 then q @ [k] else q) @ new" "distinct new" "set new = {j \<in> set ks. ind' ! j = 0}"
    using Cons.IH [OF step] by auto
  have ind': "\<forall>j<length ind. ind' ! j = ind ! j - int (count_list (k # ks) j)"
    using IH(2) k by (auto simp: d_def nth_list_update)
  have at_k: "ind' ! k = ind ! k - 1 - int (count_list ks k)" using ind' k by simp
  have ge: "int (count_list ks k) + 1 \<le> ind ! k" using Cons.prems(3) by auto
  show ?case
  proof (cases "d = 0")
    case True
    then have "count_list ks k = 0" using ge by (simp add: d_def)
    then have "k \<notin> set ks" by (simp add: count_list_0_iff)
    with True IH ind' at_k show ?thesis
      by (intro conjI exI [of _ "k # new"]) (auto simp: d_def)
  next
    case False
    then have "ind' ! k = 0 \<Longrightarrow> k \<in> set ks"
      using at_k by (metis count_list_0_iff d_def diff_0_right of_nat_0)
    with False IH ind' show ?thesis by (intro conjI exI [of _ new]) auto
  qed
qed simp

text \<open>
  The loop invariant: an index is out or queued exactly when its counter is zero, the counter
  of an index is the number of its dependencies not yet out, what is out is in order.
\<close>

definition kahn_inv ::
  "nat list list \<Rightarrow> (nat \<Rightarrow> nat list) \<Rightarrow> int list \<Rightarrow> nat list \<Rightarrow> nat list \<Rightarrow> bool" where
  "kahn_inv E G ind q out \<longleftrightarrow>
     length E = length ind \<and>
     (\<forall>j<length ind. \<forall>k. count_list (E ! j) k = (if k < length ind then count_list (G k) j else 0)) \<and>
     (\<forall>k<length ind. set (G k) \<subseteq> {..<length ind}) \<and>
     distinct (out @ q) \<and> set (out @ q) = {k. k < length ind \<and> ind ! k = 0} \<and>
     (\<forall>k<length ind. ind ! k = int (length (filter (\<lambda>j. j \<notin> set out) (G k)))) \<and>
     topo G out"

lemma length_filter_remove:
  "c \<notin> A \<Longrightarrow> length (filter (\<lambda>j. j \<notin> A) xs) =
     length (filter (\<lambda>j. j \<notin> insert c A) xs) + count_list xs c"
  by (induction xs) auto

lemma kahn_inv_step:
  assumes inv: "kahn_inv E G ind (c # q) out" and step: "relax (E ! c) (ind, q) = (ind', q')"
  shows "kahn_inv E G ind' q' (out @ [c])"
proof -
  let ?n = "length ind"
  have c: "c < ?n" "ind ! c = 0" "c \<notin> set out" "c \<notin> set q"
    using inv by (auto simp: kahn_inv_def)
  have cnt: "count_list (E ! c) k = (if k < ?n then count_list (G k) c else 0)" for k
    using inv c by (simp add: kahn_inv_def)
  have rng: "set (E ! c) \<subseteq> {..<?n}"
    using cnt by (metis count_list_0_iff lessThan_iff subsetI)
  have val: "ind ! k = int (length (filter (\<lambda>j. j \<notin> set out) (G k)))" if "k < ?n" for k
    using inv that by (simp add: kahn_inv_def)
  have split: "ind ! k = int (length (filter (\<lambda>j. j \<notin> set (out @ [c])) (G k))) + int (count_list (E ! c) k)"
    if "k < ?n" for k
    using val [OF that] length_filter_remove [OF c(3), of "G k"] cnt that by simp
  have bound: "\<forall>k\<in>set (E ! c). int (count_list (E ! c) k) \<le> ind ! k"
    using split rng by auto
  obtain new where eff: "length ind' = ?n" "\<forall>k<?n. ind' ! k = ind ! k - int (count_list (E ! c) k)"
    "q' = q @ new" "distinct new" "set new = {k \<in> set (E ! c). ind' ! k = 0}"
    using relax_effect [OF step rng bound] by blast
  have zero: "ind' ! k = 0 \<longleftrightarrow> k \<in> set new \<or> ind ! k = 0" if "k < ?n" for k
  proof -
    have "count_list (E ! c) k = 0 \<longleftrightarrow> k \<notin> set (E ! c)" by (simp add: count_list_0_iff)
    then show ?thesis using eff(2,5) split [OF that] that by auto
  qed
  have old: "set (out @ c # q) = {k. k < ?n \<and> ind ! k = 0}" "distinct (out @ c # q)"
    using inv by (simp_all add: kahn_inv_def)
  have new_pos: "ind ! k > 0" if "k \<in> set new" for k
  proof -
    have "k \<in> set (E ! c)" using eff(5) that by simp
    then have "count_list (E ! c) k \<noteq> 0" "k < ?n" using rng by (auto simp: count_list_0_iff)
    then show ?thesis using split by simp
  qed
  then have disj: "set new \<inter> set (out @ c # q) = {}" unfolding old(1) by force
  have "set new \<subseteq> {..<?n}" using eff(5) rng by auto
  then have "set ((out @ [c]) @ q') = {k. k < length ind' \<and> ind' ! k = 0}"
    using old(1) zero eff(1,3) by auto
  moreover have "distinct ((out @ [c]) @ q')" using old(2) disj eff(3,4) by auto
  moreover have "topo G (out @ [c])"
  proof -
    have "filter (\<lambda>j. j \<notin> set out) (G c) = []" using val [OF c(1)] c(2) by simp
    then have "set (G c) \<subseteq> set out" by (auto simp: filter_empty_conv)
    with inv show ?thesis by (simp add: topo_snoc kahn_inv_def)
  qed
  moreover have "\<forall>k<length ind'. ind' ! k = int (length (filter (\<lambda>j. j \<notin> set (out @ [c])) (G k)))"
    using eff(1,2) split by simp
  moreover have "length E = length ind'"
    "\<forall>j<length ind'. \<forall>k. count_list (E ! j) k = (if k < length ind' then count_list (G k) j else 0)"
    "\<forall>k<length ind'. set (G k) \<subseteq> {..<length ind'}"
    using inv eff(1) by (simp_all add: kahn_inv_def)
  ultimately show ?thesis unfolding kahn_inv_def by blast
qed

lemma kahn_map: "kahn E val ind q (map val out) = map val (kahn E (\<lambda>i. i) ind q out)"
proof (induction E "\<lambda>i :: nat. i" ind q out rule: kahn.induct)
  case (2 E ind c q out)
  obtain ind' q' where r: "relax (if c < length E then E ! c else []) (ind, q) = (ind', q')"
    by fastforce
  show ?case using 2 [OF r [symmetric] refl] by (simp add: r del: relax.simps)
qed simp

lemma kahn_result:
  "kahn_inv E G ind q out \<Longrightarrow> res = kahn E (\<lambda>i. i) ind q out \<Longrightarrow>
   distinct res \<and> set res \<subseteq> {..<length ind} \<and> topo G res \<and>
   (\<forall>k<length ind. k \<notin> set res \<longrightarrow> (\<exists>j\<in>set (G k). j \<notin> set res))"
proof (induction E "\<lambda>i :: nat. i" ind q out arbitrary: res rule: kahn.induct)
  case (1 E ind out)
  have "\<exists>j\<in>set (G k). j \<notin> set out" if "k < length ind" "k \<notin> set out" for k
  proof -
    have zero: "set (out @ []) = {k. k < length ind \<and> ind ! k = 0}"
      and val: "ind ! k = int (length (filter (\<lambda>j. j \<notin> set out) (G k)))"
      using 1(1) that(1) unfolding kahn_inv_def by blast+
    have "ind ! k \<noteq> 0" using zero that by auto
    then have "filter (\<lambda>j. j \<notin> set out) (G k) \<noteq> []" unfolding val by auto
    then show ?thesis by (auto simp: filter_empty_conv)
  qed
  moreover have "distinct out" "set out \<subseteq> {..<length ind}" "topo G out"
    using 1(1) unfolding kahn_inv_def by auto
  ultimately show ?case using 1(2) by simp
next
  case (2 E ind c q out)
  obtain ind' q' where r: "relax (E ! c) (ind, q) = (ind', q')" by fastforce
  have "set (out @ c # q) = {k. k < length ind \<and> ind ! k = 0}" "length E = length ind"
    using 2(2) unfolding kahn_inv_def by blast+
  then have c: "c < length E" by auto
  have inv': "kahn_inv E G ind' q' (out @ [c])" by (rule kahn_inv_step [OF 2(2) r])
  have len: "length ind' = length ind" using inv' 2(2) unfolding kahn_inv_def by metis
  have "(ind', q') = relax (if c < length E then E ! c else []) (ind, q)" using r c by simp
  note IH = 2(1) [OF this refl inv']
  have "res = kahn E (\<lambda>i. i) ind' q' (out @ [c])"
    using 2(3) c by (simp only: kahn.simps r if_True Let_def split)
  from IH [OF this] show ?case unfolding len .
qed


lemma index_by_name_snoc:
  "index_by_name (items @ [it]) = (index_by_name items)(di_name it \<mapsto> length items)"
  by (simp add: index_by_name_def enumerate_append_eq)

lemma index_by_name_Some:
  "index_by_name items nm = Some i \<Longrightarrow> i < length items \<and> di_name (items ! i) = nm"
proof (induction items rule: rev_induct)
  case Nil
  then show ?case by (simp add: index_by_name_def)
next
  case (snoc it items)
  then show ?case by (auto simp: index_by_name_snoc nth_append split: if_splits)
qed

lemma dom_index_by_name: "dom (index_by_name items) = di_name ` set items"
proof (induction items rule: rev_induct)
  case Nil
  then show ?case by (simp add: index_by_name_def)
next
  case (snoc it items)
  then show ?case by (simp only: index_by_name_snoc dom_fun_upd) simp
qed

definition item_deps :: "'a dependency_item list \<Rightarrow> nat \<Rightarrow> nat list" where
  "item_deps items i = dep_indices (index_by_name items) (di_deps (items ! i))"

lemma kahn_inv_init:
  assumes "build_graph (index_by_name items) 0 items (replicate n [], replicate n 0) = (edges, indeg)"
    "n = length items"
  shows "length indeg = n \<and>
    kahn_inv edges (item_deps items) indeg (filter (\<lambda>i. indeg ! i = 0) [0..<n]) []"
proof -
  have rng: "ran (index_by_name items) \<subseteq> {..<n}"
    using index_by_name_Some assms(2) by (auto simp: ran_def)
  have "set (item_deps items k) \<subseteq> {..<n}" for k
    using rng by (auto simp: item_deps_def set_dep_indices ran_def)
  moreover note build_graph_graph [OF assms(1) rng]
  ultimately show ?thesis
    using assms(2) by (auto simp: kahn_inv_def item_deps_def)
qed

text \<open>
  What the sort computes, in terms of indices: an order of all of them that respects the
  dependencies, or else a set of items each of which waits for another one of the set.
\<close>

lemma sort_dependency_items_cases:
  obtains (sorted) ord where "sort_dependency_items items = Inr (map (\<lambda>i. di_value (items ! i)) ord)"
      "distinct ord" "set ord = {..<length items}" "topo (item_deps items) ord"
  | (cyclic) R where "sort_dependency_items items = Inl ErrDependencyCycle"
      "R \<subseteq> {..<length items}" "R \<noteq> {}" "\<forall>i\<in>R. \<exists>j\<in>R. j \<in> set (item_deps items i)"
proof (cases "items = []")
  case True
  then show ?thesis using sorted [of "[]"] by (simp add: sort_dependency_items_def)
next
  case False
  let ?n = "length items"
  let ?val = "\<lambda>i. di_value (items ! i)"
  obtain edges indeg where g:
    "build_graph (index_by_name items) 0 items (replicate ?n [], replicate ?n 0) = (edges, indeg)"
    by fastforce
  let ?q = "filter (\<lambda>i. indeg ! i = 0) [0..<?n]"
  define res where "res = kahn edges (\<lambda>i. i) indeg ?q []"
  have len: "length indeg = ?n" and inv: "kahn_inv edges (item_deps items) indeg ?q []"
    using kahn_inv_init [OF g refl] by simp_all
  have res: "distinct res" "set res \<subseteq> {..<?n}" "topo (item_deps items) res"
    "\<forall>k<?n. k \<notin> set res \<longrightarrow> (\<exists>j\<in>set (item_deps items k). j \<notin> set res)"
    using kahn_result [OF inv res_def] len by simp_all
  have out: "kahn edges ?val indeg ?q [] = map ?val res"
    unfolding res_def using kahn_map [of edges ?val indeg ?q "[]"] by simp
  have eq: "sort_dependency_items items =
      (if length res \<noteq> ?n then Inl ErrDependencyCycle else Inr (map ?val res))"
    using False g out by (simp add: sort_dependency_items_def Let_def)
  have card_res: "card (set res) = length res" using res(1) by (rule distinct_card)
  show ?thesis
  proof (cases "length res = ?n")
    case True
    then have "set res = {..<?n}" using res(2) card_res by (simp add: card_subset_eq)
    with sorted [of res] True eq res show ?thesis by simp
  next
    case False
    let ?R = "{..<?n} - set res"
    have "card {..<?n} = ?n" by (rule card_lessThan)
    then have "set res \<noteq> {..<?n}" using False card_res by metis
    then have "?R \<noteq> {}" using res(2) by blast
    moreover have "\<forall>i\<in>?R. \<exists>j\<in>?R. j \<in> set (item_deps items i)"
    proof
      fix i assume i: "i \<in> ?R"
      then obtain j where j: "j \<in> set (item_deps items i)" "j \<notin> set res" using res(4) by auto
      then have "j < ?n" using index_by_name_Some by (auto simp: item_deps_def set_dep_indices)
      with j show "\<exists>j\<in>?R. j \<in> set (item_deps items i)" by auto
    qed
    ultimately show ?thesis using cyclic [of ?R] False eq by simp
  qed
qed

text \<open>The dependency relation between names.\<close>

definition name_graph :: "'a dependency_item list \<Rightarrow> (string \<times> string) set" where
  "name_graph items = {(dep_name d, di_name it) | d it.
     it \<in> set items \<and> d \<in> set (di_deps it) \<and> dep_name d \<in> di_name ` set items}"

lemma finite_name_graph: "finite (name_graph items)"
proof -
  have "name_graph items \<subseteq> (di_name ` set items) \<times> (di_name ` set items)"
    by (auto simp: name_graph_def)
  then show ?thesis by (rule finite_subset) simp
qed

lemma no_min_not_acyclic:
  assumes "finite r" "R \<noteq> {}" "\<forall>x\<in>R. \<exists>y\<in>R. (y, x) \<in> r"
  shows "\<not> acyclic r"
proof
  assume "acyclic r"
  then have "wf r" by (rule finite_acyclic_wf [OF assms(1)])
  moreover obtain x where "x \<in> R" using assms(2) by blast
  ultimately obtain z where "z \<in> R" "\<forall>y. (y, z) \<in> r \<longrightarrow> y \<notin> R"
    by (metis wfE_min)
  with assms(3) show False by blast
qed

lemma sort_items_perm:
  assumes "sort_dependency_items items = Inr out"
  shows "mset out = mset (map di_value items)"
  using assms
proof (cases items rule: sort_dependency_items_cases)
  case (sorted ord)
  have "mset ord = mset [0..<length items]"
    using sorted(2,3) set_eq_iff_mset_eq_distinct [of ord "[0..<length items]"]
    by (simp add: lessThan_atLeast0)
  then have "mset (map (\<lambda>i. di_value (items ! i)) ord) =
      mset (map (\<lambda>i. di_value (items ! i)) [0..<length items])"
    by (metis mset_map)
  also have "map (\<lambda>i. di_value (items ! i)) [0..<length items] = map di_value items"
    by (rule nth_equalityI) simp_all
  finally have "mset (map (\<lambda>i. di_value (items ! i)) ord) = mset (map di_value items)" .
  moreover have "out = map (\<lambda>i. di_value (items ! i)) ord" using assms sorted(1) by simp
  ultimately show ?thesis by (simp only:)
qed simp

lemma sort_items_order:
  assumes "sort_dependency_items items = Inr out" "k < length out"
  shows "\<exists>it\<in>set items. di_value it = out ! k \<and>
    (\<forall>d\<in>set (di_deps it). dep_name d \<in> di_name ` set items \<longrightarrow>
       (\<exists>m<k. \<exists>it'\<in>set items. di_value it' = out ! m \<and> di_name it' = dep_name d))"
  using assms
proof (cases items rule: sort_dependency_items_cases)
  case (sorted ord)
  then have out: "out = map (\<lambda>i. di_value (items ! i)) ord" using assms(1) by simp
  have k: "k < length ord" using assms(2) out by simp
  then have "ord ! k < length items" using sorted(3) nth_mem by blast
  then have it: "items ! (ord ! k) \<in> set items" by simp
  have before: "\<exists>m<k. \<exists>it'\<in>set items. di_value it' = out ! m \<and> di_name it' = dep_name d"
    if d: "d \<in> set (di_deps (items ! (ord ! k)))" "dep_name d \<in> di_name ` set items" for d
  proof -
    obtain j where j: "index_by_name items (dep_name d) = Some j"
      using d(2) dom_index_by_name [of items] by blast
    then have "j \<in> set (item_deps items (ord ! k))"
      using d(1) by (auto simp: item_deps_def set_dep_indices)
    then have "j \<in> set (take k ord)" using sorted(4) k by (auto simp: topo_def)
    then obtain m where m: "m < k" "ord ! m = j" using k by (auto simp: in_set_conv_nth)
    with index_by_name_Some [OF j] k show ?thesis
      by (intro exI [of _ m] conjI bexI [of _ "items ! j"]) (simp_all add: out)
  qed
  show ?thesis using k it before by (intro bexI [OF _ it]) (auto simp: out)
qed simp

text \<open>The sort succeeds exactly when the dependency relation has no cycle.\<close>

lemma sort_items_cycle:
  "sort_dependency_items items = Inl e \<Longrightarrow> e = ErrDependencyCycle \<and> \<not> acyclic (name_graph items)"
proof (cases items rule: sort_dependency_items_cases)
  case (cyclic R)
  assume e: "sort_dependency_items items = Inl e"
  let ?R = "(\<lambda>i. di_name (items ! i)) ` R"
  have "\<forall>x\<in>?R. \<exists>y\<in>?R. (y, x) \<in> name_graph items"
  proof
    fix x assume "x \<in> ?R"
    then obtain i where i: "i \<in> R" "x = di_name (items ! i)" by blast
    then obtain j where j: "j \<in> R" "j \<in> set (item_deps items i)" using cyclic(4) by blast
    then obtain d where d: "d \<in> set (di_deps (items ! i))" "index_by_name items (dep_name d) = Some j"
      by (auto simp: item_deps_def set_dep_indices)
    have "i < length items" using i cyclic(2) by auto
    moreover have "dep_name d = di_name (items ! j)" "items ! j \<in> set items"
      using index_by_name_Some [OF d(2)] by simp_all
    ultimately have "(di_name (items ! j), x) \<in> name_graph items"
      using i(2) d(1) unfolding name_graph_def
      by (intro CollectI exI [of _ d] exI [of _ "items ! i"]) auto
    with j(1) show "\<exists>y\<in>?R. (y, x) \<in> name_graph items" by blast
  qed
  with cyclic(3) have "\<not> acyclic (name_graph items)"
    by (intro no_min_not_acyclic [OF finite_name_graph, of ?R]) simp_all
  with cyclic(1) e show ?thesis by simp
qed simp

lemma sort_items_acyclic:
  assumes "sort_dependency_items items = Inr out" "distinct (map di_name items)"
  shows "acyclic (name_graph items)"
  using assms(1)
proof (cases items rule: sort_dependency_items_cases)
  case (sorted ord)
  have idx: "index_by_name items (di_name (items ! i)) = Some i" if "i < length items" for i
  proof -
    have "di_name (items ! i) \<in> dom (index_by_name items)" using that by (simp add: dom_index_by_name)
    then obtain j where j: "index_by_name items (di_name (items ! i)) = Some j" by blast
    with index_by_name_Some [OF j] have "j = i"
      using assms(2) that by (simp add: distinct_map inj_on_def distinct_conv_nth) (metis nth_map length_map)
    with j show ?thesis by simp
  qed
  define pos where "pos nm = (case index_by_name items nm of None \<Rightarrow> 0
     | Some i \<Rightarrow> (LEAST k. k < length ord \<and> ord ! k = i))" for nm
  have pos: "pos (di_name (items ! (ord ! k))) = k" if "k < length ord" for k
  proof -
    have "ord ! k < length items" using sorted(3) that nth_mem by blast
    then have "pos (di_name (items ! (ord ! k))) = (LEAST m. m < length ord \<and> ord ! m = ord ! k)"
      by (simp add: pos_def idx)
    also have "\<dots> = k" using that sorted(2) by (intro Least_equality) (auto simp: nth_eq_iff_index_eq)
    finally show ?thesis .
  qed
  have "name_graph items \<subseteq> measure pos"
  proof (clarsimp simp: name_graph_def)
    fix d it it'
    assume it: "it \<in> set items" "d \<in> set (di_deps it)" "dep_name d = di_name it'" "it' \<in> set items"
    then obtain i where i: "i < length items" "items ! i = it" by (auto simp: in_set_conv_nth)
    then obtain k where k: "k < length ord" "ord ! k = i" using sorted(3) by (metis in_set_conv_nth lessThan_iff)
    obtain j where j: "index_by_name items (dep_name d) = Some j"
      using it(3,4) dom_index_by_name [of items] by auto
    have "j \<in> set (item_deps items i)" using i it(2) j by (auto simp: item_deps_def set_dep_indices)
    then have "j \<in> set (take k ord)" using sorted(4) k by (auto simp: topo_def)
    then obtain m where m: "m < k" "ord ! m = j" using k by (auto simp: in_set_conv_nth)
    then have "pos (di_name (items ! j)) = m" "pos (di_name (items ! i)) = k"
      using pos [of m] pos [of k] k by auto
    with m(1) i(2) it(3) index_by_name_Some [OF j] show "pos (di_name it') < pos (di_name it)" by simp
  qed
  then show ?thesis by (meson acyclic_subset wf_acyclic wf_measure)
qed simp


section \<open>Validation as a predicate\<close>

definition deps_valid :: "dependency list \<Rightarrow> string set \<Rightarrow> bool" where
  "deps_valid ds targets \<longleftrightarrow>
     [] \<notin> dep_name ` set ds \<and> distinct (map dep_name ds) \<and>
     (\<forall>d\<in>set ds. dep_required d \<longrightarrow> dep_name d \<in> targets)"

lemma validate_deps_from_iff:
  "validate_deps_from source targets seen ds = Inr () \<longleftrightarrow>
     deps_valid ds targets \<and> dep_name ` set ds \<inter> seen = {}"
  by (induction ds arbitrary: seen) (auto simp: deps_valid_def)

lemma validate_dependency_list_iff:
  "validate_dependency_list source ds targets = Inr () \<longleftrightarrow> deps_valid ds targets"
  by (simp add: validate_dependency_list_def validate_deps_from_iff)

lemma validate_each_iff: "validate_each f xs = Inr () \<longleftrightarrow> (\<forall>x\<in>set xs. f x = Inr ())"
  by (induction xs) (auto simp: bindR_Inr_iff)

lemma di_name_capability_item [simp]:
  "di_name (capability_item c) = capability_name c"
  "di_value (capability_item c) = c"
  "di_deps (capability_item c) = cc_dependencies c"
  by (simp_all add: capability_item_def)

lemma di_name_provider_item [simp]:
  "di_name (provider_item names p) = provider_name p"
  "di_value (provider_item names p) = p"
  "di_deps (provider_item names p) = filter (\<lambda>d. dep_name d \<in> names) (pc_dependencies p)"
  by (simp_all add: provider_item_def filter_dependencies_def)

lemma sort_capabilities_Inr_iff:
  "sort_capabilities cs = Inr out \<longleftrightarrow>
     (\<forall>c\<in>set cs. deps_valid (cc_dependencies c) (capability_name ` set cs)) \<and>
     sort_dependency_items (map capability_item cs) = Inr out"
  by (auto simp: sort_capabilities_def validate_capability_dependencies_def Let_def
      bindR_Inr_iff validate_each_iff validate_dependency_list_iff sort_capabilities_no_validate_def)

lemma sort_providers_Inr_iff:
  "sort_providers ps cs = Inr out \<longleftrightarrow>
     (\<forall>p\<in>set ps. deps_valid (pc_dependencies p) (provider_name ` set ps \<union> capability_name ` set cs)) \<and>
     sort_dependency_items (map (provider_item (provider_name ` set ps)) ps) = Inr out"
  by (auto simp: sort_providers_def validate_provider_dependencies_def Let_def
      bindR_Inr_iff validate_each_iff validate_dependency_list_iff sort_providers_no_validate_def)

definition capability_graph :: "rt_capability list \<Rightarrow> (string \<times> string) set" where
  "capability_graph cs = {(dep_name d, capability_name c) | d c.
     c \<in> set cs \<and> d \<in> set (cc_dependencies c) \<and> dep_name d \<in> capability_name ` set cs}"

lemma name_graph_capabilities: "name_graph (map capability_item cs) = capability_graph cs"
proof (intro set_eqI iffI)
  fix x
  assume "x \<in> name_graph (map capability_item cs)"
  then obtain d it where x: "x = (dep_name d, di_name it)" "it \<in> set (map capability_item cs)"
    "d \<in> set (di_deps it)" "dep_name d \<in> di_name ` set (map capability_item cs)"
    by (auto simp: name_graph_def)
  then obtain c where "it = capability_item c" "c \<in> set cs" by auto
  with x show "x \<in> capability_graph cs"
    unfolding capability_graph_def
    by (intro CollectI exI [of _ d] exI [of _ c]) (auto simp: image_image)
next
  fix x
  assume "x \<in> capability_graph cs"
  then obtain d c where x: "x = (dep_name d, capability_name c)" "c \<in> set cs"
    "d \<in> set (cc_dependencies c)" "dep_name d \<in> capability_name ` set cs"
    unfolding capability_graph_def by blast
  then show "x \<in> name_graph (map capability_item cs)"
    unfolding name_graph_def
    by (intro CollectI exI [of _ d] exI [of _ "capability_item c"]) (auto simp: image_image)
qed

text \<open>In the order the sort returns, everything a provider depends on comes before it.\<close>

definition providers_ordered :: "rt_provider list \<Rightarrow> bool" where
  "providers_ordered out \<longleftrightarrow>
     (\<forall>k<length out. \<forall>d\<in>set (pc_dependencies (out ! k)).
        dep_name d \<in> provider_name ` set out \<longrightarrow> dep_name d \<in> provider_name ` set (take k out))"

lemma sort_provider_items_ordered:
  assumes "sort_dependency_items (map (provider_item (provider_name ` set ps)) ps) = Inr out"
  shows "mset out = mset ps \<and> providers_ordered out"
proof -
  have perm: "mset out = mset ps" using sort_items_perm [OF assms] by (simp add: comp_def)
  then have set: "set out = set ps" by (rule mset_eq_setD)
  have "dep_name d \<in> provider_name ` set (take k out)"
    if "k < length out" "d \<in> set (pc_dependencies (out ! k))" "dep_name d \<in> provider_name ` set out" for k d
  proof -
    from sort_items_order [OF assms that(1)] that(2,3) set obtain m p where
      "m < k" "p = out ! m" "provider_name p = dep_name d"
      by (auto simp: image_image)
    moreover have "out ! m \<in> set (take k out)"
      using that(1) \<open>m < k\<close> by (metis in_set_conv_nth length_take min.absorb4 nth_take)
    ultimately show ?thesis by (metis imageI)
  qed
  with perm show ?thesis by (simp add: providers_ordered_def)
qed

section \<open>Correctness of the selection\<close>

text \<open>One provider names another registered provider among its dependencies.\<close>

definition provider_needs :: "rt_provider list \<Rightarrow> (string \<times> string) set" where
  "provider_needs ps = {(a, b). \<exists>p d. provider_named ps a = Some p \<and>
     d \<in> set (pc_dependencies p) \<and> dep_name d = b \<and> b \<in> provider_name ` set ps}"

lemma visit_result:
  "visit ps targets visiting current visited = Inr v \<Longrightarrow>
     visited \<subseteq> v \<and> current \<in> v \<and> v \<subseteq> visited \<union> {n. (current, n) \<in> (provider_needs ps)\<^sup>*} \<and>
     (\<forall>a\<in>v - visited. \<forall>b. (a, b) \<in> provider_needs ps \<longrightarrow> b \<in> v) \<and>
     (\<forall>a\<in>v - visited. \<forall>p. provider_named ps a = Some p \<longrightarrow> deps_valid (pc_dependencies p) targets)"
  "visit_deps ps targets visiting ds visited = Inr v \<Longrightarrow>
     visited \<subseteq> v \<and> (\<forall>d\<in>set ds. dep_name d \<in> provider_name ` set ps \<longrightarrow> dep_name d \<in> v) \<and>
     v \<subseteq> visited \<union> {n. \<exists>d\<in>set ds. dep_name d \<in> provider_name ` set ps \<and> (dep_name d, n) \<in> (provider_needs ps)\<^sup>*} \<and>
     (\<forall>a\<in>v - visited. \<forall>b. (a, b) \<in> provider_needs ps \<longrightarrow> b \<in> v) \<and>
     (\<forall>a\<in>v - visited. \<forall>p. provider_named ps a = Some p \<longrightarrow> deps_valid (pc_dependencies p) targets)"
proof (induction ps targets visiting current visited and ps targets visiting ds visited
    arbitrary: v and v rule: visit_visit_deps.induct)
  case (1 ps targets visiting current visited)
  show ?case
  proof (cases "current \<in> visited")
    case True
    with 1(2) show ?thesis by (auto simp: visit.simps)
  next
    case new: False
    with 1(2) have ok: "current \<notin> visiting" by (auto simp: visit.simps)
    show ?thesis
    proof (cases "provider_named ps current")
      case None
      with 1(2) new ok have "v = insert current visited" by (simp add: visit.simps)
      with None new show ?thesis by (auto simp: provider_needs_def)
    next
      case (Some p)
      with 1(2) new ok obtain w where w:
        "validate_dependency_list current (pc_dependencies p) targets = Inr ()"
        "visit_deps ps targets (insert current visiting) (pc_dependencies p) visited = Inr w"
        "v = insert current w"
        by (auto simp: visit.simps bindR_Inr_iff)
      note IH = 1(1) [OF new ok Some w(1) w(2)]
      have edge: "(current, dep_name d) \<in> provider_needs ps"
        if "d \<in> set (pc_dependencies p)" "dep_name d \<in> provider_name ` set ps" for d
        using that Some by (auto simp: provider_needs_def)
      have "w \<subseteq> visited \<union> {n. (current, n) \<in> (provider_needs ps)\<^sup>*}"
        using IH edge by (blast intro: converse_rtrancl_into_rtrancl)
      moreover have "b \<in> w" if "(current, b) \<in> provider_needs ps" for b
        using IH that Some by (auto simp: provider_needs_def)
      moreover have "deps_valid (pc_dependencies p) targets"
        using w(1) by (simp add: validate_dependency_list_iff)
      ultimately show ?thesis using IH w(3) Some by auto
    qed
  qed
next
  case (2 ps targets visiting visited)
  then show ?case by simp
next
  case (3 ps targets visiting d ds visited)
  show ?case
  proof (cases "provider_named ps (dep_name d) = None")
    case True
    with 3(1) [OF True, of v] 3(4) show ?thesis by (auto simp: provider_named_None_iff)
  next
    case False
    with 3(4) obtain w where w: "visit ps targets visiting (dep_name d) visited = Inr w"
      "visit_deps ps targets visiting ds w = Inr v"
      by (auto simp: bindR_Inr_iff)
    note one = 3(2) [OF False w(1)] and rest = 3(3) [OF False w(1) w(2)]
    have mem: "dep_name d \<in> provider_name ` set ps" using False by (simp add: provider_named_None_iff)
    have "b \<in> v" if "a \<in> v - visited" "(a, b) \<in> provider_needs ps" for a b
      using one rest that by (cases "a \<in> w") auto
    moreover have "deps_valid (pc_dependencies p) targets"
      if "a \<in> v - visited" "provider_named ps a = Some p" for a p
      using one rest that by (cases "a \<in> w") auto
    moreover have "visited \<subseteq> v" "\<forall>e\<in>set (d # ds). dep_name e \<in> provider_name ` set ps \<longrightarrow> dep_name e \<in> v"
      using one rest by auto
    moreover have "v \<subseteq> visited \<union> {n. \<exists>e\<in>set (d # ds). dep_name e \<in> provider_name ` set ps \<and>
        (dep_name e, n) \<in> (provider_needs ps)\<^sup>*}"
    proof
      fix n assume "n \<in> v"
      with rest consider "n \<in> w" | e where "e \<in> set ds" "dep_name e \<in> provider_name ` set ps"
        "(dep_name e, n) \<in> (provider_needs ps)\<^sup>*" by blast
      then show "n \<in> visited \<union> {n. \<exists>e\<in>set (d # ds). dep_name e \<in> provider_name ` set ps \<and>
        (dep_name e, n) \<in> (provider_needs ps)\<^sup>*}"
      proof cases
        case 1
        with one have "n \<in> visited \<or> (dep_name d, n) \<in> (provider_needs ps)\<^sup>*" by blast
        with mem show ?thesis by auto
      qed auto
    qed
    ultimately show ?thesis by blast
  qed
qed

lemma visit_reachable:
  assumes "visit ps targets {} name {} = Inr v"
  shows "v = {n. (name, n) \<in> (provider_needs ps)\<^sup>*}"
proof
  note res = visit_result(1) [OF assms]
  show "v \<subseteq> {n. (name, n) \<in> (provider_needs ps)\<^sup>*}" using res by auto
  have "n \<in> v" if "(name, n) \<in> (provider_needs ps)\<^sup>*" for n
    using that by (induction rule: rtrancl_induct) (use res in auto)
  then show "{n. (name, n) \<in> (provider_needs ps)\<^sup>*} \<subseteq> v" by blast
qed


lemma select_providers_InrE:
  assumes "select_providers_for_run name ps cs extra = Inr out"
  obtains "mset out = mset (filter (\<lambda>p. (name, provider_name p) \<in> (provider_needs ps)\<^sup>*) ps)"
    "providers_ordered out" "name \<in> provider_name ` set ps"
    "\<And>n p. (name, n) \<in> (provider_needs ps)\<^sup>* \<Longrightarrow> provider_named ps n = Some p \<Longrightarrow>
       deps_valid (pc_dependencies p) (capability_name ` set cs \<union> extra \<union> provider_name ` set ps)"
proof -
  from assms obtain v where v: "provider_named ps name \<noteq> None"
    "visit ps (capability_name ` set cs \<union> extra \<union> provider_name ` set ps) {} name {} = Inr v"
    "sort_providers_no_validate (filter (\<lambda>p. provider_name p \<in> v) ps)
       (provider_name ` set (filter (\<lambda>p. provider_name p \<in> v) ps)) = Inr out"
    by (auto simp: select_providers_for_run_def Let_def bindR_Inr_iff split: if_splits)
  from v(1) have "name \<in> provider_name ` set ps" by (simp add: provider_named_None_iff)
  moreover have v_eq: "v = {n. (name, n) \<in> (provider_needs ps)\<^sup>*}" by (rule visit_reachable [OF v(2)])
  moreover have "mset out = mset (filter (\<lambda>p. provider_name p \<in> v) ps) \<and> providers_ordered out"
    using v(3) unfolding sort_providers_no_validate_def by (rule sort_provider_items_ordered)
  moreover have "deps_valid (pc_dependencies p) (capability_name ` set cs \<union> extra \<union> provider_name ` set ps)"
    if "(name, n) \<in> (provider_needs ps)\<^sup>*" "provider_named ps n = Some p" for n p
    using visit_result(1) [OF v(2)] that v_eq by auto
  ultimately show ?thesis using that by simp
qed

lemma needs_registered:
  "(name, n) \<in> (provider_needs ps)\<^sup>* \<Longrightarrow> name \<in> provider_name ` set ps \<Longrightarrow> n \<in> provider_name ` set ps"
  by (induction rule: rtrancl_induct) (auto simp: provider_needs_def)

lemma sort_capabilities_order:
  assumes "sort_capabilities cs = Inr out"
  shows "mset out = mset cs \<and>
    (\<forall>k<length out. \<forall>d\<in>set (cc_dependencies (out ! k)).
       dep_required d \<or> dep_name d \<in> capability_name ` set cs \<longrightarrow>
       dep_name d \<in> capability_name ` set (take k out))"
proof -
  have sorted: "sort_dependency_items (map capability_item cs) = Inr out"
    and valid: "\<And>c. c \<in> set cs \<Longrightarrow> deps_valid (cc_dependencies c) (capability_name ` set cs)"
    using assms by (simp_all add: sort_capabilities_Inr_iff)
  have perm: "mset out = mset cs" using sort_items_perm [OF sorted] by (simp add: comp_def)
  then have set: "set out = set cs" by (rule mset_eq_setD)
  have "dep_name d \<in> capability_name ` set (take k out)"
    if k: "k < length out" and d: "d \<in> set (cc_dependencies (out ! k))"
      and req: "dep_required d \<or> dep_name d \<in> capability_name ` set cs" for k d
  proof -
    have "out ! k \<in> set cs" using k set nth_mem by blast
    then have "dep_name d \<in> capability_name ` set cs"
      using req valid d by (auto simp: deps_valid_def)
    with sort_items_order [OF sorted k] d obtain m c where
      m: "m < k" "c = out ! m" "capability_name c = dep_name d"
      by (auto simp: image_image)
    moreover have "out ! m \<in> set (take k out)"
      using k m(1) by (metis in_set_conv_nth length_take min.absorb4 nth_take)
    ultimately show ?thesis by (metis imageI)
  qed
  with perm show ?thesis by blast
qed

section \<open>Properties\<close>

text \<open>
  C4: when the capabilities can be sorted, the result is a permutation of them in which every
  required dependency of a capability, and every optional one that exists, comes before it.
\<close>

theorem sort_capabilities_sound:
  assumes "sort_capabilities cs = Inr out"
  shows "mset out = mset cs \<and>
    (\<forall>k<length out. \<forall>d\<in>set (cc_dependencies (out ! k)).
       dep_required d \<or> dep_name d \<in> capability_name ` set cs \<longrightarrow>
       dep_name d \<in> capability_name ` set (take k out))"
  using assms by (rule sort_capabilities_order)

theorem sort_capabilities_sound_witness:
  "mset [sample_capability ''a'' 2 [], sample_capability ''b'' 1 [dep_require ''a'']] =
   mset [sample_capability ''b'' 1 [dep_require ''a''], sample_capability ''a'' 2 []]"
proof -
  have "sort_capabilities [sample_capability ''b'' 1 [dep_require ''a''], sample_capability ''a'' 2 []] =
      Inr [sample_capability ''a'' 2 [], sample_capability ''b'' 1 [dep_require ''a'']]"
    by code_simp
  from sort_capabilities_sound [OF this] show ?thesis by (rule conjunct1)
qed

text \<open>
  C3: capabilities with different names can be sorted exactly when every dependency list is
  well formed (no empty name, no name twice, every required one present) and the dependency
  relation has no cycle.
\<close>

theorem sort_capabilities_iff:
  assumes "distinct (map capability_name cs)"
  shows "(\<exists>out. sort_capabilities cs = Inr out) \<longleftrightarrow>
    (\<forall>c\<in>set cs. deps_valid (cc_dependencies c) (capability_name ` set cs)) \<and>
    acyclic (capability_graph cs)"
proof -
  have names: "distinct (map di_name (map capability_item cs))" using assms by (simp add: comp_def)
  have "(\<exists>out. sort_dependency_items (map capability_item cs) = Inr out) \<longleftrightarrow> acyclic (capability_graph cs)"
  proof (cases "sort_dependency_items (map capability_item cs)")
    case (Inl e)
    with sort_items_cycle [OF Inl] show ?thesis by (simp add: name_graph_capabilities)
  next
    case (Inr out)
    with sort_items_acyclic [OF Inr names] show ?thesis by (simp add: name_graph_capabilities)
  qed
  then show ?thesis by (auto simp: sort_capabilities_Inr_iff)
qed

theorem sort_capabilities_iff_witness:
  "\<not> acyclic (capability_graph
     [sample_capability ''a'' 1 [dep_require ''b''], sample_capability ''b'' 2 [dep_optional ''a'']])"
proof -
  let ?cs = "[sample_capability ''a'' 1 [dep_require ''b''], sample_capability ''b'' 2 [dep_optional ''a'']]"
  have "sort_capabilities ?cs = Inl ErrDependencyCycle" by code_simp
  moreover have "distinct (map capability_name ?cs)" by code_simp
  moreover have "\<forall>c\<in>set ?cs. deps_valid (cc_dependencies c) (capability_name ` set ?cs)" by code_simp
  ultimately show ?thesis using sort_capabilities_iff [of ?cs] by simp
qed

text \<open>
  C5: running one provider selects exactly the registered providers reachable from it through
  dependencies (each as often as it is registered), ordered so that what a provider depends on
  starts before it; the dependency lists of all of them are well formed.
\<close>

theorem select_providers_exact:
  assumes "select_providers_for_run name ps cs extra = Inr out"
  shows "mset out = mset (filter (\<lambda>p. (name, provider_name p) \<in> (provider_needs ps)\<^sup>*) ps) \<and>
    name \<in> provider_name ` set out \<and> providers_ordered out \<and>
    (\<forall>p\<in>set out. \<forall>d\<in>set (pc_dependencies p). dep_name d \<in> provider_name ` set ps \<longrightarrow>
       provider_named ps (provider_name p) = Some p \<longrightarrow> dep_name d \<in> provider_name ` set out)"
  using assms
proof (rule select_providers_InrE)
  assume perm: "mset out = mset (filter (\<lambda>p. (name, provider_name p) \<in> (provider_needs ps)\<^sup>*) ps)"
    and ord: "providers_ordered out" and name: "name \<in> provider_name ` set ps"
  have set: "set out = {p \<in> set ps. (name, provider_name p) \<in> (provider_needs ps)\<^sup>*}"
    using mset_eq_setD [OF perm] by auto
  have "name \<in> provider_name ` set out" using name set by auto
  moreover have "dep_name d \<in> provider_name ` set out"
    if "p \<in> set out" "d \<in> set (pc_dependencies p)" "dep_name d \<in> provider_name ` set ps"
      "provider_named ps (provider_name p) = Some p" for p d
  proof -
    have "(provider_name p, dep_name d) \<in> provider_needs ps"
      using that by (auto simp: provider_needs_def)
    then have "(name, dep_name d) \<in> (provider_needs ps)\<^sup>*"
      using that(1) set by (auto intro: rtrancl_into_rtrancl)
    with that(3) set show ?thesis by force
  qed
  ultimately show ?thesis using perm ord by blast
qed

theorem select_providers_exact_witness:
  "mset [sample_provider ''db'' 2 [], sample_provider ''api'' 1 [dep_require ''db'']] =
   mset (filter (\<lambda>p. (''api'', provider_name p) \<in> (provider_needs
       [sample_provider ''api'' 1 [dep_require ''db''], sample_provider ''job'' 3 [],
        sample_provider ''db'' 2 []])\<^sup>*)
     [sample_provider ''api'' 1 [dep_require ''db''], sample_provider ''job'' 3 [], sample_provider ''db'' 2 []])"
proof -
  have "select_providers_for_run ''api''
      [sample_provider ''api'' 1 [dep_require ''db''], sample_provider ''job'' 3 [], sample_provider ''db'' 2 []]
      [] {} = Inr [sample_provider ''db'' 2 [], sample_provider ''api'' 1 [dep_require ''db'']]"
    by code_simp
  from select_providers_exact [OF this] show ?thesis by (rule conjunct1)
qed

end
