(* ===== verification/Runtime_App.thy ===== *)
theory Runtime_App
  imports Runtime_Dependency
begin

text \<open>
  \<^verbatim>\<open>core/runtime\<close>: the state of an application (\<open>app.go\<close>, \<open>container.go\<close>), the status
  operations (\<open>status.go\<close>), the registration methods and the capabilities that providers
  declare (\<open>provider_capability.go\<close>).  The lifecycle is in \<open>Runtime_Lifecycle\<close>.

  The status cells (\<open>*runtimeStatus\<close>) live in a store \<open>ap_cells\<close>, a fresh one holds
  \<open>StatusStopped\<close>; \<open>ap_ctx\<close> is \<open>a.ctx\<close> with its current \<open>Err()\<close>; \<open>a.cancel\<close>, set together
  with \<open>a.ctx\<close>, is a flag; a nil \<open>a.registry\<close> or \<open>a.container\<close>, which the accessors replace by
  a new one, is an empty one; \<open>ap_world\<close> is what the callbacks keep outside the package.
\<close>

record 'w app =
  ap_container :: "string \<rightharpoonup> nat"
  ap_registry :: registry
  ap_next_cell :: nat
  ap_cells :: "nat \<Rightarrow> rt_status \<times> rt_error option"
  ap_ctx :: "rt_error go_ctx"
  ap_cancel :: bool
  ap_registered :: "rt_capability list"
  ap_provider_caps :: "string set"
  ap_running :: "rt_provider list"
  ap_stopping :: bool
  ap_stopped :: bool
  ap_world :: 'w

definition new_app :: "'w \<Rightarrow> 'w app" where
  "new_app w =
     \<lparr>ap_container = Map.empty, ap_registry = new_rt_registry, ap_next_cell = 0,
      ap_cells = (\<lambda>_. (StatusStopped, None)), ap_ctx = Ctx None, ap_cancel = True,
      ap_registered = [], ap_provider_caps = {}, ap_running = [], ap_stopping = False,
      ap_stopped = False, ap_world = w\<rparr>"

section \<open>The container (container.go)\<close>

definition container_bind :: "(string \<rightharpoonup> nat) option \<Rightarrow> string \<Rightarrow> nat option \<Rightarrow> rt_error + (string \<rightharpoonup> nat)" where
  "container_bind c key v =
     (case c of
        None \<Rightarrow> Inl ErrContainerNil
      | Some m \<Rightarrow>
          if key = [] then Inl ErrContainerKeyRequired
          else (case v of None \<Rightarrow> Inl ErrContainerValueNil | Some x \<Rightarrow> Inr (m(key \<mapsto> x))))"

definition container_get :: "(string \<rightharpoonup> nat) option \<Rightarrow> string \<Rightarrow> nat option" where
  "container_get c key =
     (case c of None \<Rightarrow> None | Some m \<Rightarrow> if key = [] then None else m key)"

section \<open>Statuses (status.go)\<close>

definition set_object_status ::
  "nat option \<Rightarrow> rt_status \<Rightarrow> rt_error option \<Rightarrow> 'w app \<Rightarrow> 'w app" where
  "set_object_status cell st err a =
     (case cell of
        None \<Rightarrow> a
      | Some c \<Rightarrow> a\<lparr>ap_cells := (ap_cells a)(c := (normalize_status st, err))\<rparr>)"

definition object_health :: "'w app \<Rightarrow> nat option \<Rightarrow> string \<Rightarrow> health" where
  "object_health a cell name =
     (case cell of
        None \<Rightarrow> \<lparr>hl_name = name, hl_status = StatusStopped, hl_error = None\<rparr>
      | Some c \<Rightarrow> \<lparr>hl_name = name, hl_status = normalize_status (fst (ap_cells a c)),
                    hl_error = snd (ap_cells a c)\<rparr>)"

definition app_capabilities :: "'w app \<Rightarrow> rt_capability list" where
  "app_capabilities a = all_capabilities (Some (ap_registry a))"

definition app_providers :: "'w app \<Rightarrow> rt_provider list" where
  "app_providers a = all_providers (Some (ap_registry a))"

definition app_capability :: "'w app \<Rightarrow> string \<Rightarrow> rt_capability option" where
  "app_capability a name = reg_capability (Some (ap_registry a)) name"

definition app_provider :: "'w app \<Rightarrow> string \<Rightarrow> rt_provider option" where
  "app_provider a name = reg_provider (Some (ap_registry a)) name"

definition app_command :: "'w app \<Rightarrow> string \<Rightarrow> rt_command option" where
  "app_command a name = reg_command (Some (ap_registry a)) name"

definition provider_status :: "'w app option \<Rightarrow> string \<Rightarrow> health" where
  "provider_status ao name =
     (case ao of
        None \<Rightarrow> \<lparr>hl_name = name, hl_status = StatusStopped, hl_error = None\<rparr>
      | Some a \<Rightarrow>
          if name = [] then \<lparr>hl_name = name, hl_status = StatusStopped, hl_error = None\<rparr>
          else (case app_provider a name of
                  None \<Rightarrow> \<lparr>hl_name = name, hl_status = StatusStopped,
                           hl_error = Some (ErrNotFound KindProvider name)\<rparr>
                | Some p \<Rightarrow> object_health a (pc_cell p) (provider_name p)))"

definition capability_status :: "'w app option \<Rightarrow> string \<Rightarrow> health" where
  "capability_status ao name =
     (case ao of
        None \<Rightarrow> \<lparr>hl_name = name, hl_status = StatusStopped, hl_error = None\<rparr>
      | Some a \<Rightarrow>
          if name = [] then \<lparr>hl_name = name, hl_status = StatusStopped, hl_error = None\<rparr>
          else (case app_capability a name of
                  None \<Rightarrow> \<lparr>hl_name = name, hl_status = StatusStopped,
                           hl_error = Some (ErrNotFound KindCapability name)\<rparr>
                | Some c \<Rightarrow> object_health a (cc_cell c) (capability_name c)))"

definition provider_statuses :: "'w app \<Rightarrow> health list" where
  "provider_statuses a = map (\<lambda>p. object_health a (pc_cell p) (provider_name p)) (app_providers a)"

definition capability_statuses :: "'w app \<Rightarrow> health list" where
  "capability_statuses a =
     map (\<lambda>c. object_health a (cc_cell c) (capability_name c)) (app_capabilities a)"

definition set_all_statuses :: "rt_status \<Rightarrow> rt_error option \<Rightarrow> 'w app \<Rightarrow> 'w app" where
  "set_all_statuses st err a =
     foldl (\<lambda>a cell. set_object_status cell st err a) a
       (map cc_cell (app_capabilities a) @ map pc_cell (app_providers a))"

definition reset_runtime_statuses :: "'w app \<Rightarrow> 'w app" where
  "reset_runtime_statuses a = set_all_statuses StatusStopped None a"

definition fail_runtime_statuses :: "rt_error \<Rightarrow> 'w app \<Rightarrow> 'w app" where
  "fail_runtime_statuses e a = set_all_statuses StatusFailed (Some e) a"

section \<open>Registration (app.go, capability.go)\<close>

text \<open>
  Every method starts with \<open>if a == nil { return ErrAppNil }\<close>: \<open>on_app\<close> is that guard.
\<close>

definition on_app ::
  "('w app \<Rightarrow> rt_error option \<times> 'w app) \<Rightarrow> 'w app option \<Rightarrow> rt_error option \<times> 'w app option" where
  "on_app f ao =
     (case ao of
        None \<Rightarrow> (Some ErrAppNil, None)
      | Some a \<Rightarrow> let (e, a') = f a in (e, Some a'))"

definition app_register_capabilities ::
  "rt_capability option list \<Rightarrow> 'w app \<Rightarrow> rt_error option \<times> 'w app" where
  "app_register_capabilities cs a =
     (case register_capabilities (Some (ap_registry a)) (ap_next_cell a) cs of
        Inl e \<Rightarrow> (Some e, a)
      | Inr (g, n) \<Rightarrow> (None, a\<lparr>ap_registry := g, ap_next_cell := n\<rparr>))"

definition app_register_providers ::
  "rt_provider option list \<Rightarrow> 'w app \<Rightarrow> rt_error option \<times> 'w app" where
  "app_register_providers ps a =
     (case register_providers (Some (ap_registry a)) (ap_next_cell a) ps of
        Inl e \<Rightarrow> (Some e, a)
      | Inr (g, n) \<Rightarrow> (None, a\<lparr>ap_registry := g, ap_next_cell := n\<rparr>))"

definition app_register_commands ::
  "rt_command option list \<Rightarrow> 'w app \<Rightarrow> rt_error option \<times> 'w app" where
  "app_register_commands cs a =
     (case register_commands (Some (ap_registry a)) cs of
        Inl e \<Rightarrow> (Some e, a) | Inr g \<Rightarrow> (None, a\<lparr>ap_registry := g\<rparr>))"

definition app_register_adapters ::
  "rt_adapter option list \<Rightarrow> 'w app \<Rightarrow> rt_error option \<times> 'w app" where
  "app_register_adapters xs a =
     (case register_adapters (Some (ap_registry a)) xs of
        Inl e \<Rightarrow> (Some e, a) | Inr g \<Rightarrow> (None, a\<lparr>ap_registry := g\<rparr>))"

definition app_register_plugins ::
  "rt_plugin option list \<Rightarrow> 'w app \<Rightarrow> rt_error option \<times> 'w app" where
  "app_register_plugins xs a =
     (case register_plugins (Some (ap_registry a)) xs of
        Inl e \<Rightarrow> (Some e, a) | Inr g \<Rightarrow> (None, a\<lparr>ap_registry := g\<rparr>))"

text \<open>
  The three \<open>...Adapters\<close> methods: unwrap every adapter (a nil adapter or a nil payload is an
  error and nothing is registered), file the adapters, then the payloads.
\<close>

fun unwrap_adapters ::
  "object_kind \<Rightarrow> (rt_adapter \<Rightarrow> 'a option) \<Rightarrow> rt_adapter option list \<Rightarrow> rt_error + 'a list" where
  "unwrap_adapters k f [] = Inr []"
| "unwrap_adapters k f (None # xs) = Inl (ErrObjectNil KindAdapter)"
| "unwrap_adapters k f (Some x # xs) =
     (case f x of
        None \<Rightarrow> Inl (ErrObjectNil k)
      | Some y \<Rightarrow> bindR (unwrap_adapters k f xs) (\<lambda>ys. Inr (y # ys)))"

definition capability_payload :: "rt_adapter \<Rightarrow> rt_capability option" where
  "capability_payload x = (case ra_payload x of CapabilityPayload c \<Rightarrow> c | _ \<Rightarrow> None)"

definition provider_payload :: "rt_adapter \<Rightarrow> rt_provider option" where
  "provider_payload x = (case ra_payload x of ProviderPayload p \<Rightarrow> p | _ \<Rightarrow> None)"

definition command_payload :: "rt_adapter \<Rightarrow> rt_command option" where
  "command_payload x = (case ra_payload x of CommandPayload c \<Rightarrow> c | _ \<Rightarrow> None)"

definition use_capability_adapters ::
  "rt_adapter option list \<Rightarrow> 'w app \<Rightarrow> rt_error option \<times> 'w app" where
  "use_capability_adapters xs a =
     (case unwrap_adapters KindCapability capability_payload xs of
        Inl e \<Rightarrow> (Some e, a)
      | Inr cs \<Rightarrow>
          (let (e, a') = app_register_adapters xs a in
           case e of Some _ \<Rightarrow> (e, a') | None \<Rightarrow> app_register_capabilities (map Some cs) a'))"

definition register_provider_adapters ::
  "rt_adapter option list \<Rightarrow> 'w app \<Rightarrow> rt_error option \<times> 'w app" where
  "register_provider_adapters xs a =
     (case unwrap_adapters KindProvider provider_payload xs of
        Inl e \<Rightarrow> (Some e, a)
      | Inr ps \<Rightarrow>
          (let (e, a') = app_register_adapters xs a in
           case e of Some _ \<Rightarrow> (e, a') | None \<Rightarrow> app_register_providers (map Some ps) a'))"

definition register_command_adapters ::
  "rt_adapter option list \<Rightarrow> 'w app \<Rightarrow> rt_error option \<times> 'w app" where
  "register_command_adapters xs a =
     (case unwrap_adapters KindCommand command_payload xs of
        Inl e \<Rightarrow> (Some e, a)
      | Inr cs \<Rightarrow>
          (let (e, a') = app_register_adapters xs a in
           case e of Some _ \<Rightarrow> (e, a') | None \<Rightarrow> app_register_commands (map Some cs) a'))"

text \<open>
  \<open>NewCapabilityWithMetadataAndDependencies\<close> (the other constructors call it): the object
  brings its own status cell, the next free one.
\<close>

definition new_capability_with ::
  "nat \<Rightarrow> capability_metadata \<Rightarrow> dependency list \<Rightarrow> 'w app \<Rightarrow> rt_capability \<times> 'w app" where
  "new_capability_with i m deps a =
     (\<lparr>cc_id = i, cc_name = cm_name m,
       cc_metadata = m\<lparr>cm_scope := normalize_capability_scope (cm_scope m)\<rparr>,
       cc_dependencies = deps, cc_cell = Some (ap_next_cell a)\<rparr>,
      a\<lparr>ap_next_cell := Suc (ap_next_cell a)\<rparr>)"

section \<open>Capabilities that providers declare (provider_capability.go)\<close>

definition provider_capability_registered :: "'w app \<Rightarrow> string \<Rightarrow> bool" where
  "provider_capability_registered a name \<longleftrightarrow> name \<noteq> [] \<and> name \<in> ap_provider_caps a"

text \<open>The two nested loops run over \<open>concat\<close> of the declarations.\<close>

fun collect_from :: "string set \<Rightarrow> string set \<Rightarrow> rt_capability option list \<Rightarrow> rt_error + rt_capability list" where
  "collect_from marked collected [] = Inr []"
| "collect_from marked collected (None # cs) = Inl (ErrObjectNil KindCapability)"
| "collect_from marked collected (Some c # cs) =
     (let name = capability_name c in
      if name \<noteq> [] then
        if name \<in> marked then collect_from marked collected cs
        else if name \<in> collected then collect_from marked collected cs
        else bindR (collect_from marked (insert name collected) cs) (\<lambda>out. Inr (c # out))
      else bindR (collect_from marked collected cs) (\<lambda>out. Inr (c # out)))"

definition declared_capabilities :: "rt_provider list \<Rightarrow> rt_capability option list" where
  "declared_capabilities ps = concat (map provider_runtime_capabilities ps)"

definition collect_provider_capabilities ::
  "'w app \<Rightarrow> rt_provider list \<Rightarrow> rt_error + rt_capability list" where
  "collect_provider_capabilities a ps =
     collect_from (ap_provider_caps a) {} (declared_capabilities ps)"

definition mark_provider_capabilities :: "rt_capability list \<Rightarrow> 'w app \<Rightarrow> 'w app" where
  "mark_provider_capabilities cs a =
     a\<lparr>ap_provider_caps := ap_provider_caps a \<union> (set (map capability_name cs) - {[]})\<rparr>"

definition register_provider_capabilities ::
  "rt_provider list \<Rightarrow> 'w app \<Rightarrow> rt_error option \<times> 'w app" where
  "register_provider_capabilities ps a =
     (case collect_provider_capabilities a ps of
        Inl e \<Rightarrow> (Some e, a)
      | Inr cs \<Rightarrow>
          if cs = [] then (None, a)
          else
            (let (e, a') = app_register_capabilities (map Some cs) a in
             case e of
               Some _ \<Rightarrow> (e, a')
             | None \<Rightarrow> (None, mark_provider_capabilities cs a')))"

definition provider_runtime_capability_name_set :: "rt_provider list \<Rightarrow> string set" where
  "provider_runtime_capability_name_set ps =
     {name \<in> capability_name ` {c. Some c \<in> set (declared_capabilities ps)}. name \<noteq> []}"

fun declared_from ::
  "string set \<Rightarrow> string set \<Rightarrow> string set \<Rightarrow> nat \<Rightarrow> rt_capability option list \<Rightarrow>
     rt_error + rt_capability list" where
  "declared_from existing marked declared n [] = Inr []"
| "declared_from existing marked declared n (None # cs) = Inl (ErrObjectNil KindCapability)"
| "declared_from existing marked declared n (Some c # cs) =
     (let name = capability_name c in
      if name = [] then Inl (ErrNameRequired KindCapability)
      else if is_reserved_capability_name name then Inl (ErrNameReserved KindCapability name)
      else if name \<in> existing then
        if name \<in> marked then declared_from existing marked declared n cs
        else Inl (ErrNameDuplicate KindCapability name)
      else if name \<in> declared then declared_from existing marked declared n cs
      else
        (let (c', n') = new_runtime_capability c n in
         bindR (declared_from existing marked (insert name declared) n' cs) (\<lambda>out. Inr (c' # out))))"

definition capabilities_with_provider_declarations :: "'w app \<Rightarrow> rt_error + rt_capability list" where
  "capabilities_with_provider_declarations a =
     (let cs = app_capabilities a in
      bindR (declared_from (set (map capability_name cs)) (ap_provider_caps a) {} (ap_next_cell a)
               (declared_capabilities (app_providers a)))
        (\<lambda>ds. Inr (cs @ ds)))"

definition app_validate_dependencies :: "'w app option \<Rightarrow> rt_error + unit" where
  "app_validate_dependencies ao =
     (case ao of
        None \<Rightarrow> Inl ErrAppNil
      | Some a \<Rightarrow> bindR (capabilities_with_provider_declarations a)
                    (\<lambda>cs. validate_dependencies cs (app_providers a)))"

definition app_dependencies :: "'w app option \<Rightarrow> dependency_metadata list" where
  "app_dependencies ao =
     (case ao of
        None \<Rightarrow> []
      | Some a \<Rightarrow>
          (let cs = (case capabilities_with_provider_declarations a of
                       Inl _ \<Rightarrow> app_capabilities a | Inr cs \<Rightarrow> cs)
           in dependency_metadata_of cs (app_providers a)))"

section \<open>Lemmas\<close>

text \<open>Writing statuses changes nothing but the cells.\<close>

lemma set_object_status_frame [simp]:
  "ap_registry (set_object_status c st e a) = ap_registry a"
  "ap_ctx (set_object_status c st e a) = ap_ctx a"
  "ap_cancel (set_object_status c st e a) = ap_cancel a"
  "ap_registered (set_object_status c st e a) = ap_registered a"
  "ap_provider_caps (set_object_status c st e a) = ap_provider_caps a"
  "ap_running (set_object_status c st e a) = ap_running a"
  "ap_stopping (set_object_status c st e a) = ap_stopping a"
  "ap_stopped (set_object_status c st e a) = ap_stopped a"
  "ap_world (set_object_status c st e a) = ap_world a"
  "ap_next_cell (set_object_status c st e a) = ap_next_cell a"
  by (simp_all add: set_object_status_def split: option.split)

lemma foldl_status_frame:
  "ap_registry (foldl (\<lambda>a c. set_object_status c st e a) a cs) = ap_registry a \<and>
   ap_ctx (foldl (\<lambda>a c. set_object_status c st e a) a cs) = ap_ctx a \<and>
   ap_cancel (foldl (\<lambda>a c. set_object_status c st e a) a cs) = ap_cancel a \<and>
   ap_registered (foldl (\<lambda>a c. set_object_status c st e a) a cs) = ap_registered a \<and>
   ap_provider_caps (foldl (\<lambda>a c. set_object_status c st e a) a cs) = ap_provider_caps a \<and>
   ap_running (foldl (\<lambda>a c. set_object_status c st e a) a cs) = ap_running a \<and>
   ap_stopping (foldl (\<lambda>a c. set_object_status c st e a) a cs) = ap_stopping a \<and>
   ap_stopped (foldl (\<lambda>a c. set_object_status c st e a) a cs) = ap_stopped a \<and>
   ap_world (foldl (\<lambda>a c. set_object_status c st e a) a cs) = ap_world a \<and>
   ap_next_cell (foldl (\<lambda>a c. set_object_status c st e a) a cs) = ap_next_cell a"
  by (induction cs arbitrary: a) simp_all

lemma set_all_statuses_frame [simp]:
  "ap_registry (set_all_statuses st e a) = ap_registry a"
  "ap_ctx (set_all_statuses st e a) = ap_ctx a"
  "ap_cancel (set_all_statuses st e a) = ap_cancel a"
  "ap_registered (set_all_statuses st e a) = ap_registered a"
  "ap_provider_caps (set_all_statuses st e a) = ap_provider_caps a"
  "ap_running (set_all_statuses st e a) = ap_running a"
  "ap_stopping (set_all_statuses st e a) = ap_stopping a"
  "ap_stopped (set_all_statuses st e a) = ap_stopped a"
  "ap_world (set_all_statuses st e a) = ap_world a"
  "ap_next_cell (set_all_statuses st e a) = ap_next_cell a"
  by (simp_all only: set_all_statuses_def foldl_status_frame)

lemma collect_from_names:
  assumes "collect_from marked collected cs = Inr out"
  shows "None \<notin> set cs" (is ?nil)
    and "Some c \<in> set cs \<Longrightarrow> capability_name c \<noteq> [] \<Longrightarrow>
      capability_name c \<in> marked \<union> collected \<union> capability_name ` set out"
    and "Some c \<in> set cs \<Longrightarrow> capability_name c = [] \<Longrightarrow> [] \<in> capability_name ` set out"
proof -
  have "None \<notin> set cs \<and> (\<forall>c. Some c \<in> set cs \<longrightarrow>
      (if capability_name c = [] then [] \<in> capability_name ` set out
       else capability_name c \<in> marked \<union> collected \<union> capability_name ` set out))"
    using assms
  proof (induction cs arbitrary: collected out)
    case (Cons x cs)
    then obtain y where x: "x = Some y" by (cases x) auto
    consider "capability_name y \<noteq> []" "capability_name y \<in> marked \<union> collected"
        "collect_from marked collected cs = Inr out"
      | o' where "capability_name y \<noteq> []" "out = y # o'"
        "collect_from marked (insert (capability_name y) collected) cs = Inr o'"
      | o' where "capability_name y = []" "out = y # o'" "collect_from marked collected cs = Inr o'"
      using Cons.prems x by (auto simp: Let_def bindR_Inr_iff split: if_splits)
    then show ?case
    proof cases
      case 1
      with Cons.IH [OF 1(3)] x show ?thesis by auto
    next
      case (2 o')
      with Cons.IH [OF 2(3)] x show ?thesis by auto
    next
      case (3 o')
      from Cons.IH [OF 3(3)] 3(1,2) x show ?thesis by (auto simp: image_iff)
    qed
  qed simp
  then show ?nil "Some c \<in> set cs \<Longrightarrow> capability_name c \<noteq> [] \<Longrightarrow>
      capability_name c \<in> marked \<union> collected \<union> capability_name ` set out"
    "Some c \<in> set cs \<Longrightarrow> capability_name c = [] \<Longrightarrow> [] \<in> capability_name ` set out"
    by auto
qed

lemma collect_from_all_marked:
  "None \<notin> set cs \<Longrightarrow> (\<And>c. Some c \<in> set cs \<Longrightarrow> capability_name c \<noteq> [] \<and> capability_name c \<in> marked) \<Longrightarrow>
   collect_from marked collected cs = Inr []"
proof (induction cs)
  case (Cons x cs)
  then obtain y where x: "x = Some y" by (cases x) auto
  with Cons show ?case by (simp add: Let_def)
qed simp

lemma app_register_capabilities_frame:
  assumes "app_register_capabilities cs a = (e, a')"
  shows "ap_provider_caps a' = ap_provider_caps a \<and> ap_world a' = ap_world a \<and>
    ap_running a' = ap_running a \<and> ap_registered a' = ap_registered a \<and>
    ap_stopped a' = ap_stopped a \<and> ap_stopping a' = ap_stopping a \<and> ap_ctx a' = ap_ctx a \<and>
    reg_providers (ap_registry a') = reg_providers (ap_registry a)"
  using assms
  by (auto simp: app_register_capabilities_def register_capabilities_def bindR_Inr_iff
      split: sum.splits)

lemma app_register_capabilities_None:
  assumes "app_register_capabilities (map Some cs) a = (None, a')" "registry_ok (ap_registry a)"
  shows "registry_ok (ap_registry a') \<and> [] \<notin> capability_name ` set cs"
proof -
  from assms(1) obtain g n where g: "register_capabilities (Some (ap_registry a)) (ap_next_cell a) (map Some cs) = Inr (g, n)"
    "a' = a\<lparr>ap_registry := g, ap_next_cell := n\<rparr>"
    by (auto simp: app_register_capabilities_def split: sum.splits)
  then have "registry_ok (ap_registry a')" using register_capabilities_ok [OF assms(2)] by simp
  moreover have "[] \<notin> capability_name ` set cs"
  proof -
    from g(1) have "\<exists>s' n'. register_batch KindCapability check_capability capability_name
        capability_metadata_of new_runtime_capability (reg_capabilities (ap_registry a)) (ap_next_cell a)
        (map Some cs) = Inr (s', n')"
      by (auto simp: register_capabilities_def bindR_Inr_iff)
    then obtain ys where "map Some cs = map Some ys" "\<forall>y\<in>set ys. check_capability y = Inr (capability_name y)"
      unfolding cap_shelf.register_batch_iff by blast
    moreover from this(1) have "ys = cs" by (simp add: inj_map_eq_map)
    ultimately have "\<forall>y\<in>set cs. capability_name y \<noteq> []" using cap_shelf.chk_name by blast
    then show ?thesis by auto
  qed
  ultimately show ?thesis by blast
qed

section \<open>Properties\<close>

text \<open>
  Registering the capabilities that providers declare is idempotent: once it has
  succeeded, a later call for the same providers (the next run of the application) registers
  nothing, fails with no duplicate name and leaves the application as it is.
\<close>

theorem provider_capabilities_registered_once:
  assumes "registry_ok (ap_registry a)" "register_provider_capabilities ps a = (None, a')"
  shows "register_provider_capabilities ps a' = (None, a')"
proof -
  obtain cs where cs: "collect_from (ap_provider_caps a) {} (declared_capabilities ps) = Inr cs"
    using assms(2)
    by (auto simp: register_provider_capabilities_def collect_provider_capabilities_def split: sum.splits)
  note names = collect_from_names [OF cs]
  show ?thesis
  proof (cases "cs = []")
    case True
    with assms(2) cs have "a' = a"
      by (simp add: register_provider_capabilities_def collect_provider_capabilities_def)
    with True cs show ?thesis
      by (simp add: register_provider_capabilities_def collect_provider_capabilities_def)
  next
    case False
    with assms(2) cs obtain b where b: "app_register_capabilities (map Some cs) a = (None, b)"
      "a' = mark_provider_capabilities cs b"
      by (auto simp: register_provider_capabilities_def collect_provider_capabilities_def
          split: prod.splits option.splits)
    have nonempty: "[] \<notin> capability_name ` set cs"
      using app_register_capabilities_None [OF b(1) assms(1)] by blast
    have "ap_provider_caps b = ap_provider_caps a"
      using app_register_capabilities_frame [OF b(1)] by blast
    then have "ap_provider_caps a' = ap_provider_caps a \<union> capability_name ` set cs"
      using b(2) nonempty by (simp add: mark_provider_capabilities_def)
    then have "collect_from (ap_provider_caps a') {} (declared_capabilities ps) = Inr []"
      using names nonempty by (intro collect_from_all_marked) (blast, metis Un_iff empty_iff)
    then show ?thesis
      by (simp add: register_provider_capabilities_def collect_provider_capabilities_def)
  qed
qed

definition declaring_provider :: rt_provider where
  "declaring_provider = (sample_provider ''svc'' 1 [])\<lparr>pc_capabilities := Some [Some (sample_capability ''db'' 7 [])]\<rparr>"

theorem provider_capabilities_registered_once_witness:
  "\<exists>a'. register_provider_capabilities [declaring_provider] (new_app ()) = (None, a') \<and>
     map capability_name (app_capabilities a') = [''db''] \<and>
     register_provider_capabilities [declaring_provider] a' = (None, a')"
proof -
  let ?r = "register_provider_capabilities [declaring_provider] (new_app ())"
  have ok: "registry_ok (ap_registry (new_app ()))" by (simp add: new_app_def)
  have "fst ?r = None" by code_simp
  then have run: "?r = (None, snd ?r)" by (metis prod.collapse)
  have "map capability_name (app_capabilities (snd ?r)) = [''db'']" by code_simp
  with run provider_capabilities_registered_once [OF ok run] show ?thesis
    by (intro exI [of _ "snd ?r"] conjI)
qed

end
