(* ===== verification/Runtime_Lifecycle.thy ===== *)
theory Runtime_Lifecycle
  imports Runtime_App
begin

text \<open>
  The lifecycle of an application: \<^verbatim>\<open>lifecycle.go\<close> (start, wait, stop), \<open>Run\<close> of
  \<^verbatim>\<open>app.go\<close>, \<^verbatim>\<open>execute.go\<close> and \<^verbatim>\<open>default_command.go\<close>.

  The callbacks of the registered objects are the parameter \<open>'w env\<close>: each may change the
  whole application (it holds the \<open>*App\<close>) and returns its error.  \<open>Stop\<close> and \<open>Shutdown\<close> run
  against a context, so their outcome is either a return or the end of the context.  The
  \<open>Start\<close> of a service provider runs in a goroutine: what it does at once is
  \<open>env_service_start\<close>, and its return is an event of the list the waiting loop consumes,
  with the end of the run context and the signal on which \<open>watchSignals\<close> calls \<open>Stop\<close>.
\<close>

datatype outcome = Returned "rt_error option" | CtxEnded rt_error

record 'w env =
  env_cap_register :: "nat \<Rightarrow> 'w app \<Rightarrow> rt_error option \<times> 'w app"
  env_cap_shutdown :: "nat \<Rightarrow> 'w app \<Rightarrow> outcome \<times> 'w app"
  env_prov_register :: "nat \<Rightarrow> 'w app \<Rightarrow> rt_error option \<times> 'w app"
  env_prov_start :: "nat \<Rightarrow> 'w app \<Rightarrow> rt_error option \<times> 'w app"
  env_service_start :: "nat \<Rightarrow> 'w app \<Rightarrow> 'w app"
  env_prov_stop :: "nat \<Rightarrow> 'w app \<Rightarrow> outcome \<times> 'w app"
  env_command :: "nat \<Rightarrow> string list \<Rightarrow> 'w app \<Rightarrow> rt_error option \<times> 'w app"

datatype svc_event =
    ServiceReturned rt_provider "rt_error option"
  | CtxDone rt_error
  | SignalStop

text \<open>What a run comes to: it is still waiting when the events are used up, or it returned.\<close>

datatype run_result = Blocked | Done "rt_error option"

section \<open>lifecycle.go\<close>

fun run_lifecycle :: "outcome \<Rightarrow> rt_error option" where
  "run_lifecycle (Returned e) = e"
| "run_lifecycle (CtxEnded e) = Some e"

text \<open>The loop of \<open>stopProviders\<close>, on the providers in the order they are stopped.\<close>

fun stop_loop ::
  "'w env \<Rightarrow> string \<Rightarrow> rt_provider list \<Rightarrow> 'w app \<Rightarrow> rt_error list \<times> 'w app" where
  "stop_loop env keep [] a = ([], a)"
| "stop_loop env keep (p # ps) a =
     (let keep_failed = (keep \<noteq> [] \<and> provider_name p = keep);
          a1 = (if keep_failed then a else set_object_status (pc_cell p) StatusStopping None a);
          (oc, a2) = env_prov_stop env (pc_id p) a1
      in case run_lifecycle oc of
           Some e \<Rightarrow>
             (let (errs, a3) = stop_loop env keep ps (set_object_status (pc_cell p) StatusFailed (Some e) a2)
              in (e # errs, a3))
         | None \<Rightarrow>
             stop_loop env keep ps
               (if keep_failed then a2 else set_object_status (pc_cell p) StatusStopped None a2))"

definition stop_providers ::
  "'w env \<Rightarrow> rt_provider list \<Rightarrow> string \<Rightarrow> 'w app \<Rightarrow> rt_error option \<times> 'w app" where
  "stop_providers env ps keep a =
     (let (errs, a') = stop_loop env keep (rev ps) a in (errors_join (map Some errs), a'))"

fun shutdown_loop :: "'w env \<Rightarrow> rt_capability list \<Rightarrow> 'w app \<Rightarrow> rt_error list \<times> 'w app" where
  "shutdown_loop env [] a = ([], a)"
| "shutdown_loop env (c # cs) a =
     (let (oc, a2) = env_cap_shutdown env (cc_id c) (set_object_status (cc_cell c) StatusStopping None a)
      in case run_lifecycle oc of
           Some e \<Rightarrow>
             (let (errs, a3) = shutdown_loop env cs (set_object_status (cc_cell c) StatusFailed (Some e) a2)
              in (e # errs, a3))
         | None \<Rightarrow> shutdown_loop env cs (set_object_status (cc_cell c) StatusStopped None a2))"

definition shutdown_capabilities ::
  "'w env \<Rightarrow> rt_capability list \<Rightarrow> 'w app \<Rightarrow> rt_error option \<times> 'w app" where
  "shutdown_capabilities env cs a =
     (let (errs, a') = shutdown_loop env (rev cs) a in (errors_join (map Some errs), a'))"

text \<open>Cancelling the run context: its \<open>Err()\<close> becomes \<open>context.Canceled\<close> unless it has ended.\<close>

definition cancel_runtime_context :: "'w app \<Rightarrow> 'w app" where
  "cancel_runtime_context a =
     (if ap_cancel a then
        (case ap_ctx a of
           Ctx None \<Rightarrow> a\<lparr>ap_ctx := Ctx (Some CtxCanceled)\<rparr>
         | _ \<Rightarrow> a)
      else a)"

definition app_stop :: "'w env \<Rightarrow> 'w app \<Rightarrow> rt_error option \<times> 'w app" where
  "app_stop env a =
     (if ap_stopped a then (None, a)
      else
        let a0 = a\<lparr>ap_stopping := True\<rparr>;
            (e1, a1) = stop_providers env (ap_running a0) [] a0;
            (e2, a2) = shutdown_capabilities env (ap_registered a0) a1;
            a3 = cancel_runtime_context a2
        in (errors_join [e1, e2],
            a3\<lparr>ap_running := [], ap_registered := [], ap_stopped := True, ap_stopping := False\<rparr>))"

text \<open>
  \<open>prepareRunContext\<close>: the parent is the context given (when it is not nil), else the
  application's own one (so a cancelled application hands its cancellation on), else the
  background context.
\<close>

definition prepare_run_context :: "rt_error go_ctx list \<Rightarrow> 'w app \<Rightarrow> 'w app" where
  "prepare_run_context ctxs a =
     (let parent = (case ctxs of
                      Ctx e # _ \<Rightarrow> Ctx e
                    | _ \<Rightarrow> (case ap_ctx a of NilCtx \<Rightarrow> Ctx None | c \<Rightarrow> c))
      in reset_runtime_statuses
           (a\<lparr>ap_ctx := parent, ap_cancel := True, ap_registered := [], ap_running := [],
              ap_stopping := False, ap_stopped := False\<rparr>))"

definition add_registered_capability :: "rt_capability \<Rightarrow> 'w app \<Rightarrow> 'w app" where
  "add_registered_capability c a = a\<lparr>ap_registered := ap_registered a @ [c]\<rparr>"

definition add_running_provider :: "rt_provider \<Rightarrow> 'w app \<Rightarrow> 'w app" where
  "add_running_provider p a = a\<lparr>ap_running := ap_running a @ [p]\<rparr>"

definition clear_running_providers :: "'w app \<Rightarrow> 'w app" where
  "clear_running_providers a = a\<lparr>ap_running := []\<rparr>"

definition is_stopping :: "'w app \<Rightarrow> bool" where
  "is_stopping a \<longleftrightarrow> ap_stopping a \<or> ap_stopped a"

text \<open>\<open>waitServiceProviders\<close>; the end of the context is a change of its \<open>Err()\<close>.\<close>

definition end_context :: "rt_error \<Rightarrow> 'w app \<Rightarrow> 'w app" where
  "end_context e a = (if ctx_err (ap_ctx a) = None then a\<lparr>ap_ctx := Ctx (Some e)\<rparr> else a)"

fun wait_service_providers ::
  "'w env \<Rightarrow> nat \<Rightarrow> svc_event list \<Rightarrow> 'w app \<Rightarrow> run_result \<times> 'w app" where
  "wait_service_providers env 0 evs a = (Done None, a)"
| "wait_service_providers env (Suc n) [] a = (Blocked, a)"
| "wait_service_providers env (Suc n) (ServiceReturned p err # evs) a =
     (if is_stopping a then wait_service_providers env n evs a
      else if ctx_err (ap_ctx a) \<noteq> None then
        (let (se, a') = app_stop env a in (Done (errors_join [ctx_err (ap_ctx a), se]), a'))
      else
        let e = (case err of None \<Rightarrow> ErrProviderServiceExited (provider_name p) | Some e \<Rightarrow> e);
            (se, a') = app_stop env (set_object_status (pc_cell p) StatusFailed (Some e) a)
        in (Done (errors_join [Some e, se]), set_object_status (pc_cell p) StatusFailed (Some e) a'))"
| "wait_service_providers env (Suc n) (CtxDone e # evs) a =
     (let a1 = end_context e a in
      if is_stopping a1 then (Done None, a1)
      else let (se, a') = app_stop env a1 in (Done (errors_join [ctx_err (ap_ctx a1), se]), a'))"
| "wait_service_providers env (Suc n) (SignalStop # evs) a =
     wait_service_providers env (Suc n) evs (snd (app_stop env a))"

text \<open>
  The loop of \<open>startProviders\<close>: \<open>Inl\<close> an early return, \<open>Inr n\<close> the number of services
  started when the loop is through.
\<close>

fun start_loop ::
  "'w env \<Rightarrow> rt_provider list \<Rightarrow> rt_provider list \<Rightarrow> nat \<Rightarrow> 'w app \<Rightarrow>
     (rt_error option + nat) \<times> 'w app" where
  "start_loop env [] started n a = (Inr n, a)"
| "start_loop env (p # ps) started n a =
     (let a1 = add_running_provider p (set_object_status (pc_cell p) StatusBooting None a) in
      if provider_mode p = ProviderModeService then
        start_loop env ps (started @ [p]) (Suc n)
          (set_object_status (pc_cell p) StatusRunning None (env_service_start env (pc_id p) a1))
      else
        let (err, a2) = env_prov_start env (pc_id p) a1 in
        case err of
          Some e \<Rightarrow>
            if is_stopping a2 then (Inl None, a2)
            else
              let a3 = cancel_runtime_context (set_object_status (pc_cell p) StatusFailed (Some e) a2);
                  (_, a4) = stop_providers env (started @ [p]) (provider_name p) a3
              in (Inl (Some e), clear_running_providers a4)
        | None \<Rightarrow>
            if is_stopping a2 then (Inl None, a2)
            else start_loop env ps (started @ [p]) n
                   (set_object_status (pc_cell p) StatusRunning None a2))"

definition start_providers ::
  "'w env \<Rightarrow> rt_provider list \<Rightarrow> svc_event list \<Rightarrow> 'w app \<Rightarrow> run_result \<times> 'w app" where
  "start_providers env ps evs a =
     (case start_loop env ps [] 0 a of
        (Inl e, a') \<Rightarrow> (Done e, a')
      | (Inr n, a') \<Rightarrow> if n = 0 then (Done None, a') else wait_service_providers env n evs a')"

section \<open>Running (app.go)\<close>

fun register_capability_loop ::
  "'w env \<Rightarrow> rt_capability list \<Rightarrow> 'w app \<Rightarrow> rt_error option \<times> 'w app" where
  "register_capability_loop env [] a = (None, a)"
| "register_capability_loop env (c # cs) a =
     (let (err, a1) = env_cap_register env (cc_id c) (set_object_status (cc_cell c) StatusBooting None a) in
      case err of
        Some e \<Rightarrow> (Some e, set_object_status (cc_cell c) StatusFailed (Some e) a1)
      | None \<Rightarrow> register_capability_loop env cs
                  (add_registered_capability c (set_object_status (cc_cell c) StatusRunning None a1)))"

fun register_provider_loop ::
  "'w env \<Rightarrow> rt_provider list \<Rightarrow> 'w app \<Rightarrow> rt_error option \<times> 'w app" where
  "register_provider_loop env [] a = (None, a)"
| "register_provider_loop env (p # ps) a =
     (let (err, a1) = env_prov_register env (pc_id p) (set_object_status (pc_cell p) StatusBooting None a) in
      case err of
        Some e \<Rightarrow> (Some e, set_object_status (pc_cell p) StatusFailed (Some e) a1)
      | None \<Rightarrow> register_provider_loop env ps a1)"

text \<open>What \<open>RunAllProviders\<close> and \<open>RunProvider\<close> share once the providers are chosen.\<close>

definition run_selected ::
  "'w env \<Rightarrow> rt_provider list \<Rightarrow> svc_event list \<Rightarrow> 'w app \<Rightarrow> run_result \<times> 'w app" where
  "run_selected env ps evs a =
     (let (e, a1) = register_provider_capabilities ps a in
      case e of
        Some err \<Rightarrow> (Done (Some err), fail_runtime_statuses err a1)
      | None \<Rightarrow>
          case sort_capabilities (app_capabilities a1) of
            Inl err \<Rightarrow> (Done (Some err), fail_runtime_statuses err a1)
          | Inr cs \<Rightarrow>
              case sort_providers ps cs of
                Inl err \<Rightarrow> (Done (Some err), fail_runtime_statuses err a1)
              | Inr qs \<Rightarrow>
                  let (e2, a2) = register_capability_loop env cs a1 in
                  case e2 of
                    Some err \<Rightarrow> (Done (Some err), a2)
                  | None \<Rightarrow>
                      let (e3, a3) = register_provider_loop env qs a2 in
                      case e3 of
                        Some err \<Rightarrow> (Done (Some err), a3)
                      | None \<Rightarrow> start_providers env qs evs a3)"

definition run_all_providers ::
  "'w env \<Rightarrow> rt_error go_ctx list \<Rightarrow> svc_event list \<Rightarrow> 'w app \<Rightarrow> run_result \<times> 'w app" where
  "run_all_providers env ctxs evs a =
     (let a0 = prepare_run_context ctxs a in run_selected env (app_providers a0) evs a0)"

definition app_run_provider ::
  "'w env \<Rightarrow> string \<Rightarrow> rt_error go_ctx list \<Rightarrow> svc_event list \<Rightarrow> 'w app \<Rightarrow> run_result \<times> 'w app" where
  "app_run_provider env name ctxs evs a =
     (if app_provider a name = None then (Done (Some (ErrNotFound KindProvider name)), a)
      else
        let a0 = prepare_run_context ctxs a;
            all = app_providers a0
        in case select_providers_for_run name all (app_capabilities a0)
                  (provider_runtime_capability_name_set all) of
             Inl err \<Rightarrow> (Done (Some err), fail_runtime_statuses err a0)
           | Inr ps \<Rightarrow> run_selected env ps evs a0)"

section \<open>execute.go and default_command.go\<close>

text \<open>\<open>errors.Join(err, app.Stop(context.Background()))\<close> after a run that returned.\<close>

definition then_stop :: "'w env \<Rightarrow> run_result \<times> 'w app \<Rightarrow> run_result \<times> 'w app" where
  "then_stop env r =
     (case r of
        (Blocked, a) \<Rightarrow> (Blocked, a)
      | (Done e, a) \<Rightarrow> let (se, a') = app_stop env a in (Done (errors_join [e, se]), a'))"

definition exec_run_all ::
  "'w env \<Rightarrow> rt_error go_ctx \<Rightarrow> svc_event list \<Rightarrow> 'w app \<Rightarrow> run_result \<times> 'w app" where
  "exec_run_all env ctx evs a = then_stop env (run_all_providers env [ctx] evs a)"

definition exec_run_provider ::
  "'w env \<Rightarrow> rt_error go_ctx \<Rightarrow> string \<Rightarrow> svc_event list \<Rightarrow> 'w app \<Rightarrow> run_result \<times> 'w app" where
  "exec_run_provider env ctx name evs a = then_stop env (app_run_provider env name [ctx] evs a)"

definition is_runtime_managed_provider :: "rt_provider \<Rightarrow> bool" where
  "is_runtime_managed_provider p = (pc_managed p = Some True)"

definition has_runtime_managed_provider :: "rt_provider list \<Rightarrow> bool" where
  "has_runtime_managed_provider ps = list_ex is_runtime_managed_provider ps"

text \<open>
  \<open>waitRuntimeStop\<close>: returns when the caller's context is done (then the application is
  stopped) or when the application's own context is.
\<close>

definition wait_runtime_stop :: "'w env \<Rightarrow> svc_event list \<Rightarrow> 'w app \<Rightarrow> run_result \<times> 'w app" where
  "wait_runtime_stop env evs a =
     (if ctx_err (ap_ctx a) \<noteq> None then (Done None, a)
      else (case evs of
              [] \<Rightarrow> (Blocked, a)
            | CtxDone e # _ \<Rightarrow> let (se, a') = app_stop env a in (Done (errors_join [Some e, se]), a')
            | SignalStop # _ \<Rightarrow> (Done None, snd (app_stop env a))
            | ServiceReturned _ _ # _ \<Rightarrow> (Blocked, a)))"

definition run_all_providers_and_wait ::
  "'w env \<Rightarrow> rt_error go_ctx \<Rightarrow> svc_event list \<Rightarrow> 'w app \<Rightarrow> run_result \<times> 'w app" where
  "run_all_providers_and_wait env ctx evs a =
     (case run_all_providers env [ctx] evs a of
        (Done None, a') \<Rightarrow> wait_runtime_stop env evs a'
      | (r, a') \<Rightarrow> then_stop env (r, a'))"

definition run_provider_and_wait ::
  "'w env \<Rightarrow> rt_error go_ctx \<Rightarrow> string \<Rightarrow> svc_event list \<Rightarrow> 'w app \<Rightarrow> run_result \<times> 'w app" where
  "run_provider_and_wait env ctx name evs a =
     (case app_run_provider env name [ctx] evs a of
        (Done None, a') \<Rightarrow> wait_runtime_stop env evs a'
      | (r, a') \<Rightarrow> then_stop env (r, a'))"

definition serve_run ::
  "'w env \<Rightarrow> rt_error go_ctx \<Rightarrow> string list \<Rightarrow> svc_event list \<Rightarrow> 'w app \<Rightarrow> run_result \<times> 'w app" where
  "serve_run env ctx args evs a =
     (if args \<noteq> [] then (Done (Some (ErrUnexpectedArgs args)), a)
      else if \<not> has_runtime_managed_provider (app_providers a) then exec_run_all env ctx evs a
      else run_all_providers_and_wait env ctx evs a)"

definition run_run ::
  "'w env \<Rightarrow> rt_error go_ctx \<Rightarrow> string list \<Rightarrow> svc_event list \<Rightarrow> 'w app \<Rightarrow> run_result \<times> 'w app" where
  "run_run env ctx args evs a =
     (case args of
        [name] \<Rightarrow>
          (case app_provider a name of
             None \<Rightarrow> exec_run_provider env ctx name evs a
           | Some p \<Rightarrow>
               if \<not> is_runtime_managed_provider p then exec_run_provider env ctx name evs a
               else run_provider_and_wait env ctx name evs a)
      | _ \<Rightarrow> (Done (Some ErrRunNameRequired), a))"

definition normalize_command_args :: "'w app \<Rightarrow> string list \<Rightarrow> string list" where
  "normalize_command_args a args =
     (case args of
        [] \<Rightarrow> []
      | x # rest \<Rightarrow>
          if app_command a x \<noteq> None then args
          else (case rest of
                  [] \<Rightarrow> args
                | y # _ \<Rightarrow> if app_command a y \<noteq> None then rest else args))"

definition execute_context ::
  "'w env \<Rightarrow> rt_error go_ctx \<Rightarrow> string list \<Rightarrow> svc_event list \<Rightarrow> 'w app option \<Rightarrow>
     run_result \<times> 'w app option" where
  "execute_context env ctx args evs ao =
     (case ao of
        None \<Rightarrow> (Done (Some ErrAppNil), None)
      | Some a \<Rightarrow>
          (case normalize_command_args a args of
             [] \<Rightarrow> (Done (Some (ErrNameRequired KindCommand)), Some a)
           | name # rest \<Rightarrow>
               (case app_command a name of
                  None \<Rightarrow> (Done (Some (ErrNotFound KindCommand name)), Some a)
                | Some c \<Rightarrow>
                    let ctx' = (if ctx = NilCtx then ap_ctx a else ctx);
                        (r, a') = (case rc_impl c of
                                     ServeCommand \<Rightarrow> serve_run env ctx' rest evs a
                                   | RunCommand \<Rightarrow> run_run env ctx' rest evs a
                                   | UserCommand i \<Rightarrow>
                                       let (e, a') = env_command env i rest a in (Done e, a'))
                    in (r, Some a'))))"


section \<open>Callbacks that log their calls\<close>

text \<open>
  To speak about which callbacks run, and in which order: an environment whose callbacks
  append the call to the world and fail as \<open>f\<close> says.
\<close>

datatype call =
    CapRegister nat | CapShutdown nat | ProvRegister nat | ProvStart nat | ProvStop nat
  | CommandRun nat "string list"

definition log_call :: "call \<Rightarrow> call list app \<Rightarrow> call list app" where
  "log_call c a = a\<lparr>ap_world := ap_world a @ [c]\<rparr>"

definition logging_env :: "(call \<Rightarrow> rt_error option) \<Rightarrow> call list env" where
  "logging_env f =
     \<lparr>env_cap_register = (\<lambda>i a. (f (CapRegister i), log_call (CapRegister i) a)),
      env_cap_shutdown = (\<lambda>i a. (Returned (f (CapShutdown i)), log_call (CapShutdown i) a)),
      env_prov_register = (\<lambda>i a. (f (ProvRegister i), log_call (ProvRegister i) a)),
      env_prov_start = (\<lambda>i a. (f (ProvStart i), log_call (ProvStart i) a)),
      env_service_start = (\<lambda>i a. log_call (ProvStart i) a),
      env_prov_stop = (\<lambda>i a. (Returned (f (ProvStop i)), log_call (ProvStop i) a)),
      env_command = (\<lambda>i args a. (f (CommandRun i args), log_call (CommandRun i args) a))\<rparr>"

lemma log_call_frame [simp]:
  "ap_registry (log_call c a) = ap_registry a"
  "ap_ctx (log_call c a) = ap_ctx a"
  "ap_cancel (log_call c a) = ap_cancel a"
  "ap_registered (log_call c a) = ap_registered a"
  "ap_running (log_call c a) = ap_running a"
  "ap_stopping (log_call c a) = ap_stopping a"
  "ap_stopped (log_call c a) = ap_stopped a"
  "ap_world (log_call c a) = ap_world a @ [c]"
  by (simp_all add: log_call_def)

lemma logging_env_simps [simp]:
  "env_cap_register (logging_env f) i a = (f (CapRegister i), log_call (CapRegister i) a)"
  "env_cap_shutdown (logging_env f) i a = (Returned (f (CapShutdown i)), log_call (CapShutdown i) a)"
  "env_prov_register (logging_env f) i a = (f (ProvRegister i), log_call (ProvRegister i) a)"
  "env_prov_start (logging_env f) i a = (f (ProvStart i), log_call (ProvStart i) a)"
  "env_service_start (logging_env f) i a = log_call (ProvStart i) a"
  "env_prov_stop (logging_env f) i a = (Returned (f (ProvStop i)), log_call (ProvStop i) a)"
  by (simp_all add: logging_env_def)

text \<open>The part of the state the loops leave alone.\<close>

definition same_lifecycle :: "'w app \<Rightarrow> 'w app \<Rightarrow> bool" where
  "same_lifecycle a b \<longleftrightarrow>
     ap_registered b = ap_registered a \<and> ap_running b = ap_running a \<and>
     ap_stopping b = ap_stopping a \<and> ap_stopped b = ap_stopped a \<and>
     ap_ctx b = ap_ctx a \<and> ap_cancel b = ap_cancel a \<and> ap_registry b = ap_registry a"

lemma same_lifecycle_refl [simp]: "same_lifecycle a a"
  by (simp add: same_lifecycle_def)



lemma cancel_runtime_context_frame [simp]:
  "ap_registered (cancel_runtime_context a) = ap_registered a"
  "ap_running (cancel_runtime_context a) = ap_running a"
  "ap_stopping (cancel_runtime_context a) = ap_stopping a"
  "ap_stopped (cancel_runtime_context a) = ap_stopped a"
  "ap_world (cancel_runtime_context a) = ap_world a"
  "ap_registry (cancel_runtime_context a) = ap_registry a"
  by (simp_all add: cancel_runtime_context_def split: go_ctx.split option.split)

text \<open>What a call of \<open>Stop\<close> would still do, and the log with that done.\<close>

definition stop_calls :: "'w app \<Rightarrow> call list" where
  "stop_calls a =
     (if ap_stopped a then []
      else map (\<lambda>p. ProvStop (pc_id p)) (rev (ap_running a)) @
           map (\<lambda>c. CapShutdown (cc_id c)) (rev (ap_registered a)))"

definition balance :: "call list app \<Rightarrow> call list" where
  "balance a = ap_world a @ stop_calls a"

lemma balance_set_object_status [simp]: "balance (set_object_status c st e a) = balance a"
  by (simp add: balance_def stop_calls_def)


lemma end_context_frame [simp]:
  "balance (end_context e a) = balance a"
  by (simp add: balance_def stop_calls_def end_context_def)





text \<open>The log of a whole run and the stop after it.\<close>

definition lifecycle_log ::
  "(call \<Rightarrow> rt_error option) \<Rightarrow> rt_capability list \<Rightarrow> rt_provider list \<Rightarrow> rt_provider list \<Rightarrow> call list" where
  "lifecycle_log f cs ps qs =
     map (\<lambda>c. CapRegister (cc_id c)) cs @ map (\<lambda>p. ProvRegister (pc_id p)) ps @
     map (\<lambda>p. ProvStart (pc_id p)) qs @ map (\<lambda>p. ProvStop (pc_id p)) (rev qs) @
     map (\<lambda>c. CapShutdown (cc_id c)) (rev (filter (\<lambda>c. f (CapRegister (cc_id c)) = None) cs))"








lemma lifecycle_log_Nil [simp]: "lifecycle_log f [] [] [] = []"
  by (simp add: lifecycle_log_def)





lemma prepare_run_context_frame [simp]:
  "ap_world (prepare_run_context ctxs a) = ap_world a"
  "ap_registered (prepare_run_context ctxs a) = []"
  "ap_running (prepare_run_context ctxs a) = []"
  "\<not> is_stopping (prepare_run_context ctxs a)"
  "ap_registry (prepare_run_context ctxs a) = ap_registry a"
  by (simp_all add: prepare_run_context_def reset_runtime_statuses_def is_stopping_def Let_def)

lemma app_providers_prepare [simp]: "app_providers (prepare_run_context ctxs a) = app_providers a"
  by (simp add: app_providers_def)


section \<open>Properties\<close>




text \<open>
  Stopping is final: after \<open>Stop\<close>, whatever the callbacks did, the application holds no
  running provider and no registered capability, and a second \<open>Stop\<close> calls nothing, returns no
  error and changes nothing.
\<close>

theorem stop_is_final:
  "ap_stopped (snd (app_stop env a)) \<and>
   app_stop env (snd (app_stop env a)) = (None, snd (app_stop env a)) \<and>
   (\<not> ap_stopped a \<longrightarrow> ap_running (snd (app_stop env a)) = [] \<and> ap_registered (snd (app_stop env a)) = [])"
proof (cases "ap_stopped a")
  case True
  then show ?thesis by (simp add: app_stop_def)
next
  case False
  then have "ap_stopped (snd (app_stop env a)) \<and> ap_running (snd (app_stop env a)) = [] \<and>
      ap_registered (snd (app_stop env a)) = []"
    by (simp add: app_stop_def Let_def split: prod.split)
  moreover from this have "app_stop env (snd (app_stop env a)) = (None, snd (app_stop env a))"
    unfolding app_stop_def [of env "snd (app_stop env a)"] by simp
  ultimately show ?thesis by blast
qed

definition running_app :: "call list app" where
  "running_app = (new_app [])\<lparr>ap_running := [sample_provider ''api'' 1 []]\<rparr>"

theorem stop_is_final_witness:
  "ap_running running_app \<noteq> [] \<and> ap_running (snd (app_stop (logging_env (\<lambda>_. None)) running_app)) = []"
proof -
  have "\<not> ap_stopped running_app" "ap_running running_app \<noteq> []"
    by (simp_all add: running_app_def new_app_def)
  with stop_is_final [of "logging_env (\<lambda>_. None)" running_app] show ?thesis by blast
qed

lemma registered_not_managed:
  assumes "app_register_providers (map Some ps) (new_app w) = (None, a)" "\<forall>p\<in>set ps. pc_cell p = None"
  shows "\<forall>p\<in>set (app_providers a). pc_managed p = None"
proof -
  have placed: "\<forall>p\<in>set (sh_items (fst (place_batch nm mt new_runtime_provider qs s n))). pc_managed p = None"
    if "\<forall>p\<in>set qs. pc_cell p = None" "\<forall>p\<in>set (sh_items s). pc_managed p = None"
    for qs nm s n and mt :: "rt_provider \<Rightarrow> provider_metadata"
    using that
  proof (induction qs arbitrary: s n)
    case (Cons q qs)
    define y where "y = fst (new_runtime_provider q n)"
    have y: "new_runtime_provider q n = (y, Suc n)" "pc_managed y = None"
      using Cons.prems(1) by (simp_all add: y_def new_runtime_provider_def)
    show ?case
      unfolding place_batch.simps y Let_def split
      by (rule Cons.IH) (use Cons.prems y in auto)
  qed simp
  from assms(1) obtain g n where g: "register_providers (Some new_rt_registry) 0 (map Some ps) = Inr (g, n)"
    "app_providers a = sh_items (reg_providers g)"
    by (auto simp: app_register_providers_def new_app_def app_providers_def all_providers_def split: sum.splits)
  then obtain s where s: "register_batch KindProvider check_provider provider_name provider_metadata_of
      new_runtime_provider empty_shelf 0 (map Some ps) = Inr (s, n)" "reg_providers g = s"
    by (auto simp: register_providers_def new_rt_registry_def bindR_Inr_iff)
  then have "place_batch provider_name provider_metadata_of new_runtime_provider ps empty_shelf 0 = (s, n)"
    by (auto simp: register_batch_def bindR_Inr_iff prov_shelf.accept_iff inj_map_eq_map)
  with placed [OF assms(2), of empty_shelf provider_name provider_metadata_of 0] g s show ?thesis
    by (simp add: empty_shelf_def)
qed

text \<open>
  A provider that was registered the ordinary way (its object does not bring its own status
  cell) is wrapped, and the wrapper does not expose \<open>RuntimeManaged\<close>; so \<open>serve\<close> never takes
  the branch that runs and then waits, it runs and stops.
\<close>

theorem serve_never_waits:
  assumes "app_register_providers (map Some ps) (new_app w) = (None, a)"
    and "\<forall>p\<in>set ps. pc_cell p = None"
  shows "serve_run env ctx [] evs a = exec_run_all env ctx evs a"
proof -
  have "\<not> has_runtime_managed_provider (app_providers a)"
    using registered_not_managed [OF assms]
    by (auto simp: has_runtime_managed_provider_def is_runtime_managed_provider_def list_ex_iff)
  then show ?thesis by (simp add: serve_run_def)
qed

theorem serve_never_waits_witness:
  "\<exists>a. app_register_providers (map Some [(sample_provider ''svc'' 1 [])\<lparr>pc_managed := Some True, pc_cell := None\<rparr>])
        (new_app ()) = (None, a) \<and>
     (\<forall>env ctx evs. serve_run env ctx [] evs a = exec_run_all env ctx evs a)"
proof -
  let ?p = "(sample_provider ''svc'' 1 [])\<lparr>pc_managed := Some True, pc_cell := None\<rparr>"
  let ?r = "app_register_providers (map Some [?p]) (new_app ())"
  have "fst ?r = None" by code_simp
  then have r: "?r = (None, snd ?r)" by (metis prod.collapse)
  have "\<forall>p\<in>set [?p]. pc_cell p = None" by simp
  from serve_never_waits [OF r this] r show ?thesis by blast
qed

end
