(* ===== verification/Runtime_Service.thy ===== *)
theory Runtime_Service
  imports Runtime_Local Runtime_Lifecycle "HOL-Library.Char_ord" "HOL-Library.List_Lexorder"
begin

text \<open>
  \<^verbatim>\<open>core/runtime/service.go\<close>, \<^verbatim>\<open>service_provider.go\<close>, \<^verbatim>\<open>service_bootstrap.go\<close>,
  \<^verbatim>\<open>service_runtime_capability.go\<close> and \<^verbatim>\<open>service_runner.go\<close>: service definitions by type,
  the building of services from a configuration, the selection of the services a run asks
  for and the application built from it.

  \<open>'b\<close> is the type parameter \<open>T\<close> of the Go code.  Factories, spec loaders and the options of
  the runner are functions, arguments of the definitions; a factory that returns no error
  returns a service.  A configuration map is an association list with distinct keys (the
  code reads it through sorted keys or lookups only).
\<close>

record service_info =
  si_name :: string
  si_type :: string
  si_kind :: string
  si_addr :: string
  si_enabled :: bool
  si_capabilities :: "string list"

text \<open>
  A service: one of the program with the names of its \<open>Capabilities()\<close> method (when it has
  one; a nil element is \<open>None\<close>), or one of the two wrappers, which embed \<open>Service\<close> only.
\<close>

datatype service =
    UserService nat service_info "string option list option"
  | RegisteredCapabilities service "string list"
  | RegistrationInfo service string string "string list"

fun service_info_of :: "service \<Rightarrow> service_info" where
  "service_info_of (UserService i info cs) = info"
| "service_info_of (RegisteredCapabilities s caps) =
     (let info = service_info_of s in
      info\<lparr>si_capabilities := merge_capabilities_for_service (si_name info) (si_capabilities info) caps\<rparr>)"
| "service_info_of (RegistrationInfo s ty kind caps) =
     (let info0 = service_info_of s;
          info1 = (if si_type info0 = [] then info0\<lparr>si_type := ty\<rparr> else info0);
          info2 = (if si_kind info1 = [] then info1\<lparr>si_kind := kind\<rparr> else info1)
      in info2\<lparr>si_capabilities :=
           merge_capabilities_for_service (si_name info2) (si_capabilities info2) caps\<rparr>)"

definition registered_capability_names :: "service \<Rightarrow> string list" where
  "registered_capability_names s =
     (case s of
        UserService _ _ (Some cs) \<Rightarrow> lr_list_names (foldl (\<lambda>r c. lr_add c r) new_local_registry cs)
      | _ \<Rightarrow> [])"

section \<open>Definitions by type (service.go)\<close>

record runtime_capability_context =
  rx_config_file :: string
  rx_name :: string
  rx_type :: string
  rx_config_key :: string

type_synonym 'b service_factory = "string \<Rightarrow> string \<Rightarrow> 'b \<Rightarrow> rt_error + service"
type_synonym 'b context_factory =
  "'b service_context \<Rightarrow> (rt_error + service) \<times> local_registry"
type_synonym capability_factory = "runtime_capability_context \<Rightarrow> rt_capability option list"

record 'b service_definition =
  sd_type :: string
  sd_kind :: string
  sd_group :: string
  sd_dependencies :: "dependency list"
  sd_factory :: "'b service_factory option"
  sd_context_factory :: "'b context_factory option"
  sd_capability_factory :: "capability_factory option"

type_synonym 'b service_registry = "string \<rightharpoonup> 'b service_definition"

definition register_service_definition ::
  "'b service_registry option \<Rightarrow> 'b service_definition \<Rightarrow> 'b service_registry option" where
  "register_service_definition r d =
     (case r of
        None \<Rightarrow> None
      | Some m \<Rightarrow>
          if sd_type d = [] \<or> (sd_factory d = None \<and> sd_context_factory d = None) then Some m
          else Some (m(sd_type d \<mapsto> d)))"

definition attach_capabilities :: "service \<Rightarrow> local_registry \<Rightarrow> service" where
  "attach_capabilities s r = RegisteredCapabilities s (lr_list_names r)"

definition build_service_reg ::
  "'b service_registry option \<Rightarrow> string \<Rightarrow> string \<Rightarrow> string \<Rightarrow> string \<Rightarrow> 'b \<Rightarrow> local_registry option \<Rightarrow>
     rt_error + service \<times> 'b service_definition" where
  "build_service_reg r config_file name ty config_key0 base caps0 =
     (if ty = [] then Inl (ErrServiceTypeRequired name)
      else
        let config_key = (if config_key0 = [] then name else config_key0) in
        case r of
          None \<Rightarrow> Inl (ErrUnsupportedServiceType ty)
        | Some m \<Rightarrow>
            (case m ty of
               None \<Rightarrow> Inl (ErrUnsupportedServiceType ty)
             | Some reg \<Rightarrow>
                 let caps = (case caps0 of None \<Rightarrow> new_local_registry | Some c \<Rightarrow> c) in
                 (case sd_context_factory reg of
                    Some f \<Rightarrow>
                      (let (res, caps') = f \<lparr>sx_config_file = config_file, sx_name = name, sx_type = ty,
                               sx_config_key = config_key, sx_base = base, sx_capabilities = Some caps\<rparr>
                       in bindR res (\<lambda>svc. Inr (attach_capabilities svc caps', reg)))
                  | None \<Rightarrow>
                      (case sd_factory reg of
                         None \<Rightarrow> Inl (ErrUnsupportedServiceType ty)
                       | Some f \<Rightarrow> bindR (f config_file name base) (\<lambda>svc. Inr (svc, reg))))))"

definition build_service_with_capabilities ::
  "'b service_registry option \<Rightarrow> string \<Rightarrow> string \<Rightarrow> string \<Rightarrow> string \<Rightarrow> 'b \<Rightarrow> local_registry option \<Rightarrow>
     rt_error + service" where
  "build_service_with_capabilities r config_file name ty config_key base caps =
     bindR (build_service_reg r config_file name ty config_key base caps)
       (\<lambda>(svc, reg). Inr (RegistrationInfo svc ty (sd_kind reg) (registered_capability_names svc)))"

record service_spec =
  ss_type :: string
  ss_enabled :: "bool option"
  ss_config_key :: string

definition resolve_config_key :: "service_spec \<Rightarrow> string \<Rightarrow> string" where
  "resolve_config_key s name = (if ss_config_key s \<noteq> [] then ss_config_key s else name)"

definition zero_service_spec :: service_spec where
  "zero_service_spec = \<lparr>ss_type = [], ss_enabled = None, ss_config_key = []\<rparr>"

fun build_named_services ::
  "'b service_registry option \<Rightarrow> string \<Rightarrow> (string \<rightharpoonup> service_spec) \<Rightarrow> 'b \<Rightarrow> string list \<Rightarrow>
     rt_error + service list" where
  "build_named_services r config_file specs base [] = Inr []"
| "build_named_services r config_file specs base (name # names) =
     (let spec = (case specs name of None \<Rightarrow> zero_service_spec | Some s \<Rightarrow> s) in
      if ss_enabled spec = Some False then build_named_services r config_file specs base names
      else if ss_type spec = [] then Inl (ErrServiceTypeRequired name)
      else
        bindR (build_service_with_capabilities r config_file name (ss_type spec)
                 (resolve_config_key spec name) base None)
          (\<lambda>svc. bindR (build_named_services r config_file specs base names) (\<lambda>svcs. Inr (svc # svcs))))"

definition build_services ::
  "'b service_registry option \<Rightarrow> string \<Rightarrow> (string \<times> service_spec) list \<Rightarrow> 'b \<Rightarrow> rt_error + service list" where
  "build_services r config_file specs base =
     (if specs = [] then Inl ErrServicesConfigRequired
      else build_named_services r config_file (map_of specs) base (sort (map fst specs)))"

definition service_kind :: "'b service_registry option \<Rightarrow> string \<Rightarrow> string option" where
  "service_kind r ty =
     (case r of
        None \<Rightarrow> None
      | Some m \<Rightarrow> if ty = [] then None else (case m ty of None \<Rightarrow> None | Some reg \<Rightarrow> Some (sd_kind reg)))"

definition service_group :: "'b service_registry option \<Rightarrow> string \<Rightarrow> string" where
  "service_group r ty =
     (case r of
        None \<Rightarrow> []
      | Some m \<Rightarrow> if ty = [] then [] else (case m ty of None \<Rightarrow> [] | Some reg \<Rightarrow> sd_group reg))"

definition service_dependencies :: "'b service_registry option \<Rightarrow> string \<Rightarrow> dependency list" where
  "service_dependencies r ty =
     (case r of
        None \<Rightarrow> []
      | Some m \<Rightarrow> if ty = [] then [] else (case m ty of None \<Rightarrow> [] | Some reg \<Rightarrow> sd_dependencies reg))"

section \<open>Runtime capabilities of a service (service_runtime_capability.go)\<close>

definition normalize_runtime_capability_context ::
  "runtime_capability_context \<Rightarrow> runtime_capability_context" where
  "normalize_runtime_capability_context c =
     (let c1 = (if rx_type c = [] then c\<lparr>rx_type := rx_name c\<rparr> else c)
      in (if rx_config_key c1 = [] then c1\<lparr>rx_config_key := rx_name c1\<rparr> else c1))"

text \<open>
  The wrapper \<open>serviceLocalRuntimeCapability\<close>: it embeds the contract interface, so it has no
  status cell, and its name and metadata are computed from the contract's.
\<close>

definition service_local_metadata :: "string \<Rightarrow> rt_capability \<Rightarrow> capability_metadata" where
  "service_local_metadata ty c =
     (let m0 = cc_metadata c;
          m1 = (if cm_name m0 = [] then m0\<lparr>cm_name := cc_name c\<rparr> else m0);
          m2 = (if cm_group m1 = [] then m1\<lparr>cm_group := ty\<rparr> else m1)
      in m2\<lparr>cm_scope := ScopeServiceLocal\<rparr>)"

definition service_local_capability :: "string \<Rightarrow> rt_capability \<Rightarrow> rt_capability" where
  "service_local_capability ty c =
     c\<lparr>cc_name := cm_name (service_local_metadata ty c), cc_metadata := service_local_metadata ty c,
       cc_cell := None\<rparr>"

definition runtime_capabilities_for_service ::
  "'b service_registry option \<Rightarrow> runtime_capability_context \<Rightarrow> rt_capability option list" where
  "runtime_capabilities_for_service r ctx0 =
     (let ctx = normalize_runtime_capability_context ctx0 in
      case r of
        None \<Rightarrow> []
      | Some m \<Rightarrow>
          (case m (rx_type ctx) of
             None \<Rightarrow> []
           | Some reg \<Rightarrow>
               (case sd_capability_factory reg of
                  None \<Rightarrow> []
                | Some f \<Rightarrow> map (map_option (service_local_capability (rx_type ctx))) (f ctx))))"

section \<open>The builder (service_provider.go)\<close>

definition builder_start :: "string \<Rightarrow> 'b service_definition" where
  "builder_start ty =
     \<lparr>sd_type = ty, sd_kind = [], sd_group = [], sd_dependencies = [], sd_factory = None,
      sd_context_factory = None, sd_capability_factory = None\<rparr>"

definition builder_require :: "string list \<Rightarrow> 'b service_definition \<Rightarrow> 'b service_definition" where
  "builder_require names d = d\<lparr>sd_dependencies := sd_dependencies d @ require_capabilities names\<rparr>"

definition builder_optional :: "string list \<Rightarrow> 'b service_definition \<Rightarrow> 'b service_definition" where
  "builder_optional names d = d\<lparr>sd_dependencies := sd_dependencies d @ optional_capabilities names\<rparr>"

definition builder_factory ::
  "'b service_factory option \<Rightarrow> 'b service_definition \<Rightarrow> 'b service_registry \<Rightarrow>
     'b service_registry option" where
  "builder_factory f d r = register_service_definition (Some r) (d\<lparr>sd_factory := f\<rparr>)"

section \<open>Selection (service_runner.go)\<close>

record selection_item =
  se_config_file :: string
  se_name :: string
  se_type :: string
  se_config_key :: string
  se_kind :: string
  se_group :: string
  se_dependencies :: "dependency list"
  se_spec :: service_spec
  se_explicit :: bool

text \<open>The options of the runner that are functions of the program; \<open>None\<close> is a nil field.\<close>

record 'b runner_options =
  ro_load_specs :: "(string \<Rightarrow> rt_error + (string \<times> service_spec) list) option"
  ro_providers :: "('b service_registry \<Rightarrow> rt_error option \<times> 'b service_registry) option list"
  ro_capabilities :: "(selection_item list \<Rightarrow> rt_capability option list) option"
  ro_dependencies :: "(selection_item \<Rightarrow> dependency list) option"
  ro_group :: "(selection_item \<Rightarrow> string) option"
  ro_normalize_type :: "(string \<Rightarrow> string) option"
  ro_allow :: "(selection_item \<Rightarrow> bool) option"

definition normalize_type :: "'b runner_options \<Rightarrow> string \<Rightarrow> string" where
  "normalize_type opts ty = (case ro_normalize_type opts of None \<Rightarrow> ty | Some f \<Rightarrow> f ty)"

fun trimmed_names :: "string set \<Rightarrow> string list \<Rightarrow> string list" where
  "trimmed_names seen [] = []"
| "trimmed_names seen (n0 # ns) =
     (let n = trim_space n0 in
      if n = [] then trimmed_names seen ns
      else if n \<in> seen then trimmed_names seen ns
      else n # trimmed_names (insert n seen) ns)"

definition service_selection_names :: "(string \<times> service_spec) list \<Rightarrow> string list \<Rightarrow> string list" where
  "service_selection_names specs requested =
     (if requested \<noteq> [] then trimmed_names {} requested else sort (map fst specs))"

text \<open>\<open>RegisterProviders\<close>: each provider writes definitions into the registry.\<close>

fun register_service_providers ::
  "('b service_registry \<Rightarrow> rt_error option \<times> 'b service_registry) option list \<Rightarrow> 'b service_registry \<Rightarrow>
     rt_error option \<times> 'b service_registry" where
  "register_service_providers [] r = (None, r)"
| "register_service_providers (None # ps) r = register_service_providers ps r"
| "register_service_providers (Some f # ps) r =
     (let (e, r') = f r in
      case e of Some _ \<Rightarrow> (e, r') | None \<Rightarrow> register_service_providers ps r')"

text \<open>The body of the selection loop for one name: nothing, one item or an error.\<close>

definition select_one ::
  "'b runner_options \<Rightarrow> 'b service_registry \<Rightarrow> string \<Rightarrow> (string \<rightharpoonup> service_spec) \<Rightarrow> bool \<Rightarrow> string \<Rightarrow>
     rt_error + selection_item option" where
  "select_one opts r config_file specs explicit name =
     (case specs name of
        None \<Rightarrow> Inl (ErrNotFound KindProvider name)
      | Some spec \<Rightarrow>
          if \<not> explicit \<and> ss_enabled spec = Some False then Inr None
          else if ss_type spec = [] then Inl (ErrServiceTypeRequired name)
          else
            let ty = normalize_type opts (ss_type spec);
                item = \<lparr>se_config_file = config_file, se_name = name, se_type = ty,
                        se_config_key = resolve_config_key spec name, se_kind = [], se_group = [],
                        se_dependencies = [], se_spec = spec, se_explicit = explicit\<rparr>
            in if (case ro_allow opts of None \<Rightarrow> False | Some f \<Rightarrow> \<not> f item) then
                 (if explicit then Inl (ErrNotFound KindProvider name) else Inr None)
               else
                 (case service_kind (Some r) ty of
                    None \<Rightarrow> Inl (ErrUnsupportedServiceType ty)
                  | Some kind \<Rightarrow>
                      Inr (Some (item\<lparr>se_kind := kind, se_group := service_group (Some r) ty,
                                      se_dependencies := service_dependencies (Some r) ty\<rparr>))))"

fun select_items ::
  "(string \<Rightarrow> rt_error + selection_item option) \<Rightarrow> string list \<Rightarrow> rt_error + selection_item list" where
  "select_items f [] = Inr []"
| "select_items f (n # ns) =
     bindR (f n) (\<lambda>x. bindR (select_items f ns) (\<lambda>xs.
       Inr (case x of None \<Rightarrow> xs | Some i \<Rightarrow> i # xs)))"

definition select_services ::
  "'b runner_options \<Rightarrow> 'b service_registry \<Rightarrow> string \<Rightarrow> string list \<Rightarrow>
     rt_error + selection_item list \<times> 'b service_registry" where
  "select_services opts r0 config_file requested =
     (case register_service_providers (ro_providers opts) r0 of
        (Some e, _) \<Rightarrow> Inl e
      | (None, r) \<Rightarrow>
          (case ro_load_specs opts of
             None \<Rightarrow> Inl ErrServiceSpecLoaderRequired
           | Some load \<Rightarrow>
               bindR (load config_file) (\<lambda>specs.
               bindR (select_items (select_one opts r config_file (map_of specs) (requested \<noteq> []))
                        (service_selection_names specs requested))
                 (\<lambda>items. Inr (items, r)))))"

section \<open>The provider of one selected service\<close>

fun dedupe_deps :: "string set \<Rightarrow> dependency list \<Rightarrow> dependency list" where
  "dedupe_deps seen [] = []"
| "dedupe_deps seen (d # ds) =
     (if dep_name d = [] then d # dedupe_deps seen ds
      else if dep_name d \<in> seen then dedupe_deps seen ds
      else d # dedupe_deps (insert (dep_name d) seen) ds)"

definition dedupe_service_dependencies :: "dependency list \<Rightarrow> dependency list" where
  "dedupe_service_dependencies deps = dedupe_deps {} deps"

definition managed_capabilities ::
  "'b service_registry \<Rightarrow> selection_item \<Rightarrow> rt_capability option list" where
  "managed_capabilities r it =
     runtime_capabilities_for_service (Some r)
       (normalize_runtime_capability_context
          \<lparr>rx_config_file = se_config_file it, rx_name = se_name it, rx_type = se_type it,
           rx_config_key = se_config_key it\<rparr>)"

definition cap_option_name :: "rt_capability option \<Rightarrow> string" where
  "cap_option_name c = (case c of None \<Rightarrow> [] | Some x \<Rightarrow> capability_name x)"

definition managed_dependencies ::
  "'b runner_options \<Rightarrow> 'b service_registry \<Rightarrow> selection_item \<Rightarrow> dependency list" where
  "managed_dependencies opts r it =
     (let deps0 = (case ro_dependencies opts of None \<Rightarrow> [] | Some f \<Rightarrow> f it);
          own = map dep_require (filter (\<lambda>n. n \<noteq> []) (map cap_option_name (managed_capabilities r it)))
      in dedupe_service_dependencies (deps0 @ se_dependencies it @ own))"

definition managed_metadata :: "'b runner_options \<Rightarrow> selection_item \<Rightarrow> provider_metadata" where
  "managed_metadata opts it =
     (let group0 = (if se_group it = [] then se_type it else se_group it);
          group = (case ro_group opts of
                     None \<Rightarrow> group0
                   | Some f \<Rightarrow> (let g = f it in if g \<noteq> [] then g else group0))
      in \<lparr>pm_name = se_name it, pm_description = [], pm_group = group, pm_internal = False,
          pm_mode = ProviderModeService\<rparr>)"

text \<open>\<open>managedServiceProvider\<close> as a provider object; \<open>i\<close> is its identity.\<close>

definition managed_provider ::
  "'b runner_options \<Rightarrow> 'b service_registry \<Rightarrow> nat \<Rightarrow> selection_item \<Rightarrow> rt_provider" where
  "managed_provider opts r i it =
     \<lparr>pc_id = i, pc_name = se_name it, pc_metadata = managed_metadata opts it,
      pc_dependencies = managed_dependencies opts r it, pc_mode = None,
      pc_capabilities = Some (managed_capabilities r it), pc_managed = Some True, pc_cell = None\<rparr>"

definition runner_new_app ::
  "'b runner_options \<Rightarrow> 'b service_registry \<Rightarrow> string \<Rightarrow> string list \<Rightarrow> 'w \<Rightarrow> rt_error + 'w app" where
  "runner_new_app opts r0 config_file requested w =
     bindR (select_services opts r0 config_file requested) (\<lambda>(items, r).
       let app0 = new_app w;
           (e1, app1) = (case ro_capabilities opts of
                           None \<Rightarrow> (None, app0)
                         | Some f \<Rightarrow> app_register_capabilities (f items) app0)
       in case e1 of
            Some e \<Rightarrow> Inl e
          | None \<Rightarrow>
              let ps = map (\<lambda>(i, it). managed_provider opts r i it) (enumerate 0 items) in
              if ps = [] then Inr app1
              else
                (let (e2, app2) = app_register_providers (map Some ps) app1
                 in case e2 of Some e \<Rightarrow> Inl e | None \<Rightarrow> Inr app2))"

text \<open>
  \<open>Start\<close> of the provider: not registered is an error; a disabled service waits for the end of
  the context and returns nil; an error of a service that is the context's own error (as
  \<open>errors.Is\<close> finds it) is nil.
\<close>

fun errors_is :: "rt_error \<Rightarrow> rt_error \<Rightarrow> bool" where
  "errors_is (JoinedErr es) t = (JoinedErr es = t \<or> (\<exists>e\<in>set es. errors_is e t))"
| "errors_is e t = (e = t)"

definition managed_start ::
  "string \<Rightarrow> service option \<Rightarrow> rt_error go_ctx \<Rightarrow> rt_error option \<Rightarrow> rt_error option" where
  "managed_start name svc ctx result =
     (case svc of
        None \<Rightarrow> Some (ErrServiceNotRegistered name)
      | Some s \<Rightarrow>
          if \<not> si_enabled (service_info_of s) then None
          else
            (case (result, ctx_err ctx) of
               (Some e, Some ce) \<Rightarrow> if errors_is e ce then None else Some e
             | (r, _) \<Rightarrow> r))"

section \<open>Capability infos\<close>

record runtime_capability_info =
  ri_name :: string
  ri_group :: string
  ri_scope :: string
  ri_internal :: bool

definition runtime_capability_info_for :: "rt_capability option \<Rightarrow> runtime_capability_info option" where
  "runtime_capability_info_for c =
     (case c of
        None \<Rightarrow> None
      | Some x \<Rightarrow>
          let m = cc_metadata x;
              name = (if cm_name m = [] then cc_name x else cm_name m)
          in if name = [] then None
             else Some \<lparr>ri_name = name, ri_group = cm_group m,
                        ri_scope = (if cm_scope m = [] then ScopeGlobal else cm_scope m),
                        ri_internal = cm_internal m\<rparr>)"

definition runtime_capability_infos :: "'w app option \<Rightarrow> runtime_capability_info list" where
  "runtime_capability_infos a =
     (case a of
        None \<Rightarrow> []
      | Some x \<Rightarrow> List.map_filter (\<lambda>c. runtime_capability_info_for (Some c)) (app_capabilities x))"

fun local_info_names :: "string \<Rightarrow> string set \<Rightarrow> rt_capability option list \<Rightarrow> string list" where
  "local_info_names service seen [] = []"
| "local_info_names service seen (c # cs) =
     (case runtime_capability_info_for c of
        None \<Rightarrow> local_info_names service seen cs
      | Some info \<Rightarrow>
          if ri_scope info \<noteq> ScopeServiceLocal then local_info_names service seen cs
          else
            let name = trim_service_capability_name service (ri_name info) in
            if name = [] then local_info_names service seen cs
            else if name \<in> seen then local_info_names service seen cs
            else name # local_info_names service (insert name seen) cs)"

definition service_runtime_capability_names :: "string \<Rightarrow> rt_capability option list \<Rightarrow> string list" where
  "service_runtime_capability_names service cs = local_info_names service {} cs"


section \<open>Registering the provider of a service\<close>

definition resolve_service_spec ::
  "(string \<Rightarrow> string \<Rightarrow> rt_error + service_spec) option \<Rightarrow>
     (string \<Rightarrow> rt_error + (string \<times> service_spec) list) option \<Rightarrow> string \<Rightarrow> string \<Rightarrow>
     rt_error + service_spec" where
  "resolve_service_spec resolve load config_file name =
     (if name = [] then Inr zero_service_spec
      else (case resolve of
              Some f \<Rightarrow> f config_file name
            | None \<Rightarrow>
                (case load of
                   None \<Rightarrow> Inl ErrServiceSpecLoaderRequired
                 | Some l \<Rightarrow> bindR (l config_file) (\<lambda>specs.
                     Inr (case map_of specs name of None \<Rightarrow> zero_service_spec | Some s \<Rightarrow> s)))))"

definition resolve_service_config_key ::
  "(string \<Rightarrow> string \<Rightarrow> rt_error + service_spec) option \<Rightarrow>
     (string \<Rightarrow> rt_error + (string \<times> service_spec) list) option \<Rightarrow> string \<Rightarrow> string \<Rightarrow>
     rt_error + string" where
  "resolve_service_config_key resolve load config_file name =
     (if name = [] then Inr []
      else bindR (resolve_service_spec resolve load config_file name)
             (\<lambda>spec. Inr (resolve_config_key spec name)))"

text \<open>
  \<open>serviceCapabilities(app)\<close>: the registry the service sees, filled with the instances its
  capabilities have bound in the container.
\<close>

fun fill_service_capabilities ::
  "(string \<rightharpoonup> nat) \<Rightarrow> rt_capability option list \<Rightarrow> local_registry \<Rightarrow> local_registry" where
  "fill_service_capabilities container [] r = r"
| "fill_service_capabilities container (c # cs) r =
     (let name = cap_option_name c in
      if name = [] then fill_service_capabilities container cs r
      else (case container_get (Some container) name of
              Some v \<Rightarrow> fill_service_capabilities container cs (lr_set name (Some v) r)
            | None \<Rightarrow> fill_service_capabilities container cs (lr_add_name name r)))"

definition managed_register ::
  "(string \<Rightarrow> string \<Rightarrow> rt_error + service_spec) option \<Rightarrow> 'b runner_options \<Rightarrow> 'b service_registry \<Rightarrow>
     'b \<Rightarrow> (string \<rightharpoonup> nat) \<Rightarrow> selection_item \<Rightarrow> rt_error + service" where
  "managed_register resolve opts r base container it =
     bindR (resolve_service_config_key resolve (ro_load_specs opts) (se_config_file it) (se_name it))
       (\<lambda>key. build_service_with_capabilities (Some r) (se_config_file it) (se_name it) (se_type it) key base
                (Some (fill_service_capabilities container (managed_capabilities r it) new_local_registry)))"

section \<open>Lemmas\<close>

lemma trimmed_names_props:
  "distinct (trimmed_names seen ns) \<and> set (trimmed_names seen ns) = trim_space ` set ns - seen - {[]}"
proof (induction ns arbitrary: seen)
  case (Cons n ns)
  show ?case
    using Cons.IH [of seen] Cons.IH [of "insert (trim_space n) seen"] by (auto simp: Let_def)
qed simp

lemma select_one_Some:
  assumes "select_one opts r config_file specs explicit name = Inr (Some it)"
  shows "se_name it = name \<and> se_type it \<in> dom r \<and> se_type it \<noteq> [] \<and> specs name = Some (se_spec it) \<and>
    (explicit \<or> ss_enabled (se_spec it) \<noteq> Some False)"
  using assms
  by (auto simp: select_one_def service_kind_def Let_def split: option.splits if_splits)

lemma select_one_explicit: "select_one opts r config_file specs True name \<noteq> Inr None"
  by (auto simp: select_one_def Let_def split: option.splits if_splits)

lemma select_items_explicit:
  "select_items (select_one opts r config_file specs True) ns = Inr items \<Longrightarrow> map se_name items = ns"
  by (induction ns arbitrary: items)
    (auto simp: bindR_Inr_iff select_one_explicit split: option.splits dest: select_one_Some)

lemma select_items_names:
  "select_items (select_one opts r config_file specs explicit) ns = Inr items \<Longrightarrow>
   (\<exists>keep. map se_name items = filter keep ns \<and> (\<forall>it\<in>set items.
      se_type it \<in> dom r \<and> specs (se_name it) = Some (se_spec it) \<and>
      (explicit \<or> ss_enabled (se_spec it) \<noteq> Some False)))"
proof -
  assume sel: "select_items (select_one opts r config_file specs explicit) ns = Inr items"
  let ?keep = "\<lambda>n. select_one opts r config_file specs explicit n \<noteq> Inr None"
  have "map se_name items = filter ?keep ns \<and> (\<forall>it\<in>set items.
      se_type it \<in> dom r \<and> specs (se_name it) = Some (se_spec it) \<and>
      (explicit \<or> ss_enabled (se_spec it) \<noteq> Some False))"
    using sel
  proof (induction ns arbitrary: items)
    case (Cons n ns)
    then obtain x xs where x: "select_one opts r config_file specs explicit n = Inr x"
      "select_items (select_one opts r config_file specs explicit) ns = Inr xs"
      "items = (case x of None \<Rightarrow> xs | Some i \<Rightarrow> i # xs)"
      by (auto simp: bindR_Inr_iff)
    with Cons.IH [OF x(2)] select_one_Some [of opts r config_file specs explicit n]
    show ?case by (cases x) auto
  qed simp
  then show ?thesis by blast
qed

lemma dedupe_deps_props:
  "distinct (filter (\<lambda>n. n \<noteq> []) (map dep_name (dedupe_deps seen ds))) \<and>
   dep_name ` set (dedupe_deps seen ds) - {[]} = dep_name ` set ds - seen - {[]}"
proof (induction ds arbitrary: seen)
  case (Cons d ds)
  show ?case
    using Cons.IH [of seen] Cons.IH [of "insert (dep_name d) seen"] by auto
qed simp

lemma managed_provider_name [simp]:
  "provider_name (managed_provider opts r i it) = se_name it"
  by (simp add: provider_name_def provider_metadata_of_def managed_provider_def managed_metadata_def Let_def)

lemma managed_provider_mode [simp]:
  "provider_mode (managed_provider opts r i it) = ProviderModeService"
  by (simp add: provider_mode_def managed_provider_def managed_metadata_def normalize_provider_mode_def Let_def)

text \<open>What a service provider promises of its dependencies.\<close>

definition owns_capabilities :: "rt_provider \<Rightarrow> bool" where
  "owns_capabilities p \<longleftrightarrow>
     distinct (filter (\<lambda>n. n \<noteq> []) (map dep_name (pc_dependencies p))) \<and>
     (\<forall>c. Some c \<in> set (provider_runtime_capabilities p) \<longrightarrow> capability_name c \<noteq> [] \<longrightarrow>
        capability_name c \<in> dep_name ` set (pc_dependencies p))"

lemma managed_owns_capabilities: "owns_capabilities (managed_provider opts r i it)"
proof -
  let ?own = "map dep_require (filter (\<lambda>n. n \<noteq> []) (map cap_option_name (managed_capabilities r it)))"
  define pre where "pre = (case ro_dependencies opts of None \<Rightarrow> [] | Some f \<Rightarrow> f it) @ se_dependencies it"
  have deps: "managed_dependencies opts r it = dedupe_deps {} (pre @ ?own)"
    by (simp add: pre_def managed_dependencies_def dedupe_service_dependencies_def Let_def)
  note props = dedupe_deps_props [of "{}" "pre @ ?own"]
  have "capability_name c \<in> dep_name ` set (managed_dependencies opts r it)"
    if "Some c \<in> set (managed_capabilities r it)" "capability_name c \<noteq> []" for c
  proof -
    have "cap_option_name (Some c) = capability_name c" by (simp add: cap_option_name_def)
    with that have "dep_require (capability_name c) \<in> set (pre @ ?own)"
      by (auto simp: image_iff intro!: bexI [of _ "Some c"])
    then have "dep_name (dep_require (capability_name c)) \<in> dep_name ` set (pre @ ?own)" by (rule imageI)
    then have "capability_name c \<in> dep_name ` set (pre @ ?own) - {} - {[]}"
      using that(2) by (simp add: dep_require_def)
    with props show ?thesis unfolding deps by blast
  qed
  with props deps show ?thesis
    by (simp add: owns_capabilities_def managed_provider_def provider_runtime_capabilities_def)
qed

lemma owns_capabilities_wrapped [simp]:
  "owns_capabilities (fst (new_runtime_provider p n)) = owns_capabilities p"
  by (simp add: owns_capabilities_def)

lemma register_capabilities_keeps_providers:
  "reg_providers (ap_registry (snd (app_register_capabilities cs a))) = reg_providers (ap_registry a)"
  by (metis app_register_capabilities_frame prod.collapse)

lemma register_on_empty:
  assumes "app_register_providers (map Some ps) a = (None, b)" "reg_providers (ap_registry a) = empty_shelf"
  shows "map provider_name (app_providers b) = map provider_name ps \<and>
    list_all2 (\<lambda>x y. \<exists>c. y = fst (new_runtime_provider x c)) ps (app_providers b)"
proof -
  from assms obtain s n where s: "register_batch KindProvider check_provider provider_name
      provider_metadata_of new_runtime_provider empty_shelf (ap_next_cell a) (map Some ps) = Inr (s, n)"
    "app_providers b = sh_items s"
    by (auto simp: app_register_providers_def register_providers_def bindR_Inr_iff app_providers_def
        all_providers_def split: sum.splits)
  from s(1) shelf_ok_empty show ?thesis
    by (rule prov_shelf.register_batch_InrE) (use s(2) in \<open>simp add: empty_shelf_def inj_map_eq_map\<close>)
qed

section \<open>Properties\<close>

text \<open>
  A run that names its services gets exactly those: the selected items are the requested
  names, trimmed, without blanks and repetitions, in the order asked for; every one is
  configured with a type that is registered.  (A requested service that is not configured, not
  allowed or of unknown type is an error, never dropped; one disabled in the configuration is
  still selected.)
\<close>

theorem explicit_selection_exact:
  assumes "select_services opts r0 config_file requested = Inr (items, r)" "requested \<noteq> []"
  shows "map se_name items = trimmed_names {} requested \<and> distinct (map se_name items) \<and>
    set (map se_name items) = trim_space ` set requested - {[]} \<and>
    (\<forall>it\<in>set items. se_type it \<in> dom r)"
proof -
  from assms obtain specs where sel:
    "select_items (select_one opts r config_file (map_of specs) True) (trimmed_names {} requested) = Inr items"
    by (auto simp: select_services_def bindR_Inr_iff service_selection_names_def
        split: prod.splits option.splits)
  from select_items_explicit [OF sel] select_items_names [OF sel]
    trimmed_names_props [of "{}" requested]
  show ?thesis by auto
qed

definition sample_spec :: service_spec where
  "sample_spec = \<lparr>ss_type = ''http'', ss_enabled = Some False, ss_config_key = []\<rparr>"

definition sample_options :: "unit runner_options" where
  "sample_options =
     \<lparr>ro_load_specs = Some (\<lambda>_. Inr [(''api'', sample_spec), (''admin'', sample_spec)]),
      ro_providers = [Some (\<lambda>r. (None, r(''http'' \<mapsto> (builder_start ''http'')
                                 \<lparr>sd_dependencies := [dep_require ''db'']\<rparr>)))],
      ro_capabilities = None, ro_dependencies = None, ro_group = None, ro_normalize_type = None,
      ro_allow = None\<rparr>"

lemma trim_api [simp]: "trim_space ''api'' = ''api''"
  by (rule trim_space_printable) simp

theorem explicit_selection_exact_witness:
  "\<exists>items r. select_services sample_options Map.empty ''app.yaml'' [''api'', ''api''] = Inr (items, r) \<and>
     map se_name items = [''api'']"
proof -
  have "\<exists>items r. select_services sample_options Map.empty ''app.yaml'' [''api'', ''api''] = Inr (items, r)"
    by (simp add: select_services_def sample_options_def service_selection_names_def select_one_def
        sample_spec_def normalize_type_def service_kind_def Let_def)
  then obtain items r where run:
    "select_services sample_options Map.empty ''app.yaml'' [''api'', ''api''] = Inr (items, r)" by blast
  have "[''api'', ''api''] \<noteq> []" by simp
  from explicit_selection_exact [OF run this] have "map se_name items = [''api'']" by simp
  with run show ?thesis by (intro exI conjI)
qed

text \<open>
  The application a runner builds has exactly the selected services as its providers, in
  service mode; no provider names a dependency twice, and every capability that a service
  brings along is one of its dependencies.
\<close>

theorem runner_app_providers:
  assumes "runner_new_app opts r0 config_file requested w = Inr app"
    and "select_services opts r0 config_file requested = Inr (items, r)"
  shows "map provider_name (app_providers app) = map se_name items \<and>
    (\<forall>p\<in>set (app_providers app). provider_mode p = ProviderModeService \<and> owns_capabilities p)"
proof -
  define ps where "ps = map (\<lambda>(i, it). managed_provider opts r i it) (enumerate 0 items)"
  obtain a where a: "if ps = [] then app = a else app_register_providers (map Some ps) a = (None, app)"
    "reg_providers (ap_registry a) = empty_shelf"
  proof -
    define e1 where "e1 = (case ro_capabilities opts of None \<Rightarrow> (None, new_app w)
       | Some f \<Rightarrow> app_register_capabilities (f items) (new_app w))"
    have "reg_providers (ap_registry (snd e1)) = empty_shelf"
      by (simp add: e1_def register_capabilities_keeps_providers split: option.split)
        (simp add: new_app_def new_rt_registry_def)
    moreover have "if ps = [] then app = snd e1 else app_register_providers (map Some ps) (snd e1) = (None, app)"
      using assms by (auto simp: runner_new_app_def e1_def [symmetric] ps_def [symmetric]
          split: prod.splits option.splits if_splits)
    ultimately show ?thesis using that by blast
  qed
  have names: "map provider_name ps = map se_name items"
    by (rule nth_equalityI) (simp_all add: ps_def nth_enumerate_eq)
  have good: "\<forall>p\<in>set ps. provider_mode p = ProviderModeService \<and> owns_capabilities p"
    by (auto simp: ps_def managed_owns_capabilities)
  show ?thesis
  proof (cases "ps = []")
    case True
    with a names show ?thesis by (simp add: app_providers_def all_providers_def empty_shelf_def)
  next
    case False
    with a(1) have "app_register_providers (map Some ps) a = (None, app)" by simp
    note reg = register_on_empty [OF this a(2)]
    have "provider_mode q = ProviderModeService \<and> owns_capabilities q" if "q \<in> set (app_providers app)" for q
    proof -
      from reg that obtain x c where "x \<in> set ps" "q = fst (new_runtime_provider x c)"
        by (auto simp: list_all2_conv_all_nth in_set_conv_nth) metis
      with good show ?thesis by simp
    qed
    with reg names show ?thesis by simp
  qed
qed

theorem runner_app_providers_witness:
  "\<exists>app. runner_new_app sample_options Map.empty ''app.yaml'' [''api''] () = Inr app \<and>
     map provider_name (app_providers app) = [''api'']"
proof -
  have "case runner_new_app sample_options Map.empty ''app.yaml'' [''api''] () of Inl _ \<Rightarrow> False | Inr _ \<Rightarrow> True"
    by code_simp
  then obtain app where app: "runner_new_app sample_options Map.empty ''app.yaml'' [''api''] () = Inr app"
    by (auto split: sum.splits)
  have "case select_services sample_options Map.empty ''app.yaml'' [''api''] of
      Inl _ \<Rightarrow> False | Inr (items, _) \<Rightarrow> map se_name items = [''api'']"
    by code_simp
  then obtain items r where sel: "select_services sample_options Map.empty ''app.yaml'' [''api''] = Inr (items, r)"
    "map se_name items = [''api'']"
    by (auto split: sum.splits prod.splits)
  from runner_app_providers [OF app sel(1)] sel(2) app show ?thesis by auto
qed

end
