(* ===== verification/Rate_Limit.thy ===== *)
theory Rate_Limit
  imports Prelude "HOL-Library.Signed_Division"
begin

text \<open>
  \<^verbatim>\<open>pkg/ratelimit\<close>: the in-memory store (\<open>store/memory.go\<close>), the strategies (fixed window,
  sliding window, token bucket, leaky bucket, BBR) and the per-key wrapper (\<open>limiter.go\<close>).

  The clock is an argument, in nanoseconds; \<open>float64\<close> values are rationals (rounding is not
  modelled); the limiter of \<^verbatim>\<open>golang.org/x/time/rate\<close> is a parameter \<open>'l\<close> with its
  constructor, \<open>AllowN(now, 1)\<close> and the test \<open>Tokens() >= Burst()\<close>.  Counts are \<open>int\<close>.
\<close>

section \<open>The memory store (store/memory.go)\<close>

record counter_slot =
  ct_count :: int
  ct_window :: int

record 'l memory_store =
  ms_counters :: "string \<rightharpoonup> counter_slot"
  ms_windows :: "string \<rightharpoonup> int list"
  ms_tokens :: "string \<rightharpoonup> 'l"

definition new_memory_store :: "'l memory_store" where
  "new_memory_store = \<lparr>ms_counters = Map.empty, ms_windows = Map.empty, ms_tokens = Map.empty\<rparr>"

text \<open>\<open>time.Now().UnixNano() / int64(ttl)\<close> truncates toward zero (and panics for 0).\<close>

definition window_index :: "int \<Rightarrow> int \<Rightarrow> int" where
  "window_index now ttl = now sdiv ttl"

definition counter_context ::
  "int \<Rightarrow> string \<Rightarrow> int \<Rightarrow> int \<Rightarrow> 'l memory_store \<Rightarrow> int \<times> 'l memory_store" where
  "counter_context now key n ttl s =
     (let cur = window_index now ttl in
      case ms_counters s key of
        None \<Rightarrow> (n, s\<lparr>ms_counters := (ms_counters s)(key \<mapsto> \<lparr>ct_count = n, ct_window = cur\<rparr>)\<rparr>)
      | Some slot \<Rightarrow>
          if ct_window slot \<noteq> cur
          then (n, s\<lparr>ms_counters := (ms_counters s)(key \<mapsto> \<lparr>ct_count = n, ct_window = cur\<rparr>)\<rparr>)
          else
            let c = ct_count slot + n in
            (c, s\<lparr>ms_counters := (ms_counters s)(key \<mapsto> slot\<lparr>ct_count := c\<rparr>)\<rparr>))"


definition take_token_context ::
  "(rat \<Rightarrow> int \<Rightarrow> 'l) \<Rightarrow> (int \<Rightarrow> 'l \<Rightarrow> bool \<times> 'l) \<Rightarrow> int \<Rightarrow> string \<Rightarrow> rat \<Rightarrow> int \<Rightarrow> 'l memory_store \<Rightarrow>
     bool \<times> 'l memory_store" where
  "take_token_context new_limiter allow1 now key rate burst s =
     (let l = (case ms_tokens s key of None \<Rightarrow> new_limiter rate burst | Some l \<Rightarrow> l);
          (ok, l') = allow1 now l
      in (ok, s\<lparr>ms_tokens := (ms_tokens s)(key \<mapsto> l')\<rparr>))"

definition store_cleanup :: "('l \<Rightarrow> bool) \<Rightarrow> int \<Rightarrow> 'l memory_store \<Rightarrow> 'l memory_store" where
  "store_cleanup full now s =
     (let cutoff = now - 3600 * 10 ^ 9 in
      s\<lparr>ms_counters := (\<lambda>k. case ms_counters s k of
            None \<Rightarrow> None
          | Some slot \<Rightarrow> if ct_window slot < now sdiv 10 ^ 9 - 10 then None else Some slot),
        ms_tokens := (\<lambda>k. case ms_tokens s k of
            None \<Rightarrow> None | Some l \<Rightarrow> if full l then None else Some l),
        ms_windows := (\<lambda>k. case ms_windows s k of
            None \<Rightarrow> None
          | Some xs \<Rightarrow> if xs = [] then None else if last xs < cutoff then None else Some xs)\<rparr>)"

section \<open>Strategies\<close>

text \<open>fixed_window.go and sliding_window.go: the calls count whether they are admitted or not.\<close>

definition fixed_allow_n ::
  "int \<Rightarrow> int \<Rightarrow> int \<Rightarrow> string \<Rightarrow> int \<Rightarrow> 'l memory_store \<Rightarrow> bool \<times> 'l memory_store" where
  "fixed_allow_n window limit now key n s =
     (let (count, s') = counter_context now key n window s in (count \<le> limit, s'))"


text \<open>token_bucket.go: one token at a time, up to the first that is refused.\<close>

fun token_allow_n ::
  "('s \<Rightarrow> bool \<times> 's) \<Rightarrow> nat \<Rightarrow> 's \<Rightarrow> bool \<times> 's" where
  "token_allow_n take1 0 s = (True, s)"
| "token_allow_n take1 (Suc n) s =
     (let (ok, s') = take1 s in if \<not> ok then (False, s') else token_allow_n take1 n s')"

text \<open>leaky_bucket.go.\<close>

record leaky_slot =
  ls_last :: int
  ls_drop :: rat

definition leaky_allow_n ::
  "rat \<Rightarrow> int \<Rightarrow> int \<Rightarrow> string \<Rightarrow> int \<Rightarrow> (string \<rightharpoonup> leaky_slot) \<Rightarrow> bool \<times> (string \<rightharpoonup> leaky_slot)" where
  "leaky_allow_n rate capacity now key n slots =
     (let slot = (case slots key of None \<Rightarrow> \<lparr>ls_last = now, ls_drop = 0\<rparr> | Some s \<Rightarrow> s);
          elapsed = of_int (now - ls_last slot) / 10 ^ 9;
          d0 = ls_drop slot - elapsed * rate;
          d = (if d0 < 0 then 0 else d0)
      in if d + of_int n > of_int capacity
         then (False, slots(key \<mapsto> \<lparr>ls_last = now, ls_drop = d\<rparr>))
         else (True, slots(key \<mapsto> \<lparr>ls_last = now, ls_drop = d + of_int n\<rparr>)))"

text \<open>bbr.go: admission, the \<open>done\<close> callback and the tick that samples and decays the maximum.\<close>

record bbr =
  bb_cpu_threshold :: int
  bb_decay :: rat
  bb_in_flight :: int
  bb_max_in_flight :: int
  bb_prev_drop :: int

definition new_bbr :: bbr where
  "new_bbr = \<lparr>bb_cpu_threshold = 800, bb_decay = 95 / 100, bb_in_flight = 0,
              bb_max_in_flight = 0, bb_prev_drop = 0\<rparr>"

definition bbr_allow :: "int \<Rightarrow> int \<Rightarrow> bbr \<Rightarrow> bool \<times> bbr" where
  "bbr_allow cpu now b0 =
     (let in_flight = bb_in_flight b0 + 1;
          b1 = b0\<lparr>bb_in_flight := in_flight\<rparr>;
          b2 = (if bb_max_in_flight b1 = 0 then b1\<lparr>bb_max_in_flight := in_flight\<rparr> else b1);
          mx = bb_max_in_flight b2;
          drop_it = (if cpu > bb_cpu_threshold b2 then in_flight > mx
                     else bb_prev_drop b2 > 0 \<and> now - bb_prev_drop b2 < 10 ^ 9 \<and> in_flight > mx)
      in if drop_it then (False, b2\<lparr>bb_in_flight := bb_in_flight b2 - 1, bb_prev_drop := now\<rparr>)
         else (True, if cpu \<le> bb_cpu_threshold b2 \<and> in_flight > mx
                     then b2\<lparr>bb_max_in_flight := in_flight\<rparr> else b2))"

definition bbr_done :: "bbr \<Rightarrow> bbr" where
  "bbr_done b = b\<lparr>bb_in_flight := bb_in_flight b - 1\<rparr>"

definition bbr_tick :: "bbr \<Rightarrow> bbr" where
  "bbr_tick b =
     (let in_flight = bb_in_flight b; old = bb_max_in_flight b in
      if old = 0 then (if in_flight > 0 then b\<lparr>bb_max_in_flight := in_flight\<rparr> else b)
      else if in_flight > old then b\<lparr>bb_max_in_flight := in_flight\<rparr>
      else
        let decayed = \<lfloor>of_int old * bb_decay b\<rfloor> in
        b\<lparr>bb_max_in_flight := (if decayed < 1 then 1 else decayed)\<rparr>)"

text \<open>
  limiter.go: \<open>PerKey\<close> keeps one limiter per key, made by \<open>inner\<close> on the first call (the lookup
  and the installation, two critical sections of the code, are one step here).
\<close>

definition per_key_allow_n ::
  "'l \<Rightarrow> (int \<Rightarrow> 'l \<Rightarrow> bool \<times> 'l) \<Rightarrow> string \<Rightarrow> int \<Rightarrow> (string \<rightharpoonup> 'l) \<Rightarrow> bool \<times> (string \<rightharpoonup> 'l)" where
  "per_key_allow_n inner allow key n limiters =
     (let l = (case limiters key of None \<Rightarrow> inner | Some l \<Rightarrow> l);
          (ok, l') = allow n l
      in (ok, limiters(key \<mapsto> l')))"

section \<open>Runs of requests on one key\<close>

text \<open>The log of a run: time, weight and verdict of every call.\<close>

type_synonym req_log = "(int \<times> int \<times> bool) list"

definition run_step ::
  "(int \<Rightarrow> int \<Rightarrow> 's \<Rightarrow> bool \<times> 's) \<Rightarrow> 's \<times> req_log \<Rightarrow> int \<times> int \<Rightarrow> 's \<times> req_log" where
  "run_step allow sl r =
     (let (ok, s') = allow (fst r) (snd r) (fst sl) in (s', snd sl @ [(fst r, snd r, ok)]))"

definition run_requests ::
  "(int \<Rightarrow> int \<Rightarrow> 's \<Rightarrow> bool \<times> 's) \<Rightarrow> 's \<Rightarrow> (int \<times> int) list \<Rightarrow> 's \<times> req_log" where
  "run_requests allow s rs = foldl (run_step allow) (s, []) rs"

definition admitted :: "(int \<Rightarrow> bool) \<Rightarrow> req_log \<Rightarrow> int" where
  "admitted P lg = sum_list (map (\<lambda>(t, n, ok). if ok \<and> P t then n else 0) lg)"

definition demanded :: "(int \<Rightarrow> bool) \<Rightarrow> req_log \<Rightarrow> int" where
  "demanded P lg = sum_list (map (\<lambda>(t, n, ok). if P t then n else 0) lg)"

text \<open>Requests with weights that are not negative and a clock that does not go back.\<close>

definition requests_ok :: "(int \<times> int) list \<Rightarrow> bool" where
  "requests_ok rs \<longleftrightarrow> sorted (map fst rs) \<and> (\<forall>r\<in>set rs. 0 \<le> snd r)"

lemma requests_ok_snoc:
  "requests_ok (rs @ [(t, n)]) \<longleftrightarrow> requests_ok rs \<and> 0 \<le> n \<and> (\<forall>r\<in>set rs. fst r \<le> t)"
  by (auto simp: requests_ok_def sorted_append)

lemma run_requests_snoc:
  "run_requests allow s (rs @ [(t, n)]) =
     (let (s1, lg) = run_requests allow s rs; (ok, s2) = allow t n s1 in (s2, lg @ [(t, n, ok)]))"
  by (simp add: run_requests_def run_step_def Let_def split: prod.split)

lemma run_requests_snocE:
  assumes "run_requests allow s (rs @ [(t, n)]) = (s', lg)" "run_requests allow s rs = (s1, lg1)"
  obtains ok where "allow t n s1 = (ok, s')" "lg = lg1 @ [(t, n, ok)]"
  using assms by (auto simp: run_requests_snoc Let_def split: prod.splits)

lemma run_requests_Nil [simp]: "run_requests allow s [] = (s, [])"
  by (simp add: run_requests_def)

lemma run_requests_log: "map (\<lambda>(t, n, ok). (t, n)) (snd (run_requests allow s rs)) = rs"
proof (induction rs rule: rev_induct)
  case (snoc r rs)
  then show ?case
    by (cases r) (auto simp: run_requests_snoc Let_def split: prod.split)
qed simp

lemma admitted_snoc [simp]:
  "admitted P [] = 0"
  "admitted P (lg @ [(t, n, ok)]) = admitted P lg + (if ok \<and> P t then n else 0)"
  by (simp_all add: admitted_def)

lemma demanded_snoc [simp]:
  "demanded P [] = 0"
  "demanded P (lg @ [(t, n, ok)]) = demanded P lg + (if P t then n else 0)"
  by (simp_all add: demanded_def)

lemma admitted_le_demanded:
  "\<forall>x\<in>set lg. 0 \<le> fst (snd x) \<Longrightarrow> admitted P lg \<le> demanded P lg"
  by (induction lg) (auto simp: admitted_def demanded_def)

lemma demanded_none: "\<forall>x\<in>set lg. \<not> P (fst x) \<Longrightarrow> demanded P lg = 0"
  by (induction lg) (auto simp: demanded_def)

subsection \<open>Fixed window\<close>

lemma window_index_mono: "0 < ttl \<Longrightarrow> s \<le> t \<Longrightarrow> window_index s ttl \<le> window_index t ttl"
proof -
  assume ttl: "0 < ttl" and le: "s \<le> t"
  have eq: "window_index x ttl = (if 0 \<le> x then x div ttl else - ((- x) div ttl))" for x
    using ttl by (auto simp: window_index_def signed_divide_int_def sgn_if)
  show ?thesis
  proof (cases "0 \<le> s")
    case True
    with le ttl show ?thesis by (simp add: eq zdiv_mono1)
  next
    case neg: False
    show ?thesis
    proof (cases "0 \<le> t")
      case True
      have "0 \<le> (- s) div ttl" "0 \<le> t div ttl" using neg True ttl by (simp_all add: pos_imp_zdiv_nonneg_iff)
      with neg True show ?thesis by (simp add: eq)
    next
      case False
      have "(- t) div ttl \<le> (- s) div ttl" using le ttl by (intro zdiv_mono1) simp_all
      with neg False show ?thesis by (simp add: eq)
    qed
  qed
qed

lemma log_times:
  assumes "run_requests allow s rs = (s', lg)" "requests_ok rs"
  shows "fst ` set lg = fst ` set rs" "\<forall>x\<in>set lg. 0 \<le> fst (snd x)"
proof -
  have eq: "map (\<lambda>(t, n, ok). (t, n)) lg = rs" using run_requests_log [of allow s rs] assms(1) by simp
  have "fst ` set rs = fst ` set (map (\<lambda>(t, n, ok). (t, n)) lg)" by (simp only: eq)
  then show "fst ` set lg = fst ` set rs" by (force simp: image_iff)
  show "\<forall>x\<in>set lg. 0 \<le> fst (snd x)"
  proof
    fix x assume "x \<in> set lg"
    then have "(fst x, fst (snd x)) \<in> set (map (\<lambda>(t, n, ok). (t, n)) lg)" by (force simp: split_beta)
    with assms(2) show "0 \<le> fst (snd x)" unfolding eq requests_ok_def by fastforce
  qed
qed

lemma fixed_window_inv:
  assumes "0 < ttl" "0 \<le> limit" "ms_counters s key = None"
  shows "requests_ok rs \<Longrightarrow> run_requests (\<lambda>t n. fixed_allow_n ttl limit t key n) s rs = (s', lg) \<Longrightarrow>
    (if rs = [] then ms_counters s' key = None
     else ms_counters s' key = Some
       \<lparr>ct_count = demanded (\<lambda>t. window_index t ttl = window_index (fst (last rs)) ttl) lg,
        ct_window = window_index (fst (last rs)) ttl\<rparr>) \<and>
    (\<forall>w. admitted (\<lambda>t. window_index t ttl = w) lg \<le> limit)"
proof (induction rs arbitrary: s' lg rule: rev_induct)
  case Nil
  with assms show ?case by simp
next
  case (snoc r rs)
  obtain t n where r: "r = (t, n)" by (cases r)
  obtain s1 lg1 where run: "run_requests (\<lambda>t n. fixed_allow_n ttl limit t key n) s rs = (s1, lg1)"
    by fastforce
  have ok: "requests_ok rs" "0 \<le> n" "\<forall>x\<in>set rs. fst x \<le> t"
    using snoc.prems(1) by (simp_all add: r requests_ok_snoc)
  note IH = snoc.IH [OF ok(1) run] and lg = log_times [OF run ok(1)]
  let ?cur = "window_index t ttl"
  let ?P = "\<lambda>w t. window_index t ttl = w"
  obtain c where c: "counter_context t key n ttl s1 = (c, s')" "lg = lg1 @ [(t, n, c \<le> limit)]"
    by (rule run_requests_snocE [OF snoc.prems(2) [unfolded r] run])
      (auto simp: fixed_allow_n_def split: prod.splits)
  have slot: "ms_counters s' key = Some \<lparr>ct_count = c, ct_window = ?cur\<rparr> \<and> c = demanded (?P ?cur) lg1 + n"
  proof (cases "rs = []")
    case True
    with IH run c(1) show ?thesis by (auto simp: counter_context_def Let_def)
  next
    case False
    let ?w0 = "window_index (fst (last rs)) ttl"
    have s1: "ms_counters s1 key = Some \<lparr>ct_count = demanded (?P ?w0) lg1, ct_window = ?w0\<rparr>"
      using IH False by simp
    show ?thesis
    proof (cases "?w0 = ?cur")
      case True
      with s1 c(1) show ?thesis by (auto simp: counter_context_def Let_def)
    next
      case other: False
      have "\<not> ?P ?cur (fst x)" if "x \<in> set lg1" for x
      proof -
        have "fst x \<in> fst ` set rs" using that lg(1) by blast
        then obtain y where "y \<in> set rs" "fst y = fst x" by force
        moreover have "\<forall>y\<in>set rs. fst y \<le> fst (last rs)"
          using ok(1) False by (cases rs rule: rev_cases) (auto simp: requests_ok_def sorted_append)
        ultimately have "window_index (fst x) ttl \<le> ?w0" using window_index_mono [OF assms(1)] by metis
        moreover have "?w0 \<le> ?cur" using ok(3) False by (intro window_index_mono [OF assms(1)]) simp
        ultimately show ?thesis using other by simp
      qed
      then have "demanded (?P ?cur) lg1 = 0" by (intro demanded_none) blast
      with s1 other c(1) show ?thesis by (auto simp: counter_context_def Let_def)
    qed
  qed
  have "admitted (?P w) lg \<le> limit" for w
  proof (cases "?cur = w \<and> c \<le> limit")
    case True
    have "admitted (?P ?cur) lg1 \<le> demanded (?P ?cur) lg1" by (rule admitted_le_demanded [OF lg(2)])
    with True slot c(2) show ?thesis by auto
  next
    case False
    with IH c(2) show ?thesis by auto
  qed
  with slot c(2) show ?case by (simp add: r)
qed

subsection \<open>Sliding window\<close>


definition stamps :: "req_log \<Rightarrow> int list" where
  "stamps lg = concat (map (\<lambda>(t, n, ok). replicate (nat n) t) lg)"

lemma stamps_snoc [simp]: "stamps [] = []" "stamps (lg @ [(t, n, ok)]) = stamps lg @ replicate (nat n) t"
  by (simp_all add: stamps_def)





subsection \<open>Leaky bucket\<close>

lemma admitted_none: "\<forall>x\<in>set lg. \<not> P (fst x) \<Longrightarrow> admitted P lg = 0"
  by (induction lg) (auto simp: admitted_def)

lemma admitted_cong: "(\<And>x. x \<in> set lg \<Longrightarrow> P (fst x) = Q (fst x)) \<Longrightarrow> admitted P lg = admitted Q lg"
  unfolding admitted_def
  by (rule arg_cong [where f = sum_list], rule map_cong) force+

lemma leaky_step:
  assumes "leaky_allow_n rate capacity t key n slots = (ok, slots')" "0 \<le> rate" "0 \<le> capacity" "0 \<le> n"
    and "slots key = Some \<lparr>ls_last = t0, ls_drop = d0\<rparr>" "0 \<le> d0" "d0 \<le> of_int capacity" "t0 \<le> t"
  obtains d where "slots' key = Some \<lparr>ls_last = t, ls_drop = d + (if ok then of_int n else 0)\<rparr>"
    "0 \<le> d" "d + (if ok then of_int n else 0) \<le> of_int capacity"
    "d0 \<le> d + of_int (t - t0) / 10 ^ 9 * rate"
proof -
  let ?d0 = "d0 - of_int (t - t0) / 10 ^ 9 * rate"
  let ?d = "if ?d0 < 0 then 0 else ?d0"
  have leak: "0 \<le> of_int (t - t0) / 10 ^ 9 * rate" using assms(2,8) by simp
  have "?d \<le> of_int capacity" using assms(3,7) leak by auto
  with assms leak show ?thesis
    by (intro that [of ?d]) (auto simp: leaky_allow_n_def Let_def split: if_splits)
qed

lemma leaky_inv:
  assumes "0 \<le> rate" "0 \<le> capacity" "slots key = None"
  shows "requests_ok rs \<Longrightarrow> run_requests (\<lambda>t n. leaky_allow_n rate capacity t key n) slots rs = (slots', lg) \<Longrightarrow>
    (if rs = [] then slots' key = None
     else \<exists>d. slots' key = Some \<lparr>ls_last = fst (last rs), ls_drop = d\<rparr> \<and> 0 \<le> d \<and> d \<le> of_int capacity \<and>
       (\<forall>x \<le> fst (last rs). of_int (admitted (\<lambda>t. x \<le> t) lg) \<le>
          d + of_int (fst (last rs) - x) / 10 ^ 9 * rate)) \<and>
    (\<forall>x y. x \<le> y \<longrightarrow> of_int (admitted (\<lambda>t. x \<le> t \<and> t \<le> y) lg) \<le>
       of_int capacity + of_int (y - x) / 10 ^ 9 * rate)"
proof (induction rs arbitrary: slots' lg rule: rev_induct)
  case Nil
  with assms show ?case by simp
next
  case (snoc r rs)
  obtain t n where r: "r = (t, n)" by (cases r)
  obtain s1 lg1 where run: "run_requests (\<lambda>t n. leaky_allow_n rate capacity t key n) slots rs = (s1, lg1)"
    by fastforce
  have ok: "requests_ok rs" "0 \<le> n" "\<forall>x\<in>set rs. fst x \<le> t"
    using snoc.prems(1) by (simp_all add: r requests_ok_snoc)
  note IH = snoc.IH [OF ok(1) run] and lt = log_times [OF run ok(1)]
  obtain adm where c: "leaky_allow_n rate capacity t key n s1 = (adm, slots')" "lg = lg1 @ [(t, n, adm)]"
    by (rule run_requests_snocE [OF snoc.prems(2) [unfolded r] run])
  let ?w = "if adm then of_int n else 0 :: rat"
  have le_t: "\<forall>x\<in>set lg1. fst x \<le> t" using lt(1) ok(3) by force
  have adm_all: "of_int (admitted (\<lambda>u. x \<le> u) lg) = of_int (admitted (\<lambda>u. x \<le> u) lg1) + ?w" if "x \<le> t" for x
    using that by (simp add: c(2))
  obtain d where d: "slots' key = Some \<lparr>ls_last = t, ls_drop = d + ?w\<rparr>" "0 \<le> d"
    "d + ?w \<le> of_int capacity"
    "\<forall>x\<le>t. of_int (admitted (\<lambda>u. x \<le> u) lg1) \<le> d + of_int (t - x) / 10 ^ 9 * rate"
  proof (cases "rs = []")
    case True
    with run IH have none: "s1 key = None" and lg1: "lg1 = []" by auto
    have w: "adm = (of_int n \<le> (of_int capacity :: rat))"
      "slots' key = Some \<lparr>ls_last = t, ls_drop = ?w\<rparr>"
      using c(1) none by (auto simp: leaky_allow_n_def Let_def split: if_splits)
    show ?thesis
      by (rule that [of 0]) (use w lg1 assms(1,2) in auto)
  next
    case False
    let ?t0 = "fst (last rs)"
    from IH False obtain d0 where d0: "s1 key = Some \<lparr>ls_last = ?t0, ls_drop = d0\<rparr>" "0 \<le> d0"
      "d0 \<le> of_int capacity"
      "\<forall>x\<le>?t0. of_int (admitted (\<lambda>u. x \<le> u) lg1) \<le> d0 + of_int (?t0 - x) / 10 ^ 9 * rate" by auto
    have t0: "?t0 \<le> t" using ok(3) False by simp
    obtain d where d: "slots' key = Some \<lparr>ls_last = t, ls_drop = d + ?w\<rparr>" "0 \<le> d" "d + ?w \<le> of_int capacity"
      "d0 \<le> d + of_int (t - ?t0) / 10 ^ 9 * rate"
      by (rule leaky_step [OF c(1) assms(1,2) ok(2) d0(1-3) t0])
    have "of_int (admitted (\<lambda>u. x \<le> u) lg1) \<le> d + of_int (t - x) / 10 ^ 9 * rate" if x: "x \<le> t" for x
    proof (cases "x \<le> ?t0")
      case True
      have "of_int (admitted (\<lambda>u. x \<le> u) lg1) \<le> d0 + of_int (?t0 - x) / 10 ^ 9 * rate" using d0(4) True by blast
      also have "\<dots> \<le> d + of_int (t - ?t0) / 10 ^ 9 * rate + of_int (?t0 - x) / 10 ^ 9 * rate" using d(4) by simp
      also have "\<dots> = d + of_int (t - x) / 10 ^ 9 * rate" by (simp add: field_simps)
      finally show ?thesis .
    next
      case False
      have "\<forall>y\<in>set rs. fst y \<le> ?t0"
        using ok(1) \<open>rs \<noteq> []\<close> by (cases rs rule: rev_cases) (auto simp: requests_ok_def sorted_append)
      then have "\<forall>u\<in>fst ` set rs. u \<le> ?t0" by blast
      then have "\<forall>y\<in>set lg1. \<not> x \<le> fst y" using False unfolding lt(1) [symmetric] by force
      then have "admitted (\<lambda>u. x \<le> u) lg1 = 0" by (intro admitted_none)
      with d(2) x assms(1) show ?thesis by simp
    qed
    with d show ?thesis by (intro that [of d]) auto
  qed
  have upper: "of_int (admitted (\<lambda>u. x \<le> u) lg) \<le> (d + ?w) + of_int (t - x) / 10 ^ 9 * rate" if "x \<le> t" for x
    using d(4) that adm_all [OF that] by auto
  have "of_int (admitted (\<lambda>u. x \<le> u \<and> u \<le> y) lg) \<le> of_int capacity + of_int (y - x) / 10 ^ 9 * rate"
    if xy: "x \<le> y" for x y
  proof (cases "t \<le> y")
    case True
    show ?thesis
    proof (cases "x \<le> t")
      case xt: True
      have "admitted (\<lambda>u. x \<le> u \<and> u \<le> y) lg = admitted (\<lambda>u. x \<le> u) lg"
        using le_t True by (intro admitted_cong) (auto simp: c(2))
      then have "of_int (admitted (\<lambda>u. x \<le> u \<and> u \<le> y) lg) \<le> (d + ?w) + of_int (t - x) / 10 ^ 9 * rate"
        using upper [OF xt] by simp
      also have "\<dots> \<le> of_int capacity + of_int (y - x) / 10 ^ 9 * rate"
        using d(3) True assms(1) by (intro add_mono mult_right_mono divide_right_mono) auto
      finally show ?thesis .
    next
      case False
      then have "\<forall>u\<in>set lg. \<not> (x \<le> fst u \<and> fst u \<le> y)" using le_t by (auto simp: c(2))
      then have "admitted (\<lambda>u. x \<le> u \<and> u \<le> y) lg = 0" by (intro admitted_none)
      with assms xy show ?thesis by simp
    qed
  next
    case False
    then have "admitted (\<lambda>u. x \<le> u \<and> u \<le> y) lg = admitted (\<lambda>u. x \<le> u \<and> u \<le> y) lg1" by (simp add: c(2))
    with IH xy show ?thesis by auto
  qed
  moreover have "0 \<le> d + ?w" using d(2) ok(2) by simp
  ultimately show ?case using d upper by (auto simp: r intro!: exI [of _ "d + ?w"])
qed

section \<open>Properties\<close>

text \<open>
  A fixed window admits, on a key, no more than its limit in any one window, over every
  sequence of calls with a clock that does not go back (and no cleanup in between).
\<close>

theorem fixed_window_limit:
  assumes "0 < ttl" "0 \<le> limit" "requests_ok rs"
    and "run_requests (\<lambda>t n. fixed_allow_n ttl limit t key n) new_memory_store rs = (s', lg)"
  shows "admitted (\<lambda>t. window_index t ttl = w) lg \<le> limit"
  using fixed_window_inv [OF assms(1,2) _ assms(3,4)] by (simp add: new_memory_store_def)

theorem fixed_window_limit_witness:
  "admitted (\<lambda>t. window_index t 10 = 0)
     (snd (run_requests (\<lambda>t n. fixed_allow_n 10 2 t ''k'' n) (new_memory_store :: unit memory_store)
        [(0, 1), (4, 1), (5, 1), (12, 1)])) \<le> 2"
proof -
  have "requests_ok [(0, 1), (4, 1), (5, 1), (12, 1)]" by (simp add: requests_ok_def)
  from fixed_window_limit [where ttl = 10 and limit = 2 and key = "''k''" and w = 0, OF _ _ this prod.collapse [symmetric]] show ?thesis by simp
qed



text \<open>
  C40: a leaky bucket admits, on a key, in any interval of time no more than its capacity plus
  what leaks at its rate during the interval.
\<close>

theorem leaky_bucket_rate:
  assumes "0 \<le> rate" "0 \<le> capacity" "requests_ok rs"
    and "run_requests (\<lambda>t n. leaky_allow_n rate capacity t key n) Map.empty rs = (slots', lg)"
    and "x \<le> y"
  shows "of_int (admitted (\<lambda>t. x \<le> t \<and> t \<le> y) lg) \<le> of_int capacity + of_int (y - x) / 10 ^ 9 * rate"
  using leaky_inv [OF assms(1,2) _ assms(3,4)] assms(5) by simp

theorem leaky_bucket_rate_witness:
  "of_int (admitted (\<lambda>t. 0 \<le> t \<and> t \<le> 10 ^ 9)
     (snd (run_requests (\<lambda>t n. leaky_allow_n 1 2 t ''k'' n) Map.empty [(0, 2), (1, 1), (10 ^ 9, 1)]))) \<le> (3 :: rat)"
proof -
  have "requests_ok [(0, 2), (1, 1), (10 ^ 9, 1)]" by (simp add: requests_ok_def)
  from leaky_bucket_rate [where rate = 1 and capacity = 2 and x = 0 and y = "10 ^ 9" and key = "''k''",
      OF _ _ this prod.collapse [symmetric]]
  have "of_int (admitted (\<lambda>t. 0 \<le> t \<and> t \<le> 10 ^ 9)
     (snd (run_requests (\<lambda>t n. leaky_allow_n 1 2 t ''k'' n) Map.empty [(0, 2), (1, 1), (10 ^ 9, 1)]))) \<le>
     (of_int 2 + of_int (10 ^ 9 - 0) / 10 ^ 9 * 1 :: rat)"
    by simp
  then show ?thesis by simp
qed

text \<open>
  Cleanup and the fixed window: the counter of the current window survives a cleanup when
  the window is at most a second long, and is deleted, so that the limit starts anew inside the
  window, when the window is at least two seconds long and the clock past 22 seconds.
\<close>

theorem cleanup_and_live_counters:
  assumes "0 < ttl" "0 \<le> now" "ms_counters s key = Some \<lparr>ct_count = c, ct_window = window_index now ttl\<rparr>"
  shows "(ttl \<le> 10 ^ 9 \<longrightarrow> ms_counters (store_cleanup full now s) key = ms_counters s key) \<and>
    (2 * 10 ^ 9 \<le> ttl \<and> 22 * 10 ^ 9 \<le> now \<longrightarrow>
       ms_counters (store_cleanup full now s) key = None \<and>
       fst (fixed_allow_n ttl limit now key limit (store_cleanup full now s)))"
proof -
  have idx: "window_index now ttl = now div ttl" "now sdiv 10 ^ 9 = now div 10 ^ 9"
    using assms(1,2) by (auto simp: window_index_def signed_divide_int_def sgn_if)
  show ?thesis
  proof (intro conjI impI)
    assume "ttl \<le> 10 ^ 9"
    then have "now div 10 ^ 9 \<le> now div ttl" using assms(1,2) by (intro zdiv_mono2) auto
    with assms(3) idx show "ms_counters (store_cleanup full now s) key = ms_counters s key"
      by (simp add: store_cleanup_def Let_def)
  next
    assume long: "2 * 10 ^ 9 \<le> ttl \<and> 22 * 10 ^ 9 \<le> now"
    then have "now div ttl \<le> now div (2 * 10 ^ 9)" by (intro zdiv_mono2) auto
    moreover have "now div (2 * 10 ^ 9) = (now div 10 ^ 9) div 2"
      by (subst mult.commute) (rule zdiv_zmult2_eq, simp)
    moreover have "22 \<le> now div 10 ^ 9" using zdiv_mono1 [of "22 * 10 ^ 9" now "10 ^ 9"] long by simp
    then have "(now div 10 ^ 9) div 2 < now div 10 ^ 9 - 10" by linarith
    ultimately show gone: "ms_counters (store_cleanup full now s) key = None"
      using assms(3) idx by (simp add: store_cleanup_def Let_def)
    show "fst (fixed_allow_n ttl limit now key limit (store_cleanup full now s))"
      by (simp add: fixed_allow_n_def counter_context_def gone Let_def)
  qed
qed

theorem cleanup_and_live_counters_witness:
  "fst (fixed_allow_n (60 * 10 ^ 9) 5 (30 * 10 ^ 9) ''k'' 5 (store_cleanup (\<lambda>_ :: unit. False) (30 * 10 ^ 9)
     (new_memory_store\<lparr>ms_counters := [''k'' \<mapsto> \<lparr>ct_count = 5, ct_window = window_index (30 * 10 ^ 9) (60 * 10 ^ 9)\<rparr>]\<rparr>)))"
proof -
  let ?s = "new_memory_store\<lparr>ms_counters := [''k'' \<mapsto>
      \<lparr>ct_count = 5, ct_window = window_index (30 * 10 ^ 9) (60 * 10 ^ 9)\<rparr>]\<rparr> :: unit memory_store"
  have "ms_counters ?s ''k'' = Some \<lparr>ct_count = 5, ct_window = window_index (30 * 10 ^ 9) (60 * 10 ^ 9)\<rparr>" by simp
  from cleanup_and_live_counters [OF _ _ this, of "\<lambda>_. False" 5] show ?thesis by simp
qed

text \<open>
  In-flight accounting of BBR: a call that is admitted adds exactly one to the requests in
  flight and its callback takes it off again, a refused call leaves them as they were; a call is
  refused only when more requests are in flight than the maximum seen, and never when the CPU is
  at most the threshold and nothing was dropped within the last second.
\<close>

theorem bbr_accounting:
  assumes "bbr_allow cpu now b = (ok, b')"
  shows "bb_in_flight b' = bb_in_flight b + (if ok then 1 else 0) \<and>
    (ok \<longrightarrow> bb_in_flight (bbr_done b') = bb_in_flight b) \<and>
    (\<not> ok \<longrightarrow> bb_max_in_flight b \<noteq> 0 \<and> bb_max_in_flight b < bb_in_flight b + 1 \<and> bb_prev_drop b' = now \<and>
       (bb_cpu_threshold b < cpu \<or> (0 < bb_prev_drop b \<and> now - bb_prev_drop b < 10 ^ 9)))"
  using assms by (auto simp: bbr_allow_def bbr_done_def Let_def split: if_splits)

theorem bbr_accounting_witness:
  "bb_in_flight (snd (bbr_allow 900 5 (new_bbr\<lparr>bb_in_flight := 3, bb_max_in_flight := 3\<rparr>))) = 3"
proof -
  let ?b = "new_bbr\<lparr>bb_in_flight := 3, bb_max_in_flight := 3\<rparr>"
  have run: "bbr_allow 900 5 ?b = (False, snd (bbr_allow 900 5 ?b))"
    by (simp add: bbr_allow_def new_bbr_def)
  from bbr_accounting [OF run] show ?thesis by simp
qed

end
