(* ===== verification/Trace_Context.thy ===== *)
theory Trace_Context
  imports Prelude "HOL-Library.AList"
begin

text \<open>
  \<^verbatim>\<open>core/tracecontext\<close> (with the context keys of \<^verbatim>\<open>core/requestid\<close> and \<^verbatim>\<open>core/tracking\<close>): the
  correlation identifiers a context carries, and their passage through message headers.

  A context is the record of the four identifiers (the empty string stands for an absent one);
  the copies it keeps for the logger are not modelled.  A header map is the list of its entries
  in the order an iteration over it visits them, so a fact about every list with the same
  entries holds for every iteration order.  \<open>strings.EqualFold\<close> folds ASCII letters.
\<close>

record trace_ctx =
  tc_trace :: string
  tc_span :: string
  tc_track :: string
  tc_request :: string

type_synonym headers = "(string \<times> string) list"

definition background_trace :: trace_ctx where
  "background_trace = \<lparr>tc_trace = [], tc_span = [], tc_track = [], tc_request = []\<rparr>"

definition context_with_trace :: "trace_ctx \<Rightarrow> string \<Rightarrow> string \<Rightarrow> trace_ctx" where
  "context_with_trace c trace_id span_id =
     (let c1 = (if trace_id \<noteq> [] then c\<lparr>tc_trace := trace_id\<rparr> else c)
      in if span_id \<noteq> [] then c1\<lparr>tc_span := span_id\<rparr> else c1)"

definition with_track_id :: "trace_ctx \<Rightarrow> string \<Rightarrow> trace_ctx" where
  "with_track_id c track_id = (if track_id = [] then c else c\<lparr>tc_track := track_id\<rparr>)"

definition with_request_id :: "trace_ctx \<Rightarrow> string \<Rightarrow> trace_ctx" where
  "with_request_id c request_id = (if request_id = [] then c else c\<lparr>tc_request := request_id\<rparr>)"

definition traceparent_header :: string where "traceparent_header = ''traceparent''"
definition trace_id_key :: string where "trace_id_key = ''trace_id''"
definition span_id_key :: string where "span_id_key = ''span_id''"
definition track_header :: string where "track_header = ''X-Track-ID''"
definition request_header :: string where "request_header = ''X-Request-ID''"

definition equal_fold :: "string \<Rightarrow> string \<Rightarrow> bool" where
  "equal_fold a b \<longleftrightarrow> to_upper a = to_upper b"

definition header_value :: "headers \<Rightarrow> string \<Rightarrow> string" where
  "header_value hs key =
     (if hs = [] \<or> key = [] then []
      else (let v = (case map_of hs key of None \<Rightarrow> [] | Some v \<Rightarrow> v) in
        if v \<noteq> [] then v
        else (case List.find (\<lambda>kv. equal_fold (fst kv) key) hs of None \<Rightarrow> [] | Some kv \<Rightarrow> snd kv)))"

definition traceparent :: "trace_ctx \<Rightarrow> string" where
  "traceparent c =
     (if tc_trace c = [] \<or> tc_span c = [] then []
      else ''00-'' @ tc_trace c @ ''-'' @ tc_span c @ ''-01'')"

definition traceparent_part :: "headers \<Rightarrow> nat \<Rightarrow> nat \<Rightarrow> string" where
  "traceparent_part hs i n =
     (let parts = split_on (CHR ''-'') (header_value hs traceparent_header)
      in if length parts \<ge> 4 \<and> length (parts ! i) = n then parts ! i else [])"

definition trace_id_from_headers :: "headers \<Rightarrow> string" where
  "trace_id_from_headers hs =
     (let v = header_value hs trace_id_key in if v \<noteq> [] then v else traceparent_part hs 1 32)"

definition span_id_from_headers :: "headers \<Rightarrow> string" where
  "span_id_from_headers hs =
     (let v = header_value hs span_id_key in if v \<noteq> [] then v else traceparent_part hs 2 16)"

definition carrier_set :: "string \<Rightarrow> string \<Rightarrow> headers \<Rightarrow> headers" where
  "carrier_set key v hs = (if key = [] \<or> v = [] then hs else AList.update key v hs)"

definition inject_carrier :: "trace_ctx \<Rightarrow> headers \<Rightarrow> headers" where
  "inject_carrier c hs =
     carrier_set request_header (tc_request c)
      (carrier_set track_header (tc_track c)
       (carrier_set span_id_key (tc_span c)
        (carrier_set trace_id_key (tc_trace c)
         (carrier_set traceparent_header (traceparent c) hs))))"

definition headers_from_context :: "trace_ctx \<Rightarrow> headers" where
  "headers_from_context c = inject_carrier c []"

definition carrier_fields :: "headers \<Rightarrow> headers" where
  "carrier_fields hs =
     filter (\<lambda>kv. snd kv \<noteq> []) (map (\<lambda>kv. (fst kv, header_value hs (fst kv))) hs)"

text \<open>
  For a \<open>MapCarrier\<close> the second look-up of \<open>carrierValue\<close>, over the keys, can only find what
  \<open>Get\<close> found: \<open>Get\<close> folds the keys itself.
\<close>

definition carrier_value :: "headers \<Rightarrow> string \<Rightarrow> string" where
  "carrier_value hs key =
     (if key = [] then []
      else (let v = header_value hs key in
        if v \<noteq> [] then v
        else (case List.find (\<lambda>kv. equal_fold (fst kv) key) hs of
                None \<Rightarrow> [] | Some kv \<Rightarrow> header_value hs (fst kv))))"

definition extract_carrier :: "trace_ctx \<Rightarrow> headers \<Rightarrow> trace_ctx" where
  "extract_carrier c hs =
     (let c1 = with_track_id c (carrier_value hs track_header);
          c2 = with_request_id c1 (carrier_value hs request_header);
          fields = carrier_fields hs
      in context_with_trace c2 (trace_id_from_headers fields) (span_id_from_headers fields))"

definition context_from_headers :: "trace_ctx \<Rightarrow> headers \<Rightarrow> trace_ctx" where
  "context_from_headers c hs = (if hs = [] then c else extract_carrier c hs)"

section \<open>Header maps whose keys differ by more than case\<close>

definition header_map :: "headers \<Rightarrow> bool" where
  "header_map hs \<longleftrightarrow> distinct (map (to_upper \<circ> fst) hs)"

lemma header_map_distinct: "header_map hs \<Longrightarrow> distinct (map fst hs)"
  by (auto simp: header_map_def distinct_map inj_on_def)

lemma header_value_in:
  assumes "header_map hs" "(k, v) \<in> set hs" "k \<noteq> []"
  shows "header_value hs k = v"
proof -
  have look: "map_of hs k = Some v"
    using map_of_is_SomeI [OF header_map_distinct [OF assms(1)] assms(2)] .
  show ?thesis
  proof (cases "v = []")
    case False
    with look assms show ?thesis by (auto simp: header_value_def)
  next
    case True
    have "snd kv = v" if "List.find (\<lambda>kv. equal_fold (fst kv) k) hs = Some kv" for kv
    proof -
      from that have kv: "kv \<in> set hs" "to_upper (fst kv) = to_upper k"
        by (auto simp: find_Some_iff equal_fold_def)
      have inj: "inj_on (to_upper \<circ> fst) (set hs)" using assms(1) by (simp add: header_map_def distinct_map)
      from inj_onD [OF inj _ kv(1) assms(2)] kv(2) have "kv = (k, v)" by simp
      then show ?thesis by simp
    qed
    with True look assms show ?thesis by (auto simp: header_value_def split: option.split)
  qed
qed

lemma header_value_out:
  assumes "\<forall>k' \<in> fst ` set hs. \<not> equal_fold k' k"
  shows "header_value hs k = []"
proof -
  have "map_of hs k = None" using assms by (force simp: map_of_eq_None_iff equal_fold_def)
  moreover have "List.find (\<lambda>kv. equal_fold (fst kv) k) hs = None"
    using assms by (auto simp: find_None_iff)
  ultimately show ?thesis by (simp add: header_value_def)
qed

section \<open>Through the headers and back\<close>

definition header_pairs :: "trace_ctx \<Rightarrow> headers" where
  "header_pairs c =
     [(traceparent_header, traceparent c), (trace_id_key, tc_trace c), (span_id_key, tc_span c),
      (track_header, tc_track c), (request_header, tc_request c)]"

definition injected :: "trace_ctx \<Rightarrow> headers" where
  "injected c = filter (\<lambda>kv. snd kv \<noteq> []) (header_pairs c)"

lemma set_injected: "kv \<in> set (injected c) \<longleftrightarrow> kv \<in> set (header_pairs c) \<and> snd kv \<noteq> []"
  by (auto simp: injected_def)

lemmas header_keys = traceparent_header_def trace_id_key_def span_id_key_def track_header_def request_header_def

lemma headers_from_context_injected: "headers_from_context c = injected c"
  by (simp add: headers_from_context_def inject_carrier_def carrier_set_def injected_def header_pairs_def header_keys)

lemma header_keys_differ:
  "inj_on to_upper {traceparent_header, trace_id_key, span_id_key, track_header, request_header}"
  by (simp add: header_keys to_upper_def upper_char_def)

lemma injected_header_map:
  assumes "set hs = set (injected c)" "distinct (map fst hs)"
  shows "header_map hs"
proof -
  have "fst ` set hs \<subseteq> {traceparent_header, trace_id_key, span_id_key, track_header, request_header}"
    by (auto simp: assms(1) set_injected header_pairs_def)
  then have "inj_on to_upper (fst ` set hs)" by (rule inj_on_subset [OF header_keys_differ])
  with assms(2) show ?thesis by (simp add: header_map_def distinct_map comp_inj_on)
qed

lemma injected_value:
  assumes "set hs = set (injected c)" "distinct (map fst hs)"
    and "(k, v) \<in> set (header_pairs c)"
  shows "header_value hs k = v"
proof (cases "v = []")
  case False
  have "k \<noteq> []" using assms(3) by (auto simp: header_pairs_def header_keys)
  moreover have "(k, v) \<in> set hs" using assms(1,3) False by (simp add: set_injected)
  ultimately show ?thesis using header_value_in [OF injected_header_map [OF assms(1,2)]] by blast
next
  case True
  have "\<not> equal_fold k' k" if "k' \<in> fst ` set hs" for k'
  proof
    assume eq: "equal_fold k' k"
    from that obtain v' where v': "(k', v') \<in> set (injected c)" using assms(1) by auto
    then have k': "k' \<in> {traceparent_header, trace_id_key, span_id_key, track_header, request_header}" "v' \<noteq> []"
      by (auto simp: set_injected header_pairs_def)
    have k: "k \<in> {traceparent_header, trace_id_key, span_id_key, track_header, request_header}"
      using assms(3) by (auto simp: header_pairs_def)
    have "k' = k" using inj_onD [OF header_keys_differ _ k'(1) k] eq by (simp add: equal_fold_def)
    then have "v' = v" using v' assms(3) by (auto simp: set_injected header_pairs_def header_keys)
    with True k'(2) show False by simp
  qed
  then show ?thesis using True by (simp add: header_value_out)
qed

lemma carrier_fields_map:
  assumes "header_map hs" "\<forall>kv \<in> set hs. fst kv \<noteq> [] \<and> snd kv \<noteq> []"
  shows "carrier_fields hs = hs"
proof -
  have "map (\<lambda>kv. (fst kv, header_value hs (fst kv))) hs = hs"
    using assms header_value_in [OF assms(1)] by (intro map_idI) fastforce
  with assms(2) show ?thesis unfolding carrier_fields_def by (auto simp: filter_id_conv)
qed

lemma carrier_value_header:
  assumes "header_map hs" "key \<noteq> []"
  shows "carrier_value hs key = header_value hs key"
proof (cases "List.find (\<lambda>kv. equal_fold (fst kv) key) hs")
  case None
  with assms(2) show ?thesis by (simp add: carrier_value_def Let_def)
next
  case (Some kv)
  then have kv: "kv \<in> set hs" "equal_fold (fst kv) key" by (auto simp: find_Some_iff)
  have "fst kv \<noteq> []" using kv(2) assms(2) by (auto simp: equal_fold_def to_upper_def)
  then have at: "header_value hs (fst kv) = snd kv" using kv(1) by (simp add: header_value_in [OF assms(1)])
  have "snd kv = []" if "header_value hs key = []"
    using that Some kv(1) assms(2) by (auto simp: header_value_def Let_def split: if_splits)
  with at Some assms(2) show ?thesis by (simp add: carrier_value_def Let_def)
qed

text \<open>What \<open>ContextFromHeaders\<close> restores: every identifier the headers carry.\<close>

definition trace_merge :: "trace_ctx \<Rightarrow> trace_ctx \<Rightarrow> trace_ctx" where
  "trace_merge base c =
     (let pick = (\<lambda>f. if f c \<noteq> [] then f c else f base) in
      \<lparr>tc_trace = pick tc_trace, tc_span = pick tc_span, tc_track = pick tc_track, tc_request = pick tc_request\<rparr>)"

lemma carried_context:
  assumes "set hs = set (headers_from_context c)" "distinct (map fst hs)"
  shows "context_from_headers base hs = trace_merge base c"
proof -
  have hs: "set hs = set (injected c)" using assms(1) by (simp add: headers_from_context_injected)
  note map = injected_header_map [OF hs assms(2)]
  have vals: "header_value hs traceparent_header = traceparent c" "header_value hs trace_id_key = tc_trace c"
    "header_value hs span_id_key = tc_span c" "header_value hs track_header = tc_track c"
    "header_value hs request_header = tc_request c"
    by (rule injected_value [OF hs assms(2)]; simp add: header_pairs_def)+
  have "fst kv \<noteq> [] \<and> snd kv \<noteq> []" if "kv \<in> set hs" for kv
    using that unfolding hs by (auto simp: set_injected header_pairs_def header_keys)
  then have fields: "carrier_fields hs = hs" by (intro carrier_fields_map [OF map]) blast
  have ids: "trace_id_from_headers hs = tc_trace c" "span_id_from_headers hs = tc_span c"
    using vals by (auto simp: trace_id_from_headers_def span_id_from_headers_def traceparent_part_def traceparent_def Let_def)
  show ?thesis
  proof (cases "hs = []")
    case True
    then have "injected c = []" using hs by simp
    then show ?thesis using True
      by (auto simp: context_from_headers_def trace_merge_def injected_def header_pairs_def split: if_splits)
  next
    case False
    have "carrier_value hs track_header = tc_track c" "carrier_value hs request_header = tc_request c"
      using carrier_value_header [OF map, of track_header] carrier_value_header [OF map, of request_header] vals
      by (simp_all add: header_keys)
    with False show ?thesis
      by (simp add: context_from_headers_def extract_carrier_def fields ids with_track_id_def
          with_request_id_def context_with_trace_def trace_merge_def Let_def)
  qed
qed

section \<open>Properties\<close>

text \<open>
  C37: the correlation identifiers survive the passage through message headers: whatever the
  order in which the header map is iterated, the receiving context gets every identifier the
  sending context carries and keeps its own for the others.
\<close>

theorem headers_roundtrip:
  assumes "set hs = set (headers_from_context c)" "distinct (map fst hs)"
  shows "context_from_headers base hs = trace_merge base c \<and> context_from_headers background_trace hs = c"
  using carried_context [OF assms] by (auto simp: trace_merge_def background_trace_def Let_def)

theorem headers_roundtrip_witness:
  "context_from_headers background_trace
     [(''X-Request-ID'', ''r1''), (''span_id'', ''b''), (''trace_id'', ''a''), (''traceparent'', ''00-a-b-01'')] =
   \<lparr>tc_trace = ''a'', tc_span = ''b'', tc_track = [], tc_request = ''r1''\<rparr>"
  by (rule headers_roundtrip [THEN conjunct2]) (auto simp: headers_from_context_injected injected_def header_pairs_def
      header_keys traceparent_def)

end
