(* ===== verification/Queue_Types.thy ===== *)
theory Queue_Types
  imports Trace_Context
begin

text \<open>
  \<^verbatim>\<open>core/queue\<close>: errors and their classification (\<open>error.go\<close>), the task state machine
  (\<open>state.go\<close>), messages and their runtime context (\<open>task.go\<close>, \<open>runtime_context.go\<close>,
  \<open>message_metadata.go\<close>), retry rules (\<open>retry.go\<close>) and enqueue options (\<open>option.go\<close>).

  An error value is a tree: the leaves are the sentinels of the package, those of the \<open>context\<close>
  package and foreign errors; the inner nodes wrap one error (\<open>RuntimeError\<close>,
  \<open>RateLimitError\<close>, \<open>fmt.Errorf\<close> with \<open>%w\<close>) or several (\<open>errors.Join\<close>).  Durations are
  nanoseconds; times are \<open>int\<close> with 0 for the zero time.  Typed nil pointers used as errors are
  not modelled.
\<close>

section \<open>Errors (error.go)\<close>

datatype q_sentinel =
    QErrNotInitialized | QErrCapabilityUnsupported | QErrTaskDuplicated | QErrTaskNotFound
  | QErrQueueNotFound | QErrQueuePaused | QErrRateLimited | QErrTaskCanceled | QErrInvalidPayload
  | QErrHandlerNotFound | QErrLockNotAcquired | QErrIdempotentDone
  | ContextDeadlineExceeded | ContextCanceled

datatype error_kind =
  ErrorKindUnset | ErrorRetryable | ErrorFatal | ErrorTimeout | ErrorDeadLetter | ErrorIgnored

record runtime_error =
  re_kind :: error_kind
  re_code :: string
  re_retryable :: bool
  re_fatal :: bool
  re_ignore :: bool
  re_retry_in :: int

datatype q_error =
    QSentinel q_sentinel
  | QForeign string
  | QWrapped string q_error
  | QRuntime runtime_error "q_error option"
  | QRateLimit int "q_error option"
  | QJoined "q_error list"

text \<open>\<open>errors.Join\<close>: nil errors are dropped, and nothing is left of none.\<close>

definition q_join :: "q_error option list \<Rightarrow> q_error option" where
  "q_join es = (case join_errs es of [] \<Rightarrow> None | xs \<Rightarrow> Some (QJoined xs))"

text \<open>\<open>errors.Is\<close> for a sentinel and \<open>errors.As\<close> for the two structs: a walk in preorder.\<close>

fun is_err :: "q_sentinel \<Rightarrow> q_error \<Rightarrow> bool"
and is_err_any :: "q_sentinel \<Rightarrow> q_error list \<Rightarrow> bool"
where
  "is_err s (QSentinel t) = (t = s)"
| "is_err s (QForeign _) = False"
| "is_err s (QWrapped _ e) = is_err s e"
| "is_err s (QRuntime _ None) = False"
| "is_err s (QRuntime _ (Some e)) = is_err s e"
| "is_err s (QRateLimit _ None) = False"
| "is_err s (QRateLimit _ (Some e)) = is_err s e"
| "is_err s (QJoined es) = is_err_any s es"
| "is_err_any s [] = False"
| "is_err_any s (e # es) = (is_err s e \<or> is_err_any s es)"

fun as_runtime :: "q_error \<Rightarrow> runtime_error option"
and as_runtime_any :: "q_error list \<Rightarrow> runtime_error option"
where
  "as_runtime (QSentinel _) = None"
| "as_runtime (QForeign _) = None"
| "as_runtime (QWrapped _ e) = as_runtime e"
| "as_runtime (QRuntime r _) = Some r"
| "as_runtime (QRateLimit _ None) = None"
| "as_runtime (QRateLimit _ (Some e)) = as_runtime e"
| "as_runtime (QJoined es) = as_runtime_any es"
| "as_runtime_any [] = None"
| "as_runtime_any (e # es) = (case as_runtime e of Some r \<Rightarrow> Some r | None \<Rightarrow> as_runtime_any es)"

fun has_rate_limit :: "q_error \<Rightarrow> bool"
and has_rate_limit_any :: "q_error list \<Rightarrow> bool"
where
  "has_rate_limit (QSentinel _) = False"
| "has_rate_limit (QForeign _) = False"
| "has_rate_limit (QWrapped _ e) = has_rate_limit e"
| "has_rate_limit (QRuntime _ None) = False"
| "has_rate_limit (QRuntime _ (Some e)) = has_rate_limit e"
| "has_rate_limit (QRateLimit _ _) = True"
| "has_rate_limit (QJoined es) = has_rate_limit_any es"
| "has_rate_limit_any [] = False"
| "has_rate_limit_any (e # es) = (has_rate_limit e \<or> has_rate_limit_any es)"

definition rate_limited :: "int \<Rightarrow> q_error option \<Rightarrow> q_error" where
  "rate_limited retry_in e = QRateLimit retry_in (q_join [Some (QSentinel QErrRateLimited), e])"

definition is_rate_limit_error :: "q_error \<Rightarrow> bool" where
  "is_rate_limit_error e \<longleftrightarrow> is_err QErrRateLimited e \<or> has_rate_limit e"

definition is_lock_not_acquired :: "q_error \<Rightarrow> bool" where
  "is_lock_not_acquired e = is_err QErrLockNotAcquired e"

definition plain_error :: "error_kind \<Rightarrow> string \<Rightarrow> runtime_error" where
  "plain_error k code = \<lparr>re_kind = k, re_code = code, re_retryable = False, re_fatal = False,
     re_ignore = False, re_retry_in = 0\<rparr>"

definition new_runtime_error :: "string \<Rightarrow> q_error option \<Rightarrow> q_error" where
  "new_runtime_error code e = QRuntime (plain_error ErrorKindUnset code) e"

definition retryable_after :: "int \<Rightarrow> q_error option \<Rightarrow> q_error" where
  "retryable_after retry_in e =
     QRuntime ((plain_error ErrorRetryable ''retryable'')\<lparr>re_retryable := True, re_retry_in := retry_in\<rparr>) e"

definition new_retryable_error :: "q_error option \<Rightarrow> q_error" where
  "new_retryable_error e = retryable_after 0 e"

definition new_fatal_error :: "q_error option \<Rightarrow> q_error" where
  "new_fatal_error e = QRuntime ((plain_error ErrorFatal ''fatal'')\<lparr>re_fatal := True\<rparr>) e"

definition new_ignored_error :: "q_error option \<Rightarrow> q_error" where
  "new_ignored_error e = QRuntime ((plain_error ErrorIgnored ''ignored'')\<lparr>re_ignore := True\<rparr>) e"

definition new_timeout_error :: "q_error option \<Rightarrow> q_error" where
  "new_timeout_error e = QRuntime ((plain_error ErrorTimeout ''timeout'')\<lparr>re_retryable := True\<rparr>) e"

definition new_dead_letter_error :: "q_error option \<Rightarrow> q_error" where
  "new_dead_letter_error e = QRuntime ((plain_error ErrorDeadLetter ''deadletter'')\<lparr>re_fatal := True\<rparr>) e"

definition runtime_error_from :: "q_error \<Rightarrow> runtime_error option" where
  "runtime_error_from e = as_runtime e"

definition runtime_error_sat :: "(runtime_error \<Rightarrow> bool) \<Rightarrow> q_error \<Rightarrow> bool" where
  "runtime_error_sat P e = (case runtime_error_from e of None \<Rightarrow> False | Some r \<Rightarrow> P r)"

definition is_retryable_error :: "q_error \<Rightarrow> bool" where
  "is_retryable_error = runtime_error_sat (\<lambda>r. re_retryable r \<or> re_kind r = ErrorRetryable)"

definition is_fatal_error :: "q_error \<Rightarrow> bool" where
  "is_fatal_error = runtime_error_sat (\<lambda>r. re_fatal r \<or> re_kind r = ErrorFatal)"

definition is_ignored_error :: "q_error \<Rightarrow> bool" where
  "is_ignored_error = runtime_error_sat (\<lambda>r. re_ignore r \<or> re_kind r = ErrorIgnored)"

definition is_timeout_error :: "q_error \<Rightarrow> bool" where
  "is_timeout_error = runtime_error_sat (\<lambda>r. re_kind r = ErrorTimeout)"

definition is_dead_letter_error :: "q_error \<Rightarrow> bool" where
  "is_dead_letter_error = runtime_error_sat (\<lambda>r. re_kind r = ErrorDeadLetter)"

lemmas error_class_defs = is_retryable_error_def is_fatal_error_def is_ignored_error_def
  is_timeout_error_def is_dead_letter_error_def runtime_error_sat_def runtime_error_from_def

lemmas error_make_defs = retryable_after_def new_fatal_error_def new_ignored_error_def
  new_timeout_error_def new_dead_letter_error_def new_runtime_error_def plain_error_def

lemma dead_letter_class [simp]:
  "is_dead_letter_error (new_dead_letter_error e)" "is_fatal_error (new_dead_letter_error e)"
  "\<not> is_ignored_error (new_dead_letter_error e)" "\<not> is_retryable_error (new_dead_letter_error e)"
  "\<not> is_timeout_error (new_dead_letter_error e)"
  by (simp_all add: error_class_defs error_make_defs)

lemma retryable_class [simp]:
  "is_retryable_error (retryable_after t e)" "\<not> is_fatal_error (retryable_after t e)"
  "\<not> is_ignored_error (retryable_after t e)" "\<not> is_dead_letter_error (retryable_after t e)"
  "\<not> is_timeout_error (retryable_after t e)"
  by (simp_all add: error_class_defs error_make_defs)

lemma rate_limited_class [simp]: "is_rate_limit_error (rate_limited t e)"
  by (simp add: is_rate_limit_error_def rate_limited_def)

lemma rate_limit_wrapped [simp]:
  "is_rate_limit_error (retryable_after t (Some e)) = is_rate_limit_error e"
  "is_rate_limit_error (new_dead_letter_error (Some e)) = is_rate_limit_error e"
  by (simp_all add: is_rate_limit_error_def error_make_defs)

section \<open>Task states (state.go)\<close>

text \<open>
  The strings \<open>pending\<close> and \<open>failed\<close> are shared by the runtime's states and the store's.
\<close>

datatype task_state =
    TaskUnset
  | TaskPending | TaskRunning | TaskRetrying | TaskFailed | TaskDeadLetter | TaskSuccess
  | StateSubmitting | StateSubmitFailed | StateActive | StateScheduled | StateRetry
  | StateSucceeded | StateArchived | StateCanceled | StateUnknown | StateOther string

abbreviation StatePending :: task_state where "StatePending \<equiv> TaskPending"
abbreviation StateFailed :: task_state where "StateFailed \<equiv> TaskFailed"

definition can_transition_task :: "task_state \<Rightarrow> task_state \<Rightarrow> bool" where
  "can_transition_task st to =
     (if to = TaskUnset then False
      else if st = TaskUnset then to = TaskPending \<or> to = TaskRunning
      else if st = to then True
      else (case st of
              TaskPending \<Rightarrow> to = TaskRunning
            | TaskRunning \<Rightarrow> to = TaskSuccess \<or> to = TaskRetrying \<or> to = TaskFailed
            | TaskRetrying \<Rightarrow> to = TaskRunning
            | TaskFailed \<Rightarrow> to = TaskDeadLetter
            | _ \<Rightarrow> False))"

section \<open>Messages (task.go, message_metadata.go, runtime_context.go)\<close>

datatype q_any = AnyString string | AnyInt int | AnyDuration int | AnyBool bool | AnyOther

record runtime_context =
  rx_trace_id :: string
  rx_worker_id :: string
  rx_queue_name :: string
  rx_task_state :: task_state

record message =
  qm_id :: string
  qm_type :: string
  qm_payload :: string
  qm_queue :: string
  qm_state :: task_state
  qm_retry_count :: int
  qm_max_retry :: int
  qm_headers :: headers
  qm_metadata :: "string \<rightharpoonup> q_any"
  qm_runtime :: "runtime_context option"

definition set_message_metadata :: "string \<Rightarrow> q_any \<Rightarrow> message \<Rightarrow> message" where
  "set_message_metadata key v m =
     (if key = [] then m else m\<lparr>qm_metadata := (qm_metadata m)(key \<mapsto> v)\<rparr>)"

definition message_metadata_value :: "message \<Rightarrow> string \<Rightarrow> q_any option" where
  "message_metadata_value m key = (if key = [] then None else qm_metadata m key)"

definition message_metadata_duration :: "message \<Rightarrow> string \<Rightarrow> int option" where
  "message_metadata_duration m key =
     (case message_metadata_value m key of
        Some (AnyDuration d) \<Rightarrow> Some d | Some (AnyInt d) \<Rightarrow> Some d | _ \<Rightarrow> None)"

definition message_metadata_string :: "message \<Rightarrow> string \<Rightarrow> string option" where
  "message_metadata_string m key =
     (case message_metadata_value m key of
        Some (AnyString s) \<Rightarrow> if s = [] then None else Some s | _ \<Rightarrow> None)"

definition runtime_context_from_message :: "message \<Rightarrow> runtime_context" where
  "runtime_context_from_message m =
     (let r0 = (case qm_runtime m of
                  None \<Rightarrow> \<lparr>rx_trace_id = [], rx_worker_id = [], rx_queue_name = [], rx_task_state = TaskUnset\<rparr>
                | Some r \<Rightarrow> r);
          r1 = (if rx_trace_id r0 = [] then r0\<lparr>rx_trace_id := trace_id_from_headers (qm_headers m)\<rparr> else r0);
          r2 = (if rx_queue_name r1 = [] then r1\<lparr>rx_queue_name := qm_queue m\<rparr> else r1);
          r3 = (if rx_queue_name r2 = []
                then (case message_metadata_string m ''queue.queue'' of
                        None \<Rightarrow> r2 | Some q \<Rightarrow> r2\<lparr>rx_queue_name := q\<rparr>)
                else r2);
          r4 = (if rx_worker_id r3 = []
                then (case message_metadata_string m ''queue.worker'' of
                        None \<Rightarrow> r3 | Some w \<Rightarrow> r3\<lparr>rx_worker_id := w\<rparr>)
                else r3)
      in if rx_task_state r4 = TaskUnset then r4\<lparr>rx_task_state := qm_state m\<rparr> else r4)"

text \<open>What \<open>EnsureMessageRuntimeContext\<close> does to the message.\<close>

definition ensure_message_runtime :: "message \<Rightarrow> message" where
  "ensure_message_runtime m = m\<lparr>qm_runtime := Some (runtime_context_from_message m)\<rparr>"

definition set_task_state :: "task_state \<Rightarrow> message \<Rightarrow> message" where
  "set_task_state st m =
     (if st = TaskUnset then m
      else (let m1 = m\<lparr>qm_state := st\<rparr>;
                r = (case qm_runtime m1 of None \<Rightarrow> runtime_context_from_message m1 | Some r \<Rightarrow> r)
            in m1\<lparr>qm_runtime := Some (r\<lparr>rx_task_state := st\<rparr>)\<rparr>))"

definition transition_task_state :: "task_state \<Rightarrow> message \<Rightarrow> bool \<times> message" where
  "transition_task_state st m =
     (if can_transition_task (qm_state m) st then (True, set_task_state st m) else (False, m))"

text \<open>The callers drop the result, and a nil message is left alone.\<close>

abbreviation to_state :: "task_state \<Rightarrow> message option \<Rightarrow> message option" where
  "to_state st \<equiv> map_option (\<lambda>m. snd (transition_task_state st m))"

lemma set_task_state_simps [simp]:
  "qm_retry_count (set_task_state st m) = qm_retry_count m"
  "qm_max_retry (set_task_state st m) = qm_max_retry m"
  "qm_id (set_task_state st m) = qm_id m" "qm_queue (set_task_state st m) = qm_queue m"
  "qm_type (set_task_state st m) = qm_type m"
  "qm_state (set_task_state st m) = (if st = TaskUnset then qm_state m else st)"
  by (simp_all add: set_task_state_def Let_def)

lemma transition_simps [simp]:
  "qm_retry_count (snd (transition_task_state st m)) = qm_retry_count m"
  "qm_max_retry (snd (transition_task_state st m)) = qm_max_retry m"
  "qm_id (snd (transition_task_state st m)) = qm_id m"
  "qm_queue (snd (transition_task_state st m)) = qm_queue m"
  "qm_type (snd (transition_task_state st m)) = qm_type m"
  "qm_state (snd (transition_task_state st m)) =
     (if can_transition_task (qm_state m) st then st else qm_state m)"
  by (auto simp: transition_task_state_def can_transition_task_def)

section \<open>Retry rules (retry.go)\<close>

definition default_retry_delay :: "int \<Rightarrow> q_error \<Rightarrow> int" where
  "default_retry_delay retry_count e =
     (if is_rate_limit_error e then 0
      else if is_err ContextDeadlineExceeded e then 30 * 10 ^ 9 else 120 * 10 ^ 9)"

definition retry_exhausted :: "message option \<Rightarrow> bool" where
  "retry_exhausted m =
     (case m of None \<Rightarrow> False | Some m \<Rightarrow> qm_max_retry m \<ge> 0 \<and> qm_retry_count m \<ge> qm_max_retry m)"

lemma retry_exhausted_to_state [simp]: "retry_exhausted (to_state st m) = retry_exhausted m"
  by (cases m) (simp_all add: retry_exhausted_def)

end
