(* ===== verification/Queue_Middleware.thy ===== *)
theory Queue_Middleware
  imports Queue_Types
begin

text \<open>
  The middleware chain of \<^verbatim>\<open>core/queue\<close>: stages and chaining (\<open>middleware_stage.go\<close>) and the
  governance middlewares of \<^verbatim>\<open>core/queue/runtime/middleware\<close> (recover, timeout, rate limit,
  concurrency, lock, retry, dead letter).

  A handler runs in a context (none for a nil one) on a message, which it changes in place, over
  the world \<open>'w\<close> of its collaborators; it returns an error or nil, or panics.  A deferred call runs
  in both cases.  Limiters, lockers, strategies and dead-letter stores are parameters.  Logging,
  metrics and tracing middlewares are not modelled.
\<close>

record q_ctx =
  qc_err :: "q_error option"
  qc_deadline :: "int option"
  qc_trace :: trace_ctx

datatype q_outcome = Returned "q_error option" | Panicked string

type_synonym 'w q_handler = "q_ctx option \<Rightarrow> message option \<Rightarrow> 'w \<Rightarrow> q_outcome \<times> message option \<times> 'w"
type_synonym 'w q_middleware = "'w q_handler \<Rightarrow> 'w q_handler"

definition q_background :: q_ctx where
  "q_background = \<lparr>qc_err = None, qc_deadline = None, qc_trace = background_trace\<rparr>"

definition or_background :: "q_ctx option \<Rightarrow> q_ctx option" where
  "or_background ctx = (case ctx of None \<Rightarrow> Some q_background | Some c \<Rightarrow> Some c)"

text \<open>\<open>context.WithTimeout\<close>: the earlier of the two deadlines holds.\<close>

definition with_timeout :: "int \<Rightarrow> int \<Rightarrow> q_ctx \<Rightarrow> q_ctx" where
  "with_timeout now d c =
     c\<lparr>qc_deadline := Some (case qc_deadline c of None \<Rightarrow> now + d | Some t \<Rightarrow> min t (now + d))\<rparr>"

section \<open>Stages and the chain (middleware_stage.go)\<close>

abbreviation (input) "RecoverStage \<equiv> (0::int)"
abbreviation (input) "TraceStage \<equiv> (1::int)"
abbreviation (input) "MetricsStage \<equiv> (2::int)"
abbreviation (input) "LoggingStage \<equiv> (3::int)"
abbreviation (input) "TimeoutStage \<equiv> (4::int)"
abbreviation (input) "RateLimitStage \<equiv> (5::int)"
abbreviation (input) "ConcurrencyStage \<equiv> (6::int)"
abbreviation (input) "LockStage \<equiv> (7::int)"
abbreviation (input) "RetryStage \<equiv> (8::int)"
abbreviation (input) "DeadLetterStage \<equiv> (9::int)"
abbreviation (input) "BusinessStage \<equiv> (10::int)"

record 'w runtime_middleware =
  rm_stage :: int
  rm_middleware :: "'w q_middleware option"

definition stage_middleware :: "int \<Rightarrow> 'w q_middleware option \<Rightarrow> 'w runtime_middleware" where
  "stage_middleware st m = \<lparr>rm_stage = st, rm_middleware = m\<rparr>"

definition runtime_middlewares :: "int \<Rightarrow> 'w q_middleware option list \<Rightarrow> 'w runtime_middleware list" where
  "runtime_middlewares st ms = map (stage_middleware st) (filter (\<lambda>m. \<not> Option.is_none m) ms)"

definition chain_runtime :: "'w q_handler \<Rightarrow> 'w runtime_middleware list \<Rightarrow> 'w q_handler" where
  "chain_runtime h ms =
     foldr (\<lambda>m wrapped. case rm_middleware m of None \<Rightarrow> wrapped | Some f \<Rightarrow> f wrapped) ms h"

text \<open>\<open>sort.SliceStable\<close> by stage.\<close>

definition normalize_runtime_middlewares :: "'w runtime_middleware list \<Rightarrow> 'w runtime_middleware list" where
  "normalize_runtime_middlewares ms =
     sort_key rm_stage (filter (\<lambda>m. \<not> Option.is_none (rm_middleware m)) ms)"

definition has_runtime_middleware_stage :: "'w runtime_middleware list \<Rightarrow> int \<Rightarrow> bool" where
  "has_runtime_middleware_stage ms st =
     list_ex (\<lambda>m. \<not> Option.is_none (rm_middleware m) \<and> rm_stage m = st) ms"

section \<open>Recover and timeout\<close>

definition recover_mw :: "'w q_middleware" where
  "recover_mw next ctx msg w =
     (case next ctx msg w of
        (Panicked v, m, w') \<Rightarrow> (Returned (Some (QForeign (''queue handler panic: '' @ v))), m, w')
      | r \<Rightarrow> r)"

fun first_positive_duration :: "int list \<Rightarrow> int" where
  "first_positive_duration [] = 0"
| "first_positive_duration (v # vs) = (if v > 0 then v else first_positive_duration vs)"

definition timeout_mw :: "('w \<Rightarrow> int) \<Rightarrow> int list \<Rightarrow> 'w q_middleware" where
  "timeout_mw now defaults next ctx msg w =
     (let timeout = first_positive_duration defaults;
          d = (if timeout \<le> 0
               then (case msg of None \<Rightarrow> timeout
                     | Some m \<Rightarrow> (case message_metadata_duration m ''queue.timeout'' of
                                   None \<Rightarrow> timeout | Some t \<Rightarrow> t))
               else timeout)
      in if d \<le> 0 then next ctx msg w
         else next (map_option (with_timeout (now w) d) (or_background ctx)) msg w)"

definition task_timeout_middleware :: "('w \<Rightarrow> int) \<Rightarrow> int \<Rightarrow> 'w q_middleware option" where
  "task_timeout_middleware now d =
     (if d \<le> 0 then None
      else Some (\<lambda>next ctx msg w. next (map_option (with_timeout (now w) d) (or_background ctx)) msg w))"

section \<open>Rate limit, concurrency, lock\<close>

text \<open>A key function returns the key (with its limit, window or ttl), whether to apply, and an error.\<close>

definition rate_limit_mw ::
  "(q_ctx option \<Rightarrow> string \<Rightarrow> int \<Rightarrow> int \<Rightarrow> 'w \<Rightarrow> (bool \<times> int \<times> q_error option) \<times> 'w) option \<Rightarrow>
   (q_ctx option \<Rightarrow> message option \<Rightarrow> string \<times> int \<times> int \<times> bool \<times> q_error option) option \<Rightarrow> 'w q_middleware" where
  "rate_limit_mw limiter key_fn next ctx0 msg w =
     (case limiter of None \<Rightarrow> next ctx0 msg w | Some allow \<Rightarrow>
      case key_fn of None \<Rightarrow> next ctx0 msg w | Some kf \<Rightarrow>
        let ctx = or_background ctx0; (key, limit, window, use, err) = kf ctx msg in
        if \<not> Option.is_none err then (Returned err, msg, w)
        else if \<not> use then next ctx msg w
        else let ((allowed, retry_in, err'), w') = allow ctx key limit window w in
          if \<not> Option.is_none err' then (Returned err', msg, w')
          else if \<not> allowed
          then (Returned (Some (rate_limited retry_in (Some (QSentinel QErrRateLimited)))), msg, w')
          else next ctx msg w')"

type_synonym concurrency_key_fn = "q_ctx option \<Rightarrow> message option \<Rightarrow> string \<times> bool \<times> q_error option"

definition message_concurrency_key :: concurrency_key_fn where
  "message_concurrency_key ctx msg =
     (case msg of None \<Rightarrow> (''queue'', True, None)
      | Some m \<Rightarrow> (case message_metadata_string m ''queue.concurrency.key'' of
            Some key \<Rightarrow> (key, True, None)
          | None \<Rightarrow> if qm_type m \<noteq> [] then (qm_type m, True, None) else (''queue'', True, None)))"

definition concurrency_mw ::
  "(q_ctx option \<Rightarrow> string \<Rightarrow> 'w \<Rightarrow> q_error option \<times> 'w) \<Rightarrow> (string \<Rightarrow> 'w \<Rightarrow> 'w) \<Rightarrow>
   concurrency_key_fn \<Rightarrow> 'w q_middleware" where
  "concurrency_mw acquire release key_fn next ctx0 msg w =
     (let ctx = or_background ctx0; (key, use, err) = key_fn ctx msg in
      if \<not> Option.is_none err then (Returned err, msg, w)
      else if \<not> use then next ctx msg w
      else let (err', w1) = acquire ctx key w in
        if \<not> Option.is_none err' then (Returned err', msg, w1)
        else let (out, msg', w2) = next ctx msg w1 in (out, msg', release key w2))"

type_synonym lock_key_fn = "q_ctx option \<Rightarrow> message option \<Rightarrow> string \<times> int \<times> bool \<times> q_error option"

definition message_lock_key :: lock_key_fn where
  "message_lock_key ctx msg =
     (case msg of None \<Rightarrow> ([], 0, False, None)
      | Some m \<Rightarrow> (case message_metadata_value m ''queue.lock.key'' of
          Some (AnyString key) \<Rightarrow>
            if key = [] then ([], 0, False, None)
            else (case message_metadata_duration m ''queue.lock.ttl'' of
                    Some ttl \<Rightarrow> if ttl \<le> 0 then ([], 0, False, Some (QForeign ''queue lock ttl is required''))
                                else (key, ttl, True, None)
                  | None \<Rightarrow> ([], 0, False, Some (QForeign ''queue lock ttl is required'')))
        | _ \<Rightarrow> ([], 0, False, None)))"

text \<open>
  A locker returns an unlock function (an identity \<open>'u\<close>, none when nil), whether the lock was
  taken, and an error.  The error of the unlock is logged and dropped.
\<close>

record ('w, 'u) locker =
  lk_lock :: "q_ctx option \<Rightarrow> string \<Rightarrow> int \<Rightarrow> 'w \<Rightarrow> ('u option \<times> bool \<times> q_error option) \<times> 'w"
  lk_unlock :: "'u \<Rightarrow> 'w \<Rightarrow> q_error option \<times> 'w"

definition lock_mw :: "('w, 'u) locker option \<Rightarrow> lock_key_fn \<Rightarrow> 'w q_middleware" where
  "lock_mw lk key_fn next ctx0 msg w =
     (case lk of None \<Rightarrow> next ctx0 msg w
      | Some l \<Rightarrow>
        let ctx = or_background ctx0; (key, ttl, use, err) = key_fn ctx msg in
        if \<not> Option.is_none err then (Returned err, msg, w)
        else if \<not> use then next ctx msg w
        else if key = [] then (Returned (Some (QForeign ''queue lock key is required'')), msg, w)
        else let ((unlock, ok, err'), w1) = lk_lock l ctx key ttl w in
          if \<not> Option.is_none err' then (Returned err', msg, w1)
          else if \<not> ok then (Returned (Some (QSentinel QErrLockNotAcquired)), msg, w1)
          else let (out, msg', w2) = next ctx msg w1 in
            (out, msg', (case unlock of None \<Rightarrow> w2 | Some u \<Rightarrow> snd (lk_unlock l u w2))))"

section \<open>Retry and dead letter\<close>

definition dead_lettered :: "message option \<Rightarrow> message option" where
  "dead_lettered msg = to_state TaskDeadLetter (to_state TaskFailed msg)"

definition is_dead_letter_state :: "message option \<Rightarrow> bool" where
  "is_dead_letter_state msg = (case msg of None \<Rightarrow> False | Some m \<Rightarrow> qm_state m = TaskDeadLetter)"

text \<open>What the retry middleware makes of an error of the handler.\<close>

definition retry_verdict ::
  "(message option \<Rightarrow> int \<Rightarrow> q_error \<Rightarrow> int \<times> bool) \<Rightarrow> message option \<Rightarrow> q_error \<Rightarrow> q_error \<times> message option" where
  "retry_verdict strategy msg err =
     (if is_rate_limit_error err \<or> is_dead_letter_error err \<or> is_fatal_error err \<or>
         is_ignored_error err \<or> is_dead_letter_state msg
      then (err, msg)
      else if runtime_error_sat (\<lambda>r. re_retryable r \<and> re_retry_in r > 0) err
      then (if retry_exhausted msg then (new_dead_letter_error (Some err), dead_lettered msg) else (err, msg))
      else if retry_exhausted msg then (new_dead_letter_error (Some err), dead_lettered msg)
      else let (retry_in, ok) = strategy msg (case msg of None \<Rightarrow> 0 | Some m \<Rightarrow> qm_retry_count m) err in
        if \<not> ok then (err, msg)
        else (retryable_after retry_in (Some err), to_state TaskRetrying msg))"

definition retry_mw :: "(message option \<Rightarrow> int \<Rightarrow> q_error \<Rightarrow> int \<times> bool) \<Rightarrow> 'w q_middleware" where
  "retry_mw strategy next ctx msg w =
     (case next (or_background ctx) msg w of
        (Returned (Some err), msg', w') \<Rightarrow>
          let (err', msg'') = retry_verdict strategy msg' err in (Returned (Some err'), msg'', w')
      | r \<Rightarrow> r)"

definition should_dead_letter :: "message option \<Rightarrow> q_error \<Rightarrow> bool" where
  "should_dead_letter msg err = (is_fatal_error err \<or> retry_exhausted msg)"

definition dead_letter_mw ::
  "(q_ctx option \<Rightarrow> message option \<Rightarrow> q_error \<Rightarrow> 'w \<Rightarrow> q_error option \<times> 'w) \<Rightarrow> 'w q_middleware" where
  "dead_letter_mw push next ctx0 msg w =
     (let ctx = or_background ctx0 in
      case next ctx msg w of
        (Returned (Some err), msg', w') \<Rightarrow>
          if is_ignored_error err \<or> \<not> should_dead_letter msg' err then (Returned (Some err), msg', w')
          else (case push ctx msg' err w' of
                  (Some push_err, w'') \<Rightarrow> (Returned (q_join [Some err, Some push_err]), msg', w'')
                | (None, w'') \<Rightarrow> (Returned (Some (new_dead_letter_error (Some err))), dead_lettered msg', w''))
      | r \<Rightarrow> r)"

end
