(* ===== verification/Queue_Options.thy ===== *)
theory Queue_Options
  imports Queue_Types
begin

text \<open>
  Enqueue options of \<^verbatim>\<open>core/queue/option.go\<close>.  An option of the code is a function on
  \<open>EnqueueOptions\<close>; here it is a constructor of \<open>enqueue_option\<close> with its effect in
  \<open>apply_option\<close>.  A nil option is \<open>None\<close>.
\<close>

record enqueue_options =
  eo_queue :: string
  eo_task_id :: string
  eo_max_retry :: "int option"
  eo_timeout :: int
  eo_deadline :: int
  eo_process_at :: int
  eo_process_in :: int
  eo_unique_ttl :: int
  eo_retention :: int
  eo_group :: string
  eo_priority :: int
  eo_rate_limit_key :: string
  eo_trace :: bool
  eo_auto_retry_enabled :: bool
  eo_auto_retry_max :: int
  eo_auto_retry_delay :: int

datatype enqueue_option =
    OptQueue string | OptMaxRetry int | OptTimeout int | OptDeadline int | OptProcessAt int
  | OptProcessIn int | OptTaskID string | OptUnique int | OptRetention int | OptGroup string
  | OptPriority int | OptRateLimitKey string | OptAutoRetry int int | OptTrace bool

fun apply_option :: "enqueue_option \<Rightarrow> enqueue_options \<Rightarrow> enqueue_options" where
  "apply_option (OptQueue q) x = x\<lparr>eo_queue := q\<rparr>"
| "apply_option (OptMaxRetry n) x = x\<lparr>eo_max_retry := Some (if n < 0 then 0 else n)\<rparr>"
| "apply_option (OptTimeout d) x = x\<lparr>eo_timeout := d\<rparr>"
| "apply_option (OptDeadline t) x = x\<lparr>eo_deadline := t\<rparr>"
| "apply_option (OptProcessAt t) x = x\<lparr>eo_process_at := t\<rparr>"
| "apply_option (OptProcessIn d) x = x\<lparr>eo_process_in := d\<rparr>"
| "apply_option (OptTaskID i) x = x\<lparr>eo_task_id := i\<rparr>"
| "apply_option (OptUnique d) x = x\<lparr>eo_unique_ttl := d\<rparr>"
| "apply_option (OptRetention d) x = x\<lparr>eo_retention := d\<rparr>"
| "apply_option (OptGroup g) x = x\<lparr>eo_group := g\<rparr>"
| "apply_option (OptPriority p) x = x\<lparr>eo_priority := p\<rparr>"
| "apply_option (OptRateLimitKey k) x = x\<lparr>eo_rate_limit_key := k\<rparr>"
| "apply_option (OptTrace b) x = x\<lparr>eo_trace := b\<rparr>"
| "apply_option (OptAutoRetry mx delay) x =
     (if mx \<le> 0
      then x\<lparr>eo_auto_retry_enabled := False, eo_auto_retry_max := 0, eo_auto_retry_delay := 0\<rparr>
      else x\<lparr>eo_auto_retry_enabled := True, eo_auto_retry_max := mx,
             eo_auto_retry_delay := (if delay < 0 then 0 else delay)\<rparr>)"

definition DefaultQueueName :: string where "DefaultQueueName = ''default''"

definition apply_options :: "enqueue_option option list \<Rightarrow> enqueue_options" where
  "apply_options opts =
     foldl (\<lambda>x oo. case oo of None \<Rightarrow> x | Some q \<Rightarrow> apply_option q x)
       \<lparr>eo_queue = DefaultQueueName, eo_task_id = [], eo_max_retry = None, eo_timeout = 0,
        eo_deadline = 0, eo_process_at = 0, eo_process_in = 0, eo_unique_ttl = 0, eo_retention = 0,
        eo_group = [], eo_priority = 0, eo_rate_limit_key = [], eo_trace = True,
        eo_auto_retry_enabled = False, eo_auto_retry_max = 0, eo_auto_retry_delay = 0\<rparr>
       opts"

end
