(* ===== verification/Queue_Dispatch.thy ===== *)
theory Queue_Dispatch
  imports Queue_Middleware Queue_Options
begin

text \<open>
  The execution of a task: the dispatcher (\<open>dispatcher.go\<close>, with \<open>buildHandlerPipeline\<close> of
  \<open>queue.go\<close>) finds the handler of a pattern and its middlewares, the orchestrator
  (\<open>orchestrator.go\<close>) moves the message through its states, publishes the runtime events and
  tells the observers and hooks.

  Publishers and observers are functions on the world, hooks may change the message too.
  Timestamps of events and the names of middlewares are not modelled; handler arguments that are
  typed payload functions or context handlers (recognised by reflection) are \<open>ArgOther\<close>.
\<close>

section \<open>The orchestrator (orchestrator.go)\<close>

datatype rt_event_type =
  EventTaskStarted | EventTaskSuccess | EventTaskFailed | EventTaskRetry | EventTaskDeadLetter | EventTaskTimeout

record rt_event =
  ev_type :: rt_event_type
  ev_message :: "message option"
  ev_error :: "q_error option"

record 'w observer =
  ob_start :: "message option \<Rightarrow> 'w \<Rightarrow> 'w"
  ob_finish :: "message option \<Rightarrow> q_error option \<Rightarrow> 'w \<Rightarrow> 'w"
  ob_retry :: "message option \<Rightarrow> q_error \<Rightarrow> 'w \<Rightarrow> 'w"
  ob_failure :: "message option \<Rightarrow> q_error \<Rightarrow> 'w \<Rightarrow> 'w"

record 'w hook =
  hk_before :: "q_ctx option \<Rightarrow> message option \<Rightarrow> 'w \<Rightarrow> q_error option \<times> message option \<times> 'w"
  hk_after :: "message option \<Rightarrow> q_error option \<Rightarrow> 'w \<Rightarrow> message option \<times> 'w"
  hk_success :: "message option \<Rightarrow> 'w \<Rightarrow> message option \<times> 'w"
  hk_failure :: "message option \<Rightarrow> q_error \<Rightarrow> 'w \<Rightarrow> message option \<times> 'w"

record 'w orchestrator =
  or_publishers :: "(rt_event \<Rightarrow> 'w \<Rightarrow> 'w) list"
  or_observers :: "'w observer list"

definition new_orchestrator :: "'w orchestrator" where
  "new_orchestrator = \<lparr>or_publishers = [], or_observers = []\<rparr>"

definition publish_event ::
  "'w orchestrator \<Rightarrow> rt_event_type \<Rightarrow> message option \<Rightarrow> q_error option \<Rightarrow> 'w \<Rightarrow> 'w" where
  "publish_event orc ty msg err w =
     foldl (\<lambda>w p. p \<lparr>ev_type = ty, ev_message = msg, ev_error = err\<rparr> w) w (or_publishers orc)"

definition observe_all :: "'w orchestrator \<Rightarrow> ('w observer \<Rightarrow> 'w \<Rightarrow> 'w) \<Rightarrow> 'w \<Rightarrow> 'w" where
  "observe_all orc f w = foldl (\<lambda>w ob. f ob w) w (or_observers orc)"

fun run_before_process ::
  "'w hook list \<Rightarrow> q_ctx option \<Rightarrow> message option \<Rightarrow> 'w \<Rightarrow> q_error option \<times> message option \<times> 'w" where
  "run_before_process [] ctx msg w = (None, msg, w)"
| "run_before_process (h # hs) ctx msg w =
     (case hk_before h ctx msg w of
        (Some e, msg', w') \<Rightarrow> (Some e, msg', w')
      | (None, msg', w') \<Rightarrow> run_before_process hs ctx msg' w')"

definition run_hooks ::
  "'w hook list \<Rightarrow> ('w hook \<Rightarrow> message option \<Rightarrow> 'w \<Rightarrow> message option \<times> 'w) \<Rightarrow> message option \<times> 'w \<Rightarrow>
     message option \<times> 'w" where
  "run_hooks hs f s = foldl (\<lambda>(m, w) h. f h m w) s hs"

definition should_mark_dead_letter :: "message option \<Rightarrow> q_error \<Rightarrow> bool" where
  "should_mark_dead_letter msg err =
     (if msg = None \<or> is_rate_limit_error err \<or> is_ignored_error err then False else retry_exhausted msg)"

text \<open>The state and the event of a failure, the first part of \<open>finishFailure\<close>.\<close>

definition failure_event :: "message option \<Rightarrow> q_error \<Rightarrow> rt_event_type \<times> message option" where
  "failure_event msg err =
     (if is_dead_letter_state msg then (EventTaskDeadLetter, msg)
      else if is_dead_letter_error err \<or> is_fatal_error err \<or> should_mark_dead_letter msg err
      then (EventTaskDeadLetter, dead_lettered msg)
      else if is_timeout_error err \<or> is_err ContextDeadlineExceeded err
      then (EventTaskTimeout, to_state TaskFailed msg)
      else if is_retryable_error err \<or> is_rate_limit_error err
      then (EventTaskRetry, to_state TaskRetrying msg)
      else (EventTaskFailed, to_state TaskFailed msg))"

definition finish_failure :: "'w orchestrator \<Rightarrow> message option \<Rightarrow> q_error \<Rightarrow> 'w \<Rightarrow> message option \<times> 'w" where
  "finish_failure orc msg err w =
     (let (ty, msg') = failure_event msg err;
          w1 = publish_event orc ty msg' (Some err) w;
          w2 = observe_all orc (\<lambda>ob. if ty = EventTaskRetry then ob_retry ob msg' err else ob_failure ob msg' err) w1
      in (msg', observe_all orc (\<lambda>ob. ob_finish ob msg' (Some err)) w2))"

text \<open>The message as \<open>Execute\<close> prepares it; the second \<open>ensure\<close> is that of \<open>ContextWithMessage\<close>.\<close>

definition started_message :: "message \<Rightarrow> message" where
  "started_message m =
     (let m1 = (if qm_state m = TaskUnset then snd (transition_task_state TaskPending m) else m);
          m2 = snd (transition_task_state TaskRunning m1)
      in ensure_message_runtime (ensure_message_runtime m2))"

definition conclude ::
  "'w orchestrator \<Rightarrow> 'w hook list \<Rightarrow> q_outcome \<times> message option \<times> 'w \<Rightarrow> q_outcome \<times> message option \<times> 'w" where
  "conclude orc hooks r =
     (case r of
        (Panicked v, msg, w) \<Rightarrow> (Panicked v, msg, w)
      | (Returned err, msg, w) \<Rightarrow>
          let (msg1, w1) = run_hooks hooks (\<lambda>h m. hk_after h m err) (msg, w) in
          case err of
            Some e \<Rightarrow>
              let (msg2, w2) = finish_failure orc msg1 e w1;
                  (msg3, w3) = run_hooks hooks (\<lambda>h m. hk_failure h m e) (msg2, w2)
              in (Returned (Some e), msg3, w3)
          | None \<Rightarrow>
              let msg2 = to_state TaskSuccess msg1;
                  w2 = publish_event orc EventTaskSuccess msg2 None w1;
                  w3 = observe_all orc (\<lambda>ob. ob_finish ob msg2 None) w2;
                  (msg4, w4) = run_hooks hooks (\<lambda>h. hk_success h) (msg2, w3)
              in (Returned None, msg4, w4))"

definition execute ::
  "'w orchestrator \<Rightarrow> 'w q_handler option \<Rightarrow> 'w runtime_middleware list \<Rightarrow> 'w hook list \<Rightarrow>
   q_ctx option \<Rightarrow> message option \<Rightarrow> 'w \<Rightarrow> q_outcome \<times> message option \<times> 'w" where
  "execute orc handler ms hooks ctx0 msg0 w0 =
     (case handler of None \<Rightarrow> (Returned (Some (QSentinel QErrNotInitialized)), msg0, w0)
      | Some h \<Rightarrow>
        let ctx = or_background ctx0;
            msg = map_option started_message msg0;
            w1 = publish_event orc EventTaskStarted msg None w0;
            w2 = observe_all orc (\<lambda>ob. ob_start ob msg) w1;
            (err, msg1, w3) = run_before_process hooks ctx msg w2
        in conclude orc hooks
             (case err of
                Some e \<Rightarrow> (Returned (Some e), msg1, w3)
              | None \<Rightarrow> chain_runtime h (normalize_runtime_middlewares ms) ctx msg1 w3))"

section \<open>The dispatcher (dispatcher.go)\<close>

record handler_metadata =
  hm_pattern :: string
  hm_middleware_count :: nat
  hm_queue :: string
  hm_max_retry :: "int option"
  hm_timeout :: int
  hm_delay :: int
  hm_priority :: int
  hm_trace :: bool

datatype 'w chain_arg =
    ArgHandler "'w q_handler"
  | ArgMiddleware "'w q_middleware"
  | ArgRuntimeMiddleware "'w runtime_middleware"
  | ArgOption enqueue_option
  | ArgNil
  | ArgOther

record 'w dispatcher =
  dp_handlers :: "string \<rightharpoonup> 'w q_handler"
  dp_route_middleware :: "string \<Rightarrow> 'w runtime_middleware list"
  dp_entries :: "string \<rightharpoonup> handler_metadata"
  dp_middlewares :: "'w runtime_middleware list"
  dp_hooks :: "'w hook list"
  dp_orchestrator :: "'w orchestrator"

definition new_dispatcher :: "'w dispatcher" where
  "new_dispatcher = \<lparr>dp_handlers = Map.empty, dp_route_middleware = (\<lambda>_. []), dp_entries = Map.empty,
     dp_middlewares = [], dp_hooks = [], dp_orchestrator = new_orchestrator\<rparr>"

definition use_runtime :: "'w runtime_middleware list \<Rightarrow> 'w dispatcher \<Rightarrow> 'w dispatcher" where
  "use_runtime ms d =
     d\<lparr>dp_middlewares := dp_middlewares d @ filter (\<lambda>m. \<not> Option.is_none (rm_middleware m)) ms\<rparr>"

definition split_registration_args :: "'w chain_arg list \<Rightarrow> 'w chain_arg list \<times> enqueue_option option list" where
  "split_registration_args args =
     (filter (\<lambda>a. case a of ArgNil \<Rightarrow> False | ArgOption _ \<Rightarrow> False | _ \<Rightarrow> True) args,
      List.map_filter (\<lambda>a. case a of ArgOption q \<Rightarrow> Some (Some q) | _ \<Rightarrow> None) args)"

text \<open>The wrapper of \<open>asHandlerFunc\<close>: the runtime context of the message is refreshed first.\<close>

definition as_handler_func :: "'w chain_arg \<Rightarrow> 'w q_handler option" where
  "as_handler_func a =
     (case a of
        ArgHandler h \<Rightarrow> Some (\<lambda>ctx msg w. h (or_background ctx) (map_option (ensure_message_runtime \<circ> ensure_message_runtime) msg) w)
      | _ \<Rightarrow> None)"

definition as_runtime_middleware :: "'w chain_arg \<Rightarrow> 'w runtime_middleware option" where
  "as_runtime_middleware a =
     (case a of
        ArgRuntimeMiddleware m \<Rightarrow> Some m
      | ArgMiddleware f \<Rightarrow> Some (stage_middleware BusinessStage (Some f))
      | _ \<Rightarrow> None)"

definition build_handler_pipeline ::
  "'w chain_arg list \<Rightarrow> q_error + 'w q_handler \<times> 'w runtime_middleware list" where
  "build_handler_pipeline args =
     (if args = [] then Inl (QForeign ''queue: handler chain requires final handler'')
      else (case as_handler_func (last args) of
        None \<Rightarrow> Inl (QForeign ''queue: handler chain final item is not a handler'')
      | Some h \<Rightarrow>
          if list_ex (\<lambda>a. Option.is_none (as_runtime_middleware a)) (butlast args)
          then Inl (QForeign ''queue: handler chain item is not a middleware'')
          else Inr (h, normalize_runtime_middlewares (List.map_filter as_runtime_middleware (butlast args)))))"

definition handler_metadata_of :: "string \<Rightarrow> nat \<Rightarrow> enqueue_option option list \<Rightarrow> handler_metadata" where
  "handler_metadata_of pattern n opts =
     (let a = apply_options opts in
      \<lparr>hm_pattern = pattern, hm_middleware_count = n, hm_queue = eo_queue a, hm_max_retry = eo_max_retry a,
       hm_timeout = eo_timeout a, hm_delay = eo_process_in a, hm_priority = eo_priority a, hm_trace = eo_trace a\<rparr>)"

definition dispatcher_register ::
  "('w \<Rightarrow> int) \<Rightarrow> 'w dispatcher \<Rightarrow> string \<times> 'w chain_arg list \<Rightarrow> q_error + 'w dispatcher" where
  "dispatcher_register now d r =
     (case r of (pattern, args) \<Rightarrow>
      if pattern = [] then Inl (QForeign ''queue dispatcher pattern is required'')
      else let (chain, opts) = split_registration_args args in
        bindR (build_handler_pipeline chain) (\<lambda>(h, ms).
          let md = handler_metadata_of pattern (length ms) opts;
              (ms', md') =
                (if hm_timeout md > 0 \<and> \<not> has_runtime_middleware_stage ms TimeoutStage
                 then (let ms1 = ms @ [stage_middleware TimeoutStage (task_timeout_middleware now (hm_timeout md))]
                       in (ms1, md\<lparr>hm_middleware_count := length ms1\<rparr>))
                 else (ms, md))
          in Inr (d\<lparr>dp_handlers := (dp_handlers d)(pattern \<mapsto> h),
                    dp_route_middleware := (dp_route_middleware d)(pattern := ms'),
                    dp_entries := (dp_entries d)(pattern \<mapsto> md')\<rparr>)))"

definition dispatcher_lookup ::
  "'w dispatcher \<Rightarrow> string \<Rightarrow> ('w q_handler \<times> 'w runtime_middleware list \<times> handler_metadata) option" where
  "dispatcher_lookup d pattern =
     (case dp_handlers d pattern of None \<Rightarrow> None
      | Some h \<Rightarrow> Some (h, normalize_runtime_middlewares (dp_middlewares d @ dp_route_middleware d pattern),
          (case dp_entries d pattern of Some md \<Rightarrow> md
           | None \<Rightarrow> \<lparr>hm_pattern = [], hm_middleware_count = 0, hm_queue = [], hm_max_retry = None,
               hm_timeout = 0, hm_delay = 0, hm_priority = 0, hm_trace = False\<rparr>)))"

definition apply_handler_metadata :: "handler_metadata \<Rightarrow> message \<Rightarrow> message" where
  "apply_handler_metadata md m0 =
     (let m1 = set_message_metadata ''queue.pattern'' (AnyString (hm_pattern md)) m0;
          m2 = (if hm_queue md \<noteq> []
                then (let m = set_message_metadata ''queue.queue'' (AnyString (hm_queue md)) m1
                      in if qm_queue m = [] then m\<lparr>qm_queue := hm_queue md\<rparr> else m)
                else m1);
          m3 = (case hm_max_retry md of None \<Rightarrow> m2 | Some n \<Rightarrow> set_message_metadata ''queue.max_retry'' (AnyInt n) m2);
          m4 = (if hm_timeout md > 0 then set_message_metadata ''queue.timeout'' (AnyDuration (hm_timeout md)) m3 else m3);
          m5 = (if hm_delay md > 0 then set_message_metadata ''queue.delay'' (AnyDuration (hm_delay md)) m4 else m4);
          m6 = (if hm_priority md \<noteq> 0 then set_message_metadata ''queue.priority'' (AnyInt (hm_priority md)) m5 else m5)
      in set_message_metadata ''queue.trace'' (AnyBool (hm_trace md)) m6)"

definition empty_message :: message where
  "empty_message = \<lparr>qm_id = [], qm_type = [], qm_payload = [], qm_queue = [], qm_state = TaskUnset,
     qm_retry_count = 0, qm_max_retry = 0, qm_headers = [], qm_metadata = Map.empty, qm_runtime = None\<rparr>"

text \<open>
  \<open>Dispatch\<close>, with the message that was processed: the caller's own, unless it was nil or had no
  type (then a fresh one, or a copy).
\<close>

definition dispatch ::
  "'w dispatcher \<Rightarrow> q_ctx option \<Rightarrow> string \<Rightarrow> message option \<Rightarrow> 'w \<Rightarrow> q_outcome \<times> message option \<times> 'w" where
  "dispatch d ctx pattern0 msg w =
     (let pattern = (if pattern0 = [] then (case msg of None \<Rightarrow> [] | Some m \<Rightarrow> qm_type m) else pattern0) in
      if pattern = [] then (Returned (Some (QForeign ''queue dispatcher pattern is required'')), msg, w)
      else (case dispatcher_lookup d pattern of
        None \<Rightarrow> (Returned (Some (QWrapped pattern (QSentinel QErrHandlerNotFound))), msg, w)
      | Some (h, ms, md) \<Rightarrow>
          let m = (case msg of None \<Rightarrow> empty_message\<lparr>qm_type := pattern\<rparr>
                   | Some m \<Rightarrow> if qm_type m = [] then m\<lparr>qm_type := pattern\<rparr> else m)
          in execute (dp_orchestrator d) (Some h) ms (dp_hooks d) ctx (Some (apply_handler_metadata md m)) w))"

end
