(* ===== verification/Queue_Execution.thy ===== *)
theory Queue_Execution
  imports Queue_Dispatch "HOL-Library.Multiset"
begin

text \<open>
  What the execution of a task guarantees: the state a message ends in and the events that are
  published, for every handler that leaves the bookkeeping of the message to the orchestrator.
\<close>

section \<open>Governed handlers\<close>

text \<open>
  A governed handler, run on a running message, leaves the retry limits alone and the message in
  a state that fits its result: running after success or panic; after an error running, dead, or
  retrying, the last only for an error that asks for it and a message with retries left.
\<close>

definition same_limits :: "message option \<Rightarrow> message option \<Rightarrow> bool" where
  "same_limits m m' = rel_option (\<lambda>x y. qm_retry_count x = qm_retry_count y \<and> qm_max_retry x = qm_max_retry y) m m'"

definition may_retry :: "message option \<Rightarrow> q_error \<Rightarrow> bool" where
  "may_retry m e \<longleftrightarrow> is_retryable_error e \<and> \<not> is_fatal_error e \<and> \<not> is_dead_letter_error e \<and> \<not> retry_exhausted m"

definition fitting :: "q_outcome \<Rightarrow> message option \<Rightarrow> bool" where
  "fitting out m =
     (case m of None \<Rightarrow> True
      | Some x \<Rightarrow> (case out of
            Returned (Some e) \<Rightarrow> qm_state x = TaskRunning \<or> qm_state x = TaskDeadLetter \<or>
              qm_state x = TaskRetrying \<and> may_retry m e
          | _ \<Rightarrow> qm_state x = TaskRunning))"

definition running :: "message option \<Rightarrow> bool" where
  "running m = (case m of None \<Rightarrow> True | Some x \<Rightarrow> qm_state x = TaskRunning)"

definition governed :: "'w q_handler \<Rightarrow> bool" where
  "governed h \<longleftrightarrow> (\<forall>ctx m w out m' w'. running m \<longrightarrow> h ctx m w = (out, m', w') \<longrightarrow> same_limits m m' \<and> fitting out m')"

definition governance :: "'w q_middleware \<Rightarrow> bool" where
  "governance f \<longleftrightarrow> (\<forall>h. governed h \<longrightarrow> governed (f h))"

named_theorems governance_intros

lemma governedI:
  assumes "\<And>ctx m w out m' w'. running m \<Longrightarrow> h ctx m w = (out, m', w') \<Longrightarrow> same_limits m m' \<and> fitting out m'"
  shows "governed h"
  using assms by (auto simp: governed_def)

lemma governedD:
  "governed h \<Longrightarrow> running m \<Longrightarrow> h ctx m w = (out, m', w') \<Longrightarrow> same_limits m m' \<and> fitting out m'"
  unfolding governed_def by blast

lemma governanceI: "(\<And>h. governed h \<Longrightarrow> governed (f h)) \<Longrightarrow> governance f"
  by (simp add: governance_def)

lemma same_limits_refl [simp]: "same_limits m m"
  by (cases m) (auto simp: same_limits_def)

lemma same_limits_Some [simp]:
  "same_limits (Some x) (Some y) \<longleftrightarrow> qm_retry_count x = qm_retry_count y \<and> qm_max_retry x = qm_max_retry y"
  by (simp add: same_limits_def)

lemma dead_lettered_None [simp]: "dead_lettered None = None"
  by (simp add: dead_lettered_def)

lemma same_limits_trans: "same_limits a b \<Longrightarrow> same_limits b c \<Longrightarrow> same_limits a c"
  by (cases a; cases b; cases c) (auto simp: same_limits_def)

lemma same_limits_to_state [simp]: "same_limits m (to_state st m)"
  by (cases m) (auto simp: same_limits_def)

lemma same_limits_dead [simp]: "same_limits m (dead_lettered m)"
  unfolding dead_lettered_def by (rule same_limits_trans [OF same_limits_to_state same_limits_to_state])

lemma same_limits_exhausted: "same_limits m m' \<Longrightarrow> retry_exhausted m' = retry_exhausted m"
  by (cases m; cases m') (auto simp: same_limits_def retry_exhausted_def)

lemma running_fitting: "running m \<Longrightarrow> fitting out m"
  by (auto simp: running_def fitting_def split: option.split q_outcome.split)

lemma running_refused: "running m \<Longrightarrow> same_limits m m \<and> fitting out m"
  by (simp add: running_fitting)

lemma dead_lettered_state:
  "dead_lettered (Some x) = Some y \<Longrightarrow>
     qm_state y = (if qm_state x \<in> {TaskRunning, TaskFailed, TaskDeadLetter} then TaskDeadLetter else qm_state x)"
  by (auto simp: dead_lettered_def can_transition_task_def split: if_splits task_state.splits)

lemma governance_recover [governance_intros]: "governance recover_mw"
proof (rule governanceI, rule governedI)
  fix h :: "'a q_handler" and ctx m w out m' w'
  assume h: "governed h" "running m" "recover_mw h ctx m w = (out, m', w')"
  obtain out1 m1 w1 where run: "h ctx m w = (out1, m1, w1)" by (cases "h ctx m w")
  from governedD [OF h(1,2) run] h(3) run show "same_limits m m' \<and> fitting out m'"
    by (auto simp: recover_mw_def fitting_def split: q_outcome.splits option.splits)
qed

lemma governance_timeout [governance_intros]: "governance (timeout_mw now ds)"
  by (rule governanceI, rule governedI) (auto simp: timeout_mw_def Let_def dest: governedD split: if_splits option.splits)

lemma governance_task_timeout [governance_intros]:
  "task_timeout_middleware now d = Some f \<Longrightarrow> governance f"
  by (rule governanceI, rule governedI) (auto simp: task_timeout_middleware_def dest: governedD split: if_splits)

lemma governance_rate_limit [governance_intros]: "governance (rate_limit_mw limiter kf)"
  by (rule governanceI, rule governedI)
    (auto simp: rate_limit_mw_def Let_def running_refused dest: governedD split: if_splits option.splits prod.splits)

lemma governance_concurrency [governance_intros]: "governance (concurrency_mw acq rel kf)"
  by (rule governanceI, rule governedI)
    (auto simp: concurrency_mw_def Let_def running_refused dest: governedD split: if_splits option.splits prod.splits)

lemma governance_lock [governance_intros]: "governance (lock_mw lk kf)"
  by (rule governanceI, rule governedI)
    (auto simp: lock_mw_def Let_def running_refused dest: governedD split: if_splits option.splits prod.splits)

lemma retry_verdict_fitting:
  assumes "fitting (Returned (Some e)) m" "retry_verdict strategy m e = (e', m')"
  shows "same_limits m m' \<and> fitting (Returned (Some e')) m'"
proof (cases m)
  case None
  with assms show ?thesis
    by (auto simp: retry_verdict_def Let_def fitting_def dead_lettered_def split: if_splits prod.splits)
next
  case (Some x)
  have st: "qm_state x = TaskRunning \<or> qm_state x = TaskDeadLetter \<or> qm_state x = TaskRetrying \<and> may_retry m e"
    using assms(1) Some by (simp add: fitting_def)
  have dead: "fitting (Returned (Some (new_dead_letter_error (Some e)))) (dead_lettered m)" if "retry_exhausted m"
    using st that Some by (cases "dead_lettered m")
      (auto simp: fitting_def may_retry_def dest: dead_lettered_state)
  have again: "fitting (Returned (Some (retryable_after t (Some e)))) (to_state TaskRetrying m)"
    if "\<not> retry_exhausted m" "qm_state x \<noteq> TaskDeadLetter" for t
    using st that Some by (auto simp: fitting_def may_retry_def can_transition_task_def retry_exhausted_def)
  show ?thesis
    using assms dead again Some
    by (auto simp: retry_verdict_def Let_def is_dead_letter_state_def split: if_splits prod.splits)
qed

lemma governance_retry [governance_intros]: "governance (retry_mw strategy)"
proof (rule governanceI, rule governedI)
  fix h :: "'a q_handler" and ctx m w out m' w'
  assume h: "governed h" "running m" "retry_mw strategy h ctx m w = (out, m', w')"
  obtain out1 m1 w1 where run: "h (or_background ctx) m w = (out1, m1, w1)"
    by (cases "h (or_background ctx) m w")
  from governedD [OF h(1,2) run] h(3) run show "same_limits m m' \<and> fitting out m'"
    by (auto simp: retry_mw_def Let_def split: q_outcome.splits option.splits prod.splits
        dest: retry_verdict_fitting intro: same_limits_trans)
qed

lemma governance_dead_letter [governance_intros]: "governance (dead_letter_mw push)"
proof (rule governanceI, rule governedI)
  fix h :: "'a q_handler" and ctx m w out m' w'
  assume h: "governed h" "running m" "dead_letter_mw push h ctx m w = (out, m', w')"
  obtain out1 m1 w1 where run: "h (or_background ctx) m w = (out1, m1, w1)"
    by (cases "h (or_background ctx) m w")
  note fit = governedD [OF h(1,2) run]
  show "same_limits m m' \<and> fitting out m'"
  proof (cases "\<exists>e. out1 = Returned (Some e) \<and> \<not> (is_ignored_error e \<or> \<not> should_dead_letter m1 e)")
    case False
    with fit h(3) run show ?thesis
      by (auto simp: dead_letter_mw_def Let_def split: q_outcome.splits option.splits if_splits)
  next
    case True
    then obtain e where e: "out1 = Returned (Some e)" "\<not> (is_ignored_error e \<or> \<not> should_dead_letter m1 e)" by blast
    then have no_retry: "\<not> may_retry m1 e" by (auto simp: should_dead_letter_def may_retry_def)
    have st: "fitting out1 m1" using fit by simp
    have dead: "fitting (Returned (Some (new_dead_letter_error (Some e)))) (dead_lettered m1)"
      using st no_retry e(1) by (cases m1; cases "dead_lettered m1") (auto simp: fitting_def dest: dead_lettered_state)
    have joined: "fitting (Returned (q_join [Some e, Some e'])) m1" for e'
      using st no_retry e(1) by (cases m1) (auto simp: fitting_def q_join_def join_errs_def)
    show ?thesis
      using fit h(3) run e dead joined
      by (auto simp: dead_letter_mw_def Let_def split: option.splits prod.splits intro: same_limits_trans)
  qed
qed

lemma governed_chain:
  assumes "governed h" "\<And>m f. m \<in> set ms \<Longrightarrow> rm_middleware m = Some f \<Longrightarrow> governance f"
  shows "governed (chain_runtime h ms)"
  using assms
proof (induction ms)
  case (Cons m ms)
  have "governed (chain_runtime h ms)" using Cons.prems by (intro Cons.IH) auto
  with Cons.prems(2) [of m] show ?case
    by (cases "rm_middleware m") (auto simp: chain_runtime_def governance_def)
qed (simp add: chain_runtime_def)

lemma governed_normalized_chain:
  assumes "governed h" "\<forall>m\<in>set ms. \<forall>f. rm_middleware m = Some f \<longrightarrow> governance f"
  shows "governed (chain_runtime h (normalize_runtime_middlewares ms))"
  using assms(1) by (rule governed_chain) (use assms(2) in \<open>auto simp: normalize_runtime_middlewares_def\<close>)

section \<open>The orchestrator\<close>

text \<open>A hook that observes: it may change the world and veto the task, not the message.\<close>

definition observing :: "'w hook \<Rightarrow> bool" where
  "observing k \<longleftrightarrow> (\<forall>ctx m w. fst (snd (hk_before k ctx m w)) = m) \<and>
     (\<forall>m e w. fst (hk_after k m e w) = m) \<and> (\<forall>m w. fst (hk_success k m w) = m) \<and>
     (\<forall>m e w. fst (hk_failure k m e w) = m)"

lemma run_before_process_message:
  "\<forall>k\<in>set hs. observing k \<Longrightarrow> run_before_process hs ctx m w = (e, m', w') \<Longrightarrow> m' = m"
proof (induction hs arbitrary: w)
  case (Cons k hs)
  obtain e1 m1 w1 where b: "hk_before k ctx m w = (e1, m1, w1)" by (cases "hk_before k ctx m w")
  have "fst (snd (hk_before k ctx m w)) = m" using Cons.prems(1) by (simp add: observing_def)
  then have "m1 = m" using b by simp
  with Cons b show ?case by (cases e1) auto
qed simp

lemma run_hooks_message:
  "(\<And>k m w. k \<in> set hs \<Longrightarrow> fst (f k m w) = m) \<Longrightarrow> fst (run_hooks hs f (m, w)) = m"
proof (induction hs arbitrary: m w)
  case (Cons k hs)
  have "fst (f k m w) = m" using Cons.prems by simp
  then obtain w1 where "f k m w = (m, w1)" by (cases "f k m w") auto
  with Cons show ?case by (simp add: run_hooks_def)
qed (simp add: run_hooks_def)

lemma observing_hooks:
  assumes "\<forall>k\<in>set hs. observing k"
  shows "fst (run_hooks hs (\<lambda>h m. hk_after h m e) (m, w)) = m"
    "fst (run_hooks hs (\<lambda>h m. hk_failure h m e') (m, w)) = m"
    "fst (run_hooks hs (\<lambda>h. hk_success h) (m, w)) = m"
  using assms by (auto intro!: run_hooks_message simp: observing_def)

definition startable :: "message \<Rightarrow> bool" where
  "startable m \<longleftrightarrow> qm_state m \<in> {TaskUnset, TaskPending, TaskRunning, TaskRetrying}"

lemma started_message_running:
  "startable m \<Longrightarrow> running (Some (started_message m)) \<and> same_limits (Some m) (Some (started_message m))"
  by (auto simp: startable_def running_def started_message_def ensure_message_runtime_def
      can_transition_task_def Let_def)

text \<open>The state after a failure.\<close>

lemma failure_event_state:
  assumes "fitting (Returned (Some e)) (Some x)" "failure_event (Some x) e = (ty, m')"
  shows "\<exists>y. m' = Some y \<and> same_limits (Some x) m' \<and> ty \<in> {EventTaskDeadLetter, EventTaskTimeout, EventTaskRetry, EventTaskFailed} \<and>
    qm_state y \<in> {TaskFailed, TaskDeadLetter, TaskRetrying} \<and>
    (qm_state y = TaskDeadLetter \<longleftrightarrow> ty = EventTaskDeadLetter) \<and>
    (ty = EventTaskRetry \<longrightarrow> qm_state y = TaskRetrying) \<and> (ty = EventTaskFailed \<longrightarrow> qm_state y = TaskFailed) \<and>
    (retry_exhausted (Some x) \<and> \<not> is_rate_limit_error e \<and> \<not> is_ignored_error e \<or> is_fatal_error e \<longrightarrow>
       qm_state y = TaskDeadLetter) \<and>
    (qm_state y = TaskRetrying \<longrightarrow> is_retryable_error e \<or> is_rate_limit_error e)"
proof -
  have st: "qm_state x = TaskRunning \<or> qm_state x = TaskDeadLetter \<or> qm_state x = TaskRetrying \<and> may_retry (Some x) e"
    using assms(1) by (simp add: fitting_def)
  consider (dead) "qm_state x = TaskDeadLetter" | (run) "qm_state x = TaskRunning"
    | (again) "qm_state x = TaskRetrying" "may_retry (Some x) e" using st by blast
  then show ?thesis
  proof cases
    case dead
    with assms(2) show ?thesis by (auto simp: failure_event_def is_dead_letter_state_def)
  next
    case run
    obtain d where d: "dead_lettered (Some x) = Some d" by (simp add: dead_lettered_def)
    have "qm_state d = TaskDeadLetter" "same_limits (Some x) (Some d)"
      using run dead_lettered_state [OF d] same_limits_dead [of "Some x"] d by simp_all
    with run assms(2) show ?thesis
      by (auto simp: d failure_event_def is_dead_letter_state_def should_mark_dead_letter_def
          can_transition_task_def split: if_splits)
  next
    case again
    then have "\<not> should_mark_dead_letter (Some x) e"
      by (auto simp: should_mark_dead_letter_def may_retry_def)
    with again assms(2) show ?thesis
      by (auto simp: failure_event_def is_dead_letter_state_def can_transition_task_def may_retry_def
          split: if_splits)
  qed
qed

text \<open>The run up to the point where the result is concluded.\<close>

definition execute_body ::
  "'w orchestrator \<Rightarrow> 'w q_handler \<Rightarrow> 'w runtime_middleware list \<Rightarrow> 'w hook list \<Rightarrow>
   q_ctx option \<Rightarrow> message option \<Rightarrow> 'w \<Rightarrow> q_outcome \<times> message option \<times> 'w" where
  "execute_body orc h ms hooks ctx msg w =
     (let (err, msg1, w3) = run_before_process hooks ctx msg w in
      case err of Some e \<Rightarrow> (Returned (Some e), msg1, w3)
      | None \<Rightarrow> chain_runtime h (normalize_runtime_middlewares ms) ctx msg1 w3)"

lemma execute_split:
  "execute orc (Some h) ms hooks ctx0 msg0 w0 =
     (let msg = map_option started_message msg0 in
      conclude orc hooks (execute_body orc h ms hooks (or_background ctx0) msg
        (observe_all orc (\<lambda>ob. ob_start ob msg) (publish_event orc EventTaskStarted msg None w0))))"
  by (simp add: execute_def execute_body_def Let_def split: prod.split option.split)

lemma execute_body_fitting:
  assumes "governed h" "\<forall>m\<in>set ms. \<forall>f. rm_middleware m = Some f \<longrightarrow> governance f"
    and "\<forall>k\<in>set hooks. observing k" "running m"
    and "execute_body orc h ms hooks ctx m w = (out, m', w')"
  shows "same_limits m m' \<and> fitting out m'"
proof -
  obtain e m1 w1 where b: "run_before_process hooks ctx m w = (e, m1, w1)"
    by (cases "run_before_process hooks ctx m w")
  have m1: "m1 = m" using run_before_process_message [OF assms(3) b] .
  show ?thesis
  proof (cases e)
    case None
    with b m1 assms(5) have "chain_runtime h (normalize_runtime_middlewares ms) ctx m w1 = (out, m', w')"
      by (simp add: execute_body_def)
    from governedD [OF governed_normalized_chain [OF assms(1,2)] assms(4) this] show ?thesis .
  next
    case (Some e)
    with b m1 assms(4,5) show ?thesis by (auto simp: execute_body_def running_fitting)
  qed
qed

lemma conclude_message:
  assumes "\<forall>k\<in>set hooks. observing k" "conclude orc hooks (out, m, w) = (out', m', w')"
  shows "out' = out \<and> m' = (case out of Panicked _ \<Rightarrow> m | Returned None \<Rightarrow> to_state TaskSuccess m
    | Returned (Some e) \<Rightarrow> snd (failure_event m e))"
proof -
  note after = observing_hooks(1) [OF assms(1)] and fail = observing_hooks(2) [OF assms(1)]
    and succ = observing_hooks(3) [OF assms(1)]
  show ?thesis
  proof (cases out)
    case (Panicked v)
    with assms(2) show ?thesis by (auto simp: conclude_def)
  next
    case (Returned err)
    obtain w1 where w1: "run_hooks hooks (\<lambda>h m. hk_after h m err) (m, w) = (m, w1)"
      using after [of err m w] by (cases "run_hooks hooks (\<lambda>h m. hk_after h m err) (m, w)") auto
    show ?thesis
    proof (cases err)
      case None
      have "out' = Returned None \<and> m' = fst (run_hooks hooks (\<lambda>h. hk_success h) (to_state TaskSuccess m,
          observe_all orc (\<lambda>ob. ob_finish ob (to_state TaskSuccess m) None)
            (publish_event orc EventTaskSuccess (to_state TaskSuccess m) None w1)))"
        using assms(2) w1 Returned None by (auto simp: conclude_def Let_def split: prod.splits)
      then show ?thesis by (simp add: succ Returned None)
    next
      case (Some e)
      obtain m2 w2 where fin: "finish_failure orc m e w1 = (m2, w2)" by (cases "finish_failure orc m e w1")
      have "out' = Returned (Some e) \<and> m' = fst (run_hooks hooks (\<lambda>h m. hk_failure h m e) (m2, w2))"
        using assms(2) w1 fin Returned Some by (auto simp: conclude_def Let_def split: prod.splits)
      moreover have "m2 = snd (failure_event m e)"
        using fin by (auto simp: finish_failure_def Let_def split: prod.splits)
      ultimately show ?thesis by (simp add: fail Returned Some)
    qed
  qed
qed

section \<open>The event log\<close>

















text \<open>The two views of one execution, of a message that can start.\<close>

lemma execute_result:
  assumes "governed h" "\<forall>m\<in>set ms. \<forall>f. rm_middleware m = Some f \<longrightarrow> governance f"
    and "\<forall>k\<in>set hooks. observing k" "startable m"
    and "execute orc (Some h) ms hooks ctx (Some m) w = (Returned err, msg', w')"
  obtains x w1 where "same_limits (Some m) (Some x)" "fitting (Returned err) (Some x)"
    "conclude orc hooks (Returned err, Some x, w1) = (Returned err, msg', w')"
    "execute_body orc h ms hooks (or_background ctx) (Some (started_message m))
       (observe_all orc (\<lambda>ob. ob_start ob (Some (started_message m)))
         (publish_event orc EventTaskStarted (Some (started_message m)) None w)) = (Returned err, Some x, w1)"
proof -
  let ?m = "Some (started_message m)"
  obtain out x w1 where body: "execute_body orc h ms hooks (or_background ctx) ?m
       (observe_all orc (\<lambda>ob. ob_start ob ?m) (publish_event orc EventTaskStarted ?m None w)) = (out, x, w1)"
    by (metis prod_cases3)
  have concl: "conclude orc hooks (out, x, w1) = (Returned err, msg', w')"
    using assms(5) body by (simp add: execute_split Let_def)
  have out: "out = Returned err" using conclude_message [OF assms(3) concl] by simp
  note start = started_message_running [OF assms(4)]
  have fit: "same_limits ?m x \<and> fitting out x"
    using execute_body_fitting [OF assms(1-3) _ body] start by simp
  then obtain y where y: "x = Some y" by (cases x) (auto simp: same_limits_def)
  show ?thesis
  proof (rule that)
    show "same_limits (Some m) (Some y)" using fit start y by (auto intro: same_limits_trans)
  qed (use fit y out concl body in simp_all)
qed

section \<open>Properties\<close>

text \<open>
  C6: the state a task ends in.  For any governed handler, chain of governance middlewares and
  observing hooks, a task that starts from a state the machine can run and returns is left in
  success exactly when it returned nil, and otherwise in failed, dead letter or retrying, with
  its retry count and limit unchanged; a fatal error, or any error other than a rate limit or an
  ignored one when the retries are used up, ends in dead letter; retrying is only ever the
  outcome of an error that asks for it.
\<close>

theorem execute_settles:
  assumes "governed h" "\<forall>m\<in>set ms. \<forall>f. rm_middleware m = Some f \<longrightarrow> governance f"
    and "\<forall>k\<in>set hooks. observing k" "startable m"
    and "execute orc (Some h) ms hooks ctx (Some m) w = (Returned err, msg', w')"
  shows "\<exists>x. msg' = Some x \<and> same_limits (Some m) msg' \<and>
    (case err of None \<Rightarrow> qm_state x = TaskSuccess
     | Some e \<Rightarrow> qm_state x \<in> {TaskFailed, TaskDeadLetter, TaskRetrying} \<and>
         (is_fatal_error e \<or> retry_exhausted (Some m) \<and> \<not> is_rate_limit_error e \<and> \<not> is_ignored_error e \<longrightarrow>
            qm_state x = TaskDeadLetter) \<and>
         (qm_state x = TaskRetrying \<longrightarrow> is_retryable_error e \<or> is_rate_limit_error e))"
proof -
  obtain x w1 where x: "same_limits (Some m) (Some x)" "fitting (Returned err) (Some x)"
    "conclude orc hooks (Returned err, Some x, w1) = (Returned err, msg', w')"
    using execute_result [OF assms] by metis
  note m' = conclude_message [OF assms(3) x(3)]
  have ex: "retry_exhausted (Some x) = retry_exhausted (Some m)" using same_limits_exhausted [OF x(1)] .
  show ?thesis
  proof (cases err)
    case None
    with x m' show ?thesis by (auto simp: fitting_def can_transition_task_def)
  next
    case (Some e)
    obtain ty where ty: "failure_event (Some x) e = (ty, msg')"
      using m' Some by (cases "failure_event (Some x) e") simp
    from failure_event_state [OF x(2) [unfolded Some] ty] Some ex x(1) show ?thesis
      by (auto dest: same_limits_trans [OF x(1)])
  qed
qed

text \<open>A failing task under the retry and dead-letter middlewares, the event log as the world.\<close>

definition failing_handler :: "q_error \<Rightarrow> rt_event list q_handler" where
  "failing_handler e ctx m w = (Returned (Some e), m, w)"

definition sample_governance :: "rt_event list runtime_middleware list" where
  "sample_governance =
     [stage_middleware DeadLetterStage (Some (dead_letter_mw (\<lambda>_ _ _ w. (Some (QForeign ''store down''), w)))),
      stage_middleware RetryStage (Some (retry_mw (\<lambda>_ _ _. (5, True)))),
      stage_middleware RecoverStage (Some recover_mw)]"

definition sample_orchestrator :: "rt_event list orchestrator" where
  "sample_orchestrator = \<lparr>or_publishers = [\<lambda>ev w. w @ [ev]], or_observers = []\<rparr>"

definition sample_task :: "int \<Rightarrow> message" where
  "sample_task n = empty_message\<lparr>qm_type := ''mail'', qm_retry_count := n, qm_max_retry := 3\<rparr>"

lemma governed_failing: "governed (failing_handler e)"
  by (rule governedI) (auto simp: failing_handler_def running_refused)

lemma sample_governance_ok:
  "\<forall>m\<in>set sample_governance. \<forall>f. rm_middleware m = Some f \<longrightarrow> governance f"
  using governance_intros by (auto simp: sample_governance_def stage_middleware_def)


theorem execute_settles_witness:
  "\<exists>x. fst (snd (execute sample_orchestrator (Some (failing_handler (QForeign ''boom''))) sample_governance [] None
     (Some (sample_task 3)) [])) = Some x \<and> qm_state x = TaskDeadLetter"
proof -
  let ?r = "execute sample_orchestrator (Some (failing_handler (QForeign ''boom''))) sample_governance [] None
     (Some (sample_task 3)) []"
  have ok: "startable (sample_task 3)" by (simp add: startable_def sample_task_def empty_message_def)
  have out: "case fst ?r of Returned (Some e) \<Rightarrow> is_fatal_error e | _ \<Rightarrow> False" by code_simp
  then obtain e where e: "fst ?r = Returned (Some e)" "is_fatal_error e"
    by (auto split: q_outcome.splits option.splits)
  then have "?r = (Returned (Some e), fst (snd ?r), snd (snd ?r))" by (metis prod.collapse)
  from execute_settles [OF governed_failing sample_governance_ok _ ok this] e(2) show ?thesis by auto
qed



end
