(* ===== verification/Queue_Resources.thy ===== *)
theory Queue_Resources
  imports Queue_Middleware "HOL-Library.Multiset"
begin

text \<open>
  The chain itself: middlewares run in the order of their stages, and the locks and concurrency
  slots a chain takes are given back, innermost first, whether the handler returns or panics.
\<close>

section \<open>Order\<close>

datatype probe_event = ProbeEnter nat | ProbeBody | ProbeLeave nat

definition probe :: "nat \<Rightarrow> probe_event list q_middleware" where
  "probe i next ctx m w =
     (let (out, m', w') = next ctx m (w @ [ProbeEnter i]) in (out, m', w' @ [ProbeLeave i]))"

definition probe_body :: "q_outcome \<Rightarrow> probe_event list q_handler" where
  "probe_body out ctx m w = (out, m, w @ [ProbeBody])"

definition probes :: "(nat \<Rightarrow> int) \<Rightarrow> nat list \<Rightarrow> probe_event list runtime_middleware list" where
  "probes st is = map (\<lambda>i. stage_middleware (st i) (Some (probe i))) is"

lemma normalize_probes: "normalize_runtime_middlewares (probes st is) = probes st (sort_key st is)"
proof -
  have "filter (\<lambda>m. \<not> Option.is_none (rm_middleware m)) (probes st is) = probes st is"
    by (auto simp: probes_def stage_middleware_def filter_id_conv)
  then show ?thesis
    by (simp add: normalize_runtime_middlewares_def) (simp add: probes_def sort_key_map stage_middleware_def)
qed

lemma chain_probes:
  "chain_runtime (probe_body out) (probes st is) ctx m w =
     (out, m, w @ map ProbeEnter is @ [ProbeBody] @ map ProbeLeave (rev is))"
proof (induction "is" arbitrary: w)
  case Nil
  show ?case by (simp add: chain_runtime_def probes_def probe_body_def)
next
  case (Cons i js)
  have "chain_runtime (probe_body out) (probes st (i # js)) ctx m w =
      probe i (chain_runtime (probe_body out) (probes st js)) ctx m w"
    by (simp add: chain_runtime_def probes_def stage_middleware_def)
  then show ?case by (simp add: probe_def Cons.IH)
qed

section \<open>Resources\<close>

datatype resource_event = Acquired string | Released string

inductive balanced :: "resource_event list \<Rightarrow> bool" where
  balanced_Nil: "balanced []"
| balanced_nest: "balanced xs \<Longrightarrow> balanced (Acquired k # xs @ [Released k])"
| balanced_append: "balanced xs \<Longrightarrow> balanced ys \<Longrightarrow> balanced (xs @ ys)"

definition keeps_balance :: "resource_event list q_handler \<Rightarrow> bool" where
  "keeps_balance h \<longleftrightarrow> (\<forall>ctx m w. \<exists>l. snd (snd (h ctx m w)) = w @ l \<and> balanced l)"

text \<open>Collaborators that record what they hand out.\<close>

definition logging_locker :: "(resource_event list, 'u) locker \<Rightarrow> bool" where
  "logging_locker lk \<longleftrightarrow> (\<forall>ctx key ttl w u ok err w'. lk_lock lk ctx key ttl w = ((u, ok, err), w') \<longrightarrow>
     (if ok \<and> err = None
      then w' = w @ [Acquired key] \<and> (\<exists>v. u = Some v \<and> (\<forall>w. snd (lk_unlock lk v w) = w @ [Released key]))
      else w' = w))"

definition logging_limiter ::
  "(q_ctx option \<Rightarrow> string \<Rightarrow> resource_event list \<Rightarrow> q_error option \<times> resource_event list) \<Rightarrow>
   (string \<Rightarrow> resource_event list \<Rightarrow> resource_event list) \<Rightarrow> bool" where
  "logging_limiter acq rel \<longleftrightarrow>
     (\<forall>ctx key w err w'. acq ctx key w = (err, w') \<longrightarrow> (if err = None then w' = w @ [Acquired key] else w' = w)) \<and>
     (\<forall>key w. rel key w = w @ [Released key])"

definition resource_middleware :: "resource_event list q_middleware \<Rightarrow> bool" where
  "resource_middleware f \<longleftrightarrow>
     f = recover_mw \<or> (\<exists>now ds. f = timeout_mw now ds) \<or> (\<exists>s. f = retry_mw s) \<or>
     (\<exists>(lk :: (resource_event list, string) locker) kf. logging_locker lk \<and> f = lock_mw (Some lk) kf) \<or>
     (\<exists>acq rel kf. logging_limiter acq rel \<and> f = concurrency_mw acq rel kf)"

lemma keeps_balanceE:
  assumes "keeps_balance h" "h ctx m w = (out, m', w')"
  obtains l where "w' = w @ l" "balanced l"
  using assms unfolding keeps_balance_def by (metis snd_conv)

lemma keeps_balanceI:
  assumes "\<And>ctx m w out m' w'. h ctx m w = (out, m', w') \<Longrightarrow> \<exists>l. w' = w @ l \<and> balanced l"
  shows "keeps_balance h"
  unfolding keeps_balance_def by (metis assms prod.collapse)

lemma keeps_balance_same:
  assumes "keeps_balance h" "\<And>ctx m w. \<exists>ctx' m'. snd (snd (f h ctx m w)) = snd (snd (h ctx' m' w))"
  shows "keeps_balance (f h)"
  using assms unfolding keeps_balance_def by metis

lemma balanced_around:
  assumes "balanced l"
  shows "\<exists>l'. w @ [Acquired k] @ l @ [Released k] = w @ l' \<and> balanced l'"
  using balanced_nest [OF assms, of k] by auto

lemma keeps_balance_concurrency:
  assumes "keeps_balance h" "logging_limiter acq rel"
  shows "keeps_balance (concurrency_mw acq rel kf h)"
proof (rule keeps_balanceI)
  fix ctx m w out m' w'
  assume run: "concurrency_mw acq rel kf h ctx m w = (out, m', w')"
  let ?ctx = "or_background ctx"
  obtain key use1 err where kf: "kf ?ctx m = (key, use1, err)" by (cases "kf ?ctx m")
  obtain err' w1 where acq: "acq ?ctx key w = (err', w1)" by (cases "acq ?ctx key w")
  obtain out2 m2 w2 where h: "h ?ctx m w1 = (out2, m2, w2)" by (cases "h ?ctx m w1")
  show "\<exists>l. w' = w @ l \<and> balanced l"
  proof (cases "err = None \<and> use1 \<and> err' = None")
    case True
    then have w1: "w1 = w @ [Acquired key]" using assms(2) acq by (auto simp: logging_limiter_def)
    have rel: "rel key w = w @ [Released key]" for w using assms(2) by (simp add: logging_limiter_def)
    obtain l where l: "w2 = w1 @ l" "balanced l" using keeps_balanceE [OF assms(1) h] .
    have "w' = w @ [Acquired key] @ l @ [Released key]"
      using run kf acq h True l(1) w1 rel by (simp add: concurrency_mw_def)
    with balanced_around [OF l(2)] show ?thesis by metis
  next
    case False
    have same: "err' = None \<or> w1 = w" using assms(2) acq unfolding logging_limiter_def by metis
    have "w' = w \<or> h ?ctx m w = (out, m', w')"
    proof (cases "err = None \<and> use1")
      case True
      with False run kf acq same show ?thesis by (cases err') (auto simp: concurrency_mw_def)
    next
      case not_used: False
      with run kf show ?thesis by (cases err) (auto simp: concurrency_mw_def)
    qed
    then show ?thesis using keeps_balanceE [OF assms(1)] balanced_Nil by (metis append_Nil2)
  qed
qed

lemma keeps_balance_lock:
  assumes "keeps_balance h" "logging_locker lk"
  shows "keeps_balance (lock_mw (Some lk) kf h)"
proof (rule keeps_balanceI)
  fix ctx m w out m' w'
  assume run: "lock_mw (Some lk) kf h ctx m w = (out, m', w')"
  let ?ctx = "or_background ctx"
  obtain key ttl use1 err where kf: "kf ?ctx m = (key, ttl, use1, err)" by (cases "kf ?ctx m")
  obtain u ok err' w1 where lock: "lk_lock lk ?ctx key ttl w = ((u, ok, err'), w1)"
    by (metis prod.collapse)
  obtain out2 m2 w2 where h: "h ?ctx m w1 = (out2, m2, w2)" by (cases "h ?ctx m w1")
  have spec: "if ok \<and> err' = None
      then w1 = w @ [Acquired key] \<and> (\<exists>v. u = Some v \<and> (\<forall>w. snd (lk_unlock lk v w) = w @ [Released key]))
      else w1 = w"
    using assms(2) lock unfolding logging_locker_def by metis
  show "\<exists>l. w' = w @ l \<and> balanced l"
  proof (cases "err = None \<and> use1 \<and> key \<noteq> [] \<and> ok \<and> err' = None")
    case True
    then obtain v where v: "w1 = w @ [Acquired key]" "u = Some v" "\<And>w. snd (lk_unlock lk v w) = w @ [Released key]"
      using spec by auto
    obtain l where l: "w2 = w1 @ l" "balanced l" using keeps_balanceE [OF assms(1) h] .
    have "w' = w @ [Acquired key] @ l @ [Released key]"
      using run kf lock h True l(1) v by (simp add: lock_mw_def)
    with balanced_around [OF l(2)] show ?thesis by metis
  next
    case False
    have same: "ok \<and> err' = None \<or> w1 = w" using spec by presburger
    have "w' = w \<or> h ?ctx m w = (out, m', w')"
    proof (cases "err = None \<and> use1 \<and> key \<noteq> []")
      case True
      with False run kf lock same show ?thesis by (cases err'; cases ok) (auto simp: lock_mw_def)
    next
      case not_used: False
      with run kf show ?thesis by (cases err; cases use1) (auto simp: lock_mw_def split: if_splits)
    qed
    then show ?thesis using keeps_balanceE [OF assms(1)] balanced_Nil by (metis append_Nil2)
  qed
qed

lemma resource_middleware_intros:
  "resource_middleware recover_mw"
  "logging_locker lk \<Longrightarrow> resource_middleware (lock_mw (Some (lk :: (resource_event list, string) locker)) kf)"
  "logging_limiter acq rel \<Longrightarrow> resource_middleware (concurrency_mw acq rel ckf)"
  unfolding resource_middleware_def by blast+

lemma keeps_balance_middleware:
  assumes "resource_middleware f" "keeps_balance h"
  shows "keeps_balance (f h)"
proof -
  have "keeps_balance (recover_mw h)"
    using assms(2)
  proof (rule keeps_balance_same)
    fix ctx m w
    show "\<exists>ctx' m'. snd (snd (recover_mw h ctx m w)) = snd (snd (h ctx' m' w))"
      by (rule exI [of _ ctx], rule exI [of _ m]) (auto simp: recover_mw_def split: prod.split q_outcome.split)
  qed
  moreover have "keeps_balance (timeout_mw now ds h)" for now ds
    using assms(2) by (rule keeps_balance_same) (auto simp: timeout_mw_def Let_def)
  moreover have "keeps_balance (retry_mw s h)" for s
    using assms(2)
  proof (rule keeps_balance_same)
    fix ctx m w
    show "\<exists>ctx' m'. snd (snd (retry_mw s h ctx m w)) = snd (snd (h ctx' m' w))"
      by (rule exI [of _ "or_background ctx"], rule exI [of _ m])
        (auto simp: retry_mw_def Let_def split: prod.split q_outcome.split option.split)
  qed
  ultimately show ?thesis
    using assms keeps_balance_lock keeps_balance_concurrency by (auto simp: resource_middleware_def)
qed

section \<open>Properties\<close>

text \<open>
  The governance order.  Whatever order middlewares were registered in, the chain enters them
  by ascending stage, those of one stage in the order of registration, runs the handler once and
  leaves them in the opposite order.
\<close>

theorem chain_order:
  "\<exists>js. mset js = mset is \<and> sorted (map st js) \<and> (\<forall>k. filter (\<lambda>i. st i = k) js = filter (\<lambda>i. st i = k) is) \<and>
     chain_runtime (probe_body out) (normalize_runtime_middlewares (probes st is)) ctx m w =
       (out, m, w @ map ProbeEnter js @ [ProbeBody] @ map ProbeLeave (rev js))"
  by (intro exI [of _ "sort_key st is"] conjI allI)
    (simp_all add: normalize_probes chain_probes sort_key_stable)

text \<open>
  C9: what is taken is given back.  For every chain of recover, timeout, retry, lock and
  concurrency middlewares around a handler that keeps its own balance, whether it returns or
  panics, locks and slots are released exactly once each, in the opposite order of acquisition,
  and nothing is released that was refused.
\<close>

theorem resources_released:
  assumes "keeps_balance h" "\<forall>m\<in>set ms. \<forall>f. rm_middleware m = Some f \<longrightarrow> resource_middleware f"
  shows "\<exists>l. snd (snd (chain_runtime h (normalize_runtime_middlewares ms) ctx m w)) = w @ l \<and> balanced l"
proof -
  have "keeps_balance (chain_runtime h ns)"
    if "\<forall>m\<in>set ns. \<forall>f. rm_middleware m = Some f \<longrightarrow> resource_middleware f" for ns
    using that
  proof (induction ns)
    case Nil
    show ?case using assms(1) by (simp add: chain_runtime_def)
  next
    case (Cons n ns)
    then have "keeps_balance (chain_runtime h ns)" by simp
    with Cons.prems show ?case
      by (cases "rm_middleware n") (auto simp: chain_runtime_def intro: keeps_balance_middleware)
  qed
  from this [of "normalize_runtime_middlewares ms"] assms(2) show ?thesis
    by (auto simp: keeps_balance_def normalize_runtime_middlewares_def)
qed

definition sample_locker :: "(resource_event list, string) locker" where
  "sample_locker = \<lparr>lk_lock = (\<lambda>ctx key ttl w. ((Some key, True, None), w @ [Acquired key])),
     lk_unlock = (\<lambda>u w. (None, w @ [Released u]))\<rparr>"

definition sample_chain :: "resource_event list runtime_middleware list" where
  "sample_chain =
     [stage_middleware LockStage (Some (lock_mw (Some sample_locker) (\<lambda>_ _. (''order'', 5, True, None)))),
      stage_middleware ConcurrencyStage (Some (concurrency_mw (\<lambda>_ k w. (None, w @ [Acquired k]))
        (\<lambda>k w. w @ [Released k]) message_concurrency_key)),
      stage_middleware RecoverStage (Some recover_mw)]"

theorem resources_released_witness:
  "balanced [Acquired ''queue'', Acquired ''order'', Released ''order'', Released ''queue'']"
proof -
  let ?h = "\<lambda>ctx m w. (Panicked ''boom'', m, w) :: q_outcome \<times> message option \<times> resource_event list"
  have h: "keeps_balance ?h" by (rule keeps_balanceI) (auto intro: balanced_Nil)
  have lk: "logging_locker sample_locker" by (auto simp: logging_locker_def sample_locker_def)
  have lim: "logging_limiter (\<lambda>_ k w. (None, w @ [Acquired k])) (\<lambda>k w. w @ [Released k])"
    by (auto simp: logging_limiter_def)
  have "resource_middleware f" if "x \<in> set sample_chain" "rm_middleware x = Some f" for x f
  proof -
    from that consider "f = lock_mw (Some sample_locker) (\<lambda>_ _. (''order'', 5, True, None))"
      | "f = concurrency_mw (\<lambda>_ k w. (None, w @ [Acquired k])) (\<lambda>k w. w @ [Released k]) message_concurrency_key"
      | "f = recover_mw"
      by (auto simp: sample_chain_def stage_middleware_def)
    then show ?thesis using resource_middleware_intros(1) resource_middleware_intros(2) [OF lk]
      resource_middleware_intros(3) [OF lim] by cases simp_all
  qed
  then have ms: "\<forall>m\<in>set sample_chain. \<forall>f. rm_middleware m = Some f \<longrightarrow> resource_middleware f" by blast
  have "snd (snd (chain_runtime ?h (normalize_runtime_middlewares sample_chain) None None [])) =
      [Acquired ''queue'', Acquired ''order'', Released ''order'', Released ''queue'']"
    by (simp add: sample_chain_def normalize_runtime_middlewares_def stage_middleware_def chain_runtime_def
        recover_mw_def lock_mw_def concurrency_mw_def message_concurrency_key_def sample_locker_def)
  with resources_released [OF h ms, of None None "[]"] show ?thesis by simp
qed

end
