(* ===== verification/Queue_Store.thy ===== *)
theory Queue_Store
  imports Queue_Middleware Queue_Options "HOL-Library.Signed_Division"
begin

text \<open>
  Task records and their store (\<open>task_store.go\<close>) and the enqueue side of the runtime instance
  (\<open>runtime_instance.go\<close>): what is recorded around handing a task to the broker, automatic
  retries, scheduled tasks, and the middleware that records runs.

  The broker's client, the manager's deletion, the task store and the generator of identifiers are
  parameters over a world \<open>'w\<close>; an optional interface of the store is an option.  Every operation
  reads the clock once (\<open>now\<close>, nanoseconds).  An empty header map counts as nil.  The logger a
  run puts in the context is not modelled.
\<close>

section \<open>Records\<close>

datatype 'p payload = PayloadNil | PayloadBytes string | PayloadString string | PayloadOther 'p

definition marshal_payload :: "('p \<Rightarrow> q_error + string) \<Rightarrow> 'p payload \<Rightarrow> q_error + string" where
  "marshal_payload json p =
     (case p of PayloadNil \<Rightarrow> Inr [] | PayloadBytes b \<Rightarrow> Inr b | PayloadString s \<Rightarrow> Inr s
      | PayloadOther v \<Rightarrow> (case json v of Inr b \<Rightarrow> Inr b
          | Inl _ \<Rightarrow> Inl (QWrapped ''queue invalid payload'' (QSentinel QErrInvalidPayload))))"

record 'p task =
  tk_id :: string
  tk_type :: string
  tk_queue :: string
  tk_payload :: "'p payload"
  tk_headers :: headers

record task_info =
  ti_id :: string
  ti_type :: string
  ti_queue :: string
  ti_state :: task_state
  ti_payload :: string
  ti_headers :: headers
  ti_max_retry :: int
  ti_next_run_at :: "int option"
  ti_created_at :: int
  ti_updated_at :: int
  ti_track_id :: string
  ti_request_id :: string
  ti_trace_id :: string
  ti_span_id :: string

record task_record =
  tr_record_id :: int
  tr_driver :: string
  tr_task_id :: string
  tr_queue :: string
  tr_type :: string
  tr_payload :: string
  tr_state :: task_state
  tr_max_retry :: int
  tr_attempts :: int
  tr_timeout_seconds :: int
  tr_unique_seconds :: int
  tr_delay_seconds :: int
  tr_auto_retry_enabled :: bool
  tr_auto_retry_count :: int
  tr_auto_retry_max :: int
  tr_auto_retry_delay_seconds :: int
  tr_next_retry_at :: "int option"
  tr_last_retry_error :: string
  tr_scheduled_at :: "int option"
  tr_started_at :: "int option"
  tr_last_error :: string
  tr_worker_id :: string
  tr_track_id :: string
  tr_request_id :: string
  tr_trace_id :: string
  tr_span_id :: string
  tr_created_at :: int
  tr_updated_at :: int
  tr_headers :: headers

record task_run =
  rn_run_db_id :: int
  rn_run_id :: string
  rn_queue_task_id :: int
  rn_task_id :: string
  rn_queue :: string
  rn_type :: string
  rn_attempt :: int
  rn_status :: task_state
  rn_worker_id :: string
  rn_started_at :: int
  rn_finished_at :: int
  rn_duration_ms :: int
  rn_error :: string
  rn_headers :: headers

datatype log_level = LogInfo | LogWarn | LogError

record task_run_log =
  lg_queue_task_id :: int
  lg_run_db_id :: int
  lg_run_id :: string
  lg_task_id :: string
  lg_level :: log_level
  lg_message :: string
  lg_at :: int
  lg_headers :: headers

record task_status_update =
  su_queue :: string
  su_task_id :: string
  su_status :: task_state
  su_last_error :: string
  su_updated_at :: int

type_synonym ('a, 'w) store_op = "'a \<Rightarrow> 'w \<Rightarrow> q_error option \<times> 'w"

record 'w submission_store =
  ss_submitting :: "task_record \<Rightarrow> 'w \<Rightarrow> (task_record \<times> q_error option) \<times> 'w"
  ss_dispatched :: "(task_record, 'w) store_op"
  ss_dispatch_failed :: "(task_record, 'w) store_op"

record 'w schedule_store =
  sc_scheduled :: "task_record \<Rightarrow> 'w \<Rightarrow> (task_record \<times> q_error option) \<times> 'w"
  sc_claim :: "int \<Rightarrow> int \<Rightarrow> string \<Rightarrow> string \<Rightarrow> 'w \<Rightarrow> (task_record list \<times> q_error option) \<times> 'w"

record 'w auto_retry_store =
  ar_claim :: "int \<Rightarrow> int \<Rightarrow> string \<Rightarrow> string \<Rightarrow> 'w \<Rightarrow> (task_record list \<times> q_error option) \<times> 'w"
  ar_mark_failed :: "task_record \<Rightarrow> q_error \<Rightarrow> 'w \<Rightarrow> q_error option \<times> 'w"

record 'w task_store =
  ts_enqueued :: "(task_record, 'w) store_op"
  ts_ensure_running :: "task_record \<Rightarrow> 'w \<Rightarrow> (task_record \<times> q_error option) \<times> 'w"
  ts_start_run :: "task_run \<Rightarrow> 'w \<Rightarrow> (task_run \<times> q_error option) \<times> 'w"
  ts_finish_run :: "(task_run, 'w) store_op"
  ts_append_log :: "(task_run_log, 'w) store_op"
  ts_update_status :: "(task_status_update, 'w) store_op"
  ts_submission :: "'w submission_store option"
  ts_schedule :: "'w schedule_store option"
  ts_auto_retry :: "'w auto_retry_store option"

fun first_non_empty :: "string list \<Rightarrow> string" where
  "first_non_empty [] = []"
| "first_non_empty (v # vs) = (if v \<noteq> [] then v else first_non_empty vs)"

definition correlation_headers :: "q_ctx option \<Rightarrow> headers" where
  "correlation_headers ctx = (case ctx of None \<Rightarrow> [] | Some c \<Rightarrow> headers_from_context (qc_trace c))"

definition normalize_task_record :: "int \<Rightarrow> q_ctx option \<Rightarrow> task_record \<Rightarrow> task_record" where
  "normalize_task_record now ctx r0 =
     (let r1 = (if tr_headers r0 = [] then r0\<lparr>tr_headers := correlation_headers ctx\<rparr> else r0);
          hs = tr_headers r1;
          r2 = (if tr_track_id r1 = [] then r1\<lparr>tr_track_id := header_value hs track_header\<rparr> else r1);
          r3 = (if tr_request_id r2 = [] then r2\<lparr>tr_request_id := header_value hs request_header\<rparr> else r2);
          r4 = (if tr_trace_id r3 = [] then r3\<lparr>tr_trace_id := trace_id_from_headers hs\<rparr> else r3);
          r5 = (if tr_span_id r4 = [] then r4\<lparr>tr_span_id := span_id_from_headers hs\<rparr> else r4);
          r6 = (if tr_created_at r5 = 0 then r5\<lparr>tr_created_at := now\<rparr> else r5)
      in if tr_updated_at r6 = 0 then r6\<lparr>tr_updated_at := tr_created_at r6\<rparr> else r6)"

text \<open>The package functions that call the store; a store without the interface does nothing.\<close>

definition record_task_enqueued ::
  "int \<Rightarrow> q_ctx option \<Rightarrow> 'w task_store \<Rightarrow> (task_record, 'w) store_op" where
  "record_task_enqueued now ctx st r w =
     (let r1 = (if tr_state r = TaskUnset then r\<lparr>tr_state := StatePending\<rparr> else r)
      in ts_enqueued st (normalize_task_record now ctx r1) w)"

definition record_task_submitting ::
  "int \<Rightarrow> q_ctx option \<Rightarrow> 'w task_store \<Rightarrow> task_record \<Rightarrow> 'w \<Rightarrow> (task_record \<times> q_error option) \<times> 'w" where
  "record_task_submitting now ctx st r w =
     (case ts_submission st of None \<Rightarrow> ((r, None), w)
      | Some s \<Rightarrow> ss_submitting s ((normalize_task_record now ctx r)\<lparr>tr_state := StateSubmitting\<rparr>) w)"

definition record_task_scheduled ::
  "int \<Rightarrow> q_ctx option \<Rightarrow> 'w task_store \<Rightarrow> task_record \<Rightarrow> 'w \<Rightarrow> (task_record \<times> q_error option) \<times> 'w" where
  "record_task_scheduled now ctx st r w =
     (case ts_schedule st of None \<Rightarrow> ((r, None), w)
      | Some s \<Rightarrow> sc_scheduled s ((normalize_task_record now ctx r)\<lparr>tr_state := StateScheduled\<rparr>) w)"

definition record_task_dispatched :: "int \<Rightarrow> q_ctx option \<Rightarrow> 'w task_store \<Rightarrow> (task_record, 'w) store_op" where
  "record_task_dispatched now ctx st r w =
     (case ts_submission st of None \<Rightarrow> (None, w)
      | Some s \<Rightarrow> ss_dispatched s (normalize_task_record now ctx r) w)"

definition record_task_dispatch_failed :: "int \<Rightarrow> q_ctx option \<Rightarrow> 'w task_store \<Rightarrow> (task_record, 'w) store_op" where
  "record_task_dispatch_failed now ctx st r w =
     (case ts_submission st of None \<Rightarrow> (None, w)
      | Some s \<Rightarrow> ss_dispatch_failed s ((normalize_task_record now ctx r)\<lparr>tr_state := StateSubmitFailed\<rparr>) w)"

definition update_stored_task_status :: "int \<Rightarrow> 'w task_store \<Rightarrow> (task_status_update, 'w) store_op" where
  "update_stored_task_status now st u w =
     (if su_task_id u = [] \<or> su_status u = TaskUnset then (None, w)
      else ts_update_status st (if su_updated_at u = 0 then u\<lparr>su_updated_at := now\<rparr> else u) w)"

section \<open>Options and records (runtime_instance.go)\<close>

definition seconds :: "int \<Rightarrow> int" where "seconds d = d sdiv 10 ^ 9"

definition task_record_options :: "task_record \<Rightarrow> enqueue_option option list" where
  "task_record_options r =
     [Some (OptQueue (first_non_empty [tr_queue r, DefaultQueueName]))]
     @ (if tr_task_id r \<noteq> [] then [Some (OptTaskID (tr_task_id r))] else [])
     @ [Some (OptMaxRetry (tr_max_retry r))]
     @ (if tr_timeout_seconds r > 0 then [Some (OptTimeout (tr_timeout_seconds r * 10 ^ 9))] else [])
     @ (if tr_unique_seconds r > 0 then [Some (OptUnique (tr_unique_seconds r * 10 ^ 9))] else [])
     @ (if tr_auto_retry_enabled r \<and> tr_auto_retry_max r > 0
        then [Some (OptAutoRetry (tr_auto_retry_max r) (tr_auto_retry_delay_seconds r * 10 ^ 9))] else [])"

definition enqueue_scheduled_at :: "int \<Rightarrow> enqueue_options \<Rightarrow> int option" where
  "enqueue_scheduled_at now a =
     (if eo_process_at a \<noteq> 0 then Some (eo_process_at a)
      else if eo_process_in a > 0 then Some (now + eo_process_in a) else None)"

definition task_record_from_enqueue ::
  "('p \<Rightarrow> q_error + string) \<Rightarrow> int \<Rightarrow> string \<Rightarrow> q_ctx option \<Rightarrow> 'p task \<Rightarrow> task_info option \<Rightarrow>
   enqueue_options \<Rightarrow> task_state \<Rightarrow> q_error + task_record" where
  "task_record_from_enqueue json now driver ctx t info a st0 =
     bindR (marshal_payload json (tk_payload t)) (\<lambda>body.
       let hs = foldl (\<lambda>hs kv. AList.update (fst kv) (snd kv) hs) (correlation_headers ctx) (tk_headers t);
           at0 = (case info of None \<Rightarrow> None | Some i \<Rightarrow> ti_next_run_at i);
           (run_at, delay) =
             (if eo_process_at a \<noteq> 0 then (Some (eo_process_at a), seconds (eo_process_at a - now))
              else if eo_process_in a > 0 then (Some (now + eo_process_in a), seconds (eo_process_in a))
              else (at0, 0));
           st = (case run_at of Some x \<Rightarrow> if x > now \<and> st0 = StatePending then StateScheduled else st0 | None \<Rightarrow> st0);
           max_retry = (case eo_max_retry a of Some n \<Rightarrow> n
                        | None \<Rightarrow> (case info of None \<Rightarrow> 0 | Some i \<Rightarrow> ti_max_retry i));
           created = (case info of Some i \<Rightarrow> if ti_created_at i \<noteq> 0 then ti_created_at i else now | None \<Rightarrow> now);
           updated = (case info of Some i \<Rightarrow> if ti_updated_at i \<noteq> 0 then ti_updated_at i else created
                      | None \<Rightarrow> created);
           task_id = (case info of Some i \<Rightarrow> if ti_id i \<noteq> [] then ti_id i else eo_task_id a
                      | None \<Rightarrow> eo_task_id a)
       in Inr \<lparr>tr_record_id = 0, tr_driver = driver, tr_task_id = task_id,
            tr_queue = first_non_empty [tk_queue t, eo_queue a, DefaultQueueName], tr_type = tk_type t,
            tr_payload = body, tr_state = st, tr_max_retry = max_retry, tr_attempts = 0,
            tr_timeout_seconds = seconds (eo_timeout a), tr_unique_seconds = seconds (eo_unique_ttl a),
            tr_delay_seconds = delay, tr_auto_retry_enabled = eo_auto_retry_enabled a,
            tr_auto_retry_count = 0, tr_auto_retry_max = eo_auto_retry_max a,
            tr_auto_retry_delay_seconds = seconds (eo_auto_retry_delay a), tr_next_retry_at = None,
            tr_last_retry_error = [], tr_scheduled_at = run_at, tr_started_at = None, tr_last_error = [],
            tr_worker_id = [], tr_track_id = [], tr_request_id = [], tr_trace_id = [], tr_span_id = [],
            tr_created_at = created, tr_updated_at = updated, tr_headers = hs\<rparr>)"

section \<open>Enqueueing (runtime_instance.go)\<close>

text \<open>The runtime instance: its collaborators, with \<open>error.Error()\<close> as \<open>qr_error_text\<close>.\<close>

record ('p, 'w) queue_runtime =
  qr_json :: "'p \<Rightarrow> q_error + string"
  qr_error_text :: "q_error \<Rightarrow> string"
  qr_driver :: string
  qr_worker_id :: string
  qr_client :: "q_ctx option \<Rightarrow> 'p task \<Rightarrow> enqueue_option option list \<Rightarrow> 'w \<Rightarrow>
    (task_info option \<times> q_error option) \<times> 'w"
  qr_delete :: "(string \<Rightarrow> string \<Rightarrow> 'w \<Rightarrow> q_error option \<times> 'w) option"
  qr_store :: "'w task_store option"
  qr_uuid :: "'w \<Rightarrow> string \<times> 'w"

definition applied_for :: "'p task \<Rightarrow> enqueue_option option list \<Rightarrow> enqueue_options" where
  "applied_for t opts =
     (let a = apply_options opts;
          a1 = (if tk_queue t \<noteq> [] then a\<lparr>eo_queue := tk_queue t\<rparr> else a)
      in if tk_id t \<noteq> [] then a1\<lparr>eo_task_id := tk_id t\<rparr> else a1)"

text \<open>\<open>recordScheduled\<close>: the answer tells whether the task was stored for later.\<close>

definition record_scheduled ::
  "('p, 'w) queue_runtime \<Rightarrow> int \<Rightarrow> q_ctx option \<Rightarrow> 'p task \<Rightarrow> enqueue_option option list \<Rightarrow> 'w \<Rightarrow>
   (q_error + task_info option) \<times> 'w" where
  "record_scheduled rt now ctx t opts w =
     (case qr_store rt of None \<Rightarrow> (Inr None, w)
      | Some st \<Rightarrow> (case ts_schedule st of None \<Rightarrow> (Inr None, w)
      | Some _ \<Rightarrow>
        let a = applied_for t opts in
        (case enqueue_scheduled_at now a of None \<Rightarrow> (Inr None, w)
         | Some run_at \<Rightarrow>
           if \<not> run_at > now then (Inr None, w)
           else
             let (a1, t1, w1) =
                   (if eo_task_id a = []
                    then (let (i, w1) = qr_uuid rt w in (a\<lparr>eo_task_id := i\<rparr>, t\<lparr>tk_id := i\<rparr>, w1))
                    else (a, t, w))
             in (case task_record_from_enqueue (qr_json rt) now (qr_driver rt) ctx t1 None a1 StateScheduled of
                   Inl e \<Rightarrow> (Inl e, w1)
                 | Inr r \<Rightarrow>
                   let ((r', err), w2) = record_task_scheduled now ctx st (r\<lparr>tr_scheduled_at := Some run_at\<rparr>) w1 in
                   (case err of Some e \<Rightarrow> (Inl e, w2)
                    | None \<Rightarrow> (Inr (Some \<lparr>ti_id = tr_task_id r', ti_type = tr_type r', ti_queue = tr_queue r',
                        ti_state = StateScheduled, ti_payload = tr_payload r', ti_headers = tr_headers r',
                        ti_max_retry = tr_max_retry r', ti_next_run_at = tr_scheduled_at r',
                        ti_created_at = tr_created_at r', ti_updated_at = tr_updated_at r',
                        ti_track_id = tr_track_id r', ti_request_id = tr_request_id r',
                        ti_trace_id = tr_trace_id r', ti_span_id = tr_span_id r'\<rparr>), w2))))))"

text \<open>\<open>recordSubmitting\<close>: the task and options to hand on, and the pending record if one was made.\<close>

definition record_submitting ::
  "('p, 'w) queue_runtime \<Rightarrow> int \<Rightarrow> q_ctx option \<Rightarrow> 'p task \<Rightarrow> enqueue_option option list \<Rightarrow> 'w \<Rightarrow>
   (q_error + 'p task \<times> enqueue_option option list \<times> task_record option) \<times> 'w" where
  "record_submitting rt now ctx t opts w =
     (case qr_store rt of None \<Rightarrow> (Inr (t, opts, None), w)
      | Some st \<Rightarrow> (case ts_submission st of None \<Rightarrow> (Inr (t, opts, None), w)
      | Some _ \<Rightarrow>
        let a = applied_for t opts;
            (a1, t1, opts1, w1) =
              (if eo_task_id a = []
               then (let (i, w1) = qr_uuid rt w
                     in (a\<lparr>eo_task_id := i\<rparr>, t\<lparr>tk_id := i\<rparr>, opts @ [Some (OptTaskID i)], w1))
               else (a, t, opts, w))
        in (case task_record_from_enqueue (qr_json rt) now (qr_driver rt) ctx t1 None a1 StateSubmitting of
              Inl e \<Rightarrow> (Inl e, w1)
            | Inr r \<Rightarrow>
              let ((r', err), w2) = record_task_submitting now ctx st r w1 in
              (case err of Some e \<Rightarrow> (Inl e, w2) | None \<Rightarrow> (Inr (t1, opts1, Some r'), w2)))))"

text \<open>\<open>recordEnqueued\<close>: errors of the store are dropped.\<close>

definition record_enqueued ::
  "('p, 'w) queue_runtime \<Rightarrow> int \<Rightarrow> q_ctx option \<Rightarrow> 'p task \<Rightarrow> task_info option \<Rightarrow> task_record option \<Rightarrow>
   enqueue_option option list \<Rightarrow> 'w \<Rightarrow> 'w" where
  "record_enqueued rt now ctx t info pending opts w =
     (case qr_store rt of None \<Rightarrow> w
      | Some st \<Rightarrow> (case info of None \<Rightarrow> w
      | Some i \<Rightarrow>
        let state = (if ti_state i = TaskUnset then StatePending else ti_state i) in
        (case task_record_from_enqueue (qr_json rt) now (qr_driver rt) ctx t info (applied_for t opts) state of
           Inl _ \<Rightarrow> w
         | Inr r \<Rightarrow>
           (case pending of
              Some p \<Rightarrow>
                snd (record_task_dispatched now ctx st
                  (r\<lparr>tr_record_id := tr_record_id p, tr_created_at := tr_created_at p,
                     tr_auto_retry_enabled := tr_auto_retry_enabled p, tr_auto_retry_count := tr_auto_retry_count p,
                     tr_auto_retry_max := tr_auto_retry_max p,
                     tr_auto_retry_delay_seconds := tr_auto_retry_delay_seconds p,
                     tr_next_retry_at := tr_next_retry_at p, tr_last_retry_error := tr_last_retry_error p\<rparr>) w)
            | None \<Rightarrow> snd (record_task_enqueued now ctx st r w)))))"

definition enqueue ::
  "('p, 'w) queue_runtime \<Rightarrow> int \<Rightarrow> q_ctx option \<Rightarrow> 'p task \<Rightarrow> enqueue_option option list \<Rightarrow> 'w \<Rightarrow>
   (task_info option \<times> q_error option) \<times> 'w" where
  "enqueue rt now ctx t opts w =
     (case record_scheduled rt now ctx t opts w of
        (Inl e, w1) \<Rightarrow> ((None, Some e), w1)
      | (Inr (Some info), w1) \<Rightarrow> ((Some info, None), w1)
      | (Inr None, w1) \<Rightarrow>
        (case record_submitting rt now ctx t opts w1 of
           (Inl e, w2) \<Rightarrow> ((None, Some e), w2)
         | (Inr (t', opts', pending), w2) \<Rightarrow>
           (case qr_client rt ctx t' opts' w2 of
              ((_, Some e), w3) \<Rightarrow>
                ((None, Some e),
                 (case (pending, qr_store rt) of
                    (Some p, Some st) \<Rightarrow>
                      snd (record_task_dispatch_failed now ctx st (p\<lparr>tr_last_error := qr_error_text rt e\<rparr>) w3)
                  | _ \<Rightarrow> w3))
            | ((info, None), w3) \<Rightarrow> ((info, None), record_enqueued rt now ctx t' info pending opts' w3))))"

definition record_task :: "task_record \<Rightarrow> string \<Rightarrow> 'p task" where
  "record_task r queue_name =
     \<lparr>tk_id = tr_task_id r, tk_type = tr_type r, tk_queue = queue_name,
      tk_payload = PayloadBytes (tr_payload r), tk_headers = tr_headers r\<rparr>"

text \<open>The end of \<open>RequeueTaskRecord\<close> and all of \<open>dispatchScheduledTask\<close>.\<close>

definition dispatch_record ::
  "('p, 'w) queue_runtime \<Rightarrow> int \<Rightarrow> q_ctx option \<Rightarrow> string \<Rightarrow> task_record \<Rightarrow> 'w \<Rightarrow>
   (task_info option \<times> q_error option) \<times> 'w" where
  "dispatch_record rt now ctx queue_name r w =
     (let t = record_task r queue_name; opts = task_record_options r in
      case qr_client rt ctx t opts w of
        ((_, Some e), w1) \<Rightarrow>
          ((None, Some e),
           (case qr_store rt of None \<Rightarrow> w1
            | Some st \<Rightarrow> snd (record_task_dispatch_failed now ctx st (r\<lparr>tr_last_error := qr_error_text rt e\<rparr>) w1)))
      | ((info, None), w1) \<Rightarrow> ((info, None), record_enqueued rt now ctx t info (Some r) opts w1))"

definition requeue_task_record ::
  "('p, 'w) queue_runtime \<Rightarrow> int \<Rightarrow> q_ctx option \<Rightarrow> task_record \<Rightarrow> 'w \<Rightarrow> (task_info option \<times> q_error option) \<times> 'w" where
  "requeue_task_record rt now ctx r w =
     (let queue_name = first_non_empty [tr_queue r, DefaultQueueName];
          (err, w1) =
            (if tr_task_id r = [] then (None, w)
             else (case qr_delete rt of None \<Rightarrow> (None, w) | Some del \<Rightarrow> del queue_name (tr_task_id r) w))
      in case err of
           Some e \<Rightarrow>
             if \<not> is_err QErrTaskNotFound e \<and> \<not> is_err QErrCapabilityUnsupported e then ((None, Some e), w1)
             else dispatch_record rt now ctx queue_name (r\<lparr>tr_next_retry_at := None, tr_last_retry_error := []\<rparr>) w1
         | None \<Rightarrow> dispatch_record rt now ctx queue_name (r\<lparr>tr_next_retry_at := None, tr_last_retry_error := []\<rparr>) w1)"

fun auto_retry_loop ::
  "('p, 'w) queue_runtime \<Rightarrow> 'w auto_retry_store \<Rightarrow> int \<Rightarrow> q_ctx option \<Rightarrow> task_record list \<Rightarrow>
   int \<Rightarrow> q_error option \<Rightarrow> 'w \<Rightarrow> (int \<times> q_error option) \<times> 'w" where
  "auto_retry_loop rt st now ctx [] n err w = ((n, err), w)"
| "auto_retry_loop rt st now ctx (r # rs) n err w =
     (case requeue_task_record rt now ctx r w of
        ((_, Some e), w1) \<Rightarrow>
          auto_retry_loop rt st now ctx rs n (q_join [err, Some e]) (snd (ar_mark_failed st r e w1))
      | ((_, None), w1) \<Rightarrow> auto_retry_loop rt st now ctx rs (n + 1) err w1)"

definition dispatch_auto_retry_tasks ::
  "('p, 'w) queue_runtime \<Rightarrow> int \<Rightarrow> q_ctx option \<Rightarrow> int \<Rightarrow> 'w \<Rightarrow> (int \<times> q_error option) \<times> 'w" where
  "dispatch_auto_retry_tasks rt now ctx limit w =
     (case qr_store rt of None \<Rightarrow> ((0, None), w)
      | Some ts \<Rightarrow> (case ts_auto_retry ts of None \<Rightarrow> ((0, None), w)
      | Some st \<Rightarrow>
        let ((rs, err), w1) = ar_claim st now limit (qr_worker_id rt) (qr_driver rt) w in
        (case err of Some e \<Rightarrow> ((0, Some e), w1)
         | None \<Rightarrow> auto_retry_loop rt st now ctx rs 0 None w1)))"

fun dispatch_scheduled_loop ::
  "('p, 'w) queue_runtime \<Rightarrow> int \<Rightarrow> q_ctx option \<Rightarrow> task_record list \<Rightarrow> 'w \<Rightarrow> 'w" where
  "dispatch_scheduled_loop rt now ctx [] w = w"
| "dispatch_scheduled_loop rt now ctx (r # rs) w =
     dispatch_scheduled_loop rt now ctx rs (snd (dispatch_record rt now ctx (tr_queue r) r w))"

definition dispatch_scheduled_tasks ::
  "('p, 'w) queue_runtime \<Rightarrow> 'w schedule_store \<Rightarrow> int \<Rightarrow> q_ctx option \<Rightarrow> int \<Rightarrow> 'w \<Rightarrow> 'w" where
  "dispatch_scheduled_tasks rt sc now ctx batch w =
     (let ((rs, err), w1) = sc_claim sc now batch (qr_worker_id rt) (qr_driver rt) w
      in if \<not> Option.is_none err \<or> rs = [] then w1 else dispatch_scheduled_loop rt now ctx rs w1)"

fun batch_enqueue_loop ::
  "('p, 'w) queue_runtime \<Rightarrow> int \<Rightarrow> q_ctx option \<Rightarrow> 'p task list \<Rightarrow> enqueue_option option list \<Rightarrow>
   task_info option list \<Rightarrow> 'w \<Rightarrow> (task_info option list \<times> q_error option) \<times> 'w" where
  "batch_enqueue_loop rt now ctx [] opts infos w = ((infos, None), w)"
| "batch_enqueue_loop rt now ctx (t # ts) opts infos w =
     (case enqueue rt now ctx t opts w of
        ((_, Some e), w1) \<Rightarrow> ((infos, Some e), w1)
      | ((info, None), w1) \<Rightarrow> batch_enqueue_loop rt now ctx ts opts (infos @ [info]) w1)"

section \<open>Recording runs (task_store.go)\<close>

record task_store_options =
  to_driver :: string
  to_worker_id :: string
  to_run_id :: string

definition task_log_from_run :: "task_run \<Rightarrow> message \<Rightarrow> log_level \<Rightarrow> string \<Rightarrow> int \<Rightarrow> task_run_log" where
  "task_log_from_run run m lv text time =
     \<lparr>lg_queue_task_id = rn_queue_task_id run, lg_run_db_id = rn_run_db_id run, lg_run_id = rn_run_id run,
      lg_task_id = rn_task_id run, lg_level = lv, lg_message = text, lg_at = time, lg_headers = qm_headers m\<rparr>"

definition empty_task_run :: task_run where
  "empty_task_run = \<lparr>rn_run_db_id = 0, rn_run_id = [], rn_queue_task_id = 0, rn_task_id = [], rn_queue = [],
     rn_type = [], rn_attempt = 0, rn_status = TaskUnset, rn_worker_id = [], rn_started_at = 0,
     rn_finished_at = 0, rn_duration_ms = 0, rn_error = [], rn_headers = []\<rparr>"

text \<open>\<open>startStoredTaskRun\<close>: the run (empty for a nil message) or the error of the store.\<close>

definition start_stored_task_run ::
  "'w task_store \<Rightarrow> task_store_options \<Rightarrow> int \<Rightarrow> q_ctx option \<Rightarrow> message option \<Rightarrow> 'w \<Rightarrow>
   (q_error + task_run) \<times> 'w" where
  "start_stored_task_run st opts now ctx msg w =
     (case msg of None \<Rightarrow> (Inr empty_task_run, w)
      | Some m \<Rightarrow>
        let hs = (if qm_headers m = [] then correlation_headers ctx else qm_headers m);
            q = first_non_empty [qm_queue m, DefaultQueueName];
            ((task, err), w1) = ts_ensure_running st
              \<lparr>tr_record_id = 0, tr_driver = to_driver opts, tr_task_id = qm_id m, tr_queue = q,
               tr_type = qm_type m, tr_payload = qm_payload m, tr_state = StateActive,
               tr_max_retry = qm_max_retry m, tr_attempts = qm_retry_count m + 1, tr_timeout_seconds = 0,
               tr_unique_seconds = 0, tr_delay_seconds = 0, tr_auto_retry_enabled = False,
               tr_auto_retry_count = 0, tr_auto_retry_max = 0, tr_auto_retry_delay_seconds = 0,
               tr_next_retry_at = None, tr_last_retry_error = [], tr_scheduled_at = None,
               tr_started_at = Some now, tr_last_error = [], tr_worker_id = to_worker_id opts,
               tr_track_id = header_value hs track_header, tr_request_id = header_value hs request_header,
               tr_trace_id = trace_id_from_headers hs, tr_span_id = span_id_from_headers hs,
               tr_created_at = now, tr_updated_at = now, tr_headers = hs\<rparr> w
        in (case err of Some e \<Rightarrow> (Inl e, w1)
            | None \<Rightarrow>
              let ((run, err2), w2) = ts_start_run st
                    (empty_task_run\<lparr>rn_run_id := to_run_id opts, rn_queue_task_id := tr_record_id task,
                       rn_task_id := qm_id m, rn_queue := q, rn_type := qm_type m,
                       rn_attempt := qm_retry_count m + 1, rn_status := StateActive,
                       rn_worker_id := to_worker_id opts, rn_started_at := now, rn_headers := hs\<rparr>) w1
              in (case err2 of Some e \<Rightarrow> (Inl e, w2)
                  | None \<Rightarrow> (Inr run, snd (ts_append_log st
                      (task_log_from_run run m LogInfo ''queue task started'' now) w2)))))"

definition run_status :: "message \<Rightarrow> q_error option \<Rightarrow> task_state" where
  "run_status m err =
     (case err of None \<Rightarrow> StateSucceeded
      | Some e \<Rightarrow>
          if (is_rate_limit_error e \<or> qm_retry_count m < qm_max_retry m) \<and> \<not> is_dead_letter_error e \<and> \<not> is_fatal_error e
          then StateRetry else StateFailed)"

definition finish_stored_task_run ::
  "(q_error \<Rightarrow> string) \<Rightarrow> 'w task_store \<Rightarrow> task_run \<Rightarrow> message option \<Rightarrow> int \<Rightarrow> int \<Rightarrow>
   q_error option \<Rightarrow> 'w \<Rightarrow> q_error option \<times> 'w" where
  "finish_stored_task_run text st run msg started finished err w =
     (case msg of None \<Rightarrow> (None, w)
      | Some m \<Rightarrow>
        if rn_run_id run = [] then (None, w)
        else
          let status = run_status m err;
              err_text = (case err of None \<Rightarrow> [] | Some e \<Rightarrow> text e);
              run' = run\<lparr>rn_status := status, rn_finished_at := finished,
                rn_duration_ms := (finished - started) sdiv 10 ^ 6, rn_error := err_text\<rparr>;
              (e1, w1) = ts_finish_run st run' w
          in (case e1 of Some e \<Rightarrow> (Some e, w1)
              | None \<Rightarrow>
                let (e2, w2) = ts_append_log st (task_log_from_run run' m
                      (if Option.is_none err then LogInfo else LogError)
                      (if Option.is_none err then ''queue task completed'' else ''queue task failed'') finished) w1
                in (case e2 of Some e \<Rightarrow> (Some e, w2)
                    | None \<Rightarrow> ts_update_status st \<lparr>su_queue = qm_queue m, su_task_id = qm_id m, su_status = status,
                        su_last_error = err_text, su_updated_at = finished\<rparr> w2)))"

text \<open>The middleware: the two clock readings are \<open>started\<close> and \<open>finished\<close>.\<close>

definition task_store_mw ::
  "(q_error \<Rightarrow> string) \<Rightarrow> 'w task_store \<Rightarrow> task_store_options \<Rightarrow> int \<Rightarrow> int \<Rightarrow> 'w q_middleware" where
  "task_store_mw text st opts started finished next ctx msg w =
     (case start_stored_task_run st opts started ctx msg w of
        (Inl _, w1) \<Rightarrow> next ctx msg w1
      | (Inr run, w1) \<Rightarrow>
        (case next ctx msg w1 of
           (Panicked v, msg', w2) \<Rightarrow>
             (Panicked v, msg', snd (finish_stored_task_run text st run msg' started finished
               (Some (QForeign (''panic: '' @ v))) w2))
         | (Returned err, msg', w2) \<Rightarrow>
             (Returned err, msg', snd (finish_stored_task_run text st run msg' started finished err w2))))"

end
