(* ===== verification/Queue_Records.thy ===== *)
theory Queue_Records
  imports Queue_Store
begin

text \<open>
  What the task store is told: a record survives being handed out as a task and recorded again,
  a task reaches the broker only after it was recorded, every claimed retry is accounted for, and
  recording a run does not disturb it.
\<close>

section \<open>Records and options\<close>

definition well_formed_record :: "task_record \<Rightarrow> bool" where
  "well_formed_record r \<longleftrightarrow> tr_queue r \<noteq> [] \<and> tr_task_id r \<noteq> [] \<and> 0 \<le> tr_max_retry r \<and>
     0 \<le> tr_timeout_seconds r \<and> 0 \<le> tr_unique_seconds r \<and> 0 \<le> tr_auto_retry_delay_seconds r \<and>
     (if tr_auto_retry_enabled r then 0 < tr_auto_retry_max r
      else tr_auto_retry_max r = 0 \<and> tr_auto_retry_delay_seconds r = 0)"

lemma seconds_exact [simp]: "seconds (n * 1000000000) = n"
  by (cases "n = 0") (auto simp: seconds_def signed_divide_int_def sgn_mult abs_mult mult_sgn_abs)

lemma seconds_zero [simp]: "seconds 0 = 0"
  by (simp add: seconds_def signed_divide_int_def)

lemma record_task_simps [simp]:
  "tk_id (record_task r q) = tr_task_id r" "tk_type (record_task r q) = tr_type r"
  "tk_queue (record_task r q) = q" "tk_payload (record_task r q) = PayloadBytes (tr_payload r)"
  "tk_headers (record_task r q) = tr_headers r"
  by (simp_all add: record_task_def)

lemma applied_record_options:
  assumes "well_formed_record r"
  shows "applied_for (record_task r (tr_queue r)) (task_record_options r) =
    \<lparr>eo_queue = tr_queue r, eo_task_id = tr_task_id r, eo_max_retry = Some (tr_max_retry r),
     eo_timeout = tr_timeout_seconds r * 10 ^ 9, eo_deadline = 0, eo_process_at = 0, eo_process_in = 0,
     eo_unique_ttl = tr_unique_seconds r * 10 ^ 9, eo_retention = 0, eo_group = [], eo_priority = 0,
     eo_rate_limit_key = [], eo_trace = True, eo_auto_retry_enabled = tr_auto_retry_enabled r,
     eo_auto_retry_max = tr_auto_retry_max r, eo_auto_retry_delay = tr_auto_retry_delay_seconds r * 10 ^ 9\<rparr>"
  using assms
  by (auto simp: applied_for_def task_record_options_def apply_options_def
      well_formed_record_def Let_def split: if_splits)

lemma map_of_updates:
  "distinct (map fst kvs) \<Longrightarrow>
     map_of (foldl (\<lambda>hs kv. AList.update (fst kv) (snd kv) hs) hs kvs) k =
       (case map_of kvs k of Some v \<Rightarrow> Some v | None \<Rightarrow> map_of hs k)"
proof (induction kvs arbitrary: hs)
  case (Cons kv kvs)
  then have "map_of kvs (fst kv) = None" by (simp add: map_of_eq_None_iff)
  with Cons show ?case by (auto simp: update_conv' split: option.split)
qed simp

section \<open>A recording broker and store\<close>



lemma normalize_task_record_simps [simp]:
  "tr_task_id (normalize_task_record now ctx r) = tr_task_id r"
  "tr_record_id (normalize_task_record now ctx r) = tr_record_id r"
  by (simp_all add: normalize_task_record_def Let_def)




lemma apply_options_snoc: "apply_options (opts @ [Some oo]) = apply_option oo (apply_options opts)"
  by (simp add: apply_options_def)



section \<open>Automatic retries\<close>

lemma auto_retry_loop_accounts:
  fixes marks :: "'w \<Rightarrow> int"
  assumes "\<And>r e w. marks (snd (ar_mark_failed st r e w)) = marks w + 1"
    and "\<And>r w. marks (snd (requeue_task_record rt now ctx r w)) = marks w"
  shows "auto_retry_loop rt st now ctx rs n err w = ((n', err'), w') \<Longrightarrow>
    n' - n + (marks w' - marks w) = int (length rs) \<and> marks w \<le> marks w' \<and>
    (err' = None \<longleftrightarrow> err = None \<and> marks w' = marks w)"
proof (induction rs arbitrary: n err w)
  case (Cons r rs)
  obtain info e w1 where r: "requeue_task_record rt now ctx r w = ((info, e), w1)" by (metis prod.collapse)
  have m1: "marks w1 = marks w" using assms(2) [of r w] r by simp
  show ?case
  proof (cases e)
    case None
    with Cons.prems r have "auto_retry_loop rt st now ctx rs (n + 1) err w1 = ((n', err'), w')" by simp
    from Cons.IH [OF this] m1 show ?thesis by auto
  next
    case (Some x)
    let ?w2 = "snd (ar_mark_failed st r x w1)"
    have "auto_retry_loop rt st now ctx rs n (q_join [err, Some x]) ?w2 = ((n', err'), w')"
      using Cons.prems r Some by simp
    moreover have "q_join [err, Some x] \<noteq> None" by (cases err) (simp_all add: q_join_def)
    ultimately show ?thesis using Cons.IH assms(1) [of r x w1] m1 by fastforce
  qed
qed simp

section \<open>Runs\<close>

datatype run_call =
    RunEnsure string | RunStart string | RunLog log_level | RunFinish task_state | RunUpdate string task_state

definition recording_task_store :: "run_call list task_store \<Rightarrow> bool" where
  "recording_task_store st \<longleftrightarrow>
     (\<forall>r w. ts_ensure_running st r w = ((r, None), w @ [RunEnsure (tr_task_id r)])) \<and>
     (\<forall>r w. ts_start_run st r w = ((r, None), w @ [RunStart (rn_run_id r)])) \<and>
     (\<forall>r w. ts_finish_run st r w = (None, w @ [RunFinish (rn_status r)])) \<and>
     (\<forall>l w. ts_append_log st l w = (None, w @ [RunLog (lg_level l)])) \<and>
     (\<forall>u w. ts_update_status st u w = (None, w @ [RunUpdate (su_task_id u) (su_status u)]))"

definition outcome_error :: "q_outcome \<Rightarrow> q_error option" where
  "outcome_error out = (case out of Returned e \<Rightarrow> e | Panicked v \<Rightarrow> Some (QForeign (''panic: '' @ v)))"

lemma start_stored_recorded:
  assumes "recording_task_store st"
  shows "\<exists>run. start_stored_task_run st opts now ctx (Some m) w =
      (Inr run, w @ [RunEnsure (qm_id m), RunStart (to_run_id opts), RunLog LogInfo]) \<and> rn_run_id run = to_run_id opts"
  using assms by (simp add: start_stored_task_run_def recording_task_store_def task_log_from_run_def Let_def)

lemma finish_stored_recorded:
  assumes "recording_task_store st" "rn_run_id run \<noteq> []"
  shows "snd (finish_stored_task_run text st run (Some m) t0 t1 err w) =
    w @ [RunFinish (run_status m err), RunLog (if err = None then LogInfo else LogError),
         RunUpdate (qm_id m) (run_status m err)]"
  using assms by (cases err)
    (simp_all add: finish_stored_task_run_def recording_task_store_def task_log_from_run_def Let_def)

section \<open>Properties\<close>

text \<open>
  Requeueing a record loses nothing it records: the record made when a record's task is
  handed to the broker again has its type, queue, identifier, payload, retry limit, timeout,
  uniqueness window and automatic-retry settings, and all its headers.
\<close>

theorem requeue_preserves_record:
  assumes "well_formed_record r" "distinct (map fst (tr_headers r))"
    and "task_record_from_enqueue json now driver ctx (record_task r (tr_queue r)) info
           (applied_for (record_task r (tr_queue r)) (task_record_options r)) st = Inr r'"
    and "\<forall>i. info = Some i \<longrightarrow> ti_id i = [] \<or> ti_id i = tr_task_id r"
  shows "tr_task_id r' = tr_task_id r \<and> tr_type r' = tr_type r \<and> tr_queue r' = tr_queue r \<and>
    tr_payload r' = tr_payload r \<and> tr_max_retry r' = tr_max_retry r \<and>
    tr_timeout_seconds r' = tr_timeout_seconds r \<and> tr_unique_seconds r' = tr_unique_seconds r \<and>
    tr_auto_retry_enabled r' = tr_auto_retry_enabled r \<and> tr_auto_retry_max r' = tr_auto_retry_max r \<and>
    tr_auto_retry_delay_seconds r' = tr_auto_retry_delay_seconds r \<and>
    (\<forall>(k, v) \<in> set (tr_headers r). map_of (tr_headers r') k = Some v)"
proof -
  have hs: "map_of (foldl (\<lambda>hs kv. AList.update (fst kv) (snd kv) hs) hs0 (tr_headers r)) k = Some v"
    if "(k, v) \<in> set (tr_headers r)" for k v hs0
    using that assms(2) by (simp add: map_of_updates)
  have q: "tr_queue r \<noteq> []" using assms(1) by (simp add: well_formed_record_def)
  from assms(3,4) q hs show ?thesis
    by (cases info)
      (auto simp: task_record_from_enqueue_def applied_record_options [OF assms(1)]
        marshal_payload_def Let_def)
qed


text \<open>
  Every claimed retry is accounted for.  Of the records claimed for automatic retry, each is
  either counted as dispatched or marked as failed, and an error is returned exactly when one was
  marked.
\<close>

theorem auto_retry_accounts:
  fixes marks :: "'w \<Rightarrow> int"
  assumes "qr_store rt = Some ts" "ts_auto_retry ts = Some st"
    and "ar_claim st now limit (qr_worker_id rt) (qr_driver rt) w = ((rs, None), w1)"
    and "\<And>r e w. marks (snd (ar_mark_failed st r e w)) = marks w + 1"
    and "\<And>r w. marks (snd (requeue_task_record rt now ctx r w)) = marks w"
    and "dispatch_auto_retry_tasks rt now ctx limit w = ((n, err), w')"
  shows "n + (marks w' - marks w1) = int (length rs) \<and> marks w1 \<le> marks w' \<and>
    (err = None \<longleftrightarrow> marks w' = marks w1)"
proof -
  have "auto_retry_loop rt st now ctx rs 0 None w1 = ((n, err), w')"
    using assms(1-3,6) by (simp add: dispatch_auto_retry_tasks_def)
  from auto_retry_loop_accounts [OF assms(4,5) this] show ?thesis by simp
qed

text \<open>
  Recording a run does not disturb it.  Over a store that writes down its calls, the store
  middleware opens the run before the handler, runs it exactly once, passes on its result or its
  panic as it is, and closes the run once: with success exactly when it returned nil.
\<close>

theorem runs_are_bracketed:
  assumes "recording_task_store st" "to_run_id opts \<noteq> []"
    and "handler ctx (Some m) (w @ [RunEnsure (qm_id m), RunStart (to_run_id opts), RunLog LogInfo]) = (out, Some m', w1)"
  shows "\<exists>status level. task_store_mw render st opts t0 t1 handler ctx (Some m) w =
      (out, Some m', w1 @ [RunFinish status, RunLog level, RunUpdate (qm_id m') status]) \<and>
    (status = StateSucceeded \<longleftrightarrow> out = Returned None) \<and>
    (status = StateRetry \<longleftrightarrow> (\<exists>e. outcome_error out = Some e \<and> \<not> is_fatal_error e \<and> \<not> is_dead_letter_error e \<and>
       (is_rate_limit_error e \<or> qm_retry_count m' < qm_max_retry m')))"
proof -
  obtain run where run: "start_stored_task_run st opts t0 ctx (Some m) w =
      (Inr run, w @ [RunEnsure (qm_id m), RunStart (to_run_id opts), RunLog LogInfo])" "rn_run_id run \<noteq> []"
    using start_stored_recorded [OF assms(1), of opts t0 ctx m w] assms(2) by auto
  have "task_store_mw render st opts t0 t1 handler ctx (Some m) w =
      (out, Some m', w1 @ [RunFinish (run_status m' (outcome_error out)),
         RunLog (if outcome_error out = None then LogInfo else LogError),
         RunUpdate (qm_id m') (run_status m' (outcome_error out))])"
    using assms(3) run by (cases out)
      (simp_all add: task_store_mw_def finish_stored_recorded [OF assms(1) run(2)] outcome_error_def)
  moreover have "run_status m' (outcome_error out) = StateSucceeded \<longleftrightarrow> out = Returned None"
    by (cases out) (auto simp: run_status_def outcome_error_def split: option.split)
  moreover have "run_status m' (outcome_error out) = StateRetry \<longleftrightarrow>
      (\<exists>e. outcome_error out = Some e \<and> \<not> is_fatal_error e \<and> \<not> is_dead_letter_error e \<and>
       (is_rate_limit_error e \<or> qm_retry_count m' < qm_max_retry m'))"
    by (auto simp: run_status_def split: option.split)
  ultimately show ?thesis by blast
qed

section \<open>Witnesses\<close>

definition sample_record :: task_record where
  "sample_record = \<lparr>tr_record_id = 7, tr_driver = ''asynq'', tr_task_id = ''t1'', tr_queue = ''mail'',
     tr_type = ''send'', tr_payload = ''{}'', tr_state = StateFailed, tr_max_retry = 3, tr_attempts = 4,
     tr_timeout_seconds = 30, tr_unique_seconds = 0, tr_delay_seconds = 0, tr_auto_retry_enabled = True,
     tr_auto_retry_count = 1, tr_auto_retry_max = 2, tr_auto_retry_delay_seconds = 60,
     tr_next_retry_at = None, tr_last_retry_error = [], tr_scheduled_at = None, tr_started_at = None,
     tr_last_error = [], tr_worker_id = [], tr_track_id = [], tr_request_id = [], tr_trace_id = [],
     tr_span_id = [], tr_created_at = 1, tr_updated_at = 1, tr_headers = [(''trace_id'', ''abc'')]\<rparr>"

theorem requeue_preserves_record_witness:
  "\<exists>r' :: task_record. tr_timeout_seconds r' = 30 \<and> tr_auto_retry_max r' = 2 \<and> map_of (tr_headers r') ''trace_id'' = Some ''abc''"
proof -
  have ok: "well_formed_record sample_record" "distinct (map fst (tr_headers sample_record))"
    by (simp_all add: well_formed_record_def sample_record_def)
  let ?t = "record_task sample_record (tr_queue sample_record) :: unit task"
  obtain r' where r': "task_record_from_enqueue (\<lambda>_. Inr []) 100 ''asynq'' None ?t None
      (applied_for ?t (task_record_options sample_record)) StatePending = Inr r'"
    by (simp add: task_record_from_enqueue_def marshal_payload_def Let_def case_prod_beta)
  from requeue_preserves_record [OF ok r'] show ?thesis
    by (intro exI [of _ r']) (simp add: sample_record_def)
qed





definition retry_runtime :: "(unit, int) queue_runtime" where
  "retry_runtime = \<lparr>qr_json = (\<lambda>_. Inr []), qr_error_text = (\<lambda>_. ''down''), qr_driver = ''asynq'',
     qr_worker_id = ''w'', qr_client = (\<lambda>ctx t opts w. ((None, if tk_id t = ''bad'' then Some (QForeign ''down'') else None), w)),
     qr_delete = None,
     qr_store = Some \<lparr>ts_enqueued = (\<lambda>r w. (None, w)), ts_ensure_running = (\<lambda>r w. ((r, None), w)),
       ts_start_run = (\<lambda>r w. ((r, None), w)), ts_finish_run = (\<lambda>r w. (None, w)), ts_append_log = (\<lambda>l w. (None, w)),
       ts_update_status = (\<lambda>u w. (None, w)), ts_submission = None, ts_schedule = None,
       ts_auto_retry = Some \<lparr>
         ar_claim = (\<lambda>now limit wk dr w. (([sample_record, sample_record\<lparr>tr_task_id := ''bad''\<rparr>], None), w)),
         ar_mark_failed = (\<lambda>r e w. (None, w + 1))\<rparr>\<rparr>,
     qr_uuid = (\<lambda>w. (''u1'', w))\<rparr>"

theorem auto_retry_accounts_witness:
  "fst (fst (dispatch_auto_retry_tasks retry_runtime 100 None 10 0)) + 1 = 2"
proof -
  let ?r = "dispatch_auto_retry_tasks retry_runtime 100 None 10 0"
  have marked: "snd ?r = 1" by code_simp
  obtain n err where run: "?r = ((n, err), 1)" using marked by (metis prod.collapse)
  have "n + (1 - 0) = int (length [sample_record, sample_record\<lparr>tr_task_id := ''bad''\<rparr>]) \<and> (0::int) \<le> 1 \<and>
      (err = None \<longleftrightarrow> (1::int) = 0)"
    by (rule auto_retry_accounts [where marks = "\<lambda>w. w", OF _ _ _ _ _ run])
      (auto simp: retry_runtime_def requeue_task_record_def dispatch_record_def record_enqueued_def
        record_task_dispatched_def record_task_dispatch_failed_def Let_def split: option.split sum.split prod.split)
  with run show ?thesis by simp
qed

definition sample_run_store :: "run_call list task_store" where
  "sample_run_store = \<lparr>ts_enqueued = (\<lambda>r w. (None, w)),
     ts_ensure_running = (\<lambda>r w. ((r, None), w @ [RunEnsure (tr_task_id r)])),
     ts_start_run = (\<lambda>r w. ((r, None), w @ [RunStart (rn_run_id r)])),
     ts_finish_run = (\<lambda>r w. (None, w @ [RunFinish (rn_status r)])),
     ts_append_log = (\<lambda>l w. (None, w @ [RunLog (lg_level l)])),
     ts_update_status = (\<lambda>u w. (None, w @ [RunUpdate (su_task_id u) (su_status u)])),
     ts_submission = None, ts_schedule = None, ts_auto_retry = None\<rparr>"

definition sample_queue_message :: message where
  "sample_queue_message = \<lparr>qm_id = ''t1'', qm_type = ''send'', qm_payload = [], qm_queue = ''mail'',
     qm_state = TaskRunning, qm_retry_count = 0, qm_max_retry = 3, qm_headers = [], qm_metadata = Map.empty,
     qm_runtime = None\<rparr>"

definition panicking_handler :: "run_call list q_handler" where
  "panicking_handler ctx m w = (Panicked ''boom'', m, w)"

theorem runs_are_bracketed_witness:
  "\<exists>l. snd (snd (task_store_mw (\<lambda>_. []) sample_run_store \<lparr>to_driver = ''asynq'', to_worker_id = ''w'', to_run_id = ''r1''\<rparr>
      0 5 panicking_handler None (Some sample_queue_message) [])) =
     [RunEnsure ''t1'', RunStart ''r1'', RunLog LogInfo, RunFinish StateRetry, RunLog l, RunUpdate ''t1'' StateRetry]"
proof -
  let ?opts = "\<lparr>to_driver = ''asynq'', to_worker_id = ''w'', to_run_id = ''r1''\<rparr>"
  have st: "recording_task_store sample_run_store" by (simp add: recording_task_store_def sample_run_store_def)
  have run: "panicking_handler None (Some sample_queue_message)
      ([] @ [RunEnsure (qm_id sample_queue_message), RunStart (to_run_id ?opts), RunLog LogInfo]) =
    (Panicked ''boom'', Some sample_queue_message,
      [] @ [RunEnsure (qm_id sample_queue_message), RunStart (to_run_id ?opts), RunLog LogInfo])"
    by (simp add: panicking_handler_def)
  have "to_run_id ?opts \<noteq> []" by simp
  note runs_are_bracketed [where handler = panicking_handler and render = "\<lambda>_. []" and ?t0.0 = 0 and ?t1.0 = 5, OF st this run]
  then show ?thesis
    by (auto simp: sample_queue_message_def outcome_error_def error_class_defs)
qed

end
