(* ===== verification/Realtime_Types.thy ===== *)
theory Realtime_Types
  imports Trace_Context
begin

text \<open>
  The data of \<^verbatim>\<open>core/realtime\<close>: errors (\<open>errors.go\<close>), identities (\<open>identity.go\<close>), events
  (\<open>event.go\<close>) and clients (\<open>client.go\<close>).

  Clients, identities and channels are shared through pointers and written in place, so they live
  in an explicit heap: a pointer is a number, nil is \<open>None\<close>, and a new object is placed at
  \<open>hp_next\<close>.  The free-form metadata maps of clients and identities are never read by the modelled
  code and are left out.
\<close>

section \<open>Errors (errors.go)\<close>

datatype rl_error =
    RErrNilClient | RErrEmptyClientID | RErrEmptyEvent | RErrNilPublisher | RErrNilGateway
  | RErrNilSubscriber | RErrNilRouter | RErrNilActionCodec | RErrNilActionHandler | RErrEmptyAction
  | RErrEmptyIdentity | RErrClientNotFound | RErrClientChannelUnavailable | RErrClientBufferFull
  | RErrActionAlreadyRegistered | RErrActionNotFound | RErrInvalidAction | RErrDefaultNotReady
  | RErrUnsupportedTopic | RErrClosed | RErrForeign string

section \<open>Events (event.go)\<close>

definition TargetUser :: string where "TargetUser = ''user''"
definition TargetRoom :: string where "TargetRoom = ''room''"
definition TargetBroadcast :: string where "TargetBroadcast = ''broadcast''"

record target =
  tg_type :: string
  tg_id :: string
  tg_user :: string
  tg_tenant :: int
  tg_room :: string
  tg_client :: string

text \<open>The \<open>any\<close> in an event: nil, raw JSON, or a value of the caller.\<close>

datatype 'd event_data = DataNil | DataRaw string | DataValue 'd

record 'd rl_event =
  rv_action :: string
  rv_request :: string
  rv_trace :: string
  rv_timestamp :: int
  rv_headers :: headers
  rv_data :: "'d event_data"
  rv_event :: string
  rv_module :: string
  rv_target :: "target option"
  rv_tenant :: int
  rv_room :: string
  rv_payload :: string
  rv_time :: int

definition empty_event :: "'d rl_event" where
  "empty_event = \<lparr>rv_action = [], rv_request = [], rv_trace = [], rv_timestamp = 0, rv_headers = [],
     rv_data = DataNil, rv_event = [], rv_module = [], rv_target = None, rv_tenant = 0, rv_room = [],
     rv_payload = [], rv_time = 0\<rparr>"

definition normalize_event :: "'d rl_event \<Rightarrow> 'd rl_event" where
  "normalize_event e0 =
     (let e1 = (if rv_action e0 = [] then e0\<lparr>rv_action := rv_event e0\<rparr> else e0);
          e2 = (if rv_event e1 = [] then e1\<lparr>rv_event := rv_action e1\<rparr> else e1);
          e3 = (if rv_timestamp e2 = 0 then e2\<lparr>rv_timestamp := rv_time e2\<rparr> else e2);
          e4 = (if rv_time e3 = 0 then e3\<lparr>rv_time := rv_timestamp e3\<rparr> else e3)
      in if rv_data e4 = DataNil \<and> rv_payload e4 \<noteq> [] then e4\<lparr>rv_data := DataRaw (rv_payload e4)\<rparr> else e4)"

text \<open>\<open>NewEvent\<close> of \<open>publisher.go\<close>; \<open>now\<close> in seconds.\<close>

definition new_event :: "int \<Rightarrow> string \<Rightarrow> 'd event_data \<Rightarrow> 'd rl_event" where
  "new_event now action data =
     normalize_event (empty_event\<lparr>rv_action := action, rv_event := action, rv_data := data,
       rv_timestamp := now, rv_time := now\<rparr>)"

text \<open>The fields are filled in independently of each other.\<close>

lemma normalize_event_fields:
  "normalize_event e = e\<lparr>
     rv_action := (if rv_action e = [] then rv_event e else rv_action e),
     rv_event := (if rv_event e = [] then rv_action e else rv_event e),
     rv_timestamp := (if rv_timestamp e = 0 then rv_time e else rv_timestamp e),
     rv_time := (if rv_time e = 0 then rv_timestamp e else rv_time e),
     rv_data := (if rv_data e = DataNil \<and> rv_payload e \<noteq> [] then DataRaw (rv_payload e) else rv_data e)\<rparr>"
  by (cases e) (simp add: normalize_event_def Let_def)

lemma normalize_event_simps [simp]:
  "rv_target (normalize_event e) = rv_target e" "rv_room (normalize_event e) = rv_room e"
  "rv_headers (normalize_event e) = rv_headers e" "rv_trace (normalize_event e) = rv_trace e"
  "rv_payload (normalize_event e) = rv_payload e"
  "rv_action (normalize_event e) = (if rv_action e = [] then rv_event e else rv_action e)"
  "rv_timestamp (normalize_event e) = (if rv_timestamp e = 0 then rv_time e else rv_timestamp e)"
  by (simp_all add: normalize_event_fields)

lemma normalize_event_idem [simp]: "normalize_event (normalize_event e) = normalize_event e"
  by (rule rl_event.equality) (simp_all add: normalize_event_fields)

section \<open>Identities (identity.go)\<close>

definition IdentityKindUser :: string where "IdentityKindUser = ''user''"

record identity =
  ri_id :: string
  ri_type :: string
  ri_device :: string
  ri_platform :: string
  ri_tenant :: int
  ri_kind :: string
  ri_subject :: string

definition new_user_identity :: "string \<Rightarrow> int \<Rightarrow> identity" where
  "new_user_identity user tenant =
     (let i = \<lparr>ri_id = trim_space user, ri_type = [], ri_device = [], ri_platform = [], ri_tenant = tenant,
               ri_kind = [], ri_subject = []\<rparr>
      in if ri_id i \<noteq> [] then i\<lparr>ri_kind := IdentityKindUser, ri_type := IdentityKindUser\<rparr> else i)"

definition normalize_identity :: "identity \<Rightarrow> identity" where
  "normalize_identity i0 =
     (let i1 = i0\<lparr>ri_id := trim_space (ri_id i0), ri_type := trim_space (ri_type i0),
                  ri_device := trim_space (ri_device i0), ri_platform := trim_space (ri_platform i0),
                  ri_subject := trim_space (ri_subject i0)\<rparr>;
          i2 = (if ri_kind i1 = [] \<and> ri_id i1 \<noteq> [] then i1\<lparr>ri_kind := IdentityKindUser\<rparr> else i1);
          i3 = (if ri_type i2 = [] \<and> ri_kind i2 \<noteq> [] then i2\<lparr>ri_type := ri_kind i2\<rparr> else i2);
          i4 = (if ri_id i3 = [] \<and> ri_subject i3 \<noteq> [] then i3\<lparr>ri_id := ri_subject i3\<rparr> else i3)
      in if ri_subject i4 = [] then i4\<lparr>ri_subject := ri_id i4\<rparr> else i4)"

definition identity_authenticated :: "identity \<Rightarrow> bool" where
  "identity_authenticated i =
     (let n = normalize_identity i in ri_id n \<noteq> [] \<or> ri_subject n \<noteq> [])"

text \<open>The user an identity stands for, whether or not it has been normalised.\<close>

definition identity_key :: "identity \<Rightarrow> string" where
  "identity_key i = (if trim_space (ri_id i) \<noteq> [] then trim_space (ri_id i) else trim_space (ri_subject i))"

lemma normalize_identity_id [simp]: "ri_id (normalize_identity i) = identity_key i"
  by (simp add: normalize_identity_def Let_def identity_key_def)

lemma identity_key_trimmed [simp]: "trim_space (identity_key i) = identity_key i"
  by (simp add: identity_key_def)

lemma identity_key_normalize [simp]: "identity_key (normalize_identity i) = identity_key i"
proof (cases "identity_key i = []")
  case True
  then have "trim_space (ri_id i) = []" "trim_space (ri_subject i) = []"
    by (auto simp: identity_key_def split: if_splits)
  with True show ?thesis by (simp add: identity_key_def normalize_identity_def Let_def)
next
  case False
  then show ?thesis by (simp add: identity_key_def [of "normalize_identity i"])
qed

lemma authenticated_iff [simp]: "identity_authenticated i \<longleftrightarrow> identity_key i \<noteq> []"
proof -
  have "ri_subject (normalize_identity i) \<noteq> [] \<longrightarrow> identity_key i \<noteq> []"
    by (auto simp: normalize_identity_def Let_def identity_key_def)
  then show ?thesis by (auto simp: identity_authenticated_def Let_def)
qed

lemma identity_key_new_user [simp]: "identity_key (new_user_identity u t) = trim_space u"
  by (simp add: new_user_identity_def identity_key_def Let_def)

lemma ri_id_new_user [simp]: "ri_id (new_user_identity u t) = trim_space u"
  by (simp add: new_user_identity_def Let_def)

section \<open>Clients and the heap (client.go)\<close>

text \<open>
  A channel: what was sent over it so far, how much of it was received, and how many receivers
  wait for the next event.  A send that does not block is possible when a receiver waits or the
  buffer has room.
\<close>

record 'd rl_chan =
  ch_cap :: nat
  ch_sent :: "'d rl_event list"
  ch_taken :: nat
  ch_waiting :: nat

definition make_chan :: "nat \<Rightarrow> 'd rl_chan" where
  "make_chan n = \<lparr>ch_cap = n, ch_sent = [], ch_taken = 0, ch_waiting = 0\<rparr>"

definition chan_ready :: "'d rl_chan \<Rightarrow> bool" where
  "chan_ready c = (ch_waiting c > 0 \<or> length (ch_sent c) < ch_taken c + ch_cap c)"

definition chan_send :: "'d rl_event \<Rightarrow> 'd rl_chan \<Rightarrow> 'd rl_chan" where
  "chan_send e c =
     (if ch_waiting c > 0
      then c\<lparr>ch_sent := ch_sent c @ [e], ch_taken := Suc (ch_taken c), ch_waiting := ch_waiting c - 1\<rparr>
      else c\<lparr>ch_sent := ch_sent c @ [e]\<rparr>)"

record rl_client =
  cl_id :: string
  cl_identity :: "nat option"
  cl_user :: string
  cl_tenant :: int
  cl_events :: "string \<Rightarrow> bool"
  cl_ch :: "nat option"
  cl_created :: "int option"
  cl_active :: "int option"

record 'd rl_heap =
  hp_clients :: "nat \<Rightarrow> rl_client"
  hp_idents :: "nat \<Rightarrow> identity"
  hp_chans :: "nat \<Rightarrow> 'd rl_chan"
  hp_next :: nat

definition write_client :: "nat \<Rightarrow> (rl_client \<Rightarrow> rl_client) \<Rightarrow> 'd rl_heap \<Rightarrow> 'd rl_heap" where
  "write_client a f h = h\<lparr>hp_clients := (hp_clients h)(a := f (hp_clients h a))\<rparr>"

definition alloc_identity :: "identity \<Rightarrow> 'd rl_heap \<Rightarrow> nat \<times> 'd rl_heap" where
  "alloc_identity i h = (hp_next h, h\<lparr>hp_idents := (hp_idents h)(hp_next h := i), hp_next := Suc (hp_next h)\<rparr>)"

definition alloc_client :: "rl_client \<Rightarrow> 'd rl_heap \<Rightarrow> nat \<times> 'd rl_heap" where
  "alloc_client c h = (hp_next h, h\<lparr>hp_clients := (hp_clients h)(hp_next h := c), hp_next := Suc (hp_next h)\<rparr>)"

definition alloc_chan :: "nat \<Rightarrow> 'd rl_heap \<Rightarrow> nat \<times> 'd rl_heap" where
  "alloc_chan n h = (hp_next h, h\<lparr>hp_chans := (hp_chans h)(hp_next h := make_chan n), hp_next := Suc (hp_next h)\<rparr>)"

text \<open>\<open>(*Identity).Normalize\<close> writes through the pointer.\<close>

definition normalize_at :: "nat \<Rightarrow> 'd rl_heap \<Rightarrow> 'd rl_heap" where
  "normalize_at p h = h\<lparr>hp_idents := (hp_idents h)(p := normalize_identity (hp_idents h p))\<rparr>"

definition new_client :: "string \<Rightarrow> nat option \<Rightarrow> rl_client" where
  "new_client cid ident = \<lparr>cl_id = cid, cl_identity = ident, cl_user = [], cl_tenant = 0, cl_events = (\<lambda>_. False),
     cl_ch = None, cl_created = None, cl_active = None\<rparr>"

definition subscribed :: "rl_client option \<Rightarrow> string \<Rightarrow> bool" where
  "subscribed c ev = (case c of None \<Rightarrow> False | Some c \<Rightarrow> ev \<noteq> [] \<and> cl_events c ev)"

definition current_identity :: "nat option \<Rightarrow> 'd rl_heap \<Rightarrow> nat option \<times> 'd rl_heap" where
  "current_identity client h =
     (case client of None \<Rightarrow> (None, h)
      | Some a \<Rightarrow>
        let c = hp_clients h a;
            fresh = (\<lambda>h. let (p, h') = alloc_identity (new_user_identity (cl_user c) (cl_tenant c)) h in (Some p, h'))
        in (case cl_identity c of
              None \<Rightarrow> fresh h
            | Some p \<Rightarrow>
                let h1 = normalize_at p h in
                if identity_authenticated (hp_idents h p) then (Some p, normalize_at p h1) else fresh h1))"

definition client_authenticated :: "nat option \<Rightarrow> 'd rl_heap \<Rightarrow> bool" where
  "client_authenticated client h =
     (case current_identity client h of (None, _) \<Rightarrow> False | (Some p, h') \<Rightarrow> identity_authenticated (hp_idents h' p))"

subsection \<open>What the heap operations keep\<close>

text \<open>The key of the identity of a client (\<open>[]\<close> for nil), as the store computes it.\<close>

definition ident_key :: "'d rl_heap \<Rightarrow> nat option \<Rightarrow> string" where
  "ident_key h p = (case p of None \<Rightarrow> [] | Some p \<Rightarrow> identity_key (hp_idents h p))"

lemma ident_key_simps [simp]:
  "ident_key h None = []" "ident_key h (Some p) = identity_key (hp_idents h p)"
  by (simp_all add: ident_key_def)

lemma write_client_sel [simp]:
  "hp_clients (write_client a f h) = (hp_clients h)(a := f (hp_clients h a))"
  "hp_idents (write_client a f h) = hp_idents h" "hp_chans (write_client a f h) = hp_chans h"
  "hp_next (write_client a f h) = hp_next h"
  by (simp_all add: write_client_def)

lemma normalize_at_sel [simp]:
  "hp_clients (normalize_at p h) = hp_clients h" "hp_chans (normalize_at p h) = hp_chans h"
  "hp_next (normalize_at p h) = hp_next h" "ident_key (normalize_at p h) q = ident_key h q"
  "identity_key (hp_idents (normalize_at p h) r) = identity_key (hp_idents h r)"
  by (simp_all add: normalize_at_def ident_key_def split: option.split)

lemma current_identity_effect:
  assumes "current_identity (Some a) h = (r, h')"
  obtains p where "r = Some p" "hp_clients h' = hp_clients h" "hp_chans h' = hp_chans h" "hp_next h \<le> hp_next h'"
    "p < hp_next h' \<or> cl_identity (hp_clients h a) = Some p"
    "ri_id (hp_idents h' p) = identity_key (hp_idents h' p)"
    "identity_key (hp_idents h' p) =
       (if ident_key h (cl_identity (hp_clients h a)) \<noteq> [] then ident_key h (cl_identity (hp_clients h a))
        else trim_space (cl_user (hp_clients h a)))"
    "\<And>q. q < hp_next h \<Longrightarrow> identity_key (hp_idents h' q) = identity_key (hp_idents h q)"
proof (cases "cl_identity (hp_clients h a)")
  case None
  then show ?thesis using assms
    by (intro that [of "hp_next h"]) (auto simp: current_identity_def Let_def alloc_identity_def)
next
  case (Some p)
  show ?thesis
  proof (cases "identity_key (hp_idents h p) = []")
    case True
    with Some assms have "r = Some (hp_next h)" "h' = snd (alloc_identity
        (new_user_identity (cl_user (hp_clients h a)) (cl_tenant (hp_clients h a))) (normalize_at p h))"
      by (auto simp: current_identity_def Let_def alloc_identity_def)
    with Some True show ?thesis by (intro that [of "hp_next h"]) (auto simp: alloc_identity_def)
  next
    case False
    with Some assms have "r = Some p" "h' = normalize_at p (normalize_at p h)"
      by (auto simp: current_identity_def Let_def)
    moreover have "ri_id (hp_idents h' p) = identity_key (hp_idents h' p)"
      using calculation by (simp add: normalize_at_def)
    ultimately show ?thesis using Some False by (intro that [of p]) auto
  qed
qed

end
