(* ===== verification/Realtime_Store.thy ===== *)
theory Realtime_Store
  imports Realtime_Types
begin

text \<open>
  \<^verbatim>\<open>pkg/realtime/memory/registry.go\<close>: the store of connections, presence and rooms.  The state of an
  operation is the heap and the store; pointers to clients in the store are shared with the
  caller.  Each method holds the mutex, so it is one step; \<open>now\<close> is the clock it reads.

  Go does not fix the order in which a map is walked: \<open>it\<close> lists the keys of a set in some order.
  A nested map that is missing and one that is empty read alike (\<open>members\<close>).
\<close>

section \<open>Indexes: maps to sets\<close>

definition members :: "('k \<rightharpoonup> 'v set) \<Rightarrow> 'k \<Rightarrow> 'v set" where
  "members m k = (case m k of None \<Rightarrow> {} | Some A \<Rightarrow> A)"

definition set_add :: "'k \<Rightarrow> 'v \<Rightarrow> ('k \<rightharpoonup> 'v set) \<Rightarrow> ('k \<rightharpoonup> 'v set)" where
  "set_add k v m = m(k \<mapsto> insert v (members m k))"

text \<open>\<open>delete(m[k], v)\<close>, and the whole entry when nothing is left in it.\<close>

definition set_del :: "'k \<Rightarrow> 'v \<Rightarrow> ('k \<rightharpoonup> 'v set) \<Rightarrow> ('k \<rightharpoonup> 'v set)" where
  "set_del k v m = (let A = members m k - {v} in if A = {} then m(k := None) else m(k \<mapsto> A))"

definition no_empty :: "('k \<rightharpoonup> 'v set) \<Rightarrow> bool" where
  "no_empty m \<longleftrightarrow> (\<forall>k. m k \<noteq> Some {})"

lemma members_simps [simp]:
  "members Map.empty k = {}"
  "members (m(k := None)) k' = (if k' = k then {} else members m k')"
  "members (set_add k v m) k' = (if k' = k then insert v (members m k) else members m k')"
  "members (set_del k v m) k' = (if k' = k then members m k - {v} else members m k')"
  by (auto simp: members_def set_add_def set_del_def Let_def)

lemma no_empty_simps [simp]:
  "no_empty Map.empty" "no_empty m \<Longrightarrow> no_empty (m(k := None))"
  "no_empty m \<Longrightarrow> no_empty (set_add k v m)" "no_empty m \<Longrightarrow> no_empty (set_del k v m)"
  by (auto simp: no_empty_def set_add_def set_del_def Let_def)

lemma members_foldl_del:
  "members (foldl (\<lambda>m k. set_del k v m) m ks) k' = (if k' \<in> set ks then members m k' - {v} else members m k')"
  by (induction ks arbitrary: m) auto

lemma no_empty_foldl_del: "no_empty m \<Longrightarrow> no_empty (foldl (\<lambda>m k. set_del k v m) m ks)"
  by (induction ks arbitrary: m) auto

section \<open>The store\<close>

record rl_store =
  st_clients :: "string \<rightharpoonup> nat"
  st_users :: "string \<rightharpoonup> string set"
  st_rooms :: "string \<rightharpoonup> string set"
  st_client_rooms :: "string \<rightharpoonup> string set"
  st_beats :: "string \<rightharpoonup> int"

type_synonym 'd rl_state = "'d rl_heap \<times> rl_store"
type_synonym key_order = "string set \<Rightarrow> string list"

definition new_store :: rl_store where
  "new_store = \<lparr>st_clients = Map.empty, st_users = Map.empty, st_rooms = Map.empty,
     st_client_rooms = Map.empty, st_beats = Map.empty\<rparr>"

definition client_user_id :: "nat option \<Rightarrow> 'd rl_heap \<Rightarrow> string \<times> 'd rl_heap" where
  "client_user_id client h =
     (case client of None \<Rightarrow> ([], h)
      | Some a \<Rightarrow>
        (case cl_identity (hp_clients h a) of
           None \<Rightarrow> (cl_user (hp_clients h a), h)
         | Some p \<Rightarrow>
             let h1 = normalize_at p h; u = ri_id (hp_idents h1 p)
             in (if u \<noteq> [] then u else cl_user (hp_clients h a), h1)))"

definition add_user_index :: "nat \<Rightarrow> 'd rl_state \<Rightarrow> 'd rl_state" where
  "add_user_index a st =
     (case st of (h, s) \<Rightarrow>
      let (u, h1) = client_user_id (Some a) h in
      if u = [] then (h1, s)
      else (h1, s\<lparr>st_users := set_add u (cl_id (hp_clients h a)) (st_users s)\<rparr>))"

definition leave_all_rooms :: "key_order \<Rightarrow> string \<Rightarrow> rl_store \<Rightarrow> rl_store" where
  "leave_all_rooms it cid s =
     s\<lparr>st_rooms := foldl (\<lambda>m r. set_del r cid m) (st_rooms s) (it (members (st_client_rooms s) cid)),
       st_client_rooms := (st_client_rooms s)(cid := None)\<rparr>"

definition remove_indexes :: "key_order \<Rightarrow> nat \<Rightarrow> 'd rl_state \<Rightarrow> 'd rl_state" where
  "remove_indexes it a st =
     (case st of (h, s) \<Rightarrow>
      let (u, h1) = client_user_id (Some a) h; cid = cl_id (hp_clients h a);
          s1 = (if u \<noteq> [] then s\<lparr>st_users := set_del u cid (st_users s)\<rparr> else s)
      in (h1, leave_all_rooms it cid s1))"

text \<open>What \<open>Add\<close> does to the client before it takes the lock.\<close>

definition admit_client :: "int \<Rightarrow> nat \<Rightarrow> 'd rl_heap \<Rightarrow> 'd rl_heap" where
  "admit_client now a h =
     (let h1 = (if cl_ch (hp_clients h a) = None
                then (let (k, h') = alloc_chan 64 h in write_client a (\<lambda>c. c\<lparr>cl_ch := Some k\<rparr>) h') else h);
          h2 = (if cl_created (hp_clients h1 a) = None then write_client a (\<lambda>c. c\<lparr>cl_created := Some now\<rparr>) h1 else h1);
          h3 = write_client a (\<lambda>c. c\<lparr>cl_active := Some now\<rparr>) h2;
          (ident, h4) = current_identity (Some a) h3;
          h5 = write_client a (\<lambda>c. c\<lparr>cl_identity := ident\<rparr>) h4
      in (case ident of None \<Rightarrow> h5
          | Some p \<Rightarrow> write_client a (\<lambda>c. c\<lparr>cl_user := ri_id (hp_idents h5 p), cl_tenant := ri_tenant (hp_idents h5 p)\<rparr>) h5))"

definition store_add :: "key_order \<Rightarrow> int \<Rightarrow> nat option \<Rightarrow> 'd rl_state \<Rightarrow> rl_error option \<times> 'd rl_state" where
  "store_add it now client st =
     (case client of None \<Rightarrow> (Some RErrNilClient, st)
      | Some a \<Rightarrow>
        (case st of (h, s) \<Rightarrow>
         if cl_id (hp_clients h a) = [] then (Some RErrEmptyClientID, st)
         else let h1 = admit_client now a h; cid = cl_id (hp_clients h1 a);
                  (h2, s2) = (case st_clients s cid of None \<Rightarrow> (h1, s) | Some cur \<Rightarrow> remove_indexes it cur (h1, s));
                  s3 = s2\<lparr>st_clients := (st_clients s2)(cid \<mapsto> a)\<rparr>;
                  (h4, s4) = add_user_index a (h2, s3)
              in (None, (h4, s4\<lparr>st_beats := (st_beats s4)(cid \<mapsto> now)\<rparr>))))"

definition store_remove :: "key_order \<Rightarrow> string \<Rightarrow> 'd rl_state \<Rightarrow> rl_error option \<times> 'd rl_state" where
  "store_remove it cid st =
     (case st of (h, s) \<Rightarrow>
      (case st_clients s cid of None \<Rightarrow> (None, st)
       | Some a \<Rightarrow>
           let (h1, s1) = remove_indexes it a (h, s)
           in (None, (h1, s1\<lparr>st_clients := (st_clients s1)(cid := None), st_beats := (st_beats s1)(cid := None)\<rparr>))))"

definition store_get :: "rl_store \<Rightarrow> string \<Rightarrow> nat option" where
  "store_get s cid = st_clients s cid"

definition get_user_clients :: "key_order \<Rightarrow> rl_store \<Rightarrow> string \<Rightarrow> nat list" where
  "get_user_clients it s u = List.map_filter (st_clients s) (it (members (st_users s) u))"

definition get_room_clients :: "key_order \<Rightarrow> rl_store \<Rightarrow> string \<Rightarrow> nat list" where
  "get_room_clients it s room =
     (if room = [] then List.map_filter (st_clients s) (it (dom (st_clients s)))
      else List.map_filter (st_clients s) (it (members (st_rooms s) room)))"

section \<open>Presence and rooms\<close>

type_synonym rl_ctx = "rl_error go_ctx"

definition store_online ::
  "key_order \<Rightarrow> int \<Rightarrow> rl_ctx \<Rightarrow> string \<Rightarrow> nat option \<Rightarrow> 'd rl_state \<Rightarrow> rl_error option \<times> 'd rl_state" where
  "store_online it now ctx cid ident st =
     (case ctx_err ctx of Some e \<Rightarrow> (Some e, st)
      | None \<Rightarrow>
        if cid = [] then (Some RErrEmptyClientID, st)
        else (case st of (h, s) \<Rightarrow>
          let (a, h1, s1) =
                (case st_clients s cid of
                   None \<Rightarrow> (let (a, h') = alloc_client (new_client cid ident) h
                           in (a, h', s\<lparr>st_clients := (st_clients s)(cid \<mapsto> a)\<rparr>))
                 | Some a \<Rightarrow> (let (h', s') = remove_indexes it a (h, s)
                             in (a, write_client a (\<lambda>c. c\<lparr>cl_identity := ident\<rparr>) h', s')));
              h2 = (case ident of None \<Rightarrow> h1
                    | Some p \<Rightarrow>
                        let h' = normalize_at p h1; i = hp_idents h' p
                        in write_client a (\<lambda>c. c\<lparr>cl_identity := Some p, cl_user := ri_id i, cl_tenant := ri_tenant i\<rparr>) h');
              (h3, s3) = add_user_index a (h2, s1)
          in (None, (h3, s3\<lparr>st_beats := (st_beats s3)(cid \<mapsto> now)\<rparr>))))"

definition store_offline :: "key_order \<Rightarrow> rl_ctx \<Rightarrow> string \<Rightarrow> 'd rl_state \<Rightarrow> rl_error option \<times> 'd rl_state" where
  "store_offline it ctx cid st =
     (case ctx_err ctx of Some e \<Rightarrow> (Some e, st) | None \<Rightarrow> store_remove it cid st)"

definition store_heartbeat :: "int \<Rightarrow> rl_ctx \<Rightarrow> string \<Rightarrow> 'd rl_state \<Rightarrow> rl_error option \<times> 'd rl_state" where
  "store_heartbeat now ctx cid st =
     (case ctx_err ctx of Some e \<Rightarrow> (Some e, st)
      | None \<Rightarrow>
        if cid = [] then (Some RErrEmptyClientID, st)
        else (case st of (h, s) \<Rightarrow>
          (None, ((case st_clients s cid of None \<Rightarrow> h | Some a \<Rightarrow> write_client a (\<lambda>c. c\<lparr>cl_active := Some now\<rparr>) h),
                  s\<lparr>st_beats := (st_beats s)(cid \<mapsto> now)\<rparr>))))"

definition store_is_online :: "rl_ctx \<Rightarrow> string \<Rightarrow> rl_store \<Rightarrow> rl_error + bool" where
  "store_is_online ctx cid s =
     (case ctx_err ctx of Some e \<Rightarrow> Inl e | None \<Rightarrow> Inr (\<not> Option.is_none (st_clients s cid)))"

definition store_join :: "rl_ctx \<Rightarrow> string \<Rightarrow> string \<Rightarrow> rl_store \<Rightarrow> rl_error option \<times> rl_store" where
  "store_join ctx room cid s =
     (case ctx_err ctx of Some e \<Rightarrow> (Some e, s)
      | None \<Rightarrow>
        if room = [] then (Some RErrEmptyEvent, s)
        else if cid = [] then (Some RErrEmptyClientID, s)
        else (None, s\<lparr>st_rooms := set_add room cid (st_rooms s),
                      st_client_rooms := set_add cid room (st_client_rooms s)\<rparr>))"

definition store_leave :: "key_order \<Rightarrow> rl_ctx \<Rightarrow> string \<Rightarrow> string \<Rightarrow> rl_store \<Rightarrow> rl_error option \<times> rl_store" where
  "store_leave it ctx room cid s =
     (case ctx_err ctx of Some e \<Rightarrow> (Some e, s)
      | None \<Rightarrow>
        if room \<noteq> [] then
          (None, s\<lparr>st_rooms := set_del room cid (st_rooms s), st_client_rooms := set_del cid room (st_client_rooms s)\<rparr>)
        else (None, leave_all_rooms it cid s))"

definition room_members :: "key_order \<Rightarrow> rl_ctx \<Rightarrow> string \<Rightarrow> rl_store \<Rightarrow> rl_error + string list" where
  "room_members it ctx room s =
     (case ctx_err ctx of Some e \<Rightarrow> Inl e | None \<Rightarrow> Inr (it (members (st_rooms s) room)))"

definition client_room_names :: "key_order \<Rightarrow> rl_ctx \<Rightarrow> string \<Rightarrow> rl_store \<Rightarrow> rl_error + string list" where
  "client_room_names it ctx cid s =
     (case ctx_err ctx of Some e \<Rightarrow> Inl e | None \<Rightarrow> Inr (it (members (st_client_rooms s) cid)))"

end
