(* ===== verification/Realtime_Presence.thy ===== *)
theory Realtime_Presence
  imports Realtime_Store "HOL-Library.Char_ord" "HOL-Library.List_Lexorder"
begin

text \<open>
  What the store of connections promises: an abstract view (who is online as which user, who is in
  which room), one commuting lemma per operation, and the invariant that the four maps of the store
  agree in every reachable state, callers included that write to objects they have not handed over.
\<close>

named_theorems store_simps \<open>effects of the internal steps of the store\<close>

section \<open>Invariant\<close>

text \<open>The user a client counts for, and what a client in the store always satisfies.\<close>

definition user_key :: "'d rl_heap \<Rightarrow> nat \<Rightarrow> string" where
  "user_key h a = (let k = ident_key h (cl_identity (hp_clients h a)) in if k \<noteq> [] then k else cl_user (hp_clients h a))"

definition settled :: "'d rl_heap \<Rightarrow> nat \<Rightarrow> bool" where
  "settled h a \<longleftrightarrow> user_key h a = cl_user (hp_clients h a) \<and> trim_space (cl_user (hp_clients h a)) = cl_user (hp_clients h a)"

definition heap_ok :: "'d rl_heap \<Rightarrow> bool" where
  "heap_ok h \<longleftrightarrow> (\<forall>a p. cl_identity (hp_clients h a) = Some p \<longrightarrow> p < hp_next h)"

definition clients_ok :: "'d rl_heap \<Rightarrow> (string \<rightharpoonup> nat) \<Rightarrow> bool" where
  "clients_ok h m \<longleftrightarrow> (\<forall>c a. m c = Some a \<longrightarrow> c \<noteq> [] \<and> a < hp_next h \<and> cl_id (hp_clients h a) = c \<and> settled h a)"

definition owners :: "'d rl_state \<Rightarrow> string \<rightharpoonup> string" where
  "owners st c = map_option (\<lambda>a. cl_user (hp_clients (fst st) a)) (st_clients (snd st) c)"

text \<open>The indexes against the map from clients to their users.\<close>

definition index_ok :: "(string \<rightharpoonup> string) \<Rightarrow> rl_store \<Rightarrow> bool" where
  "index_ok own s \<longleftrightarrow>
     (\<forall>u. members (st_users s) u = {c. own c = Some u \<and> u \<noteq> []}) \<and>
     (\<forall>r c. c \<in> members (st_rooms s) r \<longleftrightarrow> r \<in> members (st_client_rooms s) c) \<and>
     no_empty (st_users s) \<and> no_empty (st_rooms s) \<and> no_empty (st_client_rooms s) \<and>
     (\<forall>r. finite (members (st_rooms s) r)) \<and> (\<forall>c. finite (members (st_client_rooms s) c))"

definition store_ok :: "'d rl_state \<Rightarrow> bool" where
  "store_ok st \<longleftrightarrow> heap_ok (fst st) \<and> clients_ok (fst st) (st_clients (snd st)) \<and> index_ok (owners st) (snd st) \<and>
     finite (dom (st_clients (snd st))) \<and> dom (st_clients (snd st)) \<subseteq> dom (st_beats (snd st))"

definition walks :: "key_order \<Rightarrow> bool" where
  "walks it \<longleftrightarrow> (\<forall>A. finite A \<longrightarrow> set (it A) = A \<and> distinct (it A))"

lemma walksD: "walks it \<Longrightarrow> finite A \<Longrightarrow> set (it A) = A" "walks it \<Longrightarrow> finite A \<Longrightarrow> distinct (it A)"
  by (auto simp: walks_def)

section \<open>The abstract view\<close>

record presence =
  ps_online :: "string \<rightharpoonup> string"
  ps_rooms :: "(string \<times> string) set"

definition presence_of :: "'d rl_state \<Rightarrow> presence" where
  "presence_of st = \<lparr>ps_online = owners st, ps_rooms = {(r, c). c \<in> members (st_rooms (snd st)) r}\<rparr>"

datatype presence_event =
    PsOnline string "string option"
  | PsOffline string
  | PsJoin string string
  | PsLeave string string
  | PsLeaveAll string
  | PsNothing

definition without_client :: "string \<Rightarrow> (string \<times> string) set \<Rightarrow> (string \<times> string) set" where
  "without_client c R = {x \<in> R. snd x \<noteq> c}"

text \<open>
  Going online under a known identifier starts afresh, without rooms; with no identity the user
  stays what it was.  Joining does not ask whether the client is online.
\<close>

fun ps_step :: "presence_event \<Rightarrow> presence \<Rightarrow> presence" where
  "ps_step (PsOnline c u) p =
     p\<lparr>ps_online := (ps_online p)(c \<mapsto> (case u of Some u \<Rightarrow> u | None \<Rightarrow> (case ps_online p c of Some u \<Rightarrow> u | None \<Rightarrow> []))),
       ps_rooms := (if ps_online p c = None then ps_rooms p else without_client c (ps_rooms p))\<rparr>"
| "ps_step (PsOffline c) p =
     (if ps_online p c = None then p
      else p\<lparr>ps_online := (ps_online p)(c := None), ps_rooms := without_client c (ps_rooms p)\<rparr>)"
| "ps_step (PsJoin r c) p = p\<lparr>ps_rooms := insert (r, c) (ps_rooms p)\<rparr>"
| "ps_step (PsLeave r c) p = p\<lparr>ps_rooms := ps_rooms p - {(r, c)}\<rparr>"
| "ps_step (PsLeaveAll c) p = p\<lparr>ps_rooms := without_client c (ps_rooms p)\<rparr>"
| "ps_step PsNothing p = p"

section \<open>Internal steps\<close>

text \<open>Two heaps that differ only in how far identities are normalised.\<close>

definition same_keys :: "'d rl_heap \<Rightarrow> 'd rl_heap \<Rightarrow> bool" where
  "same_keys h h' \<longleftrightarrow> hp_clients h' = hp_clients h \<and> hp_chans h' = hp_chans h \<and> hp_next h' = hp_next h \<and>
     (\<forall>q. identity_key (hp_idents h' q) = identity_key (hp_idents h q))"

lemma same_keys_refl [simp]: "same_keys h h"
  by (simp add: same_keys_def)

lemma same_keys_ident: "same_keys h h' \<Longrightarrow> ident_key h' p = ident_key h p"
  by (cases p) (simp_all add: same_keys_def)

lemma same_keysD:
  assumes "same_keys h h'"
  shows "hp_clients h' = hp_clients h" "hp_chans h' = hp_chans h" "hp_next h' = hp_next h"
    "user_key h' a = user_key h a" "settled h' a = settled h a" "heap_ok h' = heap_ok h"
    "clients_ok h' m = clients_ok h m" "owners (h', s) = owners (h, s)"
proof -
  show *: "hp_clients h' = hp_clients h" "hp_chans h' = hp_chans h" "hp_next h' = hp_next h"
    using assms by (simp_all add: same_keys_def)
  show k: "user_key h' a = user_key h a" for a
    by (simp add: user_key_def Let_def * same_keys_ident [OF assms])
  show s: "settled h' a = settled h a" for a by (simp add: settled_def * k)
  show "heap_ok h' = heap_ok h" by (simp add: heap_ok_def *)
  show "clients_ok h' m = clients_ok h m" by (simp add: clients_ok_def * s)
  show "owners (h', s) = owners (h, s)" by (rule ext) (simp add: owners_def *)
qed

lemma client_user_id_effect:
  assumes "client_user_id (Some a) h = (u, h')"
  shows "u = user_key h a" "same_keys h h'"
proof -
  have "u = user_key h a \<and> same_keys h h'"
  proof (cases "cl_identity (hp_clients h a)")
    case None
    then show ?thesis using assms by (auto simp: client_user_id_def user_key_def)
  next
    case (Some p)
    then have h': "h' = normalize_at p h" using assms by (simp add: client_user_id_def Let_def)
    moreover have "ri_id (hp_idents (normalize_at p h) p) = identity_key (hp_idents h p)"
      by (simp add: normalize_at_def)
    ultimately show ?thesis using assms Some
      by (auto simp: client_user_id_def Let_def user_key_def same_keys_def split: if_splits)
  qed
  then show "u = user_key h a" "same_keys h h'" by simp_all
qed

lemma leave_all_rooms_effect [store_simps]:
  "st_clients (leave_all_rooms it c s) = st_clients s" "st_users (leave_all_rooms it c s) = st_users s"
  "st_beats (leave_all_rooms it c s) = st_beats s"
  by (simp_all add: leave_all_rooms_def)

lemma leave_all_rooms_members:
  assumes "walks it" "index_ok own s"
  shows "members (st_rooms (leave_all_rooms it c s)) r = members (st_rooms s) r - {c}"
    "members (st_client_rooms (leave_all_rooms it c s)) c' = (if c' = c then {} else members (st_client_rooms s) c')"
proof -
  have sym: "c \<in> members (st_rooms s) r \<longleftrightarrow> r \<in> members (st_client_rooms s) c"
    and fin: "finite (members (st_client_rooms s) c)"
    using assms(2) by (simp_all add: index_ok_def)
  show "members (st_rooms (leave_all_rooms it c s)) r = members (st_rooms s) r - {c}"
    using sym walksD(1) [OF assms(1) fin] by (auto simp: leave_all_rooms_def members_foldl_del)
  show "members (st_client_rooms (leave_all_rooms it c s)) c' = (if c' = c then {} else members (st_client_rooms s) c')"
    by (simp add: leave_all_rooms_def)
qed

lemma leave_all_rooms_index:
  assumes "walks it" "index_ok own s"
  shows "index_ok own (leave_all_rooms it c s)"
proof -
  have "no_empty (st_rooms (leave_all_rooms it c s))" "no_empty (st_client_rooms (leave_all_rooms it c s))"
    using assms(2) by (simp_all add: index_ok_def leave_all_rooms_def no_empty_foldl_del)
  with assms(2) show ?thesis
    by (auto simp: index_ok_def leave_all_rooms_members [OF assms] leave_all_rooms_effect)
qed

lemma index_drop_user:
  assumes "index_ok own s" "own c = Some u"
  shows "index_ok (own(c := None)) (if u \<noteq> [] then s\<lparr>st_users := set_del u c (st_users s)\<rparr> else s)"
  using assms unfolding index_ok_def by auto

lemma index_add_user:
  assumes "index_ok own s" "own c = None"
  shows "index_ok (own(c \<mapsto> u)) (if u = [] then s else s\<lparr>st_users := set_add u c (st_users s)\<rparr>)"
  using assms unfolding index_ok_def by auto

lemma remove_indexes_ok:
  assumes "walks it" "index_ok own s" "own c = Some (user_key h a)" "cl_id (hp_clients h a) = c"
    and "remove_indexes it a (h, s) = (h1, s1)"
  shows "same_keys h h1" "st_clients s1 = st_clients s" "st_beats s1 = st_beats s"
    "index_ok (own(c := None)) s1" "members (st_rooms s1) r = members (st_rooms s) r - {c}"
proof -
  obtain u h' where u: "client_user_id (Some a) h = (u, h')" by fastforce
  note key = client_user_id_effect [OF u]
  define t where "t = (if u \<noteq> [] then s\<lparr>st_users := set_del u c (st_users s)\<rparr> else s)"
  have out: "h1 = h'" "s1 = leave_all_rooms it c t"
    using assms(4,5) u by (auto simp: remove_indexes_def Let_def t_def)
  have t: "index_ok (own(c := None)) t"
    unfolding t_def by (rule index_drop_user [OF assms(2)]) (simp add: assms(3) key(1))
  show "same_keys h h1" using key(2) out by simp
  show "st_clients s1 = st_clients s" "st_beats s1 = st_beats s"
    by (simp_all add: out leave_all_rooms_effect t_def)
  show "index_ok (own(c := None)) s1" unfolding out by (rule leave_all_rooms_index [OF assms(1) t])
  show "members (st_rooms s1) r = members (st_rooms s) r - {c}"
    unfolding out leave_all_rooms_members(1) [OF assms(1) t] by (simp add: t_def)
qed

lemma add_user_index_ok:
  assumes "index_ok own s" "own c = None" "cl_id (hp_clients h a) = c" "add_user_index a (h, s) = (h1, s1)"
  shows "same_keys h h1" "st_clients s1 = st_clients s" "st_beats s1 = st_beats s"
    "index_ok (own(c \<mapsto> user_key h a)) s1" "st_rooms s1 = st_rooms s"
proof -
  obtain u h' where u: "client_user_id (Some a) h = (u, h')" by fastforce
  note key = client_user_id_effect [OF u]
  have out: "h1 = h'" "s1 = (if u = [] then s else s\<lparr>st_users := set_add u c (st_users s)\<rparr>)"
    using assms(3,4) u by (auto simp: add_user_index_def split: if_splits)
  show "same_keys h h1" using key(2) out by simp
  show "st_clients s1 = st_clients s" "st_beats s1 = st_beats s" "st_rooms s1 = st_rooms s"
    by (simp_all add: out)
  show "index_ok (own(c \<mapsto> user_key h a)) s1"
    using index_add_user [OF assms(1,2), of u] by (simp only: out key(1))
qed

text \<open>A heap that grew, with the keys of the old identities unchanged.\<close>

definition frame :: "'d rl_heap \<Rightarrow> 'd rl_heap \<Rightarrow> bool" where
  "frame h h' \<longleftrightarrow> hp_next h \<le> hp_next h' \<and> (\<forall>q < hp_next h. identity_key (hp_idents h' q) = identity_key (hp_idents h q))"

lemma same_keys_frame: "same_keys h h' \<Longrightarrow> frame h h'"
  by (simp add: same_keys_def frame_def)

lemma frame_keys:
  assumes "frame h h'" "heap_ok h" "hp_clients h' a = hp_clients h a"
  shows "user_key h' a = user_key h a" "settled h' a = settled h a"
proof -
  have "ident_key h' (cl_identity (hp_clients h a)) = ident_key h (cl_identity (hp_clients h a))"
    using assms(1,2) by (auto simp: frame_def heap_ok_def ident_key_def split: option.split)
  then show "user_key h' a = user_key h a" by (simp add: user_key_def Let_def assms(3))
  then show "settled h' a = settled h a" by (simp add: settled_def assms(3))
qed

definition login_key :: "'d rl_heap \<Rightarrow> nat \<Rightarrow> string" where
  "login_key h a =
     (let k = ident_key h (cl_identity (hp_clients h a))
      in if k \<noteq> [] then k else trim_space (cl_user (hp_clients h a)))"

lemma login_key_settled: "settled h a \<Longrightarrow> login_key h a = cl_user (hp_clients h a)"
  by (auto simp: settled_def login_key_def user_key_def Let_def split: if_splits)

lemma login_key_trimmed [simp]: "trim_space (login_key h a) = login_key h a"
  by (auto simp: login_key_def Let_def ident_key_def split: option.split)

lemma admit_client_ok:
  assumes "heap_ok h" "admit_client now a h = h'"
  shows "frame h h'" "heap_ok h'" "\<And>b. b \<noteq> a \<Longrightarrow> hp_clients h' b = hp_clients h b"
    "cl_id (hp_clients h' a) = cl_id (hp_clients h a)" "cl_user (hp_clients h' a) = login_key h a" "settled h' a"
proof -
  define h1 where "h1 = (if cl_ch (hp_clients h a) = None
    then (let (k, h') = alloc_chan 64 h in write_client a (\<lambda>c. c\<lparr>cl_ch := Some k\<rparr>) h') else h)"
  define h2 where "h2 = (if cl_created (hp_clients h1 a) = None
    then write_client a (\<lambda>c. c\<lparr>cl_created := Some now\<rparr>) h1 else h1)"
  define h3 where "h3 = write_client a (\<lambda>c. c\<lparr>cl_active := Some now\<rparr>) h2"
  have idents: "hp_idents h3 = hp_idents h" and next3: "hp_next h \<le> hp_next h3"
    and others: "\<And>b. b \<noteq> a \<Longrightarrow> hp_clients h3 b = hp_clients h b"
    and own: "cl_id (hp_clients h3 a) = cl_id (hp_clients h a)" "cl_user (hp_clients h3 a) = cl_user (hp_clients h a)"
      "cl_identity (hp_clients h3 a) = cl_identity (hp_clients h a)"
    by (simp_all add: h3_def h2_def h1_def alloc_chan_def)
  obtain r h4 where cur: "current_identity (Some a) h3 = (r, h4)" by fastforce
  obtain p where p: "r = Some p" "hp_clients h4 = hp_clients h3" "hp_chans h4 = hp_chans h3" "hp_next h3 \<le> hp_next h4"
    "p < hp_next h4 \<or> cl_identity (hp_clients h3 a) = Some p"
    "ri_id (hp_idents h4 p) = identity_key (hp_idents h4 p)"
    "identity_key (hp_idents h4 p) =
       (if ident_key h3 (cl_identity (hp_clients h3 a)) \<noteq> [] then ident_key h3 (cl_identity (hp_clients h3 a))
        else trim_space (cl_user (hp_clients h3 a)))"
    "\<And>q. q < hp_next h3 \<Longrightarrow> identity_key (hp_idents h4 q) = identity_key (hp_idents h3 q)"
    using current_identity_effect [OF cur] by metis
  have ik: "ident_key h3 q = ident_key h q" for q by (simp add: ident_key_def idents split: option.split)
  have key: "identity_key (hp_idents h4 p) = login_key h a"
    using p(7) by (simp add: ik own login_key_def Let_def)
  have pn: "p < hp_next h4"
    using p(4,5) own(3) assms(1) next3 by (auto simp: heap_ok_def) (meson order.strict_trans2 order.trans)
  have h': "h' = write_client a (\<lambda>c. c\<lparr>cl_user := ri_id (hp_idents h4 p), cl_tenant := ri_tenant (hp_idents h4 p)\<rparr>)
      (write_client a (\<lambda>c. c\<lparr>cl_identity := Some p\<rparr>) h4)"
  proof -
    have "admit_client now a h =
      (let (ident, h4) = current_identity (Some a) h3; h5 = write_client a (\<lambda>c. c\<lparr>cl_identity := ident\<rparr>) h4
       in (case ident of None \<Rightarrow> h5
           | Some p \<Rightarrow> write_client a (\<lambda>c. c\<lparr>cl_user := ri_id (hp_idents h5 p), cl_tenant := ri_tenant (hp_idents h5 p)\<rparr>) h5))"
      unfolding admit_client_def h3_def h2_def h1_def Let_def by (rule refl)
    with assms(2) show ?thesis by (simp add: cur p(1))
  qed
  show "frame h h'" using p(4,8) next3 idents by (auto simp: frame_def h')
  show "heap_ok h'"
    unfolding heap_ok_def
  proof (intro allI impI)
    fix b q assume q: "cl_identity (hp_clients h' b) = Some q"
    show "q < hp_next h'"
    proof (cases "b = a")
      case True then show ?thesis using q pn by (simp add: h')
    next
      case False
      with q others have "cl_identity (hp_clients h b) = Some q" by (simp add: h' p(2))
      then have "q < hp_next h" using assms(1) by (simp add: heap_ok_def)
      then show ?thesis using next3 p(4) by (simp add: h')
    qed
  qed
  show "hp_clients h' b = hp_clients h b" if "b \<noteq> a" for b using that others by (simp add: h' p(2))
  show "cl_id (hp_clients h' a) = cl_id (hp_clients h a)" by (simp add: h' p(2) own)
  show u: "cl_user (hp_clients h' a) = login_key h a" by (simp add: h' p(6) key)
  show "settled h' a" by (simp add: settled_def user_key_def u) (simp add: h' key p(6) Let_def)
qed

section \<open>The operations\<close>

lemma store_okD:
  assumes "store_ok (h, s)"
  shows "heap_ok h" "clients_ok h (st_clients s)" "index_ok (owners (h, s)) s"
    "finite (dom (st_clients s))" "dom (st_clients s) \<subseteq> dom (st_beats s)"
  using assms by (simp_all add: store_ok_def)

lemma stored:
  assumes "store_ok (h, s)" "st_clients s c = Some a"
  shows "c \<noteq> []" "a < hp_next h" "cl_id (hp_clients h a) = c" "settled h a"
    "user_key h a = cl_user (hp_clients h a)" "owners (h, s) c = Some (cl_user (hp_clients h a))"
  using assms by (auto simp: store_ok_def clients_ok_def settled_def owners_def)

lemma owners_None [simp]: "owners (h, s) c = None \<longleftrightarrow> st_clients s c = None"
  by (simp add: owners_def)

text \<open>\<open>index_ok\<close> looks at the three indexes only.\<close>

lemma index_ok_cong:
  "st_users s' = st_users s \<Longrightarrow> st_rooms s' = st_rooms s \<Longrightarrow> st_client_rooms s' = st_client_rooms s \<Longrightarrow>
   index_ok own s' = index_ok own s"
  by (simp add: index_ok_def)

lemma come_online:
  assumes "store_ok (h, s)" "frame h h'" "heap_ok h'" "\<And>b. b \<noteq> a \<Longrightarrow> b < hp_next h \<Longrightarrow> hp_clients h' b = hp_clients h b"
    and "\<And>c'. st_clients s c' = Some a \<Longrightarrow> c' = c"
    and "c \<noteq> []" "a < hp_next h'" "cl_id (hp_clients h' a) = c" "settled h' a"
    and "st_clients s' = (st_clients s)(c \<mapsto> a)" "st_beats s' = (st_beats s)(c \<mapsto> now)"
    and "index_ok ((owners (h, s))(c \<mapsto> cl_user (hp_clients h' a))) s'"
  shows "store_ok (h', s')" "owners (h', s') = (owners (h, s))(c \<mapsto> cl_user (hp_clients h' a))"
proof -
  have other: "b < hp_next h'" "hp_clients h' b = hp_clients h b" "settled h' b"
    if "st_clients s c' = Some b" "c' \<noteq> c" for c' b
  proof -
    have b: "b \<noteq> a" "b < hp_next h" "settled h b" using assms(5) that stored [OF assms(1) that(1)] by auto
    show "b < hp_next h'" using b(2) assms(2) by (simp add: frame_def)
    show eq: "hp_clients h' b = hp_clients h b" using assms(4) b by blast
    show "settled h' b" using frame_keys(2) [OF assms(2) _ eq] store_okD(1) [OF assms(1)] b(3) by simp
  qed
  show own: "owners (h', s') = (owners (h, s))(c \<mapsto> cl_user (hp_clients h' a))"
  proof
    fix c'
    show "owners (h', s') c' = ((owners (h, s))(c \<mapsto> cl_user (hp_clients h' a))) c'"
      using other(2) by (cases "st_clients s c'") (auto simp: owners_def assms(10))
  qed
  have "clients_ok h' (st_clients s')"
    unfolding clients_ok_def assms(10) using other stored [OF assms(1)] assms(6-9) by auto
  with own assms(3,12) store_okD [OF assms(1)] show "store_ok (h', s')"
    by (auto simp: store_ok_def assms(10,11))
qed

lemma store_add_ok:
  assumes "walks it" "store_ok (h, s)" "a < hp_next h" "cl_id (hp_clients h a) = c" "c \<noteq> []"
    and "store_add it now (Some a) (h, s) = (r, st')"
  shows "r = None \<and> store_ok st' \<and> presence_of st' = ps_step (PsOnline c (Some (login_key h a))) (presence_of (h, s))"
proof -
  let ?own = "owners (h, s)"
  obtain h1 where h1: "admit_client now a h = h1" by simp
  note adm = admit_client_ok [OF store_okD(1) [OF assms(2)] h1]
  have at_c: "c' = c" if "st_clients s c' = Some a" for c' using stored(3) [OF assms(2) that] assms(4) by simp
  obtain h2 s2 where rm: "(case st_clients s c of None \<Rightarrow> (h1, s) | Some cur \<Rightarrow> remove_indexes it cur (h1, s)) = (h2, s2)"
    by fastforce
  have s2: "same_keys h1 h2 \<and> st_clients s2 = st_clients s \<and> st_beats s2 = st_beats s \<and> index_ok (?own(c := None)) s2 \<and>
    (\<forall>r. members (st_rooms s2) r = (if ?own c = None then members (st_rooms s) r else members (st_rooms s) r - {c}))"
  proof (cases "st_clients s c")
    case None
    then show ?thesis using rm store_okD(3) [OF assms(2)] by (simp add: fun_upd_idem)
  next
    case (Some b)
    have k: "?own c = Some (user_key h1 b) \<and> cl_id (hp_clients h1 b) = c"
    proof (cases "b = a")
      case True
      then have "settled h a" using Some stored(4) [OF assms(2)] by blast
      then have "cl_user (hp_clients h1 a) = cl_user (hp_clients h a)" by (simp add: adm(5) login_key_settled)
      then show ?thesis using True stored [OF assms(2) Some] adm(4,6) by (simp add: settled_def)
    next
      case False
      then show ?thesis
        using stored [OF assms(2) Some] adm(3) frame_keys(1) [OF adm(1) store_okD(1) [OF assms(2)]] by simp
    qed
    from rm Some have rm': "remove_indexes it b (h1, s) = (h2, s2)" by simp
    note rem = remove_indexes_ok [OF assms(1) store_okD(3) [OF assms(2)] conjunct1 [OF k] conjunct2 [OF k] rm']
    from rem k show ?thesis by simp
  qed
  define s3 where "s3 = s2\<lparr>st_clients := (st_clients s2)(c \<mapsto> a)\<rparr>"
  obtain h4 s4 where au: "add_user_index a (h2, s3) = (h4, s4)" by fastforce
  have k2: "cl_id (hp_clients h2 a) = c" "user_key h2 a = login_key h a"
    using same_keysD [OF conjunct1 [OF s2]] adm(4,5,6) assms(4) by (simp_all add: settled_def)
  have "index_ok (?own(c := None)) s3 = index_ok (?own(c := None)) s2"
    by (rule index_ok_cong) (simp_all add: s3_def)
  then have "index_ok (?own(c := None)) s3" using s2 by simp
  note au' = add_user_index_ok [OF this _ k2(1) au, simplified k2(2), simplified]
  have st': "r = None" "st' = (h4, s4\<lparr>st_beats := (st_beats s4)(c \<mapsto> now)\<rparr>)"
    using assms(4-6) rm au adm(4) by (simp_all add: store_add_def h1 Let_def s3_def)
  let ?s' = "s4\<lparr>st_beats := (st_beats s4)(c \<mapsto> now)\<rparr>"
  have keys: "same_keys h1 h2" "same_keys h2 h4" using s2 au'(1) by simp_all
  note sk = same_keysD [OF keys(1)] same_keysD [OF keys(2)]
  have fr: "frame h h4"
    using adm(1) same_keys_frame [OF keys(1)] same_keys_frame [OF keys(2)] unfolding frame_def by force
  have user: "cl_user (hp_clients h4 a) = login_key h a" using sk adm(5) by simp
  have idx: "index_ok (?own(c \<mapsto> cl_user (hp_clients h4 a))) ?s'"
    unfolding user using au'(4) by (subst index_ok_cong [where s = s4]) simp_all
  have done1: "store_ok (h4, ?s') \<and> owners (h4, ?s') = ?own(c \<mapsto> cl_user (hp_clients h4 a))"
    using come_online [OF assms(2) fr _ _ at_c assms(5) _ _ _ _ _ idx]
    using sk adm assms(3,4) s2 au'(2,3) by (simp add: s3_def frame_def)
  then show ?thesis
    using s2 au'(5) by (auto simp: st' presence_of_def user s3_def without_client_def)
qed

lemma store_remove_ok:
  assumes "walks it" "store_ok (h, s)" "store_remove it c (h, s) = (r, st')"
  shows "r = None \<and> store_ok st' \<and> presence_of st' = ps_step (PsOffline c) (presence_of (h, s))"
proof (cases "st_clients s c")
  case None
  with assms(3) have "r = None" "st' = (h, s)" by (auto simp: store_remove_def)
  with None assms(2) show ?thesis by (simp add: presence_of_def)
next
  case (Some a)
  let ?own = "owners (h, s)"
  note at = stored [OF assms(2) Some]
  obtain h1 s1 where rm: "remove_indexes it a (h, s) = (h1, s1)" by fastforce
  have own: "?own c = Some (user_key h a)" using at by simp
  note rem = remove_indexes_ok [OF assms(1) store_okD(3) [OF assms(2)] own at(3) rm]
  let ?s' = "s1\<lparr>st_clients := (st_clients s1)(c := None), st_beats := (st_beats s1)(c := None)\<rparr>"
  have out: "r = None" "st' = (h1, ?s')" using assms(3) Some rm by (simp_all add: store_remove_def)
  note sk = same_keysD [OF rem(1)]
  have own': "owners (h1, ?s') = ?own(c := None)" by (rule ext) (simp add: owners_def rem sk)
  have idx: "index_ok (?own(c := None)) ?s'" using rem(4) by (subst index_ok_cong [where s = s1]) simp_all
  have "clients_ok h1 (st_clients ?s')"
    using store_okD(2) [OF assms(2)] by (auto simp: clients_ok_def rem(2) sk)
  then have "store_ok (h1, ?s')"
    using idx store_okD [OF assms(2)] sk(6) unfolding store_ok_def fst_conv snd_conv own' by (auto simp: rem(2,3))
  then show ?thesis using Some by (auto simp: out presence_of_def own' rem(5) without_client_def)
qed

lemma owner_trimmed: "store_ok (h, s) \<Longrightarrow> owners (h, s) c = Some u \<Longrightarrow> trim_space u = u"
  by (auto simp: owners_def dest!: stored(4) simp: settled_def)

text \<open>The client \<open>Online\<close> works on: a fresh one, or the known one without its indexes.\<close>

lemma online_client:
  assumes "walks it" "store_ok (h, s)" "c \<noteq> []" "\<forall>p. ident = Some p \<longrightarrow> p < hp_next h"
    and "(case st_clients s c of
            None \<Rightarrow> (let (a, h') = alloc_client (new_client c ident) h in (a, h', s\<lparr>st_clients := (st_clients s)(c \<mapsto> a)\<rparr>))
          | Some a \<Rightarrow> (let (h', s') = remove_indexes it a (h, s) in (a, write_client a (\<lambda>c. c\<lparr>cl_identity := ident\<rparr>) h', s')))
         = (a, h1, s1)"
  shows "frame h h1 \<and> heap_ok h1 \<and> a < hp_next h1 \<and> (\<forall>b<hp_next h. b \<noteq> a \<longrightarrow> hp_clients h1 b = hp_clients h b)"
    "cl_id (hp_clients h1 a) = c \<and> cl_identity (hp_clients h1 a) = ident \<and>
     cl_user (hp_clients h1 a) = (case owners (h, s) c of None \<Rightarrow> [] | Some u \<Rightarrow> u)"
    "st_clients s1 = (st_clients s)(c \<mapsto> a)" "st_beats s1 = st_beats s" "index_ok ((owners (h, s))(c := None)) s1"
    "\<And>r. members (st_rooms s1) r = (if owners (h, s) c = None then members (st_rooms s) r else members (st_rooms s) r - {c})"
    "\<And>c'. st_clients s c' = Some a \<Longrightarrow> c' = c"
proof -
  let ?own = "owners (h, s)"
  note ok = store_okD [OF assms(2)]
  have "(frame h h1 \<and> heap_ok h1 \<and> a < hp_next h1 \<and> (\<forall>b<hp_next h. b \<noteq> a \<longrightarrow> hp_clients h1 b = hp_clients h b)) \<and>
    (cl_id (hp_clients h1 a) = c \<and> cl_identity (hp_clients h1 a) = ident \<and>
     cl_user (hp_clients h1 a) = (case ?own c of None \<Rightarrow> [] | Some u \<Rightarrow> u)) \<and>
    st_clients s1 = (st_clients s)(c \<mapsto> a) \<and> st_beats s1 = st_beats s \<and> index_ok (?own(c := None)) s1 \<and>
    (\<forall>r. members (st_rooms s1) r = (if ?own c = None then members (st_rooms s) r else members (st_rooms s) r - {c})) \<and>
    (\<forall>c'. st_clients s c' = Some a \<longrightarrow> c' = c)"
  proof (cases "st_clients s c")
    case None
    then have out: "a = hp_next h" "h1 = h\<lparr>hp_clients := (hp_clients h)(a := new_client c ident), hp_next := Suc a\<rparr>"
      "s1 = s\<lparr>st_clients := (st_clients s)(c \<mapsto> a)\<rparr>"
      using assms(5) by (auto simp: alloc_client_def)
    have "index_ok (?own(c := None)) s1 = index_ok ?own s"
      using None by (simp add: fun_upd_idem) (rule index_ok_cong, simp_all add: out(3))
    moreover have "heap_ok h1" using ok(1) assms(4) by (auto simp: heap_ok_def out(2) new_client_def out(1) less_Suc_eq)
    ultimately show ?thesis
      using None ok(3) stored(2) [OF assms(2)] by (auto simp: frame_def out(2,3) out(1) new_client_def owners_def)
  next
    case (Some b)
    note at = stored [OF assms(2) Some]
    obtain h' s' where rm: "remove_indexes it b (h, s) = (h', s')" by fastforce
    have own: "?own c = Some (user_key h b)" using at by simp
    note rem = remove_indexes_ok [OF assms(1) ok(3) own at(3) rm]
    have out: "a = b" "h1 = write_client a (\<lambda>c. c\<lparr>cl_identity := ident\<rparr>) h'" "s1 = s'"
      using assms(5) Some rm by auto
    note sk = same_keysD [OF rem(1)]
    have "frame h h1" using same_keys_frame [OF rem(1)] by (simp add: frame_def out(2))
    moreover have "heap_ok h1"
      using ok(1) assms(4) by (auto simp: heap_ok_def out(2) sk)
    moreover have "a < hp_next h1 \<and> (\<forall>b<hp_next h. b \<noteq> a \<longrightarrow> hp_clients h1 b = hp_clients h b)"
      using at(2) by (simp add: out(1,2) sk(1,3))
    moreover have "cl_id (hp_clients h1 a) = c \<and> cl_identity (hp_clients h1 a) = ident \<and>
        cl_user (hp_clients h1 a) = (case ?own c of None \<Rightarrow> [] | Some u \<Rightarrow> u)"
      using at(3,6) by (simp add: out(1,2) sk(1))
    moreover have "st_clients s1 = (st_clients s)(c \<mapsto> a)" "st_beats s1 = st_beats s"
      "index_ok (?own(c := None)) s1"
      "\<forall>r. members (st_rooms s1) r = (if ?own c = None then members (st_rooms s) r else members (st_rooms s) r - {c})"
      using rem(2-5) Some by (simp_all add: out(1,3) fun_upd_idem)
    moreover have "\<forall>c'. st_clients s c' = Some a \<longrightarrow> c' = c" using stored(3) [OF assms(2)] at(3) out(1) by auto
    ultimately show ?thesis by blast
  qed
  then show "frame h h1 \<and> heap_ok h1 \<and> a < hp_next h1 \<and> (\<forall>b<hp_next h. b \<noteq> a \<longrightarrow> hp_clients h1 b = hp_clients h b)"
    "cl_id (hp_clients h1 a) = c \<and> cl_identity (hp_clients h1 a) = ident \<and>
     cl_user (hp_clients h1 a) = (case ?own c of None \<Rightarrow> [] | Some u \<Rightarrow> u)"
    "st_clients s1 = (st_clients s)(c \<mapsto> a)" "st_beats s1 = st_beats s" "index_ok (?own(c := None)) s1"
    "\<And>r. members (st_rooms s1) r = (if ?own c = None then members (st_rooms s) r else members (st_rooms s) r - {c})"
    "\<And>c'. st_clients s c' = Some a \<Longrightarrow> c' = c"
    by blast+
qed

lemma store_online_ok:
  assumes "walks it" "store_ok (h, s)" "c \<noteq> []" "\<forall>p. ident = Some p \<longrightarrow> p < hp_next h" "ctx_err ctx = None"
    and "store_online it now ctx c ident (h, s) = (r, st')"
  shows "r = None \<and> store_ok st' \<and>
    presence_of st' = ps_step (PsOnline c (map_option (\<lambda>p. identity_key (hp_idents h p)) ident)) (presence_of (h, s))"
proof -
  let ?own = "owners (h, s)"
  obtain a h1 s1 where pick: "(case st_clients s c of
            None \<Rightarrow> (let (a, h') = alloc_client (new_client c ident) h in (a, h', s\<lparr>st_clients := (st_clients s)(c \<mapsto> a)\<rparr>))
          | Some a \<Rightarrow> (let (h', s') = remove_indexes it a (h, s) in (a, write_client a (\<lambda>c. c\<lparr>cl_identity := ident\<rparr>) h', s')))
         = (a, h1, s1)"
    by (rule prod_cases3)
  note oc = online_client [OF assms(1-4) pick]
  define u where "u = (case ident of Some p \<Rightarrow> identity_key (hp_idents h p)
     | None \<Rightarrow> (case ?own c of Some u \<Rightarrow> u | None \<Rightarrow> []))"
  define h2 where "h2 = (case ident of None \<Rightarrow> h1
    | Some p \<Rightarrow> let h' = normalize_at p h1; i = hp_idents h' p
        in write_client a (\<lambda>c. c\<lparr>cl_identity := Some p, cl_user := ri_id i, cl_tenant := ri_tenant i\<rparr>) h')"
  have h2: "frame h h2 \<and> heap_ok h2 \<and> a < hp_next h2 \<and> (\<forall>b<hp_next h. b \<noteq> a \<longrightarrow> hp_clients h2 b = hp_clients h b) \<and>
    cl_id (hp_clients h2 a) = c \<and> cl_user (hp_clients h2 a) = u \<and> settled h2 a"
  proof (cases ident)
    case None
    have "trim_space u = u" using owner_trimmed [OF assms(2)] None by (simp add: u_def split: option.split)
    then show ?thesis using oc(1,2) None
      by (auto simp: h2_def u_def settled_def user_key_def split: option.split)
  next
    case (Some p)
    have fr: "frame h h1" "heap_ok h1" using oc(1) by simp_all
    have pn: "p < hp_next h" using assms(4) Some by blast
    have k: "identity_key (hp_idents h1 p) = u" using fr(1) pn by (simp add: frame_def u_def Some)
    have i: "ri_id (hp_idents (normalize_at p h1) p) = u" by (simp add: normalize_at_def k)
    have "p < hp_next h1" using fr(1) pn by (simp add: frame_def)
    with fr have "frame h h2" "heap_ok h2" by (auto simp: h2_def Some Let_def frame_def heap_ok_def)
    moreover have "settled h2 a"
      by (auto simp: settled_def user_key_def h2_def Some Let_def i k u_def)
    ultimately show ?thesis using oc(1,2) i by (simp add: h2_def Some Let_def)
  qed
  obtain h3 s3 where au: "add_user_index a (h2, s1) = (h3, s3)" by fastforce
  have cid: "cl_id (hp_clients h2 a) = c" using h2 by simp
  have uk: "user_key h2 a = u" using h2 by (auto simp: settled_def)
  note au' = add_user_index_ok [OF oc(5) _ cid au, simplified uk, simplified]
  let ?s' = "s3\<lparr>st_beats := (st_beats s3)(c \<mapsto> now)\<rparr>"
  have out: "r = None" "st' = (h3, ?s')"
    using assms(3,5,6) pick au by (simp_all add: store_online_def h2_def)
  note sk = same_keysD [OF au'(1)]
  have fr: "frame h h3" using h2 same_keys_frame [OF au'(1)] unfolding frame_def by force
  have user: "cl_user (hp_clients h3 a) = u" using sk h2 by simp
  have idx: "index_ok (?own(c \<mapsto> cl_user (hp_clients h3 a))) ?s'"
    unfolding user using au'(4) by (subst index_ok_cong [where s = s3]) simp_all
  have "store_ok (h3, ?s') \<and> owners (h3, ?s') = ?own(c \<mapsto> cl_user (hp_clients h3 a))"
    using come_online [OF assms(2) fr _ _ oc(7) assms(3) _ _ _ _ _ idx]
    using sk h2 oc(3,4) au'(2,3) by simp
  then show ?thesis
    using oc(6) au'(5) by (auto simp: out presence_of_def user without_client_def u_def split: option.split)
qed

lemma store_heartbeat_ok:
  assumes "store_ok (h, s)" "c \<noteq> []" "ctx_err ctx = None" "store_heartbeat now ctx c (h, s) = (r, st')"
  shows "r = None \<and> store_ok st' \<and> presence_of st' = presence_of (h, s)"
proof -
  define h' where "h' = (case st_clients s c of None \<Rightarrow> h | Some a \<Rightarrow> write_client a (\<lambda>c. c\<lparr>cl_active := Some now\<rparr>) h)"
  let ?s' = "s\<lparr>st_beats := (st_beats s)(c \<mapsto> now)\<rparr>"
  have out: "r = None" "st' = (h', ?s')" using assms(2-4) by (auto simp: store_heartbeat_def h'_def)
  have h': "hp_next h' = hp_next h" "hp_idents h' = hp_idents h" "cl_id (hp_clients h' a) = cl_id (hp_clients h a)"
    "cl_user (hp_clients h' a) = cl_user (hp_clients h a)" "cl_identity (hp_clients h' a) = cl_identity (hp_clients h a)" for a
    by (simp_all add: h'_def split: option.split)
  have "settled h' a = settled h a" for a
    by (simp add: settled_def user_key_def ident_key_def Let_def h' split: option.split)
  then have ok: "heap_ok h' = heap_ok h" "clients_ok h' m = clients_ok h m" for m
    by (simp_all add: heap_ok_def clients_ok_def h')
  have own: "owners (h', ?s') = owners (h, s)" by (rule ext) (simp add: owners_def h')
  have "index_ok (owners (h, s)) ?s' = index_ok (owners (h, s)) s" by (rule index_ok_cong) simp_all
  with assms(1) show ?thesis by (auto simp: out store_ok_def ok own presence_of_def)
qed

lemma store_join_ok:
  assumes "store_ok (h, s)" "room \<noteq> []" "c \<noteq> []" "ctx_err ctx = None" "store_join ctx room c s = (r, s')"
  shows "r = None \<and> store_ok (h, s') \<and> presence_of (h, s') = ps_step (PsJoin room c) (presence_of (h, s))"
proof -
  have out: "r = None" "s' = s\<lparr>st_rooms := set_add room c (st_rooms s), st_client_rooms := set_add c room (st_client_rooms s)\<rparr>"
    using assms(2-5) by (auto simp: store_join_def)
  have own: "owners (h, s') = owners (h, s)" by (rule ext) (simp add: owners_def out)
  from store_okD [OF assms(1)] have "index_ok (owners (h, s)) s'" by (auto simp: index_ok_def out)
  with assms(1) show ?thesis unfolding store_ok_def fst_conv snd_conv own
    by (auto simp: out presence_of_def own [unfolded out] split: if_splits)
qed

lemma store_leave_ok:
  assumes "walks it" "store_ok (h, s)" "ctx_err ctx = None" "store_leave it ctx room c s = (r, s')"
  shows "r = None \<and> store_ok (h, s') \<and>
    presence_of (h, s') = ps_step (if room = [] then PsLeaveAll c else PsLeave room c) (presence_of (h, s))"
proof -
  note idx = store_okD(3) [OF assms(2)]
  show ?thesis
  proof (cases "room = []")
    case True
    then have out: "r = None" "s' = leave_all_rooms it c s" using assms(3,4) by (auto simp: store_leave_def)
    have own: "owners (h, s') = owners (h, s)" by (rule ext) (simp add: owners_def out leave_all_rooms_effect)
    show ?thesis
      using assms(2) leave_all_rooms_index [OF assms(1) idx, of c] True
        leave_all_rooms_members(1) [OF assms(1) idx, of c]
      unfolding store_ok_def fst_conv snd_conv own
      by (auto simp: out leave_all_rooms_effect presence_of_def own [unfolded out] without_client_def)
  next
    case False
    then have out: "r = None"
      "s' = s\<lparr>st_rooms := set_del room c (st_rooms s), st_client_rooms := set_del c room (st_client_rooms s)\<rparr>"
      using assms(3,4) by (auto simp: store_leave_def)
    have own: "owners (h, s') = owners (h, s)" by (rule ext) (simp add: owners_def out)
    from idx have "index_ok (owners (h, s)) s'" by (auto simp: index_ok_def out split: if_splits)
    with assms(2) show ?thesis using False unfolding store_ok_def fst_conv snd_conv own
      by (auto simp: out presence_of_def own [unfolded out] split: if_splits)
  qed
qed

section \<open>Any operation\<close>

datatype store_op =
    OpAdd int "nat option"
  | OpRemove string
  | OpOnline int rl_ctx string "nat option"
  | OpOffline rl_ctx string
  | OpHeartbeat int rl_ctx string
  | OpJoin rl_ctx string string
  | OpLeave rl_ctx string string

fun run_op :: "key_order \<Rightarrow> store_op \<Rightarrow> 'd rl_state \<Rightarrow> rl_error option \<times> 'd rl_state" where
  "run_op it (OpAdd now p) st = store_add it now p st"
| "run_op it (OpRemove c) st = store_remove it c st"
| "run_op it (OpOnline now ctx c p) st = store_online it now ctx c p st"
| "run_op it (OpOffline ctx c) st = store_offline it ctx c st"
| "run_op it (OpHeartbeat now ctx c) st = store_heartbeat now ctx c st"
| "run_op it (OpJoin ctx r c) st = (case store_join ctx r c (snd st) of (e, s) \<Rightarrow> (e, (fst st, s)))"
| "run_op it (OpLeave ctx r c) st = (case store_leave it ctx r c (snd st) of (e, s) \<Rightarrow> (e, (fst st, s)))"

text \<open>The pointers of a call point at objects that exist.\<close>

fun op_ok :: "'d rl_heap \<Rightarrow> store_op \<Rightarrow> bool" where
  "op_ok h (OpAdd _ (Some a)) = (a < hp_next h)"
| "op_ok h (OpOnline _ _ _ (Some p)) = (p < hp_next h)"
| "op_ok h _ = True"

text \<open>What a call means for presence: refused with an error, or an event.\<close>

definition live :: "rl_ctx \<Rightarrow> rl_error + presence_event \<Rightarrow> rl_error + presence_event" where
  "live ctx r = (case ctx_err ctx of Some e \<Rightarrow> Inl e | None \<Rightarrow> r)"

fun meaning :: "'d rl_heap \<Rightarrow> store_op \<Rightarrow> rl_error + presence_event" where
  "meaning h (OpAdd _ None) = Inl RErrNilClient"
| "meaning h (OpAdd _ (Some a)) =
     (if cl_id (hp_clients h a) = [] then Inl RErrEmptyClientID
      else Inr (PsOnline (cl_id (hp_clients h a)) (Some (login_key h a))))"
| "meaning h (OpRemove c) = Inr (PsOffline c)"
| "meaning h (OpOnline _ ctx c p) =
     live ctx (if c = [] then Inl RErrEmptyClientID
               else Inr (PsOnline c (map_option (\<lambda>p. identity_key (hp_idents h p)) p)))"
| "meaning h (OpOffline ctx c) = live ctx (Inr (PsOffline c))"
| "meaning h (OpHeartbeat _ ctx c) = live ctx (if c = [] then Inl RErrEmptyClientID else Inr PsNothing)"
| "meaning h (OpJoin ctx r c) =
     live ctx (if r = [] then Inl RErrEmptyEvent else if c = [] then Inl RErrEmptyClientID else Inr (PsJoin r c))"
| "meaning h (OpLeave ctx r c) = live ctx (Inr (if r = [] then PsLeaveAll c else PsLeave r c))"

lemma run_op_refines:
  assumes "walks it" "store_ok (h, s)" "op_ok h op" "run_op it op (h, s) = (r, st')"
  shows "store_ok st' \<and>
    (case meaning h op of Inl e \<Rightarrow> r = Some e \<and> st' = (h, s)
     | Inr ev \<Rightarrow> r = None \<and> presence_of st' = ps_step ev (presence_of (h, s)))"
proof (cases op)
  case (OpAdd now p)
  then show ?thesis
    using assms(2-4) store_add_ok [OF assms(1,2), of _ _ now r st']
    by (cases p) (auto simp: store_add_def [of it now None] store_add_def [of it now "Some a" for a] split: if_splits)
next
  case (OpRemove c)
  then show ?thesis using assms(4) store_remove_ok [OF assms(1,2)] by simp
next
  case (OpOnline now ctx c p)
  show ?thesis
  proof (cases "ctx_err ctx = None \<and> c \<noteq> []")
    case True
    then show ?thesis using store_online_ok [OF assms(1,2), of c p ctx now r st'] assms(3,4) OpOnline
      by (cases p) (simp_all add: live_def)
  next
    case False
    then show ?thesis using assms(2,4) OpOnline by (auto simp: store_online_def live_def split: option.splits)
  qed
next
  case (OpOffline ctx c)
  then show ?thesis using assms(2,4) store_remove_ok [OF assms(1,2)]
    by (auto simp: store_offline_def live_def split: option.splits)
next
  case (OpHeartbeat now ctx c)
  show ?thesis
  proof (cases "ctx_err ctx = None \<and> c \<noteq> []")
    case True
    then show ?thesis using store_heartbeat_ok [OF assms(2), of c ctx now r st'] assms(4) OpHeartbeat
      by (simp add: live_def)
  next
    case False
    then show ?thesis using assms(2,4) OpHeartbeat by (auto simp: store_heartbeat_def live_def split: option.splits)
  qed
next
  case (OpJoin ctx room c)
  obtain s' where s': "store_join ctx room c s = (r, s')" "st' = (h, s')"
    using assms(4) OpJoin by (auto split: prod.splits)
  show ?thesis
  proof (cases "ctx_err ctx = None \<and> room \<noteq> [] \<and> c \<noteq> []")
    case True
    then show ?thesis using store_join_ok [OF assms(2) _ _ _ s'(1)] s'(2) OpJoin by (simp add: live_def)
  next
    case False
    then show ?thesis using assms(2) s' OpJoin by (auto simp: store_join_def live_def split: option.splits if_splits)
  qed
next
  case (OpLeave ctx room c)
  obtain s' where s': "store_leave it ctx room c s = (r, s')" "st' = (h, s')"
    using assms(4) OpLeave by (auto split: prod.splits)
  show ?thesis
  proof (cases "ctx_err ctx")
    case None
    then show ?thesis using store_leave_ok [OF assms(1,2) None s'(1)] s'(2) OpLeave by (simp add: live_def)
  next
    case (Some e)
    then have "r = Some e" "s' = s" using s'(1) by (auto simp: store_leave_def)
    then show ?thesis using assms(2) s'(2) OpLeave Some by (simp add: live_def)
  qed
qed

section \<open>Reachable states\<close>

text \<open>
  Callers share the heap: they may write anything, except the identifier and the user of a client
  that is in the store.
\<close>

definition caller_writes :: "rl_store \<Rightarrow> 'd rl_heap \<Rightarrow> 'd rl_heap \<Rightarrow> bool" where
  "caller_writes s h h' \<longleftrightarrow> heap_ok h' \<and> hp_next h \<le> hp_next h' \<and>
     (\<forall>c a. st_clients s c = Some a \<longrightarrow>
        cl_id (hp_clients h' a) = cl_id (hp_clients h a) \<and> cl_user (hp_clients h' a) = cl_user (hp_clients h a) \<and>
        ident_key h' (cl_identity (hp_clients h' a)) = ident_key h (cl_identity (hp_clients h a)))"

inductive reaches :: "key_order \<Rightarrow> 'd rl_state \<Rightarrow> bool" for it where
  fresh: "heap_ok h \<Longrightarrow> reaches it (h, new_store)"
| call: "reaches it st \<Longrightarrow> op_ok (fst st) op \<Longrightarrow> reaches it (snd (run_op it op st))"
| caller: "reaches it (h, s) \<Longrightarrow> caller_writes s h h' \<Longrightarrow> reaches it (h', s)"

lemma store_ok_new: "heap_ok h \<Longrightarrow> store_ok (h, new_store)"
  by (simp add: store_ok_def new_store_def clients_ok_def index_ok_def owners_def)

lemma store_ok_caller:
  assumes "store_ok (h, s)" "caller_writes s h h'"
  shows "store_ok (h', s)"
proof -
  have at: "cl_id (hp_clients h' a) = cl_id (hp_clients h a)" "cl_user (hp_clients h' a) = cl_user (hp_clients h a)"
    "user_key h' a = user_key h a" if "st_clients s c = Some a" for c a
    using assms(2) that by (simp_all add: caller_writes_def user_key_def Let_def)
  have "owners (h', s) c = owners (h, s) c" for c
    using at(2) by (cases "st_clients s c") (simp_all add: owners_def)
  then have own: "owners (h', s) = owners (h, s)" by blast
  have "clients_ok h' (st_clients s)"
    unfolding clients_ok_def
  proof (intro allI impI)
    fix c a assume c: "st_clients s c = Some a"
    have "a < hp_next h'" using stored(2) [OF assms(1) c] assms(2) by (simp add: caller_writes_def)
    then show "c \<noteq> [] \<and> a < hp_next h' \<and> cl_id (hp_clients h' a) = c \<and> settled h' a"
      using stored [OF assms(1) c] at [OF c] by (simp add: settled_def)
  qed
  with assms store_okD [OF assms(1)] show ?thesis by (simp add: store_ok_def own caller_writes_def)
qed

lemma reaches_ok: "reaches it st \<Longrightarrow> walks it \<Longrightarrow> store_ok st"
proof (induction rule: reaches.induct)
  case (call st op)
  obtain h s where st: "st = (h, s)" by fastforce
  obtain r st' where run: "run_op it op (h, s) = (r, st')" by (cases "run_op it op (h, s)")
  from run_op_refines [OF _ _ _ run] call show ?case by (simp add: st run)
qed (use store_ok_new store_ok_caller in auto)

lemma filtered_clients:
  assumes "store_ok (h, s)" "walks it" "finite A"
  shows "set (List.map_filter (st_clients s) (it A)) = {a. \<exists>c\<in>A. st_clients s c = Some a}"
    "distinct (List.map_filter (st_clients s) (it A))"
proof -
  show "set (List.map_filter (st_clients s) (it A)) = {a. \<exists>c\<in>A. st_clients s c = Some a}"
    using walksD(1) [OF assms(2,3)] by (force simp: List.map_filter_def)
  have "inj_on (\<lambda>c. the (st_clients s c)) {c. st_clients s c \<noteq> None}"
    by (rule inj_onI) (clarsimp, metis stored(3) [OF assms(1)])
  then show "distinct (List.map_filter (st_clients s) (it A))"
    using walksD(2) [OF assms(2,3)]
    by (auto simp: List.map_filter_def distinct_map inj_on_def)
qed

lemma look_ups_exact:
  assumes "walks it" "reaches it (h, s)"
  shows "set (get_user_clients it s u) =
           {a. u \<noteq> [] \<and> (\<exists>c. st_clients s c = Some a \<and> cl_user (hp_clients h a) = u)} \<and> distinct (get_user_clients it s u)"
    "set (get_room_clients it s r) =
           {a. \<exists>c. st_clients s c = Some a \<and> (r = [] \<or> c \<in> members (st_rooms s) r)} \<and> distinct (get_room_clients it s r)"
    "c \<in> members (st_rooms s) r \<longleftrightarrow> r \<in> members (st_client_rooms s) c"
    "st_clients s c = Some a \<Longrightarrow> cl_id (hp_clients h a) = c \<and> c \<in> dom (st_beats s)"
proof -
  have ok: "store_ok (h, s)" by (rule reaches_ok [OF assms(2,1)])
  note parts = store_okD [OF ok]
  have users: "members (st_users s) u = {c. owners (h, s) c = Some u \<and> u \<noteq> []}" for u
    using parts(3) by (simp add: index_ok_def)
  have sym: "c \<in> members (st_rooms s) r \<longleftrightarrow> r \<in> members (st_client_rooms s) c"
    and fin: "finite (members (st_rooms s) r)" for r c
    using parts(3) by (simp_all add: index_ok_def)
  have "members (st_users s) u \<subseteq> dom (st_clients s)" for u by (auto simp: users owners_def)
  then have finu: "finite (members (st_users s) u)" for u using parts(4) finite_subset by blast
  show "set (get_user_clients it s u) = {a. u \<noteq> [] \<and> (\<exists>c. st_clients s c = Some a \<and> cl_user (hp_clients h a) = u)} \<and>
      distinct (get_user_clients it s u)"
    unfolding get_user_clients_def filtered_clients(1) [OF ok assms(1) finu]
    using filtered_clients(2) [OF ok assms(1) finu] by (auto simp: users owners_def)
  show "set (get_room_clients it s r) = {a. \<exists>c. st_clients s c = Some a \<and> (r = [] \<or> c \<in> members (st_rooms s) r)} \<and>
      distinct (get_room_clients it s r)"
    using filtered_clients [OF ok assms(1) parts(4)] filtered_clients [OF ok assms(1) fin, of r]
    by (auto simp: get_room_clients_def)
  show "c \<in> members (st_rooms s) r \<longleftrightarrow> r \<in> members (st_client_rooms s) c" by (rule sym)
  show "cl_id (hp_clients h a) = c \<and> c \<in> dom (st_beats s)" if "st_clients s c = Some a"
    using stored(3) [OF ok that] parts(5) that by blast
qed

section \<open>Properties\<close>

text \<open>
  C10: the connection store implements presence.  In every reachable state each call is either
  refused, with the error its guards name and the state untouched, or it returns nil and changes
  who is online as whom, and who is in which room, exactly as the abstract event of the call says.
\<close>

theorem store_refines_presence:
  assumes "walks it" "reaches it st" "op_ok (fst st) op" "run_op it op st = (r, st')"
  shows "case meaning (fst st) op of
      Inl e \<Rightarrow> r = Some e \<and> st' = st
    | Inr ev \<Rightarrow> r = None \<and> presence_of st' = ps_step ev (presence_of st)"
proof -
  obtain h s where st: "st = (h, s)" by fastforce
  have "store_ok (h, s)" using reaches_ok [OF assms(2,1)] by (simp add: st)
  from run_op_refines [OF assms(1) this, of op r st'] assms(3,4) show ?thesis unfolding st fst_conv by blast
qed

text \<open>One client object, and the store after it was added.\<close>

definition sample_heap :: "unit rl_heap" where
  "sample_heap = \<lparr>hp_clients = (\<lambda>_. new_client ''c1'' None)(0 := (new_client ''c1'' None)\<lparr>cl_user := ''u1''\<rparr>),
     hp_idents = (\<lambda>_. new_user_identity [] 0), hp_chans = (\<lambda>_. make_chan 0), hp_next = 1\<rparr>"

definition sample_state :: "unit rl_state" where
  "sample_state = snd (run_op sorted_list_of_set (OpAdd 5 (Some 0)) (sample_heap, new_store))"

lemma walks_sorted: "walks sorted_list_of_set"
  by (simp add: walks_def)

lemma sample_heap_ok: "heap_ok sample_heap"
  by (simp add: heap_ok_def sample_heap_def new_client_def)

lemma sample_reaches: "reaches sorted_list_of_set (sample_heap, new_store)" "reaches sorted_list_of_set sample_state"
proof -
  show *: "reaches sorted_list_of_set (sample_heap, new_store)" by (rule fresh) (rule sample_heap_ok)
  show "reaches sorted_list_of_set sample_state"
    unfolding sample_state_def by (rule call [OF *]) (simp add: sample_heap_def)
qed

lemma u1_trimmed: "trim_space ''u1'' = ''u1''"
  by (rule trim_space_printable) simp

theorem store_refines_presence_witness:
  "fst (run_op sorted_list_of_set (OpAdd 5 (Some 0)) (sample_heap, new_store)) = None \<and>
   ps_online (presence_of sample_state) ''c1'' = Some ''u1''"
proof -
  have ok: "op_ok (fst (sample_heap, new_store)) (OpAdd 5 (Some 0))" by (simp add: sample_heap_def)
  obtain r st' where run: "run_op sorted_list_of_set (OpAdd 5 (Some 0)) (sample_heap, new_store) = (r, st')"
    by (cases "run_op sorted_list_of_set (OpAdd 5 (Some 0)) (sample_heap, new_store)")
  have "meaning sample_heap (OpAdd 5 (Some 0)) = Inr (PsOnline ''c1'' (Some ''u1''))"
    by (simp add: sample_heap_def new_client_def login_key_def u1_trimmed)
  with store_refines_presence [OF walks_sorted sample_reaches(1) ok run] show ?thesis
    unfolding sample_state_def run by simp
qed

text \<open>
  The maps of the store agree.  In every reachable state, whatever callers wrote to objects of
  their own: the look-up by user returns exactly the clients of that user, each once, and nobody for
  the blank user; the look-up by room returns exactly the connected clients of the room, and for
  the blank room everybody; rooms and the rooms of a client mirror each other; a client is stored
  under its identifier and has a heartbeat.
\<close>

theorem connections_exact:
  assumes "walks it" "reaches it (h, s)"
  shows "(\<forall>u. set (get_user_clients it s u) =
           {a. u \<noteq> [] \<and> (\<exists>c. st_clients s c = Some a \<and> cl_user (hp_clients h a) = u)} \<and> distinct (get_user_clients it s u)) \<and>
    (\<forall>r. set (get_room_clients it s r) =
           {a. \<exists>c. st_clients s c = Some a \<and> (r = [] \<or> c \<in> members (st_rooms s) r)} \<and> distinct (get_room_clients it s r)) \<and>
    (\<forall>r c. c \<in> members (st_rooms s) r \<longleftrightarrow> r \<in> members (st_client_rooms s) c) \<and>
    (\<forall>c a. st_clients s c = Some a \<longrightarrow> cl_id (hp_clients h a) = c \<and> c \<in> dom (st_beats s))"
  using look_ups_exact [OF assms] by blast

lemma remove_indexes_store:
  "snd (remove_indexes it a (h, s)) = leave_all_rooms it (cl_id (hp_clients h a))
     (if user_key h a \<noteq> [] then s\<lparr>st_users := set_del (user_key h a) (cl_id (hp_clients h a)) (st_users s)\<rparr> else s)"
  by (cases "client_user_id (Some a) h") (auto simp: remove_indexes_def Let_def dest!: client_user_id_effect(1))

lemma remove_indexes_heap: "same_keys h (fst (remove_indexes it a (h, s)))"
  by (cases "client_user_id (Some a) h") (simp add: remove_indexes_def client_user_id_effect(2) Let_def)

lemma add_user_index_store:
  "snd (add_user_index a (h, s)) =
     (if user_key h a = [] then s else s\<lparr>st_users := set_add (user_key h a) (cl_id (hp_clients h a)) (st_users s)\<rparr>)"
  by (cases "client_user_id (Some a) h") (auto simp: add_user_index_def Let_def dest!: client_user_id_effect(1))

lemma add_user_index_heap: "same_keys h (fst (add_user_index a (h, s)))"
  by (cases "client_user_id (Some a) h") (simp add: add_user_index_def client_user_id_effect(2) Let_def)

text \<open>The store an \<open>Add\<close> leaves behind, without the heap.\<close>

lemma store_add_store:
  assumes "heap_ok h" "admit_client now a h = h1" "cl_id (hp_clients h a) = c" "c \<noteq> []"
    and s2: "s2 = (case st_clients s c of None \<Rightarrow> s | Some cur \<Rightarrow> snd (remove_indexes it cur (h1, s)))"
  shows "snd (snd (store_add it now (Some a) (h, s))) =
    s2\<lparr>st_clients := (st_clients s2)(c \<mapsto> a), st_beats := (st_beats s2)(c \<mapsto> now),
       st_users := (if login_key h a = [] then st_users s2 else set_add (login_key h a) c (st_users s2))\<rparr>"
    "cl_id (hp_clients (fst (snd (store_add it now (Some a) (h, s)))) a) = c"
    "cl_user (hp_clients (fst (snd (store_add it now (Some a) (h, s)))) a) = login_key h a"
proof -
  note adm = admit_client_ok [OF assms(1,2)]
  obtain h2 s2' where rm: "(case st_clients s c of None \<Rightarrow> (h1, s) | Some cur \<Rightarrow> remove_indexes it cur (h1, s)) = (h2, s2')"
    by fastforce
  have s2': "s2' = s2" using rm by (auto simp: s2 split: option.splits)
  have k2: "same_keys h1 h2"
    using rm remove_indexes_heap [of h1 it _ s] by (auto split: option.splits) (metis fst_conv)
  note sk = same_keysD [OF k2]
  define t where "t = s2\<lparr>st_clients := (st_clients s2)(c \<mapsto> a)\<rparr>"
  obtain h4 s4 where au: "add_user_index a (h2, t) = (h4, s4)" by fastforce
  have "s4 = snd (add_user_index a (h2, t))" by (simp add: au)
  moreover have "user_key h2 a = login_key h a" using adm(5,6) sk by (simp add: settled_def)
  ultimately have s4: "s4 = (if login_key h a = [] then t else t\<lparr>st_users := set_add (login_key h a) c (st_users s2)\<rparr>)"
    using adm(4) sk assms(3) by (simp add: add_user_index_store t_def)
  have k4: "hp_clients h4 = hp_clients h1"
    using same_keysD(1) [OF add_user_index_heap [of h2 a t]] au sk by simp
  have out: "store_add it now (Some a) (h, s) = (None, (h4, s4\<lparr>st_beats := (st_beats s4)(c \<mapsto> now)\<rparr>))"
    using assms(3,4) rm au s2' adm(4) by (simp add: store_add_def assms(2) Let_def t_def)
  show "snd (snd (store_add it now (Some a) (h, s))) =
    s2\<lparr>st_clients := (st_clients s2)(c \<mapsto> a), st_beats := (st_beats s2)(c \<mapsto> now),
       st_users := (if login_key h a = [] then st_users s2 else set_add (login_key h a) c (st_users s2))\<rparr>"
    unfolding out by (simp add: s4 t_def)
  show "cl_id (hp_clients (fst (snd (store_add it now (Some a) (h, s)))) a) = c"
    "cl_user (hp_clients (fst (snd (store_add it now (Some a) (h, s)))) a) = login_key h a"
    unfolding out using adm(4,5) by (simp_all add: k4 assms(3))
qed

lemma sample_keys: "login_key sample_heap 0 = ''u1''" "cl_id (hp_clients sample_heap 0) = ''c1''"
  by (simp_all add: sample_heap_def new_client_def login_key_def u1_trimmed)

lemma sample_state_value:
  "snd sample_state = \<lparr>st_clients = [''c1'' \<mapsto> 0], st_users = [''u1'' \<mapsto> {''c1''}], st_rooms = Map.empty,
     st_client_rooms = Map.empty, st_beats = [''c1'' \<mapsto> 5]\<rparr>"
  "cl_id (hp_clients (fst sample_state) 0) = ''c1''" "cl_user (hp_clients (fst sample_state) 0) = ''u1''"
proof -
  note add = store_add_store [OF sample_heap_ok refl sample_keys(2) _ refl, where s = new_store and it = sorted_list_of_set and now = 5]
  show "snd sample_state = \<lparr>st_clients = [''c1'' \<mapsto> 0], st_users = [''u1'' \<mapsto> {''c1''}], st_rooms = Map.empty,
     st_client_rooms = Map.empty, st_beats = [''c1'' \<mapsto> 5]\<rparr>"
    unfolding sample_state_def run_op.simps by (subst add(1)) (simp_all add: sample_keys new_store_def set_add_def members_def)
  show "cl_id (hp_clients (fst sample_state) 0) = ''c1''" "cl_user (hp_clients (fst sample_state) 0) = ''u1''"
    unfolding sample_state_def run_op.simps by (subst add(2), simp_all) (subst add(3), simp_all add: sample_keys)
qed

theorem connections_exact_witness:
  "set (get_user_clients sorted_list_of_set (snd sample_state) ''u1'') = {0}"
proof -
  obtain h s where hs: "sample_state = (h, s)" by (cases sample_state)
  have "reaches sorted_list_of_set (h, s)" using sample_reaches(2) by (simp add: hs)
  note exact = connections_exact [OF walks_sorted this]
  have sv: "st_clients s = [''c1'' \<mapsto> 0]" "cl_user (hp_clients h 0) = ''u1''"
    using sample_state_value by (simp_all add: hs)
  have "set (get_user_clients sorted_list_of_set s ''u1'') =
      {a. ''u1'' \<noteq> [] \<and> (\<exists>c. st_clients s c = Some a \<and> cl_user (hp_clients h a) = ''u1'')}"
    using exact by blast
  also have "\<dots> = {0}" by (auto simp: sv split: if_splits)
  finally show ?thesis by (simp add: hs)
qed

text \<open>
  Without the restriction on callers the user index goes stale: a caller that renames the user of a
  client in the store, through the pointer it still has, and adds it again, leaves the client listed
  under the old user, since \<open>Add\<close> removes the indexes of the client as it is now.
\<close>

definition renamed_heap :: "unit rl_heap" where
  "renamed_heap = write_client 0 (\<lambda>c. c\<lparr>cl_identity := None, cl_user := ''u2''\<rparr>) (fst sample_state)"

lemma renamed_client_stays_listed:
  "0 \<in> set (get_user_clients sorted_list_of_set
      (snd (snd (store_add sorted_list_of_set 6 (Some 0) (renamed_heap, snd sample_state)))) ''u1'')"
proof -
  have t: "trim_space ''u2'' = ''u2''" by (rule trim_space_printable) simp
  have ok: "heap_ok renamed_heap"
    using store_okD(1) [of "fst sample_state" "snd sample_state"] reaches_ok [OF sample_reaches(2) walks_sorted]
    by (auto simp: renamed_heap_def heap_ok_def)
  have k: "login_key renamed_heap 0 = ''u2''" "cl_id (hp_clients renamed_heap 0) = ''c1''"
    by (simp_all add: renamed_heap_def login_key_def t sample_state_value)
  obtain h1 where h1: "admit_client 6 0 renamed_heap = h1" by simp
  note adm = admit_client_ok [OF ok h1]
  have u: "user_key h1 0 = ''u2''" "cl_id (hp_clients h1 0) = ''c1''" using adm(4-6) k by (simp_all add: settled_def)
  note add = store_add_store(1) [OF ok h1 k(2) _ refl, where s = "snd sample_state" and it = sorted_list_of_set]
  show ?thesis
    by (subst add) (simp_all add: k u sample_state_value(1) remove_indexes_store leave_all_rooms_def set_add_def
        set_del_def members_def get_user_clients_def List.map_filter_def)
qed

end
