(* ===== verification/Realtime_Gateway.thy ===== *)
theory Realtime_Gateway
  imports Realtime_Presence
begin

text \<open>
  The dispatch of events to connections: \<^verbatim>\<open>pkg/realtime/gateway/dispatcher.go\<close>, over the interface
  \<open>realtime.Registry\<close> of \<^verbatim>\<open>core/realtime/registry.go\<close>.

  The read operations the dispatcher calls are a record of functions, so it runs over any registry;
  the contract it needs is a locale, interpreted on the store of \<open>Realtime_Store\<close>.  A context is
  read once per call: one that ends during a call counts as ending after it.  \<open>pick\<close> decides the
  \<open>select\<close> of \<open>pushClient\<close> when both the channel and the context are ready.  The caller's event is
  normalised in place, so it is part of the results.
\<close>

section \<open>The dispatcher\<close>

record 's registry_view =
  rg_get :: "'s \<Rightarrow> string \<Rightarrow> nat option"
  rg_user_clients :: "'s \<Rightarrow> string \<Rightarrow> nat list"
  rg_room_clients :: "'s \<Rightarrow> string \<Rightarrow> nat list"

type_synonym 'd pushed = "rl_error option \<times> 'd rl_event option \<times> 'd rl_heap"

definition update_chan :: "nat \<Rightarrow> ('d rl_chan \<Rightarrow> 'd rl_chan) \<Rightarrow> 'd rl_heap \<Rightarrow> 'd rl_heap" where
  "update_chan k f h = h\<lparr>hp_chans := (hp_chans h)(k := f (hp_chans h k))\<rparr>"

definition event_value :: "'d rl_event option \<Rightarrow> 'd rl_event" where
  "event_value evt = (case evt of None \<Rightarrow> empty_event | Some e \<Rightarrow> normalize_event e)"

definition push_client :: "rl_ctx \<Rightarrow> bool \<Rightarrow> nat option \<Rightarrow> 'd rl_event option \<Rightarrow> 'd rl_heap \<Rightarrow> 'd pushed" where
  "push_client ctx pick client evt h =
     (case client of None \<Rightarrow> (Some RErrNilClient, evt, h)
      | Some a \<Rightarrow>
        (case cl_ch (hp_clients h a) of None \<Rightarrow> (Some RErrClientChannelUnavailable, evt, h)
         | Some k \<Rightarrow>
           let event = event_value evt; evt' = map_option normalize_event evt; ready = chan_ready (hp_chans h k) in
           (case ctx_err ctx of
              None \<Rightarrow> if ready then (None, evt', update_chan k (chan_send event) h)
                      else (Some RErrClientBufferFull, evt', h)
            | Some e \<Rightarrow> if ready \<and> pick then (None, evt', update_chan k (chan_send event) h)
                        else (Some e, evt', h))))"

text \<open>The loop of \<open>PushUser\<close> and \<open>PushRoom\<close>; the errors of single clients are dropped.\<close>

fun push_each :: "rl_ctx \<Rightarrow> bool \<Rightarrow> nat list \<Rightarrow> 'd rl_event option \<Rightarrow> 'd rl_heap \<Rightarrow> 'd rl_event option \<times> 'd rl_heap" where
  "push_each ctx pick [] evt h = (evt, h)"
| "push_each ctx pick (a # as) evt h =
     (case push_client ctx pick (Some a) evt h of (_, evt', h') \<Rightarrow> push_each ctx pick as evt' h')"

definition push_user ::
  "'s registry_view option \<Rightarrow> 's \<Rightarrow> rl_ctx \<Rightarrow> bool \<Rightarrow> string \<Rightarrow> 'd rl_event option \<Rightarrow> 'd rl_heap \<Rightarrow> 'd pushed" where
  "push_user reg s ctx pick u evt h =
     (case ctx_err ctx of Some e \<Rightarrow> (Some e, evt, h)
      | None \<Rightarrow> (case reg of None \<Rightarrow> (Some RErrNilClient, evt, h)
         | Some rg \<Rightarrow> (None, push_each ctx pick (rg_user_clients rg s u) evt h)))"

definition push_client_id ::
  "'s registry_view option \<Rightarrow> 's \<Rightarrow> rl_ctx \<Rightarrow> bool \<Rightarrow> string \<Rightarrow> 'd rl_event option \<Rightarrow> 'd rl_heap \<Rightarrow> 'd pushed" where
  "push_client_id reg s ctx pick c evt h =
     (case ctx_err ctx of Some e \<Rightarrow> (Some e, evt, h)
      | None \<Rightarrow> (case reg of None \<Rightarrow> (Some RErrNilClient, evt, h)
         | Some rg \<Rightarrow> (case rg_get rg s c of None \<Rightarrow> (Some RErrClientNotFound, evt, h)
             | Some a \<Rightarrow> push_client ctx pick (Some a) evt h)))"

definition push_room ::
  "'s registry_view option \<Rightarrow> 's \<Rightarrow> rl_ctx \<Rightarrow> bool \<Rightarrow> string \<Rightarrow> 'd rl_event option \<Rightarrow> 'd rl_heap \<Rightarrow> 'd pushed" where
  "push_room reg s ctx pick r evt h =
     (case ctx_err ctx of Some e \<Rightarrow> (Some e, evt, h)
      | None \<Rightarrow> (case reg of None \<Rightarrow> (Some RErrNilClient, evt, h)
         | Some rg \<Rightarrow> (None, push_each ctx pick (rg_room_clients rg s r) evt h)))"

definition broadcast ::
  "'s registry_view option \<Rightarrow> 's \<Rightarrow> rl_ctx \<Rightarrow> bool \<Rightarrow> 'd rl_event option \<Rightarrow> 'd rl_heap \<Rightarrow> 'd pushed" where
  "broadcast reg s ctx pick evt h = push_room reg s ctx pick [] evt h"

definition dispatch_client ::
  "'s registry_view option \<Rightarrow> 's \<Rightarrow> rl_ctx \<Rightarrow> bool \<Rightarrow> string \<Rightarrow> 'd rl_event option \<Rightarrow> 'd rl_heap \<Rightarrow> 'd pushed" where
  "dispatch_client reg s ctx pick c evt h = push_client_id reg s ctx pick c evt h"

definition first_of :: "string \<Rightarrow> string \<Rightarrow> string" where
  "first_of a b = (if a = [] then b else a)"

definition dispatch_local ::
  "'s registry_view option \<Rightarrow> 's \<Rightarrow> rl_ctx \<Rightarrow> bool \<Rightarrow> 'd rl_event option \<Rightarrow> 'd rl_heap \<Rightarrow> 'd pushed" where
  "dispatch_local reg s ctx pick evt0 h =
     (case ctx_err ctx of Some e \<Rightarrow> (Some e, evt0, h)
      | None \<Rightarrow>
        (case evt0 of None \<Rightarrow> (Some RErrEmptyEvent, evt0, h)
         | Some e0 \<Rightarrow>
           let e = normalize_event e0; evt = Some e in
           (case rv_target e of None \<Rightarrow> broadcast reg s ctx pick evt h
            | Some t \<Rightarrow>
                if tg_type t = TargetUser then push_user reg s ctx pick (first_of (tg_user t) (tg_id t)) evt h
                else if tg_type t = TargetRoom then push_room reg s ctx pick (first_of (tg_room t) (tg_id t)) evt h
                else if tg_type t = TargetBroadcast then broadcast reg s ctx pick evt h
                else if tg_type t = ''client'' then dispatch_client reg s ctx pick (first_of (tg_client t) (tg_id t)) evt h
                else (Some RErrUnsupportedTopic, evt, h))))"

definition dispatch_event ::
  "'s registry_view option \<Rightarrow> 's \<Rightarrow> rl_ctx \<Rightarrow> bool \<Rightarrow> 'd rl_event option \<Rightarrow> 'd rl_heap \<Rightarrow> 'd pushed" where
  "dispatch_event reg s ctx pick evt h = dispatch_local reg s ctx pick evt h"

section \<open>What a push does to the channels\<close>

text \<open>A channel after one more event was offered to it.\<close>

definition offered :: "'d rl_event \<Rightarrow> 'd rl_chan \<Rightarrow> 'd rl_chan" where
  "offered e c = (if chan_ready c then chan_send e c else c)"

lemma offered_sent: "ch_sent (offered e c) = ch_sent c @ (if chan_ready c then [e] else [])"
  by (simp add: offered_def chan_send_def)

lemma update_chan_sel [simp]:
  "hp_clients (update_chan k f h) = hp_clients h" "hp_idents (update_chan k f h) = hp_idents h"
  "hp_next (update_chan k f h) = hp_next h" "hp_chans (update_chan k f h) = (hp_chans h)(k := f (hp_chans h k))"
  by (simp_all add: update_chan_def)

lemma event_value_again [simp]: "event_value (map_option normalize_event evt) = event_value evt"
  by (simp add: event_value_def split: option.split)

lemma push_client_live:
  assumes "ctx_err ctx = None" "push_client ctx pick (Some a) evt h = (r, evt', h')"
  shows "hp_clients h' = hp_clients h" "event_value evt' = event_value evt"
    "hp_chans h' k = (if cl_ch (hp_clients h a) = Some k then offered (event_value evt) (hp_chans h k) else hp_chans h k)"
    "r = (case cl_ch (hp_clients h a) of None \<Rightarrow> Some RErrClientChannelUnavailable
          | Some k \<Rightarrow> if chan_ready (hp_chans h k) then None else Some RErrClientBufferFull)"
  using assms by (auto simp: push_client_def Let_def offered_def split: option.splits if_splits)

text \<open>No two of the clients have one channel.\<close>

definition own_channels :: "'d rl_heap \<Rightarrow> nat set \<Rightarrow> bool" where
  "own_channels h A \<longleftrightarrow> (\<forall>a\<in>A. \<forall>b\<in>A. a \<noteq> b \<longrightarrow> cl_ch (hp_clients h a) \<noteq> None \<longrightarrow>
     cl_ch (hp_clients h a) \<noteq> cl_ch (hp_clients h b))"

lemma push_each_live:
  assumes "ctx_err ctx = None" "distinct as" "own_channels h (set as)" "push_each ctx pick as evt h = (evt', h')"
  shows "hp_clients h' = hp_clients h \<and>
    hp_chans h' k = (if \<exists>a\<in>set as. cl_ch (hp_clients h a) = Some k
                     then offered (event_value evt) (hp_chans h k) else hp_chans h k)"
  using assms(2-4)
proof (induction as arbitrary: evt h)
  case (Cons a as)
  obtain r evt1 h1 where p: "push_client ctx pick (Some a) evt h = (r, evt1, h1)" by (metis prod_cases3)
  note one = push_client_live [OF assms(1) p]
  have "own_channels h1 (set as)" using Cons.prems(2) by (simp add: own_channels_def one(1))
  moreover have "push_each ctx pick as evt1 h1 = (evt', h')" using Cons.prems(3) p by simp
  ultimately have IH: "hp_clients h' = hp_clients h1 \<and> hp_chans h' k =
      (if \<exists>a\<in>set as. cl_ch (hp_clients h1 a) = Some k then offered (event_value evt1) (hp_chans h1 k) else hp_chans h1 k)"
    using Cons.IH Cons.prems(1) by simp
  have "\<not> (cl_ch (hp_clients h a) = Some k \<and> (\<exists>b\<in>set as. cl_ch (hp_clients h b) = Some k))"
    using Cons.prems(1,2) by (auto simp: own_channels_def)
  with IH show ?case by (auto simp: one(1-3))
qed simp

lemma distinct_targets: "TargetUser \<noteq> TargetRoom" "TargetUser \<noteq> TargetBroadcast" "TargetRoom \<noteq> TargetBroadcast"
  by (simp_all add: TargetUser_def TargetRoom_def TargetBroadcast_def)

section \<open>The contract of a registry\<close>

text \<open>
  What the dispatcher relies on: in a good state the three look-ups agree on who is connected, as
  which user, in which rooms, and name each connection once.
\<close>

locale client_registry =
  fixes view :: "'s registry_view"
    and good :: "'s \<Rightarrow> bool"
    and connected :: "'s \<Rightarrow> string \<Rightarrow> nat option"
    and user_of :: "'s \<Rightarrow> nat \<Rightarrow> string"
    and in_room :: "'s \<Rightarrow> string \<Rightarrow> string \<Rightarrow> bool"
  assumes get_connected: "good s \<Longrightarrow> rg_get view s c = connected s c"
    and user_clients: "good s \<Longrightarrow> set (rg_user_clients view s u) =
          {a. u \<noteq> [] \<and> (\<exists>c. connected s c = Some a \<and> user_of s a = u)} \<and> distinct (rg_user_clients view s u)"
    and room_clients: "good s \<Longrightarrow> set (rg_room_clients view s r) =
          {a. \<exists>c. connected s c = Some a \<and> (r = [] \<or> in_room s r c)} \<and> distinct (rg_room_clients view s r)"
begin

text \<open>Who an event is for.\<close>

definition audience :: "'s \<Rightarrow> target option \<Rightarrow> nat set" where
  "audience s t =
     {a. \<exists>c. connected s c = Some a \<and>
       (case t of None \<Rightarrow> True
        | Some t \<Rightarrow>
            if tg_type t = TargetUser then first_of (tg_user t) (tg_id t) \<noteq> [] \<and> user_of s a = first_of (tg_user t) (tg_id t)
            else if tg_type t = TargetRoom then first_of (tg_room t) (tg_id t) = [] \<or> in_room s (first_of (tg_room t) (tg_id t)) c
            else if tg_type t = TargetBroadcast then True
            else tg_type t = ''client'' \<and> c = first_of (tg_client t) (tg_id t))}"

lemma push_list_delivers:
  assumes "ctx_err ctx = None" "own_channels h A" "set as = B" "distinct as" "B \<subseteq> A"
    and "push_each ctx pick as (Some (normalize_event e)) h = (evt', h')"
  shows "hp_chans h' k = (if \<exists>a\<in>B. cl_ch (hp_clients h a) = Some k
    then offered (normalize_event e) (hp_chans h k) else hp_chans h k)"
proof -
  have "own_channels h (set as)" using assms(2,3,5) by (auto simp: own_channels_def)
  from push_each_live [OF assms(1,4) this assms(6), of k] show ?thesis
    by (simp add: assms(3) event_value_def)
qed

lemma dispatch_delivers:
  assumes "good s" "ctx_err ctx = None" "own_channels h {a. \<exists>c. connected s c = Some a}"
    and "dispatch_local (Some view) s ctx pick (Some e) h = (r, evt', h')"
  shows "hp_chans h' k = (if \<exists>a\<in>audience s (rv_target e). cl_ch (hp_clients h a) = Some k
    then offered (normalize_event e) (hp_chans h k) else hp_chans h k)"
proof -
  let ?A = "{a. \<exists>c. connected s c = Some a}"
  note deliver = push_list_delivers [OF assms(2,3)]
  have room: "hp_chans h' k = (if \<exists>a. (\<exists>c. connected s c = Some a \<and> (q = [] \<or> in_room s q c)) \<and> cl_ch (hp_clients h a) = Some k
      then offered (normalize_event e) (hp_chans h k) else hp_chans h k)"
    if "push_room (Some view) s ctx pick q (Some (normalize_event e)) h = (r, evt', h')" for q
  proof -
    have p: "push_each ctx pick (rg_room_clients view s q) (Some (normalize_event e)) h = (evt', h')"
      using that assms(2) by (simp add: push_room_def)
    have "{a. \<exists>c. connected s c = Some a \<and> (q = [] \<or> in_room s q c)} \<subseteq> ?A" by auto
    from deliver [OF conjunct1 [OF room_clients [OF assms(1)]] conjunct2 [OF room_clients [OF assms(1)]] this p, of k]
    show ?thesis by simp
  qed
  have user: "hp_chans h' k = (if \<exists>a. (q \<noteq> [] \<and> (\<exists>c. connected s c = Some a \<and> user_of s a = q)) \<and> cl_ch (hp_clients h a) = Some k
      then offered (normalize_event e) (hp_chans h k) else hp_chans h k)"
    if "push_user (Some view) s ctx pick q (Some (normalize_event e)) h = (r, evt', h')" for q
  proof -
    have p: "push_each ctx pick (rg_user_clients view s q) (Some (normalize_event e)) h = (evt', h')"
      using that assms(2) by (simp add: push_user_def)
    have "{a. q \<noteq> [] \<and> (\<exists>c. connected s c = Some a \<and> user_of s a = q)} \<subseteq> ?A" by auto
    from deliver [OF conjunct1 [OF user_clients [OF assms(1)]] conjunct2 [OF user_clients [OF assms(1)]] this p, of k]
    show ?thesis by simp
  qed
  have one: "hp_chans h' k = (if \<exists>a. connected s q = Some a \<and> cl_ch (hp_clients h a) = Some k
      then offered (normalize_event e) (hp_chans h k) else hp_chans h k)"
    if "push_client_id (Some view) s ctx pick q (Some (normalize_event e)) h = (r, evt', h')" for q
  proof (cases "connected s q")
    case None
    with that assms(1,2) show ?thesis by (simp add: push_client_id_def get_connected)
  next
    case (Some a)
    with that assms(1,2) have "push_client ctx pick (Some a) (Some (normalize_event e)) h = (r, evt', h')"
      by (simp add: push_client_id_def get_connected)
    from push_client_live(3) [OF assms(2) this, of k] Some show ?thesis by (simp add: event_value_def)
  qed
  note defs = dispatch_local_def broadcast_def dispatch_client_def audience_def
  show ?thesis
  proof (cases "rv_target e")
    case None
    with assms(2,4) have "push_room (Some view) s ctx pick [] (Some (normalize_event e)) h = (r, evt', h')"
      by (simp add: defs)
    from room [OF this] None show ?thesis by (auto simp: audience_def)
  next
    case (Some t)
    consider "tg_type t = TargetUser" | "tg_type t = TargetRoom" | "tg_type t = TargetBroadcast" | "tg_type t = ''client''"
      | "tg_type t \<notin> {TargetUser, TargetRoom, TargetBroadcast, ''client''}" by blast
    then show ?thesis
    proof cases
      case 1
      with Some assms(2,4) have "push_user (Some view) s ctx pick (first_of (tg_user t) (tg_id t)) (Some (normalize_event e)) h = (r, evt', h')"
        by (simp add: defs)
      from user [OF this] Some 1 show ?thesis by (simp add: audience_def) blast
    next
      case 2
      with Some assms(2,4) have "push_room (Some view) s ctx pick (first_of (tg_room t) (tg_id t)) (Some (normalize_event e)) h = (r, evt', h')"
        using distinct_targets by (simp add: defs)
      from room [OF this] Some 2 distinct_targets show ?thesis by (simp add: audience_def)
    next
      case 3
      with Some assms(2,4) have "push_room (Some view) s ctx pick [] (Some (normalize_event e)) h = (r, evt', h')"
        using distinct_targets by (simp add: defs)
      from room [OF this] Some 3 distinct_targets show ?thesis by (simp add: audience_def)
    next
      case 4
      then have no: "''client'' \<noteq> TargetUser" "''client'' \<noteq> TargetRoom" "''client'' \<noteq> TargetBroadcast"
        by (simp_all add: TargetUser_def TargetRoom_def TargetBroadcast_def)
      with Some 4 assms(2,4) have "push_client_id (Some view) s ctx pick (first_of (tg_client t) (tg_id t)) (Some (normalize_event e)) h = (r, evt', h')"
        by (simp add: defs)
      from one [OF this] Some 4 no show ?thesis by (simp add: audience_def)
    next
      case 5
      with Some assms(2,4) have "h' = h" by (simp add: defs)
      with Some 5 show ?thesis by (simp add: audience_def)
    qed
  qed
qed

end

lemma dispatch_error_delivers_nothing:
  assumes "dispatch_local reg s ctx pick evt h = (Some err, evt', h')"
  shows "h' = h"
  using assms
  by (auto simp: dispatch_local_def broadcast_def dispatch_client_def push_user_def push_room_def push_client_id_def
      push_client_def Let_def split: option.splits if_splits)

section \<open>The dispatcher over the memory store\<close>

definition memory_view :: "(key_order \<times> 'd rl_state) registry_view" where
  "memory_view = \<lparr>rg_get = (\<lambda>(it, h, s) c. store_get s c),
     rg_user_clients = (\<lambda>(it, h, s) u. get_user_clients it s u),
     rg_room_clients = (\<lambda>(it, h, s) r. get_room_clients it s r)\<rparr>"

interpretation mem: client_registry memory_view "\<lambda>(it, st). walks it \<and> reaches it st"
  "\<lambda>(it, h, s) c. st_clients s c" "\<lambda>(it, h, s) a. cl_user (hp_clients h a)"
  "\<lambda>(it, h, s) r c. c \<in> members (st_rooms s) r"
proof (unfold_locales, goal_cases)
  case (1 st c)
  then show ?case by (auto simp: memory_view_def store_get_def)
next
  case (2 st u)
  then obtain it h s where "st = (it, h, s)" "walks it" "reaches it (h, s)" by (cases st) auto
  with look_ups_exact(1) show ?case by (simp add: memory_view_def)
next
  case (3 st r)
  then obtain it h s where "st = (it, h, s)" "walks it" "reaches it (h, s)" by (cases st) auto
  with look_ups_exact(2) show ?case by (simp add: memory_view_def)
qed

text \<open>Whether an event with a target is for a stored client.\<close>

definition addressed :: "'d rl_state \<Rightarrow> target option \<Rightarrow> string \<Rightarrow> nat \<Rightarrow> bool" where
  "addressed st t c a =
     (case t of None \<Rightarrow> True
      | Some t \<Rightarrow>
          let u = first_of (tg_user t) (tg_id t); r = first_of (tg_room t) (tg_id t) in
          if tg_type t = TargetUser then u \<noteq> [] \<and> cl_user (hp_clients (fst st) a) = u
          else if tg_type t = TargetRoom then r = [] \<or> c \<in> members (st_rooms (snd st)) r
          else if tg_type t = TargetBroadcast then True
          else tg_type t = ''client'' \<and> c = first_of (tg_client t) (tg_id t))"

lemma audience_addressed:
  "mem.audience (it, h, s) t = {a. \<exists>c. st_clients s c = Some a \<and> addressed (h, s) t c a}"
  by (simp add: mem.audience_def addressed_def Let_def split: option.split)

section \<open>Properties\<close>

text \<open>
  C11: who receives an event.  Dispatching over a reachable store with a live context puts exactly
  one normalised copy of the event on the channel of every addressed connection that is ready for
  it and changes no other channel: the clients of the named user, the connected members of the
  named room (everybody when no room is named), the named client, or everybody.  When an error is
  returned nothing was sent.
\<close>

theorem dispatch_reaches_audience:
  assumes "walks it" "reaches it (h, s)" "ctx_err ctx = None"
    and "own_channels h {a. \<exists>c. st_clients s c = Some a}"
    and "dispatch_local (Some memory_view) (it, h, s) ctx pick (Some e) h = (r, evt', h')"
  shows "(r \<noteq> None \<longrightarrow> h' = h) \<and>
    (\<forall>k. ch_sent (hp_chans h' k) = ch_sent (hp_chans h k) @
       (if chan_ready (hp_chans h k) \<and>
           (\<exists>c a. st_clients s c = Some a \<and> addressed (h, s) (rv_target e) c a \<and> cl_ch (hp_clients h a) = Some k)
        then [normalize_event e] else []))"
proof
  show "r \<noteq> None \<longrightarrow> h' = h" using dispatch_error_delivers_nothing assms(5) by (cases r) auto
  have good: "case (it, h, s) of (it, st) \<Rightarrow> walks it \<and> reaches it st" using assms(1,2) by simp
  have own: "own_channels h {a. \<exists>c. (case (it, h, s) of (it, h, s) \<Rightarrow> \<lambda>c. st_clients s c) c = Some a}"
    using assms(4) by simp
  show "\<forall>k. ch_sent (hp_chans h' k) = ch_sent (hp_chans h k) @
       (if chan_ready (hp_chans h k) \<and>
           (\<exists>c a. st_clients s c = Some a \<and> addressed (h, s) (rv_target e) c a \<and> cl_ch (hp_clients h a) = Some k)
        then [normalize_event e] else [])"
    unfolding mem.dispatch_delivers [OF good assms(3) own assms(5)] audience_addressed
    by (auto simp: offered_sent)
qed

text \<open>A room event without a room, to the sample client, which is in no room.\<close>

definition blank_room_event :: "unit rl_event" where
  "blank_room_event = empty_event\<lparr>rv_action := ''note'',
     rv_target := Some \<lparr>tg_type = TargetRoom, tg_id = [], tg_user = [], tg_tenant = 0, tg_room = [], tg_client = []\<rparr>\<rparr>"

lemma sample_channel:
  "cl_ch (hp_clients (fst sample_state) 0) = Some 1 \<and> hp_chans (fst sample_state) 1 = make_chan 64"
  by (simp add: sample_state_def store_add_def sample_heap_def new_client_def new_store_def admit_client_def
      alloc_chan_def current_identity_def alloc_identity_def add_user_index_def client_user_id_def u1_trimmed
      normalize_at_def identity_key_def write_client_def new_user_identity_def Let_def)

theorem dispatch_reaches_audience_witness:
  "ch_sent (hp_chans (snd (snd (dispatch_local (Some memory_view) (sorted_list_of_set, sample_state) NilCtx False
     (Some blank_room_event) (fst sample_state)))) 1) = [normalize_event blank_room_event]"
proof -
  obtain h s where hs: "sample_state = (h, s)" by (cases sample_state)
  have sv: "st_clients s = [''c1'' \<mapsto> 0]" "cl_ch (hp_clients h 0) = Some 1" "hp_chans h 1 = make_chan 64"
    using sample_state_value(1) sample_channel by (simp_all add: hs)
  have reach: "reaches sorted_list_of_set (h, s)" using sample_reaches(2) by (simp add: hs)
  have own: "own_channels h {a. \<exists>c. st_clients s c = Some a}" by (auto simp: own_channels_def sv split: if_splits)
  obtain r evt' h' where run: "dispatch_local (Some memory_view) (sorted_list_of_set, h, s) NilCtx False
      (Some blank_room_event) h = (r, evt', h')" by (metis prod_cases3)
  have "\<exists>c a. st_clients s c = Some a \<and> addressed (h, s) (rv_target blank_room_event) c a \<and> cl_ch (hp_clients h a) = Some 1"
    using distinct_targets by (auto simp: sv addressed_def blank_room_event_def first_of_def)
  moreover have "chan_ready (make_chan 64 :: unit rl_chan)" "ch_sent (make_chan 64 :: unit rl_chan) = []"
    by (simp_all add: chan_ready_def make_chan_def)
  ultimately have "ch_sent (hp_chans h' 1) = [normalize_event blank_room_event]"
    using dispatch_reaches_audience [OF walks_sorted reach _ own run] by (simp add: sv del: One_nat_def)
  then show ?thesis by (simp add: hs run)
qed

end
