(* ===== verification/Event_Bus.thy ===== *)
theory Event_Bus
  imports Trace_Context "HOL-Library.Multiset"
begin

text \<open>
  The event bus: \<^verbatim>\<open>core/eventbus\<close> (\<open>event.go\<close>, \<open>middleware.go\<close>, the context part of
  \<open>tracing.go\<close>) and the in-memory bus \<^verbatim>\<open>pkg/eventbus/memory/bus.go\<close>.

  Handlers are named by numbers; \<open>env\<close> says what each does.  A handler runs without the lock of
  the bus and may do anything to it, so it is a function on the whole bus, which holds the rest of
  the world in \<open>bs_world\<close>.  The context of a subscription is live until its identifier is in
  \<open>bs_cancelled\<close>: by \<open>Close\<close> of the subscription, by \<open>Close\<close> of the bus, or because the context
  given to \<open>Subscribe\<close> ended.  The maps of subscribers are
  association lists, and \<open>it\<close> is the order in which one is walked.  Spans and log
  output are not modelled, and the counter of identifiers does not wrap.
\<close>

datatype bus_error =
    BusErrDefaultNotInitialized | BusErrClosed | BusErrUnsupported | BusErrBusNotFound
  | BusErrNilHandler | BusErrEmptyTopic
  | BusHandlerError string bus_error | BusForeign string

datatype bus_outcome = BusReturned "bus_error option" | BusPanicked

section \<open>Events (event.go)\<close>

record bus_event =
  be_id :: string
  be_topic :: string
  be_headers :: headers
  be_payload :: string
  be_time :: int

text \<open>\<open>eventHeadersFromContext\<close>: the identifiers of the context, overridden by the given headers.\<close>

definition event_headers :: "trace_ctx \<Rightarrow> headers \<Rightarrow> headers" where
  "event_headers c hs = foldl (\<lambda>out kv. AList.update (fst kv) (snd kv) out) (headers_from_context c) hs"

definition new_bus_event :: "string \<Rightarrow> int \<Rightarrow> trace_ctx \<Rightarrow> string \<Rightarrow> string \<Rightarrow> headers \<Rightarrow> bus_error + bus_event" where
  "new_bus_event uuid now c topic payload hs =
     (if topic = [] then Inl BusErrEmptyTopic
      else Inr \<lparr>be_id = uuid, be_topic = topic, be_headers = event_headers c hs, be_payload = payload, be_time = now\<rparr>)"

definition context_with_event :: "trace_ctx \<Rightarrow> bus_event option \<Rightarrow> trace_ctx" where
  "context_with_event c ev = (case ev of None \<Rightarrow> c | Some e \<Rightarrow> context_from_headers c (be_headers e))"

definition event_topic :: "bus_event option \<Rightarrow> string" where
  "event_topic ev = (case ev of None \<Rightarrow> [] | Some e \<Rightarrow> be_topic e)"

section \<open>Handlers and middlewares (middleware.go)\<close>

type_synonym 'b handling = "trace_ctx \<Rightarrow> bus_event option \<Rightarrow> 'b \<Rightarrow> bus_outcome \<times> 'b"

fun chain_bus :: "'b handling \<Rightarrow> ('b handling \<Rightarrow> 'b handling) option list \<Rightarrow> 'b handling" where
  "chain_bus h [] = h"
| "chain_bus h (None # ms) = chain_bus h ms"
| "chain_bus h (Some m # ms) = m (chain_bus h ms)"

definition recover_bus :: "'b handling \<Rightarrow> 'b handling" where
  "recover_bus nxt c ev b =
     (case nxt c ev b of (BusPanicked, b') \<Rightarrow> (BusReturned None, b') | r \<Rightarrow> r)"

definition tracing_bus :: "'b handling \<Rightarrow> 'b handling" where
  "tracing_bus nxt c ev b = nxt (context_with_event c ev) ev b"

definition default_bus_middlewares :: "('b handling \<Rightarrow> 'b handling) option list" where
  "default_bus_middlewares = [Some recover_bus, Some tracing_bus]"

definition safe_handle :: "trace_ctx \<Rightarrow> bus_event option \<Rightarrow> 'b handling option \<Rightarrow> 'b \<Rightarrow> bus_error option \<times> 'b" where
  "safe_handle c ev handler b =
     (case handler of None \<Rightarrow> (Some BusErrNilHandler, b)
      | Some h \<Rightarrow>
        (case h (context_with_event c ev) ev b of
           (BusPanicked, b') \<Rightarrow> (None, b')
         | (BusReturned None, b') \<Rightarrow> (None, b')
         | (BusReturned (Some e), b') \<Rightarrow> (Some (BusHandlerError (event_topic ev) e), b')))"

section \<open>The bus (memory/bus.go)\<close>

record 'w bus =
  bs_closed :: bool
  bs_next :: nat
  bs_subs :: "(string \<times> (nat \<times> nat) list) list"
  bs_cancelled :: "nat set"
  bs_unsubscribed :: "nat set"
  bs_world :: 'w

definition new_bus :: "'w \<Rightarrow> 'w bus" where
  "new_bus w = \<lparr>bs_closed = False, bs_next = 0, bs_subs = [], bs_cancelled = {}, bs_unsubscribed = {}, bs_world = w\<rparr>"

definition topic_subs :: "'w bus \<Rightarrow> string \<Rightarrow> (nat \<times> nat) list" where
  "topic_subs b topic = (case map_of (bs_subs b) topic of None \<Rightarrow> [] | Some m \<Rightarrow> m)"

text \<open>A subscription is its topic and its identifier; \<open>ctx_error\<close> is \<open>ctx.Err()\<close>.\<close>

definition subscribe ::
  "bus_error option \<Rightarrow> string \<Rightarrow> nat option \<Rightarrow> 'w bus \<Rightarrow> (bus_error + string \<times> nat) \<times> 'w bus" where
  "subscribe ctx_error topic handler b =
     (case ctx_error of Some e \<Rightarrow> (Inl e, b)
      | None \<Rightarrow>
        if topic = [] then (Inl BusErrEmptyTopic, b)
        else (case handler of None \<Rightarrow> (Inl BusErrNilHandler, b)
          | Some h \<Rightarrow>
            let n = Suc (bs_next b); b1 = b\<lparr>bs_next := n\<rparr> in
            if bs_closed b1 then (Inl BusErrClosed, b1\<lparr>bs_cancelled := insert n (bs_cancelled b1)\<rparr>)
            else (Inr (topic, n), b1\<lparr>bs_subs := AList.update topic (AList.update n h (topic_subs b1 topic)) (bs_subs b1)\<rparr>)))"

definition unsubscribe :: "string \<times> nat \<Rightarrow> 'w bus \<Rightarrow> 'w bus" where
  "unsubscribe sub b =
     (case sub of (topic, n) \<Rightarrow>
      if n \<in> bs_unsubscribed b then b
      else let b1 = b\<lparr>bs_unsubscribed := insert n (bs_unsubscribed b), bs_cancelled := insert n (bs_cancelled b)\<rparr> in
        (case map_of (bs_subs b1) topic of None \<Rightarrow> b1
         | Some m \<Rightarrow>
             let m' = AList.delete n m in
             b1\<lparr>bs_subs := (if m' = [] then AList.delete topic (bs_subs b1) else AList.update topic m' (bs_subs b1))\<rparr>))"

text \<open>\<open>Close\<close> cancels the contexts of all subscriptions and forgets them.\<close>

definition close_bus :: "'w bus \<Rightarrow> 'w bus" where
  "close_bus b =
     (if bs_closed b then b
      else b\<lparr>bs_closed := True, bs_subs := [],
             bs_cancelled := bs_cancelled b \<union> fst ` set (concat (map snd (bs_subs b)))\<rparr>)"

definition context_ends :: "nat \<Rightarrow> 'w bus \<Rightarrow> 'w bus" where
  "context_ends n b = b\<lparr>bs_cancelled := insert n (bs_cancelled b)\<rparr>"

text \<open>
  The loop of \<open>Publish\<close> over the subscribers it copied; besides the first error it gives the
  identifiers of those it called, in order, for the statements below.
\<close>

fun publish_loop ::
  "(nat \<Rightarrow> 'w bus handling) \<Rightarrow> ('w bus handling \<Rightarrow> 'w bus handling) option list \<Rightarrow> trace_ctx \<Rightarrow> bus_event \<Rightarrow>
   (nat \<times> nat) list \<Rightarrow> bus_error option \<Rightarrow> nat list \<Rightarrow> 'w bus \<Rightarrow> (bus_error option \<times> nat list) \<times> 'w bus" where
  "publish_loop env ms c ev [] first called b = ((first, called), b)"
| "publish_loop env ms c ev ((n, h) # subs) first called b =
     (if n \<in> bs_cancelled b then publish_loop env ms c ev subs first called b
      else (case safe_handle c (Some ev) (Some (chain_bus (env h) ms)) b of
        (err, b') \<Rightarrow> publish_loop env ms c ev subs (if first = None then err else first) (called @ [n]) b'))"

definition publish ::
  "(nat \<Rightarrow> 'w bus handling) \<Rightarrow> ('w bus handling \<Rightarrow> 'w bus handling) option list \<Rightarrow> ((nat \<times> nat) list \<Rightarrow> (nat \<times> nat) list) \<Rightarrow>
   trace_ctx \<Rightarrow> bus_event option \<Rightarrow> 'w bus \<Rightarrow> (bus_error option \<times> nat list) \<times> 'w bus" where
  "publish env ms it c ev b =
     (case ev of None \<Rightarrow> ((Some BusErrEmptyTopic, []), b)
      | Some e \<Rightarrow>
        if be_topic e = [] then ((Some BusErrEmptyTopic, []), b)
        else if bs_closed b then ((Some BusErrClosed, []), b)
        else publish_loop env ms c e (it (topic_subs b (be_topic e))) None [] b)"

section \<open>Steps\<close>

text \<open>Anything that can happen to a bus; a handler, whatever it does, makes a sequence of steps.\<close>

inductive bus_step :: "'w bus \<Rightarrow> 'w bus \<Rightarrow> bool" where
  step_subscribe: "bus_step b (snd (subscribe e topic h b))"
| step_unsubscribe: "bus_step b (unsubscribe sub b)"
| step_close: "bus_step b (close_bus b)"
| step_context: "bus_step b (context_ends n b)"
| step_world: "bus_step b (b\<lparr>bs_world := w\<rparr>)"

abbreviation bus_steps :: "'w bus \<Rightarrow> 'w bus \<Rightarrow> bool" where
  "bus_steps \<equiv> bus_step\<^sup>*\<^sup>*"

definition stepwise :: "'w bus handling \<Rightarrow> bool" where
  "stepwise h \<longleftrightarrow> (\<forall>c ev b. bus_steps b (snd (h c ev b)))"

definition stepwise_middleware :: "('w bus handling \<Rightarrow> 'w bus handling) \<Rightarrow> bool" where
  "stepwise_middleware m \<longleftrightarrow> (\<forall>h. stepwise h \<longrightarrow> stepwise (m h))"

text \<open>Cancelled subscriptions stay cancelled, and a closed bus stays closed and empty.\<close>

definition grows :: "'w bus \<Rightarrow> 'w bus \<Rightarrow> bool" where
  "grows b b' \<longleftrightarrow> bs_cancelled b \<subseteq> bs_cancelled b' \<and> (bs_closed b \<longrightarrow> bs_closed b')"

lemma grows_refl [simp]: "grows b b" by (simp add: grows_def)

lemma grows_trans: "grows a b \<Longrightarrow> grows b c \<Longrightarrow> grows a c" by (auto simp: grows_def)

lemma bus_step_grows: "bus_step b b' \<Longrightarrow> grows b b'"
  by (induction rule: bus_step.induct)
    (auto simp: grows_def subscribe_def unsubscribe_def close_bus_def context_ends_def Let_def
      split: option.split prod.split)

lemma bus_steps_grows: "bus_steps b b' \<Longrightarrow> grows b b'"
  by (induction rule: rtranclp_induct) (auto dest: bus_step_grows intro: grows_trans)

lemma stepwise_chain:
  "stepwise h \<Longrightarrow> (\<forall>m. Some m \<in> set ms \<longrightarrow> stepwise_middleware m) \<Longrightarrow> stepwise (chain_bus h ms)"
  by (induction h ms rule: chain_bus.induct) (auto simp: stepwise_middleware_def)

lemma stepwise_recover: "stepwise_middleware recover_bus"
  unfolding stepwise_middleware_def stepwise_def
proof (intro allI impI)
  fix h :: "'a bus handling" and c ev b
  assume "\<forall>c ev b. bus_steps b (snd (h c ev b))"
  then have "bus_steps b (snd (h c ev b))" by blast
  then show "bus_steps b (snd (recover_bus h c ev b))"
    by (cases "h c ev b") (auto simp: recover_bus_def split: bus_outcome.split)
qed

lemma stepwise_defaults: "Some m \<in> set default_bus_middlewares \<Longrightarrow> stepwise_middleware m"
  using stepwise_recover
  by (auto simp: default_bus_middlewares_def stepwise_middleware_def stepwise_def tracing_bus_def)

lemma safe_handle_steps: "stepwise h \<Longrightarrow> bus_steps b (snd (safe_handle c ev (Some h) b))"
  by (auto simp: safe_handle_def stepwise_def split: prod.split bus_outcome.split option.split) (metis snd_conv)+

lemma publish_loop_steps:
  assumes "\<forall>h. stepwise (env h)" "\<forall>m. Some m \<in> set ms \<longrightarrow> stepwise_middleware m"
  shows "bus_steps b (snd (publish_loop env ms c ev subs first called b))"
proof (induction subs arbitrary: first called b)
  case (Cons x subs)
  obtain n h where x: "x = (n, h)" by fastforce
  show ?case
  proof (cases "n \<in> bs_cancelled b")
    case True
    then show ?thesis using Cons.IH by (simp add: x)
  next
    case False
    obtain err b' where sh: "safe_handle c (Some ev) (Some (chain_bus (env h) ms)) b = (err, b')" by fastforce
    have "bus_steps b b'" using safe_handle_steps [OF stepwise_chain] assms sh by (metis snd_conv)
    with Cons.IH show ?thesis using False by (simp add: x sh) (meson rtranclp_trans)
  qed
qed simp

text \<open>Who is called: subscribers whose context was live when the event was published.\<close>

lemma publish_loop_called:
  assumes "\<forall>h. stepwise (env h)" "\<forall>m. Some m \<in> set ms \<longrightarrow> stepwise_middleware m"
    and "publish_loop env ms c ev subs first called b = ((err, called'), b')"
  shows "set called' \<subseteq> set called \<union> (fst ` set subs - bs_cancelled b)"
  using assms(3)
proof (induction subs arbitrary: first called b)
  case (Cons x subs)
  obtain n h where x: "x = (n, h)" by fastforce
  show ?case
  proof (cases "n \<in> bs_cancelled b")
    case True
    with Cons.prems have "publish_loop env ms c ev subs first called b = ((err, called'), b')" by (simp add: x)
    from Cons.IH [OF this] show ?thesis by auto
  next
    case False
    obtain e b1 where sh: "safe_handle c (Some ev) (Some (chain_bus (env h) ms)) b = (e, b1)" by fastforce
    have "bus_steps b b1" using safe_handle_steps [OF stepwise_chain] assms(1,2) sh by (metis snd_conv)
    then have "bs_cancelled b \<subseteq> bs_cancelled b1" using bus_steps_grows by (auto simp: grows_def)
    moreover have "set called' \<subseteq> set (called @ [n]) \<union> (fst ` set subs - bs_cancelled b1)"
      by (rule Cons.IH) (use Cons.prems False in \<open>simp add: x sh\<close>)
    ultimately show ?thesis using False by (auto simp: x)
  qed
qed simp

section \<open>Reachable buses\<close>



lemma in_delete: "x \<in> set (AList.delete k xs) \<longleftrightarrow> x \<in> set xs \<and> fst x \<noteq> k"
  by (induction xs) auto


definition bus_ok :: "'w bus \<Rightarrow> bool" where
  "bus_ok b \<longleftrightarrow> bs_unsubscribed b \<subseteq> bs_cancelled b \<and>
     (\<forall>topic. distinct (map fst (topic_subs b topic))) \<and>
     (\<forall>topic n h. (n, h) \<in> set (topic_subs b topic) \<longrightarrow> n \<le> bs_next b)"

lemma bus_okD:
  assumes "bus_ok b"
  shows "distinct (map fst (topic_subs b topic))" "(n, h) \<in> set (topic_subs b topic) \<Longrightarrow> n \<le> bs_next b"
  using assms unfolding bus_ok_def by blast+

lemma topic_subs_update:
  "topic_subs (b\<lparr>bs_subs := AList.update topic m (bs_subs b)\<rparr>) t = (if t = topic then m else topic_subs b t)"
  by (simp add: topic_subs_def update_conv')

lemma topic_subs_delete:
  "topic_subs (b\<lparr>bs_subs := AList.delete topic (bs_subs b)\<rparr>) t = (if t = topic then [] else topic_subs b t)"
  by (simp add: topic_subs_def delete_conv')

lemma topic_subs_cong: "bs_subs b' = bs_subs b \<Longrightarrow> topic_subs b' t = topic_subs b t"
  by (simp add: topic_subs_def)

text \<open>What one step does to the subscribers of a topic.\<close>

lemma subscribe_subs:
  "topic_subs (snd (subscribe e topic h b)) t =
     (if t = topic \<and> (\<exists>n. fst (subscribe e topic h b) = Inr (topic, n))
      then AList.update (Suc (bs_next b)) (the h) (topic_subs b t) else topic_subs b t)"
  by (auto simp: subscribe_def Let_def topic_subs_def update_conv' split: option.split)

lemma unsubscribe_subs:
  "topic_subs (unsubscribe (topic, n) b) t =
     (if t = topic \<and> n \<notin> bs_unsubscribed b then AList.delete n (topic_subs b t) else topic_subs b t)"
  by (auto simp: unsubscribe_def Let_def topic_subs_def update_conv' delete_conv' split: option.split)

lemma subscribe_fields:
  "bs_unsubscribed (snd (subscribe e topic h b)) = bs_unsubscribed b"
  "bs_next b \<le> bs_next (snd (subscribe e topic h b))"
  "fst (subscribe e topic h b) = Inr (t, n) \<Longrightarrow> t = topic \<and> n = Suc (bs_next b) \<and> h \<noteq> None \<and>
     bs_next (snd (subscribe e topic h b)) = n \<and> bs_cancelled (snd (subscribe e topic h b)) = bs_cancelled b"
  by (auto simp: subscribe_def Let_def split: option.splits if_splits)

lemma unsubscribe_fields:
  "bs_next (unsubscribe (topic, n) b) = bs_next b"
  "bs_unsubscribed (unsubscribe (topic, n) b) = insert n (bs_unsubscribed b)"
  "bs_cancelled (unsubscribe (topic, n) b) =
     (if n \<in> bs_unsubscribed b then bs_cancelled b else insert n (bs_cancelled b))"
  by (auto simp: unsubscribe_def Let_def split: option.split)

lemma bus_ok_step: "bus_step b b' \<Longrightarrow> bus_ok b \<Longrightarrow> bus_ok b'"
proof (induction rule: bus_step.induct)
  case (step_subscribe b e topic h)
  let ?b = "snd (subscribe e topic h b)"
  have canc: "bs_cancelled b \<subseteq> bs_cancelled ?b" using bus_step_grows [OF bus_step.step_subscribe [of b e topic h]] by (simp add: grows_def)
  have "distinct (map fst (topic_subs ?b t)) \<and> (\<forall>n h. (n, h) \<in> set (topic_subs ?b t) \<longrightarrow> n \<le> bs_next ?b)" for t
  proof (cases "t = topic \<and> (\<exists>n. fst (subscribe e topic h b) = Inr (topic, n))")
    case True
    then have next': "bs_next ?b = Suc (bs_next b)" using subscribe_fields(3) by blast
    have "n = Suc (bs_next b) \<or> n \<in> fst ` set (topic_subs b t)"
      if "(n, k) \<in> set (AList.update (Suc (bs_next b)) (the h) (topic_subs b t))" for n k
      using imageI [OF that, of fst] by (simp add: dom_update)
    moreover have "n \<le> bs_next b" if "n \<in> fst ` set (topic_subs b t)" for n
      using that bus_okD(2) [OF step_subscribe] by auto
    ultimately show ?thesis using True next' step_subscribe
      by (force simp: subscribe_subs bus_ok_def distinct_update)
  next
    case False
    then have "topic_subs ?b t = topic_subs b t" unfolding subscribe_subs by (rule if_not_P)
    then show ?thesis using bus_okD(1) [OF step_subscribe] subscribe_fields(2) [of b e topic h]
      by (auto dest: bus_okD(2) [OF step_subscribe])
  qed
  with canc step_subscribe show ?case by (auto simp: bus_ok_def subscribe_fields(1))
next
  case (step_unsubscribe b sub)
  obtain topic n where sub: "sub = (topic, n)" by fastforce
  note ok = bus_okD [OF step_unsubscribe]
  show ?case
    unfolding bus_ok_def
  proof (intro conjI allI impI)
    show "bs_unsubscribed (unsubscribe sub b) \<subseteq> bs_cancelled (unsubscribe sub b)"
      using step_unsubscribe by (auto simp: bus_ok_def sub unsubscribe_fields)
    show "distinct (map fst (topic_subs (unsubscribe sub b) t))" for t
      using ok(1) by (simp add: sub unsubscribe_subs distinct_delete)
    show "k \<le> bs_next (unsubscribe sub b)" if "(k, h) \<in> set (topic_subs (unsubscribe sub b) t)" for t k h
      using that ok(2) by (auto simp: sub unsubscribe_subs unsubscribe_fields in_delete split: if_splits)
  qed
next
  case (step_close b)
  then show ?case by (auto simp: bus_ok_def close_bus_def topic_subs_def)
next
  case (step_context b n)
  then show ?case by (auto simp: bus_ok_def context_ends_def topic_subs_def)
next
  case (step_world b w)
  then show ?case by (simp add: bus_ok_def topic_subs_def)
qed

lemma bus_ok_steps: "bus_steps b b' \<Longrightarrow> bus_ok b \<Longrightarrow> bus_ok b'"
  by (induction rule: rtranclp_induct) (auto dest: bus_ok_step)

lemma bus_ok_new: "bus_ok (new_bus w)"
  by (simp add: bus_ok_def new_bus_def topic_subs_def)



lemma unsubscribed_cancelled: "bus_ok b \<Longrightarrow> n \<in> bs_cancelled (unsubscribe (topic, n) b)"
  by (auto simp: unsubscribe_fields bus_ok_def)

text \<open>A handler that leaves the bus itself alone, and changes only the world.\<close>

definition only_world :: "'w bus handling \<Rightarrow> bool" where
  "only_world h \<longleftrightarrow> (\<forall>c ev b. \<exists>w. snd (h c ev b) = b\<lparr>bs_world := w\<rparr>)"








text \<open>The error of a publication is that of the first handler that returned one.\<close>

lemma publish_loop_keeps_error:
  "publish_loop env ms c ev subs (Some e) called b = ((err, called'), b') \<Longrightarrow> err = Some e"
  by (induction subs arbitrary: called b) (auto split: if_splits prod.splits)


section \<open>Properties\<close>


text \<open>A bus with two subscribers of one topic; the handler of the first panics, that of the second fails.\<close>

definition sample_env :: "nat \<Rightarrow> nat list bus handling" where
  "sample_env h c ev b = (if h = 0 then BusPanicked else BusReturned (Some (BusForeign ''boom'')),
     b\<lparr>bs_world := bs_world b @ [h]\<rparr>)"

definition sample_bus :: "nat list bus" where
  "sample_bus = snd (subscribe None ''t'' (Some 0) (new_bus []))"

definition sample_bus_event :: bus_event where
  "sample_bus_event = \<lparr>be_id = ''e'', be_topic = ''t'', be_headers = [], be_payload = [], be_time = 0\<rparr>"

lemma sample_env_only_world: "\<forall>h. only_world (sample_env h)"
  by (auto simp: only_world_def sample_env_def)

lemma only_world_stepwise: "only_world h \<Longrightarrow> stepwise h"
  unfolding only_world_def stepwise_def by (metis r_into_rtranclp step_world)

lemma sample_bus_reached: "bus_steps (new_bus []) sample_bus"
  unfolding sample_bus_def by (rule r_into_rtranclp) (rule step_subscribe)


text \<open>
  A closed subscription is silent.  Once a subscription was closed, no publication calls its
  handler again, whatever else subscribes, closes or publishes in between and whatever the handlers
  of other subscribers do, the bus included.
\<close>

theorem closed_subscription_is_silent:
  assumes "bus_steps (new_bus w) b0" "bus_steps (unsubscribe sub b0) b"
    and "\<forall>h. stepwise (env h)" "\<forall>m. Some m \<in> set ms \<longrightarrow> stepwise_middleware m"
    and "\<forall>xs. mset (it xs) = mset xs" "publish env ms it c ev b = ((err, called), b')"
  shows "snd sub \<notin> set called"
proof -
  have "snd sub \<in> bs_cancelled (unsubscribe sub b0)"
    using unsubscribed_cancelled [OF bus_ok_steps [OF assms(1) bus_ok_new], of "snd sub" "fst sub"] by simp
  then have "snd sub \<in> bs_cancelled b" using bus_steps_grows [OF assms(2)] by (auto simp: grows_def)
  moreover have "set called \<subseteq> - bs_cancelled b"
  proof (cases "called = []")
    case False
    then obtain e where "publish_loop env ms c e (it (topic_subs b (be_topic e))) None [] b = ((err, called), b')"
      using assms(6) by (auto simp: publish_def split: option.splits if_splits)
    from publish_loop_called [OF assms(3,4) this] show ?thesis by auto
  qed simp
  ultimately show ?thesis by auto
qed

theorem closed_subscription_is_silent_witness:
  "1 \<notin> set (snd (fst (publish sample_env default_bus_middlewares rev background_trace (Some sample_bus_event)
     (snd (subscribe None ''t'' (Some 1) (unsubscribe (''t'', 1) sample_bus))))))"
proof -
  let ?b = "snd (subscribe None ''t'' (Some 1) (unsubscribe (''t'', 1) sample_bus))"
  have steps: "bus_steps (unsubscribe (''t'', 1) sample_bus) ?b" by (rule r_into_rtranclp) (rule step_subscribe)
  obtain err called b' where pub: "publish sample_env default_bus_middlewares rev background_trace (Some sample_bus_event) ?b
      = ((err, called), b')" by (metis prod.collapse)
  have env: "\<forall>h. stepwise (sample_env h)" using sample_env_only_world only_world_stepwise by blast
  have ms: "\<forall>m. Some m \<in> set default_bus_middlewares \<longrightarrow> stepwise_middleware m"
    using stepwise_defaults by blast
  have "snd (''t'', 1 :: nat) \<notin> set called"
    by (rule closed_subscription_is_silent [OF sample_bus_reached steps env ms _ pub]) simp
  then show ?thesis by (simp add: pub del: One_nat_def)
qed

end
