(* ===== verification/Realtime_Publisher.thy ===== *)
theory Realtime_Publisher
  imports Realtime_Gateway Event_Bus
begin

text \<open>
  Publishing realtime events over the event bus: \<^verbatim>\<open>pkg/realtime/publisher/eventbus/publisher.go\<close>,
  and its composition with the dispatcher at the other end of the bus.

  JSON is a library: \<open>json_data\<close> marshals the data of an event and \<open>json_event\<close> an event.
  Publishing on the bus is a parameter over a world \<open>'w\<close>.
\<close>

datatype pub_error = PubRealtime rl_error | PubBus bus_error

record ('d, 'w) publisher =
  pb_bus :: "(trace_ctx \<Rightarrow> bus_event \<Rightarrow> 'w \<Rightarrow> bus_error option \<times> 'w) option"
  pb_topic :: string
  pb_json_data :: "'d event_data \<Rightarrow> bus_error + string"
  pb_json_event :: "'d rl_event \<Rightarrow> bus_error + string"

definition default_topic :: string where "default_topic = ''rt:events''"

definition new_publisher ::
  "(trace_ctx \<Rightarrow> bus_event \<Rightarrow> 'w \<Rightarrow> bus_error option \<times> 'w) option \<Rightarrow> string \<Rightarrow>
   ('d event_data \<Rightarrow> bus_error + string) \<Rightarrow> ('d rl_event \<Rightarrow> bus_error + string) \<Rightarrow> ('d, 'w) publisher" where
  "new_publisher bus topic json_data json_event =
     \<lparr>pb_bus = bus, pb_topic = (if topic = [] then default_topic else topic),
      pb_json_data = json_data, pb_json_event = json_event\<rparr>"

definition clone_event :: "'d rl_event option \<Rightarrow> 'd rl_event" where
  "clone_event evt = (case evt of None \<Rightarrow> empty_event | Some e \<Rightarrow> e)"

definition merge_headers :: "headers \<Rightarrow> headers \<Rightarrow> headers" where
  "merge_headers base overrides =
     foldl (\<lambda>hs kv. if fst kv \<noteq> [] \<and> snd kv \<noteq> [] then AList.update (fst kv) (snd kv) hs else hs) [] (base @ overrides)"

text \<open>\<open>publish\<close>, first the event it completes, then what it hands to the bus.\<close>

definition complete_event ::
  "('d, 'w) publisher \<Rightarrow> int \<Rightarrow> trace_ctx \<Rightarrow> 'd rl_event \<Rightarrow> pub_error + 'd rl_event" where
  "complete_event p now c e0 =
     (let e1 = normalize_event e0 in
      if rv_action e1 = [] then Inl (PubRealtime RErrEmptyEvent)
      else
        let e2 = (if rv_timestamp e1 = 0 then e1\<lparr>rv_timestamp := now\<rparr> else e1);
            e3 = (if rv_time e2 = 0 then e2\<lparr>rv_time := rv_timestamp e2\<rparr> else e2);
            e4 = e3\<lparr>rv_headers := merge_headers (headers_from_context c) (rv_headers e3)\<rparr>;
            e5 = (if rv_trace e4 = [] then e4\<lparr>rv_trace := tc_trace c\<rparr> else e4)
        in if rv_payload e5 = [] \<and> rv_data e5 \<noteq> DataNil
           then (case pb_json_data p (rv_data e5) of Inl err \<Rightarrow> Inl (PubBus err) | Inr s \<Rightarrow> Inr (e5\<lparr>rv_payload := s\<rparr>))
           else Inr e5)"

definition publish_realtime ::
  "('d, 'w) publisher option \<Rightarrow> string \<Rightarrow> int \<Rightarrow> trace_ctx \<Rightarrow> 'd rl_event option \<Rightarrow> 'w \<Rightarrow> pub_error option \<times> 'w" where
  "publish_realtime p uuid now c evt w =
     (case p of None \<Rightarrow> (Some (PubRealtime RErrNilPublisher), w)
      | Some p \<Rightarrow>
        (case pb_bus p of None \<Rightarrow> (Some (PubRealtime RErrNilPublisher), w)
         | Some bus \<Rightarrow>
           (case evt of None \<Rightarrow> (Some (PubRealtime RErrEmptyEvent), w)
            | Some e0 \<Rightarrow>
              (case complete_event p now c e0 of Inl err \<Rightarrow> (Some err, w)
               | Inr e \<Rightarrow>
                 (case pb_json_event p e of Inl err \<Rightarrow> (Some (PubBus err), w)
                  | Inr s \<Rightarrow>
                    (case new_bus_event uuid now c (pb_topic p) s (rv_headers e) of Inl err \<Rightarrow> (Some (PubBus err), w)
                     | Inr ev \<Rightarrow> (case bus c ev w of (err, w') \<Rightarrow> (map_option PubBus err, w'))))))))"

definition user_target :: "string \<Rightarrow> target" where
  "user_target u = \<lparr>tg_type = TargetUser, tg_id = trim_space u, tg_user = trim_space u, tg_tenant = 0, tg_room = [], tg_client = []\<rparr>"

definition room_target :: "string \<Rightarrow> target" where
  "room_target r = \<lparr>tg_type = TargetRoom, tg_id = trim_space r, tg_user = [], tg_tenant = 0, tg_room = trim_space r, tg_client = []\<rparr>"

definition broadcast_target :: target where
  "broadcast_target = \<lparr>tg_type = TargetBroadcast, tg_id = [], tg_user = [], tg_tenant = 0, tg_room = [], tg_client = []\<rparr>"

definition publisher_push_user ::
  "('d, 'w) publisher option \<Rightarrow> string \<Rightarrow> int \<Rightarrow> trace_ctx \<Rightarrow> string \<Rightarrow> 'd rl_event option \<Rightarrow> 'w \<Rightarrow> pub_error option \<times> 'w" where
  "publisher_push_user p uuid now c u evt w =
     publish_realtime p uuid now c (Some ((normalize_event (clone_event evt))\<lparr>rv_target := Some (user_target u)\<rparr>)) w"

definition publisher_push_room ::
  "('d, 'w) publisher option \<Rightarrow> string \<Rightarrow> int \<Rightarrow> trace_ctx \<Rightarrow> string \<Rightarrow> 'd rl_event option \<Rightarrow> 'w \<Rightarrow> pub_error option \<times> 'w" where
  "publisher_push_room p uuid now c r evt w =
     publish_realtime p uuid now c
       (Some ((normalize_event (clone_event evt))\<lparr>rv_room := trim_space r, rv_target := Some (room_target r)\<rparr>)) w"

definition publisher_broadcast ::
  "('d, 'w) publisher option \<Rightarrow> string \<Rightarrow> int \<Rightarrow> trace_ctx \<Rightarrow> 'd rl_event option \<Rightarrow> 'w \<Rightarrow> pub_error option \<times> 'w" where
  "publisher_broadcast p uuid now c evt w =
     publish_realtime p uuid now c (Some ((normalize_event (clone_event evt))\<lparr>rv_target := Some broadcast_target\<rparr>)) w"

section \<open>What reaches the bus\<close>

lemma complete_event_target: "complete_event p now c e0 = Inr e \<Longrightarrow> rv_target e = rv_target e0"
  by (auto simp: complete_event_def Let_def split: if_splits sum.splits)

text \<open>The bus is called at most once; when it is, with an encoding of an event with the same target.\<close>

lemma publish_realtime_calls:
  assumes "publish_realtime (Some p) uuid now c (Some e) w = (err, w')" "pb_bus p = Some bus"
  shows "w' = w \<and> err \<noteq> None \<or>
    (\<exists>e' ev. rv_target e' = rv_target e \<and> pb_json_event p e' = Inr (be_payload ev) \<and> be_topic ev = pb_topic p \<and>
       be_headers ev = event_headers c (rv_headers e') \<and> w' = snd (bus c ev w) \<and> err = map_option PubBus (fst (bus c ev w)))"
proof (cases "complete_event p now c e")
  case (Inl er)
  with assms show ?thesis by (auto simp: publish_realtime_def)
next
  case (Inr e')
  note t = complete_event_target [OF Inr]
  show ?thesis
  proof (cases "pb_json_event p e'")
    case (Inl er)
    with assms Inr show ?thesis by (auto simp: publish_realtime_def)
  next
    case (Inr s)
    note enc = Inr
    show ?thesis
    proof (cases "new_bus_event uuid now c (pb_topic p) s (rv_headers e')")
      case (Inl er)
      with assms \<open>complete_event p now c e = Inr e'\<close> enc show ?thesis by (auto simp: publish_realtime_def)
    next
      case (Inr ev)
      then have ev: "be_payload ev = s" "be_topic ev = pb_topic p" "be_headers ev = event_headers c (rv_headers e')"
        by (auto simp: new_bus_event_def split: if_splits)
      from assms \<open>complete_event p now c e = Inr e'\<close> enc Inr
      have "w' = snd (bus c ev w) \<and> err = map_option PubBus (fst (bus c ev w))"
        by (auto simp: publish_realtime_def split: prod.splits)
      with t ev enc show ?thesis by blast
    qed
  qed
qed

section \<open>Properties\<close>

text \<open>What a caller asks the publisher for.\<close>

datatype push_kind = ToUser string | ToRoom string | ToAll

definition publisher_push ::
  "('d, 'w) publisher \<Rightarrow> string \<Rightarrow> int \<Rightarrow> trace_ctx \<Rightarrow> push_kind \<Rightarrow> 'd rl_event option \<Rightarrow> 'w \<Rightarrow> pub_error option \<times> 'w" where
  "publisher_push p uuid now c k evt w =
     (case k of ToUser u \<Rightarrow> publisher_push_user (Some p) uuid now c u evt w
      | ToRoom r \<Rightarrow> publisher_push_room (Some p) uuid now c r evt w
      | ToAll \<Rightarrow> publisher_broadcast (Some p) uuid now c evt w)"

text \<open>
  From the publisher to the connections.  With a bus that records what it is given, and a JSON
  decoder that recovers the target of an encoded event, a push either fails and records nothing, or
  records one event on the topic of the publisher, whose decoding is addressed, at any gateway, to
  exactly the connections of the trimmed user, to the members of the trimmed room, or to everybody;
  a blank room means everybody.
\<close>

theorem published_event_audience:
  fixes p :: "('d, bus_event list) publisher"
  assumes "pb_bus p = Some (\<lambda>_ ev w. (None, w @ [ev]))"
    and "\<forall>e s. pb_json_event p e = Inr s \<longrightarrow> (\<exists>e'. decode s = Some e' \<and> rv_target e' = rv_target e)"
    and "publisher_push p uuid now c k evt w = (err, w')"
  shows "err \<noteq> None \<and> w' = w \<or>
    (\<exists>ev e'. err = None \<and> w' = w @ [ev] \<and> be_topic ev = pb_topic p \<and> decode (be_payload ev) = Some e' \<and>
       (\<forall>(st :: 'd rl_state) cid a. addressed st (rv_target e') cid a \<longleftrightarrow>
          (case k of ToUser u \<Rightarrow> trim_space u \<noteq> [] \<and> cl_user (hp_clients (fst st) a) = trim_space u
           | ToRoom r \<Rightarrow> trim_space r = [] \<or> cid \<in> members (st_rooms (snd st)) (trim_space r)
           | ToAll \<Rightarrow> True)))"
proof -
  let ?tgt = "case k of ToUser u \<Rightarrow> user_target u | ToRoom r \<Rightarrow> room_target r | ToAll \<Rightarrow> broadcast_target"
  obtain e where e: "publish_realtime (Some p) uuid now c (Some e) w = (err, w')" "rv_target e = Some ?tgt"
    using assms(3)
    by (cases k) (auto simp: publisher_push_def publisher_push_user_def publisher_push_room_def publisher_broadcast_def)
  have aud: "addressed st (Some ?tgt) cid a \<longleftrightarrow>
      (case k of ToUser u \<Rightarrow> trim_space u \<noteq> [] \<and> cl_user (hp_clients (fst st) a) = trim_space u
       | ToRoom r \<Rightarrow> trim_space r = [] \<or> cid \<in> members (st_rooms (snd st)) (trim_space r)
       | ToAll \<Rightarrow> True)" for st :: "'d rl_state" and cid a
    using distinct_targets
    by (cases k) (simp_all add: addressed_def user_target_def room_target_def broadcast_target_def first_of_def Let_def)
  from publish_realtime_calls [OF e(1) assms(1)] show ?thesis
  proof (elim disjE exE conjE)
    fix e1 ev assume "rv_target e1 = rv_target e" "pb_json_event p e1 = Inr (be_payload ev)"
      and ev: "be_topic ev = pb_topic p" "w' = snd (None, w @ [ev])" "err = map_option PubBus (fst (None, w @ [ev]))"
    then obtain e' where "decode (be_payload ev) = Some e'" "rv_target e' = Some ?tgt" using assms(2) e(2) by metis
    with ev aud show ?thesis by (intro disjI2 exI [of _ ev] exI [of _ e']) simp
  qed simp
qed

text \<open>A publisher with a toy encoding that keeps the user of the target.\<close>

definition toy_encode :: "unit rl_event \<Rightarrow> bus_error + string" where
  "toy_encode e = (case rv_target e of
     Some t \<Rightarrow> if t = user_target (tg_user t) then Inr (tg_user t) else Inl (BusForeign ''toy'') | None \<Rightarrow> Inl (BusForeign ''toy''))"

definition toy_decode :: "string \<Rightarrow> unit rl_event option" where
  "toy_decode s = Some (empty_event\<lparr>rv_target := Some (user_target s)\<rparr>)"

definition toy_publisher :: "(unit, bus_event list) publisher" where
  "toy_publisher = new_publisher (Some (\<lambda>_ ev w. (None, w @ [ev]))) [] (\<lambda>_. Inr []) toy_encode"

theorem published_event_audience_witness:
  "\<exists>ev e'. snd (publisher_push toy_publisher ''id'' 7 background_trace (ToUser ''u1'') (Some (new_event 7 ''note'' DataNil)) []) = [ev] \<and>
     toy_decode (be_payload ev) = Some e' \<and> addressed sample_state (rv_target e') ''c1'' 0"
proof -
  let ?r = "publisher_push toy_publisher ''id'' 7 background_trace (ToUser ''u1'') (Some (new_event 7 ''note'' DataNil)) []"
  have bus: "pb_bus toy_publisher = Some (\<lambda>_ ev w. (None, w @ [ev]))" by (simp add: toy_publisher_def new_publisher_def)
  have codec: "\<forall>e s. pb_json_event toy_publisher e = Inr s \<longrightarrow> (\<exists>e'. toy_decode s = Some e' \<and> rv_target e' = rv_target e)"
    by (auto simp: toy_publisher_def new_publisher_def toy_encode_def toy_decode_def split: option.splits if_splits)
  have ok: "fst ?r = None"
    by (simp add: publisher_push_def publisher_push_user_def publish_realtime_def complete_event_def Let_def
        toy_publisher_def new_publisher_def toy_encode_def clone_event_def new_event_def new_bus_event_def
        default_topic_def empty_event_def normalize_event_fields user_target_def u1_trimmed)
  have "?r = (fst ?r, snd ?r)" by simp
  from published_event_audience [OF bus codec this] ok obtain ev e' where
    ev: "snd ?r = [ev]" "toy_decode (be_payload ev) = Some e'"
    and aud: "\<forall>(st :: unit rl_state) cid a. addressed st (rv_target e') cid a \<longleftrightarrow>
      trim_space ''u1'' \<noteq> [] \<and> cl_user (hp_clients (fst st) a) = trim_space ''u1''"
    by auto
  have "addressed sample_state (rv_target e') ''c1'' 0"
    using spec [OF aud, of sample_state] sample_state_value(3) by (simp add: u1_trimmed)
  with ev show ?thesis by blast
qed

end
