(* ===== verification/Realtime_Action.thy ===== *)
theory Realtime_Action
  imports Realtime_Types
begin

text \<open>
  Actions: the handler chain of an \<open>ActionContext\<close> (\<^verbatim>\<open>core/realtime/action.go\<close>: \<open>Next\<close>,
  \<open>RunHandlers\<close>, \<open>Abort\<close>) and its compilation (\<^verbatim>\<open>pkg/realtime/gateway/pipeline.go\<close>).

  A handler is a program over a world \<open>'w\<close> (the rest of the context, the gateway, everything a
  handler may touch): it reads and writes the world, calls \<open>Next\<close> and goes on with the error that
  returns, aborts the chain, or asks whether it is aborted.  The body of a middleware calls
  \<open>next\<close>, which the code passes in as a closure around \<open>ctx.Next\<close>: both are \<open>CallNext\<close>.  Handlers
  that install a chain of their own on the context (\<open>SetHandlers\<close>, \<open>RunHandlers\<close>) or panic are not
  modelled.
\<close>

section \<open>Handlers\<close>

datatype 'w prog =
    Finish "rl_error option"
  | Modify "'w \<Rightarrow> 'w" "'w prog"
  | Observe "'w \<Rightarrow> 'w prog"
  | CallNext "rl_error option \<Rightarrow> 'w prog"
  | Abort "'w prog"
  | AskAborted "bool \<Rightarrow> 'w prog"

text \<open>One program after another; \<open>k\<close> receives the error the first one returns.\<close>

primrec bind_prog :: "'w prog \<Rightarrow> (rl_error option \<Rightarrow> 'w prog) \<Rightarrow> 'w prog" where
  "bind_prog (Finish e) k = k e"
| "bind_prog (Modify f p) k = Modify f (bind_prog p k)"
| "bind_prog (Observe f) k = Observe (\<lambda>x. bind_prog (f x) k)"
| "bind_prog (CallNext f) k = CallNext (\<lambda>e. bind_prog (f e) k)"
| "bind_prog (Abort p) k = Abort (bind_prog p k)"
| "bind_prog (AskAborted f) k = AskAborted (\<lambda>b. bind_prog (f b) k)"

section \<open>The chain of a context\<close>

record 'w acts =
  ac_index :: int
  ac_aborted :: bool
  ac_world :: 'w

type_synonym 'w ran = "(rl_error option \<times> 'w acts) option"

text \<open>
  Running a handler, given what \<open>Next\<close> does; \<open>n\<close> is the length of the chain, which \<open>Abort\<close> sets the
  index to.  \<open>None\<close> means that the fuel of a nested \<open>Next\<close> ran out.
\<close>

primrec run_prog :: "nat \<Rightarrow> ('w acts \<Rightarrow> 'w ran) \<Rightarrow> 'w prog \<Rightarrow> 'w acts \<Rightarrow> 'w ran" where
  "run_prog n nx (Finish e) s = Some (e, s)"
| "run_prog n nx (Modify f p) s = run_prog n nx p (s\<lparr>ac_world := f (ac_world s)\<rparr>)"
| "run_prog n nx (Observe f) s = run_prog n nx (f (ac_world s)) s"
| "run_prog n nx (CallNext k) s = (case nx s of None \<Rightarrow> None | Some (e, s') \<Rightarrow> run_prog n nx (k e) s')"
| "run_prog n nx (Abort p) s = run_prog n nx p (s\<lparr>ac_aborted := True, ac_index := int n\<rparr>)"
| "run_prog n nx (AskAborted f) s = run_prog n nx (f (ac_aborted s)) s"

text \<open>\<open>Next\<close>, with a bound on how deep it may nest.\<close>

primrec action_next :: "nat \<Rightarrow> 'w prog option list \<Rightarrow> 'w acts \<Rightarrow> 'w ran" where
  "action_next 0 hs s = None"
| "action_next (Suc fuel) hs s =
     (if ac_aborted s then Some (None, s)
      else let s' = s\<lparr>ac_index := ac_index s + 1\<rparr> in
        if ac_index s' \<ge> int (length hs) then Some (None, s')
        else (case hs ! nat (ac_index s') of
                None \<Rightarrow> Some (Some RErrNilActionHandler, s')
              | Some p \<Rightarrow> run_prog (length hs) (action_next fuel hs) p s'))"

definition run_handlers :: "'w prog option list \<Rightarrow> 'w \<Rightarrow> 'w ran" where
  "run_handlers hs w = action_next (Suc (length hs)) hs \<lparr>ac_index = -1, ac_aborted = False, ac_world = w\<rparr>"

section \<open>Compilation (pipeline.go)\<close>

fun pipeline :: "'w prog option list \<Rightarrow> 'w prog" where
  "pipeline [] = Finish None"
| "pipeline (None # hs) = Finish (Some RErrNilActionHandler)"
| "pipeline (Some p # hs) =
     AskAborted (\<lambda>aborted. if aborted then Finish None
       else bind_prog p (\<lambda>e. case e of Some err \<Rightarrow> Finish (Some err) | None \<Rightarrow> pipeline hs))"

text \<open>
  \<open>middleware(next)\<close>: the calls of \<open>next\<close> in the body run the given handler.  \<open>compileHandlers\<close>
  passes the closure that calls \<open>ctx.Next\<close>, so the compiled handlers are the bodies themselves
  (\<open>apply_next_closure\<close>).
\<close>

primrec apply_middleware :: "'w prog \<Rightarrow> 'w prog \<Rightarrow> 'w prog" where
  "apply_middleware (Finish e) nxt = Finish e"
| "apply_middleware (Modify f p) nxt = Modify f (apply_middleware p nxt)"
| "apply_middleware (Observe f) nxt = Observe (\<lambda>x. apply_middleware (f x) nxt)"
| "apply_middleware (CallNext k) nxt = bind_prog nxt (\<lambda>e. apply_middleware (k e) nxt)"
| "apply_middleware (Abort p) nxt = Abort (apply_middleware p nxt)"
| "apply_middleware (AskAborted f) nxt = AskAborted (\<lambda>b. apply_middleware (f b) nxt)"

definition next_closure :: "'w prog" where
  "next_closure = CallNext Finish"

definition compile_handlers :: "'w prog option \<Rightarrow> 'w prog option list \<Rightarrow> 'w prog option list option" where
  "compile_handlers handler middlewares =
     (case handler of None \<Rightarrow> None
      | Some h \<Rightarrow> Some (map (\<lambda>m. Some (apply_middleware m next_closure)) (List.map_filter (\<lambda>m. m) middlewares) @ [Some h]))"

lemma apply_next_closure [simp]: "apply_middleware m next_closure = m"
  by (induction m) (simp_all add: next_closure_def)

section \<open>Every chain returns\<close>

text \<open>A \<open>Next\<close> that returns from every index at least \<open>i\<close>, to such an index.\<close>

definition forward :: "('w acts \<Rightarrow> 'w ran) \<Rightarrow> int \<Rightarrow> bool" where
  "forward nx i \<longleftrightarrow> (\<forall>s. i \<le> ac_index s \<longrightarrow> (\<exists>e s'. nx s = Some (e, s') \<and> i \<le> ac_index s'))"

lemma run_prog_forward:
  assumes "forward nx i" "i \<le> ac_index s" "i \<le> int n"
  shows "\<exists>e s'. run_prog n nx p s = Some (e, s') \<and> i \<le> ac_index s'"
  using assms(2)
proof (induction p arbitrary: s)
  case (CallNext k)
  then obtain e s' where s': "nx s = Some (e, s')" "i \<le> ac_index s'" using assms(1) by (auto simp: forward_def)
  with CallNext.IH [OF rangeI] show ?case by simp
qed (use assms(3) in auto)

lemma action_next_forward:
  "0 < fuel \<Longrightarrow> int (length hs) < i + 1 + int fuel \<Longrightarrow> forward (action_next fuel hs) i"
proof (induction fuel arbitrary: i)
  case (Suc fuel)
  show ?case
    unfolding forward_def
  proof (intro allI impI)
    fix s :: "'a acts" assume s: "i \<le> ac_index s"
    let ?s = "s\<lparr>ac_index := ac_index s + 1\<rparr>"
    show "\<exists>e s'. action_next (Suc fuel) hs s = Some (e, s') \<and> i \<le> ac_index s'"
    proof (cases "ac_aborted s \<or> int (length hs) \<le> ac_index s + 1")
      case True
      then show ?thesis using s by (auto simp: Let_def)
    next
      case False
      then have "0 < fuel" using Suc.prems(2) s by linarith
      then have f: "forward (action_next fuel hs) (i + 1)" using Suc.IH Suc.prems(2) by simp
      show ?thesis
      proof (cases "hs ! nat (ac_index s + 1)")
        case None
        then show ?thesis using False s by (auto simp: Let_def)
      next
        case (Some p)
        have "\<exists>e s'. run_prog (length hs) (action_next fuel hs) p ?s = Some (e, s') \<and> i + 1 \<le> ac_index s'"
          by (rule run_prog_forward [OF f]) (use s False in auto)
        then show ?thesis using Some False by (auto simp: Let_def)
      qed
    qed
  qed
qed simp

lemma run_prog_mono:
  assumes "\<And>s r. nx s = Some r \<Longrightarrow> nx' s = Some r"
  shows "run_prog n nx p s = Some r \<Longrightarrow> run_prog n nx' p s = Some r"
proof (induction p arbitrary: s)
  case (CallNext k)
  then obtain e s' where "nx s = Some (e, s')" "run_prog n nx (k e) s' = Some r"
    by (auto split: option.splits)
  with CallNext.IH [OF rangeI] assms show ?case by simp
qed auto

lemma action_next_mono: "action_next fuel hs s = Some r \<Longrightarrow> action_next (Suc fuel) hs s = Some r"
proof (induction fuel arbitrary: s r)
  case (Suc fuel)
  note step = run_prog_mono [where nx = "action_next fuel hs" and nx' = "action_next (Suc fuel) hs", OF Suc.IH]
  from Suc.prems show ?case
    by (simp only: action_next.simps(2) [of "Suc fuel"] action_next.simps(2) [of fuel hs s] Let_def
        split: if_splits option.splits) (auto simp: step)
qed simp

lemma action_next_more: "action_next fuel hs s = Some r \<Longrightarrow> action_next (fuel + extra) hs s = Some r"
  by (induction extra) (simp_all add: action_next_mono del: action_next.simps)

section \<open>The chain as nested middlewares\<close>

text \<open>\<open>next\<close> does nothing once the chain is aborted; otherwise it runs what comes after.\<close>

definition guarded :: "'w prog \<Rightarrow> 'w prog" where
  "guarded p = AskAborted (\<lambda>aborted. if aborted then Finish None else p)"

fun nested :: "'w prog list \<Rightarrow> 'w prog \<Rightarrow> 'w prog" where
  "nested [] h = h"
| "nested (m # ms) h = apply_middleware m (guarded (nested ms h))"

text \<open>A body that calls \<open>next\<close> at most once, whatever it sees.\<close>

primrec no_next :: "'w prog \<Rightarrow> bool" where
  "no_next (Finish e) = True"
| "no_next (Modify f p) = no_next p"
| "no_next (Observe f) = (\<forall>x. no_next (f x))"
| "no_next (CallNext k) = False"
| "no_next (Abort p) = no_next p"
| "no_next (AskAborted f) = (\<forall>b. no_next (f b))"

primrec once :: "'w prog \<Rightarrow> bool" where
  "once (Finish e) = True"
| "once (Modify f p) = once p"
| "once (Observe f) = (\<forall>x. once (f x))"
| "once (CallNext k) = (\<forall>e. no_next (k e))"
| "once (Abort p) = once p"
| "once (AskAborted f) = (\<forall>b. once (f b))"

text \<open>What can be seen of a run: the error, whether it was aborted, and the world.\<close>

definition same_view :: "'w acts \<Rightarrow> 'w acts \<Rightarrow> bool" where
  "same_view s t \<longleftrightarrow> ac_aborted s = ac_aborted t \<and> ac_world s = ac_world t"

definition alike :: "'w ran \<Rightarrow> 'w ran \<Rightarrow> bool" where
  "alike r q \<longleftrightarrow> (\<exists>e s t. r = Some (e, s) \<and> q = Some (e, t) \<and> same_view s t)"

lemma run_bind_prog:
  "run_prog n nx (bind_prog p k) s =
     (case run_prog n nx p s of None \<Rightarrow> None | Some (e, s') \<Rightarrow> run_prog n nx (k e) s')"
  by (induction p arbitrary: s) (auto split: option.split)

lemma run_no_next:
  "no_next p \<Longrightarrow> same_view s t \<Longrightarrow> alike (run_prog n nx p s) (run_prog n' nx' (apply_middleware p q) t)"
  by (induction p arbitrary: s t) (auto simp: alike_def same_view_def)

lemma run_once:
  assumes "\<And>s t. same_view s t \<Longrightarrow> ac_index s = i \<or> ac_aborted s \<Longrightarrow> alike (nx s) (run_prog n' nx' q t)"
    and "once m" "same_view s t" "ac_index s = i \<or> ac_aborted s"
  shows "alike (run_prog n nx m s) (run_prog n' nx' (apply_middleware m q) t)"
  using assms(2-4)
proof (induction m arbitrary: s t)
  case (CallNext k)
  from assms(1) [OF CallNext.prems(2,3)] obtain e s' t' where
    "nx s = Some (e, s')" "run_prog n' nx' q t = Some (e, t')" "same_view s' t'"
    by (auto simp: alike_def)
  with CallNext.prems(1) show ?case by (simp add: run_bind_prog run_no_next)
qed (auto simp: alike_def same_view_def)

text \<open>The handler at the end of the chain may call \<open>Next\<close> as often as it likes: nothing is left.\<close>

definition stop :: "'w acts \<Rightarrow> 'w ran" where
  "stop s = Some (None, s)"

lemma run_last:
  assumes "\<And>s. i \<le> ac_index s \<Longrightarrow> \<exists>s'. nx s = Some (None, s') \<and> same_view s s' \<and> i \<le> ac_index s'" "i \<le> int n"
  shows "same_view s t \<Longrightarrow> i \<le> ac_index s \<Longrightarrow> alike (run_prog n nx h s) (run_prog n' stop h t)"
proof (induction h arbitrary: s t)
  case (CallNext k)
  from assms(1) [OF CallNext.prems(2)] obtain s' where "nx s = Some (None, s')" "same_view s s'" "i \<le> ac_index s'" by blast
  with CallNext show ?case by (simp add: stop_def same_view_def)
qed (use assms(2) in \<open>auto simp: alike_def same_view_def\<close>)

lemma action_next_past_end:
  "int (length hs) \<le> ac_index s + 1 \<Longrightarrow>
   \<exists>s'. action_next (Suc fuel) hs s = Some (None, s') \<and> same_view s s' \<and> ac_index s \<le> ac_index s'"
  by (auto simp: same_view_def Let_def)

lemma chain_nested:
  assumes "\<forall>m\<in>set ms. once m" "hs = pre @ map Some (ms @ [h])" "length ms + 1 < fuel"
    and "ac_index s = int (length pre) - 1" "same_view s t"
  shows "alike (action_next fuel hs s) (run_prog n' stop (guarded (nested ms h)) t)"
  using assms
proof (induction ms arbitrary: pre fuel s t)
  case Nil
  then obtain f where f: "fuel = Suc (Suc f)" by (cases fuel; cases "fuel - 1") auto
  show ?case
  proof (cases "ac_aborted s")
    case True
    with Nil.prems(5) show ?thesis by (simp add: f alike_def same_view_def guarded_def stop_def)
  next
    case False
    let ?s = "s\<lparr>ac_index := ac_index s + 1\<rparr>"
    have "alike (run_prog (length hs) (action_next (Suc f) hs) h ?s) (run_prog n' stop h t)"
    proof (rule run_last [where i = "int (length pre)"])
      fix u :: "'a acts" assume "int (length pre) \<le> ac_index u"
      then have "int (length hs) \<le> ac_index u + 1" using Nil.prems(2) by simp
      from action_next_past_end [OF this, of f] \<open>int (length pre) \<le> ac_index u\<close>
      show "\<exists>s'. action_next (Suc f) hs u = Some (None, s') \<and> same_view u s' \<and> int (length pre) \<le> ac_index s'"
        by (meson order.trans)
    qed (use Nil.prems in \<open>auto simp: same_view_def\<close>)
    moreover have "hs ! nat (ac_index s + 1) = Some h" "\<not> int (length hs) \<le> ac_index s + 1"
      using Nil.prems(2,4) by simp_all
    ultimately show ?thesis using False Nil.prems(5) unfolding f
      by (simp add: guarded_def same_view_def Let_def del: action_next.simps(2) [of f])
  qed
next
  case (Cons m ms)
  then obtain f where f: "fuel = Suc f" by (cases fuel) auto
  show ?case
  proof (cases "ac_aborted s")
    case True
    with Cons.prems(5) show ?thesis by (simp add: f alike_def same_view_def guarded_def stop_def)
  next
    case False
    let ?s = "s\<lparr>ac_index := ac_index s + 1\<rparr>"
    have next_ok: "alike (action_next f hs u) (run_prog n' stop (guarded (nested ms h)) v)"
      if "same_view u v" "ac_index u = int (length pre) \<or> ac_aborted u" for u v :: "'a acts"
    proof (cases "ac_aborted u")
      case True
      moreover obtain g where "f = Suc g" using Cons.prems(3) f by (cases f) auto
      ultimately show ?thesis using that(1) by (simp add: alike_def same_view_def guarded_def stop_def)
    next
      case False
      with that have "ac_index u = int (length (pre @ [Some m])) - 1" by simp
      from Cons.IH [OF _ _ _ this that(1)] Cons.prems(1-3) f show ?thesis by simp
    qed
    have "alike (run_prog (length hs) (action_next f hs) m ?s) (run_prog n' stop (nested (m # ms) h) t)"
      unfolding nested.simps
      by (rule run_once [where i = "int (length pre)", OF next_ok]) (use Cons.prems in \<open>auto simp: same_view_def\<close>)
    moreover have "hs ! nat (ac_index s + 1) = Some m" "\<not> int (length hs) \<le> ac_index s + 1"
      using Cons.prems(2,4) by simp_all
    ultimately show ?thesis using False Cons.prems(5) unfolding f
      by (simp add: guarded_def same_view_def Let_def)
  qed
qed

section \<open>Properties\<close>

definition chain_start :: "'w \<Rightarrow> 'w acts" where
  "chain_start w = \<lparr>ac_index = -1, ac_aborted = False, ac_world = w\<rparr>"

text \<open>
  C35: every chain of handlers returns.  Whatever the handlers do and however often they call
  \<open>Next\<close>, running them ends with a result, after a nesting of calls no deeper than the chain is
  long; the fuel of the definition is enough and more of it changes nothing.
\<close>

theorem run_handlers_returns:
  "\<exists>e s. run_handlers hs w = Some (e, s) \<and> action_next (Suc (length hs) + extra) hs (chain_start w) = Some (e, s)"
proof -
  have "forward (action_next (Suc (length hs)) hs) (-1)" by (rule action_next_forward) simp_all
  moreover have "- 1 \<le> ac_index (chain_start w)" by (simp add: chain_start_def)
  ultimately obtain e s where "action_next (Suc (length hs)) hs (chain_start w) = Some (e, s)"
    unfolding forward_def by blast
  with action_next_more [OF this, of extra] show ?thesis
    by (auto simp: run_handlers_def chain_start_def simp del: action_next.simps)
qed

lemma guarded_start:
  "run_prog n stop (guarded p) (chain_start w) = run_prog n stop p (chain_start w)"
  by (simp add: guarded_def chain_start_def)

text \<open>
  C28: a compiled chain is the nest of its middlewares.  For middlewares that call \<open>next\<close> at most
  once on each path, running the compiled handlers of a context, with its shared index, gives the
  same error, abort state and effects as the first middleware wrapped around the second, and so on
  around the handler, where a call of \<open>next\<close> after an abort does nothing.
\<close>

theorem chain_is_nested:
  assumes "compile_handlers (Some h) mws = Some hs" "\<forall>m. Some m \<in> set mws \<longrightarrow> once m"
  shows "map_option (\<lambda>(e, s). (e, ac_aborted s, ac_world s)) (run_handlers hs w) =
    map_option (\<lambda>(e, s). (e, ac_aborted s, ac_world s))
      (run_prog 0 stop (nested (List.map_filter (\<lambda>m. m) mws) h) (chain_start w))"
proof -
  let ?ms = "List.map_filter (\<lambda>m. m) mws"
  have hs: "hs = [] @ map Some (?ms @ [h])" using assms(1) by (auto simp: compile_handlers_def)
  have "\<forall>m\<in>set ?ms. once m" using assms(2) by (auto simp: List.map_filter_def)
  from chain_nested [OF this hs, of "Suc (length hs)" "chain_start w" "chain_start w" 0]
  have "alike (run_handlers hs w) (run_prog 0 stop (guarded (nested ?ms h)) (chain_start w))"
    by (simp add: hs same_view_def chain_start_def run_handlers_def del: action_next.simps)
  then show ?thesis unfolding guarded_start by (auto simp: alike_def same_view_def)
qed

text \<open>A middleware that records its way in and out, around a handler that records itself.\<close>

definition tracing_middleware :: "nat list prog" where
  "tracing_middleware = Modify (\<lambda>w. w @ [1]) (CallNext (\<lambda>e. Modify (\<lambda>w. w @ [3]) (Finish e)))"

definition recording_handler :: "nat list prog" where
  "recording_handler = Modify (\<lambda>w. w @ [2]) (Finish None)"

theorem chain_is_nested_witness:
  "map_option (\<lambda>(e, s). (e, ac_aborted s, ac_world s))
     (run_handlers [Some tracing_middleware, Some recording_handler] []) = Some (None, False, [1, 2, 3])"
proof -
  have c: "compile_handlers (Some recording_handler) [None, Some tracing_middleware] =
      Some [Some tracing_middleware, Some recording_handler]"
    by (simp add: compile_handlers_def List.map_filter_def)
  have o: "\<forall>m. Some m \<in> set [None, Some tracing_middleware] \<longrightarrow> once m"
    by (simp add: tracing_middleware_def)
  from chain_is_nested [OF c o, of "[]"] show ?thesis
    by (simp add: List.map_filter_def tracing_middleware_def recording_handler_def guarded_def chain_start_def)
qed

text \<open>
  The restriction is needed: \<open>Next\<close> goes on from the shared index, so a middleware that calls \<open>next\<close>
  a second time after an error, to try again, runs nothing and is told that all went well.
\<close>

definition retrying_middleware :: "nat prog" where
  "retrying_middleware = CallNext (\<lambda>e. case e of None \<Rightarrow> Finish None | Some _ \<Rightarrow> CallNext Finish)"

definition counting_failure :: "nat prog" where
  "counting_failure = Modify Suc (Finish (Some RErrInvalidAction))"

lemma second_next_runs_nothing:
  "map_option (\<lambda>(e, s). (e, ac_world s)) (run_handlers [Some retrying_middleware, Some counting_failure] 0) = Some (None, 1)"
  "map_option (\<lambda>(e, s). (e, ac_world s))
     (run_prog 0 stop (nested [retrying_middleware] counting_failure) (chain_start 0)) = Some (Some RErrInvalidAction, 2)"
  by (simp_all add: run_handlers_def retrying_middleware_def counting_failure_def guarded_def chain_start_def stop_def Let_def)

end
