(* ===== verification/Realtime_Router.thy ===== *)
theory Realtime_Router
  imports Realtime_Action
begin

text \<open>
  Routing of actions: \<^verbatim>\<open>pkg/realtime/gateway/router.go\<close> and \<open>Runtime.Handle\<close> of \<^verbatim>\<open>runtime.go\<close>.

  Routers refer to their parents and are changed in place, so they live in an arena: a router is a
  position in a list, a group is a new position with a parent.  Going up to the root is a loop
  without a bound in the code, hence a partial function; it ends in every arena the operations
  build (\<open>arena_ok\<close>).  The mutex of the root is held by every operation that reads or writes
  routes, each of which is one step.
\<close>

section \<open>Names of actions\<close>

definition trim_dots :: "string \<Rightarrow> string" where
  "trim_dots s = rev (dropWhile (\<lambda>c. c = CHR ''.'') (rev (dropWhile (\<lambda>c. c = CHR ''.'') s)))"

definition join_action :: "string \<Rightarrow> string \<Rightarrow> string" where
  "join_action prefix0 action0 =
     (let prefix = trim_dots (trim_space prefix0); action = trim_dots (trim_space action0)
      in if prefix = [] then action else if action = [] then prefix else prefix @ ''.'' @ action)"

section \<open>Routers\<close>

record 'w route =
  ro_action :: string
  ro_middleware :: "'w prog list"
  ro_handler :: "'w prog option"
  ro_compiled :: "'w prog option list option"
  ro_handlers :: "'w prog list"

record 'w router_node =
  rn_prefix :: string
  rn_middlewares :: "'w prog list"
  rn_routes :: "string \<rightharpoonup> 'w route"
  rn_parent :: "nat option"

type_synonym 'w arena = "'w router_node list"

definition compact_items :: "'w prog option list \<Rightarrow> 'w prog list" where
  "compact_items items = List.map_filter (\<lambda>i. i) items"

definition new_router :: "'w prog option list \<Rightarrow> 'w arena \<Rightarrow> nat \<times> 'w arena" where
  "new_router ms ar = (length ar, ar @ [\<lparr>rn_prefix = [], rn_middlewares = compact_items ms, rn_routes = Map.empty, rn_parent = None\<rparr>])"

definition use_middleware :: "nat option \<Rightarrow> 'w prog option list \<Rightarrow> 'w arena \<Rightarrow> 'w arena" where
  "use_middleware r ms ar =
     (case r of None \<Rightarrow> ar
      | Some r \<Rightarrow> ar[r := (ar ! r)\<lparr>rn_middlewares := rn_middlewares (ar ! r) @ compact_items ms\<rparr>])"

definition group_router :: "nat option \<Rightarrow> string \<Rightarrow> 'w prog option list \<Rightarrow> 'w arena \<Rightarrow> nat \<times> 'w arena" where
  "group_router r prefix ms ar =
     (case r of None \<Rightarrow> new_router ms ar
      | Some r \<Rightarrow> (length ar, ar @ [\<lparr>rn_prefix = join_action (rn_prefix (ar ! r)) prefix, rn_middlewares = compact_items ms,
          rn_routes = Map.empty, rn_parent = Some r\<rparr>]))"

partial_function (option) root_router :: "'w arena \<Rightarrow> nat \<Rightarrow> nat option" where
  "root_router ar r = (case rn_parent (ar ! r) of None \<Rightarrow> Some r | Some q \<Rightarrow> root_router ar q)"

partial_function (option) all_middleware :: "'w arena \<Rightarrow> nat \<Rightarrow> 'w prog list option" where
  "all_middleware ar r =
     (case rn_parent (ar ! r) of None \<Rightarrow> Some (rn_middlewares (ar ! r))
      | Some q \<Rightarrow> Option.bind (all_middleware ar q) (\<lambda>ms. Some (ms @ rn_middlewares (ar ! r))))"

definition build_pipeline :: "'w route option \<Rightarrow> 'w prog option list \<Rightarrow> 'w prog option list option" where
  "build_pipeline route ms =
     (case route of None \<Rightarrow> None
      | Some ro \<Rightarrow>
          if ms = [] \<and> ro_compiled ro \<noteq> None then ro_compiled ro
          else let h = (case ro_handler ro of Some h \<Rightarrow> h | None \<Rightarrow> pipeline (map Some (ro_handlers ro)))
               in compile_handlers (Some h) (map Some (ro_middleware ro) @ ms))"

text \<open>\<open>On\<close>; the outer option is \<open>None\<close> when a loop over the parents does not end.\<close>

definition on_action :: "nat option \<Rightarrow> string \<Rightarrow> 'w prog option list \<Rightarrow> 'w arena \<Rightarrow> 'w arena option" where
  "on_action r action0 handlers ar =
     (case r of None \<Rightarrow> Some ar
      | Some r \<Rightarrow>
        let action = join_action (rn_prefix (ar ! r)) action0; local_handlers = compact_items handlers in
        if action = [] \<or> handlers = [] then Some ar
        else if local_handlers = [] then Some ar
        else Option.bind (root_router ar r) (\<lambda>root.
          Option.bind (all_middleware ar r) (\<lambda>ms.
            let route = \<lparr>ro_action = action, ro_middleware = ms, ro_handler = Some (pipeline (map Some local_handlers)),
                         ro_compiled = None, ro_handlers = local_handlers\<rparr>;
                route' = route\<lparr>ro_compiled := build_pipeline (Some route) []\<rparr>
            in Some (ar[root := (ar ! root)\<lparr>rn_routes := (rn_routes (ar ! root))(action \<mapsto> route')\<rparr>]))))"

definition match_action :: "nat option \<Rightarrow> string \<Rightarrow> 'w arena \<Rightarrow> 'w route option option" where
  "match_action r action ar =
     (case r of None \<Rightarrow> Some None
      | Some r \<Rightarrow> Option.bind (root_router ar r) (\<lambda>root. Some (rn_routes (ar ! root) (trim_space action))))"

section \<open>Handling an action (runtime.go)\<close>

record ('d, 'u) action_ctx =
  ax_event :: "'d rl_event option"
  ax_client :: "nat option"
  ax_gateway :: bool
  ax_user :: 'u

text \<open>The activity hook of the lifecycle, when there is one.\<close>

type_synonym ('d, 'u) activity = "nat \<Rightarrow> ('d, 'u) action_ctx \<Rightarrow> rl_error option \<times> ('d, 'u) action_ctx"

definition handle_action ::
  "nat option \<Rightarrow> ('d, 'u) activity option \<Rightarrow> ('d, 'u) action_ctx arena \<Rightarrow> ('d, 'u) action_ctx \<Rightarrow>
   (rl_error option \<times> ('d, 'u) action_ctx) option" where
  "handle_action router lifecycle ar cx =
     (case router of None \<Rightarrow> Some (Some RErrNilRouter, cx)
      | Some r \<Rightarrow>
        (case ax_event cx of None \<Rightarrow> Some (Some RErrInvalidAction, cx)
         | Some e0 \<Rightarrow>
           let e = normalize_event e0; cx1 = cx\<lparr>ax_event := Some e\<rparr> in
           Option.bind (match_action (Some r) (rv_action e) ar) (\<lambda>found.
             case found of None \<Rightarrow> Some (Some RErrActionNotFound, cx1)
             | Some route \<Rightarrow>
               (case ro_compiled route of None \<Rightarrow> Some (Some RErrNilActionHandler, cx1)
                | Some hs \<Rightarrow>
                  let cx2 = cx1\<lparr>ax_gateway := True\<rparr>;
                      (err, cx3) = (case (lifecycle, ax_client cx2) of
                          (Some act, Some c) \<Rightarrow> act c cx2 | _ \<Rightarrow> (None, cx2))
                  in (case err of Some er \<Rightarrow> Some (Some er, cx3)
                      | None \<Rightarrow> map_option (\<lambda>(er, s). (er, ac_world s)) (run_handlers hs cx3))))))"

section \<open>Arenas\<close>

definition arena_ok :: "'w arena \<Rightarrow> bool" where
  "arena_ok ar \<longleftrightarrow> (\<forall>r<length ar. \<forall>q. rn_parent (ar ! r) = Some q \<longrightarrow> q < r)"

lemma root_router_returns: "arena_ok ar \<Longrightarrow> r < length ar \<Longrightarrow> \<exists>q. root_router ar r = Some q \<and> q < length ar"
proof (induction r rule: less_induct)
  case (less r)
  show ?case
  proof (cases "rn_parent (ar ! r)")
    case None
    then show ?thesis using less.prems by (simp add: root_router.simps [of ar r])
  next
    case (Some q)
    then have "q < r" using less.prems by (simp add: arena_ok_def)
    with less Some show ?thesis by (simp add: root_router.simps [of ar r])
  qed
qed

lemma all_middleware_returns: "arena_ok ar \<Longrightarrow> r < length ar \<Longrightarrow> \<exists>ms. all_middleware ar r = Some ms"
proof (induction r rule: less_induct)
  case (less r)
  show ?case
  proof (cases "rn_parent (ar ! r)")
    case None
    then show ?thesis by (simp add: all_middleware.simps [of ar r])
  next
    case (Some q)
    then have "q < r" using less.prems by (simp add: arena_ok_def)
    with less have "\<exists>ms. all_middleware ar q = Some ms" by simp
    with Some show ?thesis by (auto simp: all_middleware.simps [of ar r])
  qed
qed

text \<open>Only the parents matter for the root, and the operations keep them.\<close>

lemma root_router_cong:
  assumes "arena_ok ar" "length ar' = length ar" "\<And>q. q < length ar \<Longrightarrow> rn_parent (ar' ! q) = rn_parent (ar ! q)"
  shows "r < length ar \<Longrightarrow> root_router ar' r = root_router ar r"
proof (induction r rule: less_induct)
  case (less r)
  show ?case
  proof (cases "rn_parent (ar ! r)")
    case None
    then show ?thesis using less.prems assms(3) by (simp add: root_router.simps [of _ r])
  next
    case (Some q)
    then have "q < r" using less.prems assms(1) by (simp add: arena_ok_def)
    with less Some show ?thesis using assms(3) by (simp add: root_router.simps [of _ r])
  qed
qed

lemma parent_update: "rn_parent v = rn_parent (ar ! x) \<Longrightarrow> rn_parent (ar[x := v] ! q) = rn_parent (ar ! q)"
  by (cases "x < length ar") (auto simp: nth_list_update list_update_beyond)

lemma arena_ok_ops:
  "arena_ok []"
  "arena_ok ar \<Longrightarrow> arena_ok (snd (new_router ms ar))"
  "arena_ok ar \<Longrightarrow> arena_ok (use_middleware r ms ar)"
  "arena_ok ar \<Longrightarrow> (\<And>q. r = Some q \<Longrightarrow> q < length ar) \<Longrightarrow> arena_ok (snd (group_router r prefix ms ar))"
  by (auto simp: arena_ok_def new_router_def use_middleware_def group_router_def nth_append parent_update
      less_Suc_eq split: option.splits)

lemma arena_ok_on:
  assumes "arena_ok ar" "on_action r action hs ar = Some ar'"
  shows "arena_ok ar'" "length ar' = length ar" "\<And>q. q < length ar \<Longrightarrow> rn_parent (ar' ! q) = rn_parent (ar ! q)"
  using assms
  by (auto simp: on_action_def arena_ok_def Let_def parent_update split: option.splits if_splits bind_splits)

lemma compact_items_Some [simp]: "List.map_filter (\<lambda>i. i) (map Some xs) = xs"
  by (induction xs) (simp_all add: List.map_filter_def)

lemma on_action_adds:
  assumes "arena_ok ar" "r < length ar" "join_action (rn_prefix (ar ! r)) action = a" "a \<noteq> []" "compact_items hs \<noteq> []"
  obtains root ms where "root_router ar r = Some root" "root < length ar" "all_middleware ar r = Some ms"
    "on_action (Some r) action hs ar = Some (ar[root := (ar ! root)\<lparr>rn_routes := (rn_routes (ar ! root))(a \<mapsto>
       \<lparr>ro_action = a, ro_middleware = ms, ro_handler = Some (pipeline (map Some (compact_items hs))),
        ro_compiled = Some (map Some ms @ [Some (pipeline (map Some (compact_items hs)))]), ro_handlers = compact_items hs\<rparr>)\<rparr>])"
proof -
  obtain root where root: "root_router ar r = Some root" "root < length ar"
    using root_router_returns [OF assms(1,2)] by blast
  obtain ms where ms: "all_middleware ar r = Some ms" using all_middleware_returns [OF assms(1,2)] by blast
  have "hs \<noteq> []" using assms(5) by (auto simp: compact_items_def List.map_filter_def)
  then show ?thesis
    using assms(3-5) root ms
    by (intro that [OF root ms]) (simp add: on_action_def Let_def build_pipeline_def compile_handlers_def)
qed

section \<open>Properties\<close>

text \<open>
  Registering an action.  In a well-formed arena \<open>On\<close> returns; afterwards every router of the
  same tree finds, under the joined name, the route whose compiled chain is the middlewares of the
  router and its groups, outermost first, followed by the handlers, and every other name finds what
  it found before.
\<close>

theorem on_then_match:
  assumes "arena_ok ar" "r < length ar" "r' < length ar" "root_router ar r' = root_router ar r"
    and "join_action (rn_prefix (ar ! r)) action = a" "a \<noteq> []" "compact_items hs \<noteq> []"
  shows "\<exists>ar' ms route. on_action (Some r) action hs ar = Some ar' \<and> arena_ok ar' \<and> all_middleware ar r = Some ms \<and>
    ro_compiled route = Some (map Some ms @ [Some (pipeline (map Some (compact_items hs)))]) \<and>
    (\<forall>b. match_action (Some r') b ar' = (if trim_space b = a then Some (Some route) else match_action (Some r') b ar))"
proof -
  let ?route = "\<lambda>ms. \<lparr>ro_action = a, ro_middleware = ms, ro_handler = Some (pipeline (map Some (compact_items hs))),
        ro_compiled = Some (map Some ms @ [Some (pipeline (map Some (compact_items hs)))]), ro_handlers = compact_items hs\<rparr>"
  from on_action_adds [OF assms(1,2,5-7)] obtain root ms ar' where on: "root_router ar r = Some root" "root < length ar"
    "all_middleware ar r = Some ms" "on_action (Some r) action hs ar = Some ar'"
    "ar' = ar[root := (ar ! root)\<lparr>rn_routes := (rn_routes (ar ! root))(a \<mapsto> ?route ms)\<rparr>]" by metis
  note ok = arena_ok_on [OF assms(1) on(4)]
  have "root_router ar' r' = Some root"
    using root_router_cong [OF assms(1) ok(2,3) assms(3)] assms(4) on(1) by simp
  then have "match_action (Some r') b ar' = (if trim_space b = a then Some (Some (?route ms)) else match_action (Some r') b ar)" for b
    using assms(4) on(1,2) by (simp add: match_action_def on(5))
  with on(3,4) ok(1) show ?thesis by (intro exI [of _ ar'] exI [of _ ms] exI [of _ "?route ms"]) simp
qed

text \<open>A root and a group \<open>chat\<close> with a middleware of its own.\<close>

definition sample_arena :: "nat list arena" where
  "sample_arena = snd (group_router (Some 0) ''chat'' [None, Some tracing_middleware] (snd (new_router [] [])))"

lemma sample_arena_value:
  "sample_arena = [\<lparr>rn_prefix = [], rn_middlewares = [], rn_routes = Map.empty, rn_parent = None\<rparr>,
     \<lparr>rn_prefix = ''chat'', rn_middlewares = [tracing_middleware], rn_routes = Map.empty, rn_parent = Some 0\<rparr>]"
proof -
  have "trim_space ''chat'' = ''chat''" by (rule trim_space_printable) simp
  then show ?thesis
    by (simp add: sample_arena_def group_router_def new_router_def compact_items_def List.map_filter_def
        join_action_def trim_dots_def)
qed

theorem on_then_match_witness:
  "\<exists>ar' route. on_action (Some 1) ''.send'' [Some recording_handler] sample_arena = Some ar' \<and>
     match_action (Some 0) '' chat.send'' ar' = Some (Some route) \<and>
     ro_compiled route = Some [Some tracing_middleware, Some (pipeline [Some recording_handler])]"
proof -
  have trims: "trim_space ''chat'' = ''chat''" "trim_space ''.send'' = ''.send''" by (rule trim_space_printable, simp)+
  have t: "trim_space '' chat.send'' = ''chat.send''" by code_simp
  have ok: "arena_ok sample_arena" by (auto simp: arena_ok_def sample_arena_value less_Suc_eq)
  have roots: "root_router sample_arena 0 = Some 0" "root_router sample_arena 1 = Some 0"
    by (simp_all add: root_router.simps sample_arena_value)
  have join: "join_action (rn_prefix (sample_arena ! 1)) ''.send'' = ''chat.send''"
    using trims by (simp add: sample_arena_value join_action_def trim_dots_def)
  have ms: "all_middleware sample_arena 1 = Some [tracing_middleware]"
    by (simp add: all_middleware.simps sample_arena_value)
  have "compact_items [Some recording_handler] = [recording_handler]" by (simp add: compact_items_def List.map_filter_def)
  with on_then_match [OF ok _ _ _ join, of 0 "[Some recording_handler]"] roots ms t show ?thesis
    by (auto simp: sample_arena_value)
qed

end
