(* ===== verification/Crontab_Types.thy ===== *)
theory Crontab_Types
  imports Prelude
begin

text \<open>
  \<^verbatim>\<open>core/crontab\<close>: statuses, sources and modes (\<open>types.go\<close>), errors (\<open>errors.go\<close>, the
  \<open>runtimeError\<close> of \<open>runtime.go\<close>), jobs, entries, templates and run logs (\<open>job.go\<close>, \<open>entry.go\<close>,
  \<open>template.go\<close>), results (\<open>run_context.go\<close>) and the configuration (\<open>config.go\<close>).

  String enumerations are datatypes with a constructor for the empty string and one for any other
  text.  Times and durations are nanoseconds, the zero time is 0.  A \<open>runtimeError\<close> wraps a result
  and a result holds an error, so the fields of the result stand in the constructor.
\<close>

section \<open>Enumerations (types.go)\<close>

datatype cron_mode = ModeUnset | ModeLocal | ModeOther string

datatype cron_source = SourceUnset | SourceBuiltin | SourceDynamic | SourceDB | SourceManual | SourceOther string

datatype cron_status =
    CronUnset | CronPending | CronRunning | CronSuccess | CronFailed | CronSkipped | CronTimeout | CronPanic
  | CronLocked | CronDisabled | CronTemplateMissing | CronTemplateDisabled | CronOther string

fun cron_status_text :: "cron_status \<Rightarrow> string" where
  "cron_status_text CronUnset = []"
| "cron_status_text CronPending = ''pending''"
| "cron_status_text CronRunning = ''running''"
| "cron_status_text CronSuccess = ''success''"
| "cron_status_text CronFailed = ''failed''"
| "cron_status_text CronSkipped = ''skipped''"
| "cron_status_text CronTimeout = ''timeout''"
| "cron_status_text CronPanic = ''panic''"
| "cron_status_text CronLocked = ''locked''"
| "cron_status_text CronDisabled = ''disabled''"
| "cron_status_text CronTemplateMissing = ''template_missing''"
| "cron_status_text CronTemplateDisabled = ''template_disabled''"
| "cron_status_text (CronOther s) = s"

section \<open>Errors (errors.go)\<close>

datatype cron_sentinel =
    ErrRegistryRequired | ErrTemplateNotFound | ErrTemplateDisabled | ErrDynamicNotAllowed
  | ErrEntryNotFound | ErrLocalHandlerMissing | ErrJobRunning | ErrRunLimitReached
  | CronDeadlineExceeded | CronCanceled

fun cron_sentinel_text :: "cron_sentinel \<Rightarrow> string" where
  "cron_sentinel_text ErrRegistryRequired = ''crontab registry is required''"
| "cron_sentinel_text ErrTemplateNotFound = ''crontab template not found''"
| "cron_sentinel_text ErrTemplateDisabled = ''crontab template disabled''"
| "cron_sentinel_text ErrDynamicNotAllowed = ''crontab template does not allow dynamic''"
| "cron_sentinel_text ErrEntryNotFound = ''crontab entry not found''"
| "cron_sentinel_text ErrLocalHandlerMissing = ''crontab local handler missing''"
| "cron_sentinel_text ErrJobRunning = ''crontab job is already running''"
| "cron_sentinel_text ErrRunLimitReached = ''crontab run limit reached''"
| "cron_sentinel_text CronDeadlineExceeded = ''context deadline exceeded''"
| "cron_sentinel_text CronCanceled = ''context canceled''"

text \<open>
  Leaves: the sentinels (the last two those of the \<open>context\<close> package) and texts; nodes:
  \<open>fmt.Errorf\<close> with \<open>%w\<close>, given by its text, and \<open>runtimeError\<close>, which unwraps to the error of its
  result.
\<close>

datatype cron_error =
    CSentinel cron_sentinel
  | CText string
  | CWrapped string cron_error
  | CRuntime cron_status "cron_error option" string

fun cron_is :: "cron_sentinel \<Rightarrow> cron_error \<Rightarrow> bool" where
  "cron_is s (CSentinel t) = (t = s)"
| "cron_is s (CText _) = False"
| "cron_is s (CWrapped _ e) = cron_is s e"
| "cron_is s (CRuntime _ None _) = False"
| "cron_is s (CRuntime _ (Some e) _) = cron_is s e"

fun cron_error_text :: "cron_error \<Rightarrow> string" where
  "cron_error_text (CSentinel s) = cron_sentinel_text s"
| "cron_error_text (CText s) = s"
| "cron_error_text (CWrapped s _) = s"
| "cron_error_text (CRuntime st None _) = cron_status_text st"
| "cron_error_text (CRuntime _ (Some e) _) = cron_error_text e"

definition cron_is_opt :: "cron_sentinel \<Rightarrow> cron_error option \<Rightarrow> bool" where
  "cron_is_opt s e = (case e of None \<Rightarrow> False | Some x \<Rightarrow> cron_is s x)"

lemma cron_is_opt_simps [simp]:
  "\<not> cron_is_opt s None" "cron_is_opt s (Some e) = cron_is s e"
  by (simp_all add: cron_is_opt_def)

section \<open>Results (run_context.go, runtime.go)\<close>

record cron_result =
  rr_status :: cron_status
  rr_err :: "cron_error option"
  rr_panic :: string

definition rr :: "cron_status \<Rightarrow> cron_error option \<Rightarrow> cron_result" where
  "rr st e = \<lparr>rr_status = st, rr_err = e, rr_panic = []\<rparr>"

lemma rr_sel [simp]: "rr_status (rr st e) = st" "rr_err (rr st e) = e" "rr_panic (rr st e) = []"
  by (simp_all add: rr_def)

definition normalize_result :: "cron_result \<Rightarrow> cron_result" where
  "normalize_result r =
     (if rr_status r \<noteq> CronUnset then r
      else if rr_err r \<noteq> None then r\<lparr>rr_status := CronFailed\<rparr>
      else r\<lparr>rr_status := CronSuccess\<rparr>)"

lemma normalize_result_set [simp]: "rr_status (normalize_result r) \<noteq> CronUnset"
  by (simp add: normalize_result_def)

lemma normalize_result_err [simp]: "rr_err (normalize_result r) = rr_err r" "rr_panic (normalize_result r) = rr_panic r"
  by (simp_all add: normalize_result_def)

lemma normalize_result_id [simp]: "rr_status r \<noteq> CronUnset \<Longrightarrow> normalize_result r = r"
  by (simp add: normalize_result_def)

definition runtime_result_error :: "cron_result \<Rightarrow> cron_error option" where
  "runtime_result_error r =
     (let r' = normalize_result r in
      if rr_status r' = CronSuccess then None
      else Some (CRuntime (rr_status r') (rr_err r') (rr_panic r')))"

text \<open>\<open>errors.As\<close> for \<open>runtimeError\<close>.\<close>

fun as_cron_runtime :: "cron_error \<Rightarrow> cron_result option" where
  "as_cron_runtime (CSentinel _) = None"
| "as_cron_runtime (CText _) = None"
| "as_cron_runtime (CWrapped _ e) = as_cron_runtime e"
| "as_cron_runtime (CRuntime st e p) = Some \<lparr>rr_status = st, rr_err = e, rr_panic = p\<rparr>"

definition run_result_from_error :: "cron_error option \<Rightarrow> cron_result" where
  "run_result_from_error err =
     (case err of None \<Rightarrow> rr CronSuccess None
      | Some e \<Rightarrow> (case as_cron_runtime e of
            Some r \<Rightarrow> normalize_result r
          | None \<Rightarrow> rr CronFailed (Some e)))"

definition validate_status :: "cron_error \<Rightarrow> cron_status" where
  "validate_status e =
     (if cron_is ErrTemplateNotFound e then CronTemplateMissing
      else if cron_is ErrTemplateDisabled e then CronTemplateDisabled
      else if cron_is ErrDynamicNotAllowed e then CronSkipped
      else CronFailed)"

text \<open>A result survives the passage through an error, but for the error of a success.\<close>

lemma result_through_error:
  "run_result_from_error (runtime_result_error r) =
     (if rr_status (normalize_result r) = CronSuccess then rr CronSuccess None else normalize_result r)"
  by (auto simp: run_result_from_error_def runtime_result_error_def Let_def rr_def)

lemma runtime_result_error_None [simp]:
  "runtime_result_error r = None \<longleftrightarrow> rr_status (normalize_result r) = CronSuccess"
  by (simp add: runtime_result_error_def Let_def)

section \<open>Jobs and entries (job.go, entry.go)\<close>

record cron_job =
  cj_id :: string
  cj_name :: string
  cj_label :: string
  cj_spec :: string
  cj_source :: cron_source
  cj_mode :: cron_mode
  cj_enabled :: bool
  cj_payload :: string
  cj_queue :: string
  cj_task_type :: string
  cj_timeout :: int
  cj_distributed :: bool
  cj_lock_ttl :: int
  cj_lock_key :: string
  cj_max_run_count :: int

record cron_entry =
  ce_id :: string
  ce_name :: string
  ce_template_key :: string
  ce_spec :: string
  ce_payload :: string
  ce_source :: cron_source
  ce_enabled :: bool
  ce_timeout :: int
  ce_distributed :: bool
  ce_lock_ttl :: int
  ce_lock_key :: string
  ce_max_run_count :: int

definition empty_entry :: cron_entry where
  "empty_entry = \<lparr>ce_id = [], ce_name = [], ce_template_key = [], ce_spec = [], ce_payload = [],
     ce_source = SourceUnset, ce_enabled = False, ce_timeout = 0, ce_distributed = False, ce_lock_ttl = 0,
     ce_lock_key = [], ce_max_run_count = 0\<rparr>"

definition EntryToJob :: "cron_entry \<Rightarrow> cron_job" where
  "EntryToJob e =
     \<lparr>cj_id = ce_id e,
      cj_name = (if ce_template_key e = [] then ce_name e else ce_template_key e),
      cj_label = ce_name e, cj_spec = ce_spec e, cj_source = ce_source e, cj_mode = ModeLocal,
      cj_enabled = ce_enabled e, cj_payload = ce_payload e, cj_queue = [], cj_task_type = [],
      cj_timeout = ce_timeout e, cj_distributed = ce_distributed e, cj_lock_ttl = ce_lock_ttl e,
      cj_lock_key = ce_lock_key e, cj_max_run_count = ce_max_run_count e\<rparr>"

definition JobToEntry :: "cron_job \<Rightarrow> cron_entry" where
  "JobToEntry j =
     \<lparr>ce_id = cj_id j, ce_name = cj_label j, ce_template_key = cj_name j, ce_spec = cj_spec j,
      ce_payload = cj_payload j,
      ce_source = (if cj_source j = SourceDynamic then SourceDB else cj_source j),
      ce_enabled = cj_enabled j, ce_timeout = cj_timeout j, ce_distributed = cj_distributed j,
      ce_lock_ttl = cj_lock_ttl j, ce_lock_key = cj_lock_key j, ce_max_run_count = cj_max_run_count j\<rparr>"

lemma entry_job_entry:
  "ce_template_key e \<noteq> [] \<Longrightarrow> ce_source e \<noteq> SourceDynamic \<Longrightarrow> JobToEntry (EntryToJob e) = e"
  by (simp add: JobToEntry_def EntryToJob_def)

lemma job_entry_sel [simp]:
  "ce_id (JobToEntry j) = cj_id j" "ce_template_key (JobToEntry j) = cj_name j"
  "ce_name (JobToEntry j) = cj_label j" "ce_spec (JobToEntry j) = cj_spec j"
  "ce_enabled (JobToEntry j) = cj_enabled j"
  by (simp_all add: JobToEntry_def)

lemma entry_job_sel [simp]:
  "cj_id (EntryToJob e) = ce_id e" "cj_source (EntryToJob e) = ce_source e"
  "cj_enabled (EntryToJob e) = ce_enabled e" "cj_timeout (EntryToJob e) = ce_timeout e"
  "cj_lock_ttl (EntryToJob e) = ce_lock_ttl e"
  by (simp_all add: EntryToJob_def)

record cron_entry_info =
  ei_id :: string
  ei_name :: string
  ei_template_key :: string
  ei_spec :: string
  ei_payload :: string
  ei_source :: cron_source
  ei_mode :: cron_mode
  ei_enabled :: bool
  ei_timeout :: int
  ei_distributed :: bool
  ei_lock_ttl :: int
  ei_lock_key :: string
  ei_last_status :: cron_status
  ei_last_run_at :: int
  ei_next_run_at :: int
  ei_last_error :: string
  ei_run_count :: int
  ei_max_run_count :: int
  ei_success_count :: int
  ei_fail_count :: int
  ei_skip_count :: int

definition empty_entry_info :: cron_entry_info where
  "empty_entry_info = \<lparr>ei_id = [], ei_name = [], ei_template_key = [], ei_spec = [], ei_payload = [],
     ei_source = SourceUnset, ei_mode = ModeUnset, ei_enabled = False, ei_timeout = 0, ei_distributed = False,
     ei_lock_ttl = 0, ei_lock_key = [], ei_last_status = CronUnset, ei_last_run_at = 0, ei_next_run_at = 0,
     ei_last_error = [], ei_run_count = 0, ei_max_run_count = 0, ei_success_count = 0, ei_fail_count = 0,
     ei_skip_count = 0\<rparr>"

definition entry_info :: "cron_entry \<Rightarrow> cron_entry_info" where
  "entry_info e = empty_entry_info
     \<lparr>ei_id := ce_id e, ei_name := ce_name e, ei_template_key := ce_template_key e, ei_spec := ce_spec e,
      ei_payload := ce_payload e, ei_source := ce_source e, ei_enabled := ce_enabled e,
      ei_timeout := ce_timeout e, ei_distributed := ce_distributed e, ei_lock_ttl := ce_lock_ttl e,
      ei_lock_key := ce_lock_key e, ei_max_run_count := ce_max_run_count e\<rparr>"

definition entry_from_info :: "cron_entry_info \<Rightarrow> cron_entry" where
  "entry_from_info i =
     \<lparr>ce_id = ei_id i, ce_name = ei_name i, ce_template_key = ei_template_key i, ce_spec = ei_spec i,
      ce_payload = ei_payload i, ce_source = ei_source i, ce_enabled = ei_enabled i,
      ce_timeout = ei_timeout i, ce_distributed = ei_distributed i, ce_lock_ttl = ei_lock_ttl i,
      ce_lock_key = ei_lock_key i, ce_max_run_count = ei_max_run_count i\<rparr>"

lemma entry_info_roundtrip: "entry_from_info (entry_info e) = e"
  by (simp add: entry_from_info_def entry_info_def)

text \<open>The requests to create and to update an entry have the same fields.\<close>

record entry_request =
  eq_name :: string
  eq_template_key :: string
  eq_spec :: string
  eq_payload :: string
  eq_enabled :: bool
  eq_timeout :: int
  eq_distributed :: bool
  eq_lock_ttl :: int
  eq_lock_key :: string
  eq_max_run_count :: int

record run_once_request =
  ro_entry_id :: string
  ro_template_key :: string
  ro_payload :: string
  ro_timeout :: int
  ro_lock_key :: string

record cron_job_status =
  js_id :: string
  js_name :: string
  js_label :: string
  js_source :: cron_source
  js_mode :: cron_mode
  js_spec :: string
  js_enabled :: bool
  js_running :: bool
  js_last_status :: cron_status
  js_last_run_at :: int
  js_next_run_at :: int
  js_run_count :: int
  js_max_run_count :: int
  js_fail_count :: int
  js_last_error :: string

record cron_run_log =
  gl_job_id :: string
  gl_job_name :: string
  gl_run_id :: string
  gl_source :: cron_source
  gl_mode :: cron_mode
  gl_spec :: string
  gl_queue :: string
  gl_task_type :: string
  gl_payload :: string
  gl_track_id :: string
  gl_status :: cron_status
  gl_started_at :: int
  gl_finished_at :: int
  gl_duration_ms :: int
  gl_error :: string
  gl_panic_stack :: string
  gl_host :: string
  gl_instance_id :: string

section \<open>Configuration (config.go)\<close>

record cron_config =
  cc_enabled :: bool
  cc_driver :: string
  cc_reload_interval :: int
  cc_instance_id :: string
  cc_lock_enabled :: bool
  cc_lock_ttl :: int
  cc_log_enabled :: bool
  cc_log_batch :: bool
  cc_log_batch_size :: int
  cc_log_flush_interval :: int

definition cron_second :: int where "cron_second = 10 ^ 9"

definition default_cron_config :: cron_config where
  "default_cron_config = \<lparr>cc_enabled = True, cc_driver = ''robfig'', cc_reload_interval = 30 * cron_second,
     cc_instance_id = [], cc_lock_enabled = True, cc_lock_ttl = 600 * cron_second, cc_log_enabled = True,
     cc_log_batch = True, cc_log_batch_size = 100, cc_log_flush_interval = 3 * cron_second\<rparr>"

end
