(* ===== verification/Crontab_Logging.thy ===== *)
theory Crontab_Logging
  imports Crontab_Types "HOL-Library.Multiset"
begin

text \<open>
  The logs of cron runs: log events and the streamer that hands them to subscribers (\<open>stream.go\<close>),
  the fields of a message (\<open>fieldsToMap\<close>, \<open>job_logger.go\<close>) and the batching writer of run logs
  (\<open>batch_logger.go\<close>).

  A channel is the list of what is in it.  The two goroutines, the one that ends a subscription when its
  context is done and the loop of the batching writer, are steps of their own that may happen
  between any two calls.  A nil map of fields counts as the empty map.
\<close>

section \<open>Events and filters (stream.go)\<close>

datatype cron_log_level = LogInfo | LogWarn | LogError

text \<open>A field value: a string, a map of fields, or anything else.\<close>

datatype any_value = AnyText string | AnyMap "(string \<times> any_value) list" | AnyOther string

record log_event =
  lv_run_id :: string
  lv_entry_id :: string
  lv_template_key :: string
  lv_track_id :: string
  lv_level :: cron_log_level
  lv_message :: string
  lv_fields :: "string \<rightharpoonup> any_value"
  lv_time :: int

record log_filter =
  lf_run_id :: string
  lf_entry_id :: string

definition match_log_filter :: "log_event \<Rightarrow> log_filter \<Rightarrow> bool" where
  "match_log_filter ev f =
     (if lf_run_id f \<noteq> [] \<and> lv_run_id ev \<noteq> lf_run_id f then False
      else if lf_entry_id f \<noteq> [] \<and> lv_entry_id ev \<noteq> lf_entry_id f then False
      else True)"

text \<open>\<open>fieldsToMap\<close>: one map is taken as it is; otherwise keys and values alternate.\<close>

fun pair_fields :: "any_value list \<Rightarrow> (string \<rightharpoonup> any_value) \<Rightarrow> (string \<rightharpoonup> any_value)" where
  "pair_fields (AnyText k # v # xs) m = pair_fields xs (if k = [] then m else m(k \<mapsto> v))"
| "pair_fields (_ # _ # xs) m = pair_fields xs m"
| "pair_fields _ m = m"

definition fields_to_map :: "any_value list \<Rightarrow> (string \<rightharpoonup> any_value)" where
  "fields_to_map xs = (case xs of [AnyMap kvs] \<Rightarrow> map_of kvs | _ \<Rightarrow> pair_fields xs Map.empty)"

section \<open>The memory streamer (stream.go)\<close>

text \<open>
  A subscription has a filter and a channel of 64 places; \<open>lc_closed\<close> is set when its context is
  done.  The subscriber takes events out of the channel.
\<close>

record log_channel =
  lc_queue :: "log_event list"
  lc_closed :: bool

record mem_streamer =
  mm_next_id :: nat
  mm_subs :: "nat \<rightharpoonup> log_filter"
  mm_chans :: "nat \<Rightarrow> log_channel"

definition new_mem_streamer :: mem_streamer where
  "new_mem_streamer = \<lparr>mm_next_id = 0, mm_subs = Map.empty, mm_chans = (\<lambda>_. \<lparr>lc_queue = [], lc_closed = False\<rparr>)\<rparr>"

definition channel_places :: nat where "channel_places = 64"

definition stream_subscribe :: "mem_streamer \<Rightarrow> log_filter \<Rightarrow> nat \<times> mem_streamer" where
  "stream_subscribe s f =
     (let i = mm_next_id s + 1 in
      (i, s\<lparr>mm_next_id := i, mm_subs := (mm_subs s)(i \<mapsto> f),
             mm_chans := (mm_chans s)(i := \<lparr>lc_queue = [], lc_closed = False\<rparr>)\<rparr>))"

definition stream_unsubscribe :: "nat \<Rightarrow> mem_streamer \<Rightarrow> mem_streamer" where
  "stream_unsubscribe i s =
     s\<lparr>mm_subs := (mm_subs s)(i := None), mm_chans := (mm_chans s)(i := (mm_chans s i)\<lparr>lc_closed := True\<rparr>)\<rparr>"

text \<open>A send that does not block: a full channel drops the event.\<close>

definition offer :: "log_event \<Rightarrow> log_channel \<Rightarrow> log_channel" where
  "offer ev c = (if length (lc_queue c) < channel_places then c\<lparr>lc_queue := lc_queue c @ [ev]\<rparr> else c)"

text \<open>\<open>ctx_error\<close> is \<open>ctx.Err()\<close>; no streamer (nil) publishes nothing.\<close>

definition stream_publish :: "cron_error option \<Rightarrow> log_event \<Rightarrow> mem_streamer \<Rightarrow> cron_error option \<times> mem_streamer" where
  "stream_publish ctx_error ev s =
     (case ctx_error of Some e \<Rightarrow> (Some e, s)
      | None \<Rightarrow> (None, s\<lparr>mm_chans := (\<lambda>i. case mm_subs s i of
            None \<Rightarrow> mm_chans s i
          | Some f \<Rightarrow> if match_log_filter ev f then offer ev (mm_chans s i) else mm_chans s i)\<rparr>))"

text \<open>The subscriber takes the next event.\<close>

definition stream_take :: "nat \<Rightarrow> mem_streamer \<Rightarrow> log_event option \<times> mem_streamer" where
  "stream_take i s =
     (case lc_queue (mm_chans s i) of [] \<Rightarrow> (None, s)
      | ev # q \<Rightarrow> (Some ev, s\<lparr>mm_chans := (mm_chans s)(i := (mm_chans s i)\<lparr>lc_queue := q\<rparr>)\<rparr>))"

text \<open>What can happen to a streamer, and what a given subscriber has taken.\<close>

datatype stream_op =
    SSubscribe log_filter | SUnsubscribe nat | SPublish log_event | SPublishDone cron_error log_event | STake nat

fun stream_step :: "stream_op \<Rightarrow> mem_streamer \<Rightarrow> mem_streamer" where
  "stream_step (SSubscribe f) s = snd (stream_subscribe s f)"
| "stream_step (SUnsubscribe i) s = stream_unsubscribe i s"
| "stream_step (SPublish ev) s = snd (stream_publish None ev s)"
| "stream_step (SPublishDone e ev) s = snd (stream_publish (Some e) ev s)"
| "stream_step (STake i) s = snd (stream_take i s)"

fun taken_by :: "nat \<Rightarrow> stream_op \<Rightarrow> mem_streamer \<Rightarrow> log_event list" where
  "taken_by i (STake j) s = (if j = i then (case fst (stream_take i s) of None \<Rightarrow> [] | Some ev \<Rightarrow> [ev]) else [])"
| "taken_by i _ s = []"

fun stream_run :: "nat \<Rightarrow> stream_op list \<Rightarrow> mem_streamer \<Rightarrow> log_event list \<times> mem_streamer" where
  "stream_run i [] s = ([], s)"
| "stream_run i (op # ops) s =
     (let (evs, s') = stream_run i ops (stream_step op s) in (taken_by i op s @ evs, s'))"

text \<open>The events published while subscriber \<open>i\<close> is subscribed and that match its filter.\<close>

fun published_to :: "nat \<Rightarrow> log_filter \<Rightarrow> stream_op list \<Rightarrow> log_event list" where
  "published_to i f [] = []"
| "published_to i f (SPublish ev # ops) =
     (if match_log_filter ev f then ev # published_to i f ops else published_to i f ops)"
| "published_to i f (SUnsubscribe j # ops) = (if j = i then [] else published_to i f ops)"
| "published_to i f (_ # ops) = published_to i f ops"

text \<open>No publication finds the channel of \<open>i\<close> full.\<close>

fun never_full :: "nat \<Rightarrow> stream_op list \<Rightarrow> mem_streamer \<Rightarrow> bool" where
  "never_full i [] s = True"
| "never_full i (op # ops) s =
     ((case op of SPublish ev \<Rightarrow> length (lc_queue (mm_chans s i)) < channel_places | _ \<Rightarrow> True) \<and>
      never_full i ops (stream_step op s))"

definition streamer_ok :: "mem_streamer \<Rightarrow> bool" where
  "streamer_ok s \<longleftrightarrow> (\<forall>i. mm_next_id s < i \<longrightarrow> mm_subs s i = None)"

lemma streamer_ok_step: "streamer_ok s \<Longrightarrow> streamer_ok (stream_step op s)"
  by (cases op)
    (auto simp: streamer_ok_def stream_subscribe_def stream_unsubscribe_def stream_publish_def
      stream_take_def Let_def split: list.splits)

lemma streamer_ok_fresh: "streamer_ok s \<Longrightarrow> mm_subs s i \<noteq> None \<Longrightarrow> mm_next_id s + 1 \<noteq> i"
  by (auto simp: streamer_ok_def)

text \<open>What a subscriber has taken and what is still in its channel.\<close>

lemma stream_account_gone:
  assumes "streamer_ok s" "mm_subs s i = None" "i \<le> mm_next_id s"
  shows "(let (evs, s') = stream_run i ops s in evs @ lc_queue (mm_chans s' i)) = lc_queue (mm_chans s i)"
  using assms
proof (induction ops arbitrary: s)
  case Nil
  then show ?case by simp
next
  case (Cons op ops)
  let ?s = "stream_step op s"
  have ok: "streamer_ok ?s" using Cons.prems(1) by (rule streamer_ok_step)
  have none: "mm_subs ?s i = None" "i \<le> mm_next_id ?s"
    using Cons.prems
    by (cases op; auto simp: stream_subscribe_def stream_unsubscribe_def stream_publish_def stream_take_def
        Let_def split: list.splits)+
  have q: "taken_by i op s @ lc_queue (mm_chans ?s i) = lc_queue (mm_chans s i)"
    using Cons.prems
    by (cases op) (auto simp: stream_subscribe_def stream_unsubscribe_def stream_publish_def stream_take_def
        Let_def split: list.splits)
  obtain evs s' where run: "stream_run i ops ?s = (evs, s')" by (cases "stream_run i ops ?s")
  from Cons.IH [OF ok none] run q show ?case by (simp add: Let_def)
qed

lemma stream_account:
  assumes "streamer_ok s" "mm_subs s i = Some f" "never_full i ops s"
  shows "(let (evs, s') = stream_run i ops s in evs @ lc_queue (mm_chans s' i)) =
    lc_queue (mm_chans s i) @ published_to i f ops"
  using assms
proof (induction ops arbitrary: s)
  case Nil
  then show ?case by simp
next
  case (Cons op ops)
  let ?s = "stream_step op s"
  have ok: "streamer_ok ?s" using Cons.prems(1) by (rule streamer_ok_step)
  have live: "i \<le> mm_next_id s" using Cons.prems(1,2) by (auto simp: streamer_ok_def not_less [symmetric])
  show ?case
  proof (cases "op = SUnsubscribe i")
    case True
    have gone: "mm_subs ?s i = None" "i \<le> mm_next_id ?s" "lc_queue (mm_chans ?s i) = lc_queue (mm_chans s i)"
      using True live by (simp_all add: stream_unsubscribe_def)
    obtain evs s' where run: "stream_run i ops ?s = (evs, s')" by (cases "stream_run i ops ?s")
    from stream_account_gone [OF ok gone(1,2), of ops] run gone(3) show ?thesis
      using True by (simp add: Let_def)
  next
    case False
    have subs: "mm_subs ?s i = Some f"
      using Cons.prems(2) False streamer_ok_fresh [OF Cons.prems(1), of i]
      by (cases op) (auto simp: stream_subscribe_def stream_unsubscribe_def stream_publish_def
          stream_take_def Let_def split: list.splits)
    have nf: "never_full i ops ?s" using Cons.prems(3) by simp
    have q: "taken_by i op s @ lc_queue (mm_chans ?s i) @ published_to i f ops =
        lc_queue (mm_chans s i) @ published_to i f (op # ops)"
      using Cons.prems(2,3) False streamer_ok_fresh [OF Cons.prems(1), of i]
      by (cases op) (auto simp: stream_subscribe_def stream_unsubscribe_def stream_publish_def
          stream_take_def offer_def Let_def split: list.splits)
    obtain evs s' where run: "stream_run i ops ?s = (evs, s')" by (cases "stream_run i ops ?s")
    from Cons.IH [OF ok subs nf] run q show ?thesis by (simp add: Let_def)
  qed
qed

section \<open>The batching writer (batch_logger.go)\<close>

text \<open>
  \<open>bg_calls\<close> records the calls of the underlying writer in order; its answer to a single write is a
  parameter.  The loop ends in one of its two last branches, which \<open>BLoopStop\<close> and \<open>BLoopDone\<close> are.
\<close>

datatype writer_call = WWrite cron_run_log | WBatch "cron_run_log list"

datatype loop_phase = LoopIdle | LoopRunning | LoopEnded

record batch_logger =
  bg_ch :: "cron_run_log list"
  bg_size :: int
  bg_interval :: int
  bg_batch :: "cron_run_log list"
  bg_stop_closed :: bool
  bg_phase :: loop_phase
  bg_calls :: "writer_call list"

definition new_batch_logger :: "int \<Rightarrow> int \<Rightarrow> batch_logger" where
  "new_batch_logger sz interval =
     \<lparr>bg_ch = [], bg_size = (if sz \<le> 0 then 100 else sz),
      bg_interval = (if interval \<le> 0 then 3 * cron_second else interval),
      bg_batch = [], bg_stop_closed = False, bg_phase = LoopIdle, bg_calls = []\<rparr>"

definition batch_start :: "batch_logger \<Rightarrow> batch_logger" where
  "batch_start b = b\<lparr>bg_phase := LoopRunning\<rparr>"

definition batch_write :: "(cron_run_log \<Rightarrow> cron_error option) \<Rightarrow> cron_run_log \<Rightarrow> batch_logger \<Rightarrow>
    cron_error option \<times> batch_logger" where
  "batch_write writer lg b =
     (if int (length (bg_ch b)) < bg_size b * 2 then (None, b\<lparr>bg_ch := bg_ch b @ [lg]\<rparr>)
      else (writer lg, b\<lparr>bg_calls := bg_calls b @ [WWrite lg]\<rparr>))"

definition batch_write_batch :: "cron_run_log list \<Rightarrow> batch_logger \<Rightarrow> batch_logger" where
  "batch_write_batch lgs b = b\<lparr>bg_calls := bg_calls b @ [WBatch lgs]\<rparr>"

definition batch_flush :: "batch_logger \<Rightarrow> batch_logger" where
  "batch_flush b =
     (if bg_batch b = [] then b else b\<lparr>bg_calls := bg_calls b @ [WBatch (bg_batch b)], bg_batch := []\<rparr>)"

text \<open>One iteration of the loop: the branch that receives, and the others.\<close>

definition batch_receive :: "batch_logger \<Rightarrow> batch_logger option" where
  "batch_receive b =
     (if bg_phase b \<noteq> LoopRunning then None
      else (case bg_ch b of [] \<Rightarrow> None
            | lg # rest \<Rightarrow>
                (let b' = b\<lparr>bg_ch := rest, bg_batch := bg_batch b @ [lg]\<rparr> in
                 Some (if int (length (bg_batch b')) \<ge> bg_size b then batch_flush b' else b'))))"

definition batch_tick :: "batch_logger \<Rightarrow> batch_logger option" where
  "batch_tick b = (if bg_phase b = LoopRunning then Some (batch_flush b) else None)"

definition batch_loop_end :: "batch_logger \<Rightarrow> batch_logger option" where
  "batch_loop_end b = (if bg_phase b = LoopRunning then Some ((batch_flush b)\<lparr>bg_phase := LoopEnded\<rparr>) else None)"

text \<open>\<open>Stop\<close> closes the channel \<open>stop\<close> (a second time it panics, \<open>None\<close>) and waits for the loop.\<close>

definition batch_close_stop :: "batch_logger \<Rightarrow> batch_logger option" where
  "batch_close_stop b = (if bg_stop_closed b then None else Some (b\<lparr>bg_stop_closed := True\<rparr>))"

datatype batch_op = BStart | BWrite cron_run_log | BReceive | BTick | BClose | BLoopStop | BLoopDone

fun batch_step :: "(cron_run_log \<Rightarrow> cron_error option) \<Rightarrow> batch_op \<Rightarrow> batch_logger \<Rightarrow> batch_logger option" where
  "batch_step writer BStart b = (if bg_phase b = LoopIdle then Some (batch_start b) else None)"
| "batch_step writer (BWrite lg) b = Some (snd (batch_write writer lg b))"
| "batch_step writer BReceive b = batch_receive b"
| "batch_step writer BTick b = batch_tick b"
| "batch_step writer BClose b = batch_close_stop b"
| "batch_step writer BLoopStop b = (if bg_stop_closed b then batch_loop_end b else None)"
| "batch_step writer BLoopDone b = batch_loop_end b"

fun batch_run :: "(cron_run_log \<Rightarrow> cron_error option) \<Rightarrow> batch_op list \<Rightarrow> batch_logger \<Rightarrow> batch_logger option" where
  "batch_run writer [] b = Some b"
| "batch_run writer (op # ops) b =
     (case batch_step writer op b of None \<Rightarrow> None | Some b' \<Rightarrow> batch_run writer ops b')"

fun written_logs :: "batch_op list \<Rightarrow> cron_run_log list" where
  "written_logs [] = []"
| "written_logs (BWrite lg # ops) = lg # written_logs ops"
| "written_logs (_ # ops) = written_logs ops"

fun handed_over :: "writer_call list \<Rightarrow> cron_run_log list" where
  "handed_over [] = []"
| "handed_over (WWrite lg # cs) = lg # handed_over cs"
| "handed_over (WBatch lgs # cs) = lgs @ handed_over cs"

lemma handed_over_append [simp]: "handed_over (xs @ ys) = handed_over xs @ handed_over ys"
  by (induction xs rule: handed_over.induct) auto

lemma batch_flush_simps [simp]:
  "bg_batch (batch_flush b) = []" "bg_ch (batch_flush b) = bg_ch b" "bg_phase (batch_flush b) = bg_phase b"
  "bg_stop_closed (batch_flush b) = bg_stop_closed b" "bg_size (batch_flush b) = bg_size b"
  "handed_over (bg_calls (batch_flush b)) = handed_over (bg_calls b) @ bg_batch b"
  by (simp_all add: batch_flush_def)

lemmas batch_step_defs = batch_start_def batch_write_def batch_receive_def batch_tick_def
  batch_loop_end_def batch_close_stop_def

text \<open>Where the logs handed to the writer are.\<close>

definition batch_account :: "batch_logger \<Rightarrow> cron_run_log multiset" where
  "batch_account b = mset (handed_over (bg_calls b)) + mset (bg_ch b) + mset (bg_batch b)"

lemma batch_account_step:
  "batch_step writer op b = Some b' \<Longrightarrow>
   batch_account b' = batch_account b + mset (written_logs [op])"
  by (cases op) (auto simp: batch_account_def batch_step_defs Let_def split: if_splits list.splits)

lemma written_logs_Cons: "written_logs (op # ops) = written_logs [op] @ written_logs ops"
  by (cases op) auto

lemma batch_account_run:
  "batch_run writer ops b = Some b' \<Longrightarrow> batch_account b' = batch_account b + mset (written_logs ops)"
proof (induction ops arbitrary: b)
  case (Cons op ops)
  then obtain c where c: "batch_step writer op b = Some c" "batch_run writer ops c = Some b'"
    by (auto split: option.splits)
  from Cons.IH [OF c(2)] batch_account_step [OF c(1)] written_logs_Cons [of op ops] show ?case
    by (simp add: ac_simps)
qed simp

text \<open>After the end of the loop the batch is empty and nothing leaves the channel.\<close>

definition batch_over :: "batch_logger \<Rightarrow> bool" where
  "batch_over b \<longleftrightarrow> bg_phase b = LoopEnded \<and> bg_batch b = []"

lemma batch_over_step:
  assumes "batch_over b" "batch_step writer op b = Some b'"
  shows "batch_over b' \<and> (\<exists>rest. bg_ch b' = bg_ch b @ rest)"
  using assms by (cases op) (auto simp: batch_over_def batch_step_defs split: if_splits)

lemma batch_over_run:
  "batch_over b \<Longrightarrow> batch_run writer ops b = Some b' \<Longrightarrow> \<exists>rest. bg_ch b' = bg_ch b @ rest"
proof (induction ops arbitrary: b)
  case (Cons op ops)
  then obtain c where c: "batch_step writer op b = Some c" "batch_run writer ops c = Some b'"
    by (auto split: option.splits)
  from batch_over_step [OF Cons.prems(1) c(1)] Cons.IH [OF _ c(2)] show ?case by auto
qed simp

lemma batch_ended_over:
  "bg_phase b = LoopEnded \<longrightarrow> bg_batch b = [] \<Longrightarrow> batch_step writer op b = Some b' \<Longrightarrow>
   bg_phase b' = LoopEnded \<longrightarrow> bg_batch b' = []"
  by (cases op) (auto simp: batch_step_defs Let_def split: if_splits list.splits)

lemma batch_ended_over_run:
  "bg_phase b = LoopEnded \<longrightarrow> bg_batch b = [] \<Longrightarrow> batch_run writer ops b = Some b' \<Longrightarrow>
   bg_phase b' = LoopEnded \<longrightarrow> bg_batch b' = []"
proof (induction ops arbitrary: b)
  case (Cons op ops)
  then obtain c where c: "batch_step writer op b = Some c" "batch_run writer ops c = Some b'"
    by (auto split: option.splits)
  from Cons.IH [OF batch_ended_over [OF Cons.prems(1) c(1)] c(2)] show ?case .
qed simp

section \<open>Properties\<close>

text \<open>
  C34: a subscription to the logs of cron runs.  Whatever happened to the streamer before and whatever
  happens after, what a subscriber has taken together with what is in its channel is the list
  of the events that were published until the subscription ended and match its filter, in order
  and without loss, as long as its channel was not full at a publication.
\<close>

theorem log_subscription_exact:
  assumes "stream_subscribe (snd (stream_run 0 before new_mem_streamer)) f = (i, s)"
    and "never_full i ops s"
  shows "(let (evs, s') = stream_run i ops s in evs @ lc_queue (mm_chans s' i)) = published_to i f ops"
proof -
  have "streamer_ok (snd (stream_run j xs t))" if "streamer_ok t" for j xs t
    using that
    by (induction xs arbitrary: t) (auto simp: Let_def case_prod_beta streamer_ok_step)
  moreover have "streamer_ok new_mem_streamer" by (simp add: streamer_ok_def new_mem_streamer_def)
  ultimately have ok: "streamer_ok (snd (stream_run 0 before new_mem_streamer))" by blast
  have s: "mm_subs s i = Some f" "lc_queue (mm_chans s i) = []"
    using assms(1) by (auto simp: stream_subscribe_def Let_def)
  have "s = stream_step (SSubscribe f) (snd (stream_run 0 before new_mem_streamer))"
    using assms(1) by simp
  then have "streamer_ok s" using streamer_ok_step [OF ok, of "SSubscribe f"] by simp
  from stream_account [OF this s(1) assms(2)] s(2) show ?thesis by simp
qed

definition sample_log_event :: "string \<Rightarrow> log_event" where
  "sample_log_event r = \<lparr>lv_run_id = r, lv_entry_id = [], lv_template_key = [], lv_track_id = [],
     lv_level = LogInfo, lv_message = [], lv_fields = Map.empty, lv_time = 0\<rparr>"

theorem log_subscription_exact_witness:
  "(let s = snd (stream_subscribe new_mem_streamer \<lparr>lf_run_id = ''r1'', lf_entry_id = []\<rparr>);
        (evs, s') = stream_run 1 [SPublish (sample_log_event ''r2''), SPublish (sample_log_event ''r1''), STake 1] s
    in evs @ lc_queue (mm_chans s' 1)) = [sample_log_event ''r1'']"
proof -
  let ?f = "\<lparr>lf_run_id = ''r1'', lf_entry_id = []\<rparr>"
  have sub: "stream_subscribe (snd (stream_run 0 [] new_mem_streamer)) ?f = (1, snd (stream_subscribe new_mem_streamer ?f))"
    by (simp add: stream_subscribe_def new_mem_streamer_def Let_def)
  have free: "never_full 1 [SPublish (sample_log_event ''r2''), SPublish (sample_log_event ''r1''), STake 1]
      (snd (stream_subscribe new_mem_streamer ?f))"
    by (simp add: stream_subscribe_def new_mem_streamer_def Let_def channel_places_def stream_publish_def
        offer_def sample_log_event_def match_log_filter_def)
  from log_subscription_exact [OF sub free] show ?thesis
    by (simp add: Let_def sample_log_event_def match_log_filter_def)
qed

text \<open>
  The run logs handed to the batching writer.  At any time each log handed to it was passed on
  exactly once or waits in the channel or in the batch; when the loop has ended the batch is
  empty, and what is in the channel then stays there for ever: \<open>Stop\<close> does not drain it.
\<close>

theorem batch_logs_accounted:
  assumes "batch_run writer ops (new_batch_logger sz interval) = Some b"
    and "batch_run writer later b = Some b'"
  shows "mset (written_logs ops) = mset (handed_over (bg_calls b)) + mset (bg_ch b) + mset (bg_batch b) \<and>
    (bg_phase b = LoopEnded \<longrightarrow> bg_batch b = [] \<and> mset (bg_ch b) \<subseteq># mset (bg_ch b'))"
proof -
  let ?b0 = "new_batch_logger sz interval"
  have acc: "batch_account b = batch_account ?b0 + mset (written_logs ops)"
    by (rule batch_account_run [OF assms(1)])
  have "bg_phase b = LoopEnded \<longrightarrow> bg_batch b = []"
    by (rule batch_ended_over_run [OF _ assms(1)]) (simp add: new_batch_logger_def)
  moreover have "batch_over b \<Longrightarrow> mset (bg_ch b) \<subseteq># mset (bg_ch b')"
    using batch_over_run [OF _ assms(2)] by auto
  ultimately show ?thesis using acc by (auto simp: batch_account_def batch_over_def new_batch_logger_def)
qed

definition sample_log :: "string \<Rightarrow> cron_run_log" where
  "sample_log r = \<lparr>gl_job_id = [], gl_job_name = [], gl_run_id = r, gl_source = SourceUnset,
     gl_mode = ModeLocal, gl_spec = [], gl_queue = [], gl_task_type = [], gl_payload = [],
     gl_track_id = [], gl_status = CronSuccess, gl_started_at = 0, gl_finished_at = 0,
     gl_duration_ms = 0, gl_error = [], gl_panic_stack = [], gl_host = [], gl_instance_id = []\<rparr>"

theorem batch_logs_accounted_witness:
  "\<exists>b. batch_run (\<lambda>_. None) [BStart, BWrite (sample_log ''r1''), BClose, BLoopStop] (new_batch_logger 1 1) = Some b \<and>
     bg_ch b = [sample_log ''r1''] \<and> bg_calls b = [] \<and> bg_batch b = []"
proof -
  let ?ops = "[BStart, BWrite (sample_log ''r1''), BClose, BLoopStop]"
  let ?r = "batch_run (\<lambda>_. None) ?ops (new_batch_logger 1 1)"
  have ev: "?r \<noteq> None" "bg_ch (the ?r) = [sample_log ''r1'']" "bg_phase (the ?r) = LoopEnded" "bg_calls (the ?r) = []"
    by (simp_all add: new_batch_logger_def batch_step_defs batch_flush_def)
  then obtain b where b: "?r = Some b" by blast
  have "batch_run (\<lambda>_. None) [] b = Some b" by simp
  from batch_logs_accounted [OF b this] ev b show ?thesis by simp
qed

end
