(* ===== verification/Crontab_Registry.thy ===== *)
theory Crontab_Registry
  imports Crontab_Logging Keyed_Registry "HOL-Library.Signed_Division" "HOL-Library.List_Lexorder" "HOL-Library.Char_ord"
begin

text \<open>
  Templates of cron jobs and their registry (\<^verbatim>\<open>core/crontab/template.go\<close>, \<open>registry.go\<close>), and the
  loaders of entries (\<open>loader.go\<close>).

  A handler is a program over a world \<open>'w\<close>: it acts on the world, goes on according to what it
  finds there, writes to the job's logger, and returns a result or panics (with a value and the
  stack as texts).  It gets a copy of the run context.  Handlers that call the cron API of the
  same process are not modelled.
\<close>

section \<open>Templates and handlers (template.go)\<close>

datatype 'w cron_prog =
    CReturn cron_result
  | CPanic string string
  | CLog cron_log_level string "any_value list" "'w cron_prog"
  | CAct "'w \<Rightarrow> 'w" "'w \<Rightarrow> 'w cron_prog"

record template_data =
  tp_key :: string
  tp_name :: string
  tp_desc :: string
  tp_spec :: string
  tp_enabled :: bool
  tp_allow_db :: bool
  tp_allow_overlap :: bool
  tp_log_disabled :: bool
  tp_timeout :: int
  tp_default_payload :: string
  tp_payload_format :: string
  tp_payload_schema :: string

text \<open>What a handler sees of its run context.\<close>

record handler_context =
  hc_job :: cron_job
  hc_template :: template_data
  hc_entry :: cron_entry
  hc_context_entry :: "cron_entry option"
  hc_run_id :: string
  hc_started_at :: int
  hc_instance_id :: string
  hc_track_id :: string

record 'w template = template_data +
  tp_handler :: "(handler_context \<Rightarrow> 'w cron_prog) option"

definition empty_template_data :: template_data where
  "empty_template_data = \<lparr>tp_key = [], tp_name = [], tp_desc = [], tp_spec = [], tp_enabled = False,
     tp_allow_db = False, tp_allow_overlap = False, tp_log_disabled = False, tp_timeout = 0,
     tp_default_payload = [], tp_payload_format = [], tp_payload_schema = []\<rparr>"

definition empty_template :: "'w template" where
  "empty_template = template_data.extend empty_template_data \<lparr>tp_handler = None\<rparr>"

record template_info =
  ti_key :: string
  ti_name :: string
  ti_label :: string
  ti_desc :: string
  ti_description :: string
  ti_spec :: string
  ti_mode :: cron_mode
  ti_enabled :: bool
  ti_allow_builtin :: bool
  ti_allow_db :: bool
  ti_allow_overlap :: bool
  ti_log_disabled :: bool
  ti_default_spec :: string
  ti_default_payload :: string
  ti_payload_format :: string
  ti_payload_schema :: string
  ti_timeout :: int
  ti_timeout_sec :: int

definition template_timeout :: "('w, 'z) template_scheme \<Rightarrow> int" where
  "template_timeout t = (if tp_timeout t > 0 then tp_timeout t else 0)"

section \<open>The registry (registry.go)\<close>

type_synonym 'w cron_registry = "string \<rightharpoonup> 'w template"

definition new_cron_registry :: "'w cron_registry" where
  "new_cron_registry = Map.empty"

definition normalize_template :: "'w template \<Rightarrow> 'w template" where
  "normalize_template t =
     (let t = (if tp_key t = [] then t\<lparr>tp_key := tp_name t\<rparr> else t) in
      if tp_name t = [] then t\<lparr>tp_name := tp_key t\<rparr> else t)"

definition register_template :: "'w cron_registry \<Rightarrow> 'w template \<Rightarrow> cron_error + 'w cron_registry" where
  "register_template r t0 =
     (let t = normalize_template t0 in
      bindR (guardR (tp_key t \<noteq> []) (CText ''crontab template key is required'')) (\<lambda>_.
      bindR (guardR (r (tp_key t) = None) (CText (''crontab template duplicated: '' @ tp_key t))) (\<lambda>_.
      Inr (r(tp_key t \<mapsto> t)))))"

definition must_register :: "'w cron_registry \<Rightarrow> 'w template \<Rightarrow> 'w cron_registry" where
  "must_register r t = (case register_template r t of Inl _ \<Rightarrow> r | Inr r' \<Rightarrow> r')"

text \<open>\<open>RegisterAll\<close> stops at the first error; what was registered before stays.\<close>

fun register_all :: "'w cron_registry \<Rightarrow> 'w template list \<Rightarrow> cron_error option \<times> 'w cron_registry" where
  "register_all r [] = (None, r)"
| "register_all r (t # ts) =
     (case register_template r t of Inl e \<Rightarrow> (Some e, r) | Inr r' \<Rightarrow> register_all r' ts)"

definition get_template :: "'w cron_registry \<Rightarrow> string \<Rightarrow> 'w template option" where
  "get_template r name = r name"

text \<open>
  The map is walked in any order \<open>ks\<close> of its keys, then sorted by key; registered keys differ, so
  the result does not depend on the walk.
\<close>

definition list_templates :: "string list \<Rightarrow> 'w cron_registry \<Rightarrow> 'w template list" where
  "list_templates ks r = sort_key tp_key (List.map_filter r ks)"

definition template_payload_format :: "('w, 'z) template_scheme \<Rightarrow> string" where
  "template_payload_format t = (if tp_payload_format t \<noteq> [] then tp_payload_format t else ''raw'')"

definition template_info_of :: "('w, 'z) template_scheme \<Rightarrow> template_info" where
  "template_info_of t = \<lparr>ti_key = tp_key t, ti_name = tp_key t, ti_label = tp_name t, ti_desc = tp_desc t,
     ti_description = tp_desc t, ti_spec = tp_spec t, ti_mode = ModeLocal, ti_enabled = tp_enabled t,
     ti_allow_builtin = (tp_spec t \<noteq> []), ti_allow_db = tp_allow_db t, ti_allow_overlap = tp_allow_overlap t,
     ti_log_disabled = tp_log_disabled t, ti_default_spec = tp_spec t, ti_default_payload = tp_default_payload t,
     ti_payload_format = template_payload_format t, ti_payload_schema = tp_payload_schema t,
     ti_timeout = template_timeout t, ti_timeout_sec = template_timeout t sdiv cron_second\<rparr>"

definition list_template_info :: "string list \<Rightarrow> 'w cron_registry \<Rightarrow> template_info list" where
  "list_template_info ks r = map template_info_of (list_templates ks r)"

definition list_db_template_info :: "string list \<Rightarrow> 'w cron_registry \<Rightarrow> template_info list" where
  "list_db_template_info ks r = filter (\<lambda>i. ti_enabled i \<and> ti_allow_db i) (list_template_info ks r)"

text \<open>\<open>ValidateJob\<close> returns the template next to an error once it was found.\<close>

definition validate_job :: "'w cron_registry \<Rightarrow> cron_job \<Rightarrow> 'w template \<times> cron_error option" where
  "validate_job r job =
     (case get_template r (cj_name job) of
        None \<Rightarrow> (empty_template, Some (CSentinel ErrTemplateNotFound))
      | Some t \<Rightarrow>
          (t, if \<not> tp_enabled t then Some (CSentinel ErrTemplateDisabled)
              else if (cj_source job = SourceDynamic \<or> cj_source job = SourceDB) \<and> \<not> tp_allow_db t
                then Some (CSentinel ErrDynamicNotAllowed)
              else if tp_handler t = None then Some (CSentinel ErrLocalHandlerMissing)
              else None))"

definition build_builtin_job :: "'w template \<Rightarrow> cron_job option" where
  "build_builtin_job t =
     (if \<not> tp_enabled t \<or> tp_spec t = [] then None
      else Some \<lparr>cj_id = ''builtin.'' @ tp_key t, cj_name = tp_key t, cj_label = tp_name t, cj_spec = tp_spec t,
        cj_source = SourceBuiltin, cj_mode = ModeLocal, cj_enabled = True, cj_payload = [], cj_queue = [],
        cj_task_type = [], cj_timeout = template_timeout t, cj_distributed = False, cj_lock_ttl = 0,
        cj_lock_key = [], cj_max_run_count = 0\<rparr>)"

definition builtin_jobs :: "string list \<Rightarrow> 'w cron_registry \<Rightarrow> cron_job list" where
  "builtin_jobs ks r = sort_key cj_id (List.map_filter build_builtin_job (list_templates ks r))"

section \<open>The registry is well formed\<close>

text \<open>Every template is filed under its key, and has a key and a name.\<close>

definition wf_registry :: "'w cron_registry \<Rightarrow> bool" where
  "wf_registry r \<longleftrightarrow> (\<forall>k t. r k = Some t \<longrightarrow> tp_key t = k \<and> k \<noteq> [] \<and> tp_name t \<noteq> [])"

definition normalized_key :: "'w template \<Rightarrow> string" where
  "normalized_key t = tp_key (normalize_template t)"

lemma normalize_template_name: "normalized_key t \<noteq> [] \<Longrightarrow> tp_name (normalize_template t) \<noteq> []"
  by (auto simp: normalized_key_def normalize_template_def Let_def)

lemma register_template_Inr:
  "register_template r t = Inr r' \<longleftrightarrow>
     normalized_key t \<noteq> [] \<and> r (normalized_key t) = None \<and> r' = r(normalized_key t \<mapsto> normalize_template t)"
  by (auto simp: register_template_def normalized_key_def Let_def)

lemma wf_register: "wf_registry r \<Longrightarrow> register_template r t = Inr r' \<Longrightarrow> wf_registry r'"
  using normalize_template_name [of t]
  by (auto simp: register_template_Inr wf_registry_def normalized_key_def split: if_splits)

lemma get_template_fun [simp]: "get_template r = r"
  by (simp add: get_template_def fun_eq_iff)

interpretation templates: keyed_registry register_template get_template normalized_key wf_registry
  by unfold_locales (auto simp: wf_register register_template_Inr)

lemma get_template_key: "wf_registry r \<Longrightarrow> r k = Some t \<Longrightarrow> tp_key t = k"
  by (simp add: wf_registry_def)

text \<open>The templates in the order of their keys, whatever the walk.\<close>

lemma insort_key_same: "\<forall>y \<in> insert x (set xs). f y = y \<Longrightarrow> insort_key f x xs = insort x xs"
  by (induction xs) auto

lemma sort_key_same: "\<forall>y \<in> set xs. f y = y \<Longrightarrow> sort_key f xs = sort xs"
proof (induction xs)
  case (Cons x xs)
  have "insort_key f x (sort xs) = insort x (sort xs)" by (rule insort_key_same) (use Cons.prems in simp)
  with Cons show ?case by simp
qed simp

lemma map_filter_defined: "\<forall>k \<in> set ks. r k \<noteq> None \<Longrightarrow> List.map_filter r ks = map (\<lambda>k. the (r k)) ks"
proof (induction ks)
  case (Cons k ks)
  then obtain t where "r k = Some t" by auto
  with Cons show ?case by (simp add: List.map_filter_simps)
qed (simp add: List.map_filter_simps)

lemma list_templates_sorted:
  assumes "wf_registry r" "set ks = dom r"
  shows "list_templates ks r = map (\<lambda>k. the (r k)) (sort ks)"
proof -
  have "tp_key (the (r k)) = k" if "k \<in> set ks" for k
  proof -
    have "k \<in> dom r" using that assms(2) by simp
    then obtain t where "r k = Some t" by (rule domD [THEN exE])
    then show ?thesis using get_template_key [OF assms(1)] by simp
  qed
  then have "sort_key (\<lambda>k. tp_key (the (r k))) ks = sort ks" by (intro sort_key_same) blast
  moreover have "List.map_filter r ks = map (\<lambda>k. the (r k)) ks"
    by (rule map_filter_defined) (simp add: assms(2) dom_def)
  ultimately show ?thesis by (simp add: list_templates_def sort_key_map)
qed

lemma list_templates_walk:
  assumes "wf_registry r" "distinct ks" "distinct ks'" "set ks = dom r" "set ks' = dom r"
  shows "list_templates ks r = list_templates ks' r"
proof -
  have "sort ks = sort ks'"
    by (rule sorted_distinct_set_unique) (use assms in simp_all)
  then show ?thesis using assms by (simp add: list_templates_sorted)
qed

lemma set_list_templates:
  assumes "wf_registry r" "set ks = dom r"
  shows "t \<in> set (list_templates ks r) \<longleftrightarrow> r (tp_key t) = Some t"
proof
  assume "t \<in> set (list_templates ks r)"
  then obtain k where k: "k \<in> dom r" "t = the (r k)" using assms by (auto simp: list_templates_sorted)
  then have "r k = Some t" by auto
  then show "r (tp_key t) = Some t" using get_template_key [OF assms(1)] by simp
next
  assume t: "r (tp_key t) = Some t"
  then have "tp_key t \<in> set ks" using assms(2) by auto
  then have "the (r (tp_key t)) \<in> set (list_templates ks r)" using assms by (simp add: list_templates_sorted)
  then show "t \<in> set (list_templates ks r)" using t by simp
qed

end
