(* ===== verification/Crontab_State.thy ===== *)
theory Crontab_State
  imports Crontab_Registry
begin

text \<open>
  The state cron runs work on: what is known at run time of each entry (\<open>RuntimeState\<close> of
  \<^verbatim>\<open>core/crontab/runtime.go\<close>), the counters of \<open>observability.go\<close>, the interfaces the runs call
  (\<open>store.go\<close>, \<open>locker.go\<close>, \<open>logger.go\<close>) and the world that holds them.

  Every interface is a record of functions over an external world \<open>'w\<close>.  The world of the model
  adds to it what the code itself keeps: the runtime states and memory streamers by address, the
  counters, the failure handlers, the handlers left behind by a timeout, and the list of the calls
  made on collaborators, which no operation reads.
\<close>

section \<open>The runtime state (runtime.go)\<close>

datatype runtime_status =
    RuntimeUnset | RuntimeWaiting | RuntimeRunning | RuntimeSuccess | RuntimeFailed | RuntimeSkipped | RuntimeDisabled

definition runtime_status_of :: "cron_status \<Rightarrow> runtime_status" where
  "runtime_status_of st =
     (case st of CronSuccess \<Rightarrow> RuntimeSuccess
      | CronRunning \<Rightarrow> RuntimeRunning
      | CronSkipped \<Rightarrow> RuntimeSkipped | CronLocked \<Rightarrow> RuntimeSkipped
      | CronTemplateDisabled \<Rightarrow> RuntimeSkipped | CronTemplateMissing \<Rightarrow> RuntimeSkipped
      | CronDisabled \<Rightarrow> RuntimeDisabled
      | _ \<Rightarrow> RuntimeFailed)"

record runtime_info =
  ri_entry_id :: string
  ri_template_key :: string
  ri_status :: runtime_status
  ri_prev_time :: int
  ri_next_time :: int
  ri_last_start_at :: int
  ri_last_end_at :: int
  ri_last_duration :: int
  ri_last_error :: string
  ri_run_count :: int
  ri_success_count :: int
  ri_fail_count :: int
  ri_skip_count :: int

definition empty_runtime_info :: runtime_info where
  "empty_runtime_info = \<lparr>ri_entry_id = [], ri_template_key = [], ri_status = RuntimeUnset, ri_prev_time = 0,
     ri_next_time = 0, ri_last_start_at = 0, ri_last_end_at = 0, ri_last_duration = 0, ri_last_error = [],
     ri_run_count = 0, ri_success_count = 0, ri_fail_count = 0, ri_skip_count = 0\<rparr>"

type_synonym rt_state = "string \<rightharpoonup> runtime_info"

definition new_runtime_state :: rt_state where
  "new_runtime_state = Map.empty"

definition info_of :: "rt_state \<Rightarrow> string \<Rightarrow> runtime_info" where
  "info_of s i = (case s i of None \<Rightarrow> empty_runtime_info | Some x \<Rightarrow> x)"

definition scheduled_info :: "rt_state \<Rightarrow> cron_entry \<Rightarrow> runtime_info" where
  "scheduled_info s e =
     (let info = (info_of s (ce_id e))\<lparr>ri_entry_id := ce_id e, ri_template_key := ce_template_key e\<rparr> in
      if \<not> ce_enabled e then info\<lparr>ri_status := RuntimeDisabled\<rparr>
      else if ri_status info = RuntimeUnset then info\<lparr>ri_status := RuntimeWaiting\<rparr>
      else info)"

text \<open>The next map is filled entry by entry from the old one: a later entry with the same id wins.\<close>

definition set_schedule :: "cron_entry list \<Rightarrow> rt_state \<Rightarrow> rt_state" where
  "set_schedule es s = foldl (\<lambda>next e. next(ce_id e \<mapsto> scheduled_info s e)) Map.empty es"

definition mark_running :: "cron_entry \<Rightarrow> int \<Rightarrow> rt_state \<Rightarrow> rt_state" where
  "mark_running e started s = s(ce_id e \<mapsto> (info_of s (ce_id e))
     \<lparr>ri_entry_id := ce_id e, ri_template_key := ce_template_key e, ri_status := RuntimeRunning,
      ri_last_start_at := started, ri_last_error := []\<rparr>)"

definition count_status :: "runtime_status \<Rightarrow> runtime_info \<Rightarrow> runtime_info" where
  "count_status st info =
     (case st of RuntimeSuccess \<Rightarrow> info\<lparr>ri_success_count := ri_success_count info + 1\<rparr>
      | RuntimeFailed \<Rightarrow> info\<lparr>ri_fail_count := ri_fail_count info + 1\<rparr>
      | RuntimeSkipped \<Rightarrow> info\<lparr>ri_skip_count := ri_skip_count info + 1\<rparr>
      | _ \<Rightarrow> info)"

definition mark_finished ::
  "cron_entry \<Rightarrow> runtime_status \<Rightarrow> int \<Rightarrow> int \<Rightarrow> cron_error option \<Rightarrow> rt_state \<Rightarrow> rt_state" where
  "mark_finished e st started ended err s =
     (let info = info_of s (ce_id e) in
      s(ce_id e \<mapsto> count_status st (info
        \<lparr>ri_entry_id := ce_id e, ri_template_key := ce_template_key e, ri_status := st,
         ri_last_start_at := started, ri_last_end_at := ended, ri_last_duration := ended - started,
         ri_run_count := ri_run_count info + 1,
         ri_last_error := (case err of None \<Rightarrow> ri_last_error info | Some x \<Rightarrow> cron_error_text x)\<rparr>)))"

text \<open>\<open>List\<close> walks the map in any order \<open>ks\<close> of its keys.\<close>

definition runtime_list :: "string list \<Rightarrow> rt_state \<Rightarrow> runtime_info list" where
  "runtime_list ks s = List.map_filter s ks"

definition runtime_get :: "string \<Rightarrow> rt_state \<Rightarrow> runtime_info option" where
  "runtime_get i s = s i"

subsection \<open>Its invariant\<close>

text \<open>
  Every record is filed under its identifier, its counters are not negative and those by
  outcome never exceed the number of runs.  Runs that end disabled are counted by none of them.
\<close>

definition counters_ok :: "runtime_info \<Rightarrow> bool" where
  "counters_ok x \<longleftrightarrow> 0 \<le> ri_success_count x \<and> 0 \<le> ri_fail_count x \<and> 0 \<le> ri_skip_count x \<and>
     ri_success_count x + ri_fail_count x + ri_skip_count x \<le> ri_run_count x"

definition runtime_ok :: "rt_state \<Rightarrow> bool" where
  "runtime_ok s \<longleftrightarrow> (\<forall>i x. s i = Some x \<longrightarrow> ri_entry_id x = i \<and> counters_ok x)"

lemma counters_ok_empty [simp]: "counters_ok empty_runtime_info"
  by (simp add: counters_ok_def empty_runtime_info_def)

lemma counters_ok_of: "runtime_ok s \<Longrightarrow> counters_ok (info_of s i)"
  by (auto simp: runtime_ok_def info_of_def split: option.split)

lemma counters_ok_update [simp]:
  "counters_ok (x\<lparr>ri_entry_id := i\<rparr>) = counters_ok x" "counters_ok (x\<lparr>ri_template_key := k\<rparr>) = counters_ok x"
  "counters_ok (x\<lparr>ri_status := st\<rparr>) = counters_ok x" "counters_ok (x\<lparr>ri_last_start_at := t\<rparr>) = counters_ok x"
  "counters_ok (x\<lparr>ri_last_end_at := t\<rparr>) = counters_ok x" "counters_ok (x\<lparr>ri_last_duration := t\<rparr>) = counters_ok x"
  "counters_ok (x\<lparr>ri_last_error := s\<rparr>) = counters_ok x"
  by (simp_all add: counters_ok_def)

lemma counters_ok_counted:
  "counters_ok x \<Longrightarrow> counters_ok (count_status st (x\<lparr>ri_run_count := ri_run_count x + 1\<rparr>))"
  by (cases st) (auto simp: counters_ok_def count_status_def)

lemma count_status_id [simp]: "ri_entry_id (count_status st x) = ri_entry_id x"
  "ri_run_count (count_status st x) = ri_run_count x" "ri_status (count_status st x) = ri_status x"
  "ri_last_error (count_status st x) = ri_last_error x"
  by (cases st; simp add: count_status_def)+

lemma runtime_ok_new [simp]: "runtime_ok new_runtime_state"
  by (simp add: runtime_ok_def new_runtime_state_def)

lemma runtime_ok_update:
  "runtime_ok s \<Longrightarrow> ri_entry_id x = i \<Longrightarrow> counters_ok x \<Longrightarrow> runtime_ok (s(i \<mapsto> x))"
  by (simp add: runtime_ok_def)

lemma runtime_ok_running: "runtime_ok s \<Longrightarrow> runtime_ok (mark_running e t s)"
  unfolding mark_running_def by (rule runtime_ok_update) (simp_all add: counters_ok_of)

lemma counters_ok_finished:
  "counters_ok x \<Longrightarrow> counters_ok (count_status st (x\<lparr>ri_entry_id := i, ri_template_key := k, ri_status := st',
     ri_last_start_at := a, ri_last_end_at := b, ri_last_duration := d, ri_run_count := ri_run_count x + 1,
     ri_last_error := m\<rparr>))"
  by (cases st) (auto simp: counters_ok_def count_status_def)

lemma runtime_ok_finished: "runtime_ok s \<Longrightarrow> runtime_ok (mark_finished e st a b err s)"
  unfolding mark_finished_def Let_def
  by (rule runtime_ok_update) (simp_all add: counters_ok_of counters_ok_finished)

lemma runtime_ok_scheduled: "runtime_ok s \<Longrightarrow> counters_ok (scheduled_info s e)"
  by (simp add: scheduled_info_def Let_def counters_ok_of)

lemma set_schedule_snoc:
  "set_schedule (es @ [e]) s = (set_schedule es s)(ce_id e \<mapsto> scheduled_info s e)"
  by (simp add: set_schedule_def)

lemma scheduled_info_id [simp]: "ri_entry_id (scheduled_info s e) = ce_id e"
  by (simp add: scheduled_info_def Let_def)

lemma runtime_ok_schedule: "runtime_ok s \<Longrightarrow> runtime_ok (set_schedule es s)"
proof (induction es rule: rev_induct)
  case Nil
  then show ?case by (simp add: set_schedule_def runtime_ok_def)
next
  case (snoc e es)
  then show ?case
    unfolding set_schedule_snoc by (intro runtime_ok_update) (auto simp: runtime_ok_scheduled)
qed

lemma dom_set_schedule: "dom (set_schedule es s) = ce_id ` set es"
proof (induction es rule: rev_induct)
  case Nil
  then show ?case by (simp add: set_schedule_def)
next
  case (snoc e es)
  then show ?case unfolding set_schedule_snoc dom_fun_upd by simp
qed

section \<open>Counters (observability.go)\<close>

record cron_metrics =
  mt_execute_total :: int
  mt_success_total :: int
  mt_failed_total :: int
  mt_duration_nanos :: int
  mt_overlap_skipped :: int
  mt_timeout_total :: int

definition reset_metrics :: cron_metrics where
  "reset_metrics = \<lparr>mt_execute_total = 0, mt_success_total = 0, mt_failed_total = 0, mt_duration_nanos = 0,
     mt_overlap_skipped = 0, mt_timeout_total = 0\<rparr>"

definition record_runtime_execution :: "cron_status \<Rightarrow> int \<Rightarrow> cron_metrics \<Rightarrow> cron_metrics" where
  "record_runtime_execution st d m =
     (let m = m\<lparr>mt_execute_total := mt_execute_total m + 1, mt_duration_nanos := mt_duration_nanos m + d\<rparr> in
      if st = CronSuccess then m\<lparr>mt_success_total := mt_success_total m + 1\<rparr>
      else (case st of
          CronLocked \<Rightarrow> m\<lparr>mt_overlap_skipped := mt_overlap_skipped m + 1\<rparr>
        | CronTimeout \<Rightarrow> m\<lparr>mt_failed_total := mt_failed_total m + 1, mt_timeout_total := mt_timeout_total m + 1\<rparr>
        | CronFailed \<Rightarrow> m\<lparr>mt_failed_total := mt_failed_total m + 1\<rparr>
        | CronPanic \<Rightarrow> m\<lparr>mt_failed_total := mt_failed_total m + 1\<rparr>
        | _ \<Rightarrow> m))"

definition metrics_ok :: "cron_metrics \<Rightarrow> bool" where
  "metrics_ok m \<longleftrightarrow> 0 \<le> mt_success_total m \<and> 0 \<le> mt_overlap_skipped m \<and> 0 \<le> mt_timeout_total m \<and>
     mt_timeout_total m \<le> mt_failed_total m \<and>
     mt_success_total m + mt_failed_total m + mt_overlap_skipped m \<le> mt_execute_total m"

lemma metrics_ok_record: "metrics_ok m \<Longrightarrow> metrics_ok (record_runtime_execution st d m)"
  by (cases st) (auto simp: metrics_ok_def record_runtime_execution_def Let_def)

section \<open>Interfaces (store.go, locker.go, logger.go, stream.go)\<close>

record run_log_filter =
  rf_run_id :: string
  rf_entry_id :: string
  rf_limit :: int

record run_filter =
  ru_entry_id :: string
  ru_template_key :: string
  ru_status :: cron_status
  ru_limit :: int

record 'w entry_repository =
  er_list_enabled :: "'w \<Rightarrow> (cron_error + cron_entry list) \<times> 'w"
  er_list_entries :: "'w \<Rightarrow> (cron_error + cron_entry_info list) \<times> 'w"
  er_get :: "string \<Rightarrow> 'w \<Rightarrow> (cron_error + cron_entry_info) \<times> 'w"
  er_create :: "cron_entry \<Rightarrow> 'w \<Rightarrow> (cron_error + cron_entry_info) \<times> 'w"
  er_update :: "cron_entry \<Rightarrow> 'w \<Rightarrow> cron_error option \<times> 'w"
  er_delete :: "string \<Rightarrow> 'w \<Rightarrow> cron_error option \<times> 'w"
  er_update_enabled :: "string \<Rightarrow> bool \<Rightarrow> 'w \<Rightarrow> cron_error option \<times> 'w"
  er_list_runs :: "run_filter \<Rightarrow> 'w \<Rightarrow> (cron_error + cron_run_log list) \<times> 'w"

record 'w log_store =
  ls_append :: "log_event \<Rightarrow> 'w \<Rightarrow> 'w"
  ls_list :: "run_log_filter \<Rightarrow> 'w \<Rightarrow> (cron_error + log_event list) \<times> 'w"

text \<open>A store may also be a repository of entries and a store of logs (type assertions of the code).\<close>

record 'w cron_store =
  sr_list_enabled :: "'w \<Rightarrow> (cron_error + cron_job list) \<times> 'w"
  sr_list_jobs :: "'w \<Rightarrow> (cron_error + cron_job_status list) \<times> 'w"
  sr_mark_running :: "cron_run_log \<Rightarrow> 'w \<Rightarrow> cron_error option \<times> 'w"
  sr_mark_finished :: "cron_run_log \<Rightarrow> 'w \<Rightarrow> 'w"
  sr_enable :: "string \<Rightarrow> 'w \<Rightarrow> cron_error option \<times> 'w"
  sr_disable :: "string \<Rightarrow> 'w \<Rightarrow> cron_error option \<times> 'w"
  sr_logs :: "string \<Rightarrow> int \<Rightarrow> 'w \<Rightarrow> (cron_error + cron_run_log list) \<times> 'w"
  sr_repository :: "'w entry_repository option"
  sr_log_store :: "'w log_store option"

definition noop_store :: "'w cron_store" where
  "noop_store = \<lparr>sr_list_enabled = (\<lambda>w. (Inr [], w)), sr_list_jobs = (\<lambda>w. (Inr [], w)),
     sr_mark_running = (\<lambda>_ w. (None, w)), sr_mark_finished = (\<lambda>_ w. w), sr_enable = (\<lambda>_ w. (None, w)),
     sr_disable = (\<lambda>_ w. (None, w)), sr_logs = (\<lambda>_ _ w. (Inr [], w)), sr_repository = None,
     sr_log_store = None\<rparr>"

record 'w cron_lock =
  lo_unlock :: "'w \<Rightarrow> 'w"

text \<open>\<open>TryLock\<close> returns a lock (or nil), whether it was obtained, and an error.\<close>

type_synonym 'w cron_locker = "string \<Rightarrow> int \<Rightarrow> 'w \<Rightarrow> ('w cron_lock option \<times> bool \<times> cron_error option) \<times> 'w"

definition noop_locker :: "'w cron_locker" where
  "noop_locker key ttl w = ((Some \<lparr>lo_unlock = (\<lambda>w. w)\<rparr>, True, None), w)"

type_synonym 'w log_writer = "cron_run_log \<Rightarrow> 'w \<Rightarrow> 'w"

definition noop_log_writer :: "'w log_writer" where
  "noop_log_writer lg w = w"

record 'w ext_streamer =
  es_publish :: "cron_error option \<Rightarrow> log_event \<Rightarrow> 'w \<Rightarrow> 'w"
  es_subscribe :: "log_filter \<Rightarrow> 'w \<Rightarrow> (cron_error + nat) \<times> 'w"

datatype 'w log_streamer = MemStreamer nat | ExtStreamer "'w ext_streamer"

section \<open>Contexts, runners and run contexts (run_context.go, runner.go)\<close>

text \<open>
  Of a context the model keeps the identifiers the code reads, its error (which may change with the
  world) and the values the package puts in.
\<close>

record 'w run_job_logger =
  jl_track_id :: string
  jl_ctx_err :: "'w \<Rightarrow> cron_error option"
  jl_run_id :: string
  jl_entry_id :: string
  jl_template_key :: string
  jl_store :: "'w log_store option"
  jl_streamer :: "'w log_streamer option"

datatype 'w job_logger = NoopJobLogger | RunJobLogger "'w run_job_logger"

record 'w cron_ctx =
  cx_track_id :: string
  cx_trace_id :: string
  cx_err :: "'w \<Rightarrow> cron_error option"
  cx_logger :: "'w job_logger"
  cx_entry :: "cron_entry option"

record 'w cron_runner =
  rn_registry :: "'w cron_registry option"
  rn_store :: "'w cron_store"
  rn_locker :: "'w cron_locker"
  rn_logger :: "'w log_writer"
  rn_log_store :: "'w log_store option"
  rn_streamer :: "'w log_streamer option"
  rn_runtime :: "nat option"
  rn_cfg :: cron_config

record 'w run_context =
  rc_ctx :: "'w cron_ctx"
  rc_runner :: "'w cron_runner option"
  rc_job :: cron_job
  rc_template :: template_data
  rc_entry :: cron_entry
  rc_run_id :: string
  rc_started_at :: int
  rc_instance_id :: string
  rc_result :: cron_result

section \<open>The world\<close>

record failure_report =
  fr_entry_id :: string
  fr_template_key :: string
  fr_started_at :: int
  fr_finished_at :: int
  fr_duration :: int
  fr_trace_id :: string
  fr_error :: cron_error

text \<open>
  The calls on collaborators; \<open>CallTryLock\<close> says whether a lock was obtained, \<open>CallMarkRunning\<close>
  whether it returned nil.
\<close>

datatype cron_call =
    CallTryLock string int bool
  | CallRefresh string int
  | CallStopRefresh string
  | CallUnlock string
  | CallMarkRunning cron_run_log bool
  | CallWriteLog cron_run_log
  | CallHandler string
  | CallMarkFinished cron_run_log
  | CallFailure failure_report

record 'w cron_world =
  cw_ext :: 'w
  cw_next_addr :: nat
  cw_runtimes :: "nat \<Rightarrow> rt_state"
  cw_streamers :: "nat \<Rightarrow> mem_streamer"
  cw_metrics :: cron_metrics
  cw_failure_handlers :: "(failure_report \<Rightarrow> 'w \<Rightarrow> 'w) option list"
  cw_left :: "('w job_logger \<times> 'w cron_prog) list"
  cw_calls :: "cron_call list"

text \<open>
  What the environment answers: the clock, fresh identifiers, the host's name, the parser of
  schedules (\<open>None\<close> accepts), and, for a run with a timeout, after how many steps of its handler the
  context is done (\<open>None\<close>: the handler returns first), with which error, and the error of the context
  when the handler returned.
\<close>

record 'w cron_env =
  en_now :: "'w \<Rightarrow> int \<times> 'w"
  en_uuid :: "'w \<Rightarrow> string \<times> 'w"
  en_track_id :: "'w \<Rightarrow> string \<times> 'w"
  en_hostname :: string
  en_parse_spec :: "string \<Rightarrow> cron_error option"
  en_deadline :: "'w \<Rightarrow> nat option"
  en_deadline_error :: "'w \<Rightarrow> cron_error"
  en_error_after :: "'w \<Rightarrow> cron_error option"

definition on_ext :: "('w \<Rightarrow> 'a \<times> 'w) \<Rightarrow> 'w cron_world \<Rightarrow> 'a \<times> 'w cron_world" where
  "on_ext f w = (let (a, e) = f (cw_ext w) in (a, w\<lparr>cw_ext := e\<rparr>))"

definition upd_ext :: "('w \<Rightarrow> 'w) \<Rightarrow> 'w cron_world \<Rightarrow> 'w cron_world" where
  "upd_ext f w = w\<lparr>cw_ext := f (cw_ext w)\<rparr>"

definition called :: "cron_call \<Rightarrow> 'w cron_world \<Rightarrow> 'w cron_world" where
  "called c w = w\<lparr>cw_calls := cw_calls w @ [c]\<rparr>"

text \<open>\<open>on_runtime\<close> is a method of a runtime state that may be nil.\<close>

definition on_runtime :: "nat option \<Rightarrow> (rt_state \<Rightarrow> rt_state) \<Rightarrow> 'w cron_world \<Rightarrow> 'w cron_world" where
  "on_runtime a f w = (case a of None \<Rightarrow> w | Some i \<Rightarrow> w\<lparr>cw_runtimes := (cw_runtimes w)(i := f (cw_runtimes w i))\<rparr>)"

lemma on_ext_calls [simp]:
  "cw_calls (snd (on_ext f w)) = cw_calls w" "cw_runtimes (snd (on_ext f w)) = cw_runtimes w"
  "cw_metrics (snd (on_ext f w)) = cw_metrics w" "cw_left (snd (on_ext f w)) = cw_left w"
  "cw_failure_handlers (snd (on_ext f w)) = cw_failure_handlers w"
  by (simp_all add: on_ext_def case_prod_beta)

lemma upd_ext_calls [simp]:
  "cw_calls (upd_ext f w) = cw_calls w" "cw_runtimes (upd_ext f w) = cw_runtimes w"
  "cw_metrics (upd_ext f w) = cw_metrics w" "cw_left (upd_ext f w) = cw_left w"
  "cw_failure_handlers (upd_ext f w) = cw_failure_handlers w"
  by (simp_all add: upd_ext_def)

lemma called_simps [simp]:
  "cw_calls (called c w) = cw_calls w @ [c]" "cw_runtimes (called c w) = cw_runtimes w"
  "cw_metrics (called c w) = cw_metrics w" "cw_left (called c w) = cw_left w"
  "cw_ext (called c w) = cw_ext w" "cw_failure_handlers (called c w) = cw_failure_handlers w"
  by (simp_all add: called_def)

lemma on_runtime_simps [simp]:
  "cw_calls (on_runtime a f w) = cw_calls w" "cw_metrics (on_runtime a f w) = cw_metrics w"
  "cw_left (on_runtime a f w) = cw_left w" "cw_ext (on_runtime a f w) = cw_ext w"
  "cw_failure_handlers (on_runtime a f w) = cw_failure_handlers w"
  by (simp_all add: on_runtime_def split: option.split)

lemma on_runtime_runtimes:
  "cw_runtimes (on_runtime a f w) j = (if a = Some j then f (cw_runtimes w j) else cw_runtimes w j)"
  by (simp add: on_runtime_def split: option.split)

end
