(* ===== verification/Crontab_Runtime.thy ===== *)
theory Crontab_Runtime
  imports Crontab_State
begin

text \<open>
  The run of a cron job (\<^verbatim>\<open>core/crontab/runtime.go\<close>, \<open>run_context.go\<close>, \<open>runner.go\<close>, \<open>job_logger.go\<close>,
  \<open>lifecycle.go\<close>): \<open>Dispatch\<close> with its deferred functions, and what a \<open>Runner\<close> makes of it.

  The local variables of \<open>Dispatch\<close> are a record.  Its deferred functions run in the reverse order:
  the lock is given up first, then the run is finished.  The goroutine of a handler with a timeout
  is run for the steps it makes before its context is done; what is left of it then goes on the
  list of handlers left behind, which may go on at any later time.  Spans and the lines of the
  process log are not modelled, nor are panics of collaborators.
\<close>

section \<open>Run contexts (run_context.go)\<close>

definition background :: "'w cron_ctx" where
  "background = \<lparr>cx_track_id = [], cx_trace_id = [], cx_err = (\<lambda>_. None), cx_logger = NoopJobLogger, cx_entry = None\<rparr>"

definition new_run_context ::
  "'w cron_env \<Rightarrow> 'w cron_ctx option \<Rightarrow> 'w cron_runner option \<Rightarrow> cron_job \<Rightarrow> 'w cron_world \<Rightarrow>
   'w run_context \<times> 'w cron_world" where
  "new_run_context env ctx runner job w =
     (let (run_id, w) = on_ext (en_uuid env) w;
          (now, w) = on_ext (en_now env) w in
      (\<lparr>rc_ctx = (case ctx of None \<Rightarrow> background | Some c \<Rightarrow> c), rc_runner = runner, rc_job = job,
        rc_template = empty_template_data, rc_entry = JobToEntry job, rc_run_id = run_id, rc_started_at = now,
        rc_instance_id = (case runner of None \<Rightarrow> [] | Some r \<Rightarrow> cc_instance_id (rn_cfg r)),
        rc_result = \<lparr>rr_status = CronUnset, rr_err = None, rr_panic = []\<rparr>\<rparr>, w))"

definition run_log :: "'w cron_env \<Rightarrow> 'w run_context \<Rightarrow> cron_status \<Rightarrow> cron_error option \<Rightarrow> string \<Rightarrow> int \<Rightarrow> cron_run_log" where
  "run_log env c st err panic finished_at =
     (let j = rc_job c in
      \<lparr>gl_job_id = cj_id j, gl_job_name = cj_name j, gl_run_id = rc_run_id c, gl_source = cj_source j,
       gl_mode = cj_mode j, gl_spec = cj_spec j, gl_queue = cj_queue j, gl_task_type = cj_task_type j,
       gl_payload = cj_payload j, gl_track_id = cx_track_id (rc_ctx c), gl_status = st,
       gl_started_at = rc_started_at c div cron_second,
       gl_finished_at = (if finished_at = 0 then 0 else finished_at div cron_second),
       gl_duration_ms = (if finished_at = 0 then 0 else (finished_at - rc_started_at c) sdiv 10 ^ 6),
       gl_error = (case err of None \<Rightarrow> [] | Some e \<Rightarrow> cron_error_text e), gl_panic_stack = panic,
       gl_host = en_hostname env, gl_instance_id = rc_instance_id c\<rparr>)"

definition running_log :: "'w cron_env \<Rightarrow> 'w run_context \<Rightarrow> cron_run_log" where
  "running_log env c = run_log env c CronRunning None [] 0"

definition finished_log :: "'w cron_env \<Rightarrow> 'w run_context \<Rightarrow> cron_result \<Rightarrow> int \<Rightarrow> cron_run_log" where
  "finished_log env c r finished_at = run_log env c (rr_status r) (rr_err r) (rr_panic r) finished_at"

lemma run_log_sel [simp]:
  "gl_status (run_log env c st err p t) = st" "gl_run_id (run_log env c st err p t) = rc_run_id c"
  by (simp_all add: run_log_def Let_def)

section \<open>Job loggers (job_logger.go)\<close>

definition publish_log :: "'w log_streamer \<Rightarrow> cron_error option \<Rightarrow> log_event \<Rightarrow> 'w cron_world \<Rightarrow> 'w cron_world" where
  "publish_log st err ev w =
     (case st of
        MemStreamer a \<Rightarrow> w\<lparr>cw_streamers := (cw_streamers w)(a := snd (stream_publish err ev (cw_streamers w a)))\<rparr>
      | ExtStreamer s \<Rightarrow> upd_ext (es_publish s err ev) w)"

definition write_job_log ::
  "'w cron_env \<Rightarrow> 'w job_logger \<Rightarrow> cron_log_level \<Rightarrow> string \<Rightarrow> any_value list \<Rightarrow> 'w cron_world \<Rightarrow> 'w cron_world" where
  "write_job_log env l level msg fs w =
     (case l of NoopJobLogger \<Rightarrow> w
      | RunJobLogger j \<Rightarrow>
          (let (now, w) = on_ext (en_now env) w;
               ev = \<lparr>lv_run_id = jl_run_id j, lv_entry_id = jl_entry_id j, lv_template_key = jl_template_key j,
                     lv_track_id = jl_track_id j, lv_level = level, lv_message = msg,
                     lv_fields = fields_to_map fs, lv_time = now\<rparr>;
               w = (case jl_store j of None \<Rightarrow> w | Some s \<Rightarrow> upd_ext (ls_append s ev) w) in
           (case jl_streamer j of None \<Rightarrow> w
            | Some st \<Rightarrow> publish_log st (jl_ctx_err j (cw_ext w)) ev w)))"

section \<open>Running a handler\<close>

text \<open>A handler runs to its result, or is left behind after a number of steps.\<close>

definition panic_result :: "string \<Rightarrow> string \<Rightarrow> cron_result" where
  "panic_result v stack =
     (let text = ''panic: '' @ v @ [CHR 0x0A] @ stack in
      \<lparr>rr_status = CronPanic, rr_err = Some (CText text), rr_panic = text\<rparr>)"

primrec run_prog_full ::
  "'w cron_env \<Rightarrow> 'w job_logger \<Rightarrow> 'w cron_prog \<Rightarrow> 'w cron_world \<Rightarrow> (cron_result + string \<times> string) \<times> 'w cron_world" where
  "run_prog_full env l (CReturn r) w = (Inl r, w)"
| "run_prog_full env l (CPanic v stack) w = (Inr (v, stack), w)"
| "run_prog_full env l (CLog level msg fs p) w = run_prog_full env l p (write_job_log env l level msg fs w)"
| "run_prog_full env l (CAct f k) w = run_prog_full env l (k (f (cw_ext w))) (upd_ext f w)"

fun run_prog_steps ::
  "nat \<Rightarrow> 'w cron_env \<Rightarrow> 'w job_logger \<Rightarrow> 'w cron_prog \<Rightarrow> 'w cron_world \<Rightarrow>
   ((cron_result + string \<times> string) + 'w cron_prog) \<times> 'w cron_world" where
  "run_prog_steps 0 env l p w = (Inr p, w)"
| "run_prog_steps (Suc n) env l (CReturn r) w = (Inl (Inl r), w)"
| "run_prog_steps (Suc n) env l (CPanic v stack) w = (Inl (Inr (v, stack)), w)"
| "run_prog_steps (Suc n) env l (CLog level msg fs p) w = run_prog_steps n env l p (write_job_log env l level msg fs w)"
| "run_prog_steps (Suc n) env l (CAct f k) w = run_prog_steps n env l (k (f (cw_ext w))) (upd_ext f w)"

text \<open>\<open>executeTemplateHandler\<close>: what the handler returned, as an error.\<close>

definition handler_error :: "cron_result \<Rightarrow> cron_error option" where
  "handler_error r =
     (let r' = normalize_result r in if rr_status r' \<noteq> CronSuccess then runtime_result_error r' else None)"

text \<open>\<open>runHandler\<close> around it: the recovered panic, or the normalised result of that error.\<close>

definition handler_outcome :: "cron_result + string \<times> string \<Rightarrow> cron_result" where
  "handler_outcome out =
     (case out of
        Inr (v, stack) \<Rightarrow> panic_result v stack
      | Inl r \<Rightarrow> normalize_result (case handler_error r of None \<Rightarrow> rr CronSuccess None | Some e \<Rightarrow> run_result_from_error (Some e)))"

definition handler_view :: "'w run_context \<Rightarrow> ('w, 'z) template_scheme \<Rightarrow> cron_job \<Rightarrow> handler_context" where
  "handler_view c tpl job =
     \<lparr>hc_job = job, hc_template = template_data.truncate tpl, hc_entry = JobToEntry job,
      hc_context_entry = Some (JobToEntry job), hc_run_id = rc_run_id c, hc_started_at = rc_started_at c,
      hc_instance_id = rc_instance_id c, hc_track_id = cx_track_id (rc_ctx c)\<rparr>"

text \<open>The end of a handler that returned in time.\<close>

definition in_time_result :: "'w cron_env \<Rightarrow> cron_result + string \<times> string \<Rightarrow> 'w cron_world \<Rightarrow> cron_result" where
  "in_time_result env out w =
     (let r = handler_outcome out; after = en_error_after env (cw_ext w) in
      if cron_is_opt CronDeadlineExceeded (rr_err r) \<and> after \<noteq> None then rr CronTimeout after else r)"

definition run_runtime_handler ::
  "'w cron_env \<Rightarrow> 'w run_context \<Rightarrow> 'w template \<Rightarrow> cron_job \<Rightarrow> int \<Rightarrow> 'w cron_world \<Rightarrow> cron_result \<times> 'w cron_world" where
  "run_runtime_handler env c tpl job timeout w =
     (case tp_handler tpl of
        None \<Rightarrow> (rr CronFailed (Some (CSentinel ErrLocalHandlerMissing)), w)
      | Some h \<Rightarrow>
          (let w = called (CallHandler (rc_run_id c)) w;
               l = cx_logger (rc_ctx c);
               p = h (handler_view c tpl job) in
           if timeout \<le> 0 then (let (out, w) = run_prog_full env l p w in (handler_outcome out, w))
           else (case en_deadline env (cw_ext w) of
               None \<Rightarrow> (let (out, w) = run_prog_full env l p w in (in_time_result env out w, w))
             | Some n \<Rightarrow>
                 (case run_prog_steps n env l p w of
                    (Inl out, w) \<Rightarrow> (in_time_result env out w, w)
                  | (Inr rest, w) \<Rightarrow>
                      (rr CronTimeout (Some (en_deadline_error env (cw_ext w))),
                       w\<lparr>cw_left := cw_left w @ [(l, rest)]\<rparr>)))))"

text \<open>A handler left behind goes on: the first of them for some steps.\<close>

definition resume_left :: "'w cron_env \<Rightarrow> nat \<Rightarrow> 'w cron_world \<Rightarrow> 'w cron_world" where
  "resume_left env n w =
     (case cw_left w of [] \<Rightarrow> w
      | (l, p) # ps \<Rightarrow>
          (case run_prog_steps n env l p (w\<lparr>cw_left := ps\<rparr>) of
             (Inl _, w') \<Rightarrow> w'
           | (Inr rest, w') \<Rightarrow> w'\<lparr>cw_left := cw_left w' @ [(l, rest)]\<rparr>))"

section \<open>The lock of a run\<close>

definition runtime_lock_key :: "cron_entry \<Rightarrow> string" where
  "runtime_lock_key e =
     (let i = ce_id e;
          i = (if i = [] then ce_template_key e else i);
          i = (if i = [] then ce_name e else i) in ''crontab:entry:'' @ i)"

definition lock_ttl :: "cron_job \<Rightarrow> cron_config \<Rightarrow> int \<Rightarrow> int" where
  "lock_ttl job cfg timeout =
     (let ttl = cj_lock_ttl job;
          ttl = (if ttl \<le> 0 then cc_lock_ttl cfg else ttl);
          ttl = (if ttl \<le> 0 \<and> timeout > 0 then timeout + 30 * cron_second else ttl) in
      if ttl \<le> 0 then 600 * cron_second else ttl)"

text \<open>
  The lock that is held, if one is: \<open>held\<close> is its key and the lock, and whether it is refreshed
  every third of its time to live.
\<close>

type_synonym 'w held = "(string \<times> 'w cron_lock \<times> bool) option"

definition acquire_runtime_lock ::
  "'w run_context \<Rightarrow> cron_entry \<Rightarrow> ('w, 'z) template_scheme \<Rightarrow> cron_job \<Rightarrow> int \<Rightarrow> 'w cron_world \<Rightarrow>
   (cron_result + 'w held) \<times> 'w cron_world" where
  "acquire_runtime_lock c entry tpl job timeout w =
     (if tp_allow_overlap tpl then (Inr None, w)
      else (case rc_runner c of
          None \<Rightarrow> (Inr None, w)
        | Some r \<Rightarrow>
            if \<not> cc_lock_enabled (rn_cfg r) then (Inr None, w)
            else
              (let key = runtime_lock_key entry;
                   ttl = lock_ttl job (rn_cfg r) timeout;
                   ((lock, ok, err), w) = on_ext (rn_locker r key ttl) w;
                   w = called (CallTryLock key ttl (err = None \<and> ok \<and> lock \<noteq> None)) w in
               case err of Some e \<Rightarrow> (Inl (rr CronFailed (Some e)), w)
               | None \<Rightarrow>
                   if \<not> ok then (Inl (rr CronLocked (Some (CSentinel ErrJobRunning))), w)
                   else (case lock of None \<Rightarrow> (Inr None, w)
                         | Some l \<Rightarrow>
                             (let refreshed = ttl sdiv 3 > 0 in
                              (Inr (Some (key, l, refreshed)),
                               if refreshed then called (CallRefresh key (ttl sdiv 3)) w else w))))))"

definition unlock :: "'w held \<Rightarrow> 'w cron_world \<Rightarrow> 'w cron_world" where
  "unlock h w =
     (case h of None \<Rightarrow> w
      | Some (key, l, refreshed) \<Rightarrow>
          (let w = (if refreshed then called (CallStopRefresh key) w else w) in
           called (CallUnlock key) (upd_ext (lo_unlock l) w)))"

section \<open>Writing down a run\<close>

definition write_runtime_running ::
  "'w cron_env \<Rightarrow> 'w run_context \<Rightarrow> ('w, 'z) template_scheme \<Rightarrow> 'w cron_world \<Rightarrow> cron_error option \<times> 'w cron_world" where
  "write_runtime_running env c tpl w =
     (case rc_runner c of None \<Rightarrow> (None, w)
      | Some r \<Rightarrow>
          (let lg = running_log env c;
               (err, w) =
                 (if tp_log_disabled tpl then (None, w)
                  else (let (err, w) = on_ext (sr_mark_running (rn_store r) lg) w;
                            w = called (CallMarkRunning lg (err = None)) w in
                        case err of Some e \<Rightarrow> (Some e, w)
                        | None \<Rightarrow> (None, called (CallWriteLog lg) (upd_ext (rn_logger r lg) w)))) in
           case err of Some e \<Rightarrow> (Some e, w)
           | None \<Rightarrow> (None, on_runtime (rn_runtime r) (mark_running (rc_entry c) (rc_started_at c)) w)))"

definition result_from_mark_running_error :: "cron_error \<Rightarrow> cron_result" where
  "result_from_mark_running_error e =
     (if cron_is ErrRunLimitReached e then rr CronDisabled (Some e) else rr CronFailed (Some e))"

definition inject_job_logger ::
  "'w run_context \<Rightarrow> cron_entry \<Rightarrow> cron_job \<Rightarrow> ('w, 'z) template_scheme \<Rightarrow> 'w run_context" where
  "inject_job_logger c entry job tpl =
     (case rc_runner c of None \<Rightarrow> c
      | Some r \<Rightarrow>
          c\<lparr>rc_ctx := (rc_ctx c)\<lparr>cx_logger :=
              (if tp_log_disabled tpl then NoopJobLogger
               else RunJobLogger \<lparr>jl_track_id = cx_track_id (rc_ctx c), jl_ctx_err = cx_err (rc_ctx c),
                      jl_run_id = rc_run_id c, jl_entry_id = ce_id entry, jl_template_key = cj_name job,
                      jl_store = rn_log_store r, jl_streamer = rn_streamer r\<rparr>)\<rparr>\<rparr>)"

definition finish_runtime ::
  "'w cron_env \<Rightarrow> 'w run_context option \<Rightarrow> cron_entry \<Rightarrow> ('w, 'z) template_scheme \<Rightarrow> cron_result \<Rightarrow> int \<Rightarrow> int \<Rightarrow>
   bool \<Rightarrow> 'w cron_world \<Rightarrow> 'w cron_world" where
  "finish_runtime env run entry tpl res started finished written w =
     (case run of None \<Rightarrow> w
      | Some c \<Rightarrow> (case rc_runner c of None \<Rightarrow> w
          | Some r \<Rightarrow>
              if \<not> written \<and> cron_is_opt ErrRunLimitReached (rr_err res) then w
              else
                (let lg = finished_log env c (normalize_result res) finished;
                     w = (if tp_log_disabled tpl then w
                          else called (CallMarkFinished lg) (upd_ext (sr_mark_finished (rn_store r) lg)
                                 (called (CallWriteLog lg) (upd_ext (rn_logger r lg) w)))) in
                 on_runtime (rn_runtime r)
                   (mark_finished entry (runtime_status_of (rr_status res)) started finished (rr_err res)) w)))"

section \<open>Failure handlers (lifecycle.go)\<close>

definition is_failure_status :: "cron_status \<Rightarrow> bool" where
  "is_failure_status st \<longleftrightarrow> st = CronFailed \<or> st = CronTimeout \<or> st = CronPanic"

definition runtime_log_error :: "cron_result \<Rightarrow> cron_error" where
  "runtime_log_error r =
     (case rr_err r of Some e \<Rightarrow> e | None \<Rightarrow> CText (''crontab runtime status: '' @ cron_status_text (rr_status r)))"

definition failure_template_key :: "cron_entry \<Rightarrow> ('w, 'z) template_scheme \<Rightarrow> string" where
  "failure_template_key e tpl =
     (if tp_key tpl \<noteq> [] then tp_key tpl else if ce_template_key e \<noteq> [] then ce_template_key e else ce_name e)"

text \<open>Nil handlers are skipped; a panic of a handler is recovered and leaves its effects.\<close>

fun run_failure_handlers ::
  "(failure_report \<Rightarrow> 'w \<Rightarrow> 'w) option list \<Rightarrow> failure_report \<Rightarrow> 'w cron_world \<Rightarrow> 'w cron_world" where
  "run_failure_handlers [] rep w = w"
| "run_failure_handlers (None # hs) rep w = run_failure_handlers hs rep w"
| "run_failure_handlers (Some h # hs) rep w =
     run_failure_handlers hs rep (called (CallFailure rep) (upd_ext (h rep) w))"

definition use_failure_handlers :: "(failure_report \<Rightarrow> 'w \<Rightarrow> 'w) option list \<Rightarrow> 'w cron_world \<Rightarrow> 'w cron_world" where
  "use_failure_handlers hs w = w\<lparr>cw_failure_handlers := hs\<rparr>"

definition notify_failure ::
  "'w cron_ctx \<Rightarrow> cron_entry \<Rightarrow> ('w, 'z) template_scheme \<Rightarrow> int \<Rightarrow> int \<Rightarrow> cron_result \<Rightarrow> 'w cron_world \<Rightarrow> 'w cron_world" where
  "notify_failure ctx entry tpl started finished res w =
     (if \<not> is_failure_status (rr_status res) then w
      else run_failure_handlers (cw_failure_handlers w)
        \<lparr>fr_entry_id = ce_id entry, fr_template_key = failure_template_key entry tpl, fr_started_at = started,
         fr_finished_at = finished, fr_duration = finished - started, fr_trace_id = cx_trace_id ctx,
         fr_error = runtime_log_error res\<rparr> w)"

section \<open>Dispatch (runtime.go)\<close>

definition entry_template_key :: "cron_entry option \<Rightarrow> string" where
  "entry_template_key e =
     (case e of None \<Rightarrow> [] | Some x \<Rightarrow> if ce_template_key x \<noteq> [] then ce_template_key x else ce_name x)"

definition normalize_entry :: "cron_entry option \<Rightarrow> cron_entry" where
  "normalize_entry e = (case e of None \<Rightarrow> empty_entry | Some x \<Rightarrow> x)"

definition runtime_timeout :: "('w, 'z) template_scheme \<Rightarrow> cron_job \<Rightarrow> int" where
  "runtime_timeout tpl job = (if cj_timeout job > 0 then cj_timeout job else template_timeout tpl)"

definition ensure_track_id :: "'w cron_env \<Rightarrow> 'w cron_ctx \<Rightarrow> 'w cron_world \<Rightarrow> 'w cron_ctx \<times> 'w cron_world" where
  "ensure_track_id env ctx w =
     (if cx_track_id ctx = [] then (let (t, w) = on_ext (en_track_id env) w in (ctx\<lparr>cx_track_id := t\<rparr>, w))
      else (ctx, w))"

definition prepare_cron_context ::
  "'w cron_ctx \<Rightarrow> ('w, 'z) template_scheme \<Rightarrow> cron_job \<Rightarrow> cron_entry \<Rightarrow> 'w run_context \<Rightarrow> 'w run_context" where
  "prepare_cron_context ctx tpl job entry c =
     c\<lparr>rc_template := template_data.truncate tpl, rc_job := job, rc_entry := entry, rc_ctx := ctx\<rparr>"

text \<open>The local variables of \<open>Dispatch\<close>.\<close>

record 'w run_frame =
  fm_ctx :: "'w cron_ctx"
  fm_run :: "'w run_context option"
  fm_entry :: cron_entry
  fm_tpl :: "'w template"
  fm_started :: int
  fm_written :: bool
  fm_result :: cron_result

text \<open>What happens with the lock held, up to and with giving it up.\<close>

definition dispatch_locked ::
  "'w cron_env \<Rightarrow> 'w held \<Rightarrow> 'w run_context \<Rightarrow> cron_job \<Rightarrow> int \<Rightarrow> 'w run_frame \<Rightarrow> 'w cron_world \<Rightarrow> 'w run_frame \<times> 'w cron_world" where
  "dispatch_locked env h c job timeout f w =
     (let (err, w) = write_runtime_running env c (fm_tpl f) w in
      case err of Some e \<Rightarrow> (f\<lparr>fm_result := result_from_mark_running_error e\<rparr>, unlock h w)
      | None \<Rightarrow>
          (let c = inject_job_logger c (fm_entry f) job (fm_tpl f);
               (res, w) = run_runtime_handler env c (fm_tpl f) job timeout w in
           (f\<lparr>fm_written := True, fm_run := Some c, fm_ctx := rc_ctx c, fm_result := res\<rparr>, unlock h w)))"

text \<open>A validated job, its empty fields filled from the template.\<close>

definition fill_job :: "('w, 'z) template_scheme \<Rightarrow> cron_job \<Rightarrow> cron_job" where
  "fill_job tpl job =
     (let job = (if cj_spec job = [] then job\<lparr>cj_spec := tp_spec tpl\<rparr> else job) in
      if cj_label job = [] then job\<lparr>cj_label := tp_name tpl\<rparr> else job)"

text \<open>The entry of a run after its job was filled in.\<close>

definition dispatched_entry :: "cron_entry option \<Rightarrow> cron_job \<Rightarrow> cron_entry" where
  "dispatched_entry entry job =
     (let ev = JobToEntry job in
      if ce_id ev = [] then (case entry of None \<Rightarrow> ev | Some e \<Rightarrow> ev\<lparr>ce_id := ce_id e\<rparr>) else ev)"

definition dispatch_acquire ::
  "'w cron_env \<Rightarrow> 'w run_context \<Rightarrow> cron_job \<Rightarrow> int \<Rightarrow> 'w run_frame \<Rightarrow> 'w cron_world \<Rightarrow> 'w run_frame \<times> 'w cron_world" where
  "dispatch_acquire env c job timeout f w =
     (case acquire_runtime_lock c (fm_entry f) (fm_tpl f) job timeout w of
        (Inl res, w) \<Rightarrow> (f\<lparr>fm_result := res\<rparr>, w)
      | (Inr h, w) \<Rightarrow> dispatch_locked env h c job timeout f w)"

definition dispatch_enabled ::
  "'w cron_env \<Rightarrow> cron_entry option \<Rightarrow> cron_job \<Rightarrow> 'w run_frame \<Rightarrow> 'w cron_world \<Rightarrow> 'w run_frame \<times> 'w cron_world" where
  "dispatch_enabled env entry job f w =
     (let (c, f, w) =
            (case fm_run f of
               Some c \<Rightarrow> (c, f, w)
             | None \<Rightarrow> (let (c, w) = new_run_context env (Some (fm_ctx f)) None job w in
                        (c, f\<lparr>fm_run := Some c, fm_started := rc_started_at c, fm_ctx := rc_ctx c\<rparr>, w)));
          timeout = runtime_timeout (fm_tpl f) job;
          ev = dispatched_entry entry job;
          c = prepare_cron_context (fm_ctx f) (fm_tpl f) job ev c in
      dispatch_acquire env c job timeout (f\<lparr>fm_entry := ev, fm_run := Some c\<rparr>) w)"

definition dispatch_body ::
  "'w cron_env \<Rightarrow> 'w cron_registry option \<Rightarrow> cron_entry option \<Rightarrow> 'w run_frame \<Rightarrow> 'w cron_world \<Rightarrow> 'w run_frame \<times> 'w cron_world" where
  "dispatch_body env reg entry f w =
     (case reg of None \<Rightarrow> (f\<lparr>fm_result := rr CronFailed (Some (CSentinel ErrRegistryRequired))\<rparr>, w)
      | Some r \<Rightarrow>
          (let name = entry_template_key (Some (fm_entry f)) in
           if name = [] then (f\<lparr>fm_result := rr CronTemplateMissing (Some (CSentinel ErrTemplateNotFound))\<rparr>, w)
           else
             (let job = (EntryToJob (fm_entry f))\<lparr>cj_name := name\<rparr>;
                  (tpl, err) = validate_job r job;
                  f = f\<lparr>fm_tpl := tpl\<rparr> in
              case err of Some e \<Rightarrow> (f\<lparr>fm_result := rr (validate_status e) (Some e)\<rparr>, w)
              | None \<Rightarrow>
                  (let job = fill_job tpl job in
                   if \<not> cj_enabled job then (f\<lparr>fm_result := rr CronDisabled None\<rparr>, w)
                   else dispatch_enabled env entry job f w))))"

text \<open>The deferred function that closes a run.\<close>

definition dispatch_close :: "'w cron_env \<Rightarrow> 'w run_frame \<Rightarrow> 'w cron_world \<Rightarrow> 'w cron_world" where
  "dispatch_close env f w =
     (let res = normalize_result (fm_result f);
          (finished, w) = on_ext (en_now env) w;
          w = w\<lparr>cw_metrics := record_runtime_execution (rr_status res) (finished - fm_started f) (cw_metrics w)\<rparr>;
          run = map_option (\<lambda>c. c\<lparr>rc_result := res\<rparr>) (fm_run f);
          w = finish_runtime env run (fm_entry f) (fm_tpl f) res (fm_started f) finished (fm_written f) w in
      notify_failure (fm_ctx f) (fm_entry f) (fm_tpl f) (fm_started f) finished res w)"

definition open_frame ::
  "'w cron_env \<Rightarrow> 'w cron_ctx option \<Rightarrow> 'w run_context option \<Rightarrow> cron_entry option \<Rightarrow> 'w cron_world \<Rightarrow>
   'w run_frame \<times> 'w cron_world" where
  "open_frame env ctx run entry w =
     (let (now, w) = on_ext (en_now env) w;
          (ctx, w) = ensure_track_id env (case ctx of None \<Rightarrow> background | Some c \<Rightarrow> c) w in
      (\<lparr>fm_ctx = ctx, fm_run = map_option (\<lambda>c. c\<lparr>rc_ctx := ctx\<rparr>) run, fm_entry = normalize_entry entry,
        fm_tpl = empty_template, fm_started = (case run of None \<Rightarrow> now | Some c \<Rightarrow> rc_started_at c),
        fm_written = False, fm_result = rr CronSuccess None\<rparr>, w))"

definition cron_dispatch ::
  "'w cron_env \<Rightarrow> 'w cron_registry option \<Rightarrow> 'w cron_ctx option \<Rightarrow> 'w run_context option \<Rightarrow> cron_entry option \<Rightarrow>
   'w cron_world \<Rightarrow> cron_error option \<times> 'w cron_world" where
  "cron_dispatch env reg ctx run entry w =
     (let (f, w) = open_frame env ctx run entry w;
          (f, w) = dispatch_body env reg entry f w in
      (runtime_result_error (fm_result f), dispatch_close env f w))"

section \<open>Runners (runner.go)\<close>

definition execute_template :: "'w cron_env \<Rightarrow> 'w run_context \<Rightarrow> 'w cron_world \<Rightarrow> cron_result \<times> 'w cron_world" where
  "execute_template env c w =
     (case rc_runner c of None \<Rightarrow> (rr CronFailed (Some (CSentinel ErrRegistryRequired)), w)
      | Some r \<Rightarrow>
          if rn_registry r = None then (rr CronFailed (Some (CSentinel ErrRegistryRequired)), w)
          else (let (err, w) = cron_dispatch env (rn_registry r) (Some (rc_ctx c)) (Some c) (Some (rc_entry c)) w in
                case err of None \<Rightarrow> (rr CronSuccess None, w)
                | Some e \<Rightarrow> (run_result_from_error (Some e), w)))"

definition runner_run_result ::
  "'w cron_env \<Rightarrow> 'w cron_runner option \<Rightarrow> 'w cron_ctx option \<Rightarrow> cron_job \<Rightarrow> 'w cron_world \<Rightarrow> cron_result \<times> 'w cron_world" where
  "runner_run_result env r ctx job w =
     (case r of None \<Rightarrow> (rr CronFailed None, w)
      | Some r \<Rightarrow> (let (c, w) = new_run_context env ctx (Some r) job w in execute_template env c w))"

definition runner_run ::
  "'w cron_env \<Rightarrow> 'w cron_runner option \<Rightarrow> 'w cron_ctx option \<Rightarrow> cron_job \<Rightarrow> 'w cron_world \<Rightarrow> 'w cron_world" where
  "runner_run env r ctx job w = snd (runner_run_result env r ctx job w)"

definition last_run_status :: "rt_state option \<Rightarrow> string \<Rightarrow> cron_status" where
  "last_run_status s i =
     (case s of None \<Rightarrow> CronUnset
      | Some m \<Rightarrow> (case runtime_get i m of None \<Rightarrow> CronUnset
          | Some info \<Rightarrow>
              (case ri_status info of
                 RuntimeSuccess \<Rightarrow> CronSuccess
               | RuntimeRunning \<Rightarrow> CronRunning
               | RuntimeSkipped \<Rightarrow> if ri_last_error info = cron_sentinel_text ErrJobRunning then CronLocked else CronSkipped
               | RuntimeDisabled \<Rightarrow> CronDisabled
               | RuntimeFailed \<Rightarrow> CronFailed
               | _ \<Rightarrow> CronUnset)))"

end
