(* ===== verification/Crontab_Runs.thy ===== *)
theory Crontab_Runs
  imports Crontab_Runtime
begin

text \<open>
  What a run of a cron job does to its collaborators and to the runtime state: which calls are made
  and in which order, when the handler runs, and what is written down.
\<close>

section \<open>What handlers leave alone\<close>

definition same_books :: "'w cron_world \<Rightarrow> 'w cron_world \<Rightarrow> bool" where
  "same_books w w' \<longleftrightarrow> cw_calls w' = cw_calls w \<and> cw_runtimes w' = cw_runtimes w \<and> cw_metrics w' = cw_metrics w \<and>
     cw_failure_handlers w' = cw_failure_handlers w"

lemma same_books_refl [simp]: "same_books w w"
  by (simp add: same_books_def)

lemma same_books_trans: "same_books a b \<Longrightarrow> same_books b c \<Longrightarrow> same_books a c"
  by (simp add: same_books_def)

lemma same_books_simps [simp]:
  "same_books a (snd (on_ext f w)) = same_books a w" "same_books a (upd_ext g w) = same_books a w"
  "same_books a (w\<lparr>cw_streamers := x\<rparr>) = same_books a w" "same_books a (w\<lparr>cw_left := y\<rparr>) = same_books a w"
  by (simp_all add: same_books_def)

lemma same_books_on_ext: "on_ext f w = (a, w') \<Longrightarrow> same_books b w' = same_books b w"
  by (metis same_books_simps(1) snd_conv)

lemma same_books_publish [simp]: "same_books a (publish_log st err ev w) = same_books a w"
  by (cases st) (simp_all add: publish_log_def)

lemma same_books_job_log [simp]: "same_books a (write_job_log env l level msg fs w) = same_books a w"
proof (cases l)
  case (RunJobLogger j)
  obtain now w1 where now: "on_ext (en_now env) w = (now, w1)" by (cases "on_ext (en_now env) w")
  then show ?thesis
    by (simp add: write_job_log_def RunJobLogger Let_def same_books_on_ext [OF now] split: option.split)
qed (simp add: write_job_log_def)

lemma same_books_full [simp]: "same_books a (snd (run_prog_full env l p w)) = same_books a w"
  by (induction p arbitrary: w) simp_all

lemma same_books_steps [simp]: "same_books a (snd (run_prog_steps n env l p w)) = same_books a w"
  by (induction n env l p w rule: run_prog_steps.induct) simp_all

text \<open>The handler is entered once, if there is one.\<close>

lemma run_runtime_handler_books:
  assumes "run_runtime_handler env c tpl job timeout w = (res, w')" "tp_handler tpl \<noteq> None"
  shows "same_books (called (CallHandler (rc_run_id c)) w) w'"
proof -
  obtain h where h: "tp_handler tpl = Some h" using assms(2) by blast
  let ?w = "called (CallHandler (rc_run_id c)) w"
  let ?l = "cx_logger (rc_ctx c)"
  let ?p = "h (handler_view c tpl job)"
  have full: "same_books ?w (snd (run_prog_full env ?l ?p ?w))" by simp
  have steps: "same_books ?w (snd (run_prog_steps n env ?l ?p ?w))" for n by simp
  show ?thesis
  proof (cases "timeout \<le> 0 \<or> en_deadline env (cw_ext ?w) = None")
    case True
    with assms(1) full show ?thesis
      by (auto simp: run_runtime_handler_def h Let_def case_prod_beta split: if_splits)
  next
    case False
    then obtain n where n: "en_deadline env (cw_ext ?w) = Some n" "\<not> timeout \<le> 0" by auto
    obtain r w1 where run: "run_prog_steps n env ?l ?p ?w = (r, w1)" by (cases "run_prog_steps n env ?l ?p ?w")
    with steps [of n] have "same_books ?w w1" by simp
    with assms(1) run n show ?thesis
      by (auto simp: run_runtime_handler_def h Let_def split: sum.splits)
  qed
qed

section \<open>The parts of a run\<close>

definition release_calls :: "'w held \<Rightarrow> cron_call list" where
  "release_calls h = (case h of None \<Rightarrow> [] | Some (key, l, refreshed) \<Rightarrow>
     (if refreshed then [CallStopRefresh key] else []) @ [CallUnlock key])"

lemma unlock_books:
  "cw_calls (unlock h w) = cw_calls w @ release_calls h" "cw_runtimes (unlock h w) = cw_runtimes w"
  "cw_metrics (unlock h w) = cw_metrics w" "cw_failure_handlers (unlock h w) = cw_failure_handlers w"
  by (auto simp: unlock_def release_calls_def Let_def split: option.split prod.split)

text \<open>The lock: refused, none needed, or taken.\<close>

definition needs_lock :: "'w run_context \<Rightarrow> ('w, 'z) template_scheme \<Rightarrow> bool" where
  "needs_lock c tpl \<longleftrightarrow> \<not> tp_allow_overlap tpl \<and>
     (case rc_runner c of None \<Rightarrow> False | Some r \<Rightarrow> cc_lock_enabled (rn_cfg r))"

text \<open>A locker that grants a lock returns one.\<close>

definition locker_ok :: "'w cron_locker \<Rightarrow> bool" where
  "locker_ok lk \<longleftrightarrow> (\<forall>key ttl e. case lk key ttl e of ((l, ok, err), _) \<Rightarrow> ok \<longrightarrow> l \<noteq> None)"

definition take_calls :: "string \<Rightarrow> int \<Rightarrow> bool \<Rightarrow> cron_call list" where
  "take_calls key ttl refreshed = CallTryLock key ttl True # (if refreshed then [CallRefresh key (ttl sdiv 3)] else [])"

lemma acquire_books:
  assumes "acquire_runtime_lock c entry tpl job timeout w = (r, w')"
    and "\<And>rn. rc_runner c = Some rn \<Longrightarrow> locker_ok (rn_locker rn)"
  shows "cw_runtimes w' = cw_runtimes w \<and> cw_metrics w' = cw_metrics w \<and> cw_failure_handlers w' = cw_failure_handlers w \<and>
    (case r of
       Inl res \<Rightarrow> needs_lock c tpl \<and> (rr_status res = CronFailed \<or> rr_status res = CronLocked) \<and>
         (\<exists>key ttl. cw_calls w' = cw_calls w @ [CallTryLock key ttl False])
     | Inr None \<Rightarrow> \<not> needs_lock c tpl \<and> cw_calls w' = cw_calls w
     | Inr (Some (key, l, refreshed)) \<Rightarrow> needs_lock c tpl \<and> key = runtime_lock_key entry \<and>
         (\<exists>ttl. cw_calls w' = cw_calls w @ take_calls key ttl refreshed))"
proof (cases "needs_lock c tpl")
  case False
  with assms(1) show ?thesis
    by (auto simp: acquire_runtime_lock_def needs_lock_def split: if_splits option.splits)
next
  case True
  then obtain rn where rn: "rc_runner c = Some rn" "cc_lock_enabled (rn_cfg rn)" "\<not> tp_allow_overlap tpl"
    by (auto simp: needs_lock_def split: option.splits)
  let ?key = "runtime_lock_key entry"
  let ?ttl = "lock_ttl job (rn_cfg rn) timeout"
  obtain lock ok err w1 where tried: "on_ext (rn_locker rn ?key ?ttl) w = ((lock, ok, err), w1)"
    by (metis prod_cases3 surj_pair)
  then have ans: "fst (rn_locker rn ?key ?ttl (cw_ext w)) = (lock, ok, err)"
    by (simp add: on_ext_def case_prod_beta) 
  have grant: "ok \<Longrightarrow> lock \<noteq> None"
    using assms(2) [OF rn(1)] ans unfolding locker_ok_def
    by (metis (mono_tags, lifting) case_prod_beta fst_conv snd_conv)
  have books: "cw_calls w1 = cw_calls w" "cw_runtimes w1 = cw_runtimes w" "cw_metrics w1 = cw_metrics w"
      "cw_failure_handlers w1 = cw_failure_handlers w"
    using same_books_on_ext [OF tried, of w] by (simp_all add: same_books_def)
  show ?thesis
    using assms(1) rn grant books True tried
    by (auto simp: acquire_runtime_lock_def Let_def take_calls_def split: if_splits option.splits)
qed

text \<open>Writing down the start: the calls of that, and the runtime state.\<close>

fun starting :: "cron_call \<Rightarrow> bool" where
  "starting (CallMarkRunning _ _) = True"
| "starting (CallWriteLog _) = True"
| "starting _ = False"

definition started_books :: "'w run_context \<Rightarrow> 'w cron_world \<Rightarrow> nat \<Rightarrow> rt_state" where
  "started_books c w =
     (case rc_runner c of None \<Rightarrow> cw_runtimes w
      | Some r \<Rightarrow> cw_runtimes (on_runtime (rn_runtime r) (mark_running (rc_entry c) (rc_started_at c)) w))"

lemma write_running_books:
  assumes "write_runtime_running env c tpl w = (err, w')"
  shows "\<exists>M. cw_calls w' = cw_calls w @ M \<and> list_all starting M \<and> cw_metrics w' = cw_metrics w \<and>
    cw_failure_handlers w' = cw_failure_handlers w \<and>
    cw_runtimes w' = (if err = None then started_books c w else cw_runtimes w) \<and>
    (err \<noteq> None \<longleftrightarrow> (\<exists>lg. CallMarkRunning lg False \<in> set M))"
proof (cases "rc_runner c")
  case None
  with assms show ?thesis by (intro exI [of _ "[]"]) (auto simp: write_runtime_running_def started_books_def)
next
  case (Some r)
  let ?lg = "running_log env c"
  obtain e w1 where m: "on_ext (sr_mark_running (rn_store r) ?lg) w = (e, w1)"
    by (cases "on_ext (sr_mark_running (rn_store r) ?lg) w")
  have b: "cw_calls w1 = cw_calls w" "cw_runtimes w1 = cw_runtimes w" "cw_metrics w1 = cw_metrics w"
      "cw_failure_handlers w1 = cw_failure_handlers w"
    using same_books_on_ext [OF m, of w] by (simp_all add: same_books_def)
  show ?thesis
  proof (cases "tp_log_disabled tpl")
    case True
    with assms Some show ?thesis
      by (intro exI [of _ "[]"]) (auto simp: write_runtime_running_def started_books_def)
  next
    case log: False
    show ?thesis
    proof (cases e)
      case None
      with assms Some log m b show ?thesis
        by (intro exI [of _ "[CallMarkRunning ?lg True, CallWriteLog ?lg]"])
          (auto simp: write_runtime_running_def started_books_def Let_def on_runtime_def
              split: option.split)
    next
      case (Some x)
      with assms \<open>rc_runner c = Some r\<close> log m b show ?thesis
        by (intro exI [of _ "[CallMarkRunning ?lg False]"]) (auto simp: write_runtime_running_def Let_def)
    qed
  qed
qed

text \<open>The run with the lock held.\<close>

lemma inject_job_logger_sel [simp]:
  "rc_runner (inject_job_logger c e j t) = rc_runner c" "rc_run_id (inject_job_logger c e j t) = rc_run_id c"
  "rc_started_at (inject_job_logger c e j t) = rc_started_at c" "rc_job (inject_job_logger c e j t) = rc_job c"
  by (simp_all add: inject_job_logger_def split: option.split)

definition same_run :: "'w run_context option \<Rightarrow> 'w run_context option \<Rightarrow> bool" where
  "same_run = rel_option (\<lambda>c d. rc_runner c = rc_runner d \<and> rc_run_id c = rc_run_id d \<and> rc_started_at c = rc_started_at d)"

lemma same_run_refl [simp]: "same_run r r"
  by (cases r) (simp_all add: same_run_def)

lemma same_run_trans: "same_run a b \<Longrightarrow> same_run b c \<Longrightarrow> same_run a c"
  by (cases a; cases b; cases c) (auto simp: same_run_def)

lemma dispatch_locked_books:
  assumes "dispatch_locked env h c job timeout f w = (f', w')" "tp_handler (fm_tpl f) \<noteq> None"
    and "fm_run f = Some c" "\<not> fm_written f"
  shows "\<exists>M H. cw_calls w' = cw_calls w @ M @ H @ release_calls h \<and> list_all starting M \<and>
    cw_metrics w' = cw_metrics w \<and> cw_failure_handlers w' = cw_failure_handlers w \<and>
    fm_entry f' = fm_entry f \<and> fm_tpl f' = fm_tpl f \<and> fm_started f' = fm_started f \<and> same_run (fm_run f) (fm_run f') \<and>
    (fm_written f' \<longleftrightarrow> \<not> (\<exists>lg. CallMarkRunning lg False \<in> set M)) \<and>
    (if fm_written f' then H = [CallHandler (rc_run_id c)] \<and> cw_runtimes w' = started_books c w
     else H = [] \<and> cw_runtimes w' = cw_runtimes w \<and> (\<exists>e. fm_result f' = result_from_mark_running_error e))"
proof -
  obtain err w1 where start: "write_runtime_running env c (fm_tpl f) w = (err, w1)"
    by (cases "write_runtime_running env c (fm_tpl f) w")
  obtain M where M: "cw_calls w1 = cw_calls w @ M" "list_all starting M" "cw_metrics w1 = cw_metrics w"
      "cw_failure_handlers w1 = cw_failure_handlers w"
      "cw_runtimes w1 = (if err = None then started_books c w else cw_runtimes w)"
      "err \<noteq> None \<longleftrightarrow> (\<exists>lg. CallMarkRunning lg False \<in> set M)"
    using write_running_books [OF start] by (elim exE conjE) (rule that; assumption)
  show ?thesis
  proof (cases err)
    case (Some e)
    with assms start M show ?thesis
      by - (rule exI [of _ M], rule exI [of _ "[]"], auto simp: dispatch_locked_def unlock_books)
  next
    case None
    let ?c = "inject_job_logger c (fm_entry f) job (fm_tpl f)"
    obtain res w2 where run: "run_runtime_handler env ?c (fm_tpl f) job timeout w1 = (res, w2)"
      by (cases "run_runtime_handler env ?c (fm_tpl f) job timeout w1")
    have "same_books (called (CallHandler (rc_run_id ?c)) w1) w2"
      by (rule run_runtime_handler_books [OF run assms(2)])
    with None assms start M run show ?thesis
      by - (rule exI [of _ M], rule exI [of _ "[CallHandler (rc_run_id c)]"],
        auto simp: dispatch_locked_def Let_def unlock_books same_books_def same_run_def)
  qed
qed

section \<open>The body of Dispatch\<close>

definition frame_runner :: "'w run_frame \<Rightarrow> 'w cron_runner option" where
  "frame_runner f = (case fm_run f of None \<Rightarrow> None | Some c \<Rightarrow> rc_runner c)"

definition runner_locks :: "'w cron_runner option \<Rightarrow> ('w, 'z) template_scheme \<Rightarrow> bool" where
  "runner_locks r tpl \<longleftrightarrow> \<not> tp_allow_overlap tpl \<and> (case r of None \<Rightarrow> False | Some x \<Rightarrow> cc_lock_enabled (rn_cfg x))"

lemma needs_lock_runner: "needs_lock c tpl = runner_locks (rc_runner c) tpl"
  by (simp add: needs_lock_def runner_locks_def)

definition runner_books :: "'w cron_runner option \<Rightarrow> (rt_state \<Rightarrow> rt_state) \<Rightarrow> 'w cron_world \<Rightarrow> nat \<Rightarrow> rt_state" where
  "runner_books r g w =
     (case r of None \<Rightarrow> cw_runtimes w
      | Some x \<Rightarrow> (case rn_runtime x of None \<Rightarrow> cw_runtimes w | Some i \<Rightarrow> (cw_runtimes w)(i := g (cw_runtimes w i))))"

lemma started_books_runner:
  "started_books c w = runner_books (rc_runner c) (mark_running (rc_entry c) (rc_started_at c)) w"
  by (simp add: started_books_def runner_books_def on_runtime_def split: option.split)

text \<open>The calls before and after the work of a run, with the lock and without.\<close>

definition lock_shape :: "bool \<Rightarrow> string \<Rightarrow> cron_call list \<Rightarrow> cron_call list \<Rightarrow> bool" where
  "lock_shape needed key A R \<longleftrightarrow>
     (if needed
      then (\<exists>ttl refreshed. A = take_calls key ttl refreshed \<and>
              R = (if refreshed then [CallStopRefresh key] else []) @ [CallUnlock key])
      else A = [] \<and> R = [])"

text \<open>
  How the body of a run that was admitted ends: with the lock refused, or with the lock (if one is
  needed) taken, the start written down and the handler run, and the lock given up.
\<close>

definition body_ends ::
  "'w cron_runner option \<Rightarrow> 'w cron_world \<Rightarrow> 'w run_frame \<Rightarrow> 'w cron_world \<Rightarrow> bool" where
  "body_ends rn w f' w' \<longleftrightarrow>
     cw_metrics w' = cw_metrics w \<and> cw_failure_handlers w' = cw_failure_handlers w \<and>
     frame_runner f' = rn \<and>
     (\<not> fm_written f' \<and> cw_runtimes w' = cw_runtimes w \<and> runner_locks rn (fm_tpl f') \<and>
        (rr_status (fm_result f') = CronFailed \<or> rr_status (fm_result f') = CronLocked) \<and>
        (\<exists>key ttl. cw_calls w' = cw_calls w @ [CallTryLock key ttl False]) \<or>
      (\<exists>A M H R. cw_calls w' = cw_calls w @ A @ M @ H @ R \<and> list_all starting M \<and>
         lock_shape (runner_locks rn (fm_tpl f')) (runtime_lock_key (fm_entry f')) A R \<and>
         (fm_written f' \<longleftrightarrow> \<not> (\<exists>lg. CallMarkRunning lg False \<in> set M)) \<and>
         (if fm_written f'
          then (\<exists>run_id. H = [CallHandler run_id]) \<and>
            cw_runtimes w' = runner_books rn (mark_running (fm_entry f') (fm_started f')) w
          else H = [] \<and> cw_runtimes w' = cw_runtimes w \<and> (\<exists>e. fm_result f' = result_from_mark_running_error e))))"

lemma body_ends_same: "same_books w w1 \<Longrightarrow> body_ends rn w1 f' w' = body_ends rn w f' w'"
proof -
  assume "same_books w w1"
  then have eqs: "cw_calls w1 = cw_calls w" "cw_runtimes w1 = cw_runtimes w" "cw_metrics w1 = cw_metrics w"
      "cw_failure_handlers w1 = cw_failure_handlers w" by (simp_all add: same_books_def)
  then have "runner_books rn g w1 = runner_books rn g w" for g
    by (simp add: runner_books_def split: option.split)
  then show ?thesis by (simp only: body_ends_def eqs)
qed

definition runner_ok :: "'w cron_runner option \<Rightarrow> bool" where
  "runner_ok r \<longleftrightarrow> (case r of None \<Rightarrow> True | Some x \<Rightarrow> locker_ok (rn_locker x))"

text \<open>Only the calls.\<close>

lemma body_ends_calls [consumes 1, case_names refused ran]:
  assumes "body_ends rn w f v"
  obtains (refused) key ttl where "cw_calls v = cw_calls w @ [CallTryLock key ttl False]" "\<not> fm_written f"
    "rr_status (fm_result f) = CronFailed \<or> rr_status (fm_result f) = CronLocked"
  | (ran) A M H R where "cw_calls v = cw_calls w @ A @ M @ H @ R" "list_all starting M"
      "lock_shape (runner_locks rn (fm_tpl f)) (runtime_lock_key (fm_entry f)) A R"
      "H = [] \<or> (\<exists>run_id. H = [CallHandler run_id])"
      "H = [] \<longleftrightarrow> (\<exists>lg. CallMarkRunning lg False \<in> set M)"
      "H = [] \<longrightarrow> (\<exists>e. fm_result f = result_from_mark_running_error e)"
proof -
  let ?tail = "\<lambda>H. if fm_written f
          then (\<exists>run_id. H = [CallHandler run_id]) \<and>
            cw_runtimes v = runner_books rn (mark_running (fm_entry f) (fm_started f)) w
          else H = [] \<and> cw_runtimes v = cw_runtimes w \<and> (\<exists>e. fm_result f = result_from_mark_running_error e)"
  from assms consider
      (a) "\<not> fm_written f" "rr_status (fm_result f) = CronFailed \<or> rr_status (fm_result f) = CronLocked"
        "\<exists>key ttl. cw_calls v = cw_calls w @ [CallTryLock key ttl False]"
    | (b) "\<exists>A M H R. cw_calls v = cw_calls w @ A @ M @ H @ R \<and> list_all starting M \<and>
         lock_shape (runner_locks rn (fm_tpl f)) (runtime_lock_key (fm_entry f)) A R \<and>
         (fm_written f \<longleftrightarrow> \<not> (\<exists>lg. CallMarkRunning lg False \<in> set M)) \<and> ?tail H"
    unfolding body_ends_def by argo
  then show thesis
  proof cases
    case a
    with refused show thesis by blast
  next
    case b
    then obtain A M H R where *: "cw_calls v = cw_calls w @ A @ M @ H @ R" "list_all starting M"
         "lock_shape (runner_locks rn (fm_tpl f)) (runtime_lock_key (fm_entry f)) A R"
         "fm_written f \<longleftrightarrow> \<not> (\<exists>lg. CallMarkRunning lg False \<in> set M)" "?tail H" by (elim exE conjE)
    from *(4,5) have "H = [] \<or> (\<exists>run_id. H = [CallHandler run_id])" "H = [] \<longleftrightarrow> (\<exists>lg. CallMarkRunning lg False \<in> set M)"
      "H = [] \<longrightarrow> (\<exists>e. fm_result f = result_from_mark_running_error e)"
      by (cases "fm_written f"; auto)+
    with *(1-3) ran show thesis by metis
  qed
qed

lemma mark_running_error_result:
  "rr_status (result_from_mark_running_error e) \<noteq> CronSuccess" "rr_status (result_from_mark_running_error e) \<noteq> CronUnset"
  by (simp_all add: result_from_mark_running_error_def)

text \<open>Only the books.\<close>

lemma body_ends_books:
  assumes "body_ends rn w f v"
  shows "cw_metrics v = cw_metrics w \<and>
    (if fm_written f then cw_runtimes v = runner_books rn (mark_running (fm_entry f) (fm_started f)) w
     else cw_runtimes v = cw_runtimes w \<and> rr_status (fm_result f) \<noteq> CronSuccess \<and> rr_status (fm_result f) \<noteq> CronUnset)"
proof -
  have m: "cw_metrics v = cw_metrics w" using assms by (simp add: body_ends_def)
  show ?thesis
  proof (cases "fm_written f")
    case True
    with assms show ?thesis by (auto simp: body_ends_def)
  next
    case False
    with assms show ?thesis by (auto simp: body_ends_def mark_running_error_result)
  qed
qed

lemma new_run_context_books:
  "new_run_context env ctx runner job w = (c, w') \<Longrightarrow> same_books a w' = same_books a w \<and> rc_runner c = runner"
  by (auto simp: new_run_context_def Let_def case_prod_beta)

lemma prepare_cron_context_sel [simp]:
  "rc_runner (prepare_cron_context ctx tpl job e c) = rc_runner c"
  "rc_started_at (prepare_cron_context ctx tpl job e c) = rc_started_at c"
  "rc_entry (prepare_cron_context ctx tpl job e c) = e"
  by (simp_all add: prepare_cron_context_def)

lemma dispatch_tail_books:
  assumes "dispatch_acquire env c job timeout f w = (f', w')"
    and "fm_run f = Some c" "fm_entry f = ev" "rc_entry c = ev" "rc_started_at c = fm_started f"
    and "tp_handler (fm_tpl f) \<noteq> None" "\<not> fm_written f" "runner_ok (rc_runner c)"
  shows "body_ends (frame_runner f) w f' w' \<and> fm_entry f' = ev \<and> fm_tpl f' = fm_tpl f \<and> fm_started f' = fm_started f"
proof -
  have fr: "frame_runner f = rc_runner c" using assms(2) by (simp add: frame_runner_def)
  obtain r w1 where acq: "acquire_runtime_lock c ev (fm_tpl f) job timeout w = (r, w1)"
    by (cases "acquire_runtime_lock c ev (fm_tpl f) job timeout w")
  have lk: "\<And>rn. rc_runner c = Some rn \<Longrightarrow> locker_ok (rn_locker rn)"
    using assms(8) by (simp add: runner_ok_def)
  note b = acquire_books [OF acq lk]
  show ?thesis
  proof (cases r)
    case (Inl res)
    with assms acq b fr show ?thesis
      by (auto simp: dispatch_acquire_def body_ends_def frame_runner_def needs_lock_runner)
  next
    case (Inr h)
    have run: "dispatch_locked env h c job timeout f w1 = (f', w')" using assms(1,3) acq Inr by (simp add: dispatch_acquire_def)
    obtain M H where D: "cw_calls w' = cw_calls w1 @ M @ H @ release_calls h" "list_all starting M"
      "cw_metrics w' = cw_metrics w1" "cw_failure_handlers w' = cw_failure_handlers w1"
      "fm_entry f' = fm_entry f" "fm_tpl f' = fm_tpl f" "fm_started f' = fm_started f" "same_run (fm_run f) (fm_run f')"
      "fm_written f' \<longleftrightarrow> \<not> (\<exists>lg. CallMarkRunning lg False \<in> set M)"
      "if fm_written f' then H = [CallHandler (rc_run_id c)] \<and> cw_runtimes w' = started_books c w1
       else H = [] \<and> cw_runtimes w' = cw_runtimes w1 \<and> (\<exists>e. fm_result f' = result_from_mark_running_error e)"
      using dispatch_locked_books [OF run assms(6,2,7)] by (elim exE conjE) (rule that; assumption)
    have w1: "cw_runtimes w1 = cw_runtimes w" "cw_metrics w1 = cw_metrics w"
      "cw_failure_handlers w1 = cw_failure_handlers w" using b by simp_all
    obtain A where A: "cw_calls w1 = cw_calls w @ A"
      "lock_shape (runner_locks (rc_runner c) (fm_tpl f)) (runtime_lock_key ev) A (release_calls h)"
    proof (cases h)
      case None
      with b Inr that [of "[]"] show ?thesis
        by (simp add: lock_shape_def needs_lock_runner release_calls_def)
    next
      case (Some k)
      obtain key l refreshed where k: "k = (key, l, refreshed)" by (metis prod_cases3)
      from b Inr Some k obtain ttl where
        "runner_locks (rc_runner c) (fm_tpl f)" "key = runtime_lock_key ev" "cw_calls w1 = cw_calls w @ take_calls key ttl refreshed"
        by (auto simp: needs_lock_runner)
      with that [of "take_calls key ttl refreshed"] Some k show ?thesis
        by (auto simp: lock_shape_def release_calls_def)
    qed
    have books: "started_books c w1 = runner_books (rc_runner c) (mark_running ev (fm_started f)) w"
      using assms(4,5) w1 by (simp add: started_books_runner runner_books_def split: option.split)
    have "frame_runner f' = frame_runner f"
      using D(8) assms(2) by (cases "fm_run f'") (auto simp: same_run_def frame_runner_def)
    moreover have "\<exists>A M H R. cw_calls w' = cw_calls w @ A @ M @ H @ R \<and> list_all starting M \<and>
         lock_shape (runner_locks (frame_runner f) (fm_tpl f')) (runtime_lock_key (fm_entry f')) A R \<and>
         (fm_written f' \<longleftrightarrow> \<not> (\<exists>lg. CallMarkRunning lg False \<in> set M)) \<and>
         (if fm_written f'
          then (\<exists>run_id. H = [CallHandler run_id]) \<and>
            cw_runtimes w' = runner_books (frame_runner f) (mark_running (fm_entry f') (fm_started f')) w
          else H = [] \<and> cw_runtimes w' = cw_runtimes w \<and> (\<exists>e. fm_result f' = result_from_mark_running_error e))"
      by (rule exI [of _ A], rule exI [of _ M], rule exI [of _ H], rule exI [of _ "release_calls h"])
        (use D A w1 books fr assms(3) in auto)
    ultimately show ?thesis using D w1 assms(3) by (simp add: body_ends_def)
  qed
qed

lemma fill_job_sel [simp]:
  "cj_id (fill_job tpl job) = cj_id job" "cj_name (fill_job tpl job) = cj_name job"
  "cj_enabled (fill_job tpl job) = cj_enabled job" "cj_source (fill_job tpl job) = cj_source job"
  by (simp_all add: fill_job_def Let_def)

lemma dispatch_enabled_books:
  assumes "dispatch_enabled env entry job f w = (f', w')"
    and "tp_handler (fm_tpl f) \<noteq> None" "\<not> fm_written f" "runner_ok (frame_runner f)"
    and "\<forall>c. fm_run f = Some c \<longrightarrow> rc_started_at c = fm_started f"
    and "cj_id job = [] \<longrightarrow> (\<forall>e. entry = Some e \<longrightarrow> ce_id e = [])"
  shows "body_ends (frame_runner f) w f' w' \<and> ce_id (fm_entry f') = cj_id job \<and> fm_tpl f' = fm_tpl f \<and>
    (fm_run f \<noteq> None \<longrightarrow> fm_started f' = fm_started f)"
proof -
  let ?timeout = "runtime_timeout (fm_tpl f) job"
  let ?ev = "dispatched_entry entry job"
  have ev: "ce_id ?ev = cj_id job" using assms(6) by (auto simp: dispatched_entry_def Let_def split: option.split)
  show ?thesis
  proof (cases "fm_run f")
    case (Some c)
    let ?c = "prepare_cron_context (fm_ctx f) (fm_tpl f) job ?ev c"
    let ?f = "f\<lparr>fm_entry := ?ev, fm_run := Some ?c\<rparr>"
    have run: "dispatch_acquire env ?c job ?timeout ?f w = (f', w')"
      using assms(1) Some by (simp add: dispatch_enabled_def Let_def)
    have "body_ends (frame_runner ?f) w f' w' \<and> fm_entry f' = ?ev \<and> fm_tpl f' = fm_tpl ?f \<and> fm_started f' = fm_started ?f"
      by (rule dispatch_tail_books [OF run]) (use assms Some in \<open>auto simp: frame_runner_def\<close>)
    moreover have "frame_runner ?f = frame_runner f" using Some by (simp add: frame_runner_def)
    ultimately show ?thesis using ev Some by simp
  next
    case None
    obtain c w1 where c: "new_run_context env (Some (fm_ctx f)) None job w = (c, w1)"
      by (cases "new_run_context env (Some (fm_ctx f)) None job w")
    let ?f0 = "f\<lparr>fm_run := Some c, fm_started := rc_started_at c, fm_ctx := rc_ctx c\<rparr>"
    let ?c = "prepare_cron_context (rc_ctx c) (fm_tpl f) job ?ev c"
    let ?f = "?f0\<lparr>fm_entry := ?ev, fm_run := Some ?c\<rparr>"
    have rc: "rc_runner c = None" and b: "same_books w w1"
      using new_run_context_books [OF c, of w] by simp_all
    have run: "dispatch_acquire env ?c job ?timeout ?f w1 = (f', w')"
      using assms(1) None c by (simp add: dispatch_enabled_def Let_def)
    have "body_ends (frame_runner ?f) w1 f' w' \<and> fm_entry f' = ?ev \<and> fm_tpl f' = fm_tpl ?f \<and> fm_started f' = fm_started ?f"
      by (rule dispatch_tail_books [OF run]) (use assms(2,3) rc in \<open>auto simp: runner_ok_def\<close>)
    moreover have "frame_runner ?f = frame_runner f" using None rc by (simp add: frame_runner_def)
    ultimately show ?thesis using ev None body_ends_same [OF b] by simp
  qed
qed

text \<open>Why a run is refused before anything is called.\<close>

definition refusal :: "'w cron_registry option \<Rightarrow> cron_entry \<Rightarrow> (cron_status \<times> cron_error option) option" where
  "refusal reg e =
     (case reg of None \<Rightarrow> Some (CronFailed, Some (CSentinel ErrRegistryRequired))
      | Some r \<Rightarrow> (case if entry_template_key (Some e) = [] then None else r (entry_template_key (Some e)) of
            None \<Rightarrow> Some (CronTemplateMissing, Some (CSentinel ErrTemplateNotFound))
          | Some t \<Rightarrow>
              if \<not> tp_enabled t then Some (CronTemplateDisabled, Some (CSentinel ErrTemplateDisabled))
              else if ce_source e \<in> {SourceDynamic, SourceDB} \<and> \<not> tp_allow_db t
                then Some (CronSkipped, Some (CSentinel ErrDynamicNotAllowed))
              else if tp_handler t = None then Some (CronFailed, Some (CSentinel ErrLocalHandlerMissing))
              else if \<not> ce_enabled e then Some (CronDisabled, None)
              else None))"

lemma refusal_status: "refusal reg e = Some (st, err) \<Longrightarrow>
    st \<noteq> CronSuccess \<and> st \<noteq> CronUnset \<and> \<not> cron_is_opt ErrRunLimitReached err"
  by (auto simp: refusal_def split: option.splits if_splits)

lemma body_refused:
  assumes "refusal reg (fm_entry f) = Some (st, err)"
  shows "\<exists>tpl. dispatch_body env reg entry f w = (f\<lparr>fm_tpl := tpl, fm_result := rr st err\<rparr>, w)"
proof (cases reg)
  case None
  with assms show ?thesis by (intro exI [of _ "fm_tpl f"]) (simp add: refusal_def dispatch_body_def)
next
  case (Some r)
  let ?k = "entry_template_key (Some (fm_entry f))"
  show ?thesis
  proof (cases "?k = [] \<or> r ?k = None")
    case True
    with assms Some show ?thesis
      by (intro exI [of _ "if ?k = [] then fm_tpl f else empty_template"])
        (auto simp: refusal_def dispatch_body_def validate_job_def Let_def validate_status_def)
  next
    case False
    then obtain t where "r ?k = Some t" by auto
    with False assms Some show ?thesis
      by (intro exI [of _ t])
        (auto simp: refusal_def dispatch_body_def validate_job_def Let_def validate_status_def split: if_splits)
  qed
qed

lemma body_admitted:
  assumes "refusal reg (fm_entry f) = None"
  shows "\<exists>r t. reg = Some r \<and> r (entry_template_key (Some (fm_entry f))) = Some t \<and> tp_handler t \<noteq> None \<and>
    dispatch_body env reg entry f w =
      dispatch_enabled env entry
        (fill_job t ((EntryToJob (fm_entry f))\<lparr>cj_name := entry_template_key (Some (fm_entry f))\<rparr>)) (f\<lparr>fm_tpl := t\<rparr>) w"
  using assms
  by (auto simp: refusal_def dispatch_body_def validate_job_def Let_def split: option.splits if_splits)

section \<open>Closing a run\<close>

fun closing :: "cron_call \<Rightarrow> bool" where
  "closing (CallMarkFinished _) = True"
| "closing (CallWriteLog _) = True"
| "closing _ = False"

fun notifying :: "cron_call \<Rightarrow> bool" where
  "notifying (CallFailure _) = True"
| "notifying _ = False"

lemma notify_books:
  "\<exists>N. cw_calls (notify_failure ctx e tpl a b res w) = cw_calls w @ N \<and> list_all notifying N \<and>
     cw_runtimes (notify_failure ctx e tpl a b res w) = cw_runtimes w \<and>
     cw_metrics (notify_failure ctx e tpl a b res w) = cw_metrics w"
proof -
  have "\<exists>N. cw_calls (run_failure_handlers hs rep v) = cw_calls v @ N \<and> list_all notifying N \<and>
     cw_runtimes (run_failure_handlers hs rep v) = cw_runtimes v \<and>
     cw_metrics (run_failure_handlers hs rep v) = cw_metrics v" for hs rep v
  proof (induction hs rep v rule: run_failure_handlers.induct)
    case (3 h hs rep v)
    then obtain N where N: "cw_calls (run_failure_handlers hs rep (called (CallFailure rep) (upd_ext (h rep) v))) =
        (cw_calls v @ [CallFailure rep]) @ N" "list_all notifying N"
      "cw_runtimes (run_failure_handlers hs rep (called (CallFailure rep) (upd_ext (h rep) v))) = cw_runtimes v"
      "cw_metrics (run_failure_handlers hs rep (called (CallFailure rep) (upd_ext (h rep) v))) = cw_metrics v"
      by auto
    then show ?case by (intro exI [of _ "CallFailure rep # N"]) simp
  qed auto
  then show ?thesis by (auto simp: notify_failure_def intro: exI [of _ "[]"])
qed

text \<open>Whether the end of a run is written down: not when the limit of runs refused it.\<close>

definition run_closed :: "'w run_frame \<Rightarrow> bool" where
  "run_closed f \<longleftrightarrow> fm_written f \<or> \<not> cron_is_opt ErrRunLimitReached (rr_err (fm_result f))"

lemma finish_books:
  "\<exists>F. cw_calls (finish_runtime env run e tpl res a b written w) = cw_calls w @ F \<and> list_all closing F \<and>
     cw_metrics (finish_runtime env run e tpl res a b written w) = cw_metrics w \<and>
     cw_runtimes (finish_runtime env run e tpl res a b written w) =
       (if \<not> written \<and> cron_is_opt ErrRunLimitReached (rr_err res) then cw_runtimes w
        else runner_books (case run of None \<Rightarrow> None | Some c \<Rightarrow> rc_runner c)
               (mark_finished e (runtime_status_of (rr_status res)) a b (rr_err res)) w)"
proof (cases "case run of None \<Rightarrow> None | Some c \<Rightarrow> rc_runner c")
  case None
  then have "finish_runtime env run e tpl res a b written w = w"
    by (auto simp: finish_runtime_def split: option.splits)
  with None show ?thesis by (intro exI [of _ "[]"]) (simp add: runner_books_def)
next
  case (Some r)
  then obtain c where c: "run = Some c" "rc_runner c = Some r" by (auto split: option.splits)
  let ?lg = "finished_log env c (normalize_result res) b"
  let ?skip = "\<not> written \<and> cron_is_opt ErrRunLimitReached (rr_err res)"
  show ?thesis
    by (rule exI [of _ "if ?skip \<or> tp_log_disabled tpl then [] else [CallWriteLog ?lg, CallMarkFinished ?lg]"])
      (use c in \<open>auto simp: finish_runtime_def runner_books_def Let_def on_runtime_def split: option.split\<close>)
qed

lemma runner_books_cong: "cw_runtimes v = cw_runtimes w \<Longrightarrow> runner_books r g v = runner_books r g w"
  by (simp add: runner_books_def split: option.split)

lemma close_books:
  "\<exists>F N finished. cw_calls (dispatch_close env f w) = cw_calls w @ F @ N \<and> list_all closing F \<and> list_all notifying N \<and>
     cw_metrics (dispatch_close env f w) =
       record_runtime_execution (rr_status (normalize_result (fm_result f))) (finished - fm_started f) (cw_metrics w) \<and>
     cw_runtimes (dispatch_close env f w) =
       (if \<not> run_closed f then cw_runtimes w
        else runner_books (frame_runner f)
               (mark_finished (fm_entry f) (runtime_status_of (rr_status (normalize_result (fm_result f))))
                  (fm_started f) finished (rr_err (fm_result f))) w)"
proof -
  let ?res = "normalize_result (fm_result f)"
  let ?run = "map_option (\<lambda>c. c\<lparr>rc_result := ?res\<rparr>) (fm_run f)"
  obtain fin w1 where now: "on_ext (en_now env) w = (fin, w1)" by (cases "on_ext (en_now env) w")
  have w1: "cw_calls w1 = cw_calls w" "cw_metrics w1 = cw_metrics w" "cw_runtimes w1 = cw_runtimes w"
    using same_books_on_ext [OF now, of w] by (simp_all add: same_books_def)
  let ?w2 = "w1\<lparr>cw_metrics := record_runtime_execution (rr_status ?res) (fin - fm_started f) (cw_metrics w1)\<rparr>"
  let ?w3 = "finish_runtime env ?run (fm_entry f) (fm_tpl f) ?res (fm_started f) fin (fm_written f) ?w2"
  have eq: "dispatch_close env f w =
      notify_failure (fm_ctx f) (fm_entry f) (fm_tpl f) (fm_started f) fin ?res ?w3"
    by (simp add: dispatch_close_def now Let_def)
  have rn: "(case ?run of None \<Rightarrow> None | Some c \<Rightarrow> rc_runner c) = frame_runner f"
    by (simp add: frame_runner_def split: option.split)
  have cw: "cw_calls ?w2 = cw_calls w" "cw_runtimes ?w2 = cw_runtimes w"
    "cw_metrics ?w2 = record_runtime_execution (rr_status ?res) (fin - fm_started f) (cw_metrics w)"
    using w1 by simp_all
  obtain F where F: "cw_calls ?w3 = cw_calls w @ F" "list_all closing F"
    "cw_metrics ?w3 = record_runtime_execution (rr_status ?res) (fin - fm_started f) (cw_metrics w)"
    "cw_runtimes ?w3 = (if \<not> run_closed f then cw_runtimes w
        else runner_books (frame_runner f)
          (mark_finished (fm_entry f) (runtime_status_of (rr_status ?res)) (fm_started f) fin (rr_err (fm_result f))) w)"
    using finish_books [of env ?run "fm_entry f" "fm_tpl f" ?res "fm_started f" fin "fm_written f" ?w2]
    unfolding rn cw runner_books_cong [OF cw(2)] run_closed_def by auto
  obtain N where N: "cw_calls (dispatch_close env f w) = cw_calls ?w3 @ N" "list_all notifying N"
    "cw_runtimes (dispatch_close env f w) = cw_runtimes ?w3" "cw_metrics (dispatch_close env f w) = cw_metrics ?w3"
    using notify_books [of "fm_ctx f" "fm_entry f" "fm_tpl f" "fm_started f" fin ?res ?w3] by (auto simp: eq)
  show ?thesis
    by (rule exI [of _ F], rule exI [of _ N], rule exI [of _ fin]) (use F N in simp)
qed

section \<open>Dispatch as a whole\<close>

text \<open>
  The frame \<open>f\<close> and world \<open>v\<close> that the body of a dispatch leaves: refused before any call, or
  admitted.
\<close>

definition run_runner :: "'w run_context option \<Rightarrow> 'w cron_runner option" where
  "run_runner run = (case run of None \<Rightarrow> None | Some c \<Rightarrow> rc_runner c)"

definition entry_template :: "'w cron_registry option \<Rightarrow> cron_entry \<Rightarrow> 'w template option" where
  "entry_template reg e = (case reg of None \<Rightarrow> None | Some r \<Rightarrow> r (entry_template_key (Some e)))"

lemma open_frame_books:
  assumes "open_frame env ctx run entry w = (f, v)"
  shows "same_books w v" "fm_entry f = normalize_entry entry" "\<not> fm_written f" "frame_runner f = run_runner run"
    "\<forall>c. fm_run f = Some c \<longrightarrow> rc_started_at c = fm_started f"
proof -
  obtain now w1 where now: "on_ext (en_now env) w = (now, w1)" by (cases "on_ext (en_now env) w")
  have 1: "same_books w w1" using same_books_on_ext [OF now, of w] by simp
  have 2: "ensure_track_id env c w1 = (c', w2) \<Longrightarrow> same_books w w2" for c c' w2
    using 1 by (auto simp: ensure_track_id_def Let_def case_prod_beta split: if_splits)
  from assms now 2 show "same_books w v" by (auto simp: open_frame_def Let_def split: prod.splits option.splits)
  from assms now show "fm_entry f = normalize_entry entry" "\<not> fm_written f" "frame_runner f = run_runner run"
    "\<forall>c. fm_run f = Some c \<longrightarrow> rc_started_at c = fm_started f"
    by (auto simp: open_frame_def Let_def frame_runner_def run_runner_def split: prod.splits option.splits)
qed

lemma template_key_entry: "entry_template_key (Some e) \<noteq> [] \<Longrightarrow> cj_id ((EntryToJob e)\<lparr>cj_name := k\<rparr>) = ce_id e"
  by simp

lemma dispatch_ends:
  assumes "cron_dispatch env reg ctx run entry w = (err, w')" "runner_ok (run_runner run)"
  obtains f v where "err = runtime_result_error (fm_result f)" "w' = dispatch_close env f v"
    "frame_runner f = run_runner run" "ce_id (fm_entry f) = ce_id (normalize_entry entry)"
    "case refusal reg (normalize_entry entry) of
       Some (st, e) \<Rightarrow> fm_result f = rr st e \<and> \<not> fm_written f \<and> same_books w v
     | None \<Rightarrow> entry_template reg (normalize_entry entry) = Some (fm_tpl f) \<and> body_ends (run_runner run) w f v"
proof -
  obtain f0 w0 where open0: "open_frame env ctx run entry w = (f0, w0)" by (cases "open_frame env ctx run entry w")
  note o = open_frame_books [OF open0]
  obtain f v where body: "dispatch_body env reg entry f0 w0 = (f, v)" by (cases "dispatch_body env reg entry f0 w0")
  have res: "err = runtime_result_error (fm_result f)" "w' = dispatch_close env f v"
    using assms(1) open0 body by (simp_all add: cron_dispatch_def Let_def)
  show thesis
  proof (cases "refusal reg (normalize_entry entry)")
    case (Some se)
    obtain st e where se: "se = (st, e)" by (cases se)
    then obtain tpl where "dispatch_body env reg entry f0 w0 = (f0\<lparr>fm_tpl := tpl, fm_result := rr st e\<rparr>, w0)"
      using body_refused [of reg f0 st e env entry w0] Some o(2) by auto
    with body have fv: "f = f0\<lparr>fm_tpl := tpl, fm_result := rr st e\<rparr>" "v = w0" by simp_all
    show thesis by (rule that [OF res]) (use fv o Some se in \<open>auto simp: frame_runner_def\<close>)
  next
    case None
    let ?k = "entry_template_key (Some (fm_entry f0))"
    let ?job = "\<lambda>t. fill_job t ((EntryToJob (fm_entry f0))\<lparr>cj_name := ?k\<rparr>)"
    obtain r t where rt: "reg = Some r" "r ?k = Some t" "tp_handler t \<noteq> None"
      "dispatch_body env reg entry f0 w0 = dispatch_enabled env entry (?job t) (f0\<lparr>fm_tpl := t\<rparr>) w0"
      using body_admitted [of reg f0 env entry w0] None o(2) by auto
    have en: "dispatch_enabled env entry (?job t) (f0\<lparr>fm_tpl := t\<rparr>) w0 = (f, v)" using rt(4) body by simp
    have fr: "frame_runner (f0\<lparr>fm_tpl := t\<rparr>) = run_runner run" using o(4) by (simp add: frame_runner_def)
    have ends: "body_ends (frame_runner (f0\<lparr>fm_tpl := t\<rparr>)) w0 f v \<and> ce_id (fm_entry f) = cj_id (?job t) \<and>
        fm_tpl f = fm_tpl (f0\<lparr>fm_tpl := t\<rparr>) \<and> (fm_run (f0\<lparr>fm_tpl := t\<rparr>) \<noteq> None \<longrightarrow> fm_started f = fm_started (f0\<lparr>fm_tpl := t\<rparr>))"
      by (rule dispatch_enabled_books [OF en])
        (use rt(3) o assms(2) fr in \<open>auto simp: normalize_entry_def\<close>)
    show thesis
    proof (rule that [OF res])
      show "frame_runner f = run_runner run" using ends fr by (simp add: body_ends_def)
      show "ce_id (fm_entry f) = ce_id (normalize_entry entry)" using ends o(2) by simp
      have "body_ends (run_runner run) w f v" using ends fr body_ends_same [OF o(1)] by simp
      then show "case refusal reg (normalize_entry entry) of
          Some (st, e) \<Rightarrow> fm_result f = rr st e \<and> \<not> fm_written f \<and> same_books w v
        | None \<Rightarrow> entry_template reg (normalize_entry entry) = Some (fm_tpl f) \<and> body_ends (run_runner run) w f v"
        using None ends rt o(2) by (simp add: entry_template_def)
    qed
  qed
qed

section \<open>Properties\<close>

fun lock_call :: "cron_call \<Rightarrow> bool" where
  "lock_call (CallTryLock _ _ _) = True"
| "lock_call (CallUnlock _) = True"
| "lock_call _ = False"

fun working :: "cron_call \<Rightarrow> bool" where
  "working (CallMarkRunning _ _) = True"
| "working (CallHandler _) = True"
| "working _ = False"

fun finishing :: "cron_call \<Rightarrow> bool" where
  "finishing (CallMarkFinished _) = True"
| "finishing (CallFailure _) = True"
| "finishing _ = False"

lemma call_kinds:
  "starting c \<Longrightarrow> \<not> lock_call c \<and> \<not> finishing c"
  "closing c \<Longrightarrow> \<not> lock_call c \<and> \<not> working c"
  "notifying c \<Longrightarrow> \<not> lock_call c \<and> \<not> working c"
  by (cases c; simp)+

lemma call_kinds_all:
  "list_all starting M \<Longrightarrow> c \<in> set M \<Longrightarrow> \<not> lock_call c \<and> \<not> finishing c"
  "list_all closing F \<Longrightarrow> c \<in> set F \<Longrightarrow> \<not> lock_call c \<and> \<not> working c"
  "list_all notifying N \<Longrightarrow> c \<in> set N \<Longrightarrow> \<not> lock_call c \<and> \<not> working c"
  by (auto simp: list_all_iff dest: call_kinds)



text \<open>
  C13: which runs reach the handler, and what is returned when one does not.  A dispatch is refused for
  the first of these reasons: no registry, no template under its key, template disabled, a database
  entry where the template allows none, no handler, entry disabled; then nothing is called but the
  closing of the run and the failure handlers, and the error carries the status and cause of that
  reason.  An admitted run enters the handler exactly once, unless the lock was refused or the start
  of the run could not be written down; then an error is returned and the handler is not entered.
\<close>

theorem dispatch_admission:
  assumes "cron_dispatch env reg ctx run entry w = (err, w')" "runner_ok (run_runner run)"
  shows "\<exists>calls. cw_calls w' = cw_calls w @ calls \<and>
    (case refusal reg (normalize_entry entry) of
       Some (st, e) \<Rightarrow> err = Some (CRuntime st e []) \<and> (\<forall>c\<in>set calls. \<not> lock_call c \<and> \<not> working c)
     | None \<Rightarrow>
         (if (\<exists>lg. CallMarkRunning lg False \<in> set calls) \<or>
             (\<exists>key ttl. CallTryLock key ttl False \<in> set calls)
          then err \<noteq> None \<and> (\<forall>run_id. CallHandler run_id \<notin> set calls)
          else (\<exists>run_id. filter (\<lambda>c. \<exists>r. c = CallHandler r) calls = [CallHandler run_id])))"
proof -
  obtain f v where e: "err = runtime_result_error (fm_result f)" "w' = dispatch_close env f v"
    "frame_runner f = run_runner run" "ce_id (fm_entry f) = ce_id (normalize_entry entry)"
    "case refusal reg (normalize_entry entry) of
       Some (st, e) \<Rightarrow> fm_result f = rr st e \<and> \<not> fm_written f \<and> same_books w v
     | None \<Rightarrow> entry_template reg (normalize_entry entry) = Some (fm_tpl f) \<and> body_ends (run_runner run) w f v"
    by (rule dispatch_ends [OF assms])
  obtain F N where FN: "cw_calls w' = cw_calls v @ F @ N" "list_all closing F" "list_all notifying N"
    using close_books [of env f v] e(2) by blast
  have quiet: "\<not> lock_call c \<and> \<not> working c" if "c \<in> set (F @ N)" for c
    using that FN(2,3) call_kinds_all(2,3) by auto
  show ?thesis
  proof (cases "refusal reg (normalize_entry entry)")
    case (Some se)
    obtain st x where se: "se = (st, x)" by (cases se)
    then have "cw_calls w' = cw_calls w @ (F @ N)" "err = Some (CRuntime st x [])"
      using e(1,5) FN(1) Some refusal_status [of reg "normalize_entry entry" st x]
      by (auto simp: same_books_def runtime_result_error_def Let_def)
    with quiet Some se show ?thesis by (intro exI [of _ "F @ N"]) simp
  next
    case None
    then have b: "body_ends (run_runner run) w f v" using e(5) by simp
    from b show ?thesis
    proof (cases rule: body_ends_calls)
      case (refused key ttl)
      have "err \<noteq> None" using e(1) refused(3) by (auto simp: runtime_result_error_def Let_def normalize_result_def)
      moreover have "cw_calls w' = cw_calls w @ (CallTryLock key ttl False # F @ N)" using FN(1) refused(1) by simp
      moreover have "CallHandler r \<notin> set (CallTryLock key ttl False # F @ N)" for r
        using quiet [of "CallHandler r"] by auto
      ultimately show ?thesis using None by (intro exI [of _ "CallTryLock key ttl False # F @ N"]) auto
    next
      case (ran A M H R)
      have AR: "(\<forall>c \<in> set (A @ R). \<not> working c) \<and> (\<forall>key ttl. CallTryLock key ttl False \<notin> set (A @ R))"
        using ran(3) by (auto simp: lock_shape_def take_calls_def split: if_splits)
      have M: "CallTryLock key ttl False \<notin> set M" "CallHandler r \<notin> set M" for key ttl r
        using ran(2) by (auto simp: list_all_iff dest!: bspec)
      have FN': "CallTryLock key ttl False \<notin> set (F @ N)" "CallMarkRunning lg False \<notin> set (F @ N)"
        "CallHandler r \<notin> set (F @ N)" for key ttl lg r
        using quiet [of "CallTryLock key ttl False"] quiet [of "CallMarkRunning lg False"] quiet [of "CallHandler r"] by auto
      have eq: "cw_calls w' = cw_calls w @ (A @ M @ H @ R @ F @ N)" using FN(1) ran(1) by simp
      have nolock: "CallTryLock key ttl False \<notin> set (A @ M @ H @ R @ F @ N)" for key ttl
        using AR M FN' ran(4) by auto
      have mark: "(\<exists>lg. CallMarkRunning lg False \<in> set (A @ M @ H @ R @ F @ N)) \<longleftrightarrow> H = []"
      proof -
        have "CallMarkRunning lg False \<notin> set (A @ R)" for lg using AR by (auto dest: bspec)
        with FN'(2) ran(4,5) show ?thesis by auto
      qed
      have handlers: "filter (\<lambda>c. \<exists>r. c = CallHandler r) (A @ M @ H @ R @ F @ N) = H"
      proof -
        have "filter (\<lambda>c. \<exists>r. c = CallHandler r) A = []" "filter (\<lambda>c. \<exists>r. c = CallHandler r) R = []"
          using AR by (auto simp: filter_empty_conv dest: bspec)
        moreover have "filter (\<lambda>c. \<exists>r. c = CallHandler r) M = []" "filter (\<lambda>c. \<exists>r. c = CallHandler r) F = []"
          "filter (\<lambda>c. \<exists>r. c = CallHandler r) N = []"
          using M(2) FN'(3) by (auto simp: filter_empty_conv)
        ultimately show ?thesis using ran(4) by auto
      qed
      show ?thesis
      proof (cases "H = []")
        case True
        then obtain x where "fm_result f = result_from_mark_running_error x" using ran(6) by blast
        then have "err \<noteq> None" using e(1) by (simp add: result_from_mark_running_error_def)
        moreover have "CallHandler r \<notin> set (A @ M @ H @ R @ F @ N)" for r
          using handlers True by (auto simp: filter_empty_conv)
        ultimately show ?thesis using eq None mark True
          by (intro exI [of _ "A @ M @ H @ R @ F @ N"]) simp
      next
        case False
        with ran(4) handlers nolock mark eq None show ?thesis
          by (intro exI [of _ "A @ M @ H @ R @ F @ N"]) auto
      qed
    qed
  qed
qed

text \<open>The outcome a returned error stands for.\<close>

definition returned_status :: "cron_error option \<Rightarrow> cron_status" where
  "returned_status err = rr_status (run_result_from_error err)"

lemma returned_status_result [simp]:
  "returned_status (runtime_result_error r) = rr_status (normalize_result r)"
  by (auto simp: returned_status_def result_through_error)

lemma info_of_upd [simp]: "info_of (s(i \<mapsto> x)) i = x" "j \<noteq> i \<Longrightarrow> info_of (s(i \<mapsto> x)) j = info_of s j"
  by (simp_all add: info_of_def)

lemma mark_running_info:
  "ri_run_count (info_of (mark_running e t s) (ce_id e)) = ri_run_count (info_of s (ce_id e))"
  "j \<noteq> ce_id e \<Longrightarrow> mark_running e t s j = s j"
  by (simp_all add: mark_running_def)

lemma mark_finished_info:
  "ri_run_count (info_of (mark_finished e st a b err s) (ce_id e)) = ri_run_count (info_of s (ce_id e)) + 1"
  "ri_status (info_of (mark_finished e st a b err s) (ce_id e)) = st"
  "j \<noteq> ce_id e \<Longrightarrow> mark_finished e st a b err s j = s j"
  by (simp_all add: mark_finished_def Let_def)

lemma runner_books_at:
  "rn_runtime r = Some a \<Longrightarrow> runner_books (Some r) g w a = g (cw_runtimes w a)"
  "rn_runtime r = Some a \<Longrightarrow> b \<noteq> a \<Longrightarrow> runner_books (Some r) g w b = cw_runtimes w b"
  by (simp_all add: runner_books_def)

text \<open>
  C14: a run is counted once.  With the runtime state of its runner at \<open>a\<close>, a dispatch adds one to the
  number of executions and, unless the limit of runs refused it before its start was written down,
  one to the run count of its entry, whose status becomes the one of the returned outcome; the
  records of other entries and other runtime states are left alone.
\<close>

theorem dispatch_counted_once:
  assumes "cron_dispatch env reg ctx run entry w = (err, w')" "runner_ok (run_runner run)"
    and "run_runner run = Some rn" "rn_runtime rn = Some a" "i = ce_id (normalize_entry entry)"
  shows "mt_execute_total (cw_metrics w') = mt_execute_total (cw_metrics w) + 1 \<and>
    (\<forall>j. j \<noteq> i \<longrightarrow> cw_runtimes w' a j = cw_runtimes w a j) \<and> (\<forall>b. b \<noteq> a \<longrightarrow> cw_runtimes w' b = cw_runtimes w b) \<and>
    (cw_runtimes w' a = cw_runtimes w a \<and>
       (\<exists>st x p. err = Some (CRuntime st (Some x) p) \<and> cron_is ErrRunLimitReached x) \<or>
     ri_run_count (info_of (cw_runtimes w' a) i) = ri_run_count (info_of (cw_runtimes w a) i) + 1 \<and>
       ri_status (info_of (cw_runtimes w' a) i) = runtime_status_of (returned_status err))"
proof -
  obtain f v where e: "err = runtime_result_error (fm_result f)" "w' = dispatch_close env f v"
    "frame_runner f = run_runner run" "ce_id (fm_entry f) = ce_id (normalize_entry entry)"
    "case refusal reg (normalize_entry entry) of
       Some (st, e) \<Rightarrow> fm_result f = rr st e \<and> \<not> fm_written f \<and> same_books w v
     | None \<Rightarrow> entry_template reg (normalize_entry entry) = Some (fm_tpl f) \<and> body_ends (run_runner run) w f v"
    by (rule dispatch_ends [OF assms(1,2)])
  have id: "ce_id (fm_entry f) = i" using e(4) assms(5) by simp
  have rn: "frame_runner f = Some rn" using e(3) assms(3) by simp
  obtain finished where cl: "cw_metrics w' =
       record_runtime_execution (rr_status (normalize_result (fm_result f))) (finished - fm_started f) (cw_metrics v)"
    "cw_runtimes w' = (if \<not> run_closed f then cw_runtimes v
        else runner_books (Some rn)
               (mark_finished (fm_entry f) (runtime_status_of (returned_status err))
                  (fm_started f) finished (rr_err (fm_result f))) v)"
    using close_books [of env f v] e(1,2) rn by auto
  have v: "cw_metrics v = cw_metrics w \<and>
      (cw_runtimes v = cw_runtimes w \<or> cw_runtimes v = runner_books (Some rn) (mark_running (fm_entry f) (fm_started f)) w) \<and>
      (\<not> run_closed f \<longrightarrow> cw_runtimes v = cw_runtimes w \<and> rr_status (fm_result f) \<noteq> CronSuccess \<and>
         rr_status (fm_result f) \<noteq> CronUnset)"
  proof (cases "refusal reg (normalize_entry entry)")
    case (Some se)
    obtain st x where se: "se = (st, x)" by (cases se)
    with e(5) Some refusal_status [of reg "normalize_entry entry" st x] show ?thesis
      by (simp add: same_books_def run_closed_def)
  next
    case None
    then have "body_ends (Some rn) w f v" using e(5) assms(3) by simp
    from body_ends_books [OF this] show ?thesis by (auto simp: run_closed_def split: if_splits)
  qed
  have tot: "mt_execute_total (record_runtime_execution st d m) = mt_execute_total m + 1" for st d m
    by (cases st) (simp_all add: record_runtime_execution_def Let_def)
  have base: "(\<forall>j. j \<noteq> i \<longrightarrow> cw_runtimes v a j = cw_runtimes w a j) \<and> (\<forall>b. b \<noteq> a \<longrightarrow> cw_runtimes v b = cw_runtimes w b) \<and>
      ri_run_count (info_of (cw_runtimes v a) i) = ri_run_count (info_of (cw_runtimes w a) i)"
  proof -
    from v consider "cw_runtimes v = cw_runtimes w"
      | (started) "cw_runtimes v = runner_books (Some rn) (mark_running (fm_entry f) (fm_started f)) w" by blast
    then show ?thesis
    proof cases
      case started
      then have "cw_runtimes v a = mark_running (fm_entry f) (fm_started f) (cw_runtimes w a)"
        "\<forall>b. b \<noteq> a \<longrightarrow> cw_runtimes v b = cw_runtimes w b"
        by (simp_all add: runner_books_at [OF assms(4)])
      then show ?thesis
        using mark_running_info(1) [of "fm_entry f"] id by (simp add: mark_running_info(2))
    qed simp
  qed
  show ?thesis
  proof (cases "run_closed f")
    case True
    then have "cw_runtimes w' a = mark_finished (fm_entry f) (runtime_status_of (returned_status err))
                  (fm_started f) finished (rr_err (fm_result f)) (cw_runtimes v a)"
      "\<forall>b. b \<noteq> a \<longrightarrow> cw_runtimes w' b = cw_runtimes v b"
      using cl(2) runner_books_at [OF assms(4)] by auto
    moreover from this have "ri_run_count (info_of (cw_runtimes w' a) i) = ri_run_count (info_of (cw_runtimes v a) i) + 1"
      "ri_status (info_of (cw_runtimes w' a) i) = runtime_status_of (returned_status err)"
      "\<forall>j. j \<noteq> i \<longrightarrow> cw_runtimes w' a j = cw_runtimes v a j"
      using id mark_finished_info(1,2) [where e = "fm_entry f"] by (simp_all add: mark_finished_info(3))
    ultimately show ?thesis using base cl(1) v tot by simp
  next
    case False
    then obtain x where "rr_err (fm_result f) = Some x" "cron_is ErrRunLimitReached x"
      by (auto simp: run_closed_def cron_is_opt_def split: option.splits)
    moreover from this False v e(1) have "err = Some (CRuntime (rr_status (fm_result f)) (Some x) (rr_panic (fm_result f)))"
      by (simp add: runtime_result_error_def Let_def)
    ultimately show ?thesis using False cl v tot by auto
  qed
qed

subsection \<open>A sample run\<close>

text \<open>The world is the clock; the handler panics.\<close>

definition sample_cron_env :: "nat cron_env" where
  "sample_cron_env = \<lparr>en_now = (\<lambda>n. (int n, n + 1)), en_uuid = (\<lambda>n. (''run'', n)), en_track_id = (\<lambda>n. (''track'', n)),
     en_hostname = ''host'', en_parse_spec = (\<lambda>_. None), en_deadline = (\<lambda>_. None),
     en_deadline_error = (\<lambda>_. CSentinel CronDeadlineExceeded), en_error_after = (\<lambda>_. None)\<rparr>"

definition sample_template :: "nat cron_prog \<Rightarrow> nat template" where
  "sample_template p = template_data.extend
     (empty_template_data\<lparr>tp_key := ''backup'', tp_name := ''Backup'', tp_spec := ''@daily'', tp_enabled := True, tp_allow_db := True\<rparr>)
     \<lparr>tp_handler = Some (\<lambda>_. p)\<rparr>"

definition sample_cron_registry :: "nat cron_prog \<Rightarrow> nat cron_registry" where
  "sample_cron_registry p = [''backup'' \<mapsto> sample_template p]"

definition sample_runner :: "nat cron_prog \<Rightarrow> nat cron_runner" where
  "sample_runner p = \<lparr>rn_registry = Some (sample_cron_registry p), rn_store = noop_store, rn_locker = noop_locker,
     rn_logger = noop_log_writer, rn_log_store = None, rn_streamer = None, rn_runtime = Some 0,
     rn_cfg = default_cron_config\<rparr>"

definition sample_entry :: cron_entry where
  "sample_entry = empty_entry\<lparr>ce_id := ''db.7'', ce_name := ''nightly'', ce_template_key := ''backup'',
     ce_source := SourceDB, ce_enabled := True\<rparr>"

definition sample_cron_world :: "nat cron_world" where
  "sample_cron_world = \<lparr>cw_ext = 0, cw_next_addr = 1, cw_runtimes = (\<lambda>_. new_runtime_state),
     cw_streamers = (\<lambda>_. new_mem_streamer), cw_metrics = reset_metrics, cw_failure_handlers = [],
     cw_left = [], cw_calls = []\<rparr>"

definition sample_run_context :: "nat cron_prog \<Rightarrow> nat run_context" where
  "sample_run_context p =
     fst (new_run_context sample_cron_env None (Some (sample_runner p)) (EntryToJob sample_entry) sample_cron_world)"

definition sample_dispatch :: "nat cron_prog \<Rightarrow> cron_error option \<times> nat cron_world" where
  "sample_dispatch p = cron_dispatch sample_cron_env (Some (sample_cron_registry p)) None (Some (sample_run_context p))
     (Some sample_entry) sample_cron_world"

lemma sample_runner_ok: "runner_ok (run_runner (Some (sample_run_context p)))"
  by (simp add: runner_ok_def run_runner_def sample_run_context_def new_run_context_def Let_def case_prod_beta
      sample_runner_def locker_ok_def noop_locker_def)

lemma sample_dispatch_pair:
  "cron_dispatch sample_cron_env (Some (sample_cron_registry p)) None (Some (sample_run_context p))
     (Some sample_entry) sample_cron_world = (fst (sample_dispatch p), snd (sample_dispatch p))"
  by (simp add: sample_dispatch_def)

lemmas sample_defs = sample_dispatch_def sample_run_context_def new_run_context_def sample_cron_env_def
  sample_cron_world_def sample_runner_def sample_entry_def sample_cron_registry_def sample_template_def
  empty_entry_def empty_template_data_def template_data.defs template.defs EntryToJob_def JobToEntry_def
  default_cron_config_def cron_second_def reset_metrics_def

lemmas dispatch_defs = cron_dispatch_def open_frame_def ensure_track_id_def background_def normalize_entry_def dispatch_body_def
  entry_template_key_def validate_job_def dispatch_enabled_def dispatched_entry_def dispatch_acquire_def
  acquire_runtime_lock_def dispatch_locked_def write_runtime_running_def run_runtime_handler_def
  dispatch_close_def finish_runtime_def notify_failure_def unlock_def upd_ext_def fill_job_def on_ext_def called_def
  noop_store_def noop_locker_def noop_log_writer_def on_runtime_def prepare_cron_context_def inject_job_logger_def
  runtime_timeout_def template_timeout_def lock_ttl_def handler_outcome_def panic_result_def runtime_result_error_def

lemma sample_panic_run:
  "CallHandler ''run'' \<in> set (cw_calls (snd (sample_dispatch (CPanic ''boom'' []))))"
  "\<exists>key ttl. CallTryLock key ttl True \<in> set (cw_calls (snd (sample_dispatch (CPanic ''boom'' []))))"
  "fst (sample_dispatch (CPanic ''boom'' [])) =
     Some (CRuntime CronPanic (Some (CText (''panic: boom'' @ [CHR 0x0A]))) (''panic: boom'' @ [CHR 0x0A]))"
  "cw_calls sample_cron_world = []" "cw_metrics sample_cron_world = reset_metrics"
  "refusal (Some (sample_cron_registry (CPanic ''boom'' []))) (normalize_entry (Some sample_entry)) = None"
  by (simp_all add: sample_defs dispatch_defs refusal_def Let_def)


theorem dispatch_admission_witness:
  "(\<forall>key ttl. CallTryLock key ttl False \<notin> set (cw_calls (snd (sample_dispatch (CPanic ''boom'' []))))) \<and>
   filter (\<lambda>c. \<exists>r. c = CallHandler r) (cw_calls (snd (sample_dispatch (CPanic ''boom'' [])))) = [CallHandler ''run'']"
proof -
  let ?c = "cw_calls (snd (sample_dispatch (CPanic ''boom'' [])))"
  have h: "CallHandler ''run'' \<in> set (filter (\<lambda>c. \<exists>r. c = CallHandler r) ?c)" using sample_panic_run(1) by simp
  from dispatch_admission [OF sample_dispatch_pair sample_runner_ok, of "CPanic ''boom'' []"] sample_panic_run(1)
  have "(\<forall>key ttl. CallTryLock key ttl False \<notin> set ?c) \<and> (\<exists>r. filter (\<lambda>c. \<exists>r. c = CallHandler r) ?c = [CallHandler r])"
    by (auto simp: sample_panic_run(4,6) split: if_splits)
  then obtain r where none: "\<forall>key ttl. CallTryLock key ttl False \<notin> set ?c"
    and one: "filter (\<lambda>c. \<exists>r. c = CallHandler r) ?c = [CallHandler r]" by blast
  from h have "r = ''run''" unfolding one by simp
  with none one show ?thesis by blast
qed

theorem dispatch_counted_once_witness:
  "ri_run_count (info_of (cw_runtimes (snd (sample_dispatch (CPanic ''boom'' []))) 0) ''db.7'') = 1 \<and>
   ri_status (info_of (cw_runtimes (snd (sample_dispatch (CPanic ''boom'' []))) 0) ''db.7'') = RuntimeFailed"
proof -
  let ?p = "CPanic ''boom'' [] :: nat cron_prog"
  have rn: "run_runner (Some (sample_run_context ?p)) = Some (sample_runner ?p)" "rn_runtime (sample_runner ?p) = Some 0"
    by (simp_all add: run_runner_def sample_run_context_def new_run_context_def Let_def case_prod_beta sample_runner_def)
  have id: "''db.7'' = ce_id (normalize_entry (Some sample_entry))" by (simp add: normalize_entry_def sample_entry_def)
  have new: "cw_runtimes sample_cron_world 0 = Map.empty" by (simp add: sample_cron_world_def new_runtime_state_def)
  from dispatch_counted_once [OF sample_dispatch_pair sample_runner_ok rn id] show ?thesis
    by (simp add: sample_panic_run(3) new info_of_def empty_runtime_info_def returned_status_def
        run_result_from_error_def runtime_status_of_def)
qed

end
