(* ===== verification/Crontab_Manager.thy ===== *)
theory Crontab_Manager
  imports Crontab_Runs
begin

text \<open>
  The manager of cron jobs (\<^verbatim>\<open>core/crontab/manager.go\<close>, with \<open>NewRunner\<close> of \<open>runner.go\<close> and the loaders of
  \<open>loader.go\<close>): its construction, loading and preparing jobs, the entries, and runs on demand.

  The scheduler is a record of functions over the external world.  The registry is the one the
  manager was made with, \<open>ks\<close> an order in which its map is walked.  \<open>RunNow\<close> starts its run in a
  goroutine: the model returns the job that is started.
\<close>

section \<open>Runners and managers\<close>

record 'w cron_runner_options =
  no_config :: cron_config
  no_registry :: "'w cron_registry option"
  no_store :: "'w cron_store option"
  no_locker :: "'w cron_locker option"
  no_logger :: "'w log_writer option"
  no_log_store :: "'w log_store option"
  no_streamer :: "'w log_streamer option"
  no_runtime :: "nat option"

definition new_runner :: "'w cron_env \<Rightarrow> 'w cron_runner_options \<Rightarrow> 'w cron_runner" where
  "new_runner env o1 =
     (let cfg = no_config o1;
          logger = (case no_logger o1 of None \<Rightarrow> noop_log_writer | Some l \<Rightarrow> l);
          logger = (if \<not> cc_log_enabled cfg then noop_log_writer else logger);
          cfg = (if cc_instance_id cfg = [] then cfg\<lparr>cc_instance_id := en_hostname env\<rparr> else cfg) in
      \<lparr>rn_registry = no_registry o1,
       rn_store = (case no_store o1 of None \<Rightarrow> noop_store | Some s \<Rightarrow> s),
       rn_locker = (case no_locker o1 of None \<Rightarrow> noop_locker | Some l \<Rightarrow> l),
       rn_logger = logger, rn_log_store = no_log_store o1, rn_streamer = no_streamer o1,
       rn_runtime = no_runtime o1, rn_cfg = cfg\<rparr>)"

record 'w scheduler =
  sc_start :: "'w \<Rightarrow> cron_error option \<times> 'w"
  sc_stop :: "'w \<Rightarrow> cron_error option \<times> 'w"
  sc_reload :: "cron_job list \<Rightarrow> 'w \<Rightarrow> cron_error option \<times> 'w"

record 'w manager_options =
  mo_config :: cron_config
  mo_registry :: "'w cron_registry option"
  mo_store :: "'w cron_store option"
  mo_scheduler :: "'w scheduler option"
  mo_locker :: "'w cron_locker option"
  mo_logger :: "'w log_writer option"
  mo_repository :: "'w entry_repository option"
  mo_runner :: "'w cron_runner option"
  mo_runtime :: "nat option"
  mo_log_store :: "'w log_store option"
  mo_streamer :: "'w log_streamer option"

record 'w cron_manager =
  mg_cfg :: cron_config
  mg_registry :: "'w cron_registry"
  mg_store :: "'w cron_store"
  mg_repo :: "'w entry_repository option"
  mg_scheduler :: "'w scheduler"
  mg_runner :: "'w cron_runner"
  mg_runtime :: nat
  mg_log_store :: "'w log_store option"
  mg_streamer :: "'w log_streamer option"

definition alloc_runtime :: "'w cron_world \<Rightarrow> nat \<times> 'w cron_world" where
  "alloc_runtime w =
     (cw_next_addr w, w\<lparr>cw_next_addr := cw_next_addr w + 1,
        cw_runtimes := (cw_runtimes w)(cw_next_addr w := new_runtime_state)\<rparr>)"

definition alloc_streamer :: "'w cron_world \<Rightarrow> nat \<times> 'w cron_world" where
  "alloc_streamer w =
     (cw_next_addr w, w\<lparr>cw_next_addr := cw_next_addr w + 1,
        cw_streamers := (cw_streamers w)(cw_next_addr w := new_mem_streamer)\<rparr>)"

text \<open>The runner is made before the log store and the streamer get their defaults, as in the code.\<close>

definition new_manager ::
  "'w cron_env \<Rightarrow> 'w manager_options \<Rightarrow> 'w cron_world \<Rightarrow> (cron_error + 'w cron_manager) \<times> 'w cron_world" where
  "new_manager env o1 w =
     (case mo_registry o1 of None \<Rightarrow> (Inl (CText ''crontab registry is required''), w)
      | Some reg \<Rightarrow> (case mo_scheduler o1 of None \<Rightarrow> (Inl (CText ''crontab scheduler is required''), w)
      | Some sched \<Rightarrow>
          (let store = (case mo_store o1 of None \<Rightarrow> noop_store | Some s \<Rightarrow> s);
               (rt, w) = (case mo_runtime o1 of Some a \<Rightarrow> (a, w) | None \<Rightarrow> alloc_runtime w);
               runner = (case mo_runner o1 of Some r \<Rightarrow> r
                 | None \<Rightarrow> new_runner env \<lparr>no_config = mo_config o1, no_registry = Some reg, no_store = Some store,
                     no_locker = mo_locker o1, no_logger = mo_logger o1, no_log_store = mo_log_store o1,
                     no_streamer = mo_streamer o1, no_runtime = Some rt\<rparr>);
               repo = (case mo_repository o1 of Some r \<Rightarrow> Some r | None \<Rightarrow> sr_repository store);
               log_store = (case mo_log_store o1 of Some s \<Rightarrow> Some s | None \<Rightarrow> sr_log_store store);
               (streamer, w) = (case mo_streamer o1 of Some s \<Rightarrow> (s, w)
                 | None \<Rightarrow> (let (a, w) = alloc_streamer w in (MemStreamer a, w))) in
           (Inr \<lparr>mg_cfg = mo_config o1, mg_registry = reg, mg_store = store, mg_repo = repo, mg_scheduler = sched,
              mg_runner = runner, mg_runtime = rt, mg_log_store = log_store, mg_streamer = Some streamer\<rparr>, w))))"

section \<open>Identifiers and locks of entries\<close>

definition is_numeric_id :: "string \<Rightarrow> bool" where
  "is_numeric_id s \<longleftrightarrow> s \<noteq> [] \<and> (\<forall>c\<in>set s. (48::nat) \<le> of_char c \<and> of_char c \<le> (57::nat))"

definition task_lock_key :: "string \<Rightarrow> string" where
  "task_lock_key entry_id =
     (let i = trim_space entry_id in
      if i = [] then []
      else ''task:'' @ (if is_numeric_id i then ''db.'' @ i else i))"

definition is_db_job :: "cron_job \<Rightarrow> bool" where
  "is_db_job j \<longleftrightarrow> cj_source j = SourceDB \<or> cj_source j = SourceDynamic"

definition normalize_db_job :: "cron_job \<Rightarrow> cron_job" where
  "normalize_db_job j =
     (let j = (if cj_source j = SourceDynamic then j\<lparr>cj_source := SourceDB\<rparr> else j);
          j = j\<lparr>cj_id := trim_space (cj_id j)\<rparr> in
      if cj_source j = SourceDB \<and> cj_id j \<noteq> [] \<and> \<not> has_prefix (cj_id j) ''db.''
      then j\<lparr>cj_id := ''db.'' @ cj_id j\<rparr> else j)"

section \<open>Loading jobs\<close>

definition validate_spec :: "'w cron_env \<Rightarrow> string \<Rightarrow> cron_error + unit" where
  "validate_spec env s = (case en_parse_spec env s of None \<Rightarrow> Inr () | Some e \<Rightarrow> Inl e)"

text \<open>The identifier of a job from the database, and the defaults a prepared job gets.\<close>

definition db_identified :: "cron_job \<Rightarrow> cron_error + cron_job" where
  "db_identified j =
     (if cj_source j = SourceDB
      then (let i = trim_space (cj_id j) in
            if i = [] then Inl (CText ''crontab db job id is required'')
            else Inr (j\<lparr>cj_id := (if has_prefix i ''db.'' then i else ''db.'' @ i)\<rparr>))
      else Inr j)"

definition job_defaults :: "('w, 'z) template_scheme \<Rightarrow> cron_job \<Rightarrow> cron_job" where
  "job_defaults tpl j =
     (let j = (if cj_label j = [] then j\<lparr>cj_label := tp_name tpl\<rparr> else j);
          j = (if cj_lock_key j = [] then j\<lparr>cj_lock_key := task_lock_key (cj_id j)\<rparr> else j) in
      j\<lparr>cj_mode := ModeLocal, cj_queue := [], cj_task_type := [], cj_distributed := False, cj_lock_ttl := 0,
        cj_timeout := template_timeout tpl\<rparr>)"

definition prepare_job :: "'w cron_env \<Rightarrow> 'w cron_registry \<Rightarrow> cron_job \<Rightarrow> cron_error + cron_job" where
  "prepare_job env reg job =
     (case get_template reg (cj_name job) of None \<Rightarrow> Inl (CSentinel ErrTemplateNotFound)
      | Some tpl \<Rightarrow>
          bindR (guardR (tp_enabled tpl) (CSentinel ErrTemplateDisabled)) (\<lambda>_.
          let j = (if cj_source job = SourceDynamic then job\<lparr>cj_source := SourceDB\<rparr> else job) in
          bindR (db_identified j) (\<lambda>j.
          bindR (guardR (\<not> (cj_source j = SourceDB \<and> \<not> tp_allow_db tpl)) (CSentinel ErrDynamicNotAllowed)) (\<lambda>_.
          bindR (if cj_spec j \<noteq> [] then validate_spec env (cj_spec j) else Inr ()) (\<lambda>_.
          Inr (job_defaults tpl j))))))"

definition mark_job_load_failed ::
  "'w cron_env \<Rightarrow> 'w cron_manager \<Rightarrow> cron_job \<Rightarrow> cron_status \<Rightarrow> cron_error option \<Rightarrow> 'w cron_world \<Rightarrow> 'w cron_world" where
  "mark_job_load_failed env m job st err w =
     (let st = (if st = CronUnset then CronFailed else st);
          (now, w) = on_ext (en_now env) w;
          (run_id, w) = on_ext (en_uuid env) w;
          lg = \<lparr>gl_job_id = cj_id job, gl_job_name = cj_name job, gl_run_id = run_id, gl_source = cj_source job,
                gl_mode = cj_mode job, gl_spec = cj_spec job, gl_queue = cj_queue job, gl_task_type = cj_task_type job,
                gl_payload = cj_payload job, gl_track_id = [], gl_status = st, gl_started_at = now div cron_second,
                gl_finished_at = now div cron_second, gl_duration_ms = 0,
                gl_error = (case err of None \<Rightarrow> [] | Some e \<Rightarrow> cron_error_text e), gl_panic_stack = [],
                gl_host = en_hostname env, gl_instance_id = cc_instance_id (mg_cfg m)\<rparr>;
          w = called (CallMarkFinished lg) (upd_ext (sr_mark_finished (mg_store m) lg) w) in
      on_runtime (Some (mg_runtime m)) (mark_finished (JobToEntry job) (runtime_status_of st) now now err) w)"

fun prepare_jobs ::
  "'w cron_env \<Rightarrow> 'w cron_manager \<Rightarrow> cron_job list \<Rightarrow> 'w cron_world \<Rightarrow> (cron_error + cron_job list) \<times> 'w cron_world" where
  "prepare_jobs env m [] w = (Inr [], w)"
| "prepare_jobs env m (j # js) w =
     (case prepare_job env (mg_registry m) j of
        Inl e \<Rightarrow>
          if is_db_job j
          then prepare_jobs env m js (mark_job_load_failed env m (normalize_db_job j) (validate_status e) (Some e) w)
          else (Inl e, w)
      | Inr j' \<Rightarrow>
          (case prepare_jobs env m js w of
             (Inl e, w) \<Rightarrow> (Inl e, w) | (Inr js', w) \<Rightarrow> (Inr (j' # js'), w)))"

definition load_jobs ::
  "'w cron_env \<Rightarrow> string list \<Rightarrow> 'w cron_manager \<Rightarrow> 'w cron_world \<Rightarrow> (cron_error + cron_job list) \<times> 'w cron_world" where
  "load_jobs env ks m w =
     (let builtin = builtin_jobs ks (mg_registry m);
          (r, w) = on_ext (sr_list_enabled (mg_store m)) w in
      case r of Inl e \<Rightarrow> (Inl e, w) | Inr db \<Rightarrow> prepare_jobs env m (builtin @ db) w)"

section \<open>Starting, stopping, reloading\<close>

definition jobs_to_entries :: "cron_job list \<Rightarrow> cron_entry list" where
  "jobs_to_entries js = map JobToEntry js"

definition manager_reload ::
  "'w cron_env \<Rightarrow> string list \<Rightarrow> 'w cron_manager \<Rightarrow> 'w cron_world \<Rightarrow> cron_error option \<times> 'w cron_world" where
  "manager_reload env ks m w =
     (case load_jobs env ks m w of (Inl e, w) \<Rightarrow> (Some e, w)
      | (Inr jobs, w) \<Rightarrow>
          (let (err, w) = on_ext (sc_reload (mg_scheduler m) jobs) w in
           case err of Some e \<Rightarrow> (Some e, w)
           | None \<Rightarrow> (None, on_runtime (Some (mg_runtime m)) (set_schedule (jobs_to_entries jobs)) w)))"

definition manager_start ::
  "'w cron_env \<Rightarrow> string list \<Rightarrow> 'w cron_manager \<Rightarrow> 'w cron_world \<Rightarrow> cron_error option \<times> 'w cron_world" where
  "manager_start env ks m w =
     (case load_jobs env ks m w of (Inl e, w) \<Rightarrow> (Some e, w)
      | (Inr jobs, w) \<Rightarrow>
          (let (err, w) = on_ext (sc_reload (mg_scheduler m) jobs) w in
           case err of Some e \<Rightarrow> (Some e, w)
           | None \<Rightarrow> on_ext (sc_start (mg_scheduler m))
                (on_runtime (Some (mg_runtime m)) (set_schedule (jobs_to_entries jobs)) w)))"

definition manager_stop :: "'w cron_manager \<Rightarrow> 'w cron_world \<Rightarrow> cron_error option \<times> 'w cron_world" where
  "manager_stop m = on_ext (sc_stop (mg_scheduler m))"

definition run_now ::
  "'w cron_env \<Rightarrow> string list \<Rightarrow> 'w cron_manager \<Rightarrow> string \<Rightarrow> 'w cron_world \<Rightarrow> (cron_error + cron_job) \<times> 'w cron_world" where
  "run_now env ks m name w =
     (case load_jobs env ks m w of (Inl e, w) \<Rightarrow> (Inl e, w)
      | (Inr jobs, w) \<Rightarrow>
          ((case List.find (\<lambda>j. cj_name j = name) jobs of
              None \<Rightarrow> Inl (CText (''crontab job not found: '' @ name)) | Some j \<Rightarrow> Inr j), w))"

section \<open>Entries\<close>

definition status_entry_info :: "cron_job_status \<Rightarrow> cron_entry_info" where
  "status_entry_info s = empty_entry_info
     \<lparr>ei_id := js_id s, ei_name := js_label s, ei_template_key := js_name s, ei_spec := js_spec s,
      ei_source := js_source s, ei_enabled := js_enabled s, ei_max_run_count := js_max_run_count s\<rparr>"

definition list_entries :: "'w cron_manager \<Rightarrow> 'w cron_world \<Rightarrow> (cron_error + cron_entry_info list) \<times> 'w cron_world" where
  "list_entries m w =
     (case mg_repo m of Some r \<Rightarrow> on_ext (er_list_entries r) w
      | None \<Rightarrow> (let (r, w) = on_ext (sr_list_jobs (mg_store m)) w in
                 (bindR r (\<lambda>ss. Inr (map status_entry_info ss)), w)))"

definition get_entry :: "'w cron_manager \<Rightarrow> string \<Rightarrow> 'w cron_world \<Rightarrow> (cron_error + cron_entry_info) \<times> 'w cron_world" where
  "get_entry m i w =
     (case mg_repo m of Some r \<Rightarrow> on_ext (er_get r i) w
      | None \<Rightarrow> (let (r, w) = list_entries m w in
          (bindR r (\<lambda>es. case List.find (\<lambda>e. ei_id e = i) es of Some e \<Rightarrow> Inr e
             | None \<Rightarrow> Inl (CWrapped (cron_sentinel_text ErrEntryNotFound @ '': '' @ i) (CSentinel ErrEntryNotFound))), w)))"

text \<open>The key of the template is trimmed for the check.\<close>

definition validate_entry_request ::
  "'w cron_env \<Rightarrow> 'w cron_registry \<Rightarrow> string \<Rightarrow> string \<Rightarrow> bool \<Rightarrow> cron_error + 'w template" where
  "validate_entry_request env reg template_key spec require_db =
     (let k = trim_space template_key in
      bindR (guardR (k \<noteq> []) (CText ''crontab template key is required'')) (\<lambda>_.
      case get_template reg k of None \<Rightarrow> Inl (CSentinel ErrTemplateNotFound)
      | Some tpl \<Rightarrow>
          bindR (guardR (tp_enabled tpl) (CSentinel ErrTemplateDisabled)) (\<lambda>_.
          bindR (guardR (\<not> (require_db \<and> \<not> tp_allow_db tpl)) (CSentinel ErrDynamicNotAllowed)) (\<lambda>_.
          bindR (validate_spec env spec) (\<lambda>_. Inr tpl)))))"

definition validate_run_once_request :: "'w cron_registry \<Rightarrow> string \<Rightarrow> cron_error option" where
  "validate_run_once_request reg template_key =
     (let k = trim_space template_key in
      if k = [] then Some (CText ''crontab template key is required'')
      else (case get_template reg k of None \<Rightarrow> Some (CSentinel ErrTemplateNotFound)
        | Some tpl \<Rightarrow> if \<not> tp_enabled tpl then Some (CSentinel ErrTemplateDisabled) else None))"

definition no_repository :: cron_error where
  "no_repository = CText ''crontab entry repository is required''"

definition requested_entry :: "string \<Rightarrow> ('w, 'z) template_scheme \<Rightarrow> entry_request \<Rightarrow> cron_entry" where
  "requested_entry i tpl q = empty_entry
     \<lparr>ce_id := i, ce_name := (if eq_name q = [] then tp_name tpl else eq_name q),
      ce_template_key := eq_template_key q, ce_spec := eq_spec q, ce_payload := eq_payload q,
      ce_source := SourceDB, ce_enabled := eq_enabled q, ce_max_run_count := eq_max_run_count q\<rparr>"

definition create_entry ::
  "'w cron_env \<Rightarrow> 'w cron_manager \<Rightarrow> entry_request \<Rightarrow> 'w cron_world \<Rightarrow> (cron_error + cron_entry_info) \<times> 'w cron_world" where
  "create_entry env m q w =
     (case mg_repo m of None \<Rightarrow> (Inl no_repository, w)
      | Some r \<Rightarrow>
          (case validate_entry_request env (mg_registry m) (eq_template_key q) (eq_spec q) True of
             Inl e \<Rightarrow> (Inl e, w)
           | Inr tpl \<Rightarrow> on_ext (er_create r (requested_entry [] tpl q)) w))"

definition update_entry ::
  "'w cron_env \<Rightarrow> 'w cron_manager \<Rightarrow> string \<Rightarrow> entry_request \<Rightarrow> 'w cron_world \<Rightarrow> cron_error option \<times> 'w cron_world" where
  "update_entry env m i q w =
     (case mg_repo m of None \<Rightarrow> (Some no_repository, w)
      | Some r \<Rightarrow>
          (case validate_entry_request env (mg_registry m) (eq_template_key q) (eq_spec q) True of
             Inl e \<Rightarrow> (Some e, w)
           | Inr tpl \<Rightarrow> on_ext (er_update r (requested_entry i tpl q)) w))"

definition delete_entry :: "'w cron_manager \<Rightarrow> string \<Rightarrow> 'w cron_world \<Rightarrow> cron_error option \<times> 'w cron_world" where
  "delete_entry m i w = (case mg_repo m of None \<Rightarrow> (Some no_repository, w) | Some r \<Rightarrow> on_ext (er_delete r i) w)"

definition set_entry_enabled :: "bool \<Rightarrow> 'w cron_manager \<Rightarrow> string \<Rightarrow> 'w cron_world \<Rightarrow> cron_error option \<times> 'w cron_world" where
  "set_entry_enabled b m i w =
     (case mg_repo m of Some r \<Rightarrow> on_ext (er_update_enabled r i b) w
      | None \<Rightarrow> on_ext ((if b then sr_enable (mg_store m) else sr_disable (mg_store m)) i) w)"

section \<open>Runs on demand\<close>

text \<open>The end of both kinds: a lock that is held is reported as its sentinel.\<close>

definition demanded_error :: "cron_result \<Rightarrow> cron_error option" where
  "demanded_error r =
     (let r = normalize_result r in
      if rr_status r = CronLocked then Some (CSentinel ErrJobRunning) else runtime_result_error r)"

definition once_entry :: "'w cron_registry \<Rightarrow> run_once_request \<Rightarrow> cron_entry \<Rightarrow> cron_entry" where
  "once_entry reg q e =
     (let tmo = (case get_template reg (ce_template_key e) of None \<Rightarrow> 0 | Some tpl \<Rightarrow> template_timeout tpl) in
      e\<lparr>ce_source := SourceManual, ce_enabled := True,
        ce_timeout := (if ro_timeout q > 0 then ro_timeout q else tmo),
        ce_distributed := False, ce_lock_ttl := 0,
        ce_lock_key := (if ro_lock_key q \<noteq> [] then ro_lock_key q else task_lock_key (ce_id e))\<rparr>)"

definition run_entry_once ::
  "'w cron_env \<Rightarrow> 'w cron_manager \<Rightarrow> 'w cron_ctx option \<Rightarrow> run_once_request \<Rightarrow> 'w cron_world \<Rightarrow>
   cron_error option \<times> 'w cron_world" where
  "run_entry_once env m ctx q w =
     (case mg_repo m of None \<Rightarrow> (Some no_repository, w)
      | Some r \<Rightarrow>
          (let (info, w) = on_ext (er_get r (ro_entry_id q)) w in
           case info of Inl e \<Rightarrow> (Some e, w)
           | Inr i \<Rightarrow>
               (let e = entry_from_info i;
                    e = (if ro_payload q \<noteq> [] then e\<lparr>ce_payload := ro_payload q\<rparr> else e) in
                case validate_entry_request env (mg_registry m) (ce_template_key e) (ce_spec e) False of
                  Inl x \<Rightarrow> (Some x, w)
                | Inr _ \<Rightarrow>
                    (let (res, w) = runner_run_result env (Some (mg_runner m)) ctx
                                      (EntryToJob (once_entry (mg_registry m) q e)) w in
                     (demanded_error res, w)))))"

definition manual_entry :: "string \<Rightarrow> run_once_request \<Rightarrow> cron_entry" where
  "manual_entry uuid q = empty_entry
     \<lparr>ce_id := ''manual.'' @ uuid, ce_template_key := ro_template_key q, ce_name := ro_template_key q,
      ce_source := SourceManual, ce_enabled := True, ce_payload := ro_payload q, ce_timeout := ro_timeout q,
      ce_distributed := True, ce_lock_key := ro_lock_key q\<rparr>"

definition cron_run_once ::
  "'w cron_env \<Rightarrow> 'w cron_manager \<Rightarrow> 'w cron_ctx option \<Rightarrow> run_once_request \<Rightarrow> 'w cron_world \<Rightarrow>
   cron_error option \<times> 'w cron_world" where
  "cron_run_once env m ctx q w =
     (if ro_entry_id q \<noteq> [] then run_entry_once env m ctx q w
      else (case validate_run_once_request (mg_registry m) (ro_template_key q) of
          Some e \<Rightarrow> (Some e, w)
        | None \<Rightarrow>
            (let (uuid, w) = on_ext (en_uuid env) w;
                 (res, w) = runner_run_result env (Some (mg_runner m)) ctx (EntryToJob (manual_entry uuid q)) w in
             (demanded_error res, w))))"

section \<open>What is read\<close>

definition list_runtime :: "string list \<Rightarrow> 'w cron_manager \<Rightarrow> 'w cron_world \<Rightarrow> runtime_info list" where
  "list_runtime ks m w = runtime_list ks (cw_runtimes w (mg_runtime m))"

definition get_runtime :: "'w cron_manager \<Rightarrow> string \<Rightarrow> 'w cron_world \<Rightarrow> cron_error + runtime_info" where
  "get_runtime m i w =
     (case runtime_get i (cw_runtimes w (mg_runtime m)) of Some x \<Rightarrow> Inr x
      | None \<Rightarrow> Inl (CText (''crontab runtime not found: '' @ i)))"

definition list_runs ::
  "'w cron_manager \<Rightarrow> run_filter \<Rightarrow> 'w cron_world \<Rightarrow> (cron_error + cron_run_log list) \<times> 'w cron_world" where
  "list_runs m f w = (case mg_repo m of None \<Rightarrow> (Inr [], w) | Some r \<Rightarrow> on_ext (er_list_runs r f) w)"

definition list_run_logs ::
  "'w cron_manager \<Rightarrow> run_log_filter \<Rightarrow> 'w cron_world \<Rightarrow> (cron_error + log_event list) \<times> 'w cron_world" where
  "list_run_logs m f w = (case mg_log_store m of None \<Rightarrow> (Inr [], w) | Some s \<Rightarrow> on_ext (ls_list s f) w)"

text \<open>The subscription's number, and the manager, whose missing streamer is replaced.\<close>

definition stream_logs ::
  "'w cron_manager \<Rightarrow> log_filter \<Rightarrow> 'w cron_world \<Rightarrow> (cron_error + nat) \<times> 'w cron_manager \<times> 'w cron_world" where
  "stream_logs m f w =
     (let (st, m, w) = (case mg_streamer m of Some s \<Rightarrow> (s, m, w)
        | None \<Rightarrow> (let (a, w) = alloc_streamer w in (MemStreamer a, m\<lparr>mg_streamer := Some (MemStreamer a)\<rparr>, w))) in
      case st of
        MemStreamer a \<Rightarrow>
          (let (i, s) = stream_subscribe (cw_streamers w a) f in
           (Inr i, m, w\<lparr>cw_streamers := (cw_streamers w)(a := s)\<rparr>))
      | ExtStreamer x \<Rightarrow> (let (r, w) = on_ext (es_subscribe x f) w in (r, m, w)))"

section \<open>Loaders (loader.go)\<close>

definition builtin_load :: "cron_entry list \<Rightarrow> cron_entry list" where
  "builtin_load es = map (\<lambda>e. let e = e\<lparr>ce_source := SourceBuiltin\<rparr> in
     if ce_id e = [] then e\<lparr>ce_id := ''builtin.'' @ ce_template_key e\<rparr> else e) es"

fun database_entries :: "cron_entry list \<Rightarrow> cron_error + cron_entry list" where
  "database_entries [] = Inr []"
| "database_entries (e # es) =
     (if trim_space (ce_id e) = [] then Inl (CText ''crontab db entry id is required'')
      else bindR (database_entries es) (\<lambda>es'. Inr
        (e\<lparr>ce_source := SourceDB,
           ce_id := (if ce_id e \<noteq> [] \<and> \<not> has_prefix (ce_id e) ''db.'' then ''db.'' @ ce_id e else ce_id e)\<rparr> # es')))"

definition database_load ::
  "'w entry_repository option \<Rightarrow> 'w cron_world \<Rightarrow> (cron_error + cron_entry list) \<times> 'w cron_world" where
  "database_load repo w =
     (case repo of None \<Rightarrow> (Inr [], w)
      | Some r \<Rightarrow> (let (es, w) = on_ext (er_list_enabled r) w in (bindR es database_entries, w)))"

end
