(* ===== verification/Crontab_Jobs.thy ===== *)
theory Crontab_Jobs
  imports Crontab_Manager
begin

text \<open>
  What the manager of cron jobs guarantees: which jobs are loaded and that their runs are admitted,
  the locks of scheduled and of demanded runs, and where the log lines of a run go.
\<close>

section \<open>Prepared jobs\<close>

lemma job_defaults_sel [simp]:
  "cj_id (job_defaults tpl j) = cj_id j" "cj_name (job_defaults tpl j) = cj_name j"
  "cj_source (job_defaults tpl j) = cj_source j" "cj_enabled (job_defaults tpl j) = cj_enabled j"
  "cj_spec (job_defaults tpl j) = cj_spec j" "cj_timeout (job_defaults tpl j) = template_timeout tpl"
  "cj_mode (job_defaults tpl j) = ModeLocal" "cj_payload (job_defaults tpl j) = cj_payload j"
  by (simp_all add: job_defaults_def Let_def)

lemma has_db_prefix [simp]: "has_prefix (CHR ''d'' # CHR ''b'' # CHR ''.'' # s) ''db.''"
  by (simp add: has_prefix_def)

lemma db_identified_Inr:
  "db_identified j = Inr j' \<Longrightarrow> cj_name j' = cj_name j \<and> cj_source j' = cj_source j \<and> cj_enabled j' = cj_enabled j \<and>
     cj_spec j' = cj_spec j \<and> cj_lock_key j' = cj_lock_key j \<and>
     (if cj_source j = SourceDB
      then trim_space (cj_id j) \<noteq> [] \<and> has_prefix (cj_id j') ''db.'' \<and>
        cj_id j' = (if has_prefix (trim_space (cj_id j)) ''db.'' then trim_space (cj_id j) else ''db.'' @ trim_space (cj_id j))
      else j' = j)"
  by (auto simp: db_identified_def Let_def split: if_splits)

text \<open>What a prepared job is.\<close>

lemma prepare_job_Inr:
  assumes "prepare_job env reg job = Inr j"
  obtains tpl where "reg (cj_name job) = Some tpl" "tp_enabled tpl" "cj_name j = cj_name job"
    "cj_source j \<noteq> SourceDynamic" "cj_source j = (if cj_source job = SourceDynamic then SourceDB else cj_source job)"
    "cj_source j = SourceDB \<Longrightarrow> tp_allow_db tpl \<and> has_prefix (cj_id j) ''db.'' \<and> trim_space (cj_id job) \<noteq> []"
    "cj_id j = (if cj_source j \<noteq> SourceDB then cj_id job
       else if has_prefix (trim_space (cj_id job)) ''db.'' then trim_space (cj_id job) else ''db.'' @ trim_space (cj_id job))"
    "cj_enabled j = cj_enabled job" "cj_spec j = cj_spec job"
    "cj_spec j = [] \<or> en_parse_spec env (cj_spec j) = None"
    "cj_lock_key j = (if cj_lock_key job = [] then task_lock_key (cj_id j) else cj_lock_key job)"
    "cj_timeout j = template_timeout tpl"
proof -
  let ?j = "if cj_source job = SourceDynamic then job\<lparr>cj_source := SourceDB\<rparr> else job"
  obtain tpl j1 where t: "reg (cj_name job) = Some tpl" "tp_enabled tpl" "db_identified ?j = Inr j1"
    "\<not> (cj_source j1 = SourceDB \<and> \<not> tp_allow_db tpl)" "cj_spec j1 = [] \<or> en_parse_spec env (cj_spec j1) = None"
    "j = job_defaults tpl j1"
    using assms
    by (auto simp: prepare_job_def Let_def bindR_Inr_iff validate_spec_def split: option.splits if_splits)
  note d = db_identified_Inr [OF t(3)]
  have lock: "cj_lock_key j = (if cj_lock_key j1 = [] then task_lock_key (cj_id j1) else cj_lock_key j1)"
    by (simp add: t(6) job_defaults_def Let_def)
  show thesis
    by (rule that [of tpl]) (use t d lock in \<open>auto split: if_splits\<close>)
qed

definition loaded_of :: "'w cron_env \<Rightarrow> 'w cron_registry \<Rightarrow> cron_job \<Rightarrow> cron_job option" where
  "loaded_of env reg j = (case prepare_job env reg j of Inl _ \<Rightarrow> None | Inr j' \<Rightarrow> Some j')"

lemma prepare_jobs_Inr:
  "prepare_jobs env m js w = (Inr js', w') \<Longrightarrow>
     js' = List.map_filter (loaded_of env (mg_registry m)) js \<and>
     (\<forall>j\<in>set js. \<not> is_db_job j \<longrightarrow> loaded_of env (mg_registry m) j \<noteq> None)"
proof (induction js arbitrary: w js')
  case Nil
  then show ?case by (simp add: List.map_filter_simps)
next
  case (Cons j js)
  show ?case
  proof (cases "prepare_job env (mg_registry m) j")
    case (Inl e)
    with Cons.prems have db: "is_db_job j" by (auto split: if_splits)
    with Inl Cons.prems Cons.IH show ?thesis
      by (auto simp: loaded_of_def List.map_filter_simps)
  next
    case (Inr j')
    with Cons.prems obtain js1 where "prepare_jobs env m js w = (Inr js1, w')" "js' = j' # js1"
      by (auto split: prod.splits sum.splits)
    with Inr Cons.IH show ?thesis by (auto simp: loaded_of_def List.map_filter_simps)
  qed
qed

lemma load_jobs_Inr:
  assumes "load_jobs env ks m w = (Inr jobs, w')"
  obtains db where "fst (sr_list_enabled (mg_store m) (cw_ext w)) = Inr db"
    "jobs = List.map_filter (loaded_of env (mg_registry m)) (builtin_jobs ks (mg_registry m) @ db)"
    "\<forall>j\<in>set (builtin_jobs ks (mg_registry m) @ db). \<not> is_db_job j \<longrightarrow> loaded_of env (mg_registry m) j \<noteq> None"
proof -
  obtain r w1 where l: "on_ext (sr_list_enabled (mg_store m)) w = (r, w1)"
    by (cases "on_ext (sr_list_enabled (mg_store m)) w")
  with assms obtain db where db: "r = Inr db" "prepare_jobs env m (builtin_jobs ks (mg_registry m) @ db) w1 = (Inr jobs, w')"
    by (auto simp: load_jobs_def Let_def split: sum.splits)
  have "fst (sr_list_enabled (mg_store m) (cw_ext w)) = Inr db"
    using l db(1) by (auto simp: on_ext_def split: prod.splits)
  from that [OF this] prepare_jobs_Inr [OF db(2)] show thesis by blast
qed

lemma map_filter_mem: "y \<in> set (List.map_filter f xs) \<longleftrightarrow> (\<exists>x\<in>set xs. f x = Some y)"
  by (induction xs) (auto simp: List.map_filter_simps split: option.splits)

lemma loaded_of_Some: "loaded_of env reg x = Some j \<longleftrightarrow> prepare_job env reg x = Inr j"
  by (auto simp: loaded_of_def split: sum.splits)

section \<open>Runs without a streamer\<close>

text \<open>No part of a run whose runner has no streamer touches a memory streamer.\<close>

definition no_stream :: "'w job_logger \<Rightarrow> bool" where
  "no_stream l \<longleftrightarrow> (case l of NoopJobLogger \<Rightarrow> True | RunJobLogger j \<Rightarrow> jl_streamer j = None)"

lemma streamers_simps [simp]:
  "cw_streamers (snd (on_ext f w)) = cw_streamers w" "cw_streamers (upd_ext g w) = cw_streamers w"
  "cw_streamers (called c w) = cw_streamers w" "cw_streamers (on_runtime a h w) = cw_streamers w"
  by (simp_all add: on_ext_def upd_ext_def called_def on_runtime_def case_prod_beta split: option.split)

lemma streamers_on_ext: "on_ext f w = (a, w') \<Longrightarrow> cw_streamers w' = cw_streamers w"
  by (metis streamers_simps(1) snd_conv)

lemma streamers_job_log:
  "no_stream l \<Longrightarrow> cw_streamers (write_job_log env l level msg fs w) = cw_streamers w"
  by (auto simp: write_job_log_def no_stream_def Let_def split: job_logger.splits prod.splits option.splits
      dest: streamers_on_ext)

lemma streamers_full: "no_stream l \<Longrightarrow> cw_streamers (snd (run_prog_full env l p w)) = cw_streamers w"
  by (induction p arbitrary: w) (simp_all add: streamers_job_log)

lemma streamers_steps: "no_stream l \<Longrightarrow> cw_streamers (snd (run_prog_steps n env l p w)) = cw_streamers w"
  by (induction n env l p w rule: run_prog_steps.induct) (simp_all add: streamers_job_log)

lemma streamers_handler:
  assumes "no_stream (cx_logger (rc_ctx c))" "run_runtime_handler env c tpl job timeout w = (res, w')"
  shows "cw_streamers w' = cw_streamers w"
proof (cases "tp_handler tpl")
  case None
  with assms(2) show ?thesis by (simp add: run_runtime_handler_def)
next
  case (Some h)
  let ?w = "called (CallHandler (rc_run_id c)) w"
  let ?l = "cx_logger (rc_ctx c)"
  let ?p = "h (handler_view c tpl job)"
  have full: "cw_streamers (snd (run_prog_full env ?l ?p ?w)) = cw_streamers w"
    using streamers_full [OF assms(1)] by simp
  have steps: "run_prog_steps n env ?l ?p ?w = (r, v) \<Longrightarrow> cw_streamers v = cw_streamers w" for n r v
    using streamers_steps [OF assms(1), of n env ?p ?w] by simp
  show ?thesis
  proof (cases "timeout \<le> 0 \<or> en_deadline env (cw_ext ?w) = None")
    case True
    with assms(2) full Some show ?thesis
      by (auto simp: run_runtime_handler_def Let_def case_prod_beta split: if_splits)
  next
    case False
    then obtain n where n: "en_deadline env (cw_ext ?w) = Some n" "\<not> timeout \<le> 0" by auto
    obtain r v where run: "run_prog_steps n env ?l ?p ?w = (r, v)" by (cases "run_prog_steps n env ?l ?p ?w")
    with assms(2) n Some steps [OF run] show ?thesis
      by (auto simp: run_runtime_handler_def Let_def split: sum.splits)
  qed
qed

lemma streamers_unlock: "cw_streamers (unlock h w) = cw_streamers w"
  by (auto simp: unlock_def Let_def split: option.split)

lemma streamers_acquire:
  "acquire_runtime_lock c e tpl job timeout w = (r, w') \<Longrightarrow> cw_streamers w' = cw_streamers w"
  by (auto simp: acquire_runtime_lock_def Let_def split: if_splits option.splits prod.splits dest!: streamers_on_ext)

lemma streamers_running: "write_runtime_running env c tpl w = (r, w') \<Longrightarrow> cw_streamers w' = cw_streamers w"
  by (auto simp: write_runtime_running_def Let_def split: if_splits option.splits prod.splits dest!: streamers_on_ext)

lemma streamers_finish: "cw_streamers (finish_runtime env run e tpl res a b wr w) = cw_streamers w"
  by (auto simp: finish_runtime_def Let_def split: option.split)

lemma streamers_failure_handlers: "cw_streamers (run_failure_handlers hs rep w) = cw_streamers w"
  by (induction hs rep w rule: run_failure_handlers.induct) simp_all

lemma streamers_notify: "cw_streamers (notify_failure ctx e tpl a b res w) = cw_streamers w"
  by (simp add: notify_failure_def streamers_failure_handlers)

lemma streamers_close: "cw_streamers (dispatch_close env f w) = cw_streamers w"
  by (simp add: dispatch_close_def Let_def case_prod_beta streamers_finish streamers_notify)

definition no_run_streamer :: "'w run_context \<Rightarrow> bool" where
  "no_run_streamer c \<longleftrightarrow> (\<exists>r. rc_runner c = Some r \<and> rn_streamer r = None)"

lemma streamers_locked:
  assumes "no_run_streamer c" "dispatch_locked env h c job timeout f w = (f', w')"
  shows "cw_streamers w' = cw_streamers w"
proof -
  obtain r where r: "rc_runner c = Some r" "rn_streamer r = None" using assms(1) by (auto simp: no_run_streamer_def)
  let ?c = "inject_job_logger c (fm_entry f) job (fm_tpl f)"
  have ns: "no_stream (cx_logger (rc_ctx ?c))" using r by (simp add: inject_job_logger_def no_stream_def)
  obtain err w1 where start: "write_runtime_running env c (fm_tpl f) w = (err, w1)"
    by (cases "write_runtime_running env c (fm_tpl f) w")
  obtain res w2 where run: "run_runtime_handler env ?c (fm_tpl f) job timeout w1 = (res, w2)"
    by (cases "run_runtime_handler env ?c (fm_tpl f) job timeout w1")
  from assms(2) start run streamers_running [OF start] streamers_handler [OF ns run] show ?thesis
    by (cases err) (auto simp: dispatch_locked_def streamers_unlock Let_def)
qed

lemma streamers_acquired:
  assumes "no_run_streamer c" "dispatch_acquire env c job timeout f w = (f', w')"
  shows "cw_streamers w' = cw_streamers w"
  using assms(2) streamers_acquire streamers_locked [OF assms(1)]
  by (fastforce simp: dispatch_acquire_def split: prod.splits sum.splits)

lemma streamers_body:
  assumes "fm_run f = Some c" "no_run_streamer c" "dispatch_body env reg entry f w = (f', w')"
  shows "cw_streamers w' = cw_streamers w"
proof -
  have prep: "no_run_streamer (prepare_cron_context ctx tpl job e c)" for ctx tpl job e
    using assms(2) by (simp add: no_run_streamer_def)
  have en: "dispatch_enabled env entry job (f\<lparr>fm_tpl := tpl\<rparr>) w = (f', w') \<Longrightarrow> cw_streamers w' = cw_streamers w" for job tpl
    using assms(1) streamers_acquired [OF prep] by (auto simp: dispatch_enabled_def Let_def)
  show ?thesis
  proof (cases "refusal reg (fm_entry f)")
    case (Some se)
    then obtain tpl where "dispatch_body env reg entry f w = (f\<lparr>fm_tpl := tpl, fm_result := rr (fst se) (snd se)\<rparr>, w)"
      using body_refused [of reg f "fst se" "snd se" env entry w] by auto
    with assms(3) show ?thesis by simp
  next
    case None
    from body_admitted [OF None, of env entry w] assms(3) en show ?thesis by auto
  qed
qed

lemma streamers_dispatch:
  assumes "no_run_streamer c" "cron_dispatch env reg ctx (Some c) entry w = (err, w')"
  shows "cw_streamers w' = cw_streamers w"
proof -
  obtain f0 w0 where f0: "open_frame env ctx (Some c) entry w = (f0, w0)" by (cases "open_frame env ctx (Some c) entry w")
  obtain f v where body: "dispatch_body env reg entry f0 w0 = (f, v)" by (cases "dispatch_body env reg entry f0 w0")
  have "cw_streamers w0 = cw_streamers w \<and> (\<exists>c'. fm_run f0 = Some c' \<and> no_run_streamer c')"
    using f0 assms(1)
    by (auto simp: open_frame_def ensure_track_id_def Let_def no_run_streamer_def split: prod.splits if_splits
        dest!: streamers_on_ext)
  with streamers_body [OF _ _ body] assms(2) f0 body show ?thesis
    by (auto simp: cron_dispatch_def streamers_close)
qed

lemma streamers_run_result:
  assumes "rn_streamer r = None"
  shows "cw_streamers (snd (runner_run_result env (Some r) ctx job w)) = cw_streamers w"
proof -
  obtain c w1 where c: "new_run_context env ctx (Some r) job w = (c, w1)"
    by (cases "new_run_context env ctx (Some r) job w")
  have w1: "cw_streamers w1 = cw_streamers w" "rc_runner c = Some r"
    using c by (auto simp: new_run_context_def Let_def split: prod.splits dest!: streamers_on_ext)
  have ns: "no_run_streamer c" using w1(2) assms by (simp add: no_run_streamer_def)
  obtain err w2 where d: "cron_dispatch env (rn_registry r) (Some (rc_ctx c)) (Some c) (Some (rc_entry c)) w1 = (err, w2)"
    by (cases "cron_dispatch env (rn_registry r) (Some (rc_ctx c)) (Some c) (Some (rc_entry c)) w1")
  from streamers_dispatch [OF ns d] w1 d c show ?thesis
    by (auto simp: runner_run_result_def execute_template_def split: option.split)
qed

section \<open>Properties\<close>

text \<open>
  C31: what is loaded.  When loading succeeds, the loaded jobs are exactly the jobs of the built-in
  templates and then those of the store that could be prepared, in their order, each prepared; every
  built-in job is among them.  Each loaded job names an enabled template, has no schedule or one that
  parses, and if it stems from the database, its template allows that and its identifier starts
  with \<open>db.\<close>.
\<close>

theorem load_jobs_exact:
  assumes "load_jobs env ks m w = (Inr jobs, w')"
    and "fst (sr_list_enabled (mg_store m) (cw_ext w)) = Inr db"
  shows "jobs = List.map_filter (loaded_of env (mg_registry m)) (builtin_jobs ks (mg_registry m) @ db) \<and>
    (\<forall>j\<in>set (builtin_jobs ks (mg_registry m)). loaded_of env (mg_registry m) j \<noteq> None) \<and>
    (\<forall>j\<in>set jobs. \<exists>tpl. mg_registry m (cj_name j) = Some tpl \<and> tp_enabled tpl \<and>
       (cj_spec j = [] \<or> en_parse_spec env (cj_spec j) = None) \<and>
       (is_db_job j \<longrightarrow> tp_allow_db tpl \<and> has_prefix (cj_id j) ''db.''))"
proof -
  let ?reg = "mg_registry m"
  have jobs: "jobs = List.map_filter (loaded_of env ?reg) (builtin_jobs ks ?reg @ db)"
    and all: "\<forall>j\<in>set (builtin_jobs ks ?reg @ db). \<not> is_db_job j \<longrightarrow> loaded_of env ?reg j \<noteq> None"
    using load_jobs_Inr [OF assms(1)] assms(2) by auto
  have "\<not> is_db_job j" if "j \<in> set (builtin_jobs ks ?reg)" for j
    using that by (auto simp: builtin_jobs_def map_filter_mem build_builtin_job_def is_db_job_def split: if_splits)
  moreover have "\<exists>tpl. ?reg (cj_name j) = Some tpl \<and> tp_enabled tpl \<and>
       (cj_spec j = [] \<or> en_parse_spec env (cj_spec j) = None) \<and>
       (is_db_job j \<longrightarrow> tp_allow_db tpl \<and> has_prefix (cj_id j) ''db.'')" if "j \<in> set jobs" for j
  proof -
    obtain x where x: "prepare_job env ?reg x = Inr j"
      using \<open>j \<in> set jobs\<close> by (auto simp: jobs map_filter_mem loaded_of_Some)
    show ?thesis by (rule prepare_job_Inr [OF x]) (auto simp: is_db_job_def)
  qed
  ultimately show ?thesis using jobs all by simp
qed


text \<open>
  Scheduled and demanded runs of one entry.  For an entry whose identifier in the repository is a
  number, the loaded job and the run on demand agree on the entry's lock key, but the lock that a
  run takes is named after the identifier of the run, which the loader has prefixed: the two runs
  take different locks, so neither excludes the other.
\<close>

theorem demanded_run_takes_another_lock:
  assumes "prepare_job env reg job = Inr j" "cj_source job = SourceDB" "cj_lock_key job = []" "ro_lock_key q = []"
    and "is_numeric_id (cj_id job)" "ce_id e = cj_id job"
  shows "cj_lock_key j = ce_lock_key (once_entry reg q e) \<and>
    runtime_lock_key (JobToEntry j) \<noteq> runtime_lock_key (once_entry reg q e)"
proof -
  let ?i = "cj_id job"
  have digits: "\<forall>c\<in>set ?i. (32::nat) < of_char c \<and> of_char c < (128::nat)" and ne: "?i \<noteq> []"
    using assms(5) by (fastforce simp: is_numeric_id_def)+
  have trim: "trim_space ?i = ?i" by (rule trim_space_printable) (rule digits)
  have "\<not> has_prefix ?i ''db.''"
    using assms(5) by (cases ?i) (auto simp: has_prefix_def is_numeric_id_def)
  then have j: "cj_id j = ''db.'' @ ?i" "cj_lock_key j = task_lock_key (cj_id j)"
    using assms(1-3) trim by (auto elim!: prepare_job_Inr)
  have "trim_space (''db.'' @ ?i) = ''db.'' @ ?i" by (rule trim_space_printable) (use digits in auto)
  moreover have "\<not> is_numeric_id (''db.'' @ ?i)" by (simp add: is_numeric_id_def)
  ultimately have "task_lock_key (''db.'' @ ?i) = task_lock_key ?i"
    using assms(5) trim ne by (simp add: task_lock_key_def Let_def)
  with j assms(4,6) show ?thesis
    by (simp add: once_entry_def Let_def runtime_lock_key_def ne)
qed

text \<open>
  The log lines of runs and the default streamer.  A manager made without a runner and without a
  streamer subscribes its callers to a new memory streamer, but its runner, made before that
  default, has none: no run of any job of this manager changes any memory streamer, so nothing a
  handler logs ever reaches a subscriber.
\<close>

theorem default_streamer_stays_silent:
  assumes "new_manager env o1 w = (Inr m, w1)" "mo_runner o1 = None" "mo_streamer o1 = None"
  shows "(\<exists>a. mg_streamer m = Some (MemStreamer a)) \<and>
    cw_streamers (snd (runner_run_result env (Some (mg_runner m)) ctx job w2)) = cw_streamers w2"
proof
  show "\<exists>a. mg_streamer m = Some (MemStreamer a)"
    using assms by (auto simp: new_manager_def Let_def split: option.splits prod.splits)
  have "rn_streamer (mg_runner m) = None"
    using assms by (auto simp: new_manager_def Let_def new_runner_def split: option.splits prod.splits)
  then show "cw_streamers (snd (runner_run_result env (Some (mg_runner m)) ctx job w2)) = cw_streamers w2"
    by (rule streamers_run_result)
qed

subsection \<open>A sample manager\<close>

text \<open>One template, and one job of the store, whose identifier is the number of a row.\<close>

definition sample_db_job :: cron_job where
  "sample_db_job = (EntryToJob sample_entry)\<lparr>cj_id := ''7'', cj_spec := ''@hourly''\<rparr>"

definition sample_manager_options :: "nat manager_options" where
  "sample_manager_options = \<lparr>mo_config = default_cron_config, mo_registry = Some (sample_cron_registry (CReturn (rr CronSuccess None))),
     mo_store = Some (noop_store\<lparr>sr_list_enabled := (\<lambda>w. (Inr [sample_db_job], w))\<rparr>),
     mo_scheduler = Some \<lparr>sc_start = (\<lambda>w. (None, w)), sc_stop = (\<lambda>w. (None, w)), sc_reload = (\<lambda>_ w. (None, w))\<rparr>,
     mo_locker = None, mo_logger = None, mo_repository = None, mo_runner = None, mo_runtime = None,
     mo_log_store = None, mo_streamer = None\<rparr>"

definition sample_manager :: "nat cron_manager" where
  "sample_manager = projr (fst (new_manager sample_cron_env sample_manager_options sample_cron_world))"

lemma sample_manager_new:
  "new_manager sample_cron_env sample_manager_options sample_cron_world =
     (Inr sample_manager, snd (new_manager sample_cron_env sample_manager_options sample_cron_world))"
  by (simp add: sample_manager_def new_manager_def sample_manager_options_def alloc_runtime_def alloc_streamer_def Let_def)

lemma sample_manager_sel:
  "mg_registry sample_manager = sample_cron_registry (CReturn (rr CronSuccess None))"
  "mg_store sample_manager = noop_store\<lparr>sr_list_enabled := (\<lambda>w. (Inr [sample_db_job], w))\<rparr>"
  by (simp_all add: sample_manager_def new_manager_def sample_manager_options_def alloc_runtime_def alloc_streamer_def Let_def)

lemma sample_trims:
  "trim_space ''7'' = ''7''" "trim_space ''db.7'' = ''db.7''" "trim_space ''builtin.backup'' = ''builtin.backup''"
  by (rule trim_space_printable; simp)+

lemma sample_prepared:
  "prepare_job sample_cron_env (sample_cron_registry (CReturn (rr CronSuccess None))) sample_db_job =
     Inr (sample_db_job\<lparr>cj_id := ''db.7'', cj_lock_key := ''task:db.7''\<rparr>)"
  by (simp add: sample_db_job_def sample_defs prepare_job_def db_identified_def has_prefix_def sample_trims
      validate_spec_def job_defaults_def task_lock_key_def is_numeric_id_def template_timeout_def Let_def)

definition sample_builtin :: cron_job where
  "sample_builtin = \<lparr>cj_id = ''builtin.backup'', cj_name = ''backup'', cj_label = ''Backup'', cj_spec = ''@daily'',
     cj_source = SourceBuiltin, cj_mode = ModeLocal, cj_enabled = True, cj_payload = [], cj_queue = [],
     cj_task_type = [], cj_timeout = 0, cj_distributed = False, cj_lock_ttl = 0, cj_lock_key = [],
     cj_max_run_count = 0\<rparr>"

lemma sample_builtin_jobs:
  "builtin_jobs [''backup''] (sample_cron_registry (CReturn (rr CronSuccess None))) = [sample_builtin]"
  by (simp add: sample_defs sample_builtin_def builtin_jobs_def list_templates_def List.map_filter_simps
      build_builtin_job_def template_timeout_def)

lemma sample_builtin_prepared:
  "prepare_job sample_cron_env (sample_cron_registry (CReturn (rr CronSuccess None))) sample_builtin =
     Inr (sample_builtin\<lparr>cj_lock_key := ''task:builtin.backup''\<rparr>)"
  by (simp add: sample_defs sample_builtin_def prepare_job_def db_identified_def job_defaults_def task_lock_key_def
      sample_trims is_numeric_id_def validate_spec_def template_timeout_def Let_def)

lemma sample_loaded:
  "load_jobs sample_cron_env [''backup''] sample_manager sample_cron_world =
     (Inr [sample_builtin\<lparr>cj_lock_key := ''task:builtin.backup''\<rparr>,
           sample_db_job\<lparr>cj_id := ''db.7'', cj_lock_key := ''task:db.7''\<rparr>], sample_cron_world)"
  by (simp add: load_jobs_def sample_manager_sel sample_prepared sample_builtin_prepared sample_builtin_jobs
      on_ext_def noop_store_def Let_def)

theorem load_jobs_exact_witness:
  "sample_db_job\<lparr>cj_id := ''db.7'', cj_lock_key := ''task:db.7''\<rparr> \<in>
     set (projr (fst (load_jobs sample_cron_env [''backup''] sample_manager sample_cron_world)))"
proof -
  let ?r = "load_jobs sample_cron_env [''backup''] sample_manager sample_cron_world"
  have "fst (sr_list_enabled (mg_store sample_manager) (cw_ext sample_cron_world)) = Inr [sample_db_job]"
    by (simp add: sample_manager_sel)
  from load_jobs_exact [OF sample_loaded this] show ?thesis
    by (auto simp: sample_loaded map_filter_mem loaded_of_def sample_prepared sample_manager_sel)
qed


theorem demanded_run_takes_another_lock_witness:
  "runtime_lock_key (JobToEntry (sample_db_job\<lparr>cj_id := ''db.7'', cj_lock_key := ''task:db.7''\<rparr>)) \<noteq>
   runtime_lock_key (once_entry (mg_registry sample_manager)
     \<lparr>ro_entry_id = ''7'', ro_template_key = [], ro_payload = [], ro_timeout = 0, ro_lock_key = []\<rparr> (sample_entry\<lparr>ce_id := ''7''\<rparr>))"
proof -
  have "prepare_job sample_cron_env (mg_registry sample_manager) sample_db_job =
      Inr (sample_db_job\<lparr>cj_id := ''db.7'', cj_lock_key := ''task:db.7''\<rparr>)"
    by (simp add: sample_manager_sel sample_prepared)
  moreover have "cj_source sample_db_job = SourceDB" "cj_lock_key sample_db_job = []" "is_numeric_id (cj_id sample_db_job)"
    "ce_id (sample_entry\<lparr>ce_id := ''7''\<rparr>) = cj_id sample_db_job"
    by (simp_all add: sample_db_job_def sample_defs is_numeric_id_def)
  ultimately show ?thesis
    by (intro demanded_run_takes_another_lock [THEN conjunct2]) simp_all
qed

theorem default_streamer_stays_silent_witness:
  "(\<exists>a. mg_streamer sample_manager = Some (MemStreamer a)) \<and>
   cw_streamers (snd (runner_run_result sample_cron_env (Some (mg_runner sample_manager)) None sample_db_job sample_cron_world)) =
     cw_streamers sample_cron_world"
  by (rule default_streamer_stays_silent [OF sample_manager_new]) (simp_all add: sample_manager_options_def)

end
