(* ===== verification/Go_Text.thy ===== *)
theory Go_Text
  imports Prelude
begin

text \<open>The decimal text of numbers, as Go's \<^verbatim>\<open>strconv\<close> and \<^verbatim>\<open>fmt\<close> write it, and reading it back.\<close>

text \<open>\<open>strconv.Itoa\<close>, which is also what \<open>%d\<close> prints.\<close>

definition digit_char :: "nat \<Rightarrow> char" where
  "digit_char d = char_of (48 + d)"

fun nat_text :: "nat \<Rightarrow> string" where
  "nat_text n = (if n < 10 then [digit_char n] else nat_text (n div 10) @ [digit_char (n mod 10)])"

declare nat_text.simps [simp del]

definition int_text :: "int \<Rightarrow> string" where
  "int_text i = (if i < 0 then ''-'' @ nat_text (nat (- i)) else nat_text (nat i))"

lemma digit_char_0: "digit_char 0 = CHR ''0''" and digit_char_1: "digit_char 1 = CHR ''1''"
  by code_simp+

lemma of_char_digit: "d < 10 \<Longrightarrow> (of_char (digit_char d) :: nat) = 48 + d"
  by (simp add: digit_char_def of_char_of)

lemma digit_char_inj: "d < 10 \<Longrightarrow> e < 10 \<Longrightarrow> digit_char d = digit_char e \<Longrightarrow> d = e"
  by (metis add_left_cancel of_char_digit)

lemma nat_text_small: "n < 10 \<Longrightarrow> nat_text n = [digit_char n]"
  by (simp add: nat_text.simps)

lemma nat_text_big: "\<not> n < 10 \<Longrightarrow> nat_text n = nat_text (n div 10) @ [digit_char (n mod 10)]"
  by (subst nat_text.simps) simp

lemma nat_text_not_Nil [simp]: "nat_text n \<noteq> []"
  by (cases "n < 10") (simp_all add: nat_text_small nat_text_big)

lemma nat_text_inj: "nat_text m = nat_text n \<Longrightarrow> m = n"
proof (induction m arbitrary: n rule: less_induct)
  case (less m)
  have mod: "m mod 10 < 10" "n mod 10 < 10" by simp_all
  show ?case
  proof (cases "m < 10"; cases "n < 10")
    assume "\<not> m < 10" "\<not> n < 10"
    then have "nat_text (m div 10) = nat_text (n div 10)" "digit_char (m mod 10) = digit_char (n mod 10)"
      using less.prems by (simp_all add: nat_text_big)
    moreover have "m div 10 < m" using \<open>\<not> m < 10\<close> by simp
    ultimately have "m div 10 = n div 10" "m mod 10 = n mod 10"
      using less.IH digit_char_inj [OF mod] by blast+
    then show ?thesis by (metis div_mult_mod_eq)
  qed (use less.prems digit_char_inj nat_text_not_Nil [symmetric] in \<open>auto simp: nat_text_small nat_text_big\<close>)
qed

lemma nat_text_digits: "c \<in> set (nat_text n) \<Longrightarrow> 48 \<le> (of_char c :: nat) \<and> (of_char c :: nat) \<le> 57"
proof (induction n rule: less_induct)
  case (less n)
  show ?case
  proof (cases "n < 10")
    case True
    with less.prems show ?thesis by (simp add: nat_text_small of_char_digit)
  next
    case False
    with less.prems less.IH [of "n div 10"] show ?thesis
      using of_char_digit [of "n mod 10"] by (auto simp: nat_text_big)
  qed
qed

lemma nat_text_no_minus: "''-'' @ nat_text a \<noteq> nat_text b"
proof
  assume "''-'' @ nat_text a = nat_text b"
  then have "CHR ''-'' \<in> set (nat_text b)" by (metis append_Cons list.set_intros(1))
  from nat_text_digits [OF this] show False by simp
qed

lemma int_text_inj: "int_text i = int_text j \<Longrightarrow> i = j"
proof -
  assume eq: "int_text i = int_text j"
  show ?thesis
    using eq nat_text_no_minus nat_text_inj nat_text_no_minus [symmetric]
    by (cases "i < 0"; cases "j < 0") (fastforce simp: int_text_def dest: nat_text_inj)+
qed

lemma int_text_clean: "c \<in> set (int_text i) \<Longrightarrow> 45 \<le> (of_char c :: nat)"
  using nat_text_digits by (fastforce simp: int_text_def split: if_splits)

text \<open>The digits of a text, read as a number.\<close>

definition text_digit :: "char \<Rightarrow> nat" where
  "text_digit c = of_char c - 48"

fun read_digits :: "string \<Rightarrow> nat \<Rightarrow> nat" where
  "read_digits [] n = n"
| "read_digits (c # cs) n =
     read_digits cs (if 48 \<le> (of_char c :: nat) \<and> (of_char c :: nat) \<le> 57 then n * 10 + text_digit c else n)"

lemma read_digits_append [simp]: "read_digits (xs @ ys) n = read_digits ys (read_digits xs n)"
  by (induction xs arbitrary: n) simp_all

lemma read_digit [simp]: "d < 10 \<Longrightarrow> read_digits [digit_char d] n = n * 10 + d"
  by (simp add: of_char_digit text_digit_def)

lemma read_nat_text [simp]: "read_digits (nat_text n) 0 = n"
proof (induction n rule: less_induct)
  case (less n)
  show ?case
  proof (cases "n < 10")
    case True
    then show ?thesis using read_digit [OF True, of 0] by (simp add: nat_text_small)
  next
    case False
    then have "n div 10 < n" by simp
    from less.IH [OF this] have "read_digits (nat_text n) 0 = n div 10 * 10 + n mod 10"
      by (simp add: nat_text_big [OF False] del: read_digits.simps)
    then show ?thesis by simp
  qed
qed

end
