(* ===== verification/Crontab_Scheduler.thy ===== *)
theory Crontab_Scheduler
  imports Crontab_Jobs Go_Text
begin

text \<open>
  The scheduler over robfig/cron (\<^verbatim>\<open>core/crontab/robfigcron/scheduler.go\<close>).  Of the cron library the model
  keeps what the scheduler asks of it: a function is added under a schedule or refused with the
  parser's error, and the library's own clock calls the added functions while it runs.  An added
  function is given by the job it closes over.
\<close>

section \<open>The signature of a list of jobs\<close>

fun source_text :: "cron_source \<Rightarrow> string" where
  "source_text SourceUnset = []"
| "source_text SourceBuiltin = ''builtin''"
| "source_text SourceDynamic = ''dynamic''"
| "source_text SourceDB = ''db''"
| "source_text SourceManual = ''manual''"
| "source_text (SourceOther s) = s"

fun mode_text :: "cron_mode \<Rightarrow> string" where
  "mode_text ModeUnset = []"
| "mode_text ModeLocal = ''local''"
| "mode_text (ModeOther s) = s"

fun join_nul :: "string list \<Rightarrow> string" where
  "join_nul [] = []"
| "join_nul [x] = x"
| "join_nul (x # y # xs) = x @ CHR 0x00 # join_nul (y # xs)"

definition signature_fields :: "cron_job \<Rightarrow> string list" where
  "signature_fields j =
     [cj_id j, cj_name j, cj_spec j, source_text (cj_source j), mode_text (cj_mode j), cj_queue j, cj_task_type j,
      cj_lock_key j, int_text (cj_timeout j)]"

definition schedulable :: "cron_job \<Rightarrow> bool" where
  "schedulable j \<longleftrightarrow> \<not> (\<not> cj_enabled j \<or> cj_spec j = [])"

definition jobs_signature :: "cron_job list \<Rightarrow> string" where
  "jobs_signature js = concat (map (\<lambda>j. join_nul (signature_fields j) @ [CHR 0x0A]) (filter schedulable js))"

section \<open>The scheduler\<close>

record robfig_scheduler =
  rs_cron :: "cron_job list option"
  rs_running :: bool
  rs_signature :: string




text \<open>Adding the functions of a new cron; \<open>parse\<close> is the parser's error.\<close>

fun add_jobs :: "(string \<Rightarrow> cron_error option) \<Rightarrow> cron_job list \<Rightarrow> cron_error + cron_job list" where
  "add_jobs parse [] = Inr []"
| "add_jobs parse (j # js) =
     (if \<not> cj_enabled j \<or> cj_spec j = [] then add_jobs parse js
      else (case parse (cj_spec j) of Some e \<Rightarrow> Inl e
            | None \<Rightarrow> bindR (add_jobs parse js) (\<lambda>js'. Inr (j # js'))))"

definition scheduler_reload ::
  "(string \<Rightarrow> cron_error option) \<Rightarrow> cron_job list \<Rightarrow> robfig_scheduler \<Rightarrow> cron_error option \<times> robfig_scheduler" where
  "scheduler_reload parse jobs s =
     (let sig = jobs_signature jobs in
      if rs_cron s \<noteq> None \<and> sig = rs_signature s then (None, s)
      else (case add_jobs parse jobs of
          Inl e \<Rightarrow> (Some e, s)
        | Inr js \<Rightarrow>
            (let was_running = rs_running s;
                 s = (if rs_cron s \<noteq> None \<and> rs_running s then s\<lparr>rs_running := False\<rparr> else s);
                 s = s\<lparr>rs_cron := Some js, rs_signature := sig\<rparr> in
             (None, if was_running then s\<lparr>rs_running := True\<rparr> else s))))"




section \<open>The signature determines the fields it is made of\<close>






section \<open>Properties\<close>



lemma jobs_signature_filter [simp]: "jobs_signature (filter schedulable js) = jobs_signature js"
  by (simp add: jobs_signature_def)







text \<open>The payload is not among these fields: a reload keeps the job with the old payload.\<close>

lemma reload_keeps_old_payload:
  assumes "rs_cron s = Some [j]" "rs_signature s = jobs_signature [j]"
  shows "scheduler_reload parse [j\<lparr>cj_payload := p\<rparr>] s = (None, s)"
  using assms by (simp add: scheduler_reload_def jobs_signature_def signature_fields_def schedulable_def)

end
