(* ===== verification/Risk_Engine.thy ===== *)
theory Risk_Engine
  imports Go_Text
begin

text \<open>
  The risk engine (\<^verbatim>\<open>core/security/risk\<close>: types, event, decision, frequency, engine, logger).  An event is
  judged by a scene's defaults, two lists and frequency rules, all answered by a store, which is a record of
  functions over a world; the counter, the clock and the writer of the logger are functions over the world too.
  Contexts are passed on by the code and not read, and are left out.
\<close>

section \<open>Data (types.go)\<close>

abbreviation "ActionAllow \<equiv> ''allow''"
abbreviation "ActionReview \<equiv> ''review''"
abbreviation "ActionCaptcha \<equiv> ''captcha''"
abbreviation "ActionLimit \<equiv> ''limit''"
abbreviation "ActionDeny \<equiv> ''deny''"
abbreviation "ActionBlock \<equiv> ''block''"

abbreviation "LevelLow \<equiv> ''low''"
abbreviation "LevelMedium \<equiv> ''medium''"
abbreviation "LevelHigh \<equiv> ''high''"
abbreviation "LevelCritical \<equiv> ''critical''"

text \<open>Only the statuses the engine sets.\<close>

datatype risk_status = StatusAllow | StatusHit | StatusBlocked

datatype rule_type = RuleTypeList | RuleTypeFrequency

datatype risk_error = ErrMissingStore | ErrCounterUnavailable | RiskExternal string

text \<open>The dynamic values the code distinguishes; a \<open>float64\<close> is the rational it stands for.\<close>

datatype risk_any = AnyText string | AnyInt int | AnyInt64 int | AnyFloat rat | AnyOther nat

type_synonym risk_map = "(string \<times> risk_any) list"

record risk_event =
  re_service :: string
  re_scene :: string
  re_event :: string
  re_level :: string
  re_subject_type :: string
  re_subject_id :: string
  re_uid :: string
  re_ip :: string
  re_device_id :: string
  re_track_id :: string
  re_trace_id :: string
  re_request_id :: string
  re_score :: int
  re_action :: string
  re_extra :: risk_map

record risk_scene =
  rn_service :: string
  rn_code :: string
  rn_default_level :: string
  rn_default_action :: string
  rn_score_threshold :: int

text \<open>What a rule or a list entry wants answered.\<close>

record risk_response =
  rp_code :: int
  rp_message :: string
  rp_action :: string
  rp_payload :: risk_map
  rp_http_status :: int

definition no_response :: risk_response where
  "no_response = \<lparr>rp_code = 0, rp_message = [], rp_action = [], rp_payload = [], rp_http_status = 0\<rparr>"

record list_rule =
  rl_id :: int
  rl_list_type :: string
  rl_target_type :: string
  rl_target_value :: string
  rl_scene :: string
  rl_reason :: string
  rl_response :: risk_response

record frequency_rule =
  rf_id :: int
  rf_code :: string
  rf_name :: string
  rf_event :: string
  rf_target_type :: string
  rf_window_seconds :: int
  rf_limit_count :: int
  rf_level :: string
  rf_action :: string
  rf_score :: int
  rf_response :: risk_response

record event_count_query =
  rq_service :: string
  rq_scene :: string
  rq_event :: string
  rq_target_type :: string
  rq_target_value :: string
  rq_since :: int

record counter_key =
  rk_service :: string
  rk_scene :: string
  rk_event :: string
  rk_target_type :: string
  rk_target_value :: string
  rk_window_seconds :: int

record hit_decision =
  rh_rule_id :: int
  rh_rule_code :: string
  rh_rule_name :: string
  rh_rule_type :: rule_type
  rh_level :: string
  rh_score :: int
  rh_action :: string
  rh_response :: risk_response
  rh_reason :: risk_map
  rh_snapshot :: risk_map

record risk_decision =
  rd_passed :: bool
  rd_event_id :: int
  rd_service :: string
  rd_scene :: string
  rd_event :: string
  rd_level :: string
  rd_score :: int
  rd_action :: string
  rd_status :: risk_status
  rd_response :: risk_response
  rd_reasons :: "risk_map list"
  rd_hits :: "hit_decision list"
  rd_created_at :: int

section \<open>Events (event.go)\<close>

fun first_nonblank :: "string list \<Rightarrow> string" where
  "first_nonblank [] = []"
| "first_nonblank (v # vs) = (if trim_space v \<noteq> [] then trim_space v else first_nonblank vs)"

definition normalize_risk_event :: "risk_event \<Rightarrow> risk_event" where
  "normalize_risk_event e = e\<lparr>
     re_service := first_nonblank [trim_space (re_service e), ''admin''],
     re_scene := trim_space (re_scene e), re_event := trim_space (re_event e), re_level := trim_space (re_level e),
     re_subject_type := trim_space (re_subject_type e), re_subject_id := trim_space (re_subject_id e),
     re_uid := trim_space (re_uid e), re_ip := trim_space (re_ip e), re_device_id := trim_space (re_device_id e),
     re_track_id := trim_space (re_track_id e), re_trace_id := trim_space (re_trace_id e),
     re_request_id := trim_space (re_request_id e), re_action := trim_space (re_action e)\<rparr>"

definition float_text :: "rat \<Rightarrow> string option" where
  "float_text v =
     (if v = of_int \<lfloor>v\<rfloor> \<and> - (2 ^ 63) \<le> v \<and> v < 2 ^ 63 then Some (int_text \<lfloor>v\<rfloor>) else None)"

definition nonempty_value :: "string \<Rightarrow> string option" where
  "nonempty_value v = (if v \<noteq> [] then Some v else None)"

text \<open>The value and whether there is one.\<close>

definition target_value :: "risk_event \<Rightarrow> string \<Rightarrow> string option" where
  "target_value e t =
     (if t = ''uid'' then nonempty_value (re_uid e)
      else if t = ''ip'' then nonempty_value (re_ip e)
      else if t = ''device_id'' then nonempty_value (re_device_id e)
      else if t = ''subject_id'' then nonempty_value (re_subject_id e)
      else (case map_of (re_extra e) t of
          None \<Rightarrow> None
        | Some (AnyText v) \<Rightarrow> nonempty_value (trim_space v)
        | Some (AnyInt64 v) \<Rightarrow> Some (int_text v)
        | Some (AnyInt v) \<Rightarrow> Some (int_text v)
        | Some (AnyFloat v) \<Rightarrow> float_text v
        | Some (AnyOther _) \<Rightarrow> None))"

definition text_target :: "risk_event \<Rightarrow> string \<Rightarrow> (string \<times> string) list" where
  "text_target e k =
     (case map_of (re_extra e) k of
        Some (AnyText v) \<Rightarrow> if trim_space v \<noteq> [] then [(k, trim_space v)] else []
      | _ \<Rightarrow> [])"

text \<open>\<open>TargetValues\<close>: the entries of the map.\<close>

definition target_values :: "risk_event \<Rightarrow> (string \<times> string) list" where
  "target_values e =
     (if re_uid e \<noteq> [] then [(''uid'', re_uid e)] else []) @
     (if re_ip e \<noteq> [] then [(''ip'', re_ip e)] else []) @
     (if re_device_id e \<noteq> [] then [(''device_id'', re_device_id e)] else []) @
     (if re_subject_id e \<noteq> [] then [(''subject_id'', re_subject_id e)] else []) @
     concat (map (text_target e) [''account'', ''mobile'', ''email''])"

section \<open>Decisions (decision.go)\<close>

definition apply_scene_defaults :: "risk_scene option \<Rightarrow> risk_decision \<Rightarrow> risk_decision" where
  "apply_scene_defaults scene d =
     (case scene of None \<Rightarrow> d
      | Some s \<Rightarrow>
          (let d = (if rn_default_level s \<noteq> [] \<and> rd_level d = LevelLow then d\<lparr>rd_level := rn_default_level s\<rparr> else d);
               d = (if rn_default_action s \<noteq> [] \<and> rd_action d = ActionAllow then d\<lparr>rd_action := rn_default_action s\<rparr> else d) in
           if rn_score_threshold s > 0 \<and> rd_score d < rn_score_threshold s
           then d\<lparr>rd_score := rn_score_threshold s\<rparr> else d))"

definition action_allows :: "string \<Rightarrow> bool" where
  "action_allows a \<longleftrightarrow> a = [] \<or> a = ActionAllow \<or> a = ActionReview"

definition action_priority :: "string \<Rightarrow> int" where
  "action_priority a =
     (if a = ActionBlock then 60 else if a = ActionDeny then 50 else if a = ActionLimit then 40
      else if a = ActionCaptcha then 30 else if a = ActionReview then 20 else if a = ActionAllow then 10 else 0)"

definition level_priority :: "string \<Rightarrow> int" where
  "level_priority l =
     (if l = LevelCritical then 40 else if l = LevelHigh then 30 else if l = LevelMedium then 20
      else if l = LevelLow then 10 else 0)"

definition should_use_response :: "risk_decision \<Rightarrow> hit_decision \<Rightarrow> bool" where
  "should_use_response d h =
     (if action_priority (rh_action h) > action_priority (rd_action d) then True
      else if action_priority (rh_action h) < action_priority (rd_action d) then False
      else rd_hits d = [] \<or> rh_score h > rd_score d)"

definition apply_hit :: "hit_decision \<Rightarrow> risk_decision \<Rightarrow> risk_decision" where
  "apply_hit h d =
     (let d = (if should_use_response d h then d\<lparr>rd_response := rh_response h\<rparr> else d);
          d = d\<lparr>rd_reasons := rd_reasons d @ [rh_reason h], rd_hits := rd_hits d @ [h]\<rparr>;
          d = (if rh_score h > rd_score d then d\<lparr>rd_score := rh_score h\<rparr> else d);
          d = (if level_priority (rh_level h) > level_priority (rd_level d) then d\<lparr>rd_level := rh_level h\<rparr> else d);
          d = (if action_priority (rh_action h) > action_priority (rd_action d) then d\<lparr>rd_action := rh_action h\<rparr> else d) in
      if action_allows (rd_action d) then d\<lparr>rd_passed := True, rd_status := StatusHit\<rparr>
      else d\<lparr>rd_passed := False, rd_status := StatusBlocked\<rparr>)"

section \<open>The logger (logger.go)\<close>

text \<open>
  The queue of the logger, the batch of its goroutine, whether that was started and whether it runs.  A copy
  of an event or a decision is the value itself.
\<close>

record risk_logger =
  lg_queue :: "(risk_event \<times> risk_decision) list"
  lg_queue_size :: nat
  lg_batch :: "(risk_event \<times> risk_decision) list"
  lg_batch_size :: nat
  lg_flush_interval :: int
  lg_started :: bool
  lg_running :: bool

record logger_config =
  lc_queue_size :: int
  lc_batch_size :: int
  lc_flush_interval :: int

definition new_risk_logger :: "logger_config \<Rightarrow> risk_logger" where
  "new_risk_logger cfg =
     \<lparr>lg_queue = [], lg_queue_size = (if lc_queue_size cfg \<le> 0 then 2048 else nat (lc_queue_size cfg)),
      lg_batch = [], lg_batch_size = (if lc_batch_size cfg \<le> 0 then 100 else nat (lc_batch_size cfg)),
      lg_flush_interval = (if lc_flush_interval cfg \<le> 0 then 200 * 10 ^ 6 else lc_flush_interval cfg),
      lg_started = False, lg_running = False\<rparr>"

definition push_decision :: "risk_event \<Rightarrow> risk_decision \<Rightarrow> risk_logger \<Rightarrow> bool \<times> risk_logger" where
  "push_decision e d l =
     (if length (lg_queue l) < lg_queue_size l then (True, l\<lparr>lg_queue := lg_queue l @ [(e, d)]\<rparr>) else (False, l))"

type_synonym 'w decision_writer = "(risk_event \<times> risk_decision) list \<Rightarrow> 'w \<Rightarrow> risk_error option \<times> 'w"

text \<open>An error of the writer is logged, and the records are gone.\<close>

definition flush_decisions :: "'w decision_writer \<Rightarrow> risk_logger \<Rightarrow> 'w \<Rightarrow> risk_logger \<times> 'w" where
  "flush_decisions write l w =
     (if lg_batch l = [] then (l, w) else (l\<lparr>lg_batch := []\<rparr>, snd (write (lg_batch l) w)))"

text \<open>\<open>Start\<close> starts the goroutine once, and only when there is a writer.\<close>

definition logger_start :: "'w decision_writer option \<Rightarrow> risk_logger \<Rightarrow> risk_logger" where
  "logger_start write l =
     (if write = None \<or> lg_started l then l else l\<lparr>lg_started := True, lg_running := True\<rparr>)"

text \<open>The cases of the loop of the goroutine: a record, a tick, and the end of its context.\<close>

definition logger_receive :: "'w decision_writer \<Rightarrow> risk_logger \<Rightarrow> 'w \<Rightarrow> risk_logger \<times> 'w" where
  "logger_receive write l w =
     (case lg_queue l of [] \<Rightarrow> (l, w)
      | r # rs \<Rightarrow>
          if \<not> lg_running l then (l, w)
          else (let l = l\<lparr>lg_queue := rs, lg_batch := lg_batch l @ [r]\<rparr> in
            if length (lg_batch l) \<ge> lg_batch_size l then flush_decisions write l w else (l, w)))"

definition logger_tick :: "'w decision_writer \<Rightarrow> risk_logger \<Rightarrow> 'w \<Rightarrow> risk_logger \<times> 'w" where
  "logger_tick write l w = (if lg_running l then flush_decisions write l w else (l, w))"

definition logger_shutdown :: "'w decision_writer \<Rightarrow> risk_logger \<Rightarrow> 'w \<Rightarrow> risk_logger \<times> 'w" where
  "logger_shutdown write l w =
     (if \<not> lg_running l then (l, w)
      else flush_decisions write (l\<lparr>lg_queue := [], lg_batch := lg_batch l @ lg_queue l, lg_running := False\<rparr>) w)"

section \<open>The engine (engine.go, frequency.go)\<close>

record 'w risk_store =
  rs_load_scene :: "string \<Rightarrow> string \<Rightarrow> 'w \<Rightarrow> (risk_error + risk_scene option) \<times> 'w"
  rs_match_list :: "risk_event \<Rightarrow> string \<Rightarrow> 'w \<Rightarrow> (risk_error + list_rule option) \<times> 'w"
  rs_frequency_rules :: "risk_event \<Rightarrow> 'w \<Rightarrow> (risk_error + frequency_rule list) \<times> 'w"
  rs_count_events :: "event_count_query \<Rightarrow> 'w \<Rightarrow> (risk_error + int) \<times> 'w"
  rs_save_decision :: "risk_event \<Rightarrow> risk_decision \<Rightarrow> 'w \<Rightarrow> risk_error option \<times> 'w"

type_synonym 'w risk_counter = "counter_key \<Rightarrow> 'w \<Rightarrow> (risk_error + int) \<times> 'w"

record 'w risk_engine =
  rg_store :: "'w risk_store option"
  rg_counter :: "'w risk_counter option"
  rg_now :: "'w \<Rightarrow> int \<times> 'w"

text \<open>The logger of an engine changes when decisions are pushed, and is part of the state of a run.\<close>

type_synonym 'w risk_state = "risk_logger option \<times> 'w"

type_synonym 'w engine_option = "'w risk_engine \<times> risk_logger option \<Rightarrow> 'w risk_engine \<times> risk_logger option"

definition with_now :: "('w \<Rightarrow> int \<times> 'w) option \<Rightarrow> 'w engine_option" where
  "with_now now = (\<lambda>(e, l). (case now of None \<Rightarrow> e | Some f \<Rightarrow> e\<lparr>rg_now := f\<rparr>, l))"

definition with_counter :: "'w risk_counter option \<Rightarrow> 'w engine_option" where
  "with_counter c = (\<lambda>(e, l). (e\<lparr>rg_counter := c\<rparr>, l))"

definition with_logger :: "risk_logger option \<Rightarrow> 'w engine_option" where
  "with_logger lg = (\<lambda>(e, l). (e, lg))"

text \<open>Nil options are skipped; \<open>clock\<close> is \<open>time.Now\<close>.\<close>

definition new_engine ::
  "('w \<Rightarrow> int \<times> 'w) \<Rightarrow> 'w risk_store option \<Rightarrow> 'w engine_option option list \<Rightarrow> 'w risk_engine \<times> risk_logger option" where
  "new_engine clock st opts =
     fold (\<lambda>opt x. case opt of None \<Rightarrow> x | Some f \<Rightarrow> f x) opts
       (\<lparr>rg_store = st, rg_counter = None, rg_now = clock\<rparr>, None)"

definition current_count ::
  "'w risk_engine \<Rightarrow> 'w risk_store \<Rightarrow> risk_event \<Rightarrow> frequency_rule \<Rightarrow> string \<Rightarrow> int \<Rightarrow> 'w \<Rightarrow> (risk_error + int) \<times> 'w" where
  "current_count eng st e r v now w =
     (let key = \<lparr>rk_service = re_service e, rk_scene = re_scene e, rk_event = rf_event r,
            rk_target_type = rf_target_type r, rk_target_value = v, rk_window_seconds = rf_window_seconds r\<rparr>;
          query = \<lparr>rq_service = re_service e, rq_scene = re_scene e, rq_event = rf_event r,
            rq_target_type = rf_target_type r, rq_target_value = v, rq_since = now - rf_window_seconds r * 10 ^ 9\<rparr>;
          (counted, w) = (case rg_counter eng of None \<Rightarrow> (Inl ErrCounterUnavailable, w) | Some c \<Rightarrow> c key w) in
      case counted of Inr n \<Rightarrow> (Inr n, w)
      | Inl _ \<Rightarrow>
          (case rs_count_events st query w of
             (Inl err, w) \<Rightarrow> (Inl err, w) | (Inr n, w) \<Rightarrow> (Inr (n + 1), w)))"

definition frequency_hit :: "risk_event \<Rightarrow> frequency_rule \<Rightarrow> string \<Rightarrow> int \<Rightarrow> hit_decision" where
  "frequency_hit e r v n =
     \<lparr>rh_rule_id = rf_id r, rh_rule_code = rf_code r, rh_rule_name = rf_name r, rh_rule_type = RuleTypeFrequency,
      rh_level = first_nonblank [rf_level r, LevelMedium], rh_score = rf_score r, rh_action = rf_action r,
      rh_response = rf_response r,
      rh_reason = [(''target_type'', AnyText (rf_target_type r)), (''target_value'', AnyText v),
        (''window'', AnyInt (rf_window_seconds r)), (''limit'', AnyInt (rf_limit_count r)), (''current_count'', AnyInt64 n)],
      rh_snapshot = [(''event'', AnyText (re_event e)), (''rule_event'', AnyText (rf_event r)),
        (''target_type'', AnyText (rf_target_type r)), (''target_value'', AnyText v),
        (''window_seconds'', AnyInt (rf_window_seconds r)), (''limit_count'', AnyInt (rf_limit_count r)),
        (''current_count'', AnyInt64 n)]\<rparr>"

fun evaluate_rules ::
  "'w risk_engine \<Rightarrow> 'w risk_store \<Rightarrow> risk_event \<Rightarrow> int \<Rightarrow> frequency_rule list \<Rightarrow> risk_decision \<Rightarrow> 'w \<Rightarrow>
   (risk_error + risk_decision) \<times> 'w" where
  "evaluate_rules eng st e now [] d w = (Inr d, w)"
| "evaluate_rules eng st e now (r # rs) d w =
     (case target_value e (rf_target_type r) of
        None \<Rightarrow> evaluate_rules eng st e now rs d w
      | Some v \<Rightarrow>
          (case current_count eng st e r v now w of
             (Inl err, w) \<Rightarrow> (Inl err, w)
           | (Inr n, w) \<Rightarrow>
               if n < rf_limit_count r then evaluate_rules eng st e now rs d w
               else evaluate_rules eng st e now rs (apply_hit (frequency_hit e r v n) d) w))"

definition evaluate_frequency_rules ::
  "'w risk_engine \<Rightarrow> 'w risk_store \<Rightarrow> risk_event \<Rightarrow> int \<Rightarrow> risk_decision \<Rightarrow> 'w \<Rightarrow> (risk_error + risk_decision) \<times> 'w" where
  "evaluate_frequency_rules eng st e now d w =
     (case rs_frequency_rules st e w of (Inl err, w) \<Rightarrow> (Inl err, w)
      | (Inr rules, w) \<Rightarrow> evaluate_rules eng st e now rules d w)"

definition list_reason :: "list_rule \<Rightarrow> risk_map" where
  "list_reason r =
     [(''list_type'', AnyText (rl_list_type r)), (''target_type'', AnyText (rl_target_type r)),
      (''target_value'', AnyText (rl_target_value r)), (''scene'', AnyText (rl_scene r)),
      (''reason'', AnyText (rl_reason r))]"

text \<open>The names of the two lists are Chinese, in UTF-8.\<close>

definition white_hit :: "list_rule \<Rightarrow> hit_decision" where
  "white_hit r = \<lparr>rh_rule_id = rl_id r, rh_rule_code = ''white_list'', rh_rule_name = map char_of [0xE7, 0x99, 0xBD, 0xE5, 0x90, 0x8D, 0xE5, 0x8D, 0x95 :: nat],
     rh_rule_type = RuleTypeList, rh_level = LevelLow, rh_score = 0, rh_action = ActionAllow,
     rh_response = rl_response r, rh_reason = list_reason r, rh_snapshot = []\<rparr>"

definition black_hit :: "list_rule \<Rightarrow> hit_decision" where
  "black_hit r = \<lparr>rh_rule_id = rl_id r, rh_rule_code = ''black_list'', rh_rule_name = map char_of [0xE9, 0xBB, 0x91, 0xE5, 0x90, 0x8D, 0xE5, 0x8D, 0x95 :: nat],
     rh_rule_type = RuleTypeList, rh_level = LevelHigh, rh_score = 100, rh_action = ActionDeny,
     rh_response = rl_response r, rh_reason = list_reason r, rh_snapshot = []\<rparr>"

definition initial_decision :: "risk_event \<Rightarrow> int \<Rightarrow> risk_decision" where
  "initial_decision e now =
     \<lparr>rd_passed = True, rd_event_id = 0, rd_service = re_service e, rd_scene = re_scene e, rd_event = re_event e,
      rd_level = first_nonblank [re_level e, LevelLow], rd_score = re_score e,
      rd_action = first_nonblank [re_action e, ActionAllow], rd_status = StatusAllow, rd_response = no_response,
      rd_reasons = [], rd_hits = [], rd_created_at = now\<rparr>"

definition save_decision ::
  "'w risk_store \<Rightarrow> risk_event \<Rightarrow> risk_decision \<Rightarrow> 'w risk_state \<Rightarrow> risk_error option \<times> 'w risk_state" where
  "save_decision st e d s =
     (let (lg, w) = s;
          (pushed, lg) = (case lg of None \<Rightarrow> (False, None)
            | Some l \<Rightarrow> (let (ok, l) = push_decision e d l in (ok, Some l))) in
      if pushed then (None, (lg, w))
      else (let (err, w) = rs_save_decision st e d w in (err, (lg, w))))"

text \<open>The judgement on a normalised event, before it is saved.\<close>

definition judge ::
  "'w risk_engine \<Rightarrow> 'w risk_store \<Rightarrow> risk_event \<Rightarrow> int \<Rightarrow> 'w \<Rightarrow> (risk_error + risk_decision) \<times> 'w" where
  "judge eng st e now w =
     (case rs_load_scene st (re_service e) (re_scene e) w of (Inl err, w) \<Rightarrow> (Inl err, w)
      | (Inr scene, w) \<Rightarrow>
          (let d = apply_scene_defaults scene (initial_decision e now) in
           case rs_match_list st e ''white'' w of (Inl err, w) \<Rightarrow> (Inl err, w)
           | (Inr (Some r), w) \<Rightarrow> (Inr (apply_hit (white_hit r) d), w)
           | (Inr None, w) \<Rightarrow>
               (case rs_match_list st e ''black'' w of (Inl err, w) \<Rightarrow> (Inl err, w)
                | (Inr b, w) \<Rightarrow>
                    (let d = (case b of None \<Rightarrow> d | Some r \<Rightarrow> apply_hit (black_hit r) d) in
                     evaluate_frequency_rules eng st e now d w))))"

text \<open>The decision, when there is one, and the error: \<open>Evaluate\<close> returns both when saving fails.\<close>

definition evaluate ::
  "'w risk_engine option \<Rightarrow> risk_event \<Rightarrow> 'w risk_state \<Rightarrow> (risk_decision option \<times> risk_error option) \<times> 'w risk_state" where
  "evaluate eng e s =
     (case Option.bind eng rg_store of None \<Rightarrow> ((None, Some ErrMissingStore), s)
      | Some st \<Rightarrow>
          (let (lg, w) = s;
               e = normalize_risk_event e;
               (now, w) = rg_now (the eng) w in
           case judge (the eng) st e now w of
             (Inl err, w) \<Rightarrow> ((None, Some err), (lg, w))
           | (Inr d, w) \<Rightarrow> (let (err, s) = save_decision st e d (lg, w) in ((Some d, err), s))))"

end
