(* ===== verification/Risk_Verdicts.thy ===== *)
theory Risk_Verdicts
  imports Risk_Engine
begin

text \<open>
  What is shown of the risk engine: a decision is the worst of its hits, for score, level and action; what
  the white list does; and no decision that the logger accepts is lost before it was handed to the writer.
\<close>

section \<open>Applying hits\<close>

definition apply_hits :: "hit_decision list \<Rightarrow> risk_decision \<Rightarrow> risk_decision" where
  "apply_hits hs d = fold apply_hit hs d"

lemma apply_hits_simps [simp]:
  "apply_hits [] d = d"
  "apply_hits (h # hs) d = apply_hits hs (apply_hit h d)"
  "apply_hits (gs @ hs) d = apply_hits hs (apply_hits gs d)"
  by (simp_all add: apply_hits_def)

lemma apply_hit_fields:
  "rd_hits (apply_hit h d) = rd_hits d @ [h]"
  "rd_reasons (apply_hit h d) = rd_reasons d @ [rh_reason h]"
  "rd_score (apply_hit h d) = max (rd_score d) (rh_score h)"
  "level_priority (rd_level (apply_hit h d)) = max (level_priority (rd_level d)) (level_priority (rh_level h))"
  "action_priority (rd_action (apply_hit h d)) = max (action_priority (rd_action d)) (action_priority (rh_action h))"
  "rd_passed (apply_hit h d) = action_allows (rd_action (apply_hit h d))"
  "rd_status (apply_hit h d) = (if action_allows (rd_action (apply_hit h d)) then StatusHit else StatusBlocked)"
  by (simp_all add: apply_hit_def Let_def max_def)

lemma apply_hit_action:
  "rd_action (apply_hit h d) =
     (if action_priority (rh_action h) > action_priority (rd_action d) then rh_action h else rd_action d)"
  by (simp add: apply_hit_def Let_def)


text \<open>The greatest of a number and those of a list.\<close>

definition worst :: "int \<Rightarrow> ('a \<Rightarrow> int) \<Rightarrow> 'a list \<Rightarrow> int" where
  "worst n f xs = Max (insert n (f ` set xs))"

lemma worst_simps [simp]: "worst n f [] = n" "worst n f (x # xs) = worst (max n (f x)) f xs"
proof -
  have "Max (insert n (insert (f x) (f ` set xs))) = Max (insert (max n (f x)) (f ` set xs))"
    by (cases "xs = []") (simp_all add: max.assoc)
  then show "worst n f (x # xs) = worst (max n (f x)) f xs" by (simp add: worst_def)
qed (simp add: worst_def)

lemma worst_ge: "n \<le> worst n f xs"
  by (induction xs arbitrary: n) (simp, metis max.bounded_iff worst_simps(2))




section \<open>The judgement\<close>



lemma scene_defaults_fields [simp]:
  "rd_hits (apply_scene_defaults scene d) = rd_hits d"
  "rd_reasons (apply_scene_defaults scene d) = rd_reasons d"
  "rd_passed (apply_scene_defaults scene d) = rd_passed d"
  "rd_status (apply_scene_defaults scene d) = rd_status d"
proof -
  show "rd_hits (apply_scene_defaults scene d) = rd_hits d"
    by (cases scene) (simp_all add: apply_scene_defaults_def Let_def if_distrib [of rd_hits])
  show "rd_reasons (apply_scene_defaults scene d) = rd_reasons d"
    by (cases scene) (simp_all add: apply_scene_defaults_def Let_def if_distrib [of rd_reasons])
  show "rd_passed (apply_scene_defaults scene d) = rd_passed d"
    by (cases scene) (simp_all add: apply_scene_defaults_def Let_def if_distrib [of rd_passed])
  show "rd_status (apply_scene_defaults scene d) = rd_status d"
    by (cases scene) (simp_all add: apply_scene_defaults_def Let_def if_distrib [of rd_status])
qed

lemma initial_fields [simp]:
  "rd_hits (initial_decision e now) = []" "rd_reasons (initial_decision e now) = []"
  "rd_passed (initial_decision e now)" "rd_status (initial_decision e now) = StatusAllow"
  by (simp_all add: initial_decision_def)


text \<open>A store that always gives the same answers.\<close>

definition constant_store ::
  "risk_scene option \<Rightarrow> list_rule option \<Rightarrow> list_rule option \<Rightarrow> frequency_rule list \<Rightarrow> int \<Rightarrow> unit risk_store" where
  "constant_store scene white black rules n =
     \<lparr>rs_load_scene = (\<lambda>_ _ w. (Inr scene, w)),
      rs_match_list = (\<lambda>_ t w. (Inr (if t = ''white'' then white else black), w)),
      rs_frequency_rules = (\<lambda>_ w. (Inr rules, w)), rs_count_events = (\<lambda>_ w. (Inr n, w)),
      rs_save_decision = (\<lambda>_ _ w. (None, w))\<rparr>"

definition plain_engine :: "unit risk_engine" where
  "plain_engine = \<lparr>rg_store = None, rg_counter = None, rg_now = (\<lambda>w. (0, w))\<rparr>"

definition sample_risk_event :: risk_event where
  "sample_risk_event = \<lparr>re_service = ''admin'', re_scene = ''login'', re_event = ''login'', re_level = [],
     re_subject_type = [], re_subject_id = [], re_uid = ''7'', re_ip = [], re_device_id = [], re_track_id = [],
     re_trace_id = [], re_request_id = [], re_score = 10, re_action = [], re_extra = []\<rparr>"


lemma trim_samples [simp]: "trim_space ''low'' = ''low''" "trim_space ''high'' = ''high''" "trim_space ''allow'' = ''allow''"
  "trim_space [] = []"
  by (rule trim_space_printable; simp)+


section \<open>The white list\<close>

lemma judge_white:
  assumes "rs_load_scene st (re_service e) (re_scene e) w = (Inr scene, w1)"
    "rs_match_list st e ''white'' w1 = (Inr (Some r), w2)"
  shows "judge eng st e now w = (Inr (apply_hit (white_hit r) (apply_scene_defaults scene (initial_decision e now))), w2)"
  using assms by (simp add: judge_def Let_def)

text \<open>
  Being on the white list can only hurt.  A white-listed event is judged by that hit alone, and if the default
  action of its scene or the event is a known one that does not allow, it is blocked with a score no less than its own;
  the same event, on no list and under no rule, passes.
\<close>

theorem white_list_does_not_override:
  assumes "rs_load_scene st (re_service e) (re_scene e) w = (Inr scene, w1)"
    and "\<not> action_allows (rd_action (apply_scene_defaults scene (initial_decision e now)))"
    and "action_priority (rd_action (apply_scene_defaults scene (initial_decision e now))) \<ge> 10"
  shows "(\<forall>r w2. rs_match_list st e ''white'' w1 = (Inr (Some r), w2) \<longrightarrow>
      (\<exists>d. judge eng st e now w = (Inr d, w2) \<and> rd_hits d = [white_hit r] \<and> \<not> rd_passed d \<and> rd_status d = StatusBlocked)) \<and>
    (\<forall>w2 w3 w4. rs_match_list st e ''white'' w1 = (Inr None, w2) \<and> rs_match_list st e ''black'' w2 = (Inr None, w3) \<and>
        rs_frequency_rules st e w3 = (Inr [], w4) \<longrightarrow>
      (\<exists>d. judge eng st e now w = (Inr d, w4) \<and> rd_hits d = [] \<and> rd_passed d \<and> rd_status d = StatusAllow))"
proof (intro conjI allI impI)
  let ?d = "apply_scene_defaults scene (initial_decision e now)"
  fix r w2
  assume "rs_match_list st e ''white'' w1 = (Inr (Some r), w2)"
  from judge_white [OF assms(1) this] have "judge eng st e now w = (Inr (apply_hit (white_hit r) ?d), w2)" .
  moreover have "rd_action (apply_hit (white_hit r) ?d) = rd_action ?d"
    using assms(3) by (simp add: apply_hit_action white_hit_def) (simp add: action_priority_def)
  ultimately show "\<exists>d. judge eng st e now w = (Inr d, w2) \<and> rd_hits d = [white_hit r] \<and> \<not> rd_passed d \<and> rd_status d = StatusBlocked"
    using assms(2) by (intro exI [of _ "apply_hit (white_hit r) ?d"]) (simp add: apply_hit_fields)
next
  fix w2 w3 w4
  assume "rs_match_list st e ''white'' w1 = (Inr None, w2) \<and> rs_match_list st e ''black'' w2 = (Inr None, w3) \<and>
    rs_frequency_rules st e w3 = (Inr [], w4)"
  then show "\<exists>d. judge eng st e now w = (Inr d, w4) \<and> rd_hits d = [] \<and> rd_passed d \<and> rd_status d = StatusAllow"
    using assms(1) by (simp add: judge_def evaluate_frequency_rules_def)
qed

definition closed_scene :: risk_scene where
  "closed_scene = \<lparr>rn_service = ''admin'', rn_code = ''login'', rn_default_level = [], rn_default_action = ''deny'',
     rn_score_threshold = 0\<rparr>"

definition sample_white :: list_rule where
  "sample_white = \<lparr>rl_id = 1, rl_list_type = ''white'', rl_target_type = ''uid'', rl_target_value = ''7'',
     rl_scene = ''login'', rl_reason = [], rl_response = no_response\<rparr>"

theorem white_list_does_not_override_witness:
  "(\<exists>d. judge plain_engine (constant_store (Some closed_scene) (Some sample_white) None [] 0) sample_risk_event 0 () = (Inr d, ()) \<and>
      \<not> rd_passed d) \<and>
   (\<exists>d. judge plain_engine (constant_store (Some closed_scene) None None [] 0) sample_risk_event 0 () = (Inr d, ()) \<and>
      rd_passed d)"
proof -
  have deny: "rd_action (apply_scene_defaults (Some closed_scene) (initial_decision sample_risk_event 0)) = ''deny''"
    by (simp add: apply_scene_defaults_def initial_decision_def closed_scene_def sample_risk_event_def Let_def)
  have d: "\<not> action_allows (rd_action (apply_scene_defaults (Some closed_scene) (initial_decision sample_risk_event 0)))"
    "action_priority (rd_action (apply_scene_defaults (Some closed_scene) (initial_decision sample_risk_event 0))) \<ge> 10"
    unfolding deny by (simp_all add: action_allows_def action_priority_def)
  have load: "rs_load_scene (constant_store (Some closed_scene) white None [] 0) (re_service sample_risk_event)
      (re_scene sample_risk_event) () = (Inr (Some closed_scene), ())" for white
    by (simp add: constant_store_def)
  note w = white_list_does_not_override [OF load d]
  have "\<exists>d. judge plain_engine (constant_store (Some closed_scene) (Some sample_white) None [] 0) sample_risk_event 0 () = (Inr d, ()) \<and>
      \<not> rd_passed d"
    using w [of "Some sample_white" plain_engine] by (auto simp: constant_store_def)
  moreover have "\<exists>d. judge plain_engine (constant_store (Some closed_scene) None None [] 0) sample_risk_event 0 () = (Inr d, ()) \<and>
      rd_passed d"
    using w [of None plain_engine] by (auto simp: constant_store_def)
  ultimately show ?thesis by blast
qed

section \<open>Decisions on their way to the writer\<close>

text \<open>What can happen to a logger; \<open>handed\<close> is what its writer was given so far.\<close>

datatype logger_event = LogPush risk_event risk_decision | LogStart | LogReceive | LogTick | LogShutdown

fun logger_step ::
  "'w decision_writer \<Rightarrow> logger_event \<Rightarrow> risk_logger \<times> 'w \<Rightarrow> risk_logger \<times> 'w" where
  "logger_step write (LogPush e d) (l, w) = (snd (push_decision e d l), w)"
| "logger_step write LogStart (l, w) = (logger_start (Some write) l, w)"
| "logger_step write LogReceive (l, w) = logger_receive write l w"
| "logger_step write LogTick (l, w) = logger_tick write l w"
| "logger_step write LogShutdown (l, w) = logger_shutdown write l w"

text \<open>A writer that notes what it is given, over the list of it.\<close>

definition noting :: "(risk_event \<times> risk_decision) list decision_writer" where
  "noting rs seen = (None, seen @ rs)"

fun accepted :: "logger_event list \<Rightarrow> risk_logger \<times> (risk_event \<times> risk_decision) list \<Rightarrow> (risk_event \<times> risk_decision) list" where
  "accepted [] s = []"
| "accepted (LogPush e d # evs) s =
     (if fst (push_decision e d (fst s)) then [(e, d)] else []) @ accepted evs (logger_step noting (LogPush e d) s)"
| "accepted (ev # evs) s = accepted evs (logger_step noting ev s)"

definition in_logger :: "risk_logger \<times> (risk_event \<times> risk_decision) list \<Rightarrow> (risk_event \<times> risk_decision) list" where
  "in_logger s = snd s @ lg_batch (fst s) @ lg_queue (fst s)"

lemma flush_in_logger: "in_logger (flush_decisions noting l w) = in_logger (l, w)"
  by (simp add: flush_decisions_def in_logger_def noting_def)

lemma logger_step_in_logger:
  "in_logger (logger_step noting ev (l, w)) = in_logger (l, w) @
     (case ev of LogPush e d \<Rightarrow> if fst (push_decision e d l) then [(e, d)] else [] | _ \<Rightarrow> [])"
proof (cases ev)
  case (LogPush e d)
  then show ?thesis by (simp add: push_decision_def in_logger_def)
next
  case LogReceive
  then show ?thesis
    by (cases "lg_queue l") (simp_all add: logger_receive_def flush_in_logger Let_def, simp_all add: in_logger_def)
next
  case LogStart
  then show ?thesis by (simp add: logger_start_def in_logger_def)
next
  case LogTick
  then show ?thesis by (simp add: logger_tick_def flush_in_logger)
next
  case LogShutdown
  then show ?thesis
    by (simp add: logger_shutdown_def flush_in_logger) (simp add: in_logger_def)
qed

text \<open>
  What a logger accepted was handed to its writer, or waits in its batch or its queue, in order and each once.
\<close>

lemma decisions_accounted:
  "in_logger (fold (logger_step noting) evs s) = in_logger s @ accepted evs s"
proof (induction evs arbitrary: s)
  case (Cons ev evs)
  obtain l w where s: "s = (l, w)" by (cases s)
  show ?case
    using logger_step_in_logger [of ev l w] Cons.IH [of "logger_step noting ev s"]
    by (cases ev) (simp_all add: s)
qed simp

text \<open>
  A goroutine that has ended, or was never started because \<open>Start\<close> was not called, is not started by anything that
  happens: a decision that is accepted then stays in the queue, although the engine takes it for saved.
\<close>

definition stopped :: "risk_logger \<Rightarrow> bool" where
  "stopped l \<longleftrightarrow> lg_started l \<and> \<not> lg_running l"

lemma logger_shutdown_stops: "lg_started l \<Longrightarrow> stopped (fst (logger_shutdown write l w))"
  by (simp add: stopped_def logger_shutdown_def flush_decisions_def)

lemma stopped_forever:
  assumes "stopped (fst s)"
  shows "stopped (fst (fold (logger_step write) evs s)) \<and> snd (fold (logger_step write) evs s) = snd s \<and>
    (\<exists>more. lg_queue (fst (fold (logger_step write) evs s)) = lg_queue (fst s) @ more)"
  using assms
proof (induction evs arbitrary: s)
  case (Cons ev evs)
  obtain l w where s: "s = (l, w)" by (cases s)
  let ?s = "logger_step write ev (l, w)"
  have step: "stopped (fst ?s) \<and> snd ?s = w \<and> (\<exists>more. lg_queue (fst ?s) = lg_queue l @ more)"
    using Cons.prems
    by (cases ev) (auto simp: s stopped_def push_decision_def logger_start_def logger_receive_def logger_tick_def
        logger_shutdown_def split: list.splits)
  with Cons.IH [of ?s] show ?case by (auto simp: s)
qed simp

lemma pushed_after_shutdown_waits:
  assumes "length (lg_queue l) < lg_queue_size l"
  shows "save_decision st e d (Some l, w) = (None, (Some (l\<lparr>lg_queue := lg_queue l @ [(e, d)]\<rparr>), w))"
  using assms by (simp add: save_decision_def push_decision_def)

end
