(* ===== verification/Cache_Memory.thy ===== *)
theory Cache_Memory
  imports Go_Text "HOL-Library.Word"
begin

text \<open>
  The in-memory cache (\<^verbatim>\<open>pkg/cache/memory/store.go\<close>).  Times are nanoseconds; the clock is an argument of each
  operation.  Each critical section is one step; \<open>Get\<close>, which has two, is also given as its two steps.
\<close>

section \<open>The store\<close>

text \<open>The zero time of an item, which never expires, is \<open>None\<close>.\<close>

record mem_item =
  mi_value :: string
  mi_expire :: "int option"

record mem_cache =
  mc_items :: "string \<rightharpoonup> mem_item"
  mc_closed :: bool

definition new_mem_cache :: mem_cache where
  "new_mem_cache = \<lparr>mc_items = Map.empty, mc_closed = False\<rparr>"

text \<open>\<open>!item.expire.IsZero() && now.After(item.expire)\<close>.\<close>

definition expired :: "int \<Rightarrow> mem_item \<Rightarrow> bool" where
  "expired now it = (case mi_expire it of None \<Rightarrow> False | Some e \<Rightarrow> now > e)"

definition deadline :: "int \<Rightarrow> int \<Rightarrow> int option" where
  "deadline now ttl = (if ttl > 0 then Some (now + ttl) else None)"

definition put_item :: "string \<Rightarrow> mem_item \<Rightarrow> mem_cache \<Rightarrow> mem_cache" where
  "put_item k it s = s\<lparr>mc_items := (mc_items s)(k \<mapsto> it)\<rparr>"

definition drop_item :: "string \<Rightarrow> mem_cache \<Rightarrow> mem_cache" where
  "drop_item k s = s\<lparr>mc_items := (mc_items s)(k := None)\<rparr>"

text \<open>The two critical sections of \<open>Get\<close>: reading the item, and deleting the key of an expired one.\<close>

definition get_read :: "string \<Rightarrow> mem_cache \<Rightarrow> mem_item option" where
  "get_read k s = mc_items s k"

definition get_finish :: "int \<Rightarrow> string \<Rightarrow> mem_item option \<Rightarrow> mem_cache \<Rightarrow> string \<times> mem_cache" where
  "get_finish now k found s =
     (case found of None \<Rightarrow> ([], s)
      | Some it \<Rightarrow> if expired now it then ([], drop_item k s) else (mi_value it, s))"

definition mem_get :: "int \<Rightarrow> string \<Rightarrow> mem_cache \<Rightarrow> string \<times> mem_cache" where
  "mem_get now k s = get_finish now k (get_read k s) s"

definition mem_set :: "int \<Rightarrow> string \<Rightarrow> string \<Rightarrow> int \<Rightarrow> mem_cache \<Rightarrow> mem_cache" where
  "mem_set now k v ttl s = put_item k \<lparr>mi_value = v, mi_expire = deadline now ttl\<rparr> s"

definition mem_del :: "string list \<Rightarrow> mem_cache \<Rightarrow> mem_cache" where
  "mem_del ks s = fold drop_item ks s"

definition mem_exists :: "int \<Rightarrow> string list \<Rightarrow> mem_cache \<Rightarrow> int" where
  "mem_exists now ks s =
     fold (\<lambda>k count. case mc_items s k of None \<Rightarrow> count
       | Some it \<Rightarrow> (case mi_expire it of None \<Rightarrow> count + 1 | Some e \<Rightarrow> if now < e then count + 1 else count)) ks 0"

subsection \<open>Counting in 64 bits\<close>

text \<open>The loop of \<open>Incr\<close> over the characters of the value, in \<open>int64\<close>.\<close>

fun parse_count :: "string \<Rightarrow> 64 word \<Rightarrow> 64 word" where
  "parse_count [] n = n"
| "parse_count (c # cs) n =
     parse_count cs (if 48 \<le> (of_char c :: nat) \<and> (of_char c :: nat) \<le> 57
       then n * 10 + of_nat (text_digit c) else n)"

text \<open>The loop of \<open>formatInt\<close>.\<close>

fun format_digits :: "nat \<Rightarrow> string \<Rightarrow> string" where
  "format_digits n s = (if n > 0 then format_digits (n div 10) (digit_char (n mod 10) # s) else s)"

declare format_digits.simps [simp del]

definition format_int :: "64 word \<Rightarrow> string" where
  "format_int n =
     (if n = 0 then ''0''
      else
        (let neg = sint n < 0;
             n = (if neg then - n else n);
             s = (if sint n > 0 then format_digits (nat (sint n)) [] else []) in
         if neg then CHR ''-'' # s else s))"

definition mem_incr :: "int \<Rightarrow> string \<Rightarrow> mem_cache \<Rightarrow> 64 word \<times> mem_cache" where
  "mem_incr now k s =
     (case mc_items s k of
        None \<Rightarrow> (1, put_item k \<lparr>mi_value = ''1'', mi_expire = None\<rparr> s)
      | Some it \<Rightarrow>
          if expired now it then (1, put_item k \<lparr>mi_value = ''1'', mi_expire = None\<rparr> s)
          else (let n = parse_count (mi_value it) 0 + 1 in (n, put_item k (it\<lparr>mi_value := format_int n\<rparr>) s)))"

subsection \<open>Expiry and the operations on many keys\<close>

definition mem_ttl :: "int \<Rightarrow> string \<Rightarrow> mem_cache \<Rightarrow> int" where
  "mem_ttl now k s =
     (case mc_items s k of None \<Rightarrow> -2
      | Some it \<Rightarrow> (case mi_expire it of None \<Rightarrow> -1 | Some e \<Rightarrow> let d = e - now in if d \<le> 0 then -2 else d))"

definition mem_expire :: "int \<Rightarrow> string \<Rightarrow> int \<Rightarrow> mem_cache \<Rightarrow> mem_cache" where
  "mem_expire now k ttl s =
     (case mc_items s k of None \<Rightarrow> s
      | Some it \<Rightarrow> if expired now it then drop_item k s else put_item k (it\<lparr>mi_expire := deadline now ttl\<rparr>) s)"

text \<open>The result map as the list of its entries, later ones overriding earlier ones of the same key.\<close>

fun mem_gets :: "int \<Rightarrow> string list \<Rightarrow> mem_cache \<Rightarrow> (string \<rightharpoonup> string) \<times> string list" where
  "mem_gets now [] s = (Map.empty, [])"
| "mem_gets now (k # ks) s =
     (let (result, missing) = mem_gets now ks s in
      case mc_items s k of None \<Rightarrow> (result, k # missing)
      | Some it \<Rightarrow> if expired now it then (result, k # missing) else (result(k \<mapsto> mi_value it), missing))"

definition mem_sets :: "int \<Rightarrow> (string \<times> string) list \<Rightarrow> int \<Rightarrow> mem_cache \<Rightarrow> mem_cache" where
  "mem_sets now kvs ttl s =
     fold (\<lambda>(k, v). put_item k \<lparr>mi_value = v, mi_expire = deadline now ttl\<rparr>) kvs s"

definition mem_delete :: "string list \<Rightarrow> mem_cache \<Rightarrow> mem_cache" where
  "mem_delete ks s = fold drop_item ks s"

definition mem_close :: "mem_cache \<Rightarrow> mem_cache" where
  "mem_close s = s\<lparr>mc_closed := True\<rparr>"

text \<open>A tick of the goroutine that cleans up; it has ended when the store is closed.\<close>

definition mem_cleanup :: "int \<Rightarrow> mem_cache \<Rightarrow> mem_cache" where
  "mem_cleanup now s =
     (if mc_closed s then s
      else s\<lparr>mc_items := (\<lambda>k. case mc_items s k of None \<Rightarrow> None | Some it \<Rightarrow> if expired now it then None else Some it)\<rparr>)"

section \<open>Counting\<close>

lemma format_digits_text: "n > 0 \<Longrightarrow> format_digits n s = nat_text n @ s"
proof (induction n arbitrary: s rule: less_induct)
  case (less n)
  show ?case
  proof (cases "n < 10")
    case True
    then have "n div 10 = 0" "n mod 10 = n" by simp_all
    with less.prems True show ?thesis
      by (simp add: format_digits.simps [of n] format_digits.simps [of 0] nat_text_small)
  next
    case False
    then have "n div 10 < n" "n div 10 > 0" by simp_all
    with less show ?thesis
      by (simp add: format_digits.simps [of n] nat_text_big [OF False])
  qed
qed

lemma parse_count_digits: "parse_count cs (of_nat n) = of_nat (read_digits cs n)"
proof (induction cs arbitrary: n)
  case (Cons c cs)
  have "(of_nat n :: 64 word) * 10 + of_nat (text_digit c) = of_nat (n * 10 + text_digit c)" by simp
  with Cons.IH show ?case by (simp del: of_nat_add of_nat_mult)
qed simp

lemma sint_small: "n < 2 ^ 63 \<Longrightarrow> sint (of_nat n :: 64 word) = int n"
  by (simp add: signed_of_nat signed_take_bit_int_eq_self)

lemma format_int_nat:
  assumes "n < 2 ^ 63"
  shows "format_int (of_nat n) = nat_text n"
proof (cases "n = 0")
  case True
  then show ?thesis by (simp add: format_int_def nat_text_small digit_char_0)
next
  case False
  have u: "unat (of_nat n :: 64 word) = n" using assms by (simp add: unat_of_nat take_bit_nat_eq_self)
  have s: "sint (of_nat n :: 64 word) = int n" using assms by (rule sint_small)
  have "(of_nat n :: 64 word) \<noteq> 0" using u False by (metis unat_0)
  with s False show ?thesis by (simp add: format_int_def format_digits_text)
qed

lemma nat_text_one: "nat_text 1 = ''1''"
  by (simp add: nat_text_small digit_char_1 del: One_nat_def)

text \<open>
  Counting is exact.  A counter that holds the decimal text of a number below the largest \<open>int64\<close> and has not
  expired is one higher after \<open>Incr\<close>, in the text and in the result, and keeps its deadline; a counter that is
  missing or expired starts at one, without a deadline.
\<close>

lemma incr_counts:
  "(\<forall>it. mc_items s k = Some it \<and> \<not> expired now it \<and> mi_value it = nat_text n \<and> n < 2 ^ 63 - 1 \<longrightarrow>
      mem_incr now k s = (of_nat (n + 1), put_item k (it\<lparr>mi_value := nat_text (n + 1)\<rparr>) s) \<and>
      sint (fst (mem_incr now k s)) = int n + 1) \<and>
   ((mc_items s k = None \<or> (\<exists>it. mc_items s k = Some it \<and> expired now it)) \<longrightarrow>
      mem_incr now k s = (1, put_item k \<lparr>mi_value = nat_text 1, mi_expire = None\<rparr> s))"
proof (intro conjI allI impI; (elim conjE)?)
  fix it
  assume it: "mc_items s k = Some it" "\<not> expired now it" "mi_value it = nat_text n" "n < 2 ^ 63 - 1"
  then have n: "n + 1 < 2 ^ 63" by simp
  have parse: "parse_count (nat_text n) 0 + 1 = (of_nat (n + 1) :: 64 word)"
    using parse_count_digits [of "nat_text n" 0] by simp
  show run: "mem_incr now k s = (of_nat (n + 1), put_item k (it\<lparr>mi_value := nat_text (n + 1)\<rparr>) s)"
    using it unfolding mem_incr_def it(1) option.case it(3) parse Let_def format_int_nat [OF n] by simp
  have "sint (fst (mem_incr now k s)) = int (n + 1)" by (simp only: run fst_conv sint_small [OF n])
  then show "sint (fst (mem_incr now k s)) = int n + 1" by simp
next
  assume "mc_items s k = None \<or> (\<exists>it. mc_items s k = Some it \<and> expired now it)"
  then show "mem_incr now k s = (1, put_item k \<lparr>mi_value = nat_text 1, mi_expire = None\<rparr> s)"
    using nat_text_one by (auto simp: mem_incr_def)
qed

text \<open>A minus sign is not read: a counter set to a negative number goes on from its absolute value.\<close>

lemma incr_forgets_the_sign:
  "fst (mem_incr now k (mem_set now k (CHR ''-'' # nat_text n) 0 s)) = of_nat (n + 1)"
  using parse_count_digits [of "nat_text n" 0]
  by (simp add: mem_incr_def mem_set_def put_item_def deadline_def expired_def Let_def)

section \<open>The store is a map whose entries end\<close>

text \<open>
  What a cache promises: a map from keys to values with deadlines, from which an entry disappears when its deadline is
  past.  The operations of the specification work on the entries that are left.
\<close>

type_synonym ttl_map = "string \<rightharpoonup> string \<times> int option"

definition past :: "int \<Rightarrow> int option \<Rightarrow> bool" where
  "past now d = (case d of None \<Rightarrow> False | Some e \<Rightarrow> now > e)"

definition alive :: "int \<Rightarrow> ttl_map \<Rightarrow> ttl_map" where
  "alive now m = (\<lambda>k. case m k of None \<Rightarrow> None | Some (v, d) \<Rightarrow> if past now d then None else Some (v, d))"

definition ttl_of :: "int \<Rightarrow> int option \<Rightarrow> int" where
  "ttl_of now d = (case d of None \<Rightarrow> -1 | Some e \<Rightarrow> if e \<le> now then -2 else e - now)"

datatype cache_op =
    CacheGet string | CacheSet string string int | CacheDel "string list" | CacheExists "string list"
  | CacheIncr string | CacheTTL string | CacheExpire string int | CacheGets "string list"
  | CacheSets "(string \<times> string) list" int | CacheDelete "string list" | CacheTick | CacheClose

datatype cache_out =
    OutNone | OutString string | OutInt int | OutCount "64 word" | OutMany "string \<rightharpoonup> string" "string list"

fun mem_step :: "int \<Rightarrow> cache_op \<Rightarrow> mem_cache \<Rightarrow> cache_out \<times> mem_cache" where
  "mem_step now (CacheGet k) s = (let (v, s) = mem_get now k s in (OutString v, s))"
| "mem_step now (CacheSet k v ttl) s = (OutNone, mem_set now k v ttl s)"
| "mem_step now (CacheDel ks) s = (OutNone, mem_del ks s)"
| "mem_step now (CacheExists ks) s = (OutInt (mem_exists now ks s), s)"
| "mem_step now (CacheIncr k) s = (let (n, s) = mem_incr now k s in (OutCount n, s))"
| "mem_step now (CacheTTL k) s = (OutInt (mem_ttl now k s), s)"
| "mem_step now (CacheExpire k ttl) s = (OutNone, mem_expire now k ttl s)"
| "mem_step now (CacheGets ks) s = (let (r, ms) = mem_gets now ks s in (OutMany r ms, s))"
| "mem_step now (CacheSets kvs ttl) s = (OutNone, mem_sets now kvs ttl s)"
| "mem_step now (CacheDelete ks) s = (OutNone, mem_delete ks s)"
| "mem_step now CacheTick s = (OutNone, mem_cleanup now s)"
| "mem_step now CacheClose s = (OutNone, mem_close s)"

text \<open>The specification; \<open>m\<close> holds the entries that are left at \<open>now\<close>.\<close>

fun spec_step :: "int \<Rightarrow> cache_op \<Rightarrow> ttl_map \<Rightarrow> cache_out \<times> ttl_map" where
  "spec_step now (CacheGet k) m = (OutString (case m k of None \<Rightarrow> [] | Some (v, _) \<Rightarrow> v), m)"
| "spec_step now (CacheSet k v ttl) m = (OutNone, m(k \<mapsto> (v, deadline now ttl)))"
| "spec_step now (CacheDel ks) m = (OutNone, m |` (- set ks))"
| "spec_step now (CacheExists ks) m =
     (OutInt (sum_list (map (\<lambda>k. case m k of None \<Rightarrow> 0 | Some (_, d) \<Rightarrow> if ttl_of now d = -2 then 0 else 1) ks)), m)"
| "spec_step now (CacheIncr k) m =
     (case m k of None \<Rightarrow> (OutCount 1, m(k \<mapsto> (''1'', None)))
      | Some (v, d) \<Rightarrow> (let n = parse_count v 0 + 1 in (OutCount n, m(k \<mapsto> (format_int n, d)))))"
| "spec_step now (CacheTTL k) m = (OutInt (case m k of None \<Rightarrow> -2 | Some (_, d) \<Rightarrow> ttl_of now d), m)"
| "spec_step now (CacheExpire k ttl) m =
     (OutNone, case m k of None \<Rightarrow> m | Some (v, _) \<Rightarrow> m(k \<mapsto> (v, deadline now ttl)))"
| "spec_step now (CacheGets ks) m =
     (OutMany (\<lambda>k. if k \<in> set ks then map_option fst (m k) else None) (filter (\<lambda>k. m k = None) ks), m)"
| "spec_step now (CacheSets kvs ttl) m = (OutNone, m ++ map_of (map (\<lambda>(k, v). (k, (v, deadline now ttl))) (rev kvs)))"
| "spec_step now (CacheDelete ks) m = (OutNone, m |` (- set ks))"
| "spec_step now CacheTick m = (OutNone, m)"
| "spec_step now CacheClose m = (OutNone, m)"

text \<open>The entries a store has left.\<close>

definition live_at :: "int \<Rightarrow> mem_cache \<Rightarrow> ttl_map" where
  "live_at now s = (\<lambda>k. case mc_items s k of None \<Rightarrow> None
     | Some it \<Rightarrow> if expired now it then None else Some (mi_value it, mi_expire it))"

lemma past_expired: "past now (mi_expire it) = expired now it"
  by (simp add: past_def expired_def)

lemma past_deadline [simp]: "\<not> past now (deadline now ttl)"
  by (simp add: past_def deadline_def)

lemma live_later: "now \<le> t \<Longrightarrow> alive t (live_at now s) = live_at t s"
  by (fastforce simp: alive_def live_at_def past_def expired_def fun_eq_iff split: option.splits)

lemma live_put: "live_at now (put_item k it s) =
    (if expired now it then (live_at now s)(k := None) else (live_at now s)(k \<mapsto> (mi_value it, mi_expire it)))"
  by (auto simp: live_at_def put_item_def fun_eq_iff)

lemma live_drop: "live_at now (drop_item k s) = (live_at now s)(k := None)"
  by (auto simp: live_at_def drop_item_def fun_eq_iff)

lemma live_drops: "live_at now (fold drop_item ks s) = live_at now s |` (- set ks)"
proof (induction ks arbitrary: s)
  case (Cons k ks)
  then show ?case by (auto simp: live_drop restrict_map_def fun_eq_iff)
qed (simp add: restrict_map_def)

lemma live_Some: "live_at now s k = Some (v, d) \<longleftrightarrow>
    (\<exists>it. mc_items s k = Some it \<and> \<not> expired now it \<and> v = mi_value it \<and> d = mi_expire it)"
  by (auto simp: live_at_def split: option.splits)

lemma live_None: "live_at now s k = None \<longleftrightarrow> (\<forall>it. mc_items s k = Some it \<longrightarrow> expired now it)"
  by (auto simp: live_at_def split: option.splits)

lemma live_sets:
  "live_at now (mem_sets now kvs ttl s) = live_at now s ++ map_of (map (\<lambda>(k, v). (k, (v, deadline now ttl))) (rev kvs))"
proof (induction kvs arbitrary: s)
  case (Cons kv kvs)
  obtain k v where kv: "kv = (k, v)" by (cases kv)
  have "expired now \<lparr>mi_value = v, mi_expire = deadline now ttl\<rparr> = False"
    by (simp add: past_expired [symmetric])
  with Cons show ?case
    by (simp add: kv mem_sets_def live_put) (auto simp: fun_eq_iff map_add_def split: option.splits)
qed (simp add: mem_sets_def)

lemma exists_spec:
  "mem_exists now ks s = sum_list (map (\<lambda>k. case live_at now s k of None \<Rightarrow> 0
      | Some (_, d) \<Rightarrow> if ttl_of now d = -2 then 0 else 1) ks)"
proof -
  let ?f = "\<lambda>k. case live_at now s k of None \<Rightarrow> 0 | Some (_, d) \<Rightarrow> if ttl_of now d = -2 then 0 else (1 :: int)"
  have one: "(case mc_items s k of None \<Rightarrow> count
       | Some it \<Rightarrow> (case mi_expire it of None \<Rightarrow> count + 1 | Some e \<Rightarrow> if now < e then count + 1 else count)) =
      count + ?f k" for k and count :: int
    by (auto simp: live_at_def expired_def ttl_of_def split: option.splits)
  have "fold (\<lambda>k count. case mc_items s k of None \<Rightarrow> count
       | Some it \<Rightarrow> (case mi_expire it of None \<Rightarrow> count + 1 | Some e \<Rightarrow> if now < e then count + 1 else count)) ks c =
      c + sum_list (map ?f ks)" for c
    unfolding one by (induction ks arbitrary: c) simp_all
  then show ?thesis by (simp add: mem_exists_def)
qed

lemma gets_spec:
  "mem_gets now ks s = ((\<lambda>k. if k \<in> set ks then map_option fst (live_at now s k) else None),
     filter (\<lambda>k. live_at now s k = None) ks)"
proof (induction ks)
  case (Cons k ks)
  then show ?case by (auto simp: live_at_def fun_eq_iff split: option.splits)
qed simp

lemma ttl_spec:
  "mem_ttl now k s = (case live_at now s k of None \<Rightarrow> -2 | Some (_, d) \<Rightarrow> ttl_of now d)"
  by (auto simp: mem_ttl_def live_at_def expired_def ttl_of_def Let_def split: option.splits)

lemma cleanup_spec: "live_at now (mem_cleanup now s) = live_at now s"
  by (auto simp: live_at_def mem_cleanup_def fun_eq_iff split: option.splits)

text \<open>The three cases of an item under a key.\<close>

lemma item_cases:
  obtains (missing) "mc_items s k = None" "live_at now s k = None"
  | (over) it where "mc_items s k = Some it" "expired now it" "live_at now s k = None"
  | (live) it where "mc_items s k = Some it" "\<not> expired now it" "live_at now s k = Some (mi_value it, mi_expire it)"
  by (cases "mc_items s k") (auto simp: live_at_def)

lemma drop_missing: "live_at now s k = None \<Longrightarrow> (live_at now s)(k := None) = live_at now s"
  by auto

lemma incr_spec:
  "(let (n, s') = mem_incr now k s in (OutCount n, live_at now s')) = spec_step now (CacheIncr k) (live_at now s)"
proof (cases rule: item_cases [of s k now])
  case missing
  then show ?thesis by (simp add: mem_incr_def live_put expired_def)
next
  case (over it)
  then show ?thesis by (simp add: mem_incr_def live_put) (simp add: expired_def)
next
  case (live it)
  then show ?thesis by (simp add: mem_incr_def live_put Let_def) (simp add: expired_def)
qed

lemma get_spec:
  "(let (v, s') = mem_get now k s in (OutString v, live_at now s')) = spec_step now (CacheGet k) (live_at now s)"
  by (cases rule: item_cases [of s k now])
    (simp_all add: mem_get_def get_finish_def get_read_def live_drop drop_missing)

lemma expire_spec:
  "live_at now (mem_expire now k ttl s) = snd (spec_step now (CacheExpire k ttl) (live_at now s))"
  by (cases rule: item_cases [of s k now])
    (simp_all add: mem_expire_def live_drop drop_missing live_put past_expired [symmetric])

text \<open>One step of the store is one step of the specification.\<close>

lemma mem_step_spec:
  "(fst (mem_step now op s), live_at now (snd (mem_step now op s))) = spec_step now op (live_at now s)"
proof (cases op)
  case (CacheGet k)
  with get_spec [of now k s] show ?thesis by (auto simp: Let_def split: prod.splits)
next
  case (CacheSet k v ttl)
  then show ?thesis by (simp add: mem_set_def live_put past_expired [symmetric])
next
  case (CacheIncr k)
  with incr_spec [of now k s] show ?thesis by (auto simp: Let_def split: prod.splits)
next
  case (CacheExpire k ttl)
  with expire_spec [of now k ttl s] show ?thesis by simp
next
  case CacheClose
  then show ?thesis by (simp add: mem_close_def live_at_def)
qed (simp_all add: mem_del_def mem_delete_def live_drops exists_spec gets_spec ttl_spec live_sets cleanup_spec)

fun mem_run :: "(int \<times> cache_op) list \<Rightarrow> mem_cache \<Rightarrow> cache_out list" where
  "mem_run [] s = []"
| "mem_run ((t, op) # ops) s = (let (out, s) = mem_step t op s in out # mem_run ops s)"

fun spec_run :: "(int \<times> cache_op) list \<Rightarrow> ttl_map \<Rightarrow> cache_out list" where
  "spec_run [] m = []"
| "spec_run ((t, op) # ops) m = (let (out, m) = spec_step t op (alive t m) in out # spec_run ops m)"

lemma mem_run_spec:
  "sorted (map fst ops) \<Longrightarrow> \<forall>t \<in> fst ` set ops. now \<le> t \<Longrightarrow> mem_run ops s = spec_run ops (live_at now s)"
proof (induction ops arbitrary: now s)
  case (Cons x ops)
  obtain t op where x: "x = (t, op)" by (cases x)
  obtain out s' where step: "mem_step t op s = (out, s')" by (cases "mem_step t op s")
  have "alive t (live_at now s) = live_at t s" using Cons.prems(2) by (simp add: x live_later)
  then have "spec_step t op (alive t (live_at now s)) = (out, live_at t s')"
    using mem_step_spec [of t op s] by (simp add: step)
  moreover have "mem_run ops s' = spec_run ops (live_at t s')"
    using Cons.prems by (intro Cons.IH) (auto simp: x)
  ultimately show ?case by (simp add: x step)
qed simp

text \<open>
  C17: the memory cache is the map its interface promises.  For every sequence of operations by a clock that does
  not go back, with the goroutine that cleans up running at any moments in between, the answers are those of a map whose
  entries end with their deadlines: looking up does not matter, nor does cleaning up or closing.
\<close>

theorem memory_cache_refines_ttl_map:
  assumes "sorted (map fst ops)"
  shows "mem_run ops new_mem_cache = spec_run ops Map.empty"
proof (cases ops)
  case (Cons x xs)
  have "live_at (fst x) new_mem_cache = Map.empty" by (simp add: live_at_def new_mem_cache_def)
  moreover have "\<forall>t \<in> fst ` set ops. fst x \<le> t" using assms by (auto simp: Cons)
  ultimately show ?thesis using mem_run_spec [OF assms, of "fst x" new_mem_cache] by simp
qed simp

theorem memory_cache_refines_ttl_map_witness:
  "mem_run [(0, CacheSet ''a'' ''x'' 5), (5, CacheGet ''a''), (5, CacheTTL ''a''), (6, CacheTick), (6, CacheGet ''a'')]
     new_mem_cache = [OutNone, OutString ''x'', OutInt (-2), OutNone, OutString []]"
proof -
  have "sorted (map fst [(0 :: int, CacheSet ''a'' ''x'' 5), (5, CacheGet ''a''), (5, CacheTTL ''a''), (6, CacheTick),
      (6, CacheGet ''a'')])" by simp
  from memory_cache_refines_ttl_map [OF this] show ?thesis
    by (simp add: deadline_def alive_def past_def ttl_of_def)
qed

section \<open>The two steps of a look-up\<close>

text \<open>
  A value that is set between the two steps of a look-up which found an expired item is deleted by the second
  step: right after the \<open>Set\<close> returned, the key is gone.
\<close>

lemma expired_get_deletes_fresh_value:
  assumes "mc_items s k = Some it" "expired now it" "now \<le> t"
  shows "fst (mem_get t' k (snd (get_finish now k (get_read k s) (mem_set t k v ttl s)))) = []"
  using assms
  by (simp add: get_read_def get_finish_def mem_get_def drop_item_def)

end
