(* ===== verification/Risk_Cache.thy ===== *)
theory Risk_Cache
  imports Risk_Engine Cache_Memory "HOL-Library.List_Lexorder" "HOL-Library.Char_ord"
begin

text \<open>
  The cache in front of the store of the risk engine (\<^verbatim>\<open>core/security/risk/cache/store.go\<close>) and the counter over a
  cache (\<^verbatim>\<open>core/security/risk/counter.go\<close>).  \<open>hash\<close> is the hexadecimal SHA-256 of a text; nothing rests on which
  function it is.  JSON is a pair of functions for each type that is cached.
\<close>

section \<open>Keys\<close>

text \<open>What is hashed: every part is followed by a zero byte.\<close>

definition framed :: "string list \<Rightarrow> string" where
  "framed parts = concat (map (\<lambda>p. p @ [CHR 0x00]) parts)"

definition risk_cache_key :: "(string \<Rightarrow> string) \<Rightarrow> string \<Rightarrow> string list \<Rightarrow> string" where
  "risk_cache_key hash kind parts = ''security:risk:config:'' @ kind @ '':'' @ hash (framed parts)"

text \<open>\<open>targets\<close> is a map whose keys are walked in sorted order.\<close>

definition target_signature :: "(string \<Rightarrow> string) \<Rightarrow> risk_event \<Rightarrow> string" where
  "target_signature hash e =
     (let targets = target_values e in
      if targets = [] then []
      else nat_text (length targets) @ '':'' @
        hash (framed (concat (map (\<lambda>(k, v). [k, v]) (sort_key fst targets)))))"

definition scene_key :: "(string \<Rightarrow> string) \<Rightarrow> string \<Rightarrow> string \<Rightarrow> string" where
  "scene_key hash service scene = risk_cache_key hash ''scene'' [service, scene]"

definition list_key :: "(string \<Rightarrow> string) \<Rightarrow> risk_event \<Rightarrow> string \<Rightarrow> string" where
  "list_key hash e t = risk_cache_key hash ''list'' [re_service e, re_scene e, t, target_signature hash e]"

definition rules_key :: "(string \<Rightarrow> string) \<Rightarrow> risk_event \<Rightarrow> string" where
  "rules_key hash e = risk_cache_key hash ''frequency'' [re_service e, re_scene e, re_event e]"

section \<open>The cached store\<close>

record 'w cache_backend =
  cb_get :: "string \<Rightarrow> 'w \<Rightarrow> (risk_error + string) \<times> 'w"
  cb_set :: "string \<Rightarrow> string \<Rightarrow> int \<Rightarrow> 'w \<Rightarrow> risk_error option \<times> 'w"

record 'v cached_value =
  cv_hit :: bool
  cv_value :: 'v

text \<open>\<open>json.Marshal\<close> and \<open>json.Unmarshal\<close>, either of which may fail.\<close>

record 'v json_codec =
  js_write :: "'v cached_value \<Rightarrow> string option"
  js_read :: "string \<Rightarrow> 'v cached_value option"

definition cache_read ::
  "'v json_codec \<Rightarrow> 'w cache_backend \<Rightarrow> string \<Rightarrow> 'w \<Rightarrow> 'v cached_value option \<times> 'w" where
  "cache_read js b key w =
     (case cb_get b key w of
        (Inl _, w) \<Rightarrow> (None, w)
      | (Inr raw, w) \<Rightarrow> (if raw = [] then None else js_read js raw, w))"

definition cache_write ::
  "'v json_codec \<Rightarrow> 'w cache_backend \<Rightarrow> string \<Rightarrow> 'v cached_value \<Rightarrow> int \<Rightarrow> 'w \<Rightarrow> 'w" where
  "cache_write js b key x ttl w =
     (case js_write js x of None \<Rightarrow> w | Some raw \<Rightarrow> snd (cb_set b key raw ttl w))"

text \<open>
  The shape the three look-ups share: \<open>present\<close> makes the answer of a cached value, and \<open>keep\<close> the value to cache
  of an answer.
\<close>

definition through_cache ::
  "'v json_codec \<Rightarrow> ('v cached_value \<Rightarrow> 'v) \<Rightarrow> ('v \<Rightarrow> 'v cached_value) \<Rightarrow> 'w cache_backend \<Rightarrow> int \<Rightarrow> string \<Rightarrow>
   ('w \<Rightarrow> (risk_error + 'v) \<times> 'w) \<Rightarrow> 'w \<Rightarrow> (risk_error + 'v) \<times> 'w" where
  "through_cache js present keep b ttl key ask w =
     (case cache_read js b key w of
        (Some x, w) \<Rightarrow> (Inr (present x), w)
      | (None, w) \<Rightarrow>
          (case ask w of
             (Inl err, w) \<Rightarrow> (Inl err, w)
           | (Inr v, w) \<Rightarrow> (Inr v, cache_write js b key (keep v) ttl w)))"

definition present_found :: "'v option cached_value \<Rightarrow> 'v option" where
  "present_found x = (if \<not> cv_hit x then None else cv_value x)"

definition keep_found :: "'v option \<Rightarrow> 'v option cached_value" where
  "keep_found v = \<lparr>cv_hit = (v \<noteq> None), cv_value = v\<rparr>"

text \<open>A nil list and an empty one are the same list.\<close>

definition keep_rules :: "frequency_rule list \<Rightarrow> frequency_rule list cached_value" where
  "keep_rules v = \<lparr>cv_hit = True, cv_value = v\<rparr>"

record 'w risk_cache =
  rc_hash :: "string \<Rightarrow> string"
  rc_scene_json :: "risk_scene option json_codec"
  rc_list_json :: "list_rule option json_codec"
  rc_rules_json :: "frequency_rule list json_codec"
  rc_next :: "'w risk_store"
  rc_cache :: "'w cache_backend"
  rc_ttl :: int

definition cached_load_scene ::
  "'w risk_cache \<Rightarrow> string \<Rightarrow> string \<Rightarrow> 'w \<Rightarrow> (risk_error + risk_scene option) \<times> 'w" where
  "cached_load_scene s service scene w =
     through_cache (rc_scene_json s) present_found keep_found (rc_cache s) (rc_ttl s)
       (scene_key (rc_hash s) service scene) (rs_load_scene (rc_next s) service scene) w"

definition cached_match_list ::
  "'w risk_cache \<Rightarrow> risk_event \<Rightarrow> string \<Rightarrow> 'w \<Rightarrow> (risk_error + list_rule option) \<times> 'w" where
  "cached_match_list s e t w =
     through_cache (rc_list_json s) present_found keep_found (rc_cache s) (rc_ttl s)
       (list_key (rc_hash s) e t) (rs_match_list (rc_next s) e t) w"

definition cached_frequency_rules ::
  "'w risk_cache \<Rightarrow> risk_event \<Rightarrow> 'w \<Rightarrow> (risk_error + frequency_rule list) \<times> 'w" where
  "cached_frequency_rules s e w =
     through_cache (rc_rules_json s) cv_value keep_rules (rc_cache s) (rc_ttl s)
       (rules_key (rc_hash s) e) (rs_frequency_rules (rc_next s) e) w"

definition cached_risk_store :: "'w risk_cache \<Rightarrow> 'w risk_store" where
  "cached_risk_store s =
     \<lparr>rs_load_scene = cached_load_scene s, rs_match_list = cached_match_list s,
      rs_frequency_rules = cached_frequency_rules s, rs_count_events = rs_count_events (rc_next s),
      rs_save_decision = rs_save_decision (rc_next s)\<rparr>"

type_synonym 'w risk_cache_option = "'w risk_cache \<Rightarrow> 'w risk_cache"

definition with_ttl :: "int \<Rightarrow> 'w risk_cache_option" where
  "with_ttl ttl s = (if ttl > 0 then s\<lparr>rc_ttl := ttl\<rparr> else s)"

text \<open>Ten seconds.\<close>

abbreviation "default_risk_ttl \<equiv> (10 * 10 ^ 9 :: int)"

definition new_cached_store ::
  "(string \<Rightarrow> string) \<Rightarrow> risk_scene option json_codec \<Rightarrow> list_rule option json_codec \<Rightarrow>
   frequency_rule list json_codec \<Rightarrow> 'w risk_store option \<Rightarrow> 'w cache_backend option \<Rightarrow>
   'w risk_cache_option option list \<Rightarrow> 'w risk_store option" where
  "new_cached_store hash js jl jr next cache opts =
     (case (next, cache) of
        (Some st, Some b) \<Rightarrow> Some (cached_risk_store (fold (\<lambda>opt x. case opt of None \<Rightarrow> x | Some f \<Rightarrow> f x) opts
          \<lparr>rc_hash = hash, rc_scene_json = js, rc_list_json = jl, rc_rules_json = jr, rc_next = st, rc_cache = b,
           rc_ttl = default_risk_ttl\<rparr>))
      | _ \<Rightarrow> next)"

section \<open>The counter over a cache\<close>

record 'w counter_cache =
  cc_incr :: "string \<Rightarrow> 'w \<Rightarrow> (risk_error + int) \<times> 'w"
  cc_ttl :: "string \<Rightarrow> 'w \<Rightarrow> (risk_error + int) \<times> 'w"
  cc_expire :: "string \<Rightarrow> int \<Rightarrow> 'w \<Rightarrow> risk_error option \<times> 'w"

record 'w cache_counter =
  ct_cache :: "'w counter_cache option"
  ct_prefix :: string

definition risk_counter_slot :: "(string \<Rightarrow> string) \<Rightarrow> counter_key \<Rightarrow> string" where
  "risk_counter_slot hash key =
     (let ev = trim_space (rk_event key);
          ev = (if ev = [] then ''*'' else ev) in
      hash (framed [rk_service key, rk_scene key, ev, rk_target_type key, rk_target_value key,
        int_text (rk_window_seconds key)]))"

definition counter_redis_keys :: "(string \<Rightarrow> string) \<Rightarrow> string \<Rightarrow> counter_key \<Rightarrow> string \<times> string" where
  "counter_redis_keys hash prefix key =
     (prefix @ ''{'' @ risk_counter_slot hash key @ ''}:z'', prefix @ ''{'' @ risk_counter_slot hash key @ ''}:seq'')"

type_synonym 'w counter_option = "'w cache_counter \<Rightarrow> 'w cache_counter"

definition with_counter_prefix :: "string \<Rightarrow> 'w counter_option" where
  "with_counter_prefix p c = (if p \<noteq> [] then c\<lparr>ct_prefix := p\<rparr> else c)"

definition new_cache_counter :: "'w counter_cache option \<Rightarrow> 'w counter_option option list \<Rightarrow> 'w cache_counter" where
  "new_cache_counter cache opts =
     fold (\<lambda>opt x. case opt of None \<Rightarrow> x | Some f \<Rightarrow> f x) opts
       \<lparr>ct_cache = cache, ct_prefix = ''security:risk:freq:''\<rparr>"

definition cache_counter_incr :: "(string \<Rightarrow> string) \<Rightarrow> 'w cache_counter \<Rightarrow> 'w risk_counter" where
  "cache_counter_incr hash c key w =
     (case ct_cache c of None \<Rightarrow> (Inl ErrCounterUnavailable, w)
      | Some cache \<Rightarrow>
          if rk_window_seconds key \<le> 0 then (Inl ErrCounterUnavailable, w)
          else
            (let k = fst (counter_redis_keys hash (ct_prefix c) key) in
             case cc_incr cache k w of
               (Inl err, w) \<Rightarrow> (Inl err, w)
             | (Inr count, w) \<Rightarrow>
                 (case cc_ttl cache k w of
                    (Inr ttl, w) \<Rightarrow>
                      (Inr count,
                       if ttl < 0 then snd (cc_expire cache k (rk_window_seconds key * 10 ^ 9 + 10 ^ 9) w) else w)
                  | (Inl _, w) \<Rightarrow> (Inr count, w))))"

section \<open>Worlds with a clock and a memory cache\<close>

record 'x cached_world =
  cw_now :: int
  cw_cache :: mem_cache
  cw_rest :: 'x

definition on_cache :: "(int \<Rightarrow> mem_cache \<Rightarrow> 'a \<times> mem_cache) \<Rightarrow> 'x cached_world \<Rightarrow> 'a \<times> 'x cached_world" where
  "on_cache f w = (let (a, c) = f (cw_now w) (cw_cache w) in (a, w\<lparr>cw_cache := c\<rparr>))"

text \<open>The memory cache never fails.\<close>

definition memory_backend :: "'x cached_world cache_backend" where
  "memory_backend =
     \<lparr>cb_get = (\<lambda>k. on_cache (\<lambda>now c. let (v, c) = mem_get now k c in (Inr v, c))),
      cb_set = (\<lambda>k v ttl. on_cache (\<lambda>now c. (None, mem_set now k v ttl c)))\<rparr>"

definition memory_counter_cache :: "'x cached_world counter_cache" where
  "memory_counter_cache =
     \<lparr>cc_incr = (\<lambda>k. on_cache (\<lambda>now c. let (n, c) = mem_incr now k c in (Inr (sint n), c))),
      cc_ttl = (\<lambda>k. on_cache (\<lambda>now c. (Inr (mem_ttl now k c), c))),
      cc_expire = (\<lambda>k ttl. on_cache (\<lambda>now c. (None, mem_expire now k ttl c)))\<rparr>"

end
