(* ===== verification/Risk_Recent.thy ===== *)
theory Risk_Recent
  imports Risk_Cache
begin

text \<open>
  What is shown of the cached store of the risk engine: an answer is what the store behind it gives, or what reading
  back an answer gives that it gave no longer ago than the time to live, to a request with the same key.  It is
  shown for every cache whose entries end with their deadlines, and the memory cache is one.
\<close>

section \<open>The three look-ups as one\<close>

datatype risk_call = AskScene string string | AskList risk_event string | AskRules risk_event

datatype risk_answer =
    SceneAnswer "risk_scene option" | ListAnswer "list_rule option" | RulesAnswer "frequency_rule list"

definition as_answer :: "('v \<Rightarrow> risk_answer) \<Rightarrow> (risk_error + 'v) \<times> 'w \<Rightarrow> (risk_error + risk_answer) \<times> 'w" where
  "as_answer f r = (case r of (Inl e, w) \<Rightarrow> (Inl e, w) | (Inr v, w) \<Rightarrow> (Inr (f v), w))"

fun ask_store :: "'w risk_store \<Rightarrow> risk_call \<Rightarrow> 'w \<Rightarrow> (risk_error + risk_answer) \<times> 'w" where
  "ask_store st (AskScene a b) w = as_answer SceneAnswer (rs_load_scene st a b w)"
| "ask_store st (AskList e t) w = as_answer ListAnswer (rs_match_list st e t w)"
| "ask_store st (AskRules e) w = as_answer RulesAnswer (rs_frequency_rules st e w)"

fun call_key :: "'w risk_cache \<Rightarrow> risk_call \<Rightarrow> string" where
  "call_key s (AskScene a b) = scene_key (rc_hash s) a b"
| "call_key s (AskList e t) = list_key (rc_hash s) e t"
| "call_key s (AskRules e) = rules_key (rc_hash s) e"

text \<open>The text an answer is cached as, and the answer to a call that is read from a text.\<close>

fun answer_text :: "'w risk_cache \<Rightarrow> risk_answer \<Rightarrow> string option" where
  "answer_text s (SceneAnswer v) = js_write (rc_scene_json s) (keep_found v)"
| "answer_text s (ListAnswer v) = js_write (rc_list_json s) (keep_found v)"
| "answer_text s (RulesAnswer v) = js_write (rc_rules_json s) (keep_rules v)"

fun text_answer :: "'w risk_cache \<Rightarrow> risk_call \<Rightarrow> string \<Rightarrow> risk_answer option" where
  "text_answer s (AskScene _ _) raw = map_option (SceneAnswer \<circ> present_found) (js_read (rc_scene_json s) raw)"
| "text_answer s (AskList _ _) raw = map_option (ListAnswer \<circ> present_found) (js_read (rc_list_json s) raw)"
| "text_answer s (AskRules _) raw = map_option (RulesAnswer \<circ> cv_value) (js_read (rc_rules_json s) raw)"

text \<open>What comes back of an answer that is cached.\<close>

definition reread :: "'w risk_cache \<Rightarrow> risk_call \<Rightarrow> risk_answer \<Rightarrow> risk_answer option" where
  "reread s c a = Option.bind (answer_text s a) (text_answer s c)"

definition cached_text :: "'w risk_cache \<Rightarrow> risk_call \<Rightarrow> 'e + string \<Rightarrow> risk_answer option" where
  "cached_text s c r =
     (case r of Inl _ \<Rightarrow> None | Inr raw \<Rightarrow> if raw = [] then None else text_answer s c raw)"

lemma ask_cached:
  "ask_store (cached_risk_store s) c w =
     (let (r, w1) = cb_get (rc_cache s) (call_key s c) w in
      case cached_text s c r of Some a \<Rightarrow> (Inr a, w1)
      | None \<Rightarrow>
          (case ask_store (rc_next s) c w1 of
             (Inl e, w2) \<Rightarrow> (Inl e, w2)
           | (Inr a, w2) \<Rightarrow>
               (Inr a, case answer_text s a of None \<Rightarrow> w2
                  | Some raw \<Rightarrow> snd (cb_set (rc_cache s) (call_key s c) raw (rc_ttl s) w2))))"
  by (cases c)
    (auto simp: cached_risk_store_def cached_load_scene_def cached_match_list_def cached_frequency_rules_def
      through_cache_def cache_read_def cache_write_def as_answer_def cached_text_def Let_def
      split: prod.splits sum.splits option.splits if_splits)

text \<open>Calls with the same key ask for the same kind of answer.\<close>

lemma same_kind:
  assumes "call_key s c = call_key s c'"
  shows "text_answer s c = text_answer s c'"
  using assms
  by (cases c; cases c') (auto simp: fun_eq_iff scene_key_def list_key_def rules_key_def risk_cache_key_def)

section \<open>Caches whose entries end\<close>

record 'w call_note =
  cn_call :: risk_call
  cn_before :: 'w
  cn_answer :: "risk_error + risk_answer"

text \<open>Calls, and times that pass between them.\<close>

fun call_trace ::
  "(nat \<Rightarrow> 'w \<Rightarrow> 'w) \<Rightarrow> 'w risk_cache \<Rightarrow> (risk_call + nat) list \<Rightarrow> 'w \<Rightarrow> 'w call_note list" where
  "call_trace pass s [] w = []"
| "call_trace pass s (Inl c # cs) w =
     (let (r, w') = ask_store (cached_risk_store s) c w in
      \<lparr>cn_call = c, cn_before = w, cn_answer = r\<rparr> # call_trace pass s cs w')"
| "call_trace pass s (Inr n # cs) w = call_trace pass s cs (pass n w)"

locale value_cache =
  fixes b :: "'w cache_backend"
    and clock :: "'w \<Rightarrow> int"
    and entry :: "'w \<Rightarrow> string \<Rightarrow> (string \<times> int option) option"
    and pass :: "nat \<Rightarrow> 'w \<Rightarrow> 'w"
  assumes get_entry: "cb_get b k w = (Inr v, w') \<Longrightarrow> v \<noteq> [] \<Longrightarrow>
      \<exists>d. entry w k = Some (v, d) \<and> (\<forall>t. d = Some t \<longrightarrow> clock w \<le> t)"
    and get_clock: "clock (snd (cb_get b k w)) = clock w"
    and get_keeps: "entry (snd (cb_get b k w)) k' = Some x \<Longrightarrow> entry w k' = Some x"
    and set_clock: "clock (snd (cb_set b k v ttl w)) = clock w"
    and set_keeps: "0 < ttl \<Longrightarrow> entry (snd (cb_set b k v ttl w)) k' = Some x \<Longrightarrow>
      entry w k' = Some x \<or> k' = k \<and> x = (v, Some (clock w + ttl))"
    and pass_clock: "clock w \<le> clock (pass n w)"
    and pass_keeps: "entry (pass n w) k' = Some x \<Longrightarrow> entry w k' = Some x"

text \<open>A store behind such a cache, which does not see it.\<close>

locale cached_next = value_cache b clock entry pass
  for b :: "'w cache_backend" and clock and entry and pass +
  fixes s :: "'w risk_cache"
  assumes backend: "rc_cache s = b"
    and ttl: "0 < rc_ttl s"
    and next_clock: "clock (snd (ask_store (rc_next s) c w)) = clock w"
    and next_entry: "entry (snd (ask_store (rc_next s) c w)) = entry w"
    and next_after_get: "fst (ask_store (rc_next s) c (snd (cb_get b k w))) = fst (ask_store (rc_next s) c w)"
begin

text \<open>The store gave the answer of a note itself, and a note that explains an entry at a key.\<close>

definition given :: "'w call_note \<Rightarrow> risk_answer \<Rightarrow> bool" where
  "given n a \<longleftrightarrow> cn_answer n = Inr a \<and> fst (ask_store (rc_next s) (cn_call n) (cn_before n)) = Inr a"

definition explains :: "'w call_note \<Rightarrow> int \<Rightarrow> string \<Rightarrow> string \<times> int option \<Rightarrow> bool" where
  "explains n now k x \<longleftrightarrow> call_key s (cn_call n) = k \<and> clock (cn_before n) \<le> now \<and>
     snd x = Some (clock (cn_before n) + rc_ttl s) \<and> (\<exists>a. given n a \<and> answer_text s a = Some (fst x))"

definition explained :: "'w call_note set \<Rightarrow> 'w \<Rightarrow> bool" where
  "explained L w \<longleftrightarrow> (\<forall>k x. entry w k = Some x \<longrightarrow> (\<exists>n \<in> L. explains n (clock w) k x))"

definition recent :: "'w call_note set \<Rightarrow> 'w call_note \<Rightarrow> bool" where
  "recent L n \<longleftrightarrow> (\<forall>a. cn_answer n = Inr a \<longrightarrow> given n a \<or>
     (\<exists>m \<in> L. call_key s (cn_call m) = call_key s (cn_call n) \<and> clock (cn_before m) \<le> clock (cn_before n) \<and>
        clock (cn_before n) \<le> clock (cn_before m) + rc_ttl s \<and>
        (\<exists>a'. given m a' \<and> reread s (cn_call n) a' = Some a)))"

lemma explains_later: "explains n now k x \<Longrightarrow> now \<le> t \<Longrightarrow> explains n t k x"
  by (auto simp: explains_def)

lemma explained_get: "explained L w \<Longrightarrow> explained L (snd (cb_get b k w))"
  unfolding explained_def get_clock using get_keeps by blast

lemma explained_next: "explained L w \<Longrightarrow> explained L (snd (ask_store (rc_next s) c w))"
  by (simp add: explained_def next_clock next_entry)

lemma explained_pass: "explained L w \<Longrightarrow> explained L (pass n w)"
  unfolding explained_def using pass_keeps pass_clock explains_later by blast

lemma explained_more: "explained L w \<Longrightarrow> L \<subseteq> M \<Longrightarrow> explained M w"
  unfolding explained_def by blast

lemma explained_set:
  assumes "explained L w" "n \<in> L" "explains n (clock w) k (v, Some (clock w + rc_ttl s))"
  shows "explained L (snd (cb_set b k v (rc_ttl s) w))"
  unfolding explained_def set_clock using assms set_keeps [OF ttl] by (metis explained_def)

lemma call_recent:
  assumes "explained L w" and ask: "ask_store (cached_risk_store s) c w = (r, w')"
  defines "n \<equiv> \<lparr>cn_call = c, cn_before = w, cn_answer = r\<rparr>"
  shows "recent L n \<and> explained (insert n L) w'"
proof -
  let ?k = "call_key s c"
  obtain g w1 where get: "cb_get b ?k w = (g, w1)" by (cases "cb_get b ?k w")
  have w1: "explained L w1" "clock w1 = clock w" using explained_get [OF assms(1), of ?k] get_clock [of ?k w] by (simp_all add: get)
  show ?thesis
  proof (cases "cached_text s c g")
    case (Some a)
    then obtain raw where raw: "g = Inr raw" "raw \<noteq> []" "text_answer s c raw = Some a"
      by (auto simp: cached_text_def split: sum.splits if_splits)
    from ask get Some have out: "r = Inr a" "w' = w1" by (simp_all add: ask_cached backend)
    obtain d where d: "entry w ?k = Some (raw, d)" "\<forall>t. d = Some t \<longrightarrow> clock w \<le> t"
      using get_entry [OF get [unfolded raw(1)] raw(2)] by blast
    with assms(1) obtain m where m: "m \<in> L" "explains m (clock w) ?k (raw, d)"
      unfolding explained_def by blast
    then obtain a' where a': "given m a'" "answer_text s a' = Some raw"
      unfolding explains_def by auto
    have "reread s c a' = Some a" using raw(3) by (simp add: reread_def a'(2))
    with m d(2) a' have "recent L n" by (fastforce simp: recent_def n_def out explains_def)
    with w1 show ?thesis using explained_more [of L w1 "insert n L"] by (simp add: out subset_insertI)
  next
    case None
    obtain q w2 where q: "ask_store (rc_next s) c w1 = (q, w2)" by (cases "ask_store (rc_next s) c w1")
    have same: "fst (ask_store (rc_next s) c w) = q"
      using next_after_get [of c ?k w] by (simp add: get q)
    have w2: "explained L w2" "clock w2 = clock w"
      using explained_next [OF w1(1), of c] next_clock [of c w1] w1(2) by (simp_all add: q)
    note w2' = explained_more [OF w2(1) subset_insertI, of n]
    show ?thesis
    proof (cases q)
      case (Inl e)
      with ask get None q have "r = Inl e" "w' = w2" by (simp_all add: ask_cached backend)
      with w2' show ?thesis by (simp add: recent_def n_def)
    next
      case (Inr a)
      with ask get None q have out: "r = Inr a"
        "w' = (case answer_text s a of None \<Rightarrow> w2 | Some raw \<Rightarrow> snd (cb_set b ?k raw (rc_ttl s) w2))"
        unfolding ask_cached backend by simp_all
      have given: "given n a" by (simp add: given_def n_def out same Inr)
      have "explained (insert n L) w'"
      proof (cases "answer_text s a")
        case None
        with w2' show ?thesis by (simp add: out)
      next
        case (Some raw)
        with given have "explains n (clock w2) ?k (raw, Some (clock w2 + rc_ttl s))"
          by (simp add: explains_def w2(2)) (auto simp: n_def)
        with explained_set [OF w2', of n] show ?thesis by (simp add: out Some)
      qed
      moreover have "recent L n" using given by (simp add: recent_def) (auto simp: given_def)
      ultimately show ?thesis by simp
    qed
  qed
qed

lemma recent_more: "recent L n \<Longrightarrow> L \<subseteq> M \<Longrightarrow> recent M n"
  unfolding recent_def by blast

lemma trace_recent:
  "explained L w \<Longrightarrow> call_trace pass s cs w = xs @ n # ys \<Longrightarrow> recent (L \<union> set xs) n"
proof (induction cs arbitrary: L w xs)
  case (Cons x cs)
  show ?case
  proof (cases x)
    case (Inr t)
    with Cons.prems Cons.IH [OF explained_pass] show ?thesis by simp
  next
    case (Inl c)
    obtain r w' where ask: "ask_store (cached_risk_store s) c w = (r, w')" by (cases "ask_store (cached_risk_store s) c w")
    let ?n = "\<lparr>cn_call = c, cn_before = w, cn_answer = r\<rparr>"
    note step = call_recent [OF Cons.prems(1) ask]
    from Cons.prems(2) have tr: "?n # call_trace pass s cs w' = xs @ n # ys" by (simp add: Inl ask)
    show ?thesis
    proof (cases xs)
      case Nil
      with tr step show ?thesis by auto
    next
      case (Cons m ms)
      with tr have "call_trace pass s cs w' = ms @ n # ys" "m = ?n" by simp_all
      with Cons.IH [of "insert ?n L" w' ms] step Cons show ?thesis by simp
    qed
  qed
qed simp

end

section \<open>The memory cache\<close>

text \<open>A store that works on the rest of the world, and time that passes, after which the cache is cleaned up.\<close>

definition on_rest :: "('x \<Rightarrow> 'a \<times> 'x) \<Rightarrow> 'x cached_world \<Rightarrow> 'a \<times> 'x cached_world" where
  "on_rest f w = (let (a, x) = f (cw_rest w) in (a, w\<lparr>cw_rest := x\<rparr>))"

definition rest_store :: "'x risk_store \<Rightarrow> 'x cached_world risk_store" where
  "rest_store st =
     \<lparr>rs_load_scene = (\<lambda>a b. on_rest (rs_load_scene st a b)), rs_match_list = (\<lambda>e t. on_rest (rs_match_list st e t)),
      rs_frequency_rules = (\<lambda>e. on_rest (rs_frequency_rules st e)), rs_count_events = (\<lambda>q. on_rest (rs_count_events st q)),
      rs_save_decision = (\<lambda>e d. on_rest (rs_save_decision st e d))\<rparr>"

definition pass_time :: "nat \<Rightarrow> 'x cached_world \<Rightarrow> 'x cached_world" where
  "pass_time n w = w\<lparr>cw_now := cw_now w + int n, cw_cache := mem_cleanup (cw_now w + int n) (cw_cache w)\<rparr>"

definition memory_entry :: "'x cached_world \<Rightarrow> string \<Rightarrow> (string \<times> int option) option" where
  "memory_entry w = live_at (cw_now w) (cw_cache w)"

lemma ask_rest:
  "ask_store (rest_store st) c w =
     (fst (ask_store st c (cw_rest w)), w\<lparr>cw_rest := snd (ask_store st c (cw_rest w))\<rparr>)"
  by (cases c) (auto simp: rest_store_def on_rest_def as_answer_def split: prod.splits sum.splits)

lemma memory_get:
  "cb_get memory_backend k w =
     (Inr (fst (mem_get (cw_now w) k (cw_cache w))), w\<lparr>cw_cache := snd (mem_get (cw_now w) k (cw_cache w))\<rparr>)"
  by (simp add: memory_backend_def on_cache_def Let_def split: prod.splits)

lemma memory_set:
  "cb_set memory_backend k v ttl w = (None, w\<lparr>cw_cache := mem_set (cw_now w) k v ttl (cw_cache w)\<rparr>)"
  by (simp add: memory_backend_def on_cache_def)

lemma get_live:
  "fst (mem_get now k c) = (case live_at now c k of None \<Rightarrow> [] | Some (v, _) \<Rightarrow> v)"
  "live_at now (snd (mem_get now k c)) = live_at now c"
  using get_spec [of now k c] by (auto simp: split: prod.splits)

lemma live_deadline: "live_at now c k = Some (v, Some t) \<Longrightarrow> now \<le> t"
  by (auto simp: live_Some expired_def dest!: sym [of "Some t"])

lemma live_keeps: "now \<le> t \<Longrightarrow> live_at t c k = Some x \<Longrightarrow> live_at now c k = Some x"
  by (cases x) (auto simp: live_Some expired_def split: option.splits)

interpretation memory: value_cache memory_backend cw_now memory_entry pass_time
proof
  fix k v and w w' :: "'x cached_world"
  assume "cb_get memory_backend k w = (Inr v, w')" "v \<noteq> []"
  then show "\<exists>d. memory_entry w k = Some (v, d) \<and> (\<forall>t. d = Some t \<longrightarrow> cw_now w \<le> t)"
    by (auto simp: memory_get get_live memory_entry_def split: option.splits dest: live_deadline)
next
  fix k v ttl k' x and w :: "'x cached_world"
  assume "0 < ttl" "memory_entry (snd (cb_set memory_backend k v ttl w)) k' = Some x"
  then show "memory_entry w k' = Some x \<or> k' = k \<and> x = (v, Some (cw_now w + ttl))"
    by (auto simp: memory_entry_def memory_set mem_set_def live_put deadline_def split: if_splits)
next
  fix n k' x and w :: "'x cached_world"
  assume "memory_entry (pass_time n w) k' = Some x"
  then show "memory_entry w k' = Some x"
    using live_keeps [of "cw_now w" "cw_now w + int n" "cw_cache w" k' x]
    by (simp add: memory_entry_def pass_time_def cleanup_spec)
qed (simp_all add: memory_get memory_set memory_entry_def get_live pass_time_def)

text \<open>The options of \<open>New\<close> give a positive time to live.\<close>

definition memory_risk_cache ::
  "(string \<Rightarrow> string) \<Rightarrow> risk_scene option json_codec \<Rightarrow> list_rule option json_codec \<Rightarrow>
   frequency_rule list json_codec \<Rightarrow> 'x risk_store \<Rightarrow> int \<Rightarrow> 'x cached_world risk_cache" where
  "memory_risk_cache hash js jl jr st ttl = with_ttl ttl
     \<lparr>rc_hash = hash, rc_scene_json = js, rc_list_json = jl, rc_rules_json = jr, rc_next = rest_store st,
      rc_cache = memory_backend, rc_ttl = default_risk_ttl\<rparr>"

interpretation risk_memory:
  cached_next memory_backend cw_now memory_entry pass_time "memory_risk_cache hash js jl jr st ttl"
  for hash js jl jr and st :: "'x risk_store" and ttl
  by unfold_locales
    (simp_all add: memory_risk_cache_def with_ttl_def ask_rest memory_entry_def memory_get)

text \<open>
  C18: the risk engine's cache never shows an answer that is too old or to another question.  Over the memory
  cache, starting empty, for every sequence of look-ups with any times passing in between, an answer is the one the
  store behind gives at that moment, or what reading back from the cache gives of an answer which that store itself
  gave to an earlier look-up with the same key, no longer ago than the time to live.
\<close>

theorem cached_answers_are_recent:
  fixes st :: "'x risk_store"
  assumes s: "s = memory_risk_cache hash js jl jr st ttl"
    and "mc_items (cw_cache w) = Map.empty" and tr: "tr = call_trace pass_time s cs w"
    and i: "i < length tr" "cn_answer (tr ! i) = Inr a"
  shows "fst (ask_store st (cn_call (tr ! i)) (cw_rest (cn_before (tr ! i)))) = Inr a \<or>
    (\<exists>j < i. call_key s (cn_call (tr ! j)) = call_key s (cn_call (tr ! i)) \<and>
       cw_now (cn_before (tr ! j)) \<le> cw_now (cn_before (tr ! i)) \<and>
       cw_now (cn_before (tr ! i)) \<le> cw_now (cn_before (tr ! j)) + rc_ttl s \<and>
       (\<exists>b. cn_answer (tr ! j) = Inr b \<and>
          fst (ask_store st (cn_call (tr ! j)) (cw_rest (cn_before (tr ! j)))) = Inr b \<and>
          reread s (cn_call (tr ! i)) b = Some a))"
proof -
  have next_store: "rc_next s = rest_store st" by (simp add: s memory_risk_cache_def with_ttl_def)
  have given: "risk_memory.given hash js jl jr st ttl n b \<longleftrightarrow>
      cn_answer n = Inr b \<and> fst (ask_store st (cn_call n) (cw_rest (cn_before n))) = Inr b" for n b
    using next_store by (simp add: risk_memory.given_def s ask_rest)
  have "risk_memory.explained hash js jl jr st ttl {} w"
    using assms(2) by (simp add: s risk_memory.explained_def memory_entry_def live_at_def)
  moreover have "call_trace pass_time s cs w = take i tr @ tr ! i # drop (Suc i) tr"
    using i(1) tr by (simp add: id_take_nth_drop)
  ultimately have "risk_memory.recent hash js jl jr st ttl ({} \<union> set (take i tr)) (tr ! i)"
    unfolding s by (rule risk_memory.trace_recent)
  then have "risk_memory.given hash js jl jr st ttl (tr ! i) a \<or>
     (\<exists>m \<in> set (take i tr). call_key s (cn_call m) = call_key s (cn_call (tr ! i)) \<and>
        cw_now (cn_before m) \<le> cw_now (cn_before (tr ! i)) \<and>
        cw_now (cn_before (tr ! i)) \<le> cw_now (cn_before m) + rc_ttl s \<and>
        (\<exists>b. risk_memory.given hash js jl jr st ttl m b \<and> reread s (cn_call (tr ! i)) b = Some a))"
    using i(2) unfolding risk_memory.recent_def s by simp
  moreover have prefix: "\<exists>j < i. m = tr ! j" if "m \<in> set (take i tr)" for m
    using that i(1) by (auto simp: in_set_conv_nth)
  ultimately show ?thesis unfolding given by (elim disjE bexE conjE exE) (simp, metis prefix)
qed

text \<open>A store whose scene is deleted after the first look-up.\<close>

definition sample_scene :: risk_scene where
  "sample_scene = \<lparr>rn_service = ''admin'', rn_code = ''login'', rn_default_level = [], rn_default_action = ''deny'',
     rn_score_threshold = 0\<rparr>"

definition fading_store :: "nat risk_store" where
  "fading_store =
     \<lparr>rs_load_scene = (\<lambda>_ _ n. (Inr (if n = 0 then Some sample_scene else None), Suc n)),
      rs_match_list = (\<lambda>_ _ n. (Inr None, n)), rs_frequency_rules = (\<lambda>_ n. (Inr [], n)),
      rs_count_events = (\<lambda>_ n. (Inr 0, n)), rs_save_decision = (\<lambda>_ _ n. (None, n))\<rparr>"

text \<open>A notation of two values, one letter each.\<close>

definition scene_json :: "risk_scene option json_codec" where
  "scene_json =
     \<lparr>js_write = (\<lambda>x. Some (if cv_hit x then ''s'' else ''n'')),
      js_read = (\<lambda>raw. Some (if raw = ''s'' then keep_found (Some sample_scene) else keep_found None))\<rparr>"

text \<open>Nothing is written of the other answers.\<close>

definition mute_json :: "'v json_codec" where
  "mute_json = \<lparr>js_write = (\<lambda>_. None), js_read = (\<lambda>_. None)\<rparr>"

definition empty_world :: "nat cached_world" where
  "empty_world = \<lparr>cw_now = 0, cw_cache = new_mem_cache, cw_rest = 0\<rparr>"

theorem cached_answers_are_recent_witness:
  "\<exists>s tr. s = memory_risk_cache id scene_json mute_json mute_json fading_store 0 \<and>
     tr = call_trace pass_time s [Inl (AskScene ''a'' ''b''), Inr 5, Inl (AskScene ''a'' ''b'')] empty_world \<and>
     cn_answer (tr ! 1) = Inr (SceneAnswer (Some sample_scene)) \<and>
     fst (ask_store fading_store (cn_call (tr ! 1)) (cw_rest (cn_before (tr ! 1)))) = Inr (SceneAnswer None) \<and>
     cw_now (cn_before (tr ! 1)) \<le> cw_now (cn_before (tr ! 0)) + rc_ttl s"
proof -
  let ?c = "AskScene ''a'' ''b''"
  let ?s = "memory_risk_cache id scene_json mute_json mute_json fading_store 0 :: nat cached_world risk_cache"
  define s where "s = ?s"
  define tr where "tr = call_trace pass_time s [Inl ?c, Inr 5, Inl ?c] empty_world"
  have parts: "rc_cache s = memory_backend" "rc_next s = rest_store fading_store" "rc_scene_json s = scene_json"
    "rc_ttl s = default_risk_ttl"
    by (simp_all add: s_def memory_risk_cache_def with_ttl_def)
  define k where "k = call_key s ?c"
  let ?w = "\<lparr>cw_now = 0, cw_cache = mem_set 0 k ''s'' default_risk_ttl new_mem_cache, cw_rest = Suc 0\<rparr>"
  have given: "ask_store fading_store ?c 0 = (Inr (SceneAnswer (Some sample_scene)), Suc 0)"
    by (simp add: fading_store_def as_answer_def)
  have written: "answer_text s (SceneAnswer (Some sample_scene)) = Some ''s''" "cached_text s ?c (Inr []) = None"
    by (simp_all add: parts scene_json_def keep_found_def cached_text_def)
  have miss: "mem_get 0 k new_mem_cache = ([], new_mem_cache)"
    by (simp add: mem_get_def get_read_def get_finish_def new_mem_cache_def)
  have first: "ask_store (cached_risk_store s) ?c empty_world = (Inr (SceneAnswer (Some sample_scene)), ?w)"
    by (simp add: empty_world_def ask_cached parts k_def [symmetric] memory_get memory_set ask_rest miss given written
        del: ask_store.simps call_key.simps answer_text.simps)
  define w1 where "w1 = pass_time 5 ?w"
  have later: "cw_now w1 = 5" "cw_rest w1 = Suc 0" by (simp_all add: w1_def pass_time_def)
  have live: "live_at 5 (cw_cache w1) k = Some (''s'', Some default_risk_ttl)"
    by (simp add: w1_def pass_time_def cleanup_spec) (simp add: mem_set_def live_put deadline_def expired_def)
  have hit: "cached_text s ?c (Inr ''s'') = Some (SceneAnswer (Some sample_scene))"
    by (simp add: cached_text_def parts scene_json_def present_found_def keep_found_def)
  have second: "fst (ask_store (cached_risk_store s) ?c w1) = Inr (SceneAnswer (Some sample_scene))"
    by (simp add: ask_cached parts k_def [symmetric] memory_get get_live later live hit Let_def
        del: ask_store.simps call_key.simps)
  have calls: "tr = [\<lparr>cn_call = ?c, cn_before = empty_world, cn_answer = Inr (SceneAnswer (Some sample_scene))\<rparr>,
      \<lparr>cn_call = ?c, cn_before = w1, cn_answer = Inr (SceneAnswer (Some sample_scene))\<rparr>]"
    using second unfolding tr_def call_trace.simps first Let_def prod.case w1_def [symmetric]
    by (cases "ask_store (cached_risk_store s) ?c w1") (simp del: ask_store.simps)
  have gone: "fst (ask_store fading_store ?c (cw_rest w1)) = Inr (SceneAnswer None)"
    by (simp add: later fading_store_def as_answer_def)
  have clear: "mc_items (cw_cache empty_world) = Map.empty" by (simp add: empty_world_def new_mem_cache_def)
  have one: "1 < length tr" "cn_answer (tr ! 1) = Inr (SceneAnswer (Some sample_scene))" by (simp_all add: calls)
  from cached_answers_are_recent [OF s_def clear tr_def one]
  have "cw_now (cn_before (tr ! 1)) \<le> cw_now (cn_before (tr ! 0)) + rc_ttl s"
  proof (elim disjE exE conjE)
    assume "fst (ask_store fading_store (cn_call (tr ! 1)) (cw_rest (cn_before (tr ! 1)))) =
      Inr (SceneAnswer (Some sample_scene))"
    with gone show ?thesis by (simp add: calls del: ask_store.simps)
  qed simp
  moreover have "fst (ask_store fading_store (cn_call (tr ! 1)) (cw_rest (cn_before (tr ! 1)))) = Inr (SceneAnswer None)"
    using gone by (simp add: calls del: ask_store.simps)
  ultimately show ?thesis using s_def tr_def one(2) by blast
qed

section \<open>Keys that collide\<close>

text \<open>
  The zero byte that ends each part may also occur in a part: different services and scenes then share a key,
  whatever the hash function is.
\<close>

lemma scene_keys_collide: "scene_key hash (a @ CHR 0x00 # b) c = scene_key hash a (b @ CHR 0x00 # c)"
  by (simp add: scene_key_def risk_cache_key_def framed_def)

section \<open>The counter\<close>

text \<open>Calls of the counter at given moments, over a memory cache.\<close>

fun counts_at ::
  "(string \<Rightarrow> string) \<Rightarrow> string \<Rightarrow> counter_key \<Rightarrow> int list \<Rightarrow> 'x cached_world \<Rightarrow> (risk_error + int) list" where
  "counts_at hash p key [] w = []"
| "counts_at hash p key (t # ts) w =
     (let (r, w') = cache_counter_incr hash \<lparr>ct_cache = Some memory_counter_cache, ct_prefix = p\<rparr> key (w\<lparr>cw_now := t\<rparr>) in
      r # counts_at hash p key ts w')"

lemma counter_step:
  "cache_counter_incr hash \<lparr>ct_cache = Some memory_counter_cache, ct_prefix = p\<rparr> key w =
     (if rk_window_seconds key \<le> 0 then (Inl ErrCounterUnavailable, w)
      else
        (let k = fst (counter_redis_keys hash p key);
             (n, c) = mem_incr (cw_now w) k (cw_cache w) in
         (Inr (sint n), w\<lparr>cw_cache :=
            (if mem_ttl (cw_now w) k c < 0
             then mem_expire (cw_now w) k (rk_window_seconds key * 10 ^ 9 + 10 ^ 9) c else c)\<rparr>)))"
  by (simp add: cache_counter_incr_def memory_counter_cache_def on_cache_def Let_def split: prod.splits)

text \<open>The counter stands at \<open>n\<close>, until \<open>e\<close>.\<close>

definition counter_stands :: "string \<Rightarrow> nat \<Rightarrow> int \<Rightarrow> 'x cached_world \<Rightarrow> bool" where
  "counter_stands k n e w \<longleftrightarrow> mc_items (cw_cache w) k = Some \<lparr>mi_value = nat_text n, mi_expire = Some e\<rparr>"

lemma counter_starts:
  assumes "0 < rk_window_seconds key" and k: "k = fst (counter_redis_keys hash p key)"
    and over: "mc_items (cw_cache w) k = None \<or> (\<exists>it. mc_items (cw_cache w) k = Some it \<and> expired (cw_now w) it)"
    and step: "cache_counter_incr hash \<lparr>ct_cache = Some memory_counter_cache, ct_prefix = p\<rparr> key w = (r, w')"
  shows "r = Inr 1 \<and> counter_stands k 1 (cw_now w + (rk_window_seconds key * 10 ^ 9 + 10 ^ 9)) w'"
proof -
  have "mem_incr (cw_now w) k (cw_cache w) = (1, put_item k \<lparr>mi_value = nat_text 1, mi_expire = None\<rparr> (cw_cache w))"
    using incr_counts [of "cw_cache w" k "cw_now w"] over by blast
  with step assms(1) show ?thesis
    by (auto simp: counter_step k [symmetric] Let_def mem_ttl_def mem_expire_def put_item_def expired_def deadline_def
        counter_stands_def)
qed

lemma counter_goes_on:
  assumes "0 < rk_window_seconds key" and k: "k = fst (counter_redis_keys hash p key)"
    and stands: "counter_stands k n e w" and now: "cw_now w < e" and n: "n < 2 ^ 63 - 1"
    and step: "cache_counter_incr hash \<lparr>ct_cache = Some memory_counter_cache, ct_prefix = p\<rparr> key w = (r, w')"
  shows "r = Inr (int n + 1) \<and> counter_stands k (n + 1) e w'"
proof -
  let ?it = "\<lparr>mi_value = nat_text n, mi_expire = Some e\<rparr>"
  have it: "mc_items (cw_cache w) k = Some ?it \<and> \<not> expired (cw_now w) ?it \<and> mi_value ?it = nat_text n \<and> n < 2 ^ 63 - 1"
    using stands now n by (simp add: counter_stands_def expired_def)
  from incr_counts [of "cw_cache w" k "cw_now w" n, THEN conjunct1, rule_format, OF it]
  have incr: "mem_incr (cw_now w) k (cw_cache w) =
      (of_nat (n + 1), put_item k \<lparr>mi_value = nat_text (n + 1), mi_expire = Some e\<rparr> (cw_cache w))" by simp
  have "sint (of_nat (n + 1) :: 64 word) = int (n + 1)" using n by (intro sint_small) simp
  with incr step assms(1) now show ?thesis
    by (auto simp: counter_step k [symmetric] Let_def mem_ttl_def put_item_def counter_stands_def)
qed

lemma counts_on:
  assumes "0 < rk_window_seconds key" "k = fst (counter_redis_keys hash p key)"
  shows "counter_stands k n e w \<Longrightarrow> \<forall>t \<in> set ts. t < e \<Longrightarrow> n + length ts < 2 ^ 63 \<Longrightarrow> e < t' \<Longrightarrow>
    counts_at hash p key (ts @ [t']) w = map (\<lambda>i. Inr (int i)) [n + 1..<n + 1 + length ts] @ [Inr 1]"
proof (induction ts arbitrary: n w)
  case Nil
  obtain r w' where step: "cache_counter_incr hash \<lparr>ct_cache = Some memory_counter_cache, ct_prefix = p\<rparr> key
      (w\<lparr>cw_now := t'\<rparr>) = (r, w')" by (metis surj_pair)
  have "r = Inr 1"
    using counter_starts [OF assms _ step] Nil by (simp add: counter_stands_def expired_def)
  with step show ?case by simp
next
  case (Cons t ts)
  obtain r w' where step: "cache_counter_incr hash \<lparr>ct_cache = Some memory_counter_cache, ct_prefix = p\<rparr> key
      (w\<lparr>cw_now := t\<rparr>) = (r, w')" by (metis surj_pair)
  have r: "r = Inr (int n + 1)" "counter_stands k (n + 1) e w'"
    using counter_goes_on [OF assms _ _ _ step, of n e] Cons.prems by (simp_all add: counter_stands_def)
  have "[n + 1..<n + 1 + length (t # ts)] = (n + 1) # [Suc (n + 1)..<n + 1 + length (t # ts)]"
    by (intro upt_conv_Cons) simp
  with r step Cons.IH [OF r(2)] Cons.prems show ?case by (simp add: add.commute)
qed

text \<open>
  C39: the counter of the risk engine over the memory cache.  After a first call at \<open>t0\<close>, on a key the cache does not
  hold, the calls before \<open>t0\<close> plus the window plus one second count two, three and so on, however they lie in that
  time, and the first call after it counts one again: the counter never forgets single events as they leave the window, as
  the counter over redis does.
\<close>

theorem counter_counts_in_window:
  assumes "0 < rk_window_seconds key" and "mc_items (cw_cache w) (fst (counter_redis_keys hash p key)) = None"
    and "\<forall>t \<in> set ts. t < t0 + (rk_window_seconds key + 1) * 10 ^ 9" and "length ts < 2 ^ 63 - 1"
    and "t0 + (rk_window_seconds key + 1) * 10 ^ 9 < t'"
  shows "counts_at hash p key (t0 # ts @ [t']) w = map (\<lambda>i. Inr (int i)) [1..<length ts + 2] @ [Inr 1]"
proof -
  let ?k = "fst (counter_redis_keys hash p key)" and ?e = "t0 + (rk_window_seconds key + 1) * 10 ^ 9"
  obtain r w' where step: "cache_counter_incr hash \<lparr>ct_cache = Some memory_counter_cache, ct_prefix = p\<rparr> key
      (w\<lparr>cw_now := t0\<rparr>) = (r, w')" by (metis surj_pair)
  have r: "r = Inr 1" "counter_stands ?k 1 ?e w'"
    using counter_starts [OF assms(1) refl _ step] assms(2) by (simp_all add: algebra_simps)
  have "[1..<length ts + 2] = 1 # [Suc 1..<length ts + 2]" by (intro upt_conv_Cons) simp
  with r step counts_on [OF assms(1) refl r(2) assms(3) _ assms(5)] assms(4) show ?thesis by simp
qed

theorem counter_counts_in_window_witness:
  "counts_at id [] (\<lparr>rk_service = ''a'', rk_scene = ''b'', rk_event = [], rk_target_type = ''uid'', rk_target_value = ''7'',
       rk_window_seconds = 1\<rparr>) [0, 1000000000, 1900000000, 2000000001] empty_world = [Inr 1, Inr 2, Inr 3, Inr 1]"
  using counter_counts_in_window [of "\<lparr>rk_service = ''a'', rk_scene = ''b'', rk_event = [], rk_target_type = ''uid'',
      rk_target_value = ''7'', rk_window_seconds = 1\<rparr>" empty_world id "[]" "[1000000000, 1900000000]" 0 2000000001]
  by (simp add: empty_world_def new_mem_cache_def upt_conv_Cons)

end
