(* ===== verification/Queue_Control.thy ===== *)
theory Queue_Control
  imports Queue_Middleware Go_Text
begin

text \<open>
  The controls of a queue that are kept in memory (\<^verbatim>\<open>pkg/queue/control/memory/control.go\<close>): locks with a time
  to live, marks of what was done, and rate limits.  Times are nanoseconds and the clock is an argument; each
  operation is one step, since what it does before it takes the mutex reads nothing shared.
\<close>

section \<open>Locks\<close>

record memory_lock =
  ml_token :: string
  ml_expires_at :: int

record memory_locker =
  mr_locks :: "string \<rightharpoonup> memory_lock"

definition new_memory_locker :: memory_locker where
  "new_memory_locker = \<lparr>mr_locks = Map.empty\<rparr>"

abbreviation "lock_ttl_error \<equiv> QForeign ''queue lock ttl must be positive''"

text \<open>The function that unlocks closes over the key and the token.\<close>

type_synonym unlock_handle = "string \<times> string"

definition memory_lock_key ::
  "int \<Rightarrow> q_error option \<Rightarrow> string \<Rightarrow> int \<Rightarrow> memory_locker option \<Rightarrow>
   (unlock_handle option \<times> bool \<times> q_error option) \<times> memory_locker option" where
  "memory_lock_key now cerr key ttl lk =
     (case lk of None \<Rightarrow> ((None, False, Some (QSentinel QErrNotInitialized)), None)
      | Some l \<Rightarrow>
          if cerr \<noteq> None then ((None, False, cerr), lk)
          else if ttl \<le> 0 then ((None, False, Some lock_ttl_error), lk)
          else
            (let token = int_text now in
             case mr_locks l key of
               Some cur \<Rightarrow>
                 if now < ml_expires_at cur then ((None, False, Some (QSentinel QErrLockNotAcquired)), lk)
                 else ((Some (key, token), True, None),
                   Some (l\<lparr>mr_locks := (mr_locks l)(key \<mapsto> \<lparr>ml_token = token, ml_expires_at = now + ttl\<rparr>)\<rparr>))
             | None \<Rightarrow> ((Some (key, token), True, None),
                   Some (l\<lparr>mr_locks := (mr_locks l)(key \<mapsto> \<lparr>ml_token = token, ml_expires_at = now + ttl\<rparr>)\<rparr>))))"

definition memory_unlock :: "q_error option \<Rightarrow> unlock_handle \<Rightarrow> memory_locker \<Rightarrow> q_error option \<times> memory_locker" where
  "memory_unlock cerr u l =
     (if cerr \<noteq> None then (cerr, l)
      else
        (let (key, token) = u in
         case mr_locks l key of None \<Rightarrow> (None, l)
         | Some cur \<Rightarrow>
             if ml_token cur \<noteq> token then (None, l)
             else (None, l\<lparr>mr_locks := (mr_locks l)(key := None)\<rparr>)))"

section \<open>Marks of what was done\<close>

record idempotency =
  id_done :: "string \<rightharpoonup> int"

definition new_idempotency :: idempotency where
  "new_idempotency = \<lparr>id_done = Map.empty\<rparr>"

definition memory_done ::
  "int \<Rightarrow> q_error option \<Rightarrow> string \<Rightarrow> idempotency option \<Rightarrow> (bool \<times> q_error option) \<times> idempotency option" where
  "memory_done now cerr key m =
     (case m of None \<Rightarrow> ((False, Some (QSentinel QErrNotInitialized)), None)
      | Some i \<Rightarrow>
          if cerr \<noteq> None then ((False, cerr), m)
          else (case id_done i key of None \<Rightarrow> ((False, None), m)
            | Some e \<Rightarrow>
                if now > e then ((False, None), Some (i\<lparr>id_done := (id_done i)(key := None)\<rparr>))
                else ((True, None), m)))"

definition memory_mark_done ::
  "int \<Rightarrow> q_error option \<Rightarrow> string \<Rightarrow> int \<Rightarrow> idempotency option \<Rightarrow> q_error option \<times> idempotency option" where
  "memory_mark_done now cerr key ttl m =
     (case m of None \<Rightarrow> (Some (QSentinel QErrNotInitialized), None)
      | Some i \<Rightarrow>
          if cerr \<noteq> None then (cerr, m)
          else if ttl \<le> 0 then (Some (QForeign ''queue idempotency ttl must be positive''), m)
          else (None, Some (i\<lparr>id_done := (id_done i)(key \<mapsto> now + ttl)\<rparr>)))"

section \<open>Rate limits\<close>

text \<open>No bucket under a key is the zero bucket, whose expiry is the zero time.\<close>

record rate_bucket =
  rb_count :: nat
  rb_expires_at :: int

record memory_rate_limiter =
  mb_buckets :: "string \<rightharpoonup> rate_bucket"

definition new_memory_rate_limiter :: memory_rate_limiter where
  "new_memory_rate_limiter = \<lparr>mb_buckets = Map.empty\<rparr>"

definition current_bucket :: "int \<Rightarrow> int \<Rightarrow> rate_bucket option \<Rightarrow> rate_bucket" where
  "current_bucket now window found =
     (case found of None \<Rightarrow> \<lparr>rb_count = 0, rb_expires_at = now + window\<rparr>
      | Some b \<Rightarrow> if now > rb_expires_at b then \<lparr>rb_count = 0, rb_expires_at = now + window\<rparr> else b)"

text \<open>\<open>later\<close> is the second reading of the clock, for the time that is left.\<close>

definition memory_allow ::
  "int \<Rightarrow> int \<Rightarrow> q_error option \<Rightarrow> string \<Rightarrow> int \<Rightarrow> int \<Rightarrow> memory_rate_limiter option \<Rightarrow>
   (bool \<times> int \<times> q_error option) \<times> memory_rate_limiter option" where
  "memory_allow now later cerr key limit window m =
     (case m of None \<Rightarrow> ((False, 0, Some (QSentinel QErrNotInitialized)), None)
      | Some l \<Rightarrow>
          if cerr \<noteq> None then ((False, 0, cerr), m)
          else if limit \<le> 0 \<or> window \<le> 0
          then ((False, 0, Some (QForeign ''queue rate limit and window must be positive'')), m)
          else
            (let b = current_bucket now window (mb_buckets l key);
                 b = b\<lparr>rb_count := rb_count b + 1\<rparr>;
                 l = l\<lparr>mb_buckets := (mb_buckets l)(key \<mapsto> b)\<rparr> in
             if int (rb_count b) \<le> limit then ((True, 0, None), Some l)
             else
               (let retry_in = max 0 (rb_expires_at b - later) in
                ((False, retry_in, Some (rate_limited retry_in (Some (QSentinel QErrRateLimited)))), Some l))))"

section \<open>Locks exclude each other\<close>

text \<open>
  Attempts to lock and calls of functions that unlock, at given moments.  The world keeps, for every lock that was
  taken, what its holder knows: the key, the token, the end of its time and whether it was given up.
\<close>

record held_lock =
  hl_key :: string
  hl_token :: string
  hl_until :: int
  hl_released :: bool

datatype lock_event = TryLock string int | Release nat

type_synonym lock_world = "memory_locker \<times> held_lock list"

fun lock_step :: "int \<times> lock_event \<Rightarrow> lock_world \<Rightarrow> lock_world" where
  "lock_step (now, TryLock key ttl) (l, hs) =
     (case memory_lock_key now None key ttl (Some l) of
        ((Some (k, token), True, _), Some l') \<Rightarrow>
          (l', hs @ [\<lparr>hl_key = k, hl_token = token, hl_until = now + ttl, hl_released = False\<rparr>])
      | _ \<Rightarrow> (l, hs))"
| "lock_step (now, Release i) (l, hs) =
     (if i < length hs
      then (snd (memory_unlock None (hl_key (hs ! i), hl_token (hs ! i)) l), hs[i := (hs ! i)\<lparr>hl_released := True\<rparr>])
      else (l, hs))"

lemma lock_step_try:
  "lock_step (now, TryLock key ttl) (l, hs) =
     (if 0 < ttl \<and> (\<forall>cur. mr_locks l key = Some cur \<longrightarrow> ml_expires_at cur \<le> now)
      then (l\<lparr>mr_locks := (mr_locks l)(key \<mapsto> \<lparr>ml_token = int_text now, ml_expires_at = now + ttl\<rparr>)\<rparr>,
        hs @ [\<lparr>hl_key = key, hl_token = int_text now, hl_until = now + ttl, hl_released = False\<rparr>])
      else (l, hs))"
  by (auto simp: memory_lock_key_def Let_def split: option.splits)

text \<open>
  Every lock that is held in time is the one stored under its key; tokens were made at different moments, all of
  them past.
\<close>

definition lock_inv :: "int \<Rightarrow> lock_world \<Rightarrow> bool" where
  "lock_inv now s \<longleftrightarrow>
     (\<forall>h \<in> set (snd s). \<exists>t < now. hl_token h = int_text t) \<and> distinct (map hl_token (snd s)) \<and>
     (\<forall>h \<in> set (snd s). \<not> hl_released h \<and> now \<le> hl_until h \<longrightarrow>
        mr_locks (fst s) (hl_key h) = Some \<lparr>ml_token = hl_token h, ml_expires_at = hl_until h\<rparr>)"

lemma lock_inv_later: "lock_inv now s \<Longrightarrow> now \<le> t \<Longrightarrow> lock_inv t s"
  unfolding lock_inv_def by (meson order_less_le_trans order_trans)

lemma lock_invI:
  assumes "\<And>h. h \<in> set hs \<Longrightarrow> \<exists>t < now. hl_token h = int_text t" "distinct (map hl_token hs)"
    and "\<And>h. h \<in> set hs \<Longrightarrow> \<not> hl_released h \<Longrightarrow> now \<le> hl_until h \<Longrightarrow>
      mr_locks l (hl_key h) = Some \<lparr>ml_token = hl_token h, ml_expires_at = hl_until h\<rparr>"
  shows "lock_inv now (l, hs)"
  using assms by (simp add: lock_inv_def)

lemma lock_invD:
  assumes "lock_inv now (l, hs)"
  shows "h \<in> set hs \<Longrightarrow> \<exists>t < now. hl_token h = int_text t" "distinct (map hl_token hs)"
    "h \<in> set hs \<Longrightarrow> \<not> hl_released h \<Longrightarrow> now \<le> hl_until h \<Longrightarrow>
      mr_locks l (hl_key h) = Some \<lparr>ml_token = hl_token h, ml_expires_at = hl_until h\<rparr>"
  using assms by (auto simp: lock_inv_def)

lemma lock_inv_try:
  assumes inv: "lock_inv now (l, hs)"
  shows "lock_inv (now + 1) (lock_step (now, TryLock key ttl) (l, hs))"
proof (cases "0 < ttl \<and> (\<forall>cur. mr_locks l key = Some cur \<longrightarrow> ml_expires_at cur \<le> now)")
  case True
  let ?h = "\<lparr>hl_key = key, hl_token = int_text now, hl_until = now + ttl, hl_released = False\<rparr>"
  let ?l = "l\<lparr>mr_locks := (mr_locks l)(key \<mapsto> \<lparr>ml_token = int_text now, ml_expires_at = now + ttl\<rparr>)\<rparr>"
  have "lock_inv (now + 1) (?l, hs @ [?h])"
  proof (rule lock_invI)
    fix h assume "h \<in> set (hs @ [?h])"
    then have "h \<in> set hs \<or> hl_token h = int_text now" by auto
    then show "\<exists>t < now + 1. hl_token h = int_text t"
      using lock_invD(1) [OF inv, of h] by (metis zless_add1_eq)
  next
    have "int_text now \<notin> set (map hl_token hs)"
      using lock_invD(1) [OF inv] by (fastforce dest: int_text_inj)
    then show "distinct (map hl_token (hs @ [?h]))" using lock_invD(2) [OF inv] by simp
  next
    fix h assume h: "h \<in> set (hs @ [?h])" "\<not> hl_released h" "now + 1 \<le> hl_until h"
    show "mr_locks ?l (hl_key h) = Some \<lparr>ml_token = hl_token h, ml_expires_at = hl_until h\<rparr>"
    proof (cases "h = ?h")
      case False
      with h have old: "mr_locks l (hl_key h) = Some \<lparr>ml_token = hl_token h, ml_expires_at = hl_until h\<rparr>"
        by (intro lock_invD(3) [OF inv]) auto
      have "hl_key h \<noteq> key"
      proof
        assume "hl_key h = key"
        with True old have "hl_until h \<le> now" by fastforce
        with h(3) show False by simp
      qed
      with old show ?thesis by simp
    qed simp
  qed
  then show ?thesis unfolding lock_step_try if_P [OF True] .
next
  case False
  then show ?thesis
    unfolding lock_step_try if_not_P [OF False] using lock_inv_later [OF inv, of "now + 1"] by simp
qed

lemma lock_inv_release:
  assumes inv: "lock_inv now (l, hs)"
  shows "lock_inv (now + 1) (lock_step (now, Release i) (l, hs))"
proof (cases "i < length hs")
  case True
  let ?h = "hs ! i" and ?hs = "hs[i := (hs ! i)\<lparr>hl_released := True\<rparr>]"
  let ?l = "snd (memory_unlock None (hl_key ?h, hl_token ?h) l)"
  have map: "map hl_token ?hs = map hl_token hs" by (simp add: map_update list_update_same_conv True)
  have from_old: "\<exists>h' \<in> set hs. hl_token h' = hl_token h" if "h \<in> set ?hs" for h
    using that True by (auto dest!: set_update_subset_insert [THEN subsetD])
  have "lock_inv (now + 1) (?l, ?hs)"
  proof (rule lock_invI)
    fix h assume "h \<in> set ?hs"
    then obtain h' where h': "h' \<in> set hs" "hl_token h' = hl_token h" using from_old by blast
    with lock_invD(1) [OF inv h'(1)] show "\<exists>t < now + 1. hl_token h = int_text t" by (metis zless_add1_eq)
  next
    show "distinct (map hl_token ?hs)" unfolding map by (rule lock_invD(2) [OF inv])
  next
    fix h assume h: "h \<in> set ?hs" "\<not> hl_released h" "now + 1 \<le> hl_until h"
    then obtain j where "j < length hs" "h = ?hs ! j" by (auto simp: in_set_conv_nth)
    with h(2) True have j: "j < length hs" "j \<noteq> i" "h = hs ! j" by (auto simp: nth_list_update)
    then have old: "mr_locks l (hl_key h) = Some \<lparr>ml_token = hl_token h, ml_expires_at = hl_until h\<rparr>"
      using h by (intro lock_invD(3) [OF inv]) auto
    have "hl_token h \<noteq> hl_token ?h"
      using lock_invD(2) [OF inv] j True by (auto simp: distinct_conv_nth)
    with old show "mr_locks ?l (hl_key h) = Some \<lparr>ml_token = hl_token h, ml_expires_at = hl_until h\<rparr>"
      by (auto simp: memory_unlock_def split: option.splits)
  qed
  with True show ?thesis by simp
next
  case False
  then show ?thesis using lock_inv_later [OF inv, of "now + 1"] by simp
qed

lemma lock_inv_run:
  "lock_inv now s \<Longrightarrow> sorted_wrt (<) (map fst evs) \<Longrightarrow> \<forall>t \<in> fst ` set evs. now \<le> t \<and> t < t' \<Longrightarrow> now \<le> t' \<Longrightarrow>
    lock_inv t' (fold lock_step evs s)"
proof (induction evs arbitrary: now s)
  case Nil
  then show ?case using lock_inv_later by simp
next
  case (Cons ev evs)
  obtain t e where ev: "ev = (t, e)" by (cases ev)
  obtain l hs where s: "s = (l, hs)" by (cases s)
  have "lock_inv t (l, hs)" using Cons.prems by (auto simp: ev s intro: lock_inv_later)
  then have "lock_inv (t + 1) (lock_step ev s)"
    unfolding ev s by (cases e) (simp_all only: lock_inv_try lock_inv_release)
  moreover have "\<forall>u \<in> fst ` set evs. t + 1 \<le> u \<and> u < t'"
    using Cons.prems by (auto simp: ev add1_zle_eq)
  ultimately show ?case using Cons.prems Cons.IH [of "t + 1" "lock_step ev s"] by (auto simp: ev)
qed

text \<open>
  C16: locks in memory exclude each other.  After any sequence of attempts to lock and of calls of unlock functions,
  each at a moment of its own, stale and repeated unlocks included, no two locks on one key are both held: of two locks
  that were not given up, at most one has time left.  What a holder of a lock in time gives up is its own.
\<close>

theorem memory_locks_exclude:
  assumes "sorted_wrt (<) (map fst evs)" "\<forall>ev \<in> set evs. fst ev < t"
    and run: "fold lock_step evs (new_memory_locker, []) = (l, hs)"
    and ij: "i < length hs" "j < length hs" "hl_key (hs ! i) = hl_key (hs ! j)"
    and held: "\<not> hl_released (hs ! i)" "t \<le> hl_until (hs ! i)" "\<not> hl_released (hs ! j)" "t \<le> hl_until (hs ! j)"
  shows "i = j \<and> mr_locks l (hl_key (hs ! i)) = Some \<lparr>ml_token = hl_token (hs ! i), ml_expires_at = hl_until (hs ! i)\<rparr>"
proof -
  obtain t0 where t0: "t0 \<le> t" "\<forall>s \<in> fst ` set evs. t0 \<le> s"
    using assms(1,2) by (cases evs) (force simp: less_imp_le)+
  have "lock_inv t0 (new_memory_locker, [])" by (simp add: lock_inv_def)
  from lock_inv_run [OF this assms(1), of t] assms(2) t0 have inv: "lock_inv t (l, hs)" by (auto simp: run)
  have "mr_locks l (hl_key (hs ! i)) = Some \<lparr>ml_token = hl_token (hs ! i), ml_expires_at = hl_until (hs ! i)\<rparr>"
    by (rule lock_invD(3) [OF inv nth_mem [OF ij(1)] held(1,2)])
  moreover have "mr_locks l (hl_key (hs ! j)) = Some \<lparr>ml_token = hl_token (hs ! j), ml_expires_at = hl_until (hs ! j)\<rparr>"
    by (rule lock_invD(3) [OF inv nth_mem [OF ij(2)] held(3,4)])
  moreover from calculation ij(3) have "hl_token (hs ! i) = hl_token (hs ! j)" by simp
  then have "i = j" using lock_invD(2) [OF inv] ij(1,2) by (auto simp: distinct_conv_nth)
  ultimately show ?thesis by simp
qed

text \<open>Two clients, a lock that ran out and a stale unlock of it.\<close>

theorem memory_locks_exclude_witness:
  "\<exists>l hs. fold lock_step [(0, TryLock ''k'' 5), (3, TryLock ''k'' 5), (6, TryLock ''k'' 5), (7, Release 0)]
       (new_memory_locker, []) = (l, hs) \<and> length hs = 2 \<and>
     mr_locks l ''k'' = Some \<lparr>ml_token = hl_token (hs ! 1), ml_expires_at = 11\<rparr>"
proof -
  let ?evs = "[(0, TryLock ''k'' 5), (3, TryLock ''k'' 5), (6, TryLock ''k'' 5), (7, Release 0)]"
  obtain l hs where run: "fold lock_step ?evs (new_memory_locker, []) = (l, hs)" by (metis surj_pair)
  have texts: "int_text 6 \<noteq> int_text 0" using int_text_inj by fastforce
  have hs: "length hs = 2" "hl_key (hs ! 1) = ''k''" "\<not> hl_released (hs ! 1)" "hl_until (hs ! 1) = 11"
    using run texts by (auto simp: lock_step_try new_memory_locker_def memory_unlock_def simp del: lock_step.simps(1))
  from memory_locks_exclude [OF _ _ run, of 8 1 1] hs have
    "mr_locks l ''k'' = Some \<lparr>ml_token = hl_token (hs ! 1), ml_expires_at = 11\<rparr>" by simp
  with run hs(1) show ?thesis by blast
qed

text \<open>
  Tokens are made of the clock: of two locks taken at the same nanosecond, the one after the other was given up, a
  second call of the first unlock function gives up the second lock.
\<close>

lemma same_moment_unlock:
  assumes "0 < ttl" "0 < ttl'"
  shows "let s1 = lock_step (t, TryLock k ttl) (new_memory_locker, []);
      s2 = lock_step (t, Release 0) s1; s3 = lock_step (t, TryLock k ttl') s2; s4 = lock_step (t, Release 0) s3 in
    \<not> hl_released (snd s4 ! 1) \<and> mr_locks (fst s4) k = None"
  using assms by (simp add: lock_step_try new_memory_locker_def memory_unlock_def Let_def del: lock_step.simps(1))

section \<open>The lock middleware over locks in memory\<close>

text \<open>A world with the clock, the locks and the rest.  The unlock of the middleware is not cancelled.\<close>

definition memory_queue_locker :: "(int \<times> memory_locker \<times> 'x, unlock_handle) locker" where
  "memory_queue_locker =
     \<lparr>lk_lock = (\<lambda>ctx key ttl (now, l, x).
        let (r, l') = memory_lock_key now (Option.bind ctx qc_err) key ttl (Some l) in (r, (now, the l', x))),
      lk_unlock = (\<lambda>u (now, l, x). let (e, l') = memory_unlock None u l in (e, (now, l', x)))\<rparr>"

text \<open>A task whose key is locked is refused, and its handler does not run.\<close>

lemma locked_task_is_refused:
  assumes "mr_locks l key = Some cur" "now < ml_expires_at cur" "0 < ttl" "key \<noteq> []"
    and "key_fn (or_background ctx) msg = (key, ttl, True, None)" "Option.bind (or_background ctx) qc_err = None"
  shows "lock_mw (Some memory_queue_locker) key_fn next ctx msg (now, l, x) =
    (Returned (Some (QSentinel QErrLockNotAcquired)), msg, (now, l, x))"
  using assms by (simp add: lock_mw_def memory_queue_locker_def memory_lock_key_def)

text \<open>A task whose key is free runs with the lock taken, and a handler that leaves the locks alone leaves the key free.\<close>

lemma free_task_runs_locked:
  assumes "mr_locks l key = None" "0 < ttl" "key \<noteq> []"
    and "key_fn (or_background ctx) msg = (key, ttl, True, None)" "Option.bind (or_background ctx) qc_err = None"
    and run: "next (or_background ctx) msg
      (now, l\<lparr>mr_locks := (mr_locks l)(key \<mapsto> \<lparr>ml_token = int_text now, ml_expires_at = now + ttl\<rparr>)\<rparr>, x) = (out, msg', (now', l', x'))"
    and keeps: "mr_locks l' = (mr_locks l)(key \<mapsto> \<lparr>ml_token = int_text now, ml_expires_at = now + ttl\<rparr>)"
  shows "lock_mw (Some memory_queue_locker) key_fn next ctx msg (now, l, x) =
    (out, msg', (now', l'\<lparr>mr_locks := (mr_locks l)\<rparr>, x'))"
proof -
  have "(mr_locks l)(key := None) = mr_locks l" using assms(1) by auto
  with assms show ?thesis
    by (simp add: lock_mw_def memory_queue_locker_def memory_lock_key_def memory_unlock_def Let_def)
qed

section \<open>The rate limit counts in windows\<close>

fun allow_at :: "string \<Rightarrow> int \<Rightarrow> int \<Rightarrow> int list \<Rightarrow> memory_rate_limiter \<Rightarrow> bool list" where
  "allow_at key limit window [] l = []"
| "allow_at key limit window (t # ts) l =
     (let (r, l') = memory_allow t t None key limit window (Some l) in
      fst r # allow_at key limit window ts (the l'))"

lemma allow_in_bucket:
  assumes "0 < limit" "0 < window"
  shows "mb_buckets l key = Some \<lparr>rb_count = n, rb_expires_at = e\<rparr> \<Longrightarrow> \<forall>t \<in> set ts. t \<le> e \<Longrightarrow>
    allow_at key limit window ts l = map (\<lambda>i. int i \<le> limit) [n + 1..<n + 1 + length ts]"
proof (induction ts arbitrary: n l)
  case (Cons t ts)
  have "[n + 1..<n + 1 + length (t # ts)] = (n + 1) # [Suc (n + 1)..<n + 1 + length (t # ts)]"
    by (intro upt_conv_Cons) simp
  with Cons assms show ?case
    by (simp add: memory_allow_def current_bucket_def Let_def)
qed simp

text \<open>Of the calls within a window after a first one, exactly the first \<open>limit\<close> are allowed.\<close>

lemma allow_window:
  assumes "0 < limit" "0 < window" "mb_buckets l key = None" "\<forall>t \<in> set ts. t \<le> t0 + window"
  shows "allow_at key limit window (t0 # ts) l = map (\<lambda>i. int i \<le> limit) [1..<length ts + 2]"
proof -
  let ?l = "l\<lparr>mb_buckets := (mb_buckets l)(key \<mapsto> \<lparr>rb_count = 1, rb_expires_at = t0 + window\<rparr>)\<rparr>"
  have "[1..<length ts + 2] = 1 # [Suc 1..<length ts + 2]" by (intro upt_conv_Cons) simp
  with assms allow_in_bucket [OF assms(1,2), of ?l key 1 "t0 + window" ts] show ?thesis
    by (simp add: memory_allow_def current_bucket_def Let_def)
qed

end
