(* ===== verification/Go_Path.thy ===== *)
theory Go_Path
  imports Prelude
begin

text \<open>
  Slash-separated paths, as Go's \<^verbatim>\<open>path/filepath\<close> treats them on a Unix system, and two operations of \<^verbatim>\<open>strings\<close>.
  \<open>ToSlash\<close> and \<open>FromSlash\<close> do nothing there.
\<close>

abbreviation slash :: char where "slash \<equiv> CHR ''/''"
abbreviation dot :: char where "dot \<equiv> CHR ''.''"

definition drop_trailing :: "char \<Rightarrow> string \<Rightarrow> string" where
  "drop_trailing c s = rev (dropWhile (\<lambda>x. x = c) (rev s))"

definition drop_leading :: "char \<Rightarrow> string \<Rightarrow> string" where
  "drop_leading c s = dropWhile (\<lambda>x. x = c) s"

text \<open>ASCII letters only, as in \<open>to_upper\<close>.\<close>

definition lower_char :: "char \<Rightarrow> char" where
  "lower_char c = (let n = (of_char c :: nat) in if 65 \<le> n \<and> n \<le> 90 then char_of (n + 32) else c)"

definition to_lower :: "string \<Rightarrow> string" where
  "to_lower s = map lower_char s"

definition has_suffix :: "string \<Rightarrow> string \<Rightarrow> bool" where
  "has_suffix s p \<longleftrightarrow> has_prefix (rev s) (rev p)"

definition path_base :: "string \<Rightarrow> string" where
  "path_base p =
     (if p = [] then ''.''
      else (let q = drop_trailing slash p in if q = [] then ''/'' else rev (takeWhile (\<lambda>c. c \<noteq> slash) (rev q))))"

definition path_ext :: "string \<Rightarrow> string" where
  "path_ext p =
     (let last = takeWhile (\<lambda>c. c \<noteq> slash) (rev p) in
      if dot \<in> set last then dot # rev (takeWhile (\<lambda>c. c \<noteq> dot) last) else [])"

section \<open>Clean and Join\<close>

definition clean_step :: "bool \<Rightarrow> string \<Rightarrow> string list \<Rightarrow> string list" where
  "clean_step rooted c st =
     (if c = [] \<or> c = ''.'' then st
      else if c = ''..'' then
        (if st \<noteq> [] \<and> last st \<noteq> ''..'' then butlast st else if rooted then st else st @ [c])
      else st @ [c])"

fun join_slash :: "string list \<Rightarrow> string" where
  "join_slash [] = []"
| "join_slash [c] = c"
| "join_slash (c # d # cs) = c @ slash # join_slash (d # cs)"

definition clean_parts :: "bool \<Rightarrow> string list \<Rightarrow> string list" where
  "clean_parts rooted cs = fold (clean_step rooted) cs []"

definition path_clean :: "string \<Rightarrow> string" where
  "path_clean p =
     (let rooted = (p \<noteq> [] \<and> hd p = slash);
          out = join_slash (clean_parts rooted (split_on slash p)) in
      if rooted then slash # out else if out = [] then ''.'' else out)"

definition path_join :: "string list \<Rightarrow> string" where
  "path_join ps = (case filter (\<lambda>p. p \<noteq> []) ps of [] \<Rightarrow> [] | qs \<Rightarrow> path_clean (join_slash qs))"

section \<open>Facts\<close>

lemma split_on_append: "split_on c (a @ c # b) = split_on c a @ split_on c b"
proof (induction a)
  case (Cons x a)
  then show ?case by (cases "split_on c a") simp_all
qed simp

lemma split_on_parts: "p \<in> set (split_on c s) \<Longrightarrow> c \<notin> set p"
  by (induction s arbitrary: p) (auto split: if_splits list.splits)

text \<open>A name: a component that is neither empty nor a dot or two.\<close>

definition path_name :: "string \<Rightarrow> bool" where
  "path_name c \<longleftrightarrow> c \<noteq> [] \<and> c \<noteq> ''.'' \<and> c \<noteq> ''..'' \<and> slash \<notin> set c"

lemma clean_step_name: "path_name c \<Longrightarrow> clean_step rooted c st = st @ [c]"
  by (simp add: path_name_def clean_step_def)

lemma clean_names: "\<forall>c \<in> set cs. path_name c \<Longrightarrow> fold (clean_step rooted) cs st = st @ cs"
  by (induction cs arbitrary: st) (simp_all add: clean_step_name)

text \<open>Components without two dots only add to those before.\<close>

lemma clean_step_grows: "c \<noteq> ''..'' \<Longrightarrow> \<exists>more. clean_step rooted c st = st @ more"
  by (auto simp: clean_step_def)

lemma clean_grows: "''..'' \<notin> set cs \<Longrightarrow> \<exists>more. fold (clean_step rooted) cs st = st @ more"
proof (induction cs arbitrary: st)
  case (Cons c cs)
  then obtain m where "clean_step rooted c st = st @ m" using clean_step_grows [of c rooted st] by auto
  moreover obtain n where "fold (clean_step rooted) cs (st @ m) = (st @ m) @ n" using Cons.IH [of "st @ m"] Cons.prems by auto
  ultimately show ?case by simp
qed simp

lemma join_slash_append:
  "xs \<noteq> [] \<Longrightarrow> ys \<noteq> [] \<Longrightarrow> join_slash (xs @ ys) = join_slash xs @ slash # join_slash ys"
proof (induction xs rule: join_slash.induct)
  case (2 c)
  then show ?case by (cases ys) simp_all
qed simp_all

lemma split_join_names: "\<forall>c \<in> set cs. slash \<notin> set c \<Longrightarrow> cs \<noteq> [] \<Longrightarrow> split_on slash (join_slash cs) = cs"
  by (induction cs rule: join_slash.induct) (simp_all add: split_on_no_sep split_on_append)

text \<open>The parts of a clean rooted path are names.\<close>

lemma clean_rooted_names:
  "\<forall>c \<in> set cs. slash \<notin> set c \<Longrightarrow> \<forall>c \<in> set st. path_name c \<Longrightarrow>
    \<forall>c \<in> set (fold (clean_step True) cs st). path_name c"
proof (induction cs arbitrary: st)
  case (Cons c cs)
  have "\<forall>d \<in> set (clean_step True c st). path_name d"
    using Cons.prems by (auto simp: clean_step_def path_name_def dest: in_set_butlastD)
  with Cons show ?case by simp
qed simp

text \<open>Joining a path without two dots to a rooted directory of names stays below it.\<close>

lemma join_stays_inside:
  assumes dir: "\<forall>c \<in> set ds. path_name c" "ds \<noteq> []"
    and p: "''..'' \<notin> set (split_on slash p)"
  shows "\<exists>more. (\<forall>c \<in> set more. path_name c) \<and> path_join [slash # join_slash ds, p] = slash # join_slash (ds @ more)"
proof (cases "p = []")
  case True
  have "split_on slash (join_slash ds) = ds" using dir by (intro split_join_names) (auto simp: path_name_def)
  then have "clean_parts True (split_on slash (slash # join_slash ds)) = ds"
    using clean_names [OF dir(1), of True "[]"] by (simp add: clean_parts_def clean_step_def)
  with True show ?thesis
    by (intro exI [of _ "[]"]) (simp add: path_join_def path_clean_def Let_def del: split_on.simps)
next
  case False
  let ?q = "slash # join_slash ds @ slash # p"
  have q: "join_slash [slash # join_slash ds, p] = ?q" by simp
  have ds: "split_on slash (join_slash ds) = ds" using dir by (intro split_join_names) (auto simp: path_name_def)
  have parts: "split_on slash ?q = [] # ds @ split_on slash p"
    using split_on_append [of slash "join_slash ds" p] ds by simp
  obtain more where more: "fold (clean_step True) (split_on slash p) ds = ds @ more"
    using clean_grows [OF p] by blast
  have "fold (clean_step True) ds [] = ds" using clean_names [OF dir(1), of True "[]"] by simp
  with more have clean: "clean_parts True (split_on slash ?q) = ds @ more"
    unfolding parts clean_parts_def by (simp add: clean_step_def)
  have "\<forall>c \<in> set (ds @ more). path_name c"
    unfolding more [symmetric] by (rule clean_rooted_names) (use dir split_on_parts in blast)+
  with clean q False show ?thesis
    by (intro exI [of _ more]) (simp add: path_join_def path_clean_def Let_def del: split_on.simps)
qed

text \<open>One that starts with two dots leaves it.\<close>

lemma join_may_leave: "path_join [''/data/files'', ''../secret''] = ''/data/secret''"
  by code_simp

end
