(* ===== verification/Storage_Types.thy ===== *)
theory Storage_Types
  imports Go_Path Go_Text
begin

text \<open>
  Storage (\<^verbatim>\<open>pkg/storage\<close>): configuration, files, events and hooks, and the validation of files
  (\<^verbatim>\<open>core/*.go\<close>, \<^verbatim>\<open>config.go\<close>, \<^verbatim>\<open>hooks.go\<close>).  A reader is the bytes it gives and the error it then ends with.
  Hooks and drivers are functions over a world.  Contexts, callbacks of progress and seeking, which are passed on, are
  left out; so are MIME types of drivers.
\<close>

section \<open>Data (core)\<close>

datatype storage_error =
    ErrFileTooBig | ErrFileNotFound | ErrNameInvalid | ErrUnknownDriver | ErrHookRequired
  | ErrSourceExpired | ErrSourceSignatureInvalid | ErrSourceSecretRequired
  | StorageText string | StorageExternal string | StoragePanic string

record storage_policy =
  sp_driver :: string
  sp_name :: string
  sp_bucket :: string
  sp_endpoint :: string
  sp_endpoint_inner :: string
  sp_cdn_url :: string
  sp_region :: string
  sp_access_key :: string
  sp_secret_key :: string
  sp_local_dir :: string

type_synonym driver_values = "string \<rightharpoonup> (string \<rightharpoonup> string)"

text \<open>Of the values of \<open>DriverConfig\<close> only the texts, which are all that is read here.\<close>

record storage_config =
  sc_store_name :: string
  sc_default_store :: bool
  sc_driver :: string
  sc_temp_dir :: string
  sc_max_size :: int
  sc_chunk_size :: int
  sc_token_ttl :: int
  sc_dir_rule :: string
  sc_file_rule :: string
  sc_allowed_extensions :: "string list"
  sc_policy :: storage_policy
  sc_driver_config :: driver_values

record file_info =
  fi_name :: string
  fi_path :: string
  fi_size :: int
  fi_mime :: string
  fi_mod_time :: int
  fi_metadata :: "string \<rightharpoonup> string"

definition no_info :: file_info where
  "no_info = \<lparr>fi_name = [], fi_path = [], fi_size = 0, fi_mime = [], fi_mod_time = 0, fi_metadata = Map.empty\<rparr>"

text \<open>\<open>rd_stat\<close> is the size a reader's \<open>Stat\<close> gives, if it has one that works.\<close>

record reader =
  rd_data :: string
  rd_error :: "storage_error option"
  rd_stat :: "int option"

record storage_object =
  so_name :: string
  so_path :: string
  so_size :: int
  so_is_dir :: bool
  so_mod_time :: int

record upload_credential =
  uc_mode :: string
  uc_upload_id :: string
  uc_gateway :: string
  uc_chunk_size :: int
  uc_chunk_num :: int
  uc_upload_urls :: "string list"
  uc_complete_url :: string
  uc_path :: string
  uc_access_path :: string

text \<open>A driver; the last two fields are the optional interfaces \<open>TempDir\<close> and \<open>Close\<close>.\<close>

record 'w handler =
  hd_put :: "file_info \<Rightarrow> reader \<Rightarrow> 'w \<Rightarrow> storage_error option \<times> 'w"
  hd_get :: "string \<Rightarrow> 'w \<Rightarrow> (storage_error + reader) \<times> 'w"
  hd_delete :: "string list \<Rightarrow> 'w \<Rightarrow> storage_error option \<times> 'w"
  hd_list :: "string \<Rightarrow> 'w \<Rightarrow> (storage_error + storage_object list) \<times> 'w"
  hd_source :: "string \<Rightarrow> int \<Rightarrow> 'w \<Rightarrow> (storage_error + string) \<times> 'w"
  hd_token :: "file_info \<Rightarrow> int \<Rightarrow> 'w \<Rightarrow> (storage_error + upload_credential) \<times> 'w"
  hd_temp_dir :: "string option"
  hd_close :: "('w \<Rightarrow> storage_error option \<times> 'w) option"

section \<open>Configuration (config.go)\<close>

fun first_text :: "string list \<Rightarrow> string" where
  "first_text [] = []"
| "first_text (v # vs) = (if v \<noteq> [] then v else first_text vs)"

definition default_chunk_size :: int where
  "default_chunk_size = 5 * 2 ^ 20"

definition default_token_ttl :: int where
  "default_token_ttl = 2 * 3600 * 10 ^ 9"

definition normalize_storage_config :: "storage_config \<Rightarrow> storage_config" where
  "normalize_storage_config c =
     c\<lparr>sc_policy := (sc_policy c)\<lparr>sp_driver := first_text [sp_driver (sc_policy c), sc_driver c]\<rparr>,
       sc_chunk_size := (if sc_chunk_size c \<le> 0 then default_chunk_size else sc_chunk_size c),
       sc_token_ttl := (if sc_token_ttl c \<le> 0 then default_token_ttl else sc_token_ttl c),
       sc_dir_rule := (if sc_dir_rule c = [] then ''uploads/{date}'' else sc_dir_rule c),
       sc_file_rule := (if sc_file_rule c = [] then ''{originname}{ext}'' else sc_file_rule c)\<rparr>"

definition driver_string :: "storage_config \<Rightarrow> string \<Rightarrow> string \<Rightarrow> string" where
  "driver_string c d k =
     (case sc_driver_config c d of None \<Rightarrow> []
      | Some vs \<Rightarrow> (case vs k of None \<Rightarrow> [] | Some v \<Rightarrow> v))"

section \<open>Validation (hooks.go)\<close>

abbreviation reserved_name_chars :: string where
  "reserved_name_chars \<equiv> [CHR 0x5C, CHR ''?'', CHR ''*'', CHR ''<'', CHR 0x22, CHR '':'', CHR ''>'', CHR ''/'', CHR ''|'']"

definition validate_file_size :: "storage_config option \<Rightarrow> int \<Rightarrow> bool" where
  "validate_file_size fs n =
     (case fs of None \<Rightarrow> True | Some c \<Rightarrow> sc_max_size c \<le> 0 \<or> n \<le> sc_max_size c)"

definition name_or_base :: "string \<Rightarrow> string \<Rightarrow> string" where
  "name_or_base name path = (if name = [] \<and> path \<noteq> [] then path_base path else name)"

definition validate_file_name :: "string \<Rightarrow> string \<Rightarrow> bool" where
  "validate_file_name name path =
     (let name = name_or_base name path in
      \<not> (name = [] \<or> length name \<ge> 256 \<or> has_suffix name '' '') \<and> list_all (\<lambda>c. c \<notin> set name) reserved_name_chars)"

definition dotted :: "string \<Rightarrow> string" where
  "dotted e = (if has_prefix e ''.'' then e else dot # e)"

definition validate_extension :: "storage_config option \<Rightarrow> string \<Rightarrow> string \<Rightarrow> bool" where
  "validate_extension fs name path =
     (case fs of None \<Rightarrow> True
      | Some c \<Rightarrow>
          if sc_allowed_extensions c = [] then True
          else (let ext = to_lower (path_ext (name_or_base name path)) in
            list_ex (\<lambda>a. let a = to_lower (trim_space a) in a \<noteq> [] \<and> ext = dotted a) (sc_allowed_extensions c)))"

definition validate_file_info :: "storage_config option \<Rightarrow> file_info \<Rightarrow> storage_error option" where
  "validate_file_info fs f =
     (if \<not> validate_file_size fs (fi_size f) then Some ErrFileTooBig
      else if \<not> validate_file_name (fi_name f) (fi_path f) then Some ErrNameInvalid
      else if \<not> validate_extension fs (fi_name f) (fi_path f) then Some ErrNameInvalid
      else None)"

section \<open>Events and hooks (hooks.go)\<close>

text \<open>The operations and the three stages of each.\<close>

datatype storage_operation =
    OperationUpload | OperationDownload | OperationGet | OperationDelete | OperationList | OperationSource
  | OperationToken

fun operation_name :: "storage_operation \<Rightarrow> string" where
  "operation_name OperationUpload = ''Upload''"
| "operation_name OperationDownload = ''Download''"
| "operation_name OperationGet = ''Get''"
| "operation_name OperationDelete = ''Delete''"
| "operation_name OperationList = ''List''"
| "operation_name OperationSource = ''Source''"
| "operation_name OperationToken = ''Token''"

definition hook_before :: "storage_operation \<Rightarrow> string" where
  "hook_before op = ''Before'' @ operation_name op"

definition hook_after :: "storage_operation \<Rightarrow> string" where
  "hook_after op = ''After'' @ operation_name op"

definition hook_after_failed :: "storage_operation \<Rightarrow> string" where
  "hook_after_failed op = ''After'' @ operation_name op @ ''Failed''"

text \<open>
  The values of the metadata: the file system, of which only the configuration is read from there, and any other.
\<close>

datatype meta_value = MetaFileSystem "storage_config option" | MetaOther string

record storage_event =
  se_store :: string
  se_operation :: storage_operation
  se_stage :: string
  se_file :: file_info
  se_reader :: "reader option"
  se_path :: string
  se_paths :: "string list"
  se_objects :: "storage_object list"
  se_source :: string
  se_credential :: "upload_credential option"
  se_err :: "storage_error option"
  se_metadata :: "string \<rightharpoonup> meta_value"

type_synonym 'w storage_hook = "storage_event \<Rightarrow> 'w \<Rightarrow> storage_error option \<times> 'w"

text \<open>The hooks of one call, by their stage, none for a nil one.\<close>

record 'w operation_hooks =
  oh_hooks :: "string \<Rightarrow> 'w storage_hook option list"
  oh_metadata :: "string \<rightharpoonup> meta_value"

type_synonym 'w hook_option = "'w operation_hooks \<Rightarrow> 'w operation_hooks"

text \<open>\<open>BeforeUpload\<close> to \<open>AfterTokenFailed\<close>: one option for each stage.\<close>

definition stage_hook :: "string \<Rightarrow> 'w storage_hook option \<Rightarrow> 'w hook_option" where
  "stage_hook stage h hooks = hooks\<lparr>oh_hooks := (oh_hooks hooks)(stage := oh_hooks hooks stage @ [h])\<rparr>"

definition hook_metadata :: "string \<Rightarrow> meta_value \<Rightarrow> 'w hook_option" where
  "hook_metadata k v hooks = hooks\<lparr>oh_metadata := (oh_metadata hooks)(k \<mapsto> v)\<rparr>"

definition collect_hook_options :: "'w hook_option option list \<Rightarrow> 'w operation_hooks" where
  "collect_hook_options opts =
     fold (\<lambda>opt hooks. case opt of None \<Rightarrow> hooks | Some f \<Rightarrow> f hooks) opts
       \<lparr>oh_hooks = (\<lambda>_. []), oh_metadata = Map.empty\<rparr>"

definition store_name :: "storage_config option \<Rightarrow> string" where
  "store_name fs =
     (case fs of None \<Rightarrow> []
      | Some c \<Rightarrow> if sp_name (sc_policy c) \<noteq> [] then sp_name (sc_policy c) else sc_driver c)"

definition hook_event ::
  "'w operation_hooks \<Rightarrow> storage_config option \<Rightarrow> storage_operation \<Rightarrow> string \<Rightarrow> file_info \<Rightarrow> storage_error option \<Rightarrow> storage_event" where
  "hook_event hooks fs operation stage f err =
     \<lparr>se_store = store_name fs, se_operation = operation, se_stage = stage, se_file = f, se_reader = None,
      se_path = [], se_paths = [], se_objects = [], se_source = [], se_credential = None, se_err = err,
      se_metadata = (oh_metadata hooks)(''filesystem'' \<mapsto> MetaFileSystem fs)\<rparr>"

text \<open>The hook every file system registers.\<close>

definition hook_validate_file :: "'w storage_hook" where
  "hook_validate_file e w =
     (case se_metadata e ''filesystem'' of
        Some (MetaFileSystem (Some c)) \<Rightarrow> (validate_file_info (Some c) (se_file e), w)
      | _ \<Rightarrow> (None, w))"

text \<open>The loop of \<open>Trigger\<close>.\<close>

fun run_storage_hooks :: "'w storage_hook option list \<Rightarrow> storage_event \<Rightarrow> 'w \<Rightarrow> storage_error option \<times> 'w" where
  "run_storage_hooks [] e w = (None, w)"
| "run_storage_hooks (None # hs) e w = run_storage_hooks hs e w"
| "run_storage_hooks (Some h # hs) e w =
     (case h e w of (Some err, w) \<Rightarrow> (Some err, w) | (None, w) \<Rightarrow> run_storage_hooks hs e w)"

end
