(* ===== verification/Storage_Chunks.thy ===== *)
theory Storage_Chunks
  imports Storage_Types "HOL-Library.Signed_Division"
begin

text \<open>
  Chunks of an upload on the local disk (\<^verbatim>\<open>pkg/storage/chunk/chunk.go\<close>).  A file is named by the temporary
  directory, the upload and its own name, the three parts that are joined to its path; what the operating system may
  refuse is an argument of each operation.
\<close>

type_synonym chunk_path = "string \<times> string \<times> string"

type_synonym disk = "chunk_path \<rightharpoonup> string"

record chunk_upload =
  cu_upload_id :: string
  cu_file_name :: string
  cu_file_path :: string
  cu_chunk_size :: int
  cu_total_size :: int
  cu_chunk_num :: int
  cu_temp_dir :: string

text \<open>\<open>/\<close> and \<open>%\<close> round towards zero.\<close>

definition chunk_count :: "int \<Rightarrow> int \<Rightarrow> int" where
  "chunk_count n each = n sdiv each + (if n smod each \<noteq> 0 then 1 else 0)"

definition new_chunk_upload :: "string \<Rightarrow> string \<Rightarrow> string \<Rightarrow> string \<Rightarrow> int \<Rightarrow> int \<Rightarrow> chunk_upload" where
  "new_chunk_upload uid name path temp n each =
     \<lparr>cu_upload_id = uid, cu_file_name = name, cu_file_path = path, cu_chunk_size = each, cu_total_size = n,
      cu_chunk_num = chunk_count n each, cu_temp_dir = temp\<rparr>"

text \<open>\<open>%05d\<close>.\<close>

definition pad5 :: "string \<Rightarrow> string" where
  "pad5 s = replicate (5 - length s) (CHR ''0'') @ s"

definition chunk_file :: "chunk_upload \<Rightarrow> nat \<Rightarrow> chunk_path" where
  "chunk_file cu i = (cu_temp_dir cu, cu_upload_id cu, ''chunk_'' @ pad5 (nat_text i))"

definition merge_file :: "chunk_upload \<Rightarrow> chunk_path" where
  "merge_file cu = (cu_temp_dir cu, cu_upload_id cu, ''merged'')"

text \<open>Saving may be refused before anything is written, or break off after some bytes.\<close>

datatype save_fault = SaveFine | SaveRefused storage_error | SaveBroken nat storage_error

definition save_chunk :: "chunk_upload \<Rightarrow> nat \<Rightarrow> string \<Rightarrow> save_fault \<Rightarrow> disk \<Rightarrow> storage_error option \<times> disk" where
  "save_chunk cu i content fault d =
     (case fault of
        SaveFine \<Rightarrow> (None, d(chunk_file cu i \<mapsto> content))
      | SaveRefused e \<Rightarrow> (Some e, d)
      | SaveBroken n e \<Rightarrow> (Some e, d(chunk_file cu i \<mapsto> take n content)))"

definition chunk_received :: "chunk_upload \<Rightarrow> nat \<Rightarrow> disk \<Rightarrow> bool" where
  "chunk_received cu i d \<longleftrightarrow> d (chunk_file cu i) \<noteq> None"

definition received_chunks :: "chunk_upload \<Rightarrow> disk \<Rightarrow> nat list" where
  "received_chunks cu d = filter (\<lambda>i. chunk_received cu i d) [0..<nat (cu_chunk_num cu)]"

text \<open>Merging may be refused, break off at a chunk, or leave a file that cannot be opened.\<close>

datatype merge_fault = MergeFine | MergeRefused storage_error | MergeBroken nat storage_error | MergeUnreadable storage_error

fun merge_loop :: "chunk_upload \<Rightarrow> merge_fault \<Rightarrow> nat list \<Rightarrow> string \<Rightarrow> disk \<Rightarrow> storage_error option \<times> string" where
  "merge_loop cu fault [] out d = (None, out)"
| "merge_loop cu fault (i # is) out d =
     (case d (chunk_file cu i) of
        None \<Rightarrow> (Some (StorageText ''chunk missing''), out)
      | Some content \<Rightarrow>
          (case fault of
             MergeBroken j e \<Rightarrow> if i = j then (Some e, out) else merge_loop cu fault is (out @ content) d
           | _ \<Rightarrow> merge_loop cu fault is (out @ content) d))"

definition merge_chunks :: "chunk_upload \<Rightarrow> merge_fault \<Rightarrow> disk \<Rightarrow> storage_error option \<times> disk" where
  "merge_chunks cu fault d =
     (case fault of
        MergeRefused e \<Rightarrow> (Some e, d)
      | _ \<Rightarrow> (let (err, out) = merge_loop cu fault [0..<nat (cu_chunk_num cu)] [] d in (err, d(merge_file cu \<mapsto> out))))"

definition cleanup_chunks :: "chunk_upload \<Rightarrow> disk \<Rightarrow> disk" where
  "cleanup_chunks cu d = (\<lambda>(t, u, f). if t = cu_temp_dir cu \<and> u = cu_upload_id cu then None else d (t, u, f))"

section \<open>The files of different chunks are different\<close>

lemma pad5_digits: "replicate m (CHR ''0'') @ nat_text i = replicate n (CHR ''0'') @ nat_text j \<Longrightarrow> i = j"
proof -
  have read: "read_digits (replicate m (CHR ''0'') @ s) 0 = read_digits s 0" for m s
    by (induction m) (simp_all add: text_digit_def)
  assume "replicate m (CHR ''0'') @ nat_text i = replicate n (CHR ''0'') @ nat_text j"
  then have "read_digits (replicate m (CHR ''0'') @ nat_text i) 0 = read_digits (replicate n (CHR ''0'') @ nat_text j) 0" by simp
  then show "i = j" unfolding read by simp
qed

lemma chunk_file_inj [simp]: "chunk_file cu i = chunk_file cu j \<longleftrightarrow> i = j"
proof
  assume "chunk_file cu i = chunk_file cu j"
  then have "replicate (5 - length (nat_text i)) (CHR ''0'') @ nat_text i =
      replicate (5 - length (nat_text j)) (CHR ''0'') @ nat_text j"
    unfolding chunk_file_def pad5_def prod.inject same_append_eq by blast
  then show "i = j" by (rule pad5_digits)
qed simp

lemma merge_is_no_chunk [simp]: "chunk_file cu i \<noteq> merge_file cu" "merge_file cu \<noteq> chunk_file cu i"
  by (simp_all add: chunk_file_def merge_file_def)

section \<open>Merging and counting\<close>

lemma merge_loop_fine:
  "\<forall>i \<in> set is. d (chunk_file cu i) = Some (f i) \<Longrightarrow> merge_loop cu MergeFine is out d = (None, out @ concat (map f is))"
  by (induction "is" arbitrary: out) simp_all

text \<open>When all chunks are there, the merged file is all of them in order.\<close>

lemma merge_chunks_fine:
  assumes "\<forall>i < nat (cu_chunk_num cu). d (chunk_file cu i) = Some (f i)"
  shows "merge_chunks cu MergeFine d = (None, d(merge_file cu \<mapsto> concat (map f [0..<nat (cu_chunk_num cu)])))"
  using assms merge_loop_fine [of "[0..<nat (cu_chunk_num cu)]" d cu f "[]"] by (simp add: merge_chunks_def)

lemma all_received:
  "length (received_chunks cu d) = nat (cu_chunk_num cu) \<longleftrightarrow> (\<forall>i < nat (cu_chunk_num cu). d (chunk_file cu i) \<noteq> None)"
proof -
  have "length (filter P [0..<n]) = n \<longleftrightarrow> (\<forall>i < n. P i)" for P :: "nat \<Rightarrow> bool" and n
    by (metis (no_types, lifting) atLeastLessThan_iff diff_zero filter_id_conv length_filter_less length_upt
        less_irrefl set_upt zero_le)
  then show ?thesis by (simp add: received_chunks_def chunk_received_def)
qed

text \<open>The pieces of a text, and that there are as many of them as the code counts.\<close>

definition piece :: "nat \<Rightarrow> string \<Rightarrow> nat \<Rightarrow> string" where
  "piece each content i = take each (drop (i * each) content)"

lemma pieces_concat:
  assumes "0 < each" "length content \<le> n * each"
  shows "concat (map (piece each content) [0..<n]) = content"
  using assms(2)
proof (induction n arbitrary: content)
  case (Suc n)
  have "map (piece each content) [0..<Suc n] = piece each content 0 # map (piece each (drop each content)) [0..<n]"
    by (simp add: piece_def upt_conv_Cons del: upt_Suc flip: map_Suc_upt) (simp add: add.commute)
  then have "concat (map (piece each content) [0..<Suc n]) =
      piece each content 0 @ concat (map (piece each (drop each content)) [0..<n])"
    by (simp only: concat.simps)
  also have "concat (map (piece each (drop each content)) [0..<n]) = drop each content"
    using Suc.prems by (intro Suc.IH) simp
  finally show ?case by (simp add: piece_def)
qed simp

lemma sdiv_nonneg: "0 \<le> k \<Longrightarrow> 0 < l \<Longrightarrow> k sdiv l = k div l" for k l :: int
  by (cases "k = 0") (simp_all add: signed_divide_int_def)

lemma smod_nonneg: "0 \<le> k \<Longrightarrow> 0 < l \<Longrightarrow> k smod l = k mod l" for k l :: int
  by (cases "k = 0") (simp_all add: signed_modulo_int_def)

lemma chunk_count_exact:
  assumes "0 < each"
  shows "chunk_count (int n) (int each) = int ((n + each - 1) div each)"
proof -
  have "int n sdiv int each = int (n div each)" "int n smod int each = int (n mod each)"
    using assms by (simp_all add: sdiv_nonneg smod_nonneg zdiv_int zmod_int)
  moreover have "(n + each - 1) div each = n div each + (if n mod each = 0 then 0 else 1)"
  proof (cases "n mod each = 0")
    case True
    then obtain q where "n = each * q" by auto
    then have "n + each - 1 = each * q + (each - 1)" "n div each = q" using assms by simp_all
    then have "(n + each - 1) div each = q + (each - 1) div each" using assms by (metis div_mult_self4 less_numeral_extra(3))
    with assms True show ?thesis by (simp add: \<open>n div each = q\<close>)
  next
    case False
    define q r where "q = n div each" and "r = n mod each"
    then have "n = each * q + r" "r < each" "0 < r" using assms False by simp_all
    define s where "s = r - 1"
    then have "n + each - 1 = each * (q + 1) + s" and s: "s < each"
      using \<open>n = each * q + r\<close> \<open>r < each\<close> \<open>0 < r\<close> by (simp_all add: algebra_simps)
    then have "(n + each - 1) div each = (q + 1) + s div each" using assms by (metis div_mult_self4 less_numeral_extra(3))
    with False s show ?thesis by (simp add: q_def)
  qed
  ultimately show ?thesis by (simp add: chunk_count_def)
qed

lemma enough_pieces:
  assumes "0 < each"
  shows "n \<le> nat (chunk_count (int n) (int each)) * each"
proof -
  define m where "m = n + each - 1"
  have "m = m div each * each + m mod each" "m mod each < each" using assms by simp_all
  moreover have "m + 1 = n + each" using assms by (simp add: m_def)
  ultimately have "n \<le> m div each * each" by linarith
  then show ?thesis by (simp add: chunk_count_exact [OF assms] m_def)
qed

end
