(* ===== verification/Storage_Files.thy ===== *)
theory Storage_Files
  imports Storage_Chunks
begin

text \<open>
  The file system of the storage package (\<^verbatim>\<open>storage.go\<close>, \<^verbatim>\<open>upload.go\<close>, \<^verbatim>\<open>driver_registry.go\<close>): every operation runs
  hooks before and after it calls the driver, and uploads in chunks gather on the local disk first.  \<open>net/url\<close>, the
  clock, random values and the iteration order of a map are the fields of an environment.
\<close>

section \<open>State\<close>

text \<open>What is read of a parsed URL; the last field is \<open>String\<close> after the path was set.\<close>

record parsed_url =
  pu_scheme :: string
  pu_host :: string
  pu_path :: string
  pu_escaped_path :: string
  pu_with_path :: "string \<Rightarrow> string"

text \<open>
  \<open>en_fresh\<close> gives the values of the twelve variables that do not depend on the name, \<open>en_walk\<close> the order in which
  a map with these entries is walked, \<open>en_uuid\<close> a new identifier without dashes.
\<close>

record 'w storage_env =
  en_url_parse :: "string \<Rightarrow> parsed_url option"
  en_path_unescape :: "string \<Rightarrow> string option"
  en_fresh :: "'w \<Rightarrow> (string \<times> string) list \<times> 'w"
  en_walk :: "(string \<times> string) list \<Rightarrow> (string \<times> string) list"
  en_uuid :: "'w \<Rightarrow> string \<times> 'w"

record upload_session =
  us_upload_id :: string
  us_file_name :: string
  us_file_path :: string
  us_total_size :: int
  us_mime :: string
  us_metadata :: "string \<rightharpoonup> string"
  us_chunks :: chunk_upload

record namer =
  nm_dir_rule :: string
  nm_file_rule :: string

text \<open>A closed file system has lost the fields that are options.\<close>

record 'w file_system =
  fs_handler :: "'w handler option"
  fs_cfg :: storage_config
  fs_namer :: "namer option"
  fs_hooks :: "(string \<Rightarrow> 'w storage_hook option list) option"
  fs_sessions :: "(string \<rightharpoonup> upload_session) option"

record upload_result =
  ur_file :: file_info
  ur_path :: string
  ur_object_path :: string
  ur_uploaded :: bool
  ur_error :: "storage_error option"

text \<open>The results of the other operations: what they were about, their value, whether they were done, and the error.\<close>

record ('a, 'r) storage_result =
  sr_about :: 'a
  sr_value :: "'r option"
  sr_done :: bool
  sr_error :: "storage_error option"

definition result_ok :: "('a, 'r) storage_result \<Rightarrow> bool" where
  "result_ok r \<longleftrightarrow> sr_error r = None"

definition result_after_failed :: "('a, 'r) storage_result \<Rightarrow> bool" where
  "result_after_failed r \<longleftrightarrow> sr_done r \<and> sr_error r \<noteq> None"

definition upload_ok :: "upload_result \<Rightarrow> bool" where
  "upload_ok r \<longleftrightarrow> ur_error r = None"

definition upload_after_failed :: "upload_result \<Rightarrow> bool" where
  "upload_after_failed r \<longleftrightarrow> ur_uploaded r \<and> ur_error r \<noteq> None"

section \<open>Names and paths (namer.go, url.go, storage.go)\<close>

text \<open>\<open>strings.ReplaceAll\<close> for a pattern that is not empty.\<close>

function replace_all :: "string \<Rightarrow> string \<Rightarrow> string \<Rightarrow> string" where
  "replace_all s old new =
     (if s = [] \<or> old = [] then s
      else if has_prefix s old then new @ replace_all (drop (length old) s) old new
      else hd s # replace_all (tl s) old new)"
  by pat_completeness auto
termination by (relation "measure (\<lambda>(s, _, _). length s)") auto

declare replace_all.simps [simp del]

definition name_values :: "string \<Rightarrow> (string \<times> string) list \<Rightarrow> (string \<times> string) list" where
  "name_values origin fresh =
     (let ext = path_ext origin;
          stem = (if has_suffix origin ext then take (length origin - length ext) origin else origin) in
      fresh @ [(''{originname}'', stem), (''{ext}'', ext)])"

definition fill_rule :: "(string \<times> string) list \<Rightarrow> string \<Rightarrow> string" where
  "fill_rule repl rule = fold (\<lambda>(k, v) s. replace_all s k v) repl rule"

definition generate_name :: "'w storage_env \<Rightarrow> namer \<Rightarrow> string \<Rightarrow> 'w \<Rightarrow> string \<times> 'w" where
  "generate_name env n origin w =
     (let (fresh, w) = en_fresh env w;
          repl = en_walk env (name_values origin fresh) in
      (path_join [fill_rule repl (nm_dir_rule n), fill_rule repl (nm_file_rule n)], w))"

definition join_object_url :: "'w storage_env \<Rightarrow> string \<Rightarrow> string \<Rightarrow> string" where
  "join_object_url env base path =
     (if base = [] then []
      else (case en_url_parse env base of None \<Rightarrow> []
        | Some u \<Rightarrow> pu_with_path u (path_join [pu_path u, drop_leading slash path])))"

definition has_url_scheme :: "string \<Rightarrow> bool" where
  "has_url_scheme v =
     (let v = to_lower (trim_space v) in has_prefix v ''http://'' \<or> has_prefix v ''https://'')"

definition cdn_url :: "'w file_system \<Rightarrow> string" where
  "cdn_url fs = drop_trailing slash (trim_space (sp_cdn_url (sc_policy (fs_cfg fs))))"

definition access_path :: "'w storage_env \<Rightarrow> 'w file_system \<Rightarrow> string \<Rightarrow> string" where
  "access_path env fs p =
     (let p = trim_space p in
      if p = [] \<or> has_url_scheme p then p
      else if sc_default_store (fs_cfg fs) \<or> trim_space (sc_store_name (fs_cfg fs)) = [] then p
      else (let url = join_object_url env (cdn_url fs) p in if url \<noteq> [] then url else p))"

text \<open>The part of \<open>ObjectPath\<close> after both URLs were parsed.\<close>

definition object_path_below :: "'w storage_env \<Rightarrow> string \<Rightarrow> parsed_url \<Rightarrow> parsed_url \<Rightarrow> string" where
  "object_path_below env v base u =
     (let base_path = drop_trailing slash (pu_escaped_path base);
          p = pu_escaped_path u;
          below = base_path \<noteq> [] \<and> base_path \<noteq> ''/'' in
      if below \<and> p \<noteq> base_path \<and> \<not> has_prefix p (base_path @ ''/'') then v
      else
        (let p = (if below then drop (length base_path) p else p) in
         case en_path_unescape env (drop_leading slash p) of
           None \<Rightarrow> v
         | Some q \<Rightarrow> if q = [] then v else q))"

definition object_path :: "'w storage_env \<Rightarrow> 'w file_system \<Rightarrow> string \<Rightarrow> string" where
  "object_path env fs v =
     (let v = trim_space v in
      if v = [] \<or> \<not> has_url_scheme v then drop_leading slash v
      else if cdn_url fs = [] then v
      else (case en_url_parse env (cdn_url fs) of None \<Rightarrow> v
        | Some base \<Rightarrow>
            if pu_scheme base = [] \<or> pu_host base = [] then v
            else (case en_url_parse env v of None \<Rightarrow> v
              | Some u \<Rightarrow>
                  if pu_scheme u = [] \<or> pu_host u = [] then v
                  else if to_lower (pu_scheme u) \<noteq> to_lower (pu_scheme base) \<or> to_lower (pu_host u) \<noteq> to_lower (pu_host base) then v
                  else object_path_below env v base u)))"

section \<open>Creation (storage.go, driver_registry.go)\<close>

type_synonym 'w driver_factory = "storage_config \<Rightarrow> 'w \<Rightarrow> (storage_error + 'w handler) \<times> 'w"

type_synonym 'w drivers = "string \<rightharpoonup> 'w driver_factory"

definition register_driver :: "string \<Rightarrow> 'w driver_factory option \<Rightarrow> 'w drivers \<Rightarrow> 'w drivers" where
  "register_driver d f ds =
     (let d = trim_space d in
      if d = [] then ds else (case f of None \<Rightarrow> ds | Some f \<Rightarrow> ds(d \<mapsto> f)))"

definition resolve_driver :: "string \<Rightarrow> 'w drivers \<Rightarrow> 'w driver_factory option" where
  "resolve_driver d ds = (let d = trim_space d in if d = [] then None else ds d)"

definition dispatch_handler ::
  "'w drivers \<Rightarrow> 'w file_system \<Rightarrow> 'w \<Rightarrow> storage_error option \<times> 'w file_system \<times> 'w" where
  "dispatch_handler ds fs w =
     (case resolve_driver (first_text [sp_driver (sc_policy (fs_cfg fs)), sc_driver (fs_cfg fs)]) ds of
        None \<Rightarrow> (Some ErrUnknownDriver, fs, w)
      | Some f \<Rightarrow>
          (case f (fs_cfg fs) w of
             (Inl e, w) \<Rightarrow> (Some e, fs, w)
           | (Inr h, w) \<Rightarrow> (None, fs\<lparr>fs_handler := Some h\<rparr>, w)))"

definition register_storage_hook ::
  "string \<Rightarrow> 'w storage_hook option \<Rightarrow> 'w file_system \<Rightarrow> storage_error option \<times> 'w file_system" where
  "register_storage_hook stage h fs =
     (case (h, fs_hooks fs) of
        (None, _) \<Rightarrow> (Some ErrHookRequired, fs)
      | (Some _, None) \<Rightarrow> (Some (StoragePanic ''assignment to nil map''), fs)
      | (Some _, Some m) \<Rightarrow> (None, fs\<lparr>fs_hooks := Some (m(stage := m stage @ [h]))\<rparr>))"

definition clean_hooks :: "string \<Rightarrow> 'w file_system \<Rightarrow> 'w file_system" where
  "clean_hooks stage fs =
     (if stage = [] then fs\<lparr>fs_hooks := Some (\<lambda>_. [])\<rparr>
      else fs\<lparr>fs_hooks := map_option (\<lambda>m. m(stage := [])) (fs_hooks fs)\<rparr>)"

definition new_storage ::
  "'w drivers \<Rightarrow> storage_config \<Rightarrow> 'w \<Rightarrow> (storage_error + 'w file_system) \<times> 'w" where
  "new_storage ds cfg w =
     (let cfg = normalize_storage_config cfg;
          fs = \<lparr>fs_handler = None, fs_cfg = cfg,
            fs_namer = Some \<lparr>nm_dir_rule = sc_dir_rule cfg, nm_file_rule = sc_file_rule cfg\<rparr>,
            fs_hooks = Some (\<lambda>_. []), fs_sessions = Some Map.empty\<rparr> in
      case dispatch_handler ds fs w of
        (Some e, _, w) \<Rightarrow> (Inl e, w)
      | (None, fs, w) \<Rightarrow>
          (case register_storage_hook (hook_before OperationUpload) (Some hook_validate_file) fs of
             (Some e, _) \<Rightarrow> (Inl e, w) | (None, fs) \<Rightarrow> (Inr fs, w)))"

definition close_storage :: "'w file_system \<Rightarrow> 'w \<Rightarrow> storage_error option \<times> 'w file_system \<times> 'w" where
  "close_storage fs w =
     (let (err, w) = (case Option.bind (fs_handler fs) hd_close of None \<Rightarrow> (None, w) | Some c \<Rightarrow> c w) in
      case err of Some e \<Rightarrow> (Some e, fs, w)
      | None \<Rightarrow> (None, fs\<lparr>fs_handler := None, fs_namer := None, fs_hooks := None, fs_sessions := None\<rparr>, w))"

type_synonym storage_option = "storage_config \<Rightarrow> storage_config"

definition with_temp_dir :: "string \<Rightarrow> storage_option" where
  "with_temp_dir d c = c\<lparr>sc_temp_dir := d\<rparr>"

definition with_max_size :: "int \<Rightarrow> storage_option" where
  "with_max_size n c = c\<lparr>sc_max_size := n\<rparr>"

definition with_chunk_size :: "int \<Rightarrow> storage_option" where
  "with_chunk_size n c = c\<lparr>sc_chunk_size := n\<rparr>"

definition with_token_ttl :: "int \<Rightarrow> storage_option" where
  "with_token_ttl n c = c\<lparr>sc_token_ttl := n\<rparr>"

definition with_name_rules :: "string \<Rightarrow> string \<Rightarrow> storage_option" where
  "with_name_rules d f c = c\<lparr>sc_dir_rule := d, sc_file_rule := f\<rparr>"

definition with_allowed_extensions :: "string list \<Rightarrow> storage_option" where
  "with_allowed_extensions es c = c\<lparr>sc_allowed_extensions := es\<rparr>"

definition new_from_policy ::
  "'w drivers \<Rightarrow> storage_policy \<Rightarrow> storage_option option list \<Rightarrow> 'w \<Rightarrow> (storage_error + 'w file_system) \<times> 'w" where
  "new_from_policy ds p opts w =
     new_storage ds (fold (\<lambda>opt c. case opt of None \<Rightarrow> c | Some f \<Rightarrow> f c) opts
       \<lparr>sc_store_name = [], sc_default_store = False, sc_driver = sp_driver p, sc_temp_dir = [], sc_max_size = 0,
        sc_chunk_size = 0, sc_token_ttl = 0, sc_dir_rule = [], sc_file_rule = [], sc_allowed_extensions = [],
        sc_policy = p, sc_driver_config = Map.empty\<rparr>) w"

section \<open>Hooks around an operation\<close>

definition trigger ::
  "'w file_system \<Rightarrow> string \<Rightarrow> storage_event \<Rightarrow> 'w storage_hook option list \<Rightarrow> 'w \<Rightarrow> storage_error option \<times> 'w" where
  "trigger fs stage e locals w =
     run_storage_hooks ((case fs_hooks fs of None \<Rightarrow> [] | Some m \<Rightarrow> m stage) @ locals) e w"

text \<open>The four ways an operation can go.\<close>

datatype ('a, 'r) hooked_outcome =
    Refused storage_error | NotDone 'a storage_error | AfterFailed 'r storage_error | Completed 'r

text \<open>
  The shape of all operations: the hooks before it, whose error ends it; the driver; then the hooks after it, or
  those after its failure, whose error is dropped.  A failure says what it was about.
\<close>

definition hooked ::
  "'w file_system \<Rightarrow> 'w operation_hooks \<Rightarrow> storage_operation \<Rightarrow> storage_event \<Rightarrow>
   ('w \<Rightarrow> ('a \<times> storage_error + 'r) \<times> 'w) \<Rightarrow> ('a \<Rightarrow> storage_error \<Rightarrow> storage_event) \<Rightarrow> ('r \<Rightarrow> storage_event) \<Rightarrow> 'w \<Rightarrow>
   ('a, 'r) hooked_outcome \<times> 'w" where
  "hooked fs hooks op before act failed after w =
     (case trigger fs (hook_before op) before (oh_hooks hooks (hook_before op)) w of
        (Some e, w) \<Rightarrow> (Refused e, w)
      | (None, w) \<Rightarrow>
          (case act w of
             (Inl (a, e), w) \<Rightarrow>
               (NotDone a e, snd (trigger fs (hook_after_failed op) (failed a e) (oh_hooks hooks (hook_after_failed op)) w))
           | (Inr r, w) \<Rightarrow>
               (case trigger fs (hook_after op) (after r) (oh_hooks hooks (hook_after op)) w of
                  (Some e, w) \<Rightarrow> (AfterFailed r e, w)
                | (None, w) \<Rightarrow> (Completed r, w))))"

definition tag_error :: "'a \<Rightarrow> (storage_error + 'r) \<times> 'w \<Rightarrow> ('a \<times> storage_error + 'r) \<times> 'w" where
  "tag_error a r = (case r of (Inl e, w) \<Rightarrow> (Inl (a, e), w) | (Inr v, w) \<Rightarrow> (Inr v, w))"

definition unit_result :: "storage_error option \<times> 'w \<Rightarrow> (storage_error + unit) \<times> 'w" where
  "unit_result r = (case r of (Some e, w) \<Rightarrow> (Inl e, w) | (None, w) \<Rightarrow> (Inr (), w))"

definition operation_result ::
  "'a \<Rightarrow> ('r \<Rightarrow> 'a) \<Rightarrow> ('a, 'r) hooked_outcome \<times> 'w \<Rightarrow> ('a, 'r) storage_result \<times> 'w" where
  "operation_result about about_value out =
     ((case fst out of
        Refused e \<Rightarrow> \<lparr>sr_about = about, sr_value = None, sr_done = False, sr_error = Some e\<rparr>
      | NotDone a e \<Rightarrow> \<lparr>sr_about = a, sr_value = None, sr_done = False, sr_error = Some e\<rparr>
      | AfterFailed r e \<Rightarrow> \<lparr>sr_about = about_value r, sr_value = Some r, sr_done = True, sr_error = Some e\<rparr>
      | Completed r \<Rightarrow> \<lparr>sr_about = about_value r, sr_value = Some r, sr_done = True, sr_error = None\<rparr>), snd out)"

definition no_result :: "'a \<Rightarrow> storage_error \<Rightarrow> ('a, 'r) storage_result" where
  "no_result about e = \<lparr>sr_about = about, sr_value = None, sr_done = False, sr_error = Some e\<rparr>"

definition event_of ::
  "'w file_system \<Rightarrow> 'w operation_hooks \<Rightarrow> storage_operation \<Rightarrow> string \<Rightarrow> file_info \<Rightarrow> storage_error option \<Rightarrow> storage_event" where
  "event_of fs hooks op stage f err = hook_event hooks (Some (fs_cfg fs)) op stage f err"

end
