(* ===== verification/Storage_Operations.thy ===== *)
theory Storage_Operations
  imports Storage_Files
begin

text \<open>
  The operations of a storage file system (\<^verbatim>\<open>storage.go\<close>, \<^verbatim>\<open>upload.go\<close>).  A dereference of what a closed file system
  has lost is the error \<open>StoragePanic\<close>.
\<close>

abbreviation "nil_pointer \<equiv> StoragePanic ''nil pointer dereference''"

definition prepare_info :: "'w storage_env \<Rightarrow> 'w file_system \<Rightarrow> file_info \<Rightarrow> 'w \<Rightarrow> (storage_error + file_info) \<times> 'w" where
  "prepare_info env fs info w =
     (let info = (if fi_name info = [] \<and> fi_path info \<noteq> [] then info\<lparr>fi_name := path_base (fi_path info)\<rparr> else info);
          strip = (\<lambda>p. info\<lparr>fi_path := drop_leading slash p\<rparr>) in
      if fi_path info \<noteq> [] then (Inr (strip (fi_path info)), w)
      else (case fs_namer fs of None \<Rightarrow> (Inl nil_pointer, w)
        | Some n \<Rightarrow> (let (p, w) = generate_name env n (fi_name info) w in (Inr (strip p), w))))"

section \<open>Uploads\<close>

definition upload_result_of ::
  "'w storage_env \<Rightarrow> 'w file_system \<Rightarrow> file_info \<Rightarrow> bool \<Rightarrow> storage_error option \<Rightarrow> upload_result" where
  "upload_result_of env fs info uploaded err =
     \<lparr>ur_file = info, ur_path = access_path env fs (fi_path info), ur_object_path = fi_path info,
      ur_uploaded = uploaded, ur_error = err\<rparr>"

definition upload_failure :: "storage_error \<Rightarrow> upload_result" where
  "upload_failure e = \<lparr>ur_file = no_info, ur_path = [], ur_object_path = [], ur_uploaded = False, ur_error = Some e\<rparr>"

definition upload_prepared ::
  "'w storage_env \<Rightarrow> 'w file_system \<Rightarrow> 'w handler \<Rightarrow> 'w operation_hooks \<Rightarrow> file_info \<Rightarrow> reader \<Rightarrow> 'w \<Rightarrow> upload_result \<times> 'w" where
  "upload_prepared env fs h hooks info rd w =
     (let ev = (\<lambda>stage err. event_of fs hooks OperationUpload stage info err);
          (out, w) = hooked fs hooks OperationUpload (ev (hook_before OperationUpload) None)
            (\<lambda>w. tag_error info (unit_result (hd_put h info rd w)))
            (\<lambda>_ e. ev (hook_after_failed OperationUpload) (Some e))
            (\<lambda>_. ev (hook_after OperationUpload) None) w in
      (case out of
         Refused e \<Rightarrow> upload_result_of env fs info False (Some e)
       | NotDone _ e \<Rightarrow> upload_result_of env fs info False (Some e)
       | AfterFailed _ e \<Rightarrow> upload_result_of env fs info True (Some e)
       | Completed _ \<Rightarrow> upload_result_of env fs info True None, w))"

definition upload_file ::
  "'w storage_env \<Rightarrow> 'w file_system \<Rightarrow> 'w operation_hooks \<Rightarrow> file_info \<Rightarrow> reader \<Rightarrow> 'w \<Rightarrow> upload_result \<times> 'w" where
  "upload_file env fs hooks info rd w =
     (case fs_handler fs of None \<Rightarrow> (upload_failure ErrUnknownDriver, w)
      | Some h \<Rightarrow>
          (case prepare_info env fs info w of
             (Inl e, w) \<Rightarrow> (upload_failure e, w)
           | (Inr info, w) \<Rightarrow> upload_prepared env fs h hooks info rd w))"

definition upload_stream ::
  "'w storage_env \<Rightarrow> 'w file_system \<Rightarrow> 'w operation_hooks \<Rightarrow> file_info \<Rightarrow> reader \<Rightarrow> 'w \<Rightarrow> upload_result \<times> 'w" where
  "upload_stream env fs hooks info rd w =
     (case prepare_info env fs info w of
        (Inl e, w) \<Rightarrow> (upload_failure e, w)
      | (Inr info, w) \<Rightarrow> upload_file env fs hooks info rd w)"

text \<open>What is read of a response; \<open>fetch\<close> is \<open>http.DefaultClient\<close>.\<close>

record url_response =
  hr_status :: int
  hr_length :: int
  hr_content_type :: string
  hr_body :: reader

definition upload_from_url ::
  "'w storage_env \<Rightarrow> 'w file_system \<Rightarrow> 'w operation_hooks \<Rightarrow> (string \<Rightarrow> 'w \<Rightarrow> (storage_error + url_response) \<times> 'w) \<Rightarrow>
   string \<Rightarrow> file_info \<Rightarrow> 'w \<Rightarrow> upload_result \<times> 'w" where
  "upload_from_url env fs hooks fetch raw info w =
     (case en_url_parse env raw of None \<Rightarrow> (upload_failure (StorageText ''parse''), w)
      | Some u \<Rightarrow>
          if pu_scheme u \<noteq> ''http'' \<and> pu_scheme u \<noteq> ''https''
          then (upload_failure (StorageText (''unsupported url scheme: '' @ pu_scheme u)), w)
          else
            (case fetch raw w of
               (Inl e, w) \<Rightarrow> (upload_failure e, w)
             | (Inr resp, w) \<Rightarrow>
                 if hr_status resp < 200 \<or> hr_status resp \<ge> 300
                 then (upload_failure (StorageText (''download url failed: status '' @ int_text (hr_status resp))), w)
                 else
                   (let info = (if fi_name info = [] then info\<lparr>fi_name := path_base (pu_path u)\<rparr> else info);
                        info = (if fi_size info \<le> 0 then info\<lparr>fi_size := hr_length resp\<rparr> else info);
                        info = (if fi_size info < 0 then info\<lparr>fi_size := 0\<rparr> else info);
                        info = (if fi_mime info = [] then info\<lparr>fi_mime := hr_content_type resp\<rparr> else info) in
                    upload_stream env fs hooks info (hr_body resp) w)))"

section \<open>The other operations\<close>

definition path_info :: "string \<Rightarrow> file_info" where
  "path_info p = no_info\<lparr>fi_name := path_base p, fi_path := p\<rparr>"

definition first_path :: "string list \<Rightarrow> string" where
  "first_path ps = (case ps of [] \<Rightarrow> [] | p # _ \<Rightarrow> p)"

definition delete_files ::
  "'w storage_env \<Rightarrow> 'w file_system \<Rightarrow> 'w operation_hooks \<Rightarrow> string list \<Rightarrow> 'w \<Rightarrow> (string list, unit) storage_result \<times> 'w" where
  "delete_files env fs hooks paths w =
     (case fs_handler fs of None \<Rightarrow> (no_result paths ErrUnknownDriver, w)
      | Some h \<Rightarrow>
          (let ps = map (object_path env fs) paths;
               f = (if length ps = 1 then path_info (hd ps) else no_info);
               ev = (\<lambda>stage err. (event_of fs hooks OperationDelete stage f err)\<lparr>se_paths := ps, se_path := first_path ps\<rparr>);
               before = (ev (hook_before OperationDelete) None)\<lparr>se_path := (if length ps = 1 then hd ps else [])\<rparr> in
           operation_result ps (\<lambda>_. ps)
             (hooked fs hooks OperationDelete before (\<lambda>w. tag_error ps (unit_result (hd_delete h ps w)))
               (\<lambda>_ e. ev (hook_after_failed OperationDelete) (Some e)) (\<lambda>_. ev (hook_after OperationDelete) None) w)))"

definition list_files ::
  "'w file_system \<Rightarrow> 'w operation_hooks \<Rightarrow> string \<Rightarrow> 'w \<Rightarrow> (string, storage_object list) storage_result \<times> 'w" where
  "list_files fs hooks p w =
     (case fs_handler fs of None \<Rightarrow> (no_result p ErrUnknownDriver, w)
      | Some h \<Rightarrow>
          (let ev = (\<lambda>stage err. (event_of fs hooks OperationList stage (path_info p) err)\<lparr>se_path := p\<rparr>) in
           operation_result p (\<lambda>_. p)
             (hooked fs hooks OperationList (ev (hook_before OperationList) None) (\<lambda>w. tag_error p (hd_list h p w))
               (\<lambda>_ e. ev (hook_after_failed OperationList) (Some e))
               (\<lambda>os. (ev (hook_after OperationList) None)\<lparr>se_objects := os\<rparr>) w)))"

definition source_url ::
  "'w file_system \<Rightarrow> 'w operation_hooks \<Rightarrow> string \<Rightarrow> int \<Rightarrow> 'w \<Rightarrow> (string, string) storage_result \<times> 'w" where
  "source_url fs hooks p ttl w =
     (case fs_handler fs of None \<Rightarrow> (no_result p ErrUnknownDriver, w)
      | Some h \<Rightarrow>
          (let ev = (\<lambda>stage err. (event_of fs hooks OperationSource stage (path_info p) err)\<lparr>se_path := p\<rparr>) in
           operation_result p (\<lambda>_. p)
             (hooked fs hooks OperationSource (ev (hook_before OperationSource) None) (\<lambda>w. tag_error p (hd_source h p ttl w))
               (\<lambda>_ e. ev (hook_after_failed OperationSource) (Some e))
               (\<lambda>s. (ev (hook_after OperationSource) None)\<lparr>se_source := s\<rparr>) w)))"

definition upload_token ::
  "'w storage_env \<Rightarrow> 'w file_system \<Rightarrow> 'w operation_hooks \<Rightarrow> file_info \<Rightarrow> int \<Rightarrow> 'w \<Rightarrow>
   (file_info, upload_credential) storage_result \<times> 'w" where
  "upload_token env fs hooks info ttl w =
     (case fs_handler fs of None \<Rightarrow> (no_result info ErrUnknownDriver, w)
      | Some h \<Rightarrow>
          (case prepare_info env fs info w of
             (Inl e, w) \<Rightarrow> (no_result info e, w)
           | (Inr info, w) \<Rightarrow>
               (let ev = (\<lambda>stage err. event_of fs hooks OperationToken stage info err) in
                operation_result info (\<lambda>_. info)
                  (hooked fs hooks OperationToken (ev (hook_before OperationToken) None)
                    (\<lambda>w. tag_error info (hd_token h info ttl w))
                    (\<lambda>_ e. ev (hook_after_failed OperationToken) (Some e))
                    (\<lambda>c. (ev (hook_after OperationToken) None)\<lparr>se_credential := Some c\<rparr>) w))))"

definition with_stat :: "reader \<Rightarrow> file_info \<Rightarrow> file_info" where
  "with_stat rd info = (case rd_stat rd of None \<Rightarrow> info | Some n \<Rightarrow> info\<lparr>fi_size := n\<rparr>)"

definition driver_get :: "'w file_system \<Rightarrow> string \<Rightarrow> 'w \<Rightarrow> (storage_error + reader) \<times> 'w" where
  "driver_get fs p w = (case fs_handler fs of None \<Rightarrow> (Inl nil_pointer, w) | Some h \<Rightarrow> hd_get h p w)"

definition get_file ::
  "'w file_system \<Rightarrow> 'w operation_hooks \<Rightarrow> string \<Rightarrow> 'w \<Rightarrow> (file_info, reader) storage_result \<times> 'w" where
  "get_file fs hooks p w =
     (let info = path_info p;
          ev = (\<lambda>stage f err. (event_of fs hooks OperationGet stage f err)\<lparr>se_path := p\<rparr>) in
      operation_result info (\<lambda>rd. with_stat rd info)
        (hooked fs hooks OperationGet (ev (hook_before OperationGet) info None)
          (\<lambda>w. tag_error info (driver_get fs p w))
          (\<lambda>_ e. ev (hook_after_failed OperationGet) info (Some e))
          (\<lambda>rd. (ev (hook_after OperationGet) (with_stat rd info) None)\<lparr>se_reader := Some rd\<rparr>) w))"

text \<open>\<open>write\<close> takes what is copied and may fail; then the error of the reader counts.\<close>

definition copy_reader :: "(string \<Rightarrow> 'w \<Rightarrow> storage_error option \<times> 'w) \<Rightarrow> reader \<Rightarrow> 'w \<Rightarrow> storage_error option \<times> 'w" where
  "copy_reader write rd w =
     (case write (rd_data rd) w of (Some e, w) \<Rightarrow> (Some e, w) | (None, w) \<Rightarrow> (rd_error rd, w))"

definition download_file ::
  "'w file_system \<Rightarrow> 'w operation_hooks \<Rightarrow> string \<Rightarrow> (string \<Rightarrow> 'w \<Rightarrow> storage_error option \<times> 'w) \<Rightarrow> 'w \<Rightarrow>
   (file_info, file_info) storage_result \<times> 'w" where
  "download_file fs hooks p write w =
     (let info = path_info p;
          ev = (\<lambda>stage f err. event_of fs hooks OperationDownload stage f err) in
      operation_result info (\<lambda>info. info)
        (hooked fs hooks OperationDownload (ev (hook_before OperationDownload) info None)
          (\<lambda>w. case driver_get fs p w of
               (Inl e, w) \<Rightarrow> (Inl (info, e), w)
             | (Inr rd, w) \<Rightarrow>
                 (case copy_reader write rd w of
                    (Some e, w) \<Rightarrow> (Inl (with_stat rd info, e), w)
                  | (None, w) \<Rightarrow> (Inr (with_stat rd info), w)))
          (\<lambda>f e. ev (hook_after_failed OperationDownload) f (Some e))
          (\<lambda>f. ev (hook_after OperationDownload) f None) w))"

section \<open>Uploads in chunks\<close>

definition counted_chunks :: "int \<Rightarrow> int \<Rightarrow> int" where
  "counted_chunks n each = (if n \<le> 0 \<or> each \<le> 0 then 0 else chunk_count n each)"

record upload_init_request =
  ui_file_name :: string
  ui_path :: string
  ui_total_size :: int
  ui_mime :: string
  ui_metadata :: "string \<rightharpoonup> string"

definition temp_dir_of :: "'w file_system \<Rightarrow> 'w handler \<Rightarrow> string" where
  "temp_dir_of fs h =
     (if sc_temp_dir (fs_cfg fs) \<noteq> [] then sc_temp_dir (fs_cfg fs)
      else (case hd_temp_dir h of None \<Rightarrow> [] | Some d \<Rightarrow> d))"

text \<open>The part of \<open>InitUpload\<close> after the driver issued its credential, up to the local session.\<close>

definition complete_credential ::
  "'w storage_env \<Rightarrow> 'w file_system \<Rightarrow> file_info \<Rightarrow> upload_credential \<Rightarrow> upload_credential" where
  "complete_credential env fs info cred =
     (let cred = cred\<lparr>uc_path := fi_path info, uc_access_path := access_path env fs (fi_path info)\<rparr>;
          cred = (if uc_chunk_size cred \<le> 0 then cred\<lparr>uc_chunk_size := sc_chunk_size (fs_cfg fs)\<rparr> else cred) in
      if uc_chunk_num cred \<le> 0 \<and> fi_size info > 0 \<and> uc_chunk_size cred > 0
      then cred\<lparr>uc_chunk_num := counted_chunks (fi_size info) (uc_chunk_size cred)\<rparr> else cred)"

definition open_session ::
  "'w storage_env \<Rightarrow> 'w file_system \<Rightarrow> file_info \<Rightarrow> string \<Rightarrow> upload_credential \<Rightarrow> 'w \<Rightarrow>
   (storage_error + upload_credential) \<times> 'w file_system \<times> 'w" where
  "open_session env fs info temp cred w =
     (let (uid, w) = en_uuid env w;
          cu = new_chunk_upload uid (fi_name info) (fi_path info) temp (fi_size info) (sc_chunk_size (fs_cfg fs));
          cred = cred\<lparr>uc_chunk_size := sc_chunk_size (fs_cfg fs), uc_upload_id := uid, uc_chunk_num := cu_chunk_num cu\<rparr>;
          s = \<lparr>us_upload_id = uid, us_file_name = fi_name info, us_file_path = fi_path info, us_total_size = fi_size info,
            us_mime = fi_mime info, us_metadata = fi_metadata info, us_chunks = cu\<rparr> in
      (Inr cred, fs\<lparr>fs_sessions := map_option (\<lambda>m. m(uid \<mapsto> s)) (fs_sessions fs)\<rparr>, w))"

definition init_upload ::
  "'w storage_env \<Rightarrow> 'w file_system \<Rightarrow> 'w operation_hooks \<Rightarrow> upload_init_request \<Rightarrow> 'w \<Rightarrow>
   (storage_error + upload_credential) \<times> 'w file_system \<times> 'w" where
  "init_upload env fs hooks req w =
     (case prepare_info env fs (no_info\<lparr>fi_name := ui_file_name req, fi_path := ui_path req, fi_size := ui_total_size req,
          fi_mime := ui_mime req, fi_metadata := ui_metadata req\<rparr>) w of
        (Inl e, w) \<Rightarrow> (Inl e, fs, w)
      | (Inr info, w) \<Rightarrow>
          (let ev = (\<lambda>stage err. event_of fs hooks OperationUpload stage info err);
               before = hook_before OperationUpload; failed = hook_after_failed OperationUpload in
           case trigger fs before (ev before None) (oh_hooks hooks before) w of
             (Some e, w) \<Rightarrow> (Inl e, fs, w)
           | (None, w) \<Rightarrow>
               (case fs_handler fs of None \<Rightarrow> (Inl nil_pointer, fs, w)
                | Some h \<Rightarrow>
                    (case hd_token h info (sc_token_ttl (fs_cfg fs)) w of
                       (Inl e, w) \<Rightarrow> (Inl e, fs, snd (trigger fs failed (ev failed (Some e)) (oh_hooks hooks failed) w))
                     | (Inr cred, w) \<Rightarrow>
                         (let cred = complete_credential env fs info cred in
                          if uc_gateway cred \<noteq> ''local'' then (Inr cred, fs, w)
                          else if temp_dir_of fs h = []
                          then (Inl (StorageText ''storage temp dir is required for local chunk upload''), fs, w)
                          else open_session env fs info (temp_dir_of fs h) cred w)))))"

record upload_chunk_result =
  cr_upload_id :: string
  cr_chunk_index :: int
  cr_received :: nat
  cr_received_text :: string
  cr_chunk_num :: int
  cr_done :: bool
  cr_path :: string
  cr_file_path :: string
  cr_access_path :: string
  cr_upload_complete :: bool

definition get_session :: "'w file_system \<Rightarrow> string \<Rightarrow> upload_session option" where
  "get_session fs uid = Option.bind (fs_sessions fs) (\<lambda>m. m uid)"

definition delete_session :: "string \<Rightarrow> 'w file_system \<Rightarrow> 'w file_system" where
  "delete_session uid fs = fs\<lparr>fs_sessions := map_option (\<lambda>m. m(uid := None)) (fs_sessions fs)\<rparr>"

definition session_info :: "upload_session \<Rightarrow> file_info" where
  "session_info s =
     no_info\<lparr>fi_name := us_file_name s, fi_path := us_file_path s, fi_size := us_total_size s,
       fi_mime := us_mime s, fi_metadata := us_metadata s\<rparr>"

type_synonym 'w chunk_step = "(upload_chunk_result option \<times> storage_error option) \<times> 'w file_system \<times> disk \<times> 'w"

definition merge_failed ::
  "'w file_system \<Rightarrow> 'w operation_hooks \<Rightarrow> upload_session \<Rightarrow> storage_error \<Rightarrow> disk \<Rightarrow> 'w \<Rightarrow> 'w chunk_step" where
  "merge_failed fs hooks s e d w =
     (let failed = hook_after_failed OperationUpload in
      ((None, Some e), fs, d,
       snd (trigger fs failed (event_of fs hooks OperationUpload failed (session_info s) (Some e)) (oh_hooks hooks failed) w)))"

text \<open>The upload of the merged file, and what is left of the session.\<close>

definition finish_upload ::
  "'w storage_env \<Rightarrow> 'w file_system \<Rightarrow> 'w operation_hooks \<Rightarrow> upload_session \<Rightarrow> upload_chunk_result \<Rightarrow> string \<Rightarrow> string \<Rightarrow>
   disk \<Rightarrow> 'w \<Rightarrow> 'w chunk_step" where
  "finish_upload env fs hooks s result uid merged d w =
     (let (up, w) = upload_stream env fs hooks (session_info s)
            \<lparr>rd_data = merged, rd_error = None, rd_stat = Some (int (length merged))\<rparr> w;
          d = cleanup_chunks (us_chunks s) d;
          complete = result\<lparr>cr_file_path := fi_path (ur_file up), cr_path := ur_path up, cr_access_path := ur_path up,
            cr_upload_complete := True\<rparr> in
      if ur_error up \<noteq> None \<and> \<not> ur_uploaded up then ((None, ur_error up), fs, d, w)
      else ((Some complete, ur_error up), delete_session uid fs, d, w))"

definition upload_chunk ::
  "'w storage_env \<Rightarrow> 'w file_system \<Rightarrow> 'w operation_hooks \<Rightarrow> string \<Rightarrow> int \<Rightarrow> string \<Rightarrow> save_fault \<Rightarrow> merge_fault \<Rightarrow>
   disk \<Rightarrow> 'w \<Rightarrow> 'w chunk_step" where
  "upload_chunk env fs hooks uid index content sf mf d w =
     (case get_session fs uid of None \<Rightarrow> ((None, Some ErrFileNotFound), fs, d, w)
      | Some s \<Rightarrow>
          (let cu = us_chunks s in
           if index < 0 \<or> index \<ge> cu_chunk_num cu then ((None, Some (StorageText ''chunk index out of range'')), fs, d, w)
           else
             (case save_chunk cu (nat index) content sf d of
                (Some e, d) \<Rightarrow> ((None, Some e), fs, d, w)
              | (None, d) \<Rightarrow>
                  (let n = length (received_chunks cu d);
                       complete = (int n = cu_chunk_num cu);
                       result = \<lparr>cr_upload_id = uid, cr_chunk_index = index, cr_received = n,
                         cr_received_text = nat_text n @ ''/'' @ int_text (cu_chunk_num cu), cr_chunk_num = cu_chunk_num cu,
                         cr_done = complete, cr_path = [], cr_file_path = [], cr_access_path = [], cr_upload_complete = False\<rparr> in
                   if \<not> complete then ((Some result, None), fs, d, w)
                   else
                     (case merge_chunks cu mf d of
                        (Some e, d) \<Rightarrow> merge_failed fs hooks s e d w
                      | (None, d) \<Rightarrow>
                          (case mf of
                             MergeUnreadable e \<Rightarrow> merge_failed fs hooks s e d w
                           | _ \<Rightarrow> finish_upload env fs hooks s result uid (the (d (merge_file cu))) d w))))))"

record upload_status_report =
  st_upload_id :: string
  st_file_name :: string
  st_file_path :: string
  st_chunk_num :: int
  st_received :: "nat list"
  st_total_size :: int

definition upload_status :: "'w file_system \<Rightarrow> string \<Rightarrow> disk \<Rightarrow> storage_error + upload_status_report" where
  "upload_status fs uid d =
     (case get_session fs uid of None \<Rightarrow> Inl ErrFileNotFound
      | Some s \<Rightarrow> Inr \<lparr>st_upload_id = uid, st_file_name = us_file_name s, st_file_path = us_file_path s,
          st_chunk_num = cu_chunk_num (us_chunks s), st_received = received_chunks (us_chunks s) d,
          st_total_size = us_total_size s\<rparr>)"

end
