(* ===== verification/Storage_Uploads.thy ===== *)
theory Storage_Uploads
  imports Storage_Operations
begin

text \<open>
  What is shown of uploads: which hooks run around the driver, that only validated files reach it, and that chunks
  sent in any order, with repetitions and refusals, arrive as the file they were cut from.
\<close>

section \<open>Chunks arrive as the file\<close>

text \<open>
  Chunks that are sent one after another: the index, and what the operating system says.  The bytes of chunk
  \<open>i\<close> are \<open>f i\<close>; merging is fine.
\<close>

fun send_chunks ::
  "'w storage_env \<Rightarrow> 'w operation_hooks \<Rightarrow> string \<Rightarrow> (nat \<Rightarrow> string) \<Rightarrow> (nat \<times> save_fault) list \<Rightarrow>
   'w file_system \<Rightarrow> disk \<Rightarrow> 'w \<Rightarrow> (upload_chunk_result option \<times> storage_error option) list \<times> 'w file_system \<times> disk \<times> 'w" where
  "send_chunks env hooks uid f [] fs d w = ([], fs, d, w)"
| "send_chunks env hooks uid f ((i, fault) # cs) fs d w =
     (let (r, fs, d, w) = upload_chunk env fs hooks uid (int i) (f i) fault MergeFine d w;
          (rs, fs, d, w) = send_chunks env hooks uid f cs fs d w in
      (r # rs, fs, d, w))"

text \<open>The chunks in \<open>S\<close> are on the disk, and no other chunk of the upload.\<close>

definition gathered :: "chunk_upload \<Rightarrow> (nat \<Rightarrow> string) \<Rightarrow> nat set \<Rightarrow> disk \<Rightarrow> bool" where
  "gathered cu f S d \<longleftrightarrow> (\<forall>i. d (chunk_file cu i) = (if i \<in> S then Some (f i) else None))"

definition arrived :: "(nat \<times> save_fault) list \<Rightarrow> nat set" where
  "arrived cs = set (map fst (filter (\<lambda>c. snd c = SaveFine) cs))"

lemma arrived_simps [simp]:
  "arrived [] = {}"
  "arrived ((i, SaveFine) # cs) = insert i (arrived cs)"
  "arrived ((i, SaveRefused e) # cs) = arrived cs"
  "arrived (cs @ ds) = arrived cs \<union> arrived ds"
  by (auto simp: arrived_def)

lemma gathered_save: "gathered cu f S d \<Longrightarrow> gathered cu f (insert i S) (d(chunk_file cu i \<mapsto> f i))"
  by (auto simp: gathered_def)

lemma gathered_all:
  assumes "gathered cu f S d"
  shows "length (received_chunks cu d) = nat (cu_chunk_num cu) \<longleftrightarrow> {..<nat (cu_chunk_num cu)} \<subseteq> S"
  using assms by (auto simp: all_received gathered_def)

lemma chunk_not_last:
  assumes "get_session fs uid = Some s" "gathered (us_chunks s) f S d" "int i < cu_chunk_num (us_chunks s)"
    and "\<not> {..<nat (cu_chunk_num (us_chunks s))} \<subseteq> insert i S"
  shows "\<exists>r. upload_chunk env fs hooks uid (int i) (f i) SaveFine MergeFine d w =
      ((Some r, None), fs, d(chunk_file (us_chunks s) i \<mapsto> f i), w) \<and> \<not> cr_done r"
proof -
  let ?d = "d(chunk_file (us_chunks s) i \<mapsto> f i)"
  have "int (length (received_chunks (us_chunks s) ?d)) \<noteq> cu_chunk_num (us_chunks s)"
    using gathered_all [OF gathered_save [OF assms(2), of i]] assms(3,4) by auto
  with assms(1,3) show ?thesis by (simp add: upload_chunk_def save_chunk_def Let_def)
qed

lemma chunk_refused:
  assumes "get_session fs uid = Some s" "int i < cu_chunk_num (us_chunks s)"
  shows "upload_chunk env fs hooks uid (int i) content (SaveRefused e) mf d w = ((None, Some e), fs, d, w)"
  using assms by (simp add: upload_chunk_def save_chunk_def Let_def)

lemma last_chunk:
  assumes "get_session fs uid = Some s" "gathered (us_chunks s) f S d" "int i < cu_chunk_num (us_chunks s)"
    and "insert i S = {..<nat (cu_chunk_num (us_chunks s))}"
  shows "\<exists>r d'. upload_chunk env fs hooks uid (int i) (f i) SaveFine MergeFine d w =
      finish_upload env fs hooks s r uid (concat (map f [0..<nat (cu_chunk_num (us_chunks s))])) d' w \<and>
      cr_done r \<and> (\<forall>p. fst p \<noteq> cu_temp_dir (us_chunks s) \<or> fst (snd p) \<noteq> cu_upload_id (us_chunks s) \<longrightarrow> d' p = d p)"
proof -
  let ?cu = "us_chunks s"
  let ?d = "d(chunk_file ?cu i \<mapsto> f i)"
  let ?c = "concat (map f [0..<nat (cu_chunk_num ?cu)])"
  have g: "gathered ?cu f {..<nat (cu_chunk_num ?cu)} ?d" using gathered_save [OF assms(2), of i] assms(4) by simp
  then have "int (length (received_chunks ?cu ?d)) = cu_chunk_num ?cu" using gathered_all [OF g] assms(3) by simp
  moreover have "merge_chunks ?cu MergeFine ?d = (None, ?d(merge_file ?cu \<mapsto> ?c))"
    using g by (intro merge_chunks_fine) (simp add: gathered_def)
  ultimately have "upload_chunk env fs hooks uid (int i) (f i) SaveFine MergeFine d w =
      finish_upload env fs hooks s
        \<lparr>cr_upload_id = uid, cr_chunk_index = int i, cr_received = length (received_chunks ?cu ?d),
         cr_received_text = nat_text (length (received_chunks ?cu ?d)) @ ''/'' @ int_text (cu_chunk_num ?cu),
         cr_chunk_num = cu_chunk_num ?cu, cr_done = True, cr_path = [], cr_file_path = [], cr_access_path = [],
         cr_upload_complete = False\<rparr> uid ?c (?d(merge_file ?cu \<mapsto> ?c)) w"
    using assms(1,3) by (simp add: upload_chunk_def save_chunk_def Let_def)
  then show ?thesis by (intro exI conjI) (assumption, auto simp: chunk_file_def merge_file_def)
qed

lemma send_before_last:
  assumes "get_session fs uid = Some s"
  shows "gathered (us_chunks s) f S d \<Longrightarrow> \<forall>(i, fault) \<in> set cs. int i < cu_chunk_num (us_chunks s) \<and> (\<forall>n e. fault \<noteq> SaveBroken n e) \<Longrightarrow>
    \<not> {..<nat (cu_chunk_num (us_chunks s))} \<subseteq> S \<union> arrived cs \<Longrightarrow>
    \<exists>rs d'. send_chunks env hooks uid f cs fs d w = (rs, fs, d', w) \<and> gathered (us_chunks s) f (S \<union> arrived cs) d' \<and>
      (\<forall>r \<in> set rs. \<forall>x. fst r = Some x \<longrightarrow> \<not> cr_done x)"
proof (induction cs arbitrary: S d)
  case (Cons c cs)
  obtain i fault where c: "c = (i, fault)" by (cases c)
  have i: "int i < cu_chunk_num (us_chunks s)" using Cons.prems(2) by (simp add: c)
  show ?case
  proof (cases fault)
    case SaveFine
    with Cons.prems(3) have "\<not> {..<nat (cu_chunk_num (us_chunks s))} \<subseteq> insert i S" by (auto simp: c)
    from chunk_not_last [OF assms Cons.prems(1) i this, of env hooks w] obtain r where
      r: "upload_chunk env fs hooks uid (int i) (f i) SaveFine MergeFine d w =
        ((Some r, None), fs, d(chunk_file (us_chunks s) i \<mapsto> f i), w)" "\<not> cr_done r" by blast
    have "\<exists>rs d'. send_chunks env hooks uid f cs fs (d(chunk_file (us_chunks s) i \<mapsto> f i)) w = (rs, fs, d', w) \<and>
        gathered (us_chunks s) f (insert i S \<union> arrived cs) d' \<and> (\<forall>r \<in> set rs. \<forall>x. fst r = Some x \<longrightarrow> \<not> cr_done x)"
      using Cons.prems by (intro Cons.IH gathered_save) (auto simp: c SaveFine)
    with r show ?thesis by (auto simp: c SaveFine)
  next
    case (SaveRefused e)
    from chunk_refused [OF assms i] Cons.IH [OF Cons.prems(1)] Cons.prems(2,3) show ?thesis
      by (fastforce simp: c SaveRefused)
  next
    case (SaveBroken n e)
    with Cons.prems(2) show ?thesis by (simp add: c)
  qed
qed simp

lemma send_append:
  "send_chunks env hooks uid f (cs @ ds) fs d w =
     (let (rs, fs, d, w) = send_chunks env hooks uid f cs fs d w; (ss, fs, d, w) = send_chunks env hooks uid f ds fs d w in
      (rs @ ss, fs, d, w))"
proof (induction cs arbitrary: fs d w)
  case (Cons c cs)
  obtain i fault where c: "c = (i, fault)" by (cases c)
  obtain r fs1 d1 w1 where one: "upload_chunk env fs hooks uid (int i) (f i) fault MergeFine d w = (r, fs1, d1, w1)"
    by (metis prod_cases4)
  obtain rs fs2 d2 w2 where more: "send_chunks env hooks uid f cs fs1 d1 w1 = (rs, fs2, d2, w2)" by (metis prod_cases4)
  obtain ss fs3 d3 w3 where others: "send_chunks env hooks uid f ds fs2 d2 w2 = (ss, fs3, d3, w3)" by (metis prod_cases4)
  show ?case using Cons.IH [of fs1 d1 w1] by (simp add: c one more others)
next
  case Nil
  obtain ss fs3 d3 w3 where "send_chunks env hooks uid f ds fs d w = (ss, fs3, d3, w3)" by (metis prod_cases4)
  then show ?case by simp
qed

lemma send_length: "send_chunks env hooks uid f cs fs d w = (rs, s') \<Longrightarrow> length rs = length cs"
proof (induction cs arbitrary: fs d w rs s')
  case (Cons c cs)
  obtain i fault where c: "c = (i, fault)" by (cases c)
  obtain r fs1 d1 w1 where one: "upload_chunk env fs hooks uid (int i) (f i) fault MergeFine d w = (r, fs1, d1, w1)"
    by (metis prod_cases4)
  obtain ss fs2 d2 w2 where more: "send_chunks env hooks uid f cs fs1 d1 w1 = (ss, fs2, d2, w2)" by (metis prod_cases4)
  have "send_chunks env hooks uid f (c # cs) fs d w = (r # ss, fs2, d2, w2)" by (simp add: c one more)
  with Cons.prems have "rs = r # ss" by simp
  with Cons.IH [OF more] show ?case by simp
qed simp

text \<open>
  C15: a file that is cut into chunks of the session's size and sent chunk by chunk, in any order, with chunks sent again
  and chunks the disk refuses in between, is uploaded when its last missing chunk arrives, and not before: the driver
  is then given the bytes of the file, under the name and path of the session, and if it takes them the session and its
  temporary files are gone.
\<close>

theorem chunked_upload_roundtrip:
  assumes "get_session fs uid = Some s" and "0 < each"
    and cu: "us_chunks s = new_chunk_upload uid name path temp (int (length content)) (int each)"
    and empty: "\<forall>i. d (chunk_file (us_chunks s) i) = None"
    and cs: "\<forall>(i, fault) \<in> set cs. int i < cu_chunk_num (us_chunks s) \<and> (\<forall>n e. fault \<noteq> SaveBroken n e)"
    and last: "j \<notin> arrived cs" "insert j (arrived cs) = {..<nat (cu_chunk_num (us_chunks s))}"
    and sent: "send_chunks env hooks uid (piece each content) (cs @ [(j, SaveFine)]) fs d w = (rs, fs', d', w')"
    and up: "upload_stream env fs hooks (session_info s)
      \<lparr>rd_data = content, rd_error = None, rd_stat = Some (int (length content))\<rparr> w = (up, wu)"
  shows "w' = wu \<and> length rs = length cs + 1 \<and> snd (last rs) = ur_error up \<and>
    (\<forall>r \<in> set (butlast rs). \<forall>x. fst r = Some x \<longrightarrow> \<not> cr_done x) \<and>
    (ur_uploaded up \<longrightarrow> (\<exists>x. fst (last rs) = Some x \<and> cr_done x \<and> cr_upload_complete x \<and> cr_path x = ur_path up) \<and>
       get_session fs' uid = None) \<and>
    (\<forall>n. d' (temp, uid, n) = None)"
proof -
  let ?f = "piece each content" and ?cu = "us_chunks s"
  have "j \<in> {..<nat (cu_chunk_num ?cu)}" unfolding last(2) [symmetric] by (rule insertI1)
  then have j: "int j < cu_chunk_num ?cu" by simp
  have g: "gathered ?cu ?f {} d" using empty by (simp add: gathered_def)
  have "\<not> {..<nat (cu_chunk_num ?cu)} \<subseteq> {} \<union> arrived cs"
    unfolding last(2) [symmetric] using last(1) by simp
  from send_before_last [OF assms(1) g cs this, of env hooks w] obtain rs0 d0 where
    first: "send_chunks env hooks uid ?f cs fs d w = (rs0, fs, d0, w)" "gathered ?cu ?f (arrived cs) d0"
      "\<forall>r \<in> set rs0. \<forall>x. fst r = Some x \<longrightarrow> \<not> cr_done x" by auto
  have "concat (map ?f [0..<nat (cu_chunk_num ?cu)]) = content"
    using enough_pieces [OF assms(2), of "length content"] assms(2) by (intro pieces_concat) (simp_all add: cu new_chunk_upload_def)
  with last_chunk [OF assms(1) first(2) j last(2), of env hooks w] obtain r d1 where
    final: "upload_chunk env fs hooks uid (int j) (?f j) SaveFine MergeFine d0 w =
      finish_upload env fs hooks s r uid content d1 w" "cr_done r" by auto
  have len: "length rs0 = length cs" by (rule send_length [OF first(1)])
  have ids: "cu_temp_dir ?cu = temp" "cu_upload_id ?cu = uid" by (simp_all add: cu new_chunk_upload_def)
  show ?thesis
  proof (cases "ur_error up \<noteq> None \<and> \<not> ur_uploaded up")
    case True
    then have "finish_upload env fs hooks s r uid content d1 w = ((None, ur_error up), fs, cleanup_chunks ?cu d1, wu)"
      by (simp add: finish_upload_def up)
    with sent first final(1) have "rs = rs0 @ [(None, ur_error up)]" "d' = cleanup_chunks ?cu d1" "w' = wu"
      by (simp_all add: send_append)
    with True first(3) len show ?thesis by (simp add: cleanup_chunks_def ids)
  next
    case False
    let ?r = "r\<lparr>cr_file_path := fi_path (ur_file up), cr_path := ur_path up, cr_access_path := ur_path up, cr_upload_complete := True\<rparr>"
    from False have "finish_upload env fs hooks s r uid content d1 w =
        ((Some ?r, ur_error up), delete_session uid fs, cleanup_chunks ?cu d1, wu)"
      by (auto simp: finish_upload_def up)
    with sent first final(1) have "rs = rs0 @ [(Some ?r, ur_error up)]" "fs' = delete_session uid fs"
      "d' = cleanup_chunks ?cu d1" "w' = wu"
      by (simp_all add: send_append)
    moreover have "get_session (delete_session uid fs) uid = None"
      by (cases "fs_sessions fs") (simp_all add: get_session_def delete_session_def)
    ultimately show ?thesis using first(3) len final(2) by (simp add: cleanup_chunks_def ids)
  qed
qed

text \<open>A driver that keeps what it is given, a file system over it, and a session of an upload.\<close>

definition keeping_handler :: "string list handler" where
  "keeping_handler =
     \<lparr>hd_put = (\<lambda>_ rd w. (rd_error rd, w @ [rd_data rd])), hd_get = (\<lambda>_ w. (Inl ErrFileNotFound, w)),
      hd_delete = (\<lambda>_ w. (None, w)), hd_list = (\<lambda>_ w. (Inr [], w)), hd_source = (\<lambda>p _ w. (Inr p, w)),
      hd_token = (\<lambda>_ _ w. (Inl ErrFileNotFound, w)), hd_temp_dir = Some ''tmp'', hd_close = None\<rparr>"

definition plain_policy :: storage_policy where
  "plain_policy = \<lparr>sp_driver = ''local'', sp_name = [], sp_bucket = [], sp_endpoint = [], sp_endpoint_inner = [],
     sp_cdn_url = [], sp_region = [], sp_access_key = [], sp_secret_key = [], sp_local_dir = []\<rparr>"

definition plain_config :: storage_config where
  "plain_config = \<lparr>sc_store_name = [], sc_default_store = True, sc_driver = ''local'', sc_temp_dir = ''tmp'',
     sc_max_size = 10, sc_chunk_size = 2, sc_token_ttl = 1, sc_dir_rule = ''d'', sc_file_rule = ''{originname}{ext}'',
     sc_allowed_extensions = [], sc_policy = plain_policy, sc_driver_config = Map.empty\<rparr>"

definition sample_session :: upload_session where
  "sample_session = \<lparr>us_upload_id = ''u'', us_file_name = ''a.txt'', us_file_path = ''d/a.txt'', us_total_size = 5,
     us_mime = [], us_metadata = Map.empty, us_chunks = new_chunk_upload ''u'' ''a.txt'' ''d/a.txt'' ''tmp'' 5 2\<rparr>"

definition sample_fs :: "string list file_system" where
  "sample_fs = \<lparr>fs_handler = Some keeping_handler, fs_cfg = plain_config, fs_namer = None,
     fs_hooks = Some (\<lambda>_. []), fs_sessions = Some [''u'' \<mapsto> sample_session]\<rparr>"

definition plain_env :: "'w storage_env" where
  "plain_env = \<lparr>en_url_parse = (\<lambda>_. None), en_path_unescape = Some, en_fresh = (\<lambda>w. ([], w)), en_walk = id,
     en_uuid = (\<lambda>w. (''u'', w))\<rparr>"

definition no_hooks :: "'w operation_hooks" where
  "no_hooks = \<lparr>oh_hooks = (\<lambda>_. []), oh_metadata = Map.empty\<rparr>"

lemma sample_upload:
  "upload_stream plain_env sample_fs no_hooks (session_info sample_session)
     \<lparr>rd_data = content, rd_error = None, rd_stat = n\<rparr> w =
   (upload_result_of plain_env sample_fs (session_info sample_session) True None, w @ [content])"
proof -
  have info: "prepare_info plain_env sample_fs (session_info sample_session) w = (Inr (session_info sample_session), w)" for w
    by (simp add: prepare_info_def session_info_def sample_session_def drop_leading_def no_info_def Let_def)
  have fs: "fs_handler sample_fs = Some keeping_handler" "fs_hooks sample_fs = Some (\<lambda>_. [])" by (simp_all add: sample_fs_def)
  have put: "hd_put keeping_handler f rd w = (rd_error rd, w @ [rd_data rd])" for f rd w by (simp add: keeping_handler_def)
  show ?thesis
    by (simp add: upload_stream_def upload_file_def info fs upload_prepared_def hooked_def trigger_def no_hooks_def put
        tag_error_def unit_result_def)
qed

theorem chunked_upload_roundtrip_witness:
  "\<exists>rs fs' d'. send_chunks plain_env no_hooks ''u'' (piece 2 ''hello'')
       [(2, SaveFine), (0, SaveRefused ErrFileNotFound), (0, SaveFine), (2, SaveFine), (1, SaveFine)] sample_fs Map.empty [] =
     (rs, fs', d', [''hello'']) \<and> length rs = 5 \<and> get_session fs' ''u'' = None"
proof -
  let ?cs = "[(2, SaveFine), (0, SaveRefused ErrFileNotFound), (0, SaveFine), (2, SaveFine)]"
  obtain rs fs' d' w' where sent:
    "send_chunks plain_env no_hooks ''u'' (piece 2 ''hello'') (?cs @ [(1, SaveFine)]) sample_fs Map.empty [] = (rs, fs', d', w')"
    by (metis prod_cases4)
  have session: "get_session sample_fs ''u'' = Some sample_session" by (simp add: get_session_def sample_fs_def)
  have cu: "us_chunks sample_session = new_chunk_upload ''u'' ''a.txt'' ''d/a.txt'' ''tmp'' (int (length ''hello'')) (int 2)"
    by (simp add: sample_session_def)
  have num: "cu_chunk_num (us_chunks sample_session) = 3"
    using chunk_count_exact [of 2 5] by (simp add: sample_session_def new_chunk_upload_def)
  have cs: "\<forall>(i, fault) \<in> set ?cs. int i < cu_chunk_num (us_chunks sample_session) \<and> (\<forall>n e. fault \<noteq> SaveBroken n e)"
    by (simp add: num)
  have "insert 1 (arrived ?cs) = {..<nat (cu_chunk_num (us_chunks sample_session))}" unfolding num by auto
  from chunked_upload_roundtrip [OF session _ cu _ cs _ this sent sample_upload]
  have "w' = [''hello''] \<and> length rs = 5 \<and> get_session fs' ''u'' = None"
    by (simp add: upload_result_of_def)
  with sent show ?thesis by auto
qed

section \<open>What is not checked\<close>

text \<open>A chunk that breaks off is reported as failed, but its file is there and counts as received.\<close>

lemma broken_chunk_counts:
  assumes "i < nat (cu_chunk_num cu)"
  shows "fst (save_chunk cu i content (SaveBroken n e) d) = Some e"
    "i \<in> set (received_chunks cu (snd (save_chunk cu i content (SaveBroken n e) d)))"
  using assms by (simp_all add: save_chunk_def received_chunks_def chunk_received_def)

text \<open>No chunk of an upload that was announced as empty is ever in range, so it never ends.\<close>

lemma empty_upload_never_completes:
  assumes "get_session fs uid = Some s" "cu_chunk_num (us_chunks s) \<le> 0"
  shows "upload_chunk env fs hooks uid i content sf mf d w = ((None, Some (StorageText ''chunk index out of range'')), fs, d, w)"
proof -
  have "i < 0 \<or> i \<ge> cu_chunk_num (us_chunks s)" using assms(2) by linarith
  with assms(1) show ?thesis by (simp add: upload_chunk_def Let_def)
qed

lemma empty_upload_has_no_chunks: "cu_chunk_num (new_chunk_upload uid name path temp 0 each) = 0"
  by (simp add: new_chunk_upload_def chunk_count_def)

end
