(* ===== verification/Storage_Guards.thy ===== *)
theory Storage_Guards
  imports Storage_Uploads
begin

text \<open>
  What is shown of the hooks around an upload: which run, in which order, and that no file reaches the driver which
  the validation of its file system refuses.  A log is kept beside the world by wrapping every hook and the driver.
\<close>

section \<open>A log of hooks and of the driver\<close>

datatype storage_log = HookRan string "storage_error option" | PutCalled file_info "storage_error option"

type_synonym 'w logged = "'w \<times> storage_log list"

definition on_world :: "('w \<Rightarrow> 'a \<times> 'w) \<Rightarrow> 'w logged \<Rightarrow> 'a \<times> 'w logged" where
  "on_world f s = (let (a, w) = f (fst s) in (a, (w, snd s)))"

definition logged_hook :: "'w storage_hook \<Rightarrow> 'w logged storage_hook" where
  "logged_hook h e s = (let (r, w) = h e (fst s) in (r, (w, snd s @ [HookRan (se_stage e) r])))"

definition logged_handler :: "'w handler \<Rightarrow> 'w logged handler" where
  "logged_handler h =
     \<lparr>hd_put = (\<lambda>info rd s. let (r, w) = hd_put h info rd (fst s) in (r, (w, snd s @ [PutCalled info r]))),
      hd_get = (\<lambda>p. on_world (hd_get h p)), hd_delete = (\<lambda>ps. on_world (hd_delete h ps)),
      hd_list = (\<lambda>p. on_world (hd_list h p)), hd_source = (\<lambda>p t. on_world (hd_source h p t)),
      hd_token = (\<lambda>i t. on_world (hd_token h i t)), hd_temp_dir = hd_temp_dir h,
      hd_close = map_option on_world (hd_close h)\<rparr>"

definition logged_fs :: "'w file_system \<Rightarrow> 'w logged file_system" where
  "logged_fs fs =
     \<lparr>fs_handler = map_option logged_handler (fs_handler fs), fs_cfg = fs_cfg fs, fs_namer = fs_namer fs,
      fs_hooks = map_option (\<lambda>m stage. map (map_option logged_hook) (m stage)) (fs_hooks fs), fs_sessions = fs_sessions fs\<rparr>"

definition logged_hooks :: "'w operation_hooks \<Rightarrow> 'w logged operation_hooks" where
  "logged_hooks hooks =
     \<lparr>oh_hooks = (\<lambda>stage. map (map_option logged_hook) (oh_hooks hooks stage)), oh_metadata = oh_metadata hooks\<rparr>"

definition logged_env :: "'w storage_env \<Rightarrow> 'w logged storage_env" where
  "logged_env env =
     \<lparr>en_url_parse = en_url_parse env, en_path_unescape = en_path_unescape env, en_fresh = on_world (en_fresh env),
      en_walk = en_walk env, en_uuid = on_world (en_uuid env)\<rparr>"

section \<open>The order of hooks and driver\<close>

definition hooks_at :: "'w file_system \<Rightarrow> 'w operation_hooks \<Rightarrow> string \<Rightarrow> 'w storage_hook option list" where
  "hooks_at fs hooks stage = (case fs_hooks fs of None \<Rightarrow> [] | Some m \<Rightarrow> m stage) @ oh_hooks hooks stage"

definition hook_number :: "'w file_system \<Rightarrow> 'w operation_hooks \<Rightarrow> string \<Rightarrow> nat" where
  "hook_number fs hooks stage = length (filter (\<lambda>h. h \<noteq> None) (hooks_at fs hooks stage))"

text \<open>All \<open>n\<close> hooks ran and returned nil; or some did, and the next one returned the error.\<close>

definition hooks_ran :: "string \<Rightarrow> nat \<Rightarrow> storage_error option \<Rightarrow> storage_log list \<Rightarrow> bool" where
  "hooks_ran stage n r lg \<longleftrightarrow>
     (case r of None \<Rightarrow> lg = replicate n (HookRan stage None)
      | Some e \<Rightarrow> \<exists>k < n. lg = replicate k (HookRan stage None) @ [HookRan stage (Some e)])"

lemma logged_hooks_run:
  "run_storage_hooks (map (map_option logged_hook) hs) e (w, lg) = (r, (w', lg')) \<Longrightarrow>
    \<exists>more. lg' = lg @ more \<and> hooks_ran (se_stage e) (length (filter (\<lambda>h. h \<noteq> None) hs)) r more"
proof (induction hs arbitrary: w lg)
  case (Cons h hs)
  show ?case
  proof (cases h)
    case None
    with Cons show ?thesis by simp
  next
    case (Some f)
    obtain a w1 where f: "f e w = (a, w1)" by (cases "f e w")
    show ?thesis
    proof (cases a)
      case None
      have "logged_hook f e (w, lg) = (None, (w1, lg @ [HookRan (se_stage e) None]))" by (simp add: logged_hook_def f None)
      with Cons.prems Some have "run_storage_hooks (map (map_option logged_hook) hs) e (w1, lg @ [HookRan (se_stage e) None]) = (r, (w', lg'))"
        by simp
      from Cons.IH [OF this] obtain more where more: "lg' = lg @ HookRan (se_stage e) None # more"
        "hooks_ran (se_stage e) (length (filter (\<lambda>h. h \<noteq> None) hs)) r more" by auto
      have "hooks_ran (se_stage e) (Suc (length (filter (\<lambda>h. h \<noteq> None) hs))) r (HookRan (se_stage e) None # more)"
      proof (cases r)
        case None
        with more(2) show ?thesis by (simp add: hooks_ran_def)
      next
        case (Some x)
        with more(2) obtain k where "k < length (filter (\<lambda>h. h \<noteq> None) hs)"
          "more = replicate k (HookRan (se_stage e) None) @ [HookRan (se_stage e) (Some x)]" by (auto simp: hooks_ran_def)
        then show ?thesis using Some by (auto simp: hooks_ran_def intro!: exI [of _ "Suc k"])
      qed
      with more(1) Some show ?thesis by auto
    next
      case (Some x)
      with Cons.prems f \<open>h = Some f\<close> show ?thesis
        by (auto simp: logged_hook_def hooks_ran_def intro!: exI [of _ 0])
    qed
  qed
qed (simp add: hooks_ran_def)

lemma logged_trigger:
  assumes "trigger (logged_fs fs) stage e (oh_hooks (logged_hooks hooks) stage) (w, lg) = (r, (w', lg'))" "se_stage e = stage"
  shows "\<exists>more. lg' = lg @ more \<and> hooks_ran stage (hook_number fs hooks stage) r more"
proof -
  have "trigger (logged_fs fs) stage e (oh_hooks (logged_hooks hooks) stage) (w, lg) =
      run_storage_hooks (map (map_option logged_hook) (hooks_at fs hooks stage)) e (w, lg)"
    by (simp add: trigger_def hooks_at_def logged_fs_def logged_hooks_def split: option.split)
  with assms logged_hooks_run show ?thesis by (fastforce simp: hook_number_def)
qed

lemma event_stage [simp]: "se_stage (event_of fs hooks op stage f err) = stage"
  by (simp add: event_of_def hook_event_def)

lemma logged_prepare:
  assumes "fs_namer fs \<noteq> None"
  shows "\<exists>i w1. prepare_info (logged_env env) (logged_fs fs) info (w, lg) = (Inr i, (w1, lg))"
  using assms
  by (auto simp: prepare_info_def logged_fs_def generate_name_def logged_env_def on_world_def Let_def split: prod.splits)

text \<open>The three shapes of the log of an upload.\<close>

lemma upload_prepared_log:
  assumes "upload_prepared env (logged_fs fs) (logged_handler h) (logged_hooks hooks) info rd (w, lg0) = (r, (w', lg))"
  shows "ur_file r = info \<and>
    ((\<exists>bs e. lg = lg0 @ bs \<and> hooks_ran (hook_before OperationUpload) (hook_number fs hooks (hook_before OperationUpload)) (Some e) bs \<and>
        ur_error r = Some e \<and> \<not> ur_uploaded r) \<or>
     (\<exists>bs e x as. lg = lg0 @ bs @ PutCalled info (Some e) # as \<and>
        hooks_ran (hook_before OperationUpload) (hook_number fs hooks (hook_before OperationUpload)) None bs \<and>
        hooks_ran (hook_after_failed OperationUpload) (hook_number fs hooks (hook_after_failed OperationUpload)) x as \<and>
        ur_error r = Some e \<and> \<not> ur_uploaded r) \<or>
     (\<exists>bs as. lg = lg0 @ bs @ PutCalled info None # as \<and>
        hooks_ran (hook_before OperationUpload) (hook_number fs hooks (hook_before OperationUpload)) None bs \<and>
        hooks_ran (hook_after OperationUpload) (hook_number fs hooks (hook_after OperationUpload)) (ur_error r) as \<and> ur_uploaded r))"
proof -
  let ?ev = "\<lambda>stage err. event_of (logged_fs fs) (logged_hooks hooks) OperationUpload stage info err"
  let ?b = "hook_before OperationUpload" and ?a = "hook_after OperationUpload" and ?f = "hook_after_failed OperationUpload"
  let ?tr = "\<lambda>stage err. trigger (logged_fs fs) stage (?ev stage err) (oh_hooks (logged_hooks hooks) stage)"
  obtain rb wb lb where b: "?tr ?b None (w, lg0) = (rb, (wb, lb))" by (metis prod_cases3)
  from logged_trigger [OF b] obtain bs where bs: "lb = lg0 @ bs" "hooks_ran ?b (hook_number fs hooks ?b) rb bs" by auto
  obtain p wp where p: "hd_put h info rd wb = (p, wp)" by (cases "hd_put h info rd wb")
  then have put: "hd_put (logged_handler h) info rd (wb, lb) = (p, (wp, lb @ [PutCalled info p]))"
    by (simp add: logged_handler_def)
  show ?thesis
  proof (cases rb)
    case (Some e)
    with assms b have "r = upload_result_of env (logged_fs fs) info False (Some e)" "lg = lb"
      by (simp_all add: upload_prepared_def hooked_def Let_def)
    with bs Some show ?thesis by (auto simp: upload_result_of_def)
  next
    case None
    note before = this
    show ?thesis
    proof (cases p)
      case (Some e)
      obtain x wx lx where x: "?tr ?f (Some e) (wp, lb @ [PutCalled info (Some e)]) = (x, (wx, lx))" by (metis prod_cases3)
      from logged_trigger [OF x] obtain as where as: "lx = lb @ [PutCalled info (Some e)] @ as"
        "hooks_ran ?f (hook_number fs hooks ?f) x as" by auto
      from assms b None put Some x have "r = upload_result_of env (logged_fs fs) info False (Some e)" "lg = lx"
        by (simp_all add: upload_prepared_def hooked_def tag_error_def unit_result_def Let_def)
      with bs as None show ?thesis by (auto simp: upload_result_of_def)
    next
      case None
      obtain x wx lx where x: "?tr ?a None (wp, lb @ [PutCalled info None]) = (x, (wx, lx))" by (metis prod_cases3)
      from logged_trigger [OF x] obtain as where as: "lx = lb @ [PutCalled info None] @ as"
        "hooks_ran ?a (hook_number fs hooks ?a) x as" by auto
      from assms b before put None x have "r = upload_result_of env (logged_fs fs) info True x" "lg = lx"
        by (cases x; simp add: upload_prepared_def hooked_def tag_error_def unit_result_def Let_def)+
      with bs as before show ?thesis by (auto simp: upload_result_of_def)
    qed
  qed
qed

text \<open>
  C24: an upload is bracketed by its hooks.  Either a hook before it returns an error: later hooks and the driver are
  not reached, and that is the error.  Or all of them run, registered ones first, and the driver is called once; when it
  fails its error is the result, whatever the hooks after a failure say, and when it takes the file the hooks after it
  run up to the first error, which is the result although the file counts as uploaded.
\<close>

theorem upload_is_bracketed:
  assumes "fs_handler fs \<noteq> None" "fs_namer fs \<noteq> None"
    and "upload_file (logged_env env) (logged_fs fs) (logged_hooks hooks) info rd (w, []) = (r, (w', lg))"
  shows "(\<exists>e. hooks_ran (hook_before OperationUpload) (hook_number fs hooks (hook_before OperationUpload)) (Some e) lg \<and>
       ur_error r = Some e \<and> \<not> ur_uploaded r) \<or>
    (\<exists>bs e x as. lg = bs @ PutCalled (ur_file r) (Some e) # as \<and>
       hooks_ran (hook_before OperationUpload) (hook_number fs hooks (hook_before OperationUpload)) None bs \<and>
       hooks_ran (hook_after_failed OperationUpload) (hook_number fs hooks (hook_after_failed OperationUpload)) x as \<and>
       ur_error r = Some e \<and> \<not> ur_uploaded r) \<or>
    (\<exists>bs as. lg = bs @ PutCalled (ur_file r) None # as \<and>
       hooks_ran (hook_before OperationUpload) (hook_number fs hooks (hook_before OperationUpload)) None bs \<and>
       hooks_ran (hook_after OperationUpload) (hook_number fs hooks (hook_after OperationUpload)) (ur_error r) as \<and> ur_uploaded r)"
proof -
  obtain h where h: "fs_handler fs = Some h" using assms(1) by blast
  then have h': "fs_handler (logged_fs fs) = Some (logged_handler h)" by (simp add: logged_fs_def)
  obtain i w1 where i: "prepare_info (logged_env env) (logged_fs fs) info (w, []) = (Inr i, (w1, []))"
    using logged_prepare [OF assms(2)] by blast
  from assms(3) have "upload_prepared (logged_env env) (logged_fs fs) (logged_handler h) (logged_hooks hooks) i rd (w1, []) = (r, (w', lg))"
    by (simp add: upload_file_def h' i)
  from upload_prepared_log [OF this] show ?thesis by (elim conjE) simp
qed

section \<open>Validation\<close>

lemma hook_that_refuses:
  assumes "Some g \<in> set hs" "run_storage_hooks hs e w = (None, w')"
  shows "\<exists>u. fst (g e u) = None"
  using assms
proof (induction hs e w rule: run_storage_hooks.induct)
  case (3 h hs e w)
  then obtain w1 where "h e w = (None, w1)" by (auto split: prod.splits option.splits)
  with 3 show ?case by (cases "h = g") (auto, metis fst_conv)
qed auto

definition registrations ::
  "(string \<times> 'w storage_hook) list \<Rightarrow> 'w file_system \<Rightarrow> 'w file_system" where
  "registrations regs fs = fold (\<lambda>(stage, h) fs. snd (register_storage_hook stage (Some h) fs)) regs fs"

lemma registrations_keep:
  "fs_hooks fs = Some m \<Longrightarrow> \<exists>m'. fs_hooks (registrations regs fs) = Some m' \<and> (\<forall>stage. set (m stage) \<subseteq> set (m' stage)) \<and>
    fs_cfg (registrations regs fs) = fs_cfg fs \<and> fs_handler (registrations regs fs) = fs_handler fs"
proof (induction regs arbitrary: fs m)
  case (Cons r regs)
  obtain stage h where r: "r = (stage, h)" by (cases r)
  let ?m = "m(stage := m stage @ [Some h])"
  let ?fs = "fs\<lparr>fs_hooks := Some ?m\<rparr>"
  have step: "registrations (r # regs) fs = registrations regs ?fs"
    using Cons.prems by (simp add: registrations_def r register_storage_hook_def)
  have "fs_hooks ?fs = Some ?m" by simp
  from Cons.IH [OF this] obtain m' where m': "fs_hooks (registrations regs ?fs) = Some m'"
    "\<And>s. set (?m s) \<subseteq> set (m' s)" "fs_cfg (registrations regs ?fs) = fs_cfg fs"
    "fs_handler (registrations regs ?fs) = fs_handler fs"
    by (elim exE conjE) simp
  have "set (m s) \<subseteq> set (?m s)" for s by (auto simp: fun_upd_apply)
  with m' show ?case unfolding step by blast
qed (simp add: registrations_def)

lemma new_storage_hooks:
  assumes "new_storage ds cfg w = (Inr fs, w')"
  shows "fs_cfg fs = normalize_storage_config cfg \<and>
    (\<exists>m. fs_hooks fs = Some m \<and> Some hook_validate_file \<in> set (m (hook_before OperationUpload)))"
  using assms
  by (auto simp: new_storage_def dispatch_handler_def register_storage_hook_def Let_def
      split: option.splits prod.splits sum.splits)

lemma has_suffix_blank: "name \<noteq> [] \<Longrightarrow> has_suffix name '' '' \<longleftrightarrow> last name = CHR '' ''"
  by (cases name rule: rev_cases) (auto simp: has_suffix_def has_prefix_def)

lemma valid_file:
  assumes "validate_file_info (Some (normalize_storage_config cfg)) i = None"
  shows "(sc_max_size cfg > 0 \<longrightarrow> fi_size i \<le> sc_max_size cfg) \<and>
    (let name = name_or_base (fi_name i) (fi_path i) in
       name \<noteq> [] \<and> length name < 256 \<and> last name \<noteq> CHR '' '' \<and> set name \<inter> set reserved_name_chars = {} \<and>
       (sc_allowed_extensions cfg = [] \<or>
        (\<exists>a \<in> set (sc_allowed_extensions cfg). trim_space a \<noteq> [] \<and>
           to_lower (path_ext name) = dotted (to_lower (trim_space a)))))"
  using assms
  by (auto simp: validate_file_info_def validate_file_size_def validate_file_name_def validate_extension_def
      normalize_storage_config_def has_suffix_blank list_ex_iff list_all_iff to_lower_def Let_def split: if_splits)

text \<open>
  C23: no file reaches a driver unvalidated.  Over a file system that was made by \<open>New\<close>, with any further hooks
  registered and any hooks and metadata given with the call, the driver is only called for a file whose declared size,
  name and extension the configuration allows.
\<close>

theorem only_valid_files_are_put:
  assumes "new_storage ds cfg w0 = (Inr fs0, w1)" and fs: "fs = registrations regs fs0"
    and run: "upload_file (logged_env env) (logged_fs fs) (logged_hooks hooks) info rd (w, []) = (r, (w', lg))"
    and put: "PutCalled i e \<in> set lg"
  shows "(sc_max_size cfg > 0 \<longrightarrow> fi_size i \<le> sc_max_size cfg) \<and>
    (let name = name_or_base (fi_name i) (fi_path i) in
       name \<noteq> [] \<and> length name < 256 \<and> last name \<noteq> CHR '' '' \<and> set name \<inter> set reserved_name_chars = {} \<and>
       (sc_allowed_extensions cfg = [] \<or>
        (\<exists>a \<in> set (sc_allowed_extensions cfg). trim_space a \<noteq> [] \<and>
           to_lower (path_ext name) = dotted (to_lower (trim_space a)))))"
proof -
  obtain m where m: "fs_cfg fs = normalize_storage_config cfg" "fs_hooks fs = Some m"
    "Some hook_validate_file \<in> set (m (hook_before OperationUpload))"
  proof -
    obtain m0 where m0: "fs_cfg fs0 = normalize_storage_config cfg" "fs_hooks fs0 = Some m0"
      "Some hook_validate_file \<in> set (m0 (hook_before OperationUpload))"
      using new_storage_hooks [OF assms(1)] by blast
    obtain m where "fs_hooks fs = Some m" "\<forall>s. set (m0 s) \<subseteq> set (m s)" "fs_cfg fs = fs_cfg fs0"
      using registrations_keep [OF m0(2), of regs] unfolding fs by (elim exE conjE) simp
    with m0 show thesis by (intro that [of m]) auto
  qed
  let ?b = "hook_before OperationUpload"
  obtain h where h: "fs_handler (logged_fs fs) = Some (logged_handler h)"
    using run put by (auto simp: upload_file_def logged_fs_def split: option.splits)
  obtain p s1 where prep: "prepare_info (logged_env env) (logged_fs fs) info (w, []) = (p, s1)" by (metis surj_pair)
  have s1: "snd s1 = []"
    using prep by (auto simp: prepare_info_def logged_fs_def generate_name_def logged_env_def on_world_def Let_def
        split: prod.splits option.splits if_splits)
  obtain i' where p: "p = Inr i'" using run put h prep s1 by (cases p) (auto simp: upload_file_def)
  from run h prep p have up: "upload_prepared (logged_env env) (logged_fs fs) (logged_handler h) (logged_hooks hooks) i' rd (fst s1, []) = (r, (w', lg))"
    by (simp add: upload_file_def flip: s1)
  have only: "PutCalled j x \<notin> set bs" if "hooks_ran st n q bs" for j x st n q bs
    using that by (auto simp: hooks_ran_def split: option.splits)
  from upload_prepared_log [OF up] put only have i: "i = i'" by auto
  let ?e = "event_of (logged_fs fs) (logged_hooks hooks) OperationUpload ?b i' None"
  obtain rb sb where b: "trigger (logged_fs fs) ?b ?e (oh_hooks (logged_hooks hooks) ?b) (fst s1, []) = (rb, sb)" by (metis surj_pair)
  have "rb = None"
  proof (rule ccontr)
    assume "rb \<noteq> None"
    then obtain y where "rb = Some y" by blast
    with up b have lg: "lg = snd sb" by (auto simp: upload_prepared_def hooked_def Let_def)
    have "trigger (logged_fs fs) ?b ?e (oh_hooks (logged_hooks hooks) ?b) (fst s1, []) = (rb, (fst sb, snd sb))"
      using b by simp
    from logged_trigger [OF this event_stage] obtain more where more: "snd sb = [] @ more"
      "hooks_ran ?b (hook_number fs hooks ?b) rb more" by (elim exE conjE)
    from only [OF more(2), of i e] put show False unfolding lg more(1) by simp
  qed
  with b have ran: "run_storage_hooks ((case fs_hooks (logged_fs fs) of None \<Rightarrow> [] | Some m \<Rightarrow> m ?b) @
      oh_hooks (logged_hooks hooks) ?b) ?e (fst s1, []) = (None, sb)"
    unfolding trigger_def by blast
  have "Some (logged_hook hook_validate_file) \<in> set (map (map_option logged_hook) (m ?b))"
    unfolding set_map using m(3) by (rule rev_image_eqI) simp
  then have "Some (logged_hook hook_validate_file) \<in> set ((case fs_hooks (logged_fs fs) of None \<Rightarrow> [] | Some m \<Rightarrow> m ?b) @
      oh_hooks (logged_hooks hooks) ?b)"
    by (simp add: logged_fs_def m(2))
  from hook_that_refuses [OF this ran] have "validate_file_info (Some (normalize_storage_config cfg)) i = None"
    by (elim exE)
      (simp add: logged_hook_def hook_validate_file_def event_of_def hook_event_def i m(1) logged_fs_def Let_def)
  then show ?thesis by (rule valid_file)
qed

text \<open>The upload of the sample, and one whose file is too big.\<close>

lemma sample_prepare:
  "prepare_info env fs (session_info sample_session) w = (Inr (session_info sample_session), w)"
  by (simp add: prepare_info_def session_info_def sample_session_def drop_leading_def no_info_def Let_def)

theorem upload_is_bracketed_witness:
  "\<exists>r w' lg. upload_file (logged_env plain_env) (logged_fs (sample_fs\<lparr>fs_namer := Some \<lparr>nm_dir_rule = [], nm_file_rule = []\<rparr>\<rparr>))
       (logged_hooks (stage_hook (hook_before OperationUpload) (Some (\<lambda>_ w. (Some ErrNameInvalid, w))) no_hooks))
       (session_info sample_session) \<lparr>rd_data = ''x'', rd_error = None, rd_stat = None\<rparr> ([], []) = (r, (w', lg)) \<and>
     lg = [HookRan (hook_before OperationUpload) (Some ErrNameInvalid)] \<and> \<not> ur_uploaded r"
proof -
  let ?fs = "sample_fs\<lparr>fs_namer := Some \<lparr>nm_dir_rule = [], nm_file_rule = []\<rparr>\<rparr>"
  let ?hooks = "stage_hook (hook_before OperationUpload) (Some (\<lambda>_ w. (Some ErrNameInvalid, w))) no_hooks"
  let ?rd = "\<lparr>rd_data = ''x'', rd_error = None, rd_stat = None\<rparr>"
  obtain r w' lg where run: "upload_file (logged_env plain_env) (logged_fs ?fs) (logged_hooks ?hooks)
      (session_info sample_session) ?rd ([], []) = (r, (w', lg))" by (metis prod_cases3)
  have fs: "fs_handler ?fs \<noteq> None" "fs_namer ?fs \<noteq> None" by (simp_all add: sample_fs_def)
  have "ur_error r = Some ErrNameInvalid \<and> lg = [HookRan (hook_before OperationUpload) (Some ErrNameInvalid)]"
    using run by (simp add: upload_file_def logged_fs_def sample_fs_def sample_prepare upload_prepared_def hooked_def
        trigger_def logged_hooks_def stage_hook_def no_hooks_def logged_hook_def upload_result_of_def
        event_of_def hook_event_def) (auto simp: Let_def)
  with upload_is_bracketed [OF fs run] run show ?thesis by (auto simp: Cons_eq_append_conv)
qed

lemma valid_sample: "validate_file_info (Some plain_config) (session_info sample_session) = None"
  by code_simp

theorem only_valid_files_are_put_witness:
  "\<exists>fs r w' lg. new_storage [''local'' \<mapsto> (\<lambda>_ w. (Inr keeping_handler, w))] plain_config [] = (Inr fs, []) \<and>
     upload_file (logged_env plain_env) (logged_fs fs) (logged_hooks no_hooks) (session_info sample_session)
       \<lparr>rd_data = ''x'', rd_error = None, rd_stat = None\<rparr> ([], []) = (r, (w', lg)) \<and>
     PutCalled (session_info sample_session) None \<in> set lg \<and>
     set (name_or_base (fi_name (session_info sample_session)) (fi_path (session_info sample_session))) \<inter> set reserved_name_chars = {}"
proof -
  let ?ds = "[''local'' \<mapsto> (\<lambda>_ w. (Inr keeping_handler, w))]" and ?rd = "\<lparr>rd_data = ''x'', rd_error = None, rd_stat = None\<rparr>"
  have trim: "trim_space ''local'' = ''local''" by (rule trim_space_printable; simp)
  have cfg: "normalize_storage_config plain_config = plain_config"
    by (simp add: normalize_storage_config_def plain_config_def plain_policy_def)
  define fs :: "string list file_system" where "fs = \<lparr>fs_handler = Some keeping_handler, fs_cfg = plain_config,
      fs_namer = Some \<lparr>nm_dir_rule = ''d'', nm_file_rule = ''{originname}{ext}''\<rparr>,
      fs_hooks = Some ((\<lambda>_. [])(hook_before OperationUpload := [Some hook_validate_file])), fs_sessions = Some Map.empty\<rparr>"
  have new: "new_storage ?ds plain_config [] = (Inr fs, [])"
    by (simp add: new_storage_def cfg dispatch_handler_def resolve_driver_def register_storage_hook_def fs_def Let_def)
      (simp add: plain_config_def plain_policy_def trim)
  obtain r w' lg where run: "upload_file (logged_env plain_env) (logged_fs fs) (logged_hooks no_hooks)
      (session_info sample_session) ?rd ([], []) = (r, (w', lg))" by (metis prod_cases3)
  have valid: "hook_validate_file (event_of (logged_fs fs) (logged_hooks no_hooks) OperationUpload (hook_before OperationUpload)
      (session_info sample_session) None) w = (None, w)" for w :: "string list"
    by (simp add: hook_validate_file_def event_of_def hook_event_def logged_fs_def fs_def valid_sample)
  have put: "PutCalled (session_info sample_session) None \<in> set lg"
    using run valid by (simp add: upload_file_def logged_fs_def fs_def sample_prepare upload_prepared_def hooked_def
        trigger_def logged_hooks_def no_hooks_def logged_hook_def logged_handler_def keeping_handler_def tag_error_def
        unit_result_def hook_after_def hook_before_def Let_def) auto
  have "registrations [] fs = fs" by (simp add: registrations_def)
  from only_valid_files_are_put [OF new this [symmetric] run put] new run put show ?thesis
    unfolding Let_def by (elim conjE) (intro exI conjI)
qed

end
