(* ===== verification/Storage_Local.thy ===== *)
theory Storage_Local
  imports Storage_Guards
begin

text \<open>
  The driver for a local directory (\<^verbatim>\<open>pkg/storage/driver/local/local.go\<close>) and the signatures of the URLs it hands out
  (\<^verbatim>\<open>core/source_signature.go\<close>).  The world is the files by their full path; \<open>os\<close> says what the operating system
  refuses.  The walk of \<open>List\<close> is a parameter, as are HMAC-SHA256 in hexadecimal and building a URL.
\<close>

section \<open>Signed URLs (source_signature.go)\<close>

definition normalize_source_ttl :: "int \<Rightarrow> int" where
  "normalize_source_ttl ttl = (if ttl > 0 then ttl else 7 * 24 * 3600 * 10 ^ 9)"

definition signed_text :: "string \<Rightarrow> int \<Rightarrow> string" where
  "signed_text path expires = path @ [CHR 0x0A] @ int_text expires"

definition source_signature :: "(string \<Rightarrow> string \<Rightarrow> string) \<Rightarrow> string \<Rightarrow> int \<Rightarrow> string \<Rightarrow> string" where
  "source_signature mac path expires secret = mac secret (signed_text path expires)"

text \<open>\<open>strconv.ParseInt\<close> in base ten and 64 bits.\<close>

definition parse_int64 :: "string \<Rightarrow> int option" where
  "parse_int64 s =
     (let neg = has_prefix s ''-''; ds = (if neg \<or> has_prefix s ''+'' then tl s else s) in
      if ds = [] \<or> \<not> list_all (\<lambda>c. 48 \<le> (of_char c :: nat) \<and> (of_char c :: nat) \<le> 57) ds then None
      else (let n = int (read_digits ds 0); n = (if neg then - n else n) in
        if - (2 ^ 63) \<le> n \<and> n < 2 ^ 63 then Some n else None))"

text \<open>Times are nanoseconds, \<open>Unix()\<close> whole seconds; \<open>build\<close> puts the parts into a URL.\<close>

definition unix :: "int \<Rightarrow> int" where
  "unix now = now div 10 ^ 9"

definition sign_source_url ::
  "(string \<Rightarrow> string \<Rightarrow> string) \<Rightarrow> (string \<Rightarrow> string \<Rightarrow> string \<Rightarrow> string \<Rightarrow> storage_error + string) \<Rightarrow>
   string \<Rightarrow> string \<Rightarrow> string \<Rightarrow> int \<Rightarrow> int \<Rightarrow> storage_error + string" where
  "sign_source_url mac build base path secret ttl now =
     (let secret = trim_space secret in
      if secret = [] then Inl ErrSourceSecretRequired
      else (let expires = unix (now + normalize_source_ttl ttl) in
        build base path (int_text expires) (source_signature mac path expires secret)))"

definition verify_source_signature ::
  "(string \<Rightarrow> string \<Rightarrow> string) \<Rightarrow> string \<Rightarrow> string \<Rightarrow> string \<Rightarrow> string \<Rightarrow> int \<Rightarrow> storage_error option" where
  "verify_source_signature mac path expires signature secret now =
     (let secret = trim_space secret in
      if secret = [] then Some ErrSourceSecretRequired
      else (case parse_int64 expires of None \<Rightarrow> Some ErrSourceSignatureInvalid
        | Some n \<Rightarrow>
            if unix now > n then Some ErrSourceExpired
            else if signature \<noteq> source_signature mac path n secret then Some ErrSourceSignatureInvalid
            else None))"

text \<open>
  The HTTP handler behind signed URLs (\<^verbatim>\<open>source_handler.go\<close>): its answer, without the headers.
\<close>

datatype source_response = SourceNotFound | SourceBadRequest | SourceForbidden | SourceServed string

definition serve_source ::
  "(string \<Rightarrow> string \<Rightarrow> string) \<Rightarrow> 'w file_system option \<Rightarrow> string \<Rightarrow> int \<Rightarrow> string \<Rightarrow> string \<Rightarrow> string \<Rightarrow> 'w \<Rightarrow>
   source_response \<times> 'w" where
  "serve_source mac fs secret now path expires signature w =
     (case fs of None \<Rightarrow> (SourceNotFound, w)
      | Some fs \<Rightarrow>
          (let path = trim_space path in
           if path = [] \<or> expires = [] \<or> signature = [] then (SourceBadRequest, w)
           else if verify_source_signature mac path expires signature secret now \<noteq> None then (SourceForbidden, w)
           else
             (let (result, w) = get_file fs (collect_hook_options []) path w in
              case (sr_error result, sr_value result) of
                (None, Some rd) \<Rightarrow> (SourceServed (rd_data rd), w)
              | _ \<Rightarrow> (SourceNotFound, w))))"

text \<open>Nothing is served, and the driver and the hooks are not reached, without a signature that verifies.\<close>

lemma served_only_signed:
  assumes "verify_source_signature mac (trim_space path) expires signature secret now \<noteq> None"
  shows "fst (serve_source mac fs secret now path expires signature w) \<in> {SourceNotFound, SourceBadRequest, SourceForbidden} \<and>
    snd (serve_source mac fs secret now path expires signature w) = w"
  using assms by (auto simp: serve_source_def Let_def split: option.splits)

section \<open>The driver (local.go)\<close>

record local_config =
  lo_dir :: string
  lo_cdn_url :: string
  lo_endpoint :: string
  lo_secret_key :: string
  lo_chunk_size :: int

definition local_from_config :: "storage_config \<Rightarrow> local_config" where
  "local_from_config c =
     \<lparr>lo_dir = first_text [sp_local_dir (sc_policy c), driver_string c ''local'' ''dir''],
      lo_cdn_url = first_text [sp_cdn_url (sc_policy c), driver_string c ''local'' ''cdn_url''],
      lo_endpoint = first_text [sp_endpoint (sc_policy c), driver_string c ''local'' ''endpoint''],
      lo_secret_key = first_text [sp_secret_key (sc_policy c), driver_string c ''local'' ''secret_key''],
      lo_chunk_size = sc_chunk_size c\<rparr>"

text \<open>\<open>absolute\<close> is \<open>filepath.Abs\<close>, which depends on the working directory.\<close>

definition new_local_driver :: "(string \<Rightarrow> string) \<Rightarrow> local_config \<Rightarrow> local_config \<times> string" where
  "new_local_driver absolute c =
     (c\<lparr>lo_chunk_size := (if lo_chunk_size c \<le> 0 then 5 * 2 ^ 20 else lo_chunk_size c)\<rparr>, absolute (lo_dir c))"

type_synonym files = "string \<rightharpoonup> string"

definition full_path :: "string \<Rightarrow> string \<Rightarrow> string" where
  "full_path dir p = path_join [dir, p]"

definition local_put :: "(string \<Rightarrow> storage_error option) \<Rightarrow> string \<Rightarrow> file_info \<Rightarrow> reader \<Rightarrow> files \<Rightarrow> storage_error option \<times> files" where
  "local_put os dir info rd fs =
     (let dst = full_path dir (fi_path info) in
      case os dst of Some e \<Rightarrow> (Some e, fs) | None \<Rightarrow> (rd_error rd, fs(dst \<mapsto> rd_data rd)))"

definition local_get :: "(string \<Rightarrow> storage_error option) \<Rightarrow> string \<Rightarrow> string \<Rightarrow> files \<Rightarrow> (storage_error + reader) \<times> files" where
  "local_get os dir p fs =
     (case os (full_path dir p) of Some e \<Rightarrow> (Inl e, fs)
      | None \<Rightarrow> (case fs (full_path dir p) of
            None \<Rightarrow> (Inl (StorageExternal ''no such file''), fs)
          | Some s \<Rightarrow> (Inr \<lparr>rd_data = s, rd_error = None, rd_stat = Some (int (length s))\<rparr>, fs)))"

text \<open>A file that does not exist is no error.\<close>

fun local_delete :: "(string \<Rightarrow> storage_error option) \<Rightarrow> string \<Rightarrow> string list \<Rightarrow> files \<Rightarrow> storage_error option \<times> files" where
  "local_delete os dir [] fs = (None, fs)"
| "local_delete os dir (p # ps) fs =
     (if fs (full_path dir p) = None then local_delete os dir ps fs
      else (case os (full_path dir p) of Some e \<Rightarrow> (Some e, fs)
        | None \<Rightarrow> local_delete os dir ps (fs(full_path dir p := None))))"

definition local_source ::
  "(string \<Rightarrow> string \<Rightarrow> string) \<Rightarrow> (string \<Rightarrow> string \<Rightarrow> string \<Rightarrow> string \<Rightarrow> storage_error + string) \<Rightarrow> files storage_env \<Rightarrow>
   int \<Rightarrow> local_config \<times> string \<Rightarrow> string \<Rightarrow> int \<Rightarrow> storage_error + string" where
  "local_source mac build env now d p ttl =
     (let (c, dir) = d in
      if ttl > 0 then sign_source_url mac build (lo_endpoint c) p (lo_secret_key c) ttl now
      else (let url = join_object_url env (lo_cdn_url c) p in if url \<noteq> [] then Inr url else Inr (full_path dir p)))"

definition local_token :: "local_config \<times> string \<Rightarrow> file_info \<Rightarrow> upload_credential" where
  "local_token d info =
     \<lparr>uc_mode = ''local_chunk'', uc_upload_id = [], uc_gateway = ''local'', uc_chunk_size = lo_chunk_size (fst d),
      uc_chunk_num = 0, uc_upload_urls = [], uc_complete_url = [], uc_path = fi_path info, uc_access_path = []\<rparr>"

definition local_driver ::
  "(string \<Rightarrow> storage_error option) \<Rightarrow> (string \<Rightarrow> files \<Rightarrow> storage_error + storage_object list) \<Rightarrow>
   (string \<Rightarrow> string \<Rightarrow> string) \<Rightarrow> (string \<Rightarrow> string \<Rightarrow> string \<Rightarrow> string \<Rightarrow> storage_error + string) \<Rightarrow> files storage_env \<Rightarrow>
   int \<Rightarrow> local_config \<times> string \<Rightarrow> files handler" where
  "local_driver os walk mac build env now d =
     \<lparr>hd_put = local_put os (snd d), hd_get = local_get os (snd d), hd_delete = local_delete os (snd d),
      hd_list = (\<lambda>p fs. (walk (full_path (snd d) p) fs, fs)),
      hd_source = (\<lambda>p ttl fs. (local_source mac build env now d p ttl, fs)),
      hd_token = (\<lambda>info _ fs. (Inr (local_token d info), fs)),
      hd_temp_dir = Some (path_join [snd d, ''.chunks'']), hd_close = None\<rparr>"

section \<open>Signatures\<close>









section \<open>Files stay in the directory, unless a path says otherwise\<close>

lemma local_put_get:
  assumes "os (full_path dir (fi_path info)) = None"
  shows "local_get os dir (fi_path info) (snd (local_put os dir info rd fs)) =
    (Inr \<lparr>rd_data = rd_data rd, rd_error = None, rd_stat = Some (int (length (rd_data rd)))\<rparr>, snd (local_put os dir info rd fs))"
  using assms by (simp add: local_put_def local_get_def Let_def)

text \<open>
  Files go into the directory.  Over a directory given by a clean absolute path, an upload whose path has no
  component of two dots changes one file at most, which lies below the directory, and reading that path gives its bytes
  back.
\<close>

theorem local_files_stay_inside:
  assumes "\<forall>c \<in> set ds. path_name c" "ds \<noteq> []" "''..'' \<notin> set (split_on slash (fi_path info))"
    and put: "local_put os (slash # join_slash ds) info rd fs = (err, fs')"
  shows "\<exists>more. (\<forall>c \<in> set more. path_name c) \<and>
    (\<forall>p. fs' p \<noteq> fs p \<longrightarrow> p = slash # join_slash (ds @ more)) \<and>
    (os (slash # join_slash (ds @ more)) = None \<longrightarrow> err = rd_error rd \<and>
      fst (local_get os (slash # join_slash ds) (fi_path info) fs') =
        Inr \<lparr>rd_data = rd_data rd, rd_error = None, rd_stat = Some (int (length (rd_data rd)))\<rparr>)"
proof -
  obtain more where more: "\<forall>c \<in> set more. path_name c"
    "full_path (slash # join_slash ds) (fi_path info) = slash # join_slash (ds @ more)"
    using join_stays_inside [OF assms(1-3)] by (auto simp: full_path_def)
  have fs': "fs' = snd (local_put os (slash # join_slash ds) info rd fs)" using put by simp
  show ?thesis
  proof (intro exI [of _ more] conjI more(1) allI impI)
    fix p assume "fs' p \<noteq> fs p"
    with put show "p = slash # join_slash (ds @ more)"
      by (auto simp: local_put_def more(2) Let_def fun_upd_apply split: option.splits if_splits)
  next
    assume os: "os (slash # join_slash (ds @ more)) = None"
    with put show "err = rd_error rd" by (simp add: local_put_def more(2) Let_def)
    show "fst (local_get os (slash # join_slash ds) (fi_path info) fs') =
        Inr \<lparr>rd_data = rd_data rd, rd_error = None, rd_stat = Some (int (length (rd_data rd)))\<rparr>"
      unfolding fs' using os by (subst local_put_get) (simp_all add: more(2))
  qed
qed

theorem local_files_stay_inside_witness:
  "\<exists>more err fs'. local_put (\<lambda>_. None) ''/data/files'' (no_info\<lparr>fi_path := ''a//b.txt''\<rparr>)
      \<lparr>rd_data = ''x'', rd_error = None, rd_stat = None\<rparr> Map.empty = (err, fs') \<and>
    (\<forall>p. fs' p \<noteq> None \<longrightarrow> p = slash # join_slash ([''data'', ''files''] @ more)) \<and>
    fst (local_get (\<lambda>_. None) ''/data/files'' ''a//b.txt'' fs') =
      Inr \<lparr>rd_data = ''x'', rd_error = None, rd_stat = Some 1\<rparr>"
proof -
  let ?rd = "\<lparr>rd_data = ''x'', rd_error = None, rd_stat = None\<rparr>"
  obtain err fs' where put: "local_put (\<lambda>_. None) (slash # join_slash [''data'', ''files'']) (no_info\<lparr>fi_path := ''a//b.txt''\<rparr>) ?rd Map.empty = (err, fs')"
    by (metis surj_pair)
  have names: "\<forall>c \<in> set [''data'', ''files'']. path_name c" by (simp add: path_name_def)
  have dots: "''..'' \<notin> set (split_on slash (fi_path (no_info\<lparr>fi_path := ''a//b.txt''\<rparr>)))" by (simp add: no_info_def)
  have dir: "slash # join_slash [''data'', ''files''] = ''/data/files''" by simp
  from local_files_stay_inside [OF names _ dots put] put show ?thesis unfolding dir by fastforce
qed

text \<open>
  With two dots a file may leave the directory, and nothing in the file system refuses it: the path of a request is only
  stripped of leading slashes, and what is validated is its name.
\<close>

lemma upload_may_leave:
  "let info = no_info\<lparr>fi_name := ''x'', fi_path := ''../x'', fi_size := 1\<rparr> in
   prepare_info env fs info w = (Inr info, w) \<and> validate_file_info (Some plain_config) info = None \<and>
   full_path ''/data/files'' (fi_path info) = ''/data/x''"
proof -
  have "full_path ''/data/files'' ''../x'' = ''/data/x''"
    "validate_file_info (Some plain_config) (no_info\<lparr>fi_name := ''x'', fi_path := ''../x'', fi_size := 1\<rparr>) = None"
    by code_simp+
  then show ?thesis by (simp add: prepare_info_def drop_leading_def Let_def)
qed

end
