(* ===== verification/Report_Sinks.thy ===== *)
theory Report_Sinks
  imports Go_Text
begin

text \<open>
  Reporting of operations, \<^verbatim>\<open>core/reporter\<close>: events, sinks with their filters and errors, and the
  reporter that hands an event to its sinks (\<^verbatim>\<open>event.go\<close>, \<^verbatim>\<open>sink.go\<close>, \<^verbatim>\<open>reporter.go\<close>).

  A value of an \<^verbatim>\<open>any\<close> map is of a type \<open>'a\<close>, its text under \<^verbatim>\<open>fmt.Sprint\<close> a parameter.  A map is the list of
  its entries; nil and the empty map, between which nothing here can tell after \<^verbatim>\<open>cloneMap\<close>, are the empty list.
  A time is in nanoseconds, \<open>None\<close> the zero time.  Sinks and the error handler are functions over a world; what
  they do to the maps of the event they are given, which they share, is left out.
\<close>

section \<open>Events (event.go)\<close>

datatype report_kind = KindLog | KindProgress | KindDone | KindFailed | KindCanceled | KindOther string

record 'a report_event =
  re_kind :: report_kind
  re_domain :: string
  re_operation_id :: string
  re_operation_type :: string
  re_ref_id :: string
  re_subject :: "(string \<times> 'a) list"
  re_step :: string
  re_progress_key :: string
  re_level :: string
  re_status :: string
  re_percent :: int
  re_message :: string
  re_detail :: "(string \<times> 'a) list"
  re_at :: "int option"

definition stamped :: "int \<Rightarrow> 'a report_event \<Rightarrow> 'a report_event" where
  "stamped now e = (if re_at e = None then e\<lparr>re_at := Some now\<rparr> else e)"

definition with_kind :: "int \<Rightarrow> report_kind \<Rightarrow> 'a report_event \<Rightarrow> 'a report_event" where
  "with_kind now k e = stamped now (e\<lparr>re_kind := k\<rparr>)"

definition is_terminal :: "'a report_event \<Rightarrow> bool" where
  "is_terminal e \<longleftrightarrow> re_kind e = KindDone \<or> re_kind e = KindFailed \<or> re_kind e = KindCanceled"

definition snapshot_key :: "'a report_event \<Rightarrow> string" where
  "snapshot_key e = trim_space (re_operation_id e)"

definition step_key :: "('a \<Rightarrow> string) \<Rightarrow> 'a report_event \<Rightarrow> string" where
  "step_key sprint e =
     (let key = trim_space (re_progress_key e) in
      if key \<noteq> [] then key
      else (case map_of (re_detail e) ''progress_key'' of
              None \<Rightarrow> []
            | Some raw \<Rightarrow> trim_space (sprint raw)))"

section \<open>Sinks, filters and errors (sink.go)\<close>

datatype report_error = ReportText string | ReportPanic string

datatype sink_end = SinkReturned "report_error option" | SinkPanicked string

type_synonym ('a, 'w) report_sink = "'a report_event \<Rightarrow> 'w \<Rightarrow> sink_end \<times> 'w"

text \<open>\<^verbatim>\<open>SinkFunc\<close>: a function, or nil.\<close>

definition sink_func :: "('a, 'w) report_sink option \<Rightarrow> ('a, 'w) report_sink" where
  "sink_func f e w = (case f of None \<Rightarrow> (SinkReturned None, w) | Some g \<Rightarrow> g e w)"

type_synonym 'a report_filter = "'a report_event \<Rightarrow> bool"

definition kind_filter :: "report_kind list \<Rightarrow> 'a report_filter" where
  "kind_filter ks e \<longleftrightarrow> re_kind e \<in> set ks"

definition terminal_filter :: "'a report_filter" where
  "terminal_filter e = is_terminal e"

fun and_filter :: "'a report_filter option list \<Rightarrow> 'a report_filter" where
  "and_filter [] e = True"
| "and_filter (None # fs) e = and_filter fs e"
| "and_filter (Some f # fs) e = (if \<not> f e then False else and_filter fs e)"

record sink_error =
  ke_sink :: string
  ke_required :: bool
  ke_err :: report_error

fun report_error_text :: "report_error \<Rightarrow> string" where
  "report_error_text (ReportText t) = t"
| "report_error_text (ReportPanic t) = ''reporter sink panic: '' @ t"

definition sink_error_text :: "sink_error \<Rightarrow> string" where
  "sink_error_text e = ke_sink e @ '': '' @ report_error_text (ke_err e)"

fun join_texts :: "string \<Rightarrow> string list \<Rightarrow> string" where
  "join_texts sep [] = []"
| "join_texts sep [t] = t"
| "join_texts sep (t # u # ts) = t @ sep @ join_texts sep (u # ts)"

definition sink_errors_text :: "sink_error list \<Rightarrow> string" where
  "sink_errors_text es = join_texts ''; '' (map sink_error_text es)"

definition required_only :: "sink_error list \<Rightarrow> sink_error list" where
  "required_only es = filter ke_required es"

record ('a, 'w) sink_registration =
  kr_name :: string
  kr_sink :: "('a, 'w) report_sink option"
  kr_filter :: "'a report_filter option"
  kr_required :: bool

datatype 'a sink_option = WithName string | WithRequired | WithFilter "'a report_filter option"

fun apply_sink_option :: "'a sink_option \<Rightarrow> ('a, 'w) sink_registration \<Rightarrow> ('a, 'w) sink_registration" where
  "apply_sink_option (WithName n) r = r\<lparr>kr_name := trim_space n\<rparr>"
| "apply_sink_option WithRequired r = r\<lparr>kr_required := True\<rparr>"
| "apply_sink_option (WithFilter f) r = r\<lparr>kr_filter := f\<rparr>"

text \<open>The name is the one of the sink's type.\<close>

definition new_sink_registration ::
  "string \<Rightarrow> ('a, 'w) report_sink \<Rightarrow> 'a sink_option option list \<Rightarrow> ('a, 'w) sink_registration" where
  "new_sink_registration type_name sink opts =
     fold (\<lambda>opt r. case opt of None \<Rightarrow> r | Some x \<Rightarrow> apply_sink_option x r) opts
       \<lparr>kr_name = type_name, kr_sink = Some sink, kr_filter = None, kr_required = False\<rparr>"

section \<open>The reporter (reporter.go)\<close>

record ('a, 'w) reporter =
  rp_sinks :: "('a, 'w) sink_registration list"
  rp_on_error :: "('a report_event \<Rightarrow> sink_error \<Rightarrow> 'w \<Rightarrow> 'w) option"

definition no_reporter :: "('a, 'w) reporter" where
  "no_reporter = \<lparr>rp_sinks = [], rp_on_error = None\<rparr>"

definition use_sink ::
  "string \<Rightarrow> ('a, 'w) report_sink option \<Rightarrow> 'a sink_option option list \<Rightarrow> ('a, 'w) reporter option \<Rightarrow> ('a, 'w) reporter option" where
  "use_sink type_name sink opts r =
     (case (r, sink) of
        (Some r, Some k) \<Rightarrow> Some (r\<lparr>rp_sinks := rp_sinks r @ [new_sink_registration type_name k opts]\<rparr>)
      | _ \<Rightarrow> r)"

fun new_reporter :: "(string \<times> ('a, 'w) report_sink option) list \<Rightarrow> ('a, 'w) reporter option" where
  "new_reporter sinks = fold (\<lambda>(n, k) r. use_sink n k [] r) sinks (Some no_reporter)"

datatype ('a, 'w) reporter_option =
    WithSink string "('a, 'w) report_sink option" "'a sink_option option list"
  | WithErrorHandler "('a report_event \<Rightarrow> sink_error \<Rightarrow> 'w \<Rightarrow> 'w) option"

fun apply_reporter_option :: "('a, 'w) reporter_option option \<Rightarrow> ('a, 'w) reporter option \<Rightarrow> ('a, 'w) reporter option" where
  "apply_reporter_option None r = r"
| "apply_reporter_option (Some (WithSink n k opts)) r = use_sink n k opts r"
| "apply_reporter_option (Some (WithErrorHandler h)) r = map_option (\<lambda>r. r\<lparr>rp_on_error := h\<rparr>) r"

definition new_with_options :: "('a, 'w) reporter_option option list \<Rightarrow> ('a, 'w) reporter option" where
  "new_with_options opts = fold apply_reporter_option opts (Some no_reporter)"

definition handle_sink :: "('a, 'w) report_sink \<Rightarrow> 'a report_event \<Rightarrow> 'w \<Rightarrow> report_error option \<times> 'w" where
  "handle_sink k e w =
     (case k e w of
        (SinkReturned r, w) \<Rightarrow> (r, w)
      | (SinkPanicked v, w) \<Rightarrow> (Some (ReportPanic v), w))"

text \<open>The loop of \<^verbatim>\<open>Emit\<close>: every sink in turn, whatever the others do.\<close>

fun emit_loop ::
  "('a report_event \<Rightarrow> sink_error \<Rightarrow> 'w \<Rightarrow> 'w) option \<Rightarrow> 'a report_event \<Rightarrow> ('a, 'w) sink_registration list \<Rightarrow> 'w \<Rightarrow>
   sink_error list \<times> 'w" where
  "emit_loop h e [] w = ([], w)"
| "emit_loop h e (r # rs) w =
     (case kr_sink r of None \<Rightarrow> emit_loop h e rs w
      | Some k \<Rightarrow>
          if (case kr_filter r of None \<Rightarrow> False | Some f \<Rightarrow> \<not> f e) then emit_loop h e rs w
          else
            (case handle_sink k e w of
               (None, w) \<Rightarrow> emit_loop h e rs w
             | (Some err, w) \<Rightarrow>
                 (let x = \<lparr>ke_sink = kr_name r, ke_required = kr_required r, ke_err = err\<rparr>;
                      w = (case h of None \<Rightarrow> w | Some f \<Rightarrow> f e x w);
                      (es, w) = emit_loop h e rs w in
                  (x # es, w))))"

definition emit :: "int \<Rightarrow> ('a, 'w) reporter option \<Rightarrow> 'a report_event \<Rightarrow> 'w \<Rightarrow> sink_error list option \<times> 'w" where
  "emit now r e w =
     (case r of None \<Rightarrow> (None, w)
      | Some r \<Rightarrow>
          (let (es, w) = emit_loop (rp_on_error r) (stamped now e) (rp_sinks r) w;
               req = required_only es in
           (if req \<noteq> [] then Some req else None, w)))"

text \<open>\<^verbatim>\<open>Log\<close>, \<^verbatim>\<open>Progress\<close>, \<^verbatim>\<open>Done\<close>, \<^verbatim>\<open>Failed\<close> and \<^verbatim>\<open>Canceled\<close>, by their kind.\<close>

definition emit_kind ::
  "int \<Rightarrow> report_kind \<Rightarrow> ('a, 'w) reporter option \<Rightarrow> 'a report_event \<Rightarrow> 'w \<Rightarrow> sink_error list option \<times> 'w" where
  "emit_kind now k r e w = emit now r (with_kind now k e) w"

section \<open>What an emission does\<close>

text \<open>A sink is asked when it is there and its filter, if it has one, lets the event pass.\<close>

definition admits :: "'a report_event \<Rightarrow> ('a, 'w) sink_registration \<Rightarrow> bool" where
  "admits e r \<longleftrightarrow> kr_sink r \<noteq> None \<and> (case kr_filter r of None \<Rightarrow> True | Some f \<Rightarrow> f e)"

text \<open>Sinks and handler that write down what happens to them, beside the world.\<close>

datatype 'a report_call = SinkAsked nat "'a report_event" "report_error option" | ErrorHandled "'a report_event" sink_error

definition written_sink :: "nat \<Rightarrow> ('a, 'w) report_sink \<Rightarrow> ('a, 'w \<times> 'a report_call list) report_sink" where
  "written_sink i k e = (\<lambda>(w, lg).
     let (r, w) = k e w in
     (r, (w, lg @ [SinkAsked i e (case r of SinkReturned x \<Rightarrow> x | SinkPanicked v \<Rightarrow> Some (ReportPanic v))])))"

definition written_registration :: "nat \<Rightarrow> ('a, 'w) sink_registration \<Rightarrow> ('a, 'w \<times> 'a report_call list) sink_registration" where
  "written_registration i r = \<lparr>kr_name = kr_name r, kr_sink = map_option (written_sink i) (kr_sink r),
     kr_filter = kr_filter r, kr_required = kr_required r\<rparr>"

definition written_handler ::
  "('a report_event \<Rightarrow> sink_error \<Rightarrow> 'w \<Rightarrow> 'w) \<Rightarrow> 'a report_event \<Rightarrow> sink_error \<Rightarrow> 'w \<times> 'a report_call list \<Rightarrow> 'w \<times> 'a report_call list" where
  "written_handler h e x s = (h e x (fst s), snd s @ [ErrorHandled e x])"

definition written_reporter :: "('a, 'w) reporter \<Rightarrow> ('a, 'w \<times> 'a report_call list) reporter" where
  "written_reporter r = \<lparr>rp_sinks = map2 written_registration [0..<length (rp_sinks r)] (rp_sinks r),
     rp_on_error = map_option written_handler (rp_on_error r)\<rparr>"

text \<open>What is written for one sink that is asked, and the errors that are found in it.\<close>

definition call_pair ::
  "bool \<Rightarrow> 'a report_event \<Rightarrow> (nat \<times> ('a, 'w) sink_registration) \<Rightarrow> report_error option \<Rightarrow> 'a report_call list" where
  "call_pair handled e ir err =
     SinkAsked (fst ir) e err #
     (case err of Some x \<Rightarrow> if handled
        then [ErrorHandled e \<lparr>ke_sink = kr_name (snd ir), ke_required = kr_required (snd ir), ke_err = x\<rparr>] else []
      | None \<Rightarrow> [])"

definition found_errors :: "(nat \<times> ('a, 'w) sink_registration) list \<Rightarrow> report_error option list \<Rightarrow> sink_error list" where
  "found_errors irs errs = concat (map2 (\<lambda>ir err. case err of None \<Rightarrow> []
     | Some x \<Rightarrow> [\<lparr>ke_sink = kr_name (snd ir), ke_required = kr_required (snd ir), ke_err = x\<rparr>]) irs errs)"

lemma written_handler_pair: "written_handler h e x (w, lg) = (h e x w, lg @ [ErrorHandled e x])"
  by (simp add: written_handler_def)

lemma emit_loop_written:
  assumes "emit_loop (map_option written_handler h) e (map2 written_registration is rs) (w, lg) = (es, (w', lg'))"
    "length is = length rs"
  shows "\<exists>errs. length errs = length (filter (admits e \<circ> snd) (zip is rs)) \<and>
    lg' = lg @ concat (map2 (call_pair (h \<noteq> None) e) (filter (admits e \<circ> snd) (zip is rs)) errs) \<and>
    es = found_errors (filter (admits e \<circ> snd) (zip is rs)) errs"
  using assms(2,1)
proof (induction "is" rs arbitrary: w lg es rule: list_induct2)
  case Nil
  then show ?case by (simp add: found_errors_def)
next
  case (Cons i "is" r rs)
  show ?case
  proof (cases "admits e r")
    case False
    then have "emit_loop (map_option written_handler h) e (map2 written_registration is rs) (w, lg) = (es, (w', lg'))"
      using Cons.prems by (auto simp: admits_def written_registration_def split: option.splits)
    from Cons.IH [OF this] False show ?thesis by simp
  next
    case True
    then obtain k where k: "kr_sink r = Some k" by (auto simp: admits_def)
    obtain end1 w1 where run: "k e w = (end1, w1)" by (metis surj_pair)
    define err where "err = (case end1 of SinkReturned x \<Rightarrow> x | SinkPanicked v \<Rightarrow> Some (ReportPanic v))"
    have asked: "handle_sink (written_sink i k) e (w, lg) = (err, (w1, lg @ [SinkAsked i e err]))"
      by (cases end1) (simp_all add: handle_sink_def written_sink_def run err_def)
    have pass: "(case kr_filter r of None \<Rightarrow> False | Some f \<Rightarrow> \<not> f e) = False"
      using True by (auto simp: admits_def split: option.splits)
    let ?r = "written_registration i r" and ?rest = "map2 written_registration is rs"
    let ?x = "\<lambda>x. \<lparr>ke_sink = kr_name r, ke_required = kr_required r, ke_err = x\<rparr>"
    have sink: "kr_sink ?r = Some (written_sink i k)" "kr_filter ?r = kr_filter r" "kr_name ?r = kr_name r"
      "kr_required ?r = kr_required r" by (simp_all add: written_registration_def k)
    have "\<exists>w2 es'. emit_loop (map_option written_handler h) e ?rest (w2, lg @ call_pair (h \<noteq> None) e (i, r) err) = (es', (w', lg')) \<and>
      es = (case err of None \<Rightarrow> [] | Some x \<Rightarrow> [?x x]) @ es'"
    proof (cases err)
      case None
      with Cons.prems asked pass sink show ?thesis by (auto simp: call_pair_def)
    next
      case (Some x)
      with Cons.prems asked pass sink show ?thesis
        by (cases h) (auto simp: call_pair_def written_handler_pair Let_def split: prod.splits)
    qed
    then obtain w2 es' where rest: "emit_loop (map_option written_handler h) e ?rest (w2, lg @ call_pair (h \<noteq> None) e (i, r) err) = (es', (w', lg'))"
      and es: "es = (case err of None \<Rightarrow> [] | Some x \<Rightarrow> [?x x]) @ es'" by blast
    from Cons.IH [OF rest] obtain errs where errs: "length errs = length (filter (admits e \<circ> snd) (zip is rs))"
      "lg' = (lg @ call_pair (h \<noteq> None) e (i, r) err) @ concat (map2 (call_pair (h \<noteq> None) e) (filter (admits e \<circ> snd) (zip is rs)) errs)"
      "es' = found_errors (filter (admits e \<circ> snd) (zip is rs)) errs" by blast
    show ?thesis using errs es True
      by (intro exI [of _ "err # errs"]) (simp add: found_errors_def comp_def)
  qed
qed

text \<open>
  Every sink that admits the event is asked once, in the order of registration, whatever the others return and
  whether they panic; the event they see is one event, stamped; the handler hears of each failure before the next sink
  is asked; and the emission fails exactly with the failures of the required sinks.
\<close>

theorem emission_reaches_every_sink:
  assumes "emit now (Some (written_reporter r)) e (w, []) = (res, (w', lg))"
  shows "\<exists>errs. let irs = filter (admits (stamped now e) \<circ> snd) (zip [0..<length (rp_sinks r)] (rp_sinks r)) in
    length errs = length irs \<and>
    lg = concat (map2 (call_pair (rp_on_error r \<noteq> None) (stamped now e)) irs errs) \<and>
    (let failed = filter ke_required (found_errors irs errs) in res = (if failed = [] then None else Some failed))"
proof -
  obtain es s where run: "emit_loop (map_option written_handler (rp_on_error r)) (stamped now e)
      (map2 written_registration [0..<length (rp_sinks r)] (rp_sinks r)) (w, []) = (es, s)" by (metis surj_pair)
  obtain w1 lg1 where s: "s = (w1, lg1)" by (cases s)
  from assms run s have eq: "lg1 = lg" "res = (if required_only es \<noteq> [] then Some (required_only es) else None)"
    by (simp_all add: emit_def written_reporter_def Let_def)
  from emit_loop_written [OF run [unfolded s]] show ?thesis
    unfolding eq Let_def required_only_def by auto
qed

end
