(* ===== verification/Report_Progress.thy ===== *)
theory Report_Progress
  imports Report_Sinks
begin

text \<open>
  The progress of operations, \<^verbatim>\<open>core/reporter/progress.go\<close> and \<^verbatim>\<open>memory_store.go\<close>: snapshots that sum up the
  events of an operation, the sinks that keep them in a store and remove them, and the store in memory.  Copies of
  snapshots are the values themselves.
\<close>

section \<open>Snapshots (progress.go)\<close>

record 'a progress_step =
  pt_key :: string
  pt_step :: string
  pt_status :: string
  pt_percent :: int
  pt_message :: string
  pt_detail :: "(string \<times> 'a) list"
  pt_updated_at :: "int option"

record 'a progress_snapshot =
  pn_operation_id :: string
  pn_operation_type :: string
  pn_domain :: string
  pn_ref_id :: string
  pn_subject :: "(string \<times> 'a) list"
  pn_step :: string
  pn_status :: string
  pn_percent :: int
  pn_message :: string
  pn_terminal :: bool
  pn_updated_at :: "int option"
  pn_steps :: "'a progress_step list"
  pn_recent :: "'a report_event list"

definition new_snapshot :: "string \<Rightarrow> 'a progress_snapshot" where
  "new_snapshot i = \<lparr>pn_operation_id = i, pn_operation_type = [], pn_domain = [], pn_ref_id = [], pn_subject = [],
     pn_step = [], pn_status = [], pn_percent = 0, pn_message = [], pn_terminal = False, pn_updated_at = None,
     pn_steps = [], pn_recent = []\<rparr>"

definition step_of :: "string \<Rightarrow> 'a report_event \<Rightarrow> 'a progress_step" where
  "step_of key e = \<lparr>pt_key = key, pt_step = re_step e, pt_status = re_status e, pt_percent = re_percent e,
     pt_message = re_message e, pt_detail = re_detail e, pt_updated_at = re_at e\<rparr>"

text \<open>The loop of \<^verbatim>\<open>applyStep\<close>: the step with the key is replaced, or one is added.\<close>

fun put_step :: "string \<Rightarrow> 'a progress_step \<Rightarrow> 'a progress_step list \<Rightarrow> 'a progress_step list" where
  "put_step key st [] = [st]"
| "put_step key st (x # xs) = (if pt_key x = key then st # xs else x # put_step key st xs)"

definition apply_step :: "string \<Rightarrow> 'a report_event \<Rightarrow> 'a progress_snapshot \<Rightarrow> 'a progress_snapshot" where
  "apply_step key e s = s\<lparr>pn_steps := put_step key (step_of key e) (pn_steps s)\<rparr>"

definition said :: "'b list \<Rightarrow> 'b list \<Rightarrow> 'b list" where
  "said new old = (if new \<noteq> [] then new else old)"

definition apply_event :: "('a \<Rightarrow> string) \<Rightarrow> int \<Rightarrow> int \<Rightarrow> 'a report_event \<Rightarrow> 'a progress_snapshot \<Rightarrow> 'a progress_snapshot" where
  "apply_event sprint now limit e s =
     (let e = stamped now e;
          s = s\<lparr>pn_operation_id := said (re_operation_id e) (pn_operation_id s),
            pn_operation_type := said (re_operation_type e) (pn_operation_type s),
            pn_domain := said (re_domain e) (pn_domain s),
            pn_ref_id := said (re_ref_id e) (pn_ref_id s),
            pn_subject := said (re_subject e) (pn_subject s),
            pn_step := said (re_step e) (pn_step s),
            pn_status := said (re_status e) (pn_status s),
            pn_message := said (re_message e) (pn_message s)\<rparr>;
          s = (if re_percent e \<ge> 0 then s\<lparr>pn_percent := re_percent e\<rparr> else s);
          s = s\<lparr>pn_updated_at := re_at e\<rparr>;
          s = (if is_terminal e then s\<lparr>pn_terminal := True\<rparr> else s);
          key = step_key sprint e;
          s = (if key \<noteq> [] then apply_step key e s else s) in
      if limit > 0
      then (let recent = pn_recent s @ [e] in
            s\<lparr>pn_recent := (if int (length recent) > limit then drop (length recent - nat limit) recent else recent)\<rparr>)
      else s)"

section \<open>The sinks (progress.go)\<close>

text \<open>
  A store of snapshots: its methods take what the context says, the moment and the key.
\<close>

record ('a, 'w) progress_store =
  gs_save :: "report_error option \<Rightarrow> int \<Rightarrow> string \<Rightarrow> 'a progress_snapshot \<Rightarrow> int \<Rightarrow> 'w \<Rightarrow> report_error option \<times> 'w"
  gs_load :: "report_error option \<Rightarrow> int \<Rightarrow> string \<Rightarrow> 'w \<Rightarrow> (report_error + 'a progress_snapshot option) \<times> 'w"
  gs_delete :: "report_error option \<Rightarrow> string \<Rightarrow> 'w \<Rightarrow> report_error option \<times> 'w"

record ('a, 'w) snapshot_sink =
  gk_store :: "('a, 'w) progress_store option"
  gk_key_func :: "('a report_event \<Rightarrow> string) option"
  gk_running_ttl :: int
  gk_terminal_ttl :: int
  gk_recent_limit :: int

record ('a, 'w) cleanup_sink =
  gc_store :: "('a, 'w) progress_store option"
  gc_key_func :: "('a report_event \<Rightarrow> string) option"

datatype 'a snapshot_option = WithProgressKeyFunc "('a report_event \<Rightarrow> string) option" | WithProgressTTL int int | WithProgressRecentLimit int

fun apply_snapshot_option :: "'a snapshot_option \<Rightarrow> ('a, 'w) snapshot_sink \<Rightarrow> ('a, 'w) snapshot_sink" where
  "apply_snapshot_option (WithProgressKeyFunc f) s = (case f of None \<Rightarrow> s | Some g \<Rightarrow> s\<lparr>gk_key_func := Some g\<rparr>)"
| "apply_snapshot_option (WithProgressTTL r t) s = s\<lparr>gk_running_ttl := r, gk_terminal_ttl := t\<rparr>"
| "apply_snapshot_option (WithProgressRecentLimit n) s = s\<lparr>gk_recent_limit := n\<rparr>"

definition new_snapshot_sink ::
  "('a, 'w) progress_store option \<Rightarrow> 'a snapshot_option option list \<Rightarrow> ('a, 'w) snapshot_sink" where
  "new_snapshot_sink st opts =
     fold (\<lambda>opt s. case opt of None \<Rightarrow> s | Some x \<Rightarrow> apply_snapshot_option x s) opts
       \<lparr>gk_store = st, gk_key_func = Some snapshot_key, gk_running_ttl = 6 * 3600 * 10 ^ 9,
        gk_terminal_ttl = 2 * 3600 * 10 ^ 9, gk_recent_limit = 50\<rparr>"

definition new_cleanup_sink ::
  "('a, 'w) progress_store option \<Rightarrow> ('a report_event \<Rightarrow> string) option option list \<Rightarrow> ('a, 'w) cleanup_sink" where
  "new_cleanup_sink st opts =
     fold (\<lambda>opt s. case opt of Some (Some f) \<Rightarrow> s\<lparr>gc_key_func := Some f\<rparr> | _ \<Rightarrow> s) opts
       \<lparr>gc_store = st, gc_key_func = Some snapshot_key\<rparr>"

definition key_of :: "('a report_event \<Rightarrow> string) option \<Rightarrow> 'a report_event \<Rightarrow> string" where
  "key_of f e = trim_space (case f of None \<Rightarrow> snapshot_key e | Some g \<Rightarrow> g e)"

definition snapshot_ttl :: "('a, 'w) snapshot_sink \<Rightarrow> bool \<Rightarrow> int" where
  "snapshot_ttl k terminal = (if terminal then gk_terminal_ttl k else gk_running_ttl k)"

definition snapshot_handle ::
  "('a \<Rightarrow> string) \<Rightarrow> report_error option \<Rightarrow> int \<Rightarrow> ('a, 'w) snapshot_sink \<Rightarrow> 'a report_event \<Rightarrow> 'w \<Rightarrow> report_error option \<times> 'w" where
  "snapshot_handle sprint cerr now k e w =
     (case gk_store k of None \<Rightarrow> (None, w)
      | Some st \<Rightarrow>
          (let key = key_of (gk_key_func k) e in
           if key = [] then (None, w)
           else (case gs_load st cerr now key w of
                   (Inl err, w) \<Rightarrow> (Some err, w)
                 | (Inr found, w) \<Rightarrow>
                     (let s = (case found of None \<Rightarrow> new_snapshot (re_operation_id e) | Some s \<Rightarrow> s);
                          s = apply_event sprint now (gk_recent_limit k) e s in
                      gs_save st cerr now key s (snapshot_ttl k (pn_terminal s)) w))))"

definition cleanup_handle ::
  "report_error option \<Rightarrow> ('a, 'w) cleanup_sink \<Rightarrow> 'a report_event \<Rightarrow> 'w \<Rightarrow> report_error option \<times> 'w" where
  "cleanup_handle cerr k e w =
     (case gc_store k of None \<Rightarrow> (None, w)
      | Some st \<Rightarrow>
          if \<not> is_terminal e then (None, w)
          else (let key = key_of (gc_key_func k) e in
                if key = [] then (None, w) else gs_delete st cerr key w))"

section \<open>The store in memory (memory_store.go)\<close>

record 'a progress_item =
  gi_snapshot :: "'a progress_snapshot"
  gi_expires_at :: "int option"

type_synonym 'a progress_items = "string \<rightharpoonup> 'a progress_item"

definition overdue :: "int \<Rightarrow> int option \<Rightarrow> bool" where
  "overdue now d = (case d of None \<Rightarrow> False | Some x \<Rightarrow> now > x)"

definition progress_save ::
  "report_error option \<Rightarrow> int \<Rightarrow> string \<Rightarrow> 'a progress_snapshot \<Rightarrow> int \<Rightarrow> 'a progress_items \<Rightarrow> report_error option \<times> 'a progress_items" where
  "progress_save cerr now key s ttl m =
     (if key = [] then (None, m)
      else if cerr \<noteq> None then (cerr, m)
      else (None, m(key \<mapsto> \<lparr>gi_snapshot = s, gi_expires_at = (if ttl > 0 then Some (now + ttl) else None)\<rparr>)))"

definition progress_load ::
  "report_error option \<Rightarrow> int \<Rightarrow> string \<Rightarrow> 'a progress_items \<Rightarrow> (report_error + 'a progress_snapshot option) \<times> 'a progress_items" where
  "progress_load cerr now key m =
     (if key = [] then (Inr None, m)
      else (case cerr of Some err \<Rightarrow> (Inl err, m)
            | None \<Rightarrow>
                (case m key of None \<Rightarrow> (Inr None, m)
                 | Some it \<Rightarrow>
                     if overdue now (gi_expires_at it) then (Inr None, m(key := None))
                     else (Inr (Some (gi_snapshot it)), m))))"

definition progress_delete :: "report_error option \<Rightarrow> string \<Rightarrow> 'a progress_items \<Rightarrow> report_error option \<times> 'a progress_items" where
  "progress_delete cerr key m =
     (if key = [] then (None, m) else if cerr \<noteq> None then (cerr, m) else (None, m(key := None)))"

definition memory_progress_store :: "('a, 'a progress_items) progress_store" where
  "memory_progress_store = \<lparr>gs_save = progress_save, gs_load = progress_load, gs_delete = progress_delete\<rparr>"

end
