(* ===== verification/Report_History.thy ===== *)
theory Report_History
  imports Report_Progress
begin

text \<open>
  What progress snapshots say: the snapshot that is kept for an operation is the summary of its events since the last
  time the store forgot it.  Proved once over any store that keeps the laws of the locale \<open>progress_keeping\<close>, and
  then for the store in memory.
\<close>

section \<open>The summary of a list of events\<close>

text \<open>The last value that is not empty.\<close>

definition last_or :: "'c \<Rightarrow> 'c list \<Rightarrow> 'c" where
  "last_or d xs = (if xs = [] then d else last xs)"

lemma last_or_simps [simp]: "last_or d [] = d" "last_or d (xs @ [x]) = x"
  by (simp_all add: last_or_def)

definition last_said :: "'b list list \<Rightarrow> 'b list" where
  "last_said xs = last_or [] (filter (\<lambda>x. x \<noteq> []) xs)"

lemma last_said_Nil [simp]: "last_said [] = []"
  by (simp add: last_said_def)

lemma last_said_snoc [simp]: "last_said (xs @ [x]) = said x (last_said xs)"
  by (simp add: last_said_def said_def)

text \<open>The keys of the steps in the order in which they appear, and the last event of each.\<close>

definition step_keys :: "('a \<Rightarrow> string) \<Rightarrow> 'a report_event list \<Rightarrow> string list" where
  "step_keys sprint es = rev (remdups (rev (filter (\<lambda>k. k \<noteq> []) (map (step_key sprint) es))))"

definition last_of_step :: "('a \<Rightarrow> string) \<Rightarrow> string \<Rightarrow> 'a report_event list \<Rightarrow> 'a report_event" where
  "last_of_step sprint k es = last (filter (\<lambda>e. step_key sprint e = k) es)"

definition steps_of :: "('a \<Rightarrow> string) \<Rightarrow> 'a report_event list \<Rightarrow> 'a progress_step list" where
  "steps_of sprint es = map (\<lambda>k. step_of k (last_of_step sprint k es)) (step_keys sprint es)"

definition last_percent :: "'a report_event list \<Rightarrow> int" where
  "last_percent es = last_or 0 (filter (\<lambda>p. p \<ge> 0) (map re_percent es))"

definition last_ones :: "int \<Rightarrow> 'b list \<Rightarrow> 'b list" where
  "last_ones n xs = drop (length xs - nat n) xs"

definition summary :: "('a \<Rightarrow> string) \<Rightarrow> int \<Rightarrow> 'a report_event list \<Rightarrow> 'a progress_snapshot" where
  "summary sprint limit es =
     \<lparr>pn_operation_id = last_said (map re_operation_id es), pn_operation_type = last_said (map re_operation_type es),
      pn_domain = last_said (map re_domain es), pn_ref_id = last_said (map re_ref_id es),
      pn_subject = last_said (map re_subject es), pn_step = last_said (map re_step es),
      pn_status = last_said (map re_status es), pn_percent = last_percent es,
      pn_message = last_said (map re_message es), pn_terminal = list_ex is_terminal es,
      pn_updated_at = (if es = [] then None else re_at (last es)), pn_steps = steps_of sprint es,
      pn_recent = last_ones limit es\<rparr>"

lemma last_percent_snoc: "last_percent (es @ [e]) = (if re_percent e \<ge> 0 then re_percent e else last_percent es)"
  by (simp add: last_percent_def)

lemma last_ones_snoc:
  "last_ones n (xs @ [x]) =
     (if n > 0 then (let r = last_ones n xs @ [x] in if int (length r) > n then drop (length r - nat n) r else r) else [])"
proof (cases "n > 0")
  case True
  then have "nat n > 0" by simp
  show ?thesis
  proof (cases "length xs < nat n")
    case True
    with \<open>n > 0\<close> show ?thesis by (auto simp: last_ones_def Let_def)
  next
    case False
    then have "length (last_ones n xs) = nat n" "Suc (length xs) - nat n = Suc (length xs - nat n)"
      using \<open>nat n > 0\<close> by (auto simp: last_ones_def)
    with \<open>n > 0\<close> False show ?thesis by (simp add: last_ones_def Let_def drop_Suc tl_drop)
  qed
qed (simp add: last_ones_def)

lemma last_ones_none [simp]: "\<not> 0 < n \<Longrightarrow> last_ones n xs = []"
  by (simp add: last_ones_def)

lemma step_keys_snoc:
  "step_keys sprint (es @ [e]) =
     (if step_key sprint e = [] \<or> step_key sprint e \<in> set (step_keys sprint es) then step_keys sprint es
      else step_keys sprint es @ [step_key sprint e])"
proof -
  have "rev (remdups (x # xs)) = (if x \<in> set xs then rev (remdups xs) else rev (remdups xs) @ [x])" for x and xs :: "string list"
    by simp
  then show ?thesis by (auto simp: step_keys_def)
qed

lemma put_step_steps:
  assumes "step_key sprint e \<noteq> []"
  shows "put_step (step_key sprint e) (step_of (step_key sprint e) e) (steps_of sprint es) = steps_of sprint (es @ [e])"
proof -
  let ?k = "step_key sprint e"
  let ?f = "\<lambda>k. step_of k (last_of_step sprint k es)" and ?g = "\<lambda>k. step_of k (last_of_step sprint k (es @ [e]))"
  have g: "?g k = (if k = ?k then step_of ?k e else ?f k)" for k
    by (simp add: last_of_step_def)
  have keys: "pt_key (?f k) = k" for k by (simp add: step_of_def)
  have put: "put_step ?k (step_of ?k e) (map ?f ks) = (if ?k \<in> set ks then map ?g ks else map ?f ks @ [step_of ?k e])"
    if "distinct ks" for ks
    using that
  proof (induction ks)
    case (Cons x ks)
    have "map ?f ks = map ?g ks" if "?k \<notin> set ks" using that g by (intro map_cong) auto
    with Cons show ?case by (auto simp: keys g)
  qed simp
  have dist: "distinct (step_keys sprint es)" by (simp add: step_keys_def)
  have "map ?f (step_keys sprint es) = map ?g (step_keys sprint es)" if "?k \<notin> set (step_keys sprint es)"
    using that g by (intro map_cong) auto
  then show ?thesis
    unfolding steps_of_def put [OF dist] step_keys_snoc using assms g [of ?k] by auto
qed

lemma steps_of_unchanged:
  assumes "step_key sprint e = []"
  shows "steps_of sprint (es @ [e]) = steps_of sprint es"
proof -
  have "k \<noteq> []" if "k \<in> set (step_keys sprint es)" for k using that by (auto simp: step_keys_def)
  with assms show ?thesis
    by (auto simp: steps_of_def step_keys_snoc last_of_step_def intro!: map_cong)
qed

text \<open>Applying an event to a summary sums it up with the others.\<close>

lemma apply_summary:
  assumes "re_at e \<noteq> None"
  shows "apply_event sprint now limit e (summary sprint limit es) = summary sprint limit (es @ [e])"
proof -
  have st: "stamped now e = e" using assms by (simp add: stamped_def)
  show ?thesis
  proof (cases "step_key sprint e = []")
    case True
    then show ?thesis
      by (simp add: apply_event_def st summary_def steps_of_unchanged last_percent_snoc last_ones_snoc Let_def)
  next
    case False
    then show ?thesis
      by (simp add: apply_event_def st summary_def apply_step_def put_step_steps last_percent_snoc last_ones_snoc Let_def)
  qed
qed

section \<open>The history of an operation\<close>

lemma summary_Nil: "summary sprint limit [] = new_snapshot []"
  by (simp add: summary_def new_snapshot_def last_percent_def steps_of_def step_keys_def last_ones_def)

lemma stamped_twice: "stamped now (stamped now e) = stamped now e"
  by (simp add: stamped_def)

text \<open>The first event of a snapshot: its identifier is there already.\<close>

lemma apply_first:
  assumes "re_at e \<noteq> None"
  shows "apply_event sprint now limit e (new_snapshot (re_operation_id e)) = summary sprint limit [e]"
proof -
  have "apply_event sprint now limit e (new_snapshot (re_operation_id e)) = apply_event sprint now limit e (new_snapshot [])"
    by (simp add: apply_event_def new_snapshot_def said_def stamped_def Let_def apply_step_def)
  also have "\<dots> = apply_event sprint now limit e (summary sprint limit [])" by (simp only: summary_Nil)
  also have "\<dots> = summary sprint limit [e]" using apply_summary [OF assms, of sprint now limit "[]"] by simp
  finally show ?thesis .
qed

text \<open>
  What a store is expected to remember of a key: the events since it forgot the snapshot, and the moment at which
  it will forget it.
\<close>

type_synonym 'a history = "'a report_event list \<times> int option"

definition forgotten :: "int \<Rightarrow> 'a history \<Rightarrow> 'a report_event list" where
  "forgotten now hi = (if overdue now (snd hi) then [] else fst hi)"

definition remember :: "('a, 'w) snapshot_sink \<Rightarrow> string \<Rightarrow> int \<times> 'a report_event \<Rightarrow> 'a history \<Rightarrow> 'a history" where
  "remember k key = (\<lambda>(now, e) hi.
     if key_of (gk_key_func k) e \<noteq> key then hi
     else (let es = forgotten now hi @ [stamped now e];
               ttl = snapshot_ttl k (list_ex is_terminal es) in
           (es, if ttl > 0 then Some (now + ttl) else None)))"

definition history :: "('a, 'w) snapshot_sink \<Rightarrow> string \<Rightarrow> (int \<times> 'a report_event) list \<Rightarrow> 'a history" where
  "history k key xs = fold (remember k key) xs ([], None)"

definition handle_events ::
  "('a \<Rightarrow> string) \<Rightarrow> ('a, 'w) snapshot_sink \<Rightarrow> (int \<times> 'a report_event) list \<Rightarrow> 'w \<Rightarrow> 'w" where
  "handle_events sprint k xs w = fold (\<lambda>(now, e) w. snd (snapshot_handle sprint None now k e w)) xs w"

definition told :: "('a \<Rightarrow> string) \<Rightarrow> int \<Rightarrow> int \<Rightarrow> 'a history \<Rightarrow> 'a progress_snapshot option" where
  "told sprint limit now hi = (if forgotten now hi = [] then None else Some (summary sprint limit (forgotten now hi)))"

text \<open>The laws of a store whose contents at a moment are a map.\<close>

locale progress_keeping =
  fixes st :: "('a, 'w) progress_store"
    and view :: "int \<Rightarrow> 'w \<Rightarrow> string \<Rightarrow> 'a progress_snapshot option"
  assumes load_view: "key \<noteq> [] \<Longrightarrow> fst (gs_load st None now key w) = Inr (view now w key)"
    and load_keeps: "now \<le> t \<Longrightarrow> view t (snd (gs_load st None now key w)) = view t w"
    and save_view: "key \<noteq> [] \<Longrightarrow> now \<le> t \<Longrightarrow> view t (snd (gs_save st None now key s ttl w)) =
      (view t w)(key := if ttl > 0 \<and> now + ttl < t then None else Some s)"
begin

lemma handle_view:
  assumes "gk_store k = Some st" "key \<noteq> []" "now \<le> t"
    "\<And>t. now \<le> t \<Longrightarrow> view t w key = told sprint (gk_recent_limit k) t hi"
  shows "view t (snd (snapshot_handle sprint None now k e w)) key =
    told sprint (gk_recent_limit k) t (remember k key (now, e) hi)"
proof -
  let ?k = "key_of (gk_key_func k) e" and ?l = "gk_recent_limit k"
  show ?thesis
  proof (cases "?k = key")
    case False
    show ?thesis
    proof (cases "?k = []")
      case True
      with assms False show ?thesis by (simp add: snapshot_handle_def remember_def)
    next
      case no: False
      obtain w1 where load: "gs_load st None now ?k w = (Inr (view now w ?k), w1)"
        using load_view [OF no, of now w] by (metis prod.collapse)
      have "view t w1 = view t w" using load_keeps [OF assms(3), of ?k w] load by simp
      with no False assms load show ?thesis
        by (simp add: snapshot_handle_def remember_def Let_def save_view)
    qed
  next
    case True
    obtain w1 where load: "gs_load st None now key w = (Inr (view now w key), w1)"
      using load_view [OF assms(2), of now w] by (metis prod.collapse)
    let ?es = "forgotten now hi"
    let ?s = "apply_event sprint now ?l e (case view now w key of None \<Rightarrow> new_snapshot (re_operation_id e) | Some s \<Rightarrow> s)"
    have stamp: "apply_event sprint now ?l e s = apply_event sprint now ?l (stamped now e) s"
      "re_at (stamped now e) \<noteq> None" "re_operation_id e = re_operation_id (stamped now e)" for s
      unfolding apply_event_def stamped_twice by (simp_all add: stamped_def)
    have s: "?s = summary sprint ?l (?es @ [stamped now e])"
      using assms(4) [of now] apply_first [OF stamp(2)] apply_summary [OF stamp(2)]
      by (subst stamp(1), subst stamp(3)) (cases ?es; simp add: told_def)
    have ended: "pn_terminal ?s = list_ex is_terminal (?es @ [stamped now e])" unfolding s by (simp add: summary_def)
    let ?ttl = "snapshot_ttl k (list_ex is_terminal (?es @ [stamped now e]))"
    have "snd (snapshot_handle sprint None now k e w) = snd (gs_save st None now key ?s ?ttl w1)"
      using assms(1,2) True load ended by (simp add: snapshot_handle_def Let_def)
    then show ?thesis
      using assms(2,3) True s
      by (simp add: save_view remember_def told_def forgotten_def overdue_def Let_def)
  qed
qed

lemma events_view:
  assumes "gk_store k = Some st" "key \<noteq> []" "sorted (map fst xs)" "\<forall>x \<in> set xs. fst x \<le> t"
    "\<And>t. view t w key = None"
  shows "view t (handle_events sprint k xs w) key = told sprint (gk_recent_limit k) t (history k key xs)"
  using assms(3,4,5)
proof (induction xs arbitrary: t rule: rev_induct)
  case Nil
  then show ?case by (simp add: handle_events_def history_def told_def forgotten_def)
next
  case (snoc x xs)
  obtain now e where x: "x = (now, e)" by (cases x)
  have sorted: "sorted (map fst xs)" "\<forall>y \<in> set xs. fst y \<le> now" and t: "now \<le> t"
    using snoc.prems by (auto simp: sorted_append x)
  have "view u (handle_events sprint k xs w) key = told sprint (gk_recent_limit k) u (history k key xs)" if "now \<le> u" for u
    using that sorted snoc.prems(3) by (intro snoc.IH) auto
  from handle_view [OF assms(1,2) t this] show ?case
    by (simp add: handle_events_def history_def x)
qed

end

section \<open>The store in memory\<close>

definition progress_view :: "int \<Rightarrow> 'a progress_items \<Rightarrow> string \<Rightarrow> 'a progress_snapshot option" where
  "progress_view now m key = (case m key of None \<Rightarrow> None | Some it \<Rightarrow> if overdue now (gi_expires_at it) then None else Some (gi_snapshot it))"

interpretation progress_memory: progress_keeping memory_progress_store progress_view
proof
  fix key :: string and now t :: int and m :: "'a progress_items"
  assume "now \<le> t"
  then have "overdue now d \<Longrightarrow> overdue t d" for d by (auto simp: overdue_def split: option.splits)
  then show "progress_view t (snd (gs_load memory_progress_store None now key m)) = progress_view t m"
    by (auto simp: progress_view_def memory_progress_store_def progress_load_def fun_eq_iff split: option.splits)
qed (auto simp: progress_view_def memory_progress_store_def progress_load_def progress_save_def overdue_def fun_eq_iff
    split: option.splits)

text \<open>
  The store in memory keeps the summary of an operation.  After any events, at moments that do not go back, a look-up
  by the key of an operation finds the summary of the events with that key since the store last forgot it: the last
  value said for each field, terminal as soon as one event was, the last event of every step in the order in which
  the steps appeared, and the most recent events up to the limit; and it finds nothing once the time to live has
  passed since the last of them, the one of terminal snapshots if one of them was terminal.
\<close>

theorem progress_sums_up_history:
  assumes "gk_store k = Some memory_progress_store" "key \<noteq> []"
    "sorted (map fst xs)" "\<forall>x \<in> set xs. fst x \<le> t"
  shows "fst (progress_load None t key (handle_events sprint k xs Map.empty)) =
    Inr (told sprint (gk_recent_limit k) t (history k key xs))"
proof -
  have none: "progress_view u Map.empty key = None" for u by (simp add: progress_view_def)
  have "fst (progress_load None t key m) = Inr (progress_view t m key)" for m :: "'a progress_items"
    using progress_memory.load_view [OF assms(2)] by (simp add: memory_progress_store_def)
  with progress_memory.events_view [OF assms none] show ?thesis by simp
qed

definition sample_report :: "report_kind \<Rightarrow> int \<Rightarrow> string \<Rightarrow> string report_event" where
  "sample_report kind p msg = \<lparr>re_kind = kind, re_domain = [], re_operation_id = ''op'', re_operation_type = [],
     re_ref_id = [], re_subject = [], re_step = [], re_progress_key = ''copy'', re_level = [], re_status = [],
     re_percent = p, re_message = msg, re_detail = [], re_at = None\<rparr>"

definition sample_snapshots :: "(string, string progress_items) snapshot_sink" where
  "sample_snapshots = \<lparr>gk_store = Some memory_progress_store, gk_key_func = None, gk_running_ttl = 10,
     gk_terminal_ttl = 5, gk_recent_limit = 1\<rparr>"

lemma sample_key: "key_of (gk_key_func sample_snapshots) (sample_report kind p msg) = ''op''"
proof -
  have "trim_space ''op'' = ''op''" by (rule trim_space_printable; simp)
  then show ?thesis by (simp add: key_of_def sample_snapshots_def sample_report_def snapshot_key_def)
qed

theorem progress_sums_up_history_witness:
  "\<exists>s. fst (progress_load None 6 ''op'' (handle_events id sample_snapshots
       [(1, sample_report KindProgress 40 ''half''), (2, sample_report KindDone 100 [])] Map.empty)) = Inr (Some s) \<and>
     pn_percent s = 100 \<and> pn_message s = ''half'' \<and> pn_terminal s \<and> length (pn_recent s) = 1"
proof -
  let ?xs = "[(1 :: int, sample_report KindProgress 40 ''half''), (2, sample_report KindDone 100 [])]"
  have run: "fst (progress_load None 6 ''op'' (handle_events id sample_snapshots ?xs Map.empty)) =
      Inr (told id 1 6 (history sample_snapshots ''op'' ?xs))"
    using progress_sums_up_history [of sample_snapshots "''op''" ?xs 6 id] by (simp add: sample_snapshots_def)
  have hist: "history sample_snapshots ''op'' ?xs =
      ([stamped 1 (sample_report KindProgress 40 ''half''), stamped 2 (sample_report KindDone 100 [])], Some 7)"
    by (simp add: history_def remember_def sample_key forgotten_def overdue_def)
      (simp add: sample_snapshots_def snapshot_ttl_def sample_report_def stamped_def is_terminal_def)
  show ?thesis
    unfolding run hist
    by (simp add: told_def forgotten_def overdue_def summary_def last_percent_def last_said_def last_or_def
        last_ones_def stamped_def sample_report_def is_terminal_def)
qed

text \<open>An event that says nothing about the percentage, such as a line of a log, sets it back to zero.\<close>

lemma plain_event_resets_percent:
  "re_percent e = 0 \<Longrightarrow> pn_percent (apply_event sprint now limit e s) = 0"
  by (simp add: apply_event_def apply_step_def stamped_def Let_def)

end
