(* ===== verification/Auth_Types.thy ===== *)
theory Auth_Types
  imports Go_Path Go_Text
begin

text \<open>
  Identities, errors, permissions, credentials and their extraction from requests: \<^verbatim>\<open>core/auth/types.go\<close>,
  \<^verbatim>\<open>errors.go\<close>, \<^verbatim>\<open>context.go\<close>, \<^verbatim>\<open>permission.go\<close>, \<^verbatim>\<open>request.go\<close>, and the errors with a code of
  \<^verbatim>\<open>core/errors\<close> as far as they meet them.

  A request is what the code reads of it: its authorization header, the first value of a query parameter
  and the value of a cookie.  Times are in nanoseconds, \<open>None\<close> the zero time.
\<close>

section \<open>Errors (core/errors/errors.go, core/auth/errors.go)\<close>

datatype auth_error =
    ErrInvalidCredentials | ErrAccountDisabled | ErrAuthUnauthorized
  | AppError int string "auth_error option"
  | AuthText string "auth_error option"

fun unwrap_auth :: "auth_error \<Rightarrow> auth_error option" where
  "unwrap_auth (AppError c s e) = e"
| "unwrap_auth (AuthText t e) = e"
| "unwrap_auth _ = None"

text \<open>\<open>AppError.Is\<close>: the code and the sub-code.\<close>

definition app_error_is :: "auth_error \<Rightarrow> auth_error \<Rightarrow> bool" where
  "app_error_is e target = (case (e, target) of (AppError c s _, AppError c' s' _) \<Rightarrow> c = c' \<and> s = s' | _ \<Rightarrow> False)"

text \<open>\<^verbatim>\<open>errors.Is\<close> for a target that is a sentinel or an \<open>AppError\<close>.\<close>

fun auth_is :: "auth_error \<Rightarrow> auth_error \<Rightarrow> bool" where
  "auth_is ErrInvalidCredentials t \<longleftrightarrow> t = ErrInvalidCredentials"
| "auth_is ErrAccountDisabled t \<longleftrightarrow> t = ErrAccountDisabled"
| "auth_is ErrAuthUnauthorized t \<longleftrightarrow> t = ErrAuthUnauthorized"
| "auth_is (AppError c s None) t \<longleftrightarrow> app_error_is (AppError c s None) t"
| "auth_is (AppError c s (Some e)) t \<longleftrightarrow> app_error_is (AppError c s (Some e)) t \<or> auth_is e t"
| "auth_is (AuthText x None) t \<longleftrightarrow> False"
| "auth_is (AuthText x (Some e)) t \<longleftrightarrow> auth_is e t"

definition sub_code_for_code :: "int \<Rightarrow> string" where
  "sub_code_for_code c =
     (if c = 400 then ''BAD_REQUEST'' else if c = 401 then ''UNAUTHORIZED'' else if c = 403 then ''FORBIDDEN''
      else if c = 404 then ''NOT_FOUND'' else if c = 409 then ''CONFLICT'' else if c = 500 then ''INTERNAL_ERROR''
      else if c = 3000 then ''BUSINESS_ERROR'' else if c = 3001 then ''BUSINESS_UNAVAILABLE''
      else if c = 3002 then ''BUSINESS_DUPLICATED'' else if c = 3003 then ''BUSINESS_PROTECTED''
      else if c = 3004 then ''BUSINESS_CONFLICT'' else if c = 4001 then ''AUTH_REQUIRED''
      else if c = 5001 then ''OPERATION_FAILED'' else if c = 4091 then ''QUEUE_TASK_CONFLICT''
      else ''CODE_'' @ int_text c)"

text \<open>\<^verbatim>\<open>New\<close>, \<^verbatim>\<open>NewCode\<close> and \<^verbatim>\<open>Wrap\<close>; messages and data are left out.\<close>

definition new_app_error :: "int \<Rightarrow> string \<Rightarrow> auth_error" where
  "new_app_error c s = AppError c s None"

definition new_code_error :: "int \<Rightarrow> auth_error" where
  "new_code_error c = new_app_error c (sub_code_for_code c)"

definition wrap_app_error :: "auth_error \<Rightarrow> int \<Rightarrow> string \<Rightarrow> auth_error" where
  "wrap_app_error e c s = AppError c s (Some e)"

definition err_app_unauthorized :: auth_error where
  "err_app_unauthorized = new_app_error 401 ''UNAUTHORIZED''"

section \<open>Identities (types.go, context.go, permission.go)\<close>

record 'a auth_identity =
  id_subject_id :: int
  id_subject :: string
  id_subject_type :: string
  id_tenant :: int
  id_username :: string
  id_role :: int
  id_roles :: "string list"
  id_permissions :: "string list"
  id_method :: string
  id_provider :: string
  id_session :: string
  id_token :: string
  id_expires_at :: "int option"
  id_extra :: "(string \<times> 'a) list"

definition no_identity :: "'a auth_identity" where
  "no_identity = \<lparr>id_subject_id = 0, id_subject = [], id_subject_type = [], id_tenant = 0, id_username = [], id_role = 0,
     id_roles = [], id_permissions = [], id_method = [], id_provider = [], id_session = [], id_token = [],
     id_expires_at = None, id_extra = []\<rparr>"

definition subject_key :: "'a auth_identity option \<Rightarrow> string" where
  "subject_key i =
     (case i of None \<Rightarrow> []
      | Some i \<Rightarrow>
          (let v = trim_space (id_subject i) in
           if v \<noteq> [] then v else if id_subject_id i > 0 then int_text (id_subject_id i) else []))"

definition authenticated :: "'a auth_identity option \<Rightarrow> bool" where
  "authenticated i \<longleftrightarrow> i \<noteq> None \<and> subject_key i \<noteq> []"

definition has_permission :: "'a auth_identity option \<Rightarrow> string \<Rightarrow> bool" where
  "has_permission i p =
     (case i of None \<Rightarrow> False | Some i \<Rightarrow> if p = [] then False else list_ex (\<lambda>x. x = p) (id_permissions i))"

text \<open>The value that a request context holds under the key of the identity.\<close>

datatype 'a context_value = IdentityValue "'a auth_identity option" | OtherValue

definition current_identity_of :: "(string \<rightharpoonup> 'a context_value) option \<Rightarrow> 'a auth_identity option" where
  "current_identity_of c =
     (case c of None \<Rightarrow> None
      | Some m \<Rightarrow> (case m ''auth.identity'' of Some (IdentityValue i) \<Rightarrow> i | _ \<Rightarrow> None))"

definition context_user_id :: "(string \<rightharpoonup> 'a context_value) option \<Rightarrow> int" where
  "context_user_id c = (case current_identity_of c of None \<Rightarrow> 0 | Some i \<Rightarrow> id_subject_id i)"

definition context_role_id :: "(string \<rightharpoonup> 'a context_value) option \<Rightarrow> int" where
  "context_role_id c = (case current_identity_of c of None \<Rightarrow> 0 | Some i \<Rightarrow> id_role i)"

section \<open>Credentials and extractors (request.go)\<close>

record auth_request =
  aq_authorization :: string
  aq_query :: "string \<Rightarrow> string"
  aq_cookie :: "string \<Rightarrow> string option"

record credential =
  cd_type :: string
  cd_value :: string
  cd_source :: string
  cd_provider :: string

type_synonym extractor = "auth_request option \<Rightarrow> credential option"

definition extractor_func :: "extractor option \<Rightarrow> extractor" where
  "extractor_func f r = (case f of None \<Rightarrow> None | Some g \<Rightarrow> g r)"

fun first_extractor :: "extractor option list \<Rightarrow> extractor" where
  "first_extractor [] r = None"
| "first_extractor (None # xs) r = first_extractor xs r"
| "first_extractor (Some x # xs) r =
     (case x r of
        Some c \<Rightarrow> if trim_space (cd_value c) \<noteq> [] then Some c else first_extractor xs r
      | None \<Rightarrow> first_extractor xs r)"

text \<open>\<^verbatim>\<open>strings.SplitN(s, " ", 2)\<close> when there are two parts.\<close>

fun cut_blank :: "string \<Rightarrow> (string \<times> string) option" where
  "cut_blank [] = None"
| "cut_blank (c # s) = (if c = CHR '' '' then Some ([], s) else map_option (\<lambda>(a, b). (c # a, b)) (cut_blank s))"

definition bearer_token_extractor :: extractor where
  "bearer_token_extractor r =
     (case r of None \<Rightarrow> None
      | Some r \<Rightarrow>
          (case cut_blank (aq_authorization r) of None \<Rightarrow> None
           | Some (scheme, rest) \<Rightarrow>
               if to_lower scheme \<noteq> ''bearer'' then None
               else (let token = trim_space rest in
                     if token = [] then None
                     else Some \<lparr>cd_type = ''bearer'', cd_value = token, cd_source = ''authorization'', cd_provider = []\<rparr>)))"

definition query_token_extractor :: "string \<Rightarrow> extractor" where
  "query_token_extractor name r =
     (case r of None \<Rightarrow> None
      | Some r \<Rightarrow>
          (let name = trim_space name in
           if name = [] then None
           else (let token = trim_space (aq_query r name) in
                 if token = [] then None
                 else Some \<lparr>cd_type = ''query'', cd_value = token, cd_source = name, cd_provider = []\<rparr>)))"

fun cookie_loop :: "string list \<Rightarrow> auth_request \<Rightarrow> credential option" where
  "cookie_loop [] r = None"
| "cookie_loop (n # ns) r =
     (let name = trim_space n in
      if name = [] then cookie_loop ns r
      else (case aq_cookie r name of None \<Rightarrow> cookie_loop ns r
            | Some v \<Rightarrow>
                (let token = trim_space v in
                 if token = [] then cookie_loop ns r
                 else Some \<lparr>cd_type = ''cookie'', cd_value = token, cd_source = name, cd_provider = []\<rparr>)))"

definition cookie_token_extractor :: "string list \<Rightarrow> extractor" where
  "cookie_token_extractor names r = (case r of None \<Rightarrow> None | Some r \<Rightarrow> cookie_loop names r)"

section \<open>What extractors find\<close>

lemma cut_blank_iff: "cut_blank s = Some (a, b) \<longleftrightarrow> s = a @ CHR '' '' # b \<and> CHR '' '' \<notin> set a"
proof (induction s arbitrary: a b)
  case (Cons c s)
  then show ?case by (cases a) auto
qed simp

text \<open>The first credential with a value, of those that the extractors find.\<close>

definition found_credentials :: "extractor option list \<Rightarrow> auth_request option \<Rightarrow> credential list" where
  "found_credentials xs r = List.map_filter (\<lambda>x. case x of None \<Rightarrow> None | Some g \<Rightarrow> g r) xs"

lemma first_extractor_exact:
  "first_extractor xs r = List.find (\<lambda>c. trim_space (cd_value c) \<noteq> []) (found_credentials xs r)"
  by (induction xs r rule: first_extractor.induct)
    (auto simp: found_credentials_def List.map_filter_simps split: option.splits)

text \<open>A bearer token is exactly what follows the scheme, in any case, and one blank, trimmed.\<close>

lemma bearer_token_exact:
  "bearer_token_extractor (Some r) = Some c \<longleftrightarrow>
    (\<exists>scheme rest. aq_authorization r = scheme @ CHR '' '' # rest \<and> CHR '' '' \<notin> set scheme \<and>
      to_lower scheme = ''bearer'' \<and> trim_space rest \<noteq> [] \<and>
      c = \<lparr>cd_type = ''bearer'', cd_value = trim_space rest, cd_source = ''authorization'', cd_provider = []\<rparr>)"
proof (cases "cut_blank (aq_authorization r)")
  case None
  then have "\<not> (aq_authorization r = a @ CHR '' '' # b \<and> CHR '' '' \<notin> set a)" for a b
    using cut_blank_iff [of "aq_authorization r" a b] by simp
  with None show ?thesis by (auto simp: bearer_token_extractor_def)
next
  case (Some ab)
  obtain a b where ab: "ab = (a, b)" by (cases ab)
  have cut: "aq_authorization r = a' @ CHR '' '' # b' \<and> CHR '' '' \<notin> set a' \<longleftrightarrow> a' = a \<and> b' = b" for a' b'
    using cut_blank_iff [of "aq_authorization r" a' b'] Some ab by auto
  have "bearer_token_extractor (Some r) = (if to_lower a \<noteq> ''bearer'' \<or> trim_space b = [] then None
      else Some \<lparr>cd_type = ''bearer'', cd_value = trim_space b, cd_source = ''authorization'', cd_provider = []\<rparr>)"
    by (simp add: bearer_token_extractor_def Some ab Let_def)
  moreover have "(\<exists>scheme rest. aq_authorization r = scheme @ CHR '' '' # rest \<and> CHR '' '' \<notin> set scheme \<and> P scheme rest) \<longleftrightarrow> P a b"
    for P by (simp only: conj_assoc [symmetric] cut) auto
  ultimately show ?thesis by auto
qed

text \<open>The two errors that say unauthorized are different errors, in both directions.\<close>

lemma unauthorized_differ:
  "\<not> auth_is err_app_unauthorized ErrAuthUnauthorized" "\<not> auth_is ErrAuthUnauthorized err_app_unauthorized"
  by (simp_all add: err_app_unauthorized_def new_app_error_def app_error_is_def)

end
