(* ===== verification/Auth_Requests.thy ===== *)
theory Auth_Requests
  imports Auth_Types
begin

text \<open>
  Authentication of requests: \<^verbatim>\<open>core/auth/request_authenticator.go\<close>, \<^verbatim>\<open>jwt.go\<close>, \<^verbatim>\<open>pkg/jwtx\<close> and the
  adapters \<^verbatim>\<open>core/auth/adapter\<close> for gin and for realtime connections.

  The JWT library is a pair of functions that sign claims and parse a token; session readers, mappers and hooks are
  functions over a world.  A hook is given a pointer to the identity and may change it.  \<open>time.Duration\<close> is an
  integer: lifetimes beyond 292 years, which wrap around, are left out.
\<close>

section \<open>Tokens (jwtx.go, jwt.go)\<close>

record 'a subject_claims =
  sc_subject_id :: int
  sc_subject_type :: string
  sc_tenant :: int
  sc_username :: string
  sc_role :: int
  sc_roles :: "string list"
  sc_permissions :: "string list"
  sc_extra :: "(string \<times> 'a) list"
  sc_issuer :: string
  sc_subject :: string
  sc_audience :: "string list"
  sc_expires_at :: "int option"
  sc_issued_at :: "int option"

text \<open>What the options of the parser ask for.\<close>

record jwt_rules =
  jr_audience :: "string option"
  jr_methods :: "string list option"
  jr_issuer :: "string option"
  jr_expiration :: bool

record 'a jwt_library =
  jl_sign :: "string \<Rightarrow> 'a subject_claims \<Rightarrow> auth_error + string"
  jl_parse :: "jwt_rules \<Rightarrow> int \<Rightarrow> string \<Rightarrow> string \<Rightarrow> 'a subject_claims option"

text \<open>\<^verbatim>\<open>jwt.NewNumericDate\<close> keeps whole seconds.\<close>

definition numeric_date :: "int \<Rightarrow> int" where
  "numeric_date t = t div 10 ^ 9 * 10 ^ 9"

definition sign_subject ::
  "'a jwt_library \<Rightarrow> int \<Rightarrow> string \<Rightarrow> string \<Rightarrow> int \<Rightarrow> string list \<Rightarrow> 'a auth_identity \<Rightarrow> auth_error + string" where
  "sign_subject l now secret issuer expire audience i =
     jl_sign l secret \<lparr>sc_subject_id = id_subject_id i, sc_subject_type = id_subject_type i, sc_tenant = id_tenant i,
       sc_username = id_username i, sc_role = id_role i, sc_roles = id_roles i, sc_permissions = id_permissions i,
       sc_extra = id_extra i, sc_issuer = issuer, sc_subject = id_subject i, sc_audience = audience,
       sc_expires_at = Some (numeric_date (now + expire * 10 ^ 9)), sc_issued_at = Some (numeric_date now)\<rparr>"

definition generate_token ::
  "'a jwt_library \<Rightarrow> int \<Rightarrow> string \<Rightarrow> string \<Rightarrow> int \<Rightarrow> string \<Rightarrow> 'a auth_identity \<Rightarrow> auth_error + string" where
  "generate_token l now secret issuer expire audience i =
     sign_subject l now secret issuer expire (if audience \<noteq> [] then [audience] else []) i"

definition parse_token_with_secret ::
  "'a jwt_library \<Rightarrow> jwt_rules \<Rightarrow> int \<Rightarrow> string \<Rightarrow> string \<Rightarrow> auth_error + 'a subject_claims" where
  "parse_token_with_secret l rules now token secret =
     (case jl_parse l rules now secret token of None \<Rightarrow> Inl err_app_unauthorized | Some c \<Rightarrow> Inr c)"

definition identity_from_claims :: "'a subject_claims \<Rightarrow> 'a auth_identity" where
  "identity_from_claims c =
     \<lparr>id_subject_id = sc_subject_id c, id_subject = sc_subject c, id_subject_type = sc_subject_type c,
      id_tenant = sc_tenant c, id_username = sc_username c, id_role = sc_role c, id_roles = sc_roles c,
      id_permissions = sc_permissions c, id_method = [], id_provider = [], id_session = [], id_token = [],
      id_expires_at = sc_expires_at c, id_extra = sc_extra c\<rparr>"

section \<open>The authenticator of tokens (request_authenticator.go)\<close>

type_synonym ('a, 'w) authenticator = "auth_request option \<Rightarrow> 'w \<Rightarrow> (auth_error + 'a auth_identity option) \<times> 'w"

record jwt_config =
  jc_secret :: string
  jc_issuer :: string
  jc_expire :: int

record jwt_authenticator =
  ja_cfg :: jwt_config
  ja_extractor :: "extractor option"
  ja_provider :: string
  ja_audience :: string
  ja_methods :: "string list"
  ja_validate_issuer :: bool
  ja_require_expiration :: bool

definition normalize_jwt_config :: "jwt_config option \<Rightarrow> jwt_config" where
  "normalize_jwt_config c = (case c of None \<Rightarrow> \<lparr>jc_secret = [], jc_issuer = [], jc_expire = 0\<rparr> | Some x \<Rightarrow> x)"

datatype jwt_option =
    WithJWTExtractor "extractor option" | WithJWTProvider string | WithJWTAudience string
  | WithJWTValidMethods "string list" | WithJWTIssuerValidation | WithJWTExpirationRequired

fun apply_jwt_option :: "jwt_option \<Rightarrow> jwt_authenticator \<Rightarrow> jwt_authenticator" where
  "apply_jwt_option (WithJWTExtractor x) a = (if x \<noteq> None then a\<lparr>ja_extractor := x\<rparr> else a)"
| "apply_jwt_option (WithJWTProvider p) a = (if p \<noteq> [] then a\<lparr>ja_provider := p\<rparr> else a)"
| "apply_jwt_option (WithJWTAudience x) a = a\<lparr>ja_audience := trim_space x\<rparr>"
| "apply_jwt_option (WithJWTValidMethods ms) a = a\<lparr>ja_methods := ms\<rparr>"
| "apply_jwt_option WithJWTIssuerValidation a = a\<lparr>ja_validate_issuer := True\<rparr>"
| "apply_jwt_option WithJWTExpirationRequired a = a\<lparr>ja_require_expiration := True\<rparr>"

definition new_jwt_authenticator :: "jwt_config option \<Rightarrow> jwt_option option list \<Rightarrow> jwt_authenticator" where
  "new_jwt_authenticator c opts =
     fold (\<lambda>opt a. case opt of None \<Rightarrow> a | Some x \<Rightarrow> apply_jwt_option x a) opts
       \<lparr>ja_cfg = normalize_jwt_config c, ja_extractor = Some bearer_token_extractor, ja_provider = ''jwt'',
        ja_audience = [], ja_methods = [], ja_validate_issuer = False, ja_require_expiration = False\<rparr>"

definition enrich_identity :: "string \<Rightarrow> string \<Rightarrow> 'a auth_identity \<Rightarrow> 'a auth_identity" where
  "enrich_identity method provider i =
     i\<lparr>id_method := (if id_method i = [] then method else id_method i),
       id_provider := (if id_provider i = [] then provider else id_provider i)\<rparr>"

text \<open>The options that \<^verbatim>\<open>AuthenticateToken\<close> hands to the parser.\<close>

definition jwt_rules_of :: "jwt_authenticator \<Rightarrow> jwt_rules" where
  "jwt_rules_of a =
     \<lparr>jr_audience = (if ja_audience a \<noteq> [] then Some (ja_audience a) else None),
      jr_methods = (if ja_methods a \<noteq> [] then Some (ja_methods a) else None),
      jr_issuer = (if ja_validate_issuer a \<and> trim_space (jc_issuer (ja_cfg a)) \<noteq> [] then Some (jc_issuer (ja_cfg a)) else None),
      jr_expiration = ja_require_expiration a\<rparr>"

definition authenticate_token ::
  "'a jwt_library \<Rightarrow> int \<Rightarrow> jwt_authenticator option \<Rightarrow> string \<Rightarrow> auth_error + 'a auth_identity" where
  "authenticate_token l now a token =
     (case a of None \<Rightarrow> Inl ErrAuthUnauthorized
      | Some a \<Rightarrow>
          bindR (parse_token_with_secret l (jwt_rules_of a) now token (jc_secret (ja_cfg a))) (\<lambda>c.
          Inr (enrich_identity ''jwt'' (ja_provider a) (identity_from_claims c))))"

definition jwt_authenticate ::
  "'a jwt_library \<Rightarrow> int \<Rightarrow> jwt_authenticator option \<Rightarrow> ('a, 'w) authenticator" where
  "jwt_authenticate l now a r w =
     ((case a of None \<Rightarrow> Inl ErrAuthUnauthorized
       | Some x \<Rightarrow>
           (case ja_extractor x of None \<Rightarrow> Inl ErrAuthUnauthorized
            | Some ex \<Rightarrow>
                (case ex r of None \<Rightarrow> Inl ErrAuthUnauthorized
                 | Some c \<Rightarrow> bindR (authenticate_token l now a (cd_value c)) (\<lambda>i. Inr (Some (i\<lparr>id_token := cd_source c\<rparr>)))))), w)"

definition jwt_login ::
  "'a jwt_library \<Rightarrow> int \<Rightarrow> jwt_authenticator option \<Rightarrow> 'a auth_identity option \<Rightarrow> auth_error + string \<times> 'a auth_identity" where
  "jwt_login l now a i =
     (case (a, i) of
        (Some a, Some i) \<Rightarrow>
          bindR (generate_token l now (jc_secret (ja_cfg a)) (jc_issuer (ja_cfg a)) (jc_expire (ja_cfg a)) (ja_audience a) i)
            (\<lambda>t. Inr (t, enrich_identity ''jwt'' (ja_provider a) i))
      | _ \<Rightarrow> Inl ErrAuthUnauthorized)"

section \<open>The authenticator of sessions (request_authenticator.go)\<close>

type_synonym ('a, 'r, 'w) identity_hook = "'a auth_identity \<Rightarrow> 'r \<Rightarrow> 'w \<Rightarrow> auth_error option \<times> 'a auth_identity \<times> 'w"

type_synonym 'w failure_hook = "auth_request option \<Rightarrow> auth_error \<Rightarrow> 'w \<Rightarrow> auth_error option \<times> 'w"

record ('a, 'r, 'w) session_authenticator =
  sa_provider :: string
  sa_key :: string
  sa_reader :: "(auth_request option \<Rightarrow> string \<Rightarrow> 'w \<Rightarrow> (auth_error + 'r option) \<times> 'w) option"
  sa_mapper :: "('r \<Rightarrow> 'w \<Rightarrow> (auth_error + 'a auth_identity option) \<times> 'w) option"
  sa_validator :: "('a, 'r, 'w) identity_hook option"
  sa_validators :: "('a, 'r, 'w) identity_hook option list"
  sa_refresher :: "('a, 'r, 'w) identity_hook option"
  sa_refreshers :: "('a, 'r, 'w) identity_hook option list"
  sa_failure :: "'w failure_hook option"
  sa_failures :: "'w failure_hook option list"

text \<open>The loop of \<^verbatim>\<open>runIdentityHooks\<close>; the first hook is one more.\<close>

fun run_identity_hooks :: "('a, 'r, 'w) identity_hook option list \<Rightarrow> 'a auth_identity \<Rightarrow> 'r \<Rightarrow> 'w \<Rightarrow> auth_error option \<times> 'a auth_identity \<times> 'w" where
  "run_identity_hooks [] i raw w = (None, i, w)"
| "run_identity_hooks (None # hs) i raw w = run_identity_hooks hs i raw w"
| "run_identity_hooks (Some h # hs) i raw w =
     (case h i raw w of
        (Some e, i, w) \<Rightarrow> (Some e, i, w)
      | (None, i, w) \<Rightarrow> run_identity_hooks hs i raw w)"

fun failure_loop :: "'w failure_hook option list \<Rightarrow> auth_request option \<Rightarrow> auth_error \<Rightarrow> 'w \<Rightarrow> auth_error \<times> 'w" where
  "failure_loop [] r e w = (e, w)"
| "failure_loop (None # hs) r e w = failure_loop hs r e w"
| "failure_loop (Some h # hs) r e w =
     (case h r e w of (Some e', w) \<Rightarrow> (e', w) | (None, w) \<Rightarrow> failure_loop hs r e w)"

definition session_fail ::
  "('a, 'r, 'w) session_authenticator option \<Rightarrow> auth_request option \<Rightarrow> auth_error \<Rightarrow> 'w \<Rightarrow> (auth_error + 'a auth_identity option) \<times> 'w" where
  "session_fail a r e w =
     (case a of None \<Rightarrow> (Inl e, w)
      | Some a \<Rightarrow> (let (e, w) = failure_loop (sa_failure a # sa_failures a) r e w in (Inl e, w)))"

definition session_provider :: "('a, 'r, 'w) session_authenticator \<Rightarrow> string" where
  "session_provider a = (if sa_provider a \<noteq> [] then sa_provider a else ''session'')"

definition session_authenticate ::
  "('a, 'r, 'w) session_authenticator option \<Rightarrow> ('a, 'w) authenticator" where
  "session_authenticate a r w =
     (case a of None \<Rightarrow> session_fail a r ErrAuthUnauthorized w
      | Some x \<Rightarrow>
          (case (sa_reader x, sa_mapper x) of
             (Some read, Some mapper) \<Rightarrow>
               if sa_key x = [] then session_fail a r ErrAuthUnauthorized w
               else
                 (case read r (sa_key x) w of
                    (Inl e, w) \<Rightarrow> session_fail a r e w
                  | (Inr None, w) \<Rightarrow> session_fail a r ErrAuthUnauthorized w
                  | (Inr (Some raw), w) \<Rightarrow>
                      (case mapper raw w of
                         (Inl e, w) \<Rightarrow> session_fail a r e w
                       | (Inr m, w) \<Rightarrow>
                           (case m of None \<Rightarrow> session_fail a r ErrAuthUnauthorized w
                            | Some i \<Rightarrow>
                                if \<not> authenticated (Some i) then session_fail a r ErrAuthUnauthorized w
                                else
                                  (case run_identity_hooks (sa_validator x # sa_validators x)
                                          (enrich_identity ''session'' (session_provider x) i) raw w of
                                     (Some e, _, w) \<Rightarrow> session_fail a r e w
                                   | (None, i, w) \<Rightarrow>
                                       (case run_identity_hooks (sa_refresher x # sa_refreshers x) i raw w of
                                          (Some e, _, w) \<Rightarrow> (Inl e, w)
                                        | (None, i, w) \<Rightarrow> (Inr (Some i), w))))))
           | _ \<Rightarrow> session_fail a r ErrAuthUnauthorized w))"

section \<open>Chains and the anonymous authenticator (request_authenticator.go, request.go)\<close>

fun chain_authenticators ::
  "('a, 'w) authenticator option list \<Rightarrow> auth_error option \<Rightarrow> ('a, 'w) authenticator" where
  "chain_authenticators [] last_err r w = (Inl (case last_err of Some e \<Rightarrow> e | None \<Rightarrow> ErrAuthUnauthorized), w)"
| "chain_authenticators (None # as) last_err r w = chain_authenticators as last_err r w"
| "chain_authenticators (Some a # as) last_err r w =
     (case a r w of
        (Inr (Some i), w) \<Rightarrow> (Inr (Some i), w)
      | (Inr None, w) \<Rightarrow> (Inr None, w)
      | (Inl e, w) \<Rightarrow>
          if \<not> auth_is e ErrAuthUnauthorized then (Inl e, w) else chain_authenticators as (Some e) r w)"

definition chain_authenticate :: "('a, 'w) authenticator option list option \<Rightarrow> ('a, 'w) authenticator" where
  "chain_authenticate c r w =
     (case c of None \<Rightarrow> (Inl ErrAuthUnauthorized, w) | Some as \<Rightarrow> chain_authenticators as None r w)"

definition anonymous_authenticate :: "('a, 'w) authenticator" where
  "anonymous_authenticate r w = (Inr (Some (no_identity\<lparr>id_method := ''anonymous'', id_provider := ''anonymous''\<rparr>)), w)"

definition authenticator_func :: "('a, 'w) authenticator option \<Rightarrow> ('a, 'w) authenticator" where
  "authenticator_func f r w = (case f of None \<Rightarrow> (Inl ErrAuthUnauthorized, w) | Some g \<Rightarrow> g r w)"

section \<open>Middleware for gin and realtime connections (adapter/gin, adapter/realtime)\<close>

definition gin_authenticate :: "('a, 'w) authenticator option \<Rightarrow> ('a, 'w) authenticator" where
  "gin_authenticate a r w = (case a of None \<Rightarrow> (Inl ErrAuthUnauthorized, w) | Some g \<Rightarrow> g r w)"

definition set_identity :: "'a auth_identity option \<Rightarrow> (string \<rightharpoonup> 'a context_value) \<Rightarrow> (string \<rightharpoonup> 'a context_value)" where
  "set_identity i c = (case i of None \<Rightarrow> c | Some x \<Rightarrow> c(''auth.identity'' \<mapsto> IdentityValue (Some x)))"

text \<open>
  The values of the request, and whether the responder was called or the next handler.  That the responder ends the
  request is up to it.
\<close>

datatype gin_end = Responded | WentOn

definition required ::
  "('a, 'w) authenticator option \<Rightarrow> auth_request option \<Rightarrow> (string \<rightharpoonup> 'a context_value) \<Rightarrow> 'w \<Rightarrow>
   gin_end \<times> (string \<rightharpoonup> 'a context_value) \<times> 'w" where
  "required a r c w =
     (case gin_authenticate a r w of
        (Inr i, w) \<Rightarrow> if authenticated i then (WentOn, set_identity i c, w) else (Responded, c, w)
      | (Inl _, w) \<Rightarrow> (Responded, c, w))"

definition optional ::
  "('a, 'w) authenticator option \<Rightarrow> auth_request option \<Rightarrow> (string \<rightharpoonup> 'a context_value) \<Rightarrow> 'w \<Rightarrow>
   gin_end \<times> (string \<rightharpoonup> 'a context_value) \<times> 'w" where
  "optional a r c w =
     (case gin_authenticate a r w of
        (Inr i, w) \<Rightarrow> (WentOn, if authenticated i then set_identity i c else c, w)
      | (Inl _, w) \<Rightarrow> (WentOn, c, w))"

definition realtime_subject_key :: "'a auth_identity option \<Rightarrow> string" where
  "realtime_subject_key i =
     (case i of None \<Rightarrow> []
      | Some x \<Rightarrow>
          (let s = trim_space (subject_key i); ty = trim_space (id_subject_type x) in
           if s = [] then [] else if ty = [] then s else ty @ '':'' @ s))"

text \<open>The user and the tenant of a connection, or that it is refused.\<close>

definition realtime_authenticate ::
  "('a, 'w) authenticator option \<Rightarrow> auth_request option \<Rightarrow> 'w \<Rightarrow> (string \<times> int) option \<times> 'w" where
  "realtime_authenticate a r w =
     (case a of None \<Rightarrow> (None, w)
      | Some g \<Rightarrow>
          (case g r w of
             (Inl _, w) \<Rightarrow> (None, w)
           | (Inr i, w) \<Rightarrow>
               (Some (if authenticated i then (realtime_subject_key i, (case i of Some x \<Rightarrow> id_tenant x | None \<Rightarrow> 0))
                      else ([], 0)), w)))"

end
