(* ===== verification/Auth_Verdicts.thy ===== *)
theory Auth_Verdicts
  imports Auth_Requests
begin

text \<open>
  Who is let in: what a chain of authenticators answers, what a session has to pass, and that the token of a login is
  recognised as its identity.
\<close>

section \<open>Chains\<close>

text \<open>
  Authenticators that all refuse with the error that means unauthorized; the world after them.
\<close>

fun all_refuse :: "('a, 'w) authenticator option list \<Rightarrow> auth_request option \<Rightarrow> 'w \<Rightarrow> 'w option" where
  "all_refuse [] r w = Some w"
| "all_refuse (None # as) r w = all_refuse as r w"
| "all_refuse (Some a # as) r w =
     (case a r w of (Inl e, w) \<Rightarrow> if auth_is e ErrAuthUnauthorized then all_refuse as r w else None | (Inr _, w) \<Rightarrow> None)"

lemma chain_authenticators_Inr:
  "chain_authenticators as last_err r w = (Inr x, w') \<longleftrightarrow>
    (\<exists>ys a zs w1. as = ys @ Some a # zs \<and> all_refuse ys r w = Some w1 \<and> a r w1 = (Inr x, w'))"
proof (induction as last_err r w rule: chain_authenticators.induct)
  case (1 last_err r w)
  then show ?case by simp
next
  case (2 as last_err r w)
  have "(\<exists>ys a zs w1. None # as = ys @ Some a # zs \<and> P ys a w1) \<longleftrightarrow> (\<exists>ys a zs w1. as = ys @ Some a # zs \<and> P (None # ys) a w1)"
    for P :: "('a, 'b) authenticator option list \<Rightarrow> ('a, 'b) authenticator \<Rightarrow> 'b \<Rightarrow> bool"
    by (auto simp: Cons_eq_append_conv)
  with 2 show ?case by simp
next
  case (3 a as last_err r w)
  have cons: "(\<exists>ys b zs w1. Some a # as = ys @ Some b # zs \<and> P ys b w1) \<longleftrightarrow>
      (\<exists>w1. P [] a w1) \<or> (\<exists>ys b zs w1. as = ys @ Some b # zs \<and> P (Some a # ys) b w1)"
    for P :: "('a, 'b) authenticator option list \<Rightarrow> ('a, 'b) authenticator \<Rightarrow> 'b \<Rightarrow> bool"
    by (auto simp: Cons_eq_append_conv)
  obtain o1 w1 where run: "a r w = (o1, w1)" by (metis surj_pair)
  show ?case
  proof (cases o1)
    case (Inr m)
    with run show ?thesis unfolding cons by (cases m) auto
  next
    case (Inl e)
    with run 3 [OF run [symmetric] Inl] show ?thesis unfolding cons by (cases "auth_is e ErrAuthUnauthorized") auto
  qed
qed

text \<open>
  The middleware for required authentication lets a request through if and only if an authenticator of the chain
  gives an authenticated identity after all before it have answered that the request is unauthorized; that identity
  is the current one of the request.  Any other answer of an earlier one ends in a refusal.
\<close>

theorem required_admits_exactly:
  "(\<exists>c' w'. required (Some (chain_authenticate (Some as))) r c w = (WentOn, c', w') \<and> current_identity_of (Some c') = Some i) \<longleftrightarrow>
    (\<exists>ys a zs w1 w'. as = ys @ Some a # zs \<and> all_refuse ys r w = Some w1 \<and> a r w1 = (Inr (Some i), w') \<and> authenticated (Some i))"
proof -
  obtain x w2 where run: "chain_authenticators as None r w = (x, w2)" by (metis surj_pair)
  have key: "(\<exists>ys a zs w1 w'. as = ys @ Some a # zs \<and> all_refuse ys r w = Some w1 \<and> a r w1 = (Inr (Some i), w') \<and> Q) \<longleftrightarrow>
      x = Inr (Some i) \<and> Q" for Q
  proof -
    have "x = Inr (Some i) \<longleftrightarrow> (\<exists>w'. chain_authenticators as None r w = (Inr (Some i), w'))" by (simp add: run)
    then show ?thesis unfolding chain_authenticators_Inr by blast
  qed
  have req: "required (Some (chain_authenticate (Some as))) r c w =
      (case x of Inr j \<Rightarrow> if authenticated j then (WentOn, set_identity j c, w2) else (Responded, c, w2)
       | Inl _ \<Rightarrow> (Responded, c, w2))"
    by (simp add: required_def gin_authenticate_def chain_authenticate_def run)
  have now: "authenticated j \<Longrightarrow> current_identity_of (Some (set_identity j c)) = j" for j
    by (cases j) (simp_all add: authenticated_def set_identity_def current_identity_of_def)
  show ?thesis unfolding key req
    by (cases x) (auto simp: now split: if_splits)
qed

text \<open>
  A token that the library rejects is refused with another error of the same meaning, so a chain ends there and does
  not ask the authenticators behind.
\<close>

lemma rejected_token_ends_chain:
  assumes "ja_extractor a = Some ex" "ex r = Some c"
    "jl_parse l (jwt_rules_of a) now (jc_secret (ja_cfg a)) (cd_value c) = None"
  shows "chain_authenticate (Some (Some (jwt_authenticate l now (Some a)) # as)) r w = (Inl err_app_unauthorized, w)"
  using assms unauthorized_differ(1)
  by (simp add: chain_authenticate_def jwt_authenticate_def authenticate_token_def parse_token_with_secret_def)

text \<open>An authenticator that finds nobody and no error ends the chain with neither.\<close>

lemma silent_authenticator_ends_chain:
  "chain_authenticate (Some (Some (\<lambda>r w. (Inr None, w)) # as)) r w = (Inr None, w)"
  by (simp add: chain_authenticate_def)

section \<open>Sessions\<close>

lemma session_fail_not_Inr [simp]: "session_fail a r e w \<noteq> (Inr x, w')"
  by (auto simp: session_fail_def split: option.splits prod.splits)

text \<open>
  An identity from a session: the reader found a value under the configured key, it maps to an identity with a
  subject, and it passed the validators and then the refreshers, in order, none of which returned an error.
\<close>

theorem session_identity_is_checked:
  assumes "session_authenticate (Some x) r w = (Inr m, w')"
  obtains read mapper raw i0 i1 i w1 w2 w3 where
    "sa_reader x = Some read" "sa_mapper x = Some mapper" "sa_key x \<noteq> []"
    "read r (sa_key x) w = (Inr (Some raw), w1)" "mapper raw w1 = (Inr (Some i0), w2)" "authenticated (Some i0)"
    "run_identity_hooks (sa_validator x # sa_validators x) (enrich_identity ''session'' (session_provider x) i0) raw w2 = (None, i1, w3)"
    "run_identity_hooks (sa_refresher x # sa_refreshers x) i1 raw w3 = (None, i, w')" "m = Some i"
  using assms unfolding session_authenticate_def
  by (simp split: option.splits if_splits prod.splits sum.splits)

section \<open>Tokens\<close>

text \<open>What the library asks of claims under given rules, and what becomes of them on the way through JSON.\<close>

definition accepted_claims :: "jwt_rules \<Rightarrow> int \<Rightarrow> 'a subject_claims \<Rightarrow> bool" where
  "accepted_claims u now c \<longleftrightarrow>
     (case jr_methods u of None \<Rightarrow> True | Some ms \<Rightarrow> ''HS256'' \<in> set ms) \<and>
     (case jr_audience u of None \<Rightarrow> True | Some x \<Rightarrow> x \<in> set (sc_audience c)) \<and>
     (case jr_issuer u of None \<Rightarrow> True | Some x \<Rightarrow> sc_issuer c = x) \<and>
     (case sc_expires_at c of None \<Rightarrow> \<not> jr_expiration u | Some e \<Rightarrow> now < e)"

definition through_json :: "('a \<Rightarrow> 'a) \<Rightarrow> 'a subject_claims \<Rightarrow> 'a subject_claims" where
  "through_json js c = c\<lparr>sc_extra := map (\<lambda>(k, v). (k, js v)) (sc_extra c)\<rparr>"

text \<open>The claims that a login signs.\<close>

definition login_claims :: "jwt_authenticator \<Rightarrow> int \<Rightarrow> 'a auth_identity \<Rightarrow> 'a subject_claims" where
  "login_claims a now i =
     \<lparr>sc_subject_id = id_subject_id i, sc_subject_type = id_subject_type i, sc_tenant = id_tenant i,
      sc_username = id_username i, sc_role = id_role i, sc_roles = id_roles i, sc_permissions = id_permissions i,
      sc_extra = id_extra i, sc_issuer = jc_issuer (ja_cfg a), sc_subject = id_subject i,
      sc_audience = (if ja_audience a \<noteq> [] then [ja_audience a] else []),
      sc_expires_at = Some (numeric_date (now + jc_expire (ja_cfg a) * 10 ^ 9)), sc_issued_at = Some (numeric_date now)\<rparr>"

text \<open>
  A token that a login made is recognised until the second of its expiry, by the authenticator that made it,
  as the identity that logged in: all its fields are there, except the ones that say how it was authenticated.
  The library is assumed to parse what it signed, as long as the rules accept the claims.
\<close>

theorem login_is_recognised:
  assumes "jwt_login l now (Some a) (Some i) = Inr (t, i')"
    and library: "\<And>u later c t. jl_sign l (jc_secret (ja_cfg a)) c = Inr t \<Longrightarrow> accepted_claims u later c \<Longrightarrow>
      jl_parse l u later (jc_secret (ja_cfg a)) t = Some (through_json js c)"
    and methods: "ja_methods a = [] \<or> ''HS256'' \<in> set (ja_methods a)"
    and later: "later < numeric_date (now + jc_expire (ja_cfg a) * 10 ^ 9)"
  shows "authenticate_token l later (Some a) t =
    Inr (i\<lparr>id_method := ''jwt'', id_provider := ja_provider a, id_session := [], id_token := [],
      id_expires_at := Some (numeric_date (now + jc_expire (ja_cfg a) * 10 ^ 9)),
      id_extra := map (\<lambda>(k, v). (k, js v)) (id_extra i)\<rparr>)"
proof -
  have signed: "jl_sign l (jc_secret (ja_cfg a)) (login_claims a now i) = Inr t"
    using assms(1) by (auto simp: jwt_login_def generate_token_def sign_subject_def login_claims_def bindR_Inr_iff)
  have "accepted_claims (jwt_rules_of a) later (login_claims a now i)"
    using methods later by (auto simp: accepted_claims_def jwt_rules_of_def login_claims_def)
  from library [OF signed this] show ?thesis
    by (simp add: authenticate_token_def parse_token_with_secret_def through_json_def login_claims_def
        identity_from_claims_def enrich_identity_def)
qed

text \<open>A library that knows the token of one login.\<close>

definition plain_claims :: "unit subject_claims" where
  "plain_claims = \<lparr>sc_subject_id = 7, sc_subject_type = ''user'', sc_tenant = 1, sc_username = ''ann'', sc_role = 2,
     sc_roles = [''admin''], sc_permissions = [''read''], sc_extra = [], sc_issuer = ''sdkit'', sc_subject = [],
     sc_audience = [], sc_expires_at = Some (61 * 10 ^ 9), sc_issued_at = Some (10 ^ 9)\<rparr>"

definition plain_library :: "unit jwt_library" where
  "plain_library = \<lparr>jl_sign = (\<lambda>s c. if c = plain_claims then Inr ''token'' else Inl (AuthText ''unknown'' None)),
     jl_parse = (\<lambda>u now s t. if t = ''token'' \<and> accepted_claims u now plain_claims then Some plain_claims else None)\<rparr>"

definition plain_jwt :: jwt_authenticator where
  "plain_jwt = new_jwt_authenticator (Some \<lparr>jc_secret = ''s'', jc_issuer = ''sdkit'', jc_expire = 60\<rparr>)
     [Some WithJWTIssuerValidation, Some (WithJWTValidMethods [''HS256''])]"

definition plain_identity :: "unit auth_identity" where
  "plain_identity = no_identity\<lparr>id_subject_id := 7, id_subject_type := ''user'', id_tenant := 1, id_username := ''ann'',
     id_role := 2, id_roles := [''admin''], id_permissions := [''read'']\<rparr>"

lemmas plain_token_defs = plain_library_def plain_jwt_def plain_identity_def plain_claims_def no_identity_def
  new_jwt_authenticator_def normalize_jwt_config_def

theorem login_is_recognised_witness:
  "jwt_login plain_library 1500000000 (Some plain_jwt) (Some plain_identity) =
     Inr (''token'', plain_identity\<lparr>id_method := ''jwt'', id_provider := ''jwt''\<rparr>) \<and>
   authenticate_token plain_library 60000000000 (Some plain_jwt) ''token'' =
     Inr (plain_identity\<lparr>id_method := ''jwt'', id_provider := ''jwt'', id_expires_at := Some 61000000000\<rparr>)"
proof
  show login: "jwt_login plain_library 1500000000 (Some plain_jwt) (Some plain_identity) =
     Inr (''token'', plain_identity\<lparr>id_method := ''jwt'', id_provider := ''jwt''\<rparr>)"
    by (simp add: jwt_login_def generate_token_def sign_subject_def enrich_identity_def plain_token_defs numeric_date_def)
  have library: "jl_parse plain_library u later (jc_secret (ja_cfg plain_jwt)) t = Some (through_json id c)"
    if "jl_sign plain_library (jc_secret (ja_cfg plain_jwt)) c = Inr t" "accepted_claims u later c" for u later c t
    using that by (auto simp: plain_library_def plain_claims_def through_json_def split: if_splits)
  have "authenticate_token plain_library 60000000000 (Some plain_jwt) ''token'' =
    Inr (plain_identity\<lparr>id_method := ''jwt'', id_provider := ja_provider plain_jwt, id_session := [], id_token := [],
      id_expires_at := Some (numeric_date (1500000000 + jc_expire (ja_cfg plain_jwt) * 10 ^ 9)),
      id_extra := map (\<lambda>(k, v). (k, id v)) (id_extra plain_identity)\<rparr>)"
    by (rule login_is_recognised [OF login library]) (simp_all add: plain_jwt_def new_jwt_authenticator_def normalize_jwt_config_def numeric_date_def)
  then show "authenticate_token plain_library 60000000000 (Some plain_jwt) ''token'' =
     Inr (plain_identity\<lparr>id_method := ''jwt'', id_provider := ''jwt'', id_expires_at := Some 61000000000\<rparr>)"
    by (simp add: plain_jwt_def plain_identity_def no_identity_def new_jwt_authenticator_def normalize_jwt_config_def numeric_date_def)
qed

end
