(* ===== verification/Delivery.thy ===== *)
theory Delivery
  imports Prelude
begin

text \<open>
  What the managers of mail and of text messages share (\<^verbatim>\<open>core/email\<close>, \<^verbatim>\<open>core/sms\<close>): their errors, the cleaning of a
  route, the registry of drivers, and the loop that tries the providers of a route one after another.  The two
  packages have the same code for it twice.
\<close>

section \<open>Errors and results (errors.go, pkg/email/types.go, pkg/sms/types.go)\<close>

datatype delivery_error =
    ErrNotConfigured | ErrDefaultRequired | ErrProviderNotFound string | ErrMessageRequired | ErrDriverRequired
  | ErrUnknownDriver | ErrProviderFailed string | ErrRateLimited | ErrTemplateRendererRequired
  | ErrTemplateFSRequired | ErrTemplateNotFound | ErrAttachmentInvalid | DeliveryText string
  | NoProviderAvailable "(string \<times> delivery_error option) list"

text \<open>\<^verbatim>\<open>NoProviderAvailableError.LastError\<close>: the loop over the attempts from the last.\<close>

fun last_error :: "(string \<times> delivery_error option) list \<Rightarrow> delivery_error option" where
  "last_error [] = None"
| "last_error (a # as) = (case last_error as of Some e \<Rightarrow> Some e | None \<Rightarrow> snd a)"

record 'r attempt_result =
  at_provider :: string
  at_success :: bool
  at_result :: "'r option"
  at_error :: "delivery_error option"

record 'r send_result =
  sr_provider :: string
  sr_result :: "'r option"
  sr_error :: "delivery_error option"
  sr_attempts :: "'r attempt_result list"

section \<open>Routes (config.go)\<close>

fun clean_loop :: "string set \<Rightarrow> string list \<Rightarrow> string list" where
  "clean_loop seen [] = []"
| "clean_loop seen (n # ns) =
     (let n = trim_space n in
      if n = [] then clean_loop seen ns
      else if n \<in> seen then clean_loop seen ns
      else n # clean_loop (insert n seen) ns)"

definition clean_provider_names :: "string list \<Rightarrow> string list" where
  "clean_provider_names ns = clean_loop {} ns"

section \<open>Drivers (pkg/email/registry.go, pkg/sms/registry.go)\<close>

type_synonym ('c, 'p, 'w) delivery_factory = "string \<Rightarrow> 'c \<Rightarrow> 'w \<Rightarrow> (delivery_error + 'p) \<times> 'w"

definition register_delivery_driver ::
  "string \<Rightarrow> ('c, 'p, 'w) delivery_factory option \<Rightarrow> (string \<rightharpoonup> ('c, 'p, 'w) delivery_factory) \<Rightarrow> (string \<rightharpoonup> ('c, 'p, 'w) delivery_factory)" where
  "register_delivery_driver d f m =
     (let d = trim_space d in if d = [] \<or> f = None then m else m(d := f))"

definition new_provider ::
  "(string \<rightharpoonup> ('c, 'p, 'w) delivery_factory) \<Rightarrow> ('c \<Rightarrow> string) \<Rightarrow> string \<Rightarrow> 'c \<Rightarrow> 'w \<Rightarrow> (delivery_error + 'p) \<times> 'w" where
  "new_provider drivers driver_of name cfg w =
     (let d = trim_space (driver_of cfg) in
      if d = [] then (Inl ErrDriverRequired, w)
      else (case drivers d of None \<Rightarrow> (Inl ErrUnknownDriver, w) | Some f \<Rightarrow> f name cfg w))"

text \<open>
  \<^verbatim>\<open>Manager.Use\<close>: a provider is made once and kept under its name.  Its two critical sections are one step:
  between them another call may only have made the same provider.
\<close>

definition use_provider ::
  "(string \<rightharpoonup> ('c, 'p, 'w) delivery_factory) \<Rightarrow> ('c \<Rightarrow> string) \<Rightarrow> string \<Rightarrow> (string \<rightharpoonup> 'c) \<Rightarrow> string \<Rightarrow>
   (string \<rightharpoonup> 'p) \<times> 'w \<Rightarrow> (delivery_error + 'p) \<times> (string \<rightharpoonup> 'p) \<times> 'w" where
  "use_provider drivers driver_of dflt configs name s =
     (let name = (if trim_space name = [] then dflt else trim_space name); (made, w) = s in
      case made name of Some p \<Rightarrow> (Inr p, s)
      | None \<Rightarrow>
          (case configs name of None \<Rightarrow> (Inl (ErrProviderNotFound name), s)
           | Some cfg \<Rightarrow>
               (case new_provider drivers driver_of name cfg w of
                  (Inl e, w) \<Rightarrow> (Inl e, made, w)
                | (Inr p, w) \<Rightarrow> (Inr p, made(name \<mapsto> p), w))))"

definition manager_config :: "string \<Rightarrow> (string \<rightharpoonup> 'c) \<Rightarrow> string \<Rightarrow> delivery_error + 'c" where
  "manager_config dflt configs name =
     (let name = (if trim_space name = [] then dflt else trim_space name) in
      case configs name of None \<Rightarrow> Inl (ErrProviderNotFound name) | Some c \<Rightarrow> Inr c)"

text \<open>\<^verbatim>\<open>Manager.Close\<close>, in the order in which the map is walked: all providers are closed, the first error is kept.\<close>

fun close_providers :: "('p \<Rightarrow> 'w \<Rightarrow> delivery_error option \<times> 'w) \<Rightarrow> 'p list \<Rightarrow> delivery_error option \<Rightarrow> 'w \<Rightarrow> delivery_error option \<times> 'w" where
  "close_providers close [] e w = (e, w)"
| "close_providers close (p # ps) e w =
     (case close p w of (e', w) \<Rightarrow> close_providers close ps (if e' \<noteq> None \<and> e = None then e' else e) w)"

section \<open>The loop over the providers (manager.go)\<close>

text \<open>
  \<open>f\<close> is the body of the loop of \<^verbatim>\<open>sendDirect\<close> up to the result and the error of an attempt.
\<close>

fun deliver ::
  "(string \<Rightarrow> 's \<Rightarrow> 'r option \<times> delivery_error option \<times> 's) \<Rightarrow> string list \<Rightarrow> 'r attempt_result list \<Rightarrow> 's \<Rightarrow>
   ('r send_result option \<times> delivery_error option) \<times> 's" where
  "deliver f [] attempts s =
     (let e = NoProviderAvailable (map (\<lambda>a. (at_provider a, at_error a)) attempts) in
      ((Some \<lparr>sr_provider = [], sr_result = None, sr_error = Some e, sr_attempts = attempts\<rparr>, Some e), s))"
| "deliver f (n # ns) attempts s =
     (case f n s of
        (res, None, s) \<Rightarrow>
          ((Some \<lparr>sr_provider = n, sr_result = res, sr_error = None,
             sr_attempts = attempts @ [\<lparr>at_provider = n, at_success = True, at_result = res, at_error = None\<rparr>]\<rparr>, None), s)
      | (res, Some e, s) \<Rightarrow>
          deliver f ns (attempts @ [\<lparr>at_provider = n, at_success = False, at_result = res, at_error = Some e\<rparr>]) s)"

section \<open>What cleaning and trying do\<close>

lemma clean_loop_props:
  "distinct (clean_loop seen ns) \<and> set (clean_loop seen ns) = {n \<in> trim_space ` set ns. n \<noteq> []} - seen"
  by (induction seen ns rule: clean_loop.induct) (auto simp: Let_def)

lemma clean_names_distinct: "distinct (clean_provider_names ns)"
  and clean_names_set: "set (clean_provider_names ns) = {n \<in> trim_space ` set ns. n \<noteq> []}"
  using clean_loop_props [of "{}" ns] by (simp_all add: clean_provider_names_def)

lemma clean_names_again: "\<lbrakk>distinct ns; \<forall>n \<in> set ns. n \<noteq> [] \<and> trim_space n = n\<rbrakk> \<Longrightarrow> clean_provider_names ns = ns"
proof -
  have "distinct ns \<Longrightarrow> set ns \<inter> seen = {} \<Longrightarrow> \<forall>n \<in> set ns. n \<noteq> [] \<and> trim_space n = n \<Longrightarrow> clean_loop seen ns = ns" for seen
    by (induction ns arbitrary: seen) auto
  then show "\<lbrakk>distinct ns; \<forall>n \<in> set ns. n \<noteq> [] \<and> trim_space n = n\<rbrakk> \<Longrightarrow> clean_provider_names ns = ns"
    by (simp add: clean_provider_names_def)
qed

lemma clean_names_idem [simp]: "clean_provider_names (clean_provider_names ns) = clean_provider_names ns"
  by (rule clean_names_again) (auto simp: clean_names_distinct clean_names_set)

text \<open>Attempts that all fail: what is written of them, and the state they leave.\<close>

fun all_fail ::
  "(string \<Rightarrow> 's \<Rightarrow> 'r option \<times> delivery_error option \<times> 's) \<Rightarrow> string list \<Rightarrow> 's \<Rightarrow> ('r attempt_result list \<times> 's) option" where
  "all_fail f [] s = Some ([], s)"
| "all_fail f (n # ns) s =
     (case f n s of
        (res, None, s) \<Rightarrow> None
      | (res, Some e, s) \<Rightarrow>
          map_option (\<lambda>(as, s). (\<lparr>at_provider = n, at_success = False, at_result = res, at_error = Some e\<rparr> # as, s)) (all_fail f ns s))"

lemma deliver_cases:
  "(\<exists>as s1. all_fail f ns s = Some (as, s1) \<and>
      deliver f ns acc s = (let e = NoProviderAvailable (map (\<lambda>a. (at_provider a, at_error a)) (acc @ as)) in
        ((Some \<lparr>sr_provider = [], sr_result = None, sr_error = Some e, sr_attempts = acc @ as\<rparr>, Some e), s1))) \<or>
   (\<exists>ys n zs as s1 res s2. ns = ys @ n # zs \<and> all_fail f ys s = Some (as, s1) \<and> f n s1 = (res, None, s2) \<and>
      deliver f ns acc s = ((Some \<lparr>sr_provider = n, sr_result = res, sr_error = None,
        sr_attempts = acc @ as @ [\<lparr>at_provider = n, at_success = True, at_result = res, at_error = None\<rparr>]\<rparr>, None), s2))"
proof (induction f ns acc s rule: deliver.induct)
  case (1 f acc s)
  then show ?case by simp
next
  case (2 f n ns acc s)
  obtain res e s1 where run: "f n s = (res, e, s1)" by (metis prod_cases3)
  show ?case
  proof (cases e)
    case None
    with run show ?thesis by (intro disjI2 exI [of _ "[]"] exI [of _ n] exI [of _ ns]) simp
  next
    case (Some x)
    let ?a = "\<lparr>at_provider = n, at_success = False, at_result = res, at_error = Some x\<rparr>"
    have step: "deliver f (n # ns) acc s = deliver f ns (acc @ [?a]) s1" by (simp add: run Some)
    have fail: "all_fail f (n # ys) s = map_option (\<lambda>(as, s). (?a # as, s)) (all_fail f ys s1)" for ys
      by (simp add: run Some)
    from 2 [OF run [symmetric] refl Some]
    show ?thesis
    proof
      assume "\<exists>as s2. all_fail f ns s1 = Some (as, s2) \<and>
        deliver f ns (acc @ [?a]) s1 = (let e = NoProviderAvailable (map (\<lambda>a. (at_provider a, at_error a)) ((acc @ [?a]) @ as)) in
        ((Some \<lparr>sr_provider = [], sr_result = None, sr_error = Some e, sr_attempts = (acc @ [?a]) @ as\<rparr>, Some e), s2))"
      then obtain as s2 where "all_fail f ns s1 = Some (as, s2)"
        "deliver f ns (acc @ [?a]) s1 = (let e = NoProviderAvailable (map (\<lambda>a. (at_provider a, at_error a)) ((acc @ [?a]) @ as)) in
        ((Some \<lparr>sr_provider = [], sr_result = None, sr_error = Some e, sr_attempts = (acc @ [?a]) @ as\<rparr>, Some e), s2))" by blast
      then show ?thesis unfolding fail step by (intro disjI1 exI [of _ "?a # as"] exI [of _ s2]) simp
    next
      assume "\<exists>ys m zs as s2 res' s3. ns = ys @ m # zs \<and> all_fail f ys s1 = Some (as, s2) \<and> f m s2 = (res', None, s3) \<and>
        deliver f ns (acc @ [?a]) s1 = ((Some \<lparr>sr_provider = m, sr_result = res', sr_error = None,
        sr_attempts = (acc @ [?a]) @ as @ [\<lparr>at_provider = m, at_success = True, at_result = res', at_error = None\<rparr>]\<rparr>, None), s3)"
      then obtain ys m zs as s2 res' s3 where "ns = ys @ m # zs" "all_fail f ys s1 = Some (as, s2)" "f m s2 = (res', None, s3)"
        "deliver f ns (acc @ [?a]) s1 = ((Some \<lparr>sr_provider = m, sr_result = res', sr_error = None,
        sr_attempts = (acc @ [?a]) @ as @ [\<lparr>at_provider = m, at_success = True, at_result = res', at_error = None\<rparr>]\<rparr>, None), s3)" by blast
      note found = this
      show ?thesis
        by (rule disjI2, rule exI [of _ "n # ys"], rule exI [of _ m], rule exI [of _ zs], rule exI [of _ "?a # as"],
            rule exI [of _ s2], rule exI [of _ res'], rule exI [of _ s3])
          (simp add: found(1-3) found(4) [unfolded found(1)] fail step [unfolded found(1)] del: append_assoc all_fail.simps deliver.simps)
    qed
  qed
qed

end
