(* ===== verification/Sms_Manager.thy ===== *)
theory Sms_Manager
  imports Delivery
begin

text \<open>
  Sending text messages: payloads and messages (\<^verbatim>\<open>pkg/sms/types.go\<close>) and the manager with its default provider,
  the providers a message asks for, its middleware and the one that limits rates (\<^verbatim>\<open>core/sms\<close>).  Parameters of
  templates have values of a type \<open>'v\<close>.  A nil message panics in \<^verbatim>\<open>sendDirect\<close> and is left out.
\<close>

section \<open>Payloads and messages (pkg/sms/types.go)\<close>

record sms_config =
  xc_driver :: string
  xc_account :: string
  xc_password :: string
  xc_app_key :: string
  xc_app_secret :: string
  xc_access_key_id :: string
  xc_access_key_secret :: string
  xc_region_id :: string
  xc_sign_id :: string
  xc_sign_name :: string
  xc_sender :: string
  xc_messaging_service :: string
  xc_sdk_app_id :: string
  xc_endpoint :: string
  xc_timeout :: int
  xc_name :: string

definition sms_access_key :: "sms_config \<Rightarrow> string" where
  "sms_access_key c = (if xc_access_key_id c \<noteq> [] then xc_access_key_id c else xc_app_key c)"

definition sms_secret_key :: "sms_config \<Rightarrow> string" where
  "sms_secret_key c = (if xc_access_key_secret c \<noteq> [] then xc_access_key_secret c else xc_app_secret c)"

definition sms_region :: "sms_config \<Rightarrow> string" where
  "sms_region c = (if xc_region_id c \<noteq> [] then xc_region_id c else ''cn-hangzhou'')"

record 'v sms_payload =
  sy_content :: string
  sy_template :: string
  sy_data :: "(string \<times> 'v) list"

text \<open>\<^verbatim>\<open>DataMap\<close>: of two parameters with a key the later wins.\<close>

definition sms_data_map :: "'v sms_payload \<Rightarrow> (string \<rightharpoonup> 'v)" where
  "sms_data_map p = fold (\<lambda>(k, v) m. m(k \<mapsto> v)) (sy_data p) Map.empty"

definition sms_data_values :: "'v sms_payload \<Rightarrow> 'v list" where
  "sms_data_values p = map snd (sy_data p)"

definition resolve_sms_payload :: "string \<Rightarrow> (string \<rightharpoonup> 'v sms_payload) \<Rightarrow> delivery_error + 'v sms_payload" where
  "resolve_sms_payload provider ps =
     (let provider = trim_space provider in
      case ps provider of None \<Rightarrow> Inl (DeliveryText (''sms: unsupported provider: '' @ provider)) | Some p \<Rightarrow> Inr p)"

text \<open>A message: how it resolves for a provider, and the providers it asks for, if it does.\<close>

record 'v sms_message =
  sx_resolve :: "sms_config \<Rightarrow> delivery_error + 'v sms_payload"
  sx_providers :: "string list option"

definition sms_template_message :: "string \<Rightarrow> string \<Rightarrow> (string \<times> 'v) list \<Rightarrow> string list \<Rightarrow> 'v sms_message" where
  "sms_template_message content tpl d names =
     \<lparr>sx_resolve = (\<lambda>_. Inr \<lparr>sy_content = content, sy_template = tpl, sy_data = d\<rparr>),
      sx_providers = Some (clean_provider_names names)\<rparr>"

record sms_result =
  sz_provider :: string
  sz_success :: bool
  sz_code :: string
  sz_message :: string
  sz_message_no :: string

record 'v sms_provider_request =
  sv_to :: "string list"
  sv_message :: "'v sms_message"
  sv_payload :: "'v sms_payload"
  sv_provider :: sms_config

record ('v, 'w) sms_provider =
  sw_send :: "'v sms_provider_request \<Rightarrow> 'w \<Rightarrow> sms_result option \<times> delivery_error option \<times> 'w"
  sw_close :: "'w \<Rightarrow> delivery_error option \<times> 'w"

section \<open>The manager (config.go, manager.go)\<close>

record 'v sms_request =
  sq_to :: "string list"
  sq_message :: "'v sms_message"
  sq_providers :: "string list"

type_synonym ('v, 'w) sms_state = "(string \<rightharpoonup> ('v, 'w) sms_provider) \<times> 'w"

type_synonym ('v, 'w) sms_sender =
  "'v sms_request \<Rightarrow> ('v, 'w) sms_state \<Rightarrow> (sms_result send_result option \<times> delivery_error option) \<times> ('v, 'w) sms_state"

record ('v, 'w) sms_manager =
  sm_default :: string
  sm_configs :: "string \<rightharpoonup> sms_config"
  sm_middleware :: "(('v, 'w) sms_sender \<Rightarrow> ('v, 'w) sms_sender) list"

text \<open>The configurations get the names under which they stand.\<close>

definition sms_configs :: "(string \<times> sms_config) list \<Rightarrow> (string \<rightharpoonup> sms_config)" where
  "sms_configs ps = map_of (map (\<lambda>(n, c). (n, c\<lparr>xc_name := n\<rparr>)) ps)"

definition use_sms_middleware ::
  "(('v, 'w) sms_sender \<Rightarrow> ('v, 'w) sms_sender) option list \<Rightarrow> ('v, 'w) sms_manager \<Rightarrow> ('v, 'w) sms_manager" where
  "use_sms_middleware ms m = m\<lparr>sm_middleware := sm_middleware m @ List.map_filter id ms\<rparr>"

definition new_sms_manager ::
  "string \<Rightarrow> (string \<times> sms_config) list \<Rightarrow> (('v, 'w) sms_sender \<Rightarrow> ('v, 'w) sms_sender) option list \<Rightarrow>
   delivery_error + ('v, 'w) sms_manager" where
  "new_sms_manager dflt ps ms =
     (if ps = [] then Inl ErrNotConfigured
      else (let dflt = trim_space dflt in
            if dflt = [] then Inl ErrDefaultRequired
            else if sms_configs ps dflt = None then Inl (ErrProviderNotFound dflt)
            else Inr (use_sms_middleware ms \<lparr>sm_default = dflt, sm_configs = sms_configs ps, sm_middleware = []\<rparr>)))"

type_synonym ('v, 'w) sms_drivers = "string \<rightharpoonup> (sms_config, ('v, 'w) sms_provider, 'w) delivery_factory"

text \<open>A result that says it failed is an error.\<close>

definition sms_outcome :: "sms_result option \<Rightarrow> delivery_error option \<Rightarrow> delivery_error option" where
  "sms_outcome res e =
     (case (e, res) of
        (None, Some r) \<Rightarrow> if \<not> sz_success r then Some (ErrProviderFailed (sz_message r)) else None
      | _ \<Rightarrow> e)"

text \<open>The body of the loop of \<^verbatim>\<open>sendDirect\<close>.\<close>

definition sms_attempt ::
  "('v, 'w) sms_drivers \<Rightarrow> ('v, 'w) sms_manager \<Rightarrow> 'v sms_request \<Rightarrow> string \<Rightarrow> ('v, 'w) sms_state \<Rightarrow>
   sms_result option \<times> delivery_error option \<times> ('v, 'w) sms_state" where
  "sms_attempt drivers m req name s =
     (case manager_config (sm_default m) (sm_configs m) name of
        Inl e \<Rightarrow> (None, Some e, s)
      | Inr cfg \<Rightarrow>
          (case sx_resolve (sq_message req) cfg of
             Inl e \<Rightarrow> (None, Some e, s)
           | Inr payload \<Rightarrow>
               (case use_provider drivers xc_driver (sm_default m) (sm_configs m) name s of
                  (Inl e, s) \<Rightarrow> (None, Some e, s)
                | (Inr p, made, w) \<Rightarrow>
                    (case sw_send p \<lparr>sv_to = sq_to req, sv_message = sq_message req, sv_payload = payload, sv_provider = cfg\<rparr> w of
                       (res, e, w) \<Rightarrow> (res, sms_outcome res e, made, w)))))"

definition sms_send_direct :: "('v, 'w) sms_drivers \<Rightarrow> ('v, 'w) sms_manager \<Rightarrow> ('v, 'w) sms_sender" where
  "sms_send_direct drivers m req s = deliver (sms_attempt drivers m req) (clean_provider_names (sq_providers req)) [] s"

definition sms_send_via ::
  "('v, 'w) sms_drivers \<Rightarrow> ('v, 'w) sms_manager option \<Rightarrow> string list \<Rightarrow> 'v sms_message \<Rightarrow> string list \<Rightarrow> ('v, 'w) sms_state \<Rightarrow>
   (sms_result send_result option \<times> delivery_error option) \<times> ('v, 'w) sms_state" where
  "sms_send_via drivers m dest msg providers s =
     (case m of None \<Rightarrow> ((None, Some ErrNotConfigured), s)
      | Some m \<Rightarrow>
          (let route = clean_provider_names providers; route = (if route = [] then [sm_default m] else route) in
           foldr (\<lambda>mw snd. mw snd) (sm_middleware m) (sms_send_direct drivers m)
             \<lparr>sq_to = dest, sq_message = msg, sq_providers = route\<rparr> s))"

definition sms_send ::
  "('v, 'w) sms_drivers \<Rightarrow> ('v, 'w) sms_manager option \<Rightarrow> string list \<Rightarrow> 'v sms_message \<Rightarrow> ('v, 'w) sms_state \<Rightarrow>
   (sms_result send_result option \<times> delivery_error option) \<times> ('v, 'w) sms_state" where
  "sms_send drivers m dest msg s =
     (case m of None \<Rightarrow> ((None, Some ErrNotConfigured), s)
      | Some x \<Rightarrow>
          (let providers = (case sx_providers msg of None \<Rightarrow> [] | Some ps \<Rightarrow> ps);
               providers = (if providers = [] then [sm_default x] else providers) in
           sms_send_via drivers m dest msg providers s))"

definition sms_close ::
  "string list \<Rightarrow> ('v, 'w) sms_manager option \<Rightarrow> ('v, 'w) sms_state \<Rightarrow> delivery_error option \<times> ('v, 'w) sms_state" where
  "sms_close order m s =
     (case m of None \<Rightarrow> (None, s)
      | Some _ \<Rightarrow>
          (let (made, w) = s; (e, w) = close_providers sw_close (List.map_filter made order) None w in (e, Map.empty, w)))"

section \<open>The limit of rates (middleware.go)\<close>

text \<open>A limiter answers for a key, a limit and a window.\<close>

type_synonym 'w sms_limiter = "string \<Rightarrow> int \<Rightarrow> int \<Rightarrow> 'w \<Rightarrow> (delivery_error + bool) \<times> 'w"

record 'v rate_limit_rule =
  rr_key_func :: "('v sms_request \<Rightarrow> string) option"
  rr_limit :: int
  rr_window :: int

definition phone_key :: "'v sms_request \<Rightarrow> string" where
  "phone_key req = (case sq_to req of [] \<Rightarrow> [] | p # _ \<Rightarrow> ''sms:phone:'' @ p)"

definition rate_limit_middleware ::
  "'w sms_limiter option \<Rightarrow> 'v rate_limit_rule \<Rightarrow> ('v, 'w) sms_sender \<Rightarrow> ('v, 'w) sms_sender" where
  "rate_limit_middleware limiter rule next_sender req s =
     (case limiter of None \<Rightarrow> next_sender req s
      | Some allow \<Rightarrow>
          if rr_limit rule \<le> 0 \<or> rr_window rule \<le> 0 then next_sender req s
          else (let key = (case rr_key_func rule of None \<Rightarrow> phone_key req | Some f \<Rightarrow> f req) in
                if key = [] then next_sender req s
                else (let (made, w) = s in
                      case allow key (rr_limit rule) (rr_window rule) w of
                        (Inl e, w) \<Rightarrow> ((None, Some e), made, w)
                      | (Inr False, w) \<Rightarrow> ((None, Some ErrRateLimited), made, w)
                      | (Inr True, w) \<Rightarrow> next_sender req (made, w))))"

section \<open>Which provider sends\<close>

lemma sms_goes_through_first_working:
  assumes "sm_middleware m = []" "clean_provider_names providers = route" "route \<noteq> []"
    and "sms_send_via drivers (Some m) dest msg providers s = ((r, e), s')"
    and "f = sms_attempt drivers m \<lparr>sq_to = dest, sq_message = msg, sq_providers = route\<rparr>"
  shows "(\<exists>ys n zs as s1 res. route = ys @ n # zs \<and> all_fail f ys s = Some (as, s1) \<and> f n s1 = (res, None, s') \<and> e = None) \<or>
    (\<exists>as. all_fail f route s = Some (as, s') \<and> e = Some (NoProviderAvailable (map (\<lambda>a. (at_provider a, at_error a)) as)))"
proof -
  have clean: "clean_provider_names route = route" using assms(2) clean_names_idem by blast
  have run: "deliver f route [] s = ((r, e), s')"
    using assms clean by (simp add: sms_send_via_def sms_send_direct_def Let_def)
  from deliver_cases [of f route s "[]"] show ?thesis
  proof (elim disjE exE conjE)
    fix as s1
    assume "all_fail f route s = Some (as, s1)"
      "deliver f route [] s = (let e = NoProviderAvailable (map (\<lambda>a. (at_provider a, at_error a)) ([] @ as)) in
        ((Some \<lparr>sr_provider = [], sr_result = None, sr_error = Some e, sr_attempts = [] @ as\<rparr>, Some e), s1))"
    with run show ?thesis by (intro disjI2 exI [of _ as]) (auto simp: Let_def)
  next
    fix ys n zs as s1 res s2
    assume found: "route = ys @ n # zs" "all_fail f ys s = Some (as, s1)" "f n s1 = (res, None, s2)"
      "deliver f route [] s = ((Some \<lparr>sr_provider = n, sr_result = res, sr_error = None,
        sr_attempts = [] @ as @ [\<lparr>at_provider = n, at_success = True, at_result = res, at_error = None\<rparr>]\<rparr>, None), s2)"
    then have "s2 = s'" "e = None" using run by auto
    with found show ?thesis by blast
  qed
qed

text \<open>A limited sender is not reached when the limiter refuses.\<close>

lemma limited_is_not_sent:
  assumes "phone_key req \<noteq> []" "rr_key_func rule = None" "rr_limit rule > 0" "rr_window rule > 0"
    "allow (phone_key req) (rr_limit rule) (rr_window rule) w = (Inr False, w')"
  shows "rate_limit_middleware (Some allow) rule next_sender req (made, w) = ((None, Some ErrRateLimited), made, w')"
  using assms by (simp add: rate_limit_middleware_def)

text \<open>The key is the first number only: a request to several numbers counts for the first.\<close>

lemma only_first_number_counts: "phone_key (req\<lparr>sq_to := p # ps\<rparr>) = phone_key (req\<lparr>sq_to := [p]\<rparr>)"
  by (simp add: phone_key_def)

end
