(* ===== verification/Mail_Manager.thy ===== *)
theory Mail_Manager
  imports Delivery
begin

text \<open>
  Sending mail: messages and templates (\<^verbatim>\<open>pkg/email/types.go\<close>, \<^verbatim>\<open>template_loader.go\<close>) and the manager with its
  default provider, its fallbacks and its middleware (\<^verbatim>\<open>core/email\<close>).

  Providers are functions over a world; the attachments of a payload are opaque.  Rendering one text or one HTML
  template is done by Go's template packages, here two parameters.  The state of a manager that changes, the providers
  made so far, is passed beside the world.
\<close>

section \<open>Payloads, templates, messages (pkg/email/types.go)\<close>

record mail_config =
  md_driver :: string
  md_host :: string
  md_port :: int
  md_username :: string
  md_password :: string
  md_from_address :: string
  md_from_name :: string
  md_reply_to :: string
  md_encryption :: string
  md_auth :: string
  md_timeout :: int

record 'x mail_payload =
  ml_to :: "string list"
  ml_cc :: "string list"
  ml_bcc :: "string list"
  ml_subject :: string
  ml_text :: string
  ml_html :: string
  ml_headers :: "(string \<times> string) list"
  ml_attachments :: "'x list"

record mail_template =
  mt_subject :: string
  mt_subject_file :: string
  mt_text :: string
  mt_text_file :: string
  mt_html :: string
  mt_html_file :: string

record 'd template_engine =
  te_text :: "string \<Rightarrow> 'd \<Rightarrow> delivery_error + string"
  te_html :: "string \<Rightarrow> 'd \<Rightarrow> delivery_error + string"

definition render_field :: "(string \<Rightarrow> 'd \<Rightarrow> delivery_error + string) \<Rightarrow> string \<Rightarrow> 'd \<Rightarrow> delivery_error + string" where
  "render_field f body d = (if body = [] then Inr [] else f body d)"

definition render_template :: "'d template_engine \<Rightarrow> mail_template \<Rightarrow> 'd \<Rightarrow> delivery_error + mail_template" where
  "render_template te t d =
     bindR (render_field (te_text te) (mt_subject t) d) (\<lambda>subject.
     bindR (render_field (te_text te) (mt_text t) d) (\<lambda>txt.
     bindR (render_field (te_html te) (mt_html t) d) (\<lambda>html.
     Inr \<lparr>mt_subject = subject, mt_subject_file = [], mt_text = txt, mt_text_file = [], mt_html = html, mt_html_file = []\<rparr>)))"

text \<open>A renderer takes what the context says, the name of a template and the data.\<close>

type_synonym 'd template_renderer = "delivery_error option \<Rightarrow> string \<Rightarrow> 'd \<Rightarrow> delivery_error + mail_template"

definition template_renderer_func :: "'d template_renderer option \<Rightarrow> 'd template_renderer" where
  "template_renderer_func f cerr name d = (case f of None \<Rightarrow> Inl ErrTemplateRendererRequired | Some g \<Rightarrow> g cerr name d)"

definition template_map_render :: "'d template_engine \<Rightarrow> (string \<rightharpoonup> mail_template) \<Rightarrow> 'd template_renderer" where
  "template_map_render te m cerr name d =
     (case cerr of Some e \<Rightarrow> Inl e
      | None \<Rightarrow>
          (let name = trim_space name in
           if name = [] then Inl ErrTemplateNotFound
           else (case m name of None \<Rightarrow> Inl ErrTemplateNotFound | Some t \<Rightarrow> render_template te t d)))"

text \<open>The messages of the package; one of the application is a function of its own.\<close>

datatype ('x, 'd) mail_message =
    DirectMessage "'x mail_payload"
  | TemplateMessage "string list" "string list" "string list" string 'd "(string \<times> string) list" "'x list"
  | OtherMessage "delivery_error option \<Rightarrow> 'd template_renderer option \<Rightarrow> delivery_error + 'x mail_payload"

fun resolve_message ::
  "('x, 'd) mail_message \<Rightarrow> delivery_error option \<Rightarrow> 'd template_renderer option \<Rightarrow> delivery_error + 'x mail_payload" where
  "resolve_message (DirectMessage p) cerr r = Inr p"
| "resolve_message (TemplateMessage dest cc bcc tpl d hs atts) cerr r =
     (case r of None \<Rightarrow> Inl ErrTemplateRendererRequired
      | Some render \<Rightarrow>
          bindR (render cerr tpl d) (\<lambda>t.
          Inr \<lparr>ml_to = dest, ml_cc = cc, ml_bcc = bcc, ml_subject = mt_subject t, ml_text = mt_text t,
            ml_html = mt_html t, ml_headers = hs, ml_attachments = atts\<rparr>))"
| "resolve_message (OtherMessage f) cerr r = f cerr r"

section \<open>Templates from files (template_loader.go)\<close>

text \<open>
  A file system is \<^verbatim>\<open>fs.ValidPath\<close> and \<^verbatim>\<open>fs.ReadFile\<close>; the templates are in the order in which the map is walked.
\<close>

record template_fs =
  tf_valid_path :: "string \<Rightarrow> bool"
  tf_read :: "string \<Rightarrow> delivery_error + string"

definition load_template_field ::
  "template_fs option \<Rightarrow> string \<Rightarrow> string \<Rightarrow> string \<Rightarrow> string \<Rightarrow> delivery_error + string" where
  "load_template_field fs name field v file =
     (let file = trim_space file in
      if file = [] then Inr v
      else (case fs of None \<Rightarrow> Inl ErrTemplateFSRequired
            | Some fs \<Rightarrow>
                if \<not> tf_valid_path fs file
                then Inl (DeliveryText (''email: template '' @ name @ '' '' @ field @ '' has invalid path: '' @ file))
                else tf_read fs file))"

definition load_template_files :: "template_fs option \<Rightarrow> string \<Rightarrow> mail_template \<Rightarrow> delivery_error + mail_template" where
  "load_template_files fs name t =
     bindR (load_template_field fs name ''subject_file'' (mt_subject t) (mt_subject_file t)) (\<lambda>a.
     bindR (load_template_field fs name ''text_file'' (mt_text t) (mt_text_file t)) (\<lambda>b.
     bindR (load_template_field fs name ''html_file'' (mt_html t) (mt_html_file t)) (\<lambda>c.
     Inr (t\<lparr>mt_subject := a, mt_text := b, mt_html := c\<rparr>))))"

fun load_templates :: "template_fs option \<Rightarrow> (string \<times> mail_template) list \<Rightarrow> delivery_error + (string \<times> mail_template) list" where
  "load_templates fs [] = Inr []"
| "load_templates fs ((name, t) # ts) =
     bindR (load_template_files fs name t) (\<lambda>t'. bindR (load_templates fs ts) (\<lambda>ts'. Inr ((name, t') # ts')))"

section \<open>The manager (config.go, manager.go)\<close>

record 'r mail_result =
  mz_message_id :: string
  mz_raw :: 'r

record ('x, 'r, 'w) mail_provider =
  mp_send :: "'x mail_payload \<Rightarrow> 'w \<Rightarrow> 'r mail_result option \<times> delivery_error option \<times> 'w"
  mp_close :: "'w \<Rightarrow> delivery_error option \<times> 'w"

record ('x, 'd) mail_request =
  mq_message :: "('x, 'd) mail_message option"
  mq_providers :: "string list"

text \<open>The providers made so far, and the world.\<close>

type_synonym ('x, 'r, 'w) mail_state = "(string \<rightharpoonup> ('x, 'r, 'w) mail_provider) \<times> 'w"

type_synonym ('x, 'd, 'r, 'w) mail_sender =
  "('x, 'd) mail_request \<Rightarrow> ('x, 'r, 'w) mail_state \<Rightarrow>
   ('r mail_result send_result option \<times> delivery_error option) \<times> ('x, 'r, 'w) mail_state"

record ('x, 'd, 'r, 'w) mail_manager =
  mm_default :: string
  mm_fallback :: "string list"
  mm_configs :: "string \<rightharpoonup> mail_config"
  mm_resolver :: "(string \<Rightarrow> 'w \<Rightarrow> (delivery_error + mail_config) \<times> 'w) option"
  mm_templates :: "'d template_renderer option"
  mm_middleware :: "(('x, 'd, 'r, 'w) mail_sender \<Rightarrow> ('x, 'd, 'r, 'w) mail_sender) list"

record mail_settings =
  mf_default :: string
  mf_fallback :: "string list"
  mf_providers :: "(string \<times> mail_config) list"
  mf_templates :: "(string \<times> mail_template) list"

definition use_mail_middleware ::
  "(('x, 'd, 'r, 'w) mail_sender \<Rightarrow> ('x, 'd, 'r, 'w) mail_sender) option list \<Rightarrow> ('x, 'd, 'r, 'w) mail_manager \<Rightarrow> ('x, 'd, 'r, 'w) mail_manager" where
  "use_mail_middleware ms m = m\<lparr>mm_middleware := mm_middleware m @ List.map_filter id ms\<rparr>"

definition new_mail_manager ::
  "'d template_engine \<Rightarrow> mail_settings \<Rightarrow> (('x, 'd, 'r, 'w) mail_sender \<Rightarrow> ('x, 'd, 'r, 'w) mail_sender) option list \<Rightarrow>
   delivery_error + ('x, 'd, 'r, 'w) mail_manager" where
  "new_mail_manager te c ms =
     (if mf_providers c = [] then Inl ErrNotConfigured
      else
        (let dflt = trim_space (mf_default c); fallback = clean_provider_names (mf_fallback c);
             configs = map_of (mf_providers c) in
         if dflt = [] then Inl ErrDefaultRequired
         else if configs dflt = None then Inl (ErrProviderNotFound dflt)
         else (case List.find (\<lambda>n. configs n = None) fallback of
                 Some n \<Rightarrow> Inl (ErrProviderNotFound n)
               | None \<Rightarrow>
                   Inr (use_mail_middleware ms
                     \<lparr>mm_default = dflt, mm_fallback = fallback, mm_configs = configs, mm_resolver = None,
                      mm_templates = Some (template_map_render te (map_of (mf_templates c))), mm_middleware = []\<rparr>))))"

definition new_dynamic_mail_manager ::
  "(string \<Rightarrow> 'w \<Rightarrow> (delivery_error + mail_config) \<times> 'w) option \<Rightarrow> 'd template_renderer option \<Rightarrow>
   (('x, 'd, 'r, 'w) mail_sender \<Rightarrow> ('x, 'd, 'r, 'w) mail_sender) option list \<Rightarrow> delivery_error + ('x, 'd, 'r, 'w) mail_manager" where
  "new_dynamic_mail_manager resolver render ms =
     (if resolver = None then Inl ErrNotConfigured
      else Inr (use_mail_middleware ms \<lparr>mm_default = [], mm_fallback = [], mm_configs = Map.empty,
        mm_resolver = resolver, mm_templates = render, mm_middleware = []\<rparr>))"

definition mail_route :: "('x, 'd, 'r, 'w) mail_manager \<Rightarrow> string list" where
  "mail_route m = (if mm_default m \<noteq> [] then [mm_default m] else []) @ filter (\<lambda>n. n \<noteq> mm_default m) (mm_fallback m)"

type_synonym ('x, 'r, 'w) mail_drivers = "string \<rightharpoonup> (mail_config, ('x, 'r, 'w) mail_provider, 'w) delivery_factory"

text \<open>The provider of a name, and whether it was made for this call only.\<close>

definition mail_provider_for ::
  "('x, 'r, 'w) mail_drivers \<Rightarrow> ('x, 'd, 'r, 'w) mail_manager \<Rightarrow> string \<Rightarrow> ('x, 'r, 'w) mail_state \<Rightarrow>
   (delivery_error + ('x, 'r, 'w) mail_provider \<times> bool) \<times> ('x, 'r, 'w) mail_state" where
  "mail_provider_for drivers m name s =
     (case mm_resolver m of
        None \<Rightarrow>
          (case use_provider drivers md_driver (mm_default m) (mm_configs m) name s of
             (Inl e, s) \<Rightarrow> (Inl e, s) | (Inr p, s) \<Rightarrow> (Inr (p, False), s))
      | Some resolve \<Rightarrow>
          (let (made, w) = s in
           case resolve name w of (Inl e, w) \<Rightarrow> (Inl e, made, w)
           | (Inr cfg, w) \<Rightarrow>
               (case new_provider drivers md_driver name cfg w of
                  (Inl e, w) \<Rightarrow> (Inl e, made, w)
                | (Inr p, w) \<Rightarrow> (Inr (p, True), made, w))))"

text \<open>The body of the loop of \<^verbatim>\<open>sendDirect\<close>.\<close>

definition mail_attempt ::
  "('x, 'r, 'w) mail_drivers \<Rightarrow> ('x, 'd, 'r, 'w) mail_manager \<Rightarrow> 'x mail_payload \<Rightarrow> string \<Rightarrow> ('x, 'r, 'w) mail_state \<Rightarrow>
   'r mail_result option \<times> delivery_error option \<times> ('x, 'r, 'w) mail_state" where
  "mail_attempt drivers m payload name s =
     (case mail_provider_for drivers m name s of
        (Inl e, s) \<Rightarrow> (None, Some e, s)
      | (Inr (p, fresh), made, w) \<Rightarrow>
          (case mp_send p payload w of
             (res, e, w) \<Rightarrow>
               if fresh then
                 (case mp_close p w of (ce, w) \<Rightarrow> (res, if e = None \<and> ce \<noteq> None then ce else e, made, w))
               else (res, e, made, w)))"

definition mail_send_direct ::
  "('x, 'r, 'w) mail_drivers \<Rightarrow> delivery_error option \<Rightarrow> ('x, 'd, 'r, 'w) mail_manager \<Rightarrow> ('x, 'd, 'r, 'w) mail_sender" where
  "mail_send_direct drivers cerr m req s =
     (case mq_message req of None \<Rightarrow> ((None, Some ErrMessageRequired), s)
      | Some msg \<Rightarrow>
          (case resolve_message msg cerr (mm_templates m) of
             Inl e \<Rightarrow> ((None, Some e), s)
           | Inr payload \<Rightarrow> deliver (mail_attempt drivers m payload) (clean_provider_names (mq_providers req)) [] s))"

definition mail_send_via ::
  "('x, 'r, 'w) mail_drivers \<Rightarrow> delivery_error option \<Rightarrow> ('x, 'd, 'r, 'w) mail_manager option \<Rightarrow> ('x, 'd) mail_message option \<Rightarrow>
   string list \<Rightarrow> ('x, 'r, 'w) mail_state \<Rightarrow> ('r mail_result send_result option \<times> delivery_error option) \<times> ('x, 'r, 'w) mail_state" where
  "mail_send_via drivers cerr m msg providers s =
     (case m of None \<Rightarrow> ((None, Some ErrNotConfigured), s)
      | Some m \<Rightarrow>
          (let route = clean_provider_names providers; route = (if route = [] then mail_route m else route) in
           if route = [] then ((None, Some ErrDefaultRequired), s)
           else foldr (\<lambda>mw snd. mw snd) (mm_middleware m) (mail_send_direct drivers cerr m)
                  \<lparr>mq_message = msg, mq_providers = route\<rparr> s))"

definition mail_send ::
  "('x, 'r, 'w) mail_drivers \<Rightarrow> delivery_error option \<Rightarrow> ('x, 'd, 'r, 'w) mail_manager option \<Rightarrow> ('x, 'd) mail_message option \<Rightarrow>
   ('x, 'r, 'w) mail_state \<Rightarrow> ('r mail_result send_result option \<times> delivery_error option) \<times> ('x, 'r, 'w) mail_state" where
  "mail_send drivers cerr m msg s =
     (let route = (case m of None \<Rightarrow> [] | Some m \<Rightarrow> mail_route m) in
      if route = [] then ((None, Some ErrDefaultRequired), s) else mail_send_via drivers cerr m msg route s)"

text \<open>\<^verbatim>\<open>Close\<close>, in the order in which the names of the map are walked.\<close>

definition mail_close ::
  "string list \<Rightarrow> ('x, 'd, 'r, 'w) mail_manager option \<Rightarrow> ('x, 'r, 'w) mail_state \<Rightarrow> delivery_error option \<times> ('x, 'r, 'w) mail_state" where
  "mail_close order m s =
     (case m of None \<Rightarrow> (None, s)
      | Some _ \<Rightarrow>
          (let (made, w) = s; (e, w) = close_providers mp_close (List.map_filter made order) None w in (e, Map.empty, w)))"

section \<open>Which provider sends\<close>

text \<open>The route of a manager that was made from settings is clean: each configured name once, the default first.\<close>

lemma new_mail_manager_route:
  assumes "new_mail_manager te c ms = Inr m"
  shows "clean_provider_names (mail_route m) = mail_route m \<and> hd (mail_route m) = trim_space (mf_default c) \<and>
    (\<forall>n \<in> set (mail_route m). mm_configs m n \<noteq> None)"
proof -
  let ?d = "trim_space (mf_default c)"
  from assms have m: "mm_default m = ?d" "?d \<noteq> []" "mm_fallback m = clean_provider_names (mf_fallback c)"
    "mm_configs m = map_of (mf_providers c)" "map_of (mf_providers c) ?d \<noteq> None"
    "List.find (\<lambda>n. map_of (mf_providers c) n = None) (clean_provider_names (mf_fallback c)) = None"
    by (auto simp: new_mail_manager_def use_mail_middleware_def Let_def split: if_splits option.splits)
  have "clean_provider_names (mail_route m) = mail_route m"
    using m(2) by (intro clean_names_again) (auto simp: mail_route_def m(1,3) clean_names_distinct clean_names_set)
  moreover have "\<forall>n \<in> set (mail_route m). mm_configs m n \<noteq> None"
    using m(4-6) by (auto simp: mail_route_def m(1,3) find_None_iff)
  ultimately show ?thesis using m(2) by (simp add: mail_route_def m(1))
qed

text \<open>
  A message sent without middleware goes out through the first provider of the route whose attempt succeeds, after
  every earlier one was tried once and failed; the result names it and lists the attempts in order.  When all fail the
  error carries the attempts.
\<close>

theorem mail_goes_through_first_working:
  assumes "mm_middleware m = []" "clean_provider_names providers = route" "route \<noteq> []"
    and "resolve_message msg cerr (mm_templates m) = Inr payload"
    and "mail_send_via drivers cerr (Some m) (Some msg) providers s = ((r, e), s')"
  shows "distinct route \<and>
    ((\<exists>ys n zs as s1 res. route = ys @ n # zs \<and> all_fail (mail_attempt drivers m payload) ys s = Some (as, s1) \<and>
        mail_attempt drivers m payload n s1 = (res, None, s') \<and> e = None \<and>
        r = Some \<lparr>sr_provider = n, sr_result = res, sr_error = None,
          sr_attempts = as @ [\<lparr>at_provider = n, at_success = True, at_result = res, at_error = None\<rparr>]\<rparr>) \<or>
     (\<exists>as. all_fail (mail_attempt drivers m payload) route s = Some (as, s') \<and>
        e = Some (NoProviderAvailable (map (\<lambda>a. (at_provider a, at_error a)) as)) \<and>
        r = Some \<lparr>sr_provider = [], sr_result = None, sr_error = e, sr_attempts = as\<rparr>))"
proof -
  have clean: "clean_provider_names route = route" "distinct route"
    using assms(2) clean_names_distinct clean_names_idem by blast+
  have run: "deliver (mail_attempt drivers m payload) route [] s = ((r, e), s')"
    using assms clean(1) by (simp add: mail_send_via_def mail_send_direct_def Let_def)
  from deliver_cases [of "mail_attempt drivers m payload" route s "[]"]
  show ?thesis
  proof (elim disjE exE conjE)
    fix as s1
    assume "all_fail (mail_attempt drivers m payload) route s = Some (as, s1)"
      "deliver (mail_attempt drivers m payload) route [] s = (let e = NoProviderAvailable (map (\<lambda>a. (at_provider a, at_error a)) ([] @ as)) in
        ((Some \<lparr>sr_provider = [], sr_result = None, sr_error = Some e, sr_attempts = [] @ as\<rparr>, Some e), s1))"
    with run clean(2) show ?thesis by (intro conjI disjI2 exI [of _ as]) (auto simp: Let_def)
  next
    fix ys n zs as s1 res s2
    assume "route = ys @ n # zs" "all_fail (mail_attempt drivers m payload) ys s = Some (as, s1)"
      "mail_attempt drivers m payload n s1 = (res, None, s2)"
      "deliver (mail_attempt drivers m payload) route [] s = ((Some \<lparr>sr_provider = n, sr_result = res, sr_error = None,
        sr_attempts = [] @ as @ [\<lparr>at_provider = n, at_success = True, at_result = res, at_error = None\<rparr>]\<rparr>, None), s2)"
    note found = this
    have eq: "s2 = s'" "e = None" "r = Some \<lparr>sr_provider = n, sr_result = res, sr_error = None,
        sr_attempts = as @ [\<lparr>at_provider = n, at_success = True, at_result = res, at_error = None\<rparr>]\<rparr>"
      using found(4) run by auto
    show ?thesis
      by (rule conjI, rule clean(2), rule disjI1, rule exI [of _ ys], rule exI [of _ n], rule exI [of _ zs],
          rule exI [of _ as], rule exI [of _ s1], rule exI [of _ res])
        (simp only: found(1-3) [unfolded eq(1)] eq simp_thms)
  qed
qed

text \<open>
  A provider that was made for one call and sent the message, but cannot be closed, counts as failed: the message
  goes out again through the next one.
\<close>

lemma failed_close_counts_as_failure:
  assumes "mail_provider_for drivers m name s = (Inr (p, True), made, w)" "mp_send p payload w = (res, None, w1)"
    "mp_close p w1 = (Some e, w2)"
  shows "mail_attempt drivers m payload name s = (res, Some e, made, w2)"
  using assms by (simp add: mail_attempt_def)

text \<open>A route of two providers of which the first is down.\<close>

definition plain_mail_provider :: "bool \<Rightarrow> (unit, unit, nat) mail_provider" where
  "plain_mail_provider works = \<lparr>mp_send = (\<lambda>p n. if works then (Some \<lparr>mz_message_id = ''id'', mz_raw = ()\<rparr>, None, Suc n)
     else (None, Some (DeliveryText ''down''), n)), mp_close = (\<lambda>n. (None, n))\<rparr>"

definition plain_mail_manager :: "(unit, unit, unit, nat) mail_manager" where
  "plain_mail_manager = \<lparr>mm_default = ''a'', mm_fallback = [''b''], mm_configs = Map.empty, mm_resolver = None,
     mm_templates = None, mm_middleware = []\<rparr>"

definition plain_mail_state :: "(unit, unit, nat) mail_state" where
  "plain_mail_state = ([''a'' \<mapsto> plain_mail_provider False, ''b'' \<mapsto> plain_mail_provider True], 0)"

definition plain_mail :: "unit mail_payload" where
  "plain_mail = \<lparr>ml_to = [''ann''], ml_cc = [], ml_bcc = [], ml_subject = ''hi'', ml_text = [], ml_html = [],
     ml_headers = [], ml_attachments = []\<rparr>"

theorem mail_goes_through_first_working_witness:
  "\<exists>r. mail_send_via Map.empty None (Some plain_mail_manager) (Some (DirectMessage plain_mail)) [] plain_mail_state =
      ((r, None), fst plain_mail_state, 1) \<and> map_option sr_provider r = Some ''b'' \<and>
      map_option (map at_success \<circ> sr_attempts) r = Some [False, True]"
proof -
  let ?run = "mail_send_via Map.empty None (Some plain_mail_manager) (Some (DirectMessage plain_mail)) [''a'', ''b''] plain_mail_state"
  have trim: "trim_space ''a'' = ''a''" "trim_space ''b'' = ''b''" by (rule trim_space_printable; simp)+
  have route: "clean_provider_names [''a'', ''b''] = [''a'', ''b'']" "clean_provider_names [] = []"
    "mail_route plain_mail_manager = [''a'', ''b'']"
    by (simp_all add: clean_provider_names_def trim mail_route_def plain_mail_manager_def)
  have same: "mail_send_via Map.empty None (Some plain_mail_manager) (Some (DirectMessage plain_mail)) [] plain_mail_state = ?run"
    by (simp add: mail_send_via_def route)
  obtain r e made n where run: "?run = ((r, e), made, n)" by (metis surj_pair)
  have tried: "mail_attempt Map.empty plain_mail_manager plain_mail ''a'' plain_mail_state =
      (None, Some (DeliveryText ''down''), plain_mail_state)"
    "mail_attempt Map.empty plain_mail_manager plain_mail ''b'' plain_mail_state =
      (Some \<lparr>mz_message_id = ''id'', mz_raw = ()\<rparr>, None, fst plain_mail_state, 1)"
    by (simp_all add: mail_attempt_def mail_provider_for_def use_provider_def plain_mail_manager_def plain_mail_state_def
        plain_mail_provider_def trim Let_def)
  have mw: "mm_middleware plain_mail_manager = []" by (simp add: plain_mail_manager_def)
  have both: "all_fail (mail_attempt Map.empty plain_mail_manager plain_mail) [''a'', ''b''] plain_mail_state = None"
    by (simp add: tried)
  have "ys = [''a''] \<and> n = ''b'' \<and> zs = []" if "[''a'', ''b''] = ys @ n # zs"
    "all_fail (mail_attempt Map.empty plain_mail_manager plain_mail) ys plain_mail_state = Some (as, s1)"
    "mail_attempt Map.empty plain_mail_manager plain_mail n s1 = (res, None, s2)" for ys n zs as s1 res s2
    using that tried by (cases ys) (auto simp: Cons_eq_append_conv)
  then show ?thesis
    using mail_goes_through_first_working [OF mw route(1) _ resolve_message.simps(1) run] both unfolding same run
    by (force simp: tried)
qed

end
