(* ===== verification/Exec_Output.thy ===== *)
theory Exec_Output
  imports Prelude
begin

text \<open>
  The output of commands, \<^verbatim>\<open>pkg/execx\<close>: options, how a stream is cut into events (\<^verbatim>\<open>split.go\<close>), and the sinks that
  take the events (\<^verbatim>\<open>sink.go\<close> and the capturing one of \<^verbatim>\<open>run.go\<close>).  Starting, signalling and waiting for processes
  is the operating system's.

  A stream is the list of the chunks that its reader gets and the error after them, if it is not the end of the file.
  What the context says at a moment and the time are read from the world.  \<^verbatim>\<open>bufio.Scanner\<close> is modelled as it is
  used: its buffer holds at most \<open>scan_limit\<close> bytes (a buffer of 64 kB is given to it, so never less); that it grows
  by doubling only cuts reads into smaller ones.
\<close>

section \<open>Types and options (types.go, options.go)\<close>

datatype cmd_stream = StreamStdout | StreamStderr

datatype split_mode = SplitLine | SplitCRLF | SplitChunk

datatype cmd_error =
    ErrOutputLimitExceeded | ErrProcessNotRunning | ErrTooLong | CmdCtx string | CmdText string

record cmd_event =
  ev_stream :: cmd_stream
  ev_data :: string
  ev_text :: string
  ev_time :: int
  ev_decode_err :: "cmd_error option"

type_synonym decoder = "string \<Rightarrow> string \<times> cmd_error option"

type_synonym 'w cmd_sink = "cmd_event \<Rightarrow> 'w \<Rightarrow> cmd_error option \<times> 'w"

record 'w exec_config =
  xf_dir :: string
  xf_env :: "string list"
  xf_clean_env :: bool
  xf_output_limit :: int
  xf_line_buffer :: int
  xf_split :: split_mode
  xf_merge_stderr :: bool
  xf_decoder :: "decoder option"
  xf_strict_decode :: bool
  xf_kill_group :: bool
  xf_stop_timeout :: int
  xf_wait_delay :: int
  xf_ring_buffer :: int
  xf_sink :: "'w cmd_sink option"

definition plain_decoder :: decoder where
  "plain_decoder s = (s, None)"

definition default_exec_config :: "'w exec_config" where
  "default_exec_config = \<lparr>xf_dir = [], xf_env = [], xf_clean_env = False, xf_output_limit = 10 * 1024 * 1024,
     xf_line_buffer = 1024 * 1024, xf_split = SplitLine, xf_merge_stderr = False, xf_decoder = Some plain_decoder,
     xf_strict_decode = False, xf_kill_group = False, xf_stop_timeout = 5 * 10 ^ 9, xf_wait_delay = 0,
     xf_ring_buffer = 100, xf_sink = None\<rparr>"

datatype 'w exec_option =
    WithDir string | WithEnv "string list" | WithCleanEnv | WithOutputLimit int | WithLineBufferSize int
  | WithSplitMode split_mode | WithMergeStderr | WithDecoder "decoder option" | WithStrictDecode
  | WithKillProcessGroup | WithStopTimeout int | WithWaitDelay int | WithRingBuffer int | WithCmdSink "'w cmd_sink option"

fun apply_exec_option :: "'w exec_option \<Rightarrow> 'w exec_config \<Rightarrow> 'w exec_config" where
  "apply_exec_option (WithDir d) c = c\<lparr>xf_dir := d\<rparr>"
| "apply_exec_option (WithEnv e) c = c\<lparr>xf_env := xf_env c @ e\<rparr>"
| "apply_exec_option WithCleanEnv c = c\<lparr>xf_clean_env := True\<rparr>"
| "apply_exec_option (WithOutputLimit n) c = c\<lparr>xf_output_limit := n\<rparr>"
| "apply_exec_option (WithLineBufferSize n) c = c\<lparr>xf_line_buffer := n\<rparr>"
| "apply_exec_option (WithSplitMode m) c = c\<lparr>xf_split := m\<rparr>"
| "apply_exec_option WithMergeStderr c = c\<lparr>xf_merge_stderr := True\<rparr>"
| "apply_exec_option (WithDecoder d) c = c\<lparr>xf_decoder := d\<rparr>"
| "apply_exec_option WithStrictDecode c = c\<lparr>xf_strict_decode := True\<rparr>"
| "apply_exec_option WithKillProcessGroup c = c\<lparr>xf_kill_group := True\<rparr>"
| "apply_exec_option (WithStopTimeout t) c = c\<lparr>xf_stop_timeout := t\<rparr>"
| "apply_exec_option (WithWaitDelay t) c = c\<lparr>xf_wait_delay := t\<rparr>"
| "apply_exec_option (WithRingBuffer n) c = c\<lparr>xf_ring_buffer := n\<rparr>"
| "apply_exec_option (WithCmdSink s) c = c\<lparr>xf_sink := s\<rparr>"

definition apply_exec_options :: "'w exec_option option list \<Rightarrow> 'w exec_config" where
  "apply_exec_options opts =
     (let c = fold (\<lambda>opt c. case opt of None \<Rightarrow> c | Some x \<Rightarrow> apply_exec_option x c) opts default_exec_config;
          c = (if xf_line_buffer c \<le> 0 then c\<lparr>xf_line_buffer := 1024 * 1024\<rparr> else c);
          c = (if xf_stop_timeout c \<le> 0 then c\<lparr>xf_stop_timeout := 5 * 10 ^ 9\<rparr> else c);
          c = (if xf_ring_buffer c < 0 then c\<lparr>xf_ring_buffer := 0\<rparr> else c) in
      if xf_decoder c = None then c\<lparr>xf_decoder := Some plain_decoder\<rparr> else c)"

definition build_env :: "string list \<Rightarrow> 'w exec_config \<Rightarrow> string list option" where
  "build_env environ c =
     (if xf_clean_env c then Some (xf_env c) else if xf_env c = [] then None else Some (environ @ xf_env c))"

section \<open>Cutting a stream (split.go)\<close>

record 'w exec_world =
  ew_ctx :: "'w \<Rightarrow> cmd_error option"
  ew_now :: "'w \<Rightarrow> int"

text \<open>\<^verbatim>\<open>emit\<close>: nothing once the context is done; a text that does not decode is an error only in strict mode.\<close>

definition emit_output :: "'w exec_world \<Rightarrow> 'w exec_config \<Rightarrow> 'w cmd_sink \<Rightarrow> cmd_stream \<Rightarrow> string \<Rightarrow> 'w \<Rightarrow> cmd_error option \<times> 'w" where
  "emit_output x c sink st data w =
     (case ew_ctx x w of Some e \<Rightarrow> (Some e, w)
      | None \<Rightarrow>
          (let (txt, err) = (case xf_decoder c of Some d \<Rightarrow> d data | None \<Rightarrow> plain_decoder data) in
           if err \<noteq> None \<and> xf_strict_decode c then (err, w)
           else sink \<lparr>ev_stream = st, ev_data = data, ev_text = txt, ev_time = ew_now x w, ev_decode_err = err\<rparr> w))"

text \<open>The index of the first byte that satisfies a condition.\<close>

fun index_by :: "(char \<Rightarrow> bool) \<Rightarrow> string \<Rightarrow> nat option" where
  "index_by P [] = None"
| "index_by P (c # s) = (if P c then Some 0 else map_option Suc (index_by P s))"

text \<open>\<^verbatim>\<open>scanCRLF\<close>: how much to advance and the token, or that more is needed.\<close>

definition is_line_end :: "char \<Rightarrow> bool" where
  "is_line_end c \<longleftrightarrow> c = CHR 0x0A \<or> c = CHR 0x0D"

definition scan_crlf :: "string \<Rightarrow> bool \<Rightarrow> (nat \<times> string) option" where
  "scan_crlf data at_eof =
     (case index_by is_line_end data of
        Some i \<Rightarrow> Some (i + 1, take i data)
      | None \<Rightarrow> if at_eof \<and> data \<noteq> [] then Some (length data, data) else None)"

text \<open>\<^verbatim>\<open>bufio.ScanLines\<close>.\<close>

definition drop_cr :: "string \<Rightarrow> string" where
  "drop_cr s = (if s \<noteq> [] \<and> last s = CHR 0x0D then butlast s else s)"

definition scan_lines :: "string \<Rightarrow> bool \<Rightarrow> (nat \<times> string) option" where
  "scan_lines data at_eof =
     (if at_eof \<and> data = [] then None
      else (case index_by (\<lambda>c. c = CHR 0x0A) data of
              Some i \<Rightarrow> Some (i + 1, drop_cr (take i data))
            | None \<Rightarrow> if at_eof then Some (length data, drop_cr data) else None))"

text \<open>The split function of a mode: at which bytes it cuts, and what becomes of a piece.\<close>

definition split_by_mode :: "bool \<Rightarrow> string \<Rightarrow> bool \<Rightarrow> (nat \<times> string) option" where
  "split_by_mode crlf = (if crlf then scan_crlf else scan_lines)"

definition scan_limit :: "'w exec_config \<Rightarrow> nat" where
  "scan_limit c = max (64 * 1024) (nat (xf_line_buffer c))"

lemma index_by_less: "index_by P s = Some i \<Longrightarrow> i < length s"
  by (induction s arbitrary: i) (auto split: if_splits)

lemma split_advances: "split_by_mode crlf data eof = Some (adv, tok) \<Longrightarrow> 0 < adv \<and> adv \<le> length data"
  by (auto simp: split_by_mode_def scan_crlf_def scan_lines_def dest!: index_by_less split: if_splits option.splits)

text \<open>
  \<^verbatim>\<open>scanOutput\<close>: \<open>pending\<close> is what is in the buffer, \<open>eof\<close> whether the end was read.
\<close>

function scan_output ::
  "(string \<Rightarrow> 'w \<Rightarrow> cmd_error option \<times> 'w) \<Rightarrow> bool \<Rightarrow> nat \<Rightarrow> cmd_error option \<Rightarrow> string \<Rightarrow> string list \<Rightarrow> bool \<Rightarrow> 'w \<Rightarrow>
   cmd_error option \<times> 'w" where
  "scan_output put crlf limit fin pending chunks eof w =
     (case (if pending \<noteq> [] \<or> eof then split_by_mode crlf pending eof else None) of
        Some (adv, tok) \<Rightarrow>
          (case put tok w of
             (Some e, w) \<Rightarrow> (Some e, w)
           | (None, w) \<Rightarrow> scan_output put crlf limit fin (drop adv pending) chunks eof w)
      | None \<Rightarrow>
          if eof then (fin, w)
          else if length pending \<ge> limit then (Some ErrTooLong, w)
          else (case chunks of
                  [] \<Rightarrow> scan_output put crlf limit fin pending [] True w
                | c # cs \<Rightarrow>
                    (let free = limit - length pending in
                     scan_output put crlf limit fin (pending @ take free c)
                       (if drop free c = [] then cs else drop free c # cs) False w)))"
  by pat_completeness auto
termination
  by (relation "measures [\<lambda>(put, crlf, limit, fin, pending, chunks, eof, w). length pending + length (concat chunks),
      \<lambda>(put, crlf, limit, fin, pending, chunks, eof, w). length (concat chunks) + length chunks + (if eof then 0 else 1)]")
    (auto dest: split_advances split: if_splits)

declare scan_output.simps [simp del]

fun read_chunks :: "(string \<Rightarrow> 'w \<Rightarrow> cmd_error option \<times> 'w) \<Rightarrow> cmd_error option \<Rightarrow> string list \<Rightarrow> 'w \<Rightarrow> cmd_error option \<times> 'w" where
  "read_chunks put fin [] w = (fin, w)"
| "read_chunks put fin (c # cs) w =
     (if c = [] then read_chunks put fin cs w
      else (case put c w of (Some e, w) \<Rightarrow> (Some e, w) | (None, w) \<Rightarrow> read_chunks put fin cs w))"

definition read_output ::
  "'w exec_world \<Rightarrow> 'w exec_config \<Rightarrow> 'w cmd_sink option \<Rightarrow> cmd_stream \<Rightarrow> string list \<Rightarrow> cmd_error option \<Rightarrow> 'w \<Rightarrow> cmd_error option \<times> 'w" where
  "read_output x c sink st chunks fin w =
     (case sink of None \<Rightarrow> (None, w)
      | Some k \<Rightarrow>
          (case xf_split c of
             SplitChunk \<Rightarrow> read_chunks (emit_output x c k st) fin chunks w
           | SplitCRLF \<Rightarrow> scan_output (emit_output x c k st) True (scan_limit c) fin [] chunks False w
           | SplitLine \<Rightarrow> scan_output (emit_output x c k st) False (scan_limit c) fin [] chunks False w))"

section \<open>Sinks (sink.go, run.go)\<close>

definition cmd_sink_func :: "'w cmd_sink option \<Rightarrow> 'w cmd_sink" where
  "cmd_sink_func f e w = (case f of None \<Rightarrow> (None, w) | Some g \<Rightarrow> g e w)"

fun multi_sink :: "'w cmd_sink option list \<Rightarrow> 'w cmd_sink" where
  "multi_sink [] e w = (None, w)"
| "multi_sink (None # ks) e w = multi_sink ks e w"
| "multi_sink (Some k # ks) e w = (case k e w of (Some err, w) \<Rightarrow> (Some err, w) | (None, w) \<Rightarrow> multi_sink ks e w)"

definition writer_sink :: "('w \<Rightarrow> cmd_error option) \<Rightarrow> (string \<Rightarrow> 'w \<Rightarrow> cmd_error option \<times> 'w) option \<Rightarrow> 'w cmd_sink" where
  "writer_sink ctx writer e w =
     (case writer of None \<Rightarrow> (None, w)
      | Some put \<Rightarrow>
          (case ctx w of Some err \<Rightarrow> (Some err, w)
           | None \<Rightarrow> put (if ev_data e \<noteq> [] then ev_data e else ev_text e) w))"

record ring_sink =
  rg_limit :: nat
  rg_events :: "cmd_event list"

definition new_ring_sink :: "int \<Rightarrow> ring_sink" where
  "new_ring_sink n = \<lparr>rg_limit = nat n, rg_events = []\<rparr>"

definition ring_write :: "cmd_error option \<Rightarrow> cmd_event \<Rightarrow> ring_sink \<Rightarrow> cmd_error option \<times> ring_sink" where
  "ring_write cerr e s =
     (if rg_limit s = 0 then (None, s)
      else if cerr \<noteq> None then (cerr, s)
      else (let es = rg_events s @ [e] in
            (None, s\<lparr>rg_events := (if length es > rg_limit s then drop (length es - rg_limit s) es else es)\<rparr>)))"

record capture_sink =
  cp_limit :: int
  cp_size :: int
  cp_stdout :: string
  cp_stderr :: string
  cp_combined :: string

definition new_capture_sink :: "int \<Rightarrow> capture_sink" where
  "new_capture_sink n = \<lparr>cp_limit = n, cp_size = 0, cp_stdout = [], cp_stderr = [], cp_combined = []\<rparr>"

definition capture_write :: "cmd_error option \<Rightarrow> cmd_event \<Rightarrow> capture_sink \<Rightarrow> cmd_error option \<times> capture_sink" where
  "capture_write cerr e s =
     (if cerr \<noteq> None then (cerr, s)
      else (let size = cp_size s + int (length (ev_data e)) in
            if cp_limit s > 0 \<and> size > cp_limit s then (Some ErrOutputLimitExceeded, s)
            else
              (let s = s\<lparr>cp_size := size\<rparr>;
                   s = (case ev_stream e of StreamStderr \<Rightarrow> s\<lparr>cp_stderr := cp_stderr s @ ev_data e\<rparr>
                        | StreamStdout \<Rightarrow> s\<lparr>cp_stdout := cp_stdout s @ ev_data e\<rparr>) in
               (None, s\<lparr>cp_combined := cp_combined s @ ev_data e\<rparr>))))"

end
