(* ===== verification/Exec_Lines.thy ===== *)
theory Exec_Lines
  imports Exec_Output
begin

text \<open>
  What the sinks of a command see: the lines of its output, however the reads cut it; and what the ring and the
  capturing sink keep.
\<close>

section \<open>The lines of a text\<close>

definition cuts :: "bool \<Rightarrow> char \<Rightarrow> bool" where
  "cuts crlf c \<longleftrightarrow> (if crlf then is_line_end c else c = CHR 0x0A)"

definition finish_line :: "bool \<Rightarrow> string \<Rightarrow> string" where
  "finish_line crlf p = (if crlf then p else drop_cr p)"

text \<open>The pieces of a text between the bytes that satisfy a condition; always at least one.\<close>

fun pieces :: "(char \<Rightarrow> bool) \<Rightarrow> string \<Rightarrow> string list" where
  "pieces P [] = [[]]"
| "pieces P (c # s) = (if P c then [] # pieces P s else (case pieces P s of p # ps \<Rightarrow> (c # p) # ps))"

text \<open>
  Handing on the pieces: each is finished and put; the last only if it is not empty, as there is no line after the
  last line end; and a piece that reaches the limit ends it.
\<close>

fun hand_on ::
  "(string \<Rightarrow> 'w \<Rightarrow> cmd_error option \<times> 'w) \<Rightarrow> bool \<Rightarrow> nat \<Rightarrow> cmd_error option \<Rightarrow> string list \<Rightarrow> 'w \<Rightarrow> cmd_error option \<times> 'w" where
  "hand_on put crlf limit fin [] w = (fin, w)"
| "hand_on put crlf limit fin (p # ps) w =
     (if length p \<ge> limit then (Some ErrTooLong, w)
      else if ps = [] \<and> p = [] then (fin, w)
      else (case put (finish_line crlf p) w of
              (Some e, w) \<Rightarrow> (Some e, w)
            | (None, w) \<Rightarrow> hand_on put crlf limit fin ps w))"

lemma pieces_not_Nil [simp]: "pieces P s \<noteq> []"
  by (induction s) (auto split: list.splits)

lemma pieces_cut: "index_by P s = Some i \<Longrightarrow> pieces P (s @ t) = take i s # pieces P (drop (Suc i) s @ t)"
  by (induction s arbitrary: i) (auto split: if_splits)

lemma pieces_grow: "index_by P s = None \<Longrightarrow> pieces P (s @ t) = (s @ hd (pieces P t)) # tl (pieces P t)"
proof (induction s)
  case (Cons c s)
  then show ?case by (auto split: if_splits)
qed simp

lemma split_by_mode_exact:
  "split_by_mode crlf data eof =
    (case index_by (cuts crlf) data of
       Some i \<Rightarrow> Some (i + 1, finish_line crlf (take i data))
     | None \<Rightarrow> if eof \<and> data \<noteq> [] then Some (length data, finish_line crlf data) else None)"
proof -
  have "index_by (\<lambda>c. c = CHR 0x0A) data = index_by (cuts False) data" "index_by is_line_end data = index_by (cuts True) data"
    by (simp_all add: cuts_def [abs_def])
  then show ?thesis
    by (cases crlf) (auto simp: split_by_mode_def scan_crlf_def scan_lines_def finish_line_def split: option.splits)
qed

section \<open>Cutting does not depend on the reads\<close>

abbreviation next_token :: "bool \<Rightarrow> string \<Rightarrow> bool \<Rightarrow> (nat \<times> string) option" where
  "next_token crlf pending eof \<equiv> (if pending \<noteq> [] \<or> eof then split_by_mode crlf pending eof else None)"

lemma scan_token:
  "next_token crlf pending eof = Some (adv, tok) \<Longrightarrow>
    scan_output put crlf limit fin pending chunks eof w =
      (case put tok w of (Some e, w) \<Rightarrow> (Some e, w)
       | (None, w) \<Rightarrow> scan_output put crlf limit fin (drop adv pending) chunks eof w)"
  by (subst scan_output.simps) (simp only: option.case prod.case)

lemma scan_more:
  "next_token crlf pending eof = None \<Longrightarrow>
    scan_output put crlf limit fin pending chunks eof w =
      (if eof then (fin, w)
       else if length pending \<ge> limit then (Some ErrTooLong, w)
       else (case chunks of
               [] \<Rightarrow> scan_output put crlf limit fin pending [] True w
             | c # cs \<Rightarrow> scan_output put crlf limit fin (pending @ take (limit - length pending) c)
                 (if drop (limit - length pending) c = [] then cs else drop (limit - length pending) c # cs) False w))"
  by (subst scan_output.simps) (simp only: option.case Let_def)

lemma scan_output_pieces:
  assumes "0 < limit" "length pending \<le> limit" "eof \<Longrightarrow> chunks = [] \<and> length pending < limit"
  shows "scan_output put crlf limit fin pending chunks eof w =
    hand_on put crlf limit fin (pieces (cuts crlf) (pending @ concat chunks)) w"
  using assms
proof (induction put crlf limit fin pending chunks eof w rule: scan_output.induct)
  case (1 put crlf limit fin pending chunks eof w)
  let ?P = "cuts crlf"
  show ?case
  proof (cases "index_by ?P pending")
    case (Some i)
    then have i: "i < length pending" by (rule index_by_less)
    let ?tok = "finish_line crlf (take i pending)"
    have split: "(if pending \<noteq> [] \<or> eof then split_by_mode crlf pending eof else None) = Some (i + 1, ?tok)"
      using Some i by (auto simp: split_by_mode_exact)
    have first: "pieces ?P (pending @ concat chunks) = take i pending # pieces ?P (drop (Suc i) pending @ concat chunks)"
      by (rule pieces_cut [OF Some])
    obtain e w1 where run: "put ?tok w = (e, w1)" by (metis surj_pair)
    show ?thesis
    proof (cases e)
      case None
      have "scan_output put crlf limit fin (drop (i + 1) pending) chunks eof w1 =
          hand_on put crlf limit fin (pieces ?P (drop (i + 1) pending @ concat chunks)) w1"
        using "1.prems" i by (intro "1.IH"(3) [OF split refl run [symmetric] None]) auto
      with "1.prems" i run None show ?thesis by (simp add: scan_token [OF split] first)
    qed (use "1.prems" i run in \<open>simp add: scan_token [OF split] first\<close>)
  next
    case None
    show ?thesis
    proof (cases "eof \<and> pending \<noteq> []")
      case True
      let ?tok = "finish_line crlf pending"
      have split: "(if pending \<noteq> [] \<or> eof then split_by_mode crlf pending eof else None) = Some (length pending, ?tok)"
        using None True by (simp add: split_by_mode_exact)
      have all: "chunks = []" "length pending < limit" using "1.prems"(3) True by auto
      have only: "pieces ?P (pending @ concat chunks) = [pending]" using pieces_grow [OF None, of "[]"] all by simp
      obtain e w1 where run: "put ?tok w = (e, w1)" by (metis surj_pair)
      have rest: "scan_output put crlf limit fin [] [] True w1 = (fin, w1)"
        by (subst scan_more) (simp_all add: split_by_mode_exact)
      show ?thesis
        unfolding scan_token [OF split] only using True all run rest by (cases e) simp_all
    next
      case False
      have split: "(if pending \<noteq> [] \<or> eof then split_by_mode crlf pending eof else None) = None"
        using None False by (auto simp: split_by_mode_exact)
      show ?thesis
      proof (cases eof)
        case True
        with False have "pending = []" by simp
        with True "1.prems" show ?thesis unfolding scan_more [OF split] by simp
      next
        case no: False
        show ?thesis
        proof (cases "length pending \<ge> limit")
          case True
          with no "1.prems" show ?thesis
            unfolding scan_more [OF split] pieces_grow [OF None] by simp
        next
          case room: False
          show ?thesis
          proof (cases chunks)
            case Nil
            have "scan_output put crlf limit fin pending [] True w =
                hand_on put crlf limit fin (pieces ?P (pending @ concat [])) w"
              using "1.prems" room by (intro "1.IH"(1) [OF split no _ Nil]) auto
            with no room Nil show ?thesis unfolding scan_more [OF split] by simp
          next
            case (Cons c cs)
            let ?free = "limit - length pending"
            let ?rest = "if drop ?free c = [] then cs else drop ?free c # cs"
            have same: "(pending @ take ?free c) @ concat ?rest = pending @ concat chunks"
              using Cons append_take_drop_id [of ?free c] by auto
            have "scan_output put crlf limit fin (pending @ take ?free c) ?rest False w =
                hand_on put crlf limit fin (pieces ?P ((pending @ take ?free c) @ concat ?rest)) w"
              using "1.prems" room by (intro "1.IH"(2) [OF split no _ Cons refl]) auto
            with no room Cons show ?thesis unfolding same scan_more [OF split] by simp
          qed
        qed
      qed
    qed
  qed
qed

text \<open>
  The sink of a command sees the lines of its output, whatever chunks the reads return: the events carry the pieces
  between line ends, without the carriage return at the end of a line in the mode of lines, in order, up to the first
  piece as long as the limit of the scanner, the first error of the sink, or the end.
\<close>

theorem lines_do_not_depend_on_reads:
  assumes "xf_split c \<noteq> SplitChunk"
  shows "read_output x c (Some k) st chunks fin w =
    hand_on (emit_output x c k st) (xf_split c = SplitCRLF) (scan_limit c) fin
      (pieces (cuts (xf_split c = SplitCRLF)) (concat chunks)) w"
proof -
  have "0 < scan_limit c" by (simp add: scan_limit_def)
  then show ?thesis
    using assms scan_output_pieces [of "scan_limit c" "[]" False chunks]
    by (cases "xf_split c") (simp_all add: read_output_def)
qed

text \<open>In the mode that cuts at both, a line that ends with both gives an empty line more.\<close>

lemma crlf_gives_empty_lines: "pieces (cuts True) (CHR ''a'' # CHR 0x0D # CHR 0x0A # ''b'') = [''a'', [], ''b'']"
  by (simp add: cuts_def is_line_end_def)

section \<open>What the sinks keep\<close>

text \<open>The ring keeps the last events of those it was given.\<close>

lemma ring_keeps_last:
  "rg_events (fold (\<lambda>e s. snd (ring_write None e s)) es (new_ring_sink n)) = drop (length es - nat n) es \<and>
   rg_limit (fold (\<lambda>e s. snd (ring_write None e s)) es (new_ring_sink n)) = nat n"
proof (induction es rule: rev_induct)
  case (snoc e es)
  let ?s = "fold (\<lambda>e s. snd (ring_write None e s)) es (new_ring_sink n)"
  show ?case
  proof (cases "nat n = 0")
    case True
    with snoc show ?thesis by (simp add: ring_write_def)
  next
    case False
    have "length (rg_events ?s) = min (length es) (nat n)" using snoc by simp
    then show ?thesis
    proof (cases "length es < nat n")
      case True
      with snoc False show ?thesis by (simp add: ring_write_def Let_def)
    next
      case full: False
      then have "Suc (length es) - nat n = Suc (length es - nat n)" by simp
      with snoc False full show ?thesis
        by (simp add: ring_write_def Let_def Suc_diff_le drop_Suc tl_drop)
    qed
  qed
qed (simp add: new_ring_sink_def)

text \<open>The capturing sink keeps the data up to the first event that would exceed the limit, and never more than that.\<close>

definition captured :: "int \<Rightarrow> cmd_event list \<Rightarrow> capture_sink" where
  "captured n es = fold (\<lambda>e s. snd (capture_write None e s)) es (new_capture_sink n)"

lemma capture_is_bounded:
  "n > 0 \<Longrightarrow> int (length (cp_combined (captured n es))) \<le> n \<and>
    cp_size (captured n es) = int (length (cp_combined (captured n es))) \<and> cp_limit (captured n es) = n \<and>
    length (cp_combined (captured n es)) = length (cp_stdout (captured n es)) + length (cp_stderr (captured n es))"
proof (induction es rule: rev_induct)
  case (snoc e es)
  have step: "captured n (es @ [e]) = snd (capture_write None e (captured n es))" by (simp add: captured_def)
  from snoc show ?case unfolding step
    by (cases "ev_stream e") (auto simp: capture_write_def Let_def)
qed (simp add: captured_def new_capture_sink_def)

definition listing_exec :: "string list exec_config" where
  "listing_exec = default_exec_config"

definition listing_world :: "string list exec_world" where
  "listing_world = \<lparr>ew_ctx = (\<lambda>_. None), ew_now = (\<lambda>_. 0)\<rparr>"

theorem lines_do_not_depend_on_reads_witness:
  "read_output listing_world listing_exec (Some (\<lambda>e w. (None, w @ [ev_text e]))) StreamStdout
     [''a'', [CHR ''b'', CHR 0x0D], [CHR 0x0A, CHR ''c'']] None [] = (None, [''ab'', ''c''])"
proof -
  have mode: "xf_split listing_exec = SplitLine" by (simp add: listing_exec_def default_exec_config_def)
  have limit: "scan_limit listing_exec = 1048576" by (simp add: scan_limit_def listing_exec_def default_exec_config_def)
  have no: "xf_split listing_exec \<noteq> SplitChunk" by (simp add: mode)
  have put: "emit_output listing_world listing_exec k st d w =
      k \<lparr>ev_stream = st, ev_data = d, ev_text = d, ev_time = 0, ev_decode_err = None\<rparr> w" for k st d w
    by (simp add: emit_output_def listing_world_def listing_exec_def default_exec_config_def plain_decoder_def)
  show ?thesis
    unfolding lines_do_not_depend_on_reads [OF no] limit mode
    by (simp add: put cuts_def finish_line_def drop_cr_def)
qed

end
