(* ===== verification/Http_Request.thy ===== *)
theory Http_Request
  imports Go_Path Go_Text
begin

text \<open>
  The HTTP client, \<^verbatim>\<open>pkg/request\<close>: which answers are tried again and after which time (\<^verbatim>\<open>retry.go\<close>), one attempt with its
  hooks and the limit of the body, the loop over the attempts and the verdict on the last (\<^verbatim>\<open>client.go\<close>).

  Building a request from its URL, headers and body, sending it, decoding JSON and sleeping are functions over a world,
  as are the hooks; what the context says is read from the world.  A response is its status and its body.
\<close>

section \<open>Errors (error.go)\<close>

datatype http_error =
    ErrNilContext | ErrNilHTTPClient | ErrBodyTooLarge | ErrBodyNotReplayable | ErrBodyAlreadySet | ErrNilBody
  | CtxCanceled | CtxDeadlineExceeded | HttpText string
  | RequestErr string string http_error
  | StatusErr int
  | DecodeErr string
  | JoinedErr "http_error list"

text \<open>\<^verbatim>\<open>errors.Is\<close> for a sentinel.\<close>

fun http_is :: "http_error \<Rightarrow> http_error \<Rightarrow> bool" where
  "http_is (RequestErr m u e) t \<longleftrightarrow> http_is e t"
| "http_is (JoinedErr es) t \<longleftrightarrow> list_ex (\<lambda>e. http_is e t) es"
| "http_is e t \<longleftrightarrow> e = t"

definition join_http :: "http_error option \<Rightarrow> http_error option \<Rightarrow> http_error option" where
  "join_http a b = (case join_errs [a, b] of [] \<Rightarrow> None | es \<Rightarrow> Some (JoinedErr es))"

section \<open>Attempts that are repeated (retry.go)\<close>

record http_response =
  hs_status :: int
  hs_body :: string

record retry_config =
  rt_max_attempts :: int
  rt_wait_min :: int
  rt_wait_max :: int
  rt_methods :: "string list"
  rt_status_codes :: "int list"
  rt_retry_errors :: bool
  rt_should_retry :: "(int \<Rightarrow> http_response option \<Rightarrow> http_error option \<Rightarrow> bool) option"

definition default_retry_config :: retry_config where
  "default_retry_config = \<lparr>rt_max_attempts = 3, rt_wait_min = 100 * 10 ^ 6, rt_wait_max = 10 ^ 9,
     rt_methods = [''GET'', ''HEAD'', ''OPTIONS'', ''PUT'', ''DELETE''],
     rt_status_codes = [408, 425, 429, 500, 502, 503, 504], rt_retry_errors = True, rt_should_retry = None\<rparr>"

definition normalize_retry :: "retry_config \<Rightarrow> retry_config" where
  "normalize_retry c =
     (let c = (if rt_max_attempts c \<le> 0 then c\<lparr>rt_max_attempts := 1\<rparr> else c);
          c = (if rt_wait_min c < 0 then c\<lparr>rt_wait_min := 0\<rparr> else c) in
      if rt_wait_max c \<le> 0 \<or> rt_wait_max c < rt_wait_min c then c\<lparr>rt_wait_max := rt_wait_min c\<rparr> else c)"

fun method_allowed :: "string list \<Rightarrow> string \<Rightarrow> bool" where
  "method_allowed [] m = False"
| "method_allowed (x # xs) m = (if x = m then True else method_allowed xs m)"

fun status_allowed :: "int list \<Rightarrow> int \<Rightarrow> bool" where
  "status_allowed [] n = False"
| "status_allowed (x # xs) n = (if x = n then True else status_allowed xs n)"

definition should_retry ::
  "http_error option \<Rightarrow> retry_config \<Rightarrow> string \<Rightarrow> int \<Rightarrow> http_response option \<Rightarrow> http_error option \<Rightarrow> bool" where
  "should_retry cerr c method attempt resp err =
     (if attempt \<ge> rt_max_attempts c \<or> cerr \<noteq> None then False
      else (case rt_should_retry c of
              Some f \<Rightarrow> f attempt resp err
            | None \<Rightarrow>
                if \<not> method_allowed (rt_methods c) method then False
                else (case err of
                        Some e \<Rightarrow>
                          if http_is e CtxCanceled \<or> http_is e CtxDeadlineExceeded \<or> http_is e ErrBodyTooLarge \<or> http_is e ErrBodyNotReplayable
                          then False else rt_retry_errors c
                      | None \<Rightarrow> (case resp of None \<Rightarrow> False | Some r \<Rightarrow> status_allowed (rt_status_codes c) (hs_status r)))))"

text \<open>Sixty-four bit integers wrap around.\<close>

definition wrap64 :: "int \<Rightarrow> int" where
  "wrap64 n = (n + 2 ^ 63) mod 2 ^ 64 - 2 ^ 63"

fun wait_loop :: "retry_config \<Rightarrow> nat \<Rightarrow> int \<Rightarrow> int" where
  "wait_loop c 0 wait = wait"
| "wait_loop c (Suc n) wait =
     (let wait = wrap64 (wait * 2) in
      if rt_wait_max c > 0 \<and> wait \<ge> rt_wait_max c then rt_wait_max c else wait_loop c n wait)"

definition retry_wait :: "retry_config \<Rightarrow> int \<Rightarrow> int" where
  "retry_wait c attempt = (if rt_wait_min c \<le> 0 then 0 else wait_loop c (nat (attempt - 1)) (rt_wait_min c))"

section \<open>One attempt (client.go, hook.go)\<close>

record ('q, 'w) http_hook =
  hk_before :: "('q \<Rightarrow> 'w \<Rightarrow> http_error option \<times> 'w) option"
  hk_after :: "(http_response option \<Rightarrow> http_error option \<Rightarrow> 'w \<Rightarrow> http_error option \<times> 'w) option"

definition before_request :: "('q, 'w) http_hook \<Rightarrow> 'q \<Rightarrow> 'w \<Rightarrow> http_error option \<times> 'w" where
  "before_request h q w = (case hk_before h of None \<Rightarrow> (None, w) | Some f \<Rightarrow> f q w)"

definition after_response :: "('q, 'w) http_hook \<Rightarrow> http_response option \<Rightarrow> http_error option \<Rightarrow> 'w \<Rightarrow> http_error option \<times> 'w" where
  "after_response h r e w = (case hk_after h of None \<Rightarrow> (None, w) | Some f \<Rightarrow> f r e w)"

fun after_loop ::
  "('q, 'w) http_hook list \<Rightarrow> http_response option \<Rightarrow> http_error option \<Rightarrow> http_error option \<Rightarrow> 'w \<Rightarrow> http_error option \<times> 'w" where
  "after_loop [] r e herr w = (herr, w)"
| "after_loop (h # hs) r e herr w =
     (case after_response h r e w of (x, w) \<Rightarrow> after_loop hs r e (join_http herr x) w)"

definition run_after_hooks ::
  "('q, 'w) http_hook list \<Rightarrow> http_response option \<Rightarrow> http_error option \<Rightarrow> 'w \<Rightarrow> http_error option \<times> 'w" where
  "run_after_hooks hs r e w =
     (case after_loop hs r e None w of
        (Some herr, w) \<Rightarrow> (if e \<noteq> None then join_http e (Some herr) else Some herr, w)
      | (None, w) \<Rightarrow> (e, w))"

text \<open>The bytes of a body and the error after them, if there is one.\<close>

definition read_response_body :: "(string \<times> http_error option) option \<Rightarrow> int \<Rightarrow> string \<times> http_error option" where
  "read_response_body body limit =
     (case body of None \<Rightarrow> ([], None)
      | Some (data, e) \<Rightarrow>
          if limit \<le> 0 then (data, e)
          else
            (let got = take (nat (limit + 1)) data; gerr = (if int (length data) > limit then None else e) in
             if gerr \<noteq> None then (got, gerr)
             else if int (length got) > limit then (take (nat limit) got, Some ErrBodyTooLarge)
             else (got, None)))"

record raw_response =
  rw_status :: int
  rw_body :: "(string \<times> http_error option) option"

text \<open>A client: how a request is built and sent, where it goes in texts, what the context says, and how to wait.\<close>

record ('q, 'w) http_ports =
  hp_build :: "'w \<Rightarrow> (http_error + 'q) \<times> 'w"
  hp_send :: "'q \<Rightarrow> 'w \<Rightarrow> (http_error + raw_response) \<times> 'w"
  hp_url :: "'q \<Rightarrow> string"
  hp_ctx :: "'w \<Rightarrow> http_error option"
  hp_sleep :: "int \<Rightarrow> 'w \<Rightarrow> http_error option \<times> 'w"

fun before_loop :: "('q, 'w) http_hook list \<Rightarrow> 'q \<Rightarrow> 'w \<Rightarrow> http_error option \<times> 'w" where
  "before_loop [] q w = (None, w)"
| "before_loop (h # hs) q w = (case before_request h q w of (Some e, w) \<Rightarrow> (Some e, w) | (None, w) \<Rightarrow> before_loop hs q w)"

definition do_once ::
  "('q, 'w) http_ports \<Rightarrow> string \<Rightarrow> int \<Rightarrow> ('q, 'w) http_hook list \<Rightarrow> 'q \<Rightarrow> 'w \<Rightarrow>
   (http_response option \<times> http_error option) \<times> 'w" where
  "do_once p method limit hooks q w =
     (case before_loop hooks q w of
        (Some e, w) \<Rightarrow> ((None, Some (RequestErr method (hp_url p q) e)), w)
      | (None, w) \<Rightarrow>
          (case hp_send p q w of
             (Inl e, w) \<Rightarrow>
               (case run_after_hooks hooks None (Some (RequestErr method (hp_url p q) e)) w of (e, w) \<Rightarrow> ((None, e), w))
           | (Inr raw, w) \<Rightarrow>
               (let (body, rerr) = read_response_body (rw_body raw) limit;
                    resp = Some \<lparr>hs_status = rw_status raw, hs_body = body\<rparr>;
                    rerr = map_option (RequestErr method (hp_url p q)) rerr in
                case run_after_hooks hooks resp rerr w of (e, w) \<Rightarrow> ((resp, e), w))))"

section \<open>All attempts (client.go)\<close>

definition wait_retry :: "('q, 'w) http_ports \<Rightarrow> int \<Rightarrow> 'w \<Rightarrow> http_error option \<times> 'w" where
  "wait_retry p d w = (if d \<le> 0 then (None, w) else hp_sleep p d w)"

text \<open>
  The loop of \<^verbatim>\<open>Do\<close>; \<open>left\<close> is the number of attempts that are left, \<open>last\<close> the response and the error of the
  one before.
\<close>

fun attempt_loop ::
  "('q, 'w) http_ports \<Rightarrow> retry_config \<Rightarrow> string \<Rightarrow> string \<Rightarrow> ('q \<Rightarrow> 'w \<Rightarrow> (http_response option \<times> http_error option) \<times> 'w) \<Rightarrow>
   nat \<Rightarrow> int \<Rightarrow> http_response option \<times> http_error option \<Rightarrow> 'w \<Rightarrow> (http_response option \<times> http_error option) \<times> 'w" where
  "attempt_loop p c method url once 0 attempt prev w = (prev, w)"
| "attempt_loop p c method url once (Suc left) attempt prev w =
     (case hp_build p w of
        (Inl e, w) \<Rightarrow> ((fst prev, Some (RequestErr method url e)), w)
      | (Inr q, w) \<Rightarrow>
          (case once q w of
             ((resp, err), w) \<Rightarrow>
               if \<not> should_retry (hp_ctx p w) c method attempt resp err then ((resp, err), w)
               else (case wait_retry p (retry_wait c attempt) w of
                       (Some e, w) \<Rightarrow> ((resp, Some (RequestErr method (hp_url p q) e)), w)
                     | (None, w) \<Rightarrow> attempt_loop p c method url once left (attempt + 1) (resp, err) w)))"

record ('q, 'w) request_settings =
  rs_retry :: retry_config
  rs_status_ok :: "int \<Rightarrow> bool"
  rs_max_body :: int
  rs_hooks :: "('q, 'w) http_hook list"
  rs_decode :: "(string \<Rightarrow> http_error option) option"

definition default_status_ok :: "int \<Rightarrow> bool" where
  "default_status_ok n \<longleftrightarrow> n \<ge> 200 \<and> n \<le> 299"

definition do_request ::
  "('q, 'w) http_ports \<Rightarrow> ('q, 'w) request_settings \<Rightarrow> string \<Rightarrow> string \<Rightarrow> 'w \<Rightarrow> (http_response option \<times> http_error option) \<times> 'w" where
  "do_request p s method url w =
     (let c = normalize_retry (rs_retry s) in
      case attempt_loop p c method url (do_once p method (rs_max_body s) (rs_hooks s)) (nat (rt_max_attempts c)) 1 (None, None) w of
        ((resp, Some e), w) \<Rightarrow> ((resp, Some e), w)
      | ((None, None), w) \<Rightarrow> ((None, None), w)
      | ((Some r, None), w) \<Rightarrow>
          if \<not> rs_status_ok s (hs_status r) then ((Some r, Some (StatusErr (hs_status r))), w)
          else (case rs_decode s of None \<Rightarrow> ((Some r, None), w) | Some f \<Rightarrow> ((Some r, f (hs_body r)), w)))"

section \<open>Addresses (client.go)\<close>

definition trim_slashes_left :: "string \<Rightarrow> string" where
  "trim_slashes_left s = dropWhile (\<lambda>c. c = CHR ''/'') s"

definition join_url_path :: "string \<Rightarrow> string \<Rightarrow> string" where
  "join_url_path base target =
     (if base = [] then
        (if target = [] then []
         else if has_prefix target ''/'' then path_clean target
         else ''/'' @ path_clean target)
      else if target = [] then base
      else
        (let b = rev (trim_slashes_left (rev base)); t = trim_slashes_left target;
             joined = path_join [b, t] in
         if has_prefix base ''/'' then joined else ''/'' @ joined))"

definition merge_query :: "string \<Rightarrow> string \<Rightarrow> string" where
  "merge_query l r = (if l = [] then r else if r = [] then l else l @ ''&'' @ r)"

end
