(* ===== verification/Http_Retry.thy ===== *)
theory Http_Retry
  imports Http_Request
begin

text \<open>How often a request is sent, how long it is waited, and what a call without an error means.\<close>

section \<open>Waiting\<close>

lemma wait_loop_bounds:
  assumes "0 < wait" "wait \<le> rt_wait_max c" "rt_wait_max c < 2 ^ 62"
  shows "wait \<le> wait_loop c n wait \<and> wait_loop c n wait \<le> rt_wait_max c"
  using assms
proof (induction n arbitrary: wait)
  case (Suc n)
  have small: "wrap64 (wait * 2) = wait * 2" using Suc.prems by (simp add: wrap64_def mod_pos_pos_trivial)
  show ?case
  proof (cases "wait * 2 \<ge> rt_wait_max c")
    case True
    with Suc.prems small show ?thesis by (simp add: Let_def)
  next
    case False
    with Suc.prems have "wait * 2 \<le> wait_loop c n (wait * 2) \<and> wait_loop c n (wait * 2) \<le> rt_wait_max c"
      by (intro Suc.IH) auto
    with False Suc.prems small show ?thesis by (simp add: Let_def)
  qed
qed simp

text \<open>Waits lie between the two bounds of the configuration, up to 146 years.\<close>

lemma retry_wait_bounds:
  assumes "c = normalize_retry c0" "rt_wait_max c < 2 ^ 62"
  shows "rt_wait_min c \<le> retry_wait c n \<and> retry_wait c n \<le> rt_wait_max c"
proof -
  have "0 \<le> rt_wait_min c \<and> rt_wait_min c \<le> rt_wait_max c"
    by (auto simp: assms(1) normalize_retry_def Let_def)
  then show ?thesis
    using wait_loop_bounds [of "rt_wait_min c" c] assms(2) by (auto simp: retry_wait_def)
qed

section \<open>Sending\<close>

text \<open>A measure of the world that counts the requests sent and nothing else.\<close>

definition counts_sends :: "('q, 'w) http_ports \<Rightarrow> ('q, 'w) http_hook list \<Rightarrow> ('w \<Rightarrow> nat) \<Rightarrow> bool" where
  "counts_sends p hooks n \<longleftrightarrow>
     (\<forall>w. n (snd (hp_build p w)) = n w) \<and> (\<forall>q w. n (snd (hp_send p q w)) = n w + 1) \<and>
     (\<forall>d w. n (snd (hp_sleep p d w)) = n w) \<and>
     (\<forall>h \<in> set hooks. (\<forall>q w. n (snd (before_request h q w)) = n w) \<and> (\<forall>r e w. n (snd (after_response h r e w)) = n w))"

lemma counts_sendsD:
  assumes "counts_sends p hooks n"
  shows "hp_build p w = (x, w') \<Longrightarrow> n w' = n w" "hp_send p q w = (y, w') \<Longrightarrow> n w' = n w + 1"
    "hp_sleep p d w = (z, w') \<Longrightarrow> n w' = n w"
    "h \<in> set hooks \<Longrightarrow> before_request h q w = (z, w') \<Longrightarrow> n w' = n w"
    "h \<in> set hooks \<Longrightarrow> after_response h r e w = (z, w') \<Longrightarrow> n w' = n w"
  using assms unfolding counts_sends_def by (metis snd_conv)+

lemma before_loop_counts:
  assumes "counts_sends p hooks n" "set hs \<subseteq> set hooks" "before_loop hs q w = (e, w')"
  shows "n w' = n w"
  using assms(2,3)
proof (induction hs arbitrary: w)
  case (Cons h hs)
  obtain e1 w1 where run: "before_request h q w = (e1, w1)" by (metis surj_pair)
  with Cons counts_sendsD(4) [OF assms(1) _ run] show ?case by (cases e1) auto
qed simp

lemma after_loop_counts:
  assumes "counts_sends p hooks n" "set hs \<subseteq> set hooks" "after_loop hs r e he w = (x, w')"
  shows "n w' = n w"
  using assms(2,3)
proof (induction hs arbitrary: he w)
  case (Cons h hs)
  obtain e1 w1 where run: "after_response h r e w = (e1, w1)" by (metis surj_pair)
  with Cons counts_sendsD(5) [OF assms(1) _ run] show ?case by auto
qed simp

lemma after_hooks_count:
  assumes "counts_sends p hooks n" "run_after_hooks hooks r e w = (x, w')"
  shows "n w' = n w"
proof -
  obtain y w1 where run: "after_loop hooks r e None w = (y, w1)" by (metis surj_pair)
  from after_loop_counts [OF assms(1) subset_refl run] assms(2) run show ?thesis
    by (auto simp: run_after_hooks_def split: option.splits)
qed

lemma do_once_counts:
  assumes "counts_sends p hooks n" "do_once p method limit hooks q w = ((resp, err), w')"
  shows "n w' \<le> n w + 1 \<and> (err = None \<longrightarrow> resp \<noteq> None)"
proof -
  obtain e1 w1 where before: "before_loop hooks q w = (e1, w1)" by (metis surj_pair)
  note n1 = before_loop_counts [OF assms(1) subset_refl before]
  show ?thesis
  proof (cases e1)
    case None
    obtain x w2 where send: "hp_send p q w1 = (x, w2)" by (metis surj_pair)
    note n2 = counts_sendsD(2) [OF assms(1) send]
    show ?thesis
    proof (cases x)
      case (Inl e)
      obtain e3 w3 where run: "run_after_hooks hooks None (Some (RequestErr method (hp_url p q) e)) w2 = (e3, w3)" by (metis surj_pair)
      have "e3 \<noteq> None" using run
        by (auto simp: run_after_hooks_def join_http_def split: prod.splits option.splits list.splits)
      with assms(2) before None send Inl run n1 n2 after_hooks_count [OF assms(1) run] show ?thesis
        by (simp add: do_once_def)
    next
      case (Inr raw)
      obtain b re where body: "read_response_body (rw_body raw) limit = (b, re)" by (metis surj_pair)
      let ?resp = "Some \<lparr>hs_status = rw_status raw, hs_body = b\<rparr>"
      obtain e3 w3 where run: "run_after_hooks hooks ?resp (map_option (RequestErr method (hp_url p q)) re) w2 = (e3, w3)" by (metis surj_pair)
      from assms(2) before None send Inr body run n1 n2 after_hooks_count [OF assms(1) run] show ?thesis
        by (auto simp: do_once_def)
    qed
  qed (use assms(2) before n1 in \<open>auto simp: do_once_def\<close>)
qed

lemma attempt_loop_counts:
  assumes "counts_sends p hooks n" "once = do_once p method limit hooks"
    "attempt_loop p c method url once left attempt prev w = ((resp, err), w')"
  shows "n w' \<le> n w + (if rt_should_retry c \<noteq> None \<or> method \<in> set (rt_methods c) then left else min left 1) \<and>
    (left > 0 \<and> err = None \<longrightarrow> resp \<noteq> None)"
  using assms(3)
proof (induction left arbitrary: attempt prev w)
  case (Suc left)
  obtain b w1 where build: "hp_build p w = (b, w1)" by (metis surj_pair)
  note n1 = counts_sendsD(1) [OF assms(1) build]
  show ?case
  proof (cases b)
    case (Inl e)
    with Suc.prems build n1 show ?thesis by auto
  next
    case (Inr q)
    obtain resp1 err1 w2 where run: "once q w1 = ((resp1, err1), w2)" by (metis surj_pair)
    from do_once_counts [OF assms(1) run [unfolded assms(2)]]
    have n2: "n w2 \<le> n w + 1" "err1 = None \<longrightarrow> resp1 \<noteq> None" using n1 by auto
    have allowed: "method_allowed ms method \<longleftrightarrow> method \<in> set ms" for ms by (induction ms) auto
    let ?again = "should_retry (hp_ctx p w2) c method attempt resp1 err1"
    show ?thesis
    proof (cases ?again)
      case False
      with Suc.prems build Inr run n2 show ?thesis by auto
    next
      case True
      then have may: "rt_should_retry c \<noteq> None \<or> method \<in> set (rt_methods c)"
        by (auto simp: should_retry_def allowed split: option.splits if_splits)
      obtain e3 w3 where wait: "wait_retry p (retry_wait c attempt) w2 = (e3, w3)" by (metis surj_pair)
      have n3: "n w3 = n w2"
        using wait counts_sendsD(3) [OF assms(1)] by (auto simp: wait_retry_def split: if_splits)
      show ?thesis
      proof (cases e3)
        case None
        have rest: "attempt_loop p c method url once left (attempt + 1) (resp1, err1) w3 = ((resp, err), w')"
          using Suc.prems build Inr run True wait None by simp
        show ?thesis
        proof (cases left)
          case 0
          with rest n2 n3 may show ?thesis by auto
        next
          case (Suc m)
          with Suc.IH [OF rest] n2 n3 may show ?thesis by auto
        qed
      next
        case (Some e)
        with Suc.prems build Inr run True wait n2 n3 may show ?thesis by auto
      qed
    qed
  qed
qed auto

text \<open>
  A call sends the request at most as often as the configuration allows, at least once if that is not positive, and at
  most once for a method that is not listed as one to repeat, unless the caller decides about retries itself; and a
  call that returns no error returns a response with a status that is accepted.
\<close>

theorem requests_are_not_repeated_unduly:
  assumes "counts_sends p (rs_hooks s) n" "do_request p s method url w = ((resp, err), w')"
  shows "int (n w') \<le> int (n w) + max 1 (rt_max_attempts (rs_retry s)) \<and>
    (rt_should_retry (rs_retry s) = None \<and> method \<notin> set (rt_methods (rs_retry s)) \<longrightarrow> n w' \<le> n w + 1) \<and>
    (err = None \<longrightarrow> (\<exists>r. resp = Some r \<and> rs_status_ok s (hs_status r)))"
proof -
  let ?c = "normalize_retry (rs_retry s)" and ?once = "do_once p method (rs_max_body s) (rs_hooks s)"
  have c: "rt_max_attempts ?c = max 1 (rt_max_attempts (rs_retry s))" "rt_methods ?c = rt_methods (rs_retry s)"
    "rt_should_retry ?c = rt_should_retry (rs_retry s)"
    by (auto simp: normalize_retry_def Let_def)
  obtain r1 e1 w1 where run: "attempt_loop p ?c method url ?once (nat (rt_max_attempts ?c)) 1 (None, None) w = ((r1, e1), w1)"
    by (metis surj_pair)
  from attempt_loop_counts [OF assms(1) refl run]
  have n: "n w1 \<le> n w + (if rt_should_retry (rs_retry s) \<noteq> None \<or> method \<in> set (rt_methods (rs_retry s))
      then nat (rt_max_attempts ?c) else min (nat (rt_max_attempts ?c)) 1)" and some: "e1 = None \<longrightarrow> r1 \<noteq> None"
    by (simp_all add: c)
  have "w' = w1 \<and> (err = None \<longrightarrow> (\<exists>r. resp = Some r \<and> rs_status_ok s (hs_status r)))"
  proof (cases e1)
    case (Some e)
    with assms(2) run show ?thesis by (cases r1) (auto simp: do_request_def)
  next
    case None
    with some obtain r where r1: "r1 = Some r" by blast
    show ?thesis
    proof (cases "rs_status_ok s (hs_status r)")
      case True
      with assms(2) run None r1 show ?thesis by (cases "rs_decode s") (auto simp: do_request_def)
    next
      case False
      with assms(2) run None r1 show ?thesis by (auto simp: do_request_def)
    qed
  qed
  with n show ?thesis by (auto simp: c split: if_splits)
qed

text \<open>A client whose server is busy for its first two answers, and counts the requests.\<close>

definition busy_ports :: "(unit, nat) http_ports" where
  "busy_ports = \<lparr>hp_build = (\<lambda>n. (Inr (), n)),
     hp_send = (\<lambda>_ n. (Inr \<lparr>rw_status = (if n < 2 then 503 else 200), rw_body = Some (''ok'', None)\<rparr>, Suc n)),
     hp_url = (\<lambda>_. ''u''), hp_ctx = (\<lambda>_. None), hp_sleep = (\<lambda>_ n. (None, n))\<rparr>"

definition busy_settings :: "(unit, nat) request_settings" where
  "busy_settings = \<lparr>rs_retry = default_retry_config, rs_status_ok = default_status_ok, rs_max_body = 10, rs_hooks = [],
     rs_decode = None\<rparr>"

theorem requests_are_not_repeated_unduly_witness:
  "do_request busy_ports busy_settings ''GET'' ''u'' 0 = ((Some \<lparr>hs_status = 200, hs_body = ''ok''\<rparr>, None), 3) \<and>
   (\<exists>r n'. do_request busy_ports busy_settings ''POST'' ''u'' 0 = ((r, Some (StatusErr 503)), n') \<and> n' \<le> 1)"
proof
  show "do_request busy_ports busy_settings ''GET'' ''u'' 0 = ((Some \<lparr>hs_status = 200, hs_body = ''ok''\<rparr>, None), 3)"
    by code_simp
  have count: "counts_sends busy_ports (rs_hooks busy_settings) id"
    by (simp add: counts_sends_def busy_ports_def busy_settings_def)
  obtain r e n' where run: "do_request busy_ports busy_settings ''POST'' ''u'' 0 = ((r, e), n')" by (metis surj_pair)
  have "snd (fst (do_request busy_ports busy_settings ''POST'' ''u'' 0)) = Some (StatusErr 503)" by code_simp
  with run have "e = Some (StatusErr 503)" by simp
  with run requests_are_not_repeated_unduly [OF count run]
  show "\<exists>r n'. do_request busy_ports busy_settings ''POST'' ''u'' 0 = ((r, Some (StatusErr 503)), n') \<and> n' \<le> 1"
    by (intro exI [of _ r] exI [of _ n']) (simp add: busy_settings_def default_retry_config_def)
qed

text \<open>A body that can be read once: the second attempt fails to build, and its error hides the answer of the first.\<close>

lemma second_body_hides_first_answer:
  assumes "hp_build p w = (Inr q, w1)" "once q w1 = ((Some r, None), w2)" "should_retry (hp_ctx p w2) c method 1 (Some r) None"
    "wait_retry p (retry_wait c 1) w2 = (None, w3)" "hp_build p w3 = (Inl ErrBodyNotReplayable, w4)"
  shows "attempt_loop p c method url once (Suc (Suc n)) 1 (None, None) w =
    ((Some r, Some (RequestErr method url ErrBodyNotReplayable)), w4)"
  using assms by simp

end
