(* ===== verification/Spec2Isabelle.thy ===== *)
theory Spec2Isabelle
  imports
    Pay_Default Pay_Routes Pay_Adapters Runtime_Service Rate_Limit Queue_Execution
    Queue_Resources Queue_Records Realtime_Publisher Realtime_Router Crontab_Scheduler
    Risk_Verdicts Risk_Recent Queue_Control Storage_Local Report_History Auth_Verdicts
    Sms_Manager Mail_Manager Exec_Lines Http_Retry
begin

text \<open>
  A verification development for sdkit, a Go kit of runtime, payment, queue and rate-limit services.

  \<^bold>\<open>Parts of the program and how they meet.\<close>  An application (\<^verbatim>\<open>core/runtime\<close>) owns a registry of
  capabilities, providers, commands, adapters and plugins; it sorts capabilities by their
  dependencies, selects the providers a run needs, drives register, start, wait and stop over
  them, and shuts down what it brought up.  Services are providers built from definitions, each
  with a registry of local capabilities.  The other components are capabilities such an
  application carries: payments (\<^verbatim>\<open>core/payment\<close>: requests are priced, checked and routed to an
  adapter of a payment provider, notifications are verified and merged), the task queue
  (\<^verbatim>\<open>core/queue\<close>: tasks are recorded, handed to a broker, executed under a chain of middlewares, and
  their runs recorded), rate limiting (\<^verbatim>\<open>pkg/ratelimit\<close>, used around handlers and queue tasks),
  scheduled jobs (\<^verbatim>\<open>core/crontab\<close>: templates are registered, jobs loaded, scheduled and dispatched under a
  distributed lock, their runs recorded), realtime connections (\<^verbatim>\<open>pkg/realtime\<close>), and the trace context that ties a request to the tasks it
  enqueues (\<^verbatim>\<open>core/tracecontext\<close>).

  \<^bold>\<open>Theories.\<close>
  \<^item> \<open>Prelude\<close>: results of fallible calls (\<open>'e + 'a\<close>), \<open>bindR\<close>, Go's \<open>strings\<close> functions on
    character lists, and the lemmas on lists and maps the components share.
  \<^item> \<open>Keyed_Registry\<close>: the locale of a registry that refuses a second object under one name;
    interpreted on payment adapters and channel bindings (\<open>Pay_Service\<close>) and on the capabilities
    and providers of an application (\<open>Runtime_Registry\<close>).
  \<^item> \<open>Pay_Types\<close> (\<^verbatim>\<open>errors, types, settlement, request, provider_exchange\<close>), \<open>Pay_State\<close>
    (\<^verbatim>\<open>state, settlement_merge, receipt\<close>), \<open>Pay_Pricing\<close> (\<^verbatim>\<open>currency, pricing\<close>), \<open>Pay_Service\<close>
    (\<^verbatim>\<open>registry, channel_selector, validation, service\<close>): \<^verbatim>\<open>core/payment\<close>.  The state of the service
    is the record of its adapters and selector; an adapter is a record of functions over a world.
  \<^item> \<open>Runtime_Types\<close>, \<open>Runtime_Registry\<close> (\<^verbatim>\<open>registry\<close>), \<open>Runtime_Dependency\<close> (\<^verbatim>\<open>dependency\<close>),
    \<open>Runtime_App\<close> (\<^verbatim>\<open>app, container, status, provider_capability\<close>), \<open>Runtime_Lifecycle\<close> (\<^verbatim>\<open>lifecycle,
    execute, default_command\<close>), \<open>Runtime_Local\<close> (\<^verbatim>\<open>local_capability, service_context\<close>),
    \<open>Runtime_Service\<close> (\<^verbatim>\<open>service, service_provider, service_bootstrap, service_runner\<close>):
    \<^verbatim>\<open>core/runtime\<close>.  \<open>'w app\<close> is the \<^verbatim>\<open>App\<close> struct, with a world \<open>'w\<close> its callbacks change.
  \<^item> \<open>Queue_Types\<close> (\<^verbatim>\<open>error, state, task, retry\<close>), \<open>Queue_Options\<close> (\<^verbatim>\<open>option\<close>), \<open>Queue_Middleware\<close>
    (\<^verbatim>\<open>middleware_stage, runtime/middleware\<close>), \<open>Queue_Dispatch\<close> (\<^verbatim>\<open>dispatcher, orchestrator, queue\<close>),
    \<open>Queue_Store\<close> (\<^verbatim>\<open>task_store, runtime_instance\<close>), and what is proved of them:
    \<open>Queue_Execution\<close>, \<open>Queue_Resources\<close>, \<open>Queue_Records\<close>: \<^verbatim>\<open>core/queue\<close>.
  \<^item> \<open>Trace_Context\<close>: \<^verbatim>\<open>core/tracecontext\<close>.
  \<^item> \<open>Event_Bus\<close>: \<^verbatim>\<open>core/eventbus\<close> and the in-memory bus of \<^verbatim>\<open>pkg/eventbus/memory\<close>; its handlers are
    functions on the bus, since they run without its lock.
  \<^item> \<open>Realtime_Types\<close> (\<^verbatim>\<open>core/realtime\<close>: identities, events, clients, in an explicit heap),
    \<open>Realtime_Store\<close> (\<^verbatim>\<open>pkg/realtime/memory/registry\<close>) with \<open>Realtime_Presence\<close> (its abstract view,
    invariant and refinement), \<open>Realtime_Gateway\<close> (\<^verbatim>\<open>gateway/dispatcher\<close>, over the locale
    \<open>client_registry\<close> interpreted on the store), \<open>Realtime_Action\<close> (\<^verbatim>\<open>action\<close>, \<^verbatim>\<open>gateway/pipeline\<close>),
    \<open>Realtime_Router\<close> (\<^verbatim>\<open>gateway/router, runtime\<close>), \<open>Realtime_Publisher\<close>
    (\<^verbatim>\<open>publisher/eventbus\<close>, and the way from a publisher over the bus to the connections).
  \<^item> \<open>Crontab_Types\<close> (\<^verbatim>\<open>types, errors, job, entry, config, template\<close>), \<open>Crontab_Registry\<close> (\<^verbatim>\<open>registry,
    memory_store, loader\<close>), \<open>Crontab_Logging\<close> (\<^verbatim>\<open>stream, job_logger, batch_logger\<close>), \<open>Crontab_State\<close> (the runtime
    state of \<^verbatim>\<open>runtime\<close>, its invariant, the world of a run), \<open>Crontab_Runtime\<close> (\<^verbatim>\<open>runtime, run_context,
    runner, lifecycle, observability\<close>) with \<open>Crontab_Runs\<close> (what a dispatch does), \<open>Crontab_Manager\<close>
    (\<^verbatim>\<open>manager\<close>) with \<open>Crontab_Jobs\<close> (what it loads and runs), \<open>Crontab_Scheduler\<close>
    (\<^verbatim>\<open>robfigcron/scheduler\<close>): \<^verbatim>\<open>core/crontab\<close>.  A handler is a program of log calls, reads of the context
    and effects that ends in a result, an error or a panic; the world keeps a trace of the calls on
    the lock, the stores and the failure handlers.
  \<^item> \<open>Rate_Limit\<close>: \<^verbatim>\<open>pkg/ratelimit\<close> (memory store, five strategies, per-key wrapper).

  \<^bold>\<open>How the code is translated.\<close>  Structs are records, string enumerations datatypes, Go maps
  partial functions (where the iteration order can be seen, the order is an argument), slices
  lists, pointers that may be nil options, and errors a datatype with the sentinels as
  constructors.  What an interface value does is a record of functions over a world, arbitrary in
  the theorems; clocks are arguments, in nanoseconds.  Integers are \<open>int\<close>; where the code checks
  for an overflow of \<open>int64\<close> (amounts of money) the check is modelled.  A method under a mutex is
  one step.  A callback that panics is an outcome of its own where the code recovers or defers.

  \<^bold>\<open>What is shown.\<close>
  \<^item> Payments: no provider is called before every check passed, and then once; pricing is exact
    rational arithmetic rounded half up; the decimal parser accepts exactly the documented syntax;
    a payment whose money arrived never leaves the received statuses; settlements are merged
    coherently; a notification is bound to the route it came by.
  \<^item> Runtime: the dependency sort succeeds exactly on well-formed acyclic graphs and puts
    dependencies first; provider selection is the exact dependency closure; every complete run
    starts and stops each provider and capability in balance, whatever fails; Stop is final.
  \<^item> Queue: an executed task ends in exactly one settled state with exactly one terminal event; a
    task is recorded before it reaches the broker, and its fate afterwards; requeueing keeps the
    record; locks and slots are released also under panics; middlewares run in stage order.
  \<^item> Realtime: the connection store refines the abstract view of who is online and in which room,
    its indexes agree in every reachable state as long as callers leave stored identities alone, an
    event reaches exactly its audience, a compiled chain of handlers always returns and equals the
    nest of its middlewares when each calls \<open>next\<close> at most once.
  \<^item> Event bus: a live subscription hears each event once, a closed one never again, whatever
    handlers do to the bus.
  \<^item> Crontab: a dispatch takes its lock before it records the start and enters the handler, gives it
    up once, and is counted once, whatever the handler does; a job is refused for exactly the stated
    reasons; the jobs loaded and scheduled are exactly the enabled ones that validate; a log
    subscription receives what is published while it is open, and a batch loses no log unseen.
  \<^item> Rate limits: the windows admit no more than their limit, the leaky bucket no more than its rate,
    BBR counts the requests in flight exactly.

  \<^bold>\<open>Termination.\<close>  Every loop is total but two.  \<open>kahn\<close> terminates because the degrees still to be
  counted down and the length of the queue together shrink with each step, \<open>visit\<close> because the set of registered providers not yet visited shrinks along each
  branch, and \<open>strip_front\<close> because it removes a non-empty prefix.  The waiting loops of the lifecycle consume a list of
  events; a run whose events end before the loop is left has no result, which the statements say.
  The walk from a router to its root (\<open>root_router\<close>, \<open>all_middleware\<close>) is a partial function, shown to
  end in every arena the operations build.  \<open>action_next\<close> takes the depth of nested calls of \<open>Next\<close>
  as fuel; one more than the length of the chain is always enough (\<open>run_handlers_returns\<close>).
  A handler of a job is cut at the number of its steps that fit before its deadline: the deadline is
  the \<open>select\<close> of the code, not a bound of the model.

  \<^bold>\<open>Not modelled, and why.\<close>  Drivers and clients of external services (asynq, NATS, redis, S3,
  payment APIs, mail, SMS), HTTP and gin integration, cryptography, JSON, configuration files,
  logging, metrics and tracing output: input and output or third-party libraries.  Races between
  two critical sections of one operation (\<^verbatim>\<open>pkg/ratelimit/limiter.go\<close>), goroutine scheduling beyond
  the events named above, and the rounding of \<open>float64\<close> are abstracted.  In the crontab the spans, the process
  log, panics of its collaborators (locker, stores, loggers) and the clock of the cron library are left
  out, and of the goroutine that refreshes a lock its start and stop are recorded.  Planned next: payouts, the memory cache, risk counters.
\<close>

end
